(* ===== verification/Prelude.thy ===== *)
theory Prelude
  imports Main "HOL-Library.Word" "HOL-Library.List_Lexorder" "HOL-Library.AList"
begin

text \<open>
  Shared vocabulary of the development.

  \<^item> A TypeScript function that may throw is a function into \<open>'e + 'a\<close>: \<open>Inl\<close> is the
    exception that leaves the function, \<open>Inr\<close> the returned value. \<open>bindE\<close> sequences two such
    computations, \<open>guardE\<close> is \<open>if (!condition) throw error\<close>, \<open>catchE\<close> is \<open>try/catch\<close> and
    \<open>mapE\<close> is \<open>Array.map\<close> with a throwing callback.
  \<^item> A JavaScript string is a list of UTF-16 code units (\<open>jstr\<close>), a string literal of the source
    is \<open>js ''...''\<close>; \<open>wf_jstr\<close> says that every unit fits in 16 bits.
  \<^item> A plain-data record used as a dictionary is an association list in insertion order
    (\<open>'v jsobj\<close>), read with \<open>ownValue\<close> and written with \<open>setOwn\<close>, the meaning of
    \<open>{...record, [key]: value}\<close>.
  \<^item> The collection \<open>result_simps\<close> holds the inversion rules for \<open>bindE\<close> and its companions; the
    component proofs unfold their definitions and simplify with it.
\<close>

named_theorems result_simps \<open>inversion rules of the exception monad\<close>
named_theorems js_eval \<open>definitions unfolded to evaluate literals and small helpers\<close>

section \<open>Computations that may throw\<close>

definition bindE :: "'e + 'a \<Rightarrow> ('a \<Rightarrow> 'e + 'b) \<Rightarrow> 'e + 'b" where
  "bindE m f = (case m of Inl e \<Rightarrow> Inl e | Inr x \<Rightarrow> f x)"

definition guardE :: "bool \<Rightarrow> 'e \<Rightarrow> 'e + unit" where
  "guardE b e = (if b then Inr () else Inl e)"

definition catchE :: "'e + 'a \<Rightarrow> ('e \<Rightarrow> 'f) \<Rightarrow> 'f + 'a" where
  "catchE m h = (case m of Inl e \<Rightarrow> Inl (h e) | Inr x \<Rightarrow> Inr x)"

definition is_ok :: "'e + 'a \<Rightarrow> bool" where
  "is_ok m = (case m of Inl _ \<Rightarrow> False | Inr _ \<Rightarrow> True)"

fun mapE :: "('a \<Rightarrow> 'e + 'b) \<Rightarrow> 'a list \<Rightarrow> 'e + 'b list" where
  "mapE f [] = Inr []"
| "mapE f (x # xs) = bindE (f x) (\<lambda>y. bindE (mapE f xs) (\<lambda>ys. Inr (y # ys)))"

lemma bindE_simps [simp]:
  "bindE (Inl e) f = Inl e"
  "bindE (Inr x) f = f x"
  by (simp_all add: bindE_def)

lemma guardE_simps [simp]:
  "guardE True e = Inr ()"
  "guardE False e = Inl e"
  by (simp_all add: guardE_def)

lemma catchE_simps [simp]:
  "catchE (Inl e) h = Inl (h e)"
  "catchE (Inr x) h = Inr x"
  by (simp_all add: catchE_def)

lemma is_ok_simps [simp]:
  "is_ok (Inl e) = False"
  "is_ok (Inr x) = True"
  by (simp_all add: is_ok_def)

lemma bindE_eq_Inr [result_simps]:
  "bindE m f = Inr y \<longleftrightarrow> (\<exists>x. m = Inr x \<and> f x = Inr y)"
  by (cases m) auto

lemma bindE_eq_Inl:
  "bindE m f = Inl e \<longleftrightarrow> m = Inl e \<or> (\<exists>x. m = Inr x \<and> f x = Inl e)"
  by (cases m) auto

lemma guardE_eq_Inr [result_simps]: "guardE b e = Inr u \<longleftrightarrow> b"
  by (cases b) auto

lemma guardE_eq_Inl: "guardE b e = Inl e' \<longleftrightarrow> \<not> b \<and> e' = e"
  by (cases b) auto

lemma catchE_eq_Inr [result_simps]: "catchE m h = Inr x \<longleftrightarrow> m = Inr x"
  by (cases m) auto

lemma is_ok_iff: "is_ok m \<longleftrightarrow> (\<exists>x. m = Inr x)"
  by (cases m) auto

lemma bindE_guardE: "bindE (guardE b e) f = (if b then f () else Inl e)"
  by simp

lemma bindE_assoc: "bindE (bindE m f) g = bindE m (\<lambda>x. bindE (f x) g)"
  by (cases m) auto

lemma mapE_eq_Inr: "mapE f xs = Inr ys \<longleftrightarrow> list_all2 (\<lambda>x y. f x = Inr y) xs ys"
proof (induction xs arbitrary: ys)
  case Nil
  show ?case by auto
next
  case (Cons x xs)
  show ?case by (cases ys) (auto simp: bindE_eq_Inr Cons.IH)
qed

lemma mapE_map_Inr: "(\<And>x. x \<in> set xs \<Longrightarrow> f (g x) = Inr x) \<Longrightarrow> mapE f (map g xs) = Inr xs"
  by (induction xs) auto

lemma mapE_length: "mapE f xs = Inr ys \<Longrightarrow> length ys = length xs"
  by (auto simp: mapE_eq_Inr dest: list_all2_lengthD)

section \<open>JavaScript strings and dictionaries\<close>

type_synonym jstr = "nat list"
type_synonym 'v jsobj = "(jstr \<times> 'v) list"
type_synonym byte = "8 word"

definition js :: "string \<Rightarrow> jstr" where
  [js_eval]: "js s = map of_char s"

definition wf_jstr :: "jstr \<Rightarrow> bool" where
  "wf_jstr s = list_all (\<lambda>u. u < 0x10000) s"

text \<open>Storing a number in a \<open>Uint8Array\<close> keeps its low eight bits.\<close>

definition toByte :: "nat \<Rightarrow> byte" where
  "toByte n = of_nat n"

definition ownValue :: "'v jsobj \<Rightarrow> jstr \<Rightarrow> 'v option" where
  "ownValue r k = map_of r k"

definition hasOwn :: "'v jsobj \<Rightarrow> jstr \<Rightarrow> bool" where
  "hasOwn r k = (ownValue r k \<noteq> None)"

definition setOwn :: "'v jsobj \<Rightarrow> jstr \<Rightarrow> 'v \<Rightarrow> 'v jsobj" where
  "setOwn r k v = AList.update k v r"

lemma js_Nil [simp]: "js [] = []"
  and js_append: "js (s @ t) = js s @ js t"
  and length_js [simp]: "length (js s) = length s"
  by (simp_all add: js_def)

lemma wf_jstr_simps [simp]:
  "wf_jstr []"
  "wf_jstr (u # s) \<longleftrightarrow> u < 0x10000 \<and> wf_jstr s"
  "wf_jstr (s @ t) \<longleftrightarrow> wf_jstr s \<and> wf_jstr t"
  by (simp_all add: wf_jstr_def)

lemma js_inj: "js s = js t \<longleftrightarrow> s = t"
proof -
  have "inj (of_char :: char \<Rightarrow> nat)"
    by (rule injI) simp
  then show ?thesis
    by (simp add: js_def)
qed

lemma unat_less_256 [simp]: "unat (b :: byte) < 256"
  using unsigned_less [of b, where ?'a = nat] by simp

lemma unat_toByte [simp]: "n < 256 \<Longrightarrow> unat (toByte n) = n"
  by (simp add: toByte_def unat_of_nat take_bit_nat_eq_self)

lemma toByte_unat [simp]: "toByte (unat b) = b"
  by (simp add: toByte_def)

lemma toByte_eqI: "n = unat b \<Longrightarrow> toByte n = b"
  by simp

lemma ownValue_empty [simp]: "ownValue [] k = None"
  by (simp add: ownValue_def)

lemma ownValue_setOwn [simp]:
  "ownValue (setOwn r k v) k' = (if k' = k then Some v else ownValue r k')"
  by (simp add: ownValue_def setOwn_def update_conv')

lemma hasOwn_setOwn [simp]: "hasOwn (setOwn r k v) k' \<longleftrightarrow> k' = k \<or> hasOwn r k'"
  by (simp add: hasOwn_def)

lemma distinct_keys_setOwn [simp]:
  "distinct (map fst r) \<Longrightarrow> distinct (map fst (setOwn r k v))"
  by (simp add: setOwn_def distinct_update)

lemma ownValue_Some_in_set: "ownValue r k = Some v \<Longrightarrow> (k, v) \<in> set r"
  by (simp add: ownValue_def map_of_SomeD)

lemma ownValue_mapVal:
  "ownValue (map (\<lambda>(k, v). (k, f k v)) r) k = map_option (f k) (ownValue r k)"
  by (induction r) (auto simp: ownValue_def)

section \<open>Encoders with partial decoders\<close>

text \<open>
  The contract shared by every codec of the program: an encoder that accepts the values of \<open>dom\<close>
  and a decoder that rejects everything the encoder cannot have produced. Both directions
  together make decoding the exact inverse of encoding, so equal encodings mean equal values and
  no two byte strings decode to the same value.
\<close>

locale strict_codec =
  fixes enc :: "'a \<Rightarrow> 'b"
    and dec :: "'b \<Rightarrow> 'e + 'a"
    and dom :: "'a \<Rightarrow> bool"
  assumes dec_enc: "dom x \<Longrightarrow> dec (enc x) = Inr x"
    and enc_dec: "dec y = Inr x \<Longrightarrow> dom x \<and> enc x = y"
begin

lemma enc_inj: "dom x \<Longrightarrow> dom x' \<Longrightarrow> enc x = enc x' \<Longrightarrow> x = x'"
  by (metis dec_enc sum.inject(2))

lemma dec_inj: "dec y = Inr x \<Longrightarrow> dec y' = Inr x \<Longrightarrow> y = y'"
  by (metis enc_dec)

lemma dec_iff: "dec y = Inr x \<longleftrightarrow> dom x \<and> enc x = y"
  using dec_enc enc_dec by blast

lemma dec_rejects: "(\<nexists>x. dom x \<and> enc x = y) \<Longrightarrow> \<exists>e. dec y = Inl e"
  by (cases "dec y") (auto dest: enc_dec)

end

end
