(* ===== verification/JsValue.thy ===== *)
theory JsValue
  imports Prelude
begin

text \<open>
  The JavaScript values the validators receive, and the pieces of the language's standard library
  they call: \<open>Number.isSafeInteger\<close>, decimal rendering of integers, property lookup and the
  regular expressions of \<open>intent-contract.ts\<close>.

  A number is an integer-valued double (\<open>JInt\<close>), negative zero (\<open>JNegZero\<close>) or any other double
  (\<open>JFrac\<close>: not integral, infinite or NaN), which is all the sources distinguish. \<open>JOther\<close> is a
  function, symbol or bigint. Arrays and objects carry a \<open>shape\<close> that records how they differ from
  plain data (a foreign prototype, symbol keys, hidden or extra fields); plain data has
  \<open>plain_shape\<close>. \<open>JAccessor\<close> stands in the place of an element or field whose property descriptor
  holds no enumerable value. A value is a finite tree,
  so the cycle check of \<open>serializeCanonical\<close> never fires on it.
\<close>

section \<open>Values\<close>

datatype jnum = JInt int | JNegZero | JFrac

record shape =
  foreignPrototype :: bool
  symbolKeys :: bool
  hiddenFields :: bool

definition plain_shape :: shape where
  "plain_shape = \<lparr>foreignPrototype = False, symbolKeys = False, hiddenFields = False\<rparr>"

datatype jsval =
    JUndefined
  | JNull
  | JBool bool
  | JNum jnum
  | JStr jstr
  | JOther
  | JAccessor
  | JArr shape "jsval list"
  | JObj shape "(jstr \<times> jsval) list"

abbreviation jarr :: "jsval list \<Rightarrow> jsval" where
  "jarr xs \<equiv> JArr plain_shape xs"

abbreviation jobj :: "(jstr \<times> jsval) list \<Rightarrow> jsval" where
  "jobj fs \<equiv> JObj plain_shape fs"

abbreviation jint :: "int \<Rightarrow> jsval" where
  "jint i \<equiv> JNum (JInt i)"

lemma plain_shape_simps [simp]:
  "foreignPrototype plain_shape = False"
  "symbolKeys plain_shape = False"
  "hiddenFields plain_shape = False"
  by (simp_all add: plain_shape_def)

lemma plain_shape_eqI:
  "\<not> foreignPrototype sh \<Longrightarrow> \<not> symbolKeys sh \<Longrightarrow> \<not> hiddenFields sh \<Longrightarrow> sh = plain_shape"
  by (cases sh) (simp add: plain_shape_def)

text \<open>The exceptions thrown by the contracts package; \<open>error_message\<close> is \<open>error.message\<close>.\<close>

datatype contract_error =
    CanonicalJsonError (error_message: jstr)
  | IntentContractValidationError (error_message: jstr)

text \<open>An absent property reads as \<open>undefined\<close>.\<close>

definition getProp :: "(jstr \<times> jsval) list \<Rightarrow> string \<Rightarrow> jsval" where
  "getProp fs k = (case map_of fs (js k) of None \<Rightarrow> JUndefined | Some v \<Rightarrow> v)"

section \<open>Numbers\<close>

definition MAX_SAFE_INTEGER :: int where
  "MAX_SAFE_INTEGER = 2 ^ 53 - 1"

definition safe_int :: "int \<Rightarrow> bool" where
  "safe_int i = (\<bar>i\<bar> \<le> MAX_SAFE_INTEGER)"

fun isSafeInteger :: "jnum \<Rightarrow> bool" where
  "isSafeInteger (JInt i) = safe_int i"
| "isSafeInteger JNegZero = True"
| "isSafeInteger JFrac = False"

fun decDigits :: "nat \<Rightarrow> jstr" where
  "decDigits n = (if n < 10 then [48 + n] else decDigits (n div 10) @ [48 + n mod 10])"

declare decDigits.simps [simp del]

definition decInt :: "int \<Rightarrow> jstr" where
  "decInt i = (if i < 0 then 45 # decDigits (nat (- i)) else decDigits (nat i))"

lemma decDigits_nonempty [simp]: "decDigits n \<noteq> []"
  by (subst decDigits.simps) simp

lemma decDigits_digits: "list_all (\<lambda>u. 48 \<le> u \<and> u \<le> 57) (decDigits n)"
proof (induction n rule: decDigits.induct)
  case (1 n)
  then show ?case
    by (cases "n < 10") (simp_all add: decDigits.simps [of n])
qed

section \<open>Character classes and the patterns of intent-contract.ts\<close>

definition isDigit :: "nat \<Rightarrow> bool" where
  "isDigit u = (48 \<le> u \<and> u \<le> 57)"

definition isLower :: "nat \<Rightarrow> bool" where
  "isLower u = (97 \<le> u \<and> u \<le> 122)"

definition isUpper :: "nat \<Rightarrow> bool" where
  "isUpper u = (65 \<le> u \<and> u \<le> 90)"

definition isLowerHex :: "nat \<Rightarrow> bool" where
  "isLowerHex u = (isDigit u \<or> (97 \<le> u \<and> u \<le> 102))"

definition SHA256_PATTERN :: "jstr \<Rightarrow> bool" where
  "SHA256_PATTERN s = (length s = 64 \<and> list_all isLowerHex s)"

definition UUID_PATTERN :: "jstr \<Rightarrow> bool" where
  "UUID_PATTERN s =
     (length s = 36 \<and>
      s ! 8 = 45 \<and> s ! 13 = 45 \<and> s ! 18 = 45 \<and> s ! 23 = 45 \<and>
      list_all isLowerHex (take 8 s) \<and>
      list_all isLowerHex (take 4 (drop 9 s)) \<and>
      list_all isLowerHex (take 4 (drop 14 s)) \<and> 49 \<le> s ! 14 \<and> s ! 14 \<le> 56 \<and>
      list_all isLowerHex (take 4 (drop 19 s)) \<and> s ! 19 \<in> set (js ''89ab'') \<and>
      list_all isLowerHex (drop 24 s))"

definition IDENTIFIER_PATTERN :: "jstr \<Rightarrow> bool" where
  "IDENTIFIER_PATTERN s =
     (case s of [] \<Rightarrow> False
      | u # us \<Rightarrow> (isDigit u \<or> isLower u \<or> isUpper u) \<and> length us \<le> 255 \<and>
          list_all (\<lambda>c. isDigit c \<or> isLower c \<or> isUpper c \<or> c \<in> set (js ''._:@/-'')) us)"

definition PROFILE_ID_PATTERN :: "jstr \<Rightarrow> bool" where
  "PROFILE_ID_PATTERN s =
     (case s of [] \<Rightarrow> False
      | u # us \<Rightarrow> (isDigit u \<or> isLower u) \<and> length us \<le> 127 \<and>
          list_all (\<lambda>c. isDigit c \<or> isLower c \<or> c \<in> set (js ''._-'')) us)"

definition BASE64URL_PATTERN :: "jstr \<Rightarrow> bool" where
  "BASE64URL_PATTERN s =
     (s \<noteq> [] \<and> list_all (\<lambda>c. isDigit c \<or> isLower c \<or> isUpper c \<or> c = 95 \<or> c = 45) s)"

definition ASCII_TOKEN_PATTERN :: "jstr \<Rightarrow> bool" where
  "ASCII_TOKEN_PATTERN s = (s \<noteq> [] \<and> list_all (\<lambda>c. 0x21 \<le> c \<and> c \<le> 0x7e) s)"

lemmas char_class_defs = isDigit_def isLower_def isUpper_def isLowerHex_def

end
