(* ===== verification/Utf8.thy ===== *)
theory Utf8
  imports JsValue
begin

text \<open>
  The strict UTF-8 codec and the string check of \<open>canonical-json.ts\<close>. Unicode normalisation
  (\<open>String.prototype.normalize\<close>) is the parameter \<open>nfc\<close>. Code units, code points and the
  intermediate values of the shift and mask expressions are natural numbers below \<open>2 ^ 21\<close>, where
  the 32-bit operators of JavaScript do not wrap; the bytes of a \<open>Uint8Array\<close> are 8-bit words.
\<close>

unbundle bit_operations_syntax

section \<open>Definitions\<close>

definition isHighSurrogate :: "nat \<Rightarrow> bool" where
  "isHighSurrogate u = (0xd800 \<le> u \<and> u \<le> 0xdbff)"

definition isLowSurrogate :: "nat \<Rightarrow> bool" where
  "isLowSurrogate u = (0xdc00 \<le> u \<and> u \<le> 0xdfff)"

fun pairedSurrogates :: "jstr \<Rightarrow> bool" where
  "pairedSurrogates [] = True"
| "pairedSurrogates (c # cs) =
     (if isHighSurrogate c then
        (case cs of [] \<Rightarrow> False
         | d # ds \<Rightarrow> isLowSurrogate d \<and> pairedSurrogates ds)
      else \<not> isLowSurrogate c \<and> pairedSurrogates cs)"

definition assertCanonicalString :: "(jstr \<Rightarrow> jstr) \<Rightarrow> jstr \<Rightarrow> string \<Rightarrow> contract_error + unit" where
  "assertCanonicalString nfc value label =
     bindE (guardE (pairedSurrogates value)
       (CanonicalJsonError (js (label @ '' contains an unpaired surrogate'')))) (\<lambda>_.
     guardE (nfc value = value)
       (CanonicalJsonError (js (label @ '' must use Unicode NFC''))))"

definition codePointBytes :: "nat \<Rightarrow> byte list" where
  "codePointBytes cp =
     (if cp \<le> 0x7f then [toByte cp]
      else if cp \<le> 0x7ff then
        [toByte (0xc0 OR drop_bit 6 cp), toByte (0x80 OR (cp AND 0x3f))]
      else if cp \<le> 0xffff then
        [toByte (0xe0 OR drop_bit 12 cp),
         toByte (0x80 OR (drop_bit 6 cp AND 0x3f)),
         toByte (0x80 OR (cp AND 0x3f))]
      else
        [toByte (0xf0 OR drop_bit 18 cp),
         toByte (0x80 OR (drop_bit 12 cp AND 0x3f)),
         toByte (0x80 OR (drop_bit 6 cp AND 0x3f)),
         toByte (0x80 OR (cp AND 0x3f))])"

text \<open>The loop of \<open>encodeUtf8\<close>; it runs after \<open>assertCanonicalString\<close>, so a high surrogate is
  always followed by its partner and the last equation's inner \<open>[]\<close> case is not reached.\<close>

fun utf8Bytes :: "jstr \<Rightarrow> byte list" where
  "utf8Bytes [] = []"
| "utf8Bytes (first # rest) =
     (if isHighSurrogate first then
        (case rest of
           [] \<Rightarrow> codePointBytes first
         | second # rest' \<Rightarrow>
             codePointBytes (0x10000 + push_bit 10 (first - 0xd800) + (second - 0xdc00))
               @ utf8Bytes rest')
      else codePointBytes first @ utf8Bytes rest)"

definition encodeUtf8 :: "(jstr \<Rightarrow> jstr) \<Rightarrow> jstr \<Rightarrow> contract_error + byte list" where
  "encodeUtf8 nfc value =
     bindE (assertCanonicalString nfc value ''UTF-8 input'') (\<lambda>_. Inr (utf8Bytes value))"

definition leadByte :: "nat \<Rightarrow> contract_error + nat \<times> nat \<times> nat" where
  "leadByte first =
     (if 0xc2 \<le> first \<and> first \<le> 0xdf then Inr (2, first AND 0x1f, 0x80)
      else if 0xe0 \<le> first \<and> first \<le> 0xef then Inr (3, first AND 0x0f, 0x800)
      else if 0xf0 \<le> first \<and> first \<le> 0xf4 then Inr (4, first AND 0x07, 0x10000)
      else Inl (CanonicalJsonError (js ''UTF-8 input contains an invalid leading byte'')))"

fun continuationBytes :: "nat \<Rightarrow> byte list \<Rightarrow> contract_error + nat" where
  "continuationBytes codePoint [] = Inr codePoint"
| "continuationBytes codePoint (b # bs) =
     (if unat b AND 0xc0 \<noteq> 0x80
      then Inl (CanonicalJsonError (js ''UTF-8 input contains an invalid continuation byte''))
      else continuationBytes (push_bit 6 codePoint OR (unat b AND 0x3f)) bs)"

fun decodeCodePoints :: "byte list \<Rightarrow> contract_error + nat list" where
  "decodeCodePoints [] = Inr []"
| "decodeCodePoints (b # bs) =
     (if unat b \<le> 0x7f then bindE (decodeCodePoints bs) (\<lambda>cps. Inr (unat b # cps))
      else bindE (leadByte (unat b)) (\<lambda>(len, start, minimum).
        bindE (guardE (len \<le> length (b # bs))
          (CanonicalJsonError (js ''UTF-8 input is truncated''))) (\<lambda>_.
        bindE (continuationBytes start (take (len - 1) bs)) (\<lambda>codePoint.
        bindE (guardE (\<not> (codePoint < minimum \<or> codePoint > 0x10ffff \<or>
                          (0xd800 \<le> codePoint \<and> codePoint \<le> 0xdfff)))
          (CanonicalJsonError (js ''UTF-8 input is not minimally encoded''))) (\<lambda>_.
        bindE (decodeCodePoints (drop (len - 1) bs)) (\<lambda>cps. Inr (codePoint # cps)))))))"

definition codeUnits :: "nat \<Rightarrow> jstr" where
  "codeUnits codePoint =
     (if codePoint \<le> 0xffff then [codePoint]
      else let shifted = codePoint - 0x10000
           in [0xd800 OR drop_bit 10 shifted, 0xdc00 OR (shifted AND 0x3ff)])"

definition decodeUtf8 :: "(jstr \<Rightarrow> jstr) \<Rightarrow> byte list \<Rightarrow> contract_error + jstr" where
  "decodeUtf8 nfc input =
     bindE (decodeCodePoints input) (\<lambda>codePoints.
       let result = concat (map codeUnits codePoints) in
       bindE (assertCanonicalString nfc result ''UTF-8 result'') (\<lambda>_. Inr result))"

text \<open>The strings \<open>assertCanonicalString\<close> accepts.\<close>

definition canonical_string :: "(jstr \<Rightarrow> jstr) \<Rightarrow> jstr \<Rightarrow> bool" where
  "canonical_string nfc s \<longleftrightarrow> pairedSurrogates s \<and> nfc s = s"

text \<open>Unicode scalar values, and the scalar values a string spells: the abstraction both codecs
  are proved against.\<close>

definition scalar :: "nat \<Rightarrow> bool" where
  "scalar cp \<longleftrightarrow> cp \<le> 0x10ffff \<and> \<not> (0xd800 \<le> cp \<and> cp \<le> 0xdfff)"

fun scalars :: "jstr \<Rightarrow> nat list" where
  "scalars [] = []"
| "scalars (c # cs) =
     (if isHighSurrogate c then
        (case cs of [] \<Rightarrow> [c]
         | d # ds \<Rightarrow> (0x10000 + (c - 0xd800) * 1024 + (d - 0xdc00)) # scalars ds)
      else c # scalars cs)"

section \<open>Masks and shifts as arithmetic\<close>

lemma or_disjoint_nat: "b < 2 ^ n \<Longrightarrow> (a * 2 ^ n) OR b = a * 2 ^ n + (b::nat)"
proof -
  assume "b < 2 ^ n"
  then have "take_bit n b = b"
    by (simp add: take_bit_nat_eq_self)
  then have "(a * 2 ^ n) AND b = 0"
    by (metis and.assoc and.commute and_zero_eq push_bit_eq_mult take_bit_eq_mask
        take_bit_push_bit diff_self_eq_0 order_refl push_bit_of_0 take_bit_0)
  then show ?thesis
    by (simp add: disjunctive_add_eq_or)
qed

lemma and_low_nat: "(x::nat) AND mask n = x mod 2 ^ n"
  by (simp add: take_bit_eq_mask [symmetric] take_bit_eq_mod)

lemma and_masks [simp]:
  "(x::nat) AND 0x3f = x mod 64"
  "x AND 0x1f = x mod 32"
  "x AND 0x0f = x mod 16"
  "x AND 0x07 = x mod 8"
  "x AND 0x3ff = x mod 1024"
  "x AND 0x03 = x mod 4"
  using and_low_nat [of x 6] and_low_nat [of x 5] and_low_nat [of x 4] and_low_nat [of x 3]
    and_low_nat [of x 10] and_low_nat [of x 2]
  by (simp_all add: mask_eq_exp_minus_1)

lemma or_lead_nat:
  "x < 32 \<Longrightarrow> 0xc0 OR x = 0xc0 + (x::nat)"
  "x < 16 \<Longrightarrow> 0xe0 OR x = 0xe0 + (x::nat)"
  "x < 8 \<Longrightarrow> 0xf0 OR x = 0xf0 + (x::nat)"
  "x < 64 \<Longrightarrow> 0x80 OR x = 0x80 + (x::nat)"
  "x < 1024 \<Longrightarrow> 0xd800 OR x = 0xd800 + (x::nat)"
  "x < 1024 \<Longrightarrow> 0xdc00 OR x = 0xdc00 + (x::nat)"
  "x < 64 \<Longrightarrow> push_bit 6 c OR x = c * 64 + (x::nat)"
  using or_disjoint_nat [of x 5 6] or_disjoint_nat [of x 4 14] or_disjoint_nat [of x 3 30]
    or_disjoint_nat [of x 6 2] or_disjoint_nat [of x 10 54] or_disjoint_nat [of x 10 55]
    or_disjoint_nat [of x 6 c]
  by (simp_all add: push_bit_eq_mult)

lemma and_push_bit_nat: "(x::nat) AND push_bit n y = push_bit n (drop_bit n x AND y)"
  by (rule bit_eqI) (auto simp: bit_simps)

lemma and_high_bits_nat: "(x::nat) AND 0xc0 = (x div 64 mod 4) * 64"
  using and_push_bit_nat [of x 6 3] by (simp add: push_bit_eq_mult drop_bit_eq_div)

lemma continuation_marker: "(b::nat) < 256 \<Longrightarrow> b AND 0xc0 = 0x80 \<longleftrightarrow> 0x80 \<le> b \<and> b \<le> 0xbf"
  by (simp add: and_high_bits_nat) linarith

text \<open>The byte sequence of a code point in arithmetic form.\<close>

lemma codePointBytes_arith:
  "cp \<le> 0x10ffff \<Longrightarrow> codePointBytes cp = map toByte
     (if cp \<le> 0x7f then [cp]
      else if cp \<le> 0x7ff then [0xc0 + cp div 64, 0x80 + cp mod 64]
      else if cp \<le> 0xffff then [0xe0 + cp div 4096, 0x80 + cp div 64 mod 64, 0x80 + cp mod 64]
      else [0xf0 + cp div 262144, 0x80 + cp div 4096 mod 64, 0x80 + cp div 64 mod 64,
            0x80 + cp mod 64])"
  by (simp add: codePointBytes_def or_lead_nat drop_bit_eq_div)

lemma codeUnits_arith:
  "cp \<le> 0x10ffff \<Longrightarrow> codeUnits cp =
     (if cp \<le> 0xffff then [cp]
      else [0xd800 + (cp - 0x10000) div 1024, 0xdc00 + (cp - 0x10000) mod 1024])"
  by (simp add: codeUnits_def or_lead_nat drop_bit_eq_div Let_def)

lemma mod_add_self_numerals:
  "(x::nat) < 64 \<Longrightarrow> (0x80 + x) mod 64 = x"
  "(x::nat) < 32 \<Longrightarrow> (0xc0 + x) mod 32 = x"
  "(x::nat) < 16 \<Longrightarrow> (0xe0 + x) mod 16 = x"
  "(x::nat) < 8 \<Longrightarrow> (0xf0 + x) mod 8 = x"
  using mod_mult_self1 [of x 2 64] mod_mult_self1 [of x 6 32] mod_mult_self1 [of x 14 16]
    mod_mult_self1 [of x 30 8]
  by (simp_all add: add.commute)

lemma continuationBytes_Cons_byte:
  "x < 64 \<Longrightarrow> continuationBytes c (toByte (0x80 + x) # bs) = continuationBytes (c * 64 + x) bs"
  using mod_add_self_numerals [of x] by (simp add: continuation_marker or_lead_nat)

declare continuationBytes.simps(2) [simp del]

lemma leadByte_arith:
  "2 \<le> x \<Longrightarrow> x < 32 \<Longrightarrow> leadByte (0xc0 + x) = Inr (2, x, 0x80)"
  "x < 16 \<Longrightarrow> leadByte (0xe0 + x) = Inr (3, x, 0x800)"
  "x \<le> 4 \<Longrightarrow> leadByte (0xf0 + x) = Inr (4, x, 0x10000)"
  by (simp_all add: leadByte_def mod_add_self_numerals)

lemma div_sextets:
  "(n::nat) div 4096 = n div 64 div 64"
  "n div 262144 = n div 64 div 64 div 64"
  by (simp_all add: div_mult2_eq [symmetric])

lemma join_sextets:
  fixes n :: nat
  shows "(n div 4096 * 64 + n div 64 mod 64) * 64 + n mod 64 = n"
    and "((n div 262144 * 64 + n div 4096 mod 64) * 64 + n div 64 mod 64) * 64 + n mod 64 = n"
  by (simp_all only: div_sextets div_mult_mod_eq)

section \<open>Decoding what was encoded\<close>

lemma decodeCodePoints_codePointBytes:
  assumes "scalar cp"
  shows "decodeCodePoints (codePointBytes cp @ rest) =
           bindE (decodeCodePoints rest) (\<lambda>cps. Inr (cp # cps))"
proof -
  have bound: "cp \<le> 0x10ffff" and surr: "\<not> (0xd800 \<le> cp \<and> cp \<le> 0xdfff)"
    using assms by (auto simp: scalar_def)
  consider "cp \<le> 0x7f" | "0x7f < cp" "cp \<le> 0x7ff" | "0x7ff < cp" "cp \<le> 0xffff" | "0xffff < cp"
    by linarith
  then show ?thesis
  proof cases
    case 1
    then show ?thesis
      by (simp add: codePointBytes_def)
  next
    case 2
    have lead: "leadByte (0xc0 + cp div 64) = Inr (2, cp div 64, 0x80)"
      using 2 by (intro leadByte_arith) linarith+
    have "continuationBytes (cp div 64) [toByte (0x80 + cp mod 64)] = Inr cp"
      by (subst continuationBytes_Cons_byte) simp_all
    then show ?thesis
      using 2 surr lead 
      by (simp add: codePointBytes_arith [OF bound])
  next
    case 3
    have lead: "leadByte (0xe0 + cp div 4096) = Inr (3, cp div 4096, 0x800)"
      using 3 by (intro leadByte_arith) linarith
    have "continuationBytes (cp div 4096)
            [toByte (0x80 + cp div 64 mod 64), toByte (0x80 + cp mod 64)] = Inr cp"
      using join_sextets [of cp]
      by (simp add: continuationBytes_Cons_byte)
    then show ?thesis
      using 3 surr lead 
      by (simp add: codePointBytes_arith [OF bound])
  next
    case 4
    have lead: "leadByte (0xf0 + cp div 262144) = Inr (4, cp div 262144, 0x10000)"
      using 4 bound by (intro leadByte_arith) linarith
    have "continuationBytes (cp div 262144)
            [toByte (0x80 + cp div 4096 mod 64), toByte (0x80 + cp div 64 mod 64),
             toByte (0x80 + cp mod 64)] = Inr cp"
      using join_sextets [of cp]
      by (simp add: continuationBytes_Cons_byte)
    then show ?thesis
      using 4 surr bound lead 
      by (simp add: codePointBytes_arith [OF bound])
  qed
qed

section \<open>Encoding what was decoded\<close>

lemma continuationBytes_ConsD:
  assumes "continuationBytes c (b # bs) = Inr cp"
  obtains x where "x < 64" "b = toByte (0x80 + x)" "continuationBytes (c * 64 + x) bs = Inr cp"
proof -
  have range: "0x80 \<le> unat b" "unat b \<le> 0xbf"
    using assms continuation_marker [of "unat b"]
    by (auto simp: continuationBytes.simps(2) split: if_splits)
  have "unat b mod 64 = unat b - 0x80"
    using range mod_add_self_numerals(1) [of "unat b - 0x80"] by simp
  then have "continuationBytes (c * 64 + (unat b - 0x80)) bs = Inr cp"
    using assms range
    by (auto simp: continuationBytes.simps(2) or_lead_nat split: if_splits)
  moreover have "b = toByte (0x80 + (unat b - 0x80))"
    using range by simp
  ultimately show thesis
    using that [of "unat b - 0x80"] range by simp
qed

lemma leadByteD:
  assumes "leadByte (unat b) = Inr (len, start, minimum)"
  shows "len = 2 \<and> minimum = 0x80 \<and> 2 \<le> start \<and> start < 32 \<and> b = toByte (0xc0 + start) \<or>
         len = 3 \<and> minimum = 0x800 \<and> start < 16 \<and> b = toByte (0xe0 + start) \<or>
         len = 4 \<and> minimum = 0x10000 \<and> start \<le> 4 \<and> b = toByte (0xf0 + start)"
proof -
  let ?n = "unat b"
  consider "0xc2 \<le> ?n" "?n \<le> 0xdf" | "0xe0 \<le> ?n" "?n \<le> 0xef" | "0xf0 \<le> ?n" "?n \<le> 0xf4"
    using assms by (auto simp: leadByte_def split: if_splits)
  then show ?thesis
  proof cases
    case 1
    then show ?thesis
      using assms leadByte_arith(1) [of "?n - 0xc0"] by auto
  next
    case 2
    then show ?thesis
      using assms leadByte_arith(2) [of "?n - 0xe0"] by auto
  next
    case 3
    then show ?thesis
      using assms leadByte_arith(3) [of "?n - 0xf0"] by auto
  qed
qed

lemma sextet:
  "(b::nat) < 64 \<Longrightarrow> (a * 64 + b) div 64 = a"
  "b < 64 \<Longrightarrow> (a * 64 + b) mod 64 = b"
  by simp_all

lemma length_ge_2: "2 \<le> length xs \<Longrightarrow> \<exists>a b r. xs = a # b # r"
  by (cases xs; cases "tl xs") auto

lemma length_ge_3: "3 \<le> length xs \<Longrightarrow> \<exists>a b c r. xs = a # b # c # r"
  by (cases xs; cases "tl xs"; cases "tl (tl xs)") auto

lemma multiByte_roundtrip:
  assumes lead: "leadByte (unat b) = Inr (len, start, minimum)"
    and len: "len \<le> length (b # bs)"
    and cont: "continuationBytes start (take (len - 1) bs) = Inr cp"
    and range: "minimum \<le> cp" "cp \<le> 0x10ffff"
  shows "codePointBytes cp = b # take (len - 1) bs"
  using leadByteD [OF lead]
proof (elim disjE conjE)
  assume k: "len = 2" "minimum = 0x80" "start < 32" "b = toByte (0xc0 + start)"
  then obtain b2 bs' where bs: "bs = b2 # bs'"
    using len by (cases bs) auto
  obtain x where "x < 64" "b2 = toByte (0x80 + x)" "cp = start * 64 + x"
    using cont k bs by (auto elim!: continuationBytes_ConsD)
  then show ?thesis
    using k bs range by (simp add: codePointBytes_arith)
next
  assume k: "len = 3" "minimum = 0x800" "start < 16" "b = toByte (0xe0 + start)"
  then obtain b2 b3 bs' where bs: "bs = b2 # b3 # bs'"
    using len k(1) length_ge_2 [of bs] by auto
  obtain x y where xy: "x < 64" "b2 = toByte (0x80 + x)" "y < 64" "b3 = toByte (0x80 + y)"
      "cp = (start * 64 + x) * 64 + y"
    using cont k bs by (auto elim!: continuationBytes_ConsD)
  have "cp div 4096 = start" "cp div 64 mod 64 = x" "cp mod 64 = y"
    by (simp_all only: xy div_sextets sextet)
  moreover have "cp \<le> 0xffff"
    using xy k by simp
  ultimately show ?thesis
    using k bs range xy by (simp add: codePointBytes_arith)
next
  assume k: "len = 4" "minimum = 0x10000" "start \<le> 4" "b = toByte (0xf0 + start)"
  then obtain b2 b3 b4 bs' where bs: "bs = b2 # b3 # b4 # bs'"
    using len k(1) length_ge_3 [of bs] by auto
  obtain x y z where xyz: "x < 64" "b2 = toByte (0x80 + x)" "y < 64" "b3 = toByte (0x80 + y)"
      "z < 64" "b4 = toByte (0x80 + z)" "cp = ((start * 64 + x) * 64 + y) * 64 + z"
    using cont k bs by (auto elim!: continuationBytes_ConsD)
  have "cp div 262144 = start" "cp div 4096 mod 64 = x" "cp div 64 mod 64 = y" "cp mod 64 = z"
    by (simp_all only: xyz div_sextets sextet)
  then show ?thesis
    using k bs range xyz by (simp add: codePointBytes_arith)
qed

lemma decodeCodePoints_sound:
  "decodeCodePoints bs = Inr cps \<Longrightarrow> list_all scalar cps \<and> concat (map codePointBytes cps) = bs"
proof (induction bs arbitrary: cps rule: decodeCodePoints.induct)
  case 1
  then show ?case by simp
next
  case (2 b bs)
  show ?case
  proof (cases "unat b \<le> 0x7f")
    case True
    with 2 obtain cps' where "decodeCodePoints bs = Inr cps'" "cps = unat b # cps'"
      by (auto simp: bindE_eq_Inr)
    with True 2(1) show ?thesis
      by (simp add: codePointBytes_def scalar_def)
  next
    case False
    with 2(3) obtain len start minimum cp cps' where
      lead: "leadByte (unat b) = Inr (len, start, minimum)" and
      len: "len \<le> length (b # bs)" and
      cont: "continuationBytes start (take (len - 1) bs) = Inr cp" and
      range: "minimum \<le> cp" "cp \<le> 0x10ffff" "\<not> (0xd800 \<le> cp \<and> cp \<le> 0xdfff)" and
      rest: "decodeCodePoints (drop (len - 1) bs) = Inr cps'" "cps = cp # cps'"
      by (auto simp: bindE_eq_Inr guardE_eq_Inr not_less)
    have "list_all scalar cps' \<and> concat (map codePointBytes cps') = drop (len - 1) bs"
      using 2(2) False lead cont rest(1) by blast
    moreover have "scalar cp"
      using range by (simp add: scalar_def)
    ultimately show ?thesis
      using multiByte_roundtrip [OF lead len cont range(1,2)] rest(2) by simp
  qed
qed

section \<open>Strings and scalar values\<close>

lemmas surrogate_defs = isHighSurrogate_def isLowSurrogate_def

lemma surrogate_pair:
  assumes "isHighSurrogate c" "isLowSurrogate d"
  defines "cp \<equiv> 0x10000 + (c - 0xd800) * 1024 + (d - 0xdc00)"
  shows "scalar cp" "codeUnits cp = [c, d]"
proof -
  have c: "c = 0xd800 + (c - 0xd800)" "c - 0xd800 < 1024"
    and d: "d = 0xdc00 + (d - 0xdc00)" "d - 0xdc00 < 1024"
    using assms(1,2) by (auto simp: surrogate_defs)
  then have "cp \<le> 0x10ffff" "0xffff < cp"
    by (simp_all add: cp_def)
  then show "scalar cp"
    by (simp add: scalar_def)
  have "cp - 0x10000 = (c - 0xd800) * 1024 + (d - 0xdc00)"
    by (simp add: cp_def)
  then have "(cp - 0x10000) div 1024 = c - 0xd800" "(cp - 0x10000) mod 1024 = d - 0xdc00"
    using d(2) by simp_all
  then show "codeUnits cp = [c, d]"
    using \<open>cp \<le> 0x10ffff\<close> \<open>0xffff < cp\<close> c(1) d(1) by (simp add: codeUnits_arith)
qed

lemma scalars_sound:
  assumes "wf_jstr s" "pairedSurrogates s"
  shows "list_all scalar (scalars s) \<and> concat (map codeUnits (scalars s)) = s \<and>
         utf8Bytes s = concat (map codePointBytes (scalars s))"
  using assms
proof (induction s rule: scalars.induct)
  case 1
  then show ?case by simp
next
  case (2 c cs)
  show ?case
  proof (cases "isHighSurrogate c")
    case True
    then obtain d ds where "cs = d # ds" "isLowSurrogate d"
      using 2(4) by (auto split: list.splits)
    then show ?thesis
      using True 2 surrogate_pair [of c d] by (simp add: push_bit_eq_mult)
  next
    case False
    then have "scalar c" "codeUnits c = [c]"
      using 2 by (auto simp: scalar_def codeUnits_def surrogate_defs)
    then show ?thesis
      using False 2 by simp
  qed
qed

lemma codeUnits_pair:
  assumes "scalar cp" "0xffff < cp"
  obtains c d where "codeUnits cp = [c, d]" "isHighSurrogate c" "isLowSurrogate d"
    "cp = 0x10000 + (c - 0xd800) * 1024 + (d - 0xdc00)"
proof -
  let ?q = "(cp - 0x10000) div 1024" and ?r = "(cp - 0x10000) mod 1024"
  have bound: "cp \<le> 0x10ffff"
    using assms by (simp add: scalar_def)
  then have "?q < 1024"
    by linarith
  moreover have "cp - 0x10000 = ?q * 1024 + ?r"
    by simp
  ultimately show thesis
    using that [of "0xd800 + ?q" "0xdc00 + ?r"] assms(2) bound
    by (simp add: codeUnits_arith surrogate_defs)
qed

lemma scalars_codeUnits:
  assumes "scalar cp"
  shows "scalars (codeUnits cp @ s) = cp # scalars s"
    and "pairedSurrogates (codeUnits cp @ s) = pairedSurrogates s"
    and "wf_jstr (codeUnits cp)"
proof -
  have "scalars (codeUnits cp @ s) = cp # scalars s \<and>
        pairedSurrogates (codeUnits cp @ s) = pairedSurrogates s \<and> wf_jstr (codeUnits cp)"
  proof (cases "cp \<le> 0xffff")
    case True
    then show ?thesis
      using assms by (auto simp: codeUnits_def scalar_def surrogate_defs)
  next
    case False
    then obtain c d where "codeUnits cp = [c, d]" "isHighSurrogate c" "isLowSurrogate d"
      "cp = 0x10000 + (c - 0xd800) * 1024 + (d - 0xdc00)"
      using assms codeUnits_pair by (metis not_le)
    then show ?thesis
      by (auto simp: surrogate_defs)
  qed
  then show "scalars (codeUnits cp @ s) = cp # scalars s"
    and "pairedSurrogates (codeUnits cp @ s) = pairedSurrogates s"
    and "wf_jstr (codeUnits cp)"
    by simp_all
qed

lemma scalars_concat_codeUnits:
  "list_all scalar cps \<Longrightarrow>
     scalars (concat (map codeUnits cps)) = cps \<and> pairedSurrogates (concat (map codeUnits cps)) \<and>
     wf_jstr (concat (map codeUnits cps))"
  by (induction cps) (simp_all add: scalars_codeUnits)

lemma decodeCodePoints_concat:
  "list_all scalar cps \<Longrightarrow> decodeCodePoints (concat (map codePointBytes cps)) = Inr cps"
  by (induction cps) (simp_all add: decodeCodePoints_codePointBytes)

section \<open>The codec is strict\<close>

lemma assertCanonicalString_Inr [result_simps]:
  "assertCanonicalString nfc s label = Inr u \<longleftrightarrow> canonical_string nfc s"
  by (simp add: assertCanonicalString_def canonical_string_def result_simps)

lemma encodeUtf8_Inr [result_simps]:
  "encodeUtf8 nfc s = Inr bs \<longleftrightarrow> canonical_string nfc s \<and> bs = utf8Bytes s"
  by (auto simp: encodeUtf8_def result_simps)

lemma decodeUtf8_Inr:
  "decodeUtf8 nfc bs = Inr s \<longleftrightarrow> wf_jstr s \<and> canonical_string nfc s \<and> utf8Bytes s = bs"
proof
  assume "decodeUtf8 nfc bs = Inr s"
  then obtain cps where cps: "decodeCodePoints bs = Inr cps" and s: "s = concat (map codeUnits cps)"
    and canon: "canonical_string nfc s"
    by (auto simp: decodeUtf8_def Let_def result_simps)
  have "list_all scalar cps" "concat (map codePointBytes cps) = bs"
    using decodeCodePoints_sound [OF cps] by simp_all
  then show "wf_jstr s \<and> canonical_string nfc s \<and> utf8Bytes s = bs"
    using canon s scalars_concat_codeUnits [of cps] scalars_sound [of s] by simp
next
  assume *: "wf_jstr s \<and> canonical_string nfc s \<and> utf8Bytes s = bs"
  then have "decodeCodePoints bs = Inr (scalars s)" "concat (map codeUnits (scalars s)) = s"
    using scalars_sound [of s] decodeCodePoints_concat by (auto simp: canonical_string_def)
  with * show "decodeUtf8 nfc bs = Inr s"
    by (simp add: decodeUtf8_def Let_def result_simps bindE_eq_Inr)
qed

interpretation utf8: strict_codec utf8Bytes "decodeUtf8 nfc"
  "\<lambda>s. wf_jstr s \<and> canonical_string nfc s" for nfc
  by unfold_locales (auto simp: decodeUtf8_Inr)

section \<open>Properties\<close>

text \<open>C35. Decoding is the exact inverse of encoding: \<open>decodeUtf8\<close> accepts a byte string and returns
  \<open>s\<close> if and only if \<open>s\<close> is a string of 16-bit code units that \<open>encodeUtf8\<close> accepts and encodes to
  exactly these bytes. In particular overlong, surrogate, truncated and otherwise malformed byte
  strings are all rejected, and no two byte strings decode to the same text.\<close>

theorem decodeUtf8_exact_inverse:
  "decodeUtf8 nfc bs = Inr s \<longleftrightarrow> wf_jstr s \<and> encodeUtf8 nfc s = Inr bs"
  using utf8.dec_iff [of nfc bs s] by (auto simp: encodeUtf8_Inr)

end
