(* ===== verification/Canonical_Json.thy ===== *)
theory Canonical_Json
  imports Utf8 "HOL-Library.Multiset"
begin

text \<open>
  \<open>canonicalizeJson\<close> of \<open>canonical-json.ts\<close>: the serializer with its depth, node, string and output
  budgets (\<open>json_budget\<close> is the mutable \<open>CanonicalJsonBudget\<close>, threaded through the calls), and the
  budget-free reference text \<open>render\<close> it is proved to compute exactly when the value is inside the
  canonical subset and all budgets suffice (\<open>canonicalizeJson_Inr\<close>).
\<close>

section \<open>Definitions\<close>

definition MAX_CANONICAL_JSON_DEPTH :: nat where
  "MAX_CANONICAL_JSON_DEPTH = 64"

definition MAX_CANONICAL_JSON_NODES :: nat where
  "MAX_CANONICAL_JSON_NODES = 100000"

definition MAX_CANONICAL_JSON_LEXICAL_TOKENS :: nat where
  "MAX_CANONICAL_JSON_LEXICAL_TOKENS = MAX_CANONICAL_JSON_NODES * 2"

definition MAX_CANONICAL_JSON_STRING_CODE_UNITS :: nat where
  "MAX_CANONICAL_JSON_STRING_CODE_UNITS = 1024 * 1024"

definition MAX_CANONICAL_JSON_OUTPUT_CODE_UNITS :: nat where
  "MAX_CANONICAL_JSON_OUTPUT_CODE_UNITS = 16 * 1024 * 1024"

record json_budget =
  nodes :: nat
  outputCodeUnits :: nat

definition hexDigit :: "nat \<Rightarrow> nat" where
  "hexDigit n = (if n < 10 then 48 + n else 87 + n)"

text \<open>\<open>JSON.stringify\<close> of one code unit. Unpaired surrogates, which it would escape, are rejected
  before it is called.\<close>

definition quoteUnit :: "nat \<Rightarrow> jstr" where
  "quoteUnit u =
     (if u = 0x22 then js [CHR 0x5C, CHR 0x22]
      else if u = 0x5c then js [CHR 0x5C, CHR 0x5C]
      else if u = 8 then js [CHR 0x5C, CHR ''b'']
      else if u = 9 then js [CHR 0x5C, CHR ''t'']
      else if u = 10 then js [CHR 0x5C, CHR ''n'']
      else if u = 12 then js [CHR 0x5C, CHR ''f'']
      else if u = 13 then js [CHR 0x5C, CHR ''r'']
      else if u < 0x20 then [0x5c, 117, 48, 48, hexDigit (u div 16), hexDigit (u mod 16)]
      else [u])"

definition jsonQuote :: "jstr \<Rightarrow> jstr" where
  "jsonQuote s = [0x22] @ concat (map quoteUnit s) @ [0x22]"

fun joinComma :: "jstr list \<Rightarrow> jstr" where
  "joinComma [] = []"
| "joinComma [x] = x"
| "joinComma (x # xs) = x @ [0x2c] @ joinComma xs"

definition assertJsonStringBudget :: "jstr \<Rightarrow> contract_error + unit" where
  "assertJsonStringBudget value =
     guardE (length value \<le> MAX_CANONICAL_JSON_STRING_CODE_UNITS)
       (CanonicalJsonError (js ''Canonical JSON string exceeds the size budget''))"

definition consumeOutputBudget :: "json_budget \<Rightarrow> nat \<Rightarrow> contract_error + json_budget" where
  "consumeOutputBudget budget n =
     (let budget' = budget\<lparr>outputCodeUnits := outputCodeUnits budget + n\<rparr>
      in if outputCodeUnits budget' > MAX_CANONICAL_JSON_OUTPUT_CODE_UNITS
         then Inl (CanonicalJsonError (js ''Canonical JSON exceeds the output size budget''))
         else Inr budget')"

definition emit :: "json_budget \<Rightarrow> jstr \<Rightarrow> contract_error + jstr \<times> json_budget" where
  "emit budget text = bindE (consumeOutputBudget budget (length text)) (\<lambda>b. Inr (text, b))"

definition separators :: "nat \<Rightarrow> nat" where
  "separators n = 2 + (if n = 0 then 0 else n - 1)"

abbreviation cjError :: "string \<Rightarrow> contract_error" where
  "cjError m \<equiv> CanonicalJsonError (js m)"

abbreviation field_size :: "(jstr \<times> jsval) list \<Rightarrow> nat" where
  "field_size fs \<equiv> size_list (\<lambda>f. size (snd f)) fs"

lemma size_list_sort_key [simp]: "size_list f (sort_key g xs) = size_list f xs"
proof -
  have "sum_list (map f (sort_key g xs)) = sum_list (map f xs)"
    by (metis mset_map mset_sort sum_mset_sum_list)
  then show ?thesis
    by (simp add: size_list_conv_sum_list)
qed

lemma size_prod_snd: "size_list (size_prod (\<lambda>_. 0) size) fs = field_size fs + length fs"
  by (induction fs) auto

function serializeCanonical ::
    "(jstr \<Rightarrow> jstr) \<Rightarrow> jsval \<Rightarrow> nat \<Rightarrow> json_budget \<Rightarrow> contract_error + jstr \<times> json_budget"
  and serializeElements ::
    "(jstr \<Rightarrow> jstr) \<Rightarrow> jsval list \<Rightarrow> nat \<Rightarrow> json_budget \<Rightarrow> contract_error + jstr list \<times> json_budget"
  and serializeFields ::
    "(jstr \<Rightarrow> jstr) \<Rightarrow> (jstr \<times> jsval) list \<Rightarrow> nat \<Rightarrow> json_budget \<Rightarrow>
       contract_error + jstr list \<times> json_budget"
where
  "serializeCanonical nfc value depth budget0 =
     (let budget = budget0\<lparr>nodes := nodes budget0 + 1\<rparr> in
      bindE (guardE (nodes budget \<le> MAX_CANONICAL_JSON_NODES)
        (cjError ''Canonical JSON exceeds the node budget'')) (\<lambda>_.
      bindE (guardE (depth \<le> MAX_CANONICAL_JSON_DEPTH)
        (cjError ''Canonical JSON exceeds the depth budget'')) (\<lambda>_.
      case value of
        JNull \<Rightarrow> emit budget (js ''null'')
      | JBool b \<Rightarrow> emit budget (js (if b then ''true'' else ''false''))
      | JStr s \<Rightarrow>
          bindE (assertJsonStringBudget s) (\<lambda>_.
          bindE (assertCanonicalString nfc s ''JSON string'') (\<lambda>_.
          emit budget (jsonQuote s)))
      | JNum n \<Rightarrow>
          (case n of
             JInt i \<Rightarrow>
               bindE (guardE (safe_int i) (cjError ''JSON numbers must be safe integers'')) (\<lambda>_.
               emit budget (decInt i))
           | JNegZero \<Rightarrow> Inl (cjError ''JSON numbers must be safe integers'')
           | JFrac \<Rightarrow> Inl (cjError ''JSON numbers must be safe integers''))
      | JArr shape xs \<Rightarrow>
          bindE (guardE (\<not> foreignPrototype shape)
            (cjError ''Canonical JSON arrays must use the plain Array prototype'')) (\<lambda>_.
          bindE (guardE (\<not> symbolKeys shape)
            (cjError ''Canonical JSON arrays cannot have symbol keys'')) (\<lambda>_.
          bindE (guardE (\<not> hiddenFields shape)
            (cjError ''Canonical JSON arrays cannot have extra or hidden fields'')) (\<lambda>_.
          bindE (guardE (length xs \<le> MAX_CANONICAL_JSON_NODES - nodes budget)
            (cjError ''Canonical JSON exceeds the node budget'')) (\<lambda>_.
          bindE (consumeOutputBudget budget (separators (length xs))) (\<lambda>budget1.
          bindE (serializeElements nfc xs (depth + 1) budget1) (\<lambda>(entries, budget2).
          Inr ([0x5b] @ joinComma entries @ [0x5d], budget2)))))))
      | JObj shape fs \<Rightarrow>
          bindE (guardE (\<not> foreignPrototype shape)
            (cjError ''Canonical JSON objects must be plain records'')) (\<lambda>_.
          bindE (guardE (\<not> symbolKeys shape)
            (cjError ''Canonical JSON objects cannot have symbol keys'')) (\<lambda>_.
          bindE (guardE (\<not> hiddenFields shape)
            (cjError ''Canonical JSON objects cannot hide non-enumerable fields'')) (\<lambda>_.
          bindE (guardE (length fs \<le> MAX_CANONICAL_JSON_NODES - nodes budget)
            (cjError ''Canonical JSON exceeds the node budget'')) (\<lambda>_.
          bindE (guardE (list_all (\<lambda>f. snd f \<noteq> JAccessor) fs)
            (cjError ''Canonical JSON objects cannot contain accessors'')) (\<lambda>_.
          bindE (consumeOutputBudget budget (separators (length fs))) (\<lambda>budget1.
          bindE (serializeFields nfc (sort_key fst fs) (depth + 1) budget1) (\<lambda>(entries, budget2).
          Inr ([0x7b] @ joinComma entries @ [0x7d], budget2))))))))
      | _ \<Rightarrow> Inl (cjError ''Value is outside the canonical JSON subset''))))"
| "serializeElements nfc [] depth budget = Inr ([], budget)"
| "serializeElements nfc (x # xs) depth budget =
     bindE (guardE (x \<noteq> JAccessor)
       (cjError ''Canonical JSON arrays cannot contain accessors or hidden entries'')) (\<lambda>_.
     bindE (serializeCanonical nfc x depth budget) (\<lambda>(entry, budget1).
     bindE (serializeElements nfc xs depth budget1) (\<lambda>(entries, budget2).
     Inr (entry # entries, budget2))))"
| "serializeFields nfc [] depth budget = Inr ([], budget)"
| "serializeFields nfc ((key, x) # fs) depth budget =
     bindE (assertJsonStringBudget key) (\<lambda>_.
     bindE (assertCanonicalString nfc key ''JSON object key'') (\<lambda>_.
     let serializedKey = jsonQuote key in
     bindE (consumeOutputBudget budget (length serializedKey + 1)) (\<lambda>budget1.
     bindE (serializeCanonical nfc x depth budget1) (\<lambda>(entry, budget2).
     bindE (serializeFields nfc fs depth budget2) (\<lambda>(entries, budget3).
     Inr ((serializedKey @ [0x3a] @ entry) # entries, budget3))))))"
  by pat_completeness auto
termination
  by (relation "measure (\<lambda>call. case call of
        Inl (nfc, v, d, b) \<Rightarrow> 2 * size v
      | Inr (Inl (nfc, xs, d, b)) \<Rightarrow> 2 * size_list size xs + 1
      | Inr (Inr (nfc, fs, d, b)) \<Rightarrow> 2 * field_size fs + 1)")
    (auto simp: size_prod_snd)

definition canonicalizeJson :: "(jstr \<Rightarrow> jstr) \<Rightarrow> jsval \<Rightarrow> contract_error + jstr" where
  "canonicalizeJson nfc value =
     bindE (serializeCanonical nfc value 0 \<lparr>nodes = 0, outputCodeUnits = 0\<rparr>) (\<lambda>(text, _). Inr text)"

declare serializeCanonical.simps(1) [simp del]

section \<open>The reference text and its measures\<close>

fun node_count :: "jsval \<Rightarrow> nat" where
  "node_count (JArr _ xs) = Suc (sum_list (map node_count xs))"
| "node_count (JObj _ fs) = Suc (sum_list (map (\<lambda>f. node_count (snd f)) fs))"
| "node_count _ = 1"

fun jdepth :: "jsval \<Rightarrow> nat" where
  "jdepth (JArr _ xs) = foldr max (map (\<lambda>x. Suc (jdepth x)) xs) 0"
| "jdepth (JObj _ fs) = foldr max (map (\<lambda>f. Suc (jdepth (snd f))) fs) 0"
| "jdepth _ = 0"

fun render :: "jsval \<Rightarrow> jstr" where
  "render JNull = js ''null''"
| "render (JBool b) = js (if b then ''true'' else ''false'')"
| "render (JStr s) = jsonQuote s"
| "render (JNum (JInt i)) = decInt i"
| "render (JArr _ xs) = [0x5b] @ joinComma (map render xs) @ [0x5d]"
| "render (JObj _ fs) =
     [0x7b] @ joinComma (map (\<lambda>(k, t). jsonQuote k @ [0x3a] @ t)
        (sort_key fst (map (\<lambda>f. (fst f, render (snd f))) fs))) @ [0x7d]"
| "render _ = []"

definition string_ok :: "(jstr \<Rightarrow> jstr) \<Rightarrow> jstr \<Rightarrow> bool" where
  "string_ok nfc s \<longleftrightarrow>
     length s \<le> MAX_CANONICAL_JSON_STRING_CODE_UNITS \<and> canonical_string nfc s"

fun json_ok :: "(jstr \<Rightarrow> jstr) \<Rightarrow> jsval \<Rightarrow> bool" where
  "json_ok nfc JNull = True"
| "json_ok nfc (JBool _) = True"
| "json_ok nfc (JStr s) = string_ok nfc s"
| "json_ok nfc (JNum (JInt i)) = safe_int i"
| "json_ok nfc (JArr sh xs) = (sh = plain_shape \<and> (\<forall>x \<in> set xs. json_ok nfc x))"
| "json_ok nfc (JObj sh fs) =
     (sh = plain_shape \<and> (\<forall>f \<in> set fs. string_ok nfc (fst f) \<and> json_ok nfc (snd f)))"
| "json_ok nfc _ = False"

lemma plain_shape_iff:
  "sh = plain_shape \<longleftrightarrow> \<not> foreignPrototype sh \<and> \<not> symbolKeys sh \<and> \<not> hiddenFields sh"
  using plain_shape_eqI by auto

lemma foldr_max_le: "foldr max ns (0::nat) \<le> m \<longleftrightarrow> (\<forall>n \<in> set ns. n \<le> m)"
  by (induction ns) auto

lemma depth_bound_iff:
  "d + foldr max (map (\<lambda>x. Suc (g x)) xs) 0 \<le> (m::nat) \<longleftrightarrow>
     d \<le> m \<and> (\<forall>x \<in> set xs. Suc (d + g x) \<le> m)"
proof -
  have "d + foldr max (map (\<lambda>x. Suc (g x)) xs) 0 \<le> m \<longleftrightarrow>
      d \<le> m \<and> foldr max (map (\<lambda>x. Suc (g x)) xs) 0 \<le> m - d"
    by auto
  also have "\<dots> \<longleftrightarrow> d \<le> m \<and> (\<forall>x \<in> set xs. Suc (g x) \<le> m - d)"
    by (simp add: foldr_max_le)
  also have "\<dots> \<longleftrightarrow> d \<le> m \<and> (\<forall>x \<in> set xs. Suc (d + g x) \<le> m)"
    by auto
  finally show ?thesis .
qed

lemma length_joinComma:
  "length (joinComma ts) = sum_list (map length ts) + (if ts = [] then 0 else length ts - 1)"
  by (induction ts rule: joinComma.induct) auto

lemma node_count_pos [simp]: "0 < node_count v"
  by (cases v) auto

lemma length_le_sum_nodes: "length xs \<le> sum_list (map (\<lambda>x. node_count (g x)) xs)"
proof (induction xs)
  case (Cons x xs)
  then show ?case
    using node_count_pos [of "g x"] by (simp del: node_count_pos)
qed simp

lemma sort_key_fst_map:
  "sort_key fst (map (\<lambda>f. (fst f, g (snd f))) fs) = map (\<lambda>f. (fst f, g (snd f))) (sort_key fst fs)"
proof -
  have insort: "insort_key fst (fst f, g (snd f)) (map (\<lambda>f. (fst f, g (snd f))) ys) =
      map (\<lambda>f. (fst f, g (snd f))) (insort_key fst f ys)" for f ys
    by (induction ys) auto
  show ?thesis
    by (induction fs) (simp_all add: insort)
qed

lemma sum_list_sort_key: "sum_list (map h (sort_key g xs)) = sum_list (map (h :: _ \<Rightarrow> nat) xs)"
  by (metis mset_map mset_sort sum_mset_sum_list)

definition field_text :: "jstr \<times> jsval \<Rightarrow> jstr" where
  "field_text f = jsonQuote (fst f) @ [0x3a] @ render (snd f)"

lemma render_JObj:
  "render (JObj sh fs) = [0x7b] @ joinComma (map field_text (sort_key fst fs)) @ [0x7d]"
  by (simp add: sort_key_fst_map field_text_def [abs_def] comp_def)

declare render.simps(6) [simp del]

lemma length_render_JArr:
  "length (render (JArr sh xs)) = separators (length xs) + sum_list (map (\<lambda>x. length (render x)) xs)"
  by (simp add: length_joinComma separators_def comp_def)

lemma length_render_JObj:
  "length (render (JObj sh fs)) =
     separators (length fs) + sum_list (map (\<lambda>f. length (field_text f)) fs)"
  by (simp add: render_JObj length_joinComma separators_def comp_def sum_list_sort_key
      del: render.simps) (metis length_sort length_0_conv)

section \<open>The serializer computes the reference text\<close>

text \<open>What a successful call leaves in the budget.\<close>

definition charge :: "json_budget \<Rightarrow> nat \<Rightarrow> nat \<Rightarrow> json_budget" where
  "charge b n k = b\<lparr>nodes := nodes b + n, outputCodeUnits := outputCodeUnits b + k\<rparr>"

definition fits :: "json_budget \<Rightarrow> nat \<Rightarrow> nat \<Rightarrow> bool" where
  "fits b n k \<longleftrightarrow> nodes b + n \<le> MAX_CANONICAL_JSON_NODES \<and>
     outputCodeUnits b + k \<le> MAX_CANONICAL_JSON_OUTPUT_CODE_UNITS"

lemma charge_simps [simp]:
  "nodes (charge b n k) = nodes b + n"
  "outputCodeUnits (charge b n k) = outputCodeUnits b + k"
  "charge (charge b n k) n' k' = charge b (n + n') (k + k')"
  "charge b 0 0 = b"
  "b\<lparr>nodes := Suc (nodes b)\<rparr> = charge b 1 0"
  "b\<lparr>nodes := nodes b + 1\<rparr> = charge b 1 0"
  by (simp_all add: charge_def add.assoc)

lemma fits_charge [simp]: "fits (charge b n k) n' k' \<longleftrightarrow> fits b (n + n') (k + k')"
  by (simp add: fits_def add.assoc)

lemma consumeOutputBudget_Inr [result_simps]:
  "consumeOutputBudget b n = Inr b' \<longleftrightarrow>
     outputCodeUnits b + n \<le> MAX_CANONICAL_JSON_OUTPUT_CODE_UNITS \<and> b' = charge b 0 n"
  by (auto simp: consumeOutputBudget_def charge_def Let_def)

lemma emit_Inr [result_simps]:
  "emit b t = Inr r \<longleftrightarrow> outputCodeUnits b + length t \<le> MAX_CANONICAL_JSON_OUTPUT_CODE_UNITS \<and>
     r = (t, charge b 0 (length t))"
  by (auto simp: emit_def result_simps)

lemma assertJsonStringBudget_Inr [result_simps]:
  "assertJsonStringBudget s = Inr u \<longleftrightarrow> length s \<le> MAX_CANONICAL_JSON_STRING_CODE_UNITS"
  by (simp add: assertJsonStringBudget_def result_simps)


definition serializes :: "(jstr \<Rightarrow> jstr) \<Rightarrow> jsval \<Rightarrow> bool" where
  "serializes nfc v \<longleftrightarrow> (\<forall>d b r. serializeCanonical nfc v d b = Inr r \<longleftrightarrow>
     json_ok nfc v \<and> d + jdepth v \<le> MAX_CANONICAL_JSON_DEPTH \<and>
     fits b (node_count v) (length (render v)) \<and>
     r = (render v, charge b (node_count v) (length (render v))))"

lemma serializesD:
  "serializes nfc v \<Longrightarrow> serializeCanonical nfc v d b = Inr r \<longleftrightarrow>
     json_ok nfc v \<and> d + jdepth v \<le> MAX_CANONICAL_JSON_DEPTH \<and>
     fits b (node_count v) (length (render v)) \<and>
     r = (render v, charge b (node_count v) (length (render v)))"
  unfolding serializes_def by blast

lemma serializeElements_iff:
  assumes "\<forall>x \<in> set xs. serializes nfc x" "fits b 0 0"
  shows "serializeElements nfc xs d b = Inr r \<longleftrightarrow>
     (\<forall>x \<in> set xs. json_ok nfc x \<and> d + jdepth x \<le> MAX_CANONICAL_JSON_DEPTH) \<and>
     fits b (sum_list (map node_count xs)) (sum_list (map (\<lambda>x. length (render x)) xs)) \<and>
     r = (map render xs,
          charge b (sum_list (map node_count xs)) (sum_list (map (\<lambda>x. length (render x)) xs)))"
  using assms
proof (induction xs arbitrary: b r)
  case Nil
  then show ?case by auto
next
  case (Cons x xs)
  have x: "serializes nfc x" and xs: "\<forall>x \<in> set xs. serializes nfc x"
    using Cons.prems by simp_all
  let ?b = "charge b (node_count x) (length (render x))"
  have "serializeElements nfc (x # xs) d b = Inr r \<longleftrightarrow>
      x \<noteq> JAccessor \<and> json_ok nfc x \<and> d + jdepth x \<le> MAX_CANONICAL_JSON_DEPTH \<and>
      fits b (node_count x) (length (render x)) \<and>
      (\<exists>es b'. serializeElements nfc xs d ?b = Inr (es, b') \<and> r = (render x # es, b'))"
    by (auto simp: result_simps serializesD [OF x])
  also have "\<dots> \<longleftrightarrow> json_ok nfc x \<and> d + jdepth x \<le> MAX_CANONICAL_JSON_DEPTH \<and>
      fits b (node_count x) (length (render x)) \<and>
      (\<exists>es b'. serializeElements nfc xs d ?b = Inr (es, b') \<and> r = (render x # es, b'))"
    by auto
  also have "\<dots> \<longleftrightarrow> json_ok nfc x \<and> d + jdepth x \<le> MAX_CANONICAL_JSON_DEPTH \<and>
      fits b (node_count x) (length (render x)) \<and>
     (\<forall>x \<in> set xs. json_ok nfc x \<and> d + jdepth x \<le> MAX_CANONICAL_JSON_DEPTH) \<and>
     fits ?b (sum_list (map node_count xs)) (sum_list (map (\<lambda>x. length (render x)) xs)) \<and>
     r = (render x # map render xs,
          charge ?b (sum_list (map node_count xs)) (sum_list (map (\<lambda>x. length (render x)) xs)))"
    using Cons.IH [OF xs, of ?b] by auto
  finally show ?case
    by (auto simp: fits_def)
qed

text \<open>A field is serialized after its key has been checked and charged.\<close>

lemma serializeFields_iff:
  assumes "\<forall>f \<in> set fs. serializes nfc (snd f)" "fits b 0 0"
  shows "serializeFields nfc fs d b = Inr r \<longleftrightarrow>
     (\<forall>f \<in> set fs. string_ok nfc (fst f) \<and> json_ok nfc (snd f) \<and>
        d + jdepth (snd f) \<le> MAX_CANONICAL_JSON_DEPTH) \<and>
     fits b (sum_list (map (\<lambda>f. node_count (snd f)) fs))
       (sum_list (map (\<lambda>f. length (field_text f)) fs)) \<and>
     r = (map field_text fs, charge b (sum_list (map (\<lambda>f. node_count (snd f)) fs))
       (sum_list (map (\<lambda>f. length (field_text f)) fs)))"
  using assms
proof (induction fs arbitrary: b r)
  case Nil
  then show ?case by auto
next
  case (Cons f fs)
  obtain k x where f: "f = (k, x)"
    by (cases f)
  have x: "serializes nfc x" and fs: "\<forall>f \<in> set fs. serializes nfc (snd f)"
    using Cons.prems f by simp_all
  let ?b = "charge b (node_count x) (length (field_text f))"
  have "serializeFields nfc (f # fs) d b = Inr r \<longleftrightarrow>
      string_ok nfc k \<and> json_ok nfc x \<and> d + jdepth x \<le> MAX_CANONICAL_JSON_DEPTH \<and>
      fits b (node_count x) (length (field_text f)) \<and>
      (\<exists>es b'. serializeFields nfc fs d ?b = Inr (es, b') \<and> r = (field_text f # es, b'))"
    by (auto simp: f result_simps serializesD [OF x] string_ok_def field_text_def fits_def Let_def
        add.assoc)
  also have "\<dots> \<longleftrightarrow> string_ok nfc k \<and> json_ok nfc x \<and> d + jdepth x \<le> MAX_CANONICAL_JSON_DEPTH \<and>
      fits b (node_count x) (length (field_text f)) \<and>
     (\<forall>f \<in> set fs. string_ok nfc (fst f) \<and> json_ok nfc (snd f) \<and>
        d + jdepth (snd f) \<le> MAX_CANONICAL_JSON_DEPTH) \<and>
     fits ?b (sum_list (map (\<lambda>f. node_count (snd f)) fs))
       (sum_list (map (\<lambda>f. length (field_text f)) fs)) \<and>
     r = (field_text f # map field_text fs,
          charge ?b (sum_list (map (\<lambda>f. node_count (snd f)) fs))
            (sum_list (map (\<lambda>f. length (field_text f)) fs)))"
    using Cons.IH [OF fs, of ?b] by auto
  finally show ?case
    by (auto simp: f fits_def)
qed

lemma serializes_leaf:
  assumes "\<And>sh xs. v \<noteq> JArr sh xs" "\<And>sh fs. v \<noteq> JObj sh fs"
  shows "serializes nfc v"
proof -
  consider "v = JNull" | b where "v = JBool b" | s where "v = JStr s" | i where "v = JNum (JInt i)"
    | "v = JNum JNegZero \<or> v = JNum JFrac \<or> v = JUndefined \<or> v = JOther \<or> v = JAccessor"
    using assms by (metis jnum.exhaust jsval.exhaust)
  then show ?thesis
    by cases
      (auto simp: serializes_def serializeCanonical.simps(1) Let_def result_simps string_ok_def fits_def)
qed

lemma fits_mono: "fits b n k \<Longrightarrow> n' \<le> n \<Longrightarrow> k' \<le> k \<Longrightarrow> fits b n' k'"
  by (simp add: fits_def)

lemma serializes_JArr:
  assumes "\<And>x. x \<in> set xs \<Longrightarrow> serializes nfc x"
  shows "serializes nfc (JArr sh xs)"
  unfolding serializes_def
proof (intro allI)
  fix d b r
  let ?k = "separators (length xs)" and ?n = "sum_list (map node_count xs)"
  let ?m = "sum_list (map (\<lambda>x. length (render x)) xs)"
  let ?b = "charge b 1 ?k"
  have "serializeCanonical nfc (JArr sh xs) d b = Inr r \<longleftrightarrow>
      sh = plain_shape \<and> d \<le> MAX_CANONICAL_JSON_DEPTH \<and> fits b (Suc (length xs)) ?k \<and>
      (\<exists>es b'. serializeElements nfc xs (d + 1) ?b = Inr (es, b') \<and>
         r = ([0x5b] @ joinComma es @ [0x5d], b'))"
    by (auto simp: serializeCanonical.simps(1) Let_def result_simps plain_shape_iff fits_def)
  also have "\<dots> \<longleftrightarrow> sh = plain_shape \<and> d \<le> MAX_CANONICAL_JSON_DEPTH \<and>
      fits b (Suc (length xs)) ?k \<and>
      (\<forall>x \<in> set xs. json_ok nfc x \<and> (d + 1) + jdepth x \<le> MAX_CANONICAL_JSON_DEPTH) \<and>
      fits ?b ?n ?m \<and> r = (render (JArr sh xs), charge ?b ?n ?m)"
  proof (cases "fits b (Suc (length xs)) ?k")
    case True
    then have "fits ?b 0 0"
      by (simp add: fits_def)
    from serializeElements_iff [OF _ this, of xs nfc "d + 1"] True assms show ?thesis
      by auto
  qed simp
  also have "\<dots> \<longleftrightarrow> json_ok nfc (JArr sh xs) \<and> d + jdepth (JArr sh xs) \<le> MAX_CANONICAL_JSON_DEPTH \<and>
      fits b (node_count (JArr sh xs)) (length (render (JArr sh xs))) \<and>
      r = (render (JArr sh xs),
        charge b (node_count (JArr sh xs)) (length (render (JArr sh xs))))"
    using length_le_sum_nodes [of xs "\<lambda>x. x"]
    by (auto simp: length_render_JArr depth_bound_iff fits_def simp del: render.simps)
  finally show "serializeCanonical nfc (JArr sh xs) d b = Inr r \<longleftrightarrow> \<dots>" .
qed

lemma serializes_JObj:
  assumes "\<And>f. f \<in> set fs \<Longrightarrow> serializes nfc (snd f)"
  shows "serializes nfc (JObj sh fs)"
  unfolding serializes_def
proof (intro allI)
  fix d b r
  let ?k = "separators (length fs)" and ?n = "sum_list (map (\<lambda>f. node_count (snd f)) fs)"
  let ?m = "sum_list (map (\<lambda>f. length (field_text f)) fs)"
  let ?b = "charge b 1 ?k"
  have "serializeCanonical nfc (JObj sh fs) d b = Inr r \<longleftrightarrow>
      sh = plain_shape \<and> d \<le> MAX_CANONICAL_JSON_DEPTH \<and> fits b (Suc (length fs)) ?k \<and>
      list_all (\<lambda>f. snd f \<noteq> JAccessor) fs \<and>
      (\<exists>es b'. serializeFields nfc (sort_key fst fs) (d + 1) ?b = Inr (es, b') \<and>
         r = ([0x7b] @ joinComma es @ [0x7d], b'))"
    by (auto simp: serializeCanonical.simps(1) Let_def result_simps plain_shape_iff fits_def)
  also have "\<dots> \<longleftrightarrow> sh = plain_shape \<and> d \<le> MAX_CANONICAL_JSON_DEPTH \<and>
      fits b (Suc (length fs)) ?k \<and> list_all (\<lambda>f. snd f \<noteq> JAccessor) fs \<and>
      (\<forall>f \<in> set fs. string_ok nfc (fst f) \<and> json_ok nfc (snd f) \<and>
         (d + 1) + jdepth (snd f) \<le> MAX_CANONICAL_JSON_DEPTH) \<and>
      fits ?b ?n ?m \<and> r = (render (JObj sh fs), charge ?b ?n ?m)"
  proof (cases "fits b (Suc (length fs)) ?k")
    case True
    then have "fits ?b 0 0"
      by (simp add: fits_def)
    from serializeFields_iff [OF _ this, of "sort_key fst fs" nfc "d + 1"] True assms show ?thesis
      by (auto simp: render_JObj sum_list_sort_key)
  qed simp
  also have "\<dots> \<longleftrightarrow> json_ok nfc (JObj sh fs) \<and> d + jdepth (JObj sh fs) \<le> MAX_CANONICAL_JSON_DEPTH \<and>
      fits b (node_count (JObj sh fs)) (length (render (JObj sh fs))) \<and>
      r = (render (JObj sh fs),
        charge b (node_count (JObj sh fs)) (length (render (JObj sh fs))))"
    using length_le_sum_nodes [of fs snd]
    by (auto simp: length_render_JObj depth_bound_iff fits_def list_all_iff)
  finally show "serializeCanonical nfc (JObj sh fs) d b = Inr r \<longleftrightarrow> \<dots>" .
qed

lemma serializes_all: "serializes nfc v"
proof (induction v)
  case (JArr sh xs)
  then show ?case by (rule serializes_JArr)
next
  case (JObj sh fs)
  then show ?case by (intro serializes_JObj) (metis snds.intros)
qed (simp_all add: serializes_leaf)

text \<open>The values that have a canonical text, budgets included.\<close>

definition canonicalizable :: "(jstr \<Rightarrow> jstr) \<Rightarrow> jsval \<Rightarrow> bool" where
  "canonicalizable nfc v \<longleftrightarrow>
     json_ok nfc v \<and> jdepth v \<le> MAX_CANONICAL_JSON_DEPTH \<and>
     node_count v \<le> MAX_CANONICAL_JSON_NODES \<and>
     length (render v) \<le> MAX_CANONICAL_JSON_OUTPUT_CODE_UNITS"

lemma canonicalizeJson_Inr [result_simps]:
  "canonicalizeJson nfc v = Inr s \<longleftrightarrow> canonicalizable nfc v \<and> s = render v"
  by (auto simp: canonicalizeJson_def canonicalizable_def result_simps fits_def
      serializesD [OF serializes_all])

section \<open>Properties\<close>

text \<open>C36. \<open>canonicalizeJson\<close> returns a text exactly for the values of the canonical subset (plain
  arrays and objects, NFC strings of at most 1 MiB code units with paired surrogates, safe
  integers other than negative zero) whose nodes lie at depth at most 64, which have at most
  100000 nodes and whose reference text has at most 16 MiB code units; and then it returns the
  reference text. The running budget checks therefore reject nothing that fits.\<close>

theorem canonicalizeJson_exact:
  "canonicalizeJson nfc v = Inr s \<longleftrightarrow>
     json_ok nfc v \<and> jdepth v \<le> 64 \<and> node_count v \<le> 100000 \<and>
     length (render v) \<le> 16777216 \<and> s = render v"
  by (auto simp: canonicalizeJson_Inr canonicalizable_def MAX_CANONICAL_JSON_DEPTH_def
      MAX_CANONICAL_JSON_NODES_def MAX_CANONICAL_JSON_OUTPUT_CODE_UNITS_def)

lemma sort_key_fst_perm:
  assumes "mset fs = mset gs" "distinct (map fst fs)"
  shows "sort_key fst fs = sort_key fst gs"
proof -
  have s: "set fs = set gs" by (rule mset_eq_setD [OF assms(1)])
  have "mset (map fst fs) = mset (map fst gs)" using assms(1) by simp
  then have d: "distinct (map fst gs)" using assms(2) mset_eq_imp_distinct_iff by blast
  have i: "inj_on fst (set gs)" using d by (simp add: distinct_map)
  show ?thesis
  proof (rule map_sorted_distinct_set_unique)
    show "inj_on fst (set (sort_key fst fs) \<union> set (sort_key fst gs))"
      using i s by simp
    show "distinct (map fst (sort_key fst fs))" 
      using assms(2) by (simp add: distinct_map)
    show "distinct (map fst (sort_key fst gs))"
      using d by (simp add: distinct_map)
    show "set (sort_key fst fs) = set (sort_key fst gs)"
      using s by simp
  qed simp_all
qed

text \<open>Insertion order of object keys is irrelevant: two records with the same fields canonicalize
  to the same text, or fail with the same error.\<close>

theorem canonicalizeJson_key_order:
  assumes "mset fs = mset gs" "distinct (map fst fs)"
  shows "canonicalizeJson nfc (JObj sh fs) = canonicalizeJson nfc (JObj sh gs)"
proof -
  have len: "length fs = length gs"
    using assms(1) by (rule mset_eq_length)
  have acc: "list_all (\<lambda>f. snd f \<noteq> JAccessor) fs = list_all (\<lambda>f. snd f \<noteq> JAccessor) gs"
    using mset_eq_setD [OF assms(1)] by (simp add: list_all_iff)
  show ?thesis
    by (simp only: canonicalizeJson_def serializeCanonical.simps(1) jsval.case len acc
        sort_key_fst_perm [OF assms])
qed

theorem canonicalizeJson_key_order_witness:
  "canonicalizeJson (\<lambda>s. s) (jobj [(js ''b'', JNull), (js ''a'', jint 7)]) =
   canonicalizeJson (\<lambda>s. s) (jobj [(js ''a'', jint 7), (js ''b'', JNull)])"
  by (rule canonicalizeJson_key_order) (simp_all add: js_def)

end
