(* ===== verification/Json_Parse.thy ===== *)
theory Json_Parse
  imports Canonical_Json "HOL-Library.Log_Nat"
begin

text \<open>
  \<open>parseCanonicalJson\<close> of \<open>canonical-json.ts\<close>: the lexical budget scan, \<open>JSON.parse\<close> of the standard
  library as a recursive-descent parser over code units, and the comparison with a fresh
  serialization. The scan and the parser are proved to accept every canonical text whose
  containers nest at most 64 deep and to return the value with its keys sorted.
\<close>

section \<open>JSON.parse\<close>

definition isJsonWhitespace :: "nat \<Rightarrow> bool" where
  "isJsonWhitespace u = (u = 0x20 \<or> u = 0x0a \<or> u = 0x0d \<or> u = 0x09)"

definition skipWs :: "jstr \<Rightarrow> jstr" where
  "skipWs s = dropWhile isJsonWhitespace s"

definition hexValue :: "nat \<Rightarrow> nat option" where
  "hexValue u =
     (if 48 \<le> u \<and> u \<le> 57 then Some (u - 48)
      else if 97 \<le> u \<and> u \<le> 102 then Some (u - 87)
      else if 65 \<le> u \<and> u \<le> 70 then Some (u - 55)
      else None)"

definition hexUnit :: "nat \<Rightarrow> nat \<Rightarrow> nat \<Rightarrow> nat \<Rightarrow> nat option" where
  "hexUnit a b c d =
     (case (hexValue a, hexValue b, hexValue c, hexValue d) of
        (Some w, Some x, Some y, Some z) \<Rightarrow> Some (w * 4096 + x * 256 + y * 16 + z)
      | _ \<Rightarrow> None)"

definition simpleEscape :: "nat \<Rightarrow> nat option" where
  "simpleEscape u =
     (if u = 0x22 \<or> u = 0x5c \<or> u = 0x2f then Some u
      else if u = 98 then Some 8
      else if u = 102 then Some 12
      else if u = 110 then Some 10
      else if u = 114 then Some 13
      else if u = 116 then Some 9
      else None)"

text \<open>The rest of a string literal after its opening quote.\<close>

fun parseStringBody :: "jstr \<Rightarrow> (jstr \<times> jstr) option" where
  "parseStringBody [] = None"
| "parseStringBody (c # cs) =
     (if c = 0x22 then Some ([], cs)
      else if c = 0x5c then
        (case cs of [] \<Rightarrow> None
         | e # es \<Rightarrow>
             if e = 117 then
               (case es of h1 # h2 # h3 # h4 # rest \<Rightarrow>
                  (case hexUnit h1 h2 h3 h4 of None \<Rightarrow> None
                   | Some u \<Rightarrow> map_option (\<lambda>(s, r). (u # s, r)) (parseStringBody rest))
                | _ \<Rightarrow> None)
             else (case simpleEscape e of None \<Rightarrow> None
                   | Some u \<Rightarrow> map_option (\<lambda>(s, r). (u # s, r)) (parseStringBody es)))
      else if c < 0x20 then None
      else map_option (\<lambda>(s, r). (c # s, r)) (parseStringBody cs))"

definition digitsValue :: "jstr \<Rightarrow> nat" where
  "digitsValue ds = foldl (\<lambda>n d. n * 10 + (d - 48)) 0 ds"

text \<open>Rounding of a positive ratio to the nearest double, ties to even: \<open>q * 2 ^ k\<close> with a 53-bit
  \<open>q\<close>, or a smaller \<open>q\<close> at the subnormal exponent.\<close>

definition roundHalfEven :: "nat \<Rightarrow> nat \<Rightarrow> nat" where
  "roundHalfEven n d =
     (let q = n div d; r = n mod d
      in if 2 * r < d then q else if 2 * r > d then q + 1 else if even q then q else q + 1)"

definition ratioToNumber :: "bool \<Rightarrow> nat \<Rightarrow> nat \<Rightarrow> jnum" where
  "ratioToNumber neg n d =
     (let k0 = int (floorlog 2 n) - int (floorlog 2 d) - 53;
          k1 = (if 2 ^ 53 * (d * 2 ^ nat k0) \<le> n * 2 ^ nat (- k0) then k0 + 1 else k0);
          k = max k1 (- 1074);
          q = roundHalfEven (n * 2 ^ nat (- k)) (d * 2 ^ nat k)
      in if n = 0 \<or> q = 0 then (if neg then JNegZero else JInt 0)
         else if 0 \<le> k then
           (if q * 2 ^ nat k < 2 ^ 1024
            then JInt ((if neg then -1 else 1) * int (q * 2 ^ nat k)) else JFrac)
         else if q mod 2 ^ nat (- k) = 0
           then JInt ((if neg then -1 else 1) * int (q div 2 ^ nat (- k)))
         else JFrac)"

text \<open>An integer literal below \<open>2 ^ 53\<close> is exact; every other literal is a rounded decimal ratio.\<close>

definition numberValue :: "bool \<Rightarrow> jstr \<Rightarrow> jstr \<Rightarrow> int \<Rightarrow> jnum" where
  "numberValue neg ds fs e =
     (let n = digitsValue ds in
      if fs = [] \<and> e = 0 \<and> n < 2 ^ 53
      then (if neg then (if n = 0 then JNegZero else JInt (- int n)) else JInt (int n))
      else (let m = digitsValue (ds @ fs); x = e - int (length fs)
            in ratioToNumber neg (m * 10 ^ nat x) (10 ^ nat (- x))))"

definition parseFraction :: "jstr \<Rightarrow> (jstr \<times> jstr) option" where
  "parseFraction s =
     (case s of [] \<Rightarrow> Some ([], [])
      | c # r \<Rightarrow>
          if c = 0x2e then
            (let ds = takeWhile isDigit r
             in if ds = [] then None else Some (ds, dropWhile isDigit r))
          else Some ([], s))"

definition parseExponent :: "jstr \<Rightarrow> (int \<times> jstr) option" where
  "parseExponent s =
     (case s of [] \<Rightarrow> Some (0, [])
      | c # r \<Rightarrow>
          if c = 101 \<or> c = 69 then
            (let neg = (r \<noteq> [] \<and> hd r = 45);
                 body = (if r \<noteq> [] \<and> (hd r = 43 \<or> hd r = 45) then tl r else r);
                 ds = takeWhile isDigit body
             in if ds = [] then None
                else Some ((if neg then -1 else 1) * int (digitsValue ds), dropWhile isDigit body))
          else Some (0, s))"

definition parseNumber :: "jstr \<Rightarrow> (jnum \<times> jstr) option" where
  "parseNumber s =
     (let neg = (s \<noteq> [] \<and> hd s = 45);
          body = (if neg then tl s else s);
          ds = takeWhile isDigit body
      in if ds = [] \<or> (hd ds = 48 \<and> length ds > 1) then None
         else case parseFraction (dropWhile isDigit body) of None \<Rightarrow> None
           | Some (fs, r) \<Rightarrow>
               (case parseExponent r of None \<Rightarrow> None
                | Some (e, r') \<Rightarrow> Some (numberValue neg ds fs e, r')))"

fun stripPrefix :: "jstr \<Rightarrow> jstr \<Rightarrow> jstr option" where
  "stripPrefix [] s = Some s"
| "stripPrefix (p # ps) [] = None"
| "stripPrefix (p # ps) (c # cs) = (if p = c then stripPrefix ps cs else None)"

lemma length_skipWs: "length (skipWs s) \<le> length s"
  by (simp add: skipWs_def length_dropWhile_le)

lemma skipWs_Cons_length: "skipWs s = c # cs \<Longrightarrow> length cs < length s"
  using length_skipWs [of s] by simp

lemma parseStringBody_length: "parseStringBody s = Some (t, r) \<Longrightarrow> length r < length s"
proof (induction s arbitrary: t r rule: parseStringBody.induct)
  case 1
  then show ?case by simp
next
  case (2 c cs)
  then show ?case
    by (auto split: if_splits list.splits option.splits prod.splits) (force dest: less_imp_le)+
qed

text \<open>The guards on lengths hold whenever a value was read (\<open>parseValue_length\<close>): they only make the
  recursion's progress visible.\<close>

function parseValue :: "jstr \<Rightarrow> (jsval \<times> jstr) option"
  and parseElements :: "jstr \<Rightarrow> (jsval list \<times> jstr) option"
  and parseMembers :: "jstr \<Rightarrow> (jstr \<times> jsval) list \<Rightarrow> ((jstr \<times> jsval) list \<times> jstr) option"
where
  "parseValue s0 =
     (case skipWs s0 of [] \<Rightarrow> None
      | c # cs \<Rightarrow>
          if c = 0x22 then map_option (\<lambda>(t, r). (JStr t, r)) (parseStringBody cs)
          else if c = 0x5b then
            (if skipWs cs \<noteq> [] \<and> hd (skipWs cs) = 0x5d then Some (jarr [], tl (skipWs cs))
             else map_option (\<lambda>(xs, r). (jarr xs, r)) (parseElements cs))
          else if c = 0x7b then
            (if skipWs cs \<noteq> [] \<and> hd (skipWs cs) = 0x7d then Some (jobj [], tl (skipWs cs))
             else map_option (\<lambda>(fs, r). (jobj fs, r)) (parseMembers cs []))
          else (case stripPrefix (js ''null'') (c # cs) of Some r \<Rightarrow> Some (JNull, r)
            | None \<Rightarrow> (case stripPrefix (js ''true'') (c # cs) of Some r \<Rightarrow> Some (JBool True, r)
            | None \<Rightarrow> (case stripPrefix (js ''false'') (c # cs) of Some r \<Rightarrow> Some (JBool False, r)
            | None \<Rightarrow> map_option (\<lambda>(n, r). (JNum n, r)) (parseNumber (c # cs))))))"
| "parseElements s =
     (case parseValue s of None \<Rightarrow> None
      | Some (v, r) \<Rightarrow>
          (case skipWs r of [] \<Rightarrow> None
           | c # cs \<Rightarrow>
               if \<not> length r < length s then None
               else if c = 0x5d then Some ([v], cs)
               else if c = 0x2c then map_option (\<lambda>(vs, r'). (v # vs, r')) (parseElements cs)
               else None))"
| "parseMembers s acc =
     (case skipWs s of [] \<Rightarrow> None
      | q # qs \<Rightarrow>
          if q \<noteq> 0x22 then None
          else case parseStringBody qs of None \<Rightarrow> None
            | Some (k, r1) \<Rightarrow>
                (case skipWs r1 of [] \<Rightarrow> None
                 | c # r2 \<Rightarrow>
                     if c \<noteq> 0x3a then None
                     else case parseValue r2 of None \<Rightarrow> None
                       | Some (v, r3) \<Rightarrow>
                           (case skipWs r3 of [] \<Rightarrow> None
                            | d # ds \<Rightarrow>
                                if \<not> length r3 < length r2 then None
                                else if d = 0x7d then Some (setOwn acc k v, ds)
                                else if d = 0x2c then parseMembers ds (setOwn acc k v)
                                else None)))"
  by pat_completeness auto
termination
  by (relation "measure (\<lambda>call. case call of
        Inl s \<Rightarrow> 2 * length s
      | Inr (Inl s) \<Rightarrow> 2 * length s + 1
      | Inr (Inr (s, acc)) \<Rightarrow> 2 * length s + 1)")
    (auto dest!: skipWs_Cons_length parseStringBody_length)

definition jsonParse :: "jstr \<Rightarrow> jsval option" where
  "jsonParse s =
     (case parseValue s of None \<Rightarrow> None
      | Some (v, r) \<Rightarrow> if skipWs r = [] then Some v else None)"

section \<open>The lexical budget and parseCanonicalJson\<close>

record text_scan =
  scanDepth :: int
  lexicalTokens :: nat
  inString :: bool
  inPrimitive :: bool
  stringCodeUnits :: nat

text \<open>The effect of one character outside strings.\<close>

definition scanCharacter :: "nat \<Rightarrow> text_scan \<Rightarrow> contract_error + text_scan" where
  "scanCharacter c st =
     (if c = 0x22 then
        Inr (st\<lparr>inString := True, inPrimitive := False, stringCodeUnits := 0,
                lexicalTokens := lexicalTokens st + 1\<rparr>)
      else if c = 0x7b \<or> c = 0x5b then
        (if scanDepth st + 1 > int MAX_CANONICAL_JSON_DEPTH
         then Inl (cjError ''Canonical JSON exceeds the depth budget'')
         else Inr (st\<lparr>inPrimitive := False, scanDepth := scanDepth st + 1,
                      lexicalTokens := lexicalTokens st + 1\<rparr>))
      else if c = 0x7d \<or> c = 0x5d then
        Inr (st\<lparr>inPrimitive := False, scanDepth := scanDepth st - 1\<rparr>)
      else if c = 0x2c \<or> c = 0x3a \<or> c = 0x20 \<or> c = 0x0a \<or> c = 0x0d \<or> c = 0x09 then
        Inr (st\<lparr>inPrimitive := False\<rparr>)
      else if \<not> inPrimitive st then
        Inr (st\<lparr>inPrimitive := True, lexicalTokens := lexicalTokens st + 1\<rparr>)
      else Inr st)"

text \<open>The characters an escape sequence skips: \<open>index += 5\<close> after \<open>\u\<close>, \<open>index += 1\<close> otherwise.\<close>

definition afterEscape :: "jstr \<Rightarrow> jstr" where
  "afterEscape cs = (if cs \<noteq> [] \<and> hd cs = 117 then drop 5 cs else drop 1 cs)"

function scanText :: "jstr \<Rightarrow> text_scan \<Rightarrow> contract_error + text_scan" where
  "scanText [] st = Inr st"
| "scanText (c # cs) st =
     (if inString st then
        (if c = 0x22 then scanText cs (st\<lparr>inString := False\<rparr>)
         else if stringCodeUnits st + 1 > MAX_CANONICAL_JSON_STRING_CODE_UNITS
         then Inl (cjError ''Canonical JSON string exceeds the size budget'')
         else scanText (if c = 0x5c then afterEscape cs else cs)
                (st\<lparr>stringCodeUnits := stringCodeUnits st + 1\<rparr>))
      else bindE (scanCharacter c st) (\<lambda>st'.
        if lexicalTokens st' > MAX_CANONICAL_JSON_LEXICAL_TOKENS
        then Inl (cjError ''Canonical JSON exceeds the node budget'')
        else scanText cs st'))"
  by pat_completeness auto
termination
  by (relation "measure (\<lambda>(s, st). length s)") (auto simp: afterEscape_def)

definition assertCanonicalJsonTextBudget :: "jstr \<Rightarrow> contract_error + unit" where
  "assertCanonicalJsonTextBudget input =
     bindE (guardE (length input \<le> MAX_CANONICAL_JSON_OUTPUT_CODE_UNITS)
       (cjError ''Canonical JSON input exceeds the size budget'')) (\<lambda>_.
     bindE (scanText input \<lparr>scanDepth = 0, lexicalTokens = 0, inString = False,
         inPrimitive = False, stringCodeUnits = 0\<rparr>) (\<lambda>_. Inr ()))"

definition parseCanonicalJson :: "(jstr \<Rightarrow> jstr) \<Rightarrow> jstr \<Rightarrow> contract_error + jsval" where
  "parseCanonicalJson nfc input =
     bindE (assertCanonicalJsonTextBudget input) (\<lambda>_.
     case jsonParse input of
       None \<Rightarrow> Inl (cjError ''Canonical JSON input is not valid JSON'')
     | Some parsed \<Rightarrow>
         bindE (canonicalizeJson nfc parsed) (\<lambda>canonical.
         bindE (guardE (canonical = input)
           (cjError ''JSON input is not in exact canonical form'')) (\<lambda>_.
         Inr parsed)))"

declare parseValue.simps [simp del] parseElements.simps [simp del] parseMembers.simps [simp del]

section \<open>Reading back strings and numbers\<close>

lemma hexUnit_quote: "u < 0x20 \<Longrightarrow> hexUnit 48 48 (hexDigit (u div 16)) (hexDigit (u mod 16)) = Some u"
proof -
  assume "u < 0x20"
  have "hexValue (hexDigit n) = Some n" if "n < 16" for n
    using that by (auto simp: hexValue_def hexDigit_def)
  moreover have "u div 16 < 16" "u mod 16 < 16" "u div 16 * 16 + u mod 16 = u"
    using \<open>u < 0x20\<close> by simp_all
  moreover have "hexValue 48 = Some 0"
    by (simp add: hexValue_def)
  ultimately show ?thesis
    by (simp add: hexUnit_def)
qed

lemma quoteUnit_cases:
  obtains (plain) "quoteUnit u = [u]" "u \<noteq> 0x22" "u \<noteq> 0x5c" "0x20 \<le> u"
  | (simple) e where "quoteUnit u = [0x5c, e]" "e \<noteq> 117" "simpleEscape e = Some u"
  | (hex) "quoteUnit u = [0x5c, 117, 48, 48, hexDigit (u div 16), hexDigit (u mod 16)]" "u < 0x20"
proof -
  consider "u = 0x22" | "u = 0x5c" | "u = 8" | "u = 9" | "u = 10" | "u = 12" | "u = 13"
    | "u \<notin> {0x22, 0x5c, 8, 9, 10, 12, 13}" "u < 0x20"
    | "u \<notin> {0x22, 0x5c}" "0x20 \<le> u"
    by (cases "u < 0x20") auto
  then show thesis
    by cases (auto simp: quoteUnit_def js_def simpleEscape_def
        intro: plain simple hex)
qed

lemma parseStringBody_quoteUnit:
  "parseStringBody (quoteUnit u @ rest) = map_option (\<lambda>(s, r). (u # s, r)) (parseStringBody rest)"
  by (cases u rule: quoteUnit_cases) (simp_all add: hexUnit_quote)

lemma parseStringBody_quoted:
  "parseStringBody (concat (map quoteUnit s) @ 0x22 # rest) = Some (s, rest)"
  by (induction s) (simp_all add: parseStringBody_quoteUnit)

lemma digitsValue_snoc: "digitsValue (ds @ [d]) = digitsValue ds * 10 + (d - 48)"
  by (simp add: digitsValue_def)

lemma digitsValue_decDigits [simp]: "digitsValue (decDigits n) = n"
proof (induction n rule: decDigits.induct)
  case (1 n)
  show ?case
  proof (cases "n < 10")
    case True
    then show ?thesis
      by (simp add: decDigits.simps [of n] digitsValue_def)
  next
    case False
    then show ?thesis
      using 1 by (simp add: decDigits.simps [of n] digitsValue_snoc)
  qed
qed

lemma hd_decDigits: "hd (decDigits n) = 48 \<longleftrightarrow> n = 0"
proof (induction n rule: decDigits.induct)
  case (1 n)
  show ?case
  proof (cases "n < 10")
    case False
    then show ?thesis
      using 1 by (simp add: decDigits.simps [of n])
  qed (simp add: decDigits.simps [of n])
qed

lemma decDigits_0: "decDigits 0 = [48]"
  by (simp add: decDigits.simps)

lemma decDigits_no_leading_zero: "\<not> (hd (decDigits n) = 48 \<and> length (decDigits n) > 1)"
  by (auto simp: hd_decDigits decDigits_0)

text \<open>What may follow a value inside a canonical text.\<close>

definition value_end :: "jstr \<Rightarrow> bool" where
  "value_end rest \<longleftrightarrow> rest = [] \<or> hd rest \<in> {0x2c, 0x5d, 0x7d}"

lemma value_end_simps [simp]:
  "value_end []" "value_end (0x2c # r)" "value_end (0x5d # r)" "value_end (0x7d # r)"
  by (simp_all add: value_end_def)

lemma takeWhile_decDigits:
  assumes "value_end rest"
  shows "takeWhile isDigit (decDigits n @ rest) = decDigits n"
    and "dropWhile isDigit (decDigits n @ rest) = rest"
proof -
  have "\<forall>u \<in> set (decDigits n). isDigit u"
    using decDigits_digits [of n] by (simp add: list_all_iff isDigit_def)
  moreover have "takeWhile isDigit rest = [] \<and> dropWhile isDigit rest = rest"
    using assms by (cases rest) (auto simp: value_end_def isDigit_def)
  ultimately show "takeWhile isDigit (decDigits n @ rest) = decDigits n"
    and "dropWhile isDigit (decDigits n @ rest) = rest"
    by simp_all
qed

lemma parse_no_fraction:
  assumes "value_end rest"
  shows "parseFraction rest = Some ([], rest)" "parseExponent rest = Some (0, rest)"
  using assms by (cases rest; auto simp: parseFraction_def parseExponent_def value_end_def)+

lemma decDigits_not_minus: "hd (decDigits n) \<noteq> 45"
  using decDigits_digits [of n] by (cases "decDigits n") auto

lemma parseNumber_decInt:
  assumes "safe_int i" "value_end rest"
  shows "parseNumber (decInt i @ rest) = Some (JInt i, rest)"
proof -
  have "numberValue (i < 0) (decDigits (nat \<bar>i\<bar>)) [] 0 = JInt i"
    using assms(1) by (auto simp: numberValue_def safe_int_def MAX_SAFE_INTEGER_def Let_def)
  then show ?thesis
    using decDigits_no_leading_zero [of "nat \<bar>i\<bar>"] decDigits_not_minus [of "nat \<bar>i\<bar>"]
    by (auto simp: parseNumber_def decInt_def takeWhile_decDigits [OF assms(2)]
        parse_no_fraction [OF assms(2)] Let_def hd_append)
qed

section \<open>Reading back values\<close>

fun sortFields :: "jsval \<Rightarrow> jsval" where
  "sortFields (JArr sh xs) = JArr sh (map sortFields xs)"
| "sortFields (JObj sh fs) = JObj sh (sort_key fst (map (\<lambda>f. (fst f, sortFields (snd f))) fs))"
| "sortFields v = v"

fun wf_jsval :: "jsval \<Rightarrow> bool" where
  "wf_jsval (JArr sh xs) = (\<forall>x \<in> set xs. wf_jsval x)"
| "wf_jsval (JObj sh fs) = (distinct (map fst fs) \<and> (\<forall>f \<in> set fs. wf_jsval (snd f)))"
| "wf_jsval v = True"

lemma stripPrefix_append [simp]: "stripPrefix p (p @ s) = Some s"
  by (induction p) auto

lemma decInt_not_special:
  "decInt i \<noteq> []"
  "hd (decInt i) \<notin> {0x22, 0x5b, 0x7b, 0x5d, 0x7d, 110, 116, 102, 0x20, 0x0a, 0x0d, 0x09}"
proof -
  show "decInt i \<noteq> []"
    by (simp add: decInt_def)
  have "hd (decInt i) = 45 \<or> 48 \<le> hd (decInt i) \<and> hd (decInt i) \<le> 57"
    using decDigits_digits [of "nat i"]
    by (cases "decDigits (nat i)") (auto simp: decInt_def)
  then show "hd (decInt i) \<notin> {0x22, 0x5b, 0x7b, 0x5d, 0x7d, 110, 116, 102, 0x20, 0x0a, 0x0d, 0x09}"
    by auto
qed

lemma render_head:
  assumes "json_ok nfc v"
  shows "render v \<noteq> []" "\<not> isJsonWhitespace (hd (render v))" "hd (render v) \<noteq> 0x5d"
    "hd (render v) \<noteq> 0x7d"
proof -
  have "render v \<noteq> [] \<and> hd (render v) \<notin> {0x5d, 0x7d, 0x20, 0x0a, 0x0d, 0x09}"
    using assms decInt_not_special
    by (cases "(nfc, v)" rule: json_ok.cases) (auto simp: js_def jsonQuote_def render_JObj)
  then show "render v \<noteq> []" "\<not> isJsonWhitespace (hd (render v))" "hd (render v) \<noteq> 0x5d"
    "hd (render v) \<noteq> 0x7d"
    by (auto simp: isJsonWhitespace_def)
qed

lemma skipWs_id: "s \<noteq> [] \<Longrightarrow> \<not> isJsonWhitespace (hd s) \<Longrightarrow> skipWs s = s"
  by (cases s) (simp_all add: skipWs_def)

lemma skipWs_punct [simp]:
  "skipWs (0x22 # r) = 0x22 # r" "skipWs (0x2c # r) = 0x2c # r" "skipWs (0x3a # r) = 0x3a # r"
  "skipWs (0x5b # r) = 0x5b # r" "skipWs (0x5d # r) = 0x5d # r" "skipWs (0x7b # r) = 0x7b # r"
  "skipWs (0x7d # r) = 0x7d # r" "skipWs [] = []"
  by (simp_all add: skipWs_def isJsonWhitespace_def)

definition parses :: "jsval \<Rightarrow> bool" where
  "parses v \<longleftrightarrow> (\<forall>rest. value_end rest \<longrightarrow> parseValue (render v @ rest) = Some (sortFields v, rest))"

lemma parsesD: "parses v \<Longrightarrow> value_end rest \<Longrightarrow> parseValue (render v @ rest) = Some (sortFields v, rest)"
  by (simp add: parses_def)

lemma parseElements_render:
  assumes "xs \<noteq> []" "\<forall>x \<in> set xs. parses x \<and> json_ok nfc x"
  shows "parseElements (joinComma (map render xs) @ 0x5d # rest) = Some (map sortFields xs, rest)"
  using assms
proof (induction xs rule: induct_list012)
  case 1
  then show ?case by simp
next
  case (2 x)
  then show ?case
    using render_head(1) [of nfc x]
    by (subst parseElements.simps) (simp add: parsesD)
next
  case (3 x y zs)
  then have "parseElements (joinComma (map render (y # zs)) @ 0x5d # rest) =
      Some (map sortFields (y # zs), rest)"
    by simp
  then show ?case
    using 3 render_head(1) [of nfc x]
    by (subst parseElements.simps) (simp add: parsesD)
qed

lemma setOwn_fresh: "k \<notin> fst ` set acc \<Longrightarrow> setOwn acc k v = acc @ [(k, v)]"
  unfolding setOwn_def by (induction acc) auto

lemma parseMembers_render:
  assumes "fs \<noteq> []" "\<forall>f \<in> set fs. parses (snd f) \<and> json_ok nfc (snd f)"
    and "distinct (map fst (acc @ fs))"
  shows "parseMembers (joinComma (map field_text fs) @ 0x7d # rest) acc =
           Some (acc @ map (\<lambda>f. (fst f, sortFields (snd f))) fs, rest)"
  using assms
proof (induction fs arbitrary: acc rule: induct_list012)
  case 1
  then show ?case by simp
next
  case (2 f)
  then show ?case
    using render_head(1) [of nfc "snd f"] parsesD [of "snd f" "0x7d # rest"]
    by (subst parseMembers.simps)
      (simp add: field_text_def jsonQuote_def parseStringBody_quoted setOwn_fresh)
next
  case (3 f g hs)
  let ?acc = "acc @ [(fst f, sortFields (snd f))]"
  have "parseMembers (joinComma (map field_text (g # hs)) @ 0x7d # rest) ?acc =
      Some (?acc @ map (\<lambda>f. (fst f, sortFields (snd f))) (g # hs), rest)"
    using 3(4,5) by (intro 3(2)) auto
  moreover have "setOwn acc (fst f) (sortFields (snd f)) = ?acc"
    using 3(5) by (intro setOwn_fresh) auto
  ultimately show ?case
    using 3(4) render_head(1) [of nfc "snd f"]
      parsesD [of "snd f" "0x2c # joinComma (map field_text (g # hs)) @ 0x7d # rest"]
    by (subst parseMembers.simps) (simp add: field_text_def [of f] jsonQuote_def parseStringBody_quoted)
qed

lemma hd_joinComma: "xs \<noteq> [] \<Longrightarrow> hd xs \<noteq> [] \<Longrightarrow> joinComma xs \<noteq> [] \<and> hd (joinComma xs) = hd (hd xs)"
  by (cases xs rule: joinComma.cases) auto

lemma parses_leaf:
  assumes "json_ok nfc v" "\<And>sh xs. v \<noteq> JArr sh xs" "\<And>sh fs. v \<noteq> JObj sh fs"
  shows "parses v"
  unfolding parses_def
proof (intro allI impI)
  fix rest assume rest: "value_end rest"
  consider "v = JNull" | b where "v = JBool b" | s where "v = JStr s"
    | i where "v = JNum (JInt i)" "safe_int i"
    using assms by (cases "(nfc, v)" rule: json_ok.cases) auto
  then show "parseValue (render v @ rest) = Some (sortFields v, rest)"
  proof cases
    case 1
    then show ?thesis
      using stripPrefix_append [of "js ''null''" rest]
      by (subst parseValue.simps) (simp add: js_def skipWs_def isJsonWhitespace_def)
  next
    case (2 b)
    then show ?thesis
      using stripPrefix_append [of "js ''true''" rest] stripPrefix_append [of "js ''false''" rest]
      by (subst parseValue.simps) (simp add: js_def skipWs_def isJsonWhitespace_def)
  next
    case (3 s)
    then show ?thesis
      by (subst parseValue.simps) (simp add: jsonQuote_def parseStringBody_quoted)
  next
    case (4 i)
    obtain c cs where cs: "decInt i @ rest = c # cs" "c = hd (decInt i)"
      using decInt_not_special(1) [of i] by (cases "decInt i") auto
    then have "skipWs (decInt i @ rest) = c # cs"
      using decInt_not_special [of i] by (simp add: skipWs_def isJsonWhitespace_def)
    then show ?thesis
      using 4 cs decInt_not_special(2) [of i] parseNumber_decInt [of i rest] rest
      by (subst parseValue.simps) (simp add: js_def)
  qed
qed

lemma parses_JArr:
  assumes "\<forall>x \<in> set xs. parses x \<and> json_ok nfc x"
  shows "parses (jarr xs)"
  unfolding parses_def
proof (intro allI impI)
  fix rest
  show "parseValue (render (jarr xs) @ rest) = Some (sortFields (jarr xs), rest)"
  proof (cases "xs = []")
    case True
    then show ?thesis
      by (subst parseValue.simps) simp
  next
    case False
    let ?t = "joinComma (map render xs) @ 0x5d # rest"
    have x: "json_ok nfc (hd xs)"
      using False assms by (cases xs) auto
    have "?t \<noteq> [] \<and> hd ?t = hd (render (hd xs))"
      using hd_joinComma [of "map render xs"] False render_head(1) [OF x] by (simp add: hd_map)
    then have "skipWs ?t = ?t" "hd ?t \<noteq> 0x5d"
      using render_head [OF x] skipWs_id [of ?t] by simp_all
    then show ?thesis
      using parseElements_render [of xs nfc rest] False assms
      by (subst parseValue.simps) simp
  qed
qed

lemma sort_key_fst_eq_Nil [simp]: "sort_key fst fs = [] \<longleftrightarrow> fs = []"
  by (metis length_0_conv length_sort)

lemma parses_JObj:
  assumes "\<forall>f \<in> set fs. parses (snd f) \<and> json_ok nfc (snd f)" "distinct (map fst fs)"
  shows "parses (jobj fs)"
  unfolding parses_def
proof (intro allI impI)
  fix rest
  show "parseValue (render (jobj fs) @ rest) = Some (sortFields (jobj fs), rest)"
  proof (cases "fs = []")
    case True
    then show ?thesis
      by (subst parseValue.simps) (simp add: render_JObj)
  next
    case False
    let ?fs = "sort_key fst fs"
    let ?t = "joinComma (map field_text ?fs) @ 0x7d # rest"
    have "?fs \<noteq> []"
      using False by simp
    then have "?t \<noteq> [] \<and> hd ?t = 0x22"
      using hd_joinComma [of "map field_text ?fs"]
      by (simp add: hd_map field_text_def jsonQuote_def)
    then have "skipWs ?t = ?t" "hd ?t \<noteq> 0x7d"
      using skipWs_id [of ?t] by (simp_all add: isJsonWhitespace_def)
    moreover have "distinct (map fst ?fs)"
      using assms(2) by (metis mset_map mset_sort mset_eq_imp_distinct_iff)
    ultimately show ?thesis
      using parseMembers_render [of ?fs nfc "[]" rest] \<open>?fs \<noteq> []\<close> assms(1)
      by (subst parseValue.simps) (simp add: render_JObj sort_key_fst_map)
  qed
qed

lemma parses_render: "json_ok nfc v \<Longrightarrow> wf_jsval v \<Longrightarrow> parses v"
proof (induction v)
  case (JArr sh xs)
  then show ?case using parses_JArr [of xs nfc] by auto
next
  case (JObj sh fs)
  then have "\<forall>f \<in> set fs. parses (snd f) \<and> json_ok nfc (snd f)"
    by (auto simp: snds.simps)
  with JObj show ?case using parses_JObj [of fs nfc] by auto
qed (auto intro: parses_leaf)

lemma jsonParse_render:
  "json_ok nfc v \<Longrightarrow> wf_jsval v \<Longrightarrow> jsonParse (render v) = Some (sortFields v)"
  using parsesD [OF parses_render, of nfc v "[]"] by (simp add: jsonParse_def)

lemma render_inj:
  assumes "json_ok nfc v" "json_ok nfc w" "wf_jsval v" "wf_jsval w" "render v = render w"
  shows "sortFields v = sortFields w"
  using jsonParse_render [OF assms(1,3)] jsonParse_render [OF assms(2,4)] assms(5) by simp

section \<open>The lexical scan accepts canonical texts\<close>

fun lexemes :: "jsval \<Rightarrow> nat" where
  "lexemes (JArr _ xs) = Suc (sum_list (map lexemes xs))"
| "lexemes (JObj _ fs) = Suc (sum_list (map (\<lambda>f. Suc (lexemes (snd f))) fs))"
| "lexemes _ = 1"

fun nesting :: "jsval \<Rightarrow> nat" where
  "nesting (JArr _ xs) = Suc (foldr max (map nesting xs) 0)"
| "nesting (JObj _ fs) = Suc (foldr max (map (\<lambda>f. nesting (snd f)) fs) 0)"
| "nesting _ = 0"

lemma lexemes_pos [simp]: "0 < lexemes v"
  by (cases v) auto

lemma sum_list_mono_Suc: "(\<And>x. x \<in> set xs \<Longrightarrow> Suc (f x) \<le> 2 * g x) \<Longrightarrow>
    sum_list (map (\<lambda>x. Suc (f x)) xs) \<le> 2 * sum_list (map g xs)"
proof (induction xs)
  case (Cons x xs)
  then have "Suc (f x) \<le> 2 * g x" "sum_list (map (\<lambda>x. Suc (f x)) xs) \<le> 2 * sum_list (map g xs)"
    by auto
  then show ?case by simp
qed simp

lemma sum_list_Suc_ge: "sum_list (map f xs) \<le> sum_list (map (\<lambda>x. Suc (f x)) xs)"
  by (induction xs) auto

lemma lexemes_le_nodes: "Suc (lexemes v) \<le> 2 * node_count v"
proof (induction v)
  case (JArr sh xs)
  then show ?case
    using sum_list_mono_Suc [of xs lexemes node_count] sum_list_Suc_ge [of lexemes xs] by simp
next
  case (JObj sh fs)
  then have "\<And>f. f \<in> set fs \<Longrightarrow> Suc (lexemes (snd f)) \<le> 2 * node_count (snd f)"
    by (metis snds.intros)
  then show ?case
    using sum_list_mono_Suc [of fs "\<lambda>f. lexemes (snd f)" "\<lambda>f. node_count (snd f)"] by simp
qed auto

lemma scanText_string:
  assumes "stringCodeUnits st + length s \<le> MAX_CANONICAL_JSON_STRING_CODE_UNITS" "inString st"
  shows "scanText (concat (map quoteUnit s) @ 0x22 # rest) st =
     scanText rest (st\<lparr>inString := False, stringCodeUnits := stringCodeUnits st + length s\<rparr>)"
  using assms
proof (induction s arbitrary: st)
  case Nil
  then show ?case by simp
next
  case (Cons u s)
  let ?st = "st\<lparr>stringCodeUnits := Suc (stringCodeUnits st)\<rparr>"
  have "scanText (quoteUnit u @ concat (map quoteUnit s) @ 0x22 # rest) st =
      scanText (concat (map quoteUnit s) @ 0x22 # rest) ?st"
    using Cons.prems
    by (cases u rule: quoteUnit_cases) (auto simp: afterEscape_def)
  then show ?case
    using Cons.IH [of ?st] Cons.prems by simp
qed

definition primitive_char :: "nat \<Rightarrow> bool" where
  "primitive_char c \<longleftrightarrow>
     c \<notin> {0x22, 0x7b, 0x5b, 0x7d, 0x5d, 0x2c, 0x3a, 0x20, 0x0a, 0x0d, 0x09}"

lemma scanText_in_primitive:
  assumes "\<not> inString st" "inPrimitive st" "list_all primitive_char s"
    "lexicalTokens st \<le> MAX_CANONICAL_JSON_LEXICAL_TOKENS"
  shows "scanText (s @ rest) st = scanText rest st"
  using assms(3) by (induction s) (use assms in \<open>auto simp: scanCharacter_def primitive_char_def\<close>)

lemma scanText_primitive:
  assumes "\<not> inString st" "\<not> inPrimitive st" "list_all primitive_char s" "s \<noteq> []"
    "Suc (lexicalTokens st) \<le> MAX_CANONICAL_JSON_LEXICAL_TOKENS"
  shows "scanText (s @ rest) st =
     scanText rest (st\<lparr>inPrimitive := True, lexicalTokens := Suc (lexicalTokens st)\<rparr>)"
proof -
  let ?st = "st\<lparr>inPrimitive := True, lexicalTokens := Suc (lexicalTokens st)\<rparr>"
  obtain c cs where s: "s = c # cs"
    using assms(4) by (cases s) auto
  then have "scanText (s @ rest) st = scanText (cs @ rest) ?st"
    using assms by (auto simp: scanCharacter_def primitive_char_def)
  also have "\<dots> = scanText rest ?st"
    using assms s by (intro scanText_in_primitive) auto
  finally show ?thesis .
qed

text \<open>Scanning the text of a value adds its tokens and nothing else that the rest of the scan can
  see, except that a primitive stays open until the next punctuation.\<close>

definition scans :: "jsval \<Rightarrow> bool" where
  "scans v \<longleftrightarrow> (\<forall>rest st. \<not> inString st \<longrightarrow> \<not> inPrimitive st \<longrightarrow>
     scanDepth st + int (nesting v) \<le> int MAX_CANONICAL_JSON_DEPTH \<longrightarrow>
     lexicalTokens st + lexemes v \<le> MAX_CANONICAL_JSON_LEXICAL_TOKENS \<longrightarrow>
     (\<exists>p u. scanText (render v @ rest) st =
        scanText rest (st\<lparr>lexicalTokens := lexicalTokens st + lexemes v, inPrimitive := p,
                          stringCodeUnits := u\<rparr>)))"

lemma decInt_primitive: "list_all primitive_char (decInt i)"
proof -
  have "list_all primitive_char (decDigits n)" for n
    using decDigits_digits [of n]
    by (rule list.pred_mono_strong) (auto simp: primitive_char_def)
  then show ?thesis
    by (simp add: decInt_def primitive_char_def)
qed

lemma scans_leaf:
  assumes "json_ok nfc v" "\<And>sh xs. v \<noteq> JArr sh xs" "\<And>sh fs. v \<noteq> JObj sh fs"
  shows "scans v"
  unfolding scans_def
proof (intro allI impI)
  fix rest and st :: text_scan
  assume st: "\<not> inString st" "\<not> inPrimitive st"
    "lexicalTokens st + lexemes v \<le> MAX_CANONICAL_JSON_LEXICAL_TOKENS"
  consider "v = JNull" | b where "v = JBool b" | s where "v = JStr s"
    "length s \<le> MAX_CANONICAL_JSON_STRING_CODE_UNITS" | i where "v = JNum (JInt i)"
    using assms by (cases "(nfc, v)" rule: json_ok.cases) (auto simp: string_ok_def)
  then have "lexemes v = 1 \<and> (list_all primitive_char (render v) \<and> render v \<noteq> [] \<or>
      (\<exists>s. v = JStr s \<and> length s \<le> MAX_CANONICAL_JSON_STRING_CODE_UNITS))"
    by cases (auto simp: js_def primitive_char_def decInt_primitive decInt_not_special)
  then show "\<exists>p u. scanText (render v @ rest) st =
      scanText rest (st\<lparr>lexicalTokens := lexicalTokens st + lexemes v, inPrimitive := p,
                        stringCodeUnits := u\<rparr>)"
  proof (elim conjE disjE exE)
    assume "lexemes v = 1" "list_all primitive_char (render v)" "render v \<noteq> []"
    then show ?thesis
      using st scanText_primitive [of st "render v" rest]
      by (intro exI [of _ True] exI [of _ "stringCodeUnits st"]) (cases st, simp)
  next
    fix s assume s: "lexemes v = 1" "v = JStr s" "length s \<le> MAX_CANONICAL_JSON_STRING_CODE_UNITS"
    let ?st = "st\<lparr>inString := True, inPrimitive := False, stringCodeUnits := 0,
        lexicalTokens := Suc (lexicalTokens st)\<rparr>"
    show ?thesis
      using st s scanText_string [of ?st s rest]
      by (intro exI [of _ False] exI [of _ "length s"])
        (cases st, simp add: jsonQuote_def scanCharacter_def)
  qed
qed

declare scanText.simps(2) [simp del]

abbreviation scanned :: "text_scan \<Rightarrow> nat \<Rightarrow> bool \<Rightarrow> nat \<Rightarrow> text_scan" where
  "scanned st n p u \<equiv>
     st\<lparr>lexicalTokens := lexicalTokens st + n, inPrimitive := p, stringCodeUnits := u\<rparr>"

lemma scansD:
  assumes "scans v" "\<not> inString st" "\<not> inPrimitive st"
    "scanDepth st + int (nesting v) \<le> int MAX_CANONICAL_JSON_DEPTH"
    "lexicalTokens st + lexemes v \<le> MAX_CANONICAL_JSON_LEXICAL_TOKENS"
  shows "\<exists>p u. scanText (render v @ rest) st = scanText rest (scanned st (lexemes v) p u)"
  using assms unfolding scans_def by blast

lemma scanText_close:
  assumes "c = 0x5d \<or> c = 0x7d" "\<not> inString st"
    "lexicalTokens st \<le> MAX_CANONICAL_JSON_LEXICAL_TOKENS"
  shows "scanText (c # rest) st =
     scanText rest (st\<lparr>inPrimitive := False, scanDepth := scanDepth st - 1\<rparr>)"
  using assms by (auto simp: scanText.simps(2) scanCharacter_def)

lemma scanText_comma:
  assumes "\<not> inString st" "lexicalTokens st \<le> MAX_CANONICAL_JSON_LEXICAL_TOKENS"
  shows "scanText (0x2c # rest) st = scanText rest (st\<lparr>inPrimitive := False\<rparr>)"
  using assms by (auto simp: scanText.simps(2) scanCharacter_def)

lemma scanText_elements:
  assumes "\<forall>x \<in> set xs. scans x \<and> scanDepth st + int (nesting x) \<le> int MAX_CANONICAL_JSON_DEPTH"
    "\<not> inString st" "\<not> inPrimitive st"
    "lexicalTokens st + sum_list (map lexemes xs) \<le> MAX_CANONICAL_JSON_LEXICAL_TOKENS"
  shows "\<exists>u. scanText (joinComma (map render xs) @ 0x5d # rest) st =
     scanText rest ((scanned st (sum_list (map lexemes xs)) False u)\<lparr>scanDepth := scanDepth st - 1\<rparr>)"
  using assms
proof (induction xs arbitrary: st rule: induct_list012)
  case 1
  then show ?case
    by (intro exI [of _ "stringCodeUnits st"]) (cases st, simp add: scanText_close)
next
  case (2 x)
  then obtain p u where "scanText (render x @ 0x5d # rest) st =
      scanText (0x5d # rest) (scanned st (lexemes x) p u)"
    using scansD [of x st "0x5d # rest"] by auto
  then show ?case
    using 2 by (intro exI [of _ u]) (cases st, simp add: scanText_close)
next
  case (3 x y zs)
  let ?t = "joinComma (map render (y # zs)) @ 0x5d # rest"
  obtain p u where step: "scanText (render x @ 0x2c # ?t) st =
      scanText (0x2c # ?t) (scanned st (lexemes x) p u)"
    using 3(3-6) scansD [of x st "0x2c # ?t"] by auto
  let ?st = "scanned st (lexemes x) False u"
  have "scanText (0x2c # ?t) (scanned st (lexemes x) p u) = scanText ?t ?st"
    using 3(4,6) by (cases st) (simp add: scanText_comma)
  moreover obtain u' where "scanText ?t ?st = scanText rest
      ((scanned ?st (sum_list (map lexemes (y # zs))) False u')\<lparr>scanDepth := scanDepth ?st - 1\<rparr>)"
    using 3(2) [of ?st] 3(3-6) by auto
  ultimately show ?case
    using step by (intro exI [of _ u']) (cases st, simp add: add.assoc)
qed

lemma scans_JArr:
  assumes "\<forall>x \<in> set xs. scans x"
  shows "scans (JArr sh xs)"
  unfolding scans_def
proof (intro allI impI)
  fix rest and st :: text_scan
  assume st: "\<not> inString st" "\<not> inPrimitive st"
    "scanDepth st + int (nesting (JArr sh xs)) \<le> int MAX_CANONICAL_JSON_DEPTH"
    "lexicalTokens st + lexemes (JArr sh xs) \<le> MAX_CANONICAL_JSON_LEXICAL_TOKENS"
  let ?st = "st\<lparr>inPrimitive := False, scanDepth := scanDepth st + 1,
      lexicalTokens := Suc (lexicalTokens st)\<rparr>"
  have "scanText (render (JArr sh xs) @ rest) st =
      scanText (joinComma (map render xs) @ 0x5d # rest) ?st"
    using st by (simp add: scanText.simps(2) scanCharacter_def)
  moreover have "scanDepth ?st + int (nesting x) \<le> int MAX_CANONICAL_JSON_DEPTH" if "x \<in> set xs" for x
  proof -
    have "nesting x \<le> foldr max (map nesting xs) 0"
      using that foldr_max_le [of "map nesting xs"] by auto
    then show ?thesis
      using st(3) by simp
  qed
  then obtain u where "scanText (joinComma (map render xs) @ 0x5d # rest) ?st = scanText rest
      ((scanned ?st (sum_list (map lexemes xs)) False u)\<lparr>scanDepth := scanDepth ?st - 1\<rparr>)"
    using scanText_elements [of xs ?st rest] assms st by auto
  ultimately show "\<exists>p u. scanText (render (JArr sh xs) @ rest) st =
      scanText rest (scanned st (lexemes (JArr sh xs)) p u)"
    by (intro exI [of _ False] exI [of _ u]) (cases st, simp)
qed

lemma scanText_key:
  assumes "length k \<le> MAX_CANONICAL_JSON_STRING_CODE_UNITS" "\<not> inString st"
    "Suc (lexicalTokens st) \<le> MAX_CANONICAL_JSON_LEXICAL_TOKENS"
  shows "scanText (jsonQuote k @ 0x3a # rest) st = scanText rest (scanned st 1 False (length k))"
proof -
  let ?st = "st\<lparr>inString := True, inPrimitive := False, stringCodeUnits := 0,
      lexicalTokens := Suc (lexicalTokens st)\<rparr>"
  have "scanText (jsonQuote k @ 0x3a # rest) st =
      scanText (concat (map quoteUnit k) @ 0x22 # 0x3a # rest) ?st"
    using assms by (simp add: jsonQuote_def scanText.simps(2) scanCharacter_def)
  also have "\<dots> = scanText (0x3a # rest) (?st\<lparr>inString := False, stringCodeUnits := length k\<rparr>)"
    using scanText_string [of ?st k "0x3a # rest"] assms(1) by simp
  also have "\<dots> = scanText rest (scanned st 1 False (length k))"
    using assms(2,3) by (cases st) (simp add: scanText.simps(2) scanCharacter_def)
  finally show ?thesis .
qed

definition field_lexemes :: "(jstr \<times> jsval) list \<Rightarrow> nat" where
  "field_lexemes fs = sum_list (map (\<lambda>f. Suc (lexemes (snd f))) fs)"

lemma scanText_field:
  assumes "length (fst f) \<le> MAX_CANONICAL_JSON_STRING_CODE_UNITS" "scans (snd f)"
    "scanDepth st + int (nesting (snd f)) \<le> int MAX_CANONICAL_JSON_DEPTH"
    "\<not> inString st" "lexicalTokens st + Suc (lexemes (snd f)) \<le> MAX_CANONICAL_JSON_LEXICAL_TOKENS"
  shows "\<exists>p u. scanText (field_text f @ rest) st =
     scanText rest (scanned st (Suc (lexemes (snd f))) p u)"
proof -
  let ?st = "scanned st 1 False (length (fst f))"
  have "scanText (field_text f @ rest) st = scanText (render (snd f) @ rest) ?st"
    using scanText_key [of "fst f" st "render (snd f) @ rest"] assms by (simp add: field_text_def)
  moreover obtain p u where "scanText (render (snd f) @ rest) ?st =
      scanText rest (scanned ?st (lexemes (snd f)) p u)"
    using scansD [of "snd f" ?st rest] assms by auto
  ultimately show ?thesis
    by (intro exI [of _ p] exI [of _ u]) simp
qed

lemma scanText_members:
  assumes "\<forall>f \<in> set fs. length (fst f) \<le> MAX_CANONICAL_JSON_STRING_CODE_UNITS \<and> scans (snd f) \<and>
      scanDepth st + int (nesting (snd f)) \<le> int MAX_CANONICAL_JSON_DEPTH"
    "\<not> inString st" "lexicalTokens st + field_lexemes fs \<le> MAX_CANONICAL_JSON_LEXICAL_TOKENS"
  shows "\<exists>u. scanText (joinComma (map field_text fs) @ 0x7d # rest) st =
     scanText rest ((scanned st (field_lexemes fs) False u)\<lparr>scanDepth := scanDepth st - 1\<rparr>)"
  using assms
proof (induction fs arbitrary: st rule: induct_list012)
  case 1
  then show ?case
    by (intro exI [of _ "stringCodeUnits st"])
      (cases st, simp add: scanText_close field_lexemes_def)
next
  case (2 f)
  then obtain p u where "scanText (field_text f @ 0x7d # rest) st =
      scanText (0x7d # rest) (scanned st (Suc (lexemes (snd f))) p u)"
    using scanText_field [of f st "0x7d # rest"] by (auto simp: field_lexemes_def)
  then show ?case
    using 2 by (intro exI [of _ u]) (cases st, simp add: scanText_close field_lexemes_def)
next
  case (3 f g hs)
  let ?t = "joinComma (map field_text (g # hs)) @ 0x7d # rest"
  let ?n = "Suc (lexemes (snd f))"
  have tokens: "field_lexemes (f # g # hs) = ?n + field_lexemes (g # hs)"
    by (simp add: field_lexemes_def)
  obtain p u where step: "scanText (field_text f @ 0x2c # ?t) st =
      scanText (0x2c # ?t) (scanned st ?n p u)"
    using 3(3-5) scanText_field [of f st "0x2c # ?t"] unfolding tokens by auto
  let ?st = "scanned st ?n False u"
  have "scanText (0x2c # ?t) (scanned st ?n p u) = scanText ?t ?st"
    using 3(4,5) unfolding tokens by (cases st) (simp add: scanText_comma)
  moreover obtain u' where "scanText ?t ?st = scanText rest
      ((scanned ?st (field_lexemes (g # hs)) False u')\<lparr>scanDepth := scanDepth ?st - 1\<rparr>)"
    using 3(2) [of ?st] 3(3-5) unfolding tokens by auto
  ultimately show ?case
    using step unfolding tokens by (intro exI [of _ u']) (cases st, simp add: add.assoc)
qed

lemma scans_JObj:
  assumes "\<forall>f \<in> set fs. length (fst f) \<le> MAX_CANONICAL_JSON_STRING_CODE_UNITS \<and> scans (snd f)"
  shows "scans (JObj sh fs)"
  unfolding scans_def
proof (intro allI impI)
  fix rest and st :: text_scan
  assume st: "\<not> inString st" "\<not> inPrimitive st"
    "scanDepth st + int (nesting (JObj sh fs)) \<le> int MAX_CANONICAL_JSON_DEPTH"
    "lexicalTokens st + lexemes (JObj sh fs) \<le> MAX_CANONICAL_JSON_LEXICAL_TOKENS"
  let ?st = "st\<lparr>inPrimitive := False, scanDepth := scanDepth st + 1,
      lexicalTokens := Suc (lexicalTokens st)\<rparr>"
  let ?fs = "sort_key fst fs"
  have lex: "field_lexemes ?fs = field_lexemes fs" "lexemes (JObj sh fs) = Suc (field_lexemes fs)"
    by (simp_all add: field_lexemes_def sum_list_sort_key)
  have "scanText (render (JObj sh fs) @ rest) st =
      scanText (joinComma (map field_text ?fs) @ 0x7d # rest) ?st"
    using st by (simp add: render_JObj scanText.simps(2) scanCharacter_def)
  moreover have "scanDepth ?st + int (nesting (snd f)) \<le> int MAX_CANONICAL_JSON_DEPTH"
    if "f \<in> set fs" for f
  proof -
    have "nesting (snd f) \<le> foldr max (map (\<lambda>f. nesting (snd f)) fs) 0"
      using that foldr_max_le [of "map (\<lambda>f. nesting (snd f)) fs"] by auto
    then show ?thesis
      using st(3) by simp
  qed
  then obtain u where "scanText (joinComma (map field_text ?fs) @ 0x7d # rest) ?st = scanText rest
      ((scanned ?st (field_lexemes ?fs) False u)\<lparr>scanDepth := scanDepth ?st - 1\<rparr>)"
    using scanText_members [of ?fs ?st rest] assms st lex by auto
  ultimately show "\<exists>p u. scanText (render (JObj sh fs) @ rest) st =
      scanText rest (scanned st (lexemes (JObj sh fs)) p u)"
    unfolding lex by (intro exI [of _ False] exI [of _ u]) (cases st, simp)
qed

lemma scans_render: "json_ok nfc v \<Longrightarrow> scans v"
proof (induction v)
  case (JArr sh xs)
  then show ?case by (auto intro: scans_JArr)
next
  case (JObj sh fs)
  then show ?case by (auto intro!: scans_JObj simp: snds.simps string_ok_def)
qed (auto intro: scans_leaf)

lemma text_budget_render:
  assumes "canonicalizable nfc v" "nesting v \<le> MAX_CANONICAL_JSON_DEPTH"
  shows "assertCanonicalJsonTextBudget (render v) = Inr ()"
proof -
  let ?st = "\<lparr>scanDepth = 0, lexicalTokens = 0, inString = False, inPrimitive = False,
      stringCodeUnits = 0\<rparr>"
  have "lexemes v \<le> MAX_CANONICAL_JSON_LEXICAL_TOKENS"
    using lexemes_le_nodes [of v] assms(1)
    by (simp add: canonicalizable_def MAX_CANONICAL_JSON_LEXICAL_TOKENS_def)
  then obtain p u where "scanText (render v @ []) ?st = scanText [] (scanned ?st (lexemes v) p u)"
    using scansD [of v ?st "[]"] scans_render [of nfc v] assms
    by (auto simp: canonicalizable_def)
  then show ?thesis
    using assms(1) by (simp add: assertCanonicalJsonTextBudget_def canonicalizable_def)
qed

section \<open>Sorting keys changes nothing else\<close>

lemma foldr_max_ge: "n \<in> set ns \<Longrightarrow> n \<le> foldr max ns (0::nat)"
  using foldr_max_le [of ns "foldr max ns 0"] by simp

lemma foldr_max_set: "set ns = set ms \<Longrightarrow> foldr max ns 0 = foldr max ms (0::nat)"
  by (rule order_antisym) (simp_all add: foldr_max_le foldr_max_ge)

lemma sort_key_idem: "sort_key f (sort_key f xs) = sort_key f xs"
  by (simp add: sort_key_id_if_sorted)

lemma sortFields_idem [simp]: "sortFields (sortFields v) = sortFields v"
proof (induction v)
  case (JObj sh fs)
  then have "map (\<lambda>f. (fst f, sortFields (sortFields (snd f)))) (sort_key fst fs) =
      map (\<lambda>f. (fst f, sortFields (snd f))) (sort_key fst fs)"
    by (auto simp: snds.simps)
  then show ?case
    by (simp add: sort_key_fst_map sort_key_idem comp_def del: map_eq_conv)
qed auto

lemma render_sortFields [simp]: "render (sortFields v) = render v"
proof (induction v)
  case (JArr sh xs)
  then have "map (render \<circ> sortFields) xs = map render xs"
    by simp
  then show ?case
    by (simp del: map_eq_conv)
next
  case (JObj sh fs)
  then have "map (\<lambda>f. field_text (fst f, sortFields (snd f))) (sort_key fst fs) =
      map field_text (sort_key fst fs)"
    by (auto simp: snds.simps field_text_def)
  then show ?case
    by (simp add: render_JObj sort_key_fst_map sort_key_idem comp_def del: map_eq_conv)
qed auto

lemma sortFields_measures [simp]:
  "node_count (sortFields v) = node_count v"
  "jdepth (sortFields v) = jdepth v"
  "nesting (sortFields v) = nesting v"
proof (induction v)
  case (JArr sh xs)
  {
    case 1
    show ?case using JArr(1) by (simp add: comp_def cong: map_cong)
  next
    case 2
    show ?case using JArr(2) by (simp add: comp_def cong: map_cong)
  next
    case 3
    show ?case using JArr(3) by (simp add: comp_def cong: map_cong)
  }
next
  case (JObj sh fs)
  have IH: "node_count (sortFields (snd f)) = node_count (snd f)"
    "jdepth (sortFields (snd f)) = jdepth (snd f)" "nesting (sortFields (snd f)) = nesting (snd f)"
    if "f \<in> set fs" for f
    using that JObj by (metis snds.intros)+
  {
    case 1
    show ?case
      by (simp add: sort_key_fst_map comp_def sum_list_sort_key IH cong: map_cong)
  next
    case 2
    show ?case
      by (simp add: sort_key_fst_map comp_def, rule foldr_max_set) (auto simp: IH)
  next
    case 3
    show ?case
      by (simp add: sort_key_fst_map comp_def, rule foldr_max_set) (auto simp: IH)
  }
qed auto

lemma json_ok_sortFields [simp]: "json_ok nfc (sortFields v) = json_ok nfc v"
proof (induction v)
  case (JNum n)
  show ?case by simp
next
  case (JObj sh fs)
  then have "json_ok nfc (sortFields (snd f)) = json_ok nfc (snd f)" if "f \<in> set fs" for f
    using that by (metis snds.intros)
  then show ?case
    by (auto simp: sort_key_fst_map)
qed auto

lemma canonicalizable_sortFields [simp]: "canonicalizable nfc (sortFields v) = canonicalizable nfc v"
  by (simp add: canonicalizable_def)

lemma parseCanonicalJson_render:
  assumes "canonicalizable nfc v" "wf_jsval v" "nesting v \<le> MAX_CANONICAL_JSON_DEPTH"
  shows "parseCanonicalJson nfc (render v) = Inr (sortFields v)"
proof -
  have "jsonParse (render v) = Some (sortFields v)"
    using assms by (intro jsonParse_render) (auto simp: canonicalizable_def)
  moreover have "canonicalizeJson nfc (sortFields v) = Inr (render v)"
    using assms(1) by (simp add: canonicalizeJson_Inr)
  ultimately show ?thesis
    by (simp add: parseCanonicalJson_def text_budget_render [OF assms(1,3)])
qed

lemma parseCanonicalJson_Inr:
  "parseCanonicalJson nfc s = Inr v \<Longrightarrow> jsonParse s = Some v \<and> canonicalizable nfc v \<and> s = render v"
  by (auto simp: parseCanonicalJson_def result_simps split: option.splits)

section \<open>Parsed objects have distinct keys\<close>

lemma setOwn_wf:
  "distinct (map fst acc) \<and> (\<forall>f \<in> set acc. wf_jsval (snd f)) \<Longrightarrow> wf_jsval v \<Longrightarrow>
     distinct (map fst (setOwn acc k v)) \<and> (\<forall>f \<in> set (setOwn acc k v). wf_jsval (snd f))"
proof -
  assume *: "distinct (map fst acc) \<and> (\<forall>f \<in> set acc. wf_jsval (snd f))" "wf_jsval v"
  have "set (setOwn acc k v) \<subseteq> insert (k, v) (set acc)"
    unfolding setOwn_def by (induction acc) auto
  with * show ?thesis
    by (auto dest!: subsetD)
qed

lemma parseValue_wf:
  "parseValue s = Some (v, r) \<Longrightarrow> wf_jsval v"
  "parseElements s = Some (vs, r) \<Longrightarrow> \<forall>v \<in> set vs. wf_jsval v"
  "parseMembers s acc = Some (fs, r) \<Longrightarrow>
     distinct (map fst acc) \<and> (\<forall>f \<in> set acc. wf_jsval (snd f)) \<Longrightarrow> wf_jsval (jobj fs)"
proof (induction s and s and s acc arbitrary: v r and vs r and fs r
    rule: parseValue_parseElements_parseMembers.induct)
  case (1 s0)
  from 1(3) show ?case
    by (subst (asm) parseValue.simps)
      (auto split: list.splits if_splits option.splits prod.splits dest: 1(1,2))
next
  case (2 s)
  from 2(3) obtain v r1 c cs where p: "parseValue s = Some (v, r1)" "skipWs r1 = c # cs"
      "length r1 < length s" and
    alt: "c = 0x5d \<and> vs = [v] \<or>
      c = 0x2c \<and> (\<exists>vs'. parseElements cs = Some (vs', r) \<and> vs = v # vs')"
    by (subst (asm) parseElements.simps)
      (auto split: list.splits if_splits option.splits prod.splits)
  have "wf_jsval v"
    using 2(1) p(1) by blast
  moreover have "\<forall>v \<in> set vs'. wf_jsval v" if "c = 0x2c" "parseElements cs = Some (vs', r)" for vs'
    using 2(2) [OF p(1) refl p(2)] p(3) that by simp
  ultimately show ?case
    using alt by auto
next
  case (3 s acc)
  let ?wf = "\<lambda>acc. distinct (map fst acc) \<and> (\<forall>f \<in> set acc. wf_jsval (snd f))"
  from 3(3) obtain q qs k r1 c r2 v r3 d ds where p: "skipWs s = q # qs" "q = 0x22"
      "parseStringBody qs = Some (k, r1)" "skipWs r1 = c # r2" "c = 0x3a"
      "parseValue r2 = Some (v, r3)" "skipWs r3 = d # ds" "length r3 < length r2" and
    alt: "d = 0x7d \<and> fs = setOwn acc k v \<or>
      d = 0x2c \<and> parseMembers ds (setOwn acc k v) = Some (fs, r)"
    by (subst (asm) parseMembers.simps)
      (auto split: list.splits if_splits option.splits prod.splits)
  have "wf_jsval v"
    using 3(1) [OF p(1) _ p(3) refl p(4)] p by simp
  then have acc: "?wf (setOwn acc k v)"
    using 3(4) setOwn_wf by blast
  moreover have "wf_jsval (jobj fs)" if "d = 0x2c" "parseMembers ds (setOwn acc k v) = Some (fs, r)"
    using 3(2) [OF p(1) _ p(3) refl p(4) _ p(6) refl p(7)] p(2,5,8) that acc by simp
  ultimately show ?case
    using alt by auto
qed

lemma parseCanonicalJson_canonical:
  assumes "parseCanonicalJson nfc s = Inr v"
  shows "canonicalizable nfc v" "s = render v" "wf_jsval v" "sortFields v = v"
proof -
  have p: "jsonParse s = Some v" "canonicalizable nfc v" "s = render v"
    using parseCanonicalJson_Inr [OF assms] by blast+
  then show "canonicalizable nfc v" "s = render v"
    by blast+
  show wf: "wf_jsval v"
    using p by (auto simp: jsonParse_def split: option.splits if_splits dest: parseValue_wf(1))
  have "jsonParse (render v) = Some (sortFields v)"
    using p(2) wf by (intro jsonParse_render) (auto simp: canonicalizable_def)
  with p show "sortFields v = v"
    by simp
qed

section \<open>Properties\<close>

text \<open>Round trip: the canonical text of a value whose containers nest at most 64 deep is accepted
  by \<open>parseCanonicalJson\<close> (the lexical budgets and \<open>JSON.parse\<close> included), which returns the value
  with its object keys in canonical order.\<close>

theorem parse_of_canonicalize:
  assumes "canonicalizeJson nfc v = Inr s" "wf_jsval v" "nesting v \<le> 64"
  shows "parseCanonicalJson nfc s = Inr (sortFields v)"
  using assms parseCanonicalJson_render [of nfc v]
  by (simp add: canonicalizeJson_Inr MAX_CANONICAL_JSON_DEPTH_def)

definition sample_json :: jsval where
  "sample_json = jobj [(js ''b'', jarr [jint (- 42), JBool True]), (js ''a'', JStr [0x22, 0x0a, 0xe9])]"

lemma sample_json_facts:
  "wf_jsval sample_json" "nesting sample_json \<le> 64" "canonicalizable (\<lambda>s. s) sample_json"
  by (simp_all add: sample_json_def js_def canonicalizable_def string_ok_def canonical_string_def
      safe_int_def MAX_SAFE_INTEGER_def isHighSurrogate_def isLowSurrogate_def render_JObj
      field_text_def jsonQuote_def quoteUnit_def decInt_def decDigits.simps
      MAX_CANONICAL_JSON_STRING_CODE_UNITS_def MAX_CANONICAL_JSON_DEPTH_def
      MAX_CANONICAL_JSON_NODES_def MAX_CANONICAL_JSON_OUTPUT_CODE_UNITS_def)

theorem parse_of_canonicalize_witness:
  "parseCanonicalJson (\<lambda>s. s) (render sample_json) =
     Inr (jobj [(js ''a'', JStr [0x22, 0x0a, 0xe9]), (js ''b'', jarr [jint (- 42), JBool True])])"
proof -
  have "canonicalizeJson (\<lambda>s. s) sample_json = Inr (render sample_json)"
    using sample_json_facts(3) by (simp add: canonicalizeJson_Inr)
  from parse_of_canonicalize [OF this sample_json_facts(1,2)] show ?thesis
    by (simp add: sample_json_def js_def)
qed

text \<open>Only exact canonical bytes are accepted: a value returned by \<open>parseCanonicalJson\<close> serializes
  back to the very input, so whitespace, duplicate keys, alternate escapes or number spellings and
  unsorted keys are all rejected; its objects have distinct keys, in canonical order.\<close>

theorem parse_accepts_only_canonical:
  assumes "parseCanonicalJson nfc s = Inr v"
  shows "canonicalizeJson nfc v = Inr s \<and> wf_jsval v \<and> sortFields v = v"
  using parseCanonicalJson_canonical [OF assms] by (simp add: canonicalizeJson_Inr)

theorem parse_accepts_only_canonical_witness:
  "canonicalizeJson (\<lambda>s. s) (sortFields sample_json) = Inr (render sample_json)"
proof -
  have "parseCanonicalJson (\<lambda>s. s) (render sample_json) = Inr (sortFields sample_json)"
    using sample_json_facts by (intro parseCanonicalJson_render)
      (simp_all add: MAX_CANONICAL_JSON_DEPTH_def)
  from parse_accepts_only_canonical [OF this] show ?thesis by simp
qed

text \<open>Canonical text determines the value: two values with the same canonical text are equal up to
  the order of their object keys. Comparing canonical texts, as the kernel and the Guardian do,
  therefore compares the values themselves.\<close>

theorem canonicalizeJson_injective:
  assumes "canonicalizeJson nfc v = Inr s" "canonicalizeJson nfc w = Inr s"
    "wf_jsval v" "wf_jsval w"
  shows "sortFields v = sortFields w"
  using assms by (intro render_inj [of nfc]) (auto simp: canonicalizeJson_Inr canonicalizable_def)

theorem canonicalizeJson_injective_witness:
  "sortFields sample_json = sortFields (sortFields sample_json)"
proof -
  have "canonicalizeJson (\<lambda>s. s) sample_json = Inr (render sample_json)"
    "canonicalizeJson (\<lambda>s. s) (sortFields sample_json) = Inr (render sample_json)"
    using sample_json_facts(3) by (simp_all add: canonicalizeJson_Inr)
  moreover have "wf_jsval (sortFields sample_json)"
    by (simp add: sample_json_def js_def)
  ultimately show ?thesis
    using canonicalizeJson_injective [of "\<lambda>s. s" sample_json "render sample_json" "sortFields sample_json"]
      sample_json_facts(1) by simp
qed

text \<open>Arrays nested one inside the other, the innermost empty.\<close>

definition nested_arrays :: "nat \<Rightarrow> jsval" where
  "nested_arrays n = ((\<lambda>v. jarr [v]) ^^ n) (jarr [])"

lemma nested_arrays_facts:
  "json_ok nfc (nested_arrays n)" "jdepth (nested_arrays n) = n" "node_count (nested_arrays n) = Suc n"
  "render (nested_arrays n) = replicate (Suc n) 0x5b @ replicate (Suc n) 0x5d"
  by (induction n)
    (simp_all add: nested_arrays_def replicate_append_same [symmetric])

lemma scanText_too_deep:
  "\<not> inString st \<Longrightarrow> lexicalTokens st + n \<le> MAX_CANONICAL_JSON_LEXICAL_TOKENS \<Longrightarrow>
   scanDepth st + int n > int MAX_CANONICAL_JSON_DEPTH \<Longrightarrow> scanDepth st \<le> int MAX_CANONICAL_JSON_DEPTH \<Longrightarrow>
   scanText (replicate n 0x5b @ rest) st = Inl (cjError ''Canonical JSON exceeds the depth budget'')"
proof (induction n arbitrary: st)
  case (Suc n)
  show ?case
  proof (cases "scanDepth st + 1 > int MAX_CANONICAL_JSON_DEPTH")
    case True
    then show ?thesis
      using Suc.prems by (simp add: scanText.simps(2) scanCharacter_def)
  next
    case False
    then show ?thesis
      using Suc.prems Suc.IH [of "st\<lparr>inPrimitive := False, scanDepth := scanDepth st + 1,
          lexicalTokens := Suc (lexicalTokens st)\<rparr>"]
      by (simp add: scanText.simps(2) scanCharacter_def)
  qed
qed simp

text \<open>C37. The two depth budgets disagree by one level: \<open>canonicalizeJson\<close> accepts 65 nested arrays (the
  innermost, empty one sits at depth 64), while \<open>parseCanonicalJson\<close> rejects that text because its
  scan counts 65 open brackets. Such a value can be serialized but never read back.\<close>

theorem depth_budgets_disagree:
  "canonicalizeJson nfc (nested_arrays 64) = Inr (render (nested_arrays 64)) \<and>
   parseCanonicalJson nfc (render (nested_arrays 64)) =
     Inl (cjError ''Canonical JSON exceeds the depth budget'')"
proof
  show "canonicalizeJson nfc (nested_arrays 64) = Inr (render (nested_arrays 64))"
    by (simp add: canonicalizeJson_Inr canonicalizable_def nested_arrays_facts
        MAX_CANONICAL_JSON_DEPTH_def MAX_CANONICAL_JSON_NODES_def
        MAX_CANONICAL_JSON_OUTPUT_CODE_UNITS_def)
  show "parseCanonicalJson nfc (render (nested_arrays 64)) =
     Inl (cjError ''Canonical JSON exceeds the depth budget'')"
    using scanText_too_deep [of "\<lparr>scanDepth = 0, lexicalTokens = 0, inString = False,
        inPrimitive = False, stringCodeUnits = 0\<rparr>" 65 "replicate 65 0x5d"]
    by (simp add: parseCanonicalJson_def assertCanonicalJsonTextBudget_def nested_arrays_facts
        MAX_CANONICAL_JSON_DEPTH_def MAX_CANONICAL_JSON_NODES_def
        MAX_CANONICAL_JSON_LEXICAL_TOKENS_def MAX_CANONICAL_JSON_OUTPUT_CODE_UNITS_def)
qed

end
