(* ===== verification/Require.thy ===== *)
theory Require
  imports Json_Parse
begin

text \<open>
  The primitive checks of \<open>intent-contract.ts\<close> on which every validator of the contracts package is
  built (\<open>requireRecord\<close> to \<open>assertSortedUnique\<close>, except timestamps and base64url). Each check
  either returns the checked value or throws an \<open>IntentContractValidationError\<close>; the rules of
  \<open>require_simps\<close> say exactly which values pass, and \<open>record_shape\<close> says that a record with exact
  keys is determined by its fields, up to their order.
\<close>

named_theorems require_simps \<open>which values the primitive checks accept\<close>

section \<open>Definitions\<close>

abbreviation icError :: "string \<Rightarrow> contract_error" where
  "icError s \<equiv> IntentContractValidationError (js s)"

definition requireRecord :: "jsval \<Rightarrow> string \<Rightarrow> contract_error + (jstr \<times> jsval) list" where
  "requireRecord value label =
     (case value of
        JObj sh fs \<Rightarrow>
          if foreignPrototype sh then Inl (icError (label @ '' must be a plain object''))
          else if symbolKeys sh \<or> hiddenFields sh \<or> list_ex (\<lambda>f. snd f = JAccessor) fs
          then Inl (icError (label @ '' must contain only enumerable data fields''))
          else Inr fs
      | _ \<Rightarrow> Inl (icError (label @ '' must be a plain object'')))"

definition requireExactKeys :: "(jstr \<times> jsval) list \<Rightarrow> string list \<Rightarrow> string \<Rightarrow> contract_error + unit" where
  "requireExactKeys fs expected label =
     guardE (sort (map fst fs) = sort (map js expected))
       (icError (label @ '' has unknown or missing fields''))"

definition requireArray :: "jsval \<Rightarrow> string \<Rightarrow> nat \<Rightarrow> contract_error + jsval list" where
  "requireArray value label maxLength =
     (case value of
        JArr sh xs \<Rightarrow>
          if foreignPrototype sh
          then Inl (icError (label @ '' must use the ordinary Array prototype''))
          else if symbolKeys sh then Inl (icError (label @ '' cannot contain symbol keys''))
          else if length xs > maxLength
          then Inl (IntentContractValidationError
            (js (label @ '' exceeds the maximum of '') @ decDigits maxLength @ js '' entries''))
          else if hiddenFields sh
          then Inl (icError (label @ '' must be dense and contain no extra or hidden fields''))
          else if JAccessor \<in> set xs
          then Inl (icError (label @ '' cannot contain accessors or hidden entries''))
          else Inr xs
      | _ \<Rightarrow> Inl (icError (label @ '' must be an array'')))"

definition requireString :: "(jstr \<Rightarrow> jstr) \<Rightarrow> jsval \<Rightarrow> string \<Rightarrow> nat \<Rightarrow> contract_error + jstr" where
  "requireString nfc value label maxLength =
     (case value of
        JStr s \<Rightarrow>
          if length s > maxLength then Inl (icError (label @ '' must be a bounded string''))
          else bindE (catchE (assertCanonicalString nfc s label)
            (\<lambda>error. IntentContractValidationError (error_message error))) (\<lambda>_. Inr s)
      | _ \<Rightarrow> Inl (icError (label @ '' must be a bounded string'')))"

definition requireIdentifier :: "(jstr \<Rightarrow> jstr) \<Rightarrow> jsval \<Rightarrow> string \<Rightarrow> contract_error + jstr" where
  "requireIdentifier nfc value label =
     bindE (requireString nfc value label 256) (\<lambda>identifier.
     bindE (guardE (IDENTIFIER_PATTERN identifier)
       (icError (label @ '' is not a canonical identifier''))) (\<lambda>_. Inr identifier))"

definition requireNullableIdentifier ::
  "(jstr \<Rightarrow> jstr) \<Rightarrow> jsval \<Rightarrow> string \<Rightarrow> contract_error + jstr option" where
  "requireNullableIdentifier nfc value label =
     (if value = JNull then Inr None
      else bindE (requireIdentifier nfc value label) (\<lambda>s. Inr (Some s)))"

definition requireProfileId :: "(jstr \<Rightarrow> jstr) \<Rightarrow> jsval \<Rightarrow> string \<Rightarrow> contract_error + jstr" where
  "requireProfileId nfc value label =
     bindE (requireString nfc value label 128) (\<lambda>profileId.
     bindE (guardE (PROFILE_ID_PATTERN profileId)
       (icError (label @ '' is not canonical''))) (\<lambda>_. Inr profileId))"

definition requireAsciiToken :: "(jstr \<Rightarrow> jstr) \<Rightarrow> jsval \<Rightarrow> string \<Rightarrow> nat \<Rightarrow> contract_error + jstr" where
  "requireAsciiToken nfc value label maxLength =
     bindE (requireString nfc value label maxLength) (\<lambda>token.
     bindE (guardE (ASCII_TOKEN_PATTERN token)
       (icError (label @ '' must be printable ASCII''))) (\<lambda>_. Inr token))"

definition requireDigest :: "jsval \<Rightarrow> string \<Rightarrow> contract_error + jstr" where
  "requireDigest value label =
     (case value of
        JStr s \<Rightarrow> bindE (guardE (SHA256_PATTERN s)
          (icError (label @ '' must be a lowercase SHA-256 hex digest''))) (\<lambda>_. Inr s)
      | _ \<Rightarrow> Inl (icError (label @ '' must be a lowercase SHA-256 hex digest'')))"

definition requireNullableDigest :: "jsval \<Rightarrow> string \<Rightarrow> contract_error + jstr option" where
  "requireNullableDigest value label =
     (if value = JNull then Inr None
      else bindE (requireDigest value label) (\<lambda>s. Inr (Some s)))"

definition requireUuid :: "jsval \<Rightarrow> string \<Rightarrow> contract_error + jstr" where
  "requireUuid value label =
     (case value of
        JStr s \<Rightarrow> bindE (guardE (UUID_PATTERN s)
          (icError (label @ '' must be a lowercase UUID''))) (\<lambda>_. Inr s)
      | _ \<Rightarrow> Inl (icError (label @ '' must be a lowercase UUID'')))"

text \<open>The value of an accepted number; negative zero compares equal to zero everywhere the sources
  compare, and is rejected by the canonical serialization that ends each validator.\<close>

fun numInt :: "jnum \<Rightarrow> int" where
  "numInt (JInt i) = i"
| "numInt _ = 0"

definition requireNonNegativeInteger :: "jsval \<Rightarrow> string \<Rightarrow> contract_error + int" where
  "requireNonNegativeInteger value label =
     (case value of
        JNum n \<Rightarrow> bindE (guardE (isSafeInteger n \<and> \<not> numInt n < 0)
          (icError (label @ '' must be a non-negative safe integer''))) (\<lambda>_. Inr (numInt n))
      | _ \<Rightarrow> Inl (icError (label @ '' must be a non-negative safe integer'')))"

definition requirePositiveInteger :: "jsval \<Rightarrow> string \<Rightarrow> contract_error + int" where
  "requirePositiveInteger value label =
     bindE (requireNonNegativeInteger value label) (\<lambda>number.
     bindE (guardE (number \<noteq> 0) (icError (label @ '' must be positive''))) (\<lambda>_. Inr number))"

text \<open>\<open>String(expected)\<close> of the literals the sources compare with.\<close>

fun literalText :: "jsval \<Rightarrow> jstr" where
  "literalText (JStr s) = s"
| "literalText (JBool b) = js (if b then ''true'' else ''false'')"
| "literalText _ = []"

definition requireLiteral :: "jsval \<Rightarrow> jsval \<Rightarrow> string \<Rightarrow> contract_error + unit" where
  "requireLiteral value expected label =
     guardE (value = expected)
       (IntentContractValidationError (js (label @ '' must equal '') @ literalText expected))"

text \<open>The values of a TypeScript string union are the constructors of a datatype; the table gives
  the spelling of each.\<close>

definition requireEnum :: "jsval \<Rightarrow> (string \<times> 'a) list \<Rightarrow> string \<Rightarrow> contract_error + 'a" where
  "requireEnum value values label =
     (case value of
        JStr s \<Rightarrow>
          (case List.find (\<lambda>(name, _). js name = s) values of
             Some (_, c) \<Rightarrow> Inr c
           | None \<Rightarrow> Inl (icError (label @ '' is unsupported'')))
      | _ \<Rightarrow> Inl (icError (label @ '' is unsupported'')))"

fun assertSortedFrom ::
  "jstr option \<Rightarrow> 'a list \<Rightarrow> ('a \<Rightarrow> contract_error + jstr) \<Rightarrow> string \<Rightarrow> contract_error + unit" where
  "assertSortedFrom previous [] key label = Inr ()"
| "assertSortedFrom previous (value # rest) key label =
     bindE (key value) (\<lambda>current.
     bindE (guardE (\<not> (case previous of None \<Rightarrow> False | Some p \<Rightarrow> current \<le> p))
       (icError (label @ '' must be sorted and unique''))) (\<lambda>_.
     assertSortedFrom (Some current) rest key label))"

definition assertSortedUnique ::
  "'a list \<Rightarrow> ('a \<Rightarrow> contract_error + jstr) \<Rightarrow> string \<Rightarrow> contract_error + unit" where
  "assertSortedUnique values key label = assertSortedFrom None values key label"

section \<open>What the checks accept\<close>

lemma requireRecord_Inr [require_simps]:
  "requireRecord v label = Inr fs \<longleftrightarrow>
     v = jobj fs \<and> (\<forall>f \<in> set fs. snd f \<noteq> JAccessor)"
  by (auto simp: requireRecord_def list_ex_iff plain_shape_iff split: jsval.splits if_splits)

definition exact_keys :: "(jstr \<times> jsval) list \<Rightarrow> string list \<Rightarrow> bool" where
  "exact_keys fs ks \<longleftrightarrow> sort (map fst fs) = sort (map js ks)"

lemma requireExactKeys_Inr [require_simps]:
  "requireExactKeys fs ks label = Inr u \<longleftrightarrow> exact_keys fs ks"
  by (simp add: requireExactKeys_def result_simps exact_keys_def)

lemma requireArray_Inr [require_simps]:
  "requireArray v label n = Inr xs \<longleftrightarrow> v = jarr xs \<and> length xs \<le> n \<and> JAccessor \<notin> set xs"
  by (auto simp: requireArray_def plain_shape_iff split: jsval.splits if_splits)

lemma requireString_Inr [require_simps]:
  "requireString nfc v label n = Inr s \<longleftrightarrow> v = JStr s \<and> length s \<le> n \<and> canonical_string nfc s"
  by (auto simp: requireString_def result_simps split: jsval.splits if_splits)

lemma requireIdentifier_Inr [require_simps]:
  "requireIdentifier nfc v label = Inr s \<longleftrightarrow> v = JStr s \<and> canonical_string nfc s \<and> IDENTIFIER_PATTERN s"
  by (auto simp: requireIdentifier_def result_simps require_simps IDENTIFIER_PATTERN_def
      split: list.splits)

lemma requireProfileId_Inr [require_simps]:
  "requireProfileId nfc v label = Inr s \<longleftrightarrow> v = JStr s \<and> canonical_string nfc s \<and> PROFILE_ID_PATTERN s"
  by (auto simp: requireProfileId_def result_simps require_simps PROFILE_ID_PATTERN_def
      split: list.splits)

lemma requireAsciiToken_Inr [require_simps]:
  "requireAsciiToken nfc v label n = Inr s \<longleftrightarrow>
     v = JStr s \<and> length s \<le> n \<and> canonical_string nfc s \<and> ASCII_TOKEN_PATTERN s"
  by (auto simp: requireAsciiToken_def result_simps require_simps)

lemma requireDigest_Inr [require_simps]:
  "requireDigest v label = Inr s \<longleftrightarrow> v = JStr s \<and> SHA256_PATTERN s"
  by (auto simp: requireDigest_def result_simps split: jsval.splits)

lemma requireUuid_Inr [require_simps]:
  "requireUuid v label = Inr s \<longleftrightarrow> v = JStr s \<and> UUID_PATTERN s"
  by (auto simp: requireUuid_def result_simps split: jsval.splits)

text \<open>Nullable fields are options, written as \<open>null\<close> or the string.\<close>

definition nullable :: "jstr option \<Rightarrow> jsval" where
  "nullable x = (case x of None \<Rightarrow> JNull | Some s \<Rightarrow> JStr s)"

lemma requireNullableIdentifier_Inr [require_simps]:
  "requireNullableIdentifier nfc v label = Inr x \<longleftrightarrow>
     v = nullable x \<and> pred_option (\<lambda>s. canonical_string nfc s \<and> IDENTIFIER_PATTERN s) x"
  by (cases x) (auto simp: requireNullableIdentifier_def nullable_def result_simps require_simps)

lemma requireNullableDigest_Inr [require_simps]:
  "requireNullableDigest v label = Inr x \<longleftrightarrow> v = nullable x \<and> pred_option SHA256_PATTERN x"
  by (cases x) (auto simp: requireNullableDigest_def nullable_def result_simps require_simps)

lemma requireNonNegativeInteger_Inr [require_simps]:
  "requireNonNegativeInteger v label = Inr i \<longleftrightarrow>
     (v = jint i \<and> safe_int i \<and> 0 \<le> i) \<or> (v = JNum JNegZero \<and> i = 0)"
proof (cases v)
  case (JNum n)
  then show ?thesis
    by (cases n) (auto simp: requireNonNegativeInteger_def result_simps)
qed (auto simp: requireNonNegativeInteger_def)

lemma requirePositiveInteger_Inr [require_simps]:
  "requirePositiveInteger v label = Inr i \<longleftrightarrow> v = jint i \<and> safe_int i \<and> 0 < i"
  by (auto simp: requirePositiveInteger_def result_simps require_simps)

lemma requireLiteral_Inr [require_simps]:
  "requireLiteral v e label = Inr u \<longleftrightarrow> v = e"
  by (simp add: requireLiteral_def result_simps)

lemma find_table_Some:
  "distinct (map fst table) \<Longrightarrow>
   List.find (\<lambda>(name, _). js name = s) table = Some (n, c) \<longleftrightarrow> (n, c) \<in> set table \<and> js n = s"
  by (induction table) (auto simp: js_inj rev_image_eqI)

lemma requireEnum_Inr:
  assumes "distinct (map fst table)"
  shows "requireEnum v table label = Inr c \<longleftrightarrow> (\<exists>n. (n, c) \<in> set table \<and> v = JStr (js n))"
proof (cases v)
  case (JStr s)
  have "requireEnum v table label = Inr c \<longleftrightarrow>
      (\<exists>n. List.find (\<lambda>(name, _). js name = s) table = Some (n, c))"
    unfolding requireEnum_def JStr by (auto split: option.splits)
  also have "\<dots> \<longleftrightarrow> (\<exists>n. (n, c) \<in> set table \<and> js n = s)"
    unfolding find_table_Some [OF assms] ..
  finally show ?thesis
    using JStr by auto
qed (auto simp: requireEnum_def)

lemma assertSortedFrom_Inr:
  "assertSortedFrom p xs key label = Inr u \<longleftrightarrow>
     (\<exists>ks. mapE key xs = Inr ks \<and> sorted_wrt (<) ks \<and>
       (case p of None \<Rightarrow> True | Some q \<Rightarrow> \<forall>k \<in> set ks. q < k))"
proof (induction p xs key label rule: assertSortedFrom.induct)
  case (2 previous x rest key label)
  then show ?case
    by (cases previous) (auto simp: result_simps not_le, meson less_trans)
qed (auto split: option.splits)

lemma assertSortedUnique_Inr [require_simps]:
  "assertSortedUnique xs key label = Inr u \<longleftrightarrow> (\<exists>ks. mapE key xs = Inr ks \<and> sorted_wrt (<) ks)"
  by (simp add: assertSortedUnique_def assertSortedFrom_Inr)

lemma mapE_Inr_fun [simp]: "mapE (\<lambda>x. Inr (f x)) xs = Inr (map f xs)"
  by (induction xs) auto

section \<open>Records with exact keys\<close>

text \<open>A record literal of the source.\<close>

definition jfields :: "(string \<times> jsval) list \<Rightarrow> (jstr \<times> jsval) list" where
  "jfields kvs = map (\<lambda>(k, v). (js k, v)) kvs"

definition jrec :: "(string \<times> jsval) list \<Rightarrow> jsval" where
  "jrec kvs = jobj (jfields kvs)"

lemma getProp_jfields [simp]:
  "getProp (jfields kvs) k = (case map_of kvs k of None \<Rightarrow> JUndefined | Some v \<Rightarrow> v)"
  unfolding jfields_def by (induction kvs) (auto simp: getProp_def js_inj)

lemma requireRecord_jrec [simp]:
  "JAccessor \<notin> snd ` set kvs \<Longrightarrow> requireRecord (jrec kvs) label = Inr (jfields kvs)"
  by (auto simp: requireRecord_Inr jrec_def jfields_def image_iff)

lemma exact_keys_jfields [simp]: "map fst kvs = ks \<Longrightarrow> exact_keys (jfields kvs) ks"
  by (auto simp: exact_keys_def jfields_def comp_def case_prod_unfold)

lemma exact_keys_mset:
  assumes "exact_keys fs ks" "distinct ks"
  shows "mset fs = mset (map (\<lambda>k. (js k, getProp fs k)) ks)" "distinct (map fst fs)"
proof -
  have keys: "mset (map fst fs) = mset (map js ks)"
    by (metis assms(1) exact_keys_def mset_sort)
  have "distinct (map js ks)"
    using assms(2) by (simp add: distinct_map js_inj inj_on_def)
  then show d: "distinct (map fst fs)"
    using keys mset_eq_imp_distinct_iff by blast
  have "mset (map (\<lambda>k. (js k, getProp fs k)) ks) =
      image_mset (\<lambda>k. (k, case map_of fs k of None \<Rightarrow> JUndefined | Some v \<Rightarrow> v)) (mset (map js ks))"
    by (simp add: getProp_def image_mset.compositionality comp_def)
  also have "\<dots> = image_mset (\<lambda>f. (fst f, case map_of fs (fst f) of None \<Rightarrow> JUndefined | Some v \<Rightarrow> v)) (mset fs)"
    unfolding keys [symmetric] by (simp add: image_mset.compositionality comp_def)
  also have "\<dots> = image_mset (\<lambda>f. f) (mset fs)"
    by (rule image_mset_cong) (auto simp: d)
  finally show "mset fs = mset (map (\<lambda>k. (js k, getProp fs k)) ks)"
    by simp
qed

lemma sortFields_mset:
  assumes "mset fs = mset gs" "distinct (map fst fs)"
  shows "sortFields (JObj sh fs) = sortFields (JObj sh gs)"
  using sort_key_fst_perm [OF assms] by (simp add: sort_key_fst_map)

lemma sortFields_jobj_cong:
  assumes "list_all2 (\<lambda>f g. fst f = fst g \<and> sortFields (snd f) = sortFields (snd g)) fs gs"
  shows "sortFields (JObj sh fs) = sortFields (JObj sh gs)"
proof -
  have "map (\<lambda>f. (fst f, sortFields (snd f))) fs = map (\<lambda>f. (fst f, sortFields (snd f))) gs"
    using assms by (induction rule: list_all2_induct) auto
  then show ?thesis
    by simp
qed

lemma record_shape:
  assumes "exact_keys fs (map fst kvs)" "distinct (map fst kvs)"
    "\<And>k v. (k, v) \<in> set kvs \<Longrightarrow> sortFields (getProp fs k) = sortFields v"
  shows "sortFields (jobj fs) = sortFields (jrec kvs)"
proof -
  have "sortFields (jobj fs) = sortFields (jobj (map (\<lambda>k. (js k, getProp fs k)) (map fst kvs)))"
    by (rule sortFields_mset) (rule exact_keys_mset [OF assms(1,2)])+
  also have "\<dots> = sortFields (jrec kvs)"
    unfolding jrec_def jfields_def using assms(3)
    by (intro sortFields_jobj_cong) (auto simp: list_all2_conv_all_nth case_prod_unfold)
  finally show ?thesis .
qed

lemma record_shape_all:
  "exact_keys fs (map fst kvs) \<Longrightarrow> distinct (map fst kvs) \<Longrightarrow>
   list_all (\<lambda>(k, v). sortFields (getProp fs k) = sortFields v) kvs \<Longrightarrow>
   sortFields (jobj fs) = sortFields (jrec kvs)"
  by (rule record_shape) (auto simp: list_all_iff)

lemma record_fields_ok:
  assumes "exact_keys fs ks" "distinct ks" "k \<in> set ks" "json_ok nfc (jobj fs)"
  shows "json_ok nfc (getProp fs k)"
proof -
  have "(js k, getProp fs k) \<in> set fs"
    using mset_eq_setD [OF exact_keys_mset(1) [OF assms(1,2)]] assms(3) by simp
  with assms(4) show ?thesis
    by fastforce
qed

lemma sortFields_jarr_cong:
  "list_all2 (\<lambda>v x. sortFields v = sortFields (f x)) vs xs \<Longrightarrow>
   sortFields (jarr vs) = sortFields (jarr (map f xs))"
  by (induction rule: list_all2_induct) auto

lemma sortFields_leaf [simp]:
  "sortFields (JStr s) = JStr s" "sortFields (JNum n) = JNum n" "sortFields (JBool b) = JBool b"
  "sortFields JNull = JNull" "sortFields (nullable x) = nullable x"
  by (simp_all add: nullable_def split: option.splits)

end
