(* ===== verification/Resource_Selector.thy ===== *)
theory Resource_Selector
  imports Require "HOL-Library.Sublist"
begin

text \<open>
  Resource selectors (\<open>intent-contract.ts\<close>): validation of workspace-relative paths and the coverage
  test between selectors. The abstract meaning of a selector is the set of resources it names, a
  resource being a non-empty list of path components; coverage is proved to be inclusion of these
  sets.
\<close>

section \<open>Definitions\<close>

datatype selector_kind = FileSelector | TreeSelector

record resource_selector =
  rs_kind :: selector_kind
  rs_path :: jstr

definition selectorKinds :: "(string \<times> selector_kind) list" where
  "selectorKinds = [(''file'', FileSelector), (''tree'', TreeSelector)]"

fun splitSlash :: "jstr \<Rightarrow> jstr list" where
  "splitSlash [] = [[]]"
| "splitSlash (c # cs) =
     (if c = 47 then [] # splitSlash cs
      else (case splitSlash cs of [] \<Rightarrow> [[c]] | w # ws \<Rightarrow> (c # w) # ws))"

definition startsWith :: "jstr \<Rightarrow> jstr \<Rightarrow> bool" where
  "startsWith s p = (take (length p) s = p)"

definition drivePrefix :: "jstr \<Rightarrow> bool" where
  "drivePrefix s = (case s of c # d # e # _ \<Rightarrow> (isLower c \<or> isUpper c) \<and> d = 58 \<and> e = 47 | _ \<Rightarrow> False)"

definition unsafeComponent :: "jstr \<Rightarrow> bool" where
  "unsafeComponent w = (w = [] \<or> w = js ''.'' \<or> w = js ''..'')"

definition validateSelectorPath :: "(jstr \<Rightarrow> jstr) \<Rightarrow> jstr \<Rightarrow> selector_kind \<Rightarrow> contract_error + unit" where
  "validateSelectorPath nfc value kind =
     bindE (encodeUtf8 nfc value) (\<lambda>bytes.
     bindE (guardE (\<not> length bytes > 16 * 1024)
       (icError ''Selector path exceeds the byte limit'')) (\<lambda>_.
     if value = [] then
       guardE (kind = TreeSelector) (icError ''Only a tree selector may name the workspace root'')
     else
       bindE (guardE (\<not> (hd value = 47 \<or> drivePrefix value \<or> last value = 47 \<or> 92 \<in> set value \<or>
           list_ex (\<lambda>c. c \<le> 0x1f \<or> c = 0x7f) value))
         (icError ''Selector path is not relative and safe'')) (\<lambda>_.
       guardE (\<not> list_ex unsafeComponent (splitSlash value))
         (icError ''Selector path contains an unsafe component''))))"

definition validateResourceSelector :: "(jstr \<Rightarrow> jstr) \<Rightarrow> jsval \<Rightarrow> contract_error + resource_selector" where
  "validateResourceSelector nfc value =
     bindE (requireRecord value ''Resource selector'') (\<lambda>record.
     bindE (requireExactKeys record [''kind'', ''path''] ''Resource selector'') (\<lambda>_.
     bindE (requireEnum (getProp record ''kind'') selectorKinds ''Selector kind'') (\<lambda>kind.
     bindE (requireString nfc (getProp record ''path'') ''Selector path'' 4096) (\<lambda>selectorPath.
     bindE (validateSelectorPath nfc selectorPath kind) (\<lambda>_.
     Inr \<lparr>rs_kind = kind, rs_path = selectorPath\<rparr>)))))"

definition pathEqualsOrDescends :: "jstr \<Rightarrow> jstr \<Rightarrow> bool" where
  "pathEqualsOrDescends parent child =
     (parent = [] \<or> child = parent \<or> startsWith child (parent @ [47]))"

definition resourceSelectorCovers :: "(jstr \<Rightarrow> jstr) \<Rightarrow> jsval \<Rightarrow> jsval \<Rightarrow> contract_error + bool" where
  "resourceSelectorCovers nfc parent child =
     bindE (validateResourceSelector nfc parent) (\<lambda>validatedParent.
     bindE (validateResourceSelector nfc child) (\<lambda>validatedChild.
     if rs_kind validatedParent = FileSelector then
       Inr (rs_kind validatedChild = FileSelector \<and> rs_path validatedParent = rs_path validatedChild)
     else Inr (pathEqualsOrDescends (rs_path validatedParent) (rs_path validatedChild))))"

section \<open>Accepted selectors and their serialization\<close>

definition selectorKindName :: "selector_kind \<Rightarrow> string" where
  "selectorKindName k = (case k of FileSelector \<Rightarrow> ''file'' | TreeSelector \<Rightarrow> ''tree'')"

definition selector_json :: "resource_selector \<Rightarrow> jsval" where
  "selector_json s = jrec [(''kind'', JStr (js (selectorKindName (rs_kind s)))), (''path'', JStr (rs_path s))]"

definition wf_selector :: "(jstr \<Rightarrow> jstr) \<Rightarrow> resource_selector \<Rightarrow> bool" where
  "wf_selector nfc s \<longleftrightarrow>
     length (rs_path s) \<le> 4096 \<and> canonical_string nfc (rs_path s) \<and>
     validateSelectorPath nfc (rs_path s) (rs_kind s) = Inr ()"

lemma requireEnum_selectorKinds [require_simps]:
  "requireEnum v selectorKinds label = Inr k \<longleftrightarrow> v = JStr (js (selectorKindName k))"
  by (cases k) (auto simp: requireEnum_Inr selectorKinds_def selectorKindName_def)

lemma validateResourceSelector_Inr:
  "validateResourceSelector nfc v = Inr s \<longleftrightarrow>
     (\<exists>fs. v = jobj fs \<and> (\<forall>f \<in> set fs. snd f \<noteq> JAccessor) \<and>
       exact_keys fs [''kind'', ''path''] \<and>
       getProp fs ''kind'' = JStr (js (selectorKindName (rs_kind s))) \<and>
       getProp fs ''path'' = JStr (rs_path s) \<and> wf_selector nfc s)"
  by (cases s) (auto simp: validateResourceSelector_def result_simps require_simps wf_selector_def)

lemma validateResourceSelector_wf: "validateResourceSelector nfc v = Inr s \<Longrightarrow> wf_selector nfc s"
  by (auto simp: validateResourceSelector_Inr)

lemma validateResourceSelector_shape:
  "validateResourceSelector nfc v = Inr s \<Longrightarrow> sortFields v = sortFields (selector_json s)"
  unfolding validateResourceSelector_Inr selector_json_def by (auto intro!: record_shape)

lemma validateResourceSelector_json:
  "wf_selector nfc s \<Longrightarrow> validateResourceSelector nfc (selector_json s) = Inr s"
  by (auto simp: validateResourceSelector_def selector_json_def result_simps require_simps
      wf_selector_def)

section \<open>Path components\<close>

fun joinSlash :: "jstr list \<Rightarrow> jstr" where
  "joinSlash [] = []"
| "joinSlash [w] = w"
| "joinSlash (w # ws) = w @ 47 # joinSlash ws"

lemma splitSlash_nonempty [simp]: "splitSlash s \<noteq> []"
  by (induction s) (auto split: list.splits)

lemma joinSlash_splitSlash [simp]: "joinSlash (splitSlash s) = s"
proof (induction s)
  case (Cons c cs)
  obtain w ws where "splitSlash cs = w # ws"
    by (metis list.exhaust splitSlash_nonempty)
  with Cons show ?case
    by (cases ws) auto
qed simp

lemma splitSlash_append: "splitSlash (a @ 47 # b) = splitSlash a @ splitSlash b"
proof (induction a)
  case (Cons c cs)
  obtain w ws where "splitSlash cs = w # ws"
    by (metis list.exhaust splitSlash_nonempty)
  with Cons show ?case
    by auto
qed simp

lemma joinSlash_append: "u \<noteq> [] \<Longrightarrow> v \<noteq> [] \<Longrightarrow> joinSlash (u @ v) = joinSlash u @ 47 # joinSlash v"
proof (induction u rule: joinSlash.induct)
  case (2 w)
  then show ?case
    by (cases v) auto
qed auto

lemma splitSlash_inj: "splitSlash a = splitSlash b \<longleftrightarrow> a = b"
  by (metis joinSlash_splitSlash)

lemma prefix_splitSlash:
  "prefix (splitSlash p) (splitSlash c) \<longleftrightarrow> c = p \<or> startsWith c (p @ [47])"
proof
  assume "prefix (splitSlash p) (splitSlash c)"
  then obtain r where r: "splitSlash c = splitSlash p @ r"
    by (auto simp: prefix_def)
  show "c = p \<or> startsWith c (p @ [47])"
  proof (cases "r = []")
    case True
    with r show ?thesis
      by (simp add: splitSlash_inj)
  next
    case False
    have "c = joinSlash (splitSlash p @ r)"
      by (simp add: r [symmetric])
    with False show ?thesis
      by (simp add: joinSlash_append startsWith_def)
  qed
next
  assume "c = p \<or> startsWith c (p @ [47])"
  then show "prefix (splitSlash p) (splitSlash c)"
  proof
    assume "startsWith c (p @ [47])"
    then have "c = (p @ [47]) @ drop (Suc (length p)) c"
      using append_take_drop_id [of "Suc (length p)" c] by (simp add: startsWith_def)
    then have "splitSlash c = splitSlash p @ splitSlash (drop (Suc (length p)) c)"
      by (metis append.assoc append_Cons append_Nil splitSlash_append)
    then show ?thesis
      by simp
  qed simp
qed

section \<open>Coverage is inclusion\<close>

text \<open>A resource of the workspace is a non-empty list of component names. A file selector names one
  resource, a tree selector every resource at or below its path; the empty path is the root.\<close>

definition path_components :: "jstr \<Rightarrow> jstr list" where
  "path_components p = (if p = [] then [] else splitSlash p)"

definition selector_resources :: "resource_selector \<Rightarrow> jstr list set" where
  "selector_resources s =
     (case rs_kind s of
        FileSelector \<Rightarrow> {path_components (rs_path s)}
      | TreeSelector \<Rightarrow> {q. q \<noteq> [] \<and> prefix (path_components (rs_path s)) q})"

lemma prefix_path_components:
  "prefix (path_components p) (path_components c) \<longleftrightarrow> pathEqualsOrDescends p c"
proof (cases "p = [] \<or> c = []")
  case True
  then show ?thesis
    by (auto simp: path_components_def pathEqualsOrDescends_def startsWith_def)
next
  case False
  then show ?thesis
    by (simp add: path_components_def pathEqualsOrDescends_def prefix_splitSlash)
qed

lemma path_components_inj: "path_components p = path_components c \<longleftrightarrow> p = c"
  using splitSlash_nonempty [of p] splitSlash_nonempty [of c]
  by (auto simp: path_components_def splitSlash_inj simp del: splitSlash_nonempty)

lemma tree_resources_subset:
  "{q. q \<noteq> [] \<and> prefix c q} \<subseteq> {q. q \<noteq> [] \<and> prefix p q} \<longleftrightarrow> prefix p (c :: jstr list)"
proof
  assume sub: "{q. q \<noteq> [] \<and> prefix c q} \<subseteq> {q. q \<noteq> [] \<and> prefix p q}"
  have two: "prefix p (c @ [[0]])" "prefix p (c @ [[1]])"
    using subsetD [OF sub, of "c @ [[0]]"] subsetD [OF sub, of "c @ [[1]]"] by auto
  then show "prefix p c"
    by (auto simp: prefix_append prefix_Cons append_eq_append_conv2)
next
  assume "prefix p c"
  then show "{q. q \<noteq> [] \<and> prefix c q} \<subseteq> {q. q \<noteq> [] \<and> prefix p q}"
    using prefix_order.trans by blast
qed

lemma tree_resources_not_single: "\<not> {q. q \<noteq> [] \<and> prefix c q} \<subseteq> {p :: jstr list}"
proof
  assume sub: "{q. q \<noteq> [] \<and> prefix c q} \<subseteq> {p}"
  have "c @ [[0]] = p" "c @ [[1]] = p"
    using subsetD [OF sub, of "c @ [[0]]"] subsetD [OF sub, of "c @ [[1]]"] by auto
  then show False
    by auto
qed

lemma wf_file_selector: "wf_selector nfc s \<Longrightarrow> rs_kind s = FileSelector \<Longrightarrow> rs_path s \<noteq> []"
  by (auto simp: wf_selector_def validateSelectorPath_def result_simps)

text \<open>The contract of a coverage test between grants: it decides inclusion of what the grants
  denote, so that it is a preorder, and a chain of narrowing grants never names a resource that
  the first grant did not name.\<close>

locale coverage =
  fixes valid :: "'g \<Rightarrow> bool" and covers :: "'g \<Rightarrow> 'g \<Rightarrow> bool" and denotes :: "'g \<Rightarrow> 'r set"
  assumes covers_iff: "valid p \<Longrightarrow> valid c \<Longrightarrow> covers p c \<longleftrightarrow> denotes c \<subseteq> denotes p"
begin

lemma covers_refl: "valid g \<Longrightarrow> covers g g"
  by (simp add: covers_iff)

lemma covers_trans: "valid a \<Longrightarrow> valid b \<Longrightarrow> valid c \<Longrightarrow> covers a b \<Longrightarrow> covers b c \<Longrightarrow> covers a c"
  by (simp add: covers_iff)

lemma chain_narrows:
  "successively covers (g # gs) \<Longrightarrow> list_all valid (g # gs) \<Longrightarrow> denotes (last (g # gs)) \<subseteq> denotes g"
proof (induction gs arbitrary: g)
  case (Cons h hs)
  then have "denotes (last (h # hs)) \<subseteq> denotes h" "denotes h \<subseteq> denotes g"
    by (auto simp: covers_iff)
  then show ?case
    by auto
qed simp

end

definition selector_covers :: "resource_selector \<Rightarrow> resource_selector \<Rightarrow> bool" where
  "selector_covers p c =
     (if rs_kind p = FileSelector then rs_kind c = FileSelector \<and> rs_path p = rs_path c
      else pathEqualsOrDescends (rs_path p) (rs_path c))"

lemma selector_covers_iff:
  assumes "wf_selector nfc p" "wf_selector nfc c"
  shows "selector_covers p c \<longleftrightarrow> selector_resources c \<subseteq> selector_resources p"
proof -
  have file_nonempty: "rs_kind c = FileSelector \<Longrightarrow> path_components (rs_path c) \<noteq> []"
    using wf_file_selector [OF assms(2)] by (simp add: path_components_def)
  show ?thesis
  proof (cases "rs_kind p")
    case FileSelector
    then show ?thesis
      using tree_resources_not_single
      by (cases "rs_kind c") (auto simp: selector_covers_def selector_resources_def path_components_inj)
  next
    case TreeSelector
    then show ?thesis
      using file_nonempty tree_resources_subset
      by (cases "rs_kind c")
        (simp_all add: selector_covers_def selector_resources_def prefix_path_components)
  qed
qed

interpretation selector: coverage "wf_selector nfc" selector_covers selector_resources for nfc
  by unfold_locales (rule selector_covers_iff)

lemma resourceSelectorCovers_eq:
  "resourceSelectorCovers nfc vp vc =
     bindE (validateResourceSelector nfc vp) (\<lambda>p.
     bindE (validateResourceSelector nfc vc) (\<lambda>c. Inr (selector_covers p c)))"
  by (simp add: resourceSelectorCovers_def selector_covers_def if_distrib [where f = Inr] cong: if_cong)

text \<open>C38. On valid selectors \<open>resourceSelectorCovers\<close> decides inclusion: it returns true exactly when
  every resource the child names is named by the parent, for all four combinations of file and
  tree selectors and for the workspace root.\<close>

theorem resourceSelectorCovers_inclusion:
  assumes "validateResourceSelector nfc vp = Inr p" "validateResourceSelector nfc vc = Inr c"
  shows "resourceSelectorCovers nfc vp vc = Inr (selector_resources c \<subseteq> selector_resources p)"
  using assms selector_covers_iff [OF validateResourceSelector_wf validateResourceSelector_wf, OF assms]
  by (simp add: resourceSelectorCovers_eq)

theorem resourceSelectorCovers_inclusion_witness:
  "resourceSelectorCovers (\<lambda>s. s)
     (selector_json \<lparr>rs_kind = TreeSelector, rs_path = js ''src''\<rparr>)
     (selector_json \<lparr>rs_kind = FileSelector, rs_path = js ''src/a''\<rparr>) =
   Inr (selector_resources \<lparr>rs_kind = FileSelector, rs_path = js ''src/a''\<rparr> \<subseteq>
        selector_resources \<lparr>rs_kind = TreeSelector, rs_path = js ''src''\<rparr>)"
proof (rule resourceSelectorCovers_inclusion)
  have "wf_selector (\<lambda>s. s) \<lparr>rs_kind = TreeSelector, rs_path = js ''src''\<rparr>"
    "wf_selector (\<lambda>s. s) \<lparr>rs_kind = FileSelector, rs_path = js ''src/a''\<rparr>"
    by (simp_all add: wf_selector_def validateSelectorPath_def encodeUtf8_def assertCanonicalString_def
        canonical_string_def js_def surrogate_defs codePointBytes_def drivePrefix_def
        unsafeComponent_def char_class_defs)
  then show "validateResourceSelector (\<lambda>s. s) (selector_json \<lparr>rs_kind = TreeSelector, rs_path = js ''src''\<rparr>) =
      Inr \<lparr>rs_kind = TreeSelector, rs_path = js ''src''\<rparr>"
    and "validateResourceSelector (\<lambda>s. s) (selector_json \<lparr>rs_kind = FileSelector, rs_path = js ''src/a''\<rparr>) =
      Inr \<lparr>rs_kind = FileSelector, rs_path = js ''src/a''\<rparr>"
    by (simp_all add: validateResourceSelector_json)
qed

end
