(* ===== verification/Timestamps.thy ===== *)
theory Timestamps
  imports Require
begin

text \<open>
  The timestamp check of \<open>intent-contract.ts\<close>, with the parts of the language's \<open>Date\<close> it uses:
  \<open>Date.parse\<close> on strings of \<open>TIMESTAMP_PATTERN\<close> (month 1 to 12, day 1 to 31 with overflow into the
  next month, hour 24 only as 24:00:00.000, anything else NaN) and \<open>toISOString\<close>, both by the
  calendar formulas of the ECMAScript specification. Times are milliseconds since the epoch as
  integers. The main result is that the check accepts exactly the canonical spelling of the
  instants of the years 0000 to 9999 and that reading such a spelling gives the instant back.
\<close>

section \<open>Definitions\<close>

definition TIMESTAMP_PATTERN :: "jstr \<Rightarrow> bool" where
  "TIMESTAMP_PATTERN s =
     ((length s = 20 \<or> length s = 24 \<and> s ! 19 = 46 \<and> list_all isDigit (take 3 (drop 20 s))) \<and>
      s ! 4 = 45 \<and> s ! 7 = 45 \<and> s ! 10 = 84 \<and> s ! 13 = 58 \<and> s ! 16 = 58 \<and> last s = 90 \<and>
      list_all isDigit (take 4 s) \<and> list_all isDigit (take 2 (drop 5 s)) \<and>
      list_all isDigit (take 2 (drop 8 s)) \<and> list_all isDigit (take 2 (drop 11 s)) \<and>
      list_all isDigit (take 2 (drop 14 s)) \<and> list_all isDigit (take 2 (drop 17 s)))"

definition DayFromYear :: "int \<Rightarrow> int" where
  "DayFromYear y =
     365 * (y - 1970) + (y - 1969) div 4 - (y - 1901) div 100 + (y - 1601) div 400"

definition InLeapYear :: "int \<Rightarrow> bool" where
  "InLeapYear y = (y mod 4 = 0 \<and> (y mod 100 \<noteq> 0 \<or> y mod 400 = 0))"

definition daysBeforeMonth :: "bool \<Rightarrow> nat \<Rightarrow> int" where
  "daysBeforeMonth leap m =
     [0, 31, 59, 90, 120, 151, 181, 212, 243, 273, 304, 334, 365] ! (m - 1) +
     (if leap \<and> 2 < m then 1 else 0)"

definition msPerDay :: int where
  "msPerDay = 86400000"

definition makeTime :: "int \<Rightarrow> nat \<Rightarrow> int \<Rightarrow> int \<Rightarrow> int \<Rightarrow> int \<Rightarrow> int \<Rightarrow> int" where
  "makeTime year month day hour minute second ms =
     (DayFromYear year + daysBeforeMonth (InLeapYear year) month + (day - 1)) * msPerDay +
     hour * 3600000 + minute * 60000 + second * 1000 + ms"

text \<open>\<open>Date.parse\<close> on a string of the pattern; \<open>None\<close> is NaN.\<close>

definition dateParse :: "jstr \<Rightarrow> int option" where
  "dateParse s =
     (let year = digitsValue (take 4 s); month = digitsValue (take 2 (drop 5 s));
          day = digitsValue (take 2 (drop 8 s)); hour = digitsValue (take 2 (drop 11 s));
          minute = digitsValue (take 2 (drop 14 s)); second = digitsValue (take 2 (drop 17 s));
          ms = (if length s = 24 then digitsValue (take 3 (drop 20 s)) else 0)
      in if 1 \<le> month \<and> month \<le> 12 \<and> 1 \<le> day \<and> day \<le> 31 \<and> minute \<le> 59 \<and> second \<le> 59 \<and>
            (hour \<le> 23 \<or> hour = 24 \<and> minute = 0 \<and> second = 0 \<and> ms = 0)
         then Some (makeTime (int year) month (int day) (int hour) (int minute) (int second) (int ms))
         else None)"

definition pad2 :: "nat \<Rightarrow> jstr" where
  "pad2 n = [48 + n div 10 mod 10, 48 + n mod 10]"

definition pad3 :: "nat \<Rightarrow> jstr" where
  "pad3 n = (48 + n div 100 mod 10) # pad2 n"

definition pad4 :: "nat \<Rightarrow> jstr" where
  "pad4 n = (48 + n div 1000 mod 10) # pad3 n"

definition isoYear :: "int \<Rightarrow> jstr" where
  "isoYear y =
     (if 0 \<le> y \<and> y \<le> 9999 then pad4 (nat y)
      else (if y < 0 then 45 else 43) # pad2 (nat (\<bar>y\<bar> div 10000)) @ pad4 (nat \<bar>y\<bar>))"

text \<open>The year of a day number: an estimate from the mean length of a year, which is off by at
  most one.\<close>

definition YearFromDay :: "int \<Rightarrow> int" where
  "YearFromDay d =
     (let y = 1970 + (d * 400) div 146097
      in if d < DayFromYear y then y - 1 else if DayFromYear (y + 1) \<le> d then y + 1 else y)"

definition MonthFromDay :: "bool \<Rightarrow> int \<Rightarrow> nat" where
  "MonthFromDay leap yday = last (filter (\<lambda>m. daysBeforeMonth leap m \<le> yday) [1..<13])"

definition toISOString :: "int \<Rightarrow> jstr" where
  "toISOString time =
     (let d = time div msPerDay; t = time mod msPerDay; year = YearFromDay d;
          yday = d - DayFromYear year; month = MonthFromDay (InLeapYear year) yday;
          date = yday - daysBeforeMonth (InLeapYear year) month + 1
      in isoYear year @ [45] @ pad2 month @ [45] @ pad2 (nat date) @ [84] @
         pad2 (nat (t div 3600000)) @ [58] @ pad2 (nat (t div 60000 mod 60)) @ [58] @
         pad2 (nat (t div 1000 mod 60)) @ [46] @ pad3 (nat (t mod 1000)) @ [90])"

text \<open>\<open>iso.endsWith('.000Z') ? iso.replace('.000Z', 'Z') : iso\<close>: the only dot of an ISO string
  starts its last five characters.\<close>

definition canonicalIso :: "jstr \<Rightarrow> jstr" where
  "canonicalIso isoText =
     (if drop (length isoText - 5) isoText = js ''.000Z'' then take (length isoText - 5) isoText @ js ''Z'' else isoText)"

definition requireTimestamp :: "(jstr \<Rightarrow> jstr) \<Rightarrow> jsval \<Rightarrow> string \<Rightarrow> contract_error + jstr" where
  "requireTimestamp nfc value label =
     bindE (requireString nfc value label 32) (\<lambda>timestamp.
     bindE (guardE (TIMESTAMP_PATTERN timestamp)
       (icError (label @ '' must be canonical UTC''))) (\<lambda>_.
     (case dateParse timestamp of
        None \<Rightarrow> Inl (icError (label @ '' is not a real timestamp''))
      | Some milliseconds \<Rightarrow>
          bindE (guardE (canonicalIso (toISOString milliseconds) = timestamp)
            (icError (label @ '' is not canonical UTC''))) (\<lambda>_. Inr timestamp))))"

text \<open>Only called on strings that passed \<open>requireTimestamp\<close>, where \<open>Date.parse\<close> is not NaN.\<close>

definition timestampMilliseconds :: "jstr \<Rightarrow> int" where
  "timestampMilliseconds value = (case dateParse value of None \<Rightarrow> 0 | Some ms \<Rightarrow> ms)"

section \<open>The calendar\<close>

lemma div_bounds:
  assumes "0 < (m::int)"
  shows "m * (x div m) \<le> x" and "x < m * (x div m) + m"
proof -
  have "x = m * (x div m) + x mod m" "0 \<le> x mod m" "x mod m < m"
    using assms by simp_all
  then show "m * (x div m) \<le> x" and "x < m * (x div m) + m"
    by linarith+
qed

lemma DayFromYear_bounds:
  "146097 * (y - 1970) - 506 \<le> 400 * DayFromYear y"
  "400 * DayFromYear y \<le> 146097 * (y - 1970) + 589"
proof -
  have "4 * ((y - 1969) div 4) \<le> y - 1969" "y - 1969 < 4 * ((y - 1969) div 4) + 4"
    "100 * ((y - 1901) div 100) \<le> y - 1901" "y - 1901 < 100 * ((y - 1901) div 100) + 100"
    "400 * ((y - 1601) div 400) \<le> y - 1601" "y - 1601 < 400 * ((y - 1601) div 400) + 400"
    by (rule div_bounds; simp)+
  then show "146097 * (y - 1970) - 506 \<le> 400 * DayFromYear y"
    "400 * DayFromYear y \<le> 146097 * (y - 1970) + 589"
    unfolding DayFromYear_def right_diff_distrib distrib_left by linarith+
qed

lemma YearFromDay_bounds: "DayFromYear (YearFromDay d) \<le> d \<and> d < DayFromYear (YearFromDay d + 1)"
proof -
  define y where "y = 1970 + (d * 400) div 146097"
  have "146097 * (y - 1970) \<le> d * 400" "d * 400 < 146097 * (y - 1970) + 146097"
    using div_bounds [of 146097 "d * 400"] by (simp_all add: y_def)
  then have "DayFromYear (y - 1) \<le> d" "d < DayFromYear (y + 2)"
    using DayFromYear_bounds [of "y - 1"] DayFromYear_bounds [of "y + 2"]
    unfolding right_diff_distrib distrib_left by linarith+
  then show ?thesis
    by (auto simp: YearFromDay_def Let_def y_def [symmetric] add.commute)
qed

lemma div_succ:
  assumes "0 < (m::int)"
  shows "(x + 1) div m = x div m + (if (x + 1) mod m = 0 then 1 else 0)"
proof -
  define q r where "q = x div m" and "r = x mod m"
  have x: "x + 1 = q * m + (r + 1)" and r: "0 \<le> r" "r < m"
    using assms by (simp_all add: q_def r_def)
  show ?thesis
  proof (cases "r + 1 = m")
    case True
    then have "x + 1 = (q + 1) * m"
      using x by (simp add: algebra_simps)
    then show ?thesis
      using assms by (simp add: q_def [symmetric])
  next
    case False
    then have "(r + 1) div m = 0" "(r + 1) mod m = r + 1"
      using r by simp_all
    then have "(x + 1) div m = q" "(x + 1) mod m = r + 1"
      unfolding x using assms by simp_all
    then show ?thesis
      using r by (simp add: q_def [symmetric])
  qed
qed

lemma mod_shift: "(m::int) dvd c \<Longrightarrow> (y - c) mod m = y mod m"
  by (metis diff_zero dvd_imp_mod_0 mod_diff_right_eq)

lemma div_next_year:
  assumes "0 < (m::int)" "m dvd c - 1"
  shows "(y + 1 - c) div m = (y - c) div m + (if y mod m = 0 then 1 else 0)"
proof -
  have e: "y - c + 1 = y + 1 - c" "y + 1 - c = y - (c - 1)"
    by simp_all
  have "(y + 1 - c) mod m = y mod m"
    unfolding e(2) by (rule mod_shift [OF assms(2)])
  then show ?thesis
    using div_succ [OF assms(1), of "y - c"] unfolding e(1) by presburger
qed

lemma DayFromYear_succ: "DayFromYear (y + 1) = DayFromYear y + (if InLeapYear y then 366 else 365)"
proof -
  have d: "y mod 400 = 0 \<Longrightarrow> y mod 100 = 0" "y mod 100 = 0 \<Longrightarrow> y mod 4 = 0"
    by (auto simp: mod_eq_0_iff_dvd intro: dvd_trans [of 100 400] dvd_trans [of 4 100])
  have "DayFromYear (y + 1) = 365 + 365 * (y - 1970) +
      ((y - 1969) div 4 + (if y mod 4 = 0 then 1 else 0)) -
      ((y - 1901) div 100 + (if y mod 100 = 0 then 1 else 0)) +
      ((y - 1601) div 400 + (if y mod 400 = 0 then 1 else 0))"
    unfolding DayFromYear_def
    by (subst (1 2 3) div_next_year) simp_all
  also have "\<dots> = DayFromYear y + (if InLeapYear y then 366 else 365)"
    unfolding DayFromYear_def InLeapYear_def using d
    by (cases "y mod 4 = 0"; cases "y mod 100 = 0"; cases "y mod 400 = 0") simp_all
  finally show ?thesis .
qed

lemma DayFromYear_mono: "y \<le> z \<Longrightarrow> DayFromYear y \<le> DayFromYear z"
proof (induction z rule: int_ge_induct)
  case (step i)
  then show ?case
    by (simp add: DayFromYear_succ)
qed simp

lemma YearFromDay_mono: "d \<le> e \<Longrightarrow> YearFromDay d \<le> YearFromDay e"
  using YearFromDay_bounds [of d] YearFromDay_bounds [of e]
    DayFromYear_mono [of "YearFromDay e + 1" "YearFromDay d"] by linarith

lemma MonthFromDay_bounds:
  assumes "0 \<le> yday" "yday < (if leap then 366 else 365)"
  shows "1 \<le> MonthFromDay leap yday \<and> MonthFromDay leap yday \<le> 12 \<and>
    daysBeforeMonth leap (MonthFromDay leap yday) \<le> yday \<and>
    yday < daysBeforeMonth leap (MonthFromDay leap yday) + 31"
proof -
  define l :: int where "l = (if leap then 1 else 0)"
  have upt: "[1..<13] = [1, 2, 3, 4, 5, 6, 7, 8, 9, 10, 11, 12::nat]"
    by (simp add: upt_rec)
  have table: "daysBeforeMonth leap 1 = 0" "daysBeforeMonth leap 2 = 31"
    "daysBeforeMonth leap 3 = 59 + l" "daysBeforeMonth leap 4 = 90 + l"
    "daysBeforeMonth leap 5 = 120 + l" "daysBeforeMonth leap 6 = 151 + l"
    "daysBeforeMonth leap 7 = 181 + l" "daysBeforeMonth leap 8 = 212 + l"
    "daysBeforeMonth leap 9 = 243 + l" "daysBeforeMonth leap 10 = 273 + l"
    "daysBeforeMonth leap 11 = 304 + l" "daysBeforeMonth leap 12 = 334 + l"
    by (simp_all add: daysBeforeMonth_def l_def)
  have l: "0 \<le> l" "l \<le> 1" "yday < 365 + l"
    using assms by (simp_all add: l_def split: if_splits)
  consider "yday < 31" | "31 \<le> yday" "yday < 59 + l" | "59 + l \<le> yday" "yday < 90 + l"
    | "90 + l \<le> yday" "yday < 120 + l" | "120 + l \<le> yday" "yday < 151 + l"
    | "151 + l \<le> yday" "yday < 181 + l" | "181 + l \<le> yday" "yday < 212 + l"
    | "212 + l \<le> yday" "yday < 243 + l" | "243 + l \<le> yday" "yday < 273 + l"
    | "273 + l \<le> yday" "yday < 304 + l" | "304 + l \<le> yday" "yday < 334 + l"
    | "334 + l \<le> yday"
    by linarith
  then show ?thesis
    using assms(1) l
    by cases (simp_all add: MonthFromDay_def upt [unfolded One_nat_def] table table(1) [unfolded One_nat_def])
qed

section \<open>Spellings of instants\<close>

definition isoText :: "nat \<Rightarrow> nat \<Rightarrow> nat \<Rightarrow> nat \<Rightarrow> nat \<Rightarrow> nat \<Rightarrow> jstr" where
  "isoText y mo d h mi s =
     pad4 y @ [45] @ pad2 mo @ [45] @ pad2 d @ [84] @ pad2 h @ [58] @ pad2 mi @ [58] @ pad2 s"

lemma digits_recompose:
  "n < 100 \<Longrightarrow> n div 10 mod 10 * 10 + n mod 10 = (n::nat)"
  "n < 1000 \<Longrightarrow> (n div 100 mod 10 * 10 + n div 10 mod 10) * 10 + n mod 10 = n"
  "n < 10000 \<Longrightarrow> ((n div 1000 mod 10 * 10 + n div 100 mod 10) * 10 + n div 10 mod 10) * 10 + n mod 10 = n"
proof -
  have d: "n div 10 div 10 = n div 100" "n div 100 div 10 = n div 1000"
    by (simp_all add: div_mult2_eq [symmetric])
  have e: "n mod 10 + 10 * (n div 10) = n" "n div 10 mod 10 + 10 * (n div 100) = n div 10"
    "n div 100 mod 10 + 10 * (n div 1000) = n div 100"
    using d mod_mult_div_eq [of n 10] mod_mult_div_eq [of "n div 10" 10] mod_mult_div_eq [of "n div 100" 10]
    by simp_all
  show "n < 100 \<Longrightarrow> n div 10 mod 10 * 10 + n mod 10 = n"
    using e(1) by simp
  show "(n div 100 mod 10 * 10 + n div 10 mod 10) * 10 + n mod 10 = n" if "n < 1000"
  proof -
    have "n div 100 mod 10 = n div 100"
      using that by (intro mod_less) linarith
    with e show ?thesis
      unfolding add_mult_distrib by linarith
  qed
  show "((n div 1000 mod 10 * 10 + n div 100 mod 10) * 10 + n div 10 mod 10) * 10 + n mod 10 = n"
    if "n < 10000"
  proof -
    have "n div 1000 mod 10 = n div 1000"
      using that by (intro mod_less) linarith
    with e show ?thesis
      unfolding add_mult_distrib by linarith
  qed
qed

lemma digitsValue_pad:
  "n < 100 \<Longrightarrow> digitsValue (pad2 n) = n" "n < 1000 \<Longrightarrow> digitsValue (pad3 n) = n"
  "n < 10000 \<Longrightarrow> digitsValue (pad4 n) = n"
  using digits_recompose [of n]
  by (simp_all add: digitsValue_def pad2_def pad3_def pad4_def)

lemma pad_digits:
  "list_all isDigit (pad2 n)" "list_all isDigit (pad3 n)" "list_all isDigit (pad4 n)"
  "length (pad2 n) = 2" "length (pad3 n) = 3" "length (pad4 n) = 4"
proof -
  have "isDigit (48 + x mod 10)" for x
    using mod_less_divisor [of 10 x] unfolding isDigit_def by linarith
  then show "list_all isDigit (pad2 n)" "list_all isDigit (pad3 n)" "list_all isDigit (pad4 n)"
    by (simp_all add: pad2_def pad3_def pad4_def)
qed (simp_all add: pad2_def pad3_def pad4_def)

lemma isoText_slices:
  "take 4 (isoText y mo d h mi s @ r) = pad4 y"
  "take 2 (drop 5 (isoText y mo d h mi s @ r)) = pad2 mo"
  "take 2 (drop 8 (isoText y mo d h mi s @ r)) = pad2 d"
  "take 2 (drop 11 (isoText y mo d h mi s @ r)) = pad2 h"
  "take 2 (drop 14 (isoText y mo d h mi s @ r)) = pad2 mi"
  "take 2 (drop 17 (isoText y mo d h mi s @ r)) = pad2 s"
  "drop 19 (isoText y mo d h mi s @ r) = r" "length (isoText y mo d h mi s) = 19"
  "(isoText y mo d h mi s @ r) ! 4 = 45" "(isoText y mo d h mi s @ r) ! 7 = 45"
  "(isoText y mo d h mi s @ r) ! 10 = 84" "(isoText y mo d h mi s @ r) ! 13 = 58"
  "(isoText y mo d h mi s @ r) ! 16 = 58"
  by (simp_all add: isoText_def pad2_def pad3_def pad4_def)

lemma isoText_pattern:
  "TIMESTAMP_PATTERN (isoText y mo d h mi s @ [90])"
  "TIMESTAMP_PATTERN (isoText y mo d h mi s @ [46] @ pad3 ms @ [90])"
proof -
  have r: "take 3 (drop 20 (isoText y mo d h mi s @ [46] @ r)) = take 3 r"
    "(isoText y mo d h mi s @ [46] @ r) ! 19 = 46" for r
    by (simp_all add: isoText_def pad2_def pad3_def pad4_def)
  show "TIMESTAMP_PATTERN (isoText y mo d h mi s @ [90])"
    unfolding TIMESTAMP_PATTERN_def isoText_slices by (simp add: isoText_slices pad_digits)
  show "TIMESTAMP_PATTERN (isoText y mo d h mi s @ [46] @ pad3 ms @ [90])"
    unfolding TIMESTAMP_PATTERN_def isoText_slices r
    by (simp add: isoText_slices pad_digits)
qed

lemma dateParse_isoText:
  assumes "y \<le> 9999" "1 \<le> mo" "mo \<le> 12" "1 \<le> d" "d \<le> 31" "h \<le> 23" "mi \<le> 59" "s \<le> 59" "ms \<le> 999"
  shows "dateParse (isoText y mo d h mi s @ [90]) =
      Some (makeTime (int y) mo (int d) (int h) (int mi) (int s) 0)"
    and "dateParse (isoText y mo d h mi s @ [46] @ pad3 ms @ [90]) =
      Some (makeTime (int y) mo (int d) (int h) (int mi) (int s) (int ms))"
proof -
  have r: "take 3 (drop 20 (isoText y mo d h mi s @ [46] @ pad3 ms @ r)) = pad3 ms" for r
    by (simp add: isoText_def pad2_def pad3_def pad4_def)
  have v: "digitsValue (pad4 y) = y" "digitsValue (pad2 mo) = mo" "digitsValue (pad2 d) = d"
    "digitsValue (pad2 h) = h" "digitsValue (pad2 mi) = mi" "digitsValue (pad2 s) = s"
    "digitsValue (pad3 ms) = ms"
    using assms by (simp_all add: digitsValue_pad)
  show "dateParse (isoText y mo d h mi s @ [90]) =
      Some (makeTime (int y) mo (int d) (int h) (int mi) (int s) 0)"
    unfolding dateParse_def Let_def isoText_slices v using assms by (simp add: isoText_slices)
  have len: "length (isoText y mo d h mi s @ [46] @ pad3 ms @ [90]) = 24"
    by (simp add: isoText_slices pad_digits)
  show "dateParse (isoText y mo d h mi s @ [46] @ pad3 ms @ [90]) =
      Some (makeTime (int y) mo (int d) (int h) (int mi) (int s) (int ms))"
    unfolding dateParse_def Let_def len isoText_slices r v using assms by simp
qed

text \<open>The canonical spelling of an instant.\<close>

definition spellInstant :: "int \<Rightarrow> jstr" where
  "spellInstant ms = canonicalIso (toISOString ms)"

lemma clock_recompose:
  "t = t div 3600000 * 3600000 + t div 60000 mod 60 * 60000 + t div 1000 mod 60 * 1000 + t mod (1000::int)"
proof -
  have "t div 60000 = t div 1000 div 60" "t div 3600000 = t div 60000 div 60"
    using zdiv_zmult2_eq [of 60 t 1000] zdiv_zmult2_eq [of 60 t 60000] by simp_all
  moreover have "t = t div 1000 * 1000 + t mod 1000"
    "t div 1000 = t div 1000 div 60 * 60 + t div 1000 mod 60"
    "t div 60000 = t div 60000 div 60 * 60 + t div 60000 mod 60"
    by simp_all
  ultimately show ?thesis
    by linarith
qed

lemma spell_parts:
  fixes time :: int
  defines "year \<equiv> YearFromDay (time div msPerDay)"
  assumes "0 \<le> year" "year \<le> 9999"
  obtains mo d h mi s ms where
    "1 \<le> mo" "mo \<le> 12" "1 \<le> d" "d \<le> 31" "h \<le> 23" "mi \<le> 59" "s \<le> 59" "ms \<le> 999"
    "toISOString time = isoText (nat year) mo d h mi s @ [46] @ pad3 ms @ [90]"
    "makeTime year mo (int d) (int h) (int mi) (int s) (int ms) = time"
    "mo = MonthFromDay (InLeapYear year) (time div msPerDay - DayFromYear year)"
    "int d = time div msPerDay - DayFromYear year - daysBeforeMonth (InLeapYear year) mo + 1"
    "int h = time mod msPerDay div 3600000" "int mi = time mod msPerDay div 60000 mod 60"
    "int s = time mod msPerDay div 1000 mod 60" "int ms = time mod msPerDay mod 1000"
proof -
  define t where "t = time mod msPerDay"
  define yday where "yday = time div msPerDay - DayFromYear year"
  define mo where "mo = MonthFromDay (InLeapYear year) yday"
  define d where "d = yday - daysBeforeMonth (InLeapYear year) mo + 1"
  have "0 \<le> yday" "yday < (if InLeapYear year then 366 else 365)"
    using YearFromDay_bounds [of "time div msPerDay"] DayFromYear_succ [of year]
    unfolding yday_def year_def by linarith+
  then have mo: "1 \<le> mo" "mo \<le> 12" "1 \<le> d" "d \<le> 31"
    using MonthFromDay_bounds [of yday "InLeapYear year"] unfolding mo_def d_def by auto
  have t: "0 \<le> t" "t < 86400000"
    by (simp_all add: t_def msPerDay_def)
  have h: "t div 3600000 \<le> 23" "0 \<le> t div 3600000"
    using t by linarith+
  have mods: "t div 60000 mod 60 \<le> 59" "t div 1000 mod 60 \<le> 59" "t mod 1000 \<le> 999"
    using pos_mod_bound [of 60 "t div 60000"] pos_mod_bound [of 60 "t div 1000"]
      pos_mod_bound [of 1000 t] by linarith+
  have ints: "int (nat d) = d" "int (nat (t div 3600000)) = t div 3600000"
    "int (nat (t div 60000 mod 60)) = t div 60000 mod 60"
    "int (nat (t div 1000 mod 60)) = t div 1000 mod 60" "int (nat (t mod 1000)) = t mod 1000"
    using mo h by simp_all
  have bounds: "1 \<le> nat d" "nat d \<le> 31" "nat (t div 3600000) \<le> 23" "nat (t div 60000 mod 60) \<le> 59"
    "nat (t div 1000 mod 60) \<le> 59" "nat (t mod 1000) \<le> 999"
    using mo h mods ints by linarith+
  show ?thesis
  proof (rule that [of mo "nat d" "nat (t div 3600000)" "nat (t div 60000 mod 60)"
        "nat (t div 1000 mod 60)" "nat (t mod 1000)"])
    show "toISOString time = isoText (nat year) mo (nat d) (nat (t div 3600000))
        (nat (t div 60000 mod 60)) (nat (t div 1000 mod 60)) @ [46] @ pad3 (nat (t mod 1000)) @ [90]"
      using assms by (simp add: toISOString_def Let_def isoText_def isoYear_def t_def yday_def mo_def
          d_def year_def)
    have "time = (DayFromYear year + daysBeforeMonth (InLeapYear year) mo + (d - 1)) * msPerDay + t"
      by (simp add: d_def yday_def t_def)
    then show "makeTime year mo (int (nat d)) (int (nat (t div 3600000))) (int (nat (t div 60000 mod 60)))
        (int (nat (t div 1000 mod 60))) (int (nat (t mod 1000))) = time"
      using clock_recompose [of t] unfolding makeTime_def ints by linarith
    show "mo = MonthFromDay (InLeapYear year) (time div msPerDay - DayFromYear year)"
      "int (nat d) = time div msPerDay - DayFromYear year - daysBeforeMonth (InLeapYear year) mo + 1"
      "int (nat (t div 3600000)) = time mod msPerDay div 3600000"
      "int (nat (t div 60000 mod 60)) = time mod msPerDay div 60000 mod 60"
      "int (nat (t div 1000 mod 60)) = time mod msPerDay div 1000 mod 60"
      "int (nat (t mod 1000)) = time mod msPerDay mod 1000"
      unfolding ints by (simp_all add: mo_def yday_def d_def t_def)
  qed (rule bounds mo)+
qed

lemma YearFromDay_range:
  "0 \<le> YearFromDay (ms div msPerDay) \<and> YearFromDay (ms div msPerDay) \<le> 9999 \<longleftrightarrow>
     - 62167219200000 \<le> ms \<and> ms \<le> 253402300799999"
proof -
  let ?d = "ms div msPerDay"
  have ends: "DayFromYear 0 = - 719528" "DayFromYear 10000 = 2932897"
    by (simp_all add: DayFromYear_def)
  have "0 \<le> YearFromDay ?d \<longleftrightarrow> DayFromYear 0 \<le> ?d"
    using YearFromDay_bounds [of ?d] DayFromYear_mono [of 0 "YearFromDay ?d"]
      DayFromYear_mono [of "YearFromDay ?d + 1" 0] by linarith
  moreover have "YearFromDay ?d \<le> 9999 \<longleftrightarrow> ?d < DayFromYear 10000"
    using YearFromDay_bounds [of ?d] DayFromYear_mono [of 10000 "YearFromDay ?d"]
      DayFromYear_mono [of "YearFromDay ?d + 1" 10000] by linarith
  ultimately show ?thesis
    unfolding ends msPerDay_def by linarith
qed

lemma canonicalIso_isoText:
  assumes "ms \<le> 999"
  shows "canonicalIso (isoText y mo d h mi s @ [46] @ pad3 ms @ [90]) =
    (if ms = 0 then isoText y mo d h mi s @ [90] else isoText y mo d h mi s @ [46] @ pad3 ms @ [90])"
proof -
  have "pad3 ms = [48, 48, 48] \<longleftrightarrow> ms = 0"
    using digitsValue_pad(2) [of ms] digitsValue_pad(2) [of 0] assms
    by (auto simp: pad3_def pad2_def)
  then show ?thesis
    by (auto simp: canonicalIso_def isoText_slices pad_digits js_def)
qed

lemma spellInstant_facts:
  assumes "- 62167219200000 \<le> ms" "ms \<le> 253402300799999"
  shows "TIMESTAMP_PATTERN (spellInstant ms)" "dateParse (spellInstant ms) = Some ms"
proof -
  define year where "year = YearFromDay (ms div msPerDay)"
  have year: "0 \<le> year" "year \<le> 9999"
    using assms YearFromDay_range [of ms] by (simp_all add: year_def)
  obtain mo d h mi s u where p:
    "1 \<le> mo" "mo \<le> 12" "1 \<le> d" "d \<le> 31" "h \<le> 23" "mi \<le> 59" "s \<le> 59" "u \<le> 999"
    "toISOString ms = isoText (nat year) mo d h mi s @ [46] @ pad3 u @ [90]"
    "makeTime year mo (int d) (int h) (int mi) (int s) (int u) = ms"
    using spell_parts [of ms] year unfolding year_def by metis
  have "nat year \<le> 9999" "int (nat year) = year"
    using year by simp_all
  then show "TIMESTAMP_PATTERN (spellInstant ms)" "dateParse (spellInstant ms) = Some ms"
    unfolding spellInstant_def p(9) canonicalIso_isoText [OF p(8)]
    using p isoText_pattern dateParse_isoText [of "nat year" mo d h mi s u]
    by (auto simp del: append_Cons append_Nil)
qed

lemma spellInstant_inj:
  "- 62167219200000 \<le> a \<Longrightarrow> a \<le> 253402300799999 \<Longrightarrow>
   - 62167219200000 \<le> b \<Longrightarrow> b \<le> 253402300799999 \<Longrightarrow> spellInstant a = spellInstant b \<Longrightarrow> a = b"
  by (metis option.inject spellInstant_facts(2))

lemma digit_head_year:
  assumes "TIMESTAMP_PATTERN (spellInstant ms)"
  shows "- 62167219200000 \<le> ms \<and> ms \<le> 253402300799999"
proof (rule ccontr)
  assume "\<not> ?thesis"
  then have out: "\<not> (0 \<le> YearFromDay (ms div msPerDay) \<and> YearFromDay (ms div msPerDay) \<le> 9999)"
    using YearFromDay_range by blast
  have "\<exists>r. toISOString ms = 45 # r \<or> toISOString ms = 43 # r"
    using out unfolding toISOString_def Let_def isoYear_def by (auto simp del: append_assoc)
  moreover have "6 \<le> length (toISOString ms)"
    by (simp add: toISOString_def Let_def pad_digits)
  ultimately have "\<exists>r. spellInstant ms = 45 # r \<or> spellInstant ms = 43 # r"
    unfolding spellInstant_def canonicalIso_def by (auto simp: take_Cons split: nat.splits)
  then show False
    using assms by (auto simp: TIMESTAMP_PATTERN_def isDigit_def)
qed

lemma requireTimestamp_Inr [require_simps]:
  "requireTimestamp nfc v label = Inr t \<longleftrightarrow>
     v = JStr t \<and> canonical_string nfc t \<and>
     (\<exists>ms. - 62167219200000 \<le> ms \<and> ms \<le> 253402300799999 \<and> t = spellInstant ms)"
proof
  assume r: "requireTimestamp nfc v label = Inr t"
  then obtain ms where "v = JStr t" "canonical_string nfc t" "TIMESTAMP_PATTERN t" "spellInstant ms = t"
    by (auto simp: requireTimestamp_def result_simps require_simps spellInstant_def split: option.splits)
  then show "v = JStr t \<and> canonical_string nfc t \<and>
     (\<exists>ms. - 62167219200000 \<le> ms \<and> ms \<le> 253402300799999 \<and> t = spellInstant ms)"
    using digit_head_year [of ms] by auto
next
  assume "v = JStr t \<and> canonical_string nfc t \<and>
     (\<exists>ms. - 62167219200000 \<le> ms \<and> ms \<le> 253402300799999 \<and> t = spellInstant ms)"
  then obtain ms where t: "v = JStr t" "canonical_string nfc t" "t = spellInstant ms"
    "TIMESTAMP_PATTERN t" "dateParse t = Some ms"
    using spellInstant_facts by blast
  then have "length t \<le> 32"
    by (auto simp: TIMESTAMP_PATTERN_def)
  with t show "requireTimestamp nfc v label = Inr t"
    by (simp add: requireTimestamp_def result_simps require_simps spellInstant_def)
qed

lemma timestampMilliseconds_spell [simp]:
  "- 62167219200000 \<le> ms \<Longrightarrow> ms \<le> 253402300799999 \<Longrightarrow> timestampMilliseconds (spellInstant ms) = ms"
  by (simp add: timestampMilliseconds_def spellInstant_facts)

text \<open>The valid timestamps, for the invariants of the records that carry them.\<close>

definition wf_timestamp :: "jstr \<Rightarrow> bool" where
  "wf_timestamp t \<longleftrightarrow> TIMESTAMP_PATTERN t \<and> spellInstant (timestampMilliseconds t) = t"

lemma wf_timestamp_iff:
  "wf_timestamp t \<longleftrightarrow> (\<exists>ms. - 62167219200000 \<le> ms \<and> ms \<le> 253402300799999 \<and> t = spellInstant ms)"
  unfolding wf_timestamp_def
  using digit_head_year spellInstant_facts(1) timestampMilliseconds_spell by metis

lemma requireTimestamp_wf:
  "requireTimestamp nfc v label = Inr t \<longleftrightarrow> v = JStr t \<and> canonical_string nfc t \<and> wf_timestamp t"
  by (simp add: requireTimestamp_Inr wf_timestamp_iff)

lemma wf_timestamp_inj:
  "wf_timestamp a \<Longrightarrow> wf_timestamp b \<Longrightarrow> timestampMilliseconds a = timestampMilliseconds b \<Longrightarrow> a = b"
  by (metis wf_timestamp_def)

text \<open>\<open>requireTimestamp\<close> accepts exactly the canonical spelling of the instants of the years 0000 to
  9999, and \<open>timestampMilliseconds\<close> reads each of them back: days that do not exist, the hour 24,
  zero milliseconds written out and every other alternative spelling are rejected, so that two
  accepted timestamps are equal exactly when they denote the same instant.\<close>

theorem requireTimestamp_exact:
  "requireTimestamp nfc v label = Inr t \<longleftrightarrow>
     v = JStr t \<and> canonical_string nfc t \<and>
     (\<exists>ms. - 62167219200000 \<le> ms \<and> ms \<le> 253402300799999 \<and>
       t = canonicalIso (toISOString ms) \<and> timestampMilliseconds t = ms)"
  unfolding requireTimestamp_Inr spellInstant_def [symmetric]
  by (metis timestampMilliseconds_spell)

end
