(* ===== verification/Base64url.thy ===== *)
theory Base64url
  imports Require
begin

text \<open>
  The unpadded base64url codec of \<open>intent-contract.ts\<close> (\<open>encodeBase64Url\<close>, \<open>decodeBase64Url\<close>) and
  the two checks built on it. The loops over groups of three bytes and four characters are
  recursions that drop one group at a time. The codec is an instance of \<open>strict_codec\<close>: decoding
  accepts exactly the encodings of non-empty byte strings.
\<close>

unbundle bit_operations_syntax

section \<open>Definitions\<close>

definition base64UrlAlphabet :: jstr where
  "base64UrlAlphabet = js ''ABCDEFGHIJKLMNOPQRSTUVWXYZabcdefghijklmnopqrstuvwxyz0123456789-_''"

definition encodeGroup :: "byte \<Rightarrow> byte list \<Rightarrow> jstr" where
  "encodeGroup b rest =
     (let first = unat b;
          hasSecond = 0 < length rest;
          hasThird = 1 < length rest;
          second = (if hasSecond then unat (rest ! 0) else 0);
          third = (if hasThird then unat (rest ! 1) else 0)
      in [base64UrlAlphabet ! drop_bit 2 first,
          base64UrlAlphabet ! (push_bit 4 (first AND 0x03) OR drop_bit 4 second)]
         @ (if hasSecond
            then [base64UrlAlphabet ! (push_bit 2 (second AND 0x0f) OR drop_bit 6 third)] else [])
         @ (if hasThird then [base64UrlAlphabet ! (third AND 0x3f)] else []))"

fun encodeBase64Url :: "byte list \<Rightarrow> jstr" where
  "encodeBase64Url [] = []"
| "encodeBase64Url (b # rest) = encodeGroup b rest @ encodeBase64Url (drop 2 rest)"

definition requireBase64UrlSyntax :: "jsval \<Rightarrow> string \<Rightarrow> nat \<Rightarrow> nat \<Rightarrow> contract_error + jstr" where
  "requireBase64UrlSyntax value label minLength maxLength =
     (case value of
        JStr s \<Rightarrow>
          if length s < minLength \<or> length s > maxLength \<or> \<not> BASE64URL_PATTERN s
          then Inl (icError (label @ '' must be canonical base64url'')) else Inr s
      | _ \<Rightarrow> Inl (icError (label @ '' must be canonical base64url'')))"

text \<open>\<open>values.get\<close>: the position of a character in the alphabet. The syntax check has already
  rejected every other character.\<close>

definition sextetValue :: "nat \<Rightarrow> nat" where
  "sextetValue c = (case map_of (zip base64UrlAlphabet [0..<64]) c of None \<Rightarrow> 0 | Some i \<Rightarrow> i)"

definition decodeGroup :: "nat \<Rightarrow> jstr \<Rightarrow> contract_error + byte list" where
  "decodeGroup c cs =
     (let remaining = Suc (length cs);
          first = sextetValue c;
          second = (if remaining > 1 then sextetValue (cs ! 0) else 0);
          third = (if remaining > 2 then sextetValue (cs ! 1) else 0);
          fourth = (if remaining > 3 then sextetValue (cs ! 2) else 0)
      in if (remaining = 2 \<and> second AND 0x0f \<noteq> 0) \<or> (remaining = 3 \<and> third AND 0x03 \<noteq> 0)
         then Inl (icError ''Base64url value has non-canonical trailing bits'')
         else Inr ([toByte (push_bit 2 first OR drop_bit 4 second)]
           @ (if remaining > 2 then [toByte (push_bit 4 (second AND 0x0f) OR drop_bit 2 third)] else [])
           @ (if remaining > 3 then [toByte (push_bit 6 (third AND 0x03) OR fourth)] else [])))"

fun decodeGroups :: "jstr \<Rightarrow> contract_error + byte list" where
  "decodeGroups [] = Inr []"
| "decodeGroups (c # cs) =
     bindE (decodeGroup c cs) (\<lambda>bytes.
     bindE (decodeGroups (drop 3 cs)) (\<lambda>rest. Inr (bytes @ rest)))"

definition decodeBase64Url :: "jstr \<Rightarrow> contract_error + byte list" where
  "decodeBase64Url value =
     bindE (requireBase64UrlSyntax (JStr value) ''Base64url value'' 1 (nat MAX_SAFE_INTEGER)) (\<lambda>_.
     bindE (guardE (length value mod 4 \<noteq> 1)
       (icError ''Base64url value has invalid length'')) (\<lambda>_.
     bindE (decodeGroups value) (\<lambda>decoded.
     bindE (guardE (encodeBase64Url decoded = value)
       (icError ''Base64url value is not canonical'')) (\<lambda>_. Inr decoded))))"

definition encodedBase64UrlLength :: "nat \<Rightarrow> nat" where
  "encodedBase64UrlLength byteLength =
     (let completeTriples = byteLength div 3; remainder = byteLength mod 3
      in completeTriples * 4 + (if remainder = 0 then 0 else remainder + 1))"

definition byteExpectation :: "nat \<Rightarrow> nat \<Rightarrow> jstr" where
  "byteExpectation minBytes maxBytes =
     (if minBytes = maxBytes then js ''exactly '' @ decDigits minBytes
      else js ''between '' @ decDigits minBytes @ js '' and '' @ decDigits maxBytes)"

definition requireCanonicalBase64Url ::
  "jsval \<Rightarrow> string \<Rightarrow> nat \<Rightarrow> nat \<Rightarrow> contract_error + jstr" where
  "requireCanonicalBase64Url value label minBytes maxBytes =
     bindE (requireBase64UrlSyntax value label (if minBytes = 0 then 0 else 1)
       (encodedBase64UrlLength maxBytes)) (\<lambda>encoded.
     bindE (catchE (decodeBase64Url encoded) (\<lambda>error.
       IntentContractValidationError (js (label @ '': '') @ error_message error))) (\<lambda>decoded.
     bindE (guardE (\<not> (length decoded < minBytes \<or> length decoded > maxBytes))
       (IntentContractValidationError
         (js (label @ '' must decode to '') @ byteExpectation minBytes maxBytes @ js '' bytes''))) (\<lambda>_.
     bindE (guardE (encodeBase64Url decoded = encoded)
       (icError (label @ '' must use canonical base64url encoding''))) (\<lambda>_. Inr encoded))))"

section \<open>The alphabet\<close>

lemma length_alphabet: "length base64UrlAlphabet = 64"
  by (simp add: base64UrlAlphabet_def)

lemma distinct_alphabet: "distinct base64UrlAlphabet"
  by (simp add: base64UrlAlphabet_def js_def)

lemma alphabet_pattern:
  "\<forall>c \<in> set base64UrlAlphabet. isDigit c \<or> isLower c \<or> isUpper c \<or> c = 95 \<or> c = 45"
  by (simp add: base64UrlAlphabet_def js_def char_class_defs)

lemma sextetValue_nth [simp]: "i < 64 \<Longrightarrow> sextetValue (base64UrlAlphabet ! i) = i"
proof -
  assume i: "i < 64"
  have "map_of (zip base64UrlAlphabet [0..<64]) (base64UrlAlphabet ! i) = Some ([0..<64] ! i)"
    using distinct_alphabet i by (intro map_of_zip_nth) (simp_all add: length_alphabet)
  with i show ?thesis
    by (simp add: sextetValue_def)
qed

section \<open>Encoding and decoding a group\<close>

lemma or_shift_nat:
  "b < 16 \<Longrightarrow> push_bit 4 a OR b = a * 16 + (b::nat)"
  "b < 4 \<Longrightarrow> push_bit 2 a OR b = a * 4 + (b::nat)"
  "b < 64 \<Longrightarrow> push_bit 6 a OR b = a * 64 + (b::nat)"
  using or_disjoint_nat [of b 4 a] or_disjoint_nat [of b 2 a] or_disjoint_nat [of b 6 a]
  by (simp_all add: push_bit_eq_mult)

lemma byte_quarter: "unat (b::byte) div 4 < 64" "unat b div 16 < 16" "unat b div 64 < 4"
  using unat_less_256 [of b] by linarith+

lemma encodeGroup_arith:
  "encodeGroup b [] = [base64UrlAlphabet ! (unat b div 4), base64UrlAlphabet ! (unat b mod 4 * 16)]"
  "encodeGroup b [c] = [base64UrlAlphabet ! (unat b div 4),
     base64UrlAlphabet ! (unat b mod 4 * 16 + unat c div 16), base64UrlAlphabet ! (unat c mod 16 * 4)]"
  "encodeGroup b (c # d # r) = [base64UrlAlphabet ! (unat b div 4),
     base64UrlAlphabet ! (unat b mod 4 * 16 + unat c div 16),
     base64UrlAlphabet ! (unat c mod 16 * 4 + unat d div 64), base64UrlAlphabet ! (unat d mod 64)]"
  using byte_quarter
  by (simp_all add: encodeGroup_def Let_def or_shift_nat drop_bit_eq_div, simp_all add: push_bit_eq_mult)

lemma group_bounds:
  "(x::nat) mod 4 * 16 < 64" "x mod 16 * 4 < 64"
  "y < 16 \<Longrightarrow> x mod 4 * 16 + y < 64" "y < 4 \<Longrightarrow> x mod 16 * 4 + y < 64"
proof -
  have "x mod 4 < 4" "x mod 16 < 16"
    by simp_all
  then show "x mod 4 * 16 < 64" "x mod 16 * 4 < 64"
    "y < 16 \<Longrightarrow> x mod 4 * 16 + y < 64" "y < 4 \<Longrightarrow> x mod 16 * 4 + y < 64"
    by simp_all
qed

lemma decodeGroups_arith:
  assumes "i < 64" "j < 64" "k < 64" "l < 64"
  shows "decodeGroups [base64UrlAlphabet ! i, base64UrlAlphabet ! j] =
      (if j mod 16 = 0 then Inr [toByte (i * 4 + j div 16)]
       else Inl (icError ''Base64url value has non-canonical trailing bits''))"
    and "decodeGroups [base64UrlAlphabet ! i, base64UrlAlphabet ! j, base64UrlAlphabet ! k] =
      (if k mod 4 = 0 then Inr [toByte (i * 4 + j div 16), toByte (j mod 16 * 16 + k div 4)]
       else Inl (icError ''Base64url value has non-canonical trailing bits''))"
    and "decodeGroups (base64UrlAlphabet ! i # base64UrlAlphabet ! j # base64UrlAlphabet ! k #
        base64UrlAlphabet ! l # s) =
      bindE (decodeGroups s) (\<lambda>rest. Inr (toByte (i * 4 + j div 16) #
        toByte (j mod 16 * 16 + k div 4) # toByte (k mod 4 * 64 + l) # rest))"
proof -
  have *: "j div 16 < 4" "k div 4 < 16"
    using assms by linarith+
  show "decodeGroups [base64UrlAlphabet ! i, base64UrlAlphabet ! j] =
      (if j mod 16 = 0 then Inr [toByte (i * 4 + j div 16)]
       else Inl (icError ''Base64url value has non-canonical trailing bits''))"
    using assms * by (simp add: decodeGroup_def Let_def or_shift_nat drop_bit_eq_div)
  show "decodeGroups [base64UrlAlphabet ! i, base64UrlAlphabet ! j, base64UrlAlphabet ! k] =
      (if k mod 4 = 0 then Inr [toByte (i * 4 + j div 16), toByte (j mod 16 * 16 + k div 4)]
       else Inl (icError ''Base64url value has non-canonical trailing bits''))"
    using assms * by (simp add: decodeGroup_def Let_def or_shift_nat drop_bit_eq_div)
  show "decodeGroups (base64UrlAlphabet ! i # base64UrlAlphabet ! j # base64UrlAlphabet ! k #
        base64UrlAlphabet ! l # s) =
      bindE (decodeGroups s) (\<lambda>rest. Inr (toByte (i * 4 + j div 16) #
        toByte (j mod 16 * 16 + k div 4) # toByte (k mod 4 * 64 + l) # rest))"
    using assms * by (simp add: decodeGroup_def Let_def or_shift_nat drop_bit_eq_div)
qed

lemma decode_encodeGroup:
  "decodeGroups (encodeGroup b []) = Inr [b]"
  "decodeGroups (encodeGroup b [c]) = Inr [b, c]"
  "decodeGroups (encodeGroup b (c # d # r) @ s) =
     bindE (decodeGroups s) (\<lambda>rest. Inr (b # c # d # rest))"
  using byte_quarter [of b] byte_quarter [of c] byte_quarter [of d]
    group_bounds(1,2) [of "unat b"] group_bounds(1,2) [of "unat c"]
    group_bounds(3) [of "unat c div 16" "unat b"] group_bounds(4) [of "unat d div 64" "unat c"]
  by (simp_all add: encodeGroup_arith decodeGroups_arith del: decodeGroups.simps(2))

lemma decodeGroups_encode: "decodeGroups (encodeBase64Url bs) = Inr bs"
proof (induction bs rule: encodeBase64Url.induct)
  case (2 b rest)
  show ?case
  proof (cases rest)
    case (Cons c rest')
    then show ?thesis
      using 2 by (cases rest') (simp_all add: decode_encodeGroup del: decodeGroups.simps(2))
  qed (simp add: decode_encodeGroup del: decodeGroups.simps(2))
qed simp

lemma encodeGroup_chars: "set (encodeGroup b rest) \<subseteq> set base64UrlAlphabet"
proof -
  have in_alphabet: "i < 64 \<Longrightarrow> base64UrlAlphabet ! i \<in> set base64UrlAlphabet" for i
    by (simp add: length_alphabet)
  consider "rest = []" | c where "rest = [c]" | c d r where "rest = c # d # r"
    by (metis list.exhaust)
  then show ?thesis
    using byte_quarter group_bounds
    by cases (auto simp: encodeGroup_arith intro!: in_alphabet)
qed

lemma encodeBase64Url_chars: "set (encodeBase64Url bs) \<subseteq> set base64UrlAlphabet"
  by (induction bs rule: encodeBase64Url.induct) (use encodeGroup_chars in auto)

lemma length_encodeBase64Url: "length (encodeBase64Url bs) = encodedBase64UrlLength (length bs)"
proof (induction bs rule: encodeBase64Url.induct)
  case (2 b rest)
  consider "rest = []" | c where "rest = [c]" | c d r where "rest = c # d # r"
    by (metis list.exhaust)
  then show ?case
    by cases (use 2 in \<open>simp_all add: encodeGroup_arith encodedBase64UrlLength_def Let_def\<close>)
qed (simp add: encodedBase64UrlLength_def)

lemma encodedBase64UrlLength_closed: "encodedBase64UrlLength n = (4 * n + 2) div 3"
proof -
  consider "n mod 3 = 0" | "n mod 3 = 1" | "n mod 3 = 2"
    by linarith
  then show ?thesis
    unfolding encodedBase64UrlLength_def Let_def by cases (simp_all, presburger+)
qed

lemma encodedBase64UrlLength_mod: "encodedBase64UrlLength n mod 4 \<noteq> 1"
  unfolding encodedBase64UrlLength_closed by presburger

lemma encodedBase64UrlLength_mono: "m \<le> n \<Longrightarrow> encodedBase64UrlLength m \<le> encodedBase64UrlLength n"
  unfolding encodedBase64UrlLength_closed by (rule div_le_mono) simp

lemma encodedBase64UrlLength_strict: "m < n \<Longrightarrow> encodedBase64UrlLength m < encodedBase64UrlLength n"
  unfolding encodedBase64UrlLength_closed by linarith

section \<open>The codec is strict\<close>

lemma BASE64URL_encode: "bs \<noteq> [] \<Longrightarrow> BASE64URL_PATTERN (encodeBase64Url bs)"
  using encodeBase64Url_chars [of bs] alphabet_pattern
  by (cases bs) (auto simp: BASE64URL_PATTERN_def list_all_iff encodeGroup_def Let_def)

definition base64url_sized :: "byte list \<Rightarrow> bool" where
  "base64url_sized bs \<longleftrightarrow> bs \<noteq> [] \<and> encodedBase64UrlLength (length bs) \<le> nat MAX_SAFE_INTEGER"

interpretation base64url: strict_codec encodeBase64Url decodeBase64Url base64url_sized
proof
  fix bs
  assume bs: "base64url_sized bs"
  moreover have "length (encodeBase64Url bs) \<noteq> 0"
    using bs by (cases bs) (simp_all add: base64url_sized_def encodeGroup_def Let_def)
  ultimately show "decodeBase64Url (encodeBase64Url bs) = Inr bs"
    using encodedBase64UrlLength_mod [of "length bs"]
    by (simp add: decodeBase64Url_def requireBase64UrlSyntax_def BASE64URL_encode
        length_encodeBase64Url decodeGroups_encode base64url_sized_def del: encodeBase64Url.simps)
next
  fix s bs
  assume d: "decodeBase64Url s = Inr bs"
  then have s: "encodeBase64Url bs = s" "s \<noteq> []" "length s \<le> nat MAX_SAFE_INTEGER"
    by (auto simp: decodeBase64Url_def result_simps requireBase64UrlSyntax_def split: if_splits)
  then show "base64url_sized bs \<and> encodeBase64Url bs = s"
    using length_encodeBase64Url [of bs] by (auto simp: base64url_sized_def)
qed

lemma requireBase64UrlSyntax_Inr [require_simps]:
  "requireBase64UrlSyntax v label m n = Inr s \<longleftrightarrow>
     v = JStr s \<and> m \<le> length s \<and> length s \<le> n \<and> BASE64URL_PATTERN s"
  by (auto simp: requireBase64UrlSyntax_def split: jsval.splits if_splits)

lemma requireCanonicalBase64Url_Inr [require_simps]:
  assumes "0 < m" "encodedBase64UrlLength n \<le> nat MAX_SAFE_INTEGER"
  shows "requireCanonicalBase64Url v label m n = Inr s \<longleftrightarrow>
     (\<exists>bs. v = JStr s \<and> s = encodeBase64Url bs \<and> m \<le> length bs \<and> length bs \<le> n)"
proof -
  have "base64url_sized bs \<and> BASE64URL_PATTERN (encodeBase64Url bs) \<and> Suc 0 \<le> length (encodeBase64Url bs) \<and>
      length (encodeBase64Url bs) \<le> encodedBase64UrlLength n"
    if "m \<le> length bs" "length bs \<le> n" for bs
    using that assms encodedBase64UrlLength_mono [of "length bs" n]
      encodedBase64UrlLength_strict [of 0 "length bs"]
    by (cases "bs = []")
      (auto simp: base64url_sized_def length_encodeBase64Url intro!: BASE64URL_encode)
  then show ?thesis
    using assms by (auto simp: requireCanonicalBase64Url_def result_simps require_simps not_less
        base64url.dec_iff)
qed

text \<open>\<open>decodeBase64Url\<close> accepts a string exactly when it is the \<open>encodeBase64Url\<close> image of the bytes
  it returns (non-empty, and short enough for the length check): padding, foreign characters, a
  dangling character and non-zero trailing bits are all rejected, and no two strings decode to
  the same bytes.\<close>

theorem decodeBase64Url_exact_inverse:
  "decodeBase64Url s = Inr bs \<longleftrightarrow>
     bs \<noteq> [] \<and> encodedBase64UrlLength (length bs) \<le> nat MAX_SAFE_INTEGER \<and> s = encodeBase64Url bs"
  using base64url.dec_iff [of s bs] by (auto simp: base64url_sized_def)

end
