(* ===== verification/Intent_Contract.thy ===== *)
theory Intent_Contract
  imports Resource_Selector Timestamps Base64url
begin

text \<open>
  The Intent Contract of \<open>intent-contract.ts\<close>: its data model as records, and the validators from
  \<open>validateValidity\<close> to \<open>parseCanonicalSafeCodingIntentContract\<close>. Each validator reads an untrusted
  JavaScript value and returns the validated record or the first error, in the order of the
  source. The fields \<open>kind\<close> and \<open>specVersion\<close> are constants and only appear in the JSON form.

  The validators end with \<open>canonicalizeJson(contract)\<close>, run for its checks. They return every leaf as
  they received it, so the model runs that check on the received value; \<open>contract_shape\<close> shows
  that the JSON form of the returned record is the received value up to the order of its keys.
\<close>

section \<open>Data\<close>

datatype fs_action = FsStat | FsList | FsRead | FsCreate | FsReplace | FsMkdir

datatype git_action = GitStatus | GitDiff

datatype effect_class = LocalObservation | LocalReversible | SandboxEphemeral

record fs_permission =
  fp_action :: fs_action
  fp_selector :: resource_selector

record git_permission =
  gp_action :: git_action

record authority_limits =
  lim_maxUniqueModifiedFiles :: int
  lim_maxMutationBytes :: int
  lim_maxTestRuns :: int

record ambient_authority =
  amb_network :: bool
  amb_secrets :: bool
  amb_shell :: bool
  amb_delete :: bool
  amb_gitCommit :: bool
  amb_gitPush :: bool

record delegation_authority =
  del_allowed :: bool
  del_maxDepth :: int

record safe_coding_authority =
  au_filesystem :: "fs_permission list"
  au_git :: "git_permission list"
  au_testProfiles :: "jstr list"
  au_allowedEffectClasses :: "effect_class list"
  au_limits :: authority_limits
  au_ambientAuthority :: ambient_authority
  au_delegation :: delegation_authority

record contract_subject =
  sub_principalId :: jstr
  sub_instanceId :: jstr

record contract_audience =
  aud_guardianId :: jstr
  aud_executorId :: jstr
  aud_runtimeEpoch :: int
  aud_taskId :: jstr
  aud_workspaceId :: jstr

record contract_validity =
  vld_notBefore :: jstr
  vld_expiresAt :: jstr

record contract_bindings =
  bnd_policyDigest :: jstr
  bnd_adapterRegistryDigest :: jstr
  bnd_runnerRegistryDigest :: jstr
  bnd_effectRegistryDigest :: jstr
  bnd_approvalRendererVersion :: jstr

record non_authoritative =
  na_goalLabel :: jstr
  na_notes :: "jstr list"

record intent_contract =
  ic_contractId :: jstr
  ic_revision :: int
  ic_previousRevisionHash :: "jstr option"
  ic_issuedAt :: jstr
  ic_validity :: contract_validity
  ic_subject :: contract_subject
  ic_audience :: contract_audience
  ic_bindings :: contract_bindings
  ic_authority :: safe_coding_authority
  ic_nonAuthoritative :: non_authoritative

section \<open>Constants\<close>

definition INTENT_CONTRACT_KIND :: string where
  "INTENT_CONTRACT_KIND = ''clodex.intent-contract''"

definition INTENT_CONTRACT_SPEC_VERSION :: string where
  "INTENT_CONTRACT_SPEC_VERSION = ''1.0.0''"

definition MAX_FILESYSTEM_PERMISSIONS :: nat where
  "MAX_FILESYSTEM_PERMISSIONS = 1024"

definition MAX_GIT_PERMISSIONS :: nat where
  "MAX_GIT_PERMISSIONS = 2"

definition MAX_TEST_PROFILES :: nat where
  "MAX_TEST_PROFILES = 256"

definition MAX_EFFECT_CLASSES :: nat where
  "MAX_EFFECT_CLASSES = 3"

definition MAX_CONTRACT_NOTES :: nat where
  "MAX_CONTRACT_NOTES = 64"

definition fsActions :: "(string \<times> fs_action) list" where
  "fsActions =
     [(''filesystem.stat'', FsStat), (''filesystem.list'', FsList), (''filesystem.read'', FsRead),
      (''filesystem.create'', FsCreate), (''filesystem.replace'', FsReplace),
      (''filesystem.mkdir'', FsMkdir)]"

definition gitActions :: "(string \<times> git_action) list" where
  "gitActions = [(''git.status'', GitStatus), (''git.diff'', GitDiff)]"

definition effectClasses :: "(string \<times> effect_class) list" where
  "effectClasses =
     [(''local.observation'', LocalObservation), (''local.reversible'', LocalReversible),
      (''sandbox.ephemeral'', SandboxEphemeral)]"

text \<open>The spelling of an enumeration value, by its table.\<close>

definition spelling :: "(string \<times> 'a) list \<Rightarrow> 'a \<Rightarrow> jstr" where
  "spelling table c = (case List.find (\<lambda>(_, d). d = c) table of None \<Rightarrow> [] | Some (n, _) \<Rightarrow> js n)"

definition fsActionName :: "fs_action \<Rightarrow> string" where
  "fsActionName a = (case a of FsStat \<Rightarrow> ''filesystem.stat'' | FsList \<Rightarrow> ''filesystem.list''
     | FsRead \<Rightarrow> ''filesystem.read'' | FsCreate \<Rightarrow> ''filesystem.create''
     | FsReplace \<Rightarrow> ''filesystem.replace'' | FsMkdir \<Rightarrow> ''filesystem.mkdir'')"

section \<open>JSON forms\<close>

definition fs_permission_json :: "fs_permission \<Rightarrow> jsval" where
  "fs_permission_json p =
     jrec [(''action'', JStr (spelling fsActions (fp_action p))),
           (''selector'', selector_json (fp_selector p))]"

definition git_permission_json :: "git_permission \<Rightarrow> jsval" where
  "git_permission_json p = jrec [(''action'', JStr (spelling gitActions (gp_action p)))]"

definition limits_json :: "authority_limits \<Rightarrow> jsval" where
  "limits_json l =
     jrec [(''maxUniqueModifiedFiles'', jint (lim_maxUniqueModifiedFiles l)),
           (''maxMutationBytes'', jint (lim_maxMutationBytes l)),
           (''maxTestRuns'', jint (lim_maxTestRuns l))]"

definition ambient_json :: "ambient_authority \<Rightarrow> jsval" where
  "ambient_json a =
     jrec [(''network'', JBool (amb_network a)), (''secrets'', JBool (amb_secrets a)),
           (''shell'', JBool (amb_shell a)), (''delete'', JBool (amb_delete a)),
           (''gitCommit'', JBool (amb_gitCommit a)), (''gitPush'', JBool (amb_gitPush a))]"

definition delegation_json :: "delegation_authority \<Rightarrow> jsval" where
  "delegation_json d =
     jrec [(''allowed'', JBool (del_allowed d)), (''maxDepth'', jint (del_maxDepth d))]"

definition authority_json :: "safe_coding_authority \<Rightarrow> jsval" where
  "authority_json a =
     jrec [(''filesystem'', jarr (map fs_permission_json (au_filesystem a))),
           (''git'', jarr (map git_permission_json (au_git a))),
           (''testProfiles'', jarr (map JStr (au_testProfiles a))),
           (''allowedEffectClasses'',
              jarr (map (\<lambda>c. JStr (spelling effectClasses c)) (au_allowedEffectClasses a))),
           (''limits'', limits_json (au_limits a)),
           (''ambientAuthority'', ambient_json (au_ambientAuthority a)),
           (''delegation'', delegation_json (au_delegation a))]"

definition subject_json :: "contract_subject \<Rightarrow> jsval" where
  "subject_json s =
     jrec [(''principalId'', JStr (sub_principalId s)), (''instanceId'', JStr (sub_instanceId s))]"

definition audience_json :: "contract_audience \<Rightarrow> jsval" where
  "audience_json a =
     jrec [(''guardianId'', JStr (aud_guardianId a)), (''executorId'', JStr (aud_executorId a)),
           (''runtimeEpoch'', jint (aud_runtimeEpoch a)), (''taskId'', JStr (aud_taskId a)),
           (''workspaceId'', JStr (aud_workspaceId a))]"

definition validity_json :: "contract_validity \<Rightarrow> jsval" where
  "validity_json v =
     jrec [(''notBefore'', JStr (vld_notBefore v)), (''expiresAt'', JStr (vld_expiresAt v))]"

definition bindings_json :: "contract_bindings \<Rightarrow> jsval" where
  "bindings_json b =
     jrec [(''policyDigest'', JStr (bnd_policyDigest b)),
           (''adapterRegistryDigest'', JStr (bnd_adapterRegistryDigest b)),
           (''runnerRegistryDigest'', JStr (bnd_runnerRegistryDigest b)),
           (''effectRegistryDigest'', JStr (bnd_effectRegistryDigest b)),
           (''approvalRendererVersion'', JStr (bnd_approvalRendererVersion b))]"

definition non_authoritative_json :: "non_authoritative \<Rightarrow> jsval" where
  "non_authoritative_json n =
     jrec [(''goalLabel'', JStr (na_goalLabel n)), (''notes'', jarr (map JStr (na_notes n)))]"

definition contract_json :: "intent_contract \<Rightarrow> jsval" where
  "contract_json c =
     jrec [(''kind'', JStr (js INTENT_CONTRACT_KIND)),
           (''specVersion'', JStr (js INTENT_CONTRACT_SPEC_VERSION)),
           (''contractId'', JStr (ic_contractId c)),
           (''revision'', jint (ic_revision c)),
           (''previousRevisionHash'', nullable (ic_previousRevisionHash c)),
           (''issuedAt'', JStr (ic_issuedAt c)),
           (''validity'', validity_json (ic_validity c)),
           (''subject'', subject_json (ic_subject c)),
           (''audience'', audience_json (ic_audience c)),
           (''bindings'', bindings_json (ic_bindings c)),
           (''authority'', authority_json (ic_authority c)),
           (''nonAuthoritative'', non_authoritative_json (ic_nonAuthoritative c))]"

section \<open>Validators\<close>

definition validateValidity :: "(jstr \<Rightarrow> jstr) \<Rightarrow> jsval \<Rightarrow> contract_error + contract_validity" where
  "validateValidity nfc value =
     bindE (requireRecord value ''Contract validity'') (\<lambda>record.
     bindE (requireExactKeys record [''notBefore'', ''expiresAt''] ''Contract validity'') (\<lambda>_.
     bindE (requireTimestamp nfc (getProp record ''notBefore'') ''Contract notBefore'') (\<lambda>notBefore.
     bindE (requireTimestamp nfc (getProp record ''expiresAt'') ''Contract expiresAt'') (\<lambda>expiresAt.
     Inr \<lparr>vld_notBefore = notBefore, vld_expiresAt = expiresAt\<rparr>))))"

definition validateSubject :: "(jstr \<Rightarrow> jstr) \<Rightarrow> jsval \<Rightarrow> contract_error + contract_subject" where
  "validateSubject nfc value =
     bindE (requireRecord value ''Contract subject'') (\<lambda>record.
     bindE (requireExactKeys record [''principalId'', ''instanceId''] ''Contract subject'') (\<lambda>_.
     bindE (requireIdentifier nfc (getProp record ''principalId'') ''Subject principal ID'') (\<lambda>principalId.
     bindE (requireIdentifier nfc (getProp record ''instanceId'') ''Subject instance ID'') (\<lambda>instanceId.
     Inr \<lparr>sub_principalId = principalId, sub_instanceId = instanceId\<rparr>))))"

definition validateAudience :: "(jstr \<Rightarrow> jstr) \<Rightarrow> jsval \<Rightarrow> contract_error + contract_audience" where
  "validateAudience nfc value =
     bindE (requireRecord value ''Contract audience'') (\<lambda>record.
     bindE (requireExactKeys record
       [''guardianId'', ''executorId'', ''runtimeEpoch'', ''taskId'', ''workspaceId'']
       ''Contract audience'') (\<lambda>_.
     bindE (requireIdentifier nfc (getProp record ''guardianId'') ''Audience Guardian ID'') (\<lambda>guardianId.
     bindE (requireIdentifier nfc (getProp record ''executorId'') ''Audience executor ID'') (\<lambda>executorId.
     bindE (requireNonNegativeInteger (getProp record ''runtimeEpoch'') ''Audience runtime epoch'') (\<lambda>runtimeEpoch.
     bindE (requireIdentifier nfc (getProp record ''taskId'') ''Audience task ID'') (\<lambda>taskId.
     bindE (requireIdentifier nfc (getProp record ''workspaceId'') ''Audience workspace ID'') (\<lambda>workspaceId.
     Inr \<lparr>aud_guardianId = guardianId, aud_executorId = executorId, aud_runtimeEpoch = runtimeEpoch,
          aud_taskId = taskId, aud_workspaceId = workspaceId\<rparr>)))))))"

definition validateBindings :: "(jstr \<Rightarrow> jstr) \<Rightarrow> jsval \<Rightarrow> contract_error + contract_bindings" where
  "validateBindings nfc value =
     bindE (requireRecord value ''Contract bindings'') (\<lambda>record.
     bindE (requireExactKeys record
       [''policyDigest'', ''adapterRegistryDigest'', ''runnerRegistryDigest'', ''effectRegistryDigest'',
        ''approvalRendererVersion''] ''Contract bindings'') (\<lambda>_.
     bindE (requireDigest (getProp record ''policyDigest'') ''Policy digest'') (\<lambda>policyDigest.
     bindE (requireDigest (getProp record ''adapterRegistryDigest'') ''Adapter registry digest'') (\<lambda>adapterRegistryDigest.
     bindE (requireDigest (getProp record ''runnerRegistryDigest'') ''Runner registry digest'') (\<lambda>runnerRegistryDigest.
     bindE (requireDigest (getProp record ''effectRegistryDigest'') ''Effect registry digest'') (\<lambda>effectRegistryDigest.
     bindE (requireAsciiToken nfc (getProp record ''approvalRendererVersion'')
       ''Approval renderer version'' 128) (\<lambda>approvalRendererVersion.
     Inr \<lparr>bnd_policyDigest = policyDigest, bnd_adapterRegistryDigest = adapterRegistryDigest,
          bnd_runnerRegistryDigest = runnerRegistryDigest,
          bnd_effectRegistryDigest = effectRegistryDigest,
          bnd_approvalRendererVersion = approvalRendererVersion\<rparr>)))))))"

definition requireEffectClass :: "jsval \<Rightarrow> string \<Rightarrow> contract_error + effect_class" where
  "requireEffectClass value label = requireEnum value effectClasses label"

definition validateFilesystemPermission ::
  "(jstr \<Rightarrow> jstr) \<Rightarrow> jsval \<Rightarrow> contract_error + fs_permission" where
  "validateFilesystemPermission nfc value =
     bindE (requireRecord value ''Filesystem permission'') (\<lambda>record.
     bindE (requireExactKeys record [''action'', ''selector''] ''Filesystem permission'') (\<lambda>_.
     bindE (requireEnum (getProp record ''action'') fsActions ''Filesystem permission action'') (\<lambda>action.
     bindE (validateResourceSelector nfc (getProp record ''selector'')) (\<lambda>selector.
     bindE (guardE (\<not> (action \<in> {FsList, FsCreate, FsMkdir} \<and> rs_kind selector \<noteq> TreeSelector))
       (icError (fsActionName action @ '' authority requires a tree selector''))) (\<lambda>_.
     bindE (guardE (\<not> (action = FsReplace \<and> rs_kind selector \<noteq> FileSelector))
       (icError ''filesystem.replace authority requires a file selector'')) (\<lambda>_.
     Inr \<lparr>fp_action = action, fp_selector = selector\<rparr>))))))"

definition validateGitPermission :: "jsval \<Rightarrow> contract_error + git_permission" where
  "validateGitPermission value =
     bindE (requireRecord value ''Git permission'') (\<lambda>record.
     bindE (requireExactKeys record [''action''] ''Git permission'') (\<lambda>_.
     bindE (requireEnum (getProp record ''action'') gitActions ''Git permission action'') (\<lambda>action.
     Inr \<lparr>gp_action = action\<rparr>)))"

definition validateLimits :: "jsval \<Rightarrow> contract_error + authority_limits" where
  "validateLimits value =
     bindE (requireRecord value ''Safe Coding limits'') (\<lambda>record.
     bindE (requireExactKeys record [''maxUniqueModifiedFiles'', ''maxMutationBytes'', ''maxTestRuns'']
       ''Safe Coding limits'') (\<lambda>_.
     bindE (requireNonNegativeInteger (getProp record ''maxUniqueModifiedFiles'')
       ''Maximum unique modified files'') (\<lambda>maxUniqueModifiedFiles.
     bindE (requireNonNegativeInteger (getProp record ''maxMutationBytes'')
       ''Maximum mutation bytes'') (\<lambda>maxMutationBytes.
     bindE (requireNonNegativeInteger (getProp record ''maxTestRuns'') ''Maximum test runs'') (\<lambda>maxTestRuns.
     Inr \<lparr>lim_maxUniqueModifiedFiles = maxUniqueModifiedFiles, lim_maxMutationBytes = maxMutationBytes,
          lim_maxTestRuns = maxTestRuns\<rparr>)))))"

fun requireAllFalse :: "(jstr \<times> jsval) list \<Rightarrow> string list \<Rightarrow> contract_error + unit" where
  "requireAllFalse record [] = Inr ()"
| "requireAllFalse record (key # keys) =
     bindE (requireLiteral (getProp record key) (JBool False) (''Ambient authority '' @ key)) (\<lambda>_.
     requireAllFalse record keys)"

definition validateAmbientAuthority :: "jsval \<Rightarrow> contract_error + ambient_authority" where
  "validateAmbientAuthority value =
     bindE (requireRecord value ''Ambient authority'') (\<lambda>record.
     bindE (requireExactKeys record [''network'', ''secrets'', ''shell'', ''delete'', ''gitCommit'', ''gitPush'']
       ''Ambient authority'') (\<lambda>_.
     bindE (requireAllFalse record [''network'', ''secrets'', ''shell'', ''delete'', ''gitCommit'', ''gitPush'']) (\<lambda>_.
     Inr \<lparr>amb_network = False, amb_secrets = False, amb_shell = False, amb_delete = False,
          amb_gitCommit = False, amb_gitPush = False\<rparr>)))"

definition validateDelegation :: "jsval \<Rightarrow> contract_error + delegation_authority" where
  "validateDelegation value =
     bindE (requireRecord value ''Delegation authority'') (\<lambda>record.
     bindE (requireExactKeys record [''allowed'', ''maxDepth''] ''Delegation authority'') (\<lambda>_.
     (case getProp record ''allowed'' of
        JBool allowed \<Rightarrow>
          bindE (requireNonNegativeInteger (getProp record ''maxDepth'') ''Delegation maximum depth'') (\<lambda>maxDepth.
          bindE (guardE (\<not> ((\<not> allowed \<and> maxDepth \<noteq> 0) \<or> (allowed \<and> maxDepth = 0)))
            (icError ''Delegation maxDepth must be zero exactly when delegation is disabled'')) (\<lambda>_.
          Inr \<lparr>del_allowed = allowed, del_maxDepth = maxDepth\<rparr>))
      | _ \<Rightarrow> Inl (icError ''Delegation allowed must be a boolean''))))"

definition validateAuthority :: "(jstr \<Rightarrow> jstr) \<Rightarrow> jsval \<Rightarrow> contract_error + safe_coding_authority" where
  "validateAuthority nfc value =
     bindE (requireRecord value ''Safe Coding authority'') (\<lambda>record.
     bindE (requireExactKeys record
       [''filesystem'', ''git'', ''testProfiles'', ''allowedEffectClasses'', ''limits'',
        ''ambientAuthority'', ''delegation''] ''Safe Coding authority'') (\<lambda>_.
     bindE (requireArray (getProp record ''filesystem'') ''Filesystem permissions''
       MAX_FILESYSTEM_PERMISSIONS) (\<lambda>filesystemRaw.
     bindE (mapE (validateFilesystemPermission nfc) filesystemRaw) (\<lambda>filesystem.
     bindE (assertSortedUnique filesystem (\<lambda>permission. canonicalizeJson nfc (fs_permission_json permission))
       ''Filesystem permissions'') (\<lambda>_.
     bindE (requireArray (getProp record ''git'') ''Git permissions'' MAX_GIT_PERMISSIONS) (\<lambda>gitRaw.
     bindE (mapE validateGitPermission gitRaw) (\<lambda>git.
     bindE (assertSortedUnique git (\<lambda>permission. canonicalizeJson nfc (git_permission_json permission))
       ''Git permissions'') (\<lambda>_.
     bindE (requireArray (getProp record ''testProfiles'') ''Test profiles'' MAX_TEST_PROFILES) (\<lambda>profilesRaw.
     bindE (mapE (\<lambda>entry. requireProfileId nfc entry ''Test profile ID'') profilesRaw) (\<lambda>testProfiles.
     bindE (assertSortedUnique testProfiles (\<lambda>entry. Inr entry) ''Test profiles'') (\<lambda>_.
     bindE (requireArray (getProp record ''allowedEffectClasses'') ''Allowed effect classes''
       MAX_EFFECT_CLASSES) (\<lambda>classesRaw.
     bindE (mapE (\<lambda>entry. requireEffectClass entry ''Allowed effect class'') classesRaw) (\<lambda>allowedEffectClasses.
     bindE (assertSortedUnique allowedEffectClasses (\<lambda>entry. Inr (spelling effectClasses entry))
       ''Allowed effect classes'') (\<lambda>_.
     bindE (validateLimits (getProp record ''limits'')) (\<lambda>limits.
     bindE (validateAmbientAuthority (getProp record ''ambientAuthority'')) (\<lambda>ambientAuthority.
     bindE (validateDelegation (getProp record ''delegation'')) (\<lambda>delegation.
     Inr \<lparr>au_filesystem = filesystem, au_git = git, au_testProfiles = testProfiles,
          au_allowedEffectClasses = allowedEffectClasses, au_limits = limits,
          au_ambientAuthority = ambientAuthority, au_delegation = delegation\<rparr>)))))))))))))))))"

definition validateNonAuthoritative :: "(jstr \<Rightarrow> jstr) \<Rightarrow> jsval \<Rightarrow> contract_error + non_authoritative" where
  "validateNonAuthoritative nfc value =
     bindE (requireRecord value ''Non-authoritative contract metadata'') (\<lambda>record.
     bindE (requireExactKeys record [''goalLabel'', ''notes''] ''Non-authoritative contract metadata'') (\<lambda>_.
     bindE (requireArray (getProp record ''notes'') ''Contract notes'' MAX_CONTRACT_NOTES) (\<lambda>notesRaw.
     bindE (mapE (\<lambda>entry. requireString nfc entry ''Contract note'' 4096) notesRaw) (\<lambda>notes.
     bindE (requireString nfc (getProp record ''goalLabel'') ''Contract goal label'' 512) (\<lambda>goalLabel.
     Inr \<lparr>na_goalLabel = goalLabel, na_notes = notes\<rparr>)))))"

definition contractKeys :: "string list" where
  "contractKeys =
     [''kind'', ''specVersion'', ''contractId'', ''revision'', ''previousRevisionHash'', ''issuedAt'',
      ''validity'', ''subject'', ''audience'', ''bindings'', ''authority'', ''nonAuthoritative'']"

definition validateSafeCodingIntentContract ::
  "(jstr \<Rightarrow> jstr) \<Rightarrow> jsval \<Rightarrow> contract_error + intent_contract" where
  "validateSafeCodingIntentContract nfc value =
     bindE (requireRecord value ''Intent Contract'') (\<lambda>record.
     bindE (requireExactKeys record contractKeys ''Intent Contract'') (\<lambda>_.
     bindE (requireLiteral (getProp record ''kind'') (JStr (js INTENT_CONTRACT_KIND))
       ''Intent Contract kind'') (\<lambda>_.
     bindE (requireLiteral (getProp record ''specVersion'') (JStr (js INTENT_CONTRACT_SPEC_VERSION))
       ''Intent Contract specVersion'') (\<lambda>_.
     bindE (requireUuid (getProp record ''contractId'') ''Contract ID'') (\<lambda>contractId.
     bindE (requirePositiveInteger (getProp record ''revision'') ''Contract revision'') (\<lambda>revision.
     bindE (requireNullableDigest (getProp record ''previousRevisionHash'')
       ''Previous revision hash'') (\<lambda>previousRevisionHash.
     bindE (guardE ((revision = 1) = (previousRevisionHash = None))
       (icError ''Revision 1 must have no previous hash and later revisions must bind one'')) (\<lambda>_.
     bindE (requireTimestamp nfc (getProp record ''issuedAt'') ''Contract issuedAt'') (\<lambda>issuedAt.
     bindE (validateValidity nfc (getProp record ''validity'')) (\<lambda>validity.
     bindE (guardE (\<not> (timestampMilliseconds issuedAt > timestampMilliseconds (vld_notBefore validity) \<or>
         timestampMilliseconds (vld_notBefore validity) \<ge> timestampMilliseconds (vld_expiresAt validity)))
       (icError ''Contract validity must satisfy issuedAt <= notBefore < expiresAt'')) (\<lambda>_.
     bindE (validateSubject nfc (getProp record ''subject'')) (\<lambda>subject.
     bindE (validateAudience nfc (getProp record ''audience'')) (\<lambda>audience.
     bindE (validateBindings nfc (getProp record ''bindings'')) (\<lambda>bindings.
     bindE (validateAuthority nfc (getProp record ''authority'')) (\<lambda>authority.
     bindE (validateNonAuthoritative nfc (getProp record ''nonAuthoritative'')) (\<lambda>nonAuthoritative.
     bindE (canonicalizeJson nfc value) (\<lambda>_.
     Inr \<lparr>ic_contractId = contractId, ic_revision = revision,
          ic_previousRevisionHash = previousRevisionHash, ic_issuedAt = issuedAt,
          ic_validity = validity, ic_subject = subject, ic_audience = audience,
          ic_bindings = bindings, ic_authority = authority,
          ic_nonAuthoritative = nonAuthoritative\<rparr>)))))))))))))))))"

definition parseCanonicalSafeCodingIntentContract ::
  "(jstr \<Rightarrow> jstr) \<Rightarrow> jstr \<Rightarrow> contract_error + intent_contract" where
  "parseCanonicalSafeCodingIntentContract nfc input =
     bindE (parseCanonicalJson nfc input) (validateSafeCodingIntentContract nfc)"

section \<open>Enumerations and leaves\<close>

lemma requireEnum_spelling:
  assumes "distinct (map fst table)" "distinct (map snd table)" "c \<in> snd ` set table"
  shows "requireEnum v table label = Inr c \<longleftrightarrow> v = JStr (spelling table c)"
proof -
  obtain n where n: "(n, c) \<in> set table"
    using assms(3) by auto
  have inj: "inj_on snd (set table)"
    using assms(2) by (simp add: distinct_map)
  have "(m, c) \<in> set table \<longleftrightarrow> m = n" for m
    using n inj_onD [OF inj, of "(m, c)" "(n, c)"] by auto
  moreover have "spelling table c = js n"
  proof (cases "List.find (\<lambda>(_, d). d = c) table")
    case None
    then show ?thesis
      using n by (auto simp: find_None_iff)
  next
    case (Some x)
    then have "x \<in> set table" "snd x = c"
      by (auto simp: find_Some_iff) (metis nth_mem)
    then have "x = (n, c)"
      using n inj_onD [OF inj, of x "(n, c)"] by auto
    with Some show ?thesis
      by (simp add: spelling_def)
  qed
  ultimately show ?thesis
    by (auto simp: requireEnum_Inr [OF assms(1)] js_inj)
qed

lemma enum_tables [require_simps]:
  "requireEnum v fsActions label = Inr a \<longleftrightarrow> v = JStr (spelling fsActions a)"
  "requireEnum v gitActions label = Inr g \<longleftrightarrow> v = JStr (spelling gitActions g)"
  "requireEffectClass v label = Inr e \<longleftrightarrow> v = JStr (spelling effectClasses e)"
  unfolding requireEffectClass_def
  by (rule requireEnum_spelling; cases a; cases g; cases e; simp add: fsActions_def gitActions_def
      effectClasses_def)+

lemma record_int:
  assumes "exact_keys fs ks" "json_ok nfc (jobj fs)" "distinct ks" "k \<in> set ks"
  shows "requireNonNegativeInteger (getProp fs k) label = Inr i \<longleftrightarrow>
    getProp fs k = jint i \<and> safe_int i \<and> 0 \<le> i"
  using record_fields_ok [OF assms(1,3,4,2)] by (auto simp: requireNonNegativeInteger_Inr)

definition ident :: "(jstr \<Rightarrow> jstr) \<Rightarrow> jstr \<Rightarrow> bool" where
  "ident nfc s \<longleftrightarrow> canonical_string nfc s \<and> IDENTIFIER_PATTERN s"

definition stamp :: "(jstr \<Rightarrow> jstr) \<Rightarrow> jstr \<Rightarrow> bool" where
  "stamp nfc t \<longleftrightarrow> canonical_string nfc t \<and> wf_timestamp t"

definition counter :: "int \<Rightarrow> bool" where
  "counter i \<longleftrightarrow> 0 \<le> i \<and> safe_int i"

lemmas leaf_simps = requireIdentifier_Inr [folded ident_def] requireTimestamp_wf [folded stamp_def]
  requireDigest_Inr requireUuid_Inr requireNullableDigest_Inr
  requireNullableIdentifier_Inr [folded ident_def] requirePositiveInteger_Inr requireLiteral_Inr
  requireAsciiToken_Inr requireString_Inr requireProfileId_Inr

lemmas open_record = result_simps requireRecord_Inr requireExactKeys_Inr

lemma requireNonNegativeInteger_jint [simp]:
  "requireNonNegativeInteger (jint i) label = Inr j \<longleftrightarrow> j = i \<and> counter i"
  by (auto simp: requireNonNegativeInteger_Inr counter_def)

section \<open>Soundness of the validators\<close>

definition wf_subject :: "(jstr \<Rightarrow> jstr) \<Rightarrow> contract_subject \<Rightarrow> bool" where
  "wf_subject nfc s \<longleftrightarrow> ident nfc (sub_principalId s) \<and> ident nfc (sub_instanceId s)"

definition wf_audience :: "(jstr \<Rightarrow> jstr) \<Rightarrow> contract_audience \<Rightarrow> bool" where
  "wf_audience nfc a \<longleftrightarrow>
     ident nfc (aud_guardianId a) \<and> ident nfc (aud_executorId a) \<and> counter (aud_runtimeEpoch a) \<and>
     ident nfc (aud_taskId a) \<and> ident nfc (aud_workspaceId a)"

definition wf_validity :: "(jstr \<Rightarrow> jstr) \<Rightarrow> contract_validity \<Rightarrow> bool" where
  "wf_validity nfc v \<longleftrightarrow> stamp nfc (vld_notBefore v) \<and> stamp nfc (vld_expiresAt v)"

definition wf_bindings :: "(jstr \<Rightarrow> jstr) \<Rightarrow> contract_bindings \<Rightarrow> bool" where
  "wf_bindings nfc b \<longleftrightarrow>
     SHA256_PATTERN (bnd_policyDigest b) \<and> SHA256_PATTERN (bnd_adapterRegistryDigest b) \<and>
     SHA256_PATTERN (bnd_runnerRegistryDigest b) \<and> SHA256_PATTERN (bnd_effectRegistryDigest b) \<and>
     length (bnd_approvalRendererVersion b) \<le> 128 \<and>
     canonical_string nfc (bnd_approvalRendererVersion b) \<and>
     ASCII_TOKEN_PATTERN (bnd_approvalRendererVersion b)"

definition wf_limits :: "authority_limits \<Rightarrow> bool" where
  "wf_limits l \<longleftrightarrow>
     counter (lim_maxUniqueModifiedFiles l) \<and> counter (lim_maxMutationBytes l) \<and>
     counter (lim_maxTestRuns l)"

definition wf_ambient :: "ambient_authority \<Rightarrow> bool" where
  "wf_ambient a \<longleftrightarrow>
     \<not> amb_network a \<and> \<not> amb_secrets a \<and> \<not> amb_shell a \<and> \<not> amb_delete a \<and>
     \<not> amb_gitCommit a \<and> \<not> amb_gitPush a"

definition wf_delegation :: "delegation_authority \<Rightarrow> bool" where
  "wf_delegation d \<longleftrightarrow> counter (del_maxDepth d) \<and> (del_allowed d \<longleftrightarrow> del_maxDepth d \<noteq> 0)"

definition wf_fs_permission :: "(jstr \<Rightarrow> jstr) \<Rightarrow> fs_permission \<Rightarrow> bool" where
  "wf_fs_permission nfc p \<longleftrightarrow>
     wf_selector nfc (fp_selector p) \<and>
     (fp_action p \<in> {FsList, FsCreate, FsMkdir} \<longrightarrow> rs_kind (fp_selector p) = TreeSelector) \<and>
     (fp_action p = FsReplace \<longrightarrow> rs_kind (fp_selector p) = FileSelector)"

lemma subject_sound:
  "validateSubject nfc v = Inr s \<Longrightarrow> wf_subject nfc s \<and> sortFields v = sortFields (subject_json s)"
  unfolding validateSubject_def subject_json_def wf_subject_def
  by (auto simp: open_record leaf_simps intro!: record_shape)

lemma audience_sound:
  assumes "validateAudience nfc v = Inr a" "json_ok nfc v"
  shows "wf_audience nfc a \<and> sortFields v = sortFields (audience_json a)"
  using assms unfolding validateAudience_def audience_json_def wf_audience_def counter_def
  by (auto simp: open_record leaf_simps record_int intro!: record_shape)

lemma validity_sound:
  "validateValidity nfc v = Inr x \<Longrightarrow> wf_validity nfc x \<and> sortFields v = sortFields (validity_json x)"
  unfolding validateValidity_def validity_json_def wf_validity_def
  by (auto simp: open_record leaf_simps intro!: record_shape)

lemma bindings_sound:
  "validateBindings nfc v = Inr b \<Longrightarrow> wf_bindings nfc b \<and> sortFields v = sortFields (bindings_json b)"
  unfolding validateBindings_def bindings_json_def wf_bindings_def
  by (auto simp: open_record leaf_simps intro!: record_shape)

lemma limits_sound:
  assumes "validateLimits v = Inr l" "json_ok nfc v"
  shows "wf_limits l \<and> sortFields v = sortFields (limits_json l)"
  using assms unfolding validateLimits_def limits_json_def wf_limits_def counter_def
  by (auto simp: open_record leaf_simps record_int intro!: record_shape)

lemma ambient_sound:
  "validateAmbientAuthority v = Inr a \<Longrightarrow> wf_ambient a \<and> sortFields v = sortFields (ambient_json a)"
  unfolding validateAmbientAuthority_def ambient_json_def wf_ambient_def
  by (auto simp: open_record leaf_simps intro!: record_shape)

lemma boolean_case:
  "(case w of JBool b \<Rightarrow> f b | _ \<Rightarrow> Inl e) = Inr y \<longleftrightarrow> (\<exists>b. w = JBool b \<and> f b = Inr y)"
  by (cases w) auto

lemma delegation_sound:
  assumes "validateDelegation v = Inr d" "json_ok nfc v"
  shows "wf_delegation d \<and> sortFields v = sortFields (delegation_json d)"
  using assms unfolding validateDelegation_def delegation_json_def wf_delegation_def counter_def
  by (auto simp: open_record leaf_simps boolean_case record_int intro!: record_shape)

lemma fs_permission_sound:
  "validateFilesystemPermission nfc v = Inr p \<Longrightarrow>
   wf_fs_permission nfc p \<and> sortFields v = sortFields (fs_permission_json p)"
  unfolding validateFilesystemPermission_def fs_permission_json_def wf_fs_permission_def
  by (auto simp: open_record enum_tables validateResourceSelector_wf validateResourceSelector_shape
      intro!: record_shape)

lemma git_permission_sound:
  "validateGitPermission v = Inr p \<Longrightarrow> sortFields v = sortFields (git_permission_json p)"
  unfolding validateGitPermission_def git_permission_json_def
  by (auto simp: open_record enum_tables intro!: record_shape)

section \<open>Reading back a record up to the order of its keys\<close>

lemma sortFields_leaf_iff [simp]:
  "sortFields v = JStr s \<longleftrightarrow> v = JStr s" "sortFields v = JNum n \<longleftrightarrow> v = JNum n"
  "sortFields v = JBool b \<longleftrightarrow> v = JBool b" "sortFields v = JNull \<longleftrightarrow> v = JNull"
  "sortFields v = JAccessor \<longleftrightarrow> v = JAccessor"
  by (cases v; auto)+

lemma sortFields_nullable_iff [simp]: "sortFields v = nullable x \<longleftrightarrow> v = nullable x"
  by (cases x) (simp_all add: nullable_def)

lemma sort_key_eqD:
  assumes "sort_key fst (map (\<lambda>f. (fst f, sortFields (snd f))) fs) =
    sort_key fst (map (\<lambda>f. (fst f, sortFields (snd f))) gs)" "distinct (map fst gs)"
  shows "sort (map fst fs) = sort (map fst gs)"
    and "map_of (map (\<lambda>f. (fst f, sortFields (snd f))) fs) = map_of (map (\<lambda>f. (fst f, sortFields (snd f))) gs)"
proof -
  have m: "mset (map (\<lambda>f. (fst f, sortFields (snd f))) fs) = mset (map (\<lambda>f. (fst f, sortFields (snd f))) gs)"
    using arg_cong [OF assms(1), of mset] by (simp only: mset_sort)
  then have "mset (map fst (map (\<lambda>f. (fst f, sortFields (snd f))) fs)) =
      mset (map fst (map (\<lambda>f. (fst f, sortFields (snd f))) gs))"
    by (simp only: mset_map)
  then have keys: "mset (map fst fs) = mset (map fst gs)"
    by (simp add: comp_def)
  then show "sort (map fst fs) = sort (map fst gs)"
    by (intro properties_for_sort) simp_all
  have d: "distinct (map fst fs)"
    using keys assms(2) mset_eq_imp_distinct_iff by blast
  have "set (map (\<lambda>f. (fst f, sortFields (snd f))) fs) = set (map (\<lambda>f. (fst f, sortFields (snd f))) gs)"
    using m by (rule mset_eq_setD)
  moreover have "distinct (map fst (map (\<lambda>f. (fst f, sortFields (snd f))) fs))"
    "distinct (map fst (map (\<lambda>f. (fst f, sortFields (snd f))) gs))"
    using d assms(2) by (simp_all add: comp_def)
  ultimately show "map_of (map (\<lambda>f. (fst f, sortFields (snd f))) fs) =
      map_of (map (\<lambda>f. (fst f, sortFields (snd f))) gs)"
    by (simp only: map_of_inject_set)
qed

lemma map_of_sortFields:
  "map_of (map (\<lambda>f. (fst f, sortFields (snd f))) fs) k = map_option sortFields (map_of fs k)"
  by (induction fs) auto

lemma record_invert:
  assumes "sortFields v = sortFields (jrec kvs)" "distinct (map fst kvs)" "JAccessor \<notin> snd ` set kvs"
  obtains fs where "\<And>l. requireRecord v l = Inr fs" "\<And>l. requireExactKeys fs (map fst kvs) l = Inr ()"
    "list_all (\<lambda>(k, w). sortFields (getProp fs k) = sortFields w) kvs"
proof -
  obtain fs where v: "v = jobj fs" and
    eq: "sort_key fst (map (\<lambda>f. (fst f, sortFields (snd f))) fs) =
      sort_key fst (map (\<lambda>f. (fst f, sortFields (snd f))) (jfields kvs))"
    using assms(1) by (cases v) (auto simp: jrec_def)
  have d: "distinct (map fst (jfields kvs))"
    using assms(2) by (simp add: jfields_def distinct_map inj_on_def js_inj case_prod_unfold comp_def)
  have keys: "sort (map fst fs) = sort (map fst (jfields kvs))"
    and vals: "map_option sortFields (map_of fs k) = map_option sortFields (map_of (jfields kvs) k)" for k
    using sort_key_eqD [OF eq d] by (simp_all add: fun_eq_iff map_of_sortFields)
  have "exact_keys fs (map fst kvs)"
    using keys by (simp add: exact_keys_def jfields_def comp_def case_prod_unfold)
  have acc: "snd f \<noteq> JAccessor" if "f \<in> set fs" for f
  proof
    assume "snd f = JAccessor"
    have "distinct (map fst fs)"
      using keys d by (metis distinct_sort)
    then have "map_of fs (fst f) = Some (snd f)"
      using that by simp
    then obtain w where "map_of (jfields kvs) (fst f) = Some w" "sortFields w = sortFields (snd f)"
      using vals [of "fst f"] by (cases "map_of (jfields kvs) (fst f)") auto
    then have "w = JAccessor" "w \<in> snd ` set (jfields kvs)"
      using \<open>snd f = JAccessor\<close> by (auto dest!: map_of_SomeD simp: rev_image_eqI)
    then show False
      using assms(3) by (force simp: jfields_def image_iff)
  qed
  show thesis
  proof (rule that)
    show "requireRecord v l = Inr fs" for l
      using acc by (simp add: v requireRecord_Inr)
    show "requireExactKeys fs (map fst kvs) l = Inr ()" for l
      using \<open>exact_keys fs (map fst kvs)\<close> by (simp add: requireExactKeys_Inr)
    show "list_all (\<lambda>(k, w). sortFields (getProp fs k) = sortFields w) kvs"
      unfolding list_all_iff
    proof clarify
      fix k w
      assume "(k, w) \<in> set kvs"
      then have "map_of (jfields kvs) (js k) = Some w"
        using d by (intro map_of_is_SomeI) (auto simp: jfields_def)
      then obtain u where "map_of fs (js k) = Some u" "sortFields u = sortFields w"
        using vals [of "js k"] by (cases "map_of fs (js k)") auto
      then show "sortFields (getProp fs k) = sortFields w"
        by (simp add: getProp_def)
    qed
  qed
qed

lemma array_invert:
  assumes "sortFields v = sortFields (jarr (map g xs))" "\<And>x. g x \<noteq> JAccessor" "length xs \<le> n"
  obtains vs where "\<And>l. requireArray v l n = Inr vs" "list_all2 (\<lambda>v x. sortFields v = sortFields (g x)) vs xs"
proof -
  obtain vs where v: "v = jarr vs" and m: "map sortFields vs = map (\<lambda>x. sortFields (g x)) xs"
    using assms(1) by (cases v) (auto simp: comp_def)
  then have l: "list_all2 (\<lambda>v x. sortFields v = sortFields (g x)) vs xs"
    by (simp add: list_all2_map1 list_all2_map2 list.rel_eq [symmetric])
  moreover have "JAccessor \<notin> set vs"
  proof
    assume "JAccessor \<in> set vs"
    then have "sortFields JAccessor \<in> set (map sortFields vs)"
      unfolding set_map by (rule imageI)
    then have "JAccessor \<in> (\<lambda>x. sortFields (g x)) ` set xs"
      by (simp add: m)
    then show False
      using assms(2) by (metis imageE sortFields_leaf_iff(5))
  qed
  ultimately show thesis
    using that [of vs] assms(3) by (simp add: v requireArray_Inr list_all2_lengthD)
qed

lemma array_complete:
  assumes "list_all2 (\<lambda>v x. sortFields v = sortFields (g x)) vs xs"
    "\<And>v x. x \<in> set xs \<Longrightarrow> sortFields v = sortFields (g x) \<Longrightarrow> f v = Inr x"
  shows "mapE f vs = Inr xs"
  using assms
proof (induction rule: list_all2_induct)
  case (Cons v vs x xs)
  then have "f v = Inr x" "mapE f vs = Inr xs"
    by auto
  then show ?case
    by simp
qed simp

section \<open>Completeness of the validators\<close>

lemma json_not_accessor [simp]: "jrec kvs \<noteq> JAccessor" "nullable x \<noteq> JAccessor"
  by (simp_all add: jrec_def nullable_def split: option.splits)

lemma form_not_accessor [simp]:
  "selector_json r \<noteq> JAccessor"
  "fs_permission_json p \<noteq> JAccessor" "git_permission_json g \<noteq> JAccessor" "limits_json l \<noteq> JAccessor"
  "ambient_json a \<noteq> JAccessor" "delegation_json d \<noteq> JAccessor" "authority_json au \<noteq> JAccessor"
  "subject_json s \<noteq> JAccessor" "audience_json ad \<noteq> JAccessor" "validity_json v \<noteq> JAccessor"
  "bindings_json b \<noteq> JAccessor" "non_authoritative_json n \<noteq> JAccessor"
  by (simp_all add: selector_json_def fs_permission_json_def git_permission_json_def limits_json_def
      ambient_json_def delegation_json_def authority_json_def subject_json_def audience_json_def
      validity_json_def bindings_json_def non_authoritative_json_def)

lemmas form_not_accessor_sym [simp] = json_not_accessor [symmetric] form_not_accessor [symmetric]

lemma selector_complete:
  assumes "wf_selector nfc s" "sortFields v = sortFields (selector_json s)"
  shows "validateResourceSelector nfc v = Inr s"
  using assms unfolding selector_json_def wf_selector_def
  by (elim record_invert; cases s)
    (auto simp: validateResourceSelector_def result_simps requireString_Inr requireEnum_selectorKinds)

lemma subject_complete:
  assumes "wf_subject nfc s" "sortFields v = sortFields (subject_json s)"
  shows "validateSubject nfc v = Inr s"
  using assms unfolding subject_json_def wf_subject_def
  by (elim record_invert) (simp_all add: validateSubject_def result_simps leaf_simps)

lemma audience_complete:
  assumes "wf_audience nfc a" "sortFields v = sortFields (audience_json a)"
  shows "validateAudience nfc v = Inr a"
  using assms unfolding audience_json_def wf_audience_def
  by (elim record_invert) (simp_all add: validateAudience_def result_simps leaf_simps)

lemma validity_complete:
  assumes "wf_validity nfc x" "sortFields v = sortFields (validity_json x)"
  shows "validateValidity nfc v = Inr x"
  using assms unfolding validity_json_def wf_validity_def
  by (elim record_invert) (simp_all add: validateValidity_def result_simps leaf_simps)

lemma bindings_complete:
  assumes "wf_bindings nfc b" "sortFields v = sortFields (bindings_json b)"
  shows "validateBindings nfc v = Inr b"
  using assms unfolding bindings_json_def wf_bindings_def
  by (elim record_invert) (simp_all add: validateBindings_def result_simps leaf_simps)

lemma limits_complete:
  assumes "wf_limits l" "sortFields v = sortFields (limits_json l)"
  shows "validateLimits v = Inr l"
  using assms unfolding limits_json_def wf_limits_def
  by (elim record_invert) (simp_all add: validateLimits_def result_simps leaf_simps)

lemma ambient_complete:
  assumes "wf_ambient a" "sortFields v = sortFields (ambient_json a)"
  shows "validateAmbientAuthority v = Inr a"
  using assms unfolding ambient_json_def wf_ambient_def
  by (elim record_invert) (simp_all add: validateAmbientAuthority_def result_simps leaf_simps)

lemma delegation_complete:
  assumes "wf_delegation d" "sortFields v = sortFields (delegation_json d)"
  shows "validateDelegation v = Inr d"
  using assms unfolding delegation_json_def wf_delegation_def
  by (elim record_invert) (simp_all add: validateDelegation_def result_simps leaf_simps)

lemma fs_permission_complete:
  assumes "wf_fs_permission nfc p" "sortFields v = sortFields (fs_permission_json p)"
  shows "validateFilesystemPermission nfc v = Inr p"
  using assms unfolding fs_permission_json_def wf_fs_permission_def
  by (elim record_invert)
    (auto simp: validateFilesystemPermission_def result_simps enum_tables selector_complete)

lemma git_permission_complete:
  assumes "sortFields v = sortFields (git_permission_json p)"
  shows "validateGitPermission v = Inr p"
  using assms unfolding git_permission_json_def
  by (elim record_invert; cases p) (auto simp: validateGitPermission_def result_simps enum_tables)

section \<open>Arrays\<close>

lemma array_shape:
  assumes "mapE f vs = Inr xs" "\<And>v x. f v = Inr x \<Longrightarrow> sortFields v = sortFields (g x)"
  shows "sortFields (jarr vs) = sortFields (jarr (map g xs))"
  using assms by (intro sortFields_jarr_cong) (auto simp: mapE_eq_Inr elim: list_all2_mono)

lemma array_all:
  assumes "mapE f vs = Inr xs" "\<And>v x. f v = Inr x \<Longrightarrow> P x"
  shows "\<forall>x \<in> set xs. P x"
  using assms(1) by (induction vs arbitrary: xs) (auto simp: result_simps assms(2))

lemma mapE_canonicalizeJson:
  "mapE (\<lambda>x. canonicalizeJson nfc (g x)) xs = Inr ks \<longleftrightarrow>
     (\<forall>x \<in> set xs. canonicalizable nfc (g x)) \<and> ks = map (\<lambda>x. render (g x)) xs"
  by (induction xs arbitrary: ks) (auto simp: result_simps)

definition wf_authority :: "(jstr \<Rightarrow> jstr) \<Rightarrow> safe_coding_authority \<Rightarrow> bool" where
  "wf_authority nfc a \<longleftrightarrow>
     length (au_filesystem a) \<le> MAX_FILESYSTEM_PERMISSIONS \<and>
     (\<forall>p \<in> set (au_filesystem a). wf_fs_permission nfc p \<and> canonicalizable nfc (fs_permission_json p)) \<and>
     sorted_wrt (<) (map (\<lambda>p. render (fs_permission_json p)) (au_filesystem a)) \<and>
     length (au_git a) \<le> MAX_GIT_PERMISSIONS \<and>
     (\<forall>p \<in> set (au_git a). canonicalizable nfc (git_permission_json p)) \<and>
     sorted_wrt (<) (map (\<lambda>p. render (git_permission_json p)) (au_git a)) \<and>
     length (au_testProfiles a) \<le> MAX_TEST_PROFILES \<and>
     (\<forall>s \<in> set (au_testProfiles a). canonical_string nfc s \<and> PROFILE_ID_PATTERN s) \<and>
     sorted_wrt (<) (au_testProfiles a) \<and>
     length (au_allowedEffectClasses a) \<le> MAX_EFFECT_CLASSES \<and>
     sorted_wrt (<) (map (spelling effectClasses) (au_allowedEffectClasses a)) \<and>
     wf_limits (au_limits a) \<and> wf_ambient (au_ambientAuthority a) \<and> wf_delegation (au_delegation a)"

lemma authority_sound:
  assumes "validateAuthority nfc v = Inr a" "json_ok nfc v"
  shows "wf_authority nfc a \<and> sortFields v = sortFields (authority_json a)"
proof -
  from assms(1) obtain fs fsr gitr profr clsr where v: "v = jobj fs"
      "exact_keys fs [''filesystem'', ''git'', ''testProfiles'', ''allowedEffectClasses'', ''limits'',
        ''ambientAuthority'', ''delegation'']"
    and raw: "getProp fs ''filesystem'' = jarr fsr" "length fsr \<le> MAX_FILESYSTEM_PERMISSIONS"
      "getProp fs ''git'' = jarr gitr" "length gitr \<le> MAX_GIT_PERMISSIONS"
      "getProp fs ''testProfiles'' = jarr profr" "length profr \<le> MAX_TEST_PROFILES"
      "getProp fs ''allowedEffectClasses'' = jarr clsr" "length clsr \<le> MAX_EFFECT_CLASSES"
    and maps: "mapE (validateFilesystemPermission nfc) fsr = Inr (au_filesystem a)"
      "mapE validateGitPermission gitr = Inr (au_git a)"
      "mapE (\<lambda>entry. requireProfileId nfc entry ''Test profile ID'') profr = Inr (au_testProfiles a)"
      "mapE (\<lambda>entry. requireEffectClass entry ''Allowed effect class'') clsr = Inr (au_allowedEffectClasses a)"
    and sorted: "(\<forall>p \<in> set (au_filesystem a). canonicalizable nfc (fs_permission_json p)) \<and>
        sorted_wrt (<) (map (\<lambda>p. render (fs_permission_json p)) (au_filesystem a))"
      "(\<forall>p \<in> set (au_git a). canonicalizable nfc (git_permission_json p)) \<and>
        sorted_wrt (<) (map (\<lambda>p. render (git_permission_json p)) (au_git a))"
      "sorted_wrt (<) (au_testProfiles a)"
      "sorted_wrt (<) (map (spelling effectClasses) (au_allowedEffectClasses a))"
    and rest: "validateLimits (getProp fs ''limits'') = Inr (au_limits a)"
      "validateAmbientAuthority (getProp fs ''ambientAuthority'') = Inr (au_ambientAuthority a)"
      "validateDelegation (getProp fs ''delegation'') = Inr (au_delegation a)"
    unfolding validateAuthority_def
    by (auto simp: open_record requireArray_Inr assertSortedUnique_Inr mapE_canonicalizeJson)
  have ok: "json_ok nfc (getProp fs ''limits'')" "json_ok nfc (getProp fs ''delegation'')"
    using record_fields_ok [OF v(2)] assms(2) v(1) by simp_all
  note parts = limits_sound [OF rest(1) ok(1)] ambient_sound [OF rest(2)] delegation_sound [OF rest(3) ok(2)]
  have shapes: "sortFields (jarr fsr) = sortFields (jarr (map fs_permission_json (au_filesystem a)))"
    "sortFields (jarr gitr) = sortFields (jarr (map git_permission_json (au_git a)))"
    "sortFields (jarr profr) = sortFields (jarr (map JStr (au_testProfiles a)))"
    "sortFields (jarr clsr) = sortFields (jarr (map (\<lambda>c. JStr (spelling effectClasses c)) (au_allowedEffectClasses a)))"
    using maps by (auto simp del: sortFields.simps simp: leaf_simps enum_tables fs_permission_sound git_permission_sound
        intro!: array_shape)
  have "\<forall>p \<in> set (au_filesystem a). wf_fs_permission nfc p"
    by (rule array_all [OF maps(1)]) (use fs_permission_sound in blast)
  moreover have "\<forall>s \<in> set (au_testProfiles a). canonical_string nfc s \<and> PROFILE_ID_PATTERN s"
    by (rule array_all [OF maps(3)]) (simp add: leaf_simps)
  moreover have "length (au_filesystem a) \<le> MAX_FILESYSTEM_PERMISSIONS"
    "length (au_git a) \<le> MAX_GIT_PERMISSIONS" "length (au_testProfiles a) \<le> MAX_TEST_PROFILES"
    "length (au_allowedEffectClasses a) \<le> MAX_EFFECT_CLASSES"
    using maps [THEN mapE_length] raw by simp_all
  ultimately have "wf_authority nfc a"
    using sorted parts unfolding wf_authority_def by blast
  moreover have "sortFields v = sortFields (authority_json a)"
    unfolding v(1) authority_json_def using v(2) raw shapes parts
    by (intro record_shape) (auto simp del: sortFields.simps)
  ultimately show ?thesis ..
qed

lemma authority_complete:
  assumes "wf_authority nfc a" "sortFields v = sortFields (authority_json a)"
  shows "validateAuthority nfc v = Inr a"
proof -
  note wf = assms(1) [unfolded wf_authority_def]
  obtain fs where rec: "\<And>l. requireRecord v l = Inr fs"
      "\<And>l. requireExactKeys fs [''filesystem'', ''git'', ''testProfiles'', ''allowedEffectClasses'',
        ''limits'', ''ambientAuthority'', ''delegation''] l = Inr ()"
    and shapes: "sortFields (getProp fs ''filesystem'') = sortFields (jarr (map fs_permission_json (au_filesystem a)))"
      "sortFields (getProp fs ''git'') = sortFields (jarr (map git_permission_json (au_git a)))"
      "sortFields (getProp fs ''testProfiles'') = sortFields (jarr (map JStr (au_testProfiles a)))"
      "sortFields (getProp fs ''allowedEffectClasses'') =
        sortFields (jarr (map (\<lambda>c. JStr (spelling effectClasses c)) (au_allowedEffectClasses a)))"
    and parts: "sortFields (getProp fs ''limits'') = sortFields (limits_json (au_limits a))"
      "sortFields (getProp fs ''ambientAuthority'') = sortFields (ambient_json (au_ambientAuthority a))"
      "sortFields (getProp fs ''delegation'') = sortFields (delegation_json (au_delegation a))"
    using assms(2) unfolding authority_json_def
    by (elim record_invert) (auto simp del: sortFields.simps)
  have lens: "length (au_filesystem a) \<le> MAX_FILESYSTEM_PERMISSIONS" "length (au_git a) \<le> MAX_GIT_PERMISSIONS"
    "length (au_testProfiles a) \<le> MAX_TEST_PROFILES" "length (au_allowedEffectClasses a) \<le> MAX_EFFECT_CLASSES"
    using wf by simp_all
  obtain fsr where fsr: "\<And>l. requireArray (getProp fs ''filesystem'') l MAX_FILESYSTEM_PERMISSIONS = Inr fsr"
    "list_all2 (\<lambda>v x. sortFields v = sortFields (fs_permission_json x)) fsr (au_filesystem a)"
    by (rule array_invert [OF shapes(1) _ lens(1)]) simp_all
  obtain gitr where gitr: "\<And>l. requireArray (getProp fs ''git'') l MAX_GIT_PERMISSIONS = Inr gitr"
    "list_all2 (\<lambda>v x. sortFields v = sortFields (git_permission_json x)) gitr (au_git a)"
    by (rule array_invert [OF shapes(2) _ lens(2)]) simp_all
  obtain profr where profr: "\<And>l. requireArray (getProp fs ''testProfiles'') l MAX_TEST_PROFILES = Inr profr"
    "list_all2 (\<lambda>v x. sortFields v = sortFields (JStr x)) profr (au_testProfiles a)"
    by (rule array_invert [OF shapes(3) _ lens(3)]) simp_all
  obtain clsr where clsr: "\<And>l. requireArray (getProp fs ''allowedEffectClasses'') l MAX_EFFECT_CLASSES = Inr clsr"
    "list_all2 (\<lambda>v x. sortFields v = sortFields (JStr (spelling effectClasses x))) clsr (au_allowedEffectClasses a)"
    by (rule array_invert [OF shapes(4) _ lens(4)]) simp_all
  have maps: "mapE (validateFilesystemPermission nfc) fsr = Inr (au_filesystem a)"
    "mapE validateGitPermission gitr = Inr (au_git a)"
    "mapE (\<lambda>entry. requireProfileId nfc entry l) profr = Inr (au_testProfiles a)"
    "mapE (\<lambda>entry. requireEffectClass entry l) clsr = Inr (au_allowedEffectClasses a)" for l
    using wf by (auto simp: leaf_simps enum_tables fs_permission_complete git_permission_complete
        intro!: array_complete [OF fsr(2)] array_complete [OF gitr(2)] array_complete [OF profr(2)]
          array_complete [OF clsr(2)])
  have sorted:
    "assertSortedUnique (au_filesystem a) (\<lambda>p. canonicalizeJson nfc (fs_permission_json p)) l = Inr ()"
    "assertSortedUnique (au_git a) (\<lambda>p. canonicalizeJson nfc (git_permission_json p)) l = Inr ()"
    "assertSortedUnique (au_testProfiles a) (\<lambda>entry. Inr entry) l = Inr ()"
    "assertSortedUnique (au_allowedEffectClasses a) (\<lambda>c. Inr (spelling effectClasses c)) l = Inr ()" for l
    using wf by (auto simp: assertSortedUnique_Inr mapE_canonicalizeJson)
  have "validateLimits (getProp fs ''limits'') = Inr (au_limits a)"
    "validateAmbientAuthority (getProp fs ''ambientAuthority'') = Inr (au_ambientAuthority a)"
    "validateDelegation (getProp fs ''delegation'') = Inr (au_delegation a)"
    using wf parts by (auto intro: limits_complete ambient_complete delegation_complete)
  then show ?thesis
    unfolding validateAuthority_def by (simp add: rec fsr(1) gitr(1) profr(1) clsr(1) maps sorted)
qed

definition wf_non_authoritative :: "(jstr \<Rightarrow> jstr) \<Rightarrow> non_authoritative \<Rightarrow> bool" where
  "wf_non_authoritative nfc n \<longleftrightarrow>
     length (na_goalLabel n) \<le> 512 \<and> canonical_string nfc (na_goalLabel n) \<and>
     length (na_notes n) \<le> MAX_CONTRACT_NOTES \<and>
     (\<forall>s \<in> set (na_notes n). length s \<le> 4096 \<and> canonical_string nfc s)"

lemma non_authoritative_sound:
  assumes "validateNonAuthoritative nfc v = Inr n"
  shows "wf_non_authoritative nfc n \<and> sortFields v = sortFields (non_authoritative_json n)"
proof -
  from assms obtain fs raw where v: "v = jobj fs" "exact_keys fs [''goalLabel'', ''notes'']"
      "getProp fs ''notes'' = jarr raw" "length raw \<le> MAX_CONTRACT_NOTES"
      "getProp fs ''goalLabel'' = JStr (na_goalLabel n)" "length (na_goalLabel n) \<le> 512"
      "canonical_string nfc (na_goalLabel n)"
    and m: "mapE (\<lambda>entry. requireString nfc entry ''Contract note'' 4096) raw = Inr (na_notes n)"
    unfolding validateNonAuthoritative_def by (auto simp: open_record leaf_simps requireArray_Inr)
  have "\<forall>s \<in> set (na_notes n). length s \<le> 4096 \<and> canonical_string nfc s"
    by (rule array_all [OF m]) (simp add: leaf_simps)
  moreover have "sortFields (jarr raw) = sortFields (jarr (map JStr (na_notes n)))"
    by (rule array_shape [OF m]) (simp add: leaf_simps)
  ultimately show ?thesis
    unfolding wf_non_authoritative_def v(1) non_authoritative_json_def
    using v m [THEN mapE_length] by (auto simp del: sortFields.simps(1,2) intro!: record_shape)
qed

lemma non_authoritative_complete:
  assumes "wf_non_authoritative nfc n" "sortFields v = sortFields (non_authoritative_json n)"
  shows "validateNonAuthoritative nfc v = Inr n"
proof -
  note wf = assms(1) [unfolded wf_non_authoritative_def]
  obtain fs where rec: "\<And>l. requireRecord v l = Inr fs" "\<And>l. requireExactKeys fs [''goalLabel'', ''notes''] l = Inr ()"
      "getProp fs ''goalLabel'' = JStr (na_goalLabel n)"
      and shape: "sortFields (getProp fs ''notes'') = sortFields (jarr (map JStr (na_notes n)))"
    using assms(2) unfolding non_authoritative_json_def
    by (elim record_invert) (auto simp del: sortFields.simps(1,2))
  have len: "length (na_notes n) \<le> MAX_CONTRACT_NOTES"
    using wf by simp
  obtain raw where raw: "\<And>l. requireArray (getProp fs ''notes'') l MAX_CONTRACT_NOTES = Inr raw"
    "list_all2 (\<lambda>v x. sortFields v = sortFields (JStr x)) raw (na_notes n)"
    by (rule array_invert [OF shape _ len]) simp_all
  have "mapE (\<lambda>entry. requireString nfc entry l 4096) raw = Inr (na_notes n)"
    "requireString nfc (JStr (na_goalLabel n)) l 512 = Inr (na_goalLabel n)" for l
    using wf by (auto simp: leaf_simps intro!: array_complete [OF raw(2)])
  then show ?thesis
    unfolding validateNonAuthoritative_def by (simp add: rec raw(1))
qed

section \<open>The contract\<close>

definition wf_contract :: "(jstr \<Rightarrow> jstr) \<Rightarrow> intent_contract \<Rightarrow> bool" where
  "wf_contract nfc c \<longleftrightarrow>
     UUID_PATTERN (ic_contractId c) \<and> safe_int (ic_revision c) \<and> 0 < ic_revision c \<and>
     pred_option SHA256_PATTERN (ic_previousRevisionHash c) \<and>
     (ic_revision c = 1 \<longleftrightarrow> ic_previousRevisionHash c = None) \<and>
     stamp nfc (ic_issuedAt c) \<and> wf_validity nfc (ic_validity c) \<and>
     timestampMilliseconds (ic_issuedAt c) \<le> timestampMilliseconds (vld_notBefore (ic_validity c)) \<and>
     timestampMilliseconds (vld_notBefore (ic_validity c)) <
       timestampMilliseconds (vld_expiresAt (ic_validity c)) \<and>
     wf_subject nfc (ic_subject c) \<and> wf_audience nfc (ic_audience c) \<and>
     wf_bindings nfc (ic_bindings c) \<and> wf_authority nfc (ic_authority c) \<and>
     wf_non_authoritative nfc (ic_nonAuthoritative c)"

lemma contract_shape:
  assumes "validateSafeCodingIntentContract nfc v = Inr c"
  shows "wf_contract nfc c \<and> canonicalizable nfc v \<and> sortFields v = sortFields (contract_json c)"
proof -
  from assms obtain fs where v: "v = jobj fs" "exact_keys fs contractKeys" "canonicalizable nfc v"
    and leaf: "getProp fs ''kind'' = JStr (js INTENT_CONTRACT_KIND)"
      "getProp fs ''specVersion'' = JStr (js INTENT_CONTRACT_SPEC_VERSION)"
      "getProp fs ''contractId'' = JStr (ic_contractId c)" "UUID_PATTERN (ic_contractId c)"
      "getProp fs ''revision'' = jint (ic_revision c)" "safe_int (ic_revision c)" "0 < ic_revision c"
      "getProp fs ''previousRevisionHash'' = nullable (ic_previousRevisionHash c)"
      "pred_option SHA256_PATTERN (ic_previousRevisionHash c)"
      "ic_revision c = 1 \<longleftrightarrow> ic_previousRevisionHash c = None"
      "getProp fs ''issuedAt'' = JStr (ic_issuedAt c)" "stamp nfc (ic_issuedAt c)"
      "timestampMilliseconds (ic_issuedAt c) \<le> timestampMilliseconds (vld_notBefore (ic_validity c))"
      "timestampMilliseconds (vld_notBefore (ic_validity c)) <
        timestampMilliseconds (vld_expiresAt (ic_validity c))"
    and sub: "validateValidity nfc (getProp fs ''validity'') = Inr (ic_validity c)"
      "validateSubject nfc (getProp fs ''subject'') = Inr (ic_subject c)"
      "validateAudience nfc (getProp fs ''audience'') = Inr (ic_audience c)"
      "validateBindings nfc (getProp fs ''bindings'') = Inr (ic_bindings c)"
      "validateAuthority nfc (getProp fs ''authority'') = Inr (ic_authority c)"
      "validateNonAuthoritative nfc (getProp fs ''nonAuthoritative'') = Inr (ic_nonAuthoritative c)"
    unfolding validateSafeCodingIntentContract_def
    by (clarsimp simp: open_record leaf_simps not_le not_less)
  have ok: "json_ok nfc (getProp fs ''audience'')" "json_ok nfc (getProp fs ''authority'')"
    using record_fields_ok [OF v(2)] v(1,3) by (simp_all add: canonicalizable_def contractKeys_def)
  note parts = validity_sound [OF sub(1)] subject_sound [OF sub(2)] audience_sound [OF sub(3) ok(1)]
    bindings_sound [OF sub(4)] authority_sound [OF sub(5) ok(2)] non_authoritative_sound [OF sub(6)]
  have "sortFields v = sortFields (contract_json c)"
    unfolding v(1) contract_json_def using v(2) leaf parts
    by (intro record_shape) (auto simp: contractKeys_def)
  then show ?thesis
    using leaf parts v(3) unfolding wf_contract_def by blast
qed

lemma contract_complete:
  assumes "wf_contract nfc c" "sortFields v = sortFields (contract_json c)" "canonicalizable nfc v"
  shows "validateSafeCodingIntentContract nfc v = Inr c"
proof -
  note wf = assms(1) [unfolded wf_contract_def]
  obtain fs where rec: "\<And>l. requireRecord v l = Inr fs" "\<And>l. requireExactKeys fs contractKeys l = Inr ()"
    and leaf: "getProp fs ''kind'' = JStr (js INTENT_CONTRACT_KIND)"
      "getProp fs ''specVersion'' = JStr (js INTENT_CONTRACT_SPEC_VERSION)"
      "getProp fs ''contractId'' = JStr (ic_contractId c)"
      "getProp fs ''revision'' = jint (ic_revision c)"
      "getProp fs ''previousRevisionHash'' = nullable (ic_previousRevisionHash c)"
      "getProp fs ''issuedAt'' = JStr (ic_issuedAt c)"
    and parts: "sortFields (getProp fs ''validity'') = sortFields (validity_json (ic_validity c))"
      "sortFields (getProp fs ''subject'') = sortFields (subject_json (ic_subject c))"
      "sortFields (getProp fs ''audience'') = sortFields (audience_json (ic_audience c))"
      "sortFields (getProp fs ''bindings'') = sortFields (bindings_json (ic_bindings c))"
      "sortFields (getProp fs ''authority'') = sortFields (authority_json (ic_authority c))"
      "sortFields (getProp fs ''nonAuthoritative'') =
        sortFields (non_authoritative_json (ic_nonAuthoritative c))"
    using assms(2) unfolding contract_json_def
    by (elim record_invert) (auto simp: contractKeys_def)
  have checks: "requireUuid (JStr (ic_contractId c)) l = Inr (ic_contractId c)"
    "requirePositiveInteger (jint (ic_revision c)) l = Inr (ic_revision c)"
    "requireNullableDigest (nullable (ic_previousRevisionHash c)) l = Inr (ic_previousRevisionHash c)"
    "requireTimestamp nfc (JStr (ic_issuedAt c)) l = Inr (ic_issuedAt c)"
    "requireLiteral w w l = Inr ()" "canonicalizeJson nfc v = Inr (render v)" for l w
    using wf assms(3) by (simp_all add: leaf_simps canonicalizeJson_Inr)
  have "validateValidity nfc (getProp fs ''validity'') = Inr (ic_validity c)"
    "validateSubject nfc (getProp fs ''subject'') = Inr (ic_subject c)"
    "validateAudience nfc (getProp fs ''audience'') = Inr (ic_audience c)"
    "validateBindings nfc (getProp fs ''bindings'') = Inr (ic_bindings c)"
    "validateAuthority nfc (getProp fs ''authority'') = Inr (ic_authority c)"
    "validateNonAuthoritative nfc (getProp fs ''nonAuthoritative'') = Inr (ic_nonAuthoritative c)"
    using wf parts by (auto intro: validity_complete subject_complete audience_complete
        bindings_complete authority_complete non_authoritative_complete)
  then show ?thesis
    using wf unfolding validateSafeCodingIntentContract_def
    by (simp add: rec leaf checks not_le not_less)
qed

text \<open>The contracts that have a canonical text, and that text. The JSON form of a contract has
  distinct keys and nests at most five deep.\<close>

definition contract_valid :: "(jstr \<Rightarrow> jstr) \<Rightarrow> intent_contract \<Rightarrow> bool" where
  "contract_valid nfc c \<longleftrightarrow> wf_contract nfc c \<and> canonicalizable nfc (contract_json c)"

definition contract_text :: "intent_contract \<Rightarrow> jstr" where
  "contract_text c = render (contract_json c)"

lemma wf_jsval_jrec: "distinct (map fst kvs) \<Longrightarrow> (\<forall>(k, w) \<in> set kvs. wf_jsval w) \<Longrightarrow> wf_jsval (jrec kvs)"
  by (auto simp: jrec_def jfields_def distinct_map inj_on_def js_inj comp_def case_prod_unfold)

lemma nesting_jrec: "(\<forall>(k, w) \<in> set kvs. nesting w \<le> n) \<Longrightarrow> nesting (jrec kvs) \<le> Suc n"
  by (auto simp: jrec_def jfields_def foldr_max_le comp_def case_prod_unfold)

lemma nesting_jarr: "(\<forall>x \<in> set xs. nesting (g x) \<le> n) \<Longrightarrow> nesting (jarr (map g xs)) \<le> Suc n"
  by (auto simp: foldr_max_le)

lemma contract_json_keys: "wf_jsval (contract_json c)"
  unfolding contract_json_def authority_json_def validity_json_def subject_json_def audience_json_def
    bindings_json_def non_authoritative_json_def limits_json_def ambient_json_def delegation_json_def
  by (intro wf_jsval_jrec)
    (auto simp: fs_permission_json_def git_permission_json_def selector_json_def nullable_def
      intro!: wf_jsval_jrec split: option.splits)

lemma nesting_leaf [simp]:
  "nesting (JStr s) = 0" "nesting (JNum n) = 0" "nesting (JBool b) = 0" "nesting (nullable x) = 0"
  by (simp_all add: nullable_def split: option.splits)

lemma contract_json_nesting: "nesting (contract_json c) \<le> 5"
proof -
  have flat: "nesting (jrec kvs) \<le> Suc 0" if "\<forall>(k, w) \<in> set kvs. nesting w = 0" for kvs
    using that by (intro nesting_jrec) auto
  have parts: "nesting (validity_json v) \<le> 1" "nesting (subject_json s) \<le> 1" "nesting (audience_json a) \<le> 1"
    "nesting (bindings_json b) \<le> 1" "nesting (limits_json l) \<le> 1" "nesting (ambient_json am) \<le> 1"
    "nesting (delegation_json d) \<le> 1" "nesting (git_permission_json g) \<le> 1" "nesting (selector_json r) \<le> 1"
    for v s a b l am d g r
    unfolding validity_json_def subject_json_def audience_json_def bindings_json_def limits_json_def
      ambient_json_def delegation_json_def git_permission_json_def selector_json_def One_nat_def
    by (rule flat; simp)+
  have fs: "nesting (fs_permission_json p) \<le> 2" for p
    using parts(9) [of "fp_selector p"] unfolding fs_permission_json_def numeral_2_eq_2
    by (intro nesting_jrec) auto
  have arrays: "nesting (jarr (map fs_permission_json ps)) \<le> Suc 2"
    "nesting (jarr (map git_permission_json gs)) \<le> Suc 1" "nesting (jarr (map JStr ss)) \<le> Suc 0"
    "nesting (jarr (map (\<lambda>c. JStr (f c)) es)) \<le> Suc 0" for ps gs ss es and f :: "effect_class \<Rightarrow> jstr"
    by (rule nesting_jarr, intro ballI, simp only: fs parts nesting_leaf)+
  have "nesting (authority_json a) \<le> Suc 3" for a
    unfolding authority_json_def
    by (intro nesting_jrec)
      (simp only: list.set ball_simps prod.case,
       intro conjI ballI TrueI order_trans [OF arrays(1)] order_trans [OF arrays(2)]
        order_trans [OF arrays(3)] order_trans [OF arrays(4)] order_trans [OF parts(5)]
        order_trans [OF parts(6)] order_trans [OF parts(7)], simp_all)
  moreover have "nesting (non_authoritative_json n) \<le> Suc 3" for n
    unfolding non_authoritative_json_def using order_trans [OF arrays(3) [of "na_notes n"], of 3]
    by (intro nesting_jrec) (simp add: del: nesting.simps)
  ultimately have "nesting (contract_json c) \<le> Suc 4"
    unfolding contract_json_def
    by (intro nesting_jrec) (auto intro: order_trans [OF parts(1)] order_trans [OF parts(2)]
        order_trans [OF parts(3)] order_trans [OF parts(4)] order_trans)
  then show ?thesis
    by simp
qed

interpretation contract_codec: strict_codec contract_text "parseCanonicalSafeCodingIntentContract nfc"
  "contract_valid nfc" for nfc
proof
  fix c
  assume "contract_valid nfc c"
  then have wf: "wf_contract nfc c" and can: "canonicalizable nfc (contract_json c)"
    by (simp_all add: contract_valid_def)
  have "parseCanonicalJson nfc (contract_text c) = Inr (sortFields (contract_json c))"
    unfolding contract_text_def using can contract_json_keys contract_json_nesting [of c]
    by (intro parseCanonicalJson_render) (simp_all add: MAX_CANONICAL_JSON_DEPTH_def)
  with contract_complete [OF wf, of "sortFields (contract_json c)"] can
  show "parseCanonicalSafeCodingIntentContract nfc (contract_text c) = Inr c"
    by (simp add: parseCanonicalSafeCodingIntentContract_def)
next
  fix s c
  assume "parseCanonicalSafeCodingIntentContract nfc s = Inr c"
  then obtain v where v: "parseCanonicalJson nfc s = Inr v" "validateSafeCodingIntentContract nfc v = Inr c"
    by (auto simp: parseCanonicalSafeCodingIntentContract_def result_simps)
  then have c: "wf_contract nfc c" "canonicalizable nfc v" "sortFields v = sortFields (contract_json c)"
    using contract_shape by blast+
  then have "canonicalizable nfc (contract_json c)" "render v = render (contract_json c)"
    by (metis canonicalizable_sortFields, metis render_sortFields)
  then show "contract_valid nfc c \<and> contract_text c = s"
    using c(1) parseCanonicalJson_canonical(2) [OF v(1)] by (simp add: contract_valid_def contract_text_def)
qed

end
