(* ===== verification/Execution_Ticket.thy ===== *)
theory Execution_Ticket
  imports Intent_Contract
begin

text \<open>
  The Execution Ticket of \<open>intent-contract.ts\<close> and its validator. As for the contract, \<open>kind\<close> and
  \<open>specVersion\<close> are constants of the JSON form, and the closing \<open>canonicalizeJson(ticket)\<close> is run on
  the received value, which \<open>ticket_shape\<close> shows to be the JSON form of the ticket up to the order
  of its keys.
\<close>

section \<open>Definitions\<close>

record execution_ticket =
  et_ticketId :: jstr
  et_requestId :: jstr
  et_contractHash :: jstr
  et_contractRevision :: int
  et_subject :: contract_subject
  et_audience :: contract_audience
  et_actionHash :: jstr
  et_argumentsHash :: jstr
  et_resolvedObjectId :: jstr
  et_stateCommitmentHash :: jstr
  et_adapterId :: jstr
  et_adapterDigest :: jstr
  et_policyDigest :: jstr
  et_registryDigest :: jstr
  et_runnerRegistryDigest :: jstr
  et_effectRegistryDigest :: jstr
  et_effectClass :: effect_class
  et_revocationEpoch :: int
  et_budgetReservationId :: jstr
  et_nonce :: jstr
  et_issuedAt :: jstr
  et_expiresAt :: jstr

definition EXECUTION_TICKET_KIND :: string where
  "EXECUTION_TICKET_KIND = ''clodex.execution-ticket''"

definition MIN_TICKET_NONCE_BYTES :: nat where
  "MIN_TICKET_NONCE_BYTES = 16"

definition MAX_TICKET_NONCE_BYTES :: nat where
  "MAX_TICKET_NONCE_BYTES = 96"

definition ticketKeys :: "string list" where
  "ticketKeys =
     [''kind'', ''specVersion'', ''ticketId'', ''requestId'', ''contractHash'', ''contractRevision'',
      ''subject'', ''audience'', ''actionHash'', ''argumentsHash'', ''resolvedObjectId'',
      ''stateCommitmentHash'', ''adapterId'', ''adapterDigest'', ''policyDigest'', ''registryDigest'',
      ''runnerRegistryDigest'', ''effectRegistryDigest'', ''effectClass'', ''revocationEpoch'',
      ''budgetReservationId'', ''nonce'', ''issuedAt'', ''expiresAt'']"

definition validateSafeCodingExecutionTicket ::
  "(jstr \<Rightarrow> jstr) \<Rightarrow> jsval \<Rightarrow> contract_error + execution_ticket" where
  "validateSafeCodingExecutionTicket nfc value =
     bindE (requireRecord value ''Execution Ticket'') (\<lambda>record.
     bindE (requireExactKeys record ticketKeys ''Execution Ticket'') (\<lambda>_.
     bindE (requireLiteral (getProp record ''kind'') (JStr (js EXECUTION_TICKET_KIND))
       ''Execution Ticket kind'') (\<lambda>_.
     bindE (requireLiteral (getProp record ''specVersion'') (JStr (js INTENT_CONTRACT_SPEC_VERSION))
       ''Execution Ticket specVersion'') (\<lambda>_.
     bindE (requireTimestamp nfc (getProp record ''issuedAt'') ''Ticket issuedAt'') (\<lambda>issuedAt.
     bindE (requireTimestamp nfc (getProp record ''expiresAt'') ''Ticket expiresAt'') (\<lambda>expiresAt.
     bindE (guardE (\<not> timestampMilliseconds issuedAt \<ge> timestampMilliseconds expiresAt)
       (icError ''Execution Ticket expiry must be after issuance'')) (\<lambda>_.
     bindE (requireUuid (getProp record ''ticketId'') ''Ticket ID'') (\<lambda>ticketId.
     bindE (requireIdentifier nfc (getProp record ''requestId'') ''Ticket request ID'') (\<lambda>requestId.
     bindE (requireDigest (getProp record ''contractHash'') ''Ticket contract hash'') (\<lambda>contractHash.
     bindE (requirePositiveInteger (getProp record ''contractRevision'') ''Ticket contract revision'') (\<lambda>contractRevision.
     bindE (validateSubject nfc (getProp record ''subject'')) (\<lambda>subject.
     bindE (validateAudience nfc (getProp record ''audience'')) (\<lambda>audience.
     bindE (requireDigest (getProp record ''actionHash'') ''Ticket action hash'') (\<lambda>actionHash.
     bindE (requireDigest (getProp record ''argumentsHash'') ''Ticket arguments hash'') (\<lambda>argumentsHash.
     bindE (requireIdentifier nfc (getProp record ''resolvedObjectId'') ''Resolved object ID'') (\<lambda>resolvedObjectId.
     bindE (requireDigest (getProp record ''stateCommitmentHash'') ''State commitment hash'') (\<lambda>stateCommitmentHash.
     bindE (requireIdentifier nfc (getProp record ''adapterId'') ''Adapter ID'') (\<lambda>adapterId.
     bindE (requireDigest (getProp record ''adapterDigest'') ''Adapter digest'') (\<lambda>adapterDigest.
     bindE (requireDigest (getProp record ''policyDigest'') ''Ticket policy digest'') (\<lambda>policyDigest.
     bindE (requireDigest (getProp record ''registryDigest'') ''Registry digest'') (\<lambda>registryDigest.
     bindE (requireDigest (getProp record ''runnerRegistryDigest'') ''Ticket runner registry digest'') (\<lambda>runnerRegistryDigest.
     bindE (requireDigest (getProp record ''effectRegistryDigest'') ''Ticket effect registry digest'') (\<lambda>effectRegistryDigest.
     bindE (requireEffectClass (getProp record ''effectClass'') ''Ticket effect class'') (\<lambda>effectClass.
     bindE (requireNonNegativeInteger (getProp record ''revocationEpoch'') ''Revocation epoch'') (\<lambda>revocationEpoch.
     bindE (requireIdentifier nfc (getProp record ''budgetReservationId'') ''Budget reservation ID'') (\<lambda>budgetReservationId.
     bindE (requireCanonicalBase64Url (getProp record ''nonce'') ''Ticket nonce''
       MIN_TICKET_NONCE_BYTES MAX_TICKET_NONCE_BYTES) (\<lambda>nonce.
     bindE (canonicalizeJson nfc value) (\<lambda>_.
     Inr \<lparr>et_ticketId = ticketId, et_requestId = requestId, et_contractHash = contractHash,
          et_contractRevision = contractRevision, et_subject = subject, et_audience = audience,
          et_actionHash = actionHash, et_argumentsHash = argumentsHash,
          et_resolvedObjectId = resolvedObjectId, et_stateCommitmentHash = stateCommitmentHash,
          et_adapterId = adapterId, et_adapterDigest = adapterDigest, et_policyDigest = policyDigest,
          et_registryDigest = registryDigest, et_runnerRegistryDigest = runnerRegistryDigest,
          et_effectRegistryDigest = effectRegistryDigest, et_effectClass = effectClass,
          et_revocationEpoch = revocationEpoch, et_budgetReservationId = budgetReservationId,
          et_nonce = nonce, et_issuedAt = issuedAt, et_expiresAt = expiresAt\<rparr>
     ))))))))))))))))))))))))))))"

definition ticketFields :: "execution_ticket \<Rightarrow> (string \<times> jsval) list" where
  "ticketFields t =
          [(''kind'', JStr (js EXECUTION_TICKET_KIND)),
           (''specVersion'', JStr (js INTENT_CONTRACT_SPEC_VERSION)),
           (''ticketId'', JStr (et_ticketId t)),
           (''requestId'', JStr (et_requestId t)),
           (''contractHash'', JStr (et_contractHash t)),
           (''contractRevision'', jint (et_contractRevision t)),
           (''subject'', subject_json (et_subject t)),
           (''audience'', audience_json (et_audience t)),
           (''actionHash'', JStr (et_actionHash t)),
           (''argumentsHash'', JStr (et_argumentsHash t)),
           (''resolvedObjectId'', JStr (et_resolvedObjectId t)),
           (''stateCommitmentHash'', JStr (et_stateCommitmentHash t)),
           (''adapterId'', JStr (et_adapterId t)),
           (''adapterDigest'', JStr (et_adapterDigest t)),
           (''policyDigest'', JStr (et_policyDigest t)),
           (''registryDigest'', JStr (et_registryDigest t)),
           (''runnerRegistryDigest'', JStr (et_runnerRegistryDigest t)),
           (''effectRegistryDigest'', JStr (et_effectRegistryDigest t)),
           (''effectClass'', JStr (spelling effectClasses (et_effectClass t))),
           (''revocationEpoch'', jint (et_revocationEpoch t)),
           (''budgetReservationId'', JStr (et_budgetReservationId t)),
           (''nonce'', JStr (et_nonce t)),
           (''issuedAt'', JStr (et_issuedAt t)),
           (''expiresAt'', JStr (et_expiresAt t))]"

definition ticket_json :: "execution_ticket \<Rightarrow> jsval" where
  "ticket_json t = jrec (ticketFields t)"

definition nonce_ok :: "jstr \<Rightarrow> bool" where
  "nonce_ok s \<longleftrightarrow> (\<exists>bs. s = encodeBase64Url bs \<and> 16 \<le> length bs \<and> length bs \<le> 96)"

definition wf_ticket :: "(jstr \<Rightarrow> jstr) \<Rightarrow> execution_ticket \<Rightarrow> bool" where
  "wf_ticket nfc t \<longleftrightarrow>
     UUID_PATTERN (et_ticketId t) \<and> ident nfc (et_requestId t) \<and> SHA256_PATTERN (et_contractHash t) \<and>
     safe_int (et_contractRevision t) \<and> 0 < et_contractRevision t \<and>
     wf_subject nfc (et_subject t) \<and> wf_audience nfc (et_audience t) \<and>
     SHA256_PATTERN (et_actionHash t) \<and> SHA256_PATTERN (et_argumentsHash t) \<and>
     ident nfc (et_resolvedObjectId t) \<and> SHA256_PATTERN (et_stateCommitmentHash t) \<and>
     ident nfc (et_adapterId t) \<and> SHA256_PATTERN (et_adapterDigest t) \<and>
     SHA256_PATTERN (et_policyDigest t) \<and> SHA256_PATTERN (et_registryDigest t) \<and>
     SHA256_PATTERN (et_runnerRegistryDigest t) \<and> SHA256_PATTERN (et_effectRegistryDigest t) \<and>
     counter (et_revocationEpoch t) \<and> ident nfc (et_budgetReservationId t) \<and> nonce_ok (et_nonce t) \<and>
     stamp nfc (et_issuedAt t) \<and> stamp nfc (et_expiresAt t) \<and>
     timestampMilliseconds (et_issuedAt t) < timestampMilliseconds (et_expiresAt t)"

section \<open>The validator accepts exactly the well-formed tickets\<close>

lemma nonce_check:
  "requireCanonicalBase64Url v l MIN_TICKET_NONCE_BYTES MAX_TICKET_NONCE_BYTES = Inr s \<longleftrightarrow>
     v = JStr s \<and> nonce_ok s"
  by (subst requireCanonicalBase64Url_Inr)
    (auto simp: MIN_TICKET_NONCE_BYTES_def MAX_TICKET_NONCE_BYTES_def nonce_ok_def
      encodedBase64UrlLength_def MAX_SAFE_INTEGER_def)

lemma ticket_shape:
  assumes "validateSafeCodingExecutionTicket nfc v = Inr t"
  shows "wf_ticket nfc t \<and> canonicalizable nfc v \<and> sortFields v = sortFields (ticket_json t)"
proof -
  from assms obtain fs where v: "v = jobj fs" "exact_keys fs ticketKeys" "canonicalizable nfc v"
    and sub: "validateSubject nfc (getProp fs ''subject'') = Inr (et_subject t)"
      "validateAudience nfc (getProp fs ''audience'') = Inr (et_audience t)"
    and epoch: "requireNonNegativeInteger (getProp fs ''revocationEpoch'') ''Revocation epoch'' =
      Inr (et_revocationEpoch t)"
    and leaf: "getProp fs ''kind'' = JStr (js EXECUTION_TICKET_KIND)"
      "getProp fs ''specVersion'' = JStr (js INTENT_CONTRACT_SPEC_VERSION)"
      "getProp fs ''ticketId'' = JStr (et_ticketId t)" "getProp fs ''requestId'' = JStr (et_requestId t)"
      "getProp fs ''contractHash'' = JStr (et_contractHash t)"
      "getProp fs ''contractRevision'' = jint (et_contractRevision t)"
      "getProp fs ''actionHash'' = JStr (et_actionHash t)"
      "getProp fs ''argumentsHash'' = JStr (et_argumentsHash t)"
      "getProp fs ''resolvedObjectId'' = JStr (et_resolvedObjectId t)"
      "getProp fs ''stateCommitmentHash'' = JStr (et_stateCommitmentHash t)"
      "getProp fs ''adapterId'' = JStr (et_adapterId t)" "getProp fs ''adapterDigest'' = JStr (et_adapterDigest t)"
      "getProp fs ''policyDigest'' = JStr (et_policyDigest t)"
      "getProp fs ''registryDigest'' = JStr (et_registryDigest t)"
      "getProp fs ''runnerRegistryDigest'' = JStr (et_runnerRegistryDigest t)"
      "getProp fs ''effectRegistryDigest'' = JStr (et_effectRegistryDigest t)"
      "getProp fs ''effectClass'' = JStr (spelling effectClasses (et_effectClass t))"
      "getProp fs ''budgetReservationId'' = JStr (et_budgetReservationId t)"
      "getProp fs ''nonce'' = JStr (et_nonce t)" "getProp fs ''issuedAt'' = JStr (et_issuedAt t)"
      "getProp fs ''expiresAt'' = JStr (et_expiresAt t)"
    and wf: "UUID_PATTERN (et_ticketId t)" "ident nfc (et_requestId t)" "SHA256_PATTERN (et_contractHash t)"
      "safe_int (et_contractRevision t)" "0 < et_contractRevision t"
      "SHA256_PATTERN (et_actionHash t)" "SHA256_PATTERN (et_argumentsHash t)"
      "ident nfc (et_resolvedObjectId t)" "SHA256_PATTERN (et_stateCommitmentHash t)"
      "ident nfc (et_adapterId t)" "SHA256_PATTERN (et_adapterDigest t)" "SHA256_PATTERN (et_policyDigest t)"
      "SHA256_PATTERN (et_registryDigest t)" "SHA256_PATTERN (et_runnerRegistryDigest t)"
      "SHA256_PATTERN (et_effectRegistryDigest t)" "ident nfc (et_budgetReservationId t)"
      "nonce_ok (et_nonce t)" "stamp nfc (et_issuedAt t)" "stamp nfc (et_expiresAt t)"
      "timestampMilliseconds (et_issuedAt t) < timestampMilliseconds (et_expiresAt t)"
    unfolding validateSafeCodingExecutionTicket_def
    by (clarsimp simp: open_record leaf_simps enum_tables nonce_check not_le)
  have ok: "json_ok nfc (jobj fs)"
    using v by (simp add: canonicalizable_def)
  have parts: "json_ok nfc (getProp fs ''audience'')" "getProp fs ''revocationEpoch'' = jint (et_revocationEpoch t)"
    "counter (et_revocationEpoch t)"
    using record_fields_ok [OF v(2) _ _ ok] epoch
    by (simp_all add: ticketKeys_def record_int [OF v(2) ok] counter_def)
  note records = subject_sound [OF sub(1)] audience_sound [OF sub(2) parts(1)]
  have "sortFields v = sortFields (ticket_json t)"
    unfolding v(1) ticket_json_def
    by (rule record_shape_all)
      (use v(2) in \<open>simp_all add: ticketKeys_def ticketFields_def leaf parts records\<close>)
  then show ?thesis
    using wf parts(3) records v(3) unfolding wf_ticket_def by blast
qed

lemma ticket_complete:
  assumes "wf_ticket nfc t" "sortFields v = sortFields (ticket_json t)" "canonicalizable nfc v"
  shows "validateSafeCodingExecutionTicket nfc v = Inr t"
proof -
  note wf = assms(1) [unfolded wf_ticket_def]
  obtain fs where rec: "\<And>l. requireRecord v l = Inr fs" "\<And>l. requireExactKeys fs (map fst (ticketFields t)) l = Inr ()"
    and vals: "list_all (\<lambda>(k, w). sortFields (getProp fs k) = sortFields w) (ticketFields t)"
    by (rule record_invert [OF assms(2) [unfolded ticket_json_def]]) (auto simp: ticketFields_def)
  have keys: "requireExactKeys fs ticketKeys l = Inr ()" for l
    using rec(2) by (simp add: ticketKeys_def ticketFields_def)
  have checks: "canonicalizeJson nfc v = Inr (render v)"
    "requireEffectClass (JStr (spelling effectClasses (et_effectClass t))) l = Inr (et_effectClass t)" for l
    using assms(3) by (simp_all add: canonicalizeJson_Inr enum_tables)
  have parts: "validateSubject nfc (getProp fs ''subject'') = Inr (et_subject t)"
    "validateAudience nfc (getProp fs ''audience'') = Inr (et_audience t)"
    using wf vals by (simp_all add: ticketFields_def subject_complete audience_complete)
  show ?thesis
    using wf vals unfolding validateSafeCodingExecutionTicket_def ticketFields_def
    by (simp add: rec(1) keys checks parts leaf_simps nonce_check result_simps not_le)
qed

section \<open>Properties\<close>

text \<open>\<open>validateSafeCodingExecutionTicket\<close> accepts a value and returns a ticket exactly when the ticket
  is well formed (identifiers, digests, a positive contract revision, a canonical nonce of 16 to 96
  bytes, an expiry after the issue time) and the value is its JSON form, up to the order of keys.\<close>

theorem validate_ticket_exact:
  "validateSafeCodingExecutionTicket nfc v = Inr t \<longleftrightarrow>
     wf_ticket nfc t \<and> canonicalizable nfc v \<and> sortFields v = sortFields (ticket_json t)"
  using ticket_shape ticket_complete by blast

end
