(* ===== verification/Effect_Attestation.thy ===== *)
theory Effect_Attestation
  imports Intent_Contract
begin

text \<open>
  Effect Attestations (\<open>validateSafeCodingEffectAttestation\<close> and \<open>validateAttestationSemantics\<close> of
  \<open>intent-contract.ts\<close>): what an executor may claim about the outcome of a ticket, and which
  combinations of status, evidence level, state hashes and budget charges are consistent.
\<close>

section \<open>Data\<close>

datatype attestation_status =
    DeniedStatus | NoopStatus | CommittedStatus | FailedNoEffectStatus | RolledBackStatus
  | UncertainStatus | CommittedResultUnavailableStatus

datatype evidence_level =
    AttemptOnly | AdapterObserved | LocalStateReconciled | RemoteProviderAttested
  | IndependentlyReconciled

record budget_charges =
  bc_uniqueModifiedFiles :: int
  bc_mutationBytes :: int
  bc_testRuns :: int

record effect_attestation =
  ea_attestationId :: jstr
  ea_requestId :: jstr
  ea_ticketId :: jstr
  ea_contractHash :: jstr
  ea_contractRevision :: int
  ea_actionHash :: jstr
  ea_delegationLineageHash :: jstr
  ea_adapterId :: jstr
  ea_adapterDigest :: jstr
  ea_runnerId :: jstr
  ea_runnerDigest :: jstr
  ea_executorId :: jstr
  ea_observerId :: jstr
  ea_effectClass :: effect_class
  ea_registryDigest :: jstr
  ea_revocationEpoch :: int
  ea_preStateHash :: "jstr option"
  ea_postStateHash :: "jstr option"
  ea_idempotencyKey :: "jstr option"
  ea_resultHash :: "jstr option"
  ea_budgetCharges :: budget_charges
  ea_startedAt :: jstr
  ea_finishedAt :: jstr
  ea_status :: attestation_status
  ea_evidenceLevel :: evidence_level
  ea_reconciliationRef :: "jstr option"

definition EFFECT_ATTESTATION_KIND :: string where
  "EFFECT_ATTESTATION_KIND = ''clodex.effect-attestation''"

definition attestationStatuses :: "(string \<times> attestation_status) list" where
  "attestationStatuses =
     [(''denied'', DeniedStatus), (''noop'', NoopStatus), (''committed'', CommittedStatus),
      (''failed_no_effect'', FailedNoEffectStatus), (''rolled_back'', RolledBackStatus),
      (''uncertain'', UncertainStatus),
      (''committed_result_unavailable'', CommittedResultUnavailableStatus)]"

definition evidenceLevels :: "(string \<times> evidence_level) list" where
  "evidenceLevels =
     [(''attempt_only'', AttemptOnly), (''adapter_observed'', AdapterObserved),
      (''local_state_reconciled'', LocalStateReconciled),
      (''remote_provider_attested'', RemoteProviderAttested),
      (''independently_reconciled'', IndependentlyReconciled)]"

section \<open>Semantics\<close>

definition hasAnyBudgetCharge :: "budget_charges \<Rightarrow> bool" where
  "hasAnyBudgetCharge c =
     (bc_uniqueModifiedFiles c \<noteq> 0 \<or> bc_mutationBytes c \<noteq> 0 \<or> bc_testRuns c \<noteq> 0)"

definition evidenceLevelCheck :: "effect_attestation \<Rightarrow> contract_error + unit" where
  "evidenceLevelCheck a =
     (let hasPreState = ea_preStateHash a \<noteq> None; hasPostState = ea_postStateHash a \<noteq> None;
          hasResult = ea_resultHash a \<noteq> None
      in case ea_evidenceLevel a of
           AttemptOnly \<Rightarrow> Inr ()
         | AdapterObserved \<Rightarrow>
             guardE (\<not> (\<not> hasPreState \<and> \<not> hasPostState \<and> \<not> hasResult))
               (icError ''adapter_observed evidence requires observed state or result evidence'')
         | LocalStateReconciled \<Rightarrow>
             guardE (\<not> (\<not> hasPreState \<or> \<not> hasPostState))
               (icError ''local_state_reconciled evidence requires pre-state and post-state'')
         | RemoteProviderAttested \<Rightarrow>
             guardE (\<not> (\<not> hasPostState \<and> \<not> hasResult))
               (icError ''remote_provider_attested evidence requires post-state or result evidence'')
         | IndependentlyReconciled \<Rightarrow>
             guardE (\<not> (\<not> hasPreState \<or> \<not> hasPostState \<or> ea_reconciliationRef a = None))
               (icError ''independently_reconciled evidence requires pre-state, post-state, and reconciliationRef''))"

definition validateAttestationSemantics :: "effect_attestation \<Rightarrow> contract_error + unit" where
  "validateAttestationSemantics a =
     (let hasPreState = ea_preStateHash a \<noteq> None; hasPostState = ea_postStateHash a \<noteq> None;
          hasResult = ea_resultHash a \<noteq> None; status = ea_status a;
          statusError = (\<lambda>message. IntentContractValidationError (spelling attestationStatuses status @ js message))
      in
     bindE (guardE (\<not> (status \<in> {DeniedStatus, FailedNoEffectStatus} \<and> (hasPostState \<or> hasResult)))
       (statusError '' attestations cannot claim post-state or result evidence'')) (\<lambda>_.
     bindE (guardE (\<not> (status = DeniedStatus \<and> hasAnyBudgetCharge (ea_budgetCharges a)))
       (icError ''denied attestations cannot claim budget charges'')) (\<lambda>_.
     bindE (guardE (\<not> (status = FailedNoEffectStatus \<and>
         (bc_uniqueModifiedFiles (ea_budgetCharges a) \<noteq> 0 \<or> bc_mutationBytes (ea_budgetCharges a) \<noteq> 0)))
       (icError ''failed_no_effect attestations cannot claim mutation charges'')) (\<lambda>_.
     bindE (guardE (\<not> (status = CommittedResultUnavailableStatus \<and> (hasResult \<or> \<not> hasPostState)))
       (icError ''committed_result_unavailable requires post-state and forbids a result hash'')) (\<lambda>_.
     bindE (guardE (\<not> (ea_evidenceLevel a = AttemptOnly \<and>
         (hasPostState \<or> hasResult \<or> ea_reconciliationRef a \<noteq> None)))
       (icError ''attempt_only evidence cannot claim post-state, result, or reconciliation'')) (\<lambda>_.
     bindE (guardE (\<not> (status \<in> {NoopStatus, CommittedStatus, RolledBackStatus, CommittedResultUnavailableStatus} \<and>
         ea_evidenceLevel a = AttemptOnly))
       (statusError '' requires observed evidence'')) (\<lambda>_.
     bindE (guardE (\<not> (status = CommittedStatus \<and> \<not> hasPostState \<and> \<not> hasResult))
       (icError ''committed attestations require post-state or result evidence'')) (\<lambda>_.
     bindE (guardE (\<not> (status = NoopStatus \<and>
         (\<not> hasPreState \<or> \<not> hasPostState \<or> ea_preStateHash a \<noteq> ea_postStateHash a \<or>
          hasAnyBudgetCharge (ea_budgetCharges a))))
       (icError ''noop attestations require equal pre/post state and zero budget charges'')) (\<lambda>_.
     bindE (guardE (\<not> (status = RolledBackStatus \<and>
         (\<not> hasPreState \<or> \<not> hasPostState \<or> ea_preStateHash a \<noteq> ea_postStateHash a)))
       (icError ''rolled_back attestations require equal reconciled pre/post state'')) (\<lambda>_.
     bindE (evidenceLevelCheck a) (\<lambda>_.
     guardE (\<not> (ea_evidenceLevel a \<noteq> IndependentlyReconciled \<and> ea_reconciliationRef a \<noteq> None))
       (icError ''Only independently_reconciled evidence may carry reconciliationRef''))))))))))))"

section \<open>Validation\<close>

definition validateBudgetCharges :: "jsval \<Rightarrow> contract_error + budget_charges" where
  "validateBudgetCharges value =
     bindE (requireRecord value ''Attestation budget charges'') (\<lambda>record.
     bindE (requireExactKeys record [''uniqueModifiedFiles'', ''mutationBytes'', ''testRuns'']
       ''Attestation budget charges'') (\<lambda>_.
     bindE (requireNonNegativeInteger (getProp record ''uniqueModifiedFiles'')
       ''Charged unique modified files'') (\<lambda>uniqueModifiedFiles.
     bindE (requireNonNegativeInteger (getProp record ''mutationBytes'') ''Charged mutation bytes'') (\<lambda>mutationBytes.
     bindE (requireNonNegativeInteger (getProp record ''testRuns'') ''Charged test runs'') (\<lambda>testRuns.
     Inr \<lparr>bc_uniqueModifiedFiles = uniqueModifiedFiles, bc_mutationBytes = mutationBytes,
          bc_testRuns = testRuns\<rparr>)))))"

definition attestationKeys :: "string list" where
  "attestationKeys =
     [''kind'', ''specVersion'', ''attestationId'', ''requestId'', ''ticketId'', ''contractHash'',
      ''contractRevision'', ''actionHash'', ''delegationLineageHash'', ''adapterId'', ''adapterDigest'',
      ''runnerId'', ''runnerDigest'', ''executorId'', ''observerId'', ''effectClass'', ''registryDigest'',
      ''revocationEpoch'', ''preStateHash'', ''postStateHash'', ''idempotencyKey'', ''resultHash'',
      ''budgetCharges'', ''startedAt'', ''finishedAt'', ''status'', ''evidenceLevel'', ''reconciliationRef'']"

definition validateSafeCodingEffectAttestation ::
  "(jstr \<Rightarrow> jstr) \<Rightarrow> jsval \<Rightarrow> contract_error + effect_attestation" where
  "validateSafeCodingEffectAttestation nfc value =
     bindE (requireRecord value ''Effect Attestation'') (\<lambda>record.
     bindE (requireExactKeys record attestationKeys ''Effect Attestation'') (\<lambda>_.
     bindE (requireLiteral (getProp record ''kind'') (JStr (js EFFECT_ATTESTATION_KIND))
       ''Effect Attestation kind'') (\<lambda>_.
     bindE (requireLiteral (getProp record ''specVersion'') (JStr (js INTENT_CONTRACT_SPEC_VERSION))
       ''Effect Attestation specVersion'') (\<lambda>_.
     bindE (requireTimestamp nfc (getProp record ''startedAt'') ''Attestation startedAt'') (\<lambda>startedAt.
     bindE (requireTimestamp nfc (getProp record ''finishedAt'') ''Attestation finishedAt'') (\<lambda>finishedAt.
     bindE (guardE (\<not> timestampMilliseconds finishedAt < timestampMilliseconds startedAt)
       (icError ''Effect Attestation cannot finish before it starts'')) (\<lambda>_.
     bindE (requireUuid (getProp record ''attestationId'') ''Attestation ID'') (\<lambda>attestationId.
     bindE (requireIdentifier nfc (getProp record ''requestId'') ''Attestation request ID'') (\<lambda>requestId.
     bindE (requireUuid (getProp record ''ticketId'') ''Attestation ticket ID'') (\<lambda>ticketId.
     bindE (requireDigest (getProp record ''contractHash'') ''Attestation contract hash'') (\<lambda>contractHash.
     bindE (requirePositiveInteger (getProp record ''contractRevision'') ''Attestation contract revision'') (\<lambda>contractRevision.
     bindE (requireDigest (getProp record ''actionHash'') ''Attestation action hash'') (\<lambda>actionHash.
     bindE (requireDigest (getProp record ''delegationLineageHash'') ''Delegation lineage hash'') (\<lambda>delegationLineageHash.
     bindE (requireIdentifier nfc (getProp record ''adapterId'') ''Attestation adapter ID'') (\<lambda>adapterId.
     bindE (requireDigest (getProp record ''adapterDigest'') ''Attestation adapter digest'') (\<lambda>adapterDigest.
     bindE (requireIdentifier nfc (getProp record ''runnerId'') ''Attestation runner ID'') (\<lambda>runnerId.
     bindE (requireDigest (getProp record ''runnerDigest'') ''Attestation runner digest'') (\<lambda>runnerDigest.
     bindE (requireIdentifier nfc (getProp record ''executorId'') ''Attestation executor ID'') (\<lambda>executorId.
     bindE (requireIdentifier nfc (getProp record ''observerId'') ''Attestation observer ID'') (\<lambda>observerId.
     bindE (requireEffectClass (getProp record ''effectClass'') ''Attestation effect class'') (\<lambda>effectClass.
     bindE (requireDigest (getProp record ''registryDigest'') ''Attestation registry digest'') (\<lambda>registryDigest.
     bindE (requireNonNegativeInteger (getProp record ''revocationEpoch'') ''Attestation revocation epoch'') (\<lambda>revocationEpoch.
     bindE (requireNullableDigest (getProp record ''preStateHash'') ''Attestation pre-state hash'') (\<lambda>preStateHash.
     bindE (requireNullableDigest (getProp record ''postStateHash'') ''Attestation post-state hash'') (\<lambda>postStateHash.
     bindE (requireNullableIdentifier nfc (getProp record ''idempotencyKey'') ''Attestation idempotency key'') (\<lambda>idempotencyKey.
     bindE (requireNullableDigest (getProp record ''resultHash'') ''Attestation result hash'') (\<lambda>resultHash.
     bindE (validateBudgetCharges (getProp record ''budgetCharges'')) (\<lambda>budgetCharges.
     bindE (requireEnum (getProp record ''status'') attestationStatuses ''Attestation status'') (\<lambda>status.
     bindE (requireEnum (getProp record ''evidenceLevel'') evidenceLevels ''Attestation evidence level'') (\<lambda>evidenceLevel.
     bindE (requireNullableIdentifier nfc (getProp record ''reconciliationRef'')
       ''Attestation reconciliation reference'') (\<lambda>reconciliationRef.
     let attestation =
       \<lparr>ea_attestationId = attestationId, ea_requestId = requestId, ea_ticketId = ticketId,
        ea_contractHash = contractHash, ea_contractRevision = contractRevision,
        ea_actionHash = actionHash, ea_delegationLineageHash = delegationLineageHash,
        ea_adapterId = adapterId, ea_adapterDigest = adapterDigest, ea_runnerId = runnerId,
        ea_runnerDigest = runnerDigest, ea_executorId = executorId, ea_observerId = observerId,
        ea_effectClass = effectClass, ea_registryDigest = registryDigest,
        ea_revocationEpoch = revocationEpoch, ea_preStateHash = preStateHash,
        ea_postStateHash = postStateHash, ea_idempotencyKey = idempotencyKey,
        ea_resultHash = resultHash, ea_budgetCharges = budgetCharges, ea_startedAt = startedAt,
        ea_finishedAt = finishedAt, ea_status = status, ea_evidenceLevel = evidenceLevel,
        ea_reconciliationRef = reconciliationRef\<rparr>
     in bindE (validateAttestationSemantics attestation) (\<lambda>_.
        bindE (canonicalizeJson nfc value) (\<lambda>_. Inr attestation)))))))))))))))))))))))))))))))))"

section \<open>The JSON form and well-formedness\<close>

definition charges_json :: "budget_charges \<Rightarrow> jsval" where
  "charges_json c =
     jrec [(''uniqueModifiedFiles'', jint (bc_uniqueModifiedFiles c)),
           (''mutationBytes'', jint (bc_mutationBytes c)), (''testRuns'', jint (bc_testRuns c))]"

definition wf_charges :: "budget_charges \<Rightarrow> bool" where
  "wf_charges c \<longleftrightarrow>
     counter (bc_uniqueModifiedFiles c) \<and> counter (bc_mutationBytes c) \<and> counter (bc_testRuns c)"

definition attestationFields :: "effect_attestation \<Rightarrow> (string \<times> jsval) list" where
  "attestationFields a =
     [(''kind'', JStr (js EFFECT_ATTESTATION_KIND)), (''specVersion'', JStr (js INTENT_CONTRACT_SPEC_VERSION)),
      (''attestationId'', JStr (ea_attestationId a)), (''requestId'', JStr (ea_requestId a)),
      (''ticketId'', JStr (ea_ticketId a)), (''contractHash'', JStr (ea_contractHash a)),
      (''contractRevision'', jint (ea_contractRevision a)), (''actionHash'', JStr (ea_actionHash a)),
      (''delegationLineageHash'', JStr (ea_delegationLineageHash a)), (''adapterId'', JStr (ea_adapterId a)),
      (''adapterDigest'', JStr (ea_adapterDigest a)), (''runnerId'', JStr (ea_runnerId a)),
      (''runnerDigest'', JStr (ea_runnerDigest a)), (''executorId'', JStr (ea_executorId a)),
      (''observerId'', JStr (ea_observerId a)),
      (''effectClass'', JStr (spelling effectClasses (ea_effectClass a))),
      (''registryDigest'', JStr (ea_registryDigest a)), (''revocationEpoch'', jint (ea_revocationEpoch a)),
      (''preStateHash'', nullable (ea_preStateHash a)), (''postStateHash'', nullable (ea_postStateHash a)),
      (''idempotencyKey'', nullable (ea_idempotencyKey a)), (''resultHash'', nullable (ea_resultHash a)),
      (''budgetCharges'', charges_json (ea_budgetCharges a)), (''startedAt'', JStr (ea_startedAt a)),
      (''finishedAt'', JStr (ea_finishedAt a)),
      (''status'', JStr (spelling attestationStatuses (ea_status a))),
      (''evidenceLevel'', JStr (spelling evidenceLevels (ea_evidenceLevel a))),
      (''reconciliationRef'', nullable (ea_reconciliationRef a))]"

definition attestation_json :: "effect_attestation \<Rightarrow> jsval" where
  "attestation_json a = jrec (attestationFields a)"

definition wf_attestation :: "(jstr \<Rightarrow> jstr) \<Rightarrow> effect_attestation \<Rightarrow> bool" where
  "wf_attestation nfc a \<longleftrightarrow>
     UUID_PATTERN (ea_attestationId a) \<and> ident nfc (ea_requestId a) \<and> UUID_PATTERN (ea_ticketId a) \<and>
     SHA256_PATTERN (ea_contractHash a) \<and> safe_int (ea_contractRevision a) \<and> 0 < ea_contractRevision a \<and>
     SHA256_PATTERN (ea_actionHash a) \<and> SHA256_PATTERN (ea_delegationLineageHash a) \<and>
     ident nfc (ea_adapterId a) \<and> SHA256_PATTERN (ea_adapterDigest a) \<and> ident nfc (ea_runnerId a) \<and>
     SHA256_PATTERN (ea_runnerDigest a) \<and> ident nfc (ea_executorId a) \<and> ident nfc (ea_observerId a) \<and>
     SHA256_PATTERN (ea_registryDigest a) \<and> counter (ea_revocationEpoch a) \<and>
     pred_option SHA256_PATTERN (ea_preStateHash a) \<and> pred_option SHA256_PATTERN (ea_postStateHash a) \<and>
     pred_option (ident nfc) (ea_idempotencyKey a) \<and> pred_option SHA256_PATTERN (ea_resultHash a) \<and>
     wf_charges (ea_budgetCharges a) \<and> stamp nfc (ea_startedAt a) \<and> stamp nfc (ea_finishedAt a) \<and>
     timestampMilliseconds (ea_startedAt a) \<le> timestampMilliseconds (ea_finishedAt a) \<and>
     pred_option (ident nfc) (ea_reconciliationRef a) \<and> validateAttestationSemantics a = Inr ()"

lemma attestation_tables:
  "requireEnum v attestationStatuses label = Inr s \<longleftrightarrow> v = JStr (spelling attestationStatuses s)"
  "requireEnum v evidenceLevels label = Inr e \<longleftrightarrow> v = JStr (spelling evidenceLevels e)"
  by (rule requireEnum_spelling; cases s; cases e; simp add: attestationStatuses_def evidenceLevels_def)+

lemma charges_sound:
  assumes "validateBudgetCharges v = Inr c" "json_ok nfc v"
  shows "wf_charges c \<and> sortFields v = sortFields (charges_json c)"
  using assms unfolding validateBudgetCharges_def charges_json_def wf_charges_def counter_def
  by (auto simp: open_record leaf_simps record_int intro!: record_shape)

lemma charges_complete:
  assumes "wf_charges c" "sortFields v = sortFields (charges_json c)"
  shows "validateBudgetCharges v = Inr c"
  using assms unfolding charges_json_def wf_charges_def
  by (elim record_invert) (simp_all add: validateBudgetCharges_def result_simps leaf_simps)

lemma attestation_shape:
  assumes "validateSafeCodingEffectAttestation nfc v = Inr a"
  shows "wf_attestation nfc a \<and> canonicalizable nfc v \<and> sortFields v = sortFields (attestation_json a)"
proof -
  from assms obtain fs where v: "v = jobj fs" "exact_keys fs attestationKeys" "canonicalizable nfc v"
    and sub: "validateBudgetCharges (getProp fs ''budgetCharges'') = Inr (ea_budgetCharges a)"
      "requireNonNegativeInteger (getProp fs ''revocationEpoch'') ''Attestation revocation epoch'' =
        Inr (ea_revocationEpoch a)"
    and sem: "validateAttestationSemantics a = Inr ()"
      "timestampMilliseconds (ea_startedAt a) \<le> timestampMilliseconds (ea_finishedAt a)"
    and leaf: "getProp fs ''kind'' = JStr (js EFFECT_ATTESTATION_KIND)"
      "getProp fs ''specVersion'' = JStr (js INTENT_CONTRACT_SPEC_VERSION)"
      "getProp fs ''contractRevision'' = jint (ea_contractRevision a)" "safe_int (ea_contractRevision a)"
      "0 < ea_contractRevision a"
      "getProp fs ''effectClass'' = JStr (spelling effectClasses (ea_effectClass a))"
      "getProp fs ''status'' = JStr (spelling attestationStatuses (ea_status a))"
      "getProp fs ''evidenceLevel'' = JStr (spelling evidenceLevels (ea_evidenceLevel a))"
      "getProp fs ''attestationId'' = JStr (ea_attestationId a)" "UUID_PATTERN (ea_attestationId a)"
      "getProp fs ''requestId'' = JStr (ea_requestId a)" "ident nfc (ea_requestId a)"
      "getProp fs ''ticketId'' = JStr (ea_ticketId a)" "UUID_PATTERN (ea_ticketId a)"
      "getProp fs ''contractHash'' = JStr (ea_contractHash a)" "SHA256_PATTERN (ea_contractHash a)"
      "getProp fs ''actionHash'' = JStr (ea_actionHash a)" "SHA256_PATTERN (ea_actionHash a)"
      "getProp fs ''delegationLineageHash'' = JStr (ea_delegationLineageHash a)" "SHA256_PATTERN (ea_delegationLineageHash a)"
      "getProp fs ''adapterId'' = JStr (ea_adapterId a)" "ident nfc (ea_adapterId a)"
      "getProp fs ''adapterDigest'' = JStr (ea_adapterDigest a)" "SHA256_PATTERN (ea_adapterDigest a)"
      "getProp fs ''runnerId'' = JStr (ea_runnerId a)" "ident nfc (ea_runnerId a)"
      "getProp fs ''runnerDigest'' = JStr (ea_runnerDigest a)" "SHA256_PATTERN (ea_runnerDigest a)"
      "getProp fs ''executorId'' = JStr (ea_executorId a)" "ident nfc (ea_executorId a)"
      "getProp fs ''observerId'' = JStr (ea_observerId a)" "ident nfc (ea_observerId a)"
      "getProp fs ''registryDigest'' = JStr (ea_registryDigest a)" "SHA256_PATTERN (ea_registryDigest a)"
      "getProp fs ''startedAt'' = JStr (ea_startedAt a)" "stamp nfc (ea_startedAt a)"
      "getProp fs ''finishedAt'' = JStr (ea_finishedAt a)" "stamp nfc (ea_finishedAt a)"
      "getProp fs ''preStateHash'' = nullable (ea_preStateHash a)" "pred_option SHA256_PATTERN (ea_preStateHash a)"
      "getProp fs ''postStateHash'' = nullable (ea_postStateHash a)" "pred_option SHA256_PATTERN (ea_postStateHash a)"
      "getProp fs ''idempotencyKey'' = nullable (ea_idempotencyKey a)" "pred_option (ident nfc) (ea_idempotencyKey a)"
      "getProp fs ''resultHash'' = nullable (ea_resultHash a)" "pred_option SHA256_PATTERN (ea_resultHash a)"
      "getProp fs ''reconciliationRef'' = nullable (ea_reconciliationRef a)" "pred_option (ident nfc) (ea_reconciliationRef a)"
    unfolding validateSafeCodingEffectAttestation_def
    by (clarsimp simp: Let_def open_record leaf_simps enum_tables attestation_tables not_less)
  have ok: "json_ok nfc (jobj fs)"
    using v by (simp add: canonicalizable_def)
  have parts: "json_ok nfc (getProp fs ''budgetCharges'')" "getProp fs ''revocationEpoch'' = jint (ea_revocationEpoch a)"
    "counter (ea_revocationEpoch a)"
    using record_fields_ok [OF v(2) _ _ ok] sub(2)
    by (simp_all add: attestationKeys_def record_int [OF v(2) ok] counter_def)
  note charges = charges_sound [OF sub(1) parts(1)]
  have "sortFields v = sortFields (attestation_json a)"
    unfolding v(1) attestation_json_def
    by (rule record_shape_all)
      (use v(2) in \<open>simp_all add: attestationKeys_def attestationFields_def leaf parts charges\<close>)
  moreover have "wf_attestation nfc a"
    unfolding wf_attestation_def by (intro conjI; rule leaf sem parts charges [THEN conjunct1])
  ultimately show ?thesis
    using v(3) by blast
qed

lemma charges_not_accessor [simp]: "charges_json c \<noteq> JAccessor" "JAccessor \<noteq> charges_json c"
  by (simp_all add: charges_json_def)

lemma attestation_complete:
  assumes "wf_attestation nfc a" "sortFields v = sortFields (attestation_json a)" "canonicalizable nfc v"
  shows "validateSafeCodingEffectAttestation nfc v = Inr a"
proof -
  note wf = assms(1) [unfolded wf_attestation_def]
  obtain fs where rec: "\<And>l. requireRecord v l = Inr fs"
      "\<And>l. requireExactKeys fs (map fst (attestationFields a)) l = Inr ()"
    and vals: "list_all (\<lambda>(k, w). sortFields (getProp fs k) = sortFields w) (attestationFields a)"
    by (rule record_invert [OF assms(2) [unfolded attestation_json_def]]) (auto simp: attestationFields_def)
  have keys: "requireExactKeys fs attestationKeys l = Inr ()" for l
    using rec(2) by (simp add: attestationKeys_def attestationFields_def)
  have checks: "canonicalizeJson nfc v = Inr (render v)"
    "requireEffectClass (JStr (spelling effectClasses (ea_effectClass a))) l = Inr (ea_effectClass a)"
    "requireEnum (JStr (spelling attestationStatuses (ea_status a))) attestationStatuses l = Inr (ea_status a)"
    "requireEnum (JStr (spelling evidenceLevels (ea_evidenceLevel a))) evidenceLevels l = Inr (ea_evidenceLevel a)"
    "requireNullableDigest (nullable (ea_preStateHash a)) l = Inr (ea_preStateHash a)"
    "requireNullableDigest (nullable (ea_postStateHash a)) l = Inr (ea_postStateHash a)"
    "requireNullableDigest (nullable (ea_resultHash a)) l = Inr (ea_resultHash a)"
    "requireNullableIdentifier nfc (nullable (ea_idempotencyKey a)) l = Inr (ea_idempotencyKey a)"
    "requireNullableIdentifier nfc (nullable (ea_reconciliationRef a)) l = Inr (ea_reconciliationRef a)" for l
    using assms(3) wf by (simp_all add: canonicalizeJson_Inr enum_tables attestation_tables leaf_simps)
  have parts: "validateBudgetCharges (getProp fs ''budgetCharges'') = Inr (ea_budgetCharges a)"
    using wf vals by (simp add: attestationFields_def charges_complete)
  have sem: "validateAttestationSemantics r = Inr ()" if "r = a" for r
    using wf that by simp
  show ?thesis
    using wf vals unfolding validateSafeCodingEffectAttestation_def attestationFields_def Let_def
    by (simp add: rec(1) keys checks parts sem leaf_simps result_simps not_less)
qed

section \<open>Which claims are consistent\<close>

lemma evidenceLevelCheck_Inr:
  "evidenceLevelCheck a = Inr () \<longleftrightarrow>
     (case ea_evidenceLevel a of
        AttemptOnly \<Rightarrow> True
      | AdapterObserved \<Rightarrow> ea_preStateHash a \<noteq> None \<or> ea_postStateHash a \<noteq> None \<or> ea_resultHash a \<noteq> None
      | LocalStateReconciled \<Rightarrow> ea_preStateHash a \<noteq> None \<and> ea_postStateHash a \<noteq> None
      | RemoteProviderAttested \<Rightarrow> ea_postStateHash a \<noteq> None \<or> ea_resultHash a \<noteq> None
      | IndependentlyReconciled \<Rightarrow> ea_preStateHash a \<noteq> None \<and> ea_postStateHash a \<noteq> None \<and>
          ea_reconciliationRef a \<noteq> None)"
  unfolding evidenceLevelCheck_def Let_def
  by (cases "ea_evidenceLevel a") (simp_all add: guardE_eq_Inr)

lemma semantics_Inr:
  "validateAttestationSemantics a = Inr () \<longleftrightarrow>
     (ea_status a \<in> {DeniedStatus, FailedNoEffectStatus} \<longrightarrow> ea_postStateHash a = None \<and> ea_resultHash a = None) \<and>
     (ea_status a = DeniedStatus \<longrightarrow> \<not> hasAnyBudgetCharge (ea_budgetCharges a)) \<and>
     (ea_status a = FailedNoEffectStatus \<longrightarrow>
        bc_uniqueModifiedFiles (ea_budgetCharges a) = 0 \<and> bc_mutationBytes (ea_budgetCharges a) = 0) \<and>
     (ea_status a = CommittedResultUnavailableStatus \<longrightarrow> ea_postStateHash a \<noteq> None \<and> ea_resultHash a = None) \<and>
     (ea_evidenceLevel a = AttemptOnly \<longrightarrow>
        ea_postStateHash a = None \<and> ea_resultHash a = None \<and> ea_reconciliationRef a = None) \<and>
     (ea_status a \<in> {NoopStatus, CommittedStatus, RolledBackStatus, CommittedResultUnavailableStatus} \<longrightarrow>
        ea_evidenceLevel a \<noteq> AttemptOnly) \<and>
     (ea_status a = CommittedStatus \<longrightarrow> ea_postStateHash a \<noteq> None \<or> ea_resultHash a \<noteq> None) \<and>
     (ea_status a = NoopStatus \<longrightarrow> ea_preStateHash a \<noteq> None \<and> ea_postStateHash a = ea_preStateHash a \<and>
        \<not> hasAnyBudgetCharge (ea_budgetCharges a)) \<and>
     (ea_status a = RolledBackStatus \<longrightarrow> ea_preStateHash a \<noteq> None \<and> ea_postStateHash a = ea_preStateHash a) \<and>
     evidenceLevelCheck a = Inr () \<and>
     (ea_reconciliationRef a \<noteq> None \<longrightarrow> ea_evidenceLevel a = IndependentlyReconciled)"
  unfolding validateAttestationSemantics_def Let_def
  by (cases "ea_status a"; simp add: bindE_eq_Inr guardE_eq_Inr; auto)

text \<open>
  The consistency rules as a table, one row per status and one per evidence level, independent of
  the order in which the source tests them. The source also rejects the level \<open>attempt_only\<close> for
  the four statuses that report an effect; in the table this follows from the evidence columns.
\<close>

definition outcome_claims :: "effect_attestation \<Rightarrow> bool" where
  "outcome_claims a =
     (case ea_status a of
        DeniedStatus \<Rightarrow> ea_postStateHash a = None \<and> ea_resultHash a = None \<and>
          ea_budgetCharges a = \<lparr>bc_uniqueModifiedFiles = 0, bc_mutationBytes = 0, bc_testRuns = 0\<rparr>
      | FailedNoEffectStatus \<Rightarrow> ea_postStateHash a = None \<and> ea_resultHash a = None \<and>
          bc_uniqueModifiedFiles (ea_budgetCharges a) = 0 \<and> bc_mutationBytes (ea_budgetCharges a) = 0
      | NoopStatus \<Rightarrow> ea_preStateHash a \<noteq> None \<and> ea_postStateHash a = ea_preStateHash a \<and>
          ea_budgetCharges a = \<lparr>bc_uniqueModifiedFiles = 0, bc_mutationBytes = 0, bc_testRuns = 0\<rparr>
      | RolledBackStatus \<Rightarrow> ea_preStateHash a \<noteq> None \<and> ea_postStateHash a = ea_preStateHash a
      | CommittedStatus \<Rightarrow> ea_postStateHash a \<noteq> None \<or> ea_resultHash a \<noteq> None
      | CommittedResultUnavailableStatus \<Rightarrow> ea_postStateHash a \<noteq> None \<and> ea_resultHash a = None
      | UncertainStatus \<Rightarrow> True)"

definition evidence_claims :: "effect_attestation \<Rightarrow> bool" where
  "evidence_claims a =
     (case ea_evidenceLevel a of
        AttemptOnly \<Rightarrow> ea_postStateHash a = None \<and> ea_resultHash a = None \<and> ea_reconciliationRef a = None
      | AdapterObserved \<Rightarrow> ea_reconciliationRef a = None \<and>
          (ea_preStateHash a \<noteq> None \<or> ea_postStateHash a \<noteq> None \<or> ea_resultHash a \<noteq> None)
      | LocalStateReconciled \<Rightarrow> ea_reconciliationRef a = None \<and>
          ea_preStateHash a \<noteq> None \<and> ea_postStateHash a \<noteq> None
      | RemoteProviderAttested \<Rightarrow> ea_reconciliationRef a = None \<and>
          (ea_postStateHash a \<noteq> None \<or> ea_resultHash a \<noteq> None)
      | IndependentlyReconciled \<Rightarrow> ea_reconciliationRef a \<noteq> None \<and>
          ea_preStateHash a \<noteq> None \<and> ea_postStateHash a \<noteq> None)"

lemma no_charge:
  "\<not> hasAnyBudgetCharge c \<longleftrightarrow> c = \<lparr>bc_uniqueModifiedFiles = 0, bc_mutationBytes = 0, bc_testRuns = 0\<rparr>"
  by (cases c) (auto simp: hasAnyBudgetCharge_def)

section \<open>Properties\<close>

text \<open>The eleven consistency checks of \<open>validateAttestationSemantics\<close> accept exactly the attestations
  whose claims fit their row of the table: a denied or ineffective attempt carries no effect
  evidence and no mutation charge, a no-op or a rollback reports equal states before and after, a
  commit reports a post-state or a result, and each evidence level carries its evidence, a
  reconciliation reference exactly at the highest one.\<close>

theorem attestation_semantics_exact:
  "validateAttestationSemantics a = Inr () \<longleftrightarrow> outcome_claims a \<and> evidence_claims a"
  unfolding semantics_Inr evidenceLevelCheck_Inr outcome_claims_def evidence_claims_def no_charge
  by (cases "ea_status a"; cases "ea_evidenceLevel a") auto

text \<open>\<open>validateSafeCodingEffectAttestation\<close> accepts a value and returns an attestation exactly when
  the attestation is well formed and consistent, and the value is its JSON form up to the order of
  keys and within the budgets of canonical JSON.\<close>

theorem validate_attestation_exact:
  "validateSafeCodingEffectAttestation nfc v = Inr a \<longleftrightarrow>
     wf_attestation nfc a \<and> canonicalizable nfc v \<and> sortFields v = sortFields (attestation_json a)"
  using attestation_shape attestation_complete by blast

end
