(* ===== verification/Ledger_Records.thy ===== *)
theory Ledger_Records
  imports Execution_Ticket Effect_Attestation
begin

text \<open>
  The records of the effect ledger (\<open>clodex-ledger/src/records.ts\<close>): one record per ticket, holding the ticket's
  lifecycle, the effect attempt, the evidence that was promised before the commit and the evidence outbox. The
  validator first bounds the data, then checks every field, and then that the record has a shape some
  sequence of transitions can produce.

  The package has its own primitive checks, which differ from those of the contracts package: a UUID has
  version 1 to 5, and a timestamp may spell out zero milliseconds but may not lie before the year 100, because
  \<open>Date.UTC\<close> reads the years 0 to 99 as 1900 to 1999. The cause an error carries is not modelled, and values are
  trees, so that the check for aliases never fires.
\<close>

section \<open>Data\<close>

datatype ledger_state = LedgerPrepared | LedgerCommitPermit | LedgerCommitted | LedgerResultUnavailable | LedgerUncertain | LedgerFailedPreEffect

datatype admission_state = EvidenceReserved | EvidencePending | EvidenceAdmitted

record ledger_ticket_state =
  lt_ticket :: execution_ticket
  lt_status :: ledger_state
  lt_consumedAt :: "jstr option"
  lt_terminalAt :: "jstr option"
  lt_terminalReasonCode :: "jstr option"

record ledger_effect_attempt =
  le_attemptId :: jstr
  le_adapterId :: jstr
  le_adapterDigest :: jstr
  le_effectClass :: effect_class
  le_resolvedObjectId :: jstr
  le_stateCommitmentHash :: jstr
  le_preparedAt :: jstr
  le_commitPermittedAt :: "jstr option"
  le_effectObservedAt :: "jstr option"
  le_resultHash :: "jstr option"

record evidence_expectation =
  ex_delegationLineageHash :: jstr
  ex_runnerId :: jstr
  ex_runnerDigest :: jstr
  ex_observerId :: jstr
  ex_preStateHash :: "jstr option"
  ex_completionPostStateHash :: jstr
  ex_idempotencyKey :: "jstr option"
  ex_completionBudgetCharges :: budget_charges
  ex_completionEvidenceLevel :: evidence_level
  ex_completionReconciliationRef :: "jstr option"

record admission_receipt =
  rc_transactionId :: jstr
  rc_evidenceIntentId :: jstr
  rc_attestationId :: jstr
  rc_attestation :: effect_attestation
  rc_envelopeHash :: jstr
  rc_evidenceLedgerId :: jstr
  rc_evidenceSequence :: int
  rc_evidenceHeadHash :: jstr
  rc_checkpointPublicationId :: jstr
  rc_checkpointDigest :: jstr
  rc_receiptHash :: jstr
  rc_admittedAt :: jstr

record evidence_admission =
  ev_intentId :: jstr
  ev_attestationId :: jstr
  ev_status :: admission_state
  ev_attestation :: "effect_attestation option"
  ev_readyAt :: "jstr option"
  ev_admittedAt :: "jstr option"
  ev_admissionReceipt :: "admission_receipt option"

record ledger_record =
  lr_transactionId :: jstr
  lr_revision :: int
  lr_createdAt :: jstr
  lr_updatedAt :: jstr
  lr_ticketState :: ledger_ticket_state
  lr_effectAttempt :: ledger_effect_attempt
  lr_evidenceExpectation :: evidence_expectation
  lr_evidenceAdmission :: evidence_admission

text \<open>\<open>LedgerPassed\<close> is an exception of the contracts package that is not caught, \<open>LedgerSyntaxError\<close> the one
  \<open>JSON.parse\<close> throws.\<close>

datatype ledger_error =
    SafeCodingLedgerValidationError (ledger_message: jstr) | LedgerPassed contract_error | LedgerSyntaxError

abbreviation ledgerError :: "string \<Rightarrow> ledger_error" where
  "ledgerError s \<equiv> SafeCodingLedgerValidationError (js s)"

definition SAFE_CODING_LEDGER_RECORD_KIND :: string where
  "SAFE_CODING_LEDGER_RECORD_KIND = ''clodex.safe-coding-effect-transaction''"

definition SAFE_CODING_LEDGER_RECORD_VERSION :: int where
  "SAFE_CODING_LEDGER_RECORD_VERSION = 1"

definition SAFE_CODING_EVIDENCE_ADMISSION_RECEIPT_KIND :: string where
  "SAFE_CODING_EVIDENCE_ADMISSION_RECEIPT_KIND = ''clodex.evidence-admission-receipt''"

definition SAFE_CODING_EVIDENCE_ADMISSION_RECEIPT_VERSION :: int where
  "SAFE_CODING_EVIDENCE_ADMISSION_RECEIPT_VERSION = 1"

definition maximumDepth :: nat where "maximumDepth = 16"
definition maximumNodes :: nat where "maximumNodes = 512"
definition maximumObjectKeys :: nat where "maximumObjectKeys = 64"
definition maximumStringBytes :: nat where "maximumStringBytes = 256 * 1024"

definition ledgerStates :: "(string \<times> ledger_state) list" where
  "ledgerStates =
     [(''PREPARED'', LedgerPrepared), (''COMMIT_PERMIT'', LedgerCommitPermit), (''COMMITTED'', LedgerCommitted),
      (''RESULT_UNAVAILABLE'', LedgerResultUnavailable), (''UNCERTAIN'', LedgerUncertain), (''FAILED_PRE_EFFECT'', LedgerFailedPreEffect)]"

definition admissionStates :: "(string \<times> admission_state) list" where
  "admissionStates = [(''RESERVED'', EvidenceReserved), (''PENDING'', EvidencePending), (''ADMITTED'', EvidenceAdmitted)]"

definition completionLevels :: "(string \<times> evidence_level) list" where
  "completionLevels =
     [(''adapter_observed'', AdapterObserved), (''local_state_reconciled'', LocalStateReconciled),
      (''remote_provider_attested'', RemoteProviderAttested), (''independently_reconciled'', IndependentlyReconciled)]"

definition isSafeCodingLedgerTerminalState :: "ledger_state \<Rightarrow> bool" where
  "isSafeCodingLedgerTerminalState state =
     (state = LedgerCommitted \<or> state = LedgerResultUnavailable \<or> state = LedgerUncertain \<or> state = LedgerFailedPreEffect)"

section \<open>Primitive checks\<close>

definition requireRecord_ledger :: "jsval \<Rightarrow> string \<Rightarrow> ledger_error + (jstr \<times> jsval) list" where
  "requireRecord_ledger value label =
     (case value of
        JObj sh fs \<Rightarrow>
          if foreignPrototype sh then Inl (ledgerError (label @ '' must be a plain object''))
          else if symbolKeys sh \<or> hiddenFields sh \<or> list_ex (\<lambda>f. snd f = JAccessor) fs
          then Inl (ledgerError (label @ '' must contain only enumerable data fields''))
          else Inr fs
      | _ \<Rightarrow> Inl (ledgerError (label @ '' must be a plain object'')))"

definition requireExactKeys_ledger :: "(jstr \<times> jsval) list \<Rightarrow> string list \<Rightarrow> string \<Rightarrow> ledger_error + unit" where
  "requireExactKeys_ledger fs expected label =
     guardE (sort (map fst fs) = sort (map js expected)) (ledgerError (label @ '' has unknown or missing fields''))"

definition requireLiteral_ledger :: "jsval \<Rightarrow> jsval \<Rightarrow> string \<Rightarrow> ledger_error + unit" where
  "requireLiteral_ledger value expected label = guardE (value = expected) (ledgerError (label @ '' is invalid''))"

definition requireEnum_ledger :: "jsval \<Rightarrow> (string \<times> 'a) list \<Rightarrow> string \<Rightarrow> ledger_error + 'a" where
  "requireEnum_ledger value values label =
     (case value of
        JStr s \<Rightarrow>
          (case List.find (\<lambda>(name, _). js name = s) values of
             Some (_, c) \<Rightarrow> Inr c
           | None \<Rightarrow> Inl (ledgerError (label @ '' is invalid'')))
      | _ \<Rightarrow> Inl (ledgerError (label @ '' is invalid'')))"

definition identifierText :: "jstr \<Rightarrow> bool" where
  "identifierText s =
     (case s of [] \<Rightarrow> False
      | u # us \<Rightarrow> (isDigit u \<or> isLower u \<or> isUpper u) \<and>
          list_all (\<lambda>c. isDigit c \<or> isLower c \<or> isUpper c \<or> c \<in> set (js ''._:@/-'')) us)"

definition requireIdentifier_ledger :: "jsval \<Rightarrow> string \<Rightarrow> ledger_error + jstr" where
  "requireIdentifier_ledger value label =
     (let invalid = ledgerError (label @ '' must be a bounded identifier'') in
      case value of
        JStr s \<Rightarrow> if length s = 0 \<or> length s > 256 \<or> \<not> identifierText s then Inl invalid else Inr s
      | _ \<Rightarrow> Inl invalid)"

definition ledgerUuid :: "jstr \<Rightarrow> bool" where
  "ledgerUuid s =
     (length s = 36 \<and> s ! 8 = 45 \<and> s ! 13 = 45 \<and> s ! 18 = 45 \<and> s ! 23 = 45 \<and>
      list_all isLowerHex (take 8 s) \<and> list_all isLowerHex (take 4 (drop 9 s)) \<and>
      list_all isLowerHex (take 4 (drop 14 s)) \<and> 49 \<le> s ! 14 \<and> s ! 14 \<le> 53 \<and>
      list_all isLowerHex (take 4 (drop 19 s)) \<and> s ! 19 \<in> set (js ''89ab'') \<and> list_all isLowerHex (drop 24 s))"

definition requireUuid_ledger :: "jsval \<Rightarrow> string \<Rightarrow> ledger_error + jstr" where
  "requireUuid_ledger value label =
     (let invalid = ledgerError (label @ '' must be a canonical lowercase UUID'') in
      case value of JStr s \<Rightarrow> if \<not> ledgerUuid s then Inl invalid else Inr s | _ \<Rightarrow> Inl invalid)"

definition requireNullableIdentifier_ledger :: "jsval \<Rightarrow> string \<Rightarrow> ledger_error + jstr option" where
  "requireNullableIdentifier_ledger value label =
     (if value = JNull then Inr None else bindE (requireIdentifier_ledger value label) (\<lambda>s. Inr (Some s)))"

definition requireDigest_ledger :: "jsval \<Rightarrow> string \<Rightarrow> ledger_error + jstr" where
  "requireDigest_ledger value label =
     (let invalid = ledgerError (label @ '' must be a lowercase SHA-256 digest'') in
      case value of JStr s \<Rightarrow> if \<not> SHA256_PATTERN s then Inl invalid else Inr s | _ \<Rightarrow> Inl invalid)"

definition requireNullableDigest_ledger :: "jsval \<Rightarrow> string \<Rightarrow> ledger_error + jstr option" where
  "requireNullableDigest_ledger value label =
     (if value = JNull then Inr None else bindE (requireDigest_ledger value label) (\<lambda>s. Inr (Some s)))"

definition requirePositiveInteger_ledger :: "jsval \<Rightarrow> string \<Rightarrow> ledger_error + int" where
  "requirePositiveInteger_ledger value label =
     (let invalid = ledgerError (label @ '' must be a positive safe integer'') in
      case value of JNum n \<Rightarrow> if \<not> isSafeInteger n \<or> numInt n \<le> 0 then Inl invalid else Inr (numInt n) | _ \<Rightarrow> Inl invalid)"

definition requireNonNegativeInteger_ledger :: "jsval \<Rightarrow> string \<Rightarrow> ledger_error + int" where
  "requireNonNegativeInteger_ledger value label =
     (let invalid = ledgerError (label @ '' must be a non-negative safe integer'') in
      case value of JNum n \<Rightarrow> if \<not> isSafeInteger n \<or> numInt n < 0 then Inl invalid else Inr (numInt n) | _ \<Rightarrow> Inl invalid)"

section \<open>Timestamps\<close>

text \<open>\<open>Date.UTC\<close> and the getters of \<open>Date\<close>; months count from 1 here.\<close>

definition dateUTC :: "nat \<Rightarrow> nat \<Rightarrow> nat \<Rightarrow> nat \<Rightarrow> nat \<Rightarrow> nat \<Rightarrow> nat \<Rightarrow> int" where
  "dateUTC year month day hour minute second ms =
     makeTime (if year \<le> 99 then 1900 + int year else int year) month (int day) (int hour) (int minute) (int second) (int ms)"

definition getUTCFullYear :: "int \<Rightarrow> int" where
  "getUTCFullYear time = YearFromDay (time div msPerDay)"

definition getUTCMonth :: "int \<Rightarrow> nat" where
  "getUTCMonth time =
     (let year = getUTCFullYear time in MonthFromDay (InLeapYear year) (time div msPerDay - DayFromYear year))"

definition getUTCDate :: "int \<Rightarrow> int" where
  "getUTCDate time =
     (let year = getUTCFullYear time in
      time div msPerDay - DayFromYear year - daysBeforeMonth (InLeapYear year) (getUTCMonth time) + 1)"

definition timestampMilliseconds_ledger :: "jstr \<Rightarrow> int option" where
  "timestampMilliseconds_ledger value =
     (if \<not> TIMESTAMP_PATTERN value then None
      else
        let year = digitsValue (take 4 value); month = digitsValue (take 2 (drop 5 value));
            day = digitsValue (take 2 (drop 8 value)); hour = digitsValue (take 2 (drop 11 value));
            minute = digitsValue (take 2 (drop 14 value)); second = digitsValue (take 2 (drop 17 value));
            millisecond = (if length value = 24 then digitsValue (take 3 (drop 20 value)) else 0)
        in if month < 1 \<or> month > 12 \<or> day < 1 \<or> day > 31 \<or> hour > 23 \<or> minute > 59 \<or> second > 59 then None
           else
             let timestamp = dateUTC year month day hour minute second millisecond; t = timestamp mod msPerDay in
             if getUTCFullYear timestamp \<noteq> int year \<or> getUTCMonth timestamp \<noteq> month \<or> getUTCDate timestamp \<noteq> int day \<or>
                t div 3600000 \<noteq> int hour \<or> t div 60000 mod 60 \<noteq> int minute \<or> t div 1000 mod 60 \<noteq> int second \<or>
                t mod 1000 \<noteq> int millisecond
             then None else Some timestamp)"

definition requireTimestamp_ledger :: "jsval \<Rightarrow> string \<Rightarrow> ledger_error + jstr" where
  "requireTimestamp_ledger value label =
     (let invalid = ledgerError (label @ '' must be a canonical UTC timestamp'') in
      case value of
        JStr s \<Rightarrow> if timestampMilliseconds_ledger s = None then Inl invalid else Inr s
      | _ \<Rightarrow> Inl invalid)"

definition requireNullableTimestamp_ledger :: "jsval \<Rightarrow> string \<Rightarrow> ledger_error + jstr option" where
  "requireNullableTimestamp_ledger value label =
     (if value = JNull then Inr None else bindE (requireTimestamp_ledger value label) (\<lambda>s. Inr (Some s)))"

definition safeCodingLedgerTimestampMilliseconds :: "jstr \<Rightarrow> ledger_error + int" where
  "safeCodingLedgerTimestampMilliseconds value =
     (case timestampMilliseconds_ledger value of
        None \<Rightarrow> Inl (ledgerError ''Timestamp must be canonical UTC'') | Some ms \<Rightarrow> Inr ms)"

definition assertTimeOrder :: "jstr \<Rightarrow> jstr \<Rightarrow> string \<Rightarrow> ledger_error + unit" where
  "assertTimeOrder before after message =
     bindE (safeCodingLedgerTimestampMilliseconds after) (\<lambda>a.
     bindE (safeCodingLedgerTimestampMilliseconds before) (\<lambda>b.
     guardE (\<not> a < b) (ledgerError message)))"

section \<open>Bounds\<close>

text \<open>The UTF-8 length of a string, abandoned as soon as it exceeds \<open>remaining\<close>.\<close>

fun boundedUtf8ByteLength :: "jstr \<Rightarrow> nat \<Rightarrow> nat \<Rightarrow> nat" where
  "boundedUtf8ByteLength [] remaining bytes = bytes"
| "boundedUtf8ByteLength [code] remaining bytes =
     (if code \<le> 0x7f then bytes + 1 else if code \<le> 0x7ff then bytes + 2 else bytes + 3)"
| "boundedUtf8ByteLength (code # low # rest) remaining bytes =
     (if code \<le> 0x7f then (if bytes + 1 > remaining then bytes + 1 else boundedUtf8ByteLength (low # rest) remaining (bytes + 1))
      else if code \<le> 0x7ff then (if bytes + 2 > remaining then bytes + 2 else boundedUtf8ByteLength (low # rest) remaining (bytes + 2))
      else if 0xd800 \<le> code \<and> code \<le> 0xdbff \<and> 0xdc00 \<le> low \<and> low \<le> 0xdfff
      then (if bytes + 4 > remaining then bytes + 4 else boundedUtf8ByteLength rest remaining (bytes + 4))
      else (if bytes + 3 > remaining then bytes + 3 else boundedUtf8ByteLength (low # rest) remaining (bytes + 3)))"

text \<open>The loop of \<open>assertBoundedCanonicalData\<close>; the head of the list is the top of the stack \<open>pending\<close>.\<close>

function boundedScan :: "string \<Rightarrow> (jsval \<times> nat) list \<Rightarrow> nat \<Rightarrow> nat \<Rightarrow> ledger_error + unit" where
  "boundedScan label [] seen stringBytes = Inr ()"
| "boundedScan label ((value, depth) # pending) seen stringBytes =
     (if seen + 1 > maximumNodes then Inl (ledgerError (label @ '' exceeds the bounded node limit''))
      else if depth > maximumDepth then Inl (ledgerError (label @ '' exceeds the bounded nesting depth''))
      else case value of
        JStr s \<Rightarrow>
          if stringBytes + boundedUtf8ByteLength s (maximumStringBytes - stringBytes) 0 > maximumStringBytes
          then Inl (ledgerError (label @ '' exceeds the bounded string-byte limit''))
          else boundedScan label pending (seen + 1) (stringBytes + boundedUtf8ByteLength s (maximumStringBytes - stringBytes) 0)
      | JArr sh xs \<Rightarrow>
          if foreignPrototype sh then Inl (ledgerError (label @ '' must contain only plain data containers''))
          else if symbolKeys sh then Inl (ledgerError (label @ '' cannot contain symbol keys''))
          else if length xs + 1 > maximumObjectKeys then Inl (ledgerError (label @ '' contains too many fields''))
          else if hiddenFields sh then Inl (ledgerError (label @ '' contains a sparse or extended array''))
          else if JAccessor \<in> set xs then Inl (ledgerError (label @ '' cannot contain accessors or hidden data''))
          else boundedScan label (rev (map (\<lambda>x. (x, depth + 1)) xs) @ pending) (seen + 1) stringBytes
      | JObj sh fs \<Rightarrow>
          if foreignPrototype sh then Inl (ledgerError (label @ '' must contain only plain data containers''))
          else if symbolKeys sh then Inl (ledgerError (label @ '' cannot contain symbol keys''))
          else if length fs > maximumObjectKeys then Inl (ledgerError (label @ '' contains too many fields''))
          else if hiddenFields sh then Inl (ledgerError (label @ '' cannot hide non-enumerable fields''))
          else if list_ex (\<lambda>f. snd f = JAccessor) fs then Inl (ledgerError (label @ '' cannot contain accessors or hidden data''))
          else boundedScan label (rev (map (\<lambda>f. (snd f, depth + 1)) fs) @ pending) (seen + 1) stringBytes
      | _ \<Rightarrow> boundedScan label pending (seen + 1) stringBytes)"
  by pat_completeness auto

termination
  by (relation "measure (\<lambda>(_, pending, _, _). sum_list (map (node_count \<circ> fst) pending))")
    (auto simp: comp_def sum_list_rev simp flip: rev_map)

definition assertBoundedCanonicalData :: "(jstr \<Rightarrow> jstr) \<Rightarrow> jsval \<Rightarrow> string \<Rightarrow> ledger_error + unit" where
  "assertBoundedCanonicalData nfc value label =
     bindE (boundedScan label [(value, 0)] 0 0) (\<lambda>_.
     bindE (catchE (canonicalizeJson nfc value) (\<lambda>_. ledgerError (label @ '' is outside the closed canonical shape''))) (\<lambda>_.
     Inr ()))"

section \<open>Validation of the parts\<close>

definition ticketStateKeys :: "string list" where
  "ticketStateKeys = [''ticket'', ''status'', ''consumedAt'', ''terminalAt'', ''terminalReasonCode'']"

definition validateTicketState :: "(jstr \<Rightarrow> jstr) \<Rightarrow> jsval \<Rightarrow> ledger_error + ledger_ticket_state" where
  "validateTicketState nfc value =
     bindE (requireRecord_ledger value ''Ledger ticket state'') (\<lambda>record.
     bindE (requireExactKeys_ledger record ticketStateKeys ''Ledger ticket state'') (\<lambda>_.
     bindE (catchE (validateSafeCodingExecutionTicket nfc (getProp record ''ticket''))
       (\<lambda>_. ledgerError ''Ledger ticket is invalid'')) (\<lambda>ticket.
     bindE (requireEnum_ledger (getProp record ''status'') ledgerStates ''Ledger ticket status'') (\<lambda>status.
     bindE (requireNullableTimestamp_ledger (getProp record ''consumedAt'') ''Ticket consumedAt'') (\<lambda>consumedAt.
     bindE (requireNullableTimestamp_ledger (getProp record ''terminalAt'') ''Ticket terminalAt'') (\<lambda>terminalAt.
     bindE (requireNullableIdentifier_ledger (getProp record ''terminalReasonCode'') ''Ticket terminal reason code'') (\<lambda>terminalReasonCode.
     Inr \<lparr>lt_ticket = ticket, lt_status = status, lt_consumedAt = consumedAt, lt_terminalAt = terminalAt,
          lt_terminalReasonCode = terminalReasonCode\<rparr>)))))))"

definition effectAttemptKeys :: "string list" where
  "effectAttemptKeys =
     [''attemptId'', ''adapterId'', ''adapterDigest'', ''effectClass'', ''resolvedObjectId'', ''stateCommitmentHash'',
      ''preparedAt'', ''commitPermittedAt'', ''effectObservedAt'', ''resultHash'']"

definition validateEffectAttempt :: "jsval \<Rightarrow> ledger_error + ledger_effect_attempt" where
  "validateEffectAttempt value =
     bindE (requireRecord_ledger value ''Ledger effect attempt'') (\<lambda>record.
     bindE (requireExactKeys_ledger record effectAttemptKeys ''Ledger effect attempt'') (\<lambda>_.
     bindE (requireIdentifier_ledger (getProp record ''attemptId'') ''Effect attempt ID'') (\<lambda>attemptId.
     bindE (requireIdentifier_ledger (getProp record ''adapterId'') ''Effect adapter ID'') (\<lambda>adapterId.
     bindE (requireDigest_ledger (getProp record ''adapterDigest'') ''Effect adapter digest'') (\<lambda>adapterDigest.
     bindE (requireEnum_ledger (getProp record ''effectClass'') effectClasses ''Effect class'') (\<lambda>effectClass.
     bindE (requireIdentifier_ledger (getProp record ''resolvedObjectId'') ''Effect resolved object ID'') (\<lambda>resolvedObjectId.
     bindE (requireDigest_ledger (getProp record ''stateCommitmentHash'') ''Effect state commitment hash'') (\<lambda>stateCommitmentHash.
     bindE (requireTimestamp_ledger (getProp record ''preparedAt'') ''Effect preparedAt'') (\<lambda>preparedAt.
     bindE (requireNullableTimestamp_ledger (getProp record ''commitPermittedAt'') ''Effect commitPermittedAt'') (\<lambda>commitPermittedAt.
     bindE (requireNullableTimestamp_ledger (getProp record ''effectObservedAt'') ''Effect observedAt'') (\<lambda>effectObservedAt.
     bindE (requireNullableDigest_ledger (getProp record ''resultHash'') ''Effect result hash'') (\<lambda>resultHash.
     Inr \<lparr>le_attemptId = attemptId, le_adapterId = adapterId, le_adapterDigest = adapterDigest,
          le_effectClass = effectClass, le_resolvedObjectId = resolvedObjectId,
          le_stateCommitmentHash = stateCommitmentHash, le_preparedAt = preparedAt,
          le_commitPermittedAt = commitPermittedAt, le_effectObservedAt = effectObservedAt,
          le_resultHash = resultHash\<rparr>))))))))))))"

definition validateBudgetCharges_ledger :: "jsval \<Rightarrow> string \<Rightarrow> ledger_error + budget_charges" where
  "validateBudgetCharges_ledger value label =
     bindE (requireRecord_ledger value label) (\<lambda>record.
     bindE (requireExactKeys_ledger record [''uniqueModifiedFiles'', ''mutationBytes'', ''testRuns''] label) (\<lambda>_.
     bindE (requireNonNegativeInteger_ledger (getProp record ''uniqueModifiedFiles'') (label @ '' uniqueModifiedFiles'')) (\<lambda>uniqueModifiedFiles.
     bindE (requireNonNegativeInteger_ledger (getProp record ''mutationBytes'') (label @ '' mutationBytes'')) (\<lambda>mutationBytes.
     bindE (requireNonNegativeInteger_ledger (getProp record ''testRuns'') (label @ '' testRuns'')) (\<lambda>testRuns.
     Inr \<lparr>bc_uniqueModifiedFiles = uniqueModifiedFiles, bc_mutationBytes = mutationBytes, bc_testRuns = testRuns\<rparr>)))))"

definition expectationKeys :: "string list" where
  "expectationKeys =
     [''delegationLineageHash'', ''runnerId'', ''runnerDigest'', ''observerId'', ''preStateHash'',
      ''completionPostStateHash'', ''idempotencyKey'', ''completionBudgetCharges'', ''completionEvidenceLevel'',
      ''completionReconciliationRef'']"

definition validateSafeCodingEvidenceExpectation :: "jsval \<Rightarrow> ledger_error + evidence_expectation" where
  "validateSafeCodingEvidenceExpectation value =
     bindE (requireRecord_ledger value ''Evidence expectation'') (\<lambda>record.
     bindE (requireExactKeys_ledger record expectationKeys ''Evidence expectation'') (\<lambda>_.
     bindE (requireDigest_ledger (getProp record ''delegationLineageHash'') ''Expected delegation lineage hash'') (\<lambda>delegationLineageHash.
     bindE (requireIdentifier_ledger (getProp record ''runnerId'') ''Expected runner ID'') (\<lambda>runnerId.
     bindE (requireDigest_ledger (getProp record ''runnerDigest'') ''Expected runner digest'') (\<lambda>runnerDigest.
     bindE (requireIdentifier_ledger (getProp record ''observerId'') ''Expected observer ID'') (\<lambda>observerId.
     bindE (requireNullableDigest_ledger (getProp record ''preStateHash'') ''Expected pre-state hash'') (\<lambda>preStateHash.
     bindE (requireDigest_ledger (getProp record ''completionPostStateHash'') ''Expected completion post-state hash'') (\<lambda>completionPostStateHash.
     bindE (requireNullableIdentifier_ledger (getProp record ''idempotencyKey'') ''Reserved idempotency key'') (\<lambda>idempotencyKey.
     bindE (validateBudgetCharges_ledger (getProp record ''completionBudgetCharges'') ''Expected completion budget charges'') (\<lambda>completionBudgetCharges.
     bindE (requireEnum_ledger (getProp record ''completionEvidenceLevel'') completionLevels ''Expected completion evidence level'') (\<lambda>completionEvidenceLevel.
     bindE (requireNullableIdentifier_ledger (getProp record ''completionReconciliationRef'')
       ''Expected completion reconciliation reference'') (\<lambda>completionReconciliationRef.
     bindE (guardE (\<not> ((completionEvidenceLevel = IndependentlyReconciled) \<noteq> (completionReconciliationRef \<noteq> None)))
       (ledgerError ''Only independently reconciled completion evidence may reserve a reconciliation reference'')) (\<lambda>_.
     bindE (guardE (\<not> ((completionEvidenceLevel = LocalStateReconciled \<or> completionEvidenceLevel = IndependentlyReconciled) \<and>
         preStateHash = None))
       (ledgerError ''Reconciled completion evidence requires a reserved pre-state hash'')) (\<lambda>_.
     Inr \<lparr>ex_delegationLineageHash = delegationLineageHash, ex_runnerId = runnerId, ex_runnerDigest = runnerDigest,
          ex_observerId = observerId, ex_preStateHash = preStateHash,
          ex_completionPostStateHash = completionPostStateHash, ex_idempotencyKey = idempotencyKey,
          ex_completionBudgetCharges = completionBudgetCharges, ex_completionEvidenceLevel = completionEvidenceLevel,
          ex_completionReconciliationRef = completionReconciliationRef\<rparr>))))))))))))))"

definition validateRequiredAttestation :: "(jstr \<Rightarrow> jstr) \<Rightarrow> jsval \<Rightarrow> string \<Rightarrow> ledger_error + effect_attestation" where
  "validateRequiredAttestation nfc value label =
     catchE (validateSafeCodingEffectAttestation nfc value) (\<lambda>_. ledgerError (label @ '' is invalid''))"

definition validateNullableAttestation :: "(jstr \<Rightarrow> jstr) \<Rightarrow> jsval \<Rightarrow> ledger_error + effect_attestation option" where
  "validateNullableAttestation nfc value =
     (if value = JNull then Inr None
      else bindE (catchE (validateSafeCodingEffectAttestation nfc value)
        (\<lambda>_. ledgerError ''Evidence attestation is invalid'')) (\<lambda>a. Inr (Some a)))"

definition receiptKeys :: "string list" where
  "receiptKeys =
     [''kind'', ''version'', ''transactionId'', ''evidenceIntentId'', ''attestationId'', ''attestation'',
      ''envelopeHash'', ''evidenceLedgerId'', ''evidenceSequence'', ''evidenceHeadHash'', ''checkpointPublicationId'',
      ''checkpointDigest'', ''receiptHash'', ''admittedAt'']"

definition validateSafeCodingEvidenceAdmissionReceipt ::
  "(jstr \<Rightarrow> jstr) \<Rightarrow> jsval \<Rightarrow> ledger_error + admission_receipt" where
  "validateSafeCodingEvidenceAdmissionReceipt nfc value =
     bindE (requireRecord_ledger value ''Evidence admission receipt'') (\<lambda>record.
     bindE (requireExactKeys_ledger record receiptKeys ''Evidence admission receipt'') (\<lambda>_.
     bindE (requireLiteral_ledger (getProp record ''kind'') (JStr (js SAFE_CODING_EVIDENCE_ADMISSION_RECEIPT_KIND))
       ''Evidence admission receipt kind'') (\<lambda>_.
     bindE (requireLiteral_ledger (getProp record ''version'') (jint SAFE_CODING_EVIDENCE_ADMISSION_RECEIPT_VERSION)
       ''Evidence admission receipt version'') (\<lambda>_.
     bindE (requireIdentifier_ledger (getProp record ''transactionId'') ''Receipt transaction ID'') (\<lambda>transactionId.
     bindE (requireIdentifier_ledger (getProp record ''evidenceIntentId'') ''Receipt evidence intent ID'') (\<lambda>evidenceIntentId.
     bindE (requireUuid_ledger (getProp record ''attestationId'') ''Receipt attestation ID'') (\<lambda>attestationId.
     bindE (validateRequiredAttestation nfc (getProp record ''attestation'') ''Receipt attestation payload'') (\<lambda>attestation.
     bindE (requireDigest_ledger (getProp record ''envelopeHash'') ''Receipt envelope hash'') (\<lambda>envelopeHash.
     bindE (requireIdentifier_ledger (getProp record ''evidenceLedgerId'') ''Receipt evidence ledger ID'') (\<lambda>evidenceLedgerId.
     bindE (requirePositiveInteger_ledger (getProp record ''evidenceSequence'') ''Receipt evidence sequence'') (\<lambda>evidenceSequence.
     bindE (requireDigest_ledger (getProp record ''evidenceHeadHash'') ''Receipt evidence head hash'') (\<lambda>evidenceHeadHash.
     bindE (requireIdentifier_ledger (getProp record ''checkpointPublicationId'') ''Receipt checkpoint publication ID'') (\<lambda>checkpointPublicationId.
     bindE (requireDigest_ledger (getProp record ''checkpointDigest'') ''Receipt checkpoint digest'') (\<lambda>checkpointDigest.
     bindE (requireDigest_ledger (getProp record ''receiptHash'') ''Receipt hash'') (\<lambda>receiptHash.
     bindE (requireTimestamp_ledger (getProp record ''admittedAt'') ''Receipt admittedAt'') (\<lambda>admittedAt.
     Inr \<lparr>rc_transactionId = transactionId, rc_evidenceIntentId = evidenceIntentId, rc_attestationId = attestationId,
          rc_attestation = attestation, rc_envelopeHash = envelopeHash, rc_evidenceLedgerId = evidenceLedgerId,
          rc_evidenceSequence = evidenceSequence, rc_evidenceHeadHash = evidenceHeadHash,
          rc_checkpointPublicationId = checkpointPublicationId, rc_checkpointDigest = checkpointDigest,
          rc_receiptHash = receiptHash, rc_admittedAt = admittedAt\<rparr>))))))))))))))))"

definition admissionKeys :: "string list" where
  "admissionKeys =
     [''intentId'', ''attestationId'', ''status'', ''attestation'', ''readyAt'', ''admittedAt'', ''admissionReceipt'']"

definition validateEvidenceAdmission :: "(jstr \<Rightarrow> jstr) \<Rightarrow> jsval \<Rightarrow> ledger_error + evidence_admission" where
  "validateEvidenceAdmission nfc value =
     bindE (requireRecord_ledger value ''Evidence admission intent'') (\<lambda>record.
     bindE (requireExactKeys_ledger record admissionKeys ''Evidence admission intent'') (\<lambda>_.
     bindE (validateNullableAttestation nfc (getProp record ''attestation'')) (\<lambda>attestation.
     bindE (requireIdentifier_ledger (getProp record ''intentId'') ''Evidence intent ID'') (\<lambda>intentId.
     bindE (requireUuid_ledger (getProp record ''attestationId'') ''Reserved attestation ID'') (\<lambda>attestationId.
     bindE (requireEnum_ledger (getProp record ''status'') admissionStates ''Evidence admission state'') (\<lambda>status.
     bindE (requireNullableTimestamp_ledger (getProp record ''readyAt'') ''Evidence readyAt'') (\<lambda>readyAt.
     bindE (requireNullableTimestamp_ledger (getProp record ''admittedAt'') ''Evidence admittedAt'') (\<lambda>admittedAt.
     bindE (if getProp record ''admissionReceipt'' = JNull then Inr None
            else bindE (validateSafeCodingEvidenceAdmissionReceipt nfc (getProp record ''admissionReceipt''))
              (\<lambda>r. Inr (Some r))) (\<lambda>admissionReceipt.
     Inr \<lparr>ev_intentId = intentId, ev_attestationId = attestationId, ev_status = status, ev_attestation = attestation,
          ev_readyAt = readyAt, ev_admittedAt = admittedAt, ev_admissionReceipt = admissionReceipt\<rparr>)))))))))"

section \<open>JSON forms\<close>

definition nullJson :: "('a \<Rightarrow> jsval) \<Rightarrow> 'a option \<Rightarrow> jsval" where
  "nullJson f x = (case x of None \<Rightarrow> JNull | Some a \<Rightarrow> f a)"

definition ticketStateFields :: "ledger_ticket_state \<Rightarrow> (string \<times> jsval) list" where
  "ticketStateFields t =
     [(''ticket'', ticket_json (lt_ticket t)), (''status'', JStr (spelling ledgerStates (lt_status t))),
      (''consumedAt'', nullable (lt_consumedAt t)), (''terminalAt'', nullable (lt_terminalAt t)),
      (''terminalReasonCode'', nullable (lt_terminalReasonCode t))]"

definition ticketState_json :: "ledger_ticket_state \<Rightarrow> jsval" where
  "ticketState_json t = jrec (ticketStateFields t)"

definition effectAttemptFields :: "ledger_effect_attempt \<Rightarrow> (string \<times> jsval) list" where
  "effectAttemptFields a =
     [(''attemptId'', JStr (le_attemptId a)), (''adapterId'', JStr (le_adapterId a)),
      (''adapterDigest'', JStr (le_adapterDigest a)), (''effectClass'', JStr (spelling effectClasses (le_effectClass a))),
      (''resolvedObjectId'', JStr (le_resolvedObjectId a)), (''stateCommitmentHash'', JStr (le_stateCommitmentHash a)),
      (''preparedAt'', JStr (le_preparedAt a)), (''commitPermittedAt'', nullable (le_commitPermittedAt a)),
      (''effectObservedAt'', nullable (le_effectObservedAt a)), (''resultHash'', nullable (le_resultHash a))]"

definition effectAttempt_json :: "ledger_effect_attempt \<Rightarrow> jsval" where
  "effectAttempt_json a = jrec (effectAttemptFields a)"

definition expectationFields :: "evidence_expectation \<Rightarrow> (string \<times> jsval) list" where
  "expectationFields x =
     [(''delegationLineageHash'', JStr (ex_delegationLineageHash x)), (''runnerId'', JStr (ex_runnerId x)),
      (''runnerDigest'', JStr (ex_runnerDigest x)), (''observerId'', JStr (ex_observerId x)),
      (''preStateHash'', nullable (ex_preStateHash x)),
      (''completionPostStateHash'', JStr (ex_completionPostStateHash x)),
      (''idempotencyKey'', nullable (ex_idempotencyKey x)),
      (''completionBudgetCharges'', charges_json (ex_completionBudgetCharges x)),
      (''completionEvidenceLevel'', JStr (spelling evidenceLevels (ex_completionEvidenceLevel x))),
      (''completionReconciliationRef'', nullable (ex_completionReconciliationRef x))]"

definition expectation_json :: "evidence_expectation \<Rightarrow> jsval" where
  "expectation_json x = jrec (expectationFields x)"

definition receiptFields :: "admission_receipt \<Rightarrow> (string \<times> jsval) list" where
  "receiptFields r =
     [(''kind'', JStr (js SAFE_CODING_EVIDENCE_ADMISSION_RECEIPT_KIND)),
      (''version'', jint SAFE_CODING_EVIDENCE_ADMISSION_RECEIPT_VERSION),
      (''transactionId'', JStr (rc_transactionId r)), (''evidenceIntentId'', JStr (rc_evidenceIntentId r)),
      (''attestationId'', JStr (rc_attestationId r)), (''attestation'', attestation_json (rc_attestation r)),
      (''envelopeHash'', JStr (rc_envelopeHash r)), (''evidenceLedgerId'', JStr (rc_evidenceLedgerId r)),
      (''evidenceSequence'', jint (rc_evidenceSequence r)), (''evidenceHeadHash'', JStr (rc_evidenceHeadHash r)),
      (''checkpointPublicationId'', JStr (rc_checkpointPublicationId r)),
      (''checkpointDigest'', JStr (rc_checkpointDigest r)), (''receiptHash'', JStr (rc_receiptHash r)),
      (''admittedAt'', JStr (rc_admittedAt r))]"

definition receipt_json :: "admission_receipt \<Rightarrow> jsval" where
  "receipt_json r = jrec (receiptFields r)"

definition admissionFields :: "evidence_admission \<Rightarrow> (string \<times> jsval) list" where
  "admissionFields e =
     [(''intentId'', JStr (ev_intentId e)), (''attestationId'', JStr (ev_attestationId e)),
      (''status'', JStr (spelling admissionStates (ev_status e))),
      (''attestation'', nullJson attestation_json (ev_attestation e)), (''readyAt'', nullable (ev_readyAt e)),
      (''admittedAt'', nullable (ev_admittedAt e)),
      (''admissionReceipt'', nullJson receipt_json (ev_admissionReceipt e))]"

definition admission_json :: "evidence_admission \<Rightarrow> jsval" where
  "admission_json e = jrec (admissionFields e)"

definition ledgerFields :: "ledger_record \<Rightarrow> (string \<times> jsval) list" where
  "ledgerFields r =
     [(''kind'', JStr (js SAFE_CODING_LEDGER_RECORD_KIND)), (''version'', jint SAFE_CODING_LEDGER_RECORD_VERSION),
      (''transactionId'', JStr (lr_transactionId r)), (''revision'', jint (lr_revision r)),
      (''createdAt'', JStr (lr_createdAt r)), (''updatedAt'', JStr (lr_updatedAt r)),
      (''ticketState'', ticketState_json (lr_ticketState r)), (''effectAttempt'', effectAttempt_json (lr_effectAttempt r)),
      (''evidenceExpectation'', expectation_json (lr_evidenceExpectation r)),
      (''evidenceAdmission'', admission_json (lr_evidenceAdmission r))]"

definition ledger_json :: "ledger_record \<Rightarrow> jsval" where
  "ledger_json r = jrec (ledgerFields r)"

section \<open>The shape of a reachable record\<close>

definition requireAllNull :: "jsval list \<Rightarrow> string \<Rightarrow> ledger_error + unit" where
  "requireAllNull values message = guardE (\<not> list_ex (\<lambda>v. v \<noteq> JNull) values) (ledgerError message)"

definition requireNonNull :: "'a option \<Rightarrow> jstr \<Rightarrow> ledger_error + 'a" where
  "requireNonNull value message =
     (case value of None \<Rightarrow> Inl (SafeCodingLedgerValidationError message) | Some x \<Rightarrow> Inr x)"

text \<open>\<open>canonicalizeJson(left) === canonicalizeJson(right)\<close>.\<close>

definition sameCanonical :: "(jstr \<Rightarrow> jstr) \<Rightarrow> jsval \<Rightarrow> jsval \<Rightarrow> ledger_error + bool" where
  "sameCanonical nfc left right =
     bindE (catchE (canonicalizeJson nfc left) LedgerPassed) (\<lambda>l.
     bindE (catchE (canonicalizeJson nfc right) LedgerPassed) (\<lambda>r. Inr (l = r)))"

definition assertTicketAttemptBinding :: "execution_ticket \<Rightarrow> ledger_effect_attempt \<Rightarrow> ledger_error + unit" where
  "assertTicketAttemptBinding ticket attempt =
     guardE (\<not> (le_adapterId attempt \<noteq> et_adapterId ticket \<or> le_adapterDigest attempt \<noteq> et_adapterDigest ticket \<or>
         le_effectClass attempt \<noteq> et_effectClass ticket \<or> le_resolvedObjectId attempt \<noteq> et_resolvedObjectId ticket \<or>
         le_stateCommitmentHash attempt \<noteq> et_stateCommitmentHash ticket))
       (ledgerError ''Effect attempt is not exactly bound to its ticket'')"

definition ZERO_BUDGET_CHARGES :: budget_charges where
  "ZERO_BUDGET_CHARGES = \<lparr>bc_uniqueModifiedFiles = 0, bc_mutationBytes = 0, bc_testRuns = 0\<rparr>"

definition assertAttestationBinding ::
  "(jstr \<Rightarrow> jstr) \<Rightarrow> execution_ticket \<Rightarrow> ledger_effect_attempt \<Rightarrow> evidence_expectation \<Rightarrow> ledger_state \<Rightarrow>
   effect_attestation \<Rightarrow> ledger_error + unit" where
  "assertAttestationBinding nfc ticket attempt expectation status attestation =
     (let expectedStatus =
        (if status = LedgerCommitted then CommittedStatus
         else if status = LedgerResultUnavailable then CommittedResultUnavailableStatus
         else if status = LedgerUncertain then UncertainStatus else FailedNoEffectStatus);
        noEffect = (status = LedgerFailedPreEffect \<or> status = LedgerUncertain \<and> le_effectObservedAt attempt = None);
        expectedPostStateHash = (if noEffect then None else Some (ex_completionPostStateHash expectation));
        expectedBudgetCharges = (if noEffect then ZERO_BUDGET_CHARGES else ex_completionBudgetCharges expectation);
        expectedEvidenceLevel = (if noEffect then AttemptOnly else ex_completionEvidenceLevel expectation);
        expectedReconciliationRef = (if noEffect then None else ex_completionReconciliationRef expectation);
        unbound = ledgerError ''Attestation is not exactly bound to the attempt''
      in
     bindE (guardE (ea_status attestation = expectedStatus)
       (ledgerError ''Attestation status does not match ledger state'')) (\<lambda>_.
     bindE (guardE (\<not> (ea_ticketId attestation \<noteq> et_ticketId ticket \<or>
         ea_requestId attestation \<noteq> et_requestId ticket \<or> ea_contractHash attestation \<noteq> et_contractHash ticket \<or>
         ea_contractRevision attestation \<noteq> et_contractRevision ticket \<or>
         ea_actionHash attestation \<noteq> et_actionHash ticket \<or>
         ea_delegationLineageHash attestation \<noteq> ex_delegationLineageHash expectation \<or>
         ea_adapterId attestation \<noteq> et_adapterId ticket \<or> ea_adapterDigest attestation \<noteq> et_adapterDigest ticket \<or>
         ea_runnerId attestation \<noteq> ex_runnerId expectation \<or> ea_runnerDigest attestation \<noteq> ex_runnerDigest expectation \<or>
         ea_executorId attestation \<noteq> aud_executorId (et_audience ticket) \<or>
         ea_observerId attestation \<noteq> ex_observerId expectation \<or> ea_effectClass attestation \<noteq> et_effectClass ticket \<or>
         ea_registryDigest attestation \<noteq> et_registryDigest ticket \<or>
         ea_revocationEpoch attestation \<noteq> et_revocationEpoch ticket \<or>
         ea_preStateHash attestation \<noteq> ex_preStateHash expectation \<or>
         ea_postStateHash attestation \<noteq> expectedPostStateHash \<or>
         ea_idempotencyKey attestation \<noteq> ex_idempotencyKey expectation \<or>
         ea_resultHash attestation \<noteq> le_resultHash attempt)) unbound) (\<lambda>_.
     bindE (sameCanonical nfc (charges_json (ea_budgetCharges attestation)) (charges_json expectedBudgetCharges)) (\<lambda>same.
     guardE (\<not> (\<not> same \<or> ea_startedAt attestation \<noteq> le_preparedAt attempt \<or>
         ea_evidenceLevel attestation \<noteq> expectedEvidenceLevel \<or>
         ea_reconciliationRef attestation \<noteq> expectedReconciliationRef)) unbound))))"

definition assertTerminalShape ::
  "(jstr \<Rightarrow> jstr) \<Rightarrow> ledger_ticket_state \<Rightarrow> ledger_effect_attempt \<Rightarrow> evidence_expectation \<Rightarrow> evidence_admission \<Rightarrow>
   ledger_error + unit" where
  "assertTerminalShape nfc ticketState attempt expectation evidence =
     (let status = lt_status ticketState; name = spelling ledgerStates status in
     bindE (requireNonNull (lt_terminalAt ticketState) (js ''Terminal record lacks terminalAt'')) (\<lambda>terminalAt.
     bindE (if ev_status evidence = EvidenceReserved
            then Inl (ledgerError ''Terminal state and evidence admission intent must be atomic'')
            else requireNonNull (ev_attestation evidence)
              (js ''Terminal state and evidence admission intent must be atomic'')) (\<lambda>attestation.
     bindE (guardE (\<not> (ev_readyAt evidence \<noteq> Some terminalAt \<or> ea_finishedAt attestation \<noteq> terminalAt))
       (ledgerError ''Terminal and evidence timestamps must match'')) (\<lambda>_.
     bindE (assertAttestationBinding nfc (lt_ticket ticketState) attempt expectation status attestation) (\<lambda>_.
     if status = LedgerFailedPreEffect then
       bindE (requireAllNull
         [nullable (lt_consumedAt ticketState), nullable (le_commitPermittedAt attempt),
          nullable (le_effectObservedAt attempt), nullable (le_resultHash attempt)]
         ''FAILED_PRE_EFFECT cannot contain a consumed effect attempt'') (\<lambda>_.
       bindE (requireNonNull (lt_terminalReasonCode ticketState) (js ''FAILED_PRE_EFFECT requires a reason code'')) (\<lambda>_.
       Inr ()))
     else
       bindE (requireNonNull (lt_consumedAt ticketState) (name @ js '' requires consumedAt'')) (\<lambda>consumedAt.
       bindE (assertTimeOrder (le_preparedAt attempt) consumedAt ''Ticket consumption precedes PREPARED'') (\<lambda>_.
       bindE (assertTimeOrder consumedAt terminalAt ''Terminal state precedes COMMIT_PERMIT'') (\<lambda>_.
       bindE (guardE (le_commitPermittedAt attempt = Some consumedAt)
         (ledgerError ''Terminal permit timestamps must match'')) (\<lambda>_.
       bindE (if status = LedgerCommitted then
           bindE (guardE (lt_terminalReasonCode ticketState = None)
             (ledgerError ''COMMITTED cannot carry a failure reason'')) (\<lambda>_.
           bindE (requireNonNull (le_effectObservedAt attempt) (js ''COMMITTED requires observed effect completion'')) (\<lambda>_.
           bindE (requireNonNull (le_resultHash attempt) (js ''COMMITTED requires a result hash'')) (\<lambda>_. Inr ())))
         else bindE (requireNonNull (lt_terminalReasonCode ticketState) (name @ js '' requires a reason code''))
           (\<lambda>_. Inr ())) (\<lambda>_.
       bindE (if status = LedgerResultUnavailable then
           bindE (requireNonNull (le_effectObservedAt attempt)
             (js ''RESULT_UNAVAILABLE requires observed effect completion'')) (\<lambda>_. Inr ())
         else Inr ()) (\<lambda>_.
       guardE (\<not> (le_effectObservedAt attempt \<noteq> None \<and> le_effectObservedAt attempt \<noteq> Some terminalAt))
         (ledgerError ''Observed effect time must equal terminal time''))))))))))))"

definition assertAdmissionReceiptBinding ::
  "(jstr \<Rightarrow> jstr) \<Rightarrow> ledger_ticket_state \<Rightarrow> evidence_admission \<Rightarrow> effect_attestation \<Rightarrow> admission_receipt \<Rightarrow>
   ledger_error + unit" where
  "assertAdmissionReceiptBinding nfc ticketState evidence attestation receipt =
     (let unbound = ledgerError ''Evidence admission receipt is not exactly bound to its transaction'' in
     bindE (guardE (\<not> (rc_transactionId receipt \<noteq> et_ticketId (lt_ticket ticketState) \<or>
         rc_evidenceIntentId receipt \<noteq> ev_intentId evidence \<or>
         rc_attestationId receipt \<noteq> ev_attestationId evidence)) unbound) (\<lambda>_.
     bindE (sameCanonical nfc (attestation_json (rc_attestation receipt)) (attestation_json attestation)) (\<lambda>same.
     guardE (\<not> (\<not> same \<or> Some (rc_admittedAt receipt) \<noteq> ev_admittedAt evidence)) unbound)))"

text \<open>The second half of \<open>assertStateShape\<close>.\<close>

definition assertOutboxShape ::
  "(jstr \<Rightarrow> jstr) \<Rightarrow> ledger_ticket_state \<Rightarrow> evidence_admission \<Rightarrow> jstr \<Rightarrow> ledger_error + unit" where
  "assertOutboxShape nfc ticketState evidence updatedAt =
     (if ev_status evidence = EvidenceReserved then
       requireAllNull
         [nullJson attestation_json (ev_attestation evidence), nullable (ev_readyAt evidence),
          nullable (ev_admittedAt evidence), nullJson receipt_json (ev_admissionReceipt evidence)]
         ''RESERVED evidence contains admission fields''
     else
       bindE (requireNonNull (ev_attestation evidence) (js ''Evidence payload is missing'')) (\<lambda>attestation.
       bindE (requireNonNull (ev_readyAt evidence) (js ''Evidence readyAt is missing'')) (\<lambda>readyAt.
       bindE (guardE (ea_attestationId attestation = ev_attestationId evidence)
         (ledgerError ''Attached attestation ID was not pre-reserved'')) (\<lambda>_.
       if ev_status evidence = EvidencePending then
         bindE (requireAllNull
           [nullable (ev_admittedAt evidence), nullJson receipt_json (ev_admissionReceipt evidence)]
           ''PENDING evidence contains admission acknowledgement'') (\<lambda>_.
         guardE (updatedAt = readyAt) (ledgerError ''Pending evidence readiness must be latest update''))
       else
         bindE (requireNonNull (ev_admittedAt evidence) (js ''ADMITTED evidence lacks admittedAt'')) (\<lambda>admittedAt.
         bindE (requireNonNull (ev_admissionReceipt evidence) (js ''ADMITTED evidence lacks a verified receipt'')) (\<lambda>receipt.
         bindE (assertAdmissionReceiptBinding nfc ticketState evidence attestation receipt) (\<lambda>_.
         bindE (assertTimeOrder readyAt admittedAt ''Evidence admission precedes readiness'') (\<lambda>_.
         guardE (updatedAt = admittedAt) (ledgerError ''Admission acknowledgement must be latest update'')))))))))"

definition assertStateShape ::
  "(jstr \<Rightarrow> jstr) \<Rightarrow> ledger_ticket_state \<Rightarrow> ledger_effect_attempt \<Rightarrow> evidence_expectation \<Rightarrow> evidence_admission \<Rightarrow>
   jstr \<Rightarrow> ledger_error + unit" where
  "assertStateShape nfc ticketState attempt expectation evidence updatedAt =
     bindE (if lt_status ticketState = LedgerPrepared then
         bindE (requireAllNull
           [nullable (lt_consumedAt ticketState), nullable (lt_terminalAt ticketState),
            nullable (lt_terminalReasonCode ticketState), nullable (le_commitPermittedAt attempt),
            nullable (le_effectObservedAt attempt), nullable (le_resultHash attempt)]
           ''PREPARED record contains post-prepare fields'') (\<lambda>_.
         bindE (guardE (ev_status evidence = EvidenceReserved) (ledgerError ''PREPARED evidence must remain RESERVED'')) (\<lambda>_.
         guardE (updatedAt = le_preparedAt attempt) (ledgerError ''PREPARED update time must equal preparedAt'')))
       else if lt_status ticketState = LedgerCommitPermit then
         bindE (requireNonNull (lt_consumedAt ticketState) (js ''COMMIT_PERMIT requires consumedAt'')) (\<lambda>consumedAt.
         bindE (guardE (le_commitPermittedAt attempt = Some consumedAt)
           (ledgerError ''Permit timestamps must match exactly'')) (\<lambda>_.
         bindE (requireAllNull
           [nullable (lt_terminalAt ticketState), nullable (lt_terminalReasonCode ticketState),
            nullable (le_effectObservedAt attempt), nullable (le_resultHash attempt)]
           ''COMMIT_PERMIT record contains terminal fields'') (\<lambda>_.
         bindE (guardE (ev_status evidence = EvidenceReserved)
           (ledgerError ''COMMIT_PERMIT evidence must remain RESERVED'')) (\<lambda>_.
         guardE (updatedAt = consumedAt) (ledgerError ''COMMIT_PERMIT update time must equal consumedAt'')))))
       else assertTerminalShape nfc ticketState attempt expectation evidence) (\<lambda>_.
     assertOutboxShape nfc ticketState evidence updatedAt)"

definition reachableRevision :: "ledger_state \<Rightarrow> admission_state \<Rightarrow> int" where
  "reachableRevision state evidenceState =
     (if state = LedgerPrepared then 1
      else if state = LedgerCommitPermit then 2
      else if state = LedgerFailedPreEffect then (if evidenceState = EvidencePending then 2 else 3)
      else if evidenceState = EvidencePending then 3 else 4)"

definition assertReachableRevision :: "int \<Rightarrow> ledger_state \<Rightarrow> admission_state \<Rightarrow> ledger_error + unit" where
  "assertReachableRevision revision state evidenceState =
     guardE (revision = reachableRevision state evidenceState)
       (SafeCodingLedgerValidationError (js ''Ledger revision '' @ decInt revision @ js '' is unreachable for '' @
         spelling ledgerStates state @ js ''/'' @ spelling admissionStates evidenceState))"

section \<open>Records\<close>

definition ledgerKeys :: "string list" where
  "ledgerKeys =
     [''kind'', ''version'', ''transactionId'', ''revision'', ''createdAt'', ''updatedAt'', ''ticketState'',
      ''effectAttempt'', ''evidenceExpectation'', ''evidenceAdmission'']"

definition validateSafeCodingLedgerRecord :: "(jstr \<Rightarrow> jstr) \<Rightarrow> jsval \<Rightarrow> ledger_error + ledger_record" where
  "validateSafeCodingLedgerRecord nfc value =
     bindE (assertBoundedCanonicalData nfc value ''Ledger record'') (\<lambda>_.
     bindE (requireRecord_ledger value ''Ledger record'') (\<lambda>record.
     bindE (requireExactKeys_ledger record ledgerKeys ''Ledger record'') (\<lambda>_.
     bindE (requireLiteral_ledger (getProp record ''kind'') (JStr (js SAFE_CODING_LEDGER_RECORD_KIND)) ''Ledger record kind'') (\<lambda>_.
     bindE (requireLiteral_ledger (getProp record ''version'') (jint SAFE_CODING_LEDGER_RECORD_VERSION) ''Ledger record version'') (\<lambda>_.
     bindE (requireIdentifier_ledger (getProp record ''transactionId'') ''Ledger transaction ID'') (\<lambda>transactionId.
     bindE (requirePositiveInteger_ledger (getProp record ''revision'') ''Ledger revision'') (\<lambda>revision.
     bindE (requireTimestamp_ledger (getProp record ''createdAt'') ''Ledger createdAt'') (\<lambda>createdAt.
     bindE (requireTimestamp_ledger (getProp record ''updatedAt'') ''Ledger updatedAt'') (\<lambda>updatedAt.
     bindE (assertTimeOrder createdAt updatedAt ''Ledger updatedAt precedes createdAt'') (\<lambda>_.
     bindE (validateTicketState nfc (getProp record ''ticketState'')) (\<lambda>ticketState.
     bindE (validateEffectAttempt (getProp record ''effectAttempt'')) (\<lambda>effectAttempt.
     bindE (validateSafeCodingEvidenceExpectation (getProp record ''evidenceExpectation'')) (\<lambda>evidenceExpectation.
     bindE (validateEvidenceAdmission nfc (getProp record ''evidenceAdmission'')) (\<lambda>evidenceAdmission.
     bindE (guardE (transactionId = et_ticketId (lt_ticket ticketState))
       (ledgerError ''Ledger transaction ID must equal ticket ID'')) (\<lambda>_.
     bindE (assertTicketAttemptBinding (lt_ticket ticketState) effectAttempt) (\<lambda>_.
     bindE (guardE (ex_observerId evidenceExpectation \<noteq> aud_executorId (et_audience (lt_ticket ticketState)))
       (ledgerError ''Evidence observer principal must be distinct from the ticket executor'')) (\<lambda>_.
     bindE (guardE (createdAt = le_preparedAt effectAttempt)
       (ledgerError ''Effect preparedAt must equal record createdAt'')) (\<lambda>_.
     bindE (assertTimeOrder createdAt updatedAt ''Ledger update time moved backwards'') (\<lambda>_.
     bindE (assertStateShape nfc ticketState effectAttempt evidenceExpectation evidenceAdmission updatedAt) (\<lambda>_.
     bindE (assertReachableRevision revision (lt_status ticketState) (ev_status evidenceAdmission)) (\<lambda>_.
     Inr \<lparr>lr_transactionId = transactionId, lr_revision = revision, lr_createdAt = createdAt, lr_updatedAt = updatedAt,
          lr_ticketState = ticketState, lr_effectAttempt = effectAttempt,
          lr_evidenceExpectation = evidenceExpectation, lr_evidenceAdmission = evidenceAdmission\<rparr>)))))))))))))))))))))"

text \<open>A value of type \<open>SafeCodingLedgerRecord\<close> is passed as the record; the validator receives its JSON form.\<close>

definition cloneSafeCodingLedgerRecord :: "(jstr \<Rightarrow> jstr) \<Rightarrow> ledger_record \<Rightarrow> ledger_error + ledger_record" where
  "cloneSafeCodingLedgerRecord nfc record =
     bindE (validateSafeCodingLedgerRecord nfc (ledger_json record)) (\<lambda>validated.
     bindE (catchE (canonicalizeJson nfc (ledger_json validated)) LedgerPassed) (\<lambda>canonical.
     case jsonParse canonical of
       None \<Rightarrow> Inl LedgerSyntaxError
     | Some parsed \<Rightarrow> validateSafeCodingLedgerRecord nfc parsed))"

definition SAFE_CODING_LEDGER_IDENTITY_KEY_MAX_LENGTH :: nat where
  "SAFE_CODING_LEDGER_IDENTITY_KEY_MAX_LENGTH = 288"

definition safeCodingLedgerIdentityKeys :: "(jstr \<Rightarrow> jstr) \<Rightarrow> ledger_record \<Rightarrow> ledger_error + jstr list" where
  "safeCodingLedgerIdentityKeys nfc record =
     bindE (validateSafeCodingLedgerRecord nfc (ledger_json record)) (\<lambda>validated.
     let ticket = lt_ticket (lr_ticketState validated);
       keys = sort
         ([js ''attestation:'' @ ev_attestationId (lr_evidenceAdmission validated),
           js ''attempt:'' @ le_attemptId (lr_effectAttempt validated),
           js ''evidence-intent:'' @ ev_intentId (lr_evidenceAdmission validated),
           js ''nonce:'' @ et_nonce ticket,
           js ''request:'' @ et_requestId ticket,
           js ''reservation:'' @ et_budgetReservationId ticket,
           js ''ticket:'' @ et_ticketId ticket] @
          (case ex_idempotencyKey (lr_evidenceExpectation validated) of
             None \<Rightarrow> [] | Some k \<Rightarrow> [js ''idempotency:'' @ k]))
     in bindE (guardE (\<not> list_ex (\<lambda>key. length key > SAFE_CODING_LEDGER_IDENTITY_KEY_MAX_LENGTH) keys)
          (ledgerError ''Ledger identity key exceeds its persisted bound'')) (\<lambda>_. Inr keys))"

end
