(* ===== verification/Ledger_Validation.thy ===== *)
theory Ledger_Validation
  imports Ledger_Records
begin

text \<open>
  What the validators of the ledger's records accept: the primitive checks, then the bound on the size of the
  data, then each part of a record. Every part is characterised as its contracts counterparts are: the validator returns
  a value exactly for the JSON form of a well-formed value, up to the order of keys.
\<close>

section \<open>Primitive checks\<close>

lemma requireRecord_ledger_Inr:
  "requireRecord_ledger v label = Inr fs \<longleftrightarrow> requireRecord v label = Inr fs"
  by (auto simp: requireRecord_ledger_def requireRecord_def split: jsval.splits if_splits)

lemma requireExactKeys_ledger_Inr:
  "requireExactKeys_ledger fs ks label = Inr u \<longleftrightarrow> exact_keys fs ks"
  by (simp add: requireExactKeys_ledger_def exact_keys_def result_simps)

lemma requireEnum_ledger_Inr:
  "requireEnum_ledger v table label = Inr c \<longleftrightarrow> requireEnum v table label = Inr c"
  by (auto simp: requireEnum_ledger_def requireEnum_def split: jsval.splits option.splits)

lemma identifierText_iff: "length s \<noteq> 0 \<and> \<not> length s > 256 \<and> identifierText s \<longleftrightarrow> IDENTIFIER_PATTERN s"
  by (cases s) (auto simp: identifierText_def IDENTIFIER_PATTERN_def)

lemma requireIdentifier_ledger_Inr:
  "requireIdentifier_ledger v label = Inr s \<longleftrightarrow> v = JStr s \<and> IDENTIFIER_PATTERN s"
  unfolding requireIdentifier_ledger_def Let_def identifierText_iff [symmetric]
  by (auto split: jsval.splits)

lemma requireUuid_ledger_Inr: "requireUuid_ledger v label = Inr s \<longleftrightarrow> v = JStr s \<and> ledgerUuid s"
  by (auto simp: requireUuid_ledger_def Let_def split: jsval.splits)

lemma requireDigest_ledger_Inr: "requireDigest_ledger v label = Inr s \<longleftrightarrow> v = JStr s \<and> SHA256_PATTERN s"
  by (auto simp: requireDigest_ledger_def Let_def split: jsval.splits)

definition ledger_stamp :: "jstr \<Rightarrow> bool" where
  "ledger_stamp s \<longleftrightarrow> timestampMilliseconds_ledger s \<noteq> None"

lemma requireTimestamp_ledger_Inr: "requireTimestamp_ledger v label = Inr s \<longleftrightarrow> v = JStr s \<and> ledger_stamp s"
  by (auto simp: requireTimestamp_ledger_def ledger_stamp_def Let_def split: jsval.splits)

lemma requireNullable_ledger_Inr:
  "requireNullableIdentifier_ledger v label = Inr x \<longleftrightarrow> v = nullable x \<and> pred_option IDENTIFIER_PATTERN x"
  "requireNullableDigest_ledger v label = Inr x \<longleftrightarrow> v = nullable x \<and> pred_option SHA256_PATTERN x"
  "requireNullableTimestamp_ledger v label = Inr x \<longleftrightarrow> v = nullable x \<and> pred_option ledger_stamp x"
  by (cases x; auto simp: requireNullableIdentifier_ledger_def requireNullableDigest_ledger_def
      requireNullableTimestamp_ledger_def nullable_def result_simps requireIdentifier_ledger_Inr
      requireDigest_ledger_Inr requireTimestamp_ledger_Inr)+

lemma requirePositiveInteger_ledger_Inr:
  "requirePositiveInteger_ledger v label = Inr i \<longleftrightarrow> v = jint i \<and> safe_int i \<and> 0 < i"
proof (cases v)
  case (JNum n)
  then show ?thesis
    by (cases n) (auto simp: requirePositiveInteger_ledger_def Let_def)
qed (auto simp: requirePositiveInteger_ledger_def Let_def)

lemma requireNonNegativeInteger_ledger_Inr:
  "requireNonNegativeInteger_ledger v label = Inr i \<longleftrightarrow> requireNonNegativeInteger v label = Inr i"
  unfolding requireNonNegativeInteger_ledger_def requireNonNegativeInteger_def Let_def
  by (cases v) (auto simp: result_simps)

lemma requireLiteral_ledger_Inr: "requireLiteral_ledger v e label = Inr u \<longleftrightarrow> v = e"
  by (simp add: requireLiteral_ledger_def result_simps)

lemma ledger_tables:
  "requireEnum v ledgerStates label = Inr s \<longleftrightarrow> v = JStr (spelling ledgerStates s)"
  "requireEnum v admissionStates label = Inr a \<longleftrightarrow> v = JStr (spelling admissionStates a)"
  "requireEnum v effectClasses label = Inr c \<longleftrightarrow> v = JStr (spelling effectClasses c)"
  by (rule requireEnum_spelling; cases s; cases a; cases c;
      simp add: ledgerStates_def admissionStates_def effectClasses_def)+

lemma completion_table:
  "requireEnum v completionLevels label = Inr e \<longleftrightarrow> e \<noteq> AttemptOnly \<and> v = JStr (spelling evidenceLevels e)"
proof -
  have "requireEnum v completionLevels label = Inr e \<longleftrightarrow> (\<exists>n. (n, e) \<in> set completionLevels \<and> v = JStr (js n))"
    by (rule requireEnum_Inr) (simp add: completionLevels_def)
  then show ?thesis
    by (cases e) (auto simp: completionLevels_def evidenceLevels_def spelling_def)
qed

lemmas ledger_leaf = requireIdentifier_ledger_Inr requireUuid_ledger_Inr requireDigest_ledger_Inr
  requireTimestamp_ledger_Inr requireNullable_ledger_Inr requirePositiveInteger_ledger_Inr
  requireNonNegativeInteger_ledger_Inr requireLiteral_ledger_Inr requireEnum_ledger_Inr ledger_tables completion_table

lemmas open_ledger = result_simps requireRecord_ledger_Inr requireRecord_Inr requireExactKeys_ledger_Inr

section \<open>Parts of canonicalizable data\<close>

lemma canonicalizable_field:
  assumes "canonicalizable nfc (jobj fs)" "(k, w) \<in> set fs"
  shows "canonicalizable nfc w"
proof -
  have "node_count w \<le> sum_list (map (\<lambda>f. node_count (snd f)) fs)"
    using assms(2) by (intro member_le_sum_list) (auto simp: rev_image_eqI)
  moreover have "length (field_text (k, w)) \<le> sum_list (map (\<lambda>f. length (field_text f)) fs)"
    using assms(2) by (intro member_le_sum_list) (auto simp: rev_image_eqI)
  moreover have "Suc (jdepth w) \<le> jdepth (jobj fs)"
    using foldr_max_le [of "map (\<lambda>f. Suc (jdepth (snd f))) fs" "jdepth (jobj fs)"] assms(2) by force
  ultimately show ?thesis
    using assms unfolding canonicalizable_def length_render_JObj by (force simp: field_text_def)
qed

lemma canonicalizable_getProp:
  assumes "canonicalizable nfc (jobj fs)" "exact_keys fs ks" "distinct ks" "k \<in> set ks"
  shows "canonicalizable nfc (getProp fs k)"
  using mset_eq_setD [OF exact_keys_mset(1) [OF assms(2,3)]] assms(1,4) by (auto intro: canonicalizable_field)

lemma canonicalizable_jrec:
  "canonicalizable nfc (jrec kvs) \<Longrightarrow> (k, w) \<in> set kvs \<Longrightarrow> canonicalizable nfc w"
  unfolding jrec_def by (rule canonicalizable_field) (auto simp: jfields_def)

lemma canonicalizable_cong: "sortFields v = sortFields w \<Longrightarrow> canonicalizable nfc v = canonicalizable nfc w"
  by (metis canonicalizable_sortFields)

section \<open>The bound on the size of the data\<close>

text \<open>The UTF-8 length without the early exit, the text of a value, and how wide its containers are.\<close>

fun utf8Length :: "jstr \<Rightarrow> nat" where
  "utf8Length [] = 0"
| "utf8Length [code] = (if code \<le> 0x7f then 1 else if code \<le> 0x7ff then 2 else 3)"
| "utf8Length (code # low # rest) =
     (if code \<le> 0x7f then 1 + utf8Length (low # rest)
      else if code \<le> 0x7ff then 2 + utf8Length (low # rest)
      else if 0xd800 \<le> code \<and> code \<le> 0xdbff \<and> 0xdc00 \<le> low \<and> low \<le> 0xdfff then 4 + utf8Length rest
      else 3 + utf8Length (low # rest))"

fun textBytes :: "jsval \<Rightarrow> nat" where
  "textBytes (JStr s) = utf8Length s"
| "textBytes (JArr _ xs) = sum_list (map textBytes xs)"
| "textBytes (JObj _ fs) = sum_list (map (\<lambda>f. textBytes (snd f)) fs)"
| "textBytes _ = 0"

fun narrow :: "jsval \<Rightarrow> bool" where
  "narrow (JArr sh xs) = (sh = plain_shape \<and> length xs < 64 \<and> (\<forall>x \<in> set xs. x \<noteq> JAccessor \<and> narrow x))"
| "narrow (JObj sh fs) = (sh = plain_shape \<and> length fs \<le> 64 \<and> (\<forall>f \<in> set fs. snd f \<noteq> JAccessor \<and> narrow (snd f)))"
| "narrow _ = True"

lemma boundedUtf8_le:
  "boundedUtf8ByteLength s remaining b \<le> remaining \<longleftrightarrow> b + utf8Length s \<le> remaining"
  "b + utf8Length s \<le> remaining \<Longrightarrow> boundedUtf8ByteLength s remaining b = b + utf8Length s"
  by (induction s remaining b rule: boundedUtf8ByteLength.induct) (auto simp: not_le split: if_splits)

lemma boundedScan_Inr:
  "seen \<le> maximumNodes \<Longrightarrow> bytes \<le> maximumStringBytes \<Longrightarrow>
   boundedScan label pending seen bytes = Inr u \<longleftrightarrow>
     seen + sum_list (map (\<lambda>p. node_count (fst p)) pending) \<le> maximumNodes \<and>
     bytes + sum_list (map (\<lambda>p. textBytes (fst p)) pending) \<le> maximumStringBytes \<and>
     (\<forall>p \<in> set pending. snd p + jdepth (fst p) \<le> maximumDepth \<and> narrow (fst p))"
proof (induction label pending seen bytes rule: boundedScan.induct)
  case (2 label v d pending seen bytes)
  have n: "0 < node_count v" by simp
  show ?case
  proof (cases v)
    case (JStr s)
    then show ?thesis
      using 2 boundedUtf8_le [where s = s and remaining = "maximumStringBytes - bytes" and b = 0]
      by (auto simp: not_less)
  next
    case (JArr sh xs)
    then show ?thesis
      using 2 by (auto simp: not_less comp_def plain_shape_iff maximumObjectKeys_def rev_map [symmetric] sum_list_rev depth_bound_iff
        add.assoc ball_Un)
  next
    case (JObj sh fs)
    then show ?thesis
      using 2 by (auto simp: not_less comp_def plain_shape_iff maximumObjectKeys_def rev_map [symmetric] sum_list_rev depth_bound_iff
        list_ex_iff add.assoc ball_Un)
  qed (use 2 in \<open>auto simp: not_less\<close>)
qed auto

declare boundedScan.simps [simp del]

definition within_bounds :: "jsval \<Rightarrow> bool" where
  "within_bounds v \<longleftrightarrow> node_count v \<le> 512 \<and> jdepth v \<le> 16 \<and> textBytes v \<le> 262144 \<and> narrow v"

lemma assertBounded_Inr:
  "assertBoundedCanonicalData nfc v label = Inr u \<longleftrightarrow> within_bounds v \<and> canonicalizable nfc v"
  unfolding assertBoundedCanonicalData_def within_bounds_def
  by (simp add: result_simps boundedScan_Inr) (auto simp: maximumNodes_def maximumDepth_def maximumStringBytes_def)

lemma textBytes_sortFields [simp]: "textBytes (sortFields v) = textBytes v"
proof (induction v)
  case (JArr sh xs)
  then show ?case
    by (simp add: comp_def cong: map_cong)
next
  case (JObj sh fs)
  then have "textBytes (sortFields (snd f)) = textBytes (snd f)" if "f \<in> set fs" for f
    using that by (metis snds.intros)
  then show ?case
    by (simp add: sort_key_fst_map sum_list_sort_key comp_def cong: map_cong)
qed auto

lemma narrow_sortFields [simp]: "narrow (sortFields v) = narrow v"
proof (induction v)
  case (JObj sh fs)
  then have "narrow (sortFields (snd f)) = narrow (snd f)" if "f \<in> set fs" for f
    using that by (metis snds.intros)
  then show ?case
    by (auto simp: sort_key_fst_map)
qed auto

lemma within_bounds_sortFields [simp]: "within_bounds (sortFields v) = within_bounds v"
  by (simp add: within_bounds_def)

section \<open>Well-formed parts\<close>

definition wf_ticketState :: "(jstr \<Rightarrow> jstr) \<Rightarrow> ledger_ticket_state \<Rightarrow> bool" where
  "wf_ticketState nfc t \<longleftrightarrow>
     wf_ticket nfc (lt_ticket t) \<and> pred_option ledger_stamp (lt_consumedAt t) \<and>
     pred_option ledger_stamp (lt_terminalAt t) \<and> pred_option IDENTIFIER_PATTERN (lt_terminalReasonCode t)"

definition wf_effectAttempt :: "ledger_effect_attempt \<Rightarrow> bool" where
  "wf_effectAttempt a \<longleftrightarrow>
     IDENTIFIER_PATTERN (le_attemptId a) \<and> IDENTIFIER_PATTERN (le_adapterId a) \<and> SHA256_PATTERN (le_adapterDigest a) \<and>
     IDENTIFIER_PATTERN (le_resolvedObjectId a) \<and> SHA256_PATTERN (le_stateCommitmentHash a) \<and>
     ledger_stamp (le_preparedAt a) \<and> pred_option ledger_stamp (le_commitPermittedAt a) \<and>
     pred_option ledger_stamp (le_effectObservedAt a) \<and> pred_option SHA256_PATTERN (le_resultHash a)"

definition wf_expectation :: "evidence_expectation \<Rightarrow> bool" where
  "wf_expectation x \<longleftrightarrow>
     SHA256_PATTERN (ex_delegationLineageHash x) \<and> IDENTIFIER_PATTERN (ex_runnerId x) \<and>
     SHA256_PATTERN (ex_runnerDigest x) \<and> IDENTIFIER_PATTERN (ex_observerId x) \<and>
     pred_option SHA256_PATTERN (ex_preStateHash x) \<and> SHA256_PATTERN (ex_completionPostStateHash x) \<and>
     pred_option IDENTIFIER_PATTERN (ex_idempotencyKey x) \<and> wf_charges (ex_completionBudgetCharges x) \<and>
     ex_completionEvidenceLevel x \<noteq> AttemptOnly \<and> pred_option IDENTIFIER_PATTERN (ex_completionReconciliationRef x) \<and>
     (ex_completionEvidenceLevel x = IndependentlyReconciled \<longleftrightarrow> ex_completionReconciliationRef x \<noteq> None) \<and>
     (ex_completionEvidenceLevel x \<in> {LocalStateReconciled, IndependentlyReconciled} \<longrightarrow> ex_preStateHash x \<noteq> None)"

definition wf_receipt :: "(jstr \<Rightarrow> jstr) \<Rightarrow> admission_receipt \<Rightarrow> bool" where
  "wf_receipt nfc r \<longleftrightarrow>
     IDENTIFIER_PATTERN (rc_transactionId r) \<and> IDENTIFIER_PATTERN (rc_evidenceIntentId r) \<and>
     ledgerUuid (rc_attestationId r) \<and> wf_attestation nfc (rc_attestation r) \<and> SHA256_PATTERN (rc_envelopeHash r) \<and>
     IDENTIFIER_PATTERN (rc_evidenceLedgerId r) \<and> safe_int (rc_evidenceSequence r) \<and> 0 < rc_evidenceSequence r \<and>
     SHA256_PATTERN (rc_evidenceHeadHash r) \<and> IDENTIFIER_PATTERN (rc_checkpointPublicationId r) \<and>
     SHA256_PATTERN (rc_checkpointDigest r) \<and> SHA256_PATTERN (rc_receiptHash r) \<and> ledger_stamp (rc_admittedAt r)"

definition wf_admission :: "(jstr \<Rightarrow> jstr) \<Rightarrow> evidence_admission \<Rightarrow> bool" where
  "wf_admission nfc e \<longleftrightarrow>
     IDENTIFIER_PATTERN (ev_intentId e) \<and> ledgerUuid (ev_attestationId e) \<and>
     pred_option (wf_attestation nfc) (ev_attestation e) \<and> pred_option ledger_stamp (ev_readyAt e) \<and>
     pred_option ledger_stamp (ev_admittedAt e) \<and> pred_option (wf_receipt nfc) (ev_admissionReceipt e)"

text \<open>A canonicalizable value either is a record with the given keys, and then its form is decided field by field,
  or has no such form.\<close>

lemma record_cases:
  assumes "canonicalizable nfc v" "distinct ks"
  obtains (fits) fs where "\<And>l. requireRecord v l = Inr fs" "exact_keys fs ks"
      "\<And>k. k \<in> set ks \<Longrightarrow> canonicalizable nfc (getProp fs k)"
      "\<And>kvs. map fst kvs = ks \<Longrightarrow> JAccessor \<notin> snd ` set kvs \<Longrightarrow>
        sortFields v = sortFields (jrec kvs) \<longleftrightarrow> list_all (\<lambda>(k, w). sortFields (getProp fs k) = sortFields w) kvs"
  | (alien) "\<And>fs l. requireRecord v l = Inr fs \<Longrightarrow> \<not> exact_keys fs ks"
      "\<And>kvs. map fst kvs = ks \<Longrightarrow> JAccessor \<notin> snd ` set kvs \<Longrightarrow> sortFields v \<noteq> sortFields (jrec kvs)"
proof (cases "\<exists>fs. requireRecord v [] = Inr fs \<and> exact_keys fs ks")
  case True
  then obtain fs where fs: "v = jobj fs" "\<And>l. requireRecord v l = Inr fs" "exact_keys fs ks"
    by (auto simp: requireRecord_Inr)
  have "sortFields v = sortFields (jrec kvs) \<longleftrightarrow> list_all (\<lambda>(k, w). sortFields (getProp fs k) = sortFields w) kvs"
    if "map fst kvs = ks" "JAccessor \<notin> snd ` set kvs" for kvs
  proof
    assume "sortFields v = sortFields (jrec kvs)"
    then show "list_all (\<lambda>(k, w). sortFields (getProp fs k) = sortFields w) kvs"
      using that assms(2) fs(2) by (auto elim!: record_invert)
  next
    assume "list_all (\<lambda>(k, w). sortFields (getProp fs k) = sortFields w) kvs"
    then show "sortFields v = sortFields (jrec kvs)"
      unfolding fs(1) using that assms(2) fs(3) by (intro record_shape_all) auto
  qed
  moreover have "canonicalizable nfc (getProp fs k)" if "k \<in> set ks" for k
    using canonicalizable_getProp [OF _ fs(3) assms(2) that] assms(1) fs(1) by blast
  ultimately show thesis
    using fits fs by blast
next
  case False
  have "sortFields v \<noteq> sortFields (jrec kvs)" if "map fst kvs = ks" "JAccessor \<notin> snd ` set kvs" for kvs
  proof
    assume "sortFields v = sortFields (jrec kvs)"
    then show False
      by (rule record_invert) (use False that assms(2) in \<open>auto simp: requireExactKeys_Inr\<close>)
  qed
  moreover have "\<not> exact_keys fs ks" if "requireRecord v l = Inr fs" for fs l
    using False that by (simp add: requireRecord_Inr)
  ultimately show thesis
    using alien by blast
qed

lemma canonicalizable_int:
  "canonicalizable nfc w \<Longrightarrow> requireNonNegativeInteger w l = Inr i \<longleftrightarrow> w = jint i \<and> counter i"
  by (auto simp: canonicalizable_def requireNonNegativeInteger_Inr counter_def)

lemma charges_ledger_exact:
  assumes "canonicalizable nfc v"
  shows "validateBudgetCharges_ledger v l = Inr c \<longleftrightarrow> wf_charges c \<and> sortFields v = sortFields (charges_json c)"
proof -
  have "distinct [''uniqueModifiedFiles'', ''mutationBytes'', ''testRuns'']"
    by simp
  with assms show ?thesis
  proof (cases rule: record_cases)
    case (fits fs)
    then show ?thesis
      by (cases c) (auto simp: validateBudgetCharges_ledger_def open_ledger charges_json_def
        wf_charges_def requireNonNegativeInteger_ledger_Inr canonicalizable_int [of nfc])
  next
    case alien
    then show ?thesis
      by (auto simp: validateBudgetCharges_ledger_def requireRecord_ledger_Inr requireExactKeys_ledger_Inr result_simps
        charges_json_def)
  qed
qed

lemma ticket_validator:
  "canonicalizable nfc v \<Longrightarrow>
   validateSafeCodingExecutionTicket nfc v = Inr t \<longleftrightarrow> wf_ticket nfc t \<and> sortFields v = sortFields (ticket_json t)"
  using ticket_shape ticket_complete by blast

lemma attestation_validator:
  "canonicalizable nfc v \<Longrightarrow>
   validateSafeCodingEffectAttestation nfc v = Inr a \<longleftrightarrow>
     wf_attestation nfc a \<and> sortFields v = sortFields (attestation_json a)"
  using attestation_shape attestation_complete by blast

lemma ledger_not_accessor [simp]:
  "ticket_json t \<noteq> JAccessor" "attestation_json a \<noteq> JAccessor" "ticketState_json ts \<noteq> JAccessor"
  "effectAttempt_json ef \<noteq> JAccessor" "expectation_json x \<noteq> JAccessor" "receipt_json r \<noteq> JAccessor"
  "admission_json ad \<noteq> JAccessor" "nullJson attestation_json oa \<noteq> JAccessor" "nullJson receipt_json rc \<noteq> JAccessor"
  by (simp_all add: ticket_json_def attestation_json_def ticketState_json_def effectAttempt_json_def
      expectation_json_def receipt_json_def admission_json_def nullJson_def split: option.splits)

lemmas ledger_not_accessor_sym [simp] = ledger_not_accessor [symmetric]

lemma ticketState_exact:
  assumes "canonicalizable nfc v"
  shows "validateTicketState nfc v = Inr r \<longleftrightarrow> wf_ticketState nfc r \<and> sortFields v = sortFields (ticketState_json r)"
proof -
  have "distinct ticketStateKeys"
    by (simp add: ticketStateKeys_def)
  with assms show ?thesis
  proof (cases rule: record_cases)
    case (fits fs)
    note opened = fits(3) [unfolded ticketStateKeys_def] fits(4) [unfolded ticketStateKeys_def]
    show ?thesis
      by (cases r) (auto simp: validateTicketState_def open_ledger ticketState_json_def ticketStateFields_def wf_ticketState_def ledger_leaf fits(1,2) opened ticket_validator)
  next
    case alien
    note opened = alien(2) [unfolded ticketStateKeys_def]
    show ?thesis
      by (auto simp: validateTicketState_def requireRecord_ledger_Inr requireExactKeys_ledger_Inr result_simps alien(1) opened
        ticketState_json_def ticketStateFields_def)
  qed
qed

lemma effectAttempt_exact:
  assumes "canonicalizable nfc v"
  shows "validateEffectAttempt v = Inr r \<longleftrightarrow> wf_effectAttempt r \<and> sortFields v = sortFields (effectAttempt_json r)"
proof -
  have "distinct effectAttemptKeys"
    by (simp add: effectAttemptKeys_def)
  with assms show ?thesis
  proof (cases rule: record_cases)
    case (fits fs)
    note opened = fits(3) [unfolded effectAttemptKeys_def] fits(4) [unfolded effectAttemptKeys_def]
    show ?thesis
      by (cases r) (auto simp: validateEffectAttempt_def open_ledger effectAttempt_json_def effectAttemptFields_def wf_effectAttempt_def ledger_leaf fits(1,2) opened)
  next
    case alien
    note opened = alien(2) [unfolded effectAttemptKeys_def]
    show ?thesis
      by (auto simp: validateEffectAttempt_def requireRecord_ledger_Inr requireExactKeys_ledger_Inr result_simps alien(1) opened
        effectAttempt_json_def effectAttemptFields_def)
  qed
qed

lemma expectation_exact:
  assumes "canonicalizable nfc v"
  shows "validateSafeCodingEvidenceExpectation v = Inr r \<longleftrightarrow> wf_expectation r \<and> sortFields v = sortFields (expectation_json r)"
proof -
  have "distinct expectationKeys"
    by (simp add: expectationKeys_def)
  with assms show ?thesis
  proof (cases rule: record_cases)
    case (fits fs)
    note opened = fits(3) [unfolded expectationKeys_def] fits(4) [unfolded expectationKeys_def]
    show ?thesis
      by (cases r) (auto simp: validateSafeCodingEvidenceExpectation_def open_ledger expectation_json_def expectationFields_def wf_expectation_def ledger_leaf fits(1,2) opened charges_ledger_exact [of nfc])
  next
    case alien
    note opened = alien(2) [unfolded expectationKeys_def]
    show ?thesis
      by (auto simp: validateSafeCodingEvidenceExpectation_def requireRecord_ledger_Inr requireExactKeys_ledger_Inr result_simps alien(1) opened
        expectation_json_def expectationFields_def)
  qed
qed

lemma nullableAttestation_exact:
  "canonicalizable nfc v \<Longrightarrow> validateNullableAttestation nfc v = Inr x \<longleftrightarrow>
     pred_option (wf_attestation nfc) x \<and> sortFields v = sortFields (nullJson attestation_json x)"
  by (cases x) (auto simp: validateNullableAttestation_def nullJson_def result_simps attestation_validator
      attestation_json_def jrec_def)

lemma requiredAttestation_exact:
  "canonicalizable nfc v \<Longrightarrow> validateRequiredAttestation nfc v l = Inr a \<longleftrightarrow>
     wf_attestation nfc a \<and> sortFields v = sortFields (attestation_json a)"
  by (simp add: validateRequiredAttestation_def result_simps attestation_validator)

lemma receipt_exact:
  assumes "canonicalizable nfc v"
  shows "validateSafeCodingEvidenceAdmissionReceipt nfc v = Inr r \<longleftrightarrow> wf_receipt nfc r \<and> sortFields v = sortFields (receipt_json r)"
proof -
  have "distinct receiptKeys"
    by (simp add: receiptKeys_def)
  with assms show ?thesis
  proof (cases rule: record_cases)
    case (fits fs)
    note opened = fits(3) [unfolded receiptKeys_def] fits(4) [unfolded receiptKeys_def]
    show ?thesis
      by (cases r) (auto simp: validateSafeCodingEvidenceAdmissionReceipt_def open_ledger receipt_json_def receiptFields_def wf_receipt_def ledger_leaf fits(1,2) opened requiredAttestation_exact)
  next
    case alien
    note opened = alien(2) [unfolded receiptKeys_def]
    show ?thesis
      by (auto simp: validateSafeCodingEvidenceAdmissionReceipt_def requireRecord_ledger_Inr requireExactKeys_ledger_Inr result_simps alien(1) opened
        receipt_json_def receiptFields_def)
  qed
qed

lemma nullableReceipt_exact:
  "canonicalizable nfc v \<Longrightarrow>
   (if v = JNull then Inr None else bindE (validateSafeCodingEvidenceAdmissionReceipt nfc v) (\<lambda>r. Inr (Some r))) = Inr x \<longleftrightarrow>
     pred_option (wf_receipt nfc) x \<and> sortFields v = sortFields (nullJson receipt_json x)"
  by (cases x) (auto simp: nullJson_def result_simps receipt_exact receipt_json_def jrec_def)

lemma admission_exact:
  assumes "canonicalizable nfc v"
  shows "validateEvidenceAdmission nfc v = Inr r \<longleftrightarrow> wf_admission nfc r \<and> sortFields v = sortFields (admission_json r)"
proof -
  have "distinct admissionKeys"
    by (simp add: admissionKeys_def)
  with assms show ?thesis
  proof (cases rule: record_cases)
    case (fits fs)
    note opened = fits(3) [unfolded admissionKeys_def] fits(4) [unfolded admissionKeys_def]
    have receipt: "canonicalizable nfc (getProp fs ''admissionReceipt'')"
      by (rule opened) simp
    show ?thesis
      unfolding validateEvidenceAdmission_def bindE_eq_Inr [where m = "if _ then _ else _"] nullableReceipt_exact [OF receipt]
      by (cases r) (auto simp: open_ledger admission_json_def admissionFields_def wf_admission_def ledger_leaf
          fits(1,2) opened nullableAttestation_exact nullableReceipt_exact [OF receipt])
  next
    case alien
    note opened = alien(2) [unfolded admissionKeys_def]
    show ?thesis
      by (auto simp: validateEvidenceAdmission_def requireRecord_ledger_Inr requireExactKeys_ledger_Inr result_simps alien(1)
        opened admission_json_def admissionFields_def)
  qed
qed

section \<open>Comparing canonical texts\<close>

lemma sameCanonical_Inr:
  "canonicalizable nfc v \<Longrightarrow> canonicalizable nfc w \<Longrightarrow> wf_jsval v \<Longrightarrow> wf_jsval w \<Longrightarrow>
   sameCanonical nfc v w = Inr (sortFields v = sortFields w)"
proof -
  assume *: "canonicalizable nfc v" "canonicalizable nfc w" "wf_jsval v" "wf_jsval w"
  then have c: "canonicalizeJson nfc v = Inr (render v)" "canonicalizeJson nfc w = Inr (render w)"
    by (simp_all add: canonicalizeJson_Inr)
  have "render v = render w \<longleftrightarrow> sortFields v = sortFields w"
    using * render_inj [of nfc v w] by (metis canonicalizable_def render_sortFields)
  with c show ?thesis
    by (simp add: sameCanonical_def)
qed


text \<open>Different records have different canonical forms.\<close>

lemma sortFields_jrec_iff:
  assumes "map fst kvs = map fst kvs'" "distinct (map fst kvs')" "JAccessor \<notin> snd ` set kvs'"
  shows "sortFields (jrec kvs) = sortFields (jrec kvs') \<longleftrightarrow>
    list_all (\<lambda>(k, w). sortFields (getProp (jfields kvs) k) = sortFields w) kvs'"
proof
  assume "sortFields (jrec kvs) = sortFields (jrec kvs')"
  then show "list_all (\<lambda>(k, w). sortFields (getProp (jfields kvs) k) = sortFields w) kvs'"
    by (rule record_invert) (use assms in \<open>auto simp: jrec_def requireRecord_Inr\<close>)
next
  assume "list_all (\<lambda>(k, w). sortFields (getProp (jfields kvs) k) = sortFields w) kvs'"
  then show "sortFields (jrec kvs) = sortFields (jrec kvs')"
    unfolding jrec_def [of kvs] using assms by (intro record_shape_all) (auto intro!: exact_keys_jfields)
qed

lemma nullable_inj: "nullable x = nullable y \<longleftrightarrow> x = y"
  by (cases x; cases y) (simp_all add: nullable_def)

lemma spelling_inj:
  "spelling effectClasses c = spelling effectClasses c' \<longleftrightarrow> c = c'"
  "spelling attestationStatuses s = spelling attestationStatuses s' \<longleftrightarrow> s = s'"
  "spelling evidenceLevels v = spelling evidenceLevels v' \<longleftrightarrow> v = v'"
  "spelling ledgerStates l = spelling ledgerStates l' \<longleftrightarrow> l = l'"
  "spelling admissionStates d = spelling admissionStates d' \<longleftrightarrow> d = d'"
  using attestation_tables(1) [of "JStr (spelling attestationStatuses s)" _ s']
    attestation_tables(1) [of "JStr (spelling attestationStatuses s)" _ s]
    attestation_tables(2) [of "JStr (spelling evidenceLevels v)" _ v'] attestation_tables(2) [of "JStr (spelling evidenceLevels v)" _ v]
    ledger_tables(3) [of "JStr (spelling effectClasses c)" _ c'] ledger_tables(3) [of "JStr (spelling effectClasses c)" _ c]
    ledger_tables(1) [of "JStr (spelling ledgerStates l)" _ l'] ledger_tables(1) [of "JStr (spelling ledgerStates l)" _ l]
    ledger_tables(2) [of "JStr (spelling admissionStates d)" _ d'] ledger_tables(2) [of "JStr (spelling admissionStates d)" _ d]
  by auto

lemma charges_inj: "sortFields (charges_json c) = sortFields (charges_json d) \<longleftrightarrow> c = d"
  unfolding charges_json_def by (subst sortFields_jrec_iff) (auto intro: budget_charges.equality)

lemma ticket_inj: "sortFields (ticket_json t) = sortFields (ticket_json u) \<longleftrightarrow> t = u"
proof -
  have s: "sortFields (subject_json a) = sortFields (subject_json b) \<longleftrightarrow> a = b" for a b
    unfolding subject_json_def by (subst sortFields_jrec_iff) (auto intro: contract_subject.equality)
  have au: "sortFields (audience_json a) = sortFields (audience_json b) \<longleftrightarrow> a = b" for a b
    unfolding audience_json_def by (subst sortFields_jrec_iff) (auto intro: contract_audience.equality)
  show ?thesis
    unfolding ticket_json_def ticketFields_def
    by (subst sortFields_jrec_iff) (auto simp: s au spelling_inj intro: execution_ticket.equality)
qed

lemma attestation_inj: "sortFields (attestation_json a) = sortFields (attestation_json b) \<longleftrightarrow> a = b"
  unfolding attestation_json_def attestationFields_def
  by (subst sortFields_jrec_iff) (auto simp: charges_inj spelling_inj nullable_inj intro: effect_attestation.equality)

lemma ticketState_inj: "sortFields (ticketState_json t) = sortFields (ticketState_json u) \<longleftrightarrow> t = u"
  unfolding ticketState_json_def ticketStateFields_def
  by (subst sortFields_jrec_iff) (auto simp: ticket_inj spelling_inj nullable_inj intro: ledger_ticket_state.equality)

lemma effectAttempt_inj: "sortFields (effectAttempt_json a) = sortFields (effectAttempt_json b) \<longleftrightarrow> a = b"
  unfolding effectAttempt_json_def effectAttemptFields_def
  by (subst sortFields_jrec_iff) (auto simp: spelling_inj nullable_inj intro: ledger_effect_attempt.equality)

lemma expectation_inj: "sortFields (expectation_json x) = sortFields (expectation_json y) \<longleftrightarrow> x = y"
  unfolding expectation_json_def expectationFields_def
  by (subst sortFields_jrec_iff) (auto simp: charges_inj spelling_inj nullable_inj intro: evidence_expectation.equality)

lemma receipt_inj: "sortFields (receipt_json r) = sortFields (receipt_json q) \<longleftrightarrow> r = q"
  unfolding receipt_json_def receiptFields_def
  by (subst sortFields_jrec_iff) (auto simp: attestation_inj intro: admission_receipt.equality)

lemma null_form_inj:
  "sortFields (nullJson attestation_json x) = sortFields (nullJson attestation_json x') \<longleftrightarrow> x = x'"
  "sortFields (nullJson receipt_json y) = sortFields (nullJson receipt_json y') \<longleftrightarrow> y = y'"
proof -
  have n: "attestation_json a \<noteq> JNull" "JNull \<noteq> sortFields (attestation_json a)"
    "receipt_json r \<noteq> JNull" "JNull \<noteq> sortFields (receipt_json r)" for a r
    by (simp_all add: attestation_json_def receipt_json_def jrec_def)
  show "sortFields (nullJson attestation_json x) = sortFields (nullJson attestation_json x') \<longleftrightarrow> x = x'"
    by (cases x; cases x') (simp_all add: nullJson_def attestation_inj n)
  show "sortFields (nullJson receipt_json y) = sortFields (nullJson receipt_json y') \<longleftrightarrow> y = y'"
    by (cases y; cases y') (simp_all add: nullJson_def receipt_inj n)
qed

lemma admission_inj: "sortFields (admission_json e) = sortFields (admission_json f) \<longleftrightarrow> e = f"
  unfolding admission_json_def admissionFields_def
  by (subst sortFields_jrec_iff) (auto simp: spelling_inj nullable_inj null_form_inj intro: evidence_admission.equality)

lemma ledger_inj: "sortFields (ledger_json r) = sortFields (ledger_json q) \<longleftrightarrow> r = q"
  unfolding ledger_json_def ledgerFields_def
  by (subst sortFields_jrec_iff) (auto simp: ticketState_inj effectAttempt_inj expectation_inj admission_inj
      intro: ledger_record.equality)

lemmas form_inj = charges_inj ticket_inj attestation_inj ticketState_inj effectAttempt_inj expectation_inj
  receipt_inj null_form_inj admission_inj ledger_inj

lemma wf_jsval_ledger:
  "wf_jsval (charges_json c)" "wf_jsval (ticket_json t)" "wf_jsval (attestation_json a)" "wf_jsval (effectAttempt_json ef)"
  "wf_jsval (expectation_json x)" "wf_jsval (ticketState_json ts)" "wf_jsval (receipt_json rc)" "wf_jsval (admission_json ad)"
  "wf_jsval (ledger_json r)" "wf_jsval (nullJson attestation_json oa)"
proof -
  have n [simp]: "wf_jsval (nullable o')" for o' by (simp add: nullable_def split: option.splits)
  show c [simp]: "wf_jsval (charges_json c)" for c
    unfolding charges_json_def by (intro wf_jsval_jrec) auto
  show t [simp]: "wf_jsval (ticket_json t)" for t
    unfolding ticket_json_def ticketFields_def subject_json_def audience_json_def
    by (intro wf_jsval_jrec) (auto intro!: wf_jsval_jrec)
  show a [simp]: "wf_jsval (attestation_json a)" for a
    unfolding attestation_json_def attestationFields_def by (intro wf_jsval_jrec) auto
  show ef [simp]: "wf_jsval (effectAttempt_json ef)" for ef
    unfolding effectAttempt_json_def effectAttemptFields_def by (intro wf_jsval_jrec) auto
  show x [simp]: "wf_jsval (expectation_json x)" for x
    unfolding expectation_json_def expectationFields_def by (intro wf_jsval_jrec) auto
  show ts [simp]: "wf_jsval (ticketState_json ts)" for ts
    unfolding ticketState_json_def ticketStateFields_def by (intro wf_jsval_jrec) auto
  show rc [simp]: "wf_jsval (receipt_json rc)" for rc
    unfolding receipt_json_def receiptFields_def by (intro wf_jsval_jrec) auto
  show ad [simp]: "wf_jsval (admission_json ad)" for ad
    unfolding admission_json_def admissionFields_def by (intro wf_jsval_jrec) (auto simp: nullJson_def split: option.splits)
  show "wf_jsval (nullJson attestation_json oa)"
    by (simp add: nullJson_def split: option.splits)
  show "wf_jsval (ledger_json r)"
    unfolding ledger_json_def ledgerFields_def by (intro wf_jsval_jrec) auto
qed

section \<open>The shape of a record\<close>

text \<open>What the checks of the shape amount to: the attestation of a terminal record is a function of what
  was fixed before the effect and of the reported outcome.\<close>

definition ledgerTime :: "jstr \<Rightarrow> int" where
  "ledgerTime s = (case timestampMilliseconds_ledger s of None \<Rightarrow> 0 | Some ms \<Rightarrow> ms)"

definition attestedStatus :: "ledger_state \<Rightarrow> attestation_status" where
  "attestedStatus status =
     (case status of LedgerCommitted \<Rightarrow> CommittedStatus | LedgerResultUnavailable \<Rightarrow> CommittedResultUnavailableStatus
      | LedgerUncertain \<Rightarrow> UncertainStatus | _ \<Rightarrow> FailedNoEffectStatus)"

definition promisedAttestation ::
  "execution_ticket \<Rightarrow> ledger_effect_attempt \<Rightarrow> evidence_expectation \<Rightarrow> attestation_status \<Rightarrow> bool \<Rightarrow> jstr option \<Rightarrow>
   jstr \<Rightarrow> jstr \<Rightarrow> effect_attestation" where
  "promisedAttestation ticket attempt expectation status noEffect result attestationId finishedAt =
     \<lparr>ea_attestationId = attestationId, ea_requestId = et_requestId ticket, ea_ticketId = et_ticketId ticket,
      ea_contractHash = et_contractHash ticket, ea_contractRevision = et_contractRevision ticket,
      ea_actionHash = et_actionHash ticket, ea_delegationLineageHash = ex_delegationLineageHash expectation,
      ea_adapterId = et_adapterId ticket, ea_adapterDigest = et_adapterDigest ticket,
      ea_runnerId = ex_runnerId expectation, ea_runnerDigest = ex_runnerDigest expectation,
      ea_executorId = aud_executorId (et_audience ticket), ea_observerId = ex_observerId expectation,
      ea_effectClass = et_effectClass ticket, ea_registryDigest = et_registryDigest ticket,
      ea_revocationEpoch = et_revocationEpoch ticket, ea_preStateHash = ex_preStateHash expectation,
      ea_postStateHash = (if noEffect then None else Some (ex_completionPostStateHash expectation)),
      ea_idempotencyKey = ex_idempotencyKey expectation, ea_resultHash = result,
      ea_budgetCharges = (if noEffect then ZERO_BUDGET_CHARGES else ex_completionBudgetCharges expectation),
      ea_startedAt = le_preparedAt attempt, ea_finishedAt = finishedAt, ea_status = status,
      ea_evidenceLevel = (if noEffect then AttemptOnly else ex_completionEvidenceLevel expectation),
      ea_reconciliationRef = (if noEffect then None else ex_completionReconciliationRef expectation)\<rparr>"

definition outcomeShape :: "ledger_ticket_state \<Rightarrow> ledger_effect_attempt \<Rightarrow> jstr \<Rightarrow> bool" where
  "outcomeShape t a terminal \<longleftrightarrow>
     (if lt_status t = LedgerFailedPreEffect
      then lt_consumedAt t = None \<and> le_commitPermittedAt a = None \<and> le_effectObservedAt a = None \<and>
        le_resultHash a = None \<and> lt_terminalReasonCode t \<noteq> None
      else (\<exists>permitted. lt_consumedAt t = Some permitted \<and> le_commitPermittedAt a = Some permitted \<and>
          ledgerTime (le_preparedAt a) \<le> ledgerTime permitted \<and> ledgerTime permitted \<le> ledgerTime terminal) \<and>
        le_effectObservedAt a \<in> {None, Some terminal} \<and>
        (lt_status t = LedgerCommitted \<longrightarrow> lt_terminalReasonCode t = None \<and> le_effectObservedAt a \<noteq> None \<and> le_resultHash a \<noteq> None) \<and>
        (lt_status t \<noteq> LedgerCommitted \<longrightarrow> lt_terminalReasonCode t \<noteq> None) \<and>
        (lt_status t = LedgerResultUnavailable \<longrightarrow> le_effectObservedAt a \<noteq> None))"

definition noEffectObserved :: "ledger_ticket_state \<Rightarrow> ledger_effect_attempt \<Rightarrow> bool" where
  "noEffectObserved t a \<longleftrightarrow> lt_status t = LedgerFailedPreEffect \<or> lt_status t = LedgerUncertain \<and> le_effectObservedAt a = None"

definition terminalShape ::
  "ledger_ticket_state \<Rightarrow> ledger_effect_attempt \<Rightarrow> evidence_expectation \<Rightarrow> evidence_admission \<Rightarrow> bool" where
  "terminalShape t a x e \<longleftrightarrow>
     ev_status e \<noteq> EvidenceReserved \<and>
     (\<exists>terminal attestationId. lt_terminalAt t = Some terminal \<and> ev_readyAt e = Some terminal \<and>
        ev_attestation e = Some (promisedAttestation (lt_ticket t) a x (attestedStatus (lt_status t)) (noEffectObserved t a)
          (le_resultHash a) attestationId terminal) \<and>
        outcomeShape t a terminal)"

definition outboxShape :: "ledger_ticket_state \<Rightarrow> evidence_admission \<Rightarrow> jstr \<Rightarrow> bool" where
  "outboxShape t e updated \<longleftrightarrow>
     (case ev_status e of
        EvidenceReserved \<Rightarrow>
          ev_attestation e = None \<and> ev_readyAt e = None \<and> ev_admittedAt e = None \<and> ev_admissionReceipt e = None
      | EvidencePending \<Rightarrow>
          (\<exists>att. ev_attestation e = Some att \<and> ea_attestationId att = ev_attestationId e) \<and> ev_readyAt e = Some updated \<and>
          ev_admittedAt e = None \<and> ev_admissionReceipt e = None
      | EvidenceAdmitted \<Rightarrow>
          (\<exists>att ready receipt. ev_attestation e = Some att \<and> ea_attestationId att = ev_attestationId e \<and>
             ev_readyAt e = Some ready \<and> ledgerTime ready \<le> ledgerTime updated \<and> ev_admittedAt e = Some updated \<and>
             ev_admissionReceipt e = Some receipt \<and> rc_transactionId receipt = et_ticketId (lt_ticket t) \<and>
             rc_evidenceIntentId receipt = ev_intentId e \<and> rc_attestationId receipt = ev_attestationId e \<and>
             rc_attestation receipt = att \<and> rc_admittedAt receipt = updated))"

definition stateShape ::
  "ledger_ticket_state \<Rightarrow> ledger_effect_attempt \<Rightarrow> evidence_expectation \<Rightarrow> evidence_admission \<Rightarrow> jstr \<Rightarrow> bool" where
  "stateShape t a x e updated \<longleftrightarrow>
     (case lt_status t of
        LedgerPrepared \<Rightarrow>
          lt_consumedAt t = None \<and> lt_terminalAt t = None \<and> lt_terminalReasonCode t = None \<and>
          le_commitPermittedAt a = None \<and> le_effectObservedAt a = None \<and> le_resultHash a = None \<and>
          ev_status e = EvidenceReserved \<and> updated = le_preparedAt a
      | LedgerCommitPermit \<Rightarrow>
          lt_consumedAt t = Some updated \<and> le_commitPermittedAt a = Some updated \<and> lt_terminalAt t = None \<and>
          lt_terminalReasonCode t = None \<and> le_effectObservedAt a = None \<and> le_resultHash a = None \<and>
          ev_status e = EvidenceReserved
      | _ \<Rightarrow> terminalShape t a x e) \<and>
     outboxShape t e updated"

lemma requireAllNull_Inr: "requireAllNull vs m = Inr u \<longleftrightarrow> list_all (\<lambda>v. v = JNull) vs"
  by (induction vs) (auto simp: requireAllNull_def result_simps list_ex_iff list_all_iff)

lemma requireNonNull_Inr: "requireNonNull x m = Inr y \<longleftrightarrow> x = Some y"
  by (cases x) (auto simp: requireNonNull_def)

lemma null_forms:
  "nullable x = JNull \<longleftrightarrow> x = None" "nullJson attestation_json a = JNull \<longleftrightarrow> a = None"
  "nullJson receipt_json r = JNull \<longleftrightarrow> r = None"
  by (cases x; cases a; cases r; simp add: nullable_def nullJson_def attestation_json_def receipt_json_def jrec_def)+

lemma assertTimeOrder_Inr:
  "assertTimeOrder a b m = Inr u \<longleftrightarrow> ledger_stamp a \<and> ledger_stamp b \<and> ledgerTime a \<le> ledgerTime b"
  by (auto simp: assertTimeOrder_def safeCodingLedgerTimestampMilliseconds_def ledger_stamp_def ledgerTime_def result_simps
      split: option.splits)

lemmas shape_simps = result_simps requireAllNull_Inr requireNonNull_Inr null_forms assertTimeOrder_Inr

lemma zero_charges:
  assumes "canonicalizable nfc (charges_json c)"
  shows "canonicalizable nfc (charges_json ZERO_BUDGET_CHARGES)" "wf_charges ZERO_BUDGET_CHARGES"
proof -
  have "decInt 0 = [48]"
    by (simp add: decInt_def decDigits.simps)
  then have "length (render (charges_json ZERO_BUDGET_CHARGES)) = 56"
    by (simp add: charges_json_def ZERO_BUDGET_CHARGES_def jrec_def jfields_def length_render_JObj field_text_def
        jsonQuote_def quoteUnit_def js_def separators_def)
  then show "canonicalizable nfc (charges_json ZERO_BUDGET_CHARGES)"
    using assms by (simp add: canonicalizable_def charges_json_def ZERO_BUDGET_CHARGES_def jrec_def jfields_def safe_int_def
        MAX_SAFE_INTEGER_def MAX_CANONICAL_JSON_OUTPUT_CODE_UNITS_def)
  show "wf_charges ZERO_BUDGET_CHARGES"
    by (simp add: wf_charges_def ZERO_BUDGET_CHARGES_def counter_def safe_int_def MAX_SAFE_INTEGER_def)
qed

lemma promised_charges:
  assumes "wf_attestation nfc att" "canonicalizable nfc (attestation_json att)"
    "wf_expectation x" "canonicalizable nfc (expectation_json x)"
  shows "sameCanonical nfc (charges_json (ea_budgetCharges att))
      (charges_json (if ne then ZERO_BUDGET_CHARGES else ex_completionBudgetCharges x)) =
    Inr (ea_budgetCharges att = (if ne then ZERO_BUDGET_CHARGES else ex_completionBudgetCharges x))"
proof -
  have att: "canonicalizable nfc (charges_json (ea_budgetCharges att))" "wf_charges (ea_budgetCharges att)"
    using assms(1,2) unfolding attestation_json_def wf_attestation_def
    by (auto elim!: canonicalizable_jrec simp: attestationFields_def)
  have x: "canonicalizable nfc (charges_json (ex_completionBudgetCharges x))" "wf_charges (ex_completionBudgetCharges x)"
    using assms(3,4) unfolding expectation_json_def wf_expectation_def
    by (auto elim!: canonicalizable_jrec simp: expectationFields_def)
  show ?thesis
    using att x zero_charges [OF att(1)]
    by (simp add: sameCanonical_Inr wf_jsval_ledger charges_inj)
qed

lemma promised_ids [simp]:
  "ea_attestationId (promisedAttestation t a x s ne r i f) = i"
  "ea_finishedAt (promisedAttestation t a x s ne r i f) = f"
  by (simp_all add: promisedAttestation_def)

lemma binding_exact:
  assumes "wf_attestation nfc att" "canonicalizable nfc (attestation_json att)"
    "wf_expectation x" "canonicalizable nfc (expectation_json x)" "isSafeCodingLedgerTerminalState s" "lt_status t = s"
  shows "assertAttestationBinding nfc (lt_ticket t) a x s att = Inr u \<longleftrightarrow>
    att = promisedAttestation (lt_ticket t) a x (attestedStatus s) (noEffectObserved t a) (le_resultHash a)
      (ea_attestationId att) (ea_finishedAt att)"
proof -
  have ne: "s = LedgerFailedPreEffect \<or> s = LedgerUncertain \<and> le_effectObservedAt a = None \<longleftrightarrow> noEffectObserved t a"
    by (simp add: noEffectObserved_def assms(6))
  show ?thesis
    unfolding assertAttestationBinding_def Let_def promised_charges [OF assms(1-4)] ne
    using assms(5)
    by (cases att; cases s)
      (auto simp: promisedAttestation_def attestedStatus_def result_simps isSafeCodingLedgerTerminalState_def)
qed

lemma terminalShape_exact:
  assumes "wf_admission nfc e" "canonicalizable nfc (admission_json e)"
    "wf_expectation x" "canonicalizable nfc (expectation_json x)" "isSafeCodingLedgerTerminalState (lt_status t)"
    "wf_ticketState nfc t" "wf_effectAttempt a"
  shows "assertTerminalShape nfc t a x e = Inr u \<longleftrightarrow> terminalShape t a x e"
proof (cases "ev_attestation e")
  case None
  then show ?thesis
    by (auto simp: assertTerminalShape_def terminalShape_def Let_def shape_simps)
next
  case (Some att)
  have att: "wf_attestation nfc att" "canonicalizable nfc (attestation_json att)"
    using assms(1,2) Some unfolding wf_admission_def admission_json_def
    by (auto elim!: canonicalizable_jrec simp: admissionFields_def nullJson_def)
  have ids: "(\<exists>i. att = promisedAttestation tk a x s ne r i f \<and> P) \<longleftrightarrow>
      ea_finishedAt att = f \<and> att = promisedAttestation tk a x s ne r (ea_attestationId att) (ea_finishedAt att) \<and> P"
    for tk s ne r f P
    by (auto intro: exI [of _ "ea_attestationId att"])
  note stamps = assms(6,7) [unfolded wf_ticketState_def wf_effectAttempt_def]
  show ?thesis
    unfolding assertTerminalShape_def terminalShape_def Let_def
    using stamps assms(5)
    by (cases "lt_terminalAt t"; cases "lt_consumedAt t"; cases "lt_status t = LedgerFailedPreEffect")
     (auto simp: shape_simps Some ids binding_exact [OF att assms(3,4)] outcomeShape_def)
qed

lemma receipt_binding:
  assumes "wf_attestation nfc att" "canonicalizable nfc (attestation_json att)" "wf_receipt nfc rc"
    "canonicalizable nfc (receipt_json rc)"
  shows "assertAdmissionReceiptBinding nfc t e att rc = Inr u \<longleftrightarrow>
    rc_transactionId rc = et_ticketId (lt_ticket t) \<and> rc_evidenceIntentId rc = ev_intentId e \<and>
    rc_attestationId rc = ev_attestationId e \<and> rc_attestation rc = att \<and> Some (rc_admittedAt rc) = ev_admittedAt e"
proof -
  have r: "canonicalizable nfc (attestation_json (rc_attestation rc))" "wf_attestation nfc (rc_attestation rc)"
    using assms(3,4) unfolding receipt_json_def wf_receipt_def
    by (auto elim!: canonicalizable_jrec simp: receiptFields_def)
  show ?thesis
    using assms(1,2) r
    by (auto simp: assertAdmissionReceiptBinding_def Let_def result_simps sameCanonical_Inr wf_jsval_ledger
        attestation_inj)
qed

lemma outbox_exact:
  assumes "wf_admission nfc e" "canonicalizable nfc (admission_json e)"
  shows "assertOutboxShape nfc t e updated = Inr u \<longleftrightarrow> outboxShape t e updated"
proof -
  have bind: "assertAdmissionReceiptBinding nfc t e att rc = Inr u \<longleftrightarrow>
      rc_transactionId rc = et_ticketId (lt_ticket t) \<and> rc_evidenceIntentId rc = ev_intentId e \<and>
      rc_attestationId rc = ev_attestationId e \<and> rc_attestation rc = att \<and> Some (rc_admittedAt rc) = ev_admittedAt e"
    if "ev_attestation e = Some att" "ev_admissionReceipt e = Some rc" for att rc u
    by (rule receipt_binding)
      (use assms that in \<open>auto simp: wf_admission_def admission_json_def admissionFields_def nullJson_def elim!: canonicalizable_jrec\<close>)
  show ?thesis
    using assms(1) bind unfolding assertOutboxShape_def outboxShape_def wf_admission_def
    by (cases "ev_status e"; cases "ev_attestation e"; cases "ev_admissionReceipt e"; cases "ev_readyAt e"; cases "ev_admittedAt e")
      (auto simp: shape_simps)
qed

lemma stateShape_exact:
  assumes "wf_admission nfc e" "canonicalizable nfc (admission_json e)"
    "wf_expectation x" "canonicalizable nfc (expectation_json x)" "wf_ticketState nfc t" "wf_effectAttempt a"
  shows "assertStateShape nfc t a x e updated = Inr u \<longleftrightarrow> stateShape t a x e updated"
  unfolding assertStateShape_def stateShape_def bindE_eq_Inr outbox_exact [OF assms(1,2)]
  using terminalShape_exact [OF assms(1-4) _ assms(5,6)]
  by (cases "lt_status t") (auto simp: shape_simps isSafeCodingLedgerTerminalState_def)

section \<open>Records\<close>

definition wf_ledger :: "(jstr \<Rightarrow> jstr) \<Rightarrow> ledger_record \<Rightarrow> bool" where
  "wf_ledger nfc r \<longleftrightarrow>
     (let t = lr_ticketState r; a = lr_effectAttempt r; x = lr_evidenceExpectation r; e = lr_evidenceAdmission r;
          ticket = lt_ticket t in
      wf_ticketState nfc t \<and> wf_effectAttempt a \<and> wf_expectation x \<and> wf_admission nfc e \<and>
      IDENTIFIER_PATTERN (lr_transactionId r) \<and> safe_int (lr_revision r) \<and>
      ledger_stamp (lr_createdAt r) \<and> ledger_stamp (lr_updatedAt r) \<and>
      ledgerTime (lr_createdAt r) \<le> ledgerTime (lr_updatedAt r) \<and>
      lr_transactionId r = et_ticketId ticket \<and>
      le_adapterId a = et_adapterId ticket \<and> le_adapterDigest a = et_adapterDigest ticket \<and>
      le_effectClass a = et_effectClass ticket \<and> le_resolvedObjectId a = et_resolvedObjectId ticket \<and>
      le_stateCommitmentHash a = et_stateCommitmentHash ticket \<and>
      ex_observerId x \<noteq> aud_executorId (et_audience ticket) \<and> lr_createdAt r = le_preparedAt a \<and>
      stateShape t a x e (lr_updatedAt r) \<and> lr_revision r = reachableRevision (lt_status t) (ev_status e))"

lemma reachableRevision_pos: "0 < reachableRevision s e" "reachableRevision s e \<le> 4"
  by (simp_all add: reachableRevision_def)

lemma ledger_exact:
  "validateSafeCodingLedgerRecord nfc v = Inr r \<longleftrightarrow>
     wf_ledger nfc r \<and> within_bounds v \<and> canonicalizable nfc v \<and> sortFields v = sortFields (ledger_json r)"
proof (cases "within_bounds v \<and> canonicalizable nfc v")
  case False
  then show ?thesis
    by (auto simp: validateSafeCodingLedgerRecord_def result_simps assertBounded_Inr)
next
  case True
  then have "canonicalizable nfc v" "distinct ledgerKeys"
    by (simp_all add: ledgerKeys_def)
  then show ?thesis
  proof (cases rule: record_cases)
    case (fits fs)
    note opened = fits(3) [unfolded ledgerKeys_def] fits(4) [unfolded ledgerKeys_def]
    have parts: "canonicalizable nfc (admission_json e)" if "sortFields (getProp fs ''evidenceAdmission'') = sortFields (admission_json e)" for e
      using opened(1) [of "''evidenceAdmission''"] canonicalizable_cong [OF that] by simp
    have parts': "canonicalizable nfc (expectation_json x)" if "sortFields (getProp fs ''evidenceExpectation'') = sortFields (expectation_json x)" for x
      using opened(1) [of "''evidenceExpectation''"] canonicalizable_cong [OF that] by simp
    have shape: "assertStateShape nfc t a x e updated = Inr u \<longleftrightarrow> stateShape t a x e updated"
      if "wf_admission nfc e \<and> sortFields (getProp fs ''evidenceAdmission'') = sortFields (admission_json e)"
        "wf_expectation x \<and> sortFields (getProp fs ''evidenceExpectation'') = sortFields (expectation_json x)"
        "wf_ticketState nfc t" "wf_effectAttempt a" for t a x e updated u
      using that parts parts' by (intro stateShape_exact) auto
    show ?thesis
      using True
      by (cases r) (auto simp: validateSafeCodingLedgerRecord_def open_ledger ledger_leaf assertBounded_Inr fits(1,2) opened
        ledger_json_def ledgerFields_def wf_ledger_def Let_def assertTimeOrder_Inr ticketState_exact
        effectAttempt_exact [of nfc] expectation_exact [of nfc] admission_exact assertTicketAttemptBinding_def
        assertReachableRevision_def reachableRevision_pos shape)
  next
    case alien
    note opened = alien(2) [unfolded ledgerKeys_def]
    show ?thesis
      by (auto simp: validateSafeCodingLedgerRecord_def requireRecord_ledger_Inr requireExactKeys_ledger_Inr result_simps
        alien(1) opened ledger_json_def ledgerFields_def)
  qed
qed

section \<open>Genuine records are within the bounds\<close>

fun shortText :: "jsval \<Rightarrow> bool" where
  "shortText (JStr s) = (length s \<le> 256)"
| "shortText (JArr _ xs) = (\<forall>x \<in> set xs. shortText x)"
| "shortText (JObj _ fs) = (\<forall>f \<in> set fs. shortText (snd f))"
| "shortText _ = True"

lemma utf8Length_le: "utf8Length s \<le> 3 * length s"
  by (induction s rule: utf8Length.induct) auto

lemma textBytes_le: "shortText v \<Longrightarrow> textBytes v \<le> 768 * node_count v"
proof (induction v)
  case (JStr s)
  then show ?case
    using utf8Length_le [of s] by simp
next
  case (JArr sh xs)
  then have "(\<Sum>x\<leftarrow>xs. textBytes x) \<le> (\<Sum>x\<leftarrow>xs. 768 * node_count x)"
    by (intro sum_list_mono) auto
  then show ?case
    by (simp add: sum_list_const_mult)
next
  case (JObj sh fs)
  then have "(\<Sum>f\<leftarrow>fs. textBytes (snd f)) \<le> (\<Sum>f\<leftarrow>fs. 768 * node_count (snd f))"
    by (intro sum_list_mono) (metis shortText.simps(3) snds.intros)
  then show ?case
    by (simp add: sum_list_const_mult)
qed auto

lemma jrec_bounds:
  "node_count (jrec kvs) = Suc (sum_list (map (\<lambda>(k, w). node_count w) kvs))"
  "jdepth (jrec kvs) = foldr max (map (\<lambda>(k, w). Suc (jdepth w)) kvs) 0"
  "shortText (jrec kvs) \<longleftrightarrow> list_all (\<lambda>(k, w). shortText w) kvs"
  "narrow (jrec kvs) \<longleftrightarrow> length kvs \<le> 64 \<and> list_all (\<lambda>(k, w). w \<noteq> JAccessor \<and> narrow w) kvs"
  by (auto simp: jrec_def jfields_def comp_def case_prod_unfold list_all_iff split_def)

lemma nullable_measures:
  "node_count (nullable x) = 1" "jdepth (nullable x) = 0" "narrow (nullable x)"
  "shortText (nullable x) \<longleftrightarrow> pred_option (\<lambda>s. length s \<le> 256) x"
  by (cases x; simp add: nullable_def)+

lemma form_measures:
  "node_count (ticket_json t) = 32 \<and> jdepth (ticket_json t) = 2 \<and> narrow (ticket_json t)"
  "node_count (attestation_json a) = 32 \<and> jdepth (attestation_json a) = 2 \<and> narrow (attestation_json a)"
  "node_count (expectation_json x) = 14 \<and> jdepth (expectation_json x) = 2 \<and> narrow (expectation_json x)"
  "node_count (effectAttempt_json ef) = 11 \<and> jdepth (effectAttempt_json ef) = 1 \<and> narrow (effectAttempt_json ef)"
  by (simp_all add: ticket_json_def ticketFields_def attestation_json_def attestationFields_def expectation_json_def
      expectationFields_def effectAttempt_json_def effectAttemptFields_def subject_json_def audience_json_def
      charges_json_def jrec_bounds nullable_measures)

lemma field_lengths:
  "UUID_PATTERN s \<Longrightarrow> length s \<le> 256" "ledgerUuid s \<Longrightarrow> length s \<le> 256" "SHA256_PATTERN s \<Longrightarrow> length s \<le> 256"
  "IDENTIFIER_PATTERN s \<Longrightarrow> length s \<le> 256" "ident nfc s \<Longrightarrow> length s \<le> 256" "ledger_stamp s \<Longrightarrow> length s \<le> 256"
proof -
  show "UUID_PATTERN s \<Longrightarrow> length s \<le> 256" "ledgerUuid s \<Longrightarrow> length s \<le> 256" "SHA256_PATTERN s \<Longrightarrow> length s \<le> 256"
    by (simp_all add: UUID_PATTERN_def ledgerUuid_def SHA256_PATTERN_def)
  show "IDENTIFIER_PATTERN s \<Longrightarrow> length s \<le> 256" "ident nfc s \<Longrightarrow> length s \<le> 256"
    unfolding ident_def by (auto simp: IDENTIFIER_PATTERN_def split: list.splits)
  show "ledger_stamp s \<Longrightarrow> length s \<le> 256"
    by (auto simp: ledger_stamp_def timestampMilliseconds_ledger_def TIMESTAMP_PATTERN_def split: if_splits)
qed

lemma stamp_length: "stamp nfc s \<Longrightarrow> length s \<le> 256"
  by (auto simp: stamp_def wf_timestamp_def TIMESTAMP_PATTERN_def)

lemma nonce_length: "nonce_ok s \<Longrightarrow> length s \<le> 256"
  by (auto simp: nonce_ok_def length_encodeBase64Url encodedBase64UrlLength_closed)

lemma spelling_lengths:
  "length (spelling effectClasses c) \<le> 256" "length (spelling attestationStatuses s) \<le> 256"
  "length (spelling evidenceLevels v) \<le> 256" "length (spelling ledgerStates l) \<le> 256"
  "length (spelling admissionStates d) \<le> 256"
proof -
  note tables = spelling_def effectClasses_def attestationStatuses_def evidenceLevels_def ledgerStates_def admissionStates_def
  show "length (spelling effectClasses c) \<le> 256" by (cases c) (simp_all add: tables)
  show "length (spelling attestationStatuses s) \<le> 256" by (cases s) (simp_all add: tables)
  show "length (spelling evidenceLevels v) \<le> 256" by (cases v) (simp_all add: tables)
  show "length (spelling ledgerStates l) \<le> 256" by (cases l) (simp_all add: tables)
  show "length (spelling admissionStates d) \<le> 256" by (cases d) (simp_all add: tables)
qed

lemmas lengths = field_lengths stamp_length nonce_length spelling_lengths

lemma pred_option_short: "pred_option P x \<Longrightarrow> (\<And>s. P s \<Longrightarrow> length s \<le> 256) \<Longrightarrow> pred_option (\<lambda>s. length s \<le> 256) x"
  by (cases x) auto

lemma form_short:
  "wf_ticket nfc t \<Longrightarrow> shortText (ticket_json t)" "wf_attestation nfc a \<Longrightarrow> shortText (attestation_json a)"
  "wf_expectation x \<Longrightarrow> shortText (expectation_json x)" "wf_effectAttempt ef \<Longrightarrow> shortText (effectAttempt_json ef)"
  by (auto simp: ticket_json_def ticketFields_def attestation_json_def attestationFields_def expectation_json_def
      expectationFields_def effectAttempt_json_def effectAttemptFields_def subject_json_def audience_json_def
      charges_json_def jrec_bounds nullable_measures wf_ticket_def wf_attestation_def wf_expectation_def
      wf_effectAttempt_def wf_subject_def wf_audience_def lengths EXECUTION_TICKET_KIND_def EFFECT_ATTESTATION_KIND_def
      INTENT_CONTRACT_SPEC_VERSION_def elim!: pred_option_short)

lemma receipt_measures:
  "node_count (receipt_json rc) = 46 \<and> jdepth (receipt_json rc) = 3 \<and> narrow (receipt_json rc)"
  "wf_receipt nfc rc \<Longrightarrow> shortText (receipt_json rc)"
  by (auto simp: receipt_json_def receiptFields_def jrec_bounds form_measures wf_receipt_def lengths form_short
      SAFE_CODING_EVIDENCE_ADMISSION_RECEIPT_KIND_def)

lemma outbox_measures:
  "node_count (admission_json e) \<le> 84" "jdepth (admission_json e) \<le> 4" "narrow (admission_json e)"
  "wf_admission nfc e \<Longrightarrow> shortText (admission_json e)"
  by (cases "ev_attestation e"; cases "ev_admissionReceipt e";
      auto simp: admission_json_def admissionFields_def nullJson_def jrec_bounds nullable_measures form_measures
        receipt_measures wf_admission_def lengths form_short elim!: pred_option_short)+

lemma ticketState_measures:
  "node_count (ticketState_json t) = 37" "jdepth (ticketState_json t) = 3" "narrow (ticketState_json t)"
  "wf_ticketState nfc t \<Longrightarrow> shortText (ticketState_json t)"
  by (auto simp: ticketState_json_def ticketStateFields_def jrec_bounds nullable_measures form_measures
      wf_ticketState_def lengths form_short elim!: pred_option_short)

lemma ledger_within_bounds: "wf_ledger nfc r \<Longrightarrow> within_bounds (ledger_json r)"
proof -
  assume wf: "wf_ledger nfc r"
  let ?e = "lr_evidenceAdmission r"
  have nodes: "node_count (ledger_json r) = 69 + node_count (admission_json ?e)"
    by (simp add: ledger_json_def ledgerFields_def jrec_bounds form_measures ticketState_measures)
  have "length (lr_transactionId r) \<le> 256" "length (lr_createdAt r) \<le> 256" "length (lr_updatedAt r) \<le> 256"
    "shortText (ticketState_json (lr_ticketState r))" "shortText (admission_json ?e)"
    "shortText (effectAttempt_json (lr_effectAttempt r))" "shortText (expectation_json (lr_evidenceExpectation r))"
    using wf unfolding wf_ledger_def Let_def
    by (blast intro: lengths form_short outbox_measures(4) ticketState_measures(4))+
  then have "shortText (ledger_json r)"
    by (simp add: ledger_json_def ledgerFields_def jrec_bounds SAFE_CODING_LEDGER_RECORD_KIND_def)
  moreover have "node_count (ledger_json r) \<le> 153"
    using outbox_measures(1) [of ?e] by (simp add: nodes)
  ultimately have "textBytes (ledger_json r) \<le> 262144" "node_count (ledger_json r) \<le> 512"
    using textBytes_le [of "ledger_json r"] by simp_all
  moreover have "jdepth (ledger_json r) \<le> 16"
    using outbox_measures(2) [of ?e]
    by (simp add: ledger_json_def ledgerFields_def jrec_bounds form_measures ticketState_measures)
  moreover have "narrow (ledger_json r)"
    by (simp add: ledger_json_def ledgerFields_def jrec_bounds form_measures ticketState_measures outbox_measures(3))
  ultimately show ?thesis
    by (simp add: within_bounds_def)
qed

lemma ledger_validator:
  "validateSafeCodingLedgerRecord nfc v = Inr r \<longleftrightarrow>
     wf_ledger nfc r \<and> canonicalizable nfc v \<and> sortFields v = sortFields (ledger_json r)"
  unfolding ledger_exact by (metis ledger_within_bounds within_bounds_sortFields)

section \<open>Records handed between the components\<close>

definition ledger_valid :: "(jstr \<Rightarrow> jstr) \<Rightarrow> ledger_record \<Rightarrow> bool" where
  "ledger_valid nfc r \<longleftrightarrow> wf_ledger nfc r \<and> canonicalizable nfc (ledger_json r)"

lemma validate_own [result_simps]:
  "validateSafeCodingLedgerRecord nfc (ledger_json r) = Inr r' \<longleftrightarrow> ledger_valid nfc r \<and> r' = r"
  by (auto simp: ledger_validator ledger_valid_def ledger_inj)

lemma clone_own [result_simps]:
  "cloneSafeCodingLedgerRecord nfc r = Inr r' \<longleftrightarrow> ledger_valid nfc r \<and> r' = r"
proof -
  have "jsonParse (render (ledger_json r)) = Some (sortFields (ledger_json r))" if "ledger_valid nfc r"
    using that by (intro jsonParse_render) (auto simp: ledger_valid_def canonicalizable_def wf_jsval_ledger)
  moreover have "validateSafeCodingLedgerRecord nfc (sortFields (ledger_json r)) = Inr r' \<longleftrightarrow> ledger_valid nfc r \<and> r' = r"
    by (auto simp: ledger_validator ledger_valid_def ledger_inj)
  ultimately show ?thesis
    by (auto simp: cloneSafeCodingLedgerRecord_def result_simps ledger_valid_def)
qed

definition identityKeys :: "ledger_record \<Rightarrow> jstr list" where
  "identityKeys r =
     (let ticket = lt_ticket (lr_ticketState r) in
      [js ''attestation:'' @ ev_attestationId (lr_evidenceAdmission r), js ''attempt:'' @ le_attemptId (lr_effectAttempt r),
       js ''evidence-intent:'' @ ev_intentId (lr_evidenceAdmission r), js ''nonce:'' @ et_nonce ticket,
       js ''request:'' @ et_requestId ticket, js ''reservation:'' @ et_budgetReservationId ticket,
       js ''ticket:'' @ et_ticketId ticket] @
      (case ex_idempotencyKey (lr_evidenceExpectation r) of None \<Rightarrow> [] | Some k \<Rightarrow> [js ''idempotency:'' @ k]))"

lemma identity_keys_own [result_simps]:
  "safeCodingLedgerIdentityKeys nfc r = Inr ks \<longleftrightarrow> ledger_valid nfc r \<and> ks = sort (identityKeys r)"
proof -
  have "length k \<le> 288" if "ledger_valid nfc r" "k \<in> set (identityKeys r)" for k
  proof -
    have l: "length (ev_attestationId (lr_evidenceAdmission r)) \<le> 256" "length (le_attemptId (lr_effectAttempt r)) \<le> 256"
      "length (ev_intentId (lr_evidenceAdmission r)) \<le> 256" "length (et_nonce (lt_ticket (lr_ticketState r))) \<le> 256"
      "length (et_requestId (lt_ticket (lr_ticketState r))) \<le> 256"
      "length (et_budgetReservationId (lt_ticket (lr_ticketState r))) \<le> 256"
      "length (et_ticketId (lt_ticket (lr_ticketState r))) \<le> 256"
      "pred_option IDENTIFIER_PATTERN (ex_idempotencyKey (lr_evidenceExpectation r))"
      using that(1) unfolding ledger_valid_def wf_ledger_def Let_def wf_admission_def wf_ticketState_def wf_ticket_def
        wf_effectAttempt_def wf_expectation_def
      by (blast intro: lengths)+
    then have "pred_option (\<lambda>s. length s \<le> 256) (ex_idempotencyKey (lr_evidenceExpectation r))"
      by (blast intro: pred_option_short lengths)
    with l that(2) show ?thesis
      by (cases "ex_idempotencyKey (lr_evidenceExpectation r)") (auto simp: identityKeys_def Let_def)
  qed
  then show ?thesis
    unfolding safeCodingLedgerIdentityKeys_def identityKeys_def [unfolded Let_def, symmetric] Let_def
    by (auto simp: result_simps list_ex_iff SAFE_CODING_LEDGER_IDENTITY_KEY_MAX_LENGTH_def not_less)
qed

end
