(* ===== verification/Contract_Properties.thy ===== *)
theory Contract_Properties
  imports Intent_Contract
begin

text \<open>
  The properties of the Intent Contract validators, and a concrete contract on which the witnesses of
  this and of the later theories are evaluated. The parameter \<open>nfc\<close> is the identity there, which is
  what normalisation does on ASCII text.
\<close>

section \<open>A sample contract\<close>

definition sample_digest :: jstr where
  "sample_digest = replicate 64 97"

definition sample_contract :: intent_contract where
  "sample_contract =
     \<lparr>ic_contractId = js ''00000000-0000-4000-8000-000000000001'', ic_revision = 1,
      ic_previousRevisionHash = None, ic_issuedAt = js ''2026-01-01T00:00:00Z'',
      ic_validity = \<lparr>vld_notBefore = js ''2026-01-01T00:00:00Z'', vld_expiresAt = js ''2026-01-02T00:00:00.500Z''\<rparr>,
      ic_subject = \<lparr>sub_principalId = js ''agent'', sub_instanceId = js ''i1''\<rparr>,
      ic_audience = \<lparr>aud_guardianId = js ''g'', aud_executorId = js ''e'', aud_runtimeEpoch = 0,
        aud_taskId = js ''t'', aud_workspaceId = js ''w''\<rparr>,
      ic_bindings = \<lparr>bnd_policyDigest = sample_digest, bnd_adapterRegistryDigest = sample_digest,
        bnd_runnerRegistryDigest = sample_digest, bnd_effectRegistryDigest = sample_digest,
        bnd_approvalRendererVersion = js ''v1''\<rparr>,
      ic_authority = \<lparr>au_filesystem =
          [\<lparr>fp_action = FsCreate, fp_selector = \<lparr>rs_kind = TreeSelector, rs_path = js ''src''\<rparr>\<rparr>],
        au_git = [\<lparr>gp_action = GitStatus\<rparr>], au_testProfiles = [js ''unit''],
        au_allowedEffectClasses = [LocalReversible, SandboxEphemeral],
        au_limits = \<lparr>lim_maxUniqueModifiedFiles = 2, lim_maxMutationBytes = 100, lim_maxTestRuns = 1\<rparr>,
        au_ambientAuthority = \<lparr>amb_network = False, amb_secrets = False, amb_shell = False,
          amb_delete = False, amb_gitCommit = False, amb_gitPush = False\<rparr>,
        au_delegation = \<lparr>del_allowed = False, del_maxDepth = 0\<rparr>\<rparr>,
      ic_nonAuthoritative = \<lparr>na_goalLabel = js ''demo'', na_notes = []\<rparr>\<rparr>"


lemma sample_parse:
  "dateParse (js ''2026-01-01T00:00:00Z'') = Some 1767225600000"
  "dateParse (js ''2026-01-02T00:00:00.500Z'') = Some 1767312000500"
  by (simp_all add: dateParse_def digitsValue_def makeTime_def DayFromYear_def daysBeforeMonth_def
      InLeapYear_def msPerDay_def js_def)

lemma sample_calendar:
  "YearFromDay 20454 = 2026" "YearFromDay 20455 = 2026" "DayFromYear 2026 = 20454" "\<not> InLeapYear 2026"
  by (simp_all add: YearFromDay_def DayFromYear_def InLeapYear_def)

lemma sample_month: "MonthFromDay False 0 = 1" "MonthFromDay False 1 = 1" "daysBeforeMonth False (Suc 0) = 0"
  by (simp_all add: MonthFromDay_def daysBeforeMonth_def upt_rec)

lemma sample_spell:
  "spellInstant 1767225600000 = js ''2026-01-01T00:00:00Z''"
  "spellInstant 1767312000500 = js ''2026-01-02T00:00:00.500Z''"
  by (simp_all add: spellInstant_def toISOString_def Let_def msPerDay_def sample_calendar sample_month
      isoYear_def pad2_def pad3_def pad4_def canonicalIso_def js_def)

lemma sample_stamps:
  "stamp (\<lambda>s. s) (js ''2026-01-01T00:00:00Z'')" "stamp (\<lambda>s. s) (js ''2026-01-02T00:00:00.500Z'')"
  "timestampMilliseconds (js ''2026-01-01T00:00:00Z'') = 1767225600000"
  "timestampMilliseconds (js ''2026-01-02T00:00:00.500Z'') = 1767312000500"
proof -
  have "wf_timestamp (js ''2026-01-01T00:00:00Z'')" "wf_timestamp (js ''2026-01-02T00:00:00.500Z'')"
    unfolding wf_timestamp_iff sample_spell [symmetric]
    by (rule exI [of _ 1767225600000], simp) (rule exI [of _ 1767312000500], simp)
  then show "stamp (\<lambda>s. s) (js ''2026-01-01T00:00:00Z'')" "stamp (\<lambda>s. s) (js ''2026-01-02T00:00:00.500Z'')"
    by (simp_all add: stamp_def canonical_string_def surrogate_defs js_def)
qed (simp_all add: timestampMilliseconds_def sample_parse)

lemma ascii_paired: "list_all (\<lambda>u. u < 0x80) s \<Longrightarrow> pairedSurrogates s"
  by (induction s) (auto simp: surrogate_defs)

lemma sample_digest_ok:
  "SHA256_PATTERN sample_digest" "canonical_string (\<lambda>s. s) sample_digest" "length sample_digest = 64"
  by (simp_all add: sample_digest_def SHA256_PATTERN_def canonical_string_def char_class_defs
      list_all_iff ascii_paired)

lemma ident_id: "ident (\<lambda>s. s) s \<longleftrightarrow> pairedSurrogates s \<and> IDENTIFIER_PATTERN s"
  by (simp add: ident_def canonical_string_def)

lemma sample_idents:
  "ident (\<lambda>s. s) (js ''agent'')" "ident (\<lambda>s. s) (js ''i1'')" "ident (\<lambda>s. s) (js ''g'')" "ident (\<lambda>s. s) (js ''e'')"
  "ident (\<lambda>s. s) (js ''t'')" "ident (\<lambda>s. s) (js ''w'')"
  "UUID_PATTERN (js ''00000000-0000-4000-8000-000000000001'')"
  by (simp_all add: ident_id surrogate_defs js_def IDENTIFIER_PATTERN_def UUID_PATTERN_def char_class_defs)

lemma sample_selector: "wf_selector (\<lambda>s. s) \<lparr>rs_kind = TreeSelector, rs_path = js ''src''\<rparr>"
  by (simp add: wf_selector_def validateSelectorPath_def encodeUtf8_def assertCanonicalString_def
      canonical_string_def js_def surrogate_defs codePointBytes_def drivePrefix_def
      unsafeComponent_def char_class_defs)

lemmas json_eval = jrec_def jfields_def canonicalizable_def render_JObj field_text_def jsonQuote_def
  quoteUnit_def string_ok_def canonical_string_def surrogate_defs js_def
  MAX_CANONICAL_JSON_STRING_CODE_UNITS_def MAX_CANONICAL_JSON_DEPTH_def
  MAX_CANONICAL_JSON_NODES_def MAX_CANONICAL_JSON_OUTPUT_CODE_UNITS_def

lemma sample_permission:
  "canonicalizable (\<lambda>s. s) (fs_permission_json \<lparr>fp_action = FsCreate,
     fp_selector = \<lparr>rs_kind = TreeSelector, rs_path = js ''src''\<rparr>\<rparr>)"
  "canonicalizable (\<lambda>s. s) (git_permission_json \<lparr>gp_action = GitStatus\<rparr>)"
  by (simp_all add: fs_permission_json_def git_permission_json_def selector_json_def selectorKindName_def
      spelling_def fsActions_def gitActions_def json_eval)

lemma length_render_jrec:
  "length (render (jrec kvs)) =
     separators (length kvs) + sum_list (map (\<lambda>(k, v). length (jsonQuote (js k)) + 1 + length (render v)) kvs)"
proof -
  have "sum_list (map (\<lambda>f. length (field_text f)) (jfields kvs)) =
      sum_list (map (\<lambda>(k, v). length (jsonQuote (js k)) + 1 + length (render v)) kvs)"
    unfolding jfields_def by (induction kvs) (auto simp: field_text_def)
  then show ?thesis
    by (simp add: jrec_def length_render_JObj jfields_def)
qed

lemma jrec_measures:
  "json_ok nfc (jrec kvs) \<longleftrightarrow> (\<forall>(k, v) \<in> set kvs. string_ok nfc (js k) \<and> json_ok nfc v)"
  "node_count (jrec kvs) = Suc (sum_list (map (\<lambda>(k, v). node_count v) kvs))"
  "jdepth (jrec kvs) = foldr max (map (\<lambda>(k, v). Suc (jdepth v)) kvs) 0"
  by (auto simp: jrec_def jfields_def comp_def case_prod_unfold)

lemma sample_digest_quote: "length (concat (map quoteUnit sample_digest)) = 64"
  by (simp add: sample_digest_def quoteUnit_def length_concat comp_def sum_list_replicate)

lemma sample_contract_json:
  "canonicalizable (\<lambda>s. s) (contract_json sample_contract)"
proof -
  have "string_ok (\<lambda>s. s) sample_digest"
    using sample_digest_ok by (simp add: string_ok_def MAX_CANONICAL_JSON_STRING_CODE_UNITS_def)
  then show ?thesis
  unfolding contract_json_def sample_contract_def authority_json_def validity_json_def subject_json_def
    audience_json_def bindings_json_def non_authoritative_json_def limits_json_def ambient_json_def
    delegation_json_def fs_permission_json_def git_permission_json_def selector_json_def
  by (simp add: canonicalizable_def length_render_jrec separators_def jrec_measures nullable_def sample_digest_quote
      spelling_def fsActions_def gitActions_def effectClasses_def selectorKindName_def
      INTENT_CONTRACT_KIND_def INTENT_CONTRACT_SPEC_VERSION_def safe_int_def MAX_SAFE_INTEGER_def
      jsonQuote_def quoteUnit_def string_ok_def canonical_string_def surrogate_defs js_def decInt_def decDigits.simps
      MAX_CANONICAL_JSON_STRING_CODE_UNITS_def MAX_CANONICAL_JSON_DEPTH_def
      MAX_CANONICAL_JSON_NODES_def MAX_CANONICAL_JSON_OUTPUT_CODE_UNITS_def)
qed

lemma sample_tokens:
  "canonical_string (\<lambda>s. s) (js ''v1'')" "ASCII_TOKEN_PATTERN (js ''v1'')"
  "canonical_string (\<lambda>s. s) (js ''unit'')" "PROFILE_ID_PATTERN (js ''unit'')"
  "canonical_string (\<lambda>s. s) (js ''demo'')"
  "spelling effectClasses LocalReversible < spelling effectClasses SandboxEphemeral"
  by (simp_all add: canonical_string_def surrogate_defs ASCII_TOKEN_PATTERN_def PROFILE_ID_PATTERN_def
      char_class_defs js_def spelling_def effectClasses_def)

lemma sample_contract_valid: "contract_valid (\<lambda>s. s) sample_contract"
proof -
  have "wf_contract (\<lambda>s. s) sample_contract"
    by (simp add: wf_contract_def sample_contract_def wf_validity_def wf_subject_def wf_audience_def
      wf_bindings_def wf_authority_def wf_non_authoritative_def wf_limits_def wf_ambient_def
      wf_delegation_def wf_fs_permission_def sample_stamps sample_idents sample_digest_ok sample_selector
      sample_permission sample_tokens counter_def safe_int_def MAX_SAFE_INTEGER_def
      MAX_FILESYSTEM_PERMISSIONS_def MAX_GIT_PERMISSIONS_def MAX_TEST_PROFILES_def
      MAX_EFFECT_CLASSES_def MAX_CONTRACT_NOTES_def)
  then show ?thesis
    using sample_contract_json by (simp add: contract_valid_def)
qed

lemma sample_contract_accepted:
  "validateSafeCodingIntentContract (\<lambda>s. s) (contract_json sample_contract) = Inr sample_contract"
  using sample_contract_valid by (intro contract_complete) (simp_all add: contract_valid_def)

section \<open>Properties\<close>

text \<open>C39. \<open>parseCanonicalSafeCodingIntentContract\<close> and the canonical text of a contract are exact
  inverses: a text is accepted precisely when it is the canonical JSON of a well-formed contract,
  and that contract is returned. In particular no two texts denote the same contract, so signing
  or hashing the text is signing or hashing the contract.\<close>

theorem parse_contract_exact:
  "parseCanonicalSafeCodingIntentContract nfc s = Inr c \<longleftrightarrow>
     contract_valid nfc c \<and> s = contract_text c"
  unfolding contract_codec.dec_iff by auto

lemma sorted_wrt_distinct: "sorted_wrt (<) (map (f :: 'a \<Rightarrow> jstr) xs) \<Longrightarrow> distinct xs"
  by (metis distinct_map strict_sorted_iff)

text \<open>What every accepted contract guarantees: ambient authority (network, secrets, shell, delete,
  git commit and push) is off, the validity window is non-empty and starts no earlier than the
  issue time, revision 1 and only revision 1 has no predecessor, delegation is allowed exactly with
  a positive depth, the limits are safe non-negative integers, and no permission, test profile or
  effect class is listed twice.\<close>

theorem accepted_contract_guarantees:
  assumes "validateSafeCodingIntentContract nfc v = Inr c"
  shows "\<not> amb_network (au_ambientAuthority (ic_authority c)) \<and>
    \<not> amb_secrets (au_ambientAuthority (ic_authority c)) \<and>
    \<not> amb_shell (au_ambientAuthority (ic_authority c)) \<and>
    \<not> amb_delete (au_ambientAuthority (ic_authority c)) \<and>
    \<not> amb_gitCommit (au_ambientAuthority (ic_authority c)) \<and>
    \<not> amb_gitPush (au_ambientAuthority (ic_authority c)) \<and>
    timestampMilliseconds (ic_issuedAt c) \<le> timestampMilliseconds (vld_notBefore (ic_validity c)) \<and>
    timestampMilliseconds (vld_notBefore (ic_validity c)) <
      timestampMilliseconds (vld_expiresAt (ic_validity c)) \<and>
    1 \<le> ic_revision c \<and> (ic_revision c = 1 \<longleftrightarrow> ic_previousRevisionHash c = None) \<and>
    (del_allowed (au_delegation (ic_authority c)) \<longleftrightarrow> 0 < del_maxDepth (au_delegation (ic_authority c))) \<and>
    {lim_maxUniqueModifiedFiles (au_limits (ic_authority c)), lim_maxMutationBytes (au_limits (ic_authority c)),
      lim_maxTestRuns (au_limits (ic_authority c))} \<subseteq> {0..MAX_SAFE_INTEGER} \<and>
    distinct (au_filesystem (ic_authority c)) \<and> distinct (au_git (ic_authority c)) \<and>
    distinct (au_testProfiles (ic_authority c)) \<and> distinct (au_allowedEffectClasses (ic_authority c))"
proof -
  have wf: "wf_contract nfc c"
    using contract_shape [OF assms] by blast
  then have a: "wf_authority nfc (ic_authority c)"
    by (simp add: wf_contract_def)
  then have "distinct (au_filesystem (ic_authority c)) \<and> distinct (au_git (ic_authority c)) \<and>
      distinct (au_testProfiles (ic_authority c)) \<and> distinct (au_allowedEffectClasses (ic_authority c))"
    unfolding wf_authority_def using sorted_wrt_distinct [of "\<lambda>x. x" "au_testProfiles (ic_authority c)"]
    by (auto intro: sorted_wrt_distinct)
  with wf a show ?thesis
    by (auto simp: wf_contract_def wf_authority_def wf_ambient_def wf_delegation_def wf_limits_def
        counter_def safe_int_def)
qed

theorem accepted_contract_guarantees_witness:
  "\<not> amb_network (au_ambientAuthority (ic_authority sample_contract)) \<and> 1 \<le> ic_revision sample_contract"
  using accepted_contract_guarantees [OF sample_contract_accepted] by blast

end
