(* ===== verification/Kernel_State.thy ===== *)
theory Kernel_State
  imports Contract_Properties Execution_Ticket
begin

text \<open>
  The plain-data state of the Safe Coding kernel and the inputs of its transitions
  (\<open>clodex-kernel/src/state.ts\<close>).

  The dictionaries of the state (\<open>Record<string, ...>\<close>) are association lists in insertion order. The
  transitions read them with own-property lookups only, so names inherited from \<open>Object.prototype\<close> play
  no role, and nothing depends on the order in which a JavaScript engine lists the keys. Numbers that
  a caller supplies and the kernel checks (\<open>KernelBudgetCharge\<close>) are JavaScript numbers, so that
  fractions and negative zero are inputs of the model; the others are integers. The parts of an input
  that a transition validates itself (the contract, the ticket, a reason, a settlement status) are
  arbitrary JavaScript values.
\<close>

section \<open>Statuses\<close>

datatype contract_status = Active | Revoked | Superseded

datatype ticket_status =
    Registered | CommitPermit | FailedNoEffect | Committed | ResultUnavailable | Uncertain

definition ticketStatuses :: "(string \<times> ticket_status) list" where
  "ticketStatuses =
     [(''registered'', Registered), (''commit-permit'', CommitPermit), (''failed-no-effect'', FailedNoEffect),
      (''committed'', Committed), (''result-unavailable'', ResultUnavailable), (''uncertain'', Uncertain)]"

definition contractStatuses :: "(string \<times> contract_status) list" where
  "contractStatuses = [(''active'', Active), (''revoked'', Revoked), (''superseded'', Superseded)]"

definition isKernelTerminalTicketStatus :: "ticket_status \<Rightarrow> bool" where
  "isKernelTerminalTicketStatus status =
     (status = FailedNoEffect \<or> status = Committed \<or> status = ResultUnavailable \<or> status = Uncertain)"

section \<open>State\<close>

record kernel_charge =
  kc_uniqueModifiedFiles :: jnum
  kc_mutationBytes :: jnum
  kc_testRuns :: jnum

record revision_record =
  rr_contract :: intent_contract
  rr_contractHash :: jstr
  rr_revision :: int
  rr_previousRevisionHash :: "jstr option"
  rr_status :: contract_status
  rr_revocationEpoch :: int
  rr_activatedAt :: jstr
  rr_endedAt :: "jstr option"
  rr_endReason :: "jstr option"

record budget_usage =
  bu_modifiedObjectIds :: "jstr list"
  bu_mutationBytes :: int
  bu_testRuns :: int

record contract_lineage =
  cl_contractId :: jstr
  cl_currentContractHash :: jstr
  cl_revocationEpoch :: int
  cl_revisions :: "revision_record list"
  cl_budget :: budget_usage

record ticket_record =
  tr_ticket :: execution_ticket
  tr_contractId :: jstr
  tr_status :: ticket_status
  tr_registeredAt :: jstr
  tr_commitPermittedAt :: "jstr option"
  tr_terminalAt :: "jstr option"
  tr_terminalReason :: "jstr option"
  tr_resultHash :: "jstr option"
  tr_reservedCharge :: kernel_charge
  tr_aggregateCharge :: kernel_charge

definition SAFE_CODING_KERNEL_STATE_VERSION :: int where
  "SAFE_CODING_KERNEL_STATE_VERSION = 1"

record kernel_state =
  ks_version :: int
  ks_lineages :: "contract_lineage jsobj"
  ks_tickets :: "ticket_record jsobj"
  ks_requestIds :: "jstr jsobj"
  ks_reservationIds :: "jstr jsobj"

definition createEmptySafeCodingKernelState :: kernel_state where
  "createEmptySafeCodingKernelState =
     \<lparr>ks_version = SAFE_CODING_KERNEL_STATE_VERSION, ks_lineages = [], ks_tickets = [],
      ks_requestIds = [], ks_reservationIds = []\<rparr>"

section \<open>Inputs and results of the transitions\<close>

record active_snapshot =
  as_contractId :: jstr
  as_contractHash :: jstr
  as_revision :: int
  as_revocationEpoch :: int
  as_status :: contract_status

record cas_expectation =
  ce_contractHash :: jstr
  ce_revision :: int
  ce_revocationEpoch :: int

record activate_input =
  ai_contract :: jsval
  ai_canonicalPayload :: jstr
  ai_contractHash :: jstr
  ai_expectedPrevious :: "cas_expectation option"
  ai_now :: jstr

record revoke_input =
  ri_contractId :: jstr
  ri_expectedActive :: cas_expectation
  ri_now :: jstr
  ri_reason :: jsval

record register_input =
  gi_ticket :: jsval
  gi_expectedActive :: active_snapshot
  gi_limits :: "authority_limits option"
  gi_charge :: "kernel_charge option"
  gi_now :: jstr

record commit_input =
  ci_ticket :: jsval
  ci_now :: jstr

record fail_input =
  fi_ticketId :: jstr
  fi_now :: jstr
  fi_reason :: jsval

record settle_input =
  si_ticketId :: jstr
  si_status :: jsval
  si_now :: jstr
  si_resultHash :: "jstr option"
  si_reason :: jsval

record commit_permit =
  cp_ticketId :: jstr
  cp_requestId :: jstr
  cp_contractHash :: jstr
  cp_contractRevision :: int
  cp_revocationEpoch :: int
  cp_budgetReservationId :: jstr
  cp_permittedAt :: jstr

section \<open>Errors\<close>

datatype error_code =
    BudgetExhausted | ContractAlreadyExists | ContractCasMismatch | ContractInvalid
  | ContractNotActive | ContractNotFound | ContractRevoked | RequestReplay | ReservationReplay
  | TicketExpired | TicketInvalid | TicketNotExecutable | TicketNotFound | TicketReplay
  | TicketStale | TicketTerminal

text \<open>\<open>OtherError\<close> is an exception of another class that passes through the kernel.\<close>

datatype kernel_error =
    SafeCodingKernelError (ke_code: error_code) (ke_message: jstr)
  | OtherError (ke_message: jstr)

definition kernelError :: "error_code \<Rightarrow> jstr \<Rightarrow> kernel_error" where
  "kernelError code message = SafeCodingKernelError code message"

section \<open>The life cycle of a ticket\<close>

text \<open>The statuses are ordered by the life cycle: a registered ticket gets its permit or fails, a
  permitted one is settled, and a terminal one is final. Terminal statuses are incomparable.\<close>

instantiation ticket_status :: order
begin

definition less_eq_ticket_status :: "ticket_status \<Rightarrow> ticket_status \<Rightarrow> bool" where
  "s \<le> t \<longleftrightarrow> s = t \<or> s = Registered \<or> (s = CommitPermit \<and> isKernelTerminalTicketStatus t)"

definition less_ticket_status :: "ticket_status \<Rightarrow> ticket_status \<Rightarrow> bool" where
  "s < t \<longleftrightarrow> s \<le> t \<and> s \<noteq> (t :: ticket_status)"

instance
proof
  fix x y z :: ticket_status
  show "x < y \<longleftrightarrow> x \<le> y \<and> \<not> y \<le> x"
    by (auto simp: less_ticket_status_def less_eq_ticket_status_def isKernelTerminalTicketStatus_def)
  show "x \<le> x"
    by (simp add: less_eq_ticket_status_def)
  show "x \<le> z" if "x \<le> y" "y \<le> z"
    using that by (auto simp: less_eq_ticket_status_def isKernelTerminalTicketStatus_def)
  show "x = y" if "x \<le> y" "y \<le> x"
    using that by (auto simp: less_eq_ticket_status_def isKernelTerminalTicketStatus_def)
qed

end

lemma ticket_status_le_terminal:
  "isKernelTerminalTicketStatus s \<Longrightarrow> s \<le> t \<Longrightarrow> t = s"
  by (auto simp: less_eq_ticket_status_def isKernelTerminalTicketStatus_def)

lemma Registered_least [simp]: "Registered \<le> s"
  by (simp add: less_eq_ticket_status_def)

end
