(* ===== verification/Ledger_Transitions.thy ===== *)
theory Ledger_Transitions
  imports Ledger_Validation Kernel_State
begin

text \<open>
  The transitions of the effect ledger (\<open>clodex-ledger/src/transitions.ts\<close>) and the classification of a
  persisted record on recovery (\<open>recovery.ts\<close>). Each transition validates the record it is given, builds the
  next one and passes it through \<open>finishTransition\<close>, which validates it again, checks it as a successor and
  copies it. The file repeats the primitive checks of \<open>records.ts\<close> word for word; the model uses the ones of
  \<open>Ledger_Records\<close>.

  Inputs: a field of TypeScript type string, nullable string or boolean has that type here, and the fields the code
  validates structurally (ticket, evidence expectation, permit, attestation, receipt) are arbitrary values.

  A verified receipt is an object whose identity is a key of the module's \<open>WeakMap\<close>; the model
  numbers these objects. The receipt verifier is foreign code: its methods are functions of the state of the outside
  world at the call (\<open>'w\<close>), which may differ between the calls.
\<close>

section \<open>Inputs\<close>

record prepare_input =
  pi_ticket :: jsval
  pi_attemptId :: jstr
  pi_evidenceIntentId :: jstr
  pi_attestationId :: jstr
  pi_evidenceExpectation :: jsval
  pi_now :: jstr

record close_input =
  xi_now :: jstr
  xi_attestation :: jsval
  xi_resultHash :: "jstr option"
  xi_reasonCode :: "jstr option"
  xi_effectCompletionObserved :: bool

section \<open>Guards\<close>

definition requireTimestamp_transition :: "jstr \<Rightarrow> string \<Rightarrow> ledger_error + int" where
  "requireTimestamp_transition value label =
     catchE (safeCodingLedgerTimestampMilliseconds value) (\<lambda>_. ledgerError (label @ '' is invalid''))"

definition requireTimestampString :: "jsval \<Rightarrow> string \<Rightarrow> ledger_error + jstr" where
  "requireTimestampString value label =
     (case value of
        JStr s \<Rightarrow> bindE (requireTimestamp_transition s label) (\<lambda>_. Inr s)
      | _ \<Rightarrow> Inl (ledgerError (label @ '' is invalid'')))"

definition requireNotBefore :: "jstr \<Rightarrow> jstr \<Rightarrow> string \<Rightarrow> ledger_error + unit" where
  "requireNotBefore before after message =
     bindE (requireTimestamp_transition after message) (\<lambda>a.
     bindE (requireTimestamp_transition before message) (\<lambda>b.
     guardE (\<not> a < b) (ledgerError message)))"

definition requireState :: "ledger_record \<Rightarrow> ledger_state \<Rightarrow> ledger_error + unit" where
  "requireState record expected =
     guardE (lt_status (lr_ticketState record) = expected)
       (SafeCodingLedgerValidationError (js ''Expected '' @ spelling ledgerStates expected @ js '', received '' @
         spelling ledgerStates (lt_status (lr_ticketState record))))"

definition nextRevision :: "int \<Rightarrow> ledger_error + int" where
  "nextRevision revision =
     bindE (guardE (\<not> revision \<ge> MAX_SAFE_INTEGER) (ledgerError ''Ledger revision cannot be incremented safely''))
       (\<lambda>_. Inr (revision + 1))"

text \<open>A closed record of any kind of field values; \<open>accessor\<close> says which of them stand for accessors.\<close>

definition assertClosedFields ::
  "shape \<Rightarrow> (jstr \<times> 'v) list \<Rightarrow> ('v \<Rightarrow> bool) \<Rightarrow> string list \<Rightarrow> string \<Rightarrow> ledger_error + unit" where
  "assertClosedFields sh fs accessor keys label =
     bindE (guardE (\<not> (foreignPrototype sh \<or> symbolKeys sh \<or> hiddenFields sh \<or> list_ex (\<lambda>f. accessor (snd f)) fs))
       (ledgerError (label @ '' must be a closed data record''))) (\<lambda>_.
     guardE (sort (map fst fs) = sort (map js keys)) (ledgerError (label @ '' has unknown or missing fields'')))"

definition assertClosedRecord :: "jsval \<Rightarrow> string list \<Rightarrow> string \<Rightarrow> ledger_error + (jstr \<times> jsval) list" where
  "assertClosedRecord value keys label =
     (case value of
        JObj sh fs \<Rightarrow> bindE (assertClosedFields sh fs (\<lambda>v. v = JAccessor) keys label) (\<lambda>_. Inr fs)
      | _ \<Rightarrow> Inl (ledgerError (label @ '' must be a closed data record'')))"

section \<open>Successors\<close>

definition assertAdmissionOnlySuccessor ::
  "(jstr \<Rightarrow> jstr) \<Rightarrow> ledger_record \<Rightarrow> ledger_record \<Rightarrow> ledger_error + unit" where
  "assertAdmissionOnlySuccessor nfc previous next_record =
     (let p = lr_evidenceAdmission previous; n = lr_evidenceAdmission next_record;
          mutated = ledgerError ''Evidence acknowledgement mutated terminal outcome'' in
     bindE (guardE (\<not> (ev_status p \<noteq> EvidencePending \<or> ev_status n \<noteq> EvidenceAdmitted))
       (ledgerError ''Terminal successor may only acknowledge evidence'')) (\<lambda>_.
     bindE (sameCanonical nfc (ticketState_json (lr_ticketState previous)) (ticketState_json (lr_ticketState next_record))) (\<lambda>sameTicket.
     bindE (guardE sameTicket mutated) (\<lambda>_.
     bindE (sameCanonical nfc (effectAttempt_json (lr_effectAttempt previous)) (effectAttempt_json (lr_effectAttempt next_record))) (\<lambda>sameAttempt.
     bindE (guardE (\<not> (\<not> sameAttempt \<or> ev_intentId p \<noteq> ev_intentId n \<or> ev_attestationId p \<noteq> ev_attestationId n \<or>
       ev_readyAt p \<noteq> ev_readyAt n)) mutated) (\<lambda>_.
     bindE (sameCanonical nfc (nullJson attestation_json (ev_attestation p)) (nullJson attestation_json (ev_attestation n))) (\<lambda>sameAttestation.
     guardE sameAttestation mutated)))))))"

definition assertSafeCodingLedgerSuccessor ::
  "(jstr \<Rightarrow> jstr) \<Rightarrow> ledger_record \<Rightarrow> ledger_record \<Rightarrow> ledger_error + unit" where
  "assertSafeCodingLedgerSuccessor nfc previousValue nextValue =
     (let changed = ledgerError ''Ledger successor changed immutable identity'' in
     bindE (validateSafeCodingLedgerRecord nfc (ledger_json previousValue)) (\<lambda>previous.
     bindE (validateSafeCodingLedgerRecord nfc (ledger_json nextValue)) (\<lambda>next_record.
     bindE (nextRevision (lr_revision previous)) (\<lambda>revision.
     bindE (guardE (lr_revision next_record = revision) (ledgerError ''Ledger revision must advance by exactly one'')) (\<lambda>_.
     bindE (guardE (\<not> (lr_transactionId next_record \<noteq> lr_transactionId previous \<or>
         lr_createdAt next_record \<noteq> lr_createdAt previous)) changed) (\<lambda>_.
     bindE (sameCanonical nfc (ticket_json (lt_ticket (lr_ticketState next_record)))
         (ticket_json (lt_ticket (lr_ticketState previous)))) (\<lambda>sameTicket.
     bindE (guardE (\<not> (\<not> sameTicket \<or>
         le_attemptId (lr_effectAttempt next_record) \<noteq> le_attemptId (lr_effectAttempt previous))) changed) (\<lambda>_.
     bindE (sameCanonical nfc (expectation_json (lr_evidenceExpectation next_record))
         (expectation_json (lr_evidenceExpectation previous))) (\<lambda>sameExpectation.
     bindE (guardE (\<not> (\<not> sameExpectation \<or>
         ev_intentId (lr_evidenceAdmission next_record) \<noteq> ev_intentId (lr_evidenceAdmission previous) \<or>
         ev_attestationId (lr_evidenceAdmission next_record) \<noteq> ev_attestationId (lr_evidenceAdmission previous))) changed) (\<lambda>_.
     bindE (requireNotBefore (lr_updatedAt previous) (lr_updatedAt next_record) ''Ledger successor timestamp regressed'') (\<lambda>_.
     let from_state = lt_status (lr_ticketState previous); to_state = lt_status (lr_ticketState next_record);
         invalid = SafeCodingLedgerValidationError (js ''Invalid ledger transition '' @ spelling ledgerStates from_state @
           js '' -> '' @ spelling ledgerStates to_state) in
     if from_state = LedgerPrepared then
       guardE (\<not> (to_state \<noteq> LedgerCommitPermit \<and> to_state \<noteq> LedgerFailedPreEffect)) invalid
     else if from_state = LedgerCommitPermit then
       guardE (\<not> (to_state \<noteq> LedgerCommitted \<and> to_state \<noteq> LedgerResultUnavailable \<and> to_state \<noteq> LedgerUncertain)) invalid
     else
       bindE (guardE (to_state = from_state) (ledgerError ''Terminal ledger state cannot reopen or change'')) (\<lambda>_.
       assertAdmissionOnlySuccessor nfc previous next_record))))))))))))"

definition finishTransition :: "(jstr \<Rightarrow> jstr) \<Rightarrow> ledger_record \<Rightarrow> ledger_record \<Rightarrow> ledger_error + ledger_record" where
  "finishTransition nfc previous nextValue =
     bindE (validateSafeCodingLedgerRecord nfc (ledger_json nextValue)) (\<lambda>next_record.
     bindE (assertSafeCodingLedgerSuccessor nfc previous next_record) (\<lambda>_.
     cloneSafeCodingLedgerRecord nfc next_record))"

section \<open>Preparing a record\<close>

text \<open>The validated expectation holds the received values field by field, so the received value stands in its place
  (the checks that follow do not depend on the order of keys).\<close>

definition preparedFields :: "execution_ticket \<Rightarrow> prepare_input \<Rightarrow> (string \<times> jsval) list" where
  "preparedFields ticket input =
     [(''kind'', JStr (js SAFE_CODING_LEDGER_RECORD_KIND)), (''version'', jint SAFE_CODING_LEDGER_RECORD_VERSION),
      (''transactionId'', JStr (et_ticketId ticket)), (''revision'', jint 1),
      (''createdAt'', JStr (pi_now input)), (''updatedAt'', JStr (pi_now input)),
      (''ticketState'', ticketState_json
         \<lparr>lt_ticket = ticket, lt_status = LedgerPrepared, lt_consumedAt = None, lt_terminalAt = None,
          lt_terminalReasonCode = None\<rparr>),
      (''effectAttempt'', effectAttempt_json
         \<lparr>le_attemptId = pi_attemptId input, le_adapterId = et_adapterId ticket, le_adapterDigest = et_adapterDigest ticket,
          le_effectClass = et_effectClass ticket, le_resolvedObjectId = et_resolvedObjectId ticket,
          le_stateCommitmentHash = et_stateCommitmentHash ticket, le_preparedAt = pi_now input,
          le_commitPermittedAt = None, le_effectObservedAt = None, le_resultHash = None\<rparr>),
      (''evidenceExpectation'', pi_evidenceExpectation input),
      (''evidenceAdmission'', admission_json
         \<lparr>ev_intentId = pi_evidenceIntentId input, ev_attestationId = pi_attestationId input,
          ev_status = EvidenceReserved, ev_attestation = None, ev_readyAt = None, ev_admittedAt = None,
          ev_admissionReceipt = None\<rparr>)]"

definition createPreparedSafeCodingLedgerRecord ::
  "(jstr \<Rightarrow> jstr) \<Rightarrow> prepare_input \<Rightarrow> ledger_error + ledger_record" where
  "createPreparedSafeCodingLedgerRecord nfc input =
     bindE (catchE (validateSafeCodingExecutionTicket nfc (pi_ticket input))
       (\<lambda>_. ledgerError ''PREPARED requires a valid execution ticket'')) (\<lambda>ticket.
     bindE (requireTimestamp_transition (pi_now input) ''PREPARED timestamp'') (\<lambda>nowMs.
     bindE (safeCodingLedgerTimestampMilliseconds (et_issuedAt ticket)) (\<lambda>issuedMs.
     bindE (safeCodingLedgerTimestampMilliseconds (et_expiresAt ticket)) (\<lambda>expiresMs.
     bindE (guardE (\<not> (nowMs < issuedMs \<or> nowMs \<ge> expiresMs))
       (ledgerError ''PREPARED timestamp is outside ticket validity'')) (\<lambda>_.
     bindE (requireIdentifier_ledger (JStr (pi_attemptId input)) ''Effect attempt ID'') (\<lambda>_.
     bindE (requireIdentifier_ledger (JStr (pi_evidenceIntentId input)) ''Evidence intent ID'') (\<lambda>_.
     bindE (requireUuid_ledger (JStr (pi_attestationId input)) ''Reserved attestation ID'') (\<lambda>_.
     bindE (validateSafeCodingEvidenceExpectation (pi_evidenceExpectation input)) (\<lambda>_.
     validateSafeCodingLedgerRecord nfc (jrec (preparedFields ticket input)))))))))))"

section \<open>Recording a commit permit\<close>

definition permitKeys :: "string list" where
  "permitKeys =
     [''ticketId'', ''requestId'', ''contractHash'', ''contractRevision'', ''revocationEpoch'', ''budgetReservationId'',
      ''permittedAt'']"

definition validateCommitPermit :: "jsval \<Rightarrow> ledger_error + commit_permit" where
  "validateCommitPermit value =
     bindE (assertClosedRecord value permitKeys ''COMMIT_PERMIT'') (\<lambda>record.
     bindE (requireIdentifier_ledger (getProp record ''ticketId'') ''Permit ticket ID'') (\<lambda>ticketId.
     bindE (requireIdentifier_ledger (getProp record ''requestId'') ''Permit request ID'') (\<lambda>requestId.
     bindE (requireDigest_ledger (getProp record ''contractHash'') ''Permit contract hash'') (\<lambda>contractHash.
     bindE (requirePositiveInteger_ledger (getProp record ''contractRevision'') ''Permit contract revision'') (\<lambda>contractRevision.
     bindE (requireNonNegativeInteger_ledger (getProp record ''revocationEpoch'') ''Permit revocation epoch'') (\<lambda>revocationEpoch.
     bindE (requireIdentifier_ledger (getProp record ''budgetReservationId'') ''Permit budget reservation ID'') (\<lambda>budgetReservationId.
     bindE (requireTimestampString (getProp record ''permittedAt'') ''Permit timestamp'') (\<lambda>permittedAt.
     Inr \<lparr>cp_ticketId = ticketId, cp_requestId = requestId, cp_contractHash = contractHash,
          cp_contractRevision = contractRevision, cp_revocationEpoch = revocationEpoch,
          cp_budgetReservationId = budgetReservationId, cp_permittedAt = permittedAt\<rparr>))))))))"

definition recordSafeCodingCommitPermit :: "(jstr \<Rightarrow> jstr) \<Rightarrow> ledger_record \<Rightarrow> jsval \<Rightarrow> ledger_error + ledger_record" where
  "recordSafeCodingCommitPermit nfc current_record permitValue =
     bindE (validateSafeCodingLedgerRecord nfc (ledger_json current_record)) (\<lambda>record.
     bindE (requireState record LedgerPrepared) (\<lambda>_.
     bindE (validateCommitPermit permitValue) (\<lambda>permit.
     let ticket = lt_ticket (lr_ticketState record) in
     bindE (guardE (\<not> (cp_ticketId permit \<noteq> et_ticketId ticket \<or> cp_requestId permit \<noteq> et_requestId ticket \<or>
         cp_contractHash permit \<noteq> et_contractHash ticket \<or> cp_contractRevision permit \<noteq> et_contractRevision ticket \<or>
         cp_revocationEpoch permit \<noteq> et_revocationEpoch ticket \<or>
         cp_budgetReservationId permit \<noteq> et_budgetReservationId ticket))
       (ledgerError ''COMMIT_PERMIT does not exactly match the ticket'')) (\<lambda>_.
     bindE (safeCodingLedgerTimestampMilliseconds (cp_permittedAt permit)) (\<lambda>permittedMs.
     bindE (safeCodingLedgerTimestampMilliseconds (le_preparedAt (lr_effectAttempt record))) (\<lambda>preparedMs.
     bindE (guardE (\<not> permittedMs < preparedMs) (ledgerError ''COMMIT_PERMIT timestamp is invalid or expired'')) (\<lambda>_.
     bindE (safeCodingLedgerTimestampMilliseconds (et_expiresAt ticket)) (\<lambda>expiresMs.
     bindE (guardE (\<not> permittedMs \<ge> expiresMs) (ledgerError ''COMMIT_PERMIT timestamp is invalid or expired'')) (\<lambda>_.
     bindE (nextRevision (lr_revision record)) (\<lambda>revision.
     finishTransition nfc record
       (record\<lparr>lr_revision := revision, lr_updatedAt := cp_permittedAt permit,
          lr_ticketState := (lr_ticketState record)\<lparr>lt_status := LedgerCommitPermit,
            lt_consumedAt := Some (cp_permittedAt permit)\<rparr>,
          lr_effectAttempt := (lr_effectAttempt record)\<lparr>le_commitPermittedAt := Some (cp_permittedAt permit)\<rparr>\<rparr>)))))))))))"

section \<open>Closing a record\<close>

definition validateTerminalAttestation ::
  "(jstr \<Rightarrow> jstr) \<Rightarrow> ledger_record \<Rightarrow> jsval \<Rightarrow> attestation_status \<Rightarrow> jstr option \<Rightarrow> jstr \<Rightarrow> bool \<Rightarrow>
   ledger_error + effect_attestation" where
  "validateTerminalAttestation nfc record value expectedStatus resultHash terminalAt effectCompletionObserved =
     bindE (catchE (validateSafeCodingEffectAttestation nfc value)
       (\<lambda>_. ledgerError ''Terminal attestation is invalid'')) (\<lambda>attestation.
     let ticket = lt_ticket (lr_ticketState record); expectation = lr_evidenceExpectation record;
         noEffect = (expectedStatus = FailedNoEffectStatus \<or> expectedStatus = UncertainStatus \<and> \<not> effectCompletionObserved);
         expectedPostStateHash = (if noEffect then None else Some (ex_completionPostStateHash expectation));
         expectedBudgetCharges = (if noEffect then ZERO_BUDGET_CHARGES else ex_completionBudgetCharges expectation);
         expectedEvidenceLevel = (if noEffect then AttemptOnly else ex_completionEvidenceLevel expectation);
         expectedReconciliationRef = (if noEffect then None else ex_completionReconciliationRef expectation);
         mismatch = ledgerError ''Terminal attestation does not match the attempt'' in
     bindE (guardE (\<not> (ea_attestationId attestation \<noteq> ev_attestationId (lr_evidenceAdmission record) \<or>
         ea_ticketId attestation \<noteq> et_ticketId ticket \<or> ea_requestId attestation \<noteq> et_requestId ticket \<or>
         ea_contractHash attestation \<noteq> et_contractHash ticket \<or>
         ea_contractRevision attestation \<noteq> et_contractRevision ticket \<or>
         ea_actionHash attestation \<noteq> et_actionHash ticket \<or>
         ea_delegationLineageHash attestation \<noteq> ex_delegationLineageHash expectation \<or>
         ea_adapterId attestation \<noteq> et_adapterId ticket \<or> ea_adapterDigest attestation \<noteq> et_adapterDigest ticket \<or>
         ea_runnerId attestation \<noteq> ex_runnerId expectation \<or> ea_runnerDigest attestation \<noteq> ex_runnerDigest expectation \<or>
         ea_executorId attestation \<noteq> aud_executorId (et_audience ticket) \<or>
         ea_observerId attestation \<noteq> ex_observerId expectation \<or> ea_effectClass attestation \<noteq> et_effectClass ticket \<or>
         ea_registryDigest attestation \<noteq> et_registryDigest ticket \<or>
         ea_revocationEpoch attestation \<noteq> et_revocationEpoch ticket \<or>
         ea_preStateHash attestation \<noteq> ex_preStateHash expectation \<or>
         ea_postStateHash attestation \<noteq> expectedPostStateHash \<or>
         ea_idempotencyKey attestation \<noteq> ex_idempotencyKey expectation \<or> ea_status attestation \<noteq> expectedStatus \<or>
         ea_resultHash attestation \<noteq> resultHash)) mismatch) (\<lambda>_.
     bindE (sameCanonical nfc (charges_json (ea_budgetCharges attestation)) (charges_json expectedBudgetCharges)) (\<lambda>same.
     bindE (guardE (\<not> (\<not> same \<or> ea_startedAt attestation \<noteq> le_preparedAt (lr_effectAttempt record) \<or>
         ea_finishedAt attestation \<noteq> terminalAt \<or> ea_evidenceLevel attestation \<noteq> expectedEvidenceLevel \<or>
         ea_reconciliationRef attestation \<noteq> expectedReconciliationRef)) mismatch) (\<lambda>_.
     Inr attestation))))"

definition pendingEvidence :: "ledger_record \<Rightarrow> effect_attestation \<Rightarrow> jstr \<Rightarrow> evidence_admission" where
  "pendingEvidence record attestation now =
     (lr_evidenceAdmission record)\<lparr>ev_status := EvidencePending, ev_attestation := Some attestation,
       ev_readyAt := Some now\<rparr>"

definition closePostPermit ::
  "(jstr \<Rightarrow> jstr) \<Rightarrow> ledger_record \<Rightarrow> ledger_state \<Rightarrow> close_input \<Rightarrow> ledger_error + ledger_record" where
  "closePostPermit nfc current_record status input =
     bindE (validateSafeCodingLedgerRecord nfc (ledger_json current_record)) (\<lambda>record.
     bindE (requireState record LedgerCommitPermit) (\<lambda>_.
     let expectedAttestationStatus =
       (if status = LedgerCommitted then CommittedStatus
        else if status = LedgerResultUnavailable then CommittedResultUnavailableStatus else UncertainStatus) in
     bindE (validateTerminalAttestation nfc record (xi_attestation input) expectedAttestationStatus (xi_resultHash input)
       (xi_now input) (xi_effectCompletionObserved input)) (\<lambda>attestation.
     bindE (requireNotBefore (lr_updatedAt record) (xi_now input) ''Terminal timestamp regressed'') (\<lambda>_.
     bindE (nextRevision (lr_revision record)) (\<lambda>revision.
     finishTransition nfc record
       (record\<lparr>lr_revision := revision, lr_updatedAt := xi_now input,
          lr_ticketState := (lr_ticketState record)\<lparr>lt_status := status, lt_terminalAt := Some (xi_now input),
            lt_terminalReasonCode := xi_reasonCode input\<rparr>,
          lr_effectAttempt := (lr_effectAttempt record)
            \<lparr>le_effectObservedAt := (if xi_effectCompletionObserved input then Some (xi_now input) else None),
             le_resultHash := xi_resultHash input\<rparr>,
          lr_evidenceAdmission := pendingEvidence record attestation (xi_now input)\<rparr>))))))"

definition closeSafeCodingLedgerCommitted ::
  "(jstr \<Rightarrow> jstr) \<Rightarrow> ledger_record \<Rightarrow> jstr \<Rightarrow> jsval \<Rightarrow> jstr \<Rightarrow> ledger_error + ledger_record" where
  "closeSafeCodingLedgerCommitted nfc current_record now attestation resultHash =
     bindE (requireDigest_ledger (JStr resultHash) ''Committed result hash'') (\<lambda>_.
     closePostPermit nfc current_record LedgerCommitted
       \<lparr>xi_now = now, xi_attestation = attestation, xi_resultHash = Some resultHash, xi_reasonCode = None,
        xi_effectCompletionObserved = True\<rparr>)"

definition closeSafeCodingLedgerResultUnavailable ::
  "(jstr \<Rightarrow> jstr) \<Rightarrow> ledger_record \<Rightarrow> jstr \<Rightarrow> jsval \<Rightarrow> jstr option \<Rightarrow> jstr \<Rightarrow> ledger_error + ledger_record" where
  "closeSafeCodingLedgerResultUnavailable nfc current_record now attestation resultHash reasonCode =
     bindE (requireNullableDigest_ledger (nullable resultHash) ''Unavailable result hash'') (\<lambda>_.
     bindE (requireIdentifier_ledger (JStr reasonCode) ''Result-unavailable reason code'') (\<lambda>_.
     closePostPermit nfc current_record LedgerResultUnavailable
       \<lparr>xi_now = now, xi_attestation = attestation, xi_resultHash = resultHash, xi_reasonCode = Some reasonCode,
        xi_effectCompletionObserved = True\<rparr>))"

definition closeSafeCodingLedgerUncertain ::
  "(jstr \<Rightarrow> jstr) \<Rightarrow> ledger_record \<Rightarrow> jstr \<Rightarrow> jsval \<Rightarrow> jstr option \<Rightarrow> jstr \<Rightarrow> bool \<Rightarrow> ledger_error + ledger_record" where
  "closeSafeCodingLedgerUncertain nfc current_record now attestation resultHash reasonCode effectCompletionObserved =
     bindE (requireNullableDigest_ledger (nullable resultHash) ''Uncertain result hash'') (\<lambda>_.
     bindE (requireIdentifier_ledger (JStr reasonCode) ''Uncertain reason code'') (\<lambda>_.
     bindE (guardE (\<not> (resultHash \<noteq> None \<and> \<not> effectCompletionObserved))
       (ledgerError ''An uncertain result hash requires observed effect completion'')) (\<lambda>_.
     closePostPermit nfc current_record LedgerUncertain
       \<lparr>xi_now = now, xi_attestation = attestation, xi_resultHash = resultHash, xi_reasonCode = Some reasonCode,
        xi_effectCompletionObserved = effectCompletionObserved\<rparr>)))"

definition closeSafeCodingLedgerFailedPreEffect ::
  "(jstr \<Rightarrow> jstr) \<Rightarrow> ledger_record \<Rightarrow> jstr \<Rightarrow> jsval \<Rightarrow> jstr \<Rightarrow> ledger_error + ledger_record" where
  "closeSafeCodingLedgerFailedPreEffect nfc current_record now attestationValue reasonCode =
     bindE (validateSafeCodingLedgerRecord nfc (ledger_json current_record)) (\<lambda>record.
     bindE (requireState record LedgerPrepared) (\<lambda>_.
     bindE (requireIdentifier_ledger (JStr reasonCode) ''Failed-pre-effect reason code'') (\<lambda>_.
     bindE (validateTerminalAttestation nfc record attestationValue FailedNoEffectStatus None now False) (\<lambda>attestation.
     bindE (requireNotBefore (lr_updatedAt record) now ''Terminal timestamp regressed'') (\<lambda>_.
     bindE (nextRevision (lr_revision record)) (\<lambda>revision.
     finishTransition nfc record
       (record\<lparr>lr_revision := revision, lr_updatedAt := now,
          lr_ticketState := (lr_ticketState record)\<lparr>lt_status := LedgerFailedPreEffect, lt_terminalAt := Some now,
            lt_terminalReasonCode := Some reasonCode\<rparr>,
          lr_evidenceAdmission := pendingEvidence record attestation now\<rparr>)))))))"

section \<open>Verified receipts\<close>

text \<open>The outcome of a call of a port, and the own or inherited property of a port object with a given name.\<close>

datatype port_result = PortThrows | PortReturns jsval

datatype 'f port_member = MissingMember | NotADataMethod | DataMethod 'f

type_synonym 'w port_method = "'w \<Rightarrow> admission_receipt \<Rightarrow> port_result"

datatype 'w receipt_verifier =
    NoVerifier
  | ReceiptVerifier (rv_verify: "'w port_method port_member") (rv_assertVerified: "'w port_method port_member")

text \<open>The \<open>WeakMap\<close>: receipt objects with the pinned final fence of the verifier that accepted them.\<close>

record 'w receipt_registry =
  rr_nextObject :: nat
  rr_verified :: "(nat \<times> (admission_receipt \<times> 'w port_method)) list"

datatype receipt_argument = ReceiptObject nat | OtherArgument jsval

record admit_input =
  ai_shape :: shape
  ai_fields :: "(jstr \<times> receipt_argument) list"

definition pinPortMethod_ledger ::
  "'w receipt_verifier \<Rightarrow> ('w receipt_verifier \<Rightarrow> 'w port_method port_member) \<Rightarrow> string \<Rightarrow> string \<Rightarrow> ledger_error + 'w port_method" where
  "pinPortMethod_ledger port member name label =
     (if port = NoVerifier then Inl (ledgerError (label @ '' is missing''))
      else case member port of
        MissingMember \<Rightarrow> Inl (ledgerError (label @ '' must provide '' @ name @ ''()''))
      | NotADataMethod \<Rightarrow> Inl (ledgerError (label @ '' '' @ name @ '' must be a data method''))
      | DataMethod f \<Rightarrow> Inr f)"

text \<open>\<open>assertSynchronous(call, label)\<close> inside its \<open>try\<close> block: the call may throw or return a value.\<close>

definition fencePassed :: "port_result \<Rightarrow> bool" where
  "fencePassed result = (result = PortReturns JUndefined)"

definition verifySafeCodingEvidenceAdmissionReceipt ::
  "(jstr \<Rightarrow> jstr) \<Rightarrow> jsval \<Rightarrow> 'w receipt_verifier \<Rightarrow> 'w \<Rightarrow> 'w \<Rightarrow> 'w receipt_registry \<Rightarrow>
   (ledger_error + nat) \<times> 'w receipt_registry" where
  "verifySafeCodingEvidenceAdmissionReceipt nfc value verifierValue atVerify atFence registry =
     (let accepted =
        bindE (validateSafeCodingEvidenceAdmissionReceipt nfc value) (\<lambda>receipt.
        bindE (pinPortMethod_ledger verifierValue rv_verify ''verify'' ''Evidence admission receipt verifier'') (\<lambda>verify.
        bindE (pinPortMethod_ledger verifierValue rv_assertVerified ''assertVerified'' ''Evidence admission receipt verifier'') (\<lambda>fence.
        bindE (case verify atVerify receipt of
            PortThrows \<Rightarrow> Inl (ledgerError ''Evidence admission receipt verification failed closed'')
          | PortReturns verified \<Rightarrow> guardE (verified = JBool True)
              (ledgerError ''Evidence admission receipt is not trusted'')) (\<lambda>_.
        bindE (guardE (fencePassed (fence atFence receipt))
          (ledgerError ''Evidence admission receipt final trust fence failed closed'')) (\<lambda>_.
        Inr (receipt, fence))))))
      in case accepted of
           Inl e \<Rightarrow> (Inl e, registry)
         | Inr entry \<Rightarrow>
             (Inr (rr_nextObject registry),
              registry\<lparr>rr_nextObject := Suc (rr_nextObject registry),
                rr_verified := (rr_nextObject registry, entry) # rr_verified registry\<rparr>))"

definition requireVerifiedEvidenceAdmissionReceipt ::
  "receipt_argument \<Rightarrow> 'w \<Rightarrow> 'w receipt_registry \<Rightarrow> (ledger_error + admission_receipt) \<times> 'w receipt_registry" where
  "requireVerifiedEvidenceAdmissionReceipt value world registry =
     (case (case value of ReceiptObject i \<Rightarrow> map_of (rr_verified registry) i | OtherArgument _ \<Rightarrow> None) of
        None \<Rightarrow> (Inl (ledgerError ''ADMITTED requires a receipt returned by the trusted verifier''), registry)
      | Some (receipt, fence) \<Rightarrow>
          (if fencePassed (fence world receipt) then Inr receipt
           else Inl (ledgerError ''Evidence admission receipt became stale before one-shot use''),
           registry\<lparr>rr_verified := filter (\<lambda>entry. ReceiptObject (fst entry) \<noteq> value) (rr_verified registry)\<rparr>))"

definition markSafeCodingLedgerEvidenceAdmitted ::
  "(jstr \<Rightarrow> jstr) \<Rightarrow> ledger_record \<Rightarrow> admit_input \<Rightarrow> 'w \<Rightarrow> 'w receipt_registry \<Rightarrow>
   (ledger_error + ledger_record) \<times> 'w receipt_registry" where
  "markSafeCodingLedgerEvidenceAdmitted nfc current_record input world registry =
     (let before =
        bindE (assertClosedFields (ai_shape input) (ai_fields input) (\<lambda>v. v = OtherArgument JAccessor) [''receipt'']
          ''Evidence admission transition input'') (\<lambda>_.
        bindE (validateSafeCodingLedgerRecord nfc (ledger_json current_record)) (\<lambda>record.
        bindE (guardE (isSafeCodingLedgerTerminalState (lt_status (lr_ticketState record)))
          (ledgerError ''Evidence cannot be admitted before terminal state'')) (\<lambda>_.
        bindE (guardE (ev_status (lr_evidenceAdmission record) = EvidencePending)
          (ledgerError ''Evidence intent is not pending admission'')) (\<lambda>_.
        Inr record))))
      in case before of
           Inl e \<Rightarrow> (Inl e, registry)
         | Inr record \<Rightarrow>
             (let (checked, registry') = requireVerifiedEvidenceAdmissionReceipt
                (case map_of (ai_fields input) (js ''receipt'') of None \<Rightarrow> OtherArgument JUndefined | Some v \<Rightarrow> v) world registry
              in (bindE checked (\<lambda>receipt.
                  bindE (guardE (\<not> (rc_transactionId receipt \<noteq> lr_transactionId record \<or>
                      rc_evidenceIntentId receipt \<noteq> ev_intentId (lr_evidenceAdmission record) \<or>
                      rc_attestationId receipt \<noteq> ev_attestationId (lr_evidenceAdmission record)))
                    (ledgerError ''Evidence admission receipt does not bind the pending outbox identity'')) (\<lambda>_.
                  bindE (requireNotBefore (lr_updatedAt record) (rc_admittedAt receipt) ''Admission timestamp regressed'') (\<lambda>_.
                  bindE (nextRevision (lr_revision record)) (\<lambda>revision.
                  finishTransition nfc record
                    (record\<lparr>lr_revision := revision, lr_updatedAt := rc_admittedAt receipt,
                       lr_evidenceAdmission := (lr_evidenceAdmission record)\<lparr>ev_status := EvidenceAdmitted,
                         ev_admittedAt := Some (rc_admittedAt receipt), ev_admissionReceipt := Some receipt\<rparr>\<rparr>))))),
                  registry')))"

section \<open>Recovery\<close>

datatype recovery_action = CloseFailedPreEffect | CloseUncertain | DeliverEvidenceOnly | NoAction

record recovery_decision =
  rd_transactionId :: jstr
  rd_revision :: int
  rd_observedState :: ledger_state
  rd_action :: recovery_action
  rd_targetState :: ledger_state
  rd_reasonCode :: string
  rd_effectReplayAllowed :: bool
  rd_effectMayHaveOccurred :: bool
  rd_reconciliationRequired :: bool

definition recovery_decision_for ::
  "ledger_record \<Rightarrow> recovery_action \<Rightarrow> ledger_state \<Rightarrow> string \<Rightarrow> bool \<Rightarrow> bool \<Rightarrow> recovery_decision" where
  "recovery_decision_for record action targetState reasonCode effectMayHaveOccurred reconciliationRequired =
     \<lparr>rd_transactionId = lr_transactionId record, rd_revision = lr_revision record,
      rd_observedState = lt_status (lr_ticketState record), rd_action = action, rd_targetState = targetState,
      rd_reasonCode = reasonCode, rd_effectReplayAllowed = False, rd_effectMayHaveOccurred = effectMayHaveOccurred,
      rd_reconciliationRequired = reconciliationRequired\<rparr>"

definition classifySafeCodingLedgerRecovery :: "(jstr \<Rightarrow> jstr) \<Rightarrow> ledger_record \<Rightarrow> ledger_error + recovery_decision" where
  "classifySafeCodingLedgerRecovery nfc value =
     bindE (validateSafeCodingLedgerRecord nfc (ledger_json value)) (\<lambda>record.
     let state = lt_status (lr_ticketState record) in
     Inr (if state = LedgerPrepared then
         recovery_decision_for record CloseFailedPreEffect LedgerFailedPreEffect ''recovery-before-commit-permit'' False False
       else if state = LedgerCommitPermit then
         recovery_decision_for record CloseUncertain LedgerUncertain ''recovery-after-commit-permit'' True True
       else
         recovery_decision_for record DeliverEvidenceOnly state
           (if ev_status (lr_evidenceAdmission record) = EvidencePending then ''terminal-evidence-admission-pending''
            else ''terminal-evidence-reverification-required'')
           (state \<noteq> LedgerFailedPreEffect) True))"

end
