(* ===== verification/Transition_System.thy ===== *)
theory Transition_System
  imports Main
begin

text \<open>
  Transition systems and the two contracts the stateful components are held to: an invariant that the
  initial states have and every step keeps, and a preorder along which every step moves the state.
  Both are locales; their conclusions speak of all reachable states and of all runs, and each stateful
  component of the program interprets them on its own steps.
\<close>

inductive reachable :: "('s \<Rightarrow> bool) \<Rightarrow> ('s \<Rightarrow> 's \<Rightarrow> bool) \<Rightarrow> 's \<Rightarrow> bool"
  for init :: "'s \<Rightarrow> bool" and step :: "'s \<Rightarrow> 's \<Rightarrow> bool" where
  start: "init s \<Longrightarrow> reachable init step s"
| advance: "reachable init step s \<Longrightarrow> step s t \<Longrightarrow> reachable init step t"

lemma reachable_run: "step\<^sup>*\<^sup>* s t \<Longrightarrow> reachable init step s \<Longrightarrow> reachable init step t"
  by (induction rule: rtranclp_induct) (auto intro: advance)

locale invariant_system =
  fixes init :: "'s \<Rightarrow> bool" and step :: "'s \<Rightarrow> 's \<Rightarrow> bool" and inv :: "'s \<Rightarrow> bool"
  assumes inv_init: "init s \<Longrightarrow> inv s"
    and inv_step: "inv s \<Longrightarrow> step s t \<Longrightarrow> inv t"
begin

lemma reachable_inv: "reachable init step s \<Longrightarrow> inv s"
  by (induction rule: reachable.induct) (auto intro: inv_init inv_step)

lemma run_inv: "step\<^sup>*\<^sup>* s t \<Longrightarrow> inv s \<Longrightarrow> inv t"
  by (induction rule: rtranclp_induct) (auto intro: inv_step)

end

locale monotone_system = invariant_system +
  fixes ord :: "'s \<Rightarrow> 's \<Rightarrow> bool"
  assumes ord_refl: "ord s s"
    and ord_trans: "ord s t \<Longrightarrow> ord t u \<Longrightarrow> ord s u"
    and ord_step: "inv s \<Longrightarrow> step s t \<Longrightarrow> ord s t"
begin

lemma run_ord: "step\<^sup>*\<^sup>* s t \<Longrightarrow> inv s \<Longrightarrow> ord s t"
proof (induction rule: rtranclp_induct)
  case base
  show ?case by (rule ord_refl)
next
  case (step t u)
  then show ?case
    using ord_step run_inv ord_trans by blast
qed

end

locale simulation = invariant_system +
  fixes abs :: "'s \<Rightarrow> 'a" and spec :: "'a \<Rightarrow> 'a \<Rightarrow> bool"
  assumes spec_step: "inv s \<Longrightarrow> step s t \<Longrightarrow> spec\<^sup>=\<^sup>= (abs s) (abs t)"
begin

lemma run_spec: "step\<^sup>*\<^sup>* s t \<Longrightarrow> inv s \<Longrightarrow> spec\<^sup>*\<^sup>* (abs s) (abs t)"
proof (induction rule: rtranclp_induct)
  case (step t u)
  then have "spec\<^sup>=\<^sup>= (abs t) (abs u)"
    using spec_step run_inv by blast
  then show ?case
    using step by (auto intro: rtranclp.rtrancl_into_rtrancl)
qed simp

lemma reachable_spec: "reachable init step s \<Longrightarrow> \<exists>s0. init s0 \<and> spec\<^sup>*\<^sup>* (abs s0) (abs s)"
proof (induction rule: reachable.induct)
  case (start s)
  then show ?case by blast
next
  case (advance s t)
  then have "spec\<^sup>=\<^sup>= (abs s) (abs t)"
    using spec_step reachable_inv by blast
  then show ?case
    using advance.IH by (auto intro: rtranclp.rtrancl_into_rtrancl)
qed

end

end
