(* ===== verification/Ledger_Lifecycle.thy ===== *)
theory Ledger_Lifecycle
  imports Ledger_Transitions Transition_System
begin

text \<open>
  The lifecycle of a ledger record. The checks of a transition amount to the relation \<open>ledger_successor\<close>; a step of the ledger is a
  successful call of one of its transitions, and every step is a successor. From this follow the invariant that only valid
  records are reachable, the order along which records move (identity and promises are fixed, the outcome of a terminal
  record is frozen) and the simulation of the four-phase lifecycle.
\<close>

section \<open>Successors\<close>

definition same_identity :: "ledger_record \<Rightarrow> ledger_record \<Rightarrow> bool" where
  "same_identity p n \<longleftrightarrow>
     lr_transactionId n = lr_transactionId p \<and> lr_createdAt n = lr_createdAt p \<and>
     lt_ticket (lr_ticketState n) = lt_ticket (lr_ticketState p) \<and>
     le_attemptId (lr_effectAttempt n) = le_attemptId (lr_effectAttempt p) \<and>
     lr_evidenceExpectation n = lr_evidenceExpectation p \<and>
     ev_intentId (lr_evidenceAdmission n) = ev_intentId (lr_evidenceAdmission p) \<and>
     ev_attestationId (lr_evidenceAdmission n) = ev_attestationId (lr_evidenceAdmission p)"

definition same_outcome :: "ledger_record \<Rightarrow> ledger_record \<Rightarrow> bool" where
  "same_outcome p n \<longleftrightarrow>
     lr_ticketState n = lr_ticketState p \<and> lr_effectAttempt n = lr_effectAttempt p \<and>
     ev_readyAt (lr_evidenceAdmission n) = ev_readyAt (lr_evidenceAdmission p) \<and>
     ev_attestation (lr_evidenceAdmission n) = ev_attestation (lr_evidenceAdmission p)"

abbreviation ledger_status :: "ledger_record \<Rightarrow> ledger_state" where
  "ledger_status r \<equiv> lt_status (lr_ticketState r)"

abbreviation evidence_status :: "ledger_record \<Rightarrow> admission_state" where
  "evidence_status r \<equiv> ev_status (lr_evidenceAdmission r)"

definition phase_step :: "ledger_state \<times> admission_state \<Rightarrow> ledger_state \<times> admission_state \<Rightarrow> bool" where
  "phase_step p n \<longleftrightarrow>
     (p = (LedgerPrepared, EvidenceReserved) \<and>
        n \<in> {(LedgerCommitPermit, EvidenceReserved), (LedgerFailedPreEffect, EvidencePending)}) \<or>
     (p = (LedgerCommitPermit, EvidenceReserved) \<and>
        n \<in> {LedgerCommitted, LedgerResultUnavailable, LedgerUncertain} \<times> {EvidencePending}) \<or>
     (\<exists>s. isSafeCodingLedgerTerminalState s \<and> p = (s, EvidencePending) \<and> n = (s, EvidenceAdmitted))"

definition ledger_phase :: "ledger_record \<Rightarrow> ledger_state \<times> admission_state" where
  "ledger_phase r = (ledger_status r, evidence_status r)"

definition ledger_successor :: "ledger_record \<Rightarrow> ledger_record \<Rightarrow> bool" where
  "ledger_successor p n \<longleftrightarrow>
     lr_revision n = lr_revision p + 1 \<and> same_identity p n \<and> ledgerTime (lr_updatedAt p) \<le> ledgerTime (lr_updatedAt n) \<and>
     phase_step (ledger_phase p) (ledger_phase n) \<and> (isSafeCodingLedgerTerminalState (ledger_status p) \<longrightarrow> same_outcome p n)"

lemma ledger_valid_parts:
  assumes "ledger_valid nfc r"
  shows "canonicalizable nfc (ticketState_json (lr_ticketState r))" "canonicalizable nfc (ticket_json (lt_ticket (lr_ticketState r)))"
    "canonicalizable nfc (effectAttempt_json (lr_effectAttempt r))" "canonicalizable nfc (expectation_json (lr_evidenceExpectation r))"
    "canonicalizable nfc (nullJson attestation_json (ev_attestation (lr_evidenceAdmission r)))"
    "ledger_stamp (lr_updatedAt r)" "0 < lr_revision r" "lr_revision r \<le> 4"
    "lr_revision r = reachableRevision (ledger_status r) (evidence_status r)"
    "stateShape (lr_ticketState r) (lr_effectAttempt r) (lr_evidenceExpectation r) (lr_evidenceAdmission r) (lr_updatedAt r)"
proof -
  have r: "canonicalizable nfc (ledger_json r)" "wf_ledger nfc r"
    using assms by (simp_all add: ledger_valid_def)
  have fields: "canonicalizable nfc (jrec kvs) \<Longrightarrow> list_all (\<lambda>(k, w). canonicalizable nfc w) kvs" for kvs
    by (auto simp: list_all_iff intro: canonicalizable_jrec)
  note top = fields [OF r(1) [unfolded ledger_json_def], unfolded ledgerFields_def, simplified]
  show ts: "canonicalizable nfc (ticketState_json (lr_ticketState r))"
    "canonicalizable nfc (effectAttempt_json (lr_effectAttempt r))" "canonicalizable nfc (expectation_json (lr_evidenceExpectation r))"
    using top by simp_all
  show "canonicalizable nfc (ticket_json (lt_ticket (lr_ticketState r)))"
    using fields [of "ticketStateFields (lr_ticketState r)"] ts(1) by (simp add: ticketState_json_def ticketStateFields_def)
  have "canonicalizable nfc (admission_json (lr_evidenceAdmission r))"
    using top by simp
  then show "canonicalizable nfc (nullJson attestation_json (ev_attestation (lr_evidenceAdmission r)))"
    using fields [of "admissionFields (lr_evidenceAdmission r)"] by (simp add: admission_json_def admissionFields_def)
  show "ledger_stamp (lr_updatedAt r)" "0 < lr_revision r" "lr_revision r \<le> 4"
    "lr_revision r = reachableRevision (ledger_status r) (evidence_status r)"
    "stateShape (lr_ticketState r) (lr_effectAttempt r) (lr_evidenceExpectation r) (lr_evidenceAdmission r) (lr_updatedAt r)"
    using r(2) by (simp_all add: wf_ledger_def Let_def reachableRevision_pos)
qed

lemma shape_evidence:
  assumes "stateShape t a x e u"
  shows "ev_status e = EvidenceReserved \<longleftrightarrow> lt_status t \<in> {LedgerPrepared, LedgerCommitPermit}"
  using assms by (auto simp: stateShape_def terminalShape_def split: ledger_state.splits)

lemma timestamp_read:
  "ledger_stamp s \<Longrightarrow> safeCodingLedgerTimestampMilliseconds s = Inr (ledgerTime s)"
  "ledger_stamp s \<Longrightarrow> requireTimestamp_transition s l = Inr (ledgerTime s)"
  by (auto simp: safeCodingLedgerTimestampMilliseconds_def requireTimestamp_transition_def ledger_stamp_def ledgerTime_def)

lemma timestamp_read_Inr:
  "safeCodingLedgerTimestampMilliseconds s = Inr m \<longleftrightarrow> ledger_stamp s \<and> m = ledgerTime s"
  "requireTimestamp_transition s l = Inr m \<longleftrightarrow> ledger_stamp s \<and> m = ledgerTime s"
  by (auto simp: safeCodingLedgerTimestampMilliseconds_def requireTimestamp_transition_def ledger_stamp_def ledgerTime_def
      result_simps split: option.splits)

lemma requireNotBefore_Inr:
  "requireNotBefore a b m = Inr u \<longleftrightarrow> ledger_stamp a \<and> ledger_stamp b \<and> ledgerTime a \<le> ledgerTime b"
  by (auto simp: requireNotBefore_def timestamp_read_Inr result_simps not_less)

lemma requireState_Inr: "requireState r s = Inr u \<longleftrightarrow> ledger_status r = s"
  by (simp add: requireState_def result_simps)

lemma nextRevision_Inr: "nextRevision i = Inr j \<longleftrightarrow> i < MAX_SAFE_INTEGER \<and> j = i + 1"
  by (auto simp: nextRevision_def result_simps)

lemmas transition_simps = result_simps timestamp_read_Inr requireNotBefore_Inr requireState_Inr nextRevision_Inr

lemma if_eq_Inr: "((if b then x else y) = Inr z) = (if b then x = Inr z else y = Inr z)"
  by simp

lemma phase_check:
  assumes "ep = EvidenceReserved \<longleftrightarrow> p \<in> {LedgerPrepared, LedgerCommitPermit}"
    "en = EvidenceReserved \<longleftrightarrow> n \<in> {LedgerPrepared, LedgerCommitPermit}"
    "reachableRevision n en = reachableRevision p ep + 1"
  shows "phase_step (p, ep) (n, en) \<longleftrightarrow>
    (if p = LedgerPrepared then n \<in> {LedgerCommitPermit, LedgerFailedPreEffect}
     else if p = LedgerCommitPermit then n \<in> {LedgerCommitted, LedgerResultUnavailable, LedgerUncertain}
     else n = p \<and> ep = EvidencePending \<and> en = EvidenceAdmitted)"
  using assms
  by (cases p; cases n; cases ep; cases en)
    (simp_all add: phase_step_def reachableRevision_def isSafeCodingLedgerTerminalState_def)

lemma successor_exact:
  "assertSafeCodingLedgerSuccessor nfc p n = Inr u \<longleftrightarrow> ledger_valid nfc p \<and> ledger_valid nfc n \<and> ledger_successor p n"
proof (cases "ledger_valid nfc p \<and> ledger_valid nfc n")
  case False
  then show ?thesis
    by (auto simp: assertSafeCodingLedgerSuccessor_def Let_def result_simps)
next
  case True
  then have v: "ledger_valid nfc p" "ledger_valid nfc n" by auto
  note parts = ledger_valid_parts [OF v(1)] ledger_valid_parts [OF v(2)]
  have same: "sameCanonical nfc (ticketState_json (lr_ticketState p)) (ticketState_json (lr_ticketState n)) =
      Inr (lr_ticketState p = lr_ticketState n)"
    "sameCanonical nfc (ticket_json (lt_ticket (lr_ticketState n))) (ticket_json (lt_ticket (lr_ticketState p))) =
      Inr (lt_ticket (lr_ticketState n) = lt_ticket (lr_ticketState p))"
    "sameCanonical nfc (effectAttempt_json (lr_effectAttempt p)) (effectAttempt_json (lr_effectAttempt n)) =
      Inr (lr_effectAttempt p = lr_effectAttempt n)"
    "sameCanonical nfc (expectation_json (lr_evidenceExpectation n)) (expectation_json (lr_evidenceExpectation p)) =
      Inr (lr_evidenceExpectation n = lr_evidenceExpectation p)"
    using parts by (simp_all add: sameCanonical_Inr wf_jsval_ledger form_inj)
  have att: "sameCanonical nfc (nullJson attestation_json (ev_attestation (lr_evidenceAdmission p)))
      (nullJson attestation_json (ev_attestation (lr_evidenceAdmission n))) =
      Inr (ev_attestation (lr_evidenceAdmission p) = ev_attestation (lr_evidenceAdmission n))"
    using parts by (simp add: sameCanonical_Inr wf_jsval_ledger form_inj)
  have rev: "lr_revision p < MAX_SAFE_INTEGER"
    using parts by (simp add: MAX_SAFE_INTEGER_def)
  have step: "phase_step (ledger_phase p) (ledger_phase n) \<longleftrightarrow>
    (if ledger_status p = LedgerPrepared then ledger_status n \<in> {LedgerCommitPermit, LedgerFailedPreEffect}
     else if ledger_status p = LedgerCommitPermit then ledger_status n \<in> {LedgerCommitted, LedgerResultUnavailable, LedgerUncertain}
     else ledger_status n = ledger_status p \<and> evidence_status p = EvidencePending \<and> evidence_status n = EvidenceAdmitted)"
    if "lr_revision n = lr_revision p + 1"
    unfolding ledger_phase_def using that shape_evidence [OF parts(10)] shape_evidence [OF parts(20)] parts(9,19)
    by (intro phase_check) simp_all
  have terminal: "isSafeCodingLedgerTerminalState s \<longleftrightarrow> s \<noteq> LedgerPrepared \<and> s \<noteq> LedgerCommitPermit" for s
    by (cases s) (simp_all add: isSafeCodingLedgerTerminalState_def)
  have admission: "assertAdmissionOnlySuccessor nfc p n = Inr u \<longleftrightarrow>
      evidence_status p = EvidencePending \<and> evidence_status n = EvidenceAdmitted \<and> same_outcome p n"
    if "same_identity p n" for u
    using that by (auto simp: assertAdmissionOnlySuccessor_def Let_def result_simps same att same_outcome_def same_identity_def)
  have chain: "assertSafeCodingLedgerSuccessor nfc p n = Inr u \<longleftrightarrow>
      lr_revision n = lr_revision p + 1 \<and> same_identity p n \<and> ledgerTime (lr_updatedAt p) \<le> ledgerTime (lr_updatedAt n) \<and>
      (if ledger_status p = LedgerPrepared then ledger_status n \<in> {LedgerCommitPermit, LedgerFailedPreEffect}
       else if ledger_status p = LedgerCommitPermit then ledger_status n \<in> {LedgerCommitted, LedgerResultUnavailable, LedgerUncertain}
       else ledger_status n = ledger_status p \<and> assertAdmissionOnlySuccessor nfc p n = Inr ())"
    using v rev parts(6,16) unfolding assertSafeCodingLedgerSuccessor_def Let_def same_identity_def
    by (simp add: transition_simps same if_eq_Inr cong: if_cong split del: if_split)
      (rule iffI; elim conjE; intro conjI; assumption)
  have "assertSafeCodingLedgerSuccessor nfc p n = Inr u \<longleftrightarrow> ledger_successor p n"
  proof (cases "lr_revision n = lr_revision p + 1 \<and> same_identity p n")
    case True
    then show ?thesis
      unfolding chain ledger_successor_def step [OF conjunct1 [OF True]] admission [OF conjunct2 [OF True]] terminal
      by (cases "ledger_status p") simp_all
  next
    case False
    then show ?thesis
      unfolding chain ledger_successor_def by blast
  qed
  with v show ?thesis
    by simp
qed

section \<open>What each transition does\<close>

lemma finish_exact:
  "finishTransition nfc p n = Inr r \<longleftrightarrow> ledger_valid nfc p \<and> ledger_valid nfc n \<and> ledger_successor p n \<and> r = n"
  by (auto simp: finishTransition_def result_simps successor_exact)

definition permit_json :: "commit_permit \<Rightarrow> jsval" where
  "permit_json p =
     jrec [(''ticketId'', JStr (cp_ticketId p)), (''requestId'', JStr (cp_requestId p)),
           (''contractHash'', JStr (cp_contractHash p)), (''contractRevision'', jint (cp_contractRevision p)),
           (''revocationEpoch'', jint (cp_revocationEpoch p)), (''budgetReservationId'', JStr (cp_budgetReservationId p)),
           (''permittedAt'', JStr (cp_permittedAt p))]"

definition permits_ticket :: "commit_permit \<Rightarrow> execution_ticket \<Rightarrow> bool" where
  "permits_ticket p t \<longleftrightarrow>
     cp_ticketId p = et_ticketId t \<and> cp_requestId p = et_requestId t \<and> cp_contractHash p = et_contractHash t \<and>
     cp_contractRevision p = et_contractRevision t \<and> cp_revocationEpoch p = et_revocationEpoch t \<and>
     cp_budgetReservationId p = et_budgetReservationId t"

definition permitted_record :: "ledger_record \<Rightarrow> jstr \<Rightarrow> ledger_record" where
  "permitted_record r now =
     r\<lparr>lr_revision := 2, lr_updatedAt := now,
       lr_ticketState := (lr_ticketState r)\<lparr>lt_status := LedgerCommitPermit, lt_consumedAt := Some now\<rparr>,
       lr_effectAttempt := (lr_effectAttempt r)\<lparr>le_commitPermittedAt := Some now\<rparr>\<rparr>"


lemma permit_validated:
  "validateCommitPermit (permit_json p) = Inr q \<longleftrightarrow>
     q = p \<and> IDENTIFIER_PATTERN (cp_ticketId p) \<and> IDENTIFIER_PATTERN (cp_requestId p) \<and> SHA256_PATTERN (cp_contractHash p) \<and>
     safe_int (cp_contractRevision p) \<and> 0 < cp_contractRevision p \<and> counter (cp_revocationEpoch p) \<and>
     IDENTIFIER_PATTERN (cp_budgetReservationId p) \<and> ledger_stamp (cp_permittedAt p)"
proof -
  have closed: "assertClosedRecord (permit_json p) permitKeys l = Inr fs \<longleftrightarrow> fs = jfields
      [(''ticketId'', JStr (cp_ticketId p)), (''requestId'', JStr (cp_requestId p)),
       (''contractHash'', JStr (cp_contractHash p)), (''contractRevision'', jint (cp_contractRevision p)),
       (''revocationEpoch'', jint (cp_revocationEpoch p)), (''budgetReservationId'', JStr (cp_budgetReservationId p)),
       (''permittedAt'', JStr (cp_permittedAt p))]" for p l fs
    by (auto simp: assertClosedRecord_def assertClosedFields_def permit_json_def jrec_def jfields_def permitKeys_def
        result_simps)
  show ?thesis
    by (cases p) (auto simp: validateCommitPermit_def result_simps closed ledger_leaf requireTimestampString_def
        timestamp_read_Inr)
qed

lemma permitted_wf:
  assumes "wf_ledger nfc r" "ledger_status r = LedgerPrepared" "ledger_stamp now"
    "ledgerTime (le_preparedAt (lr_effectAttempt r)) \<le> ledgerTime now"
  shows "wf_ledger nfc (permitted_record r now)" "ledger_successor r (permitted_record r now)" "lr_revision r = 1"
proof -
  have shape: "stateShape (lr_ticketState r) (lr_effectAttempt r) (lr_evidenceExpectation r) (lr_evidenceAdmission r) (lr_updatedAt r)"
    using assms(1) by (simp add: wf_ledger_def Let_def)
  then have e: "evidence_status r = EvidenceReserved" "lr_updatedAt r = le_preparedAt (lr_effectAttempt r)"
    using assms(2) by (simp_all add: stateShape_def)
  show rev: "lr_revision r = 1"
    using assms(1,2) by (simp add: wf_ledger_def Let_def reachableRevision_def)
  show "wf_ledger nfc (permitted_record r now)"
    using assms shape by (auto simp: wf_ledger_def Let_def permitted_record_def wf_ticketState_def wf_effectAttempt_def
        stateShape_def outboxShape_def reachableRevision_def safe_int_def MAX_SAFE_INTEGER_def)
  show "ledger_successor r (permitted_record r now)"
    using assms e rev by (simp add: ledger_successor_def permitted_record_def same_identity_def phase_step_def ledger_phase_def
        isSafeCodingLedgerTerminalState_def)
qed


lemma permit_exact:
  "recordSafeCodingCommitPermit nfc r (permit_json p) = Inr r' \<longleftrightarrow>
     ledger_valid nfc r \<and> ledger_status r = LedgerPrepared \<and> permits_ticket p (lt_ticket (lr_ticketState r)) \<and>
     ledger_stamp (cp_permittedAt p) \<and> ledger_stamp (et_expiresAt (lt_ticket (lr_ticketState r))) \<and>
     ledgerTime (le_preparedAt (lr_effectAttempt r)) \<le> ledgerTime (cp_permittedAt p) \<and>
     ledgerTime (cp_permittedAt p) < ledgerTime (et_expiresAt (lt_ticket (lr_ticketState r))) \<and>
     r' = permitted_record r (cp_permittedAt p) \<and> canonicalizable nfc (ledger_json r')"
proof (cases "ledger_valid nfc r \<and> ledger_status r = LedgerPrepared")
  case False
  then show ?thesis
    by (auto simp: recordSafeCodingCommitPermit_def transition_simps)
next
  case True
  then have r: "ledger_valid nfc r" "ledger_status r = LedgerPrepared" by auto
  then have wf: "wf_ledger nfc r" by (simp add: ledger_valid_def)
  let ?t = "lt_ticket (lr_ticketState r)"
  have wt: "wf_ticket nfc ?t" "IDENTIFIER_PATTERN (et_ticketId ?t)" "ledger_stamp (le_preparedAt (lr_effectAttempt r))"
    using wf by (auto simp: wf_ledger_def Let_def wf_ticketState_def wf_effectAttempt_def)
  have val: "validateCommitPermit (permit_json p) = Inr q \<and> \<not> (cp_ticketId q \<noteq> et_ticketId ?t \<or> cp_requestId q \<noteq> et_requestId ?t \<or>
         cp_contractHash q \<noteq> et_contractHash ?t \<or> cp_contractRevision q \<noteq> et_contractRevision ?t \<or>
         cp_revocationEpoch q \<noteq> et_revocationEpoch ?t \<or> cp_budgetReservationId q \<noteq> et_budgetReservationId ?t) \<longleftrightarrow>
      q = p \<and> permits_ticket p ?t \<and> ledger_stamp (cp_permittedAt p)" for q
    using wt(1,2) by (auto simp: permit_validated permits_ticket_def wf_ticket_def ident_def)
  have rev: "lr_revision r = 1"
    using wf r(2) by (simp add: wf_ledger_def Let_def reachableRevision_def)
  have built: "r\<lparr>lr_revision := 2, lr_updatedAt := now,
       lr_ticketState := (lr_ticketState r)\<lparr>lt_status := LedgerCommitPermit, lt_consumedAt := Some now\<rparr>,
       lr_effectAttempt := (lr_effectAttempt r)\<lparr>le_commitPermittedAt := Some now\<rparr>\<rparr> = permitted_record r now" for now
    by (simp add: permitted_record_def)
  have "recordSafeCodingCommitPermit nfc r (permit_json p) = Inr r' \<longleftrightarrow>
      (\<exists>q. (validateCommitPermit (permit_json p) = Inr q \<and> \<not> (cp_ticketId q \<noteq> et_ticketId ?t \<or> cp_requestId q \<noteq> et_requestId ?t \<or>
         cp_contractHash q \<noteq> et_contractHash ?t \<or> cp_contractRevision q \<noteq> et_contractRevision ?t \<or>
         cp_revocationEpoch q \<noteq> et_revocationEpoch ?t \<or> cp_budgetReservationId q \<noteq> et_budgetReservationId ?t)) \<and>
       ledger_stamp (cp_permittedAt q) \<and> ledgerTime (le_preparedAt (lr_effectAttempt r)) \<le> ledgerTime (cp_permittedAt q) \<and>
       ledger_stamp (et_expiresAt ?t) \<and> ledgerTime (cp_permittedAt q) < ledgerTime (et_expiresAt ?t) \<and>
       finishTransition nfc r (permitted_record r (cp_permittedAt q)) = Inr r')"
    using r wt(3) unfolding recordSafeCodingCommitPermit_def Let_def
    by (simp add: transition_simps rev built MAX_SAFE_INTEGER_def not_less not_le conj_assoc)
  also have "\<dots> \<longleftrightarrow> permits_ticket p ?t \<and> ledger_stamp (cp_permittedAt p) \<and>
      ledgerTime (le_preparedAt (lr_effectAttempt r)) \<le> ledgerTime (cp_permittedAt p) \<and>
      ledger_stamp (et_expiresAt ?t) \<and> ledgerTime (cp_permittedAt p) < ledgerTime (et_expiresAt ?t) \<and>
      finishTransition nfc r (permitted_record r (cp_permittedAt p)) = Inr r'"
    unfolding val by auto
  also have "\<dots> \<longleftrightarrow> permits_ticket p ?t \<and> ledger_stamp (cp_permittedAt p) \<and>
      ledgerTime (le_preparedAt (lr_effectAttempt r)) \<le> ledgerTime (cp_permittedAt p) \<and>
      ledger_stamp (et_expiresAt ?t) \<and> ledgerTime (cp_permittedAt p) < ledgerTime (et_expiresAt ?t) \<and>
      r' = permitted_record r (cp_permittedAt p) \<and> canonicalizable nfc (ledger_json r')"
    using permitted_wf [OF wf r(2)] r(1) by (auto simp: finish_exact ledger_valid_def)
  finally show ?thesis
    using r by blast
qed

definition promised_to :: "ledger_record \<Rightarrow> attestation_status \<Rightarrow> bool \<Rightarrow> jstr option \<Rightarrow> jstr \<Rightarrow> effect_attestation" where
  "promised_to r status noEffect result now =
     promisedAttestation (lt_ticket (lr_ticketState r)) (lr_effectAttempt r) (lr_evidenceExpectation r) status noEffect result
       (ev_attestationId (lr_evidenceAdmission r)) now"

lemma terminal_attestation_exact:
  assumes "ledger_valid nfc r"
  shows "validateTerminalAttestation nfc r v status result now observed = Inr att \<longleftrightarrow>
    validateSafeCodingEffectAttestation nfc v = Inr att \<and>
    att = promised_to r status (status = FailedNoEffectStatus \<or> status = UncertainStatus \<and> \<not> observed) result now"
proof -
  have x: "wf_expectation (lr_evidenceExpectation r)" "canonicalizable nfc (expectation_json (lr_evidenceExpectation r))"
    using assms ledger_valid_parts [OF assms] by (simp_all add: ledger_valid_def wf_ledger_def Let_def)
  have same: "sameCanonical nfc (charges_json (ea_budgetCharges a))
      (charges_json (if ne then ZERO_BUDGET_CHARGES else ex_completionBudgetCharges (lr_evidenceExpectation r))) =
    Inr (ea_budgetCharges a = (if ne then ZERO_BUDGET_CHARGES else ex_completionBudgetCharges (lr_evidenceExpectation r)))"
    if "validateSafeCodingEffectAttestation nfc v = Inr a" for a ne
    using attestation_shape [OF that] canonicalizable_cong by (intro promised_charges x) blast+
  show ?thesis
  proof (cases "validateSafeCodingEffectAttestation nfc v")
    case (Inr a)
    show ?thesis
      unfolding validateTerminalAttestation_def Let_def Inr catchE_simps bindE_simps same [OF Inr]
      by (cases a; simp add: result_simps promised_to_def promisedAttestation_def) auto
  qed (simp add: validateTerminalAttestation_def)
qed

definition closed_record ::
  "ledger_record \<Rightarrow> ledger_state \<Rightarrow> jstr \<Rightarrow> jstr option \<Rightarrow> jstr option \<Rightarrow> bool \<Rightarrow> effect_attestation \<Rightarrow> ledger_record" where
  "closed_record r status now result reason observed att =
     r\<lparr>lr_revision := lr_revision r + 1, lr_updatedAt := now,
       lr_ticketState := (lr_ticketState r)\<lparr>lt_status := status, lt_terminalAt := Some now, lt_terminalReasonCode := reason\<rparr>,
       lr_effectAttempt := (lr_effectAttempt r)\<lparr>le_effectObservedAt := (if observed then Some now else None),
         le_resultHash := result\<rparr>,
       lr_evidenceAdmission := (lr_evidenceAdmission r)\<lparr>ev_status := EvidencePending, ev_attestation := Some att,
         ev_readyAt := Some now\<rparr>\<rparr>"

definition reason_fits :: "ledger_state \<Rightarrow> jstr option \<Rightarrow> jstr option \<Rightarrow> bool \<Rightarrow> bool" where
  "reason_fits status result reason observed \<longleftrightarrow>
     pred_option SHA256_PATTERN result \<and> pred_option IDENTIFIER_PATTERN reason \<and>
     (case status of
        LedgerCommitted \<Rightarrow> result \<noteq> None \<and> reason = None \<and> observed
      | LedgerResultUnavailable \<Rightarrow> reason \<noteq> None \<and> observed
      | LedgerUncertain \<Rightarrow> reason \<noteq> None
      | _ \<Rightarrow> False)"

lemma post_permit_wf:
  assumes "ledger_valid nfc r" "ledger_status r = LedgerCommitPermit" "ledger_stamp now"
    "ledgerTime (lr_updatedAt r) \<le> ledgerTime now" "reason_fits status result reason observed"
    "validateSafeCodingEffectAttestation nfc v = Inr att"
    "att = promised_to r (attestedStatus status) (status = LedgerUncertain \<and> \<not> observed) result now"
  shows "wf_ledger nfc (closed_record r status now result reason observed att)"
    "ledger_successor r (closed_record r status now result reason observed att)"
proof -
  have wf: "wf_ledger nfc r" and att: "wf_attestation nfc att"
    using assms(1,6) attestation_shape by (auto simp: ledger_valid_def)
  have shape: "stateShape (lr_ticketState r) (lr_effectAttempt r) (lr_evidenceExpectation r) (lr_evidenceAdmission r) (lr_updatedAt r)"
    using wf by (simp add: wf_ledger_def Let_def)
  then have e: "evidence_status r = EvidenceReserved" "lt_consumedAt (lr_ticketState r) = Some (lr_updatedAt r)"
    "le_commitPermittedAt (lr_effectAttempt r) = Some (lr_updatedAt r)"
    using assms(2) by (simp_all add: stateShape_def)
  have rev: "lr_revision r = 2"
    using wf assms(2) by (simp add: wf_ledger_def Let_def reachableRevision_def)
  show "ledger_successor r (closed_record r status now result reason observed att)"
    using assms(2,4,5) e rev by (auto simp: ledger_successor_def closed_record_def same_identity_def phase_step_def ledger_phase_def
        isSafeCodingLedgerTerminalState_def reason_fits_def split: ledger_state.splits)
  show "wf_ledger nfc (closed_record r status now result reason observed att)"
    using assms(2-5) wf att shape e rev
    by (cases status) (auto simp: wf_ledger_def Let_def closed_record_def wf_ticketState_def wf_effectAttempt_def wf_admission_def
        stateShape_def terminalShape_def outboxShape_def outcomeShape_def reachableRevision_def safe_int_def MAX_SAFE_INTEGER_def
        reason_fits_def noEffectObserved_def assms(7) promised_to_def promisedAttestation_def attestedStatus_def)
qed

lemma post_permit_exact:
  assumes "reason_fits status result reason observed"
  shows "closePostPermit nfc r status \<lparr>xi_now = now, xi_attestation = v, xi_resultHash = result, xi_reasonCode = reason,
      xi_effectCompletionObserved = observed\<rparr> = Inr r' \<longleftrightarrow>
    ledger_valid nfc r \<and> ledger_status r = LedgerCommitPermit \<and> ledger_stamp now \<and>
    ledgerTime (lr_updatedAt r) \<le> ledgerTime now \<and>
    (let att = promised_to r (attestedStatus status) (status = LedgerUncertain \<and> \<not> observed) result now in
     validateSafeCodingEffectAttestation nfc v = Inr att \<and>
     r' = closed_record r status now result reason observed att \<and> canonicalizable nfc (ledger_json r'))"
proof (cases "ledger_valid nfc r \<and> ledger_status r = LedgerCommitPermit")
  case False
  then show ?thesis
    by (auto simp: closePostPermit_def transition_simps)
next
  case True
  then have r: "ledger_valid nfc r" "ledger_status r = LedgerCommitPermit" by auto
  define att where "att = promised_to r (attestedStatus status) (status = LedgerUncertain \<and> \<not> observed) result now"
  have st: "(if status = LedgerCommitted then CommittedStatus
        else if status = LedgerResultUnavailable then CommittedResultUnavailableStatus else UncertainStatus) = attestedStatus status"
    "(attestedStatus status = FailedNoEffectStatus \<or> attestedStatus status = UncertainStatus \<and> \<not> observed) =
      (status = LedgerUncertain \<and> \<not> observed)"
    using assms by (auto simp: reason_fits_def attestedStatus_def split: ledger_state.splits)
  have bounds: "lr_revision r < MAX_SAFE_INTEGER" "ledger_stamp (lr_updatedAt r)"
    using ledger_valid_parts [OF r(1)] by (simp_all add: MAX_SAFE_INTEGER_def)
  have "closePostPermit nfc r status \<lparr>xi_now = now, xi_attestation = v, xi_resultHash = result, xi_reasonCode = reason,
      xi_effectCompletionObserved = observed\<rparr> = Inr r' \<longleftrightarrow>
      validateSafeCodingEffectAttestation nfc v = Inr att \<and> ledger_stamp now \<and> ledgerTime (lr_updatedAt r) \<le> ledgerTime now \<and>
      finishTransition nfc r (closed_record r status now result reason observed att) = Inr r'"
    unfolding closePostPermit_def Let_def st att_def
    using r bounds by (auto simp: transition_simps terminal_attestation_exact st closed_record_def pendingEvidence_def)
  also have "\<dots> \<longleftrightarrow> validateSafeCodingEffectAttestation nfc v = Inr att \<and> ledger_stamp now \<and>
      ledgerTime (lr_updatedAt r) \<le> ledgerTime now \<and>
      r' = closed_record r status now result reason observed att \<and> canonicalizable nfc (ledger_json r')"
    using post_permit_wf [OF r _ _ assms _ att_def] r(1) by (auto simp: finish_exact ledger_valid_def)
  finally show ?thesis
    using r by (auto simp: Let_def att_def [symmetric])
qed

lemma failed_wf:
  assumes "ledger_valid nfc r" "ledger_status r = LedgerPrepared" "ledger_stamp now"
    "ledgerTime (lr_updatedAt r) \<le> ledgerTime now" "IDENTIFIER_PATTERN reason"
    "validateSafeCodingEffectAttestation nfc v = Inr att" "att = promised_to r FailedNoEffectStatus True None now"
  shows "wf_ledger nfc (closed_record r LedgerFailedPreEffect now None (Some reason) False att)"
    "ledger_successor r (closed_record r LedgerFailedPreEffect now None (Some reason) False att)"
proof -
  have wf: "wf_ledger nfc r" and att: "wf_attestation nfc att"
    using assms(1,6) attestation_shape by (auto simp: ledger_valid_def)
  have shape: "stateShape (lr_ticketState r) (lr_effectAttempt r) (lr_evidenceExpectation r) (lr_evidenceAdmission r) (lr_updatedAt r)"
    using wf by (simp add: wf_ledger_def Let_def)
  then have e: "evidence_status r = EvidenceReserved"
    using assms(2) by (simp add: stateShape_def)
  have rev: "lr_revision r = 1"
    using wf assms(2) by (simp add: wf_ledger_def Let_def reachableRevision_def)
  show "ledger_successor r (closed_record r LedgerFailedPreEffect now None (Some reason) False att)"
    using assms(2,4) e rev by (auto simp: ledger_successor_def closed_record_def same_identity_def phase_step_def ledger_phase_def
        isSafeCodingLedgerTerminalState_def)
  show "wf_ledger nfc (closed_record r LedgerFailedPreEffect now None (Some reason) False att)"
    using assms(2-5) wf att shape e rev
    by (auto simp: wf_ledger_def Let_def closed_record_def wf_ticketState_def wf_effectAttempt_def wf_admission_def
        stateShape_def terminalShape_def outboxShape_def outcomeShape_def reachableRevision_def safe_int_def MAX_SAFE_INTEGER_def
        noEffectObserved_def assms(7) promised_to_def promisedAttestation_def attestedStatus_def)
qed

lemma failed_exact:
  "closeSafeCodingLedgerFailedPreEffect nfc r now v reason = Inr r' \<longleftrightarrow>
    ledger_valid nfc r \<and> ledger_status r = LedgerPrepared \<and> IDENTIFIER_PATTERN reason \<and> ledger_stamp now \<and>
    ledgerTime (lr_updatedAt r) \<le> ledgerTime now \<and>
    (let att = promised_to r FailedNoEffectStatus True None now in
     validateSafeCodingEffectAttestation nfc v = Inr att \<and>
     r' = closed_record r LedgerFailedPreEffect now None (Some reason) False att \<and> canonicalizable nfc (ledger_json r'))"
proof (cases "ledger_valid nfc r \<and> ledger_status r = LedgerPrepared")
  case False
  then show ?thesis
    by (auto simp: closeSafeCodingLedgerFailedPreEffect_def transition_simps)
next
  case True
  then have r: "ledger_valid nfc r" "ledger_status r = LedgerPrepared" by auto
  define att where "att = promised_to r FailedNoEffectStatus True None now"
  have bounds: "lr_revision r < MAX_SAFE_INTEGER" "ledger_stamp (lr_updatedAt r)"
    using ledger_valid_parts [OF r(1)] by (simp_all add: MAX_SAFE_INTEGER_def)
  have fresh: "le_effectObservedAt (lr_effectAttempt r) = None" "le_resultHash (lr_effectAttempt r) = None"
    using ledger_valid_parts(10) [OF r(1)] r(2) by (simp_all add: stateShape_def)
  then have built: "r\<lparr>lr_revision := lr_revision r + 1, lr_updatedAt := now,
      lr_ticketState := (lr_ticketState r)\<lparr>lt_status := LedgerFailedPreEffect, lt_terminalAt := Some now,
        lt_terminalReasonCode := Some reason\<rparr>,
      lr_evidenceAdmission := pendingEvidence r att now\<rparr> = closed_record r LedgerFailedPreEffect now None (Some reason) False att"
    by (simp add: closed_record_def pendingEvidence_def)
  have "closeSafeCodingLedgerFailedPreEffect nfc r now v reason = Inr r' \<longleftrightarrow> IDENTIFIER_PATTERN reason \<and>
      validateSafeCodingEffectAttestation nfc v = Inr att \<and> ledger_stamp now \<and> ledgerTime (lr_updatedAt r) \<le> ledgerTime now \<and>
      finishTransition nfc r (closed_record r LedgerFailedPreEffect now None (Some reason) False att) = Inr r'"
    unfolding closeSafeCodingLedgerFailedPreEffect_def built [symmetric]
    using r bounds by (auto simp: transition_simps terminal_attestation_exact ledger_leaf att_def)
  also have "\<dots> \<longleftrightarrow> IDENTIFIER_PATTERN reason \<and> validateSafeCodingEffectAttestation nfc v = Inr att \<and> ledger_stamp now \<and>
      ledgerTime (lr_updatedAt r) \<le> ledgerTime now \<and>
      r' = closed_record r LedgerFailedPreEffect now None (Some reason) False att \<and> canonicalizable nfc (ledger_json r')"
    using failed_wf [OF r _ _ _ _ att_def] r(1) by (auto simp: finish_exact ledger_valid_def)
  finally show ?thesis
    using r by (auto simp: Let_def att_def [symmetric])
qed

end
