(* ===== verification/Ledger_Text.thy ===== *)
theory Ledger_Text
  imports Ledger_Validation Contract_Properties
begin

text \<open>
  The JSON form of a well-formed ledger record consists of safe integers and short ASCII texts that JSON writes without
  escapes. Normalisation leaves ASCII unchanged, so the form can always be canonicalized, and a record is accepted exactly
  when it is well formed; and its text has a bounded length, in code units and in UTF-8 bytes.
\<close>

definition nfc_ascii :: "(jstr \<Rightarrow> jstr) \<Rightarrow> bool" where
  "nfc_ascii nfc \<longleftrightarrow> (\<forall>s. list_all (\<lambda>u. u < 0x80) s \<longrightarrow> nfc s = s)"

definition plainUnit :: "nat \<Rightarrow> bool" where
  "plainUnit u \<longleftrightarrow> 0x20 \<le> u \<and> u < 0x80 \<and> u \<noteq> 0x22 \<and> u \<noteq> 0x5c"

lemma plainUnit_numeral [simp]:
  "plainUnit (numeral n) \<longleftrightarrow> 0x20 \<le> (numeral n :: nat) \<and> numeral n < (0x80 :: nat) \<and> numeral n \<noteq> (0x22 :: nat) \<and> numeral n \<noteq> (0x5c :: nat)"
  by (simp add: plainUnit_def)

definition asciiText :: "jstr \<Rightarrow> bool" where
  "asciiText s \<longleftrightarrow> length s \<le> 256 \<and> list_all plainUnit s"

fun plainText :: "jsval \<Rightarrow> bool" where
  "plainText JNull = True"
| "plainText (JBool _) = True"
| "plainText (JStr s) = asciiText s"
| "plainText (JNum (JInt i)) = safe_int i"
| "plainText (JArr sh xs) = (sh = plain_shape \<and> (\<forall>x \<in> set xs. plainText x))"
| "plainText (JObj sh fs) = (sh = plain_shape \<and> (\<forall>f \<in> set fs. asciiText (fst f) \<and> plainText (snd f)))"
| "plainText _ = False"

section \<open>Plain values can be canonicalized\<close>

lemma asciiText_units: "asciiText s \<Longrightarrow> list_all (\<lambda>u. u < 0x80) s"
  by (auto simp: asciiText_def plainUnit_def list_all_iff)

lemma asciiText_ok: "nfc_ascii nfc \<Longrightarrow> asciiText s \<Longrightarrow> string_ok nfc s"
  using asciiText_units [of s]
  by (simp add: nfc_ascii_def asciiText_def string_ok_def canonical_string_def ascii_paired MAX_CANONICAL_JSON_STRING_CODE_UNITS_def)

lemma plainText_ok: "nfc_ascii nfc \<Longrightarrow> plainText v \<Longrightarrow> json_ok nfc v"
  by (induction v rule: plainText.induct) (auto simp: asciiText_ok)

lemma quote_plain: "asciiText s \<Longrightarrow> jsonQuote s = [34] @ s @ [34]"
proof -
  assume "asciiText s"
  then have "list_all plainUnit s"
    by (simp add: asciiText_def)
  then have "concat (map quoteUnit s) = s"
    by (induction s) (auto simp: plainUnit_def quoteUnit_def surrogate_defs)
  then show ?thesis
    by (simp add: jsonQuote_def)
qed

lemma length_decDigits: "n < 10 ^ Suc k \<Longrightarrow> length (decDigits n) \<le> Suc k"
proof (induction k arbitrary: n)
  case (Suc k)
  then show ?case
    by (subst decDigits.simps) (simp add: less_mult_imp_div_less mult.commute)
qed (simp add: decDigits.simps)

lemma length_decInt: "safe_int i \<Longrightarrow> length (decInt i) \<le> 17"
proof -
  assume "safe_int i"
  then have "nat i < 10 ^ Suc 15" "nat (- i) < 10 ^ Suc 15"
    by (auto simp: safe_int_def MAX_SAFE_INTEGER_def)
  then show ?thesis
    using length_decDigits [of "nat i" 15] length_decDigits [of "nat (- i)" 15] by (simp add: decInt_def)
qed

lemma plainText_length: "plainText v \<Longrightarrow> length (render v) + 260 \<le> 520 * node_count v"
proof (induction v rule: plainText.induct)
  case (3 s)
  then show ?case
    by (simp add: quote_plain) (simp add: asciiText_def)
next
  case (4 i)
  then show ?case
    using length_decInt [of i] by simp
next
  case (5 sh xs)
  then have "(\<Sum>x\<leftarrow>xs. length (render x) + 260) \<le> (\<Sum>x\<leftarrow>xs. 520 * node_count x)"
    by (intro sum_list_mono) auto
  then show ?case
    by (simp add: length_render_JArr separators_def sum_list_addf sum_list_triv sum_list_const_mult del: render.simps) linarith
next
  case (6 sh fs)
  have "length (field_text f) + 1 \<le> 520 * node_count (snd f)" if "f \<in> set fs" for f
    using 6(1) [OF that] 6(2) that by (auto simp: field_text_def quote_plain) (auto simp: asciiText_def)
  then have "(\<Sum>f\<leftarrow>fs. length (field_text f) + 1) \<le> (\<Sum>f\<leftarrow>fs. 520 * node_count (snd f))"
    by (intro sum_list_mono) auto
  moreover have "(\<Sum>f\<leftarrow>fs. length (field_text f) + 1) = (\<Sum>f\<leftarrow>fs. length (field_text f)) + length fs"
    by (induction fs) simp_all
  ultimately show ?case
    by (simp add: length_render_JObj separators_def sum_list_const_mult) linarith
qed (simp_all add: js_def)

lemma ascii_digits: "list_all (\<lambda>u. u < 0x80) (decDigits n)"
  using decDigits_digits [of n] by (auto simp: list_all_iff)

lemma joinComma_units: "P 0x2c \<Longrightarrow> list_all (list_all P) ts \<Longrightarrow> list_all P (joinComma ts)"
  by (induction ts rule: joinComma.induct) auto

lemma plainText_ascii: "plainText v \<Longrightarrow> list_all (\<lambda>u. u < 0x80) (render v)"
proof (induction v rule: plainText.induct)
  case (3 s)
  then show ?case
    using asciiText_units [of s] by (simp add: quote_plain)
next
  case (4 i)
  then show ?case
    by (simp add: decInt_def ascii_digits)
next
  case (5 sh xs)
  then have "list_all (list_all (\<lambda>u. u < 0x80)) (map render xs)"
    by (simp add: list_all_iff)
  then show ?case
    by (simp add: joinComma_units)
next
  case (6 sh fs)
  have "list_all (\<lambda>u. u < 0x80) (field_text f)" if "f \<in> set fs" for f
    using 6(1) [OF that] 6(2) that asciiText_units [of "fst f"] by (auto simp: field_text_def quote_plain)
  then have "list_all (list_all (\<lambda>u. u < 0x80)) (map field_text (sort_key fst fs))"
    by (simp add: list_all_iff)
  then show ?case
    by (simp add: render_JObj joinComma_units del: render.simps)
qed (simp_all add: js_def)

lemma utf8Length_ascii: "list_all (\<lambda>u. u < 0x80) s \<Longrightarrow> utf8Length s = length s"
  by (induction s rule: utf8Length.induct) auto

lemma plainText_canonicalizable:
  assumes "nfc_ascii nfc" "plainText v" "node_count v \<le> 4000" "jdepth v \<le> 64"
  shows "canonicalizable nfc v"
  using assms plainText_ok plainText_length [of v]
  by (simp add: canonicalizable_def MAX_CANONICAL_JSON_DEPTH_def MAX_CANONICAL_JSON_NODES_def
      MAX_CANONICAL_JSON_OUTPUT_CODE_UNITS_def)

section \<open>The forms of well-formed records\<close>

lemma list_all_split: "n \<le> length s \<Longrightarrow> list_all P (take k (drop n s)) \<and> list_all P (drop (n + k) s) \<longleftrightarrow> list_all P (drop n s)"
  by (metis add.commute append_take_drop_id drop_drop list_all_append)

lemma list_all_drop_Suc: "n < length s \<Longrightarrow> P (s ! n) \<Longrightarrow> list_all P (drop (Suc n) s) \<longleftrightarrow> list_all P (drop n s)"
  by (metis Cons_nth_drop_Suc list.pred_inject(2))

lemma uuid_identifier:
  assumes "UUID_PATTERN s"
  shows "IDENTIFIER_PATTERN s"
proof -
  define P where "P c \<longleftrightarrow> isDigit c \<or> isLower c \<or> isUpper c \<or> c \<in> set (js ''._:@/-'')" for c
  have hex: "list_all isLowerHex t \<Longrightarrow> list_all P t" for t
    by (auto simp: list_all_iff P_def char_class_defs)
  have dash: "P 45"
    by (simp add: P_def js_def)
  note u = assms [unfolded UUID_PATTERN_def]
  have "list_all P (drop 0 s)"
    using u hex dash list_all_split [of 0 s P 8] list_all_drop_Suc [of 8 s P] list_all_split [of 9 s P 4]
      list_all_drop_Suc [of 13 s P] list_all_split [of 14 s P 4] list_all_drop_Suc [of 18 s P]
      list_all_split [of 19 s P 4] list_all_drop_Suc [of 23 s P]
    by auto
  moreover obtain c t where s: "s = c # t"
    using u by (cases s) auto
  moreover have "isLowerHex c"
    using u s by simp
  ultimately show ?thesis
    using u by (auto simp: IDENTIFIER_PATTERN_def P_def [abs_def] char_class_defs)
qed

lemma identifier_ascii: "IDENTIFIER_PATTERN s \<Longrightarrow> asciiText s"
  by (cases s) (auto simp: IDENTIFIER_PATTERN_def asciiText_def plainUnit_def char_class_defs js_def list_all_iff)

lemma digest_ascii: "SHA256_PATTERN s \<Longrightarrow> asciiText s"
  by (auto simp: SHA256_PATTERN_def asciiText_def plainUnit_def char_class_defs list_all_iff)

lemma nonce_ascii: "nonce_ok s \<Longrightarrow> asciiText s"
proof -
  assume "nonce_ok s"
  then obtain bs where s: "s = encodeBase64Url bs"
    by (auto simp: nonce_ok_def)
  moreover have "\<forall>u \<in> set base64UrlAlphabet. plainUnit u"
    by (simp add: base64UrlAlphabet_def plainUnit_def js_def)
  ultimately show ?thesis
    using encodeBase64Url_chars [of bs] nonce_length [OF \<open>nonce_ok s\<close>] by (auto simp: asciiText_def list_all_iff)
qed

lemma uuid_ascii: "UUID_PATTERN s \<Longrightarrow> asciiText s" "ledgerUuid s \<Longrightarrow> asciiText s"
proof -
  show uuid: "asciiText s" if "UUID_PATTERN s" for s
    using uuid_identifier [OF that] by (rule identifier_ascii)
  show "asciiText s" if "ledgerUuid s"
    using that by (intro uuid) (auto simp: ledgerUuid_def UUID_PATTERN_def)
qed

lemma timestamp_ascii:
  assumes "TIMESTAMP_PATTERN s"
  shows "asciiText s"
proof -
  let ?P = plainUnit
  have digits: "list_all isDigit t \<Longrightarrow> list_all ?P t" for t
    by (auto simp: list_all_iff plainUnit_def isDigit_def)
  have marks: "?P 45" "?P 84" "?P 58" "?P 46" "?P 90"
    by (simp_all add: plainUnit_def)
  note t = assms [unfolded TIMESTAMP_PATTERN_def]
  have len: "length s = 20 \<or> length s = 24"
    using t by auto
  then have final: "drop (length s - 1) s = [last s]"
    by (cases s rule: rev_cases) auto
  have "list_all ?P (drop 19 s)"
  proof (cases "length s = 20")
    case False
    with len t have "list_all ?P (drop 20 s)"
      using digits [of "take 3 (drop 20 s)"] marks final list_all_split [of 20 s ?P 3] by auto
    then show ?thesis
      using False len t marks list_all_drop_Suc [of 19 s ?P] by auto
  qed (use final marks t in simp)
  then have "list_all ?P (drop 0 s)"
    using t len digits marks list_all_split [of 0 s ?P 4] list_all_drop_Suc [of 4 s ?P] list_all_split [of 5 s ?P 2]
      list_all_drop_Suc [of 7 s ?P] list_all_split [of 8 s ?P 2] list_all_drop_Suc [of 10 s ?P] list_all_split [of 11 s ?P 2]
      list_all_drop_Suc [of 13 s ?P] list_all_split [of 14 s ?P 2] list_all_drop_Suc [of 16 s ?P] list_all_split [of 17 s ?P 2]
    by auto
  then show ?thesis
    using len by (auto simp: asciiText_def)
qed

lemma stamp_ascii: "stamp nfc s \<Longrightarrow> asciiText s" "ledger_stamp s \<Longrightarrow> asciiText s"
  by (auto intro!: timestamp_ascii simp: stamp_def wf_timestamp_def ledger_stamp_def timestampMilliseconds_ledger_def split: if_splits)

lemma ident_ascii: "ident nfc s \<Longrightarrow> asciiText s"
  by (simp add: ident_def identifier_ascii)

lemma spelling_ascii:
  "asciiText (spelling effectClasses c)" "asciiText (spelling attestationStatuses s)" "asciiText (spelling evidenceLevels v)"
  "asciiText (spelling ledgerStates l)" "asciiText (spelling admissionStates d)"
proof -
  note tables = spelling_def effectClasses_def attestationStatuses_def evidenceLevels_def ledgerStates_def admissionStates_def
    asciiText_def plainUnit_def js_def
  show "asciiText (spelling effectClasses c)" by (cases c) (simp_all add: tables)
  show "asciiText (spelling attestationStatuses s)" by (cases s) (simp_all add: tables)
  show "asciiText (spelling evidenceLevels v)" by (cases v) (simp_all add: tables)
  show "asciiText (spelling ledgerStates l)" by (cases l) (simp_all add: tables)
  show "asciiText (spelling admissionStates d)" by (cases d) (simp_all add: tables)
qed

lemma asciiText_js [simp]: "asciiText (js k) \<longleftrightarrow> length k \<le> 256 \<and> list_all (\<lambda>c. plainUnit (of_char c)) k"
  by (simp add: asciiText_def js_def list_all_iff)

lemma plainText_jrec: "plainText (jrec kvs) \<longleftrightarrow> list_all (\<lambda>(k, w). asciiText (js k) \<and> plainText w) kvs"
  by (auto simp: jrec_def jfields_def list_all_iff)

lemma plainText_nullable: "plainText (nullable x) \<longleftrightarrow> pred_option asciiText x"
  by (cases x) (simp_all add: nullable_def)

lemma pred_option_ascii: "pred_option P x \<Longrightarrow> (\<And>s. P s \<Longrightarrow> asciiText s) \<Longrightarrow> pred_option asciiText x"
  by (cases x) auto

lemmas ascii = identifier_ascii digest_ascii nonce_ascii uuid_ascii stamp_ascii ident_ascii spelling_ascii

lemma form_plain:
  "wf_ticket nfc t \<Longrightarrow> plainText (ticket_json t)" "wf_attestation nfc a \<Longrightarrow> plainText (attestation_json a)"
  "wf_expectation x \<Longrightarrow> plainText (expectation_json x)" "wf_effectAttempt ef \<Longrightarrow> plainText (effectAttempt_json ef)"
  by (auto simp: ticket_json_def ticketFields_def attestation_json_def attestationFields_def expectation_json_def
      expectationFields_def effectAttempt_json_def effectAttemptFields_def subject_json_def audience_json_def
      charges_json_def plainText_jrec plainText_nullable wf_ticket_def wf_attestation_def wf_expectation_def wf_charges_def
      wf_effectAttempt_def wf_subject_def wf_audience_def ascii EXECUTION_TICKET_KIND_def EFFECT_ATTESTATION_KIND_def
      INTENT_CONTRACT_SPEC_VERSION_def counter_def elim!: pred_option_ascii)

lemma receipt_plain: "wf_receipt nfc rc \<Longrightarrow> plainText (receipt_json rc)"
  by (auto simp: receipt_json_def receiptFields_def plainText_jrec wf_receipt_def ascii form_plain
      SAFE_CODING_EVIDENCE_ADMISSION_RECEIPT_KIND_def SAFE_CODING_EVIDENCE_ADMISSION_RECEIPT_VERSION_def safe_int_def
      MAX_SAFE_INTEGER_def)

lemma admission_plain: "wf_admission nfc e \<Longrightarrow> plainText (admission_json e)"
  by (cases "ev_attestation e"; cases "ev_admissionReceipt e";
      auto simp: admission_json_def admissionFields_def nullJson_def plainText_jrec plainText_nullable wf_admission_def ascii
        form_plain receipt_plain elim!: pred_option_ascii)

lemma ticketState_plain: "wf_ticketState nfc t \<Longrightarrow> plainText (ticketState_json t)"
  by (auto simp: ticketState_json_def ticketStateFields_def plainText_jrec plainText_nullable wf_ticketState_def ascii form_plain
      elim!: pred_option_ascii)

lemma ledger_plain: "wf_ledger nfc r \<Longrightarrow> plainText (ledger_json r)"
proof -
  assume wf: "wf_ledger nfc r"
  have "asciiText (lr_transactionId r)" "asciiText (lr_createdAt r)" "asciiText (lr_updatedAt r)" "safe_int (lr_revision r)"
    "plainText (ticketState_json (lr_ticketState r))" "plainText (admission_json (lr_evidenceAdmission r))"
    "plainText (effectAttempt_json (lr_effectAttempt r))" "plainText (expectation_json (lr_evidenceExpectation r))"
    using wf unfolding wf_ledger_def Let_def by (blast intro: ascii form_plain admission_plain ticketState_plain)+
  then show ?thesis
    by (simp add: ledger_json_def ledgerFields_def plainText_jrec SAFE_CODING_LEDGER_RECORD_KIND_def
        SAFE_CODING_LEDGER_RECORD_VERSION_def safe_int_def MAX_SAFE_INTEGER_def)
qed

lemma ledger_nodes: "node_count (ledger_json r) \<le> 153"
  using outbox_measures(1) [of "lr_evidenceAdmission r"]
  by (simp add: ledger_json_def ledgerFields_def jrec_bounds form_measures ticketState_measures)

text \<open>The canonical text of a well-formed record takes less than eighty thousand bytes.\<close>

lemma ledger_text_length:
  assumes "wf_ledger nfc r"
  shows "utf8Length (render (ledger_json r)) \<le> 79300"
proof -
  have plain: "plainText (ledger_json r)"
    using assms by (rule ledger_plain)
  have "length (render (ledger_json r)) \<le> 79300"
    using plainText_length [OF plain] ledger_nodes [of r] by linarith
  then show ?thesis
    by (simp add: utf8Length_ascii plainText_ascii [OF plain])
qed

lemma ledger_canonicalizable: "nfc_ascii nfc \<Longrightarrow> wf_ledger nfc r \<Longrightarrow> canonicalizable nfc (ledger_json r)"
proof -
  assume nfc: "nfc_ascii nfc" and wf: "wf_ledger nfc r"
  have "node_count (ledger_json r) \<le> 512" "jdepth (ledger_json r) \<le> 16"
    using ledger_within_bounds [OF wf] by (simp_all add: within_bounds_def)
  then show ?thesis
    using nfc ledger_plain [OF wf] by (intro plainText_canonicalizable) simp_all
qed

lemma ledger_valid_wf: "nfc_ascii nfc \<Longrightarrow> ledger_valid nfc r \<longleftrightarrow> wf_ledger nfc r"
  by (auto simp: ledger_valid_def ledger_canonicalizable)

lemma attestation_own:
  "nfc_ascii nfc \<Longrightarrow> wf_attestation nfc a \<Longrightarrow> validateSafeCodingEffectAttestation nfc (attestation_json a) = Inr a"
  by (intro attestation_complete plainText_canonicalizable) (simp_all add: form_plain form_measures)

lemma ticket_own:
  "nfc_ascii nfc \<Longrightarrow> wf_ticket nfc t \<Longrightarrow> validateSafeCodingExecutionTicket nfc (ticket_json t) = Inr t"
  by (intro ticket_complete plainText_canonicalizable) (simp_all add: form_plain form_measures)

lemma nfc_ascii_id: "nfc_ascii (\<lambda>s. s)"
  by (simp add: nfc_ascii_def)

end
