(* ===== verification/Ledger_Properties.thy ===== *)
theory Ledger_Properties
  imports Ledger_Lifecycle Ledger_Text
begin

text \<open>
  The ledger as a transition system: its initial records are those \<open>createPreparedSafeCodingLedgerRecord\<close> returns,
  its steps are the successful transitions. The theory proves what creation does, interprets the three
  contracts of \<open>Transition_System\<close> on these steps and states the properties of the component.
\<close>

section \<open>Creation\<close>

definition prepared_record :: "execution_ticket \<Rightarrow> evidence_expectation \<Rightarrow> prepare_input \<Rightarrow> ledger_record" where
  "prepared_record t x input =
     \<lparr>lr_transactionId = et_ticketId t, lr_revision = 1, lr_createdAt = pi_now input, lr_updatedAt = pi_now input,
      lr_ticketState = \<lparr>lt_ticket = t, lt_status = LedgerPrepared, lt_consumedAt = None, lt_terminalAt = None,
        lt_terminalReasonCode = None\<rparr>,
      lr_effectAttempt = \<lparr>le_attemptId = pi_attemptId input, le_adapterId = et_adapterId t, le_adapterDigest = et_adapterDigest t,
        le_effectClass = et_effectClass t, le_resolvedObjectId = et_resolvedObjectId t,
        le_stateCommitmentHash = et_stateCommitmentHash t, le_preparedAt = pi_now input, le_commitPermittedAt = None,
        le_effectObservedAt = None, le_resultHash = None\<rparr>,
      lr_evidenceExpectation = x,
      lr_evidenceAdmission = \<lparr>ev_intentId = pi_evidenceIntentId input, ev_attestationId = pi_attestationId input,
        ev_status = EvidenceReserved, ev_attestation = None, ev_readyAt = None, ev_admittedAt = None,
        ev_admissionReceipt = None\<rparr>\<rparr>"

lemma prepared_form:
  assumes "canonicalizable nfc (pi_evidenceExpectation input)" "validateSafeCodingEvidenceExpectation (pi_evidenceExpectation input) = Inr x"
  shows "sortFields (jrec (preparedFields t input)) = sortFields (ledger_json (prepared_record t x input))"
proof -
  have "sortFields (pi_evidenceExpectation input) = sortFields (expectation_json x)"
    using assms by (simp add: expectation_exact)
  moreover have "pi_evidenceExpectation input \<noteq> JAccessor"
    using assms(1) by (auto simp: canonicalizable_def)
  ultimately show ?thesis
    unfolding ledger_json_def preparedFields_def ledgerFields_def prepared_record_def
    by (subst sortFields_jrec_iff) simp_all
qed

lemma prepared_wf:
  assumes "wf_ticket nfc t" "wf_expectation x" "ledger_stamp (pi_now input)" "IDENTIFIER_PATTERN (pi_attemptId input)"
    "IDENTIFIER_PATTERN (pi_evidenceIntentId input)" "ledgerUuid (pi_attestationId input)"
  shows "wf_ledger nfc (prepared_record t x input) \<longleftrightarrow> ex_observerId x \<noteq> aud_executorId (et_audience t)"
  using assms uuid_identifier [of "et_ticketId t"]
  by (auto simp: wf_ledger_def Let_def prepared_record_def wf_ticketState_def wf_effectAttempt_def wf_admission_def
      stateShape_def outboxShape_def reachableRevision_def safe_int_def MAX_SAFE_INTEGER_def wf_ticket_def ident_def)

lemma created_exact:
  "createPreparedSafeCodingLedgerRecord nfc input = Inr r \<longleftrightarrow>
     (\<exists>t x. validateSafeCodingExecutionTicket nfc (pi_ticket input) = Inr t \<and>
        validateSafeCodingEvidenceExpectation (pi_evidenceExpectation input) = Inr x \<and>
        canonicalizable nfc (pi_evidenceExpectation input) \<and>
        ledger_stamp (pi_now input) \<and> ledger_stamp (et_issuedAt t) \<and> ledger_stamp (et_expiresAt t) \<and>
        ledgerTime (et_issuedAt t) \<le> ledgerTime (pi_now input) \<and> ledgerTime (pi_now input) < ledgerTime (et_expiresAt t) \<and>
        IDENTIFIER_PATTERN (pi_attemptId input) \<and> IDENTIFIER_PATTERN (pi_evidenceIntentId input) \<and>
        ledgerUuid (pi_attestationId input) \<and> ex_observerId x \<noteq> aud_executorId (et_audience t) \<and>
        r = prepared_record t x input \<and> canonicalizable nfc (ledger_json r))"
proof -
  have field: "canonicalizable nfc (pi_evidenceExpectation input)" if "canonicalizable nfc (jrec (preparedFields t input))" for t
    using that by (rule canonicalizable_jrec [where k = "''evidenceExpectation''"]) (simp add: preparedFields_def)
  have validated: "validateSafeCodingLedgerRecord nfc (jrec (preparedFields t input)) = Inr r \<longleftrightarrow>
      canonicalizable nfc (pi_evidenceExpectation input) \<and> ledger_valid nfc (prepared_record t x input) \<and> r = prepared_record t x input"
    if "validateSafeCodingEvidenceExpectation (pi_evidenceExpectation input) = Inr x" for t x
    unfolding ledger_validator ledger_valid_def
    by (cases "canonicalizable nfc (pi_evidenceExpectation input)")
      (use field canonicalizable_cong [OF prepared_form [OF _ that]] in \<open>auto simp: prepared_form [OF _ that] ledger_inj\<close>)
  have parts: "wf_ticket nfc t" "wf_expectation x"
    if "validateSafeCodingExecutionTicket nfc (pi_ticket input) = Inr t" "canonicalizable nfc (pi_evidenceExpectation input)"
      "validateSafeCodingEvidenceExpectation (pi_evidenceExpectation input) = Inr x" for t x
    using that ticket_shape expectation_exact by blast+
  show ?thesis
    unfolding createPreparedSafeCodingLedgerRecord_def
    by (simp add: transition_simps ledger_leaf not_less not_le) (use validated prepared_wf parts in \<open>fastforce simp: ledger_valid_def\<close>)
qed

section \<open>Admission\<close>

definition admitted_record :: "ledger_record \<Rightarrow> admission_receipt \<Rightarrow> ledger_record" where
  "admitted_record r rc =
     r\<lparr>lr_revision := lr_revision r + 1, lr_updatedAt := rc_admittedAt rc,
       lr_evidenceAdmission := (lr_evidenceAdmission r)\<lparr>ev_status := EvidenceAdmitted,
         ev_admittedAt := Some (rc_admittedAt rc), ev_admissionReceipt := Some rc\<rparr>\<rparr>"

lemma consume_receipt:
  "requireVerifiedEvidenceAdmissionReceipt arg w reg = (Inr rc, reg') \<longleftrightarrow>
     (\<exists>i fence. arg = ReceiptObject i \<and> map_of (rr_verified reg) i = Some (rc, fence) \<and> fencePassed (fence w rc) \<and>
        reg' = reg\<lparr>rr_verified := filter (\<lambda>entry. fst entry \<noteq> i) (rr_verified reg)\<rparr>)"
  by (cases arg) (auto simp: requireVerifiedEvidenceAdmissionReceipt_def split: option.splits if_splits)

lemma pair_bindE: "(case X of (c, g) \<Rightarrow> (bindE c f, g)) = (Inr y, g') \<longleftrightarrow> (\<exists>x. X = (Inr x, g') \<and> f x = Inr y)"
  by (cases X) (auto simp: result_simps)

lemma consumed: "map_of (filter (\<lambda>entry. fst entry \<noteq> i) es) j = (if j = i then None else map_of es j)"
  by (induction es) auto

lemma mark_exact:
  "markSafeCodingLedgerEvidenceAdmitted nfc r input w reg = (Inr r', reg') \<longleftrightarrow>
     ledger_valid nfc r \<and> isSafeCodingLedgerTerminalState (ledger_status r) \<and> evidence_status r = EvidencePending \<and>
     (\<exists>i rc fence. input = \<lparr>ai_shape = plain_shape, ai_fields = [(js ''receipt'', ReceiptObject i)]\<rparr> \<and>
        map_of (rr_verified reg) i = Some (rc, fence) \<and> fencePassed (fence w rc) \<and>
        reg' = reg\<lparr>rr_verified := filter (\<lambda>entry. fst entry \<noteq> i) (rr_verified reg)\<rparr> \<and>
        rc_transactionId rc = lr_transactionId r \<and> rc_evidenceIntentId rc = ev_intentId (lr_evidenceAdmission r) \<and>
        rc_attestationId rc = ev_attestationId (lr_evidenceAdmission r) \<and> ledger_stamp (rc_admittedAt rc) \<and>
        ledgerTime (lr_updatedAt r) \<le> ledgerTime (rc_admittedAt rc) \<and>
        ledger_valid nfc (admitted_record r rc) \<and> ledger_successor r (admitted_record r rc) \<and> r' = admitted_record r rc)"
proof -
  have closed: "assertClosedFields (ai_shape input) (ai_fields input) (\<lambda>v. v = OtherArgument JAccessor) [''receipt''] l = Inr u \<longleftrightarrow>
      (\<exists>a. input = \<lparr>ai_shape = plain_shape, ai_fields = [(js ''receipt'', a)]\<rparr> \<and> a \<noteq> OtherArgument JAccessor)" for l u
  proof -
    have "sort (map fst fs) = [k] \<longleftrightarrow> (\<exists>a. fs = [(k, a)])" for fs :: "(jstr \<times> receipt_argument) list" and k
    proof
      assume "sort (map fst fs) = [k]"
      then have "mset (map fst fs) = {#k#}"
        by (metis mset.simps(1) mset.simps(2) mset_sort)
      then show "\<exists>a. fs = [(k, a)]"
        by (cases fs) auto
    qed auto
    then show ?thesis
      by (cases input) (auto simp: assertClosedFields_def result_simps list_ex_iff plain_shape_iff)
  qed
  define before where "before =
    bindE (assertClosedFields (ai_shape input) (ai_fields input) (\<lambda>v. v = OtherArgument JAccessor) [''receipt'']
      ''Evidence admission transition input'') (\<lambda>_.
    bindE (validateSafeCodingLedgerRecord nfc (ledger_json r)) (\<lambda>record.
    bindE (guardE (isSafeCodingLedgerTerminalState (ledger_status record))
      (ledgerError ''Evidence cannot be admitted before terminal state'')) (\<lambda>_.
    bindE (guardE (evidence_status record = EvidencePending)
      (ledgerError ''Evidence intent is not pending admission'')) (\<lambda>_. Inr record))))"
  have before: "before = Inr q \<longleftrightarrow> q = r \<and> ledger_valid nfc r \<and> isSafeCodingLedgerTerminalState (ledger_status r) \<and>
      evidence_status r = EvidencePending \<and>
      (\<exists>a. input = \<lparr>ai_shape = plain_shape, ai_fields = [(js ''receipt'', a)]\<rparr> \<and> a \<noteq> OtherArgument JAccessor)" for q
    unfolding before_def by (auto simp: result_simps closed)
  show ?thesis
  proof (cases before)
    case (Inl e)
    then show ?thesis
      using before [of r] unfolding markSafeCodingLedgerEvidenceAdmitted_def Let_def before_def [symmetric] by auto
  next
    case (Inr q)
    then obtain a where q: "q = r" "ledger_valid nfc r" "isSafeCodingLedgerTerminalState (ledger_status r)"
      "evidence_status r = EvidencePending" "input = \<lparr>ai_shape = plain_shape, ai_fields = [(js ''receipt'', a)]\<rparr>"
      by (auto simp: before)
    have "lr_revision r < MAX_SAFE_INTEGER" "ledger_stamp (lr_updatedAt r)"
      using ledger_valid_parts [OF q(2)] by (simp_all add: MAX_SAFE_INTEGER_def)
    then show ?thesis
      using q unfolding markSafeCodingLedgerEvidenceAdmitted_def Let_def before_def [symmetric] Inr
      by (simp add: pair_bindE consume_receipt) (auto simp: transition_simps finish_exact admitted_record_def)
  qed
qed

section \<open>The transition system\<close>

text \<open>The states of the outside world that the receipt verifier depends on are numbered.\<close>

definition ledger_created :: "(jstr \<Rightarrow> jstr) \<Rightarrow> ledger_record \<Rightarrow> bool" where
  "ledger_created nfc r \<longleftrightarrow> (\<exists>input. createPreparedSafeCodingLedgerRecord nfc input = Inr r)"

inductive ledger_step :: "(jstr \<Rightarrow> jstr) \<Rightarrow> ledger_record \<Rightarrow> ledger_record \<Rightarrow> bool" for nfc where
  permit: "recordSafeCodingCommitPermit nfc r v = Inr r' \<Longrightarrow> ledger_step nfc r r'"
| committed: "closeSafeCodingLedgerCommitted nfc r now v h = Inr r' \<Longrightarrow> ledger_step nfc r r'"
| unavailable: "closeSafeCodingLedgerResultUnavailable nfc r now v h reason = Inr r' \<Longrightarrow> ledger_step nfc r r'"
| uncertain: "closeSafeCodingLedgerUncertain nfc r now v h reason observed = Inr r' \<Longrightarrow> ledger_step nfc r r'"
| failed: "closeSafeCodingLedgerFailedPreEffect nfc r now v reason = Inr r' \<Longrightarrow> ledger_step nfc r r'"
| admitted: "fst (markSafeCodingLedgerEvidenceAdmitted nfc r input (w :: nat) reg) = Inr r' \<Longrightarrow> ledger_step nfc r r'"

lemma step_successor:
  assumes "ledger_step nfc r r'"
  shows "ledger_valid nfc r \<and> ledger_valid nfc r' \<and> ledger_successor r r'"
  using assms
proof cases
  case (permit v)
  then show ?thesis
    by (auto simp: recordSafeCodingCommitPermit_def Let_def transition_simps finish_exact)
next
  case (committed now v h)
  then show ?thesis
    by (auto simp: closeSafeCodingLedgerCommitted_def closePostPermit_def Let_def transition_simps finish_exact)
next
  case (unavailable now v h reason)
  then show ?thesis
    by (auto simp: closeSafeCodingLedgerResultUnavailable_def closePostPermit_def Let_def transition_simps finish_exact)
next
  case (uncertain now v h reason observed)
  then show ?thesis
    by (auto simp: closeSafeCodingLedgerUncertain_def closePostPermit_def Let_def transition_simps finish_exact)
next
  case (failed now v reason)
  then show ?thesis
    by (auto simp: closeSafeCodingLedgerFailedPreEffect_def transition_simps finish_exact)
next
  case (admitted input w reg)
  then obtain reg' where "markSafeCodingLedgerEvidenceAdmitted nfc r input w reg = (Inr r', reg')"
    by (cases "markSafeCodingLedgerEvidenceAdmitted nfc r input w reg") auto
  then show ?thesis
    by (auto simp: mark_exact)
qed

lemma created_valid: "ledger_created nfc r \<Longrightarrow> ledger_valid nfc r \<and> ledger_phase r = (LedgerPrepared, EvidenceReserved)"
proof -
  assume "ledger_created nfc r"
  then obtain input where c: "createPreparedSafeCodingLedgerRecord nfc input = Inr r"
    by (auto simp: ledger_created_def)
  then have "ledger_phase r = (LedgerPrepared, EvidenceReserved)" "canonicalizable nfc (ledger_json r)"
    by (auto simp: created_exact prepared_record_def ledger_phase_def)
  moreover have "wf_ledger nfc r"
    using c by (auto simp: createPreparedSafeCodingLedgerRecord_def transition_simps ledger_validator)
  ultimately show ?thesis
    by (simp add: ledger_valid_def)
qed

text \<open>How records are ordered in time.\<close>

definition ledger_order :: "ledger_record \<Rightarrow> ledger_record \<Rightarrow> bool" where
  "ledger_order r s \<longleftrightarrow>
     same_identity r s \<and> lr_revision r \<le> lr_revision s \<and> ledgerTime (lr_updatedAt r) \<le> ledgerTime (lr_updatedAt s) \<and>
     (isSafeCodingLedgerTerminalState (ledger_status r) \<longrightarrow> same_outcome r s)"

interpretation ledger: monotone_system "ledger_created nfc" "ledger_step nfc" "ledger_valid nfc" ledger_order
proof unfold_locales
  show "ledger_valid nfc r" if "ledger_created nfc r" for r
    using that created_valid by blast
  show "ledger_valid nfc s" if "ledger_step nfc r s" for r s
    using that step_successor by blast
  show "ledger_order r r" for r
    by (simp add: ledger_order_def same_identity_def same_outcome_def)
  show "ledger_order r t" if "ledger_order r s" "ledger_order s t" for r s t
    using that by (auto simp: ledger_order_def same_identity_def same_outcome_def)
  show "ledger_order r s" if "ledger_step nfc r s" for r s
    using step_successor [OF that] by (auto simp: ledger_order_def ledger_successor_def)
qed

interpretation ledger_phases: simulation "ledger_created nfc" "ledger_step nfc" "ledger_valid nfc" ledger_phase phase_step
  by unfold_locales (use step_successor in \<open>auto simp: ledger_successor_def\<close>)

end
