(* ===== verification/Ledger_Time.thy ===== *)
theory Ledger_Time
  imports Ledger_Validation
begin

text \<open>
  The timestamps of the ledger. \<open>timestampMilliseconds\<close> of \<open>records.ts\<close> works with \<open>Date.UTC\<close> and the getters of
  \<open>Date\<close> instead of \<open>Date.parse\<close> and \<open>toISOString\<close>. It accepts the instants of the years 100 to 9999, each in the
  spelling of \<open>toISOString\<close> and in the canonical spelling of the contracts.
\<close>

section \<open>Reading the pattern\<close>

lemma digit_value: "isDigit c \<longleftrightarrow> (\<exists>x < 10. c = 48 + x)"
  by (auto simp: isDigit_def intro!: exI [of _ "c - 48"])

lemma pad_values:
  assumes "a < 10" "b < 10" "c < 10" "d < 10"
  shows "pad2 (a * 10 + b) = [48 + a, 48 + b]" "pad3 ((a * 10 + b) * 10 + c) = [48 + a, 48 + b, 48 + c]"
    "pad4 (((a * 10 + b) * 10 + c) * 10 + d) = [48 + a, 48 + b, 48 + c, 48 + d]"
proof -
  have q: "(x * 10 + u) div 10 = x" "(x * 10 + u) mod 10 = u" if "u < 10" for x u :: nat
    using that by simp_all
  have d: "n div 100 = n div 10 div 10" "n div 1000 = n div 10 div 10 div 10" for n :: nat
    by (simp_all add: div_mult2_eq [symmetric])
  show "pad2 (a * 10 + b) = [48 + a, 48 + b]" "pad3 ((a * 10 + b) * 10 + c) = [48 + a, 48 + b, 48 + c]"
    "pad4 (((a * 10 + b) * 10 + c) * 10 + d) = [48 + a, 48 + b, 48 + c, 48 + d]"
    unfolding pad2_def pad3_def pad4_def d q [OF assms(2)] q [OF assms(3)] q [OF assms(4)]
    using assms by simp_all
qed

lemma pad_of_digits:
  "length t = 2 \<Longrightarrow> list_all isDigit t \<Longrightarrow> \<exists>n < 100. t = pad2 n"
  "length t = 3 \<Longrightarrow> list_all isDigit t \<Longrightarrow> \<exists>n < 1000. t = pad3 n"
  "length t = 4 \<Longrightarrow> list_all isDigit t \<Longrightarrow> \<exists>n < 10000. t = pad4 n"
proof -
  show "\<exists>n < 100. t = pad2 n" if len: "length t = 2" and dig: "list_all isDigit t"
  proof -
    obtain a b where "t = [48 + a, 48 + b]" "a < 10" "b < 10"
      using len dig unfolding numeral_2_eq_2 by (auto simp: length_Suc_conv digit_value)
    then show ?thesis
      using pad_values(1) [of a b a a] by (intro exI [of _ "a * 10 + b"]) simp
  qed
  show "\<exists>n < 1000. t = pad3 n" if len: "length t = 3" and dig: "list_all isDigit t"
  proof -
    obtain a b c where "t = [48 + a, 48 + b, 48 + c]" "a < 10" "b < 10" "c < 10"
      using len dig unfolding numeral_3_eq_3 by (auto simp: length_Suc_conv digit_value)
    then show ?thesis
      using pad_values(2) [of a b c a] by (intro exI [of _ "(a * 10 + b) * 10 + c"]) simp
  qed
  show "\<exists>n < 10000. t = pad4 n" if len: "length t = 4" and dig: "list_all isDigit t"
  proof -
    have "length t = Suc (Suc (Suc (Suc 0)))"
      using len by simp
    then obtain a b c d where "t = [48 + a, 48 + b, 48 + c, 48 + d]" "a < 10" "b < 10" "c < 10" "d < 10"
      using dig by (auto simp: length_Suc_conv digit_value)
    then show ?thesis
      using pad_values(3) [of a b c d] by (intro exI [of _ "((a * 10 + b) * 10 + c) * 10 + d"]) simp
  qed
qed

lemma nth_drop: "n < length s \<Longrightarrow> drop n s = s ! n # drop (Suc n) s"
  by (simp add: Cons_nth_drop_Suc)

lemma take_drop_split: "drop n s = take k (drop n s) @ drop (n + k) s"
  by (metis add.commute append_take_drop_id drop_drop)

lemma pattern_parts:
  assumes "TIMESTAMP_PATTERN s"
  obtains y mo d h mi sc ms where "y < 10000" "mo < 100" "d < 100" "h < 100" "mi < 100" "sc < 100" "ms < 1000"
    "s = isoText y mo d h mi sc @ [46] @ pad3 ms @ [90] \<or> s = isoText y mo d h mi sc @ [90] \<and> ms = 0"
proof -
  note p = assms [unfolded TIMESTAMP_PATTERN_def]
  have len: "length s = 20 \<or> length s = 24"
    using p by auto
  have "\<exists>n < 10000. take 4 s = pad4 n" "\<exists>n < 100. take 2 (drop 5 s) = pad2 n" "\<exists>n < 100. take 2 (drop 8 s) = pad2 n"
    "\<exists>n < 100. take 2 (drop 11 s) = pad2 n" "\<exists>n < 100. take 2 (drop 14 s) = pad2 n" "\<exists>n < 100. take 2 (drop 17 s) = pad2 n"
    using len p by (auto intro!: pad_of_digits)
  then obtain y mo d h mi sc where n: "y < 10000" "take 4 s = pad4 y" "mo < 100" "take 2 (drop 5 s) = pad2 mo" "d < 100"
    "take 2 (drop 8 s) = pad2 d" "h < 100" "take 2 (drop 11 s) = pad2 h" "mi < 100" "take 2 (drop 14 s) = pad2 mi"
    "sc < 100" "take 2 (drop 17 s) = pad2 sc"
    by blast
  have "drop 0 s = isoText y mo d h mi sc @ drop 19 s"
    using len p take_drop_split [of 0 s 4] take_drop_split [of 5 s 2] take_drop_split [of 8 s 2] take_drop_split [of 11 s 2]
      take_drop_split [of 14 s 2] take_drop_split [of 17 s 2] nth_drop [of 4 s] nth_drop [of 7 s] nth_drop [of 10 s]
      nth_drop [of 13 s] nth_drop [of 16 s]
    unfolding isoText_def by (auto simp: n)
  then have s: "s = isoText y mo d h mi sc @ drop 19 s"
    by simp
  have final: "drop (length s - 1) s = [90]"
    using p len by (cases s rule: rev_cases) auto
  show ?thesis
  proof (cases "length s = 20")
    case True
    then show ?thesis
      using that [of y mo d h mi sc 0] n s final by simp
  next
    case False
    then have "list_all isDigit (take 3 (drop 20 s))" "s ! 19 = 46" "length s = 24"
      using p by auto
    moreover from this obtain ms where "ms < 1000" "take 3 (drop 20 s) = pad3 ms"
      using pad_of_digits(2) [of "take 3 (drop 20 s)"] by auto
    ultimately show ?thesis
      using that [of y mo d h mi sc ms] n s final nth_drop [of 19 s] take_drop_split [of 20 s 3] by simp
  qed
qed

section \<open>The accepted timestamps\<close>

definition fieldsRead :: "nat \<Rightarrow> nat \<Rightarrow> nat \<Rightarrow> nat \<Rightarrow> nat \<Rightarrow> nat \<Rightarrow> nat \<Rightarrow> int \<Rightarrow> bool" where
  "fieldsRead y mo d h mi sc ms t \<longleftrightarrow>
     1 \<le> mo \<and> mo \<le> 12 \<and> 1 \<le> d \<and> d \<le> 31 \<and> h \<le> 23 \<and> mi \<le> 59 \<and> sc \<le> 59 \<and> t = dateUTC y mo d h mi sc ms \<and>
     getUTCFullYear t = int y \<and> getUTCMonth t = mo \<and> getUTCDate t = int d \<and> t mod msPerDay div 3600000 = int h \<and>
     t mod msPerDay div 60000 mod 60 = int mi \<and> t mod msPerDay div 1000 mod 60 = int sc \<and> t mod msPerDay mod 1000 = int ms"

lemma if_none: "((if c then None else y) = Some t) \<longleftrightarrow> \<not> c \<and> y = Some t"
  by simp

lemma ledger_form:
  assumes "y < 10000" "mo < 100" "d < 100" "h < 100" "mi < 100" "sc < 100" "ms < 1000"
  shows "timestampMilliseconds_ledger (isoText y mo d h mi sc @ [46] @ pad3 ms @ [90]) = Some t \<longleftrightarrow> fieldsRead y mo d h mi sc ms t"
    "timestampMilliseconds_ledger (isoText y mo d h mi sc @ [90]) = Some t \<longleftrightarrow> fieldsRead y mo d h mi sc 0 t"
proof -
  have v: "digitsValue (pad4 y) = y" "digitsValue (pad2 mo) = mo" "digitsValue (pad2 d) = d" "digitsValue (pad2 h) = h"
    "digitsValue (pad2 mi) = mi" "digitsValue (pad2 sc) = sc" "digitsValue (pad3 ms) = ms"
    using assms by (simp_all add: digitsValue_pad)
  have r: "take 3 (drop 20 (isoText y mo d h mi sc @ [46] @ pad3 ms @ [90])) = pad3 ms"
    "length (isoText y mo d h mi sc @ [46] @ pad3 ms @ [90]) = 24"
    by (simp_all add: isoText_def pad2_def pad3_def pad4_def)
  have short: "(length (isoText y mo d h mi sc @ [90]) = 24) = False"
    by (simp add: isoText_slices)
  show "timestampMilliseconds_ledger (isoText y mo d h mi sc @ [46] @ pad3 ms @ [90]) = Some t \<longleftrightarrow> fieldsRead y mo d h mi sc ms t"
    unfolding timestampMilliseconds_ledger_def Let_def isoText_slices r v fieldsRead_def if_none
    by (cases "t = dateUTC y mo d h mi sc ms")
      (simp_all only: isoText_pattern simp_thms if_True de_Morgan_disj not_less not_le option.inject conj_ac, blast)
  show "timestampMilliseconds_ledger (isoText y mo d h mi sc @ [90]) = Some t \<longleftrightarrow> fieldsRead y mo d h mi sc 0 t"
    unfolding timestampMilliseconds_ledger_def Let_def isoText_slices v fieldsRead_def if_none short if_False
    by (cases "t = dateUTC y mo d h mi sc 0")
      (simp_all only: isoText_pattern simp_thms de_Morgan_disj not_less not_le option.inject conj_ac of_nat_0, blast)
qed

lemma year_range: "100 \<le> getUTCFullYear t \<and> getUTCFullYear t \<le> 9999 \<longleftrightarrow> - 59011459200000 \<le> t \<and> t \<le> 253402300799999"
proof -
  have "DayFromYear 100 = - 683003"
    by (simp add: DayFromYear_def)
  then have "100 \<le> getUTCFullYear t \<longleftrightarrow> - 683003 \<le> t div msPerDay"
    using YearFromDay_bounds [of "t div msPerDay"] DayFromYear_mono [of 100 "YearFromDay (t div msPerDay)"]
      DayFromYear_mono [of "YearFromDay (t div msPerDay) + 1" 100] unfolding getUTCFullYear_def by linarith
  moreover have "- 683003 \<le> t div msPerDay \<longleftrightarrow> - 59011459200000 \<le> t"
    unfolding msPerDay_def by linarith
  ultimately show ?thesis
    using YearFromDay_range [of t] unfolding getUTCFullYear_def by linarith
qed

lemma recent_year: "100 \<le> y" if "getUTCFullYear (dateUTC y mo d h mi sc ms) = int y" "1 \<le> d" "1 \<le> mo" "mo \<le> 12"
proof (rule ccontr)
  assume "\<not> 100 \<le> y"
  have positive: "0 \<le> daysBeforeMonth leap mo" for leap
    using that(3,4) by (auto simp: daysBeforeMonth_def nth_Cons' numeral_eq_Suc)
  from \<open>\<not> 100 \<le> y\<close> have "DayFromYear 1900 * msPerDay \<le> dateUTC y mo d h mi sc ms"
    using that(2) DayFromYear_mono [of 1900 "1900 + int y"] positive [of "InLeapYear (1900 + int y)"]
    by (simp add: dateUTC_def makeTime_def msPerDay_def)
  then have "YearFromDay (DayFromYear 1900) \<le> YearFromDay (dateUTC y mo d h mi sc ms div msPerDay)"
    by (intro YearFromDay_mono) (simp add: msPerDay_def)
  then show False
    using that(1) \<open>\<not> 100 \<le> y\<close> YearFromDay_bounds [of "DayFromYear 1900"] DayFromYear_mono [of "YearFromDay (DayFromYear 1900) + 1" 1900]
    unfolding getUTCFullYear_def by linarith
qed

lemma isoText_inj:
  assumes "isoText y mo d h mi sc @ r = isoText y' mo' d' h' mi' sc' @ r'" "y < 10000" "y' < 10000" "mo < 100" "mo' < 100"
    "d < 100" "d' < 100" "h < 100" "h' < 100" "mi < 100" "mi' < 100" "sc < 100" "sc' < 100"
  shows "y = y' \<and> mo = mo' \<and> d = d' \<and> h = h' \<and> mi = mi' \<and> sc = sc' \<and> r = r'"
proof -
  have "pad4 y = pad4 y'" "pad2 mo = pad2 mo'" "pad2 d = pad2 d'" "pad2 h = pad2 h'" "pad2 mi = pad2 mi'" "pad2 sc = pad2 sc'" "r = r'"
    using arg_cong [OF assms(1), of "take 4"] arg_cong [OF assms(1), of "\<lambda>u. take 2 (drop 5 u)"]
      arg_cong [OF assms(1), of "\<lambda>u. take 2 (drop 8 u)"] arg_cong [OF assms(1), of "\<lambda>u. take 2 (drop 11 u)"]
      arg_cong [OF assms(1), of "\<lambda>u. take 2 (drop 14 u)"] arg_cong [OF assms(1), of "\<lambda>u. take 2 (drop 17 u)"]
      arg_cong [OF assms(1), of "drop 19"]
    unfolding isoText_slices by simp_all
  then show ?thesis
    using assms digitsValue_pad by metis
qed

lemma pad3_inj: "pad3 a = pad3 b \<Longrightarrow> a < 1000 \<Longrightarrow> b < 1000 \<Longrightarrow> a = b"
  by (metis digitsValue_pad(2))

lemma recent_parts:
  assumes "- 59011459200000 \<le> t" "t \<le> 253402300799999"
  obtains mo d h mi sc ms where "1 \<le> mo" "mo \<le> 12" "1 \<le> d" "d \<le> 31" "h \<le> 23" "mi \<le> 59" "sc \<le> 59" "ms \<le> 999"
    "toISOString t = isoText (nat (getUTCFullYear t)) mo d h mi sc @ [46] @ pad3 ms @ [90]"
    "makeTime (getUTCFullYear t) mo (int d) (int h) (int mi) (int sc) (int ms) = t" "getUTCMonth t = mo" "getUTCDate t = int d"
    "int h = t mod msPerDay div 3600000" "int mi = t mod msPerDay div 60000 mod 60"
    "int sc = t mod msPerDay div 1000 mod 60" "int ms = t mod msPerDay mod 1000"
    "100 \<le> getUTCFullYear t" "nat (getUTCFullYear t) < 10000"
proof -
  have y: "100 \<le> getUTCFullYear t" "getUTCFullYear t \<le> 9999"
    using assms year_range [of t] by simp_all
  then have year: "0 \<le> YearFromDay (t div msPerDay)" "YearFromDay (t div msPerDay) \<le> 9999"
    by (simp_all add: getUTCFullYear_def)
  have nat_year: "nat (getUTCFullYear t) < 10000"
    using y by simp
  show ?thesis
  proof (rule spell_parts [OF year])
    fix mo d h mi sc ms
    assume p: "1 \<le> mo" "mo \<le> 12" "1 \<le> d" "d \<le> 31" "h \<le> 23" "mi \<le> 59" "sc \<le> 59" "ms \<le> 999"
      "toISOString t = isoText (nat (YearFromDay (t div msPerDay))) mo d h mi sc @ [46] @ pad3 ms @ [90]"
      "makeTime (YearFromDay (t div msPerDay)) mo (int d) (int h) (int mi) (int sc) (int ms) = t"
      and eqs: "mo = MonthFromDay (InLeapYear (YearFromDay (t div msPerDay))) (t div msPerDay - DayFromYear (YearFromDay (t div msPerDay)))"
      "int d = t div msPerDay - DayFromYear (YearFromDay (t div msPerDay)) -
         daysBeforeMonth (InLeapYear (YearFromDay (t div msPerDay))) mo + 1"
      and clock: "int h = t mod msPerDay div 3600000" "int mi = t mod msPerDay div 60000 mod 60"
      "int sc = t mod msPerDay div 1000 mod 60" "int ms = t mod msPerDay mod 1000"
    have month: "getUTCMonth t = mo"
      unfolding getUTCMonth_def Let_def getUTCFullYear_def by (rule eqs(1) [symmetric])
    have date: "getUTCDate t = int d"
      unfolding getUTCDate_def Let_def month unfolding getUTCFullYear_def by (rule eqs(2) [symmetric])
    show ?thesis
      by (rule that [OF p(1-8) p(9,10) [folded getUTCFullYear_def] month date clock y(1) nat_year])
  qed
qed

lemma fieldsRead_iff:
  assumes "y < 10000" "mo < 100" "d < 100" "h < 100" "mi < 100" "sc < 100" "ms < 1000"
  shows "fieldsRead y mo d h mi sc ms t \<longleftrightarrow>
    - 59011459200000 \<le> t \<and> t \<le> 253402300799999 \<and> toISOString t = isoText y mo d h mi sc @ [46] @ pad3 ms @ [90]"
proof
  assume f: "fieldsRead y mo d h mi sc ms t"
  have "100 \<le> y"
    by (rule recent_year [of y mo d h mi sc ms]) (use f in \<open>auto simp: fieldsRead_def\<close>)
  moreover have read: "getUTCFullYear t = int y"
    using f unfolding fieldsRead_def by blast
  ultimately have "- 59011459200000 \<le> t \<and> t \<le> 253402300799999"
    using assms(1) year_range [of t] by simp
  moreover have spelled: "toISOString t = isoText y mo d h mi sc @ [46] @ pad3 ms @ [90]"
  proof -
    have "isoYear (int y) = pad4 y"
      using assms(1) by (simp add: isoYear_def)
    moreover have "YearFromDay (t div msPerDay) = int y"
      using read by (simp add: getUTCFullYear_def)
    moreover have "MonthFromDay (InLeapYear (int y)) (t div msPerDay - DayFromYear (int y)) = mo"
      "t div msPerDay - DayFromYear (int y) - daysBeforeMonth (InLeapYear (int y)) mo + 1 = int d"
      "t mod msPerDay div 3600000 = int h" "t mod msPerDay div 60000 mod 60 = int mi" "t mod msPerDay div 1000 mod 60 = int sc"
      "t mod msPerDay mod 1000 = int ms"
      using f read unfolding fieldsRead_def getUTCDate_def getUTCMonth_def Let_def by (elim conjE; simp only:)+
    ultimately show ?thesis
      unfolding toISOString_def Let_def isoText_def by (simp only: nat_int append.assoc append_Cons append_Nil)
  qed
  ultimately show "- 59011459200000 \<le> t \<and> t \<le> 253402300799999 \<and> toISOString t = isoText y mo d h mi sc @ [46] @ pad3 ms @ [90]"
    using spelled by simp
next
  assume t: "- 59011459200000 \<le> t \<and> t \<le> 253402300799999 \<and> toISOString t = isoText y mo d h mi sc @ [46] @ pad3 ms @ [90]"
  from t have "- 59011459200000 \<le> t" "t \<le> 253402300799999"
    by simp_all
  then show "fieldsRead y mo d h mi sc ms t"
  proof (rule recent_parts)
    fix mo' d' h' mi' sc' ms'
    assume p: "1 \<le> mo'" "mo' \<le> 12" "1 \<le> d'" "d' \<le> 31" "h' \<le> 23" "mi' \<le> 59" "sc' \<le> 59" "ms' \<le> 999"
      "toISOString t = isoText (nat (getUTCFullYear t)) mo' d' h' mi' sc' @ [46] @ pad3 ms' @ [90]"
      "makeTime (getUTCFullYear t) mo' (int d') (int h') (int mi') (int sc') (int ms') = t" "getUTCMonth t = mo'" "getUTCDate t = int d'"
      "int h' = t mod msPerDay div 3600000" "int mi' = t mod msPerDay div 60000 mod 60"
      "int sc' = t mod msPerDay div 1000 mod 60" "int ms' = t mod msPerDay mod 1000"
      "100 \<le> getUTCFullYear t" "nat (getUTCFullYear t) < 10000"
    have "isoText y mo d h mi sc @ [46] @ pad3 ms @ [90] = isoText (nat (getUTCFullYear t)) mo' d' h' mi' sc' @ [46] @ pad3 ms' @ [90]"
      using t p(9) by simp
    then have same: "y = nat (getUTCFullYear t) \<and> mo = mo' \<and> d = d' \<and> h = h' \<and> mi = mi' \<and> sc = sc' \<and>
        [46] @ pad3 ms @ [90] = [46] @ pad3 ms' @ [90]"
      by (rule isoText_inj) (use assms p(1-8) p(18) in simp_all)
    then have "pad3 ms = pad3 ms'"
      by simp
    then have "ms = ms'"
      by (rule pad3_inj) (use assms(7) p(8) in simp_all)
    with same have eqs: "mo = mo'" "d = d'" "h = h'" "mi = mi'" "sc = sc'" "ms = ms'"
      by simp_all
    have y: "getUTCFullYear t = int y"
      using same p(17) by simp
    have time: "t = dateUTC y mo d h mi sc ms"
      using p(10,17) unfolding dateUTC_def eqs y by simp
    show ?thesis
      unfolding fieldsRead_def time [symmetric]
      unfolding eqs by (intro conjI; rule p(1-7) y p(11,12) p(13-16) [symmetric] refl)
  qed
qed

lemma dateParse_toISOString:
  assumes "- 59011459200000 \<le> t" "t \<le> 253402300799999"
  shows "dateParse (toISOString t) = Some t"
proof -
  obtain mo d h mi sc ms where p: "1 \<le> mo" "mo \<le> 12" "1 \<le> d" "d \<le> 31" "h \<le> 23" "mi \<le> 59" "sc \<le> 59" "ms \<le> 999"
    "toISOString t = isoText (nat (getUTCFullYear t)) mo d h mi sc @ [46] @ pad3 ms @ [90]"
    "makeTime (getUTCFullYear t) mo (int d) (int h) (int mi) (int sc) (int ms) = t" "100 \<le> getUTCFullYear t"
    "nat (getUTCFullYear t) < 10000"
    using assms by (rule recent_parts)
  then show ?thesis
    using dateParse_isoText(2) [of "nat (getUTCFullYear t)" mo d h mi sc ms] by simp
qed

lemma length_toISOString:
  assumes "- 59011459200000 \<le> t" "t \<le> 253402300799999"
  shows "length (toISOString t) = 24"
proof -
  obtain mo d h mi sc ms where "toISOString t = isoText (nat (getUTCFullYear t)) mo d h mi sc @ [46] @ pad3 ms @ [90]"
    using assms by (rule recent_parts)
  then show ?thesis
    by (simp add: isoText_slices pad_digits)
qed

lemma timestamp_ledger_exact:
  "timestampMilliseconds_ledger s = Some t \<longleftrightarrow>
     - 59011459200000 \<le> t \<and> t \<le> 253402300799999 \<and> s \<in> {toISOString t, spellInstant t}"
proof
  assume r: "timestampMilliseconds_ledger s = Some t"
  then have "TIMESTAMP_PATTERN s"
    by (simp add: timestampMilliseconds_ledger_def split: if_splits)
  then obtain y mo d h mi sc ms where p: "y < 10000" "mo < 100" "d < 100" "h < 100" "mi < 100" "sc < 100" "ms < 1000"
    "s = isoText y mo d h mi sc @ [46] @ pad3 ms @ [90] \<or> s = isoText y mo d h mi sc @ [90] \<and> ms = 0"
    by (rule pattern_parts)
  then have "fieldsRead y mo d h mi sc ms t"
    using r ledger_form [of y mo d h mi sc ms t] by (elim disjE) simp_all
  then have t: "- 59011459200000 \<le> t \<and> t \<le> 253402300799999 \<and> toISOString t = isoText y mo d h mi sc @ [46] @ pad3 ms @ [90]"
    using p fieldsRead_iff by blast
  then have "spellInstant t = isoText y mo d h mi sc @ [90]" if "ms = 0"
    using that canonicalIso_isoText [of ms y mo d h mi sc] by (simp add: spellInstant_def)
  with t p(8) show "- 59011459200000 \<le> t \<and> t \<le> 253402300799999 \<and> s \<in> {toISOString t, spellInstant t}"
    by auto
next
  assume t: "- 59011459200000 \<le> t \<and> t \<le> 253402300799999 \<and> s \<in> {toISOString t, spellInstant t}"
  then have range: "- 59011459200000 \<le> t" "t \<le> 253402300799999"
    by simp_all
  obtain mo d h mi sc ms where p: "mo \<le> 12" "d \<le> 31" "h \<le> 23" "mi \<le> 59" "sc \<le> 59" "ms \<le> 999"
    "toISOString t = isoText (nat (getUTCFullYear t)) mo d h mi sc @ [46] @ pad3 ms @ [90]"
    using range by (rule recent_parts)
  moreover have y: "nat (getUTCFullYear t) < 10000"
    using t year_range [of t] by linarith
  ultimately have f: "fieldsRead (nat (getUTCFullYear t)) mo d h mi sc ms t"
    using t fieldsRead_iff [of "nat (getUTCFullYear t)" mo d h mi sc ms t] by simp
  have "s = isoText (nat (getUTCFullYear t)) mo d h mi sc @ [46] @ pad3 ms @ [90] \<or>
      s = isoText (nat (getUTCFullYear t)) mo d h mi sc @ [90] \<and> ms = 0"
    using t p(6,7) canonicalIso_isoText [of ms] by (auto simp: spellInstant_def split: if_splits)
  then show "timestampMilliseconds_ledger s = Some t"
    using f p y ledger_form [of "nat (getUTCFullYear t)" mo d h mi sc ms t] by (elim disjE) simp_all
qed

lemma spell_ledger:
  "- 59011459200000 \<le> t \<Longrightarrow> t \<le> 253402300799999 \<Longrightarrow> timestampMilliseconds_ledger (spellInstant t) = Some t"
  "- 59011459200000 \<le> t \<Longrightarrow> t \<le> 253402300799999 \<Longrightarrow> timestampMilliseconds_ledger (toISOString t) = Some t"
  by (simp_all add: timestamp_ledger_exact)

text \<open>A timestamp of the contracts is one of the ledger exactly when it lies in the year 100 or later, and then both read the
  same instant.\<close>

lemma contract_stamp_ledger:
  assumes "wf_timestamp s"
  shows "ledger_stamp s \<longleftrightarrow> - 59011459200000 \<le> timestampMilliseconds s"
    "ledger_stamp s \<Longrightarrow> ledgerTime s = timestampMilliseconds s"
proof -
  obtain ms where ms: "- 62167219200000 \<le> ms" "ms \<le> 253402300799999" "s = spellInstant ms"
    using assms by (auto simp: wf_timestamp_iff)
  then have read: "timestampMilliseconds s = ms" "dateParse s = Some ms"
    by (simp_all add: spellInstant_facts)
  show "ledger_stamp s \<longleftrightarrow> - 59011459200000 \<le> timestampMilliseconds s"
  proof
    assume "ledger_stamp s"
    then obtain t where t: "timestampMilliseconds_ledger s = Some t"
      by (auto simp: ledger_stamp_def)
    then have b: "- 59011459200000 \<le> t" "t \<le> 253402300799999" "s = toISOString t \<or> s = spellInstant t"
      by (auto simp: timestamp_ledger_exact)
    have "dateParse (toISOString t) = Some t"
      using b(1,2) by (intro dateParse_toISOString) simp_all
    with b read show "- 59011459200000 \<le> timestampMilliseconds s"
      using spellInstant_facts(2) [of t] by auto
  qed (use ms spell_ledger in \<open>simp add: read ledger_stamp_def\<close>)
  then show "ledgerTime s = timestampMilliseconds s" if "ledger_stamp s"
    using that ms spell_ledger(1) [of ms] by (simp add: read ledgerTime_def)
qed

end
