(* ===== verification/Kernel_Transitions.thy ===== *)
theory Kernel_Transitions
  imports Kernel_State
begin

text \<open>
  The pure transitions of the Safe Coding kernel (\<open>clodex-kernel/src/transitions.ts\<close>): activation and
  revocation of a contract, registration of a ticket against the lineage budget, the one-shot
  commit permit, failure before commit, and settlement. A transition returns the next state or
  throws; \<open>commitPermitTransition\<close> also returns a state with its denials, since an expired or stale
  ticket is consumed. The functions of \<open>@clodex/contracts\<close> it calls are those of the contract theories.
\<close>

section \<open>Helpers\<close>

abbreviation kError :: "error_code \<Rightarrow> string \<Rightarrow> kernel_error" where
  "kError code message \<equiv> kernelError code (js message)"

definition asKernelError :: "kernel_error \<Rightarrow> error_code \<Rightarrow> kernel_error" where
  "asKernelError error fallbackCode =
     (case error of SafeCodingKernelError _ _ \<Rightarrow> error | OtherError message \<Rightarrow> kernelError fallbackCode message)"

definition contractsCall :: "contract_error + 'a \<Rightarrow> kernel_error + 'a" where
  "contractsCall m = catchE m (\<lambda>e. OtherError (error_message e))"

definition timestampMilliseconds_kernel :: "jstr \<Rightarrow> string \<Rightarrow> error_code \<Rightarrow> kernel_error + int" where
  "timestampMilliseconds_kernel value label code =
     bindE (guardE (TIMESTAMP_PATTERN value)
       (kError code (label @ '' must be a canonical UTC timestamp''))) (\<lambda>_.
     (case dateParse value of
        None \<Rightarrow> Inl (kError code (label @ '' must be a real timestamp''))
      | Some milliseconds \<Rightarrow>
          bindE (guardE (canonicalIso (toISOString milliseconds) = value)
            (kError code (label @ '' must be a canonical UTC timestamp''))) (\<lambda>_. Inr milliseconds)))"

definition safeIncrement :: "int \<Rightarrow> error_code \<Rightarrow> string \<Rightarrow> kernel_error + int" where
  "safeIncrement value code message =
     bindE (guardE (\<not> (\<not> safe_int value \<or> value < 0 \<or> value = MAX_SAFE_INTEGER)) (kError code message)) (\<lambda>_.
     Inr (value + 1))"

definition safeAddBudget :: "int \<Rightarrow> jnum \<Rightarrow> string \<Rightarrow> kernel_error + int" where
  "safeAddBudget left right message =
     (let result = left + numInt right in
      bindE (guardE (\<not> (\<not> safe_int left \<or> left < 0 \<or> \<not> safe_int result)) (kError BudgetExhausted message)) (\<lambda>_.
      Inr result))"

definition assertNotBefore :: "int \<Rightarrow> int \<Rightarrow> error_code \<Rightarrow> string \<Rightarrow> kernel_error + unit" where
  "assertNotBefore value lowerBound code message = guardE (\<not> value < lowerBound) (kError code message)"

definition optionalDigest :: "jstr option \<Rightarrow> string \<Rightarrow> kernel_error + jstr option" where
  "optionalDigest value label =
     (case value of
        None \<Rightarrow> Inr None
      | Some digest \<Rightarrow>
          bindE (guardE (SHA256_PATTERN digest)
            (kError TicketInvalid (label @ '' must be a lowercase SHA-256 digest''))) (\<lambda>_. Inr (Some digest)))"

definition optionalReason ::
  "(jstr \<Rightarrow> jstr) \<Rightarrow> jsval \<Rightarrow> jstr option \<Rightarrow> error_code \<Rightarrow> kernel_error + jstr option" where
  "optionalReason nfc value fallback code =
     (if value = JUndefined \<or> value = JNull then Inr fallback
      else case value of
        JStr reason \<Rightarrow>
          bindE (guardE (\<not> (length reason = 0 \<or> length reason > 4096))
            (kError code ''Transition reason must be a non-empty bounded string'')) (\<lambda>_.
          bindE (catchE (canonicalizeJson nfc value)
            (\<lambda>_. kError code ''Transition reason must be a canonical JSON string'')) (\<lambda>_.
          Inr (Some reason)))
      | _ \<Rightarrow> Inl (kError code ''Transition reason must be a non-empty bounded string''))"

definition settlementStatus :: "jsval \<Rightarrow> ticket_status option" where
  "settlementStatus value =
     (if value = JStr (js ''failed-no-effect'') then Some FailedNoEffect
      else if value = JStr (js ''committed'') then Some Committed
      else if value = JStr (js ''result-unavailable'') then Some ResultUnavailable
      else if value = JStr (js ''uncertain'') then Some Uncertain
      else None)"

definition validateVerifiedContract ::
  "(jstr \<Rightarrow> jstr) \<Rightarrow> activate_input \<Rightarrow> kernel_error + intent_contract \<times> jstr" where
  "validateVerifiedContract nfc input =
     catchE
       (bindE (contractsCall (validateSafeCodingIntentContract nfc (ai_contract input))) (\<lambda>contract.
        bindE (contractsCall (canonicalizeJson nfc (contract_json contract))) (\<lambda>canonicalPayload.
        bindE (guardE (canonicalPayload = ai_canonicalPayload input)
          (kError ContractInvalid ''Verified contract canonical bytes do not match its contract value'')) (\<lambda>_.
        bindE (guardE (SHA256_PATTERN (ai_contractHash input))
          (kError ContractInvalid ''Verified contract hash must be a lowercase SHA-256 digest'')) (\<lambda>_.
        Inr (contract, ai_contractHash input))))))
       (\<lambda>error. asKernelError error ContractInvalid)"

definition validatedTicket :: "(jstr \<Rightarrow> jstr) \<Rightarrow> jsval \<Rightarrow> kernel_error + execution_ticket" where
  "validatedTicket nfc value =
     catchE (contractsCall (validateSafeCodingExecutionTicket nfc value))
       (\<lambda>error. asKernelError error TicketInvalid)"

text \<open>The loop runs from the last revision down.\<close>

definition currentRevision :: "contract_lineage \<Rightarrow> kernel_error + revision_record" where
  "currentRevision lineage =
     (case List.find (\<lambda>revision. rr_contractHash revision = cl_currentContractHash lineage)
         (rev (cl_revisions lineage)) of
        Some revision \<Rightarrow> Inr revision
      | None \<Rightarrow> Inl (kernelError ContractNotFound
          (js ''Contract lineage '' @ cl_contractId lineage @ js '' has no current revision record'')))"

definition assertCasMatches ::
  "contract_lineage \<Rightarrow> revision_record \<Rightarrow> cas_expectation \<Rightarrow> kernel_error + unit" where
  "assertCasMatches lineage current expected =
     guardE (\<not> (ce_contractHash expected \<noteq> rr_contractHash current \<or>
                ce_revision expected \<noteq> rr_revision current \<or>
                ce_revocationEpoch expected \<noteq> cl_revocationEpoch lineage))
       (kError ContractCasMismatch ''Contract state changed since the supplied CAS expectation'')"

definition assertActiveSnapshotMatches ::
  "contract_lineage \<Rightarrow> revision_record \<Rightarrow> active_snapshot \<Rightarrow> kernel_error + unit" where
  "assertActiveSnapshotMatches lineage current expected =
     guardE (\<not> (as_contractId expected \<noteq> cl_contractId lineage \<or>
                as_contractHash expected \<noteq> rr_contractHash current \<or>
                as_revision expected \<noteq> rr_revision current \<or>
                as_revocationEpoch expected \<noteq> cl_revocationEpoch lineage \<or>
                as_status expected \<noteq> rr_status current \<or> as_status expected \<noteq> Active))
       (kError ContractCasMismatch ''Active contract state changed before ticket registration'')"

definition assertContractUsableAt :: "intent_contract \<Rightarrow> int \<Rightarrow> kernel_error + unit" where
  "assertContractUsableAt contract nowMs =
     bindE (timestampMilliseconds_kernel (vld_notBefore (ic_validity contract)) ''Contract notBefore''
       ContractInvalid) (\<lambda>notBeforeMs.
     bindE (timestampMilliseconds_kernel (vld_expiresAt (ic_validity contract)) ''Contract expiresAt''
       ContractInvalid) (\<lambda>expiresAtMs.
     guardE (\<not> (nowMs < notBeforeMs \<or> nowMs \<ge> expiresAtMs))
       (kError ContractNotActive ''Contract is outside its authorized validity interval'')))"

text \<open>The disjuncts of the source are tested in order, and only the serializations may throw.\<close>

definition assertTicketBindsContract ::
  "(jstr \<Rightarrow> jstr) \<Rightarrow> execution_ticket \<Rightarrow> revision_record \<Rightarrow> int \<Rightarrow> kernel_error + unit" where
  "assertTicketBindsContract nfc ticket current revocationEpoch =
     (let contract = rr_contract current; bindings = ic_bindings contract;
          stale = kError TicketStale ''Execution ticket is not bound to the exact active contract authority''
      in
      bindE (guardE (\<not> (et_contractHash ticket \<noteq> rr_contractHash current \<or>
         et_contractRevision ticket \<noteq> rr_revision current \<or>
         et_revocationEpoch ticket \<noteq> revocationEpoch)) stale) (\<lambda>_.
      bindE (contractsCall (canonicalizeJson nfc (subject_json (et_subject ticket)))) (\<lambda>ticketSubject.
      bindE (contractsCall (canonicalizeJson nfc (subject_json (ic_subject contract)))) (\<lambda>contractSubject.
      bindE (guardE (\<not> ticketSubject \<noteq> contractSubject) stale) (\<lambda>_.
      bindE (contractsCall (canonicalizeJson nfc (audience_json (et_audience ticket)))) (\<lambda>ticketAudience.
      bindE (contractsCall (canonicalizeJson nfc (audience_json (ic_audience contract)))) (\<lambda>contractAudience.
      guardE (\<not> (ticketAudience \<noteq> contractAudience \<or>
         et_policyDigest ticket \<noteq> bnd_policyDigest bindings \<or>
         et_registryDigest ticket \<noteq> bnd_adapterRegistryDigest bindings \<or>
         et_runnerRegistryDigest ticket \<noteq> bnd_runnerRegistryDigest bindings \<or>
         et_effectRegistryDigest ticket \<noteq> bnd_effectRegistryDigest bindings \<or>
         \<not> et_effectClass ticket \<in> set (au_allowedEffectClasses (ic_authority contract)))) stale)))))))"

definition assertTicketTimeWindow :: "execution_ticket \<Rightarrow> intent_contract \<Rightarrow> int \<Rightarrow> kernel_error + unit" where
  "assertTicketTimeWindow ticket contract nowMs =
     bindE (timestampMilliseconds_kernel (et_issuedAt ticket) ''Ticket issuedAt'' TicketInvalid) (\<lambda>issuedAtMs.
     bindE (timestampMilliseconds_kernel (et_expiresAt ticket) ''Ticket expiresAt'' TicketInvalid) (\<lambda>expiresAtMs.
     bindE (timestampMilliseconds_kernel (vld_notBefore (ic_validity contract)) ''Contract notBefore''
       ContractInvalid) (\<lambda>contractNotBeforeMs.
     bindE (timestampMilliseconds_kernel (vld_expiresAt (ic_validity contract)) ''Contract expiresAt''
       ContractInvalid) (\<lambda>contractExpiresAtMs.
     bindE (guardE (\<not> (issuedAtMs < contractNotBeforeMs \<or> issuedAtMs > nowMs \<or> expiresAtMs > contractExpiresAtMs))
       (kError TicketInvalid ''Execution ticket lies outside the active contract time window'')) (\<lambda>_.
     guardE (\<not> nowMs \<ge> expiresAtMs)
       (kError TicketExpired ''Execution ticket expired before it could be registered''))))))"

definition assertLimitsMatch :: "authority_limits option \<Rightarrow> authority_limits \<Rightarrow> kernel_error + unit" where
  "assertLimitsMatch supplied authoritative =
     guardE (case supplied of None \<Rightarrow> False
       | Some limits \<Rightarrow>
           \<not> (lim_maxUniqueModifiedFiles limits \<noteq> lim_maxUniqueModifiedFiles authoritative \<or>
              lim_maxMutationBytes limits \<noteq> lim_maxMutationBytes authoritative \<or>
              lim_maxTestRuns limits \<noteq> lim_maxTestRuns authoritative))
       (kError ContractCasMismatch ''Ticket registration limits do not match the active contract'')"

definition validatedCharge :: "kernel_charge option \<Rightarrow> kernel_error + kernel_charge" where
  "validatedCharge value =
     (let invalid = kError TicketInvalid
        ''Ticket budget charge must contain non-negative safe integers and at most one resolved object''
      in case value of
        None \<Rightarrow> Inl invalid
      | Some requested \<Rightarrow>
          bindE (guardE (\<not> (\<not> isSafeInteger (kc_uniqueModifiedFiles requested) \<or>
            (numInt (kc_uniqueModifiedFiles requested) \<noteq> 0 \<and> numInt (kc_uniqueModifiedFiles requested) \<noteq> 1) \<or>
            \<not> isSafeInteger (kc_mutationBytes requested) \<or> numInt (kc_mutationBytes requested) < 0 \<or>
            \<not> isSafeInteger (kc_testRuns requested) \<or> numInt (kc_testRuns requested) < 0)) invalid) (\<lambda>_.
          Inr \<lparr>kc_uniqueModifiedFiles = kc_uniqueModifiedFiles requested,
               kc_mutationBytes = kc_mutationBytes requested, kc_testRuns = kc_testRuns requested\<rparr>))"

definition ticketMatchesActiveLineage ::
  "execution_ticket \<Rightarrow> contract_lineage \<Rightarrow> int \<Rightarrow> kernel_error + bool" where
  "ticketMatchesActiveLineage ticket lineage nowMs =
     (case currentRevision lineage of
        Inl _ \<Rightarrow> Inr False
      | Inr current \<Rightarrow>
          if rr_status current \<noteq> Active \<or> et_contractHash ticket \<noteq> rr_contractHash current \<or>
             et_contractRevision ticket \<noteq> rr_revision current \<or>
             et_revocationEpoch ticket \<noteq> cl_revocationEpoch lineage
          then Inr False
          else
            bindE (timestampMilliseconds_kernel (vld_notBefore (ic_validity (rr_contract current)))
              ''Contract notBefore'' ContractInvalid) (\<lambda>notBeforeMs.
            bindE (timestampMilliseconds_kernel (vld_expiresAt (ic_validity (rr_contract current)))
              ''Contract expiresAt'' ContractInvalid) (\<lambda>expiresAtMs.
            Inr (nowMs \<ge> notBeforeMs \<and> nowMs < expiresAtMs))))"

definition failedRecord :: "ticket_record \<Rightarrow> jstr \<Rightarrow> jstr \<Rightarrow> ticket_record" where
  "failedRecord record now reason =
     record\<lparr>tr_status := FailedNoEffect, tr_terminalAt := Some now, tr_terminalReason := Some reason,
       tr_resultHash := None\<rparr>"

definition failRegisteredTickets ::
  "ticket_record jsobj \<Rightarrow> jstr \<Rightarrow> jstr \<Rightarrow> jstr \<Rightarrow> ticket_record jsobj" where
  "failRegisteredTickets tickets contractId now reason =
     map (\<lambda>(ticketId, record).
       (ticketId, if tr_contractId record = contractId \<and> tr_status record = Registered
                  then failedRecord record now reason else record)) tickets"

definition sameTicket :: "(jstr \<Rightarrow> jstr) \<Rightarrow> execution_ticket \<Rightarrow> execution_ticket \<Rightarrow> bool" where
  "sameTicket nfc stored supplied =
     (case bindE (canonicalizeJson nfc (ticket_json stored)) (\<lambda>a.
           bindE (canonicalizeJson nfc (ticket_json supplied)) (\<lambda>b. Inr (a = b))) of
        Inl _ \<Rightarrow> False | Inr same \<Rightarrow> same)"

section \<open>Contract transitions\<close>

definition endRevision :: "revision_record \<Rightarrow> contract_status \<Rightarrow> jstr \<Rightarrow> jstr \<Rightarrow> revision_record" where
  "endRevision revision status now reason =
     revision\<lparr>rr_status := status, rr_endedAt := Some now, rr_endReason := Some reason\<rparr>"

definition activateContractTransition ::
  "(jstr \<Rightarrow> jstr) \<Rightarrow> kernel_state \<Rightarrow> activate_input \<Rightarrow> kernel_error + kernel_state" where
  "activateContractTransition nfc state input =
     bindE (timestampMilliseconds_kernel (ai_now input) ''Contract activation time'' ContractInvalid) (\<lambda>nowMs.
     bindE (validateVerifiedContract nfc input) (\<lambda>(contract, contractHash).
     let contractId = ic_contractId contract; existing = ownValue (ks_lineages state) contractId in
     if ic_revision contract = 1 then
       bindE (guardE (ai_expectedPrevious input = None)
         (kError ContractCasMismatch ''Revision 1 activation must not provide a previous-state expectation'')) (\<lambda>_.
       bindE (guardE (existing = None)
         (kernelError ContractAlreadyExists (js ''Contract lineage '' @ contractId @ js '' already exists''))) (\<lambda>_.
       bindE (guardE (ic_previousRevisionHash contract = None)
         (kError ContractInvalid ''Revision 1 must not bind a previous revision hash'')) (\<lambda>_.
       let revision =
             \<lparr>rr_contract = contract, rr_contractHash = contractHash, rr_revision = ic_revision contract,
              rr_previousRevisionHash = None, rr_status = Active, rr_revocationEpoch = 0,
              rr_activatedAt = ai_now input, rr_endedAt = None, rr_endReason = None\<rparr>;
           lineage =
             \<lparr>cl_contractId = contractId, cl_currentContractHash = contractHash, cl_revocationEpoch = 0,
              cl_revisions = [revision],
              cl_budget = \<lparr>bu_modifiedObjectIds = [], bu_mutationBytes = 0, bu_testRuns = 0\<rparr>\<rparr>
       in Inr (state\<lparr>ks_lineages := setOwn (ks_lineages state) contractId lineage\<rparr>))))
     else
       (case existing of
          None \<Rightarrow> Inl (kernelError ContractNotFound
            (js ''Contract lineage '' @ contractId @ js '' does not exist''))
        | Some lineage \<Rightarrow>
            bindE (currentRevision lineage) (\<lambda>current.
            bindE (guardE (rr_status current \<noteq> Revoked)
              (kernelError ContractRevoked (js ''Contract lineage '' @ contractId @
                js '' has been revoked and cannot be reactivated''))) (\<lambda>_.
            bindE (guardE (rr_status current = Active)
              (kernelError ContractNotActive (js ''Contract lineage '' @ contractId @
                js '' has no active current revision''))) (\<lambda>_.
            (case ai_expectedPrevious input of
               None \<Rightarrow> Inl (kError ContractCasMismatch
                 ''A later contract revision requires an exact previous-state expectation'')
             | Some expectedPrevious \<Rightarrow>
                 bindE (assertCasMatches lineage current expectedPrevious) (\<lambda>_.
                 bindE (guardE (\<not> (ic_revision contract \<noteq> rr_revision current + 1 \<or>
                     ic_previousRevisionHash contract \<noteq> Some (rr_contractHash current)))
                   (kError ContractCasMismatch ''Contract revision does not extend the exact active revision'')) (\<lambda>_.
                 bindE (guardE (contractHash \<noteq> rr_contractHash current)
                   (kError ContractInvalid ''A new revision cannot reuse the current contract hash'')) (\<lambda>_.
                 bindE (timestampMilliseconds_kernel (rr_activatedAt current)
                   ''Current revision activation time'' ContractInvalid) (\<lambda>activatedAtMs.
                 bindE (assertNotBefore nowMs activatedAtMs ContractCasMismatch
                   ''A contract revision cannot be activated before its predecessor'') (\<lambda>_.
                 bindE (safeIncrement (cl_revocationEpoch lineage) ContractCasMismatch
                   ''Contract revocation epoch cannot be incremented safely'') (\<lambda>nextEpoch.
                 let supersedeReason = js ''Superseded by contract revision '' @ decInt (ic_revision contract);
                     revisions = map (\<lambda>revision.
                       if rr_contractHash revision = rr_contractHash current
                       then endRevision revision Superseded (ai_now input) supersedeReason
                       else revision) (cl_revisions lineage);
                     nextRevision =
                       \<lparr>rr_contract = contract, rr_contractHash = contractHash, rr_revision = ic_revision contract,
                        rr_previousRevisionHash = ic_previousRevisionHash contract, rr_status = Active,
                        rr_revocationEpoch = nextEpoch, rr_activatedAt = ai_now input, rr_endedAt = None,
                        rr_endReason = None\<rparr>;
                     nextLineage = lineage\<lparr>cl_currentContractHash := contractHash,
                       cl_revocationEpoch := nextEpoch, cl_revisions := revisions @ [nextRevision]\<rparr>
                 in Inr (state\<lparr>ks_lineages := setOwn (ks_lineages state) contractId nextLineage,
                      ks_tickets := failRegisteredTickets (ks_tickets state) contractId (ai_now input)
                        supersedeReason\<rparr>))))))))))))))"

definition revokeContractTransition ::
  "(jstr \<Rightarrow> jstr) \<Rightarrow> kernel_state \<Rightarrow> revoke_input \<Rightarrow> kernel_error + kernel_state" where
  "revokeContractTransition nfc state input =
     bindE (timestampMilliseconds_kernel (ri_now input) ''Contract revocation time'' ContractInvalid) (\<lambda>nowMs.
     case ownValue (ks_lineages state) (ri_contractId input) of
       None \<Rightarrow> Inl (kernelError ContractNotFound
         (js ''Contract lineage '' @ ri_contractId input @ js '' does not exist''))
     | Some lineage \<Rightarrow>
         bindE (currentRevision lineage) (\<lambda>current.
         bindE (guardE (rr_status current \<noteq> Revoked)
           (kernelError ContractRevoked (js ''Contract lineage '' @ ri_contractId input @
             js '' is already revoked''))) (\<lambda>_.
         bindE (guardE (rr_status current = Active)
           (kernelError ContractNotActive (js ''Contract lineage '' @ ri_contractId input @
             js '' has no active current revision''))) (\<lambda>_.
         bindE (assertCasMatches lineage current (ri_expectedActive input)) (\<lambda>_.
         bindE (timestampMilliseconds_kernel (rr_activatedAt current)
           ''Current revision activation time'' ContractInvalid) (\<lambda>activatedAtMs.
         bindE (assertNotBefore nowMs activatedAtMs ContractCasMismatch
           ''A contract cannot be revoked before it was activated'') (\<lambda>_.
         bindE (optionalReason nfc (ri_reason input) (Some (js ''Contract revoked'')) ContractInvalid) (\<lambda>given.
         bindE (safeIncrement (cl_revocationEpoch lineage) ContractCasMismatch
           ''Contract revocation epoch cannot be incremented safely'') (\<lambda>nextEpoch.
         let reason = (case given of Some r \<Rightarrow> r | None \<Rightarrow> js ''Contract revoked'');
             revisions = map (\<lambda>revision.
               if rr_contractHash revision = rr_contractHash current
               then (endRevision revision Revoked (ri_now input) reason)\<lparr>rr_revocationEpoch := nextEpoch\<rparr>
               else revision) (cl_revisions lineage)
         in Inr (state\<lparr>ks_lineages := setOwn (ks_lineages state) (ri_contractId input)
                (lineage\<lparr>cl_revocationEpoch := nextEpoch, cl_revisions := revisions\<rparr>),
              ks_tickets := failRegisteredTickets (ks_tickets state) (ri_contractId input) (ri_now input)
                reason\<rparr>))))))))))"

section \<open>Ticket transitions\<close>

definition registerTicketTransition ::
  "(jstr \<Rightarrow> jstr) \<Rightarrow> kernel_state \<Rightarrow> register_input \<Rightarrow> kernel_error + kernel_state" where
  "registerTicketTransition nfc state input =
     bindE (timestampMilliseconds_kernel (gi_now input) ''Ticket registration time'' TicketInvalid) (\<lambda>nowMs.
     bindE (validatedTicket nfc (gi_ticket input)) (\<lambda>ticket.
     let expected = gi_expectedActive input; contractId = as_contractId expected in
     case ownValue (ks_lineages state) contractId of
       None \<Rightarrow> Inl (kernelError ContractNotFound
         (js ''Contract lineage '' @ contractId @ js '' does not exist''))
     | Some lineage \<Rightarrow>
         bindE (currentRevision lineage) (\<lambda>current.
         bindE (guardE (rr_status current \<noteq> Revoked)
           (kernelError ContractRevoked (js ''Contract lineage '' @ contractId @ js '' is revoked''))) (\<lambda>_.
         bindE (guardE (rr_status current = Active)
           (kernelError ContractNotActive (js ''Contract lineage '' @ contractId @ js '' is not active''))) (\<lambda>_.
         bindE (assertActiveSnapshotMatches lineage current expected) (\<lambda>_.
         bindE (assertContractUsableAt (rr_contract current) nowMs) (\<lambda>_.
         bindE (assertTicketBindsContract nfc ticket current (cl_revocationEpoch lineage)) (\<lambda>_.
         bindE (assertTicketTimeWindow ticket (rr_contract current) nowMs) (\<lambda>_.
         bindE (assertLimitsMatch (gi_limits input) (au_limits (ic_authority (rr_contract current)))) (\<lambda>_.
         bindE (validatedCharge (gi_charge input)) (\<lambda>requested.
         bindE (guardE (\<not> hasOwn (ks_tickets state) (et_ticketId ticket))
           (kernelError TicketReplay (js ''Execution ticket '' @ et_ticketId ticket @
             js '' has already been registered''))) (\<lambda>_.
         bindE (guardE (\<not> hasOwn (ks_requestIds state) (et_requestId ticket))
           (kernelError RequestReplay (js ''Request '' @ et_requestId ticket @
             js '' has already consumed a ticket''))) (\<lambda>_.
         bindE (guardE (\<not> hasOwn (ks_reservationIds state) (et_budgetReservationId ticket))
           (kernelError ReservationReplay (js ''Budget reservation '' @ et_budgetReservationId ticket @
             js '' has already been consumed''))) (\<lambda>_.
         let budget = cl_budget lineage;
             objectAlreadyCharged = et_resolvedObjectId ticket \<in> set (bu_modifiedObjectIds budget);
             reservesObject = (numInt (kc_uniqueModifiedFiles requested) = 1);
             uniqueModifiedFiles = (if reservesObject \<and> \<not> objectAlreadyCharged then 1 else 0);
             modifiedObjectIds =
               (if uniqueModifiedFiles = (1::int) then bu_modifiedObjectIds budget @ [et_resolvedObjectId ticket]
                else bu_modifiedObjectIds budget)
         in
         bindE (safeAddBudget (bu_mutationBytes budget) (kc_mutationBytes requested)
           ''Mutation byte budget exceeds the safe integer range'') (\<lambda>mutationBytes.
         bindE (safeAddBudget (bu_testRuns budget) (kc_testRuns requested)
           ''Test-run budget exceeds the safe integer range'') (\<lambda>testRuns.
         let nextBudget = \<lparr>bu_modifiedObjectIds = modifiedObjectIds, bu_mutationBytes = mutationBytes,
               bu_testRuns = testRuns\<rparr>;
             limits = au_limits (ic_authority (rr_contract current))
         in
         bindE (guardE (\<not> (int (length modifiedObjectIds) > lim_maxUniqueModifiedFiles limits \<or>
             mutationBytes > lim_maxMutationBytes limits \<or> testRuns > lim_maxTestRuns limits))
           (kError BudgetExhausted ''Execution ticket would exceed the contract lineage budget'')) (\<lambda>_.
         let reservedCharge = \<lparr>kc_uniqueModifiedFiles = JInt uniqueModifiedFiles,
               kc_mutationBytes = kc_mutationBytes requested, kc_testRuns = kc_testRuns requested\<rparr>;
             aggregateCharge = \<lparr>kc_uniqueModifiedFiles = JInt (int (length modifiedObjectIds)),
               kc_mutationBytes = JInt mutationBytes, kc_testRuns = JInt testRuns\<rparr>;
             record = \<lparr>tr_ticket = ticket, tr_contractId = contractId, tr_status = Registered,
               tr_registeredAt = gi_now input, tr_commitPermittedAt = None, tr_terminalAt = None,
               tr_terminalReason = None, tr_resultHash = None, tr_reservedCharge = reservedCharge,
               tr_aggregateCharge = aggregateCharge\<rparr>
         in Inr (state\<lparr>ks_lineages := setOwn (ks_lineages state) contractId (lineage\<lparr>cl_budget := nextBudget\<rparr>),
              ks_tickets := setOwn (ks_tickets state) (et_ticketId ticket) record,
              ks_requestIds := setOwn (ks_requestIds state) (et_requestId ticket) (et_ticketId ticket),
              ks_reservationIds := setOwn (ks_reservationIds state) (et_budgetReservationId ticket)
                (et_ticketId ticket)\<rparr>))))))))))))))))))"

datatype commit_result =
    CommitPermitted (cr_state: kernel_state) (cr_permit: commit_permit)
  | CommitDenied (cr_state: kernel_state) (cr_error: kernel_error)

definition commitFailure :: "kernel_state \<Rightarrow> kernel_error \<Rightarrow> commit_result" where
  "commitFailure state error = CommitDenied state error"

definition terminalCommitFailure :: "kernel_state \<Rightarrow> ticket_record \<Rightarrow> jstr \<Rightarrow> kernel_error \<Rightarrow> commit_result" where
  "terminalCommitFailure state record now error =
     CommitDenied (state\<lparr>ks_tickets := setOwn (ks_tickets state) (et_ticketId (tr_ticket record))
       (failedRecord record now (ke_message error))\<rparr>) error"

definition commitPermitTransition ::
  "(jstr \<Rightarrow> jstr) \<Rightarrow> kernel_state \<Rightarrow> commit_input \<Rightarrow> kernel_error + commit_result" where
  "commitPermitTransition nfc state input =
     (case bindE (timestampMilliseconds_kernel (ci_now input) ''Commit-permit time'' TicketInvalid) (\<lambda>nowMs.
           bindE (validatedTicket nfc (ci_ticket input)) (\<lambda>ticket. Inr (nowMs, ticket))) of
        Inl error \<Rightarrow> Inr (commitFailure state (asKernelError error TicketInvalid))
      | Inr (nowMs, ticket) \<Rightarrow>
          let ticketId = et_ticketId ticket in
          (case ownValue (ks_tickets state) ticketId of
             None \<Rightarrow> Inr (commitFailure state (kernelError TicketNotFound
               (js ''Execution ticket '' @ ticketId @ js '' is not registered'')))
           | Some record \<Rightarrow>
               if \<not> sameTicket nfc (tr_ticket record) ticket
               then Inr (commitFailure state (kError TicketInvalid
                 ''Commit request does not contain the exact registered ticket''))
               else if tr_status record = CommitPermit
               then Inr (commitFailure state (kernelError TicketNotExecutable
                 (js ''Execution ticket '' @ ticketId @ js '' has already issued its one-shot commit permit'')))
               else if tr_status record \<noteq> Registered
               then Inr (commitFailure state (kernelError TicketTerminal
                 (js ''Execution ticket '' @ ticketId @ js '' is already terminal'')))
               else
                 bindE (timestampMilliseconds_kernel (tr_registeredAt record) ''Ticket registration time''
                   TicketInvalid) (\<lambda>registeredAtMs.
                 bindE (if nowMs < registeredAtMs then Inr True
                        else bindE (timestampMilliseconds_kernel (et_issuedAt ticket) ''Ticket issuance time''
                          TicketInvalid) (\<lambda>issuedAtMs. Inr (nowMs < issuedAtMs))) (\<lambda>early.
                 if early
                 then Inr (commitFailure state (kError TicketInvalid
                   ''Commit permit cannot precede ticket issuance or registration''))
                 else
                   bindE (timestampMilliseconds_kernel (et_expiresAt ticket) ''Ticket expiry time''
                     TicketInvalid) (\<lambda>expiresAtMs.
                   if nowMs \<ge> expiresAtMs
                   then Inr (terminalCommitFailure state record (ci_now input) (kernelError TicketExpired
                     (js ''Execution ticket '' @ ticketId @ js '' expired before commit permit'')))
                   else
                     bindE (case ownValue (ks_lineages state) (tr_contractId record) of
                              None \<Rightarrow> Inr False
                            | Some lineage \<Rightarrow> ticketMatchesActiveLineage ticket lineage nowMs) (\<lambda>live.
                     if \<not> live
                     then Inr (terminalCommitFailure state record (ci_now input) (kernelError TicketStale
                       (js ''Execution ticket '' @ ticketId @
                        js '' no longer matches the exact active contract revision'')))
                     else Inr (CommitPermitted
                       (state\<lparr>ks_tickets := setOwn (ks_tickets state) ticketId
                          (record\<lparr>tr_status := CommitPermit, tr_commitPermittedAt := Some (ci_now input)\<rparr>)\<rparr>)
                       \<lparr>cp_ticketId = ticketId, cp_requestId = et_requestId ticket,
                        cp_contractHash = et_contractHash ticket, cp_contractRevision = et_contractRevision ticket,
                        cp_revocationEpoch = et_revocationEpoch ticket,
                        cp_budgetReservationId = et_budgetReservationId ticket,
                        cp_permittedAt = ci_now input\<rparr>)))))))"

definition failBeforeCommitTransition ::
  "(jstr \<Rightarrow> jstr) \<Rightarrow> kernel_state \<Rightarrow> fail_input \<Rightarrow> kernel_error + kernel_state" where
  "failBeforeCommitTransition nfc state input =
     bindE (timestampMilliseconds_kernel (fi_now input) ''Pre-commit failure time'' TicketInvalid) (\<lambda>nowMs.
     case ownValue (ks_tickets state) (fi_ticketId input) of
       None \<Rightarrow> Inl (kernelError TicketNotFound
         (js ''Execution ticket '' @ fi_ticketId input @ js '' is not registered''))
     | Some record \<Rightarrow>
         bindE (guardE (tr_status record \<noteq> CommitPermit)
           (kernelError TicketNotExecutable (js ''Execution ticket '' @ fi_ticketId input @
             js '' already crossed COMMIT_PERMIT''))) (\<lambda>_.
         bindE (guardE (tr_status record = Registered)
           (kernelError TicketTerminal (js ''Execution ticket '' @ fi_ticketId input @
             js '' is already terminal''))) (\<lambda>_.
         bindE (timestampMilliseconds_kernel (tr_registeredAt record) ''Ticket registration time''
           TicketInvalid) (\<lambda>registeredAtMs.
         bindE (guardE (\<not> nowMs < registeredAtMs)
           (kError TicketInvalid ''Pre-commit failure cannot precede ticket registration'')) (\<lambda>_.
         bindE (optionalReason nfc (fi_reason input) None TicketInvalid) (\<lambda>given.
         (case given of
            None \<Rightarrow> Inl (kError TicketInvalid ''Pre-commit failure requires a bounded non-empty reason'')
          | Some reason \<Rightarrow>
              Inr (state\<lparr>ks_tickets := setOwn (ks_tickets state) (fi_ticketId input)
                (failedRecord record (fi_now input) reason)\<rparr>))))))))"

definition settleTicketTransition ::
  "(jstr \<Rightarrow> jstr) \<Rightarrow> kernel_state \<Rightarrow> settle_input \<Rightarrow> kernel_error + kernel_state" where
  "settleTicketTransition nfc state input =
     bindE (timestampMilliseconds_kernel (si_now input) ''Ticket settlement time'' TicketInvalid) (\<lambda>nowMs.
     case ownValue (ks_tickets state) (si_ticketId input) of
       None \<Rightarrow> Inl (kernelError TicketNotFound
         (js ''Execution ticket '' @ si_ticketId input @ js '' is not registered''))
     | Some record \<Rightarrow>
         bindE (if tr_status record \<noteq> CommitPermit
                then if tr_status record = Registered
                  then Inl (kernelError TicketNotExecutable (js ''Execution ticket '' @ si_ticketId input @
                    js '' has no commit permit''))
                  else Inl (kernelError TicketTerminal (js ''Execution ticket '' @ si_ticketId input @
                    js '' is already terminal''))
                else Inr ()) (\<lambda>_.
         (case settlementStatus (si_status input) of
            None \<Rightarrow> Inl (kError TicketInvalid ''Ticket settlement status is invalid'')
          | Some status \<Rightarrow>
              bindE (case tr_commitPermittedAt record of
                       None \<Rightarrow> Inr True
                     | Some permittedAt \<Rightarrow>
                         bindE (timestampMilliseconds_kernel permittedAt ''Commit-permit time''
                           TicketInvalid) (\<lambda>permittedAtMs. Inr (nowMs < permittedAtMs))) (\<lambda>early.
              bindE (guardE (\<not> early)
                (kError TicketInvalid ''Ticket settlement cannot precede its commit permit'')) (\<lambda>_.
              bindE (optionalDigest (si_resultHash input) ''Ticket result hash'') (\<lambda>resultHash.
              bindE (optionalReason nfc (si_reason input) None TicketInvalid) (\<lambda>reason.
              Inr (state\<lparr>ks_tickets := setOwn (ks_tickets state) (si_ticketId input)
                (record\<lparr>tr_status := status, tr_terminalAt := Some (si_now input),
                   tr_terminalReason := reason, tr_resultHash := resultHash\<rparr>)\<rparr>))))))))"

end
