(* ===== verification/Kernel_Invariants.thy ===== *)
theory Kernel_Invariants
  imports Kernel_Transitions Transition_System "HOL-Library.Sublist"
begin

text \<open>
  The invariant of the kernel state, the step relation over all transitions, and that every step keeps
  the invariant.
\<close>

named_theorems kernel_simps \<open>what the checks of the kernel accept\<close>

section \<open>What the checks accept\<close>

lemma timestamp_kernel_Inr [kernel_simps]:
  "timestampMilliseconds_kernel v label code = Inr ms \<longleftrightarrow> wf_timestamp v \<and> ms = timestampMilliseconds v"
proof
  assume "timestampMilliseconds_kernel v label code = Inr ms"
  then show "wf_timestamp v \<and> ms = timestampMilliseconds v"
    by (auto simp: timestampMilliseconds_kernel_def result_simps wf_timestamp_def spellInstant_def
        timestampMilliseconds_def split: option.splits)
next
  assume "wf_timestamp v \<and> ms = timestampMilliseconds v"
  then show "timestampMilliseconds_kernel v label code = Inr ms"
    unfolding wf_timestamp_iff
    by (auto simp: timestampMilliseconds_kernel_def result_simps spellInstant_facts spellInstant_def [symmetric])
qed

lemma safeIncrement_Inr [kernel_simps]:
  "safeIncrement n code m = Inr n' \<longleftrightarrow> 0 \<le> n \<and> n < MAX_SAFE_INTEGER \<and> n' = n + 1"
  by (auto simp: safeIncrement_def result_simps safe_int_def)

lemma safeAddBudget_Inr [kernel_simps]:
  "safeAddBudget a b m = Inr c \<longleftrightarrow> 0 \<le> a \<and> safe_int a \<and> c = a + numInt b \<and> safe_int c"
  by (auto simp: safeAddBudget_def Let_def result_simps)

lemma assertNotBefore_Inr [kernel_simps]: "assertNotBefore a b c m = Inr u \<longleftrightarrow> b \<le> a"
  by (auto simp: assertNotBefore_def result_simps)

lemma optionalDigest_Inr [kernel_simps]:
  "optionalDigest v l = Inr x \<longleftrightarrow> x = v \<and> pred_option SHA256_PATTERN v"
  by (cases v) (auto simp: optionalDigest_def result_simps)

lemma settlementStatus_terminal: "settlementStatus v = Some s \<Longrightarrow> isKernelTerminalTicketStatus s"
  by (auto simp: settlementStatus_def isKernelTerminalTicketStatus_def split: if_splits)

lemma contractsCall_Inr [kernel_simps]: "contractsCall m = Inr x \<longleftrightarrow> m = Inr x"
  by (simp add: contractsCall_def result_simps)

lemma validatedTicket_Inr [kernel_simps]:
  "validatedTicket nfc v = Inr t \<longleftrightarrow> validateSafeCodingExecutionTicket nfc v = Inr t"
  by (simp add: validatedTicket_def result_simps kernel_simps)

lemma validateVerifiedContract_Inr [kernel_simps]:
  "validateVerifiedContract nfc input = Inr x \<longleftrightarrow>
     validateSafeCodingIntentContract nfc (ai_contract input) = Inr (fst x) \<and> contract_valid nfc (fst x) \<and>
     ai_canonicalPayload input = contract_text (fst x) \<and> snd x = ai_contractHash input \<and>
     SHA256_PATTERN (snd x)"
  by (cases x) (auto simp: validateVerifiedContract_def result_simps kernel_simps contract_valid_def
      contract_text_def dest: contract_shape)

lemma assertCasMatches_Inr [kernel_simps]:
  "assertCasMatches l c e = Inr u \<longleftrightarrow> ce_contractHash e = rr_contractHash c \<and> ce_revision e = rr_revision c \<and>
     ce_revocationEpoch e = cl_revocationEpoch l"
  by (auto simp: assertCasMatches_def result_simps)

lemma assertActiveSnapshotMatches_Inr [kernel_simps]:
  "assertActiveSnapshotMatches l c e = Inr u \<longleftrightarrow> as_contractId e = cl_contractId l \<and>
     as_contractHash e = rr_contractHash c \<and> as_revision e = rr_revision c \<and>
     as_revocationEpoch e = cl_revocationEpoch l \<and> as_status e = Active \<and> rr_status c = Active"
  by (auto simp: assertActiveSnapshotMatches_def result_simps)

definition usable_at :: "intent_contract \<Rightarrow> int \<Rightarrow> bool" where
  "usable_at c ms \<longleftrightarrow> wf_timestamp (vld_notBefore (ic_validity c)) \<and> wf_timestamp (vld_expiresAt (ic_validity c)) \<and>
     timestampMilliseconds (vld_notBefore (ic_validity c)) \<le> ms \<and>
     ms < timestampMilliseconds (vld_expiresAt (ic_validity c))"

lemma assertContractUsableAt_Inr [kernel_simps]:
  "assertContractUsableAt c ms = Inr u \<longleftrightarrow> usable_at c ms"
  by (auto simp: assertContractUsableAt_def result_simps kernel_simps usable_at_def)

text \<open>The authority a ticket is bound to, and the time window it must lie in.\<close>

definition binds_contract :: "execution_ticket \<Rightarrow> revision_record \<Rightarrow> int \<Rightarrow> bool" where
  "binds_contract t r epoch \<longleftrightarrow>
     et_contractHash t = rr_contractHash r \<and> et_contractRevision t = rr_revision r \<and> et_revocationEpoch t = epoch \<and>
     et_policyDigest t = bnd_policyDigest (ic_bindings (rr_contract r)) \<and>
     et_registryDigest t = bnd_adapterRegistryDigest (ic_bindings (rr_contract r)) \<and>
     et_runnerRegistryDigest t = bnd_runnerRegistryDigest (ic_bindings (rr_contract r)) \<and>
     et_effectRegistryDigest t = bnd_effectRegistryDigest (ic_bindings (rr_contract r)) \<and>
     et_effectClass t \<in> set (au_allowedEffectClasses (ic_authority (rr_contract r))) \<and>
     et_subject t = ic_subject (rr_contract r) \<and> et_audience t = ic_audience (rr_contract r)"

definition in_window :: "execution_ticket \<Rightarrow> intent_contract \<Rightarrow> bool" where
  "in_window t c \<longleftrightarrow>
     timestampMilliseconds (vld_notBefore (ic_validity c)) \<le> timestampMilliseconds (et_issuedAt t) \<and>
     timestampMilliseconds (et_expiresAt t) \<le> timestampMilliseconds (vld_expiresAt (ic_validity c))"

lemma assertTicketTimeWindow_Inr [kernel_simps]:
  "assertTicketTimeWindow t c ms = Inr u \<longleftrightarrow>
     wf_timestamp (et_issuedAt t) \<and> wf_timestamp (et_expiresAt t) \<and>
     wf_timestamp (vld_notBefore (ic_validity c)) \<and> wf_timestamp (vld_expiresAt (ic_validity c)) \<and>
     in_window t c \<and> timestampMilliseconds (et_issuedAt t) \<le> ms \<and> ms < timestampMilliseconds (et_expiresAt t)"
  by (auto simp: assertTicketTimeWindow_def result_simps kernel_simps in_window_def)

lemma assertLimitsMatch_Inr [kernel_simps]: "assertLimitsMatch s l = Inr u \<longleftrightarrow> s = Some l"
  by (auto simp: assertLimitsMatch_def result_simps split: option.splits)

definition wf_charge :: "kernel_charge \<Rightarrow> bool" where
  "wf_charge c \<longleftrightarrow> numInt (kc_uniqueModifiedFiles c) \<in> {0, 1} \<and>
     isSafeInteger (kc_uniqueModifiedFiles c) \<and> isSafeInteger (kc_mutationBytes c) \<and> isSafeInteger (kc_testRuns c) \<and>
     0 \<le> numInt (kc_mutationBytes c) \<and> 0 \<le> numInt (kc_testRuns c)"

lemma validatedCharge_Inr [kernel_simps]:
  "validatedCharge v = Inr c \<longleftrightarrow> v = Some c \<and> wf_charge c"
  by (cases v) (auto simp: validatedCharge_def Let_def result_simps wf_charge_def)

section \<open>Tickets and contracts compared by their canonical text\<close>

definition ticket_valid :: "(jstr \<Rightarrow> jstr) \<Rightarrow> execution_ticket \<Rightarrow> bool" where
  "ticket_valid nfc t \<longleftrightarrow> wf_ticket nfc t \<and> canonicalizable nfc (ticket_json t)"

lemma validated_ticket_valid: "validateSafeCodingExecutionTicket nfc v = Inr t \<Longrightarrow> ticket_valid nfc t"
  using ticket_shape [of nfc v t] canonicalizable_sortFields by (metis ticket_valid_def)

lemma ticket_json_keys: "wf_jsval (ticket_json t)" "wf_jsval (subject_json s)" "wf_jsval (audience_json a)"
  unfolding ticket_json_def ticketFields_def subject_json_def audience_json_def
  by (rule wf_jsval_jrec; auto simp: EXECUTION_TICKET_KIND_def intro!: wf_jsval_jrec)+

lemma sameTicket_iff:
  assumes "ticket_valid nfc a" "ticket_valid nfc b"
  shows "sameTicket nfc a b \<longleftrightarrow> a = b"
proof -
  have eq: "a = b" if "render (ticket_json a) = render (ticket_json b)"
  proof -
    have "sortFields (ticket_json a) = sortFields (ticket_json b)"
      using assms that ticket_json_keys by (intro render_inj) (auto simp: ticket_valid_def canonicalizable_def)
    then have "validateSafeCodingExecutionTicket nfc (ticket_json b) = Inr a"
      "validateSafeCodingExecutionTicket nfc (ticket_json b) = Inr b"
      using assms by (auto simp: ticket_valid_def intro!: ticket_complete)
    then show ?thesis by simp
  qed
  have "canonicalizeJson nfc (ticket_json a) = Inr (render (ticket_json a))"
    "canonicalizeJson nfc (ticket_json b) = Inr (render (ticket_json b))"
    using assms by (auto simp: canonicalizeJson_Inr ticket_valid_def)
  then show ?thesis
    using eq by (auto simp: sameTicket_def)
qed

lemma ticket_binds:
  assumes "wf_ticket nfc t" "contract_valid nfc (rr_contract r)"
    and *: "assertTicketBindsContract nfc t r e = Inr u"
  shows "binds_contract t r e"
proof -
  have wf: "wf_subject nfc (et_subject t)" "wf_audience nfc (et_audience t)"
    "wf_subject nfc (ic_subject (rr_contract r))" "wf_audience nfc (ic_audience (rr_contract r))"
    using assms by (auto simp: wf_ticket_def contract_valid_def wf_contract_def)
  from * have "json_ok nfc (subject_json (et_subject t))" "json_ok nfc (subject_json (ic_subject (rr_contract r)))"
      "json_ok nfc (audience_json (et_audience t))" "json_ok nfc (audience_json (ic_audience (rr_contract r)))"
      "render (subject_json (et_subject t)) = render (subject_json (ic_subject (rr_contract r)))"
      "render (audience_json (et_audience t)) = render (audience_json (ic_audience (rr_contract r)))"
    unfolding assertTicketBindsContract_def
    by (auto simp: Let_def result_simps kernel_simps canonicalizable_def)
  then have "sortFields (subject_json (et_subject t)) = sortFields (subject_json (ic_subject (rr_contract r)))"
      "sortFields (audience_json (et_audience t)) = sortFields (audience_json (ic_audience (rr_contract r)))"
    using ticket_json_keys by (auto intro: render_inj)
  then have "et_subject t = ic_subject (rr_contract r)" "et_audience t = ic_audience (rr_contract r)"
    using subject_complete [OF wf(1)] subject_complete [OF wf(3)] audience_complete [OF wf(2)]
      audience_complete [OF wf(4)] by (metis sum.inject(2))+
  with * show ?thesis
    unfolding assertTicketBindsContract_def binds_contract_def
    by (auto simp: Let_def result_simps kernel_simps)
qed

section \<open>The invariant\<close>

abbreviation current :: "contract_lineage \<Rightarrow> revision_record" where
  "current l \<equiv> last (cl_revisions l)"

definition wf_revision :: "(jstr \<Rightarrow> jstr) \<Rightarrow> jstr \<Rightarrow> revision_record \<Rightarrow> bool" where
  "wf_revision nfc cid r \<longleftrightarrow>
     contract_valid nfc (rr_contract r) \<and> ic_contractId (rr_contract r) = cid \<and>
     ic_revision (rr_contract r) = rr_revision r \<and>
     ic_previousRevisionHash (rr_contract r) = rr_previousRevisionHash r \<and>
     SHA256_PATTERN (rr_contractHash r) \<and> wf_timestamp (rr_activatedAt r) \<and>
     (rr_status r = Active \<longleftrightarrow> rr_endedAt r = None)"

text \<open>
  A lineage is a chain of revisions numbered from one, each bound to the hash of its predecessor. Only
  the last can be active, and it is the current one. The revocation epoch counts how often authority
  was taken away: once per superseded revision and once for the revocation.
\<close>

definition wf_lineage :: "(jstr \<Rightarrow> jstr) \<Rightarrow> jstr \<Rightarrow> contract_lineage \<Rightarrow> bool" where
  "wf_lineage nfc cid l \<longleftrightarrow>
     cl_contractId l = cid \<and> cl_revisions l \<noteq> [] \<and>
     cl_currentContractHash l = rr_contractHash (current l) \<and>
     map rr_revision (cl_revisions l) = map (\<lambda>i. 1 + int i) [0..<length (cl_revisions l)] \<and>
     map rr_previousRevisionHash (cl_revisions l) = None # map (Some \<circ> rr_contractHash) (butlast (cl_revisions l)) \<and>
     list_all (wf_revision nfc cid) (cl_revisions l) \<and>
     list_all (\<lambda>r. rr_status r \<noteq> Active) (butlast (cl_revisions l)) \<and> rr_status (current l) \<noteq> Superseded \<and>
     cl_revocationEpoch l = int (length (cl_revisions l)) - (if rr_status (current l) = Active then 1 else 0) \<and>
     cl_revocationEpoch l \<le> MAX_SAFE_INTEGER"

definition wf_budget :: "budget_usage \<Rightarrow> bool" where
  "wf_budget b \<longleftrightarrow> distinct (bu_modifiedObjectIds b) \<and> 0 \<le> bu_mutationBytes b \<and> safe_int (bu_mutationBytes b) \<and>
     0 \<le> bu_testRuns b \<and> safe_int (bu_testRuns b)"

definition life_cycle :: "ticket_record \<Rightarrow> bool" where
  "life_cycle r =
     (case tr_status r of
        Registered \<Rightarrow> tr_commitPermittedAt r = None \<and> tr_terminalAt r = None
      | CommitPermit \<Rightarrow> tr_commitPermittedAt r \<noteq> None \<and> tr_terminalAt r = None
      | FailedNoEffect \<Rightarrow> tr_terminalAt r \<noteq> None
      | _ \<Rightarrow> tr_commitPermittedAt r \<noteq> None \<and> tr_terminalAt r \<noteq> None)"

text \<open>A ticket that can still get its permit is bound to the active revision of its lineage.\<close>

definition live :: "execution_ticket \<Rightarrow> contract_lineage \<Rightarrow> bool" where
  "live t l \<longleftrightarrow> rr_status (current l) = Active \<and> binds_contract t (current l) (cl_revocationEpoch l) \<and>
     in_window t (rr_contract (current l))"

definition wf_record ::
  "(jstr \<Rightarrow> jstr) \<Rightarrow> (jstr \<rightharpoonup> contract_lineage) \<Rightarrow> jstr \<Rightarrow> ticket_record \<Rightarrow> bool" where
  "wf_record nfc ls k r \<longleftrightarrow>
     ticket_valid nfc (tr_ticket r) \<and> et_ticketId (tr_ticket r) = k \<and> wf_timestamp (tr_registeredAt r) \<and>
     pred_option wf_timestamp (tr_commitPermittedAt r) \<and> life_cycle r \<and> wf_charge (tr_reservedCharge r) \<and>
     (\<exists>l. ls (tr_contractId r) = Some l \<and> (tr_status r = Registered \<longrightarrow> live (tr_ticket r) l))"

text \<open>What the tickets of a lineage have reserved, whatever became of them.\<close>

definition reserved :: "(kernel_charge \<Rightarrow> int) \<Rightarrow> jstr \<Rightarrow> ticket_record jsobj \<Rightarrow> int" where
  "reserved f cid tickets =
     sum_list (map (\<lambda>e. if tr_contractId (snd e) = cid then f (tr_reservedCharge (snd e)) else 0) tickets)"

abbreviation "charged_files \<equiv> \<lambda>c. numInt (kc_uniqueModifiedFiles c)"
abbreviation "charged_bytes \<equiv> \<lambda>c. numInt (kc_mutationBytes c)"
abbreviation "charged_runs \<equiv> \<lambda>c. numInt (kc_testRuns c)"

definition budget_conserved :: "jstr \<Rightarrow> budget_usage \<Rightarrow> ticket_record jsobj \<Rightarrow> bool" where
  "budget_conserved cid b tickets \<longleftrightarrow>
     int (length (bu_modifiedObjectIds b)) = reserved charged_files cid tickets \<and>
     bu_mutationBytes b = reserved charged_bytes cid tickets \<and> bu_testRuns b = reserved charged_runs cid tickets"

definition id_index :: "(execution_ticket \<Rightarrow> jstr) \<Rightarrow> (jstr \<rightharpoonup> jstr) \<Rightarrow> (jstr \<rightharpoonup> ticket_record) \<Rightarrow> bool" where
  "id_index f index tickets \<longleftrightarrow>
     (\<forall>x k. index x = Some k \<longleftrightarrow> (\<exists>r. tickets k = Some r \<and> f (tr_ticket r) = x))"

definition kernel_inv :: "(jstr \<Rightarrow> jstr) \<Rightarrow> kernel_state \<Rightarrow> bool" where
  "kernel_inv nfc s \<longleftrightarrow>
     distinct (map fst (ks_tickets s)) \<and>
     (\<forall>cid l. ownValue (ks_lineages s) cid = Some l \<longrightarrow>
        wf_lineage nfc cid l \<and> wf_budget (cl_budget l) \<and> budget_conserved cid (cl_budget l) (ks_tickets s)) \<and>
     (\<forall>k r. ownValue (ks_tickets s) k = Some r \<longrightarrow> wf_record nfc (ownValue (ks_lineages s)) k r) \<and>
     id_index et_requestId (ownValue (ks_requestIds s)) (ownValue (ks_tickets s)) \<and>
     id_index et_budgetReservationId (ownValue (ks_reservationIds s)) (ownValue (ks_tickets s))"

section \<open>Sums over the tickets\<close>

lemma setOwn_append: "ownValue r k = None \<Longrightarrow> setOwn r k v = r @ [(k, v)]"
  unfolding setOwn_def ownValue_def by (induction r) auto

lemma reserved_fresh:
  "ownValue ts k = None \<Longrightarrow>
   reserved f cid (setOwn ts k r) = reserved f cid ts + (if tr_contractId r = cid then f (tr_reservedCharge r) else 0)"
  by (simp add: reserved_def setOwn_append)

lemma reserved_update:
  assumes "distinct (map fst ts)" "ownValue ts k = Some r" "tr_contractId r' = tr_contractId r"
    "tr_reservedCharge r' = tr_reservedCharge r"
  shows "reserved f cid (setOwn ts k r') = reserved f cid ts"
  using assms(1,2) unfolding reserved_def setOwn_def ownValue_def
  by (induction ts) (use assms(3,4) in auto)

lemma reserved_map:
  assumes "\<And>r. tr_contractId (g r) = tr_contractId r" "\<And>r. tr_reservedCharge (g r) = tr_reservedCharge r"
  shows "reserved f cid (map (\<lambda>(k, r). (k, g r)) ts) = reserved f cid ts"
  unfolding reserved_def by (induction ts) (use assms in auto)

definition failIn :: "jstr \<Rightarrow> jstr \<Rightarrow> jstr \<Rightarrow> ticket_record \<Rightarrow> ticket_record" where
  "failIn cid now reason r =
     (if tr_contractId r = cid \<and> tr_status r = Registered then failedRecord r now reason else r)"

lemma failIn_simps [simp]:
  "tr_ticket (failIn cid now reason r) = tr_ticket r" "tr_contractId (failIn cid now reason r) = tr_contractId r"
  "tr_reservedCharge (failIn cid now reason r) = tr_reservedCharge r"
  "tr_registeredAt (failIn cid now reason r) = tr_registeredAt r"
  "tr_commitPermittedAt (failIn cid now reason r) = tr_commitPermittedAt r"
  "tr_status (failIn cid now reason r) =
     (if tr_contractId r = cid \<and> tr_status r = Registered then FailedNoEffect else tr_status r)"
  by (simp_all add: failIn_def failedRecord_def)

lemma failRegistered_map: "failRegisteredTickets ts cid now reason = map (\<lambda>(k, r). (k, failIn cid now reason r)) ts"
  by (simp add: failRegisteredTickets_def failIn_def)

lemma failRegistered_simps [simp]:
  "ownValue (failRegisteredTickets ts cid now reason) k = map_option (failIn cid now reason) (ownValue ts k)"
  "map fst (failRegisteredTickets ts cid now reason) = map fst ts"
  "reserved f i (failRegisteredTickets ts cid now reason) = reserved f i ts"
  unfolding failRegistered_map
  by (auto simp: ownValue_mapVal [where f = "\<lambda>_. failIn cid now reason"] reserved_map comp_def)

section \<open>Shapes of the successful transitions\<close>

lemma currentRevision_wf: "wf_lineage nfc cid l \<Longrightarrow> currentRevision l = Inr (current l)"
proof -
  assume "wf_lineage nfc cid l"
  then have "cl_revisions l \<noteq> []" "cl_currentContractHash l = rr_contractHash (current l)"
    by (simp_all add: wf_lineage_def)
  then show ?thesis
    by (cases "cl_revisions l" rule: rev_cases) (simp_all add: currentRevision_def)
qed

definition firstLineage :: "intent_contract \<Rightarrow> jstr \<Rightarrow> jstr \<Rightarrow> contract_lineage" where
  "firstLineage c h now =
     \<lparr>cl_contractId = ic_contractId c, cl_currentContractHash = h, cl_revocationEpoch = 0,
      cl_revisions = [\<lparr>rr_contract = c, rr_contractHash = h, rr_revision = ic_revision c,
        rr_previousRevisionHash = None, rr_status = Active, rr_revocationEpoch = 0, rr_activatedAt = now,
        rr_endedAt = None, rr_endReason = None\<rparr>],
      cl_budget = \<lparr>bu_modifiedObjectIds = [], bu_mutationBytes = 0, bu_testRuns = 0\<rparr>\<rparr>"

definition endCurrent :: "contract_lineage \<Rightarrow> (revision_record \<Rightarrow> revision_record) \<Rightarrow> revision_record list" where
  "endCurrent l f =
     map (\<lambda>r. if rr_contractHash r = rr_contractHash (current l) then f r else r) (cl_revisions l)"

definition nextLineage :: "contract_lineage \<Rightarrow> intent_contract \<Rightarrow> jstr \<Rightarrow> jstr \<Rightarrow> jstr \<Rightarrow> contract_lineage" where
  "nextLineage l c h now reason =
     l\<lparr>cl_currentContractHash := h, cl_revocationEpoch := cl_revocationEpoch l + 1,
       cl_revisions := endCurrent l (\<lambda>r. endRevision r Superseded now reason) @
         [\<lparr>rr_contract = c, rr_contractHash = h, rr_revision = ic_revision c,
           rr_previousRevisionHash = ic_previousRevisionHash c, rr_status = Active,
           rr_revocationEpoch = cl_revocationEpoch l + 1, rr_activatedAt = now, rr_endedAt = None,
           rr_endReason = None\<rparr>]\<rparr>"

definition revokedLineage :: "contract_lineage \<Rightarrow> jstr \<Rightarrow> jstr \<Rightarrow> contract_lineage" where
  "revokedLineage l now reason =
     l\<lparr>cl_revocationEpoch := cl_revocationEpoch l + 1,
       cl_revisions := endCurrent l (\<lambda>r. (endRevision r Revoked now reason)
         \<lparr>rr_revocationEpoch := cl_revocationEpoch l + 1\<rparr>)\<rparr>"

lemma activate_shape:
  assumes "activateContractTransition nfc s i = Inr s'" "kernel_inv nfc s"
  obtains (new) c where "contract_valid nfc c" "ic_revision c = 1" "wf_timestamp (ai_now i)"
      "SHA256_PATTERN (ai_contractHash i)" "ownValue (ks_lineages s) (ic_contractId c) = None"
      "s' = s\<lparr>ks_lineages := setOwn (ks_lineages s) (ic_contractId c) (firstLineage c (ai_contractHash i) (ai_now i))\<rparr>"
  | (next_revision) c l reason where "contract_valid nfc c" "wf_timestamp (ai_now i)" "SHA256_PATTERN (ai_contractHash i)"
      "ownValue (ks_lineages s) (ic_contractId c) = Some l" "rr_status (current l) = Active"
      "ic_revision c = rr_revision (current l) + 1" "ic_previousRevisionHash c = Some (rr_contractHash (current l))"
      "ai_contractHash i \<noteq> rr_contractHash (current l)" "cl_revocationEpoch l < MAX_SAFE_INTEGER"
      "s' = s\<lparr>ks_lineages := setOwn (ks_lineages s) (ic_contractId c) (nextLineage l c (ai_contractHash i) (ai_now i) reason),
        ks_tickets := failRegisteredTickets (ks_tickets s) (ic_contractId c) (ai_now i) reason\<rparr>"
proof -
  from assms(1) obtain c where c: "contract_valid nfc c" "wf_timestamp (ai_now i)" "SHA256_PATTERN (ai_contractHash i)"
    and v: "validateVerifiedContract nfc i = Inr (c, ai_contractHash i)"
    unfolding activateContractTransition_def by (auto simp: result_simps kernel_simps)
  show thesis
  proof (cases "ic_revision c = 1")
    case True
    then show ?thesis
      using assms(1) c v that(1) [OF c(1) True c(2,3)] unfolding activateContractTransition_def
      by (auto simp: Let_def result_simps timestamp_kernel_Inr firstLineage_def)
  next
    case False
    then obtain l where l: "ownValue (ks_lineages s) (ic_contractId c) = Some l"
      using assms(1) v unfolding activateContractTransition_def
      by (auto simp: Let_def result_simps timestamp_kernel_Inr split: option.splits)
    then have cur: "currentRevision l = Inr (current l)"
      using assms(2) by (auto simp: kernel_inv_def intro: currentRevision_wf)
    let ?reason = "js ''Superseded by contract revision '' @ decInt (ic_revision c)"
    have "rr_status (current l) = Active" "ic_revision c = rr_revision (current l) + 1"
      "ic_previousRevisionHash c = Some (rr_contractHash (current l))"
      "ai_contractHash i \<noteq> rr_contractHash (current l)" "cl_revocationEpoch l < MAX_SAFE_INTEGER"
      "s' = s\<lparr>ks_lineages := setOwn (ks_lineages s) (ic_contractId c) (nextLineage l c (ai_contractHash i) (ai_now i) ?reason),
        ks_tickets := failRegisteredTickets (ks_tickets s) (ic_contractId c) (ai_now i) ?reason\<rparr>"
      using assms(1) False v unfolding activateContractTransition_def
      by (auto simp: Let_def result_simps kernel_simps l cur nextLineage_def endCurrent_def
          split: option.splits)
    then show ?thesis
      using that(2) [OF c l] by blast
  qed
qed

lemma revoke_shape:
  assumes "revokeContractTransition nfc s i = Inr s'" "kernel_inv nfc s"
  obtains l reason where "wf_timestamp (ri_now i)" "ownValue (ks_lineages s) (ri_contractId i) = Some l"
    "rr_status (current l) = Active" "cl_revocationEpoch l < MAX_SAFE_INTEGER"
    "s' = s\<lparr>ks_lineages := setOwn (ks_lineages s) (ri_contractId i) (revokedLineage l (ri_now i) reason),
       ks_tickets := failRegisteredTickets (ks_tickets s) (ri_contractId i) (ri_now i) reason\<rparr>"
proof -
  from assms(1) obtain l where l: "ownValue (ks_lineages s) (ri_contractId i) = Some l"
    unfolding revokeContractTransition_def by (auto simp: result_simps split: option.splits)
  then have cur: "currentRevision l = Inr (current l)"
    using assms(2) by (auto simp: kernel_inv_def intro: currentRevision_wf)
  show thesis
    using assms(1) that [OF _ l] unfolding revokeContractTransition_def
    by (auto simp: Let_def result_simps kernel_simps l cur revokedLineage_def endCurrent_def)
qed

text \<open>The budget of a lineage after a registration, and the record the registration creates.\<close>

definition newObject :: "contract_lineage \<Rightarrow> execution_ticket \<Rightarrow> kernel_charge \<Rightarrow> bool" where
  "newObject l t c \<longleftrightarrow> charged_files c = 1 \<and> et_resolvedObjectId t \<notin> set (bu_modifiedObjectIds (cl_budget l))"

definition chargedBudget :: "contract_lineage \<Rightarrow> execution_ticket \<Rightarrow> kernel_charge \<Rightarrow> budget_usage" where
  "chargedBudget l t c =
     \<lparr>bu_modifiedObjectIds = bu_modifiedObjectIds (cl_budget l) @ (if newObject l t c then [et_resolvedObjectId t] else []),
      bu_mutationBytes = bu_mutationBytes (cl_budget l) + charged_bytes c,
      bu_testRuns = bu_testRuns (cl_budget l) + charged_runs c\<rparr>"

definition newRecord :: "contract_lineage \<Rightarrow> execution_ticket \<Rightarrow> kernel_charge \<Rightarrow> jstr \<Rightarrow> jstr \<Rightarrow> ticket_record" where
  "newRecord l t c cid now =
     \<lparr>tr_ticket = t, tr_contractId = cid, tr_status = Registered, tr_registeredAt = now,
      tr_commitPermittedAt = None, tr_terminalAt = None, tr_terminalReason = None, tr_resultHash = None,
      tr_reservedCharge = \<lparr>kc_uniqueModifiedFiles = JInt (if newObject l t c then 1 else 0),
        kc_mutationBytes = kc_mutationBytes c, kc_testRuns = kc_testRuns c\<rparr>,
      tr_aggregateCharge = \<lparr>kc_uniqueModifiedFiles = JInt (int (length (bu_modifiedObjectIds (chargedBudget l t c)))),
        kc_mutationBytes = JInt (bu_mutationBytes (chargedBudget l t c)),
        kc_testRuns = JInt (bu_testRuns (chargedBudget l t c))\<rparr>\<rparr>"

definition within_limits :: "budget_usage \<Rightarrow> authority_limits \<Rightarrow> bool" where
  "within_limits b limits \<longleftrightarrow>
     int (length (bu_modifiedObjectIds b)) \<le> lim_maxUniqueModifiedFiles limits \<and>
     bu_mutationBytes b \<le> lim_maxMutationBytes limits \<and> bu_testRuns b \<le> lim_maxTestRuns limits"

lemma register_shape:
  assumes "registerTicketTransition nfc s i = Inr s'" "kernel_inv nfc s"
  obtains t l c where "validateSafeCodingExecutionTicket nfc (gi_ticket i) = Inr t" "ticket_valid nfc t"
    "wf_timestamp (gi_now i)"
    "ownValue (ks_lineages s) (as_contractId (gi_expectedActive i)) = Some l" "live t l"
    "usable_at (rr_contract (current l)) (timestampMilliseconds (gi_now i))"
    "timestampMilliseconds (et_issuedAt t) \<le> timestampMilliseconds (gi_now i)"
    "timestampMilliseconds (gi_now i) < timestampMilliseconds (et_expiresAt t)"
    "gi_charge i = Some c" "wf_charge c"
    "ownValue (ks_tickets s) (et_ticketId t) = None" "ownValue (ks_requestIds s) (et_requestId t) = None"
    "ownValue (ks_reservationIds s) (et_budgetReservationId t) = None"
    "safe_int (bu_mutationBytes (chargedBudget l t c))" "safe_int (bu_testRuns (chargedBudget l t c))"
    "within_limits (chargedBudget l t c) (au_limits (ic_authority (rr_contract (current l))))"
    "s' = s\<lparr>ks_lineages := setOwn (ks_lineages s) (as_contractId (gi_expectedActive i))
         (l\<lparr>cl_budget := chargedBudget l t c\<rparr>),
       ks_tickets := setOwn (ks_tickets s) (et_ticketId t)
         (newRecord l t c (as_contractId (gi_expectedActive i)) (gi_now i)),
       ks_requestIds := setOwn (ks_requestIds s) (et_requestId t) (et_ticketId t),
       ks_reservationIds := setOwn (ks_reservationIds s) (et_budgetReservationId t) (et_ticketId t)\<rparr>"
proof -
  let ?cid = "as_contractId (gi_expectedActive i)"
  from assms(1) obtain t where t: "validateSafeCodingExecutionTicket nfc (gi_ticket i) = Inr t"
    unfolding registerTicketTransition_def by (auto simp: result_simps kernel_simps)
  note valid = validated_ticket_valid [OF t]
  from assms(1) obtain l where l: "ownValue (ks_lineages s) ?cid = Some l"
    unfolding registerTicketTransition_def by (auto simp: Let_def result_simps split: option.splits)
  then have wf: "wf_lineage nfc ?cid l"
    using assms(2) by (auto simp: kernel_inv_def)
  note cur = currentRevision_wf [OF wf]
  have "wf_revision nfc ?cid (current l)"
    using wf by (auto simp: wf_lineage_def list_all_iff)
  then have bind: "assertTicketBindsContract nfc t (current l) e = Inr u \<Longrightarrow> binds_contract t (current l) e" for e u
    using valid by (auto simp: ticket_valid_def wf_revision_def intro: ticket_binds)
  from assms(1) obtain c where c: "gi_charge i = Some c" "wf_charge c"
    unfolding registerTicketTransition_def
    by (auto simp: Let_def result_simps kernel_simps l cur)
  have charge: "validatedCharge (gi_charge i) = Inr c"
    using c by (simp add: validatedCharge_Inr)
  have tk: "validatedTicket nfc (gi_ticket i) = Inr t"
    using t by (simp add: validatedTicket_Inr)
  show thesis
    by (rule that [OF t valid _ l _ _ _ _ c])
      (use assms(1) in \<open>unfold registerTicketTransition_def tk charge l bindE_simps cur Let_def option.case,
        auto simp: result_simps timestamp_kernel_Inr assertActiveSnapshotMatches_Inr
          assertContractUsableAt_Inr assertTicketTimeWindow_Inr assertLimitsMatch_Inr safeAddBudget_Inr
          l live_def chargedBudget_def newObject_def newRecord_def within_limits_def hasOwn_def not_less add.commute
          dest!: bind\<close>)
qed

lemma ticket_stamps:
  assumes "ticket_valid nfc t"
  shows "wf_timestamp (et_issuedAt t)" "wf_timestamp (et_expiresAt t)"
  using assms by (auto simp: ticket_valid_def wf_ticket_def stamp_def)

lemma contract_stamps:
  assumes "contract_valid nfc c"
  shows "wf_timestamp (vld_notBefore (ic_validity c))" "wf_timestamp (vld_expiresAt (ic_validity c))"
  using assms by (auto simp: contract_valid_def wf_contract_def wf_validity_def stamp_def)

lemma live_matches:
  assumes "kernel_inv nfc s" "ownValue (ks_tickets s) k = Some r" "tr_status r = Registered"
    and "timestampMilliseconds (et_issuedAt (tr_ticket r)) \<le> ms"
    and "ms < timestampMilliseconds (et_expiresAt (tr_ticket r))"
  shows "\<exists>l. ownValue (ks_lineages s) (tr_contractId r) = Some l \<and>
    ticketMatchesActiveLineage (tr_ticket r) l ms = Inr True \<and> live (tr_ticket r) l"
proof -
  have "wf_record nfc (ownValue (ks_lineages s)) k r"
    using assms(1,2) by (auto simp: kernel_inv_def)
  then obtain l where l: "ownValue (ks_lineages s) (tr_contractId r) = Some l" "live (tr_ticket r) l"
    using assms(3) by (auto simp: wf_record_def)
  then have wf: "wf_lineage nfc (tr_contractId r) l"
    using assms(1) by (auto simp: kernel_inv_def)
  then have "contract_valid nfc (rr_contract (current l))"
    by (auto simp: wf_lineage_def wf_revision_def list_all_iff)
  then have "ticketMatchesActiveLineage (tr_ticket r) l ms = Inr True"
    using l(2) assms(4,5) contract_stamps [of nfc "rr_contract (current l)"]
    by (auto simp: ticketMatchesActiveLineage_def currentRevision_wf [OF wf] live_def binds_contract_def in_window_def
        result_simps timestamp_kernel_Inr)
  with l show ?thesis by blast
qed

text \<open>In a state with the invariant the commit transition always returns, and a registered ticket
  that has not expired is live, so the denial for a stale ticket is never reached.\<close>

lemma commit_shape:
  assumes "kernel_inv nfc s"
  obtains (unchanged) e where "commitPermitTransition nfc s i = Inr (CommitDenied s e)"
      "\<forall>m. e \<noteq> SafeCodingKernelError TicketStale m"
  | (expired) k r e where "ownValue (ks_tickets s) k = Some r" "tr_status r = Registered"
      "timestampMilliseconds (et_expiresAt (tr_ticket r)) \<le> timestampMilliseconds (ci_now i)"
      "commitPermitTransition nfc s i =
        Inr (CommitDenied (s\<lparr>ks_tickets := setOwn (ks_tickets s) k (failedRecord r (ci_now i) (ke_message e))\<rparr>) e)"
      "\<exists>m. e = SafeCodingKernelError TicketExpired m"
  | (permitted) k r l p where "ownValue (ks_tickets s) k = Some r" "tr_status r = Registered" "wf_timestamp (ci_now i)"
      "validateSafeCodingExecutionTicket nfc (ci_ticket i) = Inr (tr_ticket r)"
      "ownValue (ks_lineages s) (tr_contractId r) = Some l" "live (tr_ticket r) l"
      "timestampMilliseconds (tr_registeredAt r) \<le> timestampMilliseconds (ci_now i)"
      "timestampMilliseconds (et_issuedAt (tr_ticket r)) \<le> timestampMilliseconds (ci_now i)"
      "timestampMilliseconds (ci_now i) < timestampMilliseconds (et_expiresAt (tr_ticket r))"
      "commitPermitTransition nfc s i = Inr (CommitPermitted
        (s\<lparr>ks_tickets := setOwn (ks_tickets s) k
           (r\<lparr>tr_status := CommitPermit, tr_commitPermittedAt := Some (ci_now i)\<rparr>)\<rparr>) p)"
      "cp_ticketId p = k" "cp_requestId p = et_requestId (tr_ticket r)"
      "cp_contractHash p = et_contractHash (tr_ticket r)" "cp_revocationEpoch p = et_revocationEpoch (tr_ticket r)"
      "cp_permittedAt p = ci_now i" "cp_budgetReservationId p = et_budgetReservationId (tr_ticket r)"
      "cp_contractRevision p = et_contractRevision (tr_ticket r)"
proof -
  have stale: "asKernelError e TicketInvalid = SafeCodingKernelError TicketStale m \<Longrightarrow> e = SafeCodingKernelError TicketStale m" for e m
    by (cases e) (auto simp: asKernelError_def kernelError_def)
  have notime: "timestampMilliseconds_kernel v label TicketInvalid \<noteq> Inl (SafeCodingKernelError TicketStale m)" for v label m
    by (auto simp: timestampMilliseconds_kernel_def bindE_eq_Inl guardE_eq_Inl kernelError_def split: option.splits)
  have noticket: "validatedTicket nfc v \<noteq> Inl (SafeCodingKernelError TicketStale m)" for v m
    by (cases "validateSafeCodingExecutionTicket nfc v")
      (auto simp: validatedTicket_def contractsCall_def asKernelError_def kernelError_def)
  show thesis
  proof (cases "bindE (timestampMilliseconds_kernel (ci_now i) ''Commit-permit time'' TicketInvalid) (\<lambda>nowMs.
           bindE (validatedTicket nfc (ci_ticket i)) (\<lambda>ticket. Inr (nowMs, ticket)))")
    case (Inl e)
    then have "e \<noteq> SafeCodingKernelError TicketStale m" for m
      using notime noticket by (auto simp: bindE_eq_Inl)
    then show ?thesis
      using Inl stale that(1) by (auto simp: commitPermitTransition_def commitFailure_def)
  next
    case (Inr x)
    then obtain t where x: "x = (timestampMilliseconds (ci_now i), t)" and now: "wf_timestamp (ci_now i)"
      and t: "validateSafeCodingExecutionTicket nfc (ci_ticket i) = Inr t"
      by (auto simp: result_simps kernel_simps)
    let ?ms = "timestampMilliseconds (ci_now i)"
    note eval = commitPermitTransition_def Inr x Let_def commitFailure_def terminalCommitFailure_def kernelError_def
    consider (none) "ownValue (ks_tickets s) (et_ticketId t) = None"
      | (some) r where "ownValue (ks_tickets s) (et_ticketId t) = Some r"
      by (cases "ownValue (ks_tickets s) (et_ticketId t)") auto
    then show ?thesis
    proof cases
      case none
      then show ?thesis
        using that(1) by (auto simp: eval)
    next
      case (some r)
      then have rec: "wf_record nfc (ownValue (ks_lineages s)) (et_ticketId t) r"
        using assms by (auto simp: kernel_inv_def)
      then have valid: "ticket_valid nfc (tr_ticket r)" "wf_timestamp (tr_registeredAt r)"
          "et_ticketId (tr_ticket r) = et_ticketId t"
        by (auto simp: wf_record_def)
      have same: "sameTicket nfc (tr_ticket r) t \<longleftrightarrow> tr_ticket r = t"
        using valid(1) validated_ticket_valid [OF t] by (rule sameTicket_iff)
      have stamps: "timestampMilliseconds_kernel (tr_registeredAt r) label code = Inr (timestampMilliseconds (tr_registeredAt r))"
          "timestampMilliseconds_kernel (et_issuedAt t) label code = Inr (timestampMilliseconds (et_issuedAt t))"
          "timestampMilliseconds_kernel (et_expiresAt t) label code = Inr (timestampMilliseconds (et_expiresAt t))" for label code
        using ticket_stamps [OF validated_ticket_valid [OF t]] valid(2) by (simp_all add: timestamp_kernel_Inr)
      have self: "sameTicket nfc t t"
        using validated_ticket_valid [OF t] by (simp add: sameTicket_iff)
      note run = eval some same self stamps
      consider (other) "tr_ticket r \<noteq> t" | (used) "tr_ticket r = t" "tr_status r = CommitPermit"
        | (closed) "tr_ticket r = t" "tr_status r \<noteq> Registered" "tr_status r \<noteq> CommitPermit"
        | (early) "tr_ticket r = t" "tr_status r = Registered"
            "?ms < timestampMilliseconds (tr_registeredAt r) \<or> ?ms < timestampMilliseconds (et_issuedAt t)"
        | (late) "tr_ticket r = t" "tr_status r = Registered" "timestampMilliseconds (tr_registeredAt r) \<le> ?ms"
            "timestampMilliseconds (et_issuedAt t) \<le> ?ms" "timestampMilliseconds (et_expiresAt t) \<le> ?ms"
        | (ready) "tr_ticket r = t" "tr_status r = Registered" "timestampMilliseconds (tr_registeredAt r) \<le> ?ms"
            "timestampMilliseconds (et_issuedAt t) \<le> ?ms" "?ms < timestampMilliseconds (et_expiresAt t)"
        by linarith
      then show ?thesis
      proof cases
        case other
        show ?thesis by (rule that(1), simp add: run other, simp)
      next
        case used
        show ?thesis by (rule that(1), simp add: run used, simp)
      next
        case closed
        show ?thesis by (rule that(1), simp add: run closed, simp)
      next
        case early
        show ?thesis
          by (rule that(1) [of "kError TicketInvalid ''Commit permit cannot precede ticket issuance or registration''"])
            (use early in \<open>auto simp: run\<close>)
      next
        case late
        show ?thesis
          by (rule that(2) [OF some late(2), of "kernelError TicketExpired
              (js ''Execution ticket '' @ et_ticketId t @ js '' expired before commit permit'')"])
            (use late in \<open>auto simp: run\<close>)
      next
        case ready
        then obtain l where l: "ownValue (ks_lineages s) (tr_contractId r) = Some l"
            "ticketMatchesActiveLineage t l ?ms = Inr True" "live t l"
          using live_matches [OF assms some, of ?ms] by auto
        show ?thesis
          by (rule that(3) [OF some ready(2) now _ l(1), of
              "\<lparr>cp_ticketId = et_ticketId t, cp_requestId = et_requestId t,
                cp_contractHash = et_contractHash t, cp_contractRevision = et_contractRevision t,
                cp_revocationEpoch = et_revocationEpoch t,
                cp_budgetReservationId = et_budgetReservationId t, cp_permittedAt = ci_now i\<rparr>"])
            (use ready l t in \<open>auto simp: run\<close>)
      qed
    qed
  qed
qed

lemma fail_shape:
  assumes "failBeforeCommitTransition nfc s i = Inr s'"
  obtains r reason where "ownValue (ks_tickets s) (fi_ticketId i) = Some r" "tr_status r = Registered"
    "timestampMilliseconds (tr_registeredAt r) \<le> timestampMilliseconds (fi_now i)"
    "s' = s\<lparr>ks_tickets := setOwn (ks_tickets s) (fi_ticketId i) (failedRecord r (fi_now i) reason)\<rparr>"
  using assms unfolding failBeforeCommitTransition_def
  by (auto simp: result_simps kernel_simps not_less split: option.splits)

definition settledRecord :: "ticket_record \<Rightarrow> ticket_status \<Rightarrow> settle_input \<Rightarrow> jstr option \<Rightarrow> ticket_record" where
  "settledRecord r status i reason =
     r\<lparr>tr_status := status, tr_terminalAt := Some (si_now i), tr_terminalReason := reason,
       tr_resultHash := si_resultHash i\<rparr>"

lemma settle_shape:
  assumes "settleTicketTransition nfc s i = Inr s'"
  obtains r status reason where "ownValue (ks_tickets s) (si_ticketId i) = Some r" "tr_status r = CommitPermit"
    "settlementStatus (si_status i) = Some status" "pred_option SHA256_PATTERN (si_resultHash i)"
    "\<exists>p. tr_commitPermittedAt r = Some p \<and> timestampMilliseconds p \<le> timestampMilliseconds (si_now i)"
    "s' = s\<lparr>ks_tickets := setOwn (ks_tickets s) (si_ticketId i) (settledRecord r status i reason)\<rparr>"
  using assms unfolding settleTicketTransition_def
  by (auto simp: result_simps kernel_simps not_less settledRecord_def split: option.splits if_splits)

section \<open>Every transition keeps the invariant\<close>

lemma id_index_update:
  assumes "id_index f index ts" "ts k = Some r" "tr_ticket r' = tr_ticket r"
  shows "id_index f index (ts(k \<mapsto> r'))"
  using assms unfolding id_index_def by (auto split: if_splits)

lemma id_index_fresh:
  assumes "id_index f index ts" "ts k = None" "index (f (tr_ticket r)) = None"
  shows "id_index f (index(f (tr_ticket r) \<mapsto> k)) (ts(k \<mapsto> r))"
proof -
  have "f (tr_ticket r') \<noteq> f (tr_ticket r)" if "ts k' = Some r'" for k' r'
    using assms that unfolding id_index_def by (metis option.distinct(1))
  then show ?thesis
    using assms unfolding id_index_def by auto
qed

lemma ownValue_setOwn_map: "ownValue (setOwn d k v) = (ownValue d)(k \<mapsto> v)"
  by (rule ext) simp

lemma inv_update_ticket:
  assumes "kernel_inv nfc s" "ownValue (ks_tickets s) k = Some r"
    and "tr_ticket r' = tr_ticket r" "tr_contractId r' = tr_contractId r"
    and "tr_reservedCharge r' = tr_reservedCharge r" "tr_registeredAt r' = tr_registeredAt r"
    and "pred_option wf_timestamp (tr_commitPermittedAt r')" "life_cycle r'" "tr_status r' \<noteq> Registered"
  shows "kernel_inv nfc (s\<lparr>ks_tickets := setOwn (ks_tickets s) k r'\<rparr>)"
proof -
  have "wf_record nfc (ownValue (ks_lineages s)) k r"
    using assms(1,2) by (auto simp: kernel_inv_def)
  then have "wf_record nfc (ownValue (ks_lineages s)) k r'"
    using assms(3-9) by (auto simp: wf_record_def)
  moreover have "id_index f index (ownValue (setOwn (ks_tickets s) k r'))"
    if "id_index f index (ownValue (ks_tickets s))" for f index
    unfolding ownValue_setOwn_map by (rule id_index_update [OF that assms(2,3)])
  ultimately show ?thesis
    using assms(1,2,4,5)
    by (auto simp: kernel_inv_def budget_conserved_def reserved_update split: if_splits)
qed

lemma inv_record:
  "kernel_inv nfc s \<Longrightarrow> ownValue (ks_tickets s) k = Some r \<Longrightarrow> wf_record nfc (ownValue (ks_lineages s)) k r"
  by (auto simp: kernel_inv_def)

lemma inv_fail:
  assumes "kernel_inv nfc s" "ownValue (ks_tickets s) k = Some r"
  shows "kernel_inv nfc (s\<lparr>ks_tickets := setOwn (ks_tickets s) k (failedRecord r now reason)\<rparr>)"
  using inv_record [OF assms]
  by (intro inv_update_ticket [OF assms]) (auto simp: failedRecord_def wf_record_def life_cycle_def)

lemma inv_settle:
  assumes "kernel_inv nfc s" "ownValue (ks_tickets s) k = Some r" "tr_status r = CommitPermit"
    "isKernelTerminalTicketStatus status"
  shows "kernel_inv nfc (s\<lparr>ks_tickets := setOwn (ks_tickets s) k (settledRecord r status i reason)\<rparr>)"
proof -
  have "tr_commitPermittedAt r \<noteq> None" "pred_option wf_timestamp (tr_commitPermittedAt r)"
    using inv_record [OF assms(1,2)] assms(3) by (auto simp: wf_record_def life_cycle_def)
  then show ?thesis
    using assms(4)
    by (intro inv_update_ticket [OF assms(1,2)])
      (auto simp: settledRecord_def life_cycle_def isKernelTerminalTicketStatus_def)
qed

lemma inv_permit:
  assumes "kernel_inv nfc s" "ownValue (ks_tickets s) k = Some r" "tr_status r = Registered" "wf_timestamp now"
  shows "kernel_inv nfc (s\<lparr>ks_tickets := setOwn (ks_tickets s) k
    (r\<lparr>tr_status := CommitPermit, tr_commitPermittedAt := Some now\<rparr>)\<rparr>)"
  using inv_record [OF assms(1,2)] assms(3,4)
  by (intro inv_update_ticket [OF assms(1,2)]) (auto simp: wf_record_def life_cycle_def)

lemma wf_record_failIn:
  assumes "wf_record nfc ls k r" "ls cid = Some l"
  shows "wf_record nfc (ls(cid \<mapsto> l')) k (failIn cid now reason r)"
  using assms by (auto simp: wf_record_def failIn_def failedRecord_def life_cycle_def)

lemma id_index_map:
  assumes "id_index f index (ownValue ts)"
  shows "id_index f index (\<lambda>k. map_option (failIn cid now reason) (ownValue ts k))"
  using assms by (auto simp: id_index_def)

lemma inv_end_authority:
  assumes "kernel_inv nfc s" "ownValue (ks_lineages s) cid = Some l" "wf_lineage nfc cid l'" "cl_budget l' = cl_budget l"
  shows "kernel_inv nfc (s\<lparr>ks_lineages := setOwn (ks_lineages s) cid l',
    ks_tickets := failRegisteredTickets (ks_tickets s) cid now reason\<rparr>)"
proof -
  have "ownValue (failRegisteredTickets (ks_tickets s) cid now reason) =
      (\<lambda>k. map_option (failIn cid now reason) (ownValue (ks_tickets s) k))"
    by (rule ext) simp
  moreover have "wf_record nfc ((ownValue (ks_lineages s))(cid \<mapsto> l')) k r'"
    if "map_option (failIn cid now reason) (ownValue (ks_tickets s) k) = Some r'" for k r'
    using that inv_record [OF assms(1), of k] assms(2) by (auto intro!: wf_record_failIn)
  ultimately show ?thesis
    using assms unfolding kernel_inv_def
    by (auto simp: ownValue_setOwn_map budget_conserved_def id_index_map split: if_splits)
qed

lemma wf_endRevision:
  "wf_revision nfc cid r \<Longrightarrow> status \<noteq> Active \<Longrightarrow> wf_revision nfc cid (endRevision r status now reason)"
  "wf_revision nfc cid r \<Longrightarrow> wf_revision nfc cid (r\<lparr>rr_revocationEpoch := e\<rparr>)"
  by (simp_all add: wf_revision_def endRevision_def)

text \<open>Ending the current revision keeps the numbers, the hashes and the chain of the lineage.\<close>

lemma endCurrent_simps:
  assumes "\<And>r. rr_revision (f r) = rr_revision r" "\<And>r. rr_contractHash (f r) = rr_contractHash r"
    "\<And>r. rr_previousRevisionHash (f r) = rr_previousRevisionHash r" "cl_revisions l \<noteq> []"
  shows "map rr_revision (endCurrent l f) = map rr_revision (cl_revisions l)"
    "map (Some \<circ> rr_contractHash) (endCurrent l f) = map (Some \<circ> rr_contractHash) (cl_revisions l)"
    "map (Some \<circ> rr_contractHash) (butlast (endCurrent l f)) = map (Some \<circ> rr_contractHash) (butlast (cl_revisions l))"
    "map rr_previousRevisionHash (endCurrent l f) = map rr_previousRevisionHash (cl_revisions l)"
    "length (endCurrent l f) = length (cl_revisions l)" "endCurrent l f \<noteq> []" "last (endCurrent l f) = f (current l)"
  using assms by (auto simp: endCurrent_def map_butlast [symmetric] last_map)

lemma map_contract_endCurrent:
  "(\<And>r. rr_contract (f r) = rr_contract r) \<Longrightarrow>
   map rr_contract (endCurrent l f) = map rr_contract (cl_revisions l)"
  by (simp add: endCurrent_def)

lemma endCurrent_inactive:
  assumes "wf_lineage nfc cid l" "\<And>r. rr_status (f r) \<noteq> Active"
  shows "list_all (\<lambda>r. rr_status r \<noteq> Active) (endCurrent l f)"
proof -
  have ne: "cl_revisions l \<noteq> []" and idle: "list_all (\<lambda>r. rr_status r \<noteq> Active) (butlast (cl_revisions l))"
    using assms(1) by (simp_all add: wf_lineage_def)
  have "set (cl_revisions l) = insert (current l) (set (butlast (cl_revisions l)))"
    using arg_cong [OF append_butlast_last_id [OF ne], of set] by simp
  then show ?thesis
    using idle assms(2) by (auto simp: endCurrent_def list_all_iff)
qed

lemma current_revision_number:
  assumes "wf_lineage nfc cid l"
  shows "rr_revision (current l) = int (length (cl_revisions l))"
proof -
  have "cl_revisions l \<noteq> []"
    and "map rr_revision (cl_revisions l) = map (\<lambda>i. 1 + int i) [0..<length (cl_revisions l)]"
    using assms by (simp_all add: wf_lineage_def)
  then show ?thesis
    by (cases "cl_revisions l" rule: rev_cases) auto
qed

lemma wf_firstLineage:
  assumes "contract_valid nfc c" "ic_revision c = 1" "wf_timestamp now" "SHA256_PATTERN h"
  shows "wf_lineage nfc (ic_contractId c) (firstLineage c h now)"
proof -
  have "ic_previousRevisionHash c = None"
    using assms(1,2) by (simp add: contract_valid_def wf_contract_def)
  then show ?thesis
    using assms by (simp add: wf_lineage_def firstLineage_def wf_revision_def MAX_SAFE_INTEGER_def)
qed

lemma wf_nextLineage:
  assumes wf: "wf_lineage nfc (ic_contractId c) l" and "rr_status (current l) = Active"
    and "contract_valid nfc c" "ic_revision c = rr_revision (current l) + 1"
    and "ic_previousRevisionHash c = Some (rr_contractHash (current l))"
    and "wf_timestamp now" "SHA256_PATTERN h" "cl_revocationEpoch l < MAX_SAFE_INTEGER"
  shows "wf_lineage nfc (ic_contractId c) (nextLineage l c h now reason)"
proof -
  let ?f = "\<lambda>r. endRevision r Superseded now reason"
  have ne: "cl_revisions l \<noteq> []"
    using wf by (simp add: wf_lineage_def)
  have f: "rr_revision (?f r) = rr_revision r" "rr_contractHash (?f r) = rr_contractHash r"
    "rr_previousRevisionHash (?f r) = rr_previousRevisionHash r" "rr_status (?f r) \<noteq> Active" for r
    by (simp_all add: endRevision_def)
  note ends = endCurrent_simps [of ?f, OF f(1-3) ne]
  have "map (Some \<circ> rr_contractHash) (cl_revisions l) =
      map (Some \<circ> rr_contractHash) (butlast (cl_revisions l)) @ [Some (rr_contractHash (current l))]"
    using arg_cong [OF append_butlast_last_id [OF ne], of "map (Some \<circ> rr_contractHash)"] by simp
  then have chain: "map rr_previousRevisionHash (endCurrent l ?f) @ [Some (rr_contractHash (current l))] =
      None # map (Some \<circ> rr_contractHash) (endCurrent l ?f)"
    using wf ends by (simp add: wf_lineage_def)
  have "list_all (wf_revision nfc (ic_contractId c)) (endCurrent l ?f)"
    using wf wf_endRevision(1) [of nfc "ic_contractId c"] by (auto simp: wf_lineage_def endCurrent_def list_all_iff)
  then show ?thesis
    using assms chain ends endCurrent_inactive [OF wf, of ?f, OF f(4)] current_revision_number [OF wf]
    unfolding wf_lineage_def nextLineage_def
    by (simp add: wf_revision_def)
qed

lemma wf_revokedLineage:
  assumes wf: "wf_lineage nfc cid l" and "rr_status (current l) = Active" "cl_revocationEpoch l < MAX_SAFE_INTEGER"
  shows "wf_lineage nfc cid (revokedLineage l now reason)"
proof -
  define g where "g = (\<lambda>r. (endRevision r Revoked now reason)\<lparr>rr_revocationEpoch := cl_revocationEpoch l + 1\<rparr>)"
  have eq: "revokedLineage l now reason =
      l\<lparr>cl_revocationEpoch := cl_revocationEpoch l + 1, cl_revisions := endCurrent l g\<rparr>"
    by (simp add: revokedLineage_def g_def)
  have ne: "cl_revisions l \<noteq> []"
    using wf by (simp add: wf_lineage_def)
  have f: "rr_revision (g r) = rr_revision r" "rr_contractHash (g r) = rr_contractHash r"
    "rr_previousRevisionHash (g r) = rr_previousRevisionHash r" "rr_status (g r) = Revoked" for r
    by (simp_all add: endRevision_def g_def)
  note ends = endCurrent_simps [of g, OF f(1-3) ne]
  have "list_all (wf_revision nfc cid) (endCurrent l g)"
    using wf wf_endRevision [of nfc cid] by (auto simp: wf_lineage_def endCurrent_def list_all_iff g_def)
  moreover have "list_all (\<lambda>r. rr_status r \<noteq> Active) (butlast (endCurrent l g))"
    using endCurrent_inactive [OF wf, of g] f(4) by (auto simp: list_all_iff dest: in_set_butlastD)
  ultimately show ?thesis
    using assms ends unfolding wf_lineage_def eq by (simp add: f)
qed

lemma reserved_none:
  assumes "kernel_inv nfc s" "ownValue (ks_lineages s) cid = None"
  shows "reserved f cid (ks_tickets s) = 0"
proof -
  have "tr_contractId r \<noteq> cid" if "(k, r) \<in> set (ks_tickets s)" for k r
  proof -
    have "ownValue (ks_tickets s) k = Some r"
      using assms(1) that by (simp add: kernel_inv_def ownValue_def)
    then show ?thesis
      using inv_record [OF assms(1), of k r] assms(2) by (auto simp: wf_record_def)
  qed
  then have "map (\<lambda>e. if tr_contractId (snd e) = cid then f (tr_reservedCharge (snd e)) else 0) (ks_tickets s) =
      map (\<lambda>_. 0) (ks_tickets s)"
    by fastforce
  then show ?thesis
    unfolding reserved_def by (simp only: sum_list_0)
qed

lemma inv_new_lineage:
  assumes "kernel_inv nfc s" "ownValue (ks_lineages s) cid = None" "wf_lineage nfc cid l"
    "cl_budget l = \<lparr>bu_modifiedObjectIds = [], bu_mutationBytes = 0, bu_testRuns = 0\<rparr>"
  shows "kernel_inv nfc (s\<lparr>ks_lineages := setOwn (ks_lineages s) cid l\<rparr>)"
proof -
  have "wf_record nfc ((ownValue (ks_lineages s))(cid \<mapsto> l)) k r" if "ownValue (ks_tickets s) k = Some r" for k r
    using inv_record [OF assms(1) that] assms(2) by (auto simp: wf_record_def)
  moreover have "wf_budget (cl_budget l)" "budget_conserved cid (cl_budget l) (ks_tickets s)"
    using reserved_none [OF assms(1,2)] by (simp_all add: assms(4) wf_budget_def budget_conserved_def safe_int_def MAX_SAFE_INTEGER_def)
  ultimately show ?thesis
    using assms(1,3) by (auto simp: kernel_inv_def ownValue_setOwn_map split: if_splits)
qed

lemma wf_chargedBudget:
  assumes "wf_budget (cl_budget l)" "wf_charge c"
    "safe_int (bu_mutationBytes (chargedBudget l t c))" "safe_int (bu_testRuns (chargedBudget l t c))"
  shows "wf_budget (chargedBudget l t c)"
  using assms by (auto simp: wf_budget_def chargedBudget_def newObject_def wf_charge_def)

lemma wf_lineage_budget [simp]: "wf_lineage nfc cid (l\<lparr>cl_budget := b\<rparr>) = wf_lineage nfc cid l"
  by (simp add: wf_lineage_def)

lemma live_budget [simp]: "live t (l\<lparr>cl_budget := b\<rparr>) = live t l"
  by (simp add: live_def)

lemma inv_register:
  assumes inv: "kernel_inv nfc s" and l: "ownValue (ks_lineages s) cid = Some l"
    and t: "ticket_valid nfc t" "live t l" "wf_timestamp now" "wf_charge c"
    and fresh: "ownValue (ks_tickets s) (et_ticketId t) = None" "ownValue (ks_requestIds s) (et_requestId t) = None"
      "ownValue (ks_reservationIds s) (et_budgetReservationId t) = None"
    and safe: "safe_int (bu_mutationBytes (chargedBudget l t c))" "safe_int (bu_testRuns (chargedBudget l t c))"
  shows "kernel_inv nfc (s\<lparr>ks_lineages := setOwn (ks_lineages s) cid (l\<lparr>cl_budget := chargedBudget l t c\<rparr>),
       ks_tickets := setOwn (ks_tickets s) (et_ticketId t) (newRecord l t c cid now),
       ks_requestIds := setOwn (ks_requestIds s) (et_requestId t) (et_ticketId t),
       ks_reservationIds := setOwn (ks_reservationIds s) (et_budgetReservationId t) (et_ticketId t)\<rparr>)"
proof -
  let ?r = "newRecord l t c cid now" and ?l = "l\<lparr>cl_budget := chargedBudget l t c\<rparr>"
  have old: "wf_lineage nfc cid l" "wf_budget (cl_budget l)" "budget_conserved cid (cl_budget l) (ks_tickets s)"
    using inv l by (auto simp: kernel_inv_def)
  have conserved: "budget_conserved cid (chargedBudget l t c) (setOwn (ks_tickets s) (et_ticketId t) ?r)"
    using old(3) by (simp add: budget_conserved_def reserved_fresh [OF fresh(1)])
      (simp add: newRecord_def chargedBudget_def)
  have others: "budget_conserved cid' b (setOwn (ks_tickets s) (et_ticketId t) ?r) = budget_conserved cid' b (ks_tickets s)"
    if "cid' \<noteq> cid" for cid' b
    using that by (simp add: budget_conserved_def reserved_fresh [OF fresh(1)] newRecord_def)
  have new: "wf_record nfc ((ownValue (ks_lineages s))(cid \<mapsto> ?l)) (et_ticketId t) ?r"
    using t by (auto simp: wf_record_def newRecord_def life_cycle_def wf_charge_def safe_int_def MAX_SAFE_INTEGER_def)
  have kept: "wf_record nfc ((ownValue (ks_lineages s))(cid \<mapsto> ?l)) k r" if "ownValue (ks_tickets s) k = Some r" for k r
    using inv_record [OF inv that] l by (auto simp: wf_record_def)
  have index: "id_index f ((ownValue index)(f t \<mapsto> et_ticketId t)) ((ownValue (ks_tickets s))(et_ticketId t \<mapsto> ?r))"
    if "id_index f (ownValue index) (ownValue (ks_tickets s))" "ownValue index (f t) = None" for f index
    using id_index_fresh [OF that(1) fresh(1), of ?r] that(2) by (simp add: newRecord_def)
  show ?thesis
    using inv old(1) wf_chargedBudget [OF old(2) t(4) safe] conserved others new kept
      index [of et_requestId "ks_requestIds s"] index [of et_budgetReservationId "ks_reservationIds s"] fresh
    unfolding kernel_inv_def by (auto simp: ownValue_setOwn_map split: if_splits)
qed

section \<open>Steps and reachable states\<close>

inductive kernel_step :: "(jstr \<Rightarrow> jstr) \<Rightarrow> kernel_state \<Rightarrow> kernel_state \<Rightarrow> bool" for nfc where
  activate: "activateContractTransition nfc s a = Inr t \<Longrightarrow> kernel_step nfc s t"
| revoke: "revokeContractTransition nfc s v = Inr t \<Longrightarrow> kernel_step nfc s t"
| register: "registerTicketTransition nfc s g = Inr t \<Longrightarrow> kernel_step nfc s t"
| commit: "commitPermitTransition nfc s c = Inr r \<Longrightarrow> kernel_step nfc s (cr_state r)"
| fail: "failBeforeCommitTransition nfc s f = Inr t \<Longrightarrow> kernel_step nfc s t"
| settle: "settleTicketTransition nfc s e = Inr t \<Longrightarrow> kernel_step nfc s t"

inductive_cases kernel_stepE: "kernel_step nfc s t"

definition kernel_init :: "kernel_state \<Rightarrow> bool" where
  "kernel_init s \<longleftrightarrow> s = createEmptySafeCodingKernelState"

lemma kernel_inv_init: "kernel_inv nfc createEmptySafeCodingKernelState"
  by (simp add: kernel_inv_def createEmptySafeCodingKernelState_def id_index_def)

text \<open>A step leaves the state alone, ends the authority of a lineage, opens one, registers a ticket, or
  moves one ticket forward. The invariant and everything about runs is proved by these cases.\<close>

lemma kernel_step_cases:
  assumes "kernel_step nfc s s'" "kernel_inv nfc s"
  obtains (same) "s' = s"
  | (opened) cid c h now where "ownValue (ks_lineages s) cid = None" "cid = ic_contractId c"
      "wf_lineage nfc cid (firstLineage c h now)"
      "s' = s\<lparr>ks_lineages := setOwn (ks_lineages s) cid (firstLineage c h now)\<rparr>"
  | (ended) cid l l' now reason where "ownValue (ks_lineages s) cid = Some l" "rr_status (current l) = Active"
      "wf_lineage nfc cid l'" "cl_budget l' = cl_budget l" "cl_revocationEpoch l' = cl_revocationEpoch l + 1"
      "(\<exists>c. map rr_contract (cl_revisions l') = map rr_contract (cl_revisions l) @ [c] \<and> rr_status (current l') = Active) \<or>
       (map rr_contract (cl_revisions l') = map rr_contract (cl_revisions l) \<and> rr_status (current l') = Revoked)"
      "s' = s\<lparr>ks_lineages := setOwn (ks_lineages s) cid l',
        ks_tickets := failRegisteredTickets (ks_tickets s) cid now reason\<rparr>"
  | (registered) cid l t c now where "ownValue (ks_lineages s) cid = Some l" "ticket_valid nfc t" "live t l"
      "wf_timestamp now" "wf_charge c" "ownValue (ks_tickets s) (et_ticketId t) = None"
      "ownValue (ks_requestIds s) (et_requestId t) = None"
      "ownValue (ks_reservationIds s) (et_budgetReservationId t) = None"
      "safe_int (bu_mutationBytes (chargedBudget l t c))" "safe_int (bu_testRuns (chargedBudget l t c))"
      "within_limits (chargedBudget l t c) (au_limits (ic_authority (rr_contract (current l))))"
      "s' = s\<lparr>ks_lineages := setOwn (ks_lineages s) cid (l\<lparr>cl_budget := chargedBudget l t c\<rparr>),
         ks_tickets := setOwn (ks_tickets s) (et_ticketId t) (newRecord l t c cid now),
         ks_requestIds := setOwn (ks_requestIds s) (et_requestId t) (et_ticketId t),
         ks_reservationIds := setOwn (ks_reservationIds s) (et_budgetReservationId t) (et_ticketId t)\<rparr>"
  | (failed) k r now reason where "ownValue (ks_tickets s) k = Some r" "tr_status r = Registered"
      "s' = s\<lparr>ks_tickets := setOwn (ks_tickets s) k (failedRecord r now reason)\<rparr>"
  | (permitted) k r l now where "ownValue (ks_tickets s) k = Some r" "tr_status r = Registered" "wf_timestamp now"
      "ownValue (ks_lineages s) (tr_contractId r) = Some l" "live (tr_ticket r) l"
      "s' = s\<lparr>ks_tickets := setOwn (ks_tickets s) k
        (r\<lparr>tr_status := CommitPermit, tr_commitPermittedAt := Some now\<rparr>)\<rparr>"
  | (settled) k r status i reason where "ownValue (ks_tickets s) k = Some r" "tr_status r = CommitPermit"
      "isKernelTerminalTicketStatus status"
      "s' = s\<lparr>ks_tickets := setOwn (ks_tickets s) k (settledRecord r status i reason)\<rparr>"
  using assms(1)
proof cases
  case (activate a)
  from activate assms(2) show ?thesis
  proof (cases rule: activate_shape)
    case (new c)
    then show ?thesis
      using wf_firstLineage by (intro opened [OF _ refl]) auto
  next
    case (next_revision c l reason)
    then have wf: "wf_lineage nfc (ic_contractId c) l"
      using assms(2) by (auto simp: kernel_inv_def)
    show ?thesis
      by (rule ended [OF next_revision(4,5) wf_nextLineage [OF wf next_revision(5,1,6,7,2,3,9)] _ _ _ next_revision(10)])
        (simp_all add: nextLineage_def map_contract_endCurrent endRevision_def)
  qed
next
  case (revoke v)
  from revoke assms(2) show ?thesis
  proof (cases rule: revoke_shape)
    case (1 l reason)
    then have wf: "wf_lineage nfc (ri_contractId v) l"
      using assms(2) by (auto simp: kernel_inv_def)
    show ?thesis
      by (rule ended [OF 1(2,3) wf_revokedLineage [OF wf 1(3,4)] _ _ _ 1(5)])
        (use wf in \<open>simp_all add: revokedLineage_def map_contract_endCurrent endCurrent_simps endRevision_def wf_lineage_def\<close>)
  qed
next
  case (register g)
  from register assms(2) show ?thesis
    by (cases rule: register_shape) (rule registered; assumption)
next
  case (commit c r)
  from assms(2) show ?thesis
    by (cases rule: commit_shape [of nfc s c])
      (use commit in \<open>auto intro: same failed permitted\<close>)
next
  case (fail f)
  then show ?thesis
    by (cases rule: fail_shape) (rule failed; assumption)
next
  case (settle e)
  then show ?thesis
    by (cases rule: settle_shape) (rule settled; (assumption | rule settlementStatus_terminal))
qed

lemma kernel_inv_step:
  assumes "kernel_inv nfc s" "kernel_step nfc s s'"
  shows "kernel_inv nfc s'"
  using assms(2,1)
proof (cases rule: kernel_step_cases)
  case (opened cid c h now)
  then show ?thesis
    using inv_new_lineage [OF assms(1)] by (simp add: firstLineage_def)
next
  case (ended cid l l' now reason)
  then show ?thesis
    using inv_end_authority [OF assms(1)] by simp
next
  case (registered cid l t c now)
  then show ?thesis
    using inv_register [OF assms(1)] by simp
qed (use assms(1) inv_fail inv_permit inv_settle in auto)

interpretation kernel: invariant_system kernel_init "kernel_step nfc" "kernel_inv nfc" for nfc
  by unfold_locales (auto simp: kernel_init_def kernel_inv_init intro: kernel_inv_step)

end
