(* ===== verification/Kernel_Samples.thy ===== *)
theory Kernel_Samples
  imports Kernel_Invariants
begin

text \<open>
  A concrete run of the kernel: the sample contract is activated, a ticket is registered under it, its
  commit permit is issued and the lineage is revoked. The witnesses of the kernel properties are
  evaluated on it.
\<close>

definition sample_now :: jstr where
  "sample_now = js ''2026-01-01T00:00:00Z''"

definition sample_cid :: jstr where
  "sample_cid = ic_contractId sample_contract"

definition sample_ticket :: execution_ticket where
  "sample_ticket =
     \<lparr>et_ticketId = js ''00000000-0000-4000-8000-000000000002'', et_requestId = js ''r1'',
      et_contractHash = sample_digest, et_contractRevision = 1, et_subject = ic_subject sample_contract,
      et_audience = ic_audience sample_contract, et_actionHash = sample_digest,
      et_argumentsHash = sample_digest, et_resolvedObjectId = js ''o1'',
      et_stateCommitmentHash = sample_digest, et_adapterId = js ''ad'', et_adapterDigest = sample_digest,
      et_policyDigest = sample_digest, et_registryDigest = sample_digest,
      et_runnerRegistryDigest = sample_digest, et_effectRegistryDigest = sample_digest,
      et_effectClass = LocalReversible, et_revocationEpoch = 0, et_budgetReservationId = js ''b1'',
      et_nonce = js ''AAAAAAAAAAAAAAAAAAAAAA'', et_issuedAt = js ''2026-01-01T00:00:00Z'',
      et_expiresAt = js ''2026-01-02T00:00:00.500Z''\<rparr>"

definition sample_charge :: kernel_charge where
  "sample_charge = \<lparr>kc_uniqueModifiedFiles = JInt 1, kc_mutationBytes = JInt 40, kc_testRuns = JInt 0\<rparr>"

definition sample_activate :: activate_input where
  "sample_activate =
     \<lparr>ai_contract = contract_json sample_contract, ai_canonicalPayload = contract_text sample_contract,
      ai_contractHash = sample_digest, ai_expectedPrevious = None, ai_now = sample_now\<rparr>"

definition sample_register :: register_input where
  "sample_register =
     \<lparr>gi_ticket = ticket_json sample_ticket,
      gi_expectedActive = \<lparr>as_contractId = sample_cid, as_contractHash = sample_digest, as_revision = 1,
        as_revocationEpoch = 0, as_status = Active\<rparr>,
      gi_limits = Some (au_limits (ic_authority sample_contract)), gi_charge = Some sample_charge,
      gi_now = sample_now\<rparr>"

definition sample_commit :: commit_input where
  "sample_commit = \<lparr>ci_ticket = ticket_json sample_ticket, ci_now = sample_now\<rparr>"

definition sample_revoke :: revoke_input where
  "sample_revoke =
     \<lparr>ri_contractId = sample_cid, ri_expectedActive = \<lparr>ce_contractHash = sample_digest, ce_revision = 1,
        ce_revocationEpoch = 0\<rparr>, ri_now = sample_now, ri_reason = JUndefined\<rparr>"

definition sample_lineage :: contract_lineage where
  "sample_lineage = firstLineage sample_contract sample_digest sample_now"

definition sample_activated :: kernel_state where
  "sample_activated = createEmptySafeCodingKernelState\<lparr>ks_lineages := [(sample_cid, sample_lineage)]\<rparr>"

definition sample_registered_with :: "kernel_charge \<Rightarrow> kernel_state" where
  "sample_registered_with c = sample_activated\<lparr>
     ks_lineages := [(sample_cid, sample_lineage\<lparr>cl_budget := chargedBudget sample_lineage sample_ticket c\<rparr>)],
     ks_tickets := [(et_ticketId sample_ticket, newRecord sample_lineage sample_ticket c sample_cid sample_now)],
     ks_requestIds := [(et_requestId sample_ticket, et_ticketId sample_ticket)],
     ks_reservationIds := [(et_budgetReservationId sample_ticket, et_ticketId sample_ticket)]\<rparr>"

definition sample_record :: ticket_record where
  "sample_record = newRecord sample_lineage sample_ticket sample_charge sample_cid sample_now"

definition sample_registered :: kernel_state where
  "sample_registered = sample_registered_with sample_charge"

lemma sample_ticket_wf: "wf_ticket (\<lambda>s. s) sample_ticket"
proof -
  have "encodeGroup 0 (0 # 0 # bs) = [65, 65, 65, 65]" "encodeGroup 0 [] = [65, 65]" for bs
    by (simp_all add: encodeGroup_def base64UrlAlphabet_def js_def Let_def)
  moreover have "replicate 16 (0::byte) = [0, 0, 0, 0, 0, 0, 0, 0, 0, 0, 0, 0, 0, 0, 0, 0]"
    by (simp add: numeral_eq_Suc)
  ultimately have "js ''AAAAAAAAAAAAAAAAAAAAAA'' = encodeBase64Url (replicate 16 0)"
    by (simp add: js_def)
  then have "nonce_ok (js ''AAAAAAAAAAAAAAAAAAAAAA'')"
    unfolding nonce_ok_def by (intro exI [of _ "replicate 16 0"]) simp
  moreover have "ident (\<lambda>s. s) (js ''r1'')" "ident (\<lambda>s. s) (js ''o1'')" "ident (\<lambda>s. s) (js ''ad'')"
      "ident (\<lambda>s. s) (js ''b1'')" "UUID_PATTERN (js ''00000000-0000-4000-8000-000000000002'')"
    by (simp_all add: ident_id surrogate_defs js_def IDENTIFIER_PATTERN_def UUID_PATTERN_def char_class_defs)
  ultimately show ?thesis
    by (simp add: wf_ticket_def sample_ticket_def sample_contract_def wf_subject_def wf_audience_def sample_idents
        sample_digest_ok sample_stamps counter_def safe_int_def MAX_SAFE_INTEGER_def)
qed

lemma sample_ticket_json: "canonicalizable (\<lambda>s. s) (ticket_json sample_ticket)"
proof -
  have "string_ok (\<lambda>s. s) sample_digest"
    using sample_digest_ok by (simp add: string_ok_def MAX_CANONICAL_JSON_STRING_CODE_UNITS_def)
  then show ?thesis
    unfolding ticket_json_def ticketFields_def sample_ticket_def sample_contract_def subject_json_def audience_json_def
    by (simp add: canonicalizable_def length_render_jrec separators_def jrec_measures sample_digest_quote
      spelling_def effectClasses_def EXECUTION_TICKET_KIND_def INTENT_CONTRACT_SPEC_VERSION_def
      safe_int_def MAX_SAFE_INTEGER_def jsonQuote_def quoteUnit_def string_ok_def canonical_string_def surrogate_defs
      js_def decInt_def decDigits.simps MAX_CANONICAL_JSON_STRING_CODE_UNITS_def MAX_CANONICAL_JSON_DEPTH_def
      MAX_CANONICAL_JSON_NODES_def MAX_CANONICAL_JSON_OUTPUT_CODE_UNITS_def)
qed

lemma sample_ticket_accepted:
  "validateSafeCodingExecutionTicket (\<lambda>s. s) (ticket_json sample_ticket) = Inr sample_ticket"
  by (rule ticket_complete [OF sample_ticket_wf refl sample_ticket_json])

lemma sample_time:
  "timestampMilliseconds_kernel sample_now label code = Inr 1767225600000"
  "timestampMilliseconds_kernel (js ''2026-01-02T00:00:00.500Z'') label code = Inr 1767312000500"
  using sample_stamps by (simp_all add: timestamp_kernel_Inr sample_now_def stamp_def)

lemma sample_activates:
  "activateContractTransition (\<lambda>s. s) createEmptySafeCodingKernelState sample_activate = Inr sample_activated"
proof -
  have "validateVerifiedContract (\<lambda>s. s) sample_activate = Inr (sample_contract, sample_digest)"
    using sample_contract_accepted sample_contract_valid sample_digest_ok(1)
    by (simp add: validateVerifiedContract_Inr sample_activate_def)
  moreover have "ic_revision sample_contract = 1" "ic_previousRevisionHash sample_contract = None"
    by (simp_all add: sample_contract_def)
  ultimately show ?thesis
    by (simp add: activateContractTransition_def Let_def sample_time sample_activate_def createEmptySafeCodingKernelState_def
        sample_activated_def sample_lineage_def firstLineage_def sample_cid_def setOwn_append)
qed

lemma sample_activated_inv: "kernel_inv (\<lambda>s. s) sample_activated"
  by (rule kernel_inv_step [OF kernel_inv_init kernel_step.activate [OF sample_activates]])

lemma sample_lineage_simps:
  "current sample_lineage = \<lparr>rr_contract = sample_contract, rr_contractHash = sample_digest, rr_revision = 1,
     rr_previousRevisionHash = None, rr_status = Active, rr_revocationEpoch = 0, rr_activatedAt = sample_now,
     rr_endedAt = None, rr_endReason = None\<rparr>"
  "cl_revocationEpoch sample_lineage = 0" "cl_contractId sample_lineage = sample_cid"
  "cl_currentContractHash sample_lineage = sample_digest"
  "cl_budget sample_lineage = \<lparr>bu_modifiedObjectIds = [], bu_mutationBytes = 0, bu_testRuns = 0\<rparr>"
  "currentRevision sample_lineage = Inr (current sample_lineage)"
  by (simp_all add: sample_lineage_def firstLineage_def sample_contract_def sample_cid_def currentRevision_def)

lemma sample_texts:
  "canonicalizeJson (\<lambda>s. s) (subject_json (ic_subject sample_contract)) =
     Inr (render (subject_json (ic_subject sample_contract)))"
  "canonicalizeJson (\<lambda>s. s) (audience_json (ic_audience sample_contract)) =
     Inr (render (audience_json (ic_audience sample_contract)))"
  by (simp_all add: canonicalizeJson_Inr canonicalizable_def sample_contract_def subject_json_def audience_json_def
      length_render_jrec separators_def jrec_measures jsonQuote_def quoteUnit_def string_ok_def canonical_string_def
      surrogate_defs js_def decInt_def decDigits.simps safe_int_def MAX_SAFE_INTEGER_def
      MAX_CANONICAL_JSON_STRING_CODE_UNITS_def MAX_CANONICAL_JSON_DEPTH_def MAX_CANONICAL_JSON_NODES_def
      MAX_CANONICAL_JSON_OUTPUT_CODE_UNITS_def)

lemma sample_contract_simps:
  "vld_notBefore (ic_validity sample_contract) = sample_now"
  "vld_expiresAt (ic_validity sample_contract) = js ''2026-01-02T00:00:00.500Z''"
  "ic_bindings sample_contract = \<lparr>bnd_policyDigest = sample_digest, bnd_adapterRegistryDigest = sample_digest,
     bnd_runnerRegistryDigest = sample_digest, bnd_effectRegistryDigest = sample_digest,
     bnd_approvalRendererVersion = js ''v1''\<rparr>"
  "au_allowedEffectClasses (ic_authority sample_contract) = [LocalReversible, SandboxEphemeral]"
  "au_limits (ic_authority sample_contract) =
     \<lparr>lim_maxUniqueModifiedFiles = 2, lim_maxMutationBytes = 100, lim_maxTestRuns = 1\<rparr>"
  by (simp_all add: sample_contract_def sample_now_def)

lemma sample_ticket_simps:
  "et_issuedAt sample_ticket = sample_now" "et_expiresAt sample_ticket = js ''2026-01-02T00:00:00.500Z''"
  "et_contractHash sample_ticket = sample_digest" "et_contractRevision sample_ticket = 1"
  "et_revocationEpoch sample_ticket = 0" "et_subject sample_ticket = ic_subject sample_contract"
  "et_audience sample_ticket = ic_audience sample_contract" "et_policyDigest sample_ticket = sample_digest"
  "et_registryDigest sample_ticket = sample_digest" "et_runnerRegistryDigest sample_ticket = sample_digest"
  "et_effectRegistryDigest sample_ticket = sample_digest" "et_effectClass sample_ticket = LocalReversible"
  by (simp_all add: sample_ticket_def sample_now_def)

lemma sample_registers_with:
  assumes "wf_charge c" "charged_files c = 1" "charged_bytes c = 40" "charged_runs c = 0"
  shows "registerTicketTransition (\<lambda>s. s) sample_activated (sample_register\<lparr>gi_charge := Some c\<rparr>) =
    Inr (sample_registered_with c)"
proof -
  have tk: "validatedTicket (\<lambda>s. s) (ticket_json sample_ticket) = Inr sample_ticket"
    using sample_ticket_accepted by (simp add: validatedTicket_Inr)
  have charge: "validatedCharge (Some c) = Inr c"
    using assms(1) by (simp add: validatedCharge_Inr)
  have binds: "assertTicketBindsContract (\<lambda>s. s) sample_ticket (current sample_lineage) 0 = Inr ()"
    by (simp add: assertTicketBindsContract_def sample_lineage_simps sample_ticket_simps sample_contract_simps
        Let_def sample_texts contractsCall_def)
  have window: "assertContractUsableAt sample_contract 1767225600000 = Inr ()"
    "assertTicketTimeWindow sample_ticket sample_contract 1767225600000 = Inr ()"
    by (simp_all add: assertContractUsableAt_def assertTicketTimeWindow_def sample_contract_simps sample_ticket_simps sample_time)
  have snap: "assertActiveSnapshotMatches sample_lineage (current sample_lineage)
      \<lparr>as_contractId = sample_cid, as_contractHash = sample_digest, as_revision = 1, as_revocationEpoch = 0,
       as_status = Active\<rparr> = Inr ()"
    by (simp add: assertActiveSnapshotMatches_Inr sample_lineage_simps)
  have state: "ks_lineages sample_activated = [(sample_cid, sample_lineage)]" "ks_tickets sample_activated = []"
    "ks_requestIds sample_activated = []" "ks_reservationIds sample_activated = []"
    by (simp_all add: sample_activated_def createEmptySafeCodingKernelState_def)
  have own: "ownValue [(sample_cid, sample_lineage)] sample_cid = Some sample_lineage"
    by (simp add: ownValue_def)
  note checks = binds [unfolded sample_lineage_simps(1)] window snap [unfolded sample_lineage_simps(1)]
  show ?thesis
    unfolding registerTicketTransition_def sample_register_def
    by (simp add: sample_time tk state own sample_lineage_simps checks charge assertLimitsMatch_def hasOwn_def Let_def
        safeAddBudget_def assms sample_contract_simps safe_int_def MAX_SAFE_INTEGER_def
        sample_registered_with_def newRecord_def chargedBudget_def newObject_def setOwn_def)
qed

lemma sample_registers:
  "registerTicketTransition (\<lambda>s. s) sample_activated sample_register = Inr sample_registered"
  using sample_registers_with [of sample_charge]
  by (simp add: wf_charge_def sample_charge_def safe_int_def MAX_SAFE_INTEGER_def sample_register_def sample_registered_def)

lemma sample_registered_inv: "kernel_inv (\<lambda>s. s) sample_registered"
  by (rule kernel_inv_step [OF sample_activated_inv kernel_step.register [OF sample_registers]])

definition sample_permit :: commit_permit where
  "sample_permit =
     \<lparr>cp_ticketId = et_ticketId sample_ticket, cp_requestId = et_requestId sample_ticket,
      cp_contractHash = sample_digest, cp_contractRevision = 1, cp_revocationEpoch = 0,
      cp_budgetReservationId = et_budgetReservationId sample_ticket, cp_permittedAt = sample_now\<rparr>"

definition sample_permitted :: kernel_state where
  "sample_permitted = sample_registered\<lparr>ks_tickets := [(et_ticketId sample_ticket,
     sample_record\<lparr>tr_status := CommitPermit, tr_commitPermittedAt := Some sample_now\<rparr>)]\<rparr>"

lemma sample_record_simps:
  "tr_ticket sample_record = sample_ticket" "tr_contractId sample_record = sample_cid"
  "tr_status sample_record = Registered" "tr_registeredAt sample_record = sample_now"
  by (simp_all add: sample_record_def newRecord_def)

lemma sample_registered_simps:
  "ownValue (ks_tickets sample_registered) (et_ticketId sample_ticket) = Some sample_record"
  "ownValue (ks_lineages sample_registered) sample_cid =
     Some (sample_lineage\<lparr>cl_budget := chargedBudget sample_lineage sample_ticket sample_charge\<rparr>)"
  "setOwn (ks_tickets sample_registered) (et_ticketId sample_ticket) r = [(et_ticketId sample_ticket, r)]"
  by (simp_all add: sample_registered_def sample_registered_with_def sample_record_def ownValue_def setOwn_def)

lemma sample_commits:
  "commitPermitTransition (\<lambda>s. s) sample_registered sample_commit = Inr (CommitPermitted sample_permitted sample_permit)"
proof -
  have tk: "validatedTicket (\<lambda>s. s) (ticket_json sample_ticket) = Inr sample_ticket"
    using sample_ticket_accepted by (simp add: validatedTicket_Inr)
  have same: "sameTicket (\<lambda>s. s) sample_ticket sample_ticket"
    using sample_ticket_wf sample_ticket_json by (simp add: sameTicket_iff ticket_valid_def)
  have live: "ticketMatchesActiveLineage sample_ticket
      (sample_lineage\<lparr>cl_budget := chargedBudget sample_lineage sample_ticket sample_charge\<rparr>) 1767225600000 = Inr True"
    by (simp add: ticketMatchesActiveLineage_def sample_lineage_def firstLineage_def currentRevision_def
        sample_ticket_simps sample_contract_simps sample_time) (simp add: sample_contract_def)
  show ?thesis
    unfolding commitPermitTransition_def sample_commit_def
    by (simp add: sample_time tk same live sample_registered_simps sample_record_simps sample_ticket_simps
        sample_permitted_def sample_permit_def Let_def)
qed

lemma sample_permitted_inv: "kernel_inv (\<lambda>s. s) sample_permitted"
  using kernel_inv_step [OF sample_registered_inv kernel_step.commit [OF sample_commits]] by simp

definition sample_revoked :: kernel_state where
  "sample_revoked = sample_registered\<lparr>
     ks_lineages := [(sample_cid, revokedLineage (sample_lineage\<lparr>cl_budget :=
       chargedBudget sample_lineage sample_ticket sample_charge\<rparr>) sample_now (js ''Contract revoked''))],
     ks_tickets := [(et_ticketId sample_ticket, failedRecord sample_record sample_now (js ''Contract revoked''))]\<rparr>"

abbreviation (input) sample_charged :: contract_lineage where
  "sample_charged \<equiv> sample_lineage\<lparr>cl_budget := chargedBudget sample_lineage sample_ticket sample_charge\<rparr>"

lemma sample_revokes: "revokeContractTransition (\<lambda>s. s) sample_registered sample_revoke = Inr sample_revoked"
proof -
  have tickets: "failRegisteredTickets (ks_tickets sample_registered) sample_cid sample_now reason =
      [(et_ticketId sample_ticket, failedRecord sample_record sample_now reason)]" for reason
    by (simp add: failRegisteredTickets_def sample_registered_def sample_registered_with_def sample_record_def)
      (simp add: newRecord_def)
  have lineages: "setOwn (ks_lineages sample_registered) sample_cid l = [(sample_cid, l)]" for l
    by (simp add: sample_registered_def sample_registered_with_def setOwn_def)
  have cur: "currentRevision sample_charged = Inr (current sample_lineage)"
    using sample_lineage_simps(6) by (simp add: currentRevision_def split: option.splits)
  have cas: "assertCasMatches sample_charged (current sample_lineage)
      \<lparr>ce_contractHash = sample_digest, ce_revision = 1, ce_revocationEpoch = 0\<rparr> = Inr ()"
    by (simp add: assertCasMatches_Inr sample_lineage_simps)
  note checks = cur [unfolded sample_lineage_simps(1)] cas [unfolded sample_lineage_simps(1)]
  show ?thesis
    unfolding revokeContractTransition_def sample_revoke_def
    by (simp add: sample_time sample_registered_simps checks assertNotBefore_def optionalReason_def
        safeIncrement_def safe_int_def MAX_SAFE_INTEGER_def Let_def tickets lineages sample_lineage_simps
        sample_revoked_def revokedLineage_def endCurrent_def)
qed

lemma sample_reachable:
  "reachable kernel_init (kernel_step (\<lambda>s. s)) sample_activated"
  "reachable kernel_init (kernel_step (\<lambda>s. s)) sample_registered"
  "reachable kernel_init (kernel_step (\<lambda>s. s)) sample_permitted"
  "reachable kernel_init (kernel_step (\<lambda>s. s)) sample_revoked"
proof -
  have init: "reachable kernel_init (kernel_step (\<lambda>s. s)) createEmptySafeCodingKernelState"
    by (rule reachable.start) (simp add: kernel_init_def)
  show one: "reachable kernel_init (kernel_step (\<lambda>s. s)) sample_activated"
    by (rule reachable.advance [OF init kernel_step.activate [OF sample_activates]])
  show two: "reachable kernel_init (kernel_step (\<lambda>s. s)) sample_registered"
    by (rule reachable.advance [OF one kernel_step.register [OF sample_registers]])
  show "reachable kernel_init (kernel_step (\<lambda>s. s)) sample_permitted"
    using reachable.advance [OF two kernel_step.commit [OF sample_commits]] by simp
  show "reachable kernel_init (kernel_step (\<lambda>s. s)) sample_revoked"
    by (rule reachable.advance [OF two kernel_step.revoke [OF sample_revokes]])
qed

end
