(* ===== verification/Ledger_Samples.thy ===== *)
theory Ledger_Samples
  imports Ledger_Properties Ledger_Time Kernel_Samples
begin

text \<open>
  A concrete ledger record for the sample ticket of the kernel, from its preparation to the admission of its evidence. The
  witnesses of the ledger properties are evaluated on it. The time of preparation is a parameter, because a record
  prepared at a time that spells out zero milliseconds behaves differently.
\<close>

section \<open>Reading ASCII identifiers\<close>

lemma ascii_canonical: "nfc_ascii nfc \<Longrightarrow> asciiText s \<Longrightarrow> canonical_string nfc s"
  using asciiText_units [of s] by (simp add: nfc_ascii_def canonical_string_def ascii_paired)

lemma identifier_ident: "nfc_ascii nfc \<Longrightarrow> IDENTIFIER_PATTERN s \<Longrightarrow> ident nfc s"
  by (simp add: ident_def ascii_canonical identifier_ascii)

lemma timestamp_stamp: "nfc_ascii nfc \<Longrightarrow> wf_timestamp s \<Longrightarrow> stamp nfc s"
  by (simp add: stamp_def ascii_canonical timestamp_ascii wf_timestamp_def)

section \<open>The record\<close>

definition sample_expectation :: evidence_expectation where
  "sample_expectation =
     \<lparr>ex_delegationLineageHash = sample_digest, ex_runnerId = js ''rn'', ex_runnerDigest = sample_digest,
      ex_observerId = js ''ob'', ex_preStateHash = None, ex_completionPostStateHash = sample_digest,
      ex_idempotencyKey = None,
      ex_completionBudgetCharges = \<lparr>bc_uniqueModifiedFiles = 1, bc_mutationBytes = 40, bc_testRuns = 0\<rparr>,
      ex_completionEvidenceLevel = AdapterObserved, ex_completionReconciliationRef = None\<rparr>"

definition sample_prepare :: "jstr \<Rightarrow> prepare_input" where
  "sample_prepare now =
     \<lparr>pi_ticket = ticket_json sample_ticket, pi_attemptId = js ''at'', pi_evidenceIntentId = js ''in'',
      pi_attestationId = js ''00000000-0000-4000-8000-000000000003'',
      pi_evidenceExpectation = expectation_json sample_expectation, pi_now = now\<rparr>"

definition sample_prepared :: "jstr \<Rightarrow> ledger_record" where
  "sample_prepared now = prepared_record sample_ticket sample_expectation (sample_prepare now)"

definition sample_committing :: "jstr \<Rightarrow> ledger_record" where
  "sample_committing now = permitted_record (sample_prepared now) sample_now"

text \<open>The same instant with its zero milliseconds spelled out.\<close>

definition sample_precise :: jstr where
  "sample_precise = toISOString 1767225600000"

definition sample_attestation :: effect_attestation where
  "sample_attestation = promised_to (sample_committing sample_now) UncertainStatus True None sample_now"

definition sample_pending :: ledger_record where
  "sample_pending = closed_record (sample_committing sample_now) LedgerUncertain sample_now None (Some (js ''in'')) False
     sample_attestation"

definition sample_receipt :: admission_receipt where
  "sample_receipt =
     \<lparr>rc_transactionId = et_ticketId sample_ticket, rc_evidenceIntentId = js ''in'',
      rc_attestationId = js ''00000000-0000-4000-8000-000000000003'', rc_attestation = sample_attestation,
      rc_envelopeHash = sample_digest, rc_evidenceLedgerId = js ''in'', rc_evidenceSequence = 1,
      rc_evidenceHeadHash = sample_digest, rc_checkpointPublicationId = js ''in'', rc_checkpointDigest = sample_digest,
      rc_receiptHash = sample_digest, rc_admittedAt = sample_now\<rparr>"

definition sample_verifier :: "nat receipt_verifier" where
  "sample_verifier = ReceiptVerifier (DataMethod (\<lambda>w rc. PortReturns (JBool True))) (DataMethod (\<lambda>w rc. PortReturns JUndefined))"

section \<open>Its times\<close>

lemma sample_ledger_time:
  "ledger_stamp sample_now" "ledgerTime sample_now = 1767225600000"
  "ledger_stamp (js ''2026-01-02T00:00:00.500Z'')" "ledgerTime (js ''2026-01-02T00:00:00.500Z'') = 1767312000500"
  "ledger_stamp sample_precise" "ledgerTime sample_precise = 1767225600000"
proof -
  have w: "wf_timestamp sample_now" "wf_timestamp (js ''2026-01-02T00:00:00.500Z'')"
    using sample_stamps by (simp_all add: stamp_def sample_now_def)
  show a: "ledger_stamp sample_now" "ledger_stamp (js ''2026-01-02T00:00:00.500Z'')"
    using contract_stamp_ledger(1) [OF w(1)] contract_stamp_ledger(1) [OF w(2)] sample_stamps by (simp_all add: sample_now_def)
  show "ledgerTime sample_now = 1767225600000" "ledgerTime (js ''2026-01-02T00:00:00.500Z'') = 1767312000500"
    using contract_stamp_ledger(2) [OF w(1) a(1)] contract_stamp_ledger(2) [OF w(2) a(2)] sample_stamps
    by (simp_all add: sample_now_def)
  show "ledger_stamp sample_precise" "ledgerTime sample_precise = 1767225600000"
    by (simp_all add: sample_precise_def ledger_stamp_def ledgerTime_def spell_ledger)
qed

lemma sample_precise_alien: "\<not> wf_timestamp sample_precise"
proof
  assume "wf_timestamp sample_precise"
  moreover have "timestampMilliseconds sample_precise = 1767225600000"
    by (simp add: timestampMilliseconds_def sample_precise_def dateParse_toISOString)
  ultimately have "spellInstant 1767225600000 = sample_precise"
    by (simp add: wf_timestamp_def)
  moreover have "spellInstant 1767225600000 = sample_now"
    using sample_stamps(1,3) by (simp add: stamp_def wf_timestamp_def sample_now_def)
  moreover have "length sample_now = 20"
    by (simp add: sample_now_def js_def)
  moreover have "length sample_precise = 24"
    unfolding sample_precise_def by (rule length_toISOString) simp_all
  ultimately show False
    by simp
qed

section \<open>Its run\<close>

lemma sample_expectation_wf: "wf_expectation sample_expectation"
  by (simp add: wf_expectation_def sample_expectation_def sample_digest_ok wf_charges_def counter_def safe_int_def
      MAX_SAFE_INTEGER_def IDENTIFIER_PATTERN_def js_def char_class_defs)

lemma sample_ledger_ids:
  "IDENTIFIER_PATTERN (js ''at'')" "IDENTIFIER_PATTERN (js ''in'')" "ledgerUuid (js ''00000000-0000-4000-8000-000000000003'')"
  by (simp_all add: IDENTIFIER_PATTERN_def ledgerUuid_def js_def char_class_defs)

lemma sample_creates:
  assumes "ledger_stamp now" "1767225600000 \<le> ledgerTime now" "ledgerTime now < 1767312000500"
  shows "createPreparedSafeCodingLedgerRecord (\<lambda>s. s) (sample_prepare now) = Inr (sample_prepared now)"
proof -
  have x: "canonicalizable (\<lambda>s. s) (expectation_json sample_expectation)"
    "validateSafeCodingEvidenceExpectation (expectation_json sample_expectation) = Inr sample_expectation"
  proof -
    show "canonicalizable (\<lambda>s. s) (expectation_json sample_expectation)"
      by (intro plainText_canonicalizable)
        (simp_all add: nfc_ascii_id form_plain sample_expectation_wf form_measures)
    then show "validateSafeCodingEvidenceExpectation (expectation_json sample_expectation) = Inr sample_expectation"
      using expectation_exact sample_expectation_wf by blast
  qed
  have observer: "ex_observerId sample_expectation \<noteq> aud_executorId (et_audience sample_ticket)"
    by (simp add: sample_expectation_def sample_ticket_def sample_contract_def js_def)
  then have "wf_ledger (\<lambda>s. s) (sample_prepared now)"
    using prepared_wf [of "\<lambda>s. s" sample_ticket sample_expectation "sample_prepare now"] sample_ticket_wf sample_expectation_wf
      sample_ledger_ids assms(1) by (simp add: sample_prepared_def sample_prepare_def)
  then have "canonicalizable (\<lambda>s. s) (ledger_json (sample_prepared now))"
    by (rule ledger_canonicalizable [OF nfc_ascii_id])
  then show ?thesis
    using x observer assms sample_ticket_accepted sample_ledger_ids sample_ledger_time
    by (simp add: created_exact sample_prepared_def sample_prepare_def sample_ticket_simps sample_now_def)
qed

lemma sample_prepared_simps:
  "lt_ticket (lr_ticketState (sample_prepared now)) = sample_ticket" "ledger_status (sample_prepared now) = LedgerPrepared"
  "le_preparedAt (lr_effectAttempt (sample_prepared now)) = now" "lr_updatedAt (sample_prepared now) = now"
  "lr_transactionId (sample_prepared now) = et_ticketId sample_ticket"
  by (simp_all add: sample_prepared_def prepared_record_def sample_prepare_def)

lemma sample_created_valid:
  assumes "now \<in> {sample_now, sample_precise}"
  shows "ledger_created (\<lambda>s. s) (sample_prepared now)" "ledger_valid (\<lambda>s. s) (sample_prepared now)"
proof -
  show "ledger_created (\<lambda>s. s) (sample_prepared now)"
    using assms sample_ledger_time sample_creates [of now] by (auto simp: ledger_created_def)
  then show "ledger_valid (\<lambda>s. s) (sample_prepared now)"
    using created_valid by blast
qed

lemma sample_records_permit:
  assumes "now \<in> {sample_now, sample_precise}"
  shows "recordSafeCodingCommitPermit (\<lambda>s. s) (sample_prepared now) (permit_json sample_permit) = Inr (sample_committing now)"
proof -
  note valid = sample_created_valid(2) [OF assms]
  have time: "ledgerTime now = 1767225600000"
    using assms sample_ledger_time by auto
  have "wf_ledger (\<lambda>s. s) (sample_committing now)"
    unfolding sample_committing_def
    by (rule permitted_wf) (use valid in \<open>simp_all add: ledger_valid_def sample_prepared_simps sample_ledger_time time\<close>)
  then have "canonicalizable (\<lambda>s. s) (ledger_json (sample_committing now))"
    by (rule ledger_canonicalizable [OF nfc_ascii_id])
  moreover have "permits_ticket sample_permit sample_ticket"
    by (simp add: permits_ticket_def sample_permit_def sample_ticket_simps)
  ultimately show ?thesis
    using valid by (simp add: permit_exact sample_prepared_simps sample_permit_def sample_ledger_time time sample_ticket_simps
        sample_committing_def)
qed

lemma sample_committing_valid:
  assumes "now \<in> {sample_now, sample_precise}"
  shows "ledger_valid (\<lambda>s. s) (sample_committing now)" "ledger_status (sample_committing now) = LedgerCommitPermit"
    "le_preparedAt (lr_effectAttempt (sample_committing now)) = now" "lr_updatedAt (sample_committing now) = sample_now"
    "ledger_step (\<lambda>s. s) (sample_prepared now) (sample_committing now)"
proof -
  show "ledger_step (\<lambda>s. s) (sample_prepared now) (sample_committing now)"
    using sample_records_permit [OF assms] by (rule ledger_step.permit)
  then show "ledger_valid (\<lambda>s. s) (sample_committing now)"
    using step_successor by blast
qed (simp_all add: sample_committing_def permitted_record_def sample_prepared_simps)

end
