(* ===== verification/Ledger_Authority.thy ===== *)
theory Ledger_Authority
  imports Ledger_Samples
begin

text \<open>
  What the ledger guarantees: the exact effect of every transition, that a terminal record of an effect was permitted before,
  that records only move forward, that a receipt is used at most once and that recovery never replays an effect.
\<close>

section \<open>The transitions\<close>

lemma closings:
  "closeSafeCodingLedgerCommitted nfc r now v h = Inr r' \<longleftrightarrow> SHA256_PATTERN h \<and>
     closePostPermit nfc r LedgerCommitted \<lparr>xi_now = now, xi_attestation = v, xi_resultHash = Some h, xi_reasonCode = None,
       xi_effectCompletionObserved = True\<rparr> = Inr r'"
  "closeSafeCodingLedgerResultUnavailable nfc r now v rh reason = Inr r' \<longleftrightarrow> pred_option SHA256_PATTERN rh \<and> IDENTIFIER_PATTERN reason \<and>
     closePostPermit nfc r LedgerResultUnavailable \<lparr>xi_now = now, xi_attestation = v, xi_resultHash = rh, xi_reasonCode = Some reason,
       xi_effectCompletionObserved = True\<rparr> = Inr r'"
  "closeSafeCodingLedgerUncertain nfc r now v rh reason observed = Inr r' \<longleftrightarrow> pred_option SHA256_PATTERN rh \<and> IDENTIFIER_PATTERN reason \<and>
     (rh \<noteq> None \<longrightarrow> observed) \<and>
     closePostPermit nfc r LedgerUncertain \<lparr>xi_now = now, xi_attestation = v, xi_resultHash = rh, xi_reasonCode = Some reason,
       xi_effectCompletionObserved = observed\<rparr> = Inr r'"
  by (auto simp: closeSafeCodingLedgerCommitted_def closeSafeCodingLedgerResultUnavailable_def closeSafeCodingLedgerUncertain_def
      result_simps ledger_leaf nullable_def split: option.splits)

text \<open>The conditions under which a record may be closed after its permit, and the record that results.\<close>

definition closes_to ::
  "(jstr \<Rightarrow> jstr) \<Rightarrow> ledger_record \<Rightarrow> ledger_state \<Rightarrow> jstr \<Rightarrow> jsval \<Rightarrow> jstr option \<Rightarrow> jstr option \<Rightarrow> bool \<Rightarrow> ledger_record \<Rightarrow> bool" where
  "closes_to nfc r status now v result reason observed r' \<longleftrightarrow>
     ledger_valid nfc r \<and> ledger_status r = LedgerCommitPermit \<and> reason_fits status result reason observed \<and>
     ledger_stamp now \<and> ledgerTime (lr_updatedAt r) \<le> ledgerTime now \<and>
     (let att = promised_to r (attestedStatus status) (status = LedgerUncertain \<and> \<not> observed) result now in
      validateSafeCodingEffectAttestation nfc v = Inr att \<and>
      r' = closed_record r status now result reason observed att \<and> canonicalizable nfc (ledger_json r'))"

lemma closings_exact:
  "closeSafeCodingLedgerCommitted nfc r now v h = Inr r' \<longleftrightarrow> closes_to nfc r LedgerCommitted now v (Some h) None True r'"
  "closeSafeCodingLedgerResultUnavailable nfc r now v rh reason = Inr r' \<longleftrightarrow>
     closes_to nfc r LedgerResultUnavailable now v rh (Some reason) True r'"
  "closeSafeCodingLedgerUncertain nfc r now v rh reason observed = Inr r' \<longleftrightarrow>
     (rh \<noteq> None \<longrightarrow> observed) \<and> closes_to nfc r LedgerUncertain now v rh (Some reason) observed r'"
  using post_permit_exact [of LedgerCommitted "Some h" None True nfc r now v r']
    post_permit_exact [of LedgerResultUnavailable rh "Some reason" True nfc r now v r']
    post_permit_exact [of LedgerUncertain rh "Some reason" observed nfc r now v r']
  unfolding closings closes_to_def by (auto simp: reason_fits_def Let_def)

lemma timestampString_Inr: "requireTimestampString v label = Inr s \<longleftrightarrow> v = JStr s \<and> ledger_stamp s"
  by (cases v) (auto simp: requireTimestampString_def result_simps timestamp_read_Inr)

lemma permit_read: "validateCommitPermit v = Inr p \<Longrightarrow> validateCommitPermit (permit_json p) = Inr p"
proof -
  assume "validateCommitPermit v = Inr p"
  then have "IDENTIFIER_PATTERN (cp_ticketId p) \<and> IDENTIFIER_PATTERN (cp_requestId p) \<and> SHA256_PATTERN (cp_contractHash p) \<and>
     safe_int (cp_contractRevision p) \<and> 0 < cp_contractRevision p \<and> counter (cp_revocationEpoch p) \<and>
     IDENTIFIER_PATTERN (cp_budgetReservationId p) \<and> ledger_stamp (cp_permittedAt p)"
    by (auto simp: validateCommitPermit_def result_simps ledger_leaf timestampString_Inr counter_def requireNonNegativeInteger_Inr
        safe_int_def MAX_SAFE_INTEGER_def)
  then show ?thesis
    by (simp add: permit_validated)
qed

lemma permit_value:
  "recordSafeCodingCommitPermit nfc r v = Inr r' \<longleftrightarrow>
     (\<exists>p. validateCommitPermit v = Inr p \<and> recordSafeCodingCommitPermit nfc r (permit_json p) = Inr r')"
proof (cases "validateCommitPermit v")
  case (Inl e)
  then show ?thesis
    by (auto simp: recordSafeCodingCommitPermit_def result_simps)
next
  case (Inr p)
  then have "recordSafeCodingCommitPermit nfc r v = recordSafeCodingCommitPermit nfc r (permit_json p)"
    by (simp add: recordSafeCodingCommitPermit_def permit_read)
  with Inr show ?thesis
    by simp
qed

section \<open>Every effect was permitted\<close>

text \<open>A step other than the permit leaves the time at which the ticket was consumed.\<close>

lemma step_consumed:
  assumes "ledger_step nfc r s"
  shows "lt_consumedAt (lr_ticketState s) = lt_consumedAt (lr_ticketState r) \<or> (\<exists>v. recordSafeCodingCommitPermit nfc r v = Inr s)"
  using assms
proof cases
  case (failed now v reason)
  then show ?thesis
    by (auto simp: failed_exact Let_def closed_record_def)
next
  case (admitted input w reg)
  then have "isSafeCodingLedgerTerminalState (ledger_status r)"
    by (cases "markSafeCodingLedgerEvidenceAdmitted nfc r input w reg") (auto simp: mark_exact)
  then show ?thesis
    using step_successor [OF assms] by (simp add: ledger_successor_def same_outcome_def)
qed (auto simp: closings_exact closes_to_def Let_def closed_record_def)

lemma consumed_by_permit:
  assumes "reachable (ledger_created nfc) (ledger_step nfc) r" "lt_consumedAt (lr_ticketState r) = Some now"
  shows "\<exists>q p m. reachable (ledger_created nfc) (ledger_step nfc) q \<and> recordSafeCodingCommitPermit nfc q (permit_json p) = Inr m \<and>
    cp_permittedAt p = now \<and> (ledger_step nfc)\<^sup>*\<^sup>* m r"
  using assms
proof (induction rule: reachable.induct)
  case (start r)
  then have "stateShape (lr_ticketState r) (lr_effectAttempt r) (lr_evidenceExpectation r) (lr_evidenceAdmission r) (lr_updatedAt r)"
    "ledger_status r = LedgerPrepared"
    using created_valid [of nfc r] ledger_valid_parts(10) [of nfc r] by (auto simp: ledger_phase_def)
  with start show ?case
    by (simp add: stateShape_def)
next
  case (advance r s)
  show ?case
  proof (cases "lt_consumedAt (lr_ticketState s) = lt_consumedAt (lr_ticketState r)")
    case True
    then show ?thesis
      using advance by (metis rtranclp.rtrancl_into_rtrancl)
  next
    case False
    then obtain p where p: "recordSafeCodingCommitPermit nfc r (permit_json p) = Inr s"
      using step_consumed [OF advance(2)] permit_value by blast
    then have "cp_permittedAt p = now"
      using advance(4) by (simp add: permit_exact permitted_record_def)
    then show ?thesis
      using p advance(1) by blast
  qed
qed

lemma valid_shape:
  "ledger_valid nfc r \<Longrightarrow>
   stateShape (lr_ticketState r) (lr_effectAttempt r) (lr_evidenceExpectation r) (lr_evidenceAdmission r) (lr_updatedAt r)"
  by (rule ledger_valid_parts(10))

lemma consumed_status:
  "ledger_valid nfc r \<Longrightarrow> lt_consumedAt (lr_ticketState r) = None \<longleftrightarrow> ledger_status r \<in> {LedgerPrepared, LedgerFailedPreEffect}"
  using valid_shape [of nfc r]
  by (cases "ledger_status r") (auto simp: stateShape_def terminalShape_def outcomeShape_def)

section \<open>Receipts\<close>

inductive registry_step :: "(jstr \<Rightarrow> jstr) \<Rightarrow> 'w receipt_registry \<Rightarrow> 'w receipt_registry \<Rightarrow> bool" for nfc where
  verified: "verifySafeCodingEvidenceAdmissionReceipt nfc v port w w' reg = (x, reg') \<Longrightarrow> registry_step nfc reg reg'"
| used: "markSafeCodingLedgerEvidenceAdmitted nfc r input w reg = (x, reg') \<Longrightarrow> registry_step nfc reg reg'"

definition registry_order :: "'w receipt_registry \<Rightarrow> 'w receipt_registry \<Rightarrow> bool" where
  "registry_order g h \<longleftrightarrow> rr_nextObject g \<le> rr_nextObject h \<and>
     (\<forall>i < rr_nextObject g. map_of (rr_verified g) i = None \<longrightarrow> map_of (rr_verified h) i = None)"

definition registry_inv :: "'w receipt_registry \<Rightarrow> bool" where
  "registry_inv g \<longleftrightarrow> (\<forall>e \<in> set (rr_verified g). fst e < rr_nextObject g)"

lemma mark_registry:
  assumes "markSafeCodingLedgerEvidenceAdmitted nfc r input w reg = (x, reg')"
  shows "rr_nextObject reg' = rr_nextObject reg" "\<exists>P. rr_verified reg' = filter P (rr_verified reg)"
proof -
  have keep: "\<exists>P. rr_verified reg = filter P (rr_verified reg)"
    by (rule exI [of _ "\<lambda>_. True"]) simp
  have use: "rr_nextObject (snd (requireVerifiedEvidenceAdmissionReceipt a w reg)) = rr_nextObject reg \<and>
      (\<exists>P. rr_verified (snd (requireVerifiedEvidenceAdmissionReceipt a w reg)) = filter P (rr_verified reg))" for a
    unfolding requireVerifiedEvidenceAdmissionReceipt_def using keep by (auto split: option.split receipt_argument.split)
  show "rr_nextObject reg' = rr_nextObject reg" "\<exists>P. rr_verified reg' = filter P (rr_verified reg)"
    using assms use keep unfolding markSafeCodingLedgerEvidenceAdmitted_def Let_def
    by (auto split: sum.splits prod.splits simp: prod_eq_iff)
qed

lemma map_of_filter: "map_of es i = None \<Longrightarrow> map_of (filter P es) i = None"
  by (auto simp: map_of_eq_None_iff)

lemma registry_progress:
  assumes "registry_inv g" "registry_step nfc g h"
  shows "registry_inv h \<and> registry_order g h"
  using assms(2)
proof cases
  case (verified v port w w' x)
  then have "h = g \<or> (\<exists>entry. h = g\<lparr>rr_nextObject := Suc (rr_nextObject g), rr_verified := (rr_nextObject g, entry) # rr_verified g\<rparr>)"
    unfolding verifySafeCodingEvidenceAdmissionReceipt_def Let_def by (auto split: sum.splits)
  with assms(1) show ?thesis
    by (fastforce simp: registry_inv_def registry_order_def less_Suc_eq)
next
  case (used r input w x)
  then show ?thesis
    using mark_registry [of nfc r input w g x h] assms(1) by (auto simp: registry_inv_def registry_order_def map_of_filter)
qed

definition emptyRegistry :: "'w receipt_registry" where
  "emptyRegistry = \<lparr>rr_nextObject = 0, rr_verified = []\<rparr>"

interpretation receipts: monotone_system "\<lambda>g. g = emptyRegistry" "registry_step nfc" registry_inv registry_order
proof unfold_locales
  show "registry_inv h" "registry_order g h" if "registry_inv g" "registry_step nfc g h" for g h :: "'a receipt_registry"
    using registry_progress [OF that] by simp_all
  show "registry_order g k" if "registry_order g h" "registry_order h k" for g h k :: "'a receipt_registry"
    using that by (force simp: registry_order_def)
qed (simp_all add: registry_inv_def registry_order_def emptyRegistry_def)

section \<open>Closing\<close>

lemma promised_stamps:
  assumes "validateSafeCodingEffectAttestation nfc v = Inr (promised_to r status none result now)"
  shows "wf_timestamp (le_preparedAt (lr_effectAttempt r))"
  using attestation_shape [OF assms] by (simp add: wf_attestation_def promised_to_def promisedAttestation_def stamp_def)

lemma promised_wf:
  assumes "nfc_ascii nfc" "ledger_valid nfc r" "wf_timestamp (le_preparedAt (lr_effectAttempt r))" "wf_timestamp now"
    "ledger_stamp now" "ledgerTime (lr_updatedAt r) \<le> ledgerTime now"
  shows "wf_attestation nfc (promised_to r UncertainStatus True None now)"
proof -
  have wf: "wf_ledger nfc r"
    using assms(2) by (simp add: ledger_valid_def)
  then have prep: "ledger_stamp (le_preparedAt (lr_effectAttempt r))"
    "ledgerTime (le_preparedAt (lr_effectAttempt r)) \<le> ledgerTime (lr_updatedAt r)"
    by (auto simp: wf_ledger_def Let_def)
  have order: "timestampMilliseconds (le_preparedAt (lr_effectAttempt r)) \<le> timestampMilliseconds now"
    using contract_stamp_ledger(2) [OF assms(3) prep(1)] contract_stamp_ledger(2) [OF assms(4,5)] prep(2) assms(6) by linarith
  have "UUID_PATTERN (ev_attestationId (lr_evidenceAdmission r))"
    using wf by (auto simp: wf_ledger_def Let_def wf_admission_def ledgerUuid_def UUID_PATTERN_def)
  moreover have "wf_expectation (lr_evidenceExpectation r)" "wf_ticket nfc (lt_ticket (lr_ticketState r))"
    using wf by (simp_all add: wf_ledger_def Let_def wf_ticketState_def)
  moreover have "stamp nfc (le_preparedAt (lr_effectAttempt r))" "stamp nfc now"
    using assms(1,3,4) by (simp_all add: timestamp_stamp)
  moreover have "pred_option IDENTIFIER_PATTERN x \<Longrightarrow> pred_option (ident nfc) x" for x
    using assms(1) identifier_ident by (cases x) auto
  moreover have "wf_charges ZERO_BUDGET_CHARGES"
    by (simp add: ZERO_BUDGET_CHARGES_def wf_charges_def counter_def safe_int_def MAX_SAFE_INTEGER_def)
  moreover have "validateAttestationSemantics (promised_to r UncertainStatus True None now) = Inr ()"
    by (simp add: semantics_Inr evidenceLevelCheck_Inr promised_to_def promisedAttestation_def)
  ultimately show ?thesis
    using order assms(1) unfolding wf_attestation_def
    by (simp add: promised_to_def promisedAttestation_def wf_expectation_def wf_ticket_def wf_audience_def identifier_ident)
qed

lemma respelled:
  assumes "- 59011459200000 \<le> t" "t \<le> 253402300799999"
  shows "wf_timestamp (spellInstant t)" "ledger_stamp (spellInstant t)" "ledgerTime (spellInstant t) = t"
  using assms spell_ledger(1) [of t] by (auto simp: wf_timestamp_iff ledger_stamp_def ledgerTime_def intro!: exI [of _ t])

lemma ledger_stamp_range: "ledger_stamp s \<Longrightarrow> - 59011459200000 \<le> ledgerTime s \<and> ledgerTime s \<le> 253402300799999"
proof -
  assume "ledger_stamp s"
  then obtain t where t: "timestampMilliseconds_ledger s = Some t"
    by (auto simp: ledger_stamp_def)
  then have "ledgerTime s = t"
    by (simp add: ledgerTime_def)
  with t show ?thesis
    by (simp add: timestamp_ledger_exact)
qed

lemma uncertain_closes:
  assumes "nfc_ascii nfc" "ledger_valid nfc r" "ledger_status r = LedgerCommitPermit"
    "wf_timestamp (le_preparedAt (lr_effectAttempt r))" "wf_timestamp now" "ledger_stamp now"
    "ledgerTime (lr_updatedAt r) \<le> ledgerTime now" "IDENTIFIER_PATTERN reason"
  shows "closeSafeCodingLedgerUncertain nfc r now (attestation_json (promised_to r UncertainStatus True None now)) None reason False =
    Inr (closed_record r LedgerUncertain now None (Some reason) False (promised_to r UncertainStatus True None now))"
proof -
  let ?att = "promised_to r UncertainStatus True None now"
  have att: "validateSafeCodingEffectAttestation nfc (attestation_json ?att) = Inr ?att"
    using assms by (intro attestation_own promised_wf) simp_all
  have fits: "reason_fits LedgerUncertain None (Some reason) False"
    using assms(8) by (simp add: reason_fits_def)
  have "wf_ledger nfc (closed_record r LedgerUncertain now None (Some reason) False ?att)"
    by (rule post_permit_wf(1) [OF assms(2,3,6,7) fits att]) (simp add: attestedStatus_def)
  then show ?thesis
    using assms fits att by (simp add: closings_exact closes_to_def attestedStatus_def ledger_canonicalizable)
qed

section \<open>Properties\<close>

text \<open>C34. \<open>validateSafeCodingLedgerRecord\<close> accepts a value and returns a record exactly when the record is well formed (its
  ticket, attempt, expectation and outbox are valid, bound to each other and fit its state, and its revision is the one of
  that state) and the value is its JSON form up to the order of keys and can be canonicalized. The bounds on nodes, depth, keys and
  string bytes that the code checks first never refuse such a value.\<close>

theorem validate_ledger_exact:
  "validateSafeCodingLedgerRecord nfc v = Inr r \<longleftrightarrow>
     wf_ledger nfc r \<and> canonicalizable nfc v \<and> sortFields v = sortFields (ledger_json r)"
  by (rule ledger_validator)

text \<open>C32. A permit is recorded exactly for a valid prepared record, when the value is a permit that names the ticket of the record,
  its request, contract, revision, epoch and reservation, and its time lies between the preparation and the expiry of the
  ticket; the result is the record with the ticket consumed at that time and nothing else changed.\<close>

theorem commit_permit_exact:
  "recordSafeCodingCommitPermit nfc r v = Inr r' \<longleftrightarrow>
     (\<exists>p. validateCommitPermit v = Inr p \<and> ledger_valid nfc r \<and> ledger_status r = LedgerPrepared \<and>
        permits_ticket p (lt_ticket (lr_ticketState r)) \<and> ledger_stamp (et_expiresAt (lt_ticket (lr_ticketState r))) \<and>
        ledgerTime (le_preparedAt (lr_effectAttempt r)) \<le> ledgerTime (cp_permittedAt p) \<and>
        ledgerTime (cp_permittedAt p) < ledgerTime (et_expiresAt (lt_ticket (lr_ticketState r))) \<and>
        r' = permitted_record r (cp_permittedAt p) \<and> canonicalizable nfc (ledger_json r'))"
proof -
  have "validateCommitPermit v = Inr p \<Longrightarrow> ledger_stamp (cp_permittedAt p)" for p
    using permit_read permit_validated by blast
  then show ?thesis
    unfolding permit_value [of nfc r v] permit_exact by blast
qed

text \<open>C33. The closings. Each of the three closings after a permit succeeds exactly when the result hash, the reason code and
  the observation fit the outcome, the time does not lie before the last update and the presented attestation is the one promised when the record was
  prepared; a closing before the effect needs a record that was never permitted.\<close>

theorem closings_close_exactly:
  "(closeSafeCodingLedgerCommitted nfc r now v h = Inr r' \<longleftrightarrow> closes_to nfc r LedgerCommitted now v (Some h) None True r') \<and>
   (closeSafeCodingLedgerResultUnavailable nfc r now v rh reason = Inr r' \<longleftrightarrow>
      closes_to nfc r LedgerResultUnavailable now v rh (Some reason) True r') \<and>
   (closeSafeCodingLedgerUncertain nfc r now v rh reason observed = Inr r' \<longleftrightarrow>
      (rh = None \<or> observed) \<and> closes_to nfc r LedgerUncertain now v rh (Some reason) observed r') \<and>
   (closeSafeCodingLedgerFailedPreEffect nfc r now v reason = Inr r' \<longleftrightarrow>
      ledger_valid nfc r \<and> ledger_status r = LedgerPrepared \<and> IDENTIFIER_PATTERN reason \<and> ledger_stamp now \<and>
      ledgerTime (lr_updatedAt r) \<le> ledgerTime now \<and>
      validateSafeCodingEffectAttestation nfc v = Inr (promised_to r FailedNoEffectStatus True None now) \<and>
      r' = closed_record r LedgerFailedPreEffect now None (Some reason) False (promised_to r FailedNoEffectStatus True None now) \<and>
      canonicalizable nfc (ledger_json r'))"
  using closings_exact [of nfc r now v] failed_exact [of nfc r now v reason r'] by (auto simp: Let_def)

text \<open>C17. Every outcome of an effect was permitted. A reachable record that is neither prepared nor failed before the effect
  goes back to a recorded permit for its own ticket, issued before the ticket expired, at the time the record says; a record
  that reports an observed effect or a result is one of these.\<close>

theorem effect_was_permitted:
  assumes "reachable (ledger_created nfc) (ledger_step nfc) r"
    and "ledger_status r \<notin> {LedgerPrepared, LedgerFailedPreEffect} \<or> le_effectObservedAt (lr_effectAttempt r) \<noteq> None \<or>
      le_resultHash (lr_effectAttempt r) \<noteq> None"
  shows "\<exists>q p m. reachable (ledger_created nfc) (ledger_step nfc) q \<and> recordSafeCodingCommitPermit nfc q (permit_json p) = Inr m \<and>
    (ledger_step nfc)\<^sup>*\<^sup>* m r \<and> lt_consumedAt (lr_ticketState r) = Some (cp_permittedAt p) \<and>
    permits_ticket p (lt_ticket (lr_ticketState r)) \<and>
    ledgerTime (cp_permittedAt p) < ledgerTime (et_expiresAt (lt_ticket (lr_ticketState r)))"
proof -
  have valid: "ledger_valid nfc r"
    using assms(1) by (rule ledger.reachable_inv)
  have "ledger_status r \<notin> {LedgerPrepared, LedgerFailedPreEffect}"
    using assms(2) valid_shape [OF valid] by (auto simp: stateShape_def terminalShape_def outcomeShape_def)
  then obtain now where now: "lt_consumedAt (lr_ticketState r) = Some now"
    using consumed_status [OF valid] by auto
  then obtain q p m where p: "reachable (ledger_created nfc) (ledger_step nfc) q"
    "recordSafeCodingCommitPermit nfc q (permit_json p) = Inr m" "cp_permittedAt p = now" "(ledger_step nfc)\<^sup>*\<^sup>* m r"
    using consumed_by_permit [OF assms(1)] by blast
  have "ledger_valid nfc m" "lt_ticket (lr_ticketState m) = lt_ticket (lr_ticketState q)"
    using step_successor [OF ledger_step.permit [OF p(2)]] by (simp_all add: ledger_successor_def same_identity_def)
  moreover from this have "lt_ticket (lr_ticketState r) = lt_ticket (lr_ticketState m)"
    using ledger.run_ord [OF p(4)] by (simp add: ledger_order_def same_identity_def)
  ultimately have "permits_ticket p (lt_ticket (lr_ticketState r))"
    "ledgerTime (cp_permittedAt p) < ledgerTime (et_expiresAt (lt_ticket (lr_ticketState r)))"
    using p(2) unfolding permit_exact by simp_all
  with p now show ?thesis
    by blast
qed

lemma sample_reached: "reachable (ledger_created (\<lambda>s. s)) (ledger_step (\<lambda>s. s)) (sample_committing sample_now)"
  by (rule reachable.advance [OF reachable.start, of _ "sample_prepared sample_now"])
    (simp_all add: sample_created_valid sample_committing_valid)

lemma effect_was_permitted_witness:
  "\<exists>q p m. reachable (ledger_created (\<lambda>s. s)) (ledger_step (\<lambda>s. s)) q \<and>
    recordSafeCodingCommitPermit (\<lambda>s. s) q (permit_json p) = Inr m \<and>
    (ledger_step (\<lambda>s. s))\<^sup>*\<^sup>* m (sample_committing sample_now) \<and>
    lt_consumedAt (lr_ticketState (sample_committing sample_now)) = Some (cp_permittedAt p) \<and>
    permits_ticket p (lt_ticket (lr_ticketState (sample_committing sample_now))) \<and>
    ledgerTime (cp_permittedAt p) < ledgerTime (et_expiresAt (lt_ticket (lr_ticketState (sample_committing sample_now))))"
  by (rule effect_was_permitted [OF sample_reached]) (simp add: sample_committing_valid)

text \<open>C23. Records move forward. Along every run of a valid record its identity (ticket, attempt, promised evidence, outbox ids,
  creation) never changes, its revision and its update time never decrease, and once it is terminal its outcome is frozen; at
  most three transitions ever succeed, so no run is infinite.\<close>

theorem ledger_runs_forward:
  assumes "ledger_valid nfc r" and "(ledger_step nfc ^^ n) r s"
  shows "ledger_valid nfc s \<and> same_identity r s \<and> lr_revision s = lr_revision r + int n \<and> n \<le> 3 \<and>
    ledgerTime (lr_updatedAt r) \<le> ledgerTime (lr_updatedAt s) \<and>
    (isSafeCodingLedgerTerminalState (ledger_status r) \<longrightarrow> same_outcome r s)"
proof -
  have rev: "(ledger_step nfc ^^ n) r s \<Longrightarrow> lr_revision s = lr_revision r + int n" for n s
  proof (induction n arbitrary: s)
    case (Suc n)
    then obtain t where "(ledger_step nfc ^^ n) r t" "ledger_step nfc t s"
      by auto
    then show ?case
      using Suc.IH [of t] step_successor [of nfc t s] by (simp add: ledger_successor_def)
  qed simp
  have run: "(ledger_step nfc)\<^sup>*\<^sup>* r s"
    using assms(2) by (rule relpowp_imp_rtranclp)
  have valid: "ledger_valid nfc s"
    using ledger.run_inv [OF run assms(1)] .
  have "ledger_order r s"
    using ledger.run_ord [OF run assms(1)] .
  moreover have "n \<le> 3"
    using rev [OF assms(2)] ledger_valid_parts(7) [OF assms(1)] ledger_valid_parts(8) [OF valid] by linarith
  ultimately show ?thesis
    using valid rev [OF assms(2)] by (simp add: ledger_order_def)
qed

lemma ledger_runs_forward_witness:
  "lr_revision (sample_committing sample_now) = lr_revision (sample_prepared sample_now) + 1 \<and>
   same_identity (sample_prepared sample_now) (sample_committing sample_now)"
  using ledger_runs_forward [of "\<lambda>s. s" "sample_prepared sample_now" 1 "sample_committing sample_now"]
  by (simp add: sample_created_valid sample_committing_valid relcompp_apply)

text \<open>C22. The ledger implements the lifecycle: a record in a reachable state got there from the phase prepared/reserved by
  steps of the abstract machine, in which a record is permitted or fails before the effect, a permitted one ends committed,
  without its result or uncertain, and evidence is pending exactly from then on until it is admitted.\<close>

theorem ledger_refines_lifecycle:
  assumes "reachable (ledger_created nfc) (ledger_step nfc) r"
  shows "phase_step\<^sup>*\<^sup>* (LedgerPrepared, EvidenceReserved) (ledger_phase r)"
proof -
  obtain r0 where "ledger_created nfc r0" "phase_step\<^sup>*\<^sup>* (ledger_phase r0) (ledger_phase r)"
    using ledger_phases.reachable_spec [OF assms] by blast
  then show ?thesis
    using created_valid [of nfc r0] by simp
qed

lemma ledger_refines_lifecycle_witness:
  "phase_step\<^sup>*\<^sup>* (LedgerPrepared, EvidenceReserved) (ledger_phase (sample_committing sample_now))"
  by (rule ledger_refines_lifecycle [OF sample_reached])

text \<open>C18. A permitted record can be closed exactly when it was prepared at a timestamp of the contracts. The ledger accepts a time
  that spells out zero milliseconds, but the attestation that every closing demands must repeat it as its starting
  time and the contracts refuse that spelling: a record prepared at such a time is stuck for ever once its
  permit is recorded. Every other permitted record can always be closed, at the latest as uncertain.\<close>

theorem permitted_closable_iff:
  assumes "nfc_ascii nfc" and "ledger_valid nfc r" and "ledger_status r = LedgerCommitPermit"
  shows "(\<exists>s. ledger_step nfc r s) \<longleftrightarrow> wf_timestamp (le_preparedAt (lr_effectAttempt r))"
proof
  assume "\<exists>s. ledger_step nfc r s"
  then obtain s where "ledger_step nfc r s"
    by blast
  then show "wf_timestamp (le_preparedAt (lr_effectAttempt r))"
  proof cases
    case (permit v)
    then show ?thesis
      using assms(3) permit_value [of nfc r v s] by (auto simp: permit_exact)
  next
    case (failed now v reason)
    then show ?thesis
      using assms(3) by (simp add: failed_exact)
  next
    case (admitted input w reg)
    then show ?thesis
      using assms(3) by (cases "markSafeCodingLedgerEvidenceAdmitted nfc r input w reg")
        (auto simp: mark_exact isSafeCodingLedgerTerminalState_def)
  qed (auto simp: closings_exact closes_to_def Let_def intro: promised_stamps)
next
  assume prep: "wf_timestamp (le_preparedAt (lr_effectAttempt r))"
  define now where "now = spellInstant (ledgerTime (lr_updatedAt r))"
  obtain ms where ms: "ledgerTime (lr_updatedAt r) = ms" "- 59011459200000 \<le> ms" "ms \<le> 253402300799999"
    using ledger_stamp_range [OF ledger_valid_parts(6) [OF assms(2)]] by blast
  have "wf_timestamp now" "ledger_stamp now" "ledgerTime now = ms"
    unfolding now_def ms(1) using respelled [OF ms(2,3)] by simp_all
  moreover have "IDENTIFIER_PATTERN (js ''x'')"
    by (simp add: IDENTIFIER_PATTERN_def js_def char_class_defs)
  ultimately show "\<exists>s. ledger_step nfc r s"
    using uncertain_closes [OF assms prep, of now "js ''x''"] ms(1) ledger_step.uncertain by (metis order_refl)
qed

lemma permitted_closable_iff_witness:
  "\<not> (\<exists>s. ledger_step (\<lambda>s. s) (sample_committing sample_precise) s)"
  using permitted_closable_iff [of "\<lambda>s. s" "sample_committing sample_precise"] sample_precise_alien
  by (simp add: nfc_ascii_id sample_committing_valid)

text \<open>C20. Recovery. A valid record is always classified, and no classification allows the effect to be replayed: only a record that
  was never permitted is closed as failed before the effect, a permitted one as uncertain, a terminal one keeps its outcome; that the effect may
  have happened is claimed exactly when the ticket was consumed; and the closing it asks for is a step of the lifecycle.\<close>

theorem recovery_never_replays:
  assumes "ledger_valid nfc r"
  shows "\<exists>d. classifySafeCodingLedgerRecovery nfc r = Inr d \<and> \<not> rd_effectReplayAllowed d \<and>
    rd_transactionId d = lr_transactionId r \<and> rd_revision d = lr_revision r \<and>
    (rd_effectMayHaveOccurred d \<longleftrightarrow> lt_consumedAt (lr_ticketState r) \<noteq> None) \<and>
    (if isSafeCodingLedgerTerminalState (ledger_status r)
     then rd_action d = DeliverEvidenceOnly \<and> rd_targetState d = ledger_status r
     else rd_action d = (if ledger_status r = LedgerPrepared then CloseFailedPreEffect else CloseUncertain) \<and>
       phase_step (ledger_phase r) (rd_targetState d, EvidencePending))"
proof -
  have "evidence_status r = EvidenceReserved \<longleftrightarrow> ledger_status r \<in> {LedgerPrepared, LedgerCommitPermit}"
    using shape_evidence [OF valid_shape [OF assms]] .
  then show ?thesis
    using assms consumed_status [OF assms]
    by (cases "ledger_status r") (auto simp: classifySafeCodingLedgerRecovery_def result_simps recovery_decision_for_def
        isSafeCodingLedgerTerminalState_def phase_step_def ledger_phase_def Let_def)
qed

lemma recovery_never_replays_witness:
  "\<exists>d. classifySafeCodingLedgerRecovery (\<lambda>s. s) (sample_committing sample_now) = Inr d \<and> \<not> rd_effectReplayAllowed d \<and>
    rd_action d = CloseUncertain"
  using recovery_never_replays [OF sample_committing_valid(1) [of sample_now]] sample_committing_valid(2) [of sample_now]
  by (auto simp: isSafeCodingLedgerTerminalState_def)

lemma sample_pending_step: "ledger_step (\<lambda>s. s) (sample_committing sample_now) sample_pending"
  "wf_attestation (\<lambda>s. s) sample_attestation"
proof -
  have w: "wf_timestamp sample_now"
    using sample_stamps by (simp add: stamp_def sample_now_def)
  note r = sample_committing_valid [of sample_now, simplified]
  show "ledger_step (\<lambda>s. s) (sample_committing sample_now) sample_pending"
    using uncertain_closes [OF nfc_ascii_id r(1,2), of sample_now "js ''in''"] r w sample_ledger_time sample_ledger_ids
    unfolding sample_pending_def sample_attestation_def by (auto intro: ledger_step.uncertain)
  show "wf_attestation (\<lambda>s. s) sample_attestation"
    unfolding sample_attestation_def
    by (rule promised_wf [OF nfc_ascii_id r(1)]) (simp_all add: r w sample_ledger_time)
qed

lemma sample_pending_valid:
  "ledger_valid (\<lambda>s. s) sample_pending" "ledger_status sample_pending = LedgerUncertain" "evidence_status sample_pending = EvidencePending"
  "lr_transactionId sample_pending = et_ticketId sample_ticket" "ev_intentId (lr_evidenceAdmission sample_pending) = js ''in''"
  "ev_attestationId (lr_evidenceAdmission sample_pending) = js ''00000000-0000-4000-8000-000000000003''"
  "lr_updatedAt sample_pending = sample_now"
proof -
  show "ledger_valid (\<lambda>s. s) sample_pending"
    using step_successor [OF sample_pending_step(1)] by simp
qed (simp_all add: sample_pending_def closed_record_def sample_committing_def permitted_record_def sample_prepared_def
    prepared_record_def sample_prepare_def)

lemma sample_receipt_wf: "wf_receipt (\<lambda>s. s) sample_receipt"
proof -
  have "IDENTIFIER_PATTERN (et_ticketId sample_ticket)"
    using sample_ticket_wf by (intro uuid_identifier) (simp add: wf_ticket_def)
  then show ?thesis
    using sample_pending_step(2) sample_ledger_ids sample_digest_ok sample_ledger_time
    by (simp add: wf_receipt_def sample_receipt_def safe_int_def MAX_SAFE_INTEGER_def)
qed

lemma sample_receipt_verified:
  "verifySafeCodingEvidenceAdmissionReceipt (\<lambda>s. s) (receipt_json sample_receipt) sample_verifier 0 0 emptyRegistry =
     (Inr 0, \<lparr>rr_nextObject = 1, rr_verified = [(0, (sample_receipt, \<lambda>w rc. PortReturns JUndefined))]\<rparr>)"
proof -
  note wf = sample_receipt_wf
  have "canonicalizable (\<lambda>s. s) (receipt_json sample_receipt)"
    using wf by (intro plainText_canonicalizable) (simp_all add: nfc_ascii_id receipt_plain receipt_measures)
  then have "validateSafeCodingEvidenceAdmissionReceipt (\<lambda>s. s) (receipt_json sample_receipt) = Inr sample_receipt"
    using wf by (simp add: receipt_exact)
  then show ?thesis
    by (simp add: verifySafeCodingEvidenceAdmissionReceipt_def sample_verifier_def pinPortMethod_ledger_def fencePassed_def
        emptyRegistry_def result_simps)
qed

lemma admitted_wf:
  assumes "wf_ledger nfc r" "isSafeCodingLedgerTerminalState (ledger_status r)" "evidence_status r = EvidencePending" "wf_receipt nfc rc"
    "lr_transactionId r = rc_transactionId rc" "ev_intentId (lr_evidenceAdmission r) = rc_evidenceIntentId rc"
    "ev_attestationId (lr_evidenceAdmission r) = rc_attestationId rc" "ev_attestation (lr_evidenceAdmission r) = Some (rc_attestation rc)"
    "ledgerTime (lr_updatedAt r) \<le> ledgerTime (rc_admittedAt rc)"
  shows "wf_ledger nfc (admitted_record r rc)"
proof -
  let ?n = "admitted_record r rc"
  have shape: "stateShape (lr_ticketState r) (lr_effectAttempt r) (lr_evidenceExpectation r) (lr_evidenceAdmission r) (lr_updatedAt r)"
    and wf: "wf_admission nfc (lr_evidenceAdmission r)" and id: "lr_transactionId r = et_ticketId (lt_ticket (lr_ticketState r))"
    and rev: "lr_revision r = reachableRevision (ledger_status r) EvidencePending"
    using assms(1,3) by (simp_all add: wf_ledger_def Let_def)
  have "wf_admission nfc (lr_evidenceAdmission ?n)"
    using wf assms(4) by (simp add: admitted_record_def wf_admission_def wf_receipt_def)
  moreover have "stateShape (lr_ticketState r) (lr_effectAttempt r) (lr_evidenceExpectation r) (lr_evidenceAdmission ?n) (rc_admittedAt rc)"
    using shape assms(2,3,5-9) id
    by (cases "ledger_status r") (auto simp: stateShape_def terminalShape_def outboxShape_def admitted_record_def
        isSafeCodingLedgerTerminalState_def)
  moreover have "reachableRevision (ledger_status r) EvidencePending + 1 = reachableRevision (ledger_status r) EvidenceAdmitted"
    using assms(2) by (cases "ledger_status r") (simp_all add: reachableRevision_def isSafeCodingLedgerTerminalState_def)
  moreover have "safe_int (lr_revision r + 1)"
    using rev reachableRevision_pos [of "ledger_status r" EvidencePending] by (simp add: safe_int_def MAX_SAFE_INTEGER_def)
  moreover have "ledger_stamp (rc_admittedAt rc)"
    using assms(4) by (simp add: wf_receipt_def)
  ultimately show ?thesis
    using assms(1,3,9) rev unfolding wf_ledger_def Let_def admitted_record_def by auto
qed

lemma sample_admits:
  "markSafeCodingLedgerEvidenceAdmitted (\<lambda>s. s) sample_pending
     \<lparr>ai_shape = plain_shape, ai_fields = [(js ''receipt'', ReceiptObject 0)]\<rparr> (0 :: nat)
     \<lparr>rr_nextObject = 1, rr_verified = [(0, (sample_receipt, \<lambda>w rc. PortReturns JUndefined))]\<rparr> =
   (Inr (admitted_record sample_pending sample_receipt), \<lparr>rr_nextObject = 1, rr_verified = []\<rparr>)"
proof -
  note p = sample_pending_valid
  have att: "ev_attestation (lr_evidenceAdmission sample_pending) = Some sample_attestation"
    by (simp add: sample_pending_def closed_record_def)
  have wf: "wf_ledger (\<lambda>s. s) sample_pending"
    using p(1) by (simp add: ledger_valid_def)
  have "wf_ledger (\<lambda>s. s) (admitted_record sample_pending sample_receipt)"
    by (rule admitted_wf [OF wf _ p(3) sample_receipt_wf]) (simp_all add: p att sample_receipt_def isSafeCodingLedgerTerminalState_def)
  then have valid: "ledger_valid (\<lambda>s. s) (admitted_record sample_pending sample_receipt)"
    by (simp add: ledger_valid_wf nfc_ascii_id)
  have succ: "ledger_successor sample_pending (admitted_record sample_pending sample_receipt)"
    using p by (simp add: ledger_successor_def admitted_record_def same_identity_def same_outcome_def phase_step_def ledger_phase_def
        isSafeCodingLedgerTerminalState_def sample_receipt_def)
  have rc: "rc_transactionId sample_receipt = lr_transactionId sample_pending"
    "rc_evidenceIntentId sample_receipt = ev_intentId (lr_evidenceAdmission sample_pending)"
    "rc_attestationId sample_receipt = ev_attestationId (lr_evidenceAdmission sample_pending)" "rc_admittedAt sample_receipt = sample_now"
    by (simp_all add: sample_receipt_def p)
  show ?thesis
    unfolding mark_exact by (simp add: rc p(1-3,7) valid succ sample_ledger_time fencePassed_def isSafeCodingLedgerTerminalState_def)
qed

text \<open>C19. A verified receipt admits evidence at most once: after a call that used it, in every continuation of verifications
  and admissions of any records, no further call that presents the same receipt object succeeds.\<close>

theorem receipt_one_shot:
  assumes "reachable (\<lambda>g. g = emptyRegistry) (registry_step nfc) g"
    and "markSafeCodingLedgerEvidenceAdmitted nfc r \<lparr>ai_shape = sh, ai_fields = [(js ''receipt'', ReceiptObject i)]\<rparr> w g = (Inr r', g')"
    and "(registry_step nfc)\<^sup>*\<^sup>* g' h"
  shows "fst (markSafeCodingLedgerEvidenceAdmitted nfc q \<lparr>ai_shape = sh', ai_fields = [(js ''receipt'', ReceiptObject i)]\<rparr> w' h) \<noteq> Inr q'"
proof -
  have inv: "registry_inv g"
    using assms(1) by (rule receipts.reachable_inv)
  from assms(2) obtain e where e: "map_of (rr_verified g) i = Some e"
    "g' = g\<lparr>rr_verified := filter (\<lambda>entry. fst entry \<noteq> i) (rr_verified g)\<rparr>"
    by (auto simp: mark_exact)
  then have "i < rr_nextObject g'" "map_of (rr_verified g') i = None" "registry_inv g'"
    using inv map_of_SomeD [OF e(1)] by (auto simp: registry_inv_def consumed)
  then have "map_of (rr_verified h) i = None"
    using receipts.run_ord [OF assms(3)] by (simp add: registry_order_def)
  then show ?thesis
    by (cases "markSafeCodingLedgerEvidenceAdmitted nfc q \<lparr>ai_shape = sh', ai_fields = [(js ''receipt'', ReceiptObject i)]\<rparr> w' h")
      (auto simp: mark_exact)
qed

lemma sample_registry_reached:
  "reachable (\<lambda>g. g = emptyRegistry) (registry_step (\<lambda>s. s))
     \<lparr>rr_nextObject = 1, rr_verified = [(0, (sample_receipt, (\<lambda>w rc. PortReturns JUndefined) :: nat port_method))]\<rparr>"
  by (rule reachable.advance [of _ _ emptyRegistry])
    (rule reachable.start, rule refl, rule registry_step.verified [OF sample_receipt_verified])

lemma receipt_one_shot_witness:
  "fst (markSafeCodingLedgerEvidenceAdmitted (\<lambda>s. s) sample_pending
     \<lparr>ai_shape = plain_shape, ai_fields = [(js ''receipt'', ReceiptObject 0)]\<rparr> (0 :: nat) \<lparr>rr_nextObject = 1, rr_verified = []\<rparr>) \<noteq>
   Inr (admitted_record sample_pending sample_receipt)"
  by (rule receipt_one_shot [OF sample_registry_reached sample_admits rtranclp.rtrancl_refl])

text \<open>C21. The ledger records every permit of the kernel. When the kernel issues a permit for the ticket of a valid prepared record
  not before the record was prepared, recording it succeeds and consumes the ticket at the time of the permit: the
  two components agree on tickets, times and expiry.\<close>

theorem kernel_permit_recorded:
  assumes "nfc_ascii nfc" and "kernel_inv nfc s" and "commitPermitTransition nfc s c = Inr (CommitPermitted s' p)"
    and "validateSafeCodingExecutionTicket nfc (ci_ticket c) = Inr (lt_ticket (lr_ticketState r))"
    and "ledger_valid nfc r" and "ledger_status r = LedgerPrepared"
    and "ledgerTime (le_preparedAt (lr_effectAttempt r)) \<le> timestampMilliseconds (ci_now c)"
  shows "recordSafeCodingCommitPermit nfc r (permit_json p) = Inr (permitted_record r (ci_now c))"
  using assms(2)
proof (cases rule: commit_shape [of nfc s c])
  case (permitted k k_record l q)
  then have q: "q = p" "tr_ticket k_record = lt_ticket (lr_ticketState r)" "cp_permittedAt p = ci_now c" "wf_timestamp (ci_now c)"
    using assms(3,4) by simp_all
  let ?t = "lt_ticket (lr_ticketState r)"
  have wf: "wf_ledger nfc r"
    using assms(5) by (simp add: ledger_valid_def)
  then have t: "wf_timestamp (et_expiresAt ?t)" "ledger_stamp (le_preparedAt (lr_effectAttempt r))"
    by (auto simp: wf_ledger_def Let_def wf_ticketState_def wf_ticket_def wf_effectAttempt_def stamp_def)
  note early = ledger_stamp_range [OF t(2)]
  have late: "timestampMilliseconds (ci_now c) < timestampMilliseconds (et_expiresAt ?t)"
    using permitted(9) q(2) by simp
  have stamps: "ledger_stamp (ci_now c)" "ledger_stamp (et_expiresAt ?t)"
    using contract_stamp_ledger(1) [OF q(4)] contract_stamp_ledger(1) [OF t(1)] early assms(7) late by simp_all
  have times: "ledgerTime (ci_now c) = timestampMilliseconds (ci_now c)"
    "ledgerTime (et_expiresAt ?t) = timestampMilliseconds (et_expiresAt ?t)"
    using contract_stamp_ledger(2) [OF q(4) stamps(1)] contract_stamp_ledger(2) [OF t(1) stamps(2)] by simp_all
  have "wf_ledger nfc (permitted_record r (ci_now c))"
    by (rule permitted_wf [OF wf assms(6) stamps(1)]) (use assms(7) times in simp)
  then have "canonicalizable nfc (ledger_json (permitted_record r (ci_now c)))"
    by (rule ledger_canonicalizable [OF assms(1)])
  moreover have "permits_ticket p ?t"
  proof -
    have "et_ticketId (tr_ticket k_record) = k"
      using assms(2) permitted(1) by (auto simp: kernel_inv_def wf_record_def)
    then show ?thesis
      using permitted q by (simp add: permits_ticket_def)
  qed
  ultimately show ?thesis
    using assms(5-7) stamps times late q by (simp add: permit_exact)
qed (use assms(3) in simp_all)

lemma kernel_permit_recorded_witness:
  "recordSafeCodingCommitPermit (\<lambda>s. s) (sample_prepared sample_now) (permit_json sample_permit) =
     Inr (permitted_record (sample_prepared sample_now) sample_now)"
proof -
  have "ci_now sample_commit = sample_now" "ci_ticket sample_commit = ticket_json sample_ticket"
    by (simp_all add: sample_commit_def)
  then show ?thesis
    using kernel_permit_recorded [OF nfc_ascii_id sample_registered_inv sample_commits, of "sample_prepared sample_now"]
      sample_created_valid(2) [of sample_now] sample_ticket_accepted sample_ledger_time sample_stamps(3)
    by (simp add: sample_prepared_simps sample_now_def)
qed

end
