(* ===== verification/Ledger_Store.thy ===== *)
theory Ledger_Store
  imports Ledger_Samples
begin

text \<open>
  \<open>in-memory-store.ts\<close> of \<open>clodex-ledger\<close>: the reference store, two maps behind a compare-and-swap. The methods are functions from the private
  maps to the result or exception and the new maps. A \<open>Map\<close> is an association list in insertion order, read and written with
  \<open>ownValue\<close> and \<open>setOwn\<close>. The record of a mutation is an arbitrary value, since the store validates it; the transaction id and the expected revision
  have their declared types. The theory proves that no two stored records share a replay identity and that stored
  records move along the ledger transitions and are never removed.
\<close>

section \<open>Data\<close>

datatype ledger_durability = MemoryOnly (ld_adapterId: jstr) | AdapterDeclaredDurable (ld_adapterId: jstr)

definition IN_MEMORY_SAFE_CODING_LEDGER_DURABILITY :: ledger_durability where
  "IN_MEMORY_SAFE_CODING_LEDGER_DURABILITY = MemoryOnly (js ''clodex-ledger.in-memory-reference'')"

record ledger_mutation =
  mu_transactionId :: jstr
  mu_expectedRevision :: "int option"
  mu_nextRecord :: jsval

datatype 'r cas_result =
    CasApplied 'r
  | CasRevisionConflict "int option"
  | CasIdentityConflict jstr

record ledger_store =
  st_records :: "ledger_record jsobj"
  st_identities :: "jstr jsobj"

definition emptyStore :: ledger_store where
  "emptyStore = \<lparr>st_records = [], st_identities = []\<rparr>"

text \<open>An exception is a validation error of the ledger or a plain \<open>Error\<close>.\<close>

datatype store_error = StoreLedgerError ledger_error | StoreError jstr

abbreviation viaLedger :: "ledger_error + 'a \<Rightarrow> store_error + 'a" where
  "viaLedger m \<equiv> catchE m StoreLedgerError"

section \<open>Methods\<close>

definition store_read :: "(jstr \<Rightarrow> jstr) \<Rightarrow> jstr \<Rightarrow> ledger_store \<Rightarrow> store_error + ledger_record option" where
  "store_read nfc transactionId st =
     (case ownValue (st_records st) transactionId of
        None \<Rightarrow> Inr None
      | Some record \<Rightarrow> bindE (viaLedger (cloneSafeCodingLedgerRecord nfc record)) (\<lambda>copy. Inr (Some copy)))"

text \<open>\<open>compareStrings\<close> orders by code units, as \<open>\<le>\<close> on lists does.\<close>

definition sortedRecords :: "ledger_store \<Rightarrow> ledger_record list" where
  "sortedRecords st = sort_key lr_transactionId (map snd (st_records st))"

definition store_scan :: "(jstr \<Rightarrow> jstr) \<Rightarrow> ledger_store \<Rightarrow> store_error + ledger_record list" where
  "store_scan nfc st = viaLedger (mapE (cloneSafeCodingLedgerRecord nfc) (sortedRecords st))"

definition store_snapshot :: "(jstr \<Rightarrow> jstr) \<Rightarrow> ledger_store \<Rightarrow> ledger_error + ledger_record list" where
  "store_snapshot nfc st =
     mapE (\<lambda>record.
       bindE (catchE (canonicalizeJson nfc (ledger_json record)) LedgerPassed) (\<lambda>canonical.
       bindE (catchE (parseCanonicalJson nfc canonical) LedgerPassed) (\<lambda>parsed.
       validateSafeCodingLedgerRecord nfc parsed))) (sortedRecords st)"

text \<open>The revision check: a conflict to report, or none.\<close>

definition casConflict ::
  "(jstr \<Rightarrow> jstr) \<Rightarrow> ledger_mutation \<Rightarrow> ledger_record \<Rightarrow> ledger_record option \<Rightarrow> store_error + ledger_record cas_result option" where
  "casConflict nfc mutation next_record existing =
     (case mu_expectedRevision mutation of
        None \<Rightarrow>
          (case existing of
             Some found \<Rightarrow> Inr (Some (CasRevisionConflict (Some (lr_revision found))))
           | None \<Rightarrow>
               bindE (guardE (lr_revision next_record = 1) (StoreError (js ''New ledger record must start at revision 1''))) (\<lambda>_.
               bindE (guardE (lt_status (lr_ticketState next_record) = LedgerPrepared)
                 (StoreError (js ''New ledger record must start in PREPARED''))) (\<lambda>_. Inr None)))
      | Some expected \<Rightarrow>
          (case existing of
             None \<Rightarrow> Inr (Some (CasRevisionConflict None))
           | Some found \<Rightarrow>
               if lr_revision found \<noteq> expected then Inr (Some (CasRevisionConflict (Some (lr_revision found))))
               else bindE (viaLedger (assertSafeCodingLedgerSuccessor nfc found next_record)) (\<lambda>_. Inr None)))"

definition foreignIdentity :: "ledger_store \<Rightarrow> jstr \<Rightarrow> jstr list \<Rightarrow> jstr option" where
  "foreignIdentity st transactionId keys =
     find (\<lambda>key. case ownValue (st_identities st) key of None \<Rightarrow> False | Some owner \<Rightarrow> owner \<noteq> transactionId) keys"

definition compareAndSwap ::
  "(jstr \<Rightarrow> jstr) \<Rightarrow> ledger_mutation \<Rightarrow> ledger_store \<Rightarrow> (store_error + ledger_record cas_result) \<times> ledger_store" where
  "compareAndSwap nfc mutation st =
     (let transactionId = mu_transactionId mutation;
        decided =
          bindE (viaLedger (validateSafeCodingLedgerRecord nfc (mu_nextRecord mutation))) (\<lambda>next_record.
          bindE (guardE (\<not> transactionId \<noteq> lr_transactionId next_record)
            (StoreError (js ''Persistence mutation key does not match ledger record''))) (\<lambda>_.
          bindE (casConflict nfc mutation next_record (ownValue (st_records st) transactionId)) (\<lambda>conflict.
          case conflict of
            Some result \<Rightarrow> Inr (Inl result)
          | None \<Rightarrow>
              bindE (viaLedger (safeCodingLedgerIdentityKeys nfc next_record)) (\<lambda>keys.
              case foreignIdentity st transactionId keys of
                Some key \<Rightarrow> Inr (Inl (CasIdentityConflict key))
              | None \<Rightarrow> bindE (viaLedger (cloneSafeCodingLedgerRecord nfc next_record)) (\<lambda>stored. Inr (Inr stored))))))
      in case decided of
           Inl e \<Rightarrow> (Inl e, st)
         | Inr (Inl result) \<Rightarrow> (Inr result, st)
         | Inr (Inr stored) \<Rightarrow>
             let recorded = st\<lparr>st_records := setOwn (st_records st) transactionId stored\<rparr>
             in case viaLedger (safeCodingLedgerIdentityKeys nfc stored) of
                  Inl e \<Rightarrow> (Inl e, recorded)
                | Inr keys \<Rightarrow>
                    (bindE (viaLedger (cloneSafeCodingLedgerRecord nfc stored)) (\<lambda>copy. Inr (CasApplied copy)),
                     recorded\<lparr>st_identities := fold (\<lambda>key ids. setOwn ids key transactionId) keys (st_identities recorded)\<rparr>))"

section \<open>What a swap does\<close>

definition storedIn :: "ledger_store \<Rightarrow> jstr \<Rightarrow> ledger_record \<Rightarrow> ledger_store" where
  "storedIn st transactionId r =
     st\<lparr>st_records := setOwn (st_records st) transactionId r,
       st_identities := fold (\<lambda>key ids. setOwn ids key transactionId) (sort (identityKeys r)) (st_identities st)\<rparr>"

lemma fold_setOwn:
  "ownValue (fold (\<lambda>key ids. setOwn ids key t) keys m) k = (if k \<in> set keys then Some t else ownValue m k)"
  by (induction keys arbitrary: m) auto

lemma foreignIdentity_None:
  "foreignIdentity st t keys = None \<longleftrightarrow> (\<forall>k \<in> set keys. ownValue (st_identities st) k \<in> {None, Some t})"
  unfolding foreignIdentity_def find_None_iff by (fastforce split: option.splits)

definition replaces :: "ledger_mutation \<Rightarrow> ledger_record option \<Rightarrow> ledger_record \<Rightarrow> bool" where
  "replaces mutation existing r \<longleftrightarrow>
     (case existing of
        None \<Rightarrow> mu_expectedRevision mutation = None \<and> lr_revision r = 1 \<and> ledger_status r = LedgerPrepared
      | Some found \<Rightarrow> mu_expectedRevision mutation = Some (lr_revision found) \<and> ledger_successor found r)"

lemma casConflict_None:
  "casConflict nfc mutation r existing = Inr None \<longleftrightarrow>
     (case existing of None \<Rightarrow> replaces mutation None r
      | Some found \<Rightarrow> replaces mutation existing r \<and> ledger_valid nfc found \<and> ledger_valid nfc r)"
  by (auto simp: casConflict_def replaces_def result_simps successor_exact split: option.splits)

lemma casConflict_kind: "casConflict nfc mutation r existing \<noteq> Inr (Some (CasApplied q))"
  by (auto simp: casConflict_def result_simps split: option.splits)

lemma validated_valid: "validateSafeCodingLedgerRecord nfc v = Inr r \<Longrightarrow> ledger_valid nfc r"
  unfolding ledger_validator ledger_valid_def using canonicalizable_cong by blast

text \<open>The outcome of a swap, case by case: after the decision nothing can fail.\<close>

lemma swap_cases:
  "compareAndSwap nfc mutation st =
     (case validateSafeCodingLedgerRecord nfc (mu_nextRecord mutation) of
        Inl e \<Rightarrow> (Inl (StoreLedgerError e), st)
      | Inr r \<Rightarrow>
          if mu_transactionId mutation \<noteq> lr_transactionId r
          then (Inl (StoreError (js ''Persistence mutation key does not match ledger record'')), st)
          else case casConflict nfc mutation r (ownValue (st_records st) (lr_transactionId r)) of
            Inl e \<Rightarrow> (Inl e, st)
          | Inr (Some conflict) \<Rightarrow> (Inr conflict, st)
          | Inr None \<Rightarrow>
              (case foreignIdentity st (lr_transactionId r) (sort (identityKeys r)) of
                 Some key \<Rightarrow> (Inr (CasIdentityConflict key), st)
               | None \<Rightarrow> (Inr (CasApplied r), storedIn st (lr_transactionId r) r)))"
proof (cases "validateSafeCodingLedgerRecord nfc (mu_nextRecord mutation)")
  case (Inr r)
  then have valid: "ledger_valid nfc r"
    by (rule validated_valid)
  have own: "safeCodingLedgerIdentityKeys nfc r = Inr (sort (identityKeys r))" "cloneSafeCodingLedgerRecord nfc r = Inr r"
    using valid by (simp_all add: identity_keys_own clone_own)
  show ?thesis
  proof (cases "mu_transactionId mutation = lr_transactionId r")
    case True
    consider e where "casConflict nfc mutation r (ownValue (st_records st) (lr_transactionId r)) = Inl e"
      | c where "casConflict nfc mutation r (ownValue (st_records st) (lr_transactionId r)) = Inr (Some c)"
      | "casConflict nfc mutation r (ownValue (st_records st) (lr_transactionId r)) = Inr None"
      by (metis option.exhaust sum.exhaust)
    then show ?thesis
    proof cases
      case 3
      then show ?thesis
        using True by (cases "foreignIdentity st (lr_transactionId r) (sort (identityKeys r))")
          (simp_all add: compareAndSwap_def Let_def Inr own storedIn_def)
    qed (simp_all add: compareAndSwap_def Let_def Inr True)
  qed (simp add: compareAndSwap_def Let_def Inr)
qed (simp add: compareAndSwap_def)

lemma swap_exact:
  "compareAndSwap nfc mutation st = (Inr (CasApplied r), st') \<longleftrightarrow>
     validateSafeCodingLedgerRecord nfc (mu_nextRecord mutation) = Inr r \<and>
     mu_transactionId mutation = lr_transactionId r \<and>
     casConflict nfc mutation r (ownValue (st_records st) (lr_transactionId r)) = Inr None \<and>
     (\<forall>k \<in> set (identityKeys r). ownValue (st_identities st) k \<in> {None, Some (lr_transactionId r)}) \<and>
     st' = storedIn st (lr_transactionId r) r"
proof -
  have free: "foreignIdentity st t (sort (identityKeys r)) = None \<longleftrightarrow> (\<forall>k \<in> set (identityKeys r). ownValue (st_identities st) k \<in> {None, Some t})" for t r
    by (simp add: foreignIdentity_None)
  show ?thesis
    unfolding swap_cases free [symmetric]
    by (auto simp: casConflict_kind split: sum.splits option.splits if_splits)
qed

section \<open>The invariant\<close>

definition store_inv :: "(jstr \<Rightarrow> jstr) \<Rightarrow> ledger_store \<Rightarrow> bool" where
  "store_inv nfc st \<longleftrightarrow>
     distinct (map fst (st_records st)) \<and>
     (\<forall>t r. ownValue (st_records st) t = Some r \<longrightarrow> lr_transactionId r = t \<and> ledger_valid nfc r) \<and>
     (\<forall>k t. ownValue (st_identities st) k = Some t \<longleftrightarrow>
        (\<exists>r. ownValue (st_records st) t = Some r \<and> k \<in> set (identityKeys r)))"

inductive store_step :: "(jstr \<Rightarrow> jstr) \<Rightarrow> ledger_store \<Rightarrow> ledger_store \<Rightarrow> bool" for nfc where
  swap: "compareAndSwap nfc mutation st = (result, st') \<Longrightarrow> store_step nfc st st'"

lemma same_identity_keys: "same_identity p n \<Longrightarrow> identityKeys n = identityKeys p"
  by (simp add: same_identity_def identityKeys_def)

text \<open>A step changes nothing, adds a prepared record or moves one record to a successor.\<close>

lemma store_step_cases:
  assumes "store_step nfc st st'"
  obtains (same) "st' = st"
  | (added) r where "ledger_valid nfc r" "ownValue (st_records st) (lr_transactionId r) = None" "lr_revision r = 1"
      "ledger_status r = LedgerPrepared" "\<forall>k \<in> set (identityKeys r). ownValue (st_identities st) k \<in> {None, Some (lr_transactionId r)}"
      "st' = storedIn st (lr_transactionId r) r"
  | (moved) r q where "ledger_valid nfc r" "ownValue (st_records st) (lr_transactionId r) = Some q" "ledger_successor q r"
      "st' = storedIn st (lr_transactionId r) r"
proof -
  from assms obtain mutation result where swap: "compareAndSwap nfc mutation st = (result, st')"
    by cases
  show thesis
  proof (cases "\<exists>r. result = Inr (CasApplied r)")
    case True
    then obtain r where r: "validateSafeCodingLedgerRecord nfc (mu_nextRecord mutation) = Inr r"
      "casConflict nfc mutation r (ownValue (st_records st) (lr_transactionId r)) = Inr None"
      "\<forall>k \<in> set (identityKeys r). ownValue (st_identities st) k \<in> {None, Some (lr_transactionId r)}"
      "st' = storedIn st (lr_transactionId r) r"
      using swap by (auto simp: swap_exact)
    show thesis
      using r(2) validated_valid [OF r(1)] r(3,4) added [of r] moved [of r]
      by (cases "ownValue (st_records st) (lr_transactionId r)") (auto simp: casConflict_None replaces_def)
  next
    case False
    then have "st' = st"
      using swap unfolding swap_cases by (auto split: sum.splits option.splits if_splits)
    then show thesis
      by (rule same)
  qed
qed

lemma storedIn_values:
  "ownValue (st_records (storedIn st t r)) u = (if u = t then Some r else ownValue (st_records st) u)"
  "ownValue (st_identities (storedIn st t r)) k = (if k \<in> set (identityKeys r) then Some t else ownValue (st_identities st) k)"
  by (simp_all add: storedIn_def fold_setOwn)

lemma store_inv_step:
  assumes "store_inv nfc st" "store_step nfc st st'"
  shows "store_inv nfc st'"
  using assms(2)
proof (cases rule: store_step_cases)
  case same
  with assms(1) show ?thesis
    by simp
next
  case (added r)
  let ?t = "lr_transactionId r"
  have "ownValue (st_identities st) k \<noteq> Some ?t" for k
    using assms(1) added(2) by (simp add: store_inv_def)
  with added(5) have fresh: "k \<in> set (identityKeys r) \<Longrightarrow> ownValue (st_identities st) k = None" for k
    by auto
  have "ownValue (st_identities st') k = Some u \<longleftrightarrow> (\<exists>q. ownValue (st_records st') u = Some q \<and> k \<in> set (identityKeys q))" for k u
  proof -
    have "ownValue (st_identities st) k = Some u \<longleftrightarrow> (\<exists>q. ownValue (st_records st) u = Some q \<and> k \<in> set (identityKeys q))"
      using assms(1) by (simp add: store_inv_def)
    then show ?thesis
      using added(2) fresh [of k] unfolding added(6) storedIn_values by auto
  qed
  moreover have "distinct (map fst (st_records st'))"
    using assms(1) added(6) by (simp add: store_inv_def storedIn_def)
  moreover have "ownValue (st_records st') u = Some q \<Longrightarrow> lr_transactionId q = u \<and> ledger_valid nfc q" for u q
    using assms(1) added(1,6) by (auto simp: store_inv_def storedIn_values split: if_splits)
  ultimately show ?thesis
    unfolding store_inv_def by blast
next
  case (moved r q)
  let ?t = "lr_transactionId r"
  have keys: "identityKeys r = identityKeys q"
    using moved(3) by (auto simp: ledger_successor_def intro: same_identity_keys)
  have "ownValue (st_identities st') k = Some u \<longleftrightarrow> (\<exists>q. ownValue (st_records st') u = Some q \<and> k \<in> set (identityKeys q))" for k u
  proof -
    have owner: "ownValue (st_identities st) k = Some u \<longleftrightarrow> (\<exists>q. ownValue (st_records st) u = Some q \<and> k \<in> set (identityKeys q))" for u
      using assms(1) by (simp add: store_inv_def)
    show ?thesis
      using moved(2) owner [of u] owner [of ?t] unfolding moved(4) storedIn_values keys by (auto simp: keys)
  qed
  moreover have "distinct (map fst (st_records st'))"
    using assms(1) moved(4) by (simp add: store_inv_def storedIn_def)
  moreover have "ownValue (st_records st') u = Some p \<Longrightarrow> lr_transactionId p = u \<and> ledger_valid nfc p" for u p
    using assms(1) moved(1,4) by (auto simp: store_inv_def storedIn_values split: if_splits)
  ultimately show ?thesis
    unfolding store_inv_def by blast
qed

definition store_order :: "ledger_store \<Rightarrow> ledger_store \<Rightarrow> bool" where
  "store_order st st' \<longleftrightarrow>
     (\<forall>t r. ownValue (st_records st) t = Some r \<longrightarrow> (\<exists>q. ownValue (st_records st') t = Some q \<and> ledger_successor\<^sup>*\<^sup>* r q))"

interpretation store: monotone_system "\<lambda>st. st = emptyStore" "store_step nfc" "store_inv nfc" store_order
proof unfold_locales
  show "store_inv nfc st'" if "store_inv nfc st" "store_step nfc st st'" for st st'
    using that by (rule store_inv_step)
  show "store_order st su" if "store_order st st'" "store_order st' su" for st st' su
    using that unfolding store_order_def by (meson rtranclp_trans)
  show "store_order st st'" if "store_inv nfc st" "store_step nfc st st'" for st st'
    using that(2) by (cases rule: store_step_cases) (auto simp: store_order_def storedIn_values)
qed (auto simp: store_inv_def emptyStore_def store_order_def)

section \<open>Samples\<close>

definition sample_insert :: ledger_mutation where
  "sample_insert = \<lparr>mu_transactionId = et_ticketId sample_ticket, mu_expectedRevision = None,
     mu_nextRecord = ledger_json (sample_prepared sample_now)\<rparr>"

definition sample_update :: ledger_mutation where
  "sample_update = \<lparr>mu_transactionId = et_ticketId sample_ticket, mu_expectedRevision = Some 1,
     mu_nextRecord = ledger_json (sample_committing sample_now)\<rparr>"

definition sample_store :: ledger_store where
  "sample_store = storedIn emptyStore (et_ticketId sample_ticket) (sample_prepared sample_now)"

lemma sample_swap:
  "compareAndSwap (\<lambda>s. s) sample_insert emptyStore = (Inr (CasApplied (sample_prepared sample_now)), sample_store)"
proof -
  have "lr_revision (sample_prepared sample_now) = 1"
    by (simp add: sample_prepared_def prepared_record_def)
  then show ?thesis
    unfolding swap_exact using sample_created_valid(2) [of sample_now]
    by (simp add: sample_insert_def validate_own sample_prepared_simps casConflict_None replaces_def emptyStore_def sample_store_def)
qed

lemma sample_store_reached: "reachable (\<lambda>st. st = emptyStore) (store_step (\<lambda>s. s)) sample_store"
  by (rule reachable.advance [of _ _ emptyStore]) (rule reachable.start, rule refl, rule store_step.swap [OF sample_swap])

section \<open>Properties\<close>

text \<open>C30. The store keeps replay identities apart. In every reachable store each record is valid and filed under its own
  transaction id, and two records that share any replay identity (attestation, attempt, evidence intent, nonce, request, reservation,
  ticket or idempotency key) are the same record.\<close>

theorem store_identities_unique:
  assumes "reachable (\<lambda>st. st = emptyStore) (store_step nfc) st"
    and "ownValue (st_records st) t = Some r" and "ownValue (st_records st) u = Some q"
    and "k \<in> set (identityKeys r)" and "k \<in> set (identityKeys q)"
  shows "t = u \<and> r = q \<and> lr_transactionId r = t \<and> ledger_valid nfc r"
proof -
  have "store_inv nfc st"
    using assms(1) by (rule store.reachable_inv)
  moreover from this have "ownValue (st_identities st) k = Some t" "ownValue (st_identities st) k = Some u"
    using assms(2-5) unfolding store_inv_def by blast+
  ultimately show ?thesis
    using assms(2,3) by (auto simp: store_inv_def)
qed

lemma store_identities_unique_witness:
  "lr_transactionId (sample_prepared sample_now) = et_ticketId sample_ticket \<and> ledger_valid (\<lambda>s. s) (sample_prepared sample_now)"
  using store_identities_unique [OF sample_store_reached, of "et_ticketId sample_ticket" "sample_prepared sample_now"
      "et_ticketId sample_ticket" "sample_prepared sample_now" "js ''ticket:'' @ et_ticketId sample_ticket"]
  by (simp add: sample_store_def storedIn_values identityKeys_def sample_prepared_simps)

text \<open>Stored records are never lost and only move along the ledger: in every continuation of a reachable store the transaction is still
  there, and its record is reached from the earlier one by successor steps, so with the same identity and an outcome
  that, once terminal, is frozen.\<close>

theorem store_history:
  assumes "reachable (\<lambda>st. st = emptyStore) (store_step nfc) st" and "(store_step nfc)\<^sup>*\<^sup>* st st'"
    and "ownValue (st_records st) t = Some r"
  shows "\<exists>q. ownValue (st_records st') t = Some q \<and> ledger_successor\<^sup>*\<^sup>* r q \<and> ledger_order r q"
proof -
  have "store_inv nfc st"
    using assms(1) by (rule store.reachable_inv)
  then obtain q where q: "ownValue (st_records st') t = Some q" "ledger_successor\<^sup>*\<^sup>* r q"
    using store.run_ord [OF assms(2)] assms(3) by (auto simp: store_order_def)
  from q(2) have "ledger_order r q"
  proof (induction rule: rtranclp_induct)
    case base
    show ?case by (rule ledger.ord_refl)
  next
    case (step p n)
    then have "ledger_order p n"
      by (auto simp: ledger_order_def ledger_successor_def)
    with step.IH show ?case
      by (rule ledger.ord_trans)
  qed
  with q show ?thesis
    by blast
qed

lemma store_history_witness:
  "\<exists>q. ownValue (st_records sample_store) (et_ticketId sample_ticket) = Some q \<and> ledger_successor\<^sup>*\<^sup>* (sample_prepared sample_now) q"
  using store_history [OF sample_store_reached rtranclp.rtrancl_refl, of "et_ticketId sample_ticket" "sample_prepared sample_now"]
  by (auto simp: sample_store_def storedIn_values)

text \<open>C31. A swap is applied exactly when the value of the mutation is a valid record filed under the transaction of the mutation, it replaces the expected
  revision (or opens a new transaction with a first, prepared record, or succeeds the stored one) and no other transaction owns one of its
  identities; then the store holds that record and its identities. In every other case, errors included, the store
  is unchanged.\<close>

theorem compare_and_swap_exact:
  assumes "reachable (\<lambda>st. st = emptyStore) (store_step nfc) st"
  shows "(compareAndSwap nfc mutation st = (Inr (CasApplied r), st') \<longleftrightarrow>
      validateSafeCodingLedgerRecord nfc (mu_nextRecord mutation) = Inr r \<and> mu_transactionId mutation = lr_transactionId r \<and>
      replaces mutation (ownValue (st_records st) (lr_transactionId r)) r \<and>
      (\<nexists>u q k. ownValue (st_records st) u = Some q \<and> u \<noteq> lr_transactionId r \<and> k \<in> set (identityKeys q) \<inter> set (identityKeys r)) \<and>
      st' = storedIn st (lr_transactionId r) r) \<and>
    ((\<exists>r. fst (compareAndSwap nfc mutation st) = Inr (CasApplied r)) \<or> snd (compareAndSwap nfc mutation st) = st)"
proof -
  have inv: "store_inv nfc st"
    using assms by (rule store.reachable_inv)
  have owner: "ownValue (st_identities st) k = Some u \<longleftrightarrow> (\<exists>q. ownValue (st_records st) u = Some q \<and> k \<in> set (identityKeys q))" for k u
    using inv by (simp add: store_inv_def)
  have free: "(\<forall>k \<in> set (identityKeys r). ownValue (st_identities st) k \<in> {None, Some (lr_transactionId r)}) \<longleftrightarrow>
      (\<nexists>u q k. ownValue (st_records st) u = Some q \<and> u \<noteq> lr_transactionId r \<and> k \<in> set (identityKeys q) \<inter> set (identityKeys r))"
  proof -
    have "ownValue (st_identities st) k \<in> {None, Some t} \<longleftrightarrow> (\<forall>u. ownValue (st_identities st) k = Some u \<longrightarrow> u = t)" for k t
      by (cases "ownValue (st_identities st) k") auto
    then show ?thesis
      unfolding owner by blast
  qed
  have conflict: "casConflict nfc mutation r (ownValue (st_records st) (lr_transactionId r)) = Inr None \<longleftrightarrow>
      replaces mutation (ownValue (st_records st) (lr_transactionId r)) r"
    if "validateSafeCodingLedgerRecord nfc (mu_nextRecord mutation) = Inr r"
    using inv validated_valid [OF that] by (auto simp: casConflict_None store_inv_def split: option.splits)
  have "(\<exists>r. fst (compareAndSwap nfc mutation st) = Inr (CasApplied r)) \<or> snd (compareAndSwap nfc mutation st) = st"
    unfolding swap_cases by (auto split: sum.splits option.splits)
  then show ?thesis
    unfolding swap_exact free using conflict by blast
qed

lemma compare_and_swap_exact_witness:
  "replaces sample_insert (ownValue (st_records emptyStore) (lr_transactionId (sample_prepared sample_now))) (sample_prepared sample_now)"
proof -
  have "reachable (\<lambda>st. st = emptyStore) (store_step (\<lambda>s. s)) emptyStore"
    by (rule reachable.start) (rule refl)
  from compare_and_swap_exact [OF this, of sample_insert "sample_prepared sample_now" sample_store] sample_swap show ?thesis
    by blast
qed

end
