(* ===== verification/Procedure.thy ===== *)
theory Procedure
  imports Prelude
begin

text \<open>
  Procedures that talk to ports: from the world to an exception or a value, and the world afterwards. The world is
  whatever the ports are allowed to change while the procedure waits for them.
\<close>

type_synonym ('e, 'w, 'a) procedure = "'w \<Rightarrow> ('e + 'a) \<times> 'w"

definition bindP :: "('e, 'w, 'a) procedure \<Rightarrow> ('a \<Rightarrow> ('e, 'w, 'b) procedure) \<Rightarrow> ('e, 'w, 'b) procedure" where
  "bindP m f w = (case m w of (Inl e, w') \<Rightarrow> (Inl e, w') | (Inr x, w') \<Rightarrow> f x w')"

definition pureP :: "'e + 'a \<Rightarrow> ('e, 'w, 'a) procedure" where
  "pureP r w = (r, w)"

named_theorems proc_simps \<open>successful runs of procedures\<close>

lemma bindP_Inr [proc_simps]:
  "bindP m f w = (Inr y, w') \<longleftrightarrow> (\<exists>x w1. m w = (Inr x, w1) \<and> f x w1 = (Inr y, w'))"
  by (auto simp: bindP_def split: prod.splits sum.splits)

lemma pureP_Inr [proc_simps]: "pureP r w = (Inr x, w') \<longleftrightarrow> r = Inr x \<and> w' = w"
  by (auto simp: pureP_def)

end
