(* ===== verification/Ledger_Facade.thy ===== *)
theory Ledger_Facade
  imports Ledger_Store Procedure
begin

text \<open>
  The facade of the effect ledger (\<open>ledger.ts\<close>) and its checks of what a persistence port answers (\<open>persistence.ts\<close>).
  A port is an object whose methods may be missing, and a call of one may throw or answer any value and change the
  world. A mutation snapshots its input, reads the record, applies a transition of \<open>transitions.ts\<close> and swaps the result
  in; the answer of the port is checked before it is returned.

  Inputs are arbitrary values, checked as the code checks them; when a field whose declared type is \<open>string\<close> or
  \<open>boolean\<close> holds another type of value, a call TypeScript excludes, the outcome is \<open>IllTypedInput\<close> and is not followed
  further. Values are trees, so the check for aliases never fires; freezing is not modelled.
\<close>

section \<open>Errors, ports and the ledger object\<close>

datatype ledger_error_code = CasConflictCode | IdentityConflictCode | NotFoundCode | PersistenceInvalidCode | PersistenceUnavailableCode

text \<open>\<open>originalCause\<close>: absent, the exception of a port, an error of the validators or an \<open>Error\<close> with a message.\<close>

datatype error_cause = NoCause | CausePort | CauseLedger ledger_error | CauseError jstr

datatype facade_error =
    SafeCodingLedgerError (fe_code: ledger_error_code) (fe_message: jstr) (fe_transactionId: "jstr option")
      (fe_expectedRevision: "int option") (fe_actualRevision: "int option") (fe_originalCause: error_cause)
  | LedgerFailure ledger_error
  | IllTypedInput

abbreviation viaFacade :: "ledger_error + 'a \<Rightarrow> facade_error + 'a" where
  "viaFacade m \<equiv> catchE m LedgerFailure"

definition persistenceUnavailable :: "jstr option \<Rightarrow> int option \<Rightarrow> error_cause \<Rightarrow> facade_error" where
  "persistenceUnavailable transactionId expectedRevision cause =
     SafeCodingLedgerError PersistenceUnavailableCode (js ''Ledger persistence operation failed closed'')
       transactionId expectedRevision None cause"

definition persistenceInvalid :: "jstr option \<Rightarrow> int option \<Rightarrow> error_cause \<Rightarrow> facade_error" where
  "persistenceInvalid transactionId expectedRevision cause =
     SafeCodingLedgerError PersistenceInvalidCode (js ''Ledger persistence returned invalid state'')
       transactionId expectedRevision None cause"

datatype port_property = MissingProperty | AccessorProperty | DataProperty jsval

record 'w persistence_port =
  pp_durability :: port_property
  pp_read :: "(jstr \<Rightarrow> 'w \<Rightarrow> port_result \<times> 'w) port_member"
  pp_scan :: "('w \<Rightarrow> port_result \<times> 'w) port_member"
  pp_compareAndSwap :: "(ledger_mutation \<Rightarrow> 'w \<Rightarrow> port_result \<times> 'w) port_member"

record 'w effect_ledger =
  el_durability :: ledger_durability
  el_read :: "jstr \<Rightarrow> 'w \<Rightarrow> port_result \<times> 'w"
  el_scan :: "'w \<Rightarrow> port_result \<times> 'w"
  el_compareAndSwap :: "ledger_mutation \<Rightarrow> 'w \<Rightarrow> port_result \<times> 'w"

definition scanMaximumRecords :: nat where "scanMaximumRecords = 4096"
definition scanMaximumAggregateBytes :: nat where "scanMaximumAggregateBytes = 32 * 1024 * 1024"
definition scanMaximumRecordBytes :: nat where "scanMaximumRecordBytes = maximumStringBytes"

section \<open>Checks of persistence.ts\<close>

definition requireRecord_persistence :: "jsval \<Rightarrow> string \<Rightarrow> ledger_error + (jstr \<times> jsval) list" where
  "requireRecord_persistence value label =
     (let notClosed = ledgerError (label @ '' must be a closed data record'') in
      case value of
        JObj sh fs \<Rightarrow>
          if foreignPrototype sh \<or> symbolKeys sh \<or> hiddenFields sh \<or> list_ex (\<lambda>f. snd f = JAccessor) fs then Inl notClosed
          else Inr fs
      | _ \<Rightarrow> Inl notClosed)"

definition requireExactKeys_persistence :: "(jstr \<times> jsval) list \<Rightarrow> string list \<Rightarrow> string \<Rightarrow> ledger_error + unit" where
  "requireExactKeys_persistence fs expected label =
     guardE (sort (map fst fs) = sort (map js expected)) (ledgerError (label @ '' has unknown or missing fields''))"

definition requireIdentifier_persistence :: "jsval \<Rightarrow> string \<Rightarrow> ledger_error + jstr" where
  "requireIdentifier_persistence value label =
     (let invalid = ledgerError (label @ '' must be a bounded identifier'') in
      case value of
        JStr s \<Rightarrow> if length s = 0 \<or> length s > 256 \<or> \<not> identifierText s then Inl invalid else Inr s
      | _ \<Rightarrow> Inl invalid)"

definition requireIdentityKey :: "jsval \<Rightarrow> string \<Rightarrow> ledger_error + jstr" where
  "requireIdentityKey value label =
     (let invalid = ledgerError (label @ '' must be a bounded replay identity key'') in
      case value of
        JStr s \<Rightarrow>
          if length s = 0 \<or> length s > SAFE_CODING_LEDGER_IDENTITY_KEY_MAX_LENGTH \<or> \<not> identifierText s then Inl invalid
          else Inr s
      | _ \<Rightarrow> Inl invalid)"

definition requireNonNegativeInteger_persistence :: "jsval \<Rightarrow> string \<Rightarrow> ledger_error + int" where
  "requireNonNegativeInteger_persistence value label =
     (let invalid = ledgerError (label @ '' must be a non-negative safe integer'') in
      case value of JNum n \<Rightarrow> if \<not> isSafeInteger n \<or> numInt n < 0 then Inl invalid else Inr (numInt n) | _ \<Rightarrow> Inl invalid)"

definition durabilityKeys :: "string list" where
  "durabilityKeys =
     [''version'', ''mode'', ''adapterId'', ''atomicScope'', ''atomicRecordAndOutbox'', ''stableBeforeSuccess'',
      ''restartReadable'', ''multiProcessCas'']"

definition SAFE_CODING_LEDGER_DURABILITY_CONTRACT_VERSION :: int where
  "SAFE_CODING_LEDGER_DURABILITY_CONTRACT_VERSION = 1"

definition validateSafeCodingLedgerDurabilityContract :: "jsval \<Rightarrow> ledger_error + ledger_durability" where
  "validateSafeCodingLedgerDurabilityContract value =
     bindE (requireRecord_persistence value ''Ledger durability contract'') (\<lambda>record.
     bindE (requireExactKeys_persistence record durabilityKeys ''Ledger durability contract'') (\<lambda>_.
     bindE (guardE (\<not> getProp record ''version'' \<noteq> jint SAFE_CODING_LEDGER_DURABILITY_CONTRACT_VERSION)
       (ledgerError ''Ledger durability contract version is invalid'')) (\<lambda>_.
     bindE (requireIdentifier_persistence (getProp record ''adapterId'') ''Ledger adapter ID'') (\<lambda>adapterId.
     if getProp record ''mode'' = JStr (js ''memory-only'') then
       bindE (guardE (\<not> (getProp record ''atomicScope'' \<noteq> JStr (js ''single-js-isolate'') \<or>
           getProp record ''atomicRecordAndOutbox'' \<noteq> JBool True \<or> getProp record ''stableBeforeSuccess'' \<noteq> JBool False \<or>
           getProp record ''restartReadable'' \<noteq> JBool False \<or> getProp record ''multiProcessCas'' \<noteq> JBool False))
         (ledgerError ''Memory-only durability declaration is inconsistent'')) (\<lambda>_.
       Inr (MemoryOnly adapterId))
     else if getProp record ''mode'' = JStr (js ''adapter-declared-durable'') then
       bindE (guardE (\<not> (getProp record ''atomicScope'' \<noteq> JStr (js ''storage-transaction'') \<or>
           getProp record ''atomicRecordAndOutbox'' \<noteq> JBool True \<or> getProp record ''stableBeforeSuccess'' \<noteq> JBool True \<or>
           getProp record ''restartReadable'' \<noteq> JBool True \<or> getProp record ''multiProcessCas'' \<noteq> JBool True))
         (ledgerError ''Durable adapter declaration is inconsistent'')) (\<lambda>_.
       Inr (AdapterDeclaredDurable adapterId))
     else Inl (ledgerError ''Ledger durability mode is invalid'')))))"

definition validateSafeCodingLedgerPersistenceCasResult :: "jsval \<Rightarrow> ledger_error + jsval cas_result" where
  "validateSafeCodingLedgerPersistenceCasResult value =
     bindE (requireRecord_persistence value ''Ledger persistence CAS result'') (\<lambda>record.
     if getProp record ''outcome'' = JStr (js ''APPLIED'') then
       bindE (requireExactKeys_persistence record [''outcome'', ''record''] ''Applied CAS result'') (\<lambda>_.
       Inr (CasApplied (getProp record ''record'')))
     else if getProp record ''outcome'' = JStr (js ''REVISION_CONFLICT'') then
       bindE (requireExactKeys_persistence record [''outcome'', ''actualRevision''] ''Revision-conflict CAS result'') (\<lambda>_.
       bindE (if getProp record ''actualRevision'' = JNull then Inr None
              else bindE (requireNonNegativeInteger_persistence (getProp record ''actualRevision'') ''CAS actual revision'')
                (\<lambda>n. Inr (Some n))) (\<lambda>actualRevision.
       Inr (CasRevisionConflict actualRevision)))
     else if getProp record ''outcome'' = JStr (js ''IDENTITY_CONFLICT'') then
       bindE (requireExactKeys_persistence record [''outcome'', ''identityKey''] ''Identity-conflict CAS result'') (\<lambda>_.
       bindE (requireIdentityKey (getProp record ''identityKey'') ''CAS identity key'') (\<lambda>key.
       Inr (CasIdentityConflict key)))
     else Inl (ledgerError ''Ledger persistence CAS outcome is invalid''))"

definition validatePersistenceRecord :: "(jstr \<Rightarrow> jstr) \<Rightarrow> jsval \<Rightarrow> ledger_error + ledger_record" where
  "validatePersistenceRecord nfc value =
     catchE (validateSafeCodingLedgerRecord nfc value) (\<lambda>_. ledgerError ''Persistence returned an invalid ledger record'')"

section \<open>Construction\<close>

definition pinMethod :: "'f port_member \<Rightarrow> string \<Rightarrow> ledger_error + 'f" where
  "pinMethod member name =
     (case member of
        MissingMember \<Rightarrow> Inl (ledgerError (''Persistence '' @ name @ '' method is missing''))
      | NotADataMethod \<Rightarrow> Inl (ledgerError (''Persistence '' @ name @ '' must be a data method''))
      | DataMethod f \<Rightarrow> Inr f)"

definition readDataProperty :: "port_property \<Rightarrow> ledger_error + jsval" where
  "readDataProperty property =
     (case property of
        MissingProperty \<Rightarrow> Inl (ledgerError ''Persistence durability declaration is missing'')
      | AccessorProperty \<Rightarrow> Inl (ledgerError ''Persistence durability must be a data property'')
      | DataProperty v \<Rightarrow> Inr v)"

definition createEffectLedger :: "'w persistence_port \<Rightarrow> ledger_error + 'w effect_ledger" where
  "createEffectLedger port =
     bindE (readDataProperty (pp_durability port)) (\<lambda>declared.
     bindE (validateSafeCodingLedgerDurabilityContract declared) (\<lambda>durability.
     bindE (pinMethod (pp_read port) ''read'') (\<lambda>reader.
     bindE (pinMethod (pp_scan port) ''scan'') (\<lambda>scanner.
     bindE (pinMethod (pp_compareAndSwap port) ''compareAndSwap'') (\<lambda>swapper.
     Inr \<lparr>el_durability = durability, el_read = reader, el_scan = scanner, el_compareAndSwap = swapper\<rparr>)))))"

section \<open>Snapshots of the inputs\<close>

definition requireClosedTopLevel ::
  "shape \<Rightarrow> (jstr \<times> 'v) list \<Rightarrow> ('v \<Rightarrow> bool) \<Rightarrow> string list \<Rightarrow> string \<Rightarrow> ledger_error + unit" where
  "requireClosedTopLevel sh fs accessor expectedKeys label =
     bindE (guardE (\<not> (foreignPrototype sh \<or> symbolKeys sh)) (ledgerError (label @ '' must be a plain record''))) (\<lambda>_.
     bindE (guardE (\<not> (hiddenFields sh \<or> sort (map fst fs) \<noteq> sort (map js expectedKeys)))
       (ledgerError (label @ '' has unknown, hidden, or missing fields''))) (\<lambda>_.
     guardE (\<not> list_ex (\<lambda>f. accessor (snd f)) fs) (ledgerError (label @ '' contains an accessor''))))"

definition requireClosedTopLevelRecord :: "jsval \<Rightarrow> string list \<Rightarrow> string \<Rightarrow> ledger_error + unit" where
  "requireClosedTopLevelRecord value expectedKeys label =
     (case value of
        JObj sh fs \<Rightarrow> requireClosedTopLevel sh fs (\<lambda>v. v = JAccessor) expectedKeys label
      | _ \<Rightarrow> Inl (ledgerError (label @ '' must be a plain record'')))"

text \<open>The loop of \<open>assertClosedDataTree\<close>; the head of the list is the top of the stack. A missing or extra element of an
  array passes here and is refused by \<open>canonicalizeJson\<close> right after.\<close>

function closedDataScan :: "string \<Rightarrow> jsval list \<Rightarrow> nat \<Rightarrow> ledger_error + unit" where
  "closedDataScan label [] seen = Inr ()"
| "closedDataScan label (value # pending) seen =
     (if seen + 1 > 1024 then Inl (ledgerError (label @ '' is too large''))
      else case value of
        JArr sh xs \<Rightarrow>
          if foreignPrototype sh then Inl (ledgerError (label @ '' contains a non-data container''))
          else if symbolKeys sh then Inl (ledgerError (label @ '' contains symbols''))
          else if length xs + 1 > 128 then Inl (ledgerError (label @ '' is too wide''))
          else if JAccessor \<in> set xs then Inl (ledgerError (label @ '' contains an accessor or hidden field''))
          else closedDataScan label (rev xs @ pending) (seen + 1)
      | JObj sh fs \<Rightarrow>
          if foreignPrototype sh then Inl (ledgerError (label @ '' contains a non-data container''))
          else if symbolKeys sh then Inl (ledgerError (label @ '' contains symbols''))
          else if length fs > 128 then Inl (ledgerError (label @ '' is too wide''))
          else if hiddenFields sh \<or> list_ex (\<lambda>f. snd f = JAccessor) fs
          then Inl (ledgerError (label @ '' contains an accessor or hidden field''))
          else closedDataScan label (rev (map snd fs) @ pending) (seen + 1)
      | _ \<Rightarrow> closedDataScan label pending (seen + 1))"
  by pat_completeness auto

termination
  by (relation "measure (\<lambda>(_, pending, _). sum_list (map node_count pending))")
    (auto simp: comp_def sum_list_rev simp flip: rev_map)

definition assertClosedDataTree :: "jsval \<Rightarrow> string list \<Rightarrow> string \<Rightarrow> ledger_error + unit" where
  "assertClosedDataTree value expectedKeys label =
     bindE (requireClosedTopLevelRecord value expectedKeys label) (\<lambda>_. closedDataScan label [value] 0)"

definition snapshotDataInput ::
  "(jstr \<Rightarrow> jstr) \<Rightarrow> jsval \<Rightarrow> string list \<Rightarrow> string \<Rightarrow> ledger_error + (jstr \<times> jsval) list" where
  "snapshotDataInput nfc value expectedKeys label =
     bindE (assertClosedDataTree value expectedKeys label) (\<lambda>_.
     bindE (catchE (bindE (canonicalizeJson nfc value) (parseCanonicalJson nfc))
       (\<lambda>e. SafeCodingLedgerValidationError (js label @ js '' is invalid: '' @ error_message e))) (\<lambda>snapshot.
     Inr (case snapshot of JObj _ fs \<Rightarrow> fs | _ \<Rightarrow> [])))"

definition validateMutationIdentity :: "jsval \<Rightarrow> jsval \<Rightarrow> ledger_error + jstr \<times> int" where
  "validateMutationIdentity transactionId expectedRevision =
     bindE (case transactionId of
         JStr s \<Rightarrow> guardE (\<not> (length s = 0 \<or> length s > 256 \<or> \<not> identifierText s))
           (ledgerError ''Ledger mutation transactionId is invalid'')
       | _ \<Rightarrow> Inl (ledgerError ''Ledger mutation transactionId is invalid'')) (\<lambda>_.
     bindE (case expectedRevision of
         JNum n \<Rightarrow> guardE (\<not> (\<not> isSafeInteger n \<or> numInt n < 1)) (ledgerError ''Ledger mutation expectedRevision is invalid'')
       | _ \<Rightarrow> Inl (ledgerError ''Ledger mutation expectedRevision is invalid'')) (\<lambda>_.
     Inr (case transactionId of JStr s \<Rightarrow> s | _ \<Rightarrow> [], case expectedRevision of JNum n \<Rightarrow> numInt n | _ \<Rightarrow> 0)))"

definition snapshotMutationInput ::
  "(jstr \<Rightarrow> jstr) \<Rightarrow> jsval \<Rightarrow> string list \<Rightarrow> ledger_error + (jstr \<times> int) \<times> (jstr \<times> jsval) list" where
  "snapshotMutationInput nfc value expectedKeys =
     bindE (snapshotDataInput nfc value expectedKeys ''Ledger mutation input'') (\<lambda>snapshot.
     bindE (validateMutationIdentity (getProp snapshot ''transactionId'') (getProp snapshot ''expectedRevision'')) (\<lambda>identity.
     Inr (identity, snapshot)))"

text \<open>Fields read at their declared type.\<close>

definition declaredString :: "(jstr \<times> jsval) list \<Rightarrow> string \<Rightarrow> facade_error + jstr" where
  "declaredString fs key = (case getProp fs key of JStr s \<Rightarrow> Inr s | _ \<Rightarrow> Inl IllTypedInput)"

definition declaredNullableString :: "(jstr \<times> jsval) list \<Rightarrow> string \<Rightarrow> facade_error + jstr option" where
  "declaredNullableString fs key =
     (case getProp fs key of JNull \<Rightarrow> Inr None | JStr s \<Rightarrow> Inr (Some s) | _ \<Rightarrow> Inl IllTypedInput)"

definition declaredBoolean :: "(jstr \<times> jsval) list \<Rightarrow> string \<Rightarrow> facade_error + bool" where
  "declaredBoolean fs key = (case getProp fs key of JBool b \<Rightarrow> Inr b | _ \<Rightarrow> Inl IllTypedInput)"

section \<open>Reading, applying and mutating\<close>

definition callPort :: "('w \<Rightarrow> port_result \<times> 'w) \<Rightarrow> facade_error \<Rightarrow> (facade_error, 'w, jsval) procedure" where
  "callPort ask failed w = (case ask w of (PortThrows, w') \<Rightarrow> (Inl failed, w') | (PortReturns v, w') \<Rightarrow> (Inr v, w'))"

definition ledger_get ::
  "(jstr \<Rightarrow> jstr) \<Rightarrow> 'w effect_ledger \<Rightarrow> jstr \<Rightarrow> (facade_error, 'w, ledger_record option) procedure" where
  "ledger_get nfc el transactionId =
     bindP (callPort (el_read el transactionId) (persistenceUnavailable (Some transactionId) None CausePort)) (\<lambda>value.
     if value = JNull then pureP (Inr None)
     else pureP (catchE
       (bindE (validatePersistenceRecord nfc value) (\<lambda>record.
        bindE (guardE (\<not> lr_transactionId record \<noteq> transactionId)
          (ledgerError ''Persistence read returned the wrong transaction'')) (\<lambda>_.
        bindE (cloneSafeCodingLedgerRecord nfc record) (\<lambda>copy. Inr (Some copy)))))
       (\<lambda>e. persistenceInvalid (Some transactionId) None (CauseLedger e))))"

definition ledger_apply ::
  "(jstr \<Rightarrow> jstr) \<Rightarrow> 'w effect_ledger \<Rightarrow> jstr \<Rightarrow> int option \<Rightarrow> ledger_record \<Rightarrow> (facade_error, 'w, ledger_record) procedure" where
  "ledger_apply nfc el transactionId expectedRevision nextRecord =
     (let invalid = persistenceInvalid (Some transactionId) expectedRevision in
     bindP (pureP (viaFacade (catchE (canonicalizeJson nfc (ledger_json nextRecord)) LedgerPassed))) (\<lambda>expectedRecordCanonical.
     bindP (callPort (el_compareAndSwap el
         \<lparr>mu_transactionId = transactionId, mu_expectedRevision = expectedRevision, mu_nextRecord = ledger_json nextRecord\<rparr>)
       (persistenceUnavailable (Some transactionId) expectedRevision CausePort)) (\<lambda>rawResult.
     pureP (bindE (catchE (validateSafeCodingLedgerPersistenceCasResult rawResult) (\<lambda>e. invalid (CauseLedger e))) (\<lambda>result.
       case result of
         CasRevisionConflict actualRevision \<Rightarrow>
           Inl (SafeCodingLedgerError CasConflictCode (js ''Persistence rejected ledger revision CAS'') (Some transactionId)
             expectedRevision actualRevision NoCause)
       | CasIdentityConflict key \<Rightarrow>
           Inl (SafeCodingLedgerError IdentityConflictCode (js ''Persistence rejected replay identity '' @ key)
             (Some transactionId) expectedRevision None NoCause)
       | CasApplied value \<Rightarrow>
           bindE (catchE (validatePersistenceRecord nfc value) (\<lambda>e. invalid (CauseLedger e))) (\<lambda>applied.
           bindE (if lr_transactionId applied \<noteq> transactionId then Inr True
                  else bindE (viaFacade (catchE (canonicalizeJson nfc (ledger_json applied)) LedgerPassed)) (\<lambda>canonical.
                    Inr (canonical \<noteq> expectedRecordCanonical))) (\<lambda>differs.
           bindE (guardE (\<not> differs) (invalid (CauseError (js ''APPLIED result differs from requested atomic record'')))) (\<lambda>_.
           viaFacade (cloneSafeCodingLedgerRecord nfc applied)))))))))"

text \<open>The first half of \<open>mutate\<close>: the current record, when it is there at the expected revision.\<close>

definition currentRecord ::
  "(jstr \<Rightarrow> jstr) \<Rightarrow> 'w effect_ledger \<Rightarrow> jstr \<Rightarrow> int \<Rightarrow> (facade_error, 'w, ledger_record) procedure" where
  "currentRecord nfc el transactionId expectedRevision =
     bindP (ledger_get nfc el transactionId) (\<lambda>existing.
     case existing of
       None \<Rightarrow> pureP (Inl (SafeCodingLedgerError NotFoundCode (js ''Ledger transaction does not exist'') (Some transactionId)
         (Some expectedRevision) None NoCause))
     | Some found \<Rightarrow>
         if lr_revision found \<noteq> expectedRevision
         then pureP (Inl (SafeCodingLedgerError CasConflictCode (js ''Ledger revision does not match caller expectation'')
           (Some transactionId) (Some expectedRevision) (Some (lr_revision found)) NoCause))
         else pureP (Inr found))"

definition mutate ::
  "(jstr \<Rightarrow> jstr) \<Rightarrow> 'w effect_ledger \<Rightarrow> jstr \<times> int \<Rightarrow> (ledger_record \<Rightarrow> ledger_error + ledger_record) \<Rightarrow>
   (facade_error, 'w, ledger_record) procedure" where
  "mutate nfc el identity transition =
     bindP (currentRecord nfc el (fst identity) (snd identity)) (\<lambda>found.
     bindP (pureP (viaFacade (transition found))) (\<lambda>nextRecord.
     ledger_apply nfc el (fst identity) (Some (snd identity)) nextRecord))"

section \<open>Operations\<close>

definition createPrepared :: "(jstr \<Rightarrow> jstr) \<Rightarrow> 'w effect_ledger \<Rightarrow> jsval \<Rightarrow> (facade_error, 'w, ledger_record) procedure" where
  "createPrepared nfc el input =
     bindP (pureP (viaFacade (snapshotDataInput nfc input
         [''ticket'', ''attemptId'', ''evidenceIntentId'', ''attestationId'', ''evidenceExpectation'', ''now'']
         ''PREPARED mutation input''))) (\<lambda>snapshot.
     bindP (pureP (declaredString snapshot ''attemptId'')) (\<lambda>attemptId.
     bindP (pureP (declaredString snapshot ''evidenceIntentId'')) (\<lambda>evidenceIntentId.
     bindP (pureP (declaredString snapshot ''attestationId'')) (\<lambda>attestationId.
     bindP (pureP (declaredString snapshot ''now'')) (\<lambda>now.
     bindP (pureP (viaFacade (createPreparedSafeCodingLedgerRecord nfc
         \<lparr>pi_ticket = getProp snapshot ''ticket'', pi_attemptId = attemptId, pi_evidenceIntentId = evidenceIntentId,
          pi_attestationId = attestationId, pi_evidenceExpectation = getProp snapshot ''evidenceExpectation'', pi_now = now\<rparr>))) (\<lambda>nextRecord.
     ledger_apply nfc el (lr_transactionId nextRecord) None nextRecord))))))"

definition recordCommitPermit :: "(jstr \<Rightarrow> jstr) \<Rightarrow> 'w effect_ledger \<Rightarrow> jsval \<Rightarrow> (facade_error, 'w, ledger_record) procedure" where
  "recordCommitPermit nfc el input =
     bindP (pureP (viaFacade (snapshotMutationInput nfc input [''transactionId'', ''expectedRevision'', ''permit''])))
       (\<lambda>(identity, snapshot).
     mutate nfc el identity (\<lambda>record. recordSafeCodingCommitPermit nfc record (getProp snapshot ''permit'')))"

definition closeCommitted :: "(jstr \<Rightarrow> jstr) \<Rightarrow> 'w effect_ledger \<Rightarrow> jsval \<Rightarrow> (facade_error, 'w, ledger_record) procedure" where
  "closeCommitted nfc el input =
     bindP (pureP (viaFacade (snapshotMutationInput nfc input
       [''transactionId'', ''expectedRevision'', ''now'', ''attestation'', ''resultHash'']))) (\<lambda>(identity, snapshot).
     bindP (pureP (declaredString snapshot ''now'')) (\<lambda>now.
     bindP (pureP (declaredString snapshot ''resultHash'')) (\<lambda>resultHash.
     mutate nfc el identity (\<lambda>record.
       closeSafeCodingLedgerCommitted nfc record now (getProp snapshot ''attestation'') resultHash))))"

definition closeResultUnavailable :: "(jstr \<Rightarrow> jstr) \<Rightarrow> 'w effect_ledger \<Rightarrow> jsval \<Rightarrow> (facade_error, 'w, ledger_record) procedure" where
  "closeResultUnavailable nfc el input =
     bindP (pureP (viaFacade (snapshotMutationInput nfc input
       [''transactionId'', ''expectedRevision'', ''now'', ''attestation'', ''resultHash'', ''reasonCode'']))) (\<lambda>(identity, snapshot).
     bindP (pureP (declaredString snapshot ''now'')) (\<lambda>now.
     bindP (pureP (declaredNullableString snapshot ''resultHash'')) (\<lambda>resultHash.
     bindP (pureP (declaredString snapshot ''reasonCode'')) (\<lambda>reasonCode.
     mutate nfc el identity (\<lambda>record.
       closeSafeCodingLedgerResultUnavailable nfc record now (getProp snapshot ''attestation'') resultHash reasonCode)))))"

definition closeUncertain :: "(jstr \<Rightarrow> jstr) \<Rightarrow> 'w effect_ledger \<Rightarrow> jsval \<Rightarrow> (facade_error, 'w, ledger_record) procedure" where
  "closeUncertain nfc el input =
     bindP (pureP (viaFacade (snapshotMutationInput nfc input
       [''transactionId'', ''expectedRevision'', ''now'', ''attestation'', ''resultHash'', ''reasonCode'',
        ''effectCompletionObserved'']))) (\<lambda>(identity, snapshot).
     bindP (pureP (declaredString snapshot ''now'')) (\<lambda>now.
     bindP (pureP (declaredNullableString snapshot ''resultHash'')) (\<lambda>resultHash.
     bindP (pureP (declaredString snapshot ''reasonCode'')) (\<lambda>reasonCode.
     bindP (pureP (declaredBoolean snapshot ''effectCompletionObserved'')) (\<lambda>observed.
     mutate nfc el identity (\<lambda>record.
       closeSafeCodingLedgerUncertain nfc record now (getProp snapshot ''attestation'') resultHash reasonCode observed))))))"

definition closeFailedPreEffect :: "(jstr \<Rightarrow> jstr) \<Rightarrow> 'w effect_ledger \<Rightarrow> jsval \<Rightarrow> (facade_error, 'w, ledger_record) procedure" where
  "closeFailedPreEffect nfc el input =
     bindP (pureP (viaFacade (snapshotMutationInput nfc input
       [''transactionId'', ''expectedRevision'', ''now'', ''attestation'', ''reasonCode'']))) (\<lambda>(identity, snapshot).
     bindP (pureP (declaredString snapshot ''now'')) (\<lambda>now.
     bindP (pureP (declaredString snapshot ''reasonCode'')) (\<lambda>reasonCode.
     mutate nfc el identity (\<lambda>record.
       closeSafeCodingLedgerFailedPreEffect nfc record now (getProp snapshot ''attestation'') reasonCode))))"

text \<open>The input of \<open>markEvidenceAdmitted\<close> may hold a receipt object, so its fields are arguments as in \<open>admit_input\<close>. The
  snapshot keeps its three fields and is handed to the transition as it is. The world now includes the verified receipts.\<close>

definition snapshotVerifiedReceiptMutation :: "admit_input \<Rightarrow> ledger_error + (jstr \<times> int) \<times> admit_input" where
  "snapshotVerifiedReceiptMutation value =
     (let keys = [''transactionId'', ''expectedRevision'', ''receipt''];
          field = (\<lambda>key. case map_of (ai_fields value) (js key) of None \<Rightarrow> OtherArgument JUndefined | Some v \<Rightarrow> v);
          plain = (\<lambda>key. case field key of OtherArgument v \<Rightarrow> v | ReceiptObject _ \<Rightarrow> JOther) in
     bindE (requireClosedTopLevel (ai_shape value) (ai_fields value) (\<lambda>v. v = OtherArgument JAccessor) keys
       ''Evidence-admission mutation input'') (\<lambda>_.
     bindE (validateMutationIdentity (plain ''transactionId'') (plain ''expectedRevision'')) (\<lambda>identity.
     Inr (identity, \<lparr>ai_shape = plain_shape, ai_fields = map (\<lambda>key. (js key, field key)) keys\<rparr>))))"

text \<open>A procedure on the world alone, in a world that also holds the registry of receipts.\<close>

definition besideRegistry ::
  "(facade_error, 'w, 'a) procedure \<Rightarrow> (facade_error, 'w \<times> 'w receipt_registry, 'a) procedure" where
  "besideRegistry m s = (case m (fst s) of (r, w') \<Rightarrow> (r, w', snd s))"

definition markEvidenceAdmitted ::
  "(jstr \<Rightarrow> jstr) \<Rightarrow> 'w effect_ledger \<Rightarrow> admit_input \<Rightarrow> (facade_error, 'w \<times> 'w receipt_registry, ledger_record) procedure" where
  "markEvidenceAdmitted nfc el input =
     bindP (pureP (viaFacade (snapshotVerifiedReceiptMutation input))) (\<lambda>(identity, snapshot).
     bindP (besideRegistry (currentRecord nfc el (fst identity) (snd identity))) (\<lambda>found.
     bindP (\<lambda>(w, registry). case markSafeCodingLedgerEvidenceAdmitted nfc found snapshot w registry of
         (r, registry') \<Rightarrow> (viaFacade r, w, registry')) (\<lambda>nextRecord.
     besideRegistry (ledger_apply nfc el (fst identity) (Some (snd identity)) nextRecord))))"

section \<open>Scanning\<close>

definition validateBoundedScanRows :: "jsval \<Rightarrow> facade_error + jsval list" where
  "validateBoundedScanRows value =
     (let invalid = (\<lambda>message. persistenceInvalid None None (CauseError (js message))) in
      case value of
        JArr sh xs \<Rightarrow>
          if foreignPrototype sh then Inl (invalid ''scan did not return an ordinary array'')
          else if length xs > scanMaximumRecords then Inl (invalid ''scan exceeds the record-count limit'')
          else if symbolKeys sh then Inl (invalid ''scan array has symbols'')
          else if hiddenFields sh then Inl (invalid ''scan returned a sparse or extended array'')
          else if JAccessor \<in> set xs then Inl (invalid ''scan array contains an accessor'')
          else Inr xs
      | _ \<Rightarrow> Inl (invalid ''scan did not return an ordinary array''))"

fun utf8ByteLength :: "jstr \<Rightarrow> nat" where
  "utf8ByteLength [] = 0"
| "utf8ByteLength [code] = (if code \<le> 0x7f then 1 else if code \<le> 0x7ff then 2 else 3)"
| "utf8ByteLength (code # low # rest) =
     (if code \<le> 0x7f then 1 + utf8ByteLength (low # rest)
      else if code \<le> 0x7ff then 2 + utf8ByteLength (low # rest)
      else if 0xd800 \<le> code \<and> code \<le> 0xdbff \<and> 0xdc00 \<le> low \<and> low \<le> 0xdfff then 4 + utf8ByteLength rest
      else 3 + utf8ByteLength (low # rest))"

fun claimIdentities :: "jstr \<Rightarrow> jstr list \<Rightarrow> jstr jsobj \<Rightarrow> facade_error + jstr jsobj" where
  "claimIdentities transactionId [] owners = Inr owners"
| "claimIdentities transactionId (key # keys) owners =
     (case ownValue owners key of
        Some owner \<Rightarrow>
          if owner \<noteq> transactionId
          then Inl (persistenceInvalid (Some transactionId) None (CauseError
            (js ''scan returned replay identity '' @ key @ js '' owned by '' @ owner)))
          else claimIdentities transactionId keys (setOwn owners key transactionId)
      | None \<Rightarrow> claimIdentities transactionId keys (setOwn owners key transactionId))"

text \<open>The callback of \<open>rows.map\<close> over the remaining rows, with the transactions seen, the identity owners and the bytes so far.\<close>

fun scanRows ::
  "(jstr \<Rightarrow> jstr) \<Rightarrow> jsval list \<Rightarrow> jstr list \<Rightarrow> jstr jsobj \<Rightarrow> nat \<Rightarrow> facade_error + ledger_record list" where
  "scanRows nfc [] transactionIds owners aggregateBytes = Inr []"
| "scanRows nfc (value # rows) transactionIds owners aggregateBytes =
     bindE (catchE (validatePersistenceRecord nfc value) (\<lambda>e. persistenceInvalid None None (CauseLedger e))) (\<lambda>record.
     let transactionId = lr_transactionId record in
     bindE (guardE (transactionId \<notin> set transactionIds)
       (persistenceInvalid (Some transactionId) None (CauseError (js ''scan returned duplicate transaction'')))) (\<lambda>_.
     bindE (viaFacade (safeCodingLedgerIdentityKeys nfc record)) (\<lambda>keys.
     bindE (claimIdentities transactionId keys owners) (\<lambda>owners'.
     bindE (viaFacade (catchE (canonicalizeJson nfc (ledger_json record)) LedgerPassed)) (\<lambda>canonical.
     let recordBytes = utf8ByteLength canonical in
     bindE (guardE (\<not> recordBytes > scanMaximumRecordBytes)
       (persistenceInvalid (Some transactionId) None (CauseError (js ''scan record exceeds the byte limit'')))) (\<lambda>_.
     bindE (guardE (\<not> aggregateBytes + recordBytes > scanMaximumAggregateBytes)
       (persistenceInvalid None None (CauseError (js ''scan exceeds the aggregate byte limit'')))) (\<lambda>_.
     bindE (viaFacade (cloneSafeCodingLedgerRecord nfc record)) (\<lambda>copy.
     bindE (scanRows nfc rows (transactionId # transactionIds) owners' (aggregateBytes + recordBytes)) (\<lambda>rest.
     Inr (copy # rest))))))))))"

definition ledger_scan :: "(jstr \<Rightarrow> jstr) \<Rightarrow> 'w effect_ledger \<Rightarrow> (facade_error, 'w, ledger_record list) procedure" where
  "ledger_scan nfc el =
     bindP (callPort (el_scan el) (persistenceUnavailable None None CausePort)) (\<lambda>values.
     pureP (bindE (validateBoundedScanRows values) (\<lambda>rows.
       bindE (scanRows nfc rows [] [] 0) (\<lambda>records.
       Inr (sort_key lr_transactionId records)))))"

definition scanRecovery :: "(jstr \<Rightarrow> jstr) \<Rightarrow> 'w effect_ledger \<Rightarrow> (facade_error, 'w, recovery_decision list) procedure" where
  "scanRecovery nfc el =
     bindP (ledger_scan nfc el) (\<lambda>records. pureP (viaFacade (mapE (classifySafeCodingLedgerRecovery nfc) records)))"

definition pendingEvidenceScan :: "(jstr \<Rightarrow> jstr) \<Rightarrow> 'w effect_ledger \<Rightarrow> (facade_error, 'w, ledger_record list) procedure" where
  "pendingEvidenceScan nfc el =
     bindP (ledger_scan nfc el) (\<lambda>records.
     pureP (Inr (filter (\<lambda>record. ev_status (lr_evidenceAdmission record) = EvidencePending) records)))"

end
