(* ===== verification/Ledger_Facade_Properties.thy ===== *)
theory Ledger_Facade_Properties
  imports Ledger_Facade
begin

text \<open>
  What the facade of the ledger guarantees. Whatever the port answers, an operation returns only the record that the
  requested transition produced from a valid record; over the in-memory store every operation is one transition of one
  record or changes nothing; and a scan returns exactly the valid rows of a consistent, bounded answer.
\<close>

section \<open>Answers of a port\<close>

lemma persistence_record_Inr:
  "validatePersistenceRecord nfc v = Inr r \<longleftrightarrow> validateSafeCodingLedgerRecord nfc v = Inr r"
  by (simp add: validatePersistenceRecord_def result_simps)

lemma callPort_Inr [proc_simps]: "callPort ask e w = (Inr v, w') \<longleftrightarrow> ask w = (PortReturns v, w')"
  by (auto simp: callPort_def split: prod.splits port_result.splits)

lemma canonical_record:
  assumes "canonicalizeJson nfc (ledger_json r) = Inr c" "canonicalizeJson nfc (ledger_json q) = Inr c"
  shows "r = q"
proof -
  have "sameCanonical nfc (ledger_json r) (ledger_json q) = Inr (r = q)"
    using assms by (subst sameCanonical_Inr) (auto simp: canonicalizeJson_Inr wf_jsval_ledger ledger_inj)
  then show ?thesis
    by (simp add: sameCanonical_def assms)
qed

lemma valid_canonical: "ledger_valid nfc r \<Longrightarrow> canonicalizeJson nfc (ledger_json r) = Inr (render (ledger_json r))"
  by (simp add: canonicalizeJson_Inr ledger_valid_def)

text \<open>What \<open>get\<close>, \<open>apply\<close> and \<open>mutate\<close> return, for every port.\<close>

lemma get_exact:
  "ledger_get nfc el t w = (Inr x, w') \<longleftrightarrow>
     (\<exists>v. el_read el t w = (PortReturns v, w') \<and>
        (case x of None \<Rightarrow> v = JNull
         | Some r \<Rightarrow> validateSafeCodingLedgerRecord nfc v = Inr r \<and> lr_transactionId r = t))"
proof -
  have null: "validateSafeCodingLedgerRecord nfc v = Inr r \<Longrightarrow> v \<noteq> JNull" for v r
    by (auto simp: ledger_validator ledger_json_def jrec_def)
  have checked: "bindE (validatePersistenceRecord nfc v) (\<lambda>record.
      bindE (guardE (\<not> lr_transactionId record \<noteq> t) e) (\<lambda>_.
      bindE (cloneSafeCodingLedgerRecord nfc record) (\<lambda>copy. Inr (Some copy)))) = Inr x \<longleftrightarrow>
      (\<exists>r. x = Some r \<and> validateSafeCodingLedgerRecord nfc v = Inr r \<and> lr_transactionId r = t)" for v e
    using validated_valid by (fastforce simp: bindE_eq_Inr guardE_eq_Inr persistence_record_Inr clone_own)
  have step: "(if v = JNull then pureP (Inr None) else pureP m) w1 = (Inr x, w') \<longleftrightarrow>
      w1 = w' \<and> (v = JNull \<and> x = None \<or> v \<noteq> JNull \<and> m = Inr x)" for v and m :: "facade_error + ledger_record option" and w1
    by (auto simp: proc_simps)
  show ?thesis
    unfolding ledger_get_def bindP_Inr callPort_Inr step catchE_eq_Inr checked by (cases x) (auto dest: null)
qed

lemma apply_exact:
  "ledger_apply nfc el t n q w = (Inr r, w') \<longleftrightarrow>
     r = q \<and> ledger_valid nfc q \<and> lr_transactionId q = t \<and>
     (\<exists>raw v. el_compareAndSwap el \<lparr>mu_transactionId = t, mu_expectedRevision = n, mu_nextRecord = ledger_json q\<rparr> w =
          (PortReturns raw, w') \<and>
        validateSafeCodingLedgerPersistenceCasResult raw = Inr (CasApplied v) \<and> validateSafeCodingLedgerRecord nfc v = Inr q)"
  (is "?L \<longleftrightarrow> ?R")
proof
  assume ?L
  then obtain c raw result where c: "canonicalizeJson nfc (ledger_json q) = Inr c"
    "el_compareAndSwap el \<lparr>mu_transactionId = t, mu_expectedRevision = n, mu_nextRecord = ledger_json q\<rparr> w = (PortReturns raw, w')"
    "validateSafeCodingLedgerPersistenceCasResult raw = Inr result" and
    rest: "(case result of
         CasRevisionConflict a \<Rightarrow>
           Inl (SafeCodingLedgerError CasConflictCode (js ''Persistence rejected ledger revision CAS'') (Some t) n a NoCause)
       | CasIdentityConflict key \<Rightarrow>
           Inl (SafeCodingLedgerError IdentityConflictCode (js ''Persistence rejected replay identity '' @ key) (Some t) n None NoCause)
       | CasApplied value \<Rightarrow>
           bindE (catchE (validatePersistenceRecord nfc value) (\<lambda>e. persistenceInvalid (Some t) n (CauseLedger e))) (\<lambda>applied.
           bindE (if lr_transactionId applied \<noteq> t then Inr True
                  else bindE (viaFacade (catchE (canonicalizeJson nfc (ledger_json applied)) LedgerPassed)) (\<lambda>canonical.
                    Inr (canonical \<noteq> c))) (\<lambda>differs.
           bindE (guardE (\<not> differs) (persistenceInvalid (Some t) n (CauseError (js ''APPLIED result differs from requested atomic record'')))) (\<lambda>_.
           viaFacade (cloneSafeCodingLedgerRecord nfc applied))))) = Inr r"
    unfolding ledger_apply_def Let_def proc_simps bindE_eq_Inr catchE_eq_Inr by blast
  from rest obtain v where v: "result = CasApplied v"
    by (cases result) auto
  with rest obtain s where s: "validateSafeCodingLedgerRecord nfc v = Inr s" "lr_transactionId s = t"
    "canonicalizeJson nfc (ledger_json s) = Inr c" "ledger_valid nfc s" "r = s"
    by (auto simp: bindE_eq_Inr catchE_eq_Inr guardE_eq_Inr persistence_record_Inr clone_own split: if_splits)
  from s(3) c(1) have "s = q"
    by (rule canonical_record)
  with c v s show ?R
    by blast
next
  assume ?R
  then show ?L
    by (auto simp: ledger_apply_def Let_def proc_simps result_simps persistence_record_Inr valid_canonical clone_own)
qed

lemma current_exact:
  "currentRecord nfc el t n w = (Inr r, w') \<longleftrightarrow> ledger_get nfc el t w = (Inr (Some r), w') \<and> lr_revision r = n"
  by (auto simp: currentRecord_def proc_simps split: option.splits if_splits)

lemma mutate_exact:
  "mutate nfc el i T w = (Inr r, w') \<longleftrightarrow>
     (\<exists>found w1. ledger_get nfc el (fst i) w = (Inr (Some found), w1) \<and> lr_revision found = snd i \<and> T found = Inr r \<and>
        ledger_apply nfc el (fst i) (Some (snd i)) r w1 = (Inr r, w'))"
proof -
  have "ledger_apply nfc el t n q w = (Inr s, w') \<Longrightarrow> s = q" for t n q w s w'
    by (simp add: apply_exact)
  then show ?thesis
    unfolding mutate_def proc_simps current_exact catchE_eq_Inr by blast
qed

section \<open>Requests\<close>

datatype facade_request =
    CreatePrepared jsval | RecordCommitPermit jsval | CloseCommitted jsval | CloseResultUnavailable jsval
  | CloseUncertainly jsval | CloseFailed jsval

fun facade_call :: "(jstr \<Rightarrow> jstr) \<Rightarrow> 'w effect_ledger \<Rightarrow> facade_request \<Rightarrow> (facade_error, 'w, ledger_record) procedure" where
  "facade_call nfc el (CreatePrepared v) = createPrepared nfc el v"
| "facade_call nfc el (RecordCommitPermit v) = recordCommitPermit nfc el v"
| "facade_call nfc el (CloseCommitted v) = closeCommitted nfc el v"
| "facade_call nfc el (CloseResultUnavailable v) = closeResultUnavailable nfc el v"
| "facade_call nfc el (CloseUncertainly v) = closeUncertain nfc el v"
| "facade_call nfc el (CloseFailed v) = closeFailedPreEffect nfc el v"

text \<open>Every operation first checks its input, and then applies a new record or mutates a stored one by a transition.\<close>

definition follows :: "(jstr \<Rightarrow> jstr) \<Rightarrow> 'w effect_ledger \<Rightarrow> (facade_error, 'w, ledger_record) procedure \<Rightarrow> bool" where
  "follows nfc el m \<longleftrightarrow>
     (\<exists>e. m = pureP (Inl e)) \<or>
     (\<exists>r. ledger_created nfc r \<and> m = ledger_apply nfc el (lr_transactionId r) None r) \<or>
     (\<exists>i T. (\<forall>p r. T p = Inr r \<longrightarrow> ledger_step nfc p r) \<and> m = mutate nfc el i T)"

lemma follows_bind:
  "(\<And>x. X = Inr x \<Longrightarrow> follows nfc el (f x)) \<Longrightarrow> follows nfc el (bindP (pureP X) f)"
  by (cases X) (auto simp: follows_def bindP_def pureP_def fun_eq_iff)

lemma follows_bind_pair:
  "(\<And>a b. X = Inr (a, b) \<Longrightarrow> follows nfc el (f a b)) \<Longrightarrow> follows nfc el (bindP (pureP X) (\<lambda>(a, b). f a b))"
  by (rule follows_bind) auto

lemma follows_mutate: "(\<And>p r. T p = Inr r \<Longrightarrow> ledger_step nfc p r) \<Longrightarrow> follows nfc el (mutate nfc el i T)"
  unfolding follows_def by blast

lemma facade_follows: "follows nfc el (facade_call nfc el q)"
proof (cases q)
  case (CreatePrepared v)
  have "follows nfc el (ledger_apply nfc el (lr_transactionId r) None r)"
    if "viaFacade (createPreparedSafeCodingLedgerRecord nfc input) = Inr r" for input r
    using that unfolding follows_def ledger_created_def by (auto simp: result_simps)
  then show ?thesis
    unfolding CreatePrepared facade_call.simps createPrepared_def by (intro follows_bind)
next
  case (RecordCommitPermit v)
  show ?thesis
    unfolding RecordCommitPermit facade_call.simps recordCommitPermit_def
    by (intro follows_bind_pair follows_mutate) (rule ledger_step.permit)
next
  case (CloseCommitted v)
  show ?thesis
    unfolding CloseCommitted facade_call.simps closeCommitted_def
    by (intro follows_bind_pair follows_bind follows_mutate) (rule ledger_step.committed)
next
  case (CloseResultUnavailable v)
  show ?thesis
    unfolding CloseResultUnavailable facade_call.simps closeResultUnavailable_def
    by (intro follows_bind_pair follows_bind follows_mutate) (rule ledger_step.unavailable)
next
  case (CloseUncertainly v)
  show ?thesis
    unfolding CloseUncertainly facade_call.simps closeUncertain_def
    by (intro follows_bind_pair follows_bind follows_mutate) (rule ledger_step.uncertain)
next
  case (CloseFailed v)
  show ?thesis
    unfolding CloseFailed facade_call.simps closeFailedPreEffect_def
    by (intro follows_bind_pair follows_bind follows_mutate) (rule ledger_step.failed)
qed

lemma facade_call_result:
  assumes "facade_call nfc el q w = (Inr r, w')"
  obtains (created) "ledger_created nfc r" "ledger_apply nfc el (lr_transactionId r) None r w = (Inr r, w')"
  | (moved) p w1 where "ledger_get nfc el (lr_transactionId r) w = (Inr (Some p), w1)" "ledger_step nfc p r"
      "ledger_apply nfc el (lr_transactionId r) (Some (lr_revision p)) r w1 = (Inr r, w')"
  using facade_follows [of nfc el q] unfolding follows_def
proof (elim disjE exE conjE)
  show thesis if "facade_call nfc el q = pureP (Inl e)" for e
    using assms that by (simp add: pureP_def)
  show thesis if "ledger_created nfc s" "facade_call nfc el q = ledger_apply nfc el (lr_transactionId s) None s" for s
    using assms that created by (auto simp: apply_exact)
  show thesis if "\<forall>p r. T p = Inr r \<longrightarrow> ledger_step nfc p r" "facade_call nfc el q = mutate nfc el i T" for i T
  proof -
    from assms that(2) obtain p w1 where p: "ledger_get nfc el (fst i) w = (Inr (Some p), w1)" "lr_revision p = snd i" "T p = Inr r"
      "ledger_apply nfc el (fst i) (Some (snd i)) r w1 = (Inr r, w')"
      by (auto simp: mutate_exact)
    moreover from p(4) have "fst i = lr_transactionId r"
      by (simp add: apply_exact)
    ultimately show thesis
      using that(1) moved [of p w1] by simp
  qed
qed

section \<open>The in-memory store as the port\<close>

definition cas_json :: "ledger_record cas_result \<Rightarrow> jsval" where
  "cas_json result =
     (case result of
        CasApplied r \<Rightarrow> jrec [(''outcome'', JStr (js ''APPLIED'')), (''record'', ledger_json r)]
      | CasRevisionConflict n \<Rightarrow>
          jrec [(''outcome'', JStr (js ''REVISION_CONFLICT'')), (''actualRevision'', case n of None \<Rightarrow> JNull | Some i \<Rightarrow> jint i)]
      | CasIdentityConflict k \<Rightarrow> jrec [(''outcome'', JStr (js ''IDENTITY_CONFLICT'')), (''identityKey'', JStr k)])"

definition durability_json :: "ledger_durability \<Rightarrow> jsval" where
  "durability_json d =
     (let durable = (case d of MemoryOnly _ \<Rightarrow> False | AdapterDeclaredDurable _ \<Rightarrow> True) in
      jrec [(''version'', jint 1), (''mode'', JStr (js (if durable then ''adapter-declared-durable'' else ''memory-only''))),
            (''adapterId'', JStr (ld_adapterId d)),
            (''atomicScope'', JStr (js (if durable then ''storage-transaction'' else ''single-js-isolate''))),
            (''atomicRecordAndOutbox'', JBool True), (''stableBeforeSuccess'', JBool durable),
            (''restartReadable'', JBool durable), (''multiProcessCas'', JBool durable)])"

definition answer :: "'e + 'a \<Rightarrow> ('a \<Rightarrow> jsval) \<Rightarrow> port_result" where
  "answer result form = (case result of Inl _ \<Rightarrow> PortThrows | Inr x \<Rightarrow> PortReturns (form x))"

definition memoryPort :: "(jstr \<Rightarrow> jstr) \<Rightarrow> ledger_store persistence_port" where
  "memoryPort nfc =
     \<lparr>pp_durability = DataProperty (durability_json IN_MEMORY_SAFE_CODING_LEDGER_DURABILITY),
      pp_read = DataMethod (\<lambda>t st. (answer (store_read nfc t st) (\<lambda>x. case x of None \<Rightarrow> JNull | Some r \<Rightarrow> ledger_json r), st)),
      pp_scan = DataMethod (\<lambda>st. (answer (store_scan nfc st) (\<lambda>rs. jarr (map ledger_json rs)), st)),
      pp_compareAndSwap = DataMethod (\<lambda>m st. case compareAndSwap nfc m st of (result, st') \<Rightarrow> (answer result cas_json, st'))\<rparr>"

definition memoryLedger :: "(jstr \<Rightarrow> jstr) \<Rightarrow> ledger_store effect_ledger" where
  "memoryLedger nfc =
     \<lparr>el_durability = IN_MEMORY_SAFE_CODING_LEDGER_DURABILITY,
      el_read = (\<lambda>t st. (answer (store_read nfc t st) (\<lambda>x. case x of None \<Rightarrow> JNull | Some r \<Rightarrow> ledger_json r), st)),
      el_scan = (\<lambda>st. (answer (store_scan nfc st) (\<lambda>rs. jarr (map ledger_json rs)), st)),
      el_compareAndSwap = (\<lambda>m st. case compareAndSwap nfc m st of (result, st') \<Rightarrow> (answer result cas_json, st'))\<rparr>"

lemma answer_simps [simp]: "answer (Inl e) f = PortThrows" "answer (Inr x) f = PortReturns (f x)"
  by (simp_all add: answer_def)

lemma memory_ledger_created: "createEffectLedger (memoryPort nfc) = Inr (memoryLedger nfc)"
proof -
  have "validateSafeCodingLedgerDurabilityContract (durability_json IN_MEMORY_SAFE_CODING_LEDGER_DURABILITY) =
      Inr IN_MEMORY_SAFE_CODING_LEDGER_DURABILITY"
    by code_simp
  then show ?thesis
    by (simp add: createEffectLedger_def memoryPort_def memoryLedger_def readDataProperty_def pinMethod_def)
qed

lemma cas_answer:
  "validateSafeCodingLedgerPersistenceCasResult (cas_json (CasApplied r)) = Inr (CasApplied (ledger_json r))"
  "validateSafeCodingLedgerPersistenceCasResult (cas_json (CasRevisionConflict n)) \<noteq> Inr (CasApplied v)"
  "validateSafeCodingLedgerPersistenceCasResult (cas_json (CasIdentityConflict k)) \<noteq> Inr (CasApplied v)"
proof -
  have "ledger_json r \<noteq> JAccessor"
    by (simp add: ledger_json_def jrec_def)
  then show "validateSafeCodingLedgerPersistenceCasResult (cas_json (CasApplied r)) = Inr (CasApplied (ledger_json r))"
    by (simp add: validateSafeCodingLedgerPersistenceCasResult_def cas_json_def requireRecord_persistence_def jrec_def jfields_def
        requireExactKeys_persistence_def getProp_def js_inj)
qed (auto simp: validateSafeCodingLedgerPersistenceCasResult_def cas_json_def requireRecord_persistence_def jrec_def jfields_def
        result_simps getProp_def js_inj split: if_splits)

lemma memory_get:
  assumes "store_inv nfc st"
  shows "ledger_get nfc (memoryLedger nfc) t st = (Inr (ownValue (st_records st) t), st)"
proof (cases "ownValue (st_records st) t")
  case (Some r)
  then have "lr_transactionId r = t" "ledger_valid nfc r"
    using assms by (simp_all add: store_inv_def)
  with Some show ?thesis
    by (simp add: get_exact memoryLedger_def store_read_def clone_own [THEN iffD2] validate_own)
qed (simp add: get_exact memoryLedger_def store_read_def)

text \<open>Applying a record to the store swaps it in, and an exception leaves the store as it was.\<close>

lemma memory_apply_Inr:
  "ledger_apply nfc (memoryLedger nfc) t n q st = (Inr r, st') \<longleftrightarrow>
     r = q \<and> compareAndSwap nfc \<lparr>mu_transactionId = t, mu_expectedRevision = n, mu_nextRecord = ledger_json q\<rparr> st = (Inr (CasApplied q), st')"
  (is "?L \<longleftrightarrow> ?R")
proof
  let ?m = "\<lparr>mu_transactionId = t, mu_expectedRevision = n, mu_nextRecord = ledger_json q\<rparr>"
  assume ?L
  then obtain raw v where raw: "r = q" "el_compareAndSwap (memoryLedger nfc) ?m st = (PortReturns raw, st')"
    "validateSafeCodingLedgerPersistenceCasResult raw = Inr (CasApplied v)"
    unfolding apply_exact by blast
  then obtain result where result: "compareAndSwap nfc ?m st = (Inr result, st')" "raw = cas_json result"
    by (auto simp: memoryLedger_def answer_def split: prod.splits sum.splits)
  then obtain s where "result = CasApplied s"
    using raw(3) cas_answer(2,3) by (cases result) auto
  moreover from this result(1) have "s = q"
    by (simp add: swap_exact validate_own)
  ultimately show ?R
    using raw(1) result(1) by simp
next
  assume R: ?R
  then have "ledger_valid nfc q" "t = lr_transactionId q"
    by (auto simp: swap_exact validate_own)
  with R show ?L
    unfolding apply_exact by (auto simp: memoryLedger_def cas_answer(1) validate_own)
qed

lemma swap_unapplied:
  "compareAndSwap nfc m st = (result, st') \<Longrightarrow> (\<nexists>r. result = Inr (CasApplied r)) \<Longrightarrow> st' = st"
  unfolding swap_cases by (auto split: sum.splits option.splits if_splits)

lemma apply_world:
  "ledger_apply nfc el t n q w = (x, w') \<Longrightarrow>
     w' \<in> {w, snd (el_compareAndSwap el \<lparr>mu_transactionId = t, mu_expectedRevision = n, mu_nextRecord = ledger_json q\<rparr> w)}"
  by (auto simp: ledger_apply_def Let_def bindP_def pureP_def callPort_def split: prod.splits sum.splits port_result.splits)

lemma memory_apply_Inl:
  assumes "ledger_apply nfc (memoryLedger nfc) t n q st = (Inl e, st')"
  shows "st' = st"
proof -
  let ?m = "\<lparr>mu_transactionId = t, mu_expectedRevision = n, mu_nextRecord = ledger_json q\<rparr>"
  obtain result s where swap: "compareAndSwap nfc ?m st = (result, s)"
    by fastforce
  have "\<nexists>r. result = Inr (CasApplied r)"
  proof
    assume "\<exists>r. result = Inr (CasApplied r)"
    with swap have "compareAndSwap nfc ?m st = (Inr (CasApplied q), s)"
      by (auto simp: swap_exact validate_own)
    then have "ledger_apply nfc (memoryLedger nfc) t n q st = (Inr q, s)"
      by (simp add: memory_apply_Inr)
    with assms show False
      by simp
  qed
  with swap have "s = st"
    by (rule swap_unapplied)
  with swap apply_world [OF assms] show ?thesis
    by (auto simp: memoryLedger_def)
qed

text \<open>A request either swaps in one record, new or one transition away from the stored one, or leaves the store alone.\<close>

lemma memory_call:
  assumes "store_inv nfc st" "facade_call nfc (memoryLedger nfc) q st = (result, st')"
  shows "case result of
      Inl e \<Rightarrow> st' = st
    | Inr r \<Rightarrow> store_step nfc st st' \<and> st' = storedIn st (lr_transactionId r) r \<and>
        (case ownValue (st_records st) (lr_transactionId r) of None \<Rightarrow> ledger_created nfc r | Some p \<Rightarrow> ledger_step nfc p r)"
proof (cases result)
  case (Inl e)
  have read: "ledger_get nfc (memoryLedger nfc) t st = (x, s) \<Longrightarrow> s = st" for t x s
    using assms(1) by (simp add: memory_get)
  from facade_follows [of nfc "memoryLedger nfc" q] show ?thesis
    unfolding follows_def
  proof (elim disjE exE conjE)
    show ?thesis if "facade_call nfc (memoryLedger nfc) q = pureP (Inl f)" for f
      using assms(2) that Inl by (simp add: pureP_def)
    show ?thesis if "facade_call nfc (memoryLedger nfc) q = ledger_apply nfc (memoryLedger nfc) (lr_transactionId r) None r" for r
      using assms(2) that Inl memory_apply_Inl by auto
    show ?thesis if "facade_call nfc (memoryLedger nfc) q = mutate nfc (memoryLedger nfc) i T" for i T
      using assms that Inl memory_apply_Inl
      by (auto simp: mutate_def currentRecord_def bindP_def pureP_def memory_get split: sum.splits option.splits if_splits)
  qed
next
  case (Inr r)
  note call = assms(2) [unfolded Inr]
  from call show ?thesis
  proof (cases rule: facade_call_result)
    case created
    then have swap: "compareAndSwap nfc \<lparr>mu_transactionId = lr_transactionId r, mu_expectedRevision = None,
        mu_nextRecord = ledger_json r\<rparr> st = (Inr (CasApplied r), st')"
      by (simp add: memory_apply_Inr)
    with created(1) Inr store_step.swap [OF swap] show ?thesis
      by (auto simp: swap_exact casConflict_None replaces_def split: option.splits)
  next
    case (moved p w1)
    from moved(1) have p: "ownValue (st_records st) (lr_transactionId r) = Some p" "w1 = st"
      unfolding memory_get [OF assms(1)] by auto
    with moved(3) have swap: "compareAndSwap nfc \<lparr>mu_transactionId = lr_transactionId r,
        mu_expectedRevision = Some (lr_revision p), mu_nextRecord = ledger_json r\<rparr> st = (Inr (CasApplied r), st')"
      by (simp add: memory_apply_Inr)
    with moved(2) p(1) Inr store_step.swap [OF swap] show ?thesis
      by (simp add: swap_exact)
  qed
qed

section \<open>Scans\<close>

definition ledgerBytes :: "ledger_record \<Rightarrow> nat" where
  "ledgerBytes r = utf8ByteLength (render (ledger_json r))"

lemma utf8ByteLength_Length: "utf8ByteLength s = utf8Length s"
  by (induction s rule: utf8ByteLength.induct) auto

lemma record_bytes: "ledger_valid nfc r \<Longrightarrow> ledgerBytes r \<le> 79300"
  using ledger_text_length [of nfc r] by (simp add: ledgerBytes_def utf8ByteLength_Length ledger_valid_def)

text \<open>No valid record is too long for a scan.\<close>

lemma record_scannable: "ledger_valid nfc r \<Longrightarrow> ledgerBytes r \<le> scanMaximumRecordBytes"
  using record_bytes [of nfc r] by (simp add: scanMaximumRecordBytes_def maximumStringBytes_def)

definition identities_apart :: "ledger_record list \<Rightarrow> bool" where
  "identities_apart rs \<longleftrightarrow>
     (\<forall>r \<in> set rs. \<forall>q \<in> set rs. set (identityKeys r) \<inter> set (identityKeys q) \<noteq> {} \<longrightarrow> lr_transactionId r = lr_transactionId q)"

definition scannable :: "ledger_record list \<Rightarrow> bool" where
  "scannable rs \<longleftrightarrow>
     distinct (map lr_transactionId rs) \<and> identities_apart rs \<and> length rs \<le> scanMaximumRecords \<and>
     sum_list (map ledgerBytes rs) \<le> scanMaximumAggregateBytes"

lemma claimIdentities_Inr:
  "claimIdentities t keys owners = Inr owners' \<longleftrightarrow>
     (\<forall>k \<in> set keys. ownValue owners k \<in> {None, Some t}) \<and> owners' = fold (\<lambda>key ids. setOwn ids key t) keys owners"
proof (induction keys arbitrary: owners)
  case (Cons key keys)
  then show ?case
    by (cases "ownValue owners key") auto
qed auto

lemma identities_apart_Cons:
  assumes "lr_transactionId r \<notin> lr_transactionId ` set qs"
  shows "identities_apart (r # qs) \<longleftrightarrow>
    identities_apart qs \<and> (\<forall>q \<in> set qs. \<forall>k \<in> set (identityKeys q). k \<notin> set (identityKeys r))"
proof -
  define apart where "apart a b \<longleftrightarrow> (set (identityKeys a) \<inter> set (identityKeys b) \<noteq> {} \<longrightarrow> lr_transactionId a = lr_transactionId b)" for a b
  have "identities_apart (r # qs) \<longleftrightarrow> (\<forall>a \<in> insert r (set qs). \<forall>b \<in> insert r (set qs). apart a b)"
    "identities_apart qs \<longleftrightarrow> (\<forall>a \<in> set qs. \<forall>b \<in> set qs. apart a b)"
    by (simp_all add: identities_apart_def apart_def)
  moreover have "apart r r" "apart a b \<Longrightarrow> apart b a" for a b
    by (simp_all add: apart_def Int_commute)
  moreover have "apart r q \<longleftrightarrow> (\<forall>k \<in> set (identityKeys q). k \<notin> set (identityKeys r))" if "q \<in> set qs" for q
    using that assms by (auto simp: apart_def)
  ultimately show ?thesis
    by blast
qed

lemma scanRows_Cons:
  "scanRows nfc (v # rows) ids owners bytes = Inr (r # qs) \<longleftrightarrow>
     validateSafeCodingLedgerRecord nfc v = Inr r \<and> lr_transactionId r \<notin> set ids \<and>
     (\<forall>k \<in> set (identityKeys r). ownValue owners k \<in> {None, Some (lr_transactionId r)}) \<and>
     ledgerBytes r \<le> scanMaximumRecordBytes \<and> bytes + ledgerBytes r \<le> scanMaximumAggregateBytes \<and>
     scanRows nfc rows (lr_transactionId r # ids)
       (fold (\<lambda>key ids. setOwn ids key (lr_transactionId r)) (sort (identityKeys r)) owners) (bytes + ledgerBytes r) = Inr qs"
proof (cases "validateSafeCodingLedgerRecord nfc v")
  case (Inr s)
  then have valid: "ledger_valid nfc s"
    by (rule validated_valid)
  then have own: "validatePersistenceRecord nfc v = Inr s" "safeCodingLedgerIdentityKeys nfc s = Inr (sort (identityKeys s))"
    "canonicalizeJson nfc (ledger_json s) = Inr (render (ledger_json s))" "cloneSafeCodingLedgerRecord nfc s = Inr s"
    using Inr by (simp_all add: persistence_record_Inr identity_keys_own clone_own valid_canonical)
  show ?thesis
    by (auto simp: own Inr Let_def bindE_eq_Inr guardE_eq_Inr claimIdentities_Inr not_less simp flip: ledgerBytes_def)
qed (simp add: validatePersistenceRecord_def)

lemma scanRows_Inr:
  assumes "bytes \<le> scanMaximumAggregateBytes"
  shows "scanRows nfc rows ids owners bytes = Inr rs \<longleftrightarrow>
     list_all2 (\<lambda>v r. validateSafeCodingLedgerRecord nfc v = Inr r) rows rs \<and>
     distinct (map lr_transactionId rs) \<and> set ids \<inter> lr_transactionId ` set rs = {} \<and>
     (\<forall>r \<in> set rs. \<forall>k \<in> set (identityKeys r). ownValue owners k \<in> {None, Some (lr_transactionId r)}) \<and>
     identities_apart rs \<and> (\<forall>r \<in> set rs. ledgerBytes r \<le> scanMaximumRecordBytes) \<and>
     bytes + sum_list (map ledgerBytes rs) \<le> scanMaximumAggregateBytes"
  using assms
proof (induction rows arbitrary: ids owners bytes rs)
  case Nil
  then show ?case
    by (cases rs) (auto simp: identities_apart_def)
next
  case (Cons v rows)
  show ?case
  proof (cases rs)
    case Nil
    then show ?thesis
      by (auto simp: bindE_eq_Inr Let_def)
  next
    case rs: (Cons r qs)
    let ?id = "lr_transactionId r"
    let ?owners = "fold (\<lambda>key ids. setOwn ids key ?id) (sort (identityKeys r)) owners"
    have owner: "ownValue ?owners k = (if k \<in> set (identityKeys r) then Some ?id else ownValue owners k)" for k
      by (simp add: fold_setOwn)
    show ?thesis
    proof (cases "bytes + ledgerBytes r \<le> scanMaximumAggregateBytes \<and> ?id \<notin> lr_transactionId ` set qs")
      case True
      have free: "(\<forall>q \<in> set qs. \<forall>k \<in> set (identityKeys q). ownValue ?owners k \<in> {None, Some (lr_transactionId q)}) \<longleftrightarrow>
          (\<forall>q \<in> set qs. \<forall>k \<in> set (identityKeys q). ownValue owners k \<in> {None, Some (lr_transactionId q)}) \<and>
          (\<forall>q \<in> set qs. \<forall>k \<in> set (identityKeys q). k \<notin> set (identityKeys r))"
        using True unfolding owner by force
      have ih: "scanRows nfc rows (?id # ids) ?owners (bytes + ledgerBytes r) = Inr qs \<longleftrightarrow>
         list_all2 (\<lambda>v r. validateSafeCodingLedgerRecord nfc v = Inr r) rows qs \<and>
         distinct (map lr_transactionId qs) \<and> set ids \<inter> lr_transactionId ` set qs = {} \<and>
         (\<forall>q \<in> set qs. \<forall>k \<in> set (identityKeys q). ownValue ?owners k \<in> {None, Some (lr_transactionId q)}) \<and>
         identities_apart qs \<and> (\<forall>q \<in> set qs. ledgerBytes q \<le> scanMaximumRecordBytes) \<and>
         bytes + ledgerBytes r + sum_list (map ledgerBytes qs) \<le> scanMaximumAggregateBytes"
        using Cons.IH [of "bytes + ledgerBytes r"] True by simp
      show ?thesis
        unfolding rs scanRows_Cons ih free using True by (auto simp: identities_apart_Cons add.assoc)
    next
      case False
      have "scanRows nfc rows (?id # ids) ?owners (bytes + ledgerBytes r) = Inr qs \<Longrightarrow>
          bytes + ledgerBytes r \<le> scanMaximumAggregateBytes \<Longrightarrow> ?id \<notin> lr_transactionId ` set qs"
        by (simp add: Cons.IH)
      with False show ?thesis
        unfolding rs scanRows_Cons by auto
    qed
  qed
qed

lemma scan_rows_exact:
  "validateBoundedScanRows v = Inr xs \<and> scanRows nfc xs [] [] 0 = Inr rs \<longleftrightarrow>
     v = jarr xs \<and> list_all2 (\<lambda>x r. validateSafeCodingLedgerRecord nfc x = Inr r) xs rs \<and> scannable rs"
proof -
  have rows: "validateBoundedScanRows v = Inr xs \<longleftrightarrow> v = jarr xs \<and> length xs \<le> scanMaximumRecords \<and> JAccessor \<notin> set xs"
    by (cases v) (auto simp: validateBoundedScanRows_def not_less dest: plain_shape_eqI)
  have "JAccessor \<notin> set xs \<and> length xs = length rs \<and> (\<forall>r \<in> set rs. ledgerBytes r \<le> scanMaximumRecordBytes)"
    if "list_all2 (\<lambda>x r. validateSafeCodingLedgerRecord nfc x = Inr r) xs rs"
  proof -
    have "validateSafeCodingLedgerRecord nfc JAccessor \<noteq> Inr r" for r
      by (auto simp: ledger_validator ledger_json_def jrec_def)
    with that show ?thesis
      by (induction rule: list_all2_induct) (auto dest: validated_valid record_scannable)
  qed
  then show ?thesis
    unfolding rows scannable_def by (auto simp: scanRows_Inr)
qed

text \<open>A scan returns exactly the records of a plain array of valid rows with distinct transactions, no shared replay identity
  and within the limits on rows and total bytes, sorted by transaction; every other answer of the port makes it fail.\<close>

lemma scan_exact:
  "ledger_scan nfc el w = (Inr rs, w') \<longleftrightarrow>
     (\<exists>xs qs. el_scan el w = (PortReturns (jarr xs), w') \<and>
        list_all2 (\<lambda>x r. validateSafeCodingLedgerRecord nfc x = Inr r) xs qs \<and> scannable qs \<and> rs = sort_key lr_transactionId qs)"
proof -
  have "bindE (validateBoundedScanRows v) (\<lambda>rows. bindE (scanRows nfc rows [] [] 0) (\<lambda>records.
      Inr (sort_key lr_transactionId records))) = Inr rs \<longleftrightarrow>
      (\<exists>xs qs. (v = jarr xs \<and> list_all2 (\<lambda>x r. validateSafeCodingLedgerRecord nfc x = Inr r) xs qs \<and> scannable qs) \<and>
         rs = sort_key lr_transactionId qs)" for v
    unfolding scan_rows_exact [symmetric] by (auto simp: bindE_eq_Inr)
  then show ?thesis
    unfolding ledger_scan_def proc_simps by auto
qed

section \<open>Recovery over the store\<close>

lemma store_records_list:
  assumes "store_inv nfc st"
  shows "map lr_transactionId (map snd (st_records st)) = map fst (st_records st)"
    "r \<in> set (map snd (st_records st)) \<Longrightarrow> ownValue (st_records st) (lr_transactionId r) = Some r \<and> ledger_valid nfc r"
proof -
  have *: "lr_transactionId q = t \<and> ledger_valid nfc q \<and> ownValue (st_records st) t = Some q" if "(t, q) \<in> set (st_records st)" for t q
  proof -
    have "ownValue (st_records st) t = Some q"
      using that assms by (simp add: store_inv_def ownValue_def)
    then show ?thesis
      using assms by (simp add: store_inv_def)
  qed
  then show "map lr_transactionId (map snd (st_records st)) = map fst (st_records st)"
    by (auto simp: list_eq_iff_nth_eq)
  show "r \<in> set (map snd (st_records st)) \<Longrightarrow> ownValue (st_records st) (lr_transactionId r) = Some r \<and> ledger_valid nfc r"
    using * by fastforce
qed

lemma stored_apart:
  assumes "store_inv nfc st"
  shows "identities_apart (map snd (st_records st))"
  unfolding identities_apart_def
proof (intro ballI impI)
  fix r q assume "r \<in> set (map snd (st_records st))" "q \<in> set (map snd (st_records st))"
    and "set (identityKeys r) \<inter> set (identityKeys q) \<noteq> {}"
  moreover from this(3) obtain k where "k \<in> set (identityKeys r)" "k \<in> set (identityKeys q)"
    by blast
  ultimately have "ownValue (st_identities st) k = Some (lr_transactionId r)" "ownValue (st_identities st) k = Some (lr_transactionId q)"
    using assms store_records_list(2) [OF assms] unfolding store_inv_def by blast+
  then show "lr_transactionId r = lr_transactionId q"
    by simp
qed

definition within_scan_limits :: "ledger_record list \<Rightarrow> bool" where
  "within_scan_limits rs \<longleftrightarrow>
     length rs \<le> scanMaximumRecords \<and> sum_list (map ledgerBytes rs) \<le> scanMaximumAggregateBytes"

text \<open>A store of up to 423 records, whatever they are, is within the limits.\<close>

lemma small_store_within_limits:
  assumes "store_inv nfc st" "length (st_records st) \<le> 423"
  shows "within_scan_limits (map snd (st_records st))"
proof -
  let ?rs = "map snd (st_records st)"
  have "sum_list (map ledgerBytes ?rs) \<le> sum_list (map (\<lambda>_. 79300) ?rs)"
    using store_records_list(2) [OF assms(1)] record_bytes by (intro sum_list_mono) blast
  also have "\<dots> \<le> 79300 * 423"
    using assms(2) by (simp add: sum_list_triv comp_def)
  finally show ?thesis
    using assms(2) by (simp add: within_scan_limits_def scanMaximumRecords_def scanMaximumAggregateBytes_def)
qed

lemma stored_valid: "store_inv nfc st \<Longrightarrow> \<forall>r \<in> set (sortedRecords st). ledger_valid nfc r"
  using store_records_list(2) unfolding sortedRecords_def set_sort by blast

lemma classified:
  "ledger_valid nfc r \<Longrightarrow> \<exists>d. classifySafeCodingLedgerRecovery nfc r = Inr d \<and> \<not> rd_effectReplayAllowed d"
  by (simp add: classifySafeCodingLedgerRecovery_def validate_own [THEN iffD2] recovery_decision_for_def Let_def)

lemma list_all2_exists: "\<forall>x \<in> set xs. \<exists>y. P x y \<Longrightarrow> \<exists>ys. list_all2 P xs ys"
  by (induction xs) (auto intro: list_all2_Cons [THEN iffD2])

lemma memory_scan:
  assumes "store_inv nfc st"
  shows "ledger_scan nfc (memoryLedger nfc) st = (Inr rs, st') \<longleftrightarrow>
    st' = st \<and> rs = sortedRecords st \<and> within_scan_limits (map snd (st_records st))"
proof -
  let ?rs = "map snd (st_records st)"
  note stored = store_records_list [OF assms]
  note valid = stored_valid [OF assms]
  then have clone: "mapE (cloneSafeCodingLedgerRecord nfc) (sortedRecords st) = Inr (sortedRecords st)"
    unfolding mapE_eq_Inr list_all2_same by (simp add: clone_own)
  then have scan: "el_scan (memoryLedger nfc) st = (PortReturns (jarr (map ledger_json (sortedRecords st))), st)"
    by (simp add: memoryLedger_def store_scan_def)
  have rows: "list_all2 (\<lambda>x r. validateSafeCodingLedgerRecord nfc x = Inr r) (map ledger_json (sortedRecords st)) qs \<longleftrightarrow> qs = sortedRecords st" for qs
    using valid by (auto simp: list_all2_map1 validate_own list_all2_conv_all_nth list_eq_iff_nth_eq)
  have "scannable (sortedRecords st) \<longleftrightarrow> within_scan_limits ?rs"
  proof -
    have "distinct (map lr_transactionId (sortedRecords st)) \<longleftrightarrow> distinct (map lr_transactionId ?rs)"
      unfolding sortedRecords_def by (rule mset_eq_imp_distinct_iff) (simp only: mset_map mset_sort)
    moreover have "distinct (map lr_transactionId ?rs)"
      unfolding stored(1) using assms by (simp add: store_inv_def)
    moreover have "identities_apart (sortedRecords st)"
      using stored_apart [OF assms] by (simp add: identities_apart_def sortedRecords_def)
    ultimately show ?thesis
      by (simp add: scannable_def within_scan_limits_def sortedRecords_def sum_list_sort_key)
  qed
  moreover have "sort_key lr_transactionId (sortedRecords st) = sortedRecords st"
    by (simp add: sortedRecords_def sort_key_id_if_sorted)
  ultimately show ?thesis
    unfolding scan_exact scan by (auto simp: rows)
qed

end
