(* ===== verification/Ledger_Facade_Samples.thy ===== *)
theory Ledger_Facade_Samples
  imports Ledger_Facade_Properties
begin

text \<open>
  Concrete requests to the facade over the in-memory store: one that prepares the sample record in the empty store and one
  that records its permit. A plain, small input passes the snapshot and comes out with its keys in canonical order.
\<close>

section \<open>Snapshots of plain inputs\<close>

lemma closedDataScan_plain:
  "\<forall>v \<in> set pending. narrow v \<Longrightarrow> seen + sum_list (map node_count pending) \<le> 1024 \<Longrightarrow> closedDataScan label pending seen = Inr ()"
proof (induction label pending seen rule: closedDataScan.induct)
  case (2 label v pending seen)
  have "0 < node_count v"
    by simp
  then show ?case
    using 2 by (cases v) (auto simp: comp_def list_ex_iff rev_map [symmetric] sum_list_rev)
qed simp

lemma nesting_jdepth: "nesting v \<le> Suc (jdepth v)"
proof (induction v)
  case (JArr sh xs)
  have "nesting x \<le> foldr max (map (\<lambda>x. Suc (jdepth x)) xs) 0" if "x \<in> set xs" for x
    using JArr [OF that] foldr_max_ge [of "Suc (jdepth x)" "map (\<lambda>x. Suc (jdepth x)) xs"] that by simp
  then show ?case
    by (simp add: foldr_max_le)
next
  case (JObj sh fs)
  have "nesting (snd f) \<le> foldr max (map (\<lambda>f. Suc (jdepth (snd f))) fs) 0" if "f \<in> set fs" for f
    using JObj [of f "snd f"] foldr_max_ge [of "Suc (jdepth (snd f))" "map (\<lambda>f. Suc (jdepth (snd f))) fs"] that
    by (simp add: snds.simps)
  then show ?case
    by (simp add: foldr_max_le)
qed simp_all

lemma getProp_sorted:
  assumes "distinct (map fst fs)" "sortFields (jobj fs) = jobj gs"
  shows "getProp gs k = sortFields (getProp fs k)"
proof -
  let ?fs = "map (\<lambda>f. (fst f, sortFields (snd f))) fs"
  have gs: "gs = sort_key fst ?fs"
    using assms(2) by simp
  have "distinct (map fst ?fs)"
    using assms(1) by (simp add: comp_def)
  moreover from this have "distinct (map fst gs)"
    unfolding gs by (subst mset_eq_imp_distinct_iff [where ys = "map fst ?fs"]) (simp_all only: mset_map mset_sort)
  moreover have "set gs = set ?fs"
    unfolding gs by simp
  ultimately have "map_of gs = map_of ?fs"
    by (simp only: map_of_inject_set)
  then show ?thesis
    by (simp add: getProp_def map_of_sortFields split: option.splits)
qed

text \<open>The snapshot of a plain, small record is the record with its keys in canonical order.\<close>

lemma snapshot_plain:
  assumes "nfc_ascii nfc" "plainText v" "narrow v" "node_count v \<le> 1024" "jdepth v \<le> 62" "wf_jsval v"
    and "v = jrec kvs" "sort (map (js \<circ> fst) kvs) = sort (map js keys)"
  obtains gs where "sortFields v = jobj gs" "snapshotDataInput nfc v keys label = Inr gs"
proof -
  have ok: "canonicalizable nfc v"
    by (rule plainText_canonicalizable) (use assms in simp_all)
  obtain gs where gs: "sortFields v = jobj gs"
    using assms(7) by (simp add: jrec_def)
  have "parseCanonicalJson nfc (render v) = Inr (jobj gs)"
    using parseCanonicalJson_render [OF ok assms(6)] nesting_jdepth [of v] assms(5) gs by (simp add: MAX_CANONICAL_JSON_DEPTH_def)
  moreover have "canonicalizeJson nfc v = Inr (render v)"
    using ok by (simp add: canonicalizeJson_Inr)
  moreover have "assertClosedDataTree v keys label = Inr ()" for label
  proof -
    have "\<not> list_ex (\<lambda>f. snd f = JAccessor) (jfields kvs)"
      using assms(3) unfolding assms(7) jrec_def by (simp add: list_ex_iff)
    then have "requireClosedTopLevelRecord v keys label = Inr ()"
      using assms(8) unfolding assms(7) jrec_def requireClosedTopLevelRecord_def requireClosedTopLevel_def
      by (simp add: jfields_def comp_def case_prod_unfold)
    then show ?thesis
      using assms(3,4) by (simp add: assertClosedDataTree_def closedDataScan_plain del: closedDataScan.simps)
  qed
  ultimately show thesis
    using gs that by (simp add: snapshotDataInput_def)
qed

section \<open>Samples\<close>

text \<open>A request to record the sample permit, with its keys in canonical order.\<close>

definition sample_permit_fields :: "(string \<times> jsval) list" where
  "sample_permit_fields =
     [(''budgetReservationId'', JStr (cp_budgetReservationId sample_permit)), (''contractHash'', JStr (cp_contractHash sample_permit)),
      (''contractRevision'', jint (cp_contractRevision sample_permit)), (''permittedAt'', JStr (cp_permittedAt sample_permit)),
      (''requestId'', JStr (cp_requestId sample_permit)), (''revocationEpoch'', jint (cp_revocationEpoch sample_permit)),
      (''ticketId'', JStr (cp_ticketId sample_permit))]"

definition sample_request_fields :: "(string \<times> jsval) list" where
  "sample_request_fields =
     [(''expectedRevision'', jint 1), (''permit'', jrec sample_permit_fields), (''transactionId'', JStr (et_ticketId sample_ticket))]"

lemma sample_request_sorted: "sortFields (jrec sample_request_fields) = jrec sample_request_fields"
  by (simp add: sample_request_fields_def sample_permit_fields_def jrec_def jfields_def js_eval)

lemma sample_permit_checked:
  "validateCommitPermit (permit_json sample_permit) = Inr sample_permit"
  "validateCommitPermit (jrec sample_permit_fields) = Inr sample_permit"
proof -
  have ids: "IDENTIFIER_PATTERN (cp_ticketId sample_permit)" "IDENTIFIER_PATTERN (cp_requestId sample_permit)"
    "IDENTIFIER_PATTERN (cp_budgetReservationId sample_permit)"
    by (simp_all add: sample_permit_def sample_ticket_def IDENTIFIER_PATTERN_def js_def char_class_defs)
  have rest: "SHA256_PATTERN (cp_contractHash sample_permit)" "cp_contractRevision sample_permit = 1"
    "cp_revocationEpoch sample_permit = 0" "ledger_stamp (cp_permittedAt sample_permit)"
    using sample_ledger_time(1) by (simp_all add: sample_permit_def sample_digest_def SHA256_PATTERN_def list_all_iff isLowerHex_def)
  show "validateCommitPermit (permit_json sample_permit) = Inr sample_permit"
    using ids rest by (simp add: permit_validated counter_def safe_int_def MAX_SAFE_INTEGER_def)
  have "assertClosedRecord (jrec sample_permit_fields) permitKeys l = Inr (jfields sample_permit_fields)" for l
    by (simp add: assertClosedRecord_def assertClosedFields_def permitKeys_def sample_permit_fields_def jrec_def jfields_def js_eval)
  then show "validateCommitPermit (jrec sample_permit_fields) = Inr sample_permit"
    using ids rest by (simp add: validateCommitPermit_def result_simps ledger_leaf requireTimestampString_def timestamp_read_Inr
        sample_permit_fields_def safe_int_def MAX_SAFE_INTEGER_def counter_def)
qed

lemma sample_request_canonical:
  "canonicalizeJson (\<lambda>s. s) (jrec sample_request_fields) = Inr (render (jrec sample_request_fields))"
  "parseCanonicalJson (\<lambda>s. s) (render (jrec sample_request_fields)) = Inr (jrec sample_request_fields)"
proof -
  have "IDENTIFIER_PATTERN (cp_budgetReservationId sample_permit)" "SHA256_PATTERN (cp_contractHash sample_permit)"
    "ledger_stamp (cp_permittedAt sample_permit)" "IDENTIFIER_PATTERN (cp_requestId sample_permit)"
    "IDENTIFIER_PATTERN (cp_ticketId sample_permit)" "IDENTIFIER_PATTERN (et_ticketId sample_ticket)"
    using sample_ledger_time(1)
    using sample_permit_checked(1) by (simp_all add: permit_validated sample_permit_def)
  moreover have "safe_int 1" "safe_int (cp_contractRevision sample_permit)" "safe_int (cp_revocationEpoch sample_permit)"
    by (simp_all add: sample_permit_def safe_int_def MAX_SAFE_INTEGER_def)
  ultimately have "plainText (jrec sample_request_fields)"
    by (simp add: sample_request_fields_def sample_permit_fields_def plainText_jrec ascii)
  then have ok: "canonicalizable (\<lambda>s. s) (jrec sample_request_fields)"
    by (rule plainText_canonicalizable [OF nfc_ascii_id])
      (simp_all add: sample_request_fields_def sample_permit_fields_def jrec_bounds)
  then show "canonicalizeJson (\<lambda>s. s) (jrec sample_request_fields) = Inr (render (jrec sample_request_fields))"
    by (simp add: canonicalizeJson_Inr)
  have "nesting (jrec sample_request_fields) \<le> MAX_CANONICAL_JSON_DEPTH"
    by (simp add: sample_request_fields_def sample_permit_fields_def jrec_def jfields_def MAX_CANONICAL_JSON_DEPTH_def)
  moreover have "wf_jsval (jrec sample_request_fields)"
    unfolding sample_request_fields_def sample_permit_fields_def by (intro wf_jsval_jrec) (auto intro!: wf_jsval_jrec)
  ultimately show "parseCanonicalJson (\<lambda>s. s) (render (jrec sample_request_fields)) = Inr (jrec sample_request_fields)"
    using parseCanonicalJson_render [OF ok] by (simp add: sample_request_sorted)
qed

lemma sample_request_snapshot:
  "snapshotMutationInput (\<lambda>s. s) (jrec sample_request_fields) [''transactionId'', ''expectedRevision'', ''permit''] =
     Inr ((et_ticketId sample_ticket, 1), jfields sample_request_fields)"
proof -
  have "closedDataScan label [jrec sample_request_fields] 0 = Inr ()" for label
    by (simp add: sample_request_fields_def sample_permit_fields_def jrec_def jfields_def)
  moreover have "requireClosedTopLevelRecord (jrec sample_request_fields) [''transactionId'', ''expectedRevision'', ''permit''] label = Inr ()" for label
    by (simp add: requireClosedTopLevelRecord_def requireClosedTopLevel_def sample_request_fields_def jrec_def jfields_def js_eval)
  moreover have "validateMutationIdentity (JStr (et_ticketId sample_ticket)) (jint 1) = Inr (et_ticketId sample_ticket, 1)"
    by (simp add: validateMutationIdentity_def sample_ticket_def identifierText_def js_def char_class_defs safe_int_def
        MAX_SAFE_INTEGER_def)
  ultimately show ?thesis
    by (simp add: snapshotMutationInput_def snapshotDataInput_def assertClosedDataTree_def sample_request_canonical)
      (simp add: jrec_def sample_request_fields_def)
qed

lemma sample_stored:
  "ownValue (st_records sample_store) (et_ticketId sample_ticket) = Some (sample_prepared sample_now)"
  "lr_transactionId (sample_committing sample_now) = et_ticketId sample_ticket"
  by (simp_all add: sample_store_def storedIn_values sample_committing_def permitted_record_def sample_prepared_simps)

lemma sample_request_done:
  "facade_call (\<lambda>s. s) (memoryLedger (\<lambda>s. s)) (RecordCommitPermit (jrec sample_request_fields)) sample_store =
     (Inr (sample_committing sample_now), storedIn sample_store (et_ticketId sample_ticket) (sample_committing sample_now))"
proof -
  let ?nfc = "\<lambda>s :: jstr. s" and ?id = "et_ticketId sample_ticket"
  have get: "ledger_get ?nfc (memoryLedger ?nfc) ?id sample_store = (Inr (Some (sample_prepared sample_now)), sample_store)"
    using memory_get [OF store.reachable_inv [OF sample_store_reached]] by (simp add: sample_stored)
  have permit: "recordSafeCodingCommitPermit ?nfc (sample_prepared sample_now) (jrec sample_permit_fields) =
      Inr (sample_committing sample_now)"
    using sample_records_permit [of sample_now] by (simp add: recordSafeCodingCommitPermit_def sample_permit_checked)
  note valid = sample_committing_valid [of sample_now, simplified]
  have keys: "identityKeys (sample_committing sample_now) = identityKeys (sample_prepared sample_now)"
    using step_successor [OF valid(5)] by (auto simp: ledger_successor_def intro: same_identity_keys)
  have first: "lr_revision (sample_prepared sample_now) = 1"
    by (simp add: sample_prepared_def prepared_record_def)
  have "compareAndSwap ?nfc \<lparr>mu_transactionId = ?id, mu_expectedRevision = Some 1,
      mu_nextRecord = ledger_json (sample_committing sample_now)\<rparr> sample_store =
    (Inr (CasApplied (sample_committing sample_now)), storedIn sample_store ?id (sample_committing sample_now))"
    using valid(1) step_successor [OF valid(5)]
    by (simp add: swap_exact validate_own sample_stored casConflict_None replaces_def sample_prepared_simps keys first)
      (simp add: sample_store_def storedIn_values)
  then have applied: "ledger_apply ?nfc (memoryLedger ?nfc) ?id (Some 1) (sample_committing sample_now) sample_store =
    (Inr (sample_committing sample_now), storedIn sample_store ?id (sample_committing sample_now))"
    by (simp add: memory_apply_Inr)
  have "mutate ?nfc (memoryLedger ?nfc) (?id, 1)
      (\<lambda>record. recordSafeCodingCommitPermit ?nfc record (jrec sample_permit_fields)) sample_store =
    (Inr (sample_committing sample_now), storedIn sample_store ?id (sample_committing sample_now))"
    unfolding mutate_exact using get permit applied first by auto
  moreover have "getProp (jfields sample_request_fields) ''permit'' = jrec sample_permit_fields"
    by (simp add: sample_request_fields_def)
  ultimately show ?thesis
    by (simp add: recordCommitPermit_def sample_request_snapshot bindP_def pureP_def)
qed

text \<open>A request to prepare the sample record.\<close>

definition sample_prepare_fields :: "(string \<times> jsval) list" where
  "sample_prepare_fields =
     [(''ticket'', ticket_json sample_ticket), (''attemptId'', JStr (js ''at'')), (''evidenceIntentId'', JStr (js ''in'')),
      (''attestationId'', JStr (js ''00000000-0000-4000-8000-000000000003'')),
      (''evidenceExpectation'', expectation_json sample_expectation), (''now'', JStr sample_now)]"

lemma sample_prepare_done:
  "facade_call (\<lambda>s. s) (memoryLedger (\<lambda>s. s)) (CreatePrepared (jrec sample_prepare_fields)) emptyStore =
     (Inr (sample_prepared sample_now), sample_store)"
proof -
  let ?nfc = "\<lambda>s :: jstr. s" and ?v = "jrec sample_prepare_fields"
    and ?keys = "[''ticket'', ''attemptId'', ''evidenceIntentId'', ''attestationId'', ''evidenceExpectation'', ''now'']"
  have ascii: "asciiText (js ''at'')" "asciiText (js ''in'')" "asciiText (js ''00000000-0000-4000-8000-000000000003'')"
    "asciiText sample_now"
    using sample_ledger_ids sample_ledger_time(1) by (simp_all add: ascii)
  have "plainText ?v"
    using ascii form_plain(1) [OF sample_ticket_wf] form_plain(3) [OF sample_expectation_wf]
    by (simp add: sample_prepare_fields_def plainText_jrec)
  moreover have "narrow ?v" "node_count ?v \<le> 1024" "jdepth ?v \<le> 62"
    by (simp_all add: sample_prepare_fields_def jrec_bounds form_measures)
  moreover have "wf_jsval ?v"
    unfolding sample_prepare_fields_def by (intro wf_jsval_jrec) (auto simp: wf_jsval_ledger)
  moreover have "sort (map (js \<circ> fst) sample_prepare_fields) = sort (map js ?keys)"
    by (simp add: sample_prepare_fields_def)
  ultimately obtain gs where gs: "sortFields ?v = jobj gs"
    "snapshotDataInput ?nfc ?v ?keys ''PREPARED mutation input'' = Inr gs"
    by (rule snapshot_plain [OF nfc_ascii_id _ _ _ _ _ refl])
  have "distinct (map fst (jfields sample_prepare_fields))"
    by (simp add: sample_prepare_fields_def jfields_def js_inj)
  then have field: "getProp gs k = sortFields (getProp (jfields sample_prepare_fields) k)" for k
    using gs(1) unfolding jrec_def by (rule getProp_sorted)
  have "createPreparedSafeCodingLedgerRecord ?nfc
      \<lparr>pi_ticket = sortFields (ticket_json sample_ticket), pi_attemptId = js ''at'', pi_evidenceIntentId = js ''in'',
       pi_attestationId = js ''00000000-0000-4000-8000-000000000003'',
       pi_evidenceExpectation = sortFields (expectation_json sample_expectation), pi_now = sample_now\<rparr> =
    Inr (sample_prepared sample_now)"
  proof -
    have ok: "canonicalizable ?nfc (ticket_json sample_ticket)" "canonicalizable ?nfc (expectation_json sample_expectation)"
      by (intro plainText_canonicalizable nfc_ascii_id;
          simp add: form_plain(1) [OF sample_ticket_wf] form_plain(3) [OF sample_expectation_wf] form_measures)+
    then have "validateSafeCodingExecutionTicket ?nfc (sortFields (ticket_json sample_ticket)) =
        validateSafeCodingExecutionTicket ?nfc (ticket_json sample_ticket)"
      "validateSafeCodingEvidenceExpectation (sortFields (expectation_json sample_expectation)) =
        validateSafeCodingEvidenceExpectation (expectation_json sample_expectation)"
      using sample_ticket_wf sample_expectation_wf
      by (auto simp: ticket_validator [THEN iffD2] expectation_exact [THEN iffD2])
    then show ?thesis
      using sample_creates [of sample_now] sample_ledger_time ok
      by (simp add: created_exact sample_prepare_def prepared_record_def sample_prepared_def)
  qed
  moreover have "getProp gs ''ticket'' = sortFields (ticket_json sample_ticket)" "getProp gs ''attemptId'' = JStr (js ''at'')"
    "getProp gs ''evidenceIntentId'' = JStr (js ''in'')"
    "getProp gs ''attestationId'' = JStr (js ''00000000-0000-4000-8000-000000000003'')"
    "getProp gs ''evidenceExpectation'' = sortFields (expectation_json sample_expectation)" "getProp gs ''now'' = JStr sample_now"
    unfolding field by (simp_all add: sample_prepare_fields_def)
  ultimately show ?thesis
    using sample_swap
    by (simp add: createPrepared_def gs(2) bindP_def pureP_def declaredString_def)
      (simp add: memory_apply_Inr sample_prepared_simps sample_insert_def)
qed

end
