(* ===== verification/Ledger_Facade_Authority.thy ===== *)
theory Ledger_Facade_Authority
  imports Ledger_Facade_Samples
begin

text \<open>
  What a ledger behind the facade promises: no answer of the port makes it return a record other than the requested one; over
  the in-memory store requests are single transitions, so that every stored record is a reachable ledger record;
  scans and recovery are exact; and no evidence is ever admitted.
\<close>

section \<open>The facade as the only writer\<close>

inductive facade_step :: "(jstr \<Rightarrow> jstr) \<Rightarrow> ledger_store \<Rightarrow> ledger_store \<Rightarrow> bool" for nfc where
  call: "facade_call nfc (memoryLedger nfc) q st = (result, st') \<Longrightarrow> facade_step nfc st st'"

definition facade_inv :: "(jstr \<Rightarrow> jstr) \<Rightarrow> ledger_store \<Rightarrow> bool" where
  "facade_inv nfc st \<longleftrightarrow>
     store_inv nfc st \<and> reachable (\<lambda>s. s = emptyStore) (store_step nfc) st \<and>
     (\<forall>t r. ownValue (st_records st) t = Some r \<longrightarrow> reachable (ledger_created nfc) (ledger_step nfc) r)"

lemma facade_inv_step:
  assumes "facade_inv nfc st" "facade_step nfc st st'"
  shows "facade_inv nfc st'"
proof -
  have inv: "store_inv nfc st" "reachable (\<lambda>s. s = emptyStore) (store_step nfc) st"
    and kept: "ownValue (st_records st) t = Some p \<Longrightarrow> reachable (ledger_created nfc) (ledger_step nfc) p" for t p
    using assms(1) unfolding facade_inv_def by blast+
  from assms(2) obtain q result where call: "facade_call nfc (memoryLedger nfc) q st = (result, st')"
    by cases
  show ?thesis
  proof (cases result)
    case (Inl e)
    with memory_call [OF inv(1) call] assms(1) show ?thesis
      by simp
  next
    case (Inr r)
    have filed: "store_step nfc st st'" "st' = storedIn st (lr_transactionId r) r"
      and origin: "case ownValue (st_records st) (lr_transactionId r) of None \<Rightarrow> ledger_created nfc r | Some p \<Rightarrow> ledger_step nfc p r"
      using memory_call [OF inv(1) call] unfolding Inr sum.case by blast+
    from origin kept have "reachable (ledger_created nfc) (ledger_step nfc) r"
      by (cases "ownValue (st_records st) (lr_transactionId r)") (auto intro: reachable.start reachable.advance)
    then have "\<forall>t p. ownValue (st_records st') t = Some p \<longrightarrow> reachable (ledger_created nfc) (ledger_step nfc) p"
      using kept filed(2) by (simp add: storedIn_values)
    moreover have "store_inv nfc st'" "reachable (\<lambda>s. s = emptyStore) (store_step nfc) st'"
      using store_inv_step [OF inv(1) filed(1)] reachable.advance [OF inv(2) filed(1)] by auto
    ultimately show ?thesis
      by (simp add: facade_inv_def)
  qed
qed

interpretation facade: invariant_system "\<lambda>st. st = emptyStore" "facade_step nfc" "facade_inv nfc"
proof unfold_locales
  show "facade_inv nfc st" if "st = emptyStore" for st
    using that by (simp add: facade_inv_def store.inv_init reachable.start) (simp add: emptyStore_def)
qed (rule facade_inv_step)

section \<open>Admission\<close>

lemma admission_snapshot_refused:
  assumes "snapshotVerifiedReceiptMutation input = Inr (i, snapshot)"
  shows "\<exists>e. markSafeCodingLedgerEvidenceAdmitted nfc r snapshot w registry = (Inl e, registry)"
proof -
  have "length (ai_fields snapshot) = 3"
    using assms by (auto simp: snapshotVerifiedReceiptMutation_def Let_def result_simps)
  then have "sort (map fst (ai_fields snapshot)) \<noteq> sort (map js [''receipt''])"
    by (metis One_nat_def length_Cons length_map length_sort list.size(3) numeral_eq_one_iff semiring_norm(86))
  then have "assertClosedFields (ai_shape snapshot) (ai_fields snapshot) a [''receipt''] l \<noteq> Inr u" for a l u
    by (auto simp: assertClosedFields_def result_simps)
  then obtain e where "assertClosedFields (ai_shape snapshot) (ai_fields snapshot) (\<lambda>v. v = OtherArgument JAccessor) [''receipt'']
      ''Evidence admission transition input'' = Inl e"
    by (meson old.sum.exhaust)
  then show ?thesis
    by (simp add: markSafeCodingLedgerEvidenceAdmitted_def)
qed

section \<open>Properties\<close>

text \<open>C27. Whatever the port answers, a request returns only a record that one ledger transition produced: a newly created record
  for a request to prepare, or the successor, by exactly one transition, of a valid record of the same transaction that the port
  read back; and the port confirmed just this record in its answer to the swap. A port that reports another record, another
  transaction or another outcome makes the request fail.\<close>

theorem facade_trusts_no_port:
  assumes "facade_call nfc el q w = (Inr r, w')"
  shows "ledger_valid nfc r \<and>
    (ledger_created nfc r \<or> (\<exists>p v w1. el_read el (lr_transactionId r) w = (PortReturns v, w1) \<and>
       validateSafeCodingLedgerRecord nfc v = Inr p \<and> lr_transactionId p = lr_transactionId r \<and> ledger_step nfc p r)) \<and>
    (\<exists>m w1 raw v. mu_transactionId m = lr_transactionId r \<and> mu_nextRecord m = ledger_json r \<and>
       el_compareAndSwap el m w1 = (PortReturns raw, w') \<and>
       validateSafeCodingLedgerPersistenceCasResult raw = Inr (CasApplied v) \<and> validateSafeCodingLedgerRecord nfc v = Inr r)"
  using assms
proof (cases rule: facade_call_result)
  case created
  then obtain raw v where "ledger_valid nfc r"
    "el_compareAndSwap el \<lparr>mu_transactionId = lr_transactionId r, mu_expectedRevision = None, mu_nextRecord = ledger_json r\<rparr> w =
      (PortReturns raw, w')"
    "validateSafeCodingLedgerPersistenceCasResult raw = Inr (CasApplied v)" "validateSafeCodingLedgerRecord nfc v = Inr r"
    by (auto simp: apply_exact)
  with created(1) show ?thesis
    by (metis ledger_mutation.select_convs(1,3))
next
  case (moved p w1)
  then obtain raw v where "ledger_valid nfc r"
    "el_compareAndSwap el \<lparr>mu_transactionId = lr_transactionId r, mu_expectedRevision = Some (lr_revision p),
      mu_nextRecord = ledger_json r\<rparr> w1 = (PortReturns raw, w')"
    "validateSafeCodingLedgerPersistenceCasResult raw = Inr (CasApplied v)" "validateSafeCodingLedgerRecord nfc v = Inr r"
    by (auto simp: apply_exact)
  moreover from moved(1) obtain u where "el_read el (lr_transactionId r) w = (PortReturns u, w1)"
    "validateSafeCodingLedgerRecord nfc u = Inr p" "lr_transactionId p = lr_transactionId r"
    by (auto simp: get_exact)
  ultimately show ?thesis
    using moved(2) by (metis ledger_mutation.select_convs(1,3))
qed

lemma facade_trusts_no_port_witness:
  "ledger_valid (\<lambda>s. s) (sample_committing sample_now)"
  using facade_trusts_no_port [OF sample_request_done] by blast

text \<open>C26. Over the in-memory store every request is one transition or nothing. In a reachable store a request that returns a record was one
  step of the store: it filed the returned record under its transaction, a newly created one where there was none or the result
  of one ledger transition of the record stored before; a request that throws leaves the store as it was.\<close>

theorem facade_over_memory:
  assumes "reachable (\<lambda>st. st = emptyStore) (store_step nfc) st"
  shows "case facade_call nfc (memoryLedger nfc) q st of
      (Inl e, st') \<Rightarrow> st' = st
    | (Inr r, st') \<Rightarrow> store_step nfc st st' \<and> st' = storedIn st (lr_transactionId r) r \<and>
        (case ownValue (st_records st) (lr_transactionId r) of None \<Rightarrow> ledger_created nfc r | Some p \<Rightarrow> ledger_step nfc p r)"
  using memory_call [OF store.reachable_inv [OF assms], of q]
  by (cases "facade_call nfc (memoryLedger nfc) q st") (auto split: sum.splits)

lemma facade_over_memory_witness:
  "ledger_step (\<lambda>s. s) (sample_prepared sample_now) (sample_committing sample_now)"
  using facade_over_memory [OF sample_store_reached, of "RecordCommitPermit (jrec sample_request_fields)"]
  unfolding sample_request_done by (simp add: sample_stored)

text \<open>Every record a ledger on the in-memory store holds is a reachable ledger record: when the store was empty at first and written only
  by requests to the facade, each stored record was created by the ledger and brought to its state by ledger transitions,
  and is filed under its own transaction.\<close>

theorem facade_records_reachable:
  assumes "reachable (\<lambda>st. st = emptyStore) (facade_step nfc) st" and "ownValue (st_records st) t = Some r"
  shows "reachable (ledger_created nfc) (ledger_step nfc) r \<and> lr_transactionId r = t \<and>
    reachable (\<lambda>st. st = emptyStore) (store_step nfc) st"
  using facade.reachable_inv [OF assms(1)] assms(2) by (auto simp: facade_inv_def store_inv_def)

lemma facade_records_reachable_witness:
  "reachable (ledger_created (\<lambda>s. s)) (ledger_step (\<lambda>s. s)) (sample_prepared sample_now)"
proof -
  have "facade_step (\<lambda>s. s) emptyStore sample_store"
    using sample_prepare_done by (rule facade_step.call)
  then have "reachable (\<lambda>st. st = emptyStore) (facade_step (\<lambda>s. s)) sample_store"
    by (rule reachable.advance [of _ _ emptyStore, rotated]) (simp add: reachable.start)
  then show ?thesis
    using facade_records_reachable sample_stored(1) by blast
qed

text \<open>C29. The facade never admits evidence. Whatever the port, the input and the verified receipts, \<open>markEvidenceAdmitted\<close> throws and
  no receipt is used up, because it hands its own three-field snapshot to a transition that accepts only the field
  \<open>receipt\<close>.\<close>

theorem facade_never_admits:
  "\<exists>e w'. markEvidenceAdmitted nfc el input (w, registry) = (Inl e, w', registry)"
proof (cases "snapshotVerifiedReceiptMutation input")
  case (Inr x)
  obtain i snapshot where x: "x = (i, snapshot)"
    by fastforce
  note refused = admission_snapshot_refused [OF Inr [unfolded x]]
  show ?thesis
  proof (cases "currentRecord nfc el (fst i) (snd i) w")
    case (Pair res w1)
    then show ?thesis
    proof (cases res)
      case (Inr found)
      then show ?thesis
        using refused [of nfc found w1 registry] Pair \<open>snapshotVerifiedReceiptMutation input = Inr x\<close> x
        by (auto simp: markEvidenceAdmitted_def bindP_def pureP_def besideRegistry_def)
    qed (use Inr x in \<open>simp add: markEvidenceAdmitted_def bindP_def pureP_def besideRegistry_def\<close>)
  qed
qed (simp add: markEvidenceAdmitted_def bindP_def pureP_def)

text \<open>C28. Recovery after a restart covers the whole store, or nothing. In a reachable store within the scan limits it
  returns one decision per stored record, in the order of the transactions, each the classification of that record and none
  allowing a replay of the effect; beyond a limit (more than 4096 records, or 32 MiB of text) it fails as a whole. A store of up to
  423 records is always within the limits.\<close>

theorem recovery_covers_store:
  assumes "reachable (\<lambda>st. st = emptyStore) (store_step nfc) st"
  shows "(if within_scan_limits (map snd (st_records st))
     then \<exists>ds. scanRecovery nfc (memoryLedger nfc) st = (Inr ds, st) \<and>
       list_all2 (\<lambda>r d. classifySafeCodingLedgerRecovery nfc r = Inr d \<and> \<not> rd_effectReplayAllowed d) (sortedRecords st) ds
     else \<exists>e. scanRecovery nfc (memoryLedger nfc) st = (Inl e, st)) \<and>
    (length (st_records st) \<le> 423 \<longrightarrow> within_scan_limits (map snd (st_records st)))"
proof -
  have inv: "store_inv nfc st"
    using assms by (rule store.reachable_inv)
  show ?thesis
  proof (cases "within_scan_limits (map snd (st_records st))")
    case True
    then have scan: "ledger_scan nfc (memoryLedger nfc) st = (Inr (sortedRecords st), st)"
      by (simp add: memory_scan [OF inv])
    have "\<forall>r \<in> set (sortedRecords st). \<exists>d. classifySafeCodingLedgerRecovery nfc r = Inr d \<and> \<not> rd_effectReplayAllowed d"
      using stored_valid [OF inv] classified by blast
    from list_all2_exists [OF this] obtain ds where ds: "list_all2 (\<lambda>r d. classifySafeCodingLedgerRecovery nfc r = Inr d \<and> \<not> rd_effectReplayAllowed d)
        (sortedRecords st) ds"
      by blast
    then have "mapE (classifySafeCodingLedgerRecovery nfc) (sortedRecords st) = Inr ds"
      unfolding mapE_eq_Inr by (rule list_all2_mono) simp
    with scan ds True show ?thesis
      by (auto simp: scanRecovery_def bindP_def pureP_def)
  next
    case False
    then have "fst (ledger_scan nfc (memoryLedger nfc) st) \<noteq> Inr rs" for rs
      using memory_scan [OF inv] by (metis prod.collapse)
    moreover have "snd (ledger_scan nfc (memoryLedger nfc) st) = st"
      by (simp add: ledger_scan_def bindP_def pureP_def callPort_def memoryLedger_def split: port_result.splits)
    ultimately obtain e where "ledger_scan nfc (memoryLedger nfc) st = (Inl e, st)"
      by (metis old.sum.exhaust prod.collapse)
    with False show ?thesis
      using small_store_within_limits [OF inv] by (auto simp: scanRecovery_def bindP_def)
  qed
qed

lemma recovery_covers_store_witness:
  "\<exists>d. scanRecovery (\<lambda>s. s) (memoryLedger (\<lambda>s. s)) sample_store = (Inr [d], sample_store) \<and> \<not> rd_effectReplayAllowed d"
proof -
  have one: "st_records sample_store = [(et_ticketId sample_ticket, sample_prepared sample_now)]"
    by (simp add: sample_store_def storedIn_def emptyStore_def setOwn_def)
  then have "sortedRecords sample_store = [sample_prepared sample_now]"
    by (simp add: sortedRecords_def)
  then show ?thesis
    using recovery_covers_store [OF sample_store_reached] one by (auto simp: list_all2_Cons1)
qed

end
