(* ===== verification/Safe_Coding_Action.thy ===== *)
theory Safe_Coding_Action
  imports Intent_Contract
begin

text \<open>
  Safe Coding actions (\<open>validateSafeCodingAction\<close> of \<open>intent-contract.ts\<close>): one constructor per
  member of the TypeScript union, each with the fields of its variant. The validator reads the
  request id and the kind before it checks the exact keys of the variant, and unlike the other
  validators does not end with a canonical serialization, which happens when the action is hashed.
\<close>

section \<open>Data\<close>

datatype action_kind =
    KindStat | KindList | KindRead | KindCreate | KindReplace | KindMkdir
  | KindGitStatus | KindGitDiff | KindTestRun

datatype diff_scope = WorktreeScope | StagedScope

datatype safe_coding_action =
    StatAction (act_requestId: jstr) (act_selector: resource_selector)
  | ListAction (act_requestId: jstr) (act_selector: resource_selector)
  | ReadAction (act_requestId: jstr) (act_selector: resource_selector)
  | CreateAction (act_requestId: jstr) (act_selector: resource_selector)
      (act_contentSha256: jstr) (act_contentBytes: int)
  | ReplaceAction (act_requestId: jstr) (act_selector: resource_selector) (act_beforeSha256: jstr)
      (act_contentSha256: jstr) (act_contentBytes: int)
  | MkdirAction (act_requestId: jstr) (act_selector: resource_selector)
  | GitStatusAction (act_requestId: jstr)
  | GitDiffAction (act_requestId: jstr) (act_scope: diff_scope)
  | TestRunAction (act_requestId: jstr) (act_profileId: jstr)

definition actionKinds :: "(string \<times> action_kind) list" where
  "actionKinds =
     [(''filesystem.stat'', KindStat), (''filesystem.list'', KindList), (''filesystem.read'', KindRead),
      (''filesystem.create'', KindCreate), (''filesystem.replace'', KindReplace),
      (''filesystem.mkdir'', KindMkdir), (''git.status'', KindGitStatus), (''git.diff'', KindGitDiff),
      (''test.run'', KindTestRun)]"

definition diffScopes :: "(string \<times> diff_scope) list" where
  "diffScopes = [(''worktree'', WorktreeScope), (''staged'', StagedScope)]"

definition actionKindName :: "action_kind \<Rightarrow> string" where
  "actionKindName k = (case k of KindStat \<Rightarrow> ''filesystem.stat'' | KindList \<Rightarrow> ''filesystem.list''
     | KindRead \<Rightarrow> ''filesystem.read'' | KindCreate \<Rightarrow> ''filesystem.create''
     | KindReplace \<Rightarrow> ''filesystem.replace'' | KindMkdir \<Rightarrow> ''filesystem.mkdir''
     | KindGitStatus \<Rightarrow> ''git.status'' | KindGitDiff \<Rightarrow> ''git.diff'' | KindTestRun \<Rightarrow> ''test.run'')"

fun kindOf :: "safe_coding_action \<Rightarrow> action_kind" where
  "kindOf (StatAction _ _) = KindStat"
| "kindOf (ListAction _ _) = KindList"
| "kindOf (ReadAction _ _) = KindRead"
| "kindOf (CreateAction _ _ _ _) = KindCreate"
| "kindOf (ReplaceAction _ _ _ _ _) = KindReplace"
| "kindOf (MkdirAction _ _) = KindMkdir"
| "kindOf (GitStatusAction _) = KindGitStatus"
| "kindOf (GitDiffAction _ _) = KindGitDiff"
| "kindOf (TestRunAction _ _) = KindTestRun"

section \<open>Validation\<close>

definition requireFileSelector :: "(jstr \<Rightarrow> jstr) \<Rightarrow> jsval \<Rightarrow> string \<Rightarrow> contract_error + resource_selector" where
  "requireFileSelector nfc value action =
     bindE (validateResourceSelector nfc value) (\<lambda>selector.
     bindE (guardE (rs_kind selector = FileSelector)
       (icError (action @ '' requires a file selector''))) (\<lambda>_. Inr selector))"

definition requireTreeSelector :: "(jstr \<Rightarrow> jstr) \<Rightarrow> jsval \<Rightarrow> string \<Rightarrow> contract_error + resource_selector" where
  "requireTreeSelector nfc value action =
     bindE (validateResourceSelector nfc value) (\<lambda>selector.
     bindE (guardE (rs_kind selector = TreeSelector)
       (icError (action @ '' requires a tree selector''))) (\<lambda>_. Inr selector))"

text \<open>The \<open>switch\<close> over the kind.\<close>

fun validateActionVariant ::
  "(jstr \<Rightarrow> jstr) \<Rightarrow> (jstr \<times> jsval) list \<Rightarrow> jstr \<Rightarrow> action_kind \<Rightarrow> contract_error + safe_coding_action" where
  "validateActionVariant nfc record requestId KindStat =
     bindE (requireExactKeys record [''requestId'', ''action'', ''selector''] (actionKindName KindStat)) (\<lambda>_.
     bindE (validateResourceSelector nfc (getProp record ''selector'')) (\<lambda>selector.
     Inr (StatAction requestId selector)))"
| "validateActionVariant nfc record requestId KindList =
     bindE (requireExactKeys record [''requestId'', ''action'', ''selector''] (actionKindName KindList)) (\<lambda>_.
     bindE (requireTreeSelector nfc (getProp record ''selector'') (actionKindName KindList)) (\<lambda>selector.
     Inr (ListAction requestId selector)))"
| "validateActionVariant nfc record requestId KindMkdir =
     bindE (requireExactKeys record [''requestId'', ''action'', ''selector''] (actionKindName KindMkdir)) (\<lambda>_.
     bindE (requireTreeSelector nfc (getProp record ''selector'') (actionKindName KindMkdir)) (\<lambda>selector.
     Inr (MkdirAction requestId selector)))"
| "validateActionVariant nfc record requestId KindRead =
     bindE (requireExactKeys record [''requestId'', ''action'', ''selector''] (actionKindName KindRead)) (\<lambda>_.
     bindE (requireFileSelector nfc (getProp record ''selector'') ''filesystem.read'') (\<lambda>selector.
     Inr (ReadAction requestId selector)))"
| "validateActionVariant nfc record requestId KindCreate =
     bindE (requireExactKeys record
       [''requestId'', ''action'', ''selector'', ''contentSha256'', ''contentBytes''] (actionKindName KindCreate)) (\<lambda>_.
     bindE (requireFileSelector nfc (getProp record ''selector'') (actionKindName KindCreate)) (\<lambda>selector.
     bindE (requireDigest (getProp record ''contentSha256'') ''Content digest'') (\<lambda>contentSha256.
     bindE (requireNonNegativeInteger (getProp record ''contentBytes'') ''Content byte count'') (\<lambda>contentBytes.
     Inr (CreateAction requestId selector contentSha256 contentBytes)))))"
| "validateActionVariant nfc record requestId KindReplace =
     bindE (requireExactKeys record
       [''requestId'', ''action'', ''selector'', ''beforeSha256'', ''contentSha256'', ''contentBytes'']
       (actionKindName KindReplace)) (\<lambda>_.
     bindE (requireFileSelector nfc (getProp record ''selector'') (actionKindName KindReplace)) (\<lambda>selector.
     bindE (requireDigest (getProp record ''beforeSha256'') ''Before-state digest'') (\<lambda>beforeSha256.
     bindE (requireDigest (getProp record ''contentSha256'') ''Content digest'') (\<lambda>contentSha256.
     bindE (requireNonNegativeInteger (getProp record ''contentBytes'') ''Content byte count'') (\<lambda>contentBytes.
     Inr (ReplaceAction requestId selector beforeSha256 contentSha256 contentBytes))))))"
| "validateActionVariant nfc record requestId KindGitStatus =
     bindE (requireExactKeys record [''requestId'', ''action''] (actionKindName KindGitStatus)) (\<lambda>_.
     Inr (GitStatusAction requestId))"
| "validateActionVariant nfc record requestId KindGitDiff =
     bindE (requireExactKeys record [''requestId'', ''action'', ''scope''] (actionKindName KindGitDiff)) (\<lambda>_.
     bindE (requireEnum (getProp record ''scope'') diffScopes ''Git diff scope'') (\<lambda>scope.
     Inr (GitDiffAction requestId scope)))"
| "validateActionVariant nfc record requestId KindTestRun =
     bindE (requireExactKeys record [''requestId'', ''action'', ''profileId''] (actionKindName KindTestRun)) (\<lambda>_.
     bindE (requireProfileId nfc (getProp record ''profileId'') ''Test profile ID'') (\<lambda>profileId.
     Inr (TestRunAction requestId profileId)))"

definition validateSafeCodingAction :: "(jstr \<Rightarrow> jstr) \<Rightarrow> jsval \<Rightarrow> contract_error + safe_coding_action" where
  "validateSafeCodingAction nfc value =
     bindE (requireRecord value ''Safe Coding action'') (\<lambda>record.
     bindE (requireIdentifier nfc (getProp record ''requestId'') ''Action request ID'') (\<lambda>requestId.
     bindE (requireEnum (getProp record ''action'') actionKinds ''Safe Coding action kind'') (\<lambda>action.
     validateActionVariant nfc record requestId action)))"

section \<open>Accepted actions and their JSON form\<close>

fun action_json :: "safe_coding_action \<Rightarrow> jsval" where
  "action_json (StatAction r s) =
     jrec [(''requestId'', JStr r), (''action'', JStr (js ''filesystem.stat'')), (''selector'', selector_json s)]"
| "action_json (ListAction r s) =
     jrec [(''requestId'', JStr r), (''action'', JStr (js ''filesystem.list'')), (''selector'', selector_json s)]"
| "action_json (ReadAction r s) =
     jrec [(''requestId'', JStr r), (''action'', JStr (js ''filesystem.read'')), (''selector'', selector_json s)]"
| "action_json (CreateAction r s h n) =
     jrec [(''requestId'', JStr r), (''action'', JStr (js ''filesystem.create'')), (''selector'', selector_json s),
           (''contentSha256'', JStr h), (''contentBytes'', jint n)]"
| "action_json (ReplaceAction r s b h n) =
     jrec [(''requestId'', JStr r), (''action'', JStr (js ''filesystem.replace'')), (''selector'', selector_json s),
           (''beforeSha256'', JStr b), (''contentSha256'', JStr h), (''contentBytes'', jint n)]"
| "action_json (MkdirAction r s) =
     jrec [(''requestId'', JStr r), (''action'', JStr (js ''filesystem.mkdir'')), (''selector'', selector_json s)]"
| "action_json (GitStatusAction r) = jrec [(''requestId'', JStr r), (''action'', JStr (js ''git.status''))]"
| "action_json (GitDiffAction r sc) =
     jrec [(''requestId'', JStr r), (''action'', JStr (js ''git.diff'')),
           (''scope'', JStr (spelling diffScopes sc))]"
| "action_json (TestRunAction r p) =
     jrec [(''requestId'', JStr r), (''action'', JStr (js ''test.run'')), (''profileId'', JStr p)]"

fun wf_action :: "(jstr \<Rightarrow> jstr) \<Rightarrow> safe_coding_action \<Rightarrow> bool" where
  "wf_action nfc (StatAction r s) = (ident nfc r \<and> wf_selector nfc s)"
| "wf_action nfc (ListAction r s) = (ident nfc r \<and> wf_selector nfc s \<and> rs_kind s = TreeSelector)"
| "wf_action nfc (ReadAction r s) = (ident nfc r \<and> wf_selector nfc s \<and> rs_kind s = FileSelector)"
| "wf_action nfc (CreateAction r s h n) =
     (ident nfc r \<and> wf_selector nfc s \<and> rs_kind s = FileSelector \<and> SHA256_PATTERN h \<and> counter n)"
| "wf_action nfc (ReplaceAction r s b h n) =
     (ident nfc r \<and> wf_selector nfc s \<and> rs_kind s = FileSelector \<and> SHA256_PATTERN b \<and>
      SHA256_PATTERN h \<and> counter n)"
| "wf_action nfc (MkdirAction r s) = (ident nfc r \<and> wf_selector nfc s \<and> rs_kind s = TreeSelector)"
| "wf_action nfc (GitStatusAction r) = ident nfc r"
| "wf_action nfc (GitDiffAction r sc) = ident nfc r"
| "wf_action nfc (TestRunAction r p) = (ident nfc r \<and> canonical_string nfc p \<and> PROFILE_ID_PATTERN p)"

lemma action_tables [require_simps]:
  "requireEnum v actionKinds label = Inr k \<longleftrightarrow> v = JStr (js (actionKindName k))"
  "requireEnum v diffScopes label = Inr d \<longleftrightarrow> v = JStr (spelling diffScopes d)"
proof -
  show "requireEnum v actionKinds label = Inr k \<longleftrightarrow> v = JStr (js (actionKindName k))"
    by (cases k) (simp_all add: requireEnum_Inr actionKinds_def actionKindName_def)
  show "requireEnum v diffScopes label = Inr d \<longleftrightarrow> v = JStr (spelling diffScopes d)"
    by (rule requireEnum_spelling; cases d) (simp_all add: diffScopes_def)
qed

lemma selector_kind_checks:
  "requireFileSelector nfc v l = Inr s \<longleftrightarrow> validateResourceSelector nfc v = Inr s \<and> rs_kind s = FileSelector"
  "requireTreeSelector nfc v l = Inr s \<longleftrightarrow> validateResourceSelector nfc v = Inr s \<and> rs_kind s = TreeSelector"
  by (auto simp: requireFileSelector_def requireTreeSelector_def result_simps)

lemma action_sound:
  assumes "validateSafeCodingAction nfc v = Inr a" "json_ok nfc v"
  shows "wf_action nfc a \<and> sortFields v = sortFields (action_json a)"
proof -
  from assms(1) obtain fs k r where v: "v = jobj fs" "getProp fs ''requestId'' = JStr r" "ident nfc r"
      "getProp fs ''action'' = JStr (js (actionKindName k))"
    and variant: "validateActionVariant nfc fs r k = Inr a"
    unfolding validateSafeCodingAction_def by (auto simp: open_record leaf_simps action_tables)
  show ?thesis
    using variant v assms(2)
    by (cases k)
      (auto simp: open_record leaf_simps action_tables selector_kind_checks record_int counter_def
        validateResourceSelector_wf validateResourceSelector_shape actionKindName_def
        simp del: sortFields.simps(1,2) json_ok.simps(6) intro!: record_shape)
qed

lemma action_complete:
  assumes "wf_action nfc a" "sortFields v = sortFields (action_json a)"
  shows "validateSafeCodingAction nfc v = Inr a"
proof -
  have k: "requireEnum (JStr (js (actionKindName k))) actionKinds l = Inr k" for k l
    by (simp add: action_tables)
  note kinds = k [of KindStat] k [of KindList] k [of KindRead] k [of KindCreate] k [of KindReplace]
    k [of KindMkdir] k [of KindGitStatus] k [of KindGitDiff] k [of KindTestRun]
  have scope: "requireEnum (JStr (spelling diffScopes d)) diffScopes l = Inr d" for d l
    by (simp add: action_tables)
  show ?thesis
    using assms
    by (cases a; simp only: action_json.simps wf_action.simps; elim record_invert conjE)
      (auto simp: validateSafeCodingAction_def kinds [unfolded actionKindName_def action_kind.case] scope
        result_simps leaf_simps selector_kind_checks selector_complete)
qed

section \<open>Properties\<close>

text \<open>Among the values of the canonical subset, \<open>validateSafeCodingAction\<close> accepts exactly the JSON
  forms of well-formed actions, up to the order of keys: each kind has its own exact fields, the
  selector kind it needs, digests and a safe non-negative byte count.\<close>

theorem validate_action_exact:
  "validateSafeCodingAction nfc v = Inr a \<and> json_ok nfc v \<longleftrightarrow>
     wf_action nfc a \<and> json_ok nfc v \<and> sortFields v = sortFields (action_json a)"
  using action_sound action_complete by blast

end
