(* ===== verification/Envelope.thy ===== *)
theory Envelope
  imports Contract_Properties Safe_Coding_Action
begin

text \<open>
  Signed envelopes (\<open>intent-contract.ts\<close>): the DSSE pre-authentication encoding, domain-separated
  hashing, the trusted signer snapshots and \<open>verifySignedIntentContract\<close>.

  The hash and signature ports are the embedder's code and appear as parameters. A port call is a
  function of its arguments that may throw and returns an arbitrary JavaScript value: one
  verification calls \<open>resolveTrustedSigner\<close> and \<open>verify\<close> at most once per signature, with
  different key ids each time, and \<open>sha256\<close> and \<open>assertTrusted\<close> at most once, so this covers ports that
  answer differently from call to call. An awaited promise is its value, a rejected one its error.
\<close>

section \<open>Data\<close>

datatype signer_role =
    HumanAuthorizer | PolicyAuthorizer | DelegationAuthority | GuardianRole | ExecutorRole
  | ObserverRole | ModelRole

record envelope_signature =
  sig_keyId :: jstr
  sig_signature :: jstr

record signed_envelope =
  env_payloadType :: jstr
  env_payload :: jstr
  env_signatures :: "envelope_signature list"

record trusted_signer =
  ts_keyId :: jstr
  ts_role :: signer_role
  ts_trustEpoch :: int
  ts_registryDigest :: jstr

record verification_input =
  vi_algorithm :: string
  vi_keyId :: jstr
  vi_signature :: jstr
  vi_message :: "byte list"
  vi_trustedSigner :: trusted_signer

record verified_contract =
  vc_contract :: intent_contract
  vc_canonicalPayload :: jstr
  vc_contractHash :: jstr
  vc_signerKeyId :: jstr
  vc_signerRole :: signer_role
  vc_signer :: trusted_signer

type_synonym hash_port = "byte list \<Rightarrow> contract_error + jsval"
type_synonym resolve_port = "jstr \<Rightarrow> contract_error + jsval"
type_synonym verify_port = "verification_input \<Rightarrow> contract_error + jsval"
type_synonym assert_port = "trusted_signer \<Rightarrow> contract_error + jsval"

record verification_ports =
  port_sha256 :: hash_port
  port_resolveTrustedSigner :: resolve_port
  port_verify :: verify_port
  port_assertTrusted :: assert_port

definition INTENT_CONTRACT_PAYLOAD_TYPE :: string where
  "INTENT_CONTRACT_PAYLOAD_TYPE = ''application/vnd.clodex.intent-contract.v1+jcs''"

definition INTENT_CONTRACT_HASH_DOMAIN :: string where
  "INTENT_CONTRACT_HASH_DOMAIN = ''clodex.intent-contract.v1''"

definition SAFE_CODING_ACTION_HASH_DOMAIN :: string where
  "SAFE_CODING_ACTION_HASH_DOMAIN = ''clodex.safe-coding-action.v1''"

definition SIGNATURE_ALGORITHM :: string where
  "SIGNATURE_ALGORITHM = ''P-256-SHA256-P1363''"

definition MAX_ENVELOPE_SIGNATURES :: nat where
  "MAX_ENVELOPE_SIGNATURES = 16"

definition MAX_ENVELOPE_PAYLOAD_BYTES :: nat where
  "MAX_ENVELOPE_PAYLOAD_BYTES = 12 * 1024 * 1024"

definition P256_P1363_SIGNATURE_BYTES :: nat where
  "P256_P1363_SIGNATURE_BYTES = 64"

definition signerRoles :: "(string \<times> signer_role) list" where
  "signerRoles =
     [(''human-authorizer'', HumanAuthorizer), (''policy-authorizer'', PolicyAuthorizer),
      (''delegation-authority'', DelegationAuthority), (''guardian'', GuardianRole),
      (''executor'', ExecutorRole), (''observer'', ObserverRole), (''model'', ModelRole)]"

definition rootRoles :: "(string \<times> signer_role) list" where
  "rootRoles = [(''human-authorizer'', HumanAuthorizer), (''policy-authorizer'', PolicyAuthorizer)]"

section \<open>Hashing and pre-authentication encoding\<close>

definition concatenateBytes :: "byte list list \<Rightarrow> byte list" where
  "concatenateBytes values = concat values"

definition hashDomainSeparatedWith ::
  "(jstr \<Rightarrow> jstr) \<Rightarrow> string \<Rightarrow> jstr \<Rightarrow> hash_port \<Rightarrow> contract_error + jstr" where
  "hashDomainSeparatedWith nfc domain canonicalPayload sha256 =
     bindE (encodeUtf8 nfc (js domain)) (\<lambda>domainBytes.
     bindE (encodeUtf8 nfc canonicalPayload) (\<lambda>payloadBytes.
     bindE (sha256 (concatenateBytes [domainBytes, [0], payloadBytes])) (\<lambda>digest.
     requireDigest digest ''HashPort SHA-256 result'')))"

definition createEnvelopePreAuthenticationEncoding ::
  "(jstr \<Rightarrow> jstr) \<Rightarrow> jstr \<Rightarrow> jstr \<Rightarrow> contract_error + byte list" where
  "createEnvelopePreAuthenticationEncoding nfc payloadType canonicalPayload =
     bindE (requireAsciiToken nfc (JStr payloadType) ''Envelope payload type'' 256) (\<lambda>type.
     bindE (parseCanonicalJson nfc canonicalPayload) (\<lambda>_.
     bindE (encodeUtf8 nfc type) (\<lambda>typeBytes.
     bindE (encodeUtf8 nfc canonicalPayload) (\<lambda>payloadBytes.
     bindE (encodeUtf8 nfc (js ''DSSEv1 '' @ decDigits (length typeBytes) @ js '' '' @ type @ js '' '' @
       decDigits (length payloadBytes) @ js '' '')) (\<lambda>prefix.
     Inr (concatenateBytes [prefix, payloadBytes]))))))"

section \<open>Pinning the ports\<close>

text \<open>
  An own property of the dependencies object is absent, an accessor, or a data field. A port is
  null or a primitive (\<open>None\<close>), or an object, of which only the property a call names is read: the
  list holds the descriptor of that property on each object of the prototype chain, own first.
\<close>

datatype 'a own_property = AbsentProperty | AccessorProperty | DataProperty 'a

datatype 'f method_descriptor = MethodValue 'f | OtherDescriptor

type_synonym 'f method_chain = "'f method_descriptor option list"

record signature_port =
  sp_isFunction :: bool
  sp_resolveTrustedSigner :: "resolve_port method_chain"
  sp_verify :: "verify_port method_chain"
  sp_assertTrusted :: "assert_port method_chain"

record verification_dependencies =
  dep_hash :: "hash_port method_chain option own_property"
  dep_signatures :: "signature_port option own_property"
  dep_acceptedRootRoles :: "jsval own_property"

fun findMethod :: "'f method_chain \<Rightarrow> string \<Rightarrow> string \<Rightarrow> contract_error + 'f" where
  "findMethod [] name label = Inl (icError (label @ '' must provide '' @ name @ ''()''))"
| "findMethod (None # chain) name label = findMethod chain name label"
| "findMethod (Some (MethodValue f) # chain) name label = Inr f"
| "findMethod (Some OtherDescriptor # chain) name label =
     Inl (icError (label @ '' '' @ name @ '' must be a data method''))"

definition pinPortMethod :: "'f method_chain option \<Rightarrow> string \<Rightarrow> string \<Rightarrow> contract_error + 'f" where
  "pinPortMethod port name label =
     (case port of None \<Rightarrow> Inl (icError (label @ '' is required'')) | Some chain \<Rightarrow> findMethod chain name label)"

definition pinHashMethod :: "hash_port method_chain option \<Rightarrow> contract_error + hash_port" where
  "pinHashMethod hashPort = pinPortMethod hashPort ''sha256'' ''SHA-256 HashPort''"

text \<open>An object with its own data method \<open>sha256\<close>, as the embedder of the guardian hands it over.\<close>

definition hashObject :: "hash_port \<Rightarrow> hash_port method_chain option" where
  "hashObject sha256 = Some [Some (MethodValue sha256)]"

lemma pin_hashObject [simp]: "pinHashMethod (hashObject sha256) = Inr sha256"
  by (simp add: hashObject_def pinHashMethod_def pinPortMethod_def)

definition hashIntentContract :: "(jstr \<Rightarrow> jstr) \<Rightarrow> jsval \<Rightarrow> hash_port method_chain option \<Rightarrow> contract_error + jstr" where
  "hashIntentContract nfc contract hashPort =
     bindE (validateSafeCodingIntentContract nfc contract) (\<lambda>validated.
     bindE (canonicalizeJson nfc (contract_json validated)) (\<lambda>canonicalPayload.
     bindE (pinHashMethod hashPort) (\<lambda>sha256.
     hashDomainSeparatedWith nfc INTENT_CONTRACT_HASH_DOMAIN canonicalPayload sha256)))"

text \<open>The validated action keeps a negative zero in \<open>contentBytes\<close>, which the serialization then
  refuses; it is therefore run on the received value, as in the other validators.\<close>

definition hashSafeCodingAction :: "(jstr \<Rightarrow> jstr) \<Rightarrow> jsval \<Rightarrow> hash_port method_chain option \<Rightarrow> contract_error + jstr" where
  "hashSafeCodingAction nfc action hashPort =
     bindE (validateSafeCodingAction nfc action) (\<lambda>_.
     bindE (canonicalizeJson nfc action) (\<lambda>canonicalPayload.
     bindE (pinHashMethod hashPort) (\<lambda>sha256.
     hashDomainSeparatedWith nfc SAFE_CODING_ACTION_HASH_DOMAIN canonicalPayload sha256)))"

definition readOwnDataProperty :: "'a own_property \<Rightarrow> string \<Rightarrow> contract_error + 'a" where
  "readOwnDataProperty property label =
     (case property of DataProperty x \<Rightarrow> Inr x
      | _ \<Rightarrow> Inl (icError (label @ '' must be an own data field'')))"

definition readOptionalOwnDataProperty :: "jsval own_property \<Rightarrow> string \<Rightarrow> contract_error + jsval" where
  "readOptionalOwnDataProperty property label =
     (case property of DataProperty x \<Rightarrow> Inr x | AbsentProperty \<Rightarrow> Inr JUndefined
      | AccessorProperty \<Rightarrow> Inl (icError (label @ '' must be an own data field'')))"

definition validateAcceptedRootRoles :: "jsval \<Rightarrow> contract_error + signer_role list" where
  "validateAcceptedRootRoles value =
     bindE (if value = JUndefined then Inr [HumanAuthorizer, PolicyAuthorizer]
            else bindE (requireArray value ''Accepted root authorizer roles'' 2)
              (mapE (\<lambda>role. requireEnum role rootRoles ''Accepted root authorizer role''))) (\<lambda>roles.
     let accepted = remdups roles in
     bindE (guardE (length accepted \<noteq> 0)
       (icError ''At least one trusted root authorizer role is required'')) (\<lambda>_.
     bindE (guardE (length accepted = length roles)
       (icError ''Accepted root authorizer roles must be unique'')) (\<lambda>_.
     Inr accepted)))"

definition snapshotIntentVerificationDependencies ::
  "verification_dependencies option \<Rightarrow> contract_error + verification_ports \<times> signer_role list" where
  "snapshotIntentVerificationDependencies value =
     (case value of
        None \<Rightarrow> Inl (icError ''Intent Contract verification dependencies are required'')
      | Some dependencies \<Rightarrow>
          bindE (readOwnDataProperty (dep_hash dependencies) ''Intent Contract hash dependency'') (\<lambda>hash.
          bindE (readOwnDataProperty (dep_signatures dependencies)
            ''Intent Contract signature dependency'') (\<lambda>signatures.
          bindE (readOptionalOwnDataProperty (dep_acceptedRootRoles dependencies)
            ''Accepted root authorizer roles'') (\<lambda>acceptedRootRoles.
          bindE (guardE (case signatures of None \<Rightarrow> False | Some port \<Rightarrow> \<not> sp_isFunction port)
            (icError ''A trusted signature verification port is required'')) (\<lambda>_.
          bindE (pinHashMethod hash) (\<lambda>sha256.
          bindE (pinPortMethod (map_option sp_resolveTrustedSigner signatures)
            ''resolveTrustedSigner'' ''Signature verifier'') (\<lambda>resolveTrustedSigner.
          bindE (pinPortMethod (map_option sp_verify signatures) ''verify'' ''Signature verifier'') (\<lambda>verify.
          bindE (pinPortMethod (map_option sp_assertTrusted signatures)
            ''assertTrusted'' ''Signature verifier'') (\<lambda>assertTrusted.
          bindE (validateAcceptedRootRoles acceptedRootRoles) (\<lambda>acceptedRoles.
          Inr (\<lparr>port_sha256 = sha256, port_resolveTrustedSigner = resolveTrustedSigner,
                port_verify = verify, port_assertTrusted = assertTrusted\<rparr>, acceptedRoles)))))))))))"

section \<open>Envelopes and verification\<close>

definition validateEnvelopeSignature :: "(jstr \<Rightarrow> jstr) \<Rightarrow> jsval \<Rightarrow> contract_error + envelope_signature" where
  "validateEnvelopeSignature nfc entry =
     bindE (requireRecord entry ''Envelope signature'') (\<lambda>signature.
     bindE (requireExactKeys signature [''keyId'', ''algorithm'', ''signature''] ''Envelope signature'') (\<lambda>_.
     bindE (requireLiteral (getProp signature ''algorithm'') (JStr (js SIGNATURE_ALGORITHM))
       ''Envelope signature algorithm'') (\<lambda>_.
     bindE (requireCanonicalBase64Url (getProp signature ''signature'') ''Envelope signature bytes''
       P256_P1363_SIGNATURE_BYTES P256_P1363_SIGNATURE_BYTES) (\<lambda>encoded.
     bindE (requireIdentifier nfc (getProp signature ''keyId'') ''Envelope signature key ID'') (\<lambda>keyId.
     Inr \<lparr>sig_keyId = keyId, sig_signature = encoded\<rparr>)))))"

definition validateSignedEnvelope :: "(jstr \<Rightarrow> jstr) \<Rightarrow> jsval \<Rightarrow> contract_error + signed_envelope" where
  "validateSignedEnvelope nfc value =
     bindE (requireRecord value ''Signed envelope'') (\<lambda>record.
     bindE (requireExactKeys record [''payloadType'', ''payload'', ''signatures''] ''Signed envelope'') (\<lambda>_.
     bindE (requireAsciiToken nfc (getProp record ''payloadType'') ''Envelope payload type'' 256) (\<lambda>payloadType.
     bindE (requireBase64UrlSyntax (getProp record ''payload'') ''Envelope payload'' 1
       (encodedBase64UrlLength MAX_ENVELOPE_PAYLOAD_BYTES)) (\<lambda>payload.
     bindE (requireArray (getProp record ''signatures'') ''Envelope signatures''
       MAX_ENVELOPE_SIGNATURES) (\<lambda>signaturesRaw.
     bindE (guardE (length signaturesRaw \<noteq> 0)
       (icError ''Signed envelope must contain between 1 and 16 signatures'')) (\<lambda>_.
     bindE (mapE (validateEnvelopeSignature nfc) signaturesRaw) (\<lambda>signatures.
     bindE (assertSortedUnique signatures (\<lambda>entry. Inr (sig_keyId entry)) ''Envelope signatures'') (\<lambda>_.
     Inr \<lparr>env_payloadType = payloadType, env_payload = payload, env_signatures = signatures\<rparr>))))))))"

definition validateTrustedSignerSnapshot ::
  "(jstr \<Rightarrow> jstr) \<Rightarrow> jsval \<Rightarrow> jstr \<Rightarrow> contract_error + trusted_signer" where
  "validateTrustedSignerSnapshot nfc value expectedKeyId =
     bindE (requireRecord value ''Trusted signer snapshot'') (\<lambda>record.
     bindE (requireExactKeys record [''keyId'', ''role'', ''trustEpoch'', ''registryDigest'']
       ''Trusted signer snapshot'') (\<lambda>_.
     bindE (requireIdentifier nfc (getProp record ''keyId'') ''Trusted signer key ID'') (\<lambda>keyId.
     bindE (guardE (keyId = expectedKeyId)
       (icError ''Trusted signer snapshot does not bind the requested key ID'')) (\<lambda>_.
     bindE (requireEnum (getProp record ''role'') signerRoles ''Trusted signer role'') (\<lambda>role.
     bindE (requireNonNegativeInteger (getProp record ''trustEpoch'') ''Trusted signer trust epoch'') (\<lambda>trustEpoch.
     bindE (requireDigest (getProp record ''registryDigest'') ''Trusted signer registry digest'') (\<lambda>registryDigest.
     Inr \<lparr>ts_keyId = keyId, ts_role = role, ts_trustEpoch = trustEpoch,
          ts_registryDigest = registryDigest\<rparr>)))))))"

definition isRootAuthorizerRole :: "signer_role \<Rightarrow> bool" where
  "isRootAuthorizerRole role = (role = HumanAuthorizer \<or> role = PolicyAuthorizer)"

definition isRootAuthorizerSnapshot :: "trusted_signer \<Rightarrow> bool" where
  "isRootAuthorizerSnapshot snapshot = isRootAuthorizerRole (ts_role snapshot)"

definition verificationInput :: "byte list \<Rightarrow> envelope_signature \<Rightarrow> trusted_signer \<Rightarrow> verification_input" where
  "verificationInput message signature signer =
     \<lparr>vi_algorithm = SIGNATURE_ALGORITHM, vi_keyId = sig_keyId signature,
      vi_signature = sig_signature signature, vi_message = message, vi_trustedSigner = signer\<rparr>"

text \<open>The body of the loop after a signature verified, and the loop over the signatures; \<open>binding\<close> is
  \<open>registryBinding\<close>.\<close>

definition acceptSignature ::
  "(jstr \<Rightarrow> jstr) \<Rightarrow> verification_ports \<Rightarrow> intent_contract \<Rightarrow> jstr \<Rightarrow> envelope_signature \<Rightarrow> trusted_signer \<Rightarrow>
   contract_error + verified_contract" where
  "acceptSignature nfc ports contract canonicalPayload signature signer =
     bindE (hashDomainSeparatedWith nfc INTENT_CONTRACT_HASH_DOMAIN canonicalPayload (port_sha256 ports)) (\<lambda>contractHash.
     bindE (port_assertTrusted ports signer) (\<lambda>assertionResult.
     bindE (guardE (assertionResult = JUndefined)
       (icError ''Signature assertTrusted must complete synchronously'')) (\<lambda>_.
     Inr \<lparr>vc_contract = contract, vc_canonicalPayload = canonicalPayload, vc_contractHash = contractHash,
          vc_signerKeyId = sig_keyId signature, vc_signerRole = ts_role signer, vc_signer = signer\<rparr>)))"

fun scanSignatures ::
  "(jstr \<Rightarrow> jstr) \<Rightarrow> verification_ports \<Rightarrow> signer_role list \<Rightarrow> intent_contract \<Rightarrow> jstr \<Rightarrow> byte list \<Rightarrow>
   (int \<times> jstr) option \<Rightarrow> envelope_signature list \<Rightarrow> contract_error + verified_contract" where
  "scanSignatures nfc ports acceptedRoles contract canonicalPayload message binding [] =
     Inl (icError ''Intent Contract has no valid trusted root-authorizer signature'')"
| "scanSignatures nfc ports acceptedRoles contract canonicalPayload message binding (signature # rest) =
     bindE (port_resolveTrustedSigner ports (sig_keyId signature)) (\<lambda>resolved.
     if resolved = JNull
     then scanSignatures nfc ports acceptedRoles contract canonicalPayload message binding rest
     else
       bindE (validateTrustedSignerSnapshot nfc resolved (sig_keyId signature)) (\<lambda>signer.
       bindE (guardE (case binding of None \<Rightarrow> True
           | Some (trustEpoch, registryDigest) \<Rightarrow>
               \<not> (trustEpoch \<noteq> ts_trustEpoch signer \<or> registryDigest \<noteq> ts_registryDigest signer))
         (icError ''Trust registry changed while scanning envelope signatures'')) (\<lambda>_.
       let registryBinding = (case binding of None \<Rightarrow> Some (ts_trustEpoch signer, ts_registryDigest signer)
                              | Some b \<Rightarrow> Some b)
       in
       if \<not> isRootAuthorizerSnapshot signer \<or> ts_role signer \<notin> set acceptedRoles
       then scanSignatures nfc ports acceptedRoles contract canonicalPayload message registryBinding rest
       else
         bindE (port_verify ports (verificationInput message signature signer)) (\<lambda>verified.
         if verified \<noteq> JBool True
         then scanSignatures nfc ports acceptedRoles contract canonicalPayload message registryBinding rest
         else acceptSignature nfc ports contract canonicalPayload signature signer))))"

definition verifySignedIntentContract ::
  "(jstr \<Rightarrow> jstr) \<Rightarrow> jsval \<Rightarrow> verification_dependencies option \<Rightarrow> contract_error + verified_contract" where
  "verifySignedIntentContract nfc envelopeValue dependencies =
     bindE (snapshotIntentVerificationDependencies dependencies) (\<lambda>(ports, acceptedRoles).
     bindE (validateSignedEnvelope nfc envelopeValue) (\<lambda>envelope.
     bindE (guardE (env_payloadType envelope = js INTENT_CONTRACT_PAYLOAD_TYPE)
       (icError ''Signed envelope has the wrong Intent Contract payload type'')) (\<lambda>_.
     bindE (decodeBase64Url (env_payload envelope)) (\<lambda>payloadBytes.
     bindE (decodeUtf8 nfc payloadBytes) (\<lambda>canonicalPayload.
     bindE (parseCanonicalSafeCodingIntentContract nfc canonicalPayload) (\<lambda>contract.
     bindE (createEnvelopePreAuthenticationEncoding nfc (env_payloadType envelope) canonicalPayload) (\<lambda>message.
     scanSignatures nfc ports acceptedRoles contract canonicalPayload message None (env_signatures envelope))))))))"

section \<open>Hash inputs and signed messages determine what they stand for\<close>

lemma split_at_separator:
  "x \<notin> set a \<Longrightarrow> x \<notin> set a' \<Longrightarrow> a @ x # b = a' @ x # b' \<longleftrightarrow> a = a' \<and> b = b'"
proof (induction a arbitrary: a')
  case Nil
  then show ?case by (cases a') auto
next
  case (Cons y a)
  then show ?case by (cases a') auto
qed

lemma utf8Bytes_ascii: "list_all (\<lambda>u. u < 0x80) s \<Longrightarrow> utf8Bytes (s @ t) = map toByte s @ utf8Bytes t"
  by (induction s) (auto simp: surrogate_defs codePointBytes_def utf8Bytes.simps)

lemma decDigits_ascii: "list_all (\<lambda>u. u < 0x80 \<and> u \<noteq> 32) (decDigits n)"
  using decDigits_digits [of n] by (auto simp: list_all_iff)

lemma token_ascii: "ASCII_TOKEN_PATTERN s \<Longrightarrow> list_all (\<lambda>u. u < 0x80 \<and> u \<noteq> 32) s"
  by (auto simp: ASCII_TOKEN_PATTERN_def list_all_iff)

lemma toByte_inj_ascii:
  "list_all (\<lambda>u. u < 0x80) s \<Longrightarrow> list_all (\<lambda>u. u < 0x80) t \<Longrightarrow> map toByte s = map toByte t \<Longrightarrow> s = t"
proof (induction s arbitrary: t)
  case (Cons u s)
  then obtain w t' where t: "t = w # t'" "toByte u = toByte w" "u < 0x80" "w < 0x80"
    by (cases t) auto
  have "u = unat (toByte u)"
    using t(3) by simp
  also have "\<dots> = w"
    unfolding t(2) using t(4) by simp
  finally have "u = w" .
  then show ?case
    using Cons t by simp
qed simp

text \<open>The bytes that are signed, written out.\<close>

definition pae_bytes :: "jstr \<Rightarrow> jstr \<Rightarrow> byte list" where
  "pae_bytes type payload =
     map toByte (js ''DSSEv1'') @ toByte 32 # map toByte (decDigits (length type)) @ toByte 32 # map toByte type @
     toByte 32 # map toByte (decDigits (length (utf8Bytes payload))) @ toByte 32 # utf8Bytes payload"

lemma createEnvelope_Inr:
  assumes "createEnvelopePreAuthenticationEncoding nfc type payload = Inr m"
  shows "m = pae_bytes type payload" "ASCII_TOKEN_PATTERN type" "canonical_string nfc payload"
proof -
  from assms have pat: "ASCII_TOKEN_PATTERN type" and canon: "canonical_string nfc payload"
    and m: "m = utf8Bytes (js ''DSSEv1 '' @ decDigits (length (utf8Bytes type)) @ js '' '' @ type @ js '' '' @
      decDigits (length (utf8Bytes payload)) @ js '' '') @ utf8Bytes payload"
    unfolding createEnvelopePreAuthenticationEncoding_def
    by (auto simp: result_simps require_simps concatenateBytes_def)
  have ascii: "list_all (\<lambda>u. u < 0x80) type" "list_all (\<lambda>u. u < 0x80) (decDigits n)" for n
    using token_ascii [OF pat] decDigits_ascii [of n] by (auto simp: list_all_iff)
  have flat: "utf8Bytes s = map toByte s" if "list_all (\<lambda>u. u < 0x80) s" for s
    using utf8Bytes_ascii [OF that, of "[]"] by simp
  have len: "length (utf8Bytes type) = length type"
    by (simp add: flat ascii)
  have "utf8Bytes (js ''DSSEv1 '' @ decDigits (length type) @ js '' '' @ type @ js '' '' @
      decDigits (length (utf8Bytes payload)) @ js '' '') =
      map toByte (js ''DSSEv1 '' @ decDigits (length type) @ js '' '' @ type @ js '' '' @
      decDigits (length (utf8Bytes payload)) @ js '' '')"
    by (rule flat) (simp add: ascii js_def)
  then show "m = pae_bytes type payload"
    unfolding m len pae_bytes_def by (simp add: js_def)
  show "ASCII_TOKEN_PATTERN type" "canonical_string nfc payload"
    by (fact pat, fact canon)
qed

lemma space_free:
  assumes "list_all (\<lambda>u. u < 0x80 \<and> u \<noteq> 32) s"
  shows "toByte 32 \<notin> set (map toByte s)"
proof
  assume "toByte 32 \<in> set (map toByte s)"
  then obtain u where "u \<in> set s" "toByte u = toByte 32"
    by auto
  moreover from this have "u < 256" "u \<noteq> 32"
    using assms by (auto simp: list_all_iff)
  ultimately show False
    using unat_toByte [of u] unat_toByte [of 32] by simp
qed

lemma pae_bytes_inj:
  assumes "ASCII_TOKEN_PATTERN t1" "ASCII_TOKEN_PATTERN t2" "pae_bytes t1 p1 = pae_bytes t2 p2"
  shows "t1 = t2 \<and> utf8Bytes p1 = utf8Bytes p2"
proof -
  note free = space_free [OF decDigits_ascii] space_free [OF token_ascii [OF assms(1)]]
    space_free [OF token_ascii [OF assms(2)]]
  have "map toByte t1 = map toByte t2 \<and> utf8Bytes p1 = utf8Bytes p2"
    using assms(3) unfolding pae_bytes_def by (simp add: split_at_separator free del: set_map)
  then show ?thesis
    using toByte_inj_ascii [of t1 t2] token_ascii [OF assms(1)] token_ascii [OF assms(2)]
    by (auto simp: list_all_iff)
qed

section \<open>Exact outcome of the scan\<close>

definition registry_of :: "trusted_signer \<Rightarrow> int \<times> jstr" where
  "registry_of s = (ts_trustEpoch s, ts_registryDigest s)"

text \<open>The registry seen so far, if any, is the one this snapshot was read from.\<close>

definition same_registry :: "(int \<times> jstr) option \<Rightarrow> trusted_signer \<Rightarrow> bool" where
  "same_registry binding s \<longleftrightarrow> binding = None \<or> binding = Some (registry_of s)"

lemma same_registry_simps [simp]:
  "same_registry None s" "same_registry (Some x) s \<longleftrightarrow> x = registry_of s"
  by (simp_all add: same_registry_def)

text \<open>The snapshot a signature resolves to, if its key is known.\<close>

definition signer_of ::
  "(jstr \<Rightarrow> jstr) \<Rightarrow> verification_ports \<Rightarrow> envelope_signature \<Rightarrow> contract_error + trusted_signer option" where
  "signer_of nfc ports signature =
     bindE (port_resolveTrustedSigner ports (sig_keyId signature)) (\<lambda>resolved.
       if resolved = JNull then Inr None
       else bindE (validateTrustedSignerSnapshot nfc resolved (sig_keyId signature)) (\<lambda>s. Inr (Some s)))"

definition may_authorize :: "signer_role list \<Rightarrow> trusted_signer \<Rightarrow> bool" where
  "may_authorize roles s \<longleftrightarrow> isRootAuthorizerSnapshot s \<and> ts_role s \<in> set roles"

definition passed_over ::
  "verification_ports \<Rightarrow> signer_role list \<Rightarrow> byte list \<Rightarrow> envelope_signature \<Rightarrow> trusted_signer \<Rightarrow> bool" where
  "passed_over ports roles message signature s \<longleftrightarrow>
     \<not> may_authorize roles s \<or>
     (\<exists>v. port_verify ports (verificationInput message signature s) = Inr v \<and> v \<noteq> JBool True)"

definition skipped ::
  "(jstr \<Rightarrow> jstr) \<Rightarrow> verification_ports \<Rightarrow> signer_role list \<Rightarrow> byte list \<Rightarrow> int \<times> jstr \<Rightarrow> envelope_signature \<Rightarrow> bool" where
  "skipped nfc ports roles message registry signature \<longleftrightarrow>
     signer_of nfc ports signature = Inr None \<or>
     (\<exists>q. signer_of nfc ports signature = Inr (Some q) \<and> registry_of q = registry \<and>
       passed_over ports roles message signature q)"

definition first_authorizer ::
  "(jstr \<Rightarrow> jstr) \<Rightarrow> verification_ports \<Rightarrow> signer_role list \<Rightarrow> byte list \<Rightarrow> (int \<times> jstr) option \<Rightarrow>
   envelope_signature list \<Rightarrow> envelope_signature \<Rightarrow> trusted_signer \<Rightarrow> bool" where
  "first_authorizer nfc ports roles message binding signatures signature s \<longleftrightarrow>
     (\<exists>before after. signatures = before @ signature # after \<and>
       list_all (skipped nfc ports roles message (registry_of s)) before \<and>
       signer_of nfc ports signature = Inr (Some s) \<and> same_registry binding s \<and>
       may_authorize roles s \<and>
       port_verify ports (verificationInput message signature s) = Inr (JBool True))"

lemma first_authorizer_Nil [simp]: "\<not> first_authorizer nfc ports roles m b [] g s"
  by (simp add: first_authorizer_def)

lemma first_authorizer_Cons:
  "first_authorizer nfc ports roles m b (x # xs) g s \<longleftrightarrow>
     (g = x \<and> signer_of nfc ports x = Inr (Some s) \<and> same_registry b s \<and>
        may_authorize roles s \<and> port_verify ports (verificationInput m x s) = Inr (JBool True)) \<or>
     (signer_of nfc ports x = Inr None \<and> first_authorizer nfc ports roles m b xs g s) \<or>
     (\<exists>q. signer_of nfc ports x = Inr (Some q) \<and> same_registry b q \<and>
        passed_over ports roles m x q \<and> first_authorizer nfc ports roles m (Some (registry_of q)) xs g s)"
  (is "?L \<longleftrightarrow> ?here \<or> ?unknown \<or> ?passed")
proof
  assume ?L
  then obtain before after where split: "x # xs = before @ g # after"
    and rest: "list_all (skipped nfc ports roles m (registry_of s)) before"
      "signer_of nfc ports g = Inr (Some s)" "same_registry b s" "may_authorize roles s"
      "port_verify ports (verificationInput m g s) = Inr (JBool True)"
    unfolding first_authorizer_def by blast
  show "?here \<or> ?unknown \<or> ?passed"
  proof (cases before)
    case Nil
    then show ?thesis using split rest by auto
  next
    case (Cons y before')
    then have xs: "y = x" "xs = before' @ g # after" and y: "skipped nfc ports roles m (registry_of s) x"
      and tail: "list_all (skipped nfc ports roles m (registry_of s)) before'"
      using split rest by auto
    have "first_authorizer nfc ports roles m b' xs g s" if "same_registry b' s" for b'
      unfolding first_authorizer_def using xs(2) tail rest that by blast
    then show ?thesis
      using y rest(3) unfolding skipped_def same_registry_def by auto
  qed
next
  assume "?here \<or> ?unknown \<or> ?passed"
  then consider ?here | ?unknown | ?passed by blast
  then show ?L
  proof cases
    case 1
    then have "x # xs = [] @ g # xs" by simp
    with 1 show ?thesis unfolding first_authorizer_def by (intro exI [of _ "[]"] exI [of _ xs]) simp
  next
    case 2
    then obtain before after where "xs = before @ g # after"
        "list_all (skipped nfc ports roles m (registry_of s)) before" "skipped nfc ports roles m (registry_of s) x"
        "signer_of nfc ports g = Inr (Some s)" "same_registry b s" "may_authorize roles s"
        "port_verify ports (verificationInput m g s) = Inr (JBool True)"
      unfolding first_authorizer_def skipped_def by blast
    then show ?thesis unfolding first_authorizer_def by (intro exI [of _ "x # before"] exI [of _ after]) (auto simp: same_registry_def)
  next
    case 3
    then obtain q before after where "xs = before @ g # after" "same_registry b q"
        "list_all (skipped nfc ports roles m (registry_of s)) before" "skipped nfc ports roles m (registry_of q) x"
        "signer_of nfc ports g = Inr (Some s)" "registry_of q = registry_of s" "may_authorize roles s"
        "port_verify ports (verificationInput m g s) = Inr (JBool True)"
      unfolding first_authorizer_def skipped_def by auto
    then show ?thesis unfolding first_authorizer_def by (intro exI [of _ "x # before"] exI [of _ after]) (auto simp: same_registry_def)
  qed
qed

lemma scanSignatures_Cons:
  "scanSignatures nfc ports roles c p m b (x # xs) =
     bindE (signer_of nfc ports x) (\<lambda>known. case known of
         None \<Rightarrow> scanSignatures nfc ports roles c p m b xs
       | Some q \<Rightarrow>
           if same_registry b q
           then if \<not> may_authorize roles q
             then scanSignatures nfc ports roles c p m (Some (registry_of q)) xs
             else bindE (port_verify ports (verificationInput m x q)) (\<lambda>v.
               if v \<noteq> JBool True then scanSignatures nfc ports roles c p m (Some (registry_of q)) xs
               else acceptSignature nfc ports c p x q)
           else Inl (icError ''Trust registry changed while scanning envelope signatures''))"
proof -
  have reg: "(case b of None \<Rightarrow> True | Some (e, d) \<Rightarrow> \<not> (e \<noteq> ts_trustEpoch q \<or> d \<noteq> ts_registryDigest q)) \<longleftrightarrow>
      same_registry b q"
    "same_registry b q \<Longrightarrow>
      (case b of None \<Rightarrow> Some (ts_trustEpoch q, ts_registryDigest q) | Some b \<Rightarrow> Some b) = Some (registry_of q)" for q
    by (auto simp: registry_of_def same_registry_def split: option.splits)
  show ?thesis
    unfolding scanSignatures.simps signer_of_def reg(1) bindE_assoc bindE_guardE Let_def may_authorize_def
    by (intro arg_cong2 [where f = bindE] refl ext) (simp add: bindE_assoc reg(2) cong: if_cong)
qed

lemma scanSignatures_Inr:
  "scanSignatures nfc ports roles c p m b xs = Inr r \<longleftrightarrow>
     (\<exists>g s. first_authorizer nfc ports roles m b xs g s \<and> acceptSignature nfc ports c p g s = Inr r)"
proof (induction xs arbitrary: b)
  case (Cons x xs)
  consider (fail) e where "signer_of nfc ports x = Inl e" | (unknown) "signer_of nfc ports x = Inr None"
    | (known) q where "signer_of nfc ports x = Inr (Some q)"
    by (metis option.exhaust sum.exhaust)
  then show ?case
  proof cases
    case known
    show ?thesis
      unfolding scanSignatures_Cons first_authorizer_Cons known
      by (cases "port_verify ports (verificationInput m x q)")
        (auto simp: Cons.IH passed_over_def known)
  qed (simp_all add: scanSignatures_Cons first_authorizer_Cons Cons.IH del: scanSignatures.simps(2))
qed simp

section \<open>Properties\<close>

text \<open>What is signed determines what it stands for: two pairs of payload type and canonical payload
  with the same pre-authentication encoding are the same pair.\<close>

theorem preAuthenticationEncoding_injective:
  assumes "createEnvelopePreAuthenticationEncoding nfc t1 p1 = Inr m"
    "createEnvelopePreAuthenticationEncoding nfc t2 p2 = Inr m" "wf_jstr p1" "wf_jstr p2"
  shows "t1 = t2 \<and> p1 = p2"
proof -
  note one = createEnvelope_Inr [OF assms(1)] and two = createEnvelope_Inr [OF assms(2)]
  have "t1 = t2 \<and> utf8Bytes p1 = utf8Bytes p2"
    using pae_bytes_inj [of t1 t2 p1 p2] one two by metis
  then show ?thesis
    using utf8.enc_inj [of p1 nfc p2] one(3) two(3) assms(3,4) by simp
qed

lemma sample_payload: "parseCanonicalJson (\<lambda>s. s) (js ''[]'') = Inr (jarr [])"
proof -
  have "canonicalizable (\<lambda>s. s) (jarr [])" "render (jarr []) = js ''[]''"
    by (simp_all add: canonicalizable_def js_def MAX_CANONICAL_JSON_DEPTH_def MAX_CANONICAL_JSON_NODES_def
        MAX_CANONICAL_JSON_OUTPUT_CODE_UNITS_def)
  then show ?thesis
    using parseCanonicalJson_render [of "\<lambda>s. s" "jarr []"] by (simp add: MAX_CANONICAL_JSON_DEPTH_def)
qed

lemma sample_encoding:
  "createEnvelopePreAuthenticationEncoding (\<lambda>s. s) (js ''t'') (js ''[]'') =
     Inr (map toByte (js ''DSSEv1 1 t 2 []''))"
  by (simp add: createEnvelopePreAuthenticationEncoding_def sample_payload [unfolded js_def, simplified]
      requireAsciiToken_def requireString_def encodeUtf8_def assertCanonicalString_def ASCII_TOKEN_PATTERN_def
      concatenateBytes_def codePointBytes_def decDigits.simps surrogate_defs js_def)

theorem preAuthenticationEncoding_injective_witness:
  "createEnvelopePreAuthenticationEncoding (\<lambda>s. s) (js ''t'') (js ''[]'') =
     Inr (map toByte (js ''DSSEv1 1 t 2 []'')) \<and> js ''t'' = js ''t'' \<and> js ''[]'' = js ''[]''"
  using preAuthenticationEncoding_injective [OF sample_encoding sample_encoding] sample_encoding
  by (simp add: js_def)


text \<open>The bytes hashed for a payload in a domain. The domain names hold no zero byte, so the separator
  delimits them.\<close>

definition hash_input :: "string \<Rightarrow> jstr \<Rightarrow> byte list" where
  "hash_input domain payload = utf8Bytes (js domain) @ 0 # utf8Bytes payload"

lemma hashDomain_Inr:
  "hashDomainSeparatedWith nfc domain payload sha256 = Inr d \<longleftrightarrow>
     canonical_string nfc (js domain) \<and> canonical_string nfc payload \<and>
     sha256 (hash_input domain payload) = Inr (JStr d) \<and> SHA256_PATTERN d"
  by (auto simp: hashDomainSeparatedWith_def hash_input_def concatenateBytes_def result_simps require_simps)

lemma hash_input_inj:
  assumes "domain \<in> {INTENT_CONTRACT_HASH_DOMAIN, SAFE_CODING_ACTION_HASH_DOMAIN}"
    "domain' \<in> {INTENT_CONTRACT_HASH_DOMAIN, SAFE_CODING_ACTION_HASH_DOMAIN}"
    "hash_input domain p = hash_input domain' p'"
  shows "domain = domain' \<and> utf8Bytes p = utf8Bytes p'"
proof -
  have free: "0 \<notin> set (utf8Bytes (js INTENT_CONTRACT_HASH_DOMAIN))" "0 \<notin> set (utf8Bytes (js SAFE_CODING_ACTION_HASH_DOMAIN))"
    and differ: "utf8Bytes (js INTENT_CONTRACT_HASH_DOMAIN) \<noteq> utf8Bytes (js SAFE_CODING_ACTION_HASH_DOMAIN)"
    by (simp_all add: INTENT_CONTRACT_HASH_DOMAIN_def SAFE_CODING_ACTION_HASH_DOMAIN_def js_def
        codePointBytes_def surrogate_defs toByte_def)
  then show ?thesis
    using assms unfolding hash_input_def by (auto simp: split_at_separator)
qed

lemma hashIntentContract_Inr:
  assumes "hashIntentContract nfc v (hashObject sha256) = Inr d"
  shows "\<exists>c. validateSafeCodingIntentContract nfc v = Inr c \<and> contract_valid nfc c \<and>
    canonical_string nfc (contract_text c) \<and>
    sha256 (hash_input INTENT_CONTRACT_HASH_DOMAIN (contract_text c)) = Inr (JStr d)"
  using assms contract_shape [of nfc v]
  by (auto simp: hashIntentContract_def result_simps hashDomain_Inr canonicalizeJson_Inr contract_text_def
      contract_valid_def)

lemma hashSafeCodingAction_Inr:
  assumes "hashSafeCodingAction nfc v (hashObject sha256) = Inr d"
  shows "\<exists>a. validateSafeCodingAction nfc v = Inr a \<and>
    sha256 (hash_input SAFE_CODING_ACTION_HASH_DOMAIN (render v)) = Inr (JStr d)"
  using assms by (auto simp: hashSafeCodingAction_def result_simps hashDomain_Inr canonicalizeJson_Inr)


text \<open>Hashes bind their object and its type. As long as the hash port does not collide on the inputs
  at hand, two contracts have the same hash exactly when they are the same contract, and the hash
  of an action is never the hash of a contract, whatever the payloads are.\<close>

theorem hashes_bind_and_separate:
  assumes "hashIntentContract nfc v1 (hashObject sha256) = Inr d1" "hashIntentContract nfc v2 (hashObject sha256) = Inr d2"
    and "hashSafeCodingAction nfc w (hashObject sha256) = Inr d3"
    and "validateSafeCodingIntentContract nfc v1 = Inr c1" "validateSafeCodingIntentContract nfc v2 = Inr c2"
    and "wf_jstr (contract_text c1)" "wf_jstr (contract_text c2)"
    and "inj_on sha256 {hash_input INTENT_CONTRACT_HASH_DOMAIN (contract_text c1),
      hash_input INTENT_CONTRACT_HASH_DOMAIN (contract_text c2),
      hash_input SAFE_CODING_ACTION_HASH_DOMAIN (render w)}"
  shows "(d1 = d2 \<longleftrightarrow> c1 = c2) \<and> d1 \<noteq> d3"
proof -
  have c1: "contract_valid nfc c1" "canonical_string nfc (contract_text c1)"
      "sha256 (hash_input INTENT_CONTRACT_HASH_DOMAIN (contract_text c1)) = Inr (JStr d1)"
    using hashIntentContract_Inr [OF assms(1)] assms(4) by auto
  have c2: "contract_valid nfc c2" "canonical_string nfc (contract_text c2)"
      "sha256 (hash_input INTENT_CONTRACT_HASH_DOMAIN (contract_text c2)) = Inr (JStr d2)"
    using hashIntentContract_Inr [OF assms(2)] assms(5) by auto
  have w: "sha256 (hash_input SAFE_CODING_ACTION_HASH_DOMAIN (render w)) = Inr (JStr d3)"
    using hashSafeCodingAction_Inr [OF assms(3)] by auto
  have "c1 = c2" if "d1 = d2"
  proof -
    have "utf8Bytes (contract_text c1) = utf8Bytes (contract_text c2)"
      using inj_onD [OF assms(8)] c1(3) c2(3) that hash_input_inj by (metis insertI1 insertI2)
    then show ?thesis
      using utf8.enc_inj contract_codec.enc_inj [OF c1(1) c2(1)] assms(6,7) c1(2) c2(2) by blast
  qed
  moreover have "d1 \<noteq> d3"
  proof
    assume "d1 = d3"
    then have "INTENT_CONTRACT_HASH_DOMAIN = SAFE_CODING_ACTION_HASH_DOMAIN"
      using inj_onD [OF assms(8)] c1(3) w hash_input_inj by (metis insertI1 insertI2)
    then show False
      by (simp add: INTENT_CONTRACT_HASH_DOMAIN_def SAFE_CODING_ACTION_HASH_DOMAIN_def)
  qed
  ultimately show ?thesis
    using c1(3) c2(3) by auto
qed

fun ascii_json :: "jsval \<Rightarrow> bool" where
  "ascii_json (JStr s) = list_all (\<lambda>u. u < 0x80) s"
| "ascii_json (JArr _ xs) = (\<forall>x \<in> set xs. ascii_json x)"
| "ascii_json (JObj _ fs) = (\<forall>f \<in> set fs. list_all (\<lambda>u. u < 0x80) (fst f) \<and> ascii_json (snd f))"
| "ascii_json _ = True"

lemma joinComma_set: "set (joinComma xs) \<subseteq> insert 0x2c (\<Union> (set ` set xs))"
  by (induction xs rule: joinComma.induct) auto

lemma quoteUnit_ascii:
  assumes "w < 0x80"
  shows "list_all (\<lambda>u. u < 0x80) (quoteUnit w)"
proof -
  have "hexDigit (w mod 16) < 0x80" "hexDigit (w div 16) < 0x80" if "w < 32"
    using that mod_less_divisor [of 16 w] by (auto simp: hexDigit_def)
  with assms show ?thesis
    by (simp add: quoteUnit_def js_def)
qed

lemma jsonQuote_ascii: "list_all (\<lambda>u. u < 0x80) s \<Longrightarrow> u \<in> set (jsonQuote s) \<Longrightarrow> u < 0x80"
  using quoteUnit_ascii by (fastforce simp: jsonQuote_def list_all_iff)

lemma render_ascii: "ascii_json v \<Longrightarrow> u \<in> set (render v) \<Longrightarrow> u < 0x80"
proof (induction v rule: render.induct)
  case (4 i)
  then show ?case
    using decDigits_digits [of "nat i"] decDigits_digits [of "nat (- i)"]
    by (auto simp: decInt_def list_all_iff split: if_splits)
next
  case (5 sh xs)
  then show ?case
    using joinComma_set [of "map render xs"] by auto
next
  case (6 sh fs)
  have "u \<in> {0x7b, 0x7d, 0x2c} \<or> (\<exists>f \<in> set fs. u \<in> set (field_text f))"
    using 6(3) joinComma_set [of "map field_text (sort_key fst fs)"] unfolding render_JObj by auto
  then consider "u \<in> {0x7b, 0x7d, 0x2c}" | f where "f \<in> set fs" "u \<in> set (field_text f)"
    by blast
  then show ?case
  proof cases
    case (2 f)
    with 6(2) have "list_all (\<lambda>u. u < 0x80) (fst f)" "ascii_json (snd f)"
      by auto
    with 2 show ?thesis
      using jsonQuote_ascii [of "fst f" u] 6(1) [OF 2(1)] by (auto simp: field_text_def)
  qed auto
qed (auto simp: js_def jsonQuote_ascii split: if_splits)


lemma canonical_string_ascii: "list_all (\<lambda>u. u < 0x80) s \<Longrightarrow> canonical_string (\<lambda>s. s) s \<and> wf_jstr s"
  by (auto simp: canonical_string_def ascii_paired wf_jstr_def list_all_iff)

lemma ascii_jrec:
  "ascii_json (jrec kvs) \<longleftrightarrow> list_all (\<lambda>(k, v). list_all (\<lambda>u. u < 0x80) (js k) \<and> ascii_json v) kvs"
  by (induction kvs) (auto simp: jrec_def jfields_def)

lemma sample_contract_ascii: "list_all (\<lambda>u. u < 0x80) (contract_text sample_contract)"
proof -
  have "ascii_json (contract_json sample_contract)"
    by (simp add: contract_json_def sample_contract_def authority_json_def validity_json_def subject_json_def
        audience_json_def bindings_json_def non_authoritative_json_def limits_json_def ambient_json_def
        delegation_json_def fs_permission_json_def git_permission_json_def selector_json_def ascii_jrec
        nullable_def sample_digest_def list_all_iff spelling_def fsActions_def gitActions_def
        effectClasses_def selectorKindName_def INTENT_CONTRACT_KIND_def INTENT_CONTRACT_SPEC_VERSION_def js_def)
  then show ?thesis
    using render_ascii by (auto simp: contract_text_def list_all_iff)
qed

definition sample_action :: jsval where
  "sample_action = action_json (GitStatusAction (js ''r1''))"

definition sample_sha256 :: hash_port where
  "sample_sha256 bs =
     Inr (JStr (replicate 64 (if bs = hash_input INTENT_CONTRACT_HASH_DOMAIN (contract_text sample_contract)
       then 97 else 98)))"

lemma sample_action_ok:
  "validateSafeCodingAction (\<lambda>s. s) sample_action = Inr (GitStatusAction (js ''r1''))"
  "canonicalizable (\<lambda>s. s) sample_action" "list_all (\<lambda>u. u < 0x80) (render sample_action)"
proof -
  show "validateSafeCodingAction (\<lambda>s. s) sample_action = Inr (GitStatusAction (js ''r1''))"
    unfolding sample_action_def
    by (rule action_complete)
      (simp_all add: ident_id surrogate_defs js_def IDENTIFIER_PATTERN_def char_class_defs)
  show "canonicalizable (\<lambda>s. s) sample_action"
    by (simp add: sample_action_def json_eval)
  have "ascii_json sample_action"
    by (simp add: sample_action_def ascii_jrec js_def)
  then show "list_all (\<lambda>u. u < 0x80) (render sample_action)"
    using render_ascii by (auto simp: list_all_iff)
qed

lemma sample_domains:
  "canonical_string (\<lambda>s. s) (js INTENT_CONTRACT_HASH_DOMAIN)" "canonical_string (\<lambda>s. s) (js SAFE_CODING_ACTION_HASH_DOMAIN)"
  using canonical_string_ascii [of "js INTENT_CONTRACT_HASH_DOMAIN"] canonical_string_ascii [of "js SAFE_CODING_ACTION_HASH_DOMAIN"]
  by (simp_all add: INTENT_CONTRACT_HASH_DOMAIN_def SAFE_CODING_ACTION_HASH_DOMAIN_def js_def)

lemma sample_hash_input:
  "hash_input SAFE_CODING_ACTION_HASH_DOMAIN (render sample_action) \<noteq>
     hash_input INTENT_CONTRACT_HASH_DOMAIN (contract_text sample_contract)"
  using hash_input_inj [of SAFE_CODING_ACTION_HASH_DOMAIN INTENT_CONTRACT_HASH_DOMAIN]
  by (auto simp: INTENT_CONTRACT_HASH_DOMAIN_def SAFE_CODING_ACTION_HASH_DOMAIN_def)

lemma sample_hashes:
  "hashIntentContract (\<lambda>s. s) (contract_json sample_contract) (hashObject sample_sha256) = Inr (replicate 64 97)"
  "hashSafeCodingAction (\<lambda>s. s) sample_action (hashObject sample_sha256) = Inr (replicate 64 98)"
proof -
  have pat: "SHA256_PATTERN (replicate 64 97)" "SHA256_PATTERN (replicate 64 98)"
    by (simp_all add: SHA256_PATTERN_def char_class_defs list_all_iff)
  show "hashIntentContract (\<lambda>s. s) (contract_json sample_contract) (hashObject sample_sha256) = Inr (replicate 64 97)"
    using sample_contract_json canonical_string_ascii [OF sample_contract_ascii] pat(1)
    by (simp add: hashIntentContract_def sample_contract_accepted result_simps hashDomain_Inr sample_domains
        sample_sha256_def contract_text_def)
  show "hashSafeCodingAction (\<lambda>s. s) sample_action (hashObject sample_sha256) = Inr (replicate 64 98)"
    using sample_action_ok canonical_string_ascii [OF sample_action_ok(3)] pat(2) sample_hash_input
    by (simp add: hashSafeCodingAction_def result_simps hashDomain_Inr sample_domains sample_sha256_def)
qed

theorem hashes_bind_and_separate_witness:
  "hashIntentContract (\<lambda>s. s) (contract_json sample_contract) (hashObject sample_sha256) = Inr (replicate 64 97) \<and>
   hashSafeCodingAction (\<lambda>s. s) sample_action (hashObject sample_sha256) = Inr (replicate 64 98) \<and>
   replicate 64 (97::nat) \<noteq> replicate 64 98"
proof -
  have "inj_on sample_sha256 {hash_input INTENT_CONTRACT_HASH_DOMAIN (contract_text sample_contract),
      hash_input INTENT_CONTRACT_HASH_DOMAIN (contract_text sample_contract),
      hash_input SAFE_CODING_ACTION_HASH_DOMAIN (render sample_action)}"
    using sample_hash_input by (auto simp: inj_on_def sample_sha256_def replicate_eq_replicate)
  then show ?thesis
    using hashes_bind_and_separate [OF sample_hashes(1) sample_hashes(1) sample_hashes(2)
        sample_contract_accepted sample_contract_accepted] sample_hashes
      canonical_string_ascii [OF sample_contract_ascii]
    by blast
qed


lemma acceptSignature_Inr:
  "acceptSignature nfc ports c p g s = Inr r \<longleftrightarrow>
     hashDomainSeparatedWith nfc INTENT_CONTRACT_HASH_DOMAIN p (port_sha256 ports) = Inr (vc_contractHash r) \<and>
     port_assertTrusted ports s = Inr JUndefined \<and> vc_contract r = c \<and> vc_canonicalPayload r = p \<and>
     vc_signerKeyId r = sig_keyId g \<and> vc_signerRole r = ts_role s \<and> vc_signer r = s"
  by (cases r) (auto simp: acceptSignature_def result_simps)

lemma envelope_payload:
  "(\<exists>bs. decodeBase64Url e = Inr bs \<and> decodeUtf8 nfc bs = Inr p) \<longleftrightarrow>
     wf_jstr p \<and> canonical_string nfc p \<and> base64url_sized (utf8Bytes p) \<and> e = encodeBase64Url (utf8Bytes p)"
  by (auto simp: base64url.dec_iff decodeUtf8_Inr)

text \<open>C40. \<open>verifySignedIntentContract\<close> succeeds exactly when the payload of the envelope is the canonical text
  of a valid contract in base64url, and some signature of it resolves to a human or policy
  authorizer with an accepted role, verifies over the pre-authentication encoding of exactly that
  text under that signer's snapshot, and is the first such; every earlier signature was resolved
  against the same trust registry and was unknown, of another role, or refuted. The result then
  holds that contract, that text, its domain-separated hash and that signer, and the final
  synchronous trust check has passed. No other role, no signature over other bytes and no changed
  registry leads to a verified contract.\<close>

theorem verifySignedIntentContract_exact:
  "verifySignedIntentContract nfc value dependencies = Inr r \<longleftrightarrow>
     (\<exists>ports roles envelope message g.
        snapshotIntentVerificationDependencies dependencies = Inr (ports, roles) \<and>
        validateSignedEnvelope nfc value = Inr envelope \<and>
        env_payloadType envelope = js INTENT_CONTRACT_PAYLOAD_TYPE \<and>
        contract_valid nfc (vc_contract r) \<and> vc_canonicalPayload r = contract_text (vc_contract r) \<and>
        wf_jstr (vc_canonicalPayload r) \<and> canonical_string nfc (vc_canonicalPayload r) \<and>
        base64url_sized (utf8Bytes (vc_canonicalPayload r)) \<and>
        env_payload envelope = encodeBase64Url (utf8Bytes (vc_canonicalPayload r)) \<and>
        createEnvelopePreAuthenticationEncoding nfc (js INTENT_CONTRACT_PAYLOAD_TYPE) (vc_canonicalPayload r) =
          Inr message \<and>
        first_authorizer nfc ports roles message None (env_signatures envelope) g (vc_signer r) \<and>
        hashDomainSeparatedWith nfc INTENT_CONTRACT_HASH_DOMAIN (vc_canonicalPayload r) (port_sha256 ports) =
          Inr (vc_contractHash r) \<and>
        port_assertTrusted ports (vc_signer r) = Inr JUndefined \<and>
        vc_signerKeyId r = sig_keyId g \<and> vc_signerRole r = ts_role (vc_signer r))"
  (is "_ \<longleftrightarrow> ?rhs")
proof -
  have "verifySignedIntentContract nfc value dependencies = Inr r \<longleftrightarrow>
     (\<exists>ports roles envelope message p c.
        snapshotIntentVerificationDependencies dependencies = Inr (ports, roles) \<and>
        validateSignedEnvelope nfc value = Inr envelope \<and>
        env_payloadType envelope = js INTENT_CONTRACT_PAYLOAD_TYPE \<and>
        (\<exists>bs. decodeBase64Url (env_payload envelope) = Inr bs \<and> decodeUtf8 nfc bs = Inr p) \<and>
        parseCanonicalSafeCodingIntentContract nfc p = Inr c \<and>
        createEnvelopePreAuthenticationEncoding nfc (js INTENT_CONTRACT_PAYLOAD_TYPE) p = Inr message \<and>
        scanSignatures nfc ports roles c p message None (env_signatures envelope) = Inr r)"
    unfolding verifySignedIntentContract_def
    by (auto simp: bindE_eq_Inr guardE_eq_Inr case_prod_unfold)
  also have "\<dots> \<longleftrightarrow> ?rhs"
    unfolding envelope_payload scanSignatures_Inr acceptSignature_Inr contract_codec.dec_iff
    by auto blast
  finally show ?thesis .
qed

end
