(* ===== verification/Kernel_Properties.thy ===== *)
theory Kernel_Properties
  imports Kernel_Invariants
begin

text \<open>
  What the invariant gives over whole runs of the kernel: every run moves forward, a permit is issued
  once, a revocation is final, identifiers are not replayed, the budget is never refunded or
  exceeded, and the kernel refines a small authority machine.
\<close>

section \<open>Runs move forward\<close>

definition ticket_advances :: "ticket_record \<Rightarrow> ticket_record \<Rightarrow> bool" where
  "ticket_advances r r' \<longleftrightarrow>
     tr_ticket r' = tr_ticket r \<and> tr_contractId r' = tr_contractId r \<and>
     tr_reservedCharge r' = tr_reservedCharge r \<and> tr_registeredAt r' = tr_registeredAt r \<and>
     tr_status r \<le> tr_status r' \<and> (isKernelTerminalTicketStatus (tr_status r) \<longrightarrow> r' = r)"

definition lineage_advances :: "contract_lineage \<Rightarrow> contract_lineage \<Rightarrow> bool" where
  "lineage_advances l l' \<longleftrightarrow>
     prefix (map rr_contract (cl_revisions l)) (map rr_contract (cl_revisions l')) \<and>
     cl_revocationEpoch l \<le> cl_revocationEpoch l' \<and>
     prefix (bu_modifiedObjectIds (cl_budget l)) (bu_modifiedObjectIds (cl_budget l')) \<and>
     bu_mutationBytes (cl_budget l) \<le> bu_mutationBytes (cl_budget l') \<and>
     bu_testRuns (cl_budget l) \<le> bu_testRuns (cl_budget l') \<and>
     (rr_status (current l) \<noteq> Active \<longrightarrow> l' = l)"

definition dict_advances :: "('v \<Rightarrow> 'v \<Rightarrow> bool) \<Rightarrow> 'v jsobj \<Rightarrow> 'v jsobj \<Rightarrow> bool" where
  "dict_advances le d d' \<longleftrightarrow> (\<forall>k v. ownValue d k = Some v \<longrightarrow> (\<exists>v'. ownValue d' k = Some v' \<and> le v v'))"

definition kernel_advances :: "kernel_state \<Rightarrow> kernel_state \<Rightarrow> bool" where
  "kernel_advances s t \<longleftrightarrow>
     dict_advances lineage_advances (ks_lineages s) (ks_lineages t) \<and>
     dict_advances ticket_advances (ks_tickets s) (ks_tickets t) \<and>
     dict_advances (=) (ks_requestIds s) (ks_requestIds t) \<and>
     dict_advances (=) (ks_reservationIds s) (ks_reservationIds t)"

lemma ticket_advances_preorder:
  "ticket_advances r r" "ticket_advances r r' \<Longrightarrow> ticket_advances r' r'' \<Longrightarrow> ticket_advances r r''"
  by (auto simp: ticket_advances_def intro: order_trans)

lemma lineage_advances_preorder:
  "lineage_advances l l" "lineage_advances l l' \<Longrightarrow> lineage_advances l' l'' \<Longrightarrow> lineage_advances l l''"
  by (auto simp: lineage_advances_def intro: prefix_order.order_trans)

lemma dict_advances_preorder:
  "(\<And>v. le v v) \<Longrightarrow> dict_advances le d d"
  "(\<And>u v w. le u v \<Longrightarrow> le v w \<Longrightarrow> le u w) \<Longrightarrow> dict_advances le d d' \<Longrightarrow> dict_advances le d' d'' \<Longrightarrow>
   dict_advances le d d''"
  unfolding dict_advances_def by (blast, meson)

lemma dict_advances_setOwn:
  assumes "\<And>v. le v v" "\<And>v. ownValue d k = Some v \<Longrightarrow> le v v'"
  shows "dict_advances le d (setOwn d k v')"
  using assms unfolding dict_advances_def by auto

lemma terminal_not_early [simp]:
  "\<not> isKernelTerminalTicketStatus Registered" "\<not> isKernelTerminalTicketStatus CommitPermit"
  by (simp_all add: isKernelTerminalTicketStatus_def)

lemma failed_advances: "tr_status r = Registered \<Longrightarrow> ticket_advances r (failedRecord r now reason)"
  by (simp add: ticket_advances_def failedRecord_def)

lemma failIn_advances: "ticket_advances r (failIn cid now reason r)"
  by (simp add: failIn_def failed_advances ticket_advances_preorder)

lemma permit_advances:
  "tr_status r = Registered \<Longrightarrow>
   ticket_advances r (r\<lparr>tr_status := CommitPermit, tr_commitPermittedAt := Some now\<rparr>)"
  by (simp add: ticket_advances_def)

lemma settled_advances:
  "tr_status r = CommitPermit \<Longrightarrow> isKernelTerminalTicketStatus status \<Longrightarrow>
   ticket_advances r (settledRecord r status i reason)"
  by (simp add: ticket_advances_def settledRecord_def less_eq_ticket_status_def)

lemma charged_advances:
  "wf_charge c \<Longrightarrow> live t l \<Longrightarrow> lineage_advances l (l\<lparr>cl_budget := chargedBudget l t c\<rparr>)"
  by (simp add: lineage_advances_def chargedBudget_def wf_charge_def live_def)

lemma dict_advances_refl:
  "dict_advances lineage_advances d d" "dict_advances ticket_advances d' d'" "dict_advances (=) e e"
  by (simp_all add: dict_advances_preorder lineage_advances_preorder ticket_advances_preorder)

lemma advances_setTicket:
  assumes "ownValue (ks_tickets s) k = Some r" "ticket_advances r r'"
  shows "kernel_advances s (s\<lparr>ks_tickets := setOwn (ks_tickets s) k r'\<rparr>)"
  using assms by (auto simp: kernel_advances_def dict_advances_refl ticket_advances_preorder intro!: dict_advances_setOwn)

lemma kernel_advances_step:
  assumes "kernel_inv nfc s" "kernel_step nfc s s'"
  shows "kernel_advances s s'"
  using assms(2,1)
proof (cases rule: kernel_step_cases)
  case (ended cid l l' now reason)
  then have "lineage_advances l l'"
    by (auto simp: lineage_advances_def)
  moreover have "dict_advances ticket_advances (ks_tickets s) (failRegisteredTickets (ks_tickets s) cid now reason)"
    by (simp add: dict_advances_def failIn_advances)
  ultimately show ?thesis
    unfolding ended(7) using ended(1)
    by (auto simp: kernel_advances_def dict_advances_refl lineage_advances_preorder intro!: dict_advances_setOwn)
next
  case (registered cid l t c now)
  then show ?thesis
    by (auto simp: kernel_advances_def charged_advances lineage_advances_preorder ticket_advances_preorder
        intro!: dict_advances_setOwn)
next
  case (opened cid c h now)
  then show ?thesis
    by (auto simp: kernel_advances_def dict_advances_refl lineage_advances_preorder intro!: dict_advances_setOwn)
next
  case same
  then show ?thesis
    by (simp add: kernel_advances_def dict_advances_refl)
qed (simp_all add: advances_setTicket failed_advances permit_advances settled_advances)

interpretation kernel_runs: monotone_system kernel_init "kernel_step nfc" "kernel_inv nfc" kernel_advances for nfc
proof
  show "kernel_advances s s" for s
    by (simp add: kernel_advances_def dict_advances_preorder lineage_advances_preorder ticket_advances_preorder)
  show "kernel_advances s u" if "kernel_advances s t" "kernel_advances t u" for s t u
    using that unfolding kernel_advances_def
    by (auto elim!: dict_advances_preorder(2) [rotated] intro: lineage_advances_preorder ticket_advances_preorder)
qed (rule kernel_advances_step)

lemma advancesD:
  assumes "kernel_advances s t"
  shows "ownValue (ks_lineages s) cid = Some l \<Longrightarrow> \<exists>l'. ownValue (ks_lineages t) cid = Some l' \<and> lineage_advances l l'"
    and "ownValue (ks_tickets s) k = Some r \<Longrightarrow> \<exists>r'. ownValue (ks_tickets t) k = Some r' \<and> ticket_advances r r'"
    and "ownValue (ks_requestIds s) x = Some k \<Longrightarrow> ownValue (ks_requestIds t) x = Some k"
    and "ownValue (ks_reservationIds s) y = Some k \<Longrightarrow> ownValue (ks_reservationIds t) y = Some k"
  using assms by (auto simp: kernel_advances_def dict_advances_def)

lemma permit_state:
  assumes "kernel_inv nfc s" "commitPermitTransition nfc s i = Inr (CommitPermitted s' p)"
  obtains r l where "ownValue (ks_tickets s) (cp_ticketId p) = Some r" "tr_status r = Registered"
    "wf_timestamp (ci_now i)" "ownValue (ks_lineages s) (tr_contractId r) = Some l" "live (tr_ticket r) l"
    "timestampMilliseconds (et_issuedAt (tr_ticket r)) \<le> timestampMilliseconds (ci_now i)"
    "timestampMilliseconds (ci_now i) < timestampMilliseconds (et_expiresAt (tr_ticket r))"
    "validateSafeCodingExecutionTicket nfc (ci_ticket i) = Inr (tr_ticket r)"
    "s' = s\<lparr>ks_tickets := setOwn (ks_tickets s) (cp_ticketId p)
      (r\<lparr>tr_status := CommitPermit, tr_commitPermittedAt := Some (ci_now i)\<rparr>)\<rparr>"
    "cp_requestId p = et_requestId (tr_ticket r)" "cp_budgetReservationId p = et_budgetReservationId (tr_ticket r)"
    "cp_contractHash p = et_contractHash (tr_ticket r)" "cp_contractRevision p = et_contractRevision (tr_ticket r)"
    "cp_revocationEpoch p = et_revocationEpoch (tr_ticket r)" "cp_permittedAt p = ci_now i"
  using assms(1)
proof (cases rule: commit_shape [of nfc s i])
  case (permitted k r l q)
  then have "q = p" "k = cp_ticketId p"
      "s' = s\<lparr>ks_tickets := setOwn (ks_tickets s) k (r\<lparr>tr_status := CommitPermit, tr_commitPermittedAt := Some (ci_now i)\<rparr>)\<rparr>"
    using assms(2) by auto
  with permitted show ?thesis
    by (intro that [of r l]) simp_all
qed (use assms(2) in auto)

lemma index_unique:
  assumes "kernel_inv nfc s" "ownValue (ks_tickets s) k = Some r" "ownValue (ks_tickets s) k' = Some r'"
    and "et_requestId (tr_ticket r) = et_requestId (tr_ticket r') \<or>
      et_budgetReservationId (tr_ticket r) = et_budgetReservationId (tr_ticket r')"
  shows "k = k'"
proof -
  have "id_index et_requestId (ownValue (ks_requestIds s)) (ownValue (ks_tickets s))"
    "id_index et_budgetReservationId (ownValue (ks_reservationIds s)) (ownValue (ks_tickets s))"
    using assms(1) by (simp_all add: kernel_inv_def)
  then have "ownValue (ks_requestIds s) (et_requestId (tr_ticket r)) = Some k"
      "ownValue (ks_requestIds s) (et_requestId (tr_ticket r')) = Some k'"
      "ownValue (ks_reservationIds s) (et_budgetReservationId (tr_ticket r)) = Some k"
      "ownValue (ks_reservationIds s) (et_budgetReservationId (tr_ticket r')) = Some k'"
    using assms(2,3) unfolding id_index_def by blast+
  with assms(4) show ?thesis
    by auto
qed

lemma permit_once:
  assumes "kernel_inv nfc s" "commitPermitTransition nfc s i = Inr (CommitPermitted s' p)"
    and "(kernel_step nfc)\<^sup>*\<^sup>* s' t" "commitPermitTransition nfc t j = Inr (CommitPermitted t' q)"
  shows "cp_ticketId p \<noteq> cp_ticketId q \<and> cp_requestId p \<noteq> cp_requestId q \<and>
    cp_budgetReservationId p \<noteq> cp_budgetReservationId q"
proof -
  from assms(1,2) obtain r where r: "ownValue (ks_tickets s) (cp_ticketId p) = Some r"
      "cp_requestId p = et_requestId (tr_ticket r)" "cp_budgetReservationId p = et_budgetReservationId (tr_ticket r)"
      "ownValue (ks_tickets s') (cp_ticketId p) = Some (r\<lparr>tr_status := CommitPermit, tr_commitPermittedAt := Some (ci_now i)\<rparr>)"
    by (rule permit_state) auto
  have "kernel_step nfc s s'"
    using kernel_step.commit [OF assms(2)] by simp
  then have inv: "kernel_inv nfc s'" "kernel_inv nfc t"
    using kernel.inv_step [OF assms(1)] kernel.run_inv [OF assms(3)] by auto
  obtain r' where r': "ownValue (ks_tickets t) (cp_ticketId p) = Some r'" "tr_ticket r' = tr_ticket r"
      "CommitPermit \<le> tr_status r'"
    using advancesD(2) [OF kernel_runs.run_ord [OF assms(3) inv(1)] r(4)] by (auto simp: ticket_advances_def)
  from inv(2) assms(4) obtain r2 where r2: "ownValue (ks_tickets t) (cp_ticketId q) = Some r2" "tr_status r2 = Registered"
      "cp_requestId q = et_requestId (tr_ticket r2)" "cp_budgetReservationId q = et_budgetReservationId (tr_ticket r2)"
    by (rule permit_state) auto
  have "cp_ticketId p \<noteq> cp_ticketId q"
    using r' r2 by (auto simp: less_eq_ticket_status_def)
  then show ?thesis
    using index_unique [OF inv(2) r'(1) r2(1)] r(2,3) r'(2) r2(3,4) by auto
qed

end
