(* ===== verification/Kernel_Authority.thy ===== *)
theory Kernel_Authority
  imports Kernel_Properties Kernel_Samples
begin

text \<open>
  The properties of the kernel transitions over all reachable states and all runs: the state invariant,
  the one-shot permit and what authorizes it, finality of a revocation, replay protection, the
  budget, and liveness of the commit. Each is witnessed on the run of \<open>Kernel_Samples\<close>.
\<close>

section \<open>The invariant\<close>

text \<open>C4. In every state the kernel can reach, each lineage is a hash-linked chain of revisions numbered
  from one whose last is the only one that can be active, the revocation epoch counts the ended
  revisions, the budget of a lineage is exactly what its tickets have reserved, every ticket record is
  valid and in a consistent phase of its life cycle, every registered ticket is bound to the active
  revision, and the request and reservation indexes are exact.\<close>
theorem reachable_kernel_inv:
  assumes "reachable kernel_init (kernel_step nfc) s"
  shows "kernel_inv nfc s"
  using assms by (rule kernel.reachable_inv)

theorem reachable_kernel_inv_witness: "kernel_inv (\<lambda>s. s) sample_registered"
  by (rule reachable_kernel_inv [OF sample_reachable(2)])

section \<open>Permits\<close>

text \<open>C1. Once a permit was issued, no later commit request in any continuation of the run whose ticket
  has the same ticket id, the same request id or the same budget reservation is permitted again.\<close>
theorem one_shot_permit:
  assumes "reachable kernel_init (kernel_step nfc) s"
    and "commitPermitTransition nfc s i = Inr (CommitPermitted s' p)"
    and "(kernel_step nfc)\<^sup>*\<^sup>* s' t"
    and "validateSafeCodingExecutionTicket nfc (ci_ticket j) = Inr ticket"
    and "et_ticketId ticket = cp_ticketId p \<or> et_requestId ticket = cp_requestId p \<or>
      et_budgetReservationId ticket = cp_budgetReservationId p"
  shows "\<exists>t' e. commitPermitTransition nfc t j = Inr (CommitDenied t' e)"
proof -
  have inv: "kernel_inv nfc s"
    using assms(1) by (rule kernel.reachable_inv)
  have "kernel_inv nfc t"
    using reachable_run [OF assms(3)] reachable.advance [OF assms(1) kernel_step.commit [OF assms(2)]]
    by (auto intro: kernel.reachable_inv)
  then show ?thesis
  proof (cases rule: commit_shape [of nfc t j])
    case (permitted k r l q)
    have "tr_ticket r = ticket" "et_ticketId (tr_ticket r) = k"
      using permitted(4) assms(4) inv_record [OF \<open>kernel_inv nfc t\<close> permitted(1)] by (auto simp: wf_record_def)
    then show ?thesis
      using permit_once [OF inv assms(2,3) permitted(10)] assms(5) permitted by auto
  qed auto
qed

theorem one_shot_permit_witness:
  "\<exists>t' e. commitPermitTransition (\<lambda>s. s) sample_permitted sample_commit = Inr (CommitDenied t' e)"
  using one_shot_permit [OF sample_reachable(2) sample_commits rtranclp.rtrancl_refl, of sample_commit sample_ticket]
    sample_ticket_accepted by (simp add: sample_commit_def sample_permit_def)

text \<open>C2. A permit is issued only to a registered ticket that matches the request in full, and names it
  exactly; the ticket is bound to the current, active revision of its lineage (hash, revision number,
  epoch, subject, audience, policy and registry digests, an allowed effect class), and the time of
  the permit lies in the windows of both the ticket and the contract.\<close>
theorem permit_is_authorized:
  assumes "reachable kernel_init (kernel_step nfc) s"
    and "commitPermitTransition nfc s i = Inr (CommitPermitted s' p)"
  shows "\<exists>r l. ownValue (ks_tickets s) (cp_ticketId p) = Some r \<and> tr_status r = Registered \<and>
     validateSafeCodingExecutionTicket nfc (ci_ticket i) = Inr (tr_ticket r) \<and>
     ownValue (ks_lineages s) (tr_contractId r) = Some l \<and> rr_status (current l) = Active \<and>
     binds_contract (tr_ticket r) (current l) (cl_revocationEpoch l) \<and>
     usable_at (rr_contract (current l)) (timestampMilliseconds (ci_now i)) \<and>
     timestampMilliseconds (et_issuedAt (tr_ticket r)) \<le> timestampMilliseconds (ci_now i) \<and>
     timestampMilliseconds (ci_now i) < timestampMilliseconds (et_expiresAt (tr_ticket r)) \<and>
     p = \<lparr>cp_ticketId = et_ticketId (tr_ticket r), cp_requestId = et_requestId (tr_ticket r),
          cp_contractHash = cl_currentContractHash l, cp_contractRevision = rr_revision (current l),
          cp_revocationEpoch = cl_revocationEpoch l,
          cp_budgetReservationId = et_budgetReservationId (tr_ticket r), cp_permittedAt = ci_now i\<rparr>"
proof -
  have inv: "kernel_inv nfc s"
    using assms(1) by (rule kernel.reachable_inv)
  from this assms(2) show ?thesis
  proof (rule permit_state, goal_cases)
    case (1 r l)
    have wf: "wf_lineage nfc (tr_contractId r) l"
      using inv 1(4) by (auto simp: kernel_inv_def)
    then have "contract_valid nfc (rr_contract (current l))" "cl_currentContractHash l = rr_contractHash (current l)"
      by (auto simp: wf_lineage_def wf_revision_def list_all_iff)
    moreover have "et_ticketId (tr_ticket r) = cp_ticketId p"
      using inv_record [OF inv 1(1)] by (simp add: wf_record_def)
    ultimately show ?case
      using 1 contract_stamps by (intro exI [of _ r] exI [of _ l])
        (auto simp: live_def usable_at_def in_window_def binds_contract_def)
  qed
qed

theorem permit_is_authorized_witness:
  "\<exists>r l. ownValue (ks_tickets sample_registered) (cp_ticketId sample_permit) = Some r \<and>
     ownValue (ks_lineages sample_registered) (tr_contractId r) = Some l \<and> rr_status (current l) = Active \<and>
     binds_contract (tr_ticket r) (current l) (cl_revocationEpoch l)"
  using permit_is_authorized [OF sample_reachable(2) sample_commits] by blast

text \<open>C8. Liveness of the commit: a registered ticket that is presented unchanged, at a time not before
  its registration and issuance and before its expiry, gets its permit.\<close>
theorem permit_granted:
  assumes "reachable kernel_init (kernel_step nfc) s"
    and "ownValue (ks_tickets s) k = Some r" "tr_status r = Registered" "wf_timestamp now"
    and "timestampMilliseconds (tr_registeredAt r) \<le> timestampMilliseconds now"
    and "timestampMilliseconds (et_issuedAt (tr_ticket r)) \<le> timestampMilliseconds now"
    and "timestampMilliseconds now < timestampMilliseconds (et_expiresAt (tr_ticket r))"
  shows "\<exists>p. commitPermitTransition nfc s \<lparr>ci_ticket = ticket_json (tr_ticket r), ci_now = now\<rparr> =
     Inr (CommitPermitted (s\<lparr>ks_tickets := setOwn (ks_tickets s) k
       (r\<lparr>tr_status := CommitPermit, tr_commitPermittedAt := Some now\<rparr>)\<rparr>) p) \<and> cp_ticketId p = k"
proof -
  have inv: "kernel_inv nfc s"
    using assms(1) by (rule kernel.reachable_inv)
  then have r: "ticket_valid nfc (tr_ticket r)" "et_ticketId (tr_ticket r) = k" "wf_timestamp (tr_registeredAt r)"
    using inv_record [OF inv assms(2)] by (auto simp: wf_record_def)
  obtain l where l: "ownValue (ks_lineages s) (tr_contractId r) = Some l"
      "ticketMatchesActiveLineage (tr_ticket r) l (timestampMilliseconds now) = Inr True"
    using live_matches [OF inv assms(2,3,6,7)] by blast
  have "validatedTicket nfc (ticket_json (tr_ticket r)) = Inr (tr_ticket r)"
    using r(1) by (auto simp: validatedTicket_Inr ticket_valid_def intro!: ticket_complete)
  moreover have "timestampMilliseconds_kernel v label code = Inr (timestampMilliseconds v)"
    if "v \<in> {now, tr_registeredAt r, et_issuedAt (tr_ticket r), et_expiresAt (tr_ticket r)}" for v label code
    using that assms(4) r(3) ticket_stamps [OF r(1)] by (auto simp: timestamp_kernel_Inr)
  ultimately show ?thesis
    using r assms l by (auto simp: commitPermitTransition_def Let_def sameTicket_iff)
qed

theorem permit_granted_witness:
  "\<exists>p. commitPermitTransition (\<lambda>s. s) sample_registered
     \<lparr>ci_ticket = ticket_json (tr_ticket sample_record), ci_now = sample_now\<rparr> =
     Inr (CommitPermitted (sample_registered\<lparr>ks_tickets := setOwn (ks_tickets sample_registered) (et_ticketId sample_ticket)
       (sample_record\<lparr>tr_status := CommitPermit, tr_commitPermittedAt := Some sample_now\<rparr>)\<rparr>) p) \<and>
     cp_ticketId p = et_ticketId sample_ticket"
  by (rule permit_granted [OF sample_reachable(2)])
    (use sample_time in \<open>simp_all add: timestamp_kernel_Inr sample_registered_simps sample_record_simps sample_ticket_simps\<close>)

text \<open>C9. In a reachable state the commit transition never throws: it returns a permit or a denial. A
  denial changes nothing, or fails exactly one registered ticket, and then only because the ticket
  has expired; the denial for a stale ticket is never issued, since activation and revocation
  already fail the tickets they invalidate.\<close>
theorem commit_total_never_stale:
  assumes "reachable kernel_init (kernel_step nfc) s"
  shows "\<exists>result. commitPermitTransition nfc s i = Inr result \<and>
    (case result of CommitPermitted s' p \<Rightarrow> True
     | CommitDenied s' e \<Rightarrow>
         (\<forall>m. e \<noteq> SafeCodingKernelError TicketStale m) \<and>
         (s' = s \<or>
          (\<exists>k r m. ownValue (ks_tickets s) k = Some r \<and> tr_status r = Registered \<and>
             timestampMilliseconds (et_expiresAt (tr_ticket r)) \<le> timestampMilliseconds (ci_now i) \<and>
             e = SafeCodingKernelError TicketExpired m \<and>
             s' = s\<lparr>ks_tickets := setOwn (ks_tickets s) k (failedRecord r (ci_now i) m)\<rparr>)))"
proof -
  have "kernel_inv nfc s"
    using assms by (rule kernel.reachable_inv)
  then show ?thesis
  proof (cases rule: commit_shape [of nfc s i])
    case (expired k r e)
    then show ?thesis by auto blast
  qed auto
qed

theorem commit_total_never_stale_witness:
  "\<exists>result. commitPermitTransition (\<lambda>s. s) sample_revoked sample_commit = Inr result"
  using commit_total_never_stale [OF sample_reachable(4), of sample_commit] by blast

section \<open>Authority taken away\<close>

lemma revoked_later:
  assumes "kernel_inv nfc s" "ownValue (ks_lineages s) cid = Some l" "rr_status (current l) \<noteq> Active"
    and "(kernel_step nfc)\<^sup>*\<^sup>* s t"
  shows "ownValue (ks_lineages t) cid = Some l"
  using advancesD(1) [OF kernel_runs.run_ord [OF assms(4,1)] assms(2)] assms(3)
  by (auto simp: lineage_advances_def)

lemma inactive_no_ticket:
  assumes "kernel_inv nfc s" "ownValue (ks_lineages s) cid = Some l" "rr_status (current l) \<noteq> Active"
    and "ownValue (ks_tickets s) k = Some r" "tr_contractId r = cid"
  shows "tr_status r \<noteq> Registered"
  using inv_record [OF assms(1,4)] assms(2,3,5) by (auto simp: wf_record_def live_def)

lemma inactive_no_activation:
  assumes "kernel_inv nfc s" "ownValue (ks_lineages s) cid = Some l" "rr_status (current l) \<noteq> Active"
    and "validateSafeCodingIntentContract nfc (ai_contract a) = Inr c" "ic_contractId c = cid"
  shows "isl (activateContractTransition nfc s a)"
proof (cases "activateContractTransition nfc s a")
  case (Inr s')
  then obtain x where "validateVerifiedContract nfc a = Inr x"
    unfolding activateContractTransition_def by (auto simp: result_simps)
  then have x: "validateVerifiedContract nfc a = Inr (c, snd x)"
    using assms(4) by (cases x) (auto simp: validateVerifiedContract_Inr)
  have "wf_lineage nfc cid l"
    using assms(1,2) by (auto simp: kernel_inv_def)
  from Inr show ?thesis
    using assms(2,3,5) unfolding activateContractTransition_def
    by (auto simp: x result_simps timestamp_kernel_Inr Let_def currentRevision_wf [OF \<open>wf_lineage nfc cid l\<close>]
        split: if_splits option.splits)
qed simp

lemma inactive_no_registration:
  assumes "kernel_inv nfc s" "ownValue (ks_lineages s) (as_contractId (gi_expectedActive g)) = Some l"
    and "rr_status (current l) \<noteq> Active"
  shows "isl (registerTicketTransition nfc s g)"
proof (cases "registerTicketTransition nfc s g")
  case (Inr s')
  then show ?thesis
    using assms(1) by (cases rule: register_shape) (use assms(2,3) in \<open>auto simp: live_def\<close>)
qed simp

text \<open>C3. A revocation is final. In every state of every continuation the lineage is exactly as the
  revocation left it, none of its tickets is registered, no ticket can be registered and no revision
  activated under its id, and no permit is issued to one of its tickets.\<close>
theorem revocation_final:
  assumes "reachable kernel_init (kernel_step nfc) s"
    and "revokeContractTransition nfc s i = Inr s'"
    and "(kernel_step nfc)\<^sup>*\<^sup>* s' t"
  shows "\<exists>l. ownValue (ks_lineages s') (ri_contractId i) = Some l \<and> rr_status (current l) = Revoked \<and>
     ownValue (ks_lineages t) (ri_contractId i) = Some l \<and>
     (\<forall>k r. ownValue (ks_tickets t) k = Some r \<and> tr_contractId r = ri_contractId i \<longrightarrow> tr_status r \<noteq> Registered) \<and>
     (\<forall>g. as_contractId (gi_expectedActive g) = ri_contractId i \<longrightarrow> isl (registerTicketTransition nfc t g)) \<and>
     (\<forall>a c. validateSafeCodingIntentContract nfc (ai_contract a) = Inr c \<and> ic_contractId c = ri_contractId i \<longrightarrow>
        isl (activateContractTransition nfc t a)) \<and>
     (\<forall>j t' p r. commitPermitTransition nfc t j = Inr (CommitPermitted t' p) \<and>
        ownValue (ks_tickets t) (cp_ticketId p) = Some r \<longrightarrow> tr_contractId r \<noteq> ri_contractId i)"
proof -
  have inv: "kernel_inv nfc s"
    using assms(1) by (rule kernel.reachable_inv)
  from assms(2) inv obtain l where l: "ownValue (ks_lineages s') (ri_contractId i) = Some l" "rr_status (current l) = Revoked"
  proof (cases rule: revoke_shape)
    case (1 l reason)
    have "wf_lineage nfc (ri_contractId i) l"
      using inv 1(2) by (auto simp: kernel_inv_def)
    then have "rr_status (current (revokedLineage l (ri_now i) reason)) = Revoked"
      by (simp add: revokedLineage_def endCurrent_simps endRevision_def wf_lineage_def)
    then show thesis
      using 1(5) by (intro that [of "revokedLineage l (ri_now i) reason"]) simp_all
  qed
  have inv': "kernel_inv nfc s'" "kernel_inv nfc t"
    using kernel.inv_step [OF inv kernel_step.revoke [OF assms(2)]] kernel.run_inv [OF assms(3)] by auto
  have t: "ownValue (ks_lineages t) (ri_contractId i) = Some l" "rr_status (current l) \<noteq> Active"
    using revoked_later [OF inv'(1) l(1) _ assms(3)] l(2) by auto
  have "tr_contractId r \<noteq> ri_contractId i"
    if "commitPermitTransition nfc t j = Inr (CommitPermitted t' p)" "ownValue (ks_tickets t) (cp_ticketId p) = Some r"
    for j t' p r
    using inv'(2) that(1) by (rule permit_state) (use that(2) t inactive_no_ticket [OF inv'(2) t] in auto)
  then show ?thesis
    using l t inactive_no_ticket [OF inv'(2) t] inactive_no_registration [OF inv'(2)]
      inactive_no_activation [OF inv'(2) t] by (intro exI [of _ l]) auto
qed

theorem revocation_final_witness:
  "isl (registerTicketTransition (\<lambda>s. s) sample_revoked sample_register) \<and>
   isl (activateContractTransition (\<lambda>s. s) sample_revoked sample_activate)"
  using revocation_final [OF sample_reachable(2) sample_revokes rtranclp.rtrancl_refl] sample_contract_accepted
  by (auto simp: sample_revoke_def sample_register_def sample_activate_def sample_cid_def)

text \<open>Authority is bound to one revision: when a later revision is activated, every ticket that was
  still registered under the lineage has failed without effect in the new state and is never
  permitted in any continuation, whereas tickets of other lineages are untouched.\<close>
theorem supersession_cancels_tickets:
  assumes "reachable kernel_init (kernel_step nfc) s"
    and "activateContractTransition nfc s a = Inr s'"
    and "validateSafeCodingIntentContract nfc (ai_contract a) = Inr c" "ic_revision c \<noteq> 1"
    and "ownValue (ks_tickets s) k = Some r"
    and "(kernel_step nfc)\<^sup>*\<^sup>* s' t"
  shows "\<exists>r'. ownValue (ks_tickets s') k = Some r' \<and>
     (if tr_contractId r = ic_contractId c \<and> tr_status r = Registered
      then tr_status r' = FailedNoEffect \<and> ownValue (ks_tickets t) k = Some r' \<and>
        (\<forall>j t' p. commitPermitTransition nfc t j = Inr (CommitPermitted t' p) \<longrightarrow> cp_ticketId p \<noteq> k)
      else r' = r)"
proof -
  have inv: "kernel_inv nfc s"
    using assms(1) by (rule kernel.reachable_inv)
  have inv': "kernel_inv nfc s'" "kernel_inv nfc t"
    using kernel.inv_step [OF inv kernel_step.activate [OF assms(2)]] kernel.run_inv [OF assms(6)] by auto
  obtain now reason where "ownValue (ks_tickets s') k = Some (failIn (ic_contractId c) now reason r)"
  proof -
    from assms(2) obtain x where "validateVerifiedContract nfc a = Inr x"
      unfolding activateContractTransition_def by (auto simp: result_simps)
    then have x: "validateVerifiedContract nfc a = Inr (c, snd x)"
      using assms(3) by (cases x) (auto simp: validateVerifiedContract_Inr)
    obtain n m where "ks_tickets s' = failRegisteredTickets (ks_tickets s) (ic_contractId c) n m"
      using assms(2,4) unfolding activateContractTransition_def
      by (auto simp: x result_simps timestamp_kernel_Inr Let_def split: option.splits)
    then show thesis
      using that assms(5) by simp
  qed
  then obtain r' where r': "ownValue (ks_tickets s') k = Some r'" "r' = failIn (ic_contractId c) now reason r"
    by blast
  have "cp_ticketId p \<noteq> k"
    if "commitPermitTransition nfc t j = Inr (CommitPermitted t' p)" "ownValue (ks_tickets t) k = Some r'"
      "tr_status r' = FailedNoEffect" for j t' p
    using inv'(2) that(1) by (rule permit_state) (use that in auto)
  moreover have "ownValue (ks_tickets t) k = Some r'" if "tr_status r' = FailedNoEffect"
    using advancesD(2) [OF kernel_runs.run_ord [OF assms(6) inv'(1)] r'(1)] that
    by (auto simp: ticket_advances_def isKernelTerminalTicketStatus_def)
  ultimately show ?thesis
    using r' by (auto simp: failIn_def failedRecord_def)
qed

definition sample_renewal :: intent_contract where
  "sample_renewal = sample_contract\<lparr>ic_revision := 2, ic_previousRevisionHash := Some sample_digest\<rparr>"

definition sample_renew :: activate_input where
  "sample_renew =
     \<lparr>ai_contract = contract_json sample_renewal, ai_canonicalPayload = contract_text sample_renewal,
      ai_contractHash = replicate 64 98,
      ai_expectedPrevious = Some \<lparr>ce_contractHash = sample_digest, ce_revision = 1, ce_revocationEpoch = 0\<rparr>,
      ai_now = sample_now\<rparr>"

lemma sample_renewal_valid: "contract_valid (\<lambda>s. s) sample_renewal"
proof -
  have "string_ok (\<lambda>s. s) sample_digest"
    using sample_digest_ok by (simp add: string_ok_def MAX_CANONICAL_JSON_STRING_CODE_UNITS_def)
  then have "canonicalizable (\<lambda>s. s) (contract_json sample_renewal)"
    unfolding contract_json_def sample_renewal_def sample_contract_def authority_json_def validity_json_def subject_json_def
      audience_json_def bindings_json_def non_authoritative_json_def limits_json_def ambient_json_def
      delegation_json_def fs_permission_json_def git_permission_json_def selector_json_def
    by (simp add: canonicalizable_def length_render_jrec separators_def jrec_measures nullable_def sample_digest_quote
      spelling_def fsActions_def gitActions_def effectClasses_def selectorKindName_def
      INTENT_CONTRACT_KIND_def INTENT_CONTRACT_SPEC_VERSION_def safe_int_def MAX_SAFE_INTEGER_def
      jsonQuote_def quoteUnit_def string_ok_def canonical_string_def surrogate_defs js_def decInt_def decDigits.simps
      MAX_CANONICAL_JSON_STRING_CODE_UNITS_def MAX_CANONICAL_JSON_DEPTH_def
      MAX_CANONICAL_JSON_NODES_def MAX_CANONICAL_JSON_OUTPUT_CODE_UNITS_def)
  moreover have "wf_contract (\<lambda>s. s) sample_renewal"
    using sample_contract_valid sample_digest_ok
    by (simp add: contract_valid_def wf_contract_def sample_renewal_def safe_int_def MAX_SAFE_INTEGER_def counter_def)
  ultimately show ?thesis
    by (simp add: contract_valid_def)
qed

lemma sample_renews: "\<exists>s'. activateContractTransition (\<lambda>s. s) sample_registered sample_renew = Inr s'"
proof -
  have accepted: "validateSafeCodingIntentContract (\<lambda>s. s) (contract_json sample_renewal) = Inr sample_renewal"
    using sample_renewal_valid by (intro contract_complete) (simp_all add: contract_valid_def)
  have "SHA256_PATTERN (replicate 64 98)"
    by (simp add: SHA256_PATTERN_def list_all_iff char_class_defs)
  then have "validateVerifiedContract (\<lambda>s. s) sample_renew = Inr (sample_renewal, replicate 64 98)"
    using accepted sample_renewal_valid by (simp add: validateVerifiedContract_Inr sample_renew_def)
  moreover have "ic_contractId sample_renewal = sample_cid" "ic_revision sample_renewal = 2"
      "ic_previousRevisionHash sample_renewal = Some sample_digest" "replicate 64 98 \<noteq> sample_digest"
    by (simp_all add: sample_renewal_def sample_cid_def sample_digest_def)
  moreover have "currentRevision (sample_lineage\<lparr>cl_budget := b\<rparr>) = Inr (current sample_lineage)" for b
    using sample_lineage_simps(6) by (simp add: currentRevision_def split: option.splits)
  ultimately show ?thesis
    unfolding activateContractTransition_def
    by (simp add: Let_def sample_renew_def sample_time sample_registered_simps sample_lineage_simps
        assertCasMatches_def assertNotBefore_def safeIncrement_def safe_int_def MAX_SAFE_INTEGER_def)
qed

theorem supersession_cancels_tickets_witness:
  "\<exists>s' r'. activateContractTransition (\<lambda>s. s) sample_registered sample_renew = Inr s' \<and>
     ownValue (ks_tickets s') (et_ticketId sample_ticket) = Some r' \<and> tr_status r' = FailedNoEffect"
proof -
  obtain s' where s': "activateContractTransition (\<lambda>s. s) sample_registered sample_renew = Inr s'"
    using sample_renews by blast
  have "validateSafeCodingIntentContract (\<lambda>s. s) (ai_contract sample_renew) = Inr sample_renewal"
    using sample_renewal_valid unfolding sample_renew_def
    by (auto intro!: contract_complete simp: contract_valid_def)
  then show ?thesis
    using s' supersession_cancels_tickets [OF sample_reachable(2) s' _ _ sample_registered_simps(1) rtranclp.rtrancl_refl]
    by (auto simp: sample_renewal_def sample_record_simps sample_cid_def)
qed

section \<open>Replays and budgets\<close>

text \<open>C7. Once a ticket was registered, every later registration that repeats its ticket id, its request
  id or its budget reservation is refused, in every continuation and whatever became of the ticket.\<close>
theorem no_replay:
  assumes "reachable kernel_init (kernel_step nfc) s"
    and "registerTicketTransition nfc s g = Inr s'" "validateSafeCodingExecutionTicket nfc (gi_ticket g) = Inr u"
    and "(kernel_step nfc)\<^sup>*\<^sup>* s' t" "validateSafeCodingExecutionTicket nfc (gi_ticket h) = Inr v"
    and "et_ticketId v = et_ticketId u \<or> et_requestId v = et_requestId u \<or>
      et_budgetReservationId v = et_budgetReservationId u"
  shows "isl (registerTicketTransition nfc t h)"
proof (cases "registerTicketTransition nfc t h")
  case (Inr t')
  have inv: "kernel_inv nfc s" "kernel_inv nfc s'" "kernel_inv nfc t"
    using assms(1) kernel.reachable_inv kernel.inv_step kernel_step.register [OF assms(2)] kernel.run_inv [OF assms(4)]
    by blast+
  have adv: "kernel_advances s' t"
    using assms(4) inv(2) by (rule kernel_runs.run_ord)
  have "ownValue (ks_tickets s') (et_ticketId u) \<noteq> None" "ownValue (ks_requestIds s') (et_requestId u) \<noteq> None"
      "ownValue (ks_reservationIds s') (et_budgetReservationId u) \<noteq> None"
    using assms(2) inv(1) by (cases rule: register_shape; use assms(3) in simp)+
  then have "ownValue (ks_tickets t) (et_ticketId u) \<noteq> None" "ownValue (ks_requestIds t) (et_requestId u) \<noteq> None"
      "ownValue (ks_reservationIds t) (et_budgetReservationId u) \<noteq> None"
    using advancesD [OF adv] by fastforce+
  with Inr inv(3) show ?thesis
    by (cases rule: register_shape) (use assms(5,6) in auto)
qed simp

theorem no_replay_witness:
  "isl (registerTicketTransition (\<lambda>s. s) sample_permitted sample_register)"
proof (rule no_replay [where u = sample_ticket and v = sample_ticket, OF sample_reachable(1) sample_registers])
  show "(kernel_step (\<lambda>s. s))\<^sup>*\<^sup>* sample_registered sample_permitted"
    using kernel_step.commit [OF sample_commits] by (intro r_into_rtranclp) simp
qed (simp_all add: sample_register_def sample_ticket_accepted)

text \<open>C6. A registration never takes a lineage over the limits of its active contract: right after it, the
  files, bytes and test runs reserved by all tickets of the lineage together, including failed and
  settled ones and those of earlier revisions, are within the limits and are safe integers.\<close>
theorem budget_within_limits:
  assumes "reachable kernel_init (kernel_step nfc) s" "registerTicketTransition nfc s g = Inr s'"
    and "ownValue (ks_lineages s') (as_contractId (gi_expectedActive g)) = Some l"
  shows "reserved charged_files (as_contractId (gi_expectedActive g)) (ks_tickets s')
        \<le> lim_maxUniqueModifiedFiles (au_limits (ic_authority (rr_contract (current l)))) \<and>
     reserved charged_bytes (as_contractId (gi_expectedActive g)) (ks_tickets s')
        \<le> lim_maxMutationBytes (au_limits (ic_authority (rr_contract (current l)))) \<and>
     reserved charged_runs (as_contractId (gi_expectedActive g)) (ks_tickets s')
        \<le> lim_maxTestRuns (au_limits (ic_authority (rr_contract (current l)))) \<and>
     safe_int (reserved charged_bytes (as_contractId (gi_expectedActive g)) (ks_tickets s')) \<and>
     safe_int (reserved charged_runs (as_contractId (gi_expectedActive g)) (ks_tickets s'))"
proof -
  have inv: "kernel_inv nfc s"
    using assms(1) by (rule kernel.reachable_inv)
  have "kernel_inv nfc s'"
    using kernel.inv_step [OF inv kernel_step.register [OF assms(2)]] .
  then have "budget_conserved (as_contractId (gi_expectedActive g)) (cl_budget l) (ks_tickets s')"
    using assms(3) by (auto simp: kernel_inv_def)
  moreover have "within_limits (cl_budget l) (au_limits (ic_authority (rr_contract (current l))))"
      "safe_int (bu_mutationBytes (cl_budget l))" "safe_int (bu_testRuns (cl_budget l))"
    using assms(2) inv by (cases rule: register_shape; use assms(3) in auto)+
  ultimately show ?thesis
    by (simp add: budget_conserved_def within_limits_def)
qed

theorem budget_within_limits_witness:
  "reserved charged_bytes sample_cid (ks_tickets sample_registered) \<le> 100"
proof -
  have "reserved charged_bytes sample_cid (ks_tickets sample_registered)
      \<le> lim_maxMutationBytes (au_limits (ic_authority (rr_contract (current
          (sample_lineage\<lparr>cl_budget := chargedBudget sample_lineage sample_ticket sample_charge\<rparr>)))))"
    using budget_within_limits [OF sample_reachable(1) sample_registers] sample_registered_simps(2)
    by (simp add: sample_register_def)
  then show ?thesis
    by (simp add: sample_lineage_simps sample_contract_simps)
qed

text \<open>C10. Runs only move forward: along any run the revisions of a lineage are only extended, its epoch and
  its spent budget never decrease, a revoked lineage stays as it is, every ticket keeps its content
  and its charge while its status follows the life cycle, a terminal ticket never changes, and
  no request id or reservation is ever released or reassigned.\<close>
theorem runs_move_forward:
  assumes "reachable kernel_init (kernel_step nfc) s" "(kernel_step nfc)\<^sup>*\<^sup>* s t"
  shows "kernel_advances s t"
  using assms kernel.reachable_inv kernel_runs.run_ord by blast

theorem runs_move_forward_witness: "kernel_advances sample_activated sample_permitted"
  by (rule runs_move_forward [OF sample_reachable(1)])
    (use kernel_step.register [OF sample_registers] kernel_step.commit [OF sample_commits]
     in \<open>auto intro: rtranclp.rtrancl_into_rtrancl\<close>)

end
