(* ===== verification/Kernel_Refinement.thy ===== *)
theory Kernel_Refinement
  imports Kernel_Authority
begin

text \<open>
  The kernel refines a small authority machine. The machine knows only which contracts a lineage holds and
  whether it is active, what has been spent, and for every ticket id the lineage, the revision and the
  phase of the ticket; it has no clocks, hashes, digests or compare-and-swap expectations.
\<close>

section \<open>The authority machine\<close>

datatype phase = Open | Permitted | Closed

record grant =
  gr_contracts :: "intent_contract list"
  gr_active :: bool
  gr_files :: int
  gr_bytes :: int
  gr_runs :: int

record issued =
  is_lineage :: jstr
  is_revision :: int
  is_phase :: phase

record authority =
  au_grants :: "jstr \<rightharpoonup> grant"
  au_issued :: "jstr \<rightharpoonup> issued"

definition no_authority :: authority where
  "no_authority = \<lparr>au_grants = Map.empty, au_issued = Map.empty\<rparr>"

definition cancel :: "jstr \<Rightarrow> (jstr \<rightharpoonup> issued) \<Rightarrow> jstr \<rightharpoonup> issued" where
  "cancel cid m k =
     map_option (\<lambda>i. if is_lineage i = cid \<and> is_phase i = Open then i\<lparr>is_phase := Closed\<rparr> else i) (m k)"

definition spend :: "grant \<Rightarrow> int \<Rightarrow> int \<Rightarrow> int \<Rightarrow> grant" where
  "spend g files bytes runs =
     g\<lparr>gr_files := gr_files g + files, gr_bytes := gr_bytes g + bytes, gr_runs := gr_runs g + runs\<rparr>"

definition grant_within :: "grant \<Rightarrow> authority_limits \<Rightarrow> bool" where
  "grant_within g limits \<longleftrightarrow> gr_files g \<le> lim_maxUniqueModifiedFiles limits \<and>
     gr_bytes g \<le> lim_maxMutationBytes limits \<and> gr_runs g \<le> lim_maxTestRuns limits"

inductive authority_step :: "authority \<Rightarrow> authority \<Rightarrow> bool" where
  grant: "au_grants a cid = None \<Longrightarrow>
    authority_step a (a\<lparr>au_grants := (au_grants a)(cid \<mapsto>
      \<lparr>gr_contracts = [c], gr_active = True, gr_files = 0, gr_bytes = 0, gr_runs = 0\<rparr>)\<rparr>)"
| renew: "au_grants a cid = Some g \<Longrightarrow> gr_active g \<Longrightarrow>
    authority_step a (a\<lparr>au_grants := (au_grants a)(cid \<mapsto> g\<lparr>gr_contracts := gr_contracts g @ [c]\<rparr>),
      au_issued := cancel cid (au_issued a)\<rparr>)"
| withdraw: "au_grants a cid = Some g \<Longrightarrow> gr_active g \<Longrightarrow>
    authority_step a (a\<lparr>au_grants := (au_grants a)(cid \<mapsto> g\<lparr>gr_active := False\<rparr>),
      au_issued := cancel cid (au_issued a)\<rparr>)"
| issue: "au_grants a cid = Some g \<Longrightarrow> gr_active g \<Longrightarrow> au_issued a k = None \<Longrightarrow>
    files \<in> {0, 1} \<Longrightarrow> 0 \<le> bytes \<Longrightarrow> 0 \<le> runs \<Longrightarrow>
    grant_within (spend g files bytes runs) (au_limits (ic_authority (last (gr_contracts g)))) \<Longrightarrow>
    authority_step a (a\<lparr>au_grants := (au_grants a)(cid \<mapsto> spend g files bytes runs),
      au_issued := (au_issued a)(k \<mapsto>
        \<lparr>is_lineage = cid, is_revision = int (length (gr_contracts g)), is_phase = Open\<rparr>)\<rparr>)"
| permit: "au_issued a k = Some i \<Longrightarrow> is_phase i = Open \<Longrightarrow> au_grants a (is_lineage i) = Some g \<Longrightarrow> gr_active g \<Longrightarrow>
    is_revision i = int (length (gr_contracts g)) \<Longrightarrow>
    authority_step a (a\<lparr>au_issued := (au_issued a)(k \<mapsto> i\<lparr>is_phase := Permitted\<rparr>)\<rparr>)"
| close_issued: "au_issued a k = Some i \<Longrightarrow> is_phase i \<noteq> Closed \<Longrightarrow>
    authority_step a (a\<lparr>au_issued := (au_issued a)(k \<mapsto> i\<lparr>is_phase := Closed\<rparr>)\<rparr>)"

inductive_cases authority_stepE: "authority_step a b"

section \<open>The abstraction\<close>

definition abs_phase :: "ticket_status \<Rightarrow> phase" where
  "abs_phase status =
     (case status of Registered \<Rightarrow> Open | CommitPermit \<Rightarrow> Permitted | _ \<Rightarrow> Closed)"

definition abs_lineage :: "contract_lineage \<Rightarrow> grant" where
  "abs_lineage l =
     \<lparr>gr_contracts = map rr_contract (cl_revisions l), gr_active = (rr_status (current l) = Active),
      gr_files = int (length (bu_modifiedObjectIds (cl_budget l))), gr_bytes = bu_mutationBytes (cl_budget l),
      gr_runs = bu_testRuns (cl_budget l)\<rparr>"

definition abs_ticket :: "ticket_record \<Rightarrow> issued" where
  "abs_ticket r =
     \<lparr>is_lineage = tr_contractId r, is_revision = et_contractRevision (tr_ticket r), is_phase = abs_phase (tr_status r)\<rparr>"

definition abs_dict :: "('v \<Rightarrow> 'a) \<Rightarrow> 'v jsobj \<Rightarrow> jstr \<rightharpoonup> 'a" where
  "abs_dict f d k = map_option f (ownValue d k)"

definition abs_kernel :: "kernel_state \<Rightarrow> authority" where
  "abs_kernel s =
     \<lparr>au_grants = abs_dict abs_lineage (ks_lineages s), au_issued = abs_dict abs_ticket (ks_tickets s)\<rparr>"

lemma abs_dict_setOwn [simp]: "abs_dict f (setOwn d k v) = (abs_dict f d)(k \<mapsto> f v)"
  by (rule ext) (simp add: abs_dict_def)

lemma abs_dict_lookup: "ownValue d k = x \<Longrightarrow> abs_dict f d k = map_option f x"
  by (simp add: abs_dict_def)

lemma abs_init: "abs_kernel createEmptySafeCodingKernelState = no_authority"
  by (simp add: abs_kernel_def createEmptySafeCodingKernelState_def no_authority_def abs_dict_def fun_eq_iff)

lemma abs_update_ticket:
  "abs_kernel (s\<lparr>ks_tickets := setOwn (ks_tickets s) k r\<rparr>) =
   (abs_kernel s)\<lparr>au_issued := (au_issued (abs_kernel s))(k \<mapsto> abs_ticket r)\<rparr>"
  by (simp add: abs_kernel_def)

lemma abs_failIn:
  "abs_ticket (failIn cid now reason r) =
   (if is_lineage (abs_ticket r) = cid \<and> is_phase (abs_ticket r) = Open then (abs_ticket r)\<lparr>is_phase := Closed\<rparr>
    else abs_ticket r)"
  by (cases "tr_status r") (simp_all add: failIn_def failedRecord_def abs_ticket_def abs_phase_def)

lemma abs_failRegistered:
  "abs_dict abs_ticket (failRegisteredTickets ts cid now reason) = cancel cid (abs_dict abs_ticket ts)"
  by (rule ext) (simp add: abs_dict_def cancel_def option.map_comp comp_def abs_failIn)

lemma abs_ended:
  "abs_kernel (s\<lparr>ks_lineages := setOwn (ks_lineages s) cid l,
     ks_tickets := failRegisteredTickets (ks_tickets s) cid now reason\<rparr>) =
   (abs_kernel s)\<lparr>au_grants := (au_grants (abs_kernel s))(cid \<mapsto> abs_lineage l),
     au_issued := cancel cid (au_issued (abs_kernel s))\<rparr>"
  by (simp add: abs_kernel_def abs_failRegistered)

lemma abs_ended_lineage:
  assumes "cl_budget l' = cl_budget l" "rr_status (current l) = Active"
  shows "map rr_contract (cl_revisions l') = map rr_contract (cl_revisions l) @ [c] \<Longrightarrow>
      rr_status (current l') = Active \<Longrightarrow>
      abs_lineage l' = (abs_lineage l)\<lparr>gr_contracts := gr_contracts (abs_lineage l) @ [c]\<rparr>"
    and "map rr_contract (cl_revisions l') = map rr_contract (cl_revisions l) \<Longrightarrow>
      rr_status (current l') = Revoked \<Longrightarrow> abs_lineage l' = (abs_lineage l)\<lparr>gr_active := False\<rparr>"
  using assms by (simp_all add: abs_lineage_def)

lemma abs_charged:
  "abs_lineage (l\<lparr>cl_budget := chargedBudget l t c\<rparr>) =
   spend (abs_lineage l) (if newObject l t c then 1 else 0) (charged_bytes c) (charged_runs c)"
  by (simp add: abs_lineage_def spend_def chargedBudget_def)

lemma live_revision:
  assumes "kernel_inv nfc s" "ownValue (ks_lineages s) cid = Some l" "live t l"
  shows "et_contractRevision t = int (length (gr_contracts (abs_lineage l)))"
proof -
  have "wf_lineage nfc cid l"
    using assms(1,2) by (auto simp: kernel_inv_def)
  then show ?thesis
    using current_revision_number assms(3) by (auto simp: live_def binds_contract_def abs_lineage_def)
qed

lemma registered_refines:
  assumes inv: "kernel_inv nfc s" and l: "ownValue (ks_lineages s) cid = Some l" and t: "live t l" "wf_charge c"
    and fresh: "ownValue (ks_tickets s) (et_ticketId t) = None"
    and limits: "within_limits (chargedBudget l t c) (au_limits (ic_authority (rr_contract (current l))))"
  shows "authority_step (abs_kernel s) (abs_kernel (s\<lparr>ks_lineages := setOwn (ks_lineages s) cid (l\<lparr>cl_budget := chargedBudget l t c\<rparr>),
         ks_tickets := setOwn (ks_tickets s) (et_ticketId t) (newRecord l t c cid now),
         ks_requestIds := requests, ks_reservationIds := reservations\<rparr>))"
proof -
  have ne: "cl_revisions l \<noteq> []"
    using inv l by (auto simp: kernel_inv_def wf_lineage_def)
  have "authority_step (abs_kernel s)
    ((abs_kernel s)\<lparr>au_grants := (au_grants (abs_kernel s))(cid \<mapsto>
        spend (abs_lineage l) (if newObject l t c then 1 else 0) (charged_bytes c) (charged_runs c)),
      au_issued := (au_issued (abs_kernel s))(et_ticketId t \<mapsto>
        \<lparr>is_lineage = cid, is_revision = int (length (gr_contracts (abs_lineage l))), is_phase = Open\<rparr>)\<rparr>)"
  proof (rule authority_step.issue)
    show "grant_within (spend (abs_lineage l) (if newObject l t c then 1 else 0) (charged_bytes c) (charged_runs c))
        (au_limits (ic_authority (last (gr_contracts (abs_lineage l)))))"
      using limits unfolding abs_charged [symmetric]
      by (simp add: grant_within_def within_limits_def abs_lineage_def last_map [OF ne])
  qed (use l t fresh in \<open>auto simp: abs_kernel_def abs_dict_lookup abs_lineage_def live_def wf_charge_def\<close>)
  moreover have "abs_ticket (newRecord l t c cid now) =
      \<lparr>is_lineage = cid, is_revision = int (length (gr_contracts (abs_lineage l))), is_phase = Open\<rparr>"
    using live_revision [OF inv l t(1)] by (simp add: abs_ticket_def newRecord_def abs_phase_def)
  ultimately show ?thesis
    by (simp add: abs_kernel_def abs_charged)
qed

lemma kernel_step_refines:
  assumes "kernel_inv nfc s" "kernel_step nfc s s'"
  shows "authority_step\<^sup>=\<^sup>= (abs_kernel s) (abs_kernel s')"
  using assms(2,1)
proof (cases rule: kernel_step_cases)
  case (opened cid c h now)
  then have "abs_kernel s' = (abs_kernel s)\<lparr>au_grants := (au_grants (abs_kernel s))(cid \<mapsto>
      \<lparr>gr_contracts = [c], gr_active = True, gr_files = 0, gr_bytes = 0, gr_runs = 0\<rparr>)\<rparr>"
    by (simp add: abs_kernel_def firstLineage_def abs_lineage_def)
  then show ?thesis
    using opened authority_step.grant [of "abs_kernel s" cid c] by (simp add: abs_kernel_def abs_dict_lookup)
next
  case (ended cid l l' now reason)
  have g: "au_grants (abs_kernel s) cid = Some (abs_lineage l)" "gr_active (abs_lineage l)"
    using ended by (simp_all add: abs_kernel_def abs_dict_lookup abs_lineage_def)
  show ?thesis
    using ended(6) abs_ended_lineage [OF ended(4,2)] authority_step.renew [OF g] authority_step.withdraw [OF g]
    unfolding ended(7) abs_ended by auto
next
  case (registered cid l t c now)
  then show ?thesis
    using registered_refines [OF assms(1)] by simp
next
  case (failed k r now reason)
  then show ?thesis
    using authority_step.close_issued [of "abs_kernel s" k "abs_ticket r"]
    by (simp add: abs_update_ticket failedRecord_def) (simp add: abs_kernel_def abs_dict_lookup abs_ticket_def abs_phase_def)
next
  case (permitted k r l now)
  then show ?thesis
    using authority_step.permit [of "abs_kernel s" k "abs_ticket r" "abs_lineage l"]
      live_revision [OF assms(1) permitted(4,5)]
    by (simp add: abs_update_ticket) (simp add: abs_kernel_def abs_dict_lookup abs_ticket_def abs_phase_def abs_lineage_def live_def)
next
  case (settled k r status i reason)
  then show ?thesis
    using authority_step.close_issued [of "abs_kernel s" k "abs_ticket r"]
    by (simp add: abs_update_ticket settledRecord_def)
      (auto simp: abs_kernel_def abs_dict_lookup abs_ticket_def abs_phase_def isKernelTerminalTicketStatus_def)
qed simp

interpretation kernel_refines: simulation kernel_init "kernel_step nfc" "kernel_inv nfc" abs_kernel authority_step for nfc
  by unfold_locales (rule kernel_step_refines)

text \<open>C5. The kernel implements the authority machine: the empty state abstracts to no authority, and from a
  reachable state every kernel step is a step of the machine or changes nothing it sees. So
  whatever the clocks, hashes and expectations, authority is only granted under a fresh id,
  extended or withdrawn while active, spent within the limits of the current contract, and used once by
  a ticket of the current revision.\<close>
theorem kernel_refines_authority:
  assumes "reachable kernel_init (kernel_step nfc) s" "kernel_step nfc s t"
  shows "authority_step\<^sup>*\<^sup>* no_authority (abs_kernel s) \<and> authority_step\<^sup>=\<^sup>= (abs_kernel s) (abs_kernel t)"
  using kernel_refines.reachable_spec [OF assms(1)] kernel_step_refines [OF kernel.reachable_inv [OF assms(1)] assms(2)]
  by (auto simp: kernel_init_def abs_init)

theorem kernel_refines_authority_witness:
  "authority_step\<^sup>=\<^sup>= (abs_kernel sample_activated) (abs_kernel sample_registered)"
  using kernel_refines_authority [OF sample_reachable(1) kernel_step.register [OF sample_registers]] by blast

end
