(* ===== verification/In_Memory_Kernel.thy ===== *)
theory In_Memory_Kernel
  imports Kernel_Refinement
begin

text \<open>
  The synchronous reference adapter of the kernel (\<open>clodex-kernel/src/in-memory-kernel.ts\<close>), the class
  \<open>InMemorySafeCodingKernel\<close>. A method takes the private state and returns the new private state
  together with its result or exception, so that what a throwing call leaves behind is visible. The
  result of \<open>this.#clock.now()\<close> is an argument of each method that reads the clock: a timestamp, or the exception of a
  clock that throws.

  Methods that hand out data copy it with \<open>clonePlainData\<close>, that is \<open>JSON.parse(canonicalizeJson(value))\<close>;
  they return JSON values here. Lookups such as \<open>this.#state.tickets[ticketId]\<close> also see the properties that
  every object inherits from \<open>Object.prototype\<close>; \<open>lookupProperty\<close> makes the three outcomes explicit.
\<close>

section \<open>Plain data of the state\<close>

definition charge_json :: "kernel_charge \<Rightarrow> jsval" where
  "charge_json c = jrec
     [(''uniqueModifiedFiles'', JNum (kc_uniqueModifiedFiles c)), (''mutationBytes'', JNum (kc_mutationBytes c)),
      (''testRuns'', JNum (kc_testRuns c))]"

definition revision_json :: "revision_record \<Rightarrow> jsval" where
  "revision_json r = jrec
     [(''contract'', contract_json (rr_contract r)), (''contractHash'', JStr (rr_contractHash r)),
      (''revision'', jint (rr_revision r)), (''previousRevisionHash'', nullable (rr_previousRevisionHash r)),
      (''status'', JStr (spelling contractStatuses (rr_status r))),
      (''revocationEpoch'', jint (rr_revocationEpoch r)), (''activatedAt'', JStr (rr_activatedAt r)),
      (''endedAt'', nullable (rr_endedAt r)), (''endReason'', nullable (rr_endReason r))]"

definition budget_json :: "budget_usage \<Rightarrow> jsval" where
  "budget_json b = jrec
     [(''modifiedObjectIds'', jarr (map JStr (bu_modifiedObjectIds b))),
      (''mutationBytes'', jint (bu_mutationBytes b)), (''testRuns'', jint (bu_testRuns b))]"

definition lineage_json :: "contract_lineage \<Rightarrow> jsval" where
  "lineage_json l = jrec
     [(''contractId'', JStr (cl_contractId l)), (''currentContractHash'', JStr (cl_currentContractHash l)),
      (''revocationEpoch'', jint (cl_revocationEpoch l)), (''revisions'', jarr (map revision_json (cl_revisions l))),
      (''budget'', budget_json (cl_budget l))]"

definition ticket_record_json :: "ticket_record \<Rightarrow> jsval" where
  "ticket_record_json r = jrec
     [(''ticket'', ticket_json (tr_ticket r)), (''contractId'', JStr (tr_contractId r)),
      (''status'', JStr (spelling ticketStatuses (tr_status r))), (''registeredAt'', JStr (tr_registeredAt r)),
      (''commitPermittedAt'', nullable (tr_commitPermittedAt r)), (''terminalAt'', nullable (tr_terminalAt r)),
      (''terminalReason'', nullable (tr_terminalReason r)), (''resultHash'', nullable (tr_resultHash r)),
      (''reservedCharge'', charge_json (tr_reservedCharge r)),
      (''aggregateCharge'', charge_json (tr_aggregateCharge r))]"

definition dict_json :: "('v \<Rightarrow> jsval) \<Rightarrow> 'v jsobj \<Rightarrow> jsval" where
  "dict_json f d = jobj (map (\<lambda>(k, v). (k, f v)) d)"

definition state_json :: "kernel_state \<Rightarrow> jsval" where
  "state_json s = jrec
     [(''version'', jint (ks_version s)), (''lineages'', dict_json lineage_json (ks_lineages s)),
      (''tickets'', dict_json ticket_record_json (ks_tickets s)),
      (''requestIds'', dict_json JStr (ks_requestIds s)), (''reservationIds'', dict_json JStr (ks_reservationIds s))]"

section \<open>Helpers\<close>

definition clonePlainData :: "(jstr \<Rightarrow> jstr) \<Rightarrow> jsval \<Rightarrow> kernel_error + jsval" where
  "clonePlainData nfc value =
     bindE (contractsCall (canonicalizeJson nfc value)) (\<lambda>text.
     case jsonParse text of
       None \<Rightarrow> Inl (OtherError (js ''Unexpected token in JSON''))
     | Some parsed \<Rightarrow> Inr parsed)"

definition canonicalTimestamp :: "int \<Rightarrow> jstr" where
  "canonicalTimestamp milliseconds = canonicalIso (toISOString milliseconds)"

definition inheritedFunctions :: "jstr list" where
  "inheritedFunctions = map js
     [''constructor'', ''__defineGetter__'', ''__defineSetter__'', ''hasOwnProperty'', ''__lookupGetter__'',
      ''__lookupSetter__'', ''isPrototypeOf'', ''propertyIsEnumerable'', ''toString'', ''valueOf'', ''toLocaleString'']"

datatype 'v lookup = Own 'v | InheritedFunction | PrototypeObject | Absent

definition lookupProperty :: "'v jsobj \<Rightarrow> jstr \<Rightarrow> 'v lookup" where
  "lookupProperty d k =
     (case ownValue d k of
        Some v \<Rightarrow> Own v
      | None \<Rightarrow> if k \<in> set inheritedFunctions then InheritedFunction
                else if k = js ''__proto__'' then PrototypeObject else Absent)"

definition typeError :: "string \<Rightarrow> kernel_error" where
  "typeError name = OtherError (js (''Cannot read properties of undefined (reading '' @ name @ '')''))"

text \<open>The constructor keeps a copy of the initial state. Copying writes the keys of the dictionaries in order;
  \<open>clone_state\<close> below shows that the copied value is the plain data of \<open>sortedState\<close>.\<close>

definition sortedState :: "kernel_state \<Rightarrow> kernel_state" where
  "sortedState s = s\<lparr>ks_lineages := sort_key fst (ks_lineages s), ks_tickets := sort_key fst (ks_tickets s),
     ks_requestIds := sort_key fst (ks_requestIds s), ks_reservationIds := sort_key fst (ks_reservationIds s)\<rparr>"

definition newKernel :: "(jstr \<Rightarrow> jstr) \<Rightarrow> kernel_state option \<Rightarrow> kernel_error + kernel_state" where
  "newKernel nfc initialState =
     (let initial = (case initialState of None \<Rightarrow> createEmptySafeCodingKernelState | Some st \<Rightarrow> st) in
      bindE (clonePlainData nfc (state_json initial)) (\<lambda>_. Inr (sortedState initial)))"

section \<open>Readers\<close>

definition getActiveContract :: "kernel_state \<Rightarrow> jstr \<Rightarrow> kernel_error + active_snapshot option" where
  "getActiveContract st contractId =
     (case lookupProperty (ks_lineages st) contractId of
        Absent \<Rightarrow> Inr None
      | InheritedFunction \<Rightarrow> Inl (typeError ''find'')
      | PrototypeObject \<Rightarrow> Inl (typeError ''find'')
      | Own lineage \<Rightarrow>
          (case List.find (\<lambda>revision. rr_contractHash revision = cl_currentContractHash lineage)
              (cl_revisions lineage) of
             None \<Rightarrow> Inr None
           | Some found \<Rightarrow>
               Inr (Some \<lparr>as_contractId = contractId, as_contractHash = rr_contractHash found,
                 as_revision = rr_revision found, as_revocationEpoch = cl_revocationEpoch lineage,
                 as_status = rr_status found\<rparr>)))"

text \<open>An inherited function and \<open>Object.prototype\<close> itself are truthy, so they are passed to the copy.\<close>

definition getTicket :: "(jstr \<Rightarrow> jstr) \<Rightarrow> kernel_state \<Rightarrow> jstr \<Rightarrow> kernel_error + jsval option" where
  "getTicket nfc st ticketId =
     (case lookupProperty (ks_tickets st) ticketId of
        Absent \<Rightarrow> Inr None
      | InheritedFunction \<Rightarrow> bindE (clonePlainData nfc JOther) (\<lambda>v. Inr (Some v))
      | PrototypeObject \<Rightarrow> bindE (clonePlainData nfc (JObj (plain_shape\<lparr>hiddenFields := True\<rparr>) [])) (\<lambda>v. Inr (Some v))
      | Own ticket \<Rightarrow> bindE (clonePlainData nfc (ticket_record_json ticket)) (\<lambda>v. Inr (Some v)))"

text \<open>The \<open>budget\<close> of a function or of \<open>Object.prototype\<close> is \<open>undefined\<close>.\<close>

definition getBudget :: "(jstr \<Rightarrow> jstr) \<Rightarrow> kernel_state \<Rightarrow> jstr \<Rightarrow> kernel_error + jsval option" where
  "getBudget nfc st contractId =
     (case lookupProperty (ks_lineages st) contractId of
        Own lineage \<Rightarrow> bindE (clonePlainData nfc (budget_json (cl_budget lineage))) (\<lambda>v. Inr (Some v))
      | _ \<Rightarrow> Inr None)"

definition snapshot :: "(jstr \<Rightarrow> jstr) \<Rightarrow> kernel_state \<Rightarrow> kernel_error + jsval" where
  "snapshot nfc st = clonePlainData nfc (state_json st)"

definition exportState :: "(jstr \<Rightarrow> jstr) \<Rightarrow> kernel_state \<Rightarrow> kernel_error + jsval" where
  "exportState nfc st = snapshot nfc st"

definition requireContractSnapshot :: "kernel_state \<Rightarrow> jstr \<Rightarrow> kernel_error + active_snapshot" where
  "requireContractSnapshot st contractId =
     bindE (getActiveContract st contractId) (\<lambda>result.
     case result of
       None \<Rightarrow> Inl (OtherError (js ''Kernel transition did not publish its contract lineage''))
     | Some found \<Rightarrow> Inr found)"

definition requireTicket :: "(jstr \<Rightarrow> jstr) \<Rightarrow> kernel_state \<Rightarrow> jstr \<Rightarrow> kernel_error + jsval" where
  "requireTicket nfc st ticketId =
     bindE (getTicket nfc st ticketId) (\<lambda>result.
     case result of
       None \<Rightarrow> Inl (OtherError (js ''Kernel transition did not publish its ticket record''))
     | Some ticket \<Rightarrow> Inr ticket)"

section \<open>Methods that change the state\<close>

text \<open>A method reads the clock, applies a transition, publishes its state and computes the result. A call
  that throws before the state is assigned leaves it alone; one that throws afterwards does not
  undo the assignment.\<close>

definition publish ::
  "kernel_state \<Rightarrow> kernel_error + jstr \<Rightarrow> (jstr \<Rightarrow> kernel_error + kernel_state) \<Rightarrow>
   (kernel_state \<Rightarrow> kernel_error + 'a) \<Rightarrow> kernel_state \<times> (kernel_error + 'a)" where
  "publish st clock transition result =
     (case bindE clock transition of
        Inl error \<Rightarrow> (st, Inl error)
      | Inr nextState \<Rightarrow> (nextState, result nextState))"

definition contractIdOf :: "jsval \<Rightarrow> jstr" where
  "contractIdOf contract =
     (case contract of
        JObj _ fs \<Rightarrow> (case getProp fs ''contractId'' of JStr contractId \<Rightarrow> contractId | _ \<Rightarrow> js ''undefined'')
      | _ \<Rightarrow> js ''undefined'')"

definition activateContract ::
  "(jstr \<Rightarrow> jstr) \<Rightarrow> kernel_error + jstr \<Rightarrow> kernel_state \<Rightarrow> activate_input \<Rightarrow>
   kernel_state \<times> (kernel_error + active_snapshot)" where
  "activateContract nfc clock st input =
     publish st clock (\<lambda>now. activateContractTransition nfc st (input\<lparr>ai_now := now\<rparr>))
       (\<lambda>nextState. requireContractSnapshot nextState (contractIdOf (ai_contract input)))"

definition revokeContract ::
  "(jstr \<Rightarrow> jstr) \<Rightarrow> kernel_error + jstr \<Rightarrow> kernel_state \<Rightarrow> revoke_input \<Rightarrow>
   kernel_state \<times> (kernel_error + active_snapshot)" where
  "revokeContract nfc clock st input =
     publish st clock (\<lambda>now. revokeContractTransition nfc st (input\<lparr>ri_now := now\<rparr>))
       (\<lambda>nextState. requireContractSnapshot nextState (ri_contractId input))"

definition registerTicket ::
  "(jstr \<Rightarrow> jstr) \<Rightarrow> kernel_error + jstr \<Rightarrow> kernel_state \<Rightarrow> register_input \<Rightarrow>
   kernel_state \<times> (kernel_error + unit)" where
  "registerTicket nfc clock st input =
     publish st clock (\<lambda>now. registerTicketTransition nfc st (input\<lparr>gi_now := now\<rparr>)) (\<lambda>_. Inr ())"

definition commitPermit ::
  "(jstr \<Rightarrow> jstr) \<Rightarrow> kernel_error + jstr \<Rightarrow> kernel_state \<Rightarrow> jsval \<Rightarrow>
   kernel_state \<times> (kernel_error + commit_permit)" where
  "commitPermit nfc clock st ticket =
     (case bindE clock (\<lambda>now. commitPermitTransition nfc st \<lparr>ci_ticket = ticket, ci_now = now\<rparr>) of
        Inl error \<Rightarrow> (st, Inl error)
      | Inr outcome \<Rightarrow>
          (cr_state outcome,
           (case outcome of CommitDenied _ error \<Rightarrow> Inl error | CommitPermitted _ permit \<Rightarrow> Inr permit)))"

definition failBeforeCommit ::
  "(jstr \<Rightarrow> jstr) \<Rightarrow> kernel_error + jstr \<Rightarrow> kernel_state \<Rightarrow> jstr \<Rightarrow> jsval \<Rightarrow>
   kernel_state \<times> (kernel_error + jsval)" where
  "failBeforeCommit nfc clock st ticketId reason =
     publish st clock
       (\<lambda>now. failBeforeCommitTransition nfc st \<lparr>fi_ticketId = ticketId, fi_now = now, fi_reason = reason\<rparr>)
       (\<lambda>nextState. requireTicket nfc nextState ticketId)"

definition settleTicket ::
  "(jstr \<Rightarrow> jstr) \<Rightarrow> kernel_error + jstr \<Rightarrow> kernel_state \<Rightarrow> settle_input \<Rightarrow>
   kernel_state \<times> (kernel_error + jsval)" where
  "settleTicket nfc clock st input =
     publish st clock (\<lambda>now. settleTicketTransition nfc st (input\<lparr>si_now := now\<rparr>))
       (\<lambda>nextState. requireTicket nfc nextState (si_ticketId input))"

section \<open>Copies\<close>

lemma clone_Inr:
  "wf_jsval v \<Longrightarrow> clonePlainData nfc v = Inr w \<longleftrightarrow> canonicalizable nfc v \<and> w = sortFields v"
  by (auto simp: clonePlainData_def result_simps kernel_simps canonicalizable_def jsonParse_render)

lemma clone_refused: "\<not> json_ok nfc v \<Longrightarrow> isl (clonePlainData nfc v)"
  by (cases "canonicalizeJson nfc v") (auto simp: clonePlainData_def contractsCall_def canonicalizeJson_Inr canonicalizable_def)

lemma wf_dict_json: "distinct (map fst d) \<Longrightarrow> (\<And>v. wf_jsval (f v)) \<Longrightarrow> wf_jsval (dict_json f d)"
  by (simp add: dict_json_def case_prod_unfold comp_def)

lemma wf_state_parts:
  "wf_jsval (charge_json c)" "wf_jsval (revision_json r)" "wf_jsval (budget_json b)" "wf_jsval (lineage_json l)"
  "wf_jsval (ticket_record_json t)"
proof -
  have nullable: "wf_jsval (nullable x)" for x
    by (cases x) (simp_all add: nullable_def)
  show charge: "wf_jsval (charge_json c)" for c
    unfolding charge_json_def by (rule wf_jsval_jrec) simp_all
  show revision: "wf_jsval (revision_json r)" for r
    unfolding revision_json_def by (rule wf_jsval_jrec) (simp_all add: contract_json_keys nullable)
  show budget: "wf_jsval (budget_json b)" for b
    unfolding budget_json_def by (rule wf_jsval_jrec) auto
  show "wf_jsval (lineage_json l)"
    unfolding lineage_json_def by (rule wf_jsval_jrec) (auto simp: revision budget)
  show "wf_jsval (ticket_record_json t)"
    unfolding ticket_record_json_def by (rule wf_jsval_jrec) (simp_all add: ticket_json_keys charge nullable)
qed

definition distinct_keys :: "kernel_state \<Rightarrow> bool" where
  "distinct_keys s \<longleftrightarrow> distinct (map fst (ks_lineages s)) \<and> distinct (map fst (ks_tickets s)) \<and>
     distinct (map fst (ks_requestIds s)) \<and> distinct (map fst (ks_reservationIds s))"

lemma wf_state_json: "distinct_keys s \<Longrightarrow> wf_jsval (state_json s)"
  unfolding state_json_def
  by (rule wf_jsval_jrec) (simp_all add: distinct_keys_def wf_dict_json wf_state_parts)

lemma sortFields_dict_json: "sortFields (dict_json f (sort_key fst d)) = sortFields (dict_json f d)"
proof -
  have "sort_key fst (map (\<lambda>e. (fst e, g (snd e))) (sort_key fst d)) = sort_key fst (map (\<lambda>e. (fst e, g (snd e))) d)" for g :: "_ \<Rightarrow> jsval"
    by (simp add: sort_key_fst_map sort_key_idem)
  then show ?thesis
    by (simp add: dict_json_def case_prod_unfold comp_def)
qed

lemma sortFields_jrec_cong:
  "map (\<lambda>(k, v). (k, sortFields v)) kvs = map (\<lambda>(k, v). (k, sortFields v)) kvs' \<Longrightarrow>
   sortFields (jrec kvs) = sortFields (jrec kvs')"
proof -
  assume *: "map (\<lambda>(k, v). (k, sortFields v)) kvs = map (\<lambda>(k, v). (k, sortFields v)) kvs'"
  have "map (\<lambda>f. (fst f, sortFields (snd f))) (jfields xs) =
      map (\<lambda>(k, w). (js k, w)) (map (\<lambda>(k, v). (k, sortFields v)) xs)" for xs
    unfolding jfields_def by (induction xs) auto
  then show ?thesis
    unfolding jrec_def sortFields.simps by (simp only: *)
qed

lemma clone_state:
  assumes "distinct_keys s" "clonePlainData nfc (state_json s) = Inr w"
  shows "w = sortFields (state_json (sortedState s))"
proof -
  have "sortFields (state_json (sortedState s)) = sortFields (state_json s)"
    unfolding state_json_def by (rule sortFields_jrec_cong) (simp add: sortedState_def sortFields_dict_json)
  then show ?thesis
    using assms clone_Inr [OF wf_state_json [OF assms(1)]] by simp
qed

section \<open>Calls\<close>

lemma publish_eq:
  "publish st clock f g = (st', r) \<longleftrightarrow>
   (\<exists>e. bindE clock f = Inl e \<and> st' = st \<and> r = Inl e) \<or> (bindE clock f = Inr st' \<and> r = g st')"
  by (auto simp: publish_def split: sum.splits)

lemma publish_fst:
  assumes "\<And>now st'. clock = Inr now \<Longrightarrow> f now = Inr st' \<Longrightarrow> R st st'"
  shows "R\<^sup>=\<^sup>= st (fst (publish st clock f g))"
  using assms by (cases clock) (auto simp: publish_def split: sum.splits)

lemma snapshot_published:
  assumes "kernel_inv nfc st" "ownValue (ks_lineages st) cid \<noteq> None"
  shows "\<exists>snap. requireContractSnapshot st cid = Inr snap"
proof -
  obtain l where l: "ownValue (ks_lineages st) cid = Some l"
    using assms(2) by blast
  then have "cl_revisions l \<noteq> []" "cl_currentContractHash l = rr_contractHash (current l)"
    using assms(1) by (auto simp: kernel_inv_def wf_lineage_def)
  then have "List.find (\<lambda>r. rr_contractHash r = cl_currentContractHash l) (cl_revisions l) \<noteq> None"
    unfolding find_None_iff by (metis last_in_set)
  then show ?thesis
    using l by (auto simp: requireContractSnapshot_def getActiveContract_def lookupProperty_def)
qed

lemma find_last:
  assumes "xs \<noteq> []" "distinct (map f xs)"
  shows "List.find (\<lambda>x. f x = f (last xs)) xs = Some (last xs)"
  using assms by (induction xs) (auto simp: image_iff)

lemma getActive_exact:
  assumes "kernel_inv nfc st" "ownValue (ks_lineages st) cid = Some l" "distinct (map rr_contractHash (cl_revisions l))"
  shows "getActiveContract st cid = Inr (Some \<lparr>as_contractId = cid, as_contractHash = cl_currentContractHash l,
    as_revision = rr_revision (current l), as_revocationEpoch = cl_revocationEpoch l, as_status = rr_status (current l)\<rparr>)"
proof -
  have "cl_revisions l \<noteq> []" "cl_currentContractHash l = rr_contractHash (current l)"
    using assms by (auto simp: kernel_inv_def wf_lineage_def)
  then show ?thesis
    using assms(2) find_last [OF _ assms(3)] by (simp add: getActiveContract_def lookupProperty_def)
qed

lemma publish_atomic:
  assumes "publish st clock f g = (st', Inl e)" "\<And>now t. f now = Inr t \<Longrightarrow> \<exists>x. g t = Inr x"
  shows "st' = st"
  using assms by (cases clock) (fastforce simp: publish_def split: sum.splits)+

lemma contractIdOf_validated:
  assumes "validateSafeCodingIntentContract nfc v = Inr c"
  shows "contractIdOf v = ic_contractId c"
proof -
  from assms obtain sh fs where "v = JObj sh fs" "getProp fs ''contractId'' = JStr (ic_contractId c)"
    unfolding validateSafeCodingIntentContract_def by (auto simp: result_simps require_simps)
  then show ?thesis
    by (simp add: contractIdOf_def)
qed

lemma activate_publishes:
  assumes "kernel_inv nfc st" "activateContractTransition nfc st a = Inr st'"
  shows "\<exists>snap. requireContractSnapshot st' (contractIdOf (ai_contract a)) = Inr snap"
proof -
  from assms(2) obtain c where v: "validateSafeCodingIntentContract nfc (ai_contract a) = Inr c"
    unfolding activateContractTransition_def by (auto simp: result_simps kernel_simps)
  have "ownValue (ks_lineages st') (ic_contractId c) \<noteq> None"
  proof -
    from assms(2) obtain x where "validateVerifiedContract nfc a = Inr x"
      unfolding activateContractTransition_def by (auto simp: result_simps)
    then have x: "validateVerifiedContract nfc a = Inr (c, snd x)"
      using v by (cases x) (auto simp: validateVerifiedContract_Inr)
    show ?thesis
      using assms(2) unfolding activateContractTransition_def
      by (auto simp: x result_simps timestamp_kernel_Inr Let_def split: option.splits if_splits)
  qed
  then show ?thesis
    using snapshot_published [OF kernel_inv_step [OF assms(1) kernel_step.activate [OF assms(2)]]]
    by (simp add: contractIdOf_validated [OF v])
qed

lemma revoke_publishes:
  assumes "kernel_inv nfc st" "revokeContractTransition nfc st v = Inr st'"
  shows "\<exists>snap. requireContractSnapshot st' (ri_contractId v) = Inr snap"
proof -
  have "ownValue (ks_lineages st') (ri_contractId v) \<noteq> None"
    using assms(2,1) by (cases rule: revoke_shape) simp
  then show ?thesis
    by (rule snapshot_published [OF kernel_inv_step [OF assms(1) kernel_step.revoke [OF assms(2)]]])
qed

section \<open>Properties\<close>

text \<open>Failure atomicity: when activation, revocation or registration throws, the state is exactly as
  before, since the snapshot they return always exists once the transition succeeded; when
  \<open>commitPermit\<close> throws, the state is as before or one expired registered ticket has failed.\<close>
theorem memory_failures_atomic:
  assumes "reachable kernel_init (kernel_step nfc) st"
  shows "(activateContract nfc clock st a = (st', Inl error) \<longrightarrow> st' = st) \<and>
    (revokeContract nfc clock st v = (st', Inl error) \<longrightarrow> st' = st) \<and>
    (registerTicket nfc clock st g = (st', Inl error) \<longrightarrow> st' = st) \<and>
    (commitPermit nfc clock st ticket = (st', Inl error) \<longrightarrow>
       st' = st \<or> (\<exists>k r now m. ownValue (ks_tickets st) k = Some r \<and> tr_status r = Registered \<and>
         timestampMilliseconds (et_expiresAt (tr_ticket r)) \<le> timestampMilliseconds now \<and>
         st' = st\<lparr>ks_tickets := setOwn (ks_tickets st) k (failedRecord r now m)\<rparr>))"
proof (intro conjI impI)
  have inv: "kernel_inv nfc st"
    using assms by (rule kernel.reachable_inv)
  show "st' = st" if "activateContract nfc clock st a = (st', Inl error)"
    using that unfolding activateContract_def
    by (rule publish_atomic) (use activate_publishes [OF inv] in fastforce)
  show "st' = st" if "revokeContract nfc clock st v = (st', Inl error)"
    using that unfolding revokeContract_def
    by (rule publish_atomic) (use revoke_publishes [OF inv] in fastforce)
  show "st' = st" if "registerTicket nfc clock st g = (st', Inl error)"
    using that unfolding registerTicket_def by (rule publish_atomic) simp
  show "st' = st \<or> (\<exists>k r now m. ownValue (ks_tickets st) k = Some r \<and> tr_status r = Registered \<and>
      timestampMilliseconds (et_expiresAt (tr_ticket r)) \<le> timestampMilliseconds now \<and>
      st' = st\<lparr>ks_tickets := setOwn (ks_tickets st) k (failedRecord r now m)\<rparr>)"
    if "commitPermit nfc clock st ticket = (st', Inl error)"
  proof (cases clock)
    case (Inr now)
    from inv show ?thesis
      by (cases rule: commit_shape [of nfc st "\<lparr>ci_ticket = ticket, ci_now = now\<rparr>"])
        (use that Inr in \<open>auto simp: commitPermit_def\<close>)
  qed (use that in \<open>simp add: commitPermit_def\<close>)
qed

theorem memory_failures_atomic_witness:
  "registerTicket (\<lambda>s. s) (Inl (OtherError [])) sample_registered sample_register =
     (sample_registered, Inl (OtherError []))"
proof -
  let ?call = "registerTicket (\<lambda>s. s) (Inl (OtherError [])) sample_registered sample_register"
  have "?call = (fst ?call, Inl (OtherError []))"
    by (simp add: registerTicket_def publish_def)
  then show ?thesis
    using memory_failures_atomic [OF sample_reachable(2), of "Inl (OtherError [])" _ "fst ?call" "OtherError []" _ sample_register]
    by simp
qed

text \<open>The Guardian port \<open>getActiveContract\<close> reports exactly the current revision, also when it is called by an
  id that was never activated, provided the id is not a property every object inherits and no two
  revisions of the lineage share a hash (it searches from the oldest revision, the transitions
  from the newest). A ticket registered against the reported snapshot of an active lineage passes the
  kernel's compare-and-swap check.\<close>
theorem getActiveContract_exact:
  assumes "reachable kernel_init (kernel_step nfc) st"
    and "cid \<notin> set inheritedFunctions" "cid \<noteq> js ''__proto__''"
    and "\<forall>l. ownValue (ks_lineages st) cid = Some l \<longrightarrow> distinct (map rr_contractHash (cl_revisions l))"
  shows "case ownValue (ks_lineages st) cid of
      None \<Rightarrow> getActiveContract st cid = Inr None
    | Some l \<Rightarrow> \<exists>snap. getActiveContract st cid = Inr (Some snap) \<and>
        snap = \<lparr>as_contractId = cid, as_contractHash = cl_currentContractHash l, as_revision = rr_revision (current l),
          as_revocationEpoch = cl_revocationEpoch l, as_status = rr_status (current l)\<rparr> \<and>
        (rr_status (current l) = Active \<longrightarrow> assertActiveSnapshotMatches l (current l) snap = Inr ())"
proof (cases "ownValue (ks_lineages st) cid")
  case None
  then show ?thesis
    using assms(2,3) by (simp add: getActiveContract_def lookupProperty_def)
next
  case (Some l)
  have inv: "kernel_inv nfc st"
    using assms(1) by (rule kernel.reachable_inv)
  then have "cl_contractId l = cid" "cl_currentContractHash l = rr_contractHash (current l)"
    using Some by (auto simp: kernel_inv_def wf_lineage_def)
  then show ?thesis
    using getActive_exact [OF inv Some] assms(4) Some by (simp add: assertActiveSnapshotMatches_Inr)
qed

theorem getActiveContract_exact_witness:
  "getActiveContract sample_activated sample_cid = Inr (Some (gi_expectedActive sample_register))"
proof -
  have own: "ownValue (ks_lineages sample_activated) sample_cid = Some sample_lineage"
    by (simp add: sample_activated_def ownValue_def)
  have "sample_cid \<notin> set inheritedFunctions" "sample_cid \<noteq> js ''__proto__''"
    by (simp_all add: sample_cid_def sample_contract_def inheritedFunctions_def js_def)
  moreover have "distinct (map rr_contractHash (cl_revisions sample_lineage))"
    by (simp add: sample_lineage_def firstLineage_def)
  ultimately show ?thesis
    using getActiveContract_exact [OF sample_reachable(1), of sample_cid] own
    by (simp add: sample_lineage_simps sample_register_def)
qed

text \<open>The text of the default clock is a timestamp the kernel accepts, for every instant of the years
  0000 to 9999, and reading it gives back the instant: no call is refused because of its clock and
  clock readings are compared as the instants they are.\<close>
theorem system_clock_accepted:
  assumes "- 62167219200000 \<le> ms" "ms \<le> 253402300799999"
  shows "timestampMilliseconds_kernel (canonicalTimestamp ms) label code = Inr ms"
proof -
  have "canonicalTimestamp ms = spellInstant ms"
    by (simp add: canonicalTimestamp_def spellInstant_def)
  moreover have "wf_timestamp (spellInstant ms)"
    using assms by (auto simp: wf_timestamp_iff)
  ultimately show ?thesis
    using assms by (simp add: timestamp_kernel_Inr)
qed

theorem system_clock_accepted_witness:
  "timestampMilliseconds_kernel (canonicalTimestamp 1767225600000) ''Ticket issuance time'' TicketInvalid = Inr 1767225600000"
  by (rule system_clock_accepted) simp_all

section \<open>Negative zero\<close>

definition sample_zero_charge :: kernel_charge where
  "sample_zero_charge = sample_charge\<lparr>kc_testRuns := JNegZero\<rparr>"

definition sample_zero :: kernel_state where
  "sample_zero = sample_registered_with sample_zero_charge"

lemma sample_zero_refused:
  "\<not> json_ok (\<lambda>s. s) (ticket_record_json r)" if "tr_reservedCharge r = tr_reservedCharge
     (newRecord sample_lineage sample_ticket sample_zero_charge sample_cid sample_now)"
  using that by (simp add: ticket_record_json_def jrec_measures charge_json_def newRecord_def sample_zero_charge_def)

text \<open>C16. A charge of \<open>-0\<close> passes the check of \<open>registerTicket\<close> (\<open>Number.isSafeInteger(-0)\<close> holds and
  \<open>-0 < 0\<close> does not), is stored in the record, and is not canonical JSON. From then on \<open>getTicket\<close> and
  \<open>snapshot\<close> throw, and \<open>failBeforeCommit\<close> throws after it has published the failure.\<close>
theorem negative_zero_charge_breaks_reads:
  "registerTicket (\<lambda>s. s) (Inr sample_now) sample_activated (sample_register\<lparr>gi_charge := Some sample_zero_charge\<rparr>) =
     (sample_zero, Inr ()) \<and>
   isl (getTicket (\<lambda>s. s) sample_zero (et_ticketId sample_ticket)) \<and> isl (snapshot (\<lambda>s. s) sample_zero) \<and>
   (\<exists>st' e r. failBeforeCommit (\<lambda>s. s) (Inr sample_now) sample_zero (et_ticketId sample_ticket) (JStr (js ''x'')) =
       (st', Inl e) \<and> ownValue (ks_tickets st') (et_ticketId sample_ticket) = Some r \<and> tr_status r = FailedNoEffect)"
proof (intro conjI)
  let ?r = "newRecord sample_lineage sample_ticket sample_zero_charge sample_cid sample_now"
  have zero: "wf_charge sample_zero_charge" "charged_files sample_zero_charge = 1"
      "charged_bytes sample_zero_charge = 40" "charged_runs sample_zero_charge = 0"
    by (simp_all add: wf_charge_def sample_zero_charge_def sample_charge_def safe_int_def MAX_SAFE_INTEGER_def)
  have "sample_register\<lparr>gi_charge := Some sample_zero_charge, gi_now := sample_now\<rparr> =
      sample_register\<lparr>gi_charge := Some sample_zero_charge\<rparr>"
    by (simp add: sample_register_def)
  then show "registerTicket (\<lambda>s. s) (Inr sample_now) sample_activated
      (sample_register\<lparr>gi_charge := Some sample_zero_charge\<rparr>) = (sample_zero, Inr ())"
    using sample_registers_with [OF zero] by (simp add: registerTicket_def publish_def sample_zero_def)
  have own: "ownValue (ks_tickets sample_zero) (et_ticketId sample_ticket) = Some ?r"
    by (simp add: sample_zero_def sample_registered_with_def ownValue_def)
  have isl: "isl (bindE (clonePlainData (\<lambda>s. s) (ticket_record_json r)) f)" if "tr_reservedCharge r = tr_reservedCharge ?r" for r f
    using clone_refused [OF sample_zero_refused [OF that]]
    by (cases "clonePlainData (\<lambda>s. s) (ticket_record_json r)") simp_all
  show "isl (getTicket (\<lambda>s. s) sample_zero (et_ticketId sample_ticket))"
    by (simp add: getTicket_def lookupProperty_def own isl)
  have "\<not> json_ok (\<lambda>s. s) (state_json sample_zero)"
    using sample_zero_refused [of ?r]
    by (simp add: state_json_def jrec_measures dict_json_def sample_zero_def sample_registered_with_def)
  then show "isl (snapshot (\<lambda>s. s) sample_zero)"
    unfolding snapshot_def by (rule clone_refused)
  let ?r' = "failedRecord ?r sample_now (js ''x'')" and ?st = "sample_zero\<lparr>ks_tickets := setOwn (ks_tickets sample_zero)
    (et_ticketId sample_ticket) (failedRecord ?r sample_now (js ''x''))\<rparr>"
  have "canonicalizeJson (\<lambda>s. s) (JStr (js ''x'')) = Inr (render (JStr (js ''x'')))"
    by (simp add: canonicalizeJson_Inr canonicalizable_def json_eval)
  then have step: "failBeforeCommitTransition (\<lambda>s. s) sample_zero \<lparr>fi_ticketId = et_ticketId sample_ticket, fi_now = sample_now,
      fi_reason = JStr (js ''x'')\<rparr> = Inr ?st"
    using own by (simp add: failBeforeCommitTransition_def sample_time optionalReason_def newRecord_def js_def)
  have "isl (requireTicket (\<lambda>s. s) ?st (et_ticketId sample_ticket))"
    using isl [of ?r'] by (simp add: requireTicket_def getTicket_def lookupProperty_def bindE_assoc failedRecord_def)
  then obtain e where "requireTicket (\<lambda>s. s) ?st (et_ticketId sample_ticket) = Inl e"
    by (auto simp: isl_def)
  with step show "\<exists>st' e r. failBeforeCommit (\<lambda>s. s) (Inr sample_now) sample_zero (et_ticketId sample_ticket) (JStr (js ''x'')) =
       (st', Inl e) \<and> ownValue (ks_tickets st') (et_ticketId sample_ticket) = Some r \<and> tr_status r = FailedNoEffect"
    by (intro exI [of _ ?st] exI [of _ e] exI [of _ ?r']) (simp add: failBeforeCommit_def publish_def, simp add: failedRecord_def)
qed

text \<open>Contract ids are UUIDs, so a lineage never has the name of a method of \<open>Object.prototype\<close>; asking for
  one anyway raises a \<open>TypeError\<close> in \<open>getActiveContract\<close> where every other unknown id gives \<open>null\<close>.\<close>

theorem inherited_name_throws:
  "getActiveContract createEmptySafeCodingKernelState (js ''constructor'') = Inl (typeError ''find'') \<and>
   getActiveContract createEmptySafeCodingKernelState (js ''unknown'') = Inr None \<and>
   getBudget nfc createEmptySafeCodingKernelState (js ''constructor'') = Inr None"
  by (simp add: getActiveContract_def getBudget_def lookupProperty_def createEmptySafeCodingKernelState_def
      inheritedFunctions_def js_def)

end
