(* ===== verification/Guardian.thy ===== *)
theory Guardian
  imports Envelope In_Memory_Kernel Procedure
begin

text \<open>
  The Safe Coding Guardian (\<open>clodex-guardian/src/safe-coding-guardian.ts\<close>): it turns a signed contract
  and an action into an Execution Ticket that it registers with the kernel, and rechecks a ticket before
  dispatch.

  The guardian talks to ten ports, several of them twice, and awaits between the calls. Everything
  outside the guardian is one world of an arbitrary type: a port is asked in the current world and answers an
  arbitrary JavaScript value or throws, and after every call \<open>gp_elapse\<close> moves the world on by whatever
  else happened until the guardian resumes. So a port may answer differently each time, and the kernel may
  change between two calls. \<open>gp_registerTicket\<close> is the one port call that changes the world through its
  argument.

  \<open>gp_otherDate\<close> is \<open>Date.parse\<close> on values that are not strings of the canonical timestamp pattern, which the
  language leaves to the implementation in part. Properties are read as own properties of a value.
\<close>

section \<open>Errors and the world\<close>

datatype guardian_reason =
    ActionNotAuthorized | AdapterBindingMismatch | AmbientAuthorityNotDenied | ContractExpired
  | ContractIntegrityMismatch | GuardianContractNotActive | ContractNotYetValid | EffectClassNotAuthorized
  | InvalidAction | MandatoryPolicyDenied | PrincipalMismatch | RegistryBindingMismatch
  | RequestContextMismatch

text \<open>\<open>Passed\<close> is an \<open>Error\<close> of another package that reaches the caller, \<open>ThrownValue\<close> a thrown value that is
  not an \<open>Error\<close>.\<close>

datatype guardian_error =
    SafeCodingGuardianDeniedError (ge_reason: guardian_reason) (ge_message: jstr)
  | Passed kernel_error
  | ThrownValue

abbreviation denied :: "guardian_reason \<Rightarrow> string \<Rightarrow> guardian_error" where
  "denied reason message \<equiv> SafeCodingGuardianDeniedError reason (js message)"

definition passContract :: "contract_error + 'a \<Rightarrow> guardian_error + 'a" where
  "passContract m = catchE m (\<lambda>e. Passed (OtherError (error_message e)))"

definition errorText :: "guardian_error \<Rightarrow> jstr option" where
  "errorText e = (case e of SafeCodingGuardianDeniedError _ m \<Rightarrow> Some m | Passed k \<Rightarrow> Some (ke_message k) | ThrownValue \<Rightarrow> None)"

type_synonym ('w, 'a) proc = "(guardian_error, 'w, 'a) procedure"

section \<open>Data\<close>

record caller_context =
  cc_principalId :: jstr
  cc_instanceId :: jstr
  cc_guardianId :: jstr
  cc_executorId :: jstr
  cc_runtimeEpoch :: jnum
  cc_taskId :: jstr
  cc_workspaceId :: jstr

text \<open>The guardian's own snapshot of the active contract keeps the epoch as the number it was given.\<close>

record guardian_snapshot =
  gs_contractId :: jstr
  gs_contractHash :: jstr
  gs_revision :: int
  gs_revocationEpoch :: jnum
  gs_status :: contract_status

record adapter_binding =
  ab_action :: jstr
  ab_policyDigest :: jstr
  ab_adapterId :: jstr
  ab_adapterDigest :: jstr
  ab_adapterRegistryDigest :: jstr
  ab_runnerRegistryDigest :: jstr
  ab_effectRegistryDigest :: jstr
  ab_effectClass :: effect_class

record prepared_action =
  pa_resolvedObjectId :: jstr
  pa_stateCommitmentHash :: jstr

record ticket_registration =
  rg_ticket :: execution_ticket
  rg_expectedActive :: guardian_snapshot
  rg_limits :: authority_limits
  rg_charge :: kernel_charge

record policy_query =
  pq_contractHash :: jstr
  pq_contractRevision :: int
  pq_action :: safe_coding_action
  pq_caller :: caller_context

record policy_decision =
  pd_allowed :: bool
  pd_reason :: "jstr option"

record 'w guardian_ports =
  gp_elapse :: "'w \<Rightarrow> 'w"
  gp_otherDate :: "jsval \<Rightarrow> int option"
  gp_sha256 :: "'w \<Rightarrow> hash_port"
  gp_resolveTrustedSigner :: "'w \<Rightarrow> resolve_port"
  gp_verify :: "'w \<Rightarrow> verify_port"
  gp_assertTrusted :: "'w \<Rightarrow> assert_port"
  gp_getActiveContract :: "jstr \<Rightarrow> 'w \<Rightarrow> guardian_error + jsval"
  gp_registerTicket :: "ticket_registration \<Rightarrow> ('w, unit) proc"
  gp_nextTicketId :: "'w \<Rightarrow> guardian_error + jsval"
  gp_nextReservationId :: "'w \<Rightarrow> guardian_error + jsval"
  gp_nextNonce :: "'w \<Rightarrow> guardian_error + jsval"
  gp_now :: "'w \<Rightarrow> guardian_error + jsval"
  gp_authenticate :: "'w \<Rightarrow> guardian_error + jsval"
  gp_evaluate :: "policy_query \<Rightarrow> 'w \<Rightarrow> guardian_error + jsval"
  gp_resolve :: "safe_coding_action \<Rightarrow> 'w \<Rightarrow> guardian_error + jsval"
  gp_prepare :: "safe_coding_action \<Rightarrow> adapter_binding \<Rightarrow> 'w \<Rightarrow> guardian_error + jsval"
  gp_assertCurrent :: "execution_ticket \<Rightarrow> safe_coding_action \<Rightarrow> 'w \<Rightarrow> guardian_error + jsval"
  gp_acceptedRootRoles :: jsval
  gp_ticketTtlMs :: int

definition callP :: "'w guardian_ports \<Rightarrow> ('w \<Rightarrow> guardian_error + 'a) \<Rightarrow> ('w, 'a) proc" where
  "callP ports ask w = (ask w, gp_elapse ports w)"

definition ARGUMENT_HASH_DOMAIN :: string where
  "ARGUMENT_HASH_DOMAIN = ''clodex.safe-coding.arguments.v1''"

definition DEFAULT_TICKET_TTL_MS :: int where
  "DEFAULT_TICKET_TTL_MS = 30000"

definition MAX_TICKET_TTL_MS :: int where
  "MAX_TICKET_TTL_MS = 300000"

section \<open>Snapshots of port answers\<close>

definition readField :: "jsval \<Rightarrow> string \<Rightarrow> jsval" where
  "readField value key = (case value of JObj _ fs \<Rightarrow> getProp fs key | _ \<Rightarrow> JUndefined)"

definition isObject :: "jsval \<Rightarrow> bool" where
  "isObject value = (case value of JObj _ _ \<Rightarrow> True | JArr _ _ \<Rightarrow> True | _ \<Rightarrow> False)"

definition isTruthy :: "jsval \<Rightarrow> bool" where
  "isTruthy value =
     (value \<noteq> JUndefined \<and> value \<noteq> JNull \<and> value \<noteq> JBool False \<and> value \<noteq> JNum (JInt 0) \<and> value \<noteq> JNum JNegZero \<and>
      value \<noteq> JStr [])"

definition isIdentifier :: "jsval \<Rightarrow> bool" where
  "isIdentifier value = (case value of JStr s \<Rightarrow> IDENTIFIER_PATTERN s | _ \<Rightarrow> False)"

text \<open>\<open>SHA256_PATTERN.test(value)\<close> converts its argument to a string, so it also passes an array of one
  digest. The model refuses such an array at once, the code a little later: it equals no digest it is
  compared with, and the ticket validator refuses it.\<close>

definition isDigest :: "jsval \<Rightarrow> bool" where
  "isDigest value = (case value of JStr s \<Rightarrow> SHA256_PATTERN s | _ \<Rightarrow> False)"

fun stringOf :: "jsval \<Rightarrow> jstr" where
  "stringOf (JStr s) = s"
| "stringOf _ = []"

fun numberOf :: "jsval \<Rightarrow> jnum" where
  "numberOf (JNum n) = n"
| "numberOf _ = JFrac"

definition snapshotCaller :: "jsval \<Rightarrow> guardian_error + caller_context" where
  "snapshotCaller value =
     bindE (guardE (\<not> (\<not> isTruthy value \<or> \<not> isObject value \<or>
         \<not> isIdentifier (readField value ''principalId'') \<or> \<not> isIdentifier (readField value ''instanceId'') \<or>
         \<not> isIdentifier (readField value ''guardianId'') \<or> \<not> isIdentifier (readField value ''executorId'') \<or>
         \<not> isSafeInteger (numberOf (readField value ''runtimeEpoch'')) \<or>
         numInt (numberOf (readField value ''runtimeEpoch'')) < 0 \<or>
         \<not> isIdentifier (readField value ''taskId'') \<or> \<not> isIdentifier (readField value ''workspaceId'')))
       (denied PrincipalMismatch ''Trusted identity port returned an invalid caller context'')) (\<lambda>_.
     Inr \<lparr>cc_principalId = stringOf (readField value ''principalId''),
          cc_instanceId = stringOf (readField value ''instanceId''),
          cc_guardianId = stringOf (readField value ''guardianId''),
          cc_executorId = stringOf (readField value ''executorId''),
          cc_runtimeEpoch = numberOf (readField value ''runtimeEpoch''),
          cc_taskId = stringOf (readField value ''taskId''),
          cc_workspaceId = stringOf (readField value ''workspaceId'')\<rparr>)"

definition statusOf :: "jsval \<Rightarrow> contract_status option" where
  "statusOf value =
     (case value of JStr s \<Rightarrow> map_option snd (List.find (\<lambda>(name, _). js name = s) contractStatuses) | _ \<Rightarrow> None)"

definition snapshotActiveContract :: "jsval \<Rightarrow> guardian_error + guardian_snapshot option" where
  "snapshotActiveContract value =
     (if value = JNull then Inr None
      else
        let invalid = denied GuardianContractNotActive ''Kernel returned an invalid active-contract snapshot'';
            revision = numberOf (readField value ''revision'');
            revocationEpoch = numberOf (readField value ''revocationEpoch'') in
        bindE (guardE (\<not> (\<not> isObject value \<or> \<not> isIdentifier (readField value ''contractId'') \<or>
            \<not> isDigest (readField value ''contractHash'') \<or>
            \<not> isSafeInteger revision \<or> numInt revision \<le> 0 \<or>
            \<not> isSafeInteger revocationEpoch \<or> numInt revocationEpoch < 0)) invalid) (\<lambda>_.
        (case statusOf (readField value ''status'') of
           None \<Rightarrow> Inl invalid
         | Some status \<Rightarrow>
             Inr (Some \<lparr>gs_contractId = stringOf (readField value ''contractId''),
               gs_contractHash = stringOf (readField value ''contractHash''), gs_revision = numInt revision,
               gs_revocationEpoch = revocationEpoch, gs_status = status\<rparr>))))"

definition effectClassOf :: "jsval \<Rightarrow> effect_class option" where
  "effectClassOf value =
     (case value of JStr s \<Rightarrow> map_option snd (List.find (\<lambda>(name, _). js name = s) effectClasses) | _ \<Rightarrow> None)"

definition snapshotAdapterBinding :: "jsval \<Rightarrow> guardian_error + adapter_binding" where
  "snapshotAdapterBinding value =
     (let invalid = denied AdapterBindingMismatch ''Trusted adapter registry returned an invalid binding'' in
      bindE (guardE (\<not> (\<not> isTruthy value \<or> \<not> isObject value \<or> \<not> isIdentifier (readField value ''action'') \<or>
          \<not> isDigest (readField value ''policyDigest'') \<or> \<not> isIdentifier (readField value ''adapterId'') \<or>
          \<not> isDigest (readField value ''adapterDigest'') \<or> \<not> isDigest (readField value ''adapterRegistryDigest'') \<or>
          \<not> isDigest (readField value ''runnerRegistryDigest'') \<or>
          \<not> isDigest (readField value ''effectRegistryDigest''))) invalid) (\<lambda>_.
      (case effectClassOf (readField value ''effectClass'') of
         None \<Rightarrow> Inl invalid
       | Some effectClass \<Rightarrow>
           Inr \<lparr>ab_action = stringOf (readField value ''action''),
                ab_policyDigest = stringOf (readField value ''policyDigest''),
                ab_adapterId = stringOf (readField value ''adapterId''),
                ab_adapterDigest = stringOf (readField value ''adapterDigest''),
                ab_adapterRegistryDigest = stringOf (readField value ''adapterRegistryDigest''),
                ab_runnerRegistryDigest = stringOf (readField value ''runnerRegistryDigest''),
                ab_effectRegistryDigest = stringOf (readField value ''effectRegistryDigest''),
                ab_effectClass = effectClass\<rparr>)))"

definition snapshotPreparedAction :: "jsval \<Rightarrow> guardian_error + prepared_action" where
  "snapshotPreparedAction value =
     bindE (guardE (\<not> (\<not> isTruthy value \<or> \<not> isObject value \<or> \<not> isIdentifier (readField value ''resolvedObjectId'') \<or>
         \<not> isDigest (readField value ''stateCommitmentHash'')))
       (denied AdapterBindingMismatch ''Trusted PREPARE returned an invalid object or state commitment'')) (\<lambda>_.
     Inr \<lparr>pa_resolvedObjectId = stringOf (readField value ''resolvedObjectId''),
          pa_stateCommitmentHash = stringOf (readField value ''stateCommitmentHash'')\<rparr>)"

definition snapshotMandatoryDecision :: "jsval \<Rightarrow> guardian_error + policy_decision" where
  "snapshotMandatoryDecision value =
     (let plain = (\<lambda>message. Inl (Passed (OtherError (js message)))) in
      if \<not> isTruthy value \<or> \<not> isObject value then plain ''Mandatory policy returned an invalid decision''
      else case readField value ''allowed'' of
        JBool allowed \<Rightarrow>
          (case readField value ''reason'' of
             JUndefined \<Rightarrow> Inr \<lparr>pd_allowed = allowed, pd_reason = None\<rparr>
           | JStr reason \<Rightarrow>
               if length reason > 1024 then plain ''Mandatory policy returned an invalid reason''
               else Inr \<lparr>pd_allowed = allowed, pd_reason = Some reason\<rparr>
           | _ \<Rightarrow> plain ''Mandatory policy returned an invalid reason'')
      | _ \<Rightarrow> plain ''Mandatory policy returned an invalid decision'')"

section \<open>Checks\<close>

definition parseTimestamp :: "'w guardian_ports \<Rightarrow> jsval \<Rightarrow> string \<Rightarrow> guardian_error + int" where
  "parseTimestamp ports value label =
     (case (case value of JStr s \<Rightarrow> if TIMESTAMP_PATTERN s then dateParse s else gp_otherDate ports value
            | _ \<Rightarrow> gp_otherDate ports value) of
        None \<Rightarrow> Inl (denied InvalidAction (label @ '' is not a valid timestamp''))
      | Some parsed \<Rightarrow> Inr parsed)"

definition canonicalTimestamp_guardian :: "int \<Rightarrow> jstr" where
  "canonicalTimestamp_guardian value = canonicalIso (toISOString value)"

definition parseAction :: "(jstr \<Rightarrow> jstr) \<Rightarrow> jsval \<Rightarrow> guardian_error + safe_coding_action" where
  "parseAction nfc value =
     catchE (validateSafeCodingAction nfc value)
       (\<lambda>error. SafeCodingGuardianDeniedError InvalidAction (error_message error))"

definition assertContractTime :: "'w guardian_ports \<Rightarrow> intent_contract \<Rightarrow> int \<Rightarrow> guardian_error + unit" where
  "assertContractTime ports contract nowMs =
     bindE (parseTimestamp ports (JStr (vld_notBefore (ic_validity contract))) ''notBefore'') (\<lambda>notBefore.
     bindE (guardE (\<not> nowMs < notBefore)
       (denied ContractNotYetValid ''Intent contract is not active yet'')) (\<lambda>_.
     bindE (parseTimestamp ports (JStr (vld_expiresAt (ic_validity contract))) ''expiresAt'') (\<lambda>expiresAt.
     guardE (\<not> nowMs \<ge> expiresAt) (denied ContractExpired ''Intent contract has expired''))))"

definition assertCallerMatches :: "intent_contract \<Rightarrow> caller_context \<Rightarrow> guardian_error + unit" where
  "assertCallerMatches contract caller =
     bindE (guardE (\<not> (sub_principalId (ic_subject contract) \<noteq> cc_principalId caller \<or>
         sub_instanceId (ic_subject contract) \<noteq> cc_instanceId caller))
       (denied PrincipalMismatch ''Caller principal does not match the intent contract subject'')) (\<lambda>_.
     guardE (\<not> (aud_guardianId (ic_audience contract) \<noteq> cc_guardianId caller \<or>
         aud_executorId (ic_audience contract) \<noteq> cc_executorId caller \<or>
         aud_runtimeEpoch (ic_audience contract) \<noteq> numInt (cc_runtimeEpoch caller) \<or>
         aud_taskId (ic_audience contract) \<noteq> cc_taskId caller \<or>
         aud_workspaceId (ic_audience contract) \<noteq> cc_workspaceId caller))
       (denied RequestContextMismatch
         ''Caller execution context does not match the intent contract audience''))"

definition caller_json :: "caller_context \<Rightarrow> jsval" where
  "caller_json c = jrec
     [(''principalId'', JStr (cc_principalId c)), (''instanceId'', JStr (cc_instanceId c)),
      (''guardianId'', JStr (cc_guardianId c)), (''executorId'', JStr (cc_executorId c)),
      (''runtimeEpoch'', JNum (cc_runtimeEpoch c)), (''taskId'', JStr (cc_taskId c)),
      (''workspaceId'', JStr (cc_workspaceId c))]"

definition assertSameCaller :: "(jstr \<Rightarrow> jstr) \<Rightarrow> caller_context \<Rightarrow> caller_context \<Rightarrow> guardian_error + unit" where
  "assertSameCaller nfc expected actual =
     bindE (passContract (canonicalizeJson nfc (caller_json expected))) (\<lambda>a.
     bindE (passContract (canonicalizeJson nfc (caller_json actual))) (\<lambda>b.
     guardE (\<not> a \<noteq> b)
       (denied RequestContextMismatch ''Authenticated caller changed during ticket issuance'')))"

definition assertTicketCallerMatches :: "execution_ticket \<Rightarrow> caller_context \<Rightarrow> guardian_error + unit" where
  "assertTicketCallerMatches ticket caller =
     bindE (guardE (\<not> (sub_principalId (et_subject ticket) \<noteq> cc_principalId caller \<or>
         sub_instanceId (et_subject ticket) \<noteq> cc_instanceId caller))
       (denied PrincipalMismatch ''Authenticated caller does not match the Execution Ticket subject'')) (\<lambda>_.
     guardE (\<not> (aud_guardianId (et_audience ticket) \<noteq> cc_guardianId caller \<or>
         aud_executorId (et_audience ticket) \<noteq> cc_executorId caller \<or>
         aud_runtimeEpoch (et_audience ticket) \<noteq> numInt (cc_runtimeEpoch caller) \<or>
         aud_taskId (et_audience ticket) \<noteq> cc_taskId caller \<or>
         aud_workspaceId (et_audience ticket) \<noteq> cc_workspaceId caller))
       (denied RequestContextMismatch
         ''Authenticated execution context does not match the Execution Ticket''))"

definition assertAmbientAuthorityDenied :: "intent_contract \<Rightarrow> guardian_error + unit" where
  "assertAmbientAuthorityDenied contract =
     (let ambient = au_ambientAuthority (ic_authority contract) in
      guardE (\<not> (amb_network ambient \<or> amb_secrets ambient \<or> amb_shell ambient \<or> amb_delete ambient \<or>
          amb_gitCommit ambient \<or> amb_gitPush ambient))
        (denied AmbientAuthorityNotDenied
          ''The first safe-coding slice requires every ambient authority to be denied''))"

fun someE :: "('a \<Rightarrow> 'e + bool) \<Rightarrow> 'a list \<Rightarrow> 'e + bool" where
  "someE test [] = Inr False"
| "someE test (x # xs) = bindE (test x) (\<lambda>found. if found then Inr True else someE test xs)"

definition isFilesystemAction :: "safe_coding_action \<Rightarrow> bool" where
  "isFilesystemAction action = (take 11 (actionKindName (kindOf action)) = ''filesystem.'')"

definition assertActionAuthorized ::
  "(jstr \<Rightarrow> jstr) \<Rightarrow> intent_contract \<Rightarrow> safe_coding_action \<Rightarrow> guardian_error + unit" where
  "assertActionAuthorized nfc contract action =
     (let kind = js (actionKindName (kindOf action)); authority = ic_authority contract in
      bindE (if isFilesystemAction action then
               someE (\<lambda>permission.
                 if spelling fsActions (fp_action permission) = kind
                 then passContract (resourceSelectorCovers nfc (selector_json (fp_selector permission))
                   (selector_json (act_selector action)))
                 else Inr False) (au_filesystem authority)
             else if kindOf action = KindGitStatus \<or> kindOf action = KindGitDiff then
               Inr (list_ex (\<lambda>permission. spelling gitActions (gp_action permission) = kind) (au_git authority))
             else if kindOf action = KindTestRun then
               Inr (act_profileId action \<in> set (au_testProfiles authority))
             else Inr False) (\<lambda>authorized.
      guardE authorized
        (denied ActionNotAuthorized ''Action is outside the approved intent contract authority'')))"

definition assertAdapterBinding ::
  "intent_contract \<Rightarrow> safe_coding_action \<Rightarrow> adapter_binding \<Rightarrow> guardian_error + unit" where
  "assertAdapterBinding contract action adapter =
     bindE (guardE (\<not> (ab_policyDigest adapter \<noteq> bnd_policyDigest (ic_bindings contract) \<or>
         ab_adapterRegistryDigest adapter \<noteq> bnd_adapterRegistryDigest (ic_bindings contract) \<or>
         ab_runnerRegistryDigest adapter \<noteq> bnd_runnerRegistryDigest (ic_bindings contract) \<or>
         ab_effectRegistryDigest adapter \<noteq> bnd_effectRegistryDigest (ic_bindings contract)))
       (denied RegistryBindingMismatch ''Trusted registry binding does not match the reviewed contract'')) (\<lambda>_.
     bindE (guardE (\<not> ab_action adapter \<noteq> js (actionKindName (kindOf action)))
       (denied AdapterBindingMismatch ''Trusted adapter is not registered for the requested operation'')) (\<lambda>_.
     guardE (\<not> ab_effectClass adapter \<notin> set (au_allowedEffectClasses (ic_authority contract)))
       (denied EffectClassNotAuthorized ''Trusted effect class is outside the reviewed contract authority'')))"

definition adapter_json :: "adapter_binding \<Rightarrow> jsval" where
  "adapter_json a = jrec
     [(''action'', JStr (ab_action a)), (''policyDigest'', JStr (ab_policyDigest a)),
      (''adapterId'', JStr (ab_adapterId a)), (''adapterDigest'', JStr (ab_adapterDigest a)),
      (''adapterRegistryDigest'', JStr (ab_adapterRegistryDigest a)),
      (''runnerRegistryDigest'', JStr (ab_runnerRegistryDigest a)),
      (''effectRegistryDigest'', JStr (ab_effectRegistryDigest a)),
      (''effectClass'', JStr (spelling effectClasses (ab_effectClass a)))]"

definition assertSameAdapterBinding ::
  "(jstr \<Rightarrow> jstr) \<Rightarrow> adapter_binding \<Rightarrow> adapter_binding \<Rightarrow> guardian_error + unit" where
  "assertSameAdapterBinding nfc expected actual =
     bindE (passContract (canonicalizeJson nfc (adapter_json expected))) (\<lambda>a.
     bindE (passContract (canonicalizeJson nfc (adapter_json actual))) (\<lambda>b.
     guardE (\<not> a \<noteq> b)
       (denied AdapterBindingMismatch ''Trusted adapter binding changed during ticket issuance'')))"

definition assertActiveContract ::
  "verified_contract \<Rightarrow> guardian_snapshot option \<Rightarrow> guardian_error + guardian_snapshot" where
  "assertActiveContract verified active =
     (let stale = denied GuardianContractNotActive
        ''Intent contract is revoked, superseded, missing, or not the exact active revision''
      in case active of
        None \<Rightarrow> Inl stale
      | Some found \<Rightarrow>
          bindE (guardE (\<not> (gs_status found \<noteq> Active \<or>
              gs_contractId found \<noteq> ic_contractId (vc_contract verified) \<or>
              gs_contractHash found \<noteq> vc_contractHash verified \<or>
              gs_revision found \<noteq> ic_revision (vc_contract verified))) stale) (\<lambda>_. Inr found))"

fun budgetChargeFor :: "safe_coding_action \<Rightarrow> kernel_charge" where
  "budgetChargeFor (CreateAction _ _ _ contentBytes) =
     \<lparr>kc_uniqueModifiedFiles = JInt 1, kc_mutationBytes = JInt contentBytes, kc_testRuns = JInt 0\<rparr>"
| "budgetChargeFor (ReplaceAction _ _ _ _ contentBytes) =
     \<lparr>kc_uniqueModifiedFiles = JInt 1, kc_mutationBytes = JInt contentBytes, kc_testRuns = JInt 0\<rparr>"
| "budgetChargeFor (MkdirAction _ _) =
     \<lparr>kc_uniqueModifiedFiles = JInt 1, kc_mutationBytes = JInt 0, kc_testRuns = JInt 0\<rparr>"
| "budgetChargeFor (TestRunAction _ _) =
     \<lparr>kc_uniqueModifiedFiles = JInt 0, kc_mutationBytes = JInt 0, kc_testRuns = JInt 1\<rparr>"
| "budgetChargeFor _ = \<lparr>kc_uniqueModifiedFiles = JInt 0, kc_mutationBytes = JInt 0, kc_testRuns = JInt 0\<rparr>"

definition assertTicketTtl :: "jsval \<Rightarrow> guardian_error + int" where
  "assertTicketTtl value =
     bindE (guardE (\<not> (\<not> isSafeInteger (numberOf value) \<or> numInt (numberOf value) \<le> 0 \<or>
         numInt (numberOf value) > MAX_TICKET_TTL_MS))
       (denied InvalidAction ''Execution ticket TTL must be between 1 ms and 5 minutes'')) (\<lambda>_.
     Inr (numInt (numberOf value)))"

section \<open>Construction\<close>

text \<open>The dependencies object as the constructor sees it: each dependency is an own property, each port an
  object whose method is looked up along its prototype chain (see \<open>Envelope\<close>).\<close>

record 'w signatures_object =
  so_resolveTrustedSigner :: "('w \<Rightarrow> resolve_port) method_chain"
  so_verify :: "('w \<Rightarrow> verify_port) method_chain"
  so_assertTrusted :: "('w \<Rightarrow> assert_port) method_chain"

record 'w state_object =
  so_getActiveContract :: "(jstr \<Rightarrow> 'w \<Rightarrow> guardian_error + jsval) method_chain"
  so_registerTicket :: "(ticket_registration \<Rightarrow> ('w, unit) proc) method_chain"

record 'w ids_object =
  so_nextTicketId :: "('w \<Rightarrow> guardian_error + jsval) method_chain"
  so_nextReservationId :: "('w \<Rightarrow> guardian_error + jsval) method_chain"
  so_nextNonce :: "('w \<Rightarrow> guardian_error + jsval) method_chain"

record 'w guardian_dependencies =
  gd_hash :: "('w \<Rightarrow> hash_port) method_chain option own_property"
  gd_signatures :: "'w signatures_object option own_property"
  gd_state :: "'w state_object option own_property"
  gd_ids :: "'w ids_object option own_property"
  gd_clock :: "('w \<Rightarrow> guardian_error + jsval) method_chain option own_property"
  gd_identity :: "('w \<Rightarrow> guardian_error + jsval) method_chain option own_property"
  gd_mandatoryPolicy :: "(policy_query \<Rightarrow> 'w \<Rightarrow> guardian_error + jsval) method_chain option own_property"
  gd_adapters :: "(safe_coding_action \<Rightarrow> 'w \<Rightarrow> guardian_error + jsval) method_chain option own_property"
  gd_prepare :: "(safe_coding_action \<Rightarrow> adapter_binding \<Rightarrow> 'w \<Rightarrow> guardian_error + jsval) method_chain option own_property"
  gd_finalAuthority :: "(execution_ticket \<Rightarrow> safe_coding_action \<Rightarrow> 'w \<Rightarrow> guardian_error + jsval) method_chain option own_property"
  gd_acceptedRootRoles :: "jsval own_property"
  gd_ticketTtlMs :: "jsval own_property"

definition dependencyError :: "string \<Rightarrow> guardian_error" where
  "dependencyError message = denied InvalidAction message"

definition readOwnDataProperty_guardian :: "'a own_property \<Rightarrow> string \<Rightarrow> guardian_error + 'a" where
  "readOwnDataProperty_guardian property key =
     (case property of DataProperty x \<Rightarrow> Inr x
      | _ \<Rightarrow> Inl (dependencyError (''Guardian dependency '' @ key @ '' must be an own data property'')))"

definition readOptionalOwnDataProperty_guardian :: "jsval own_property \<Rightarrow> string \<Rightarrow> guardian_error + jsval" where
  "readOptionalOwnDataProperty_guardian property key =
     (case property of DataProperty x \<Rightarrow> Inr x | AbsentProperty \<Rightarrow> Inr JUndefined
      | AccessorProperty \<Rightarrow> Inl (dependencyError (''Guardian dependency '' @ key @ '' must be an own data property'')))"

fun findPortMethod :: "'f method_chain \<Rightarrow> string \<Rightarrow> string \<Rightarrow> guardian_error + 'f" where
  "findPortMethod [] name label = Inl (dependencyError (label @ '' must provide '' @ name @ ''()''))"
| "findPortMethod (None # chain) name label = findPortMethod chain name label"
| "findPortMethod (Some (MethodValue f) # chain) name label = Inr f"
| "findPortMethod (Some OtherDescriptor # chain) name label =
     Inl (dependencyError (label @ '' '' @ name @ '' must be a data method''))"

definition pinPortMethod_guardian :: "'f method_chain option \<Rightarrow> string \<Rightarrow> string \<Rightarrow> guardian_error + 'f" where
  "pinPortMethod_guardian port name label =
     (case port of None \<Rightarrow> Inl (dependencyError (label @ '' is missing'')) | Some chain \<Rightarrow> findPortMethod chain name label)"

fun snapshotRoles :: "jsval list \<Rightarrow> jsval list \<Rightarrow> guardian_error + jsval list" where
  "snapshotRoles [] found = Inr found"
| "snapshotRoles (role # roles) found =
     bindE (guardE (role \<noteq> JAccessor)
       (dependencyError ''Accepted root roles must contain only data elements'')) (\<lambda>_.
     bindE (guardE (role = JStr (js ''human-authorizer'') \<or> role = JStr (js ''policy-authorizer''))
       (dependencyError ''Accepted root role is unsupported'')) (\<lambda>_.
     bindE (guardE (role \<notin> set found) (dependencyError ''Accepted root roles must be unique'')) (\<lambda>_.
     snapshotRoles roles (found @ [role]))))"

definition snapshotAcceptedRootRoles :: "jsval \<Rightarrow> guardian_error + jsval" where
  "snapshotAcceptedRootRoles roles =
     (case roles of
        JUndefined \<Rightarrow> Inr JUndefined
      | JArr sh xs \<Rightarrow>
          bindE (guardE (\<not> (foreignPrototype sh \<or> symbolKeys sh \<or> length xs > 2))
            (dependencyError ''Accepted root roles must be a closed dense array'')) (\<lambda>_.
          bindE (guardE (\<not> hiddenFields sh)
            (dependencyError ''Accepted root roles must not have extra fields'')) (\<lambda>_.
          bindE (snapshotRoles xs []) (\<lambda>found. Inr (jarr found))))
      | _ \<Rightarrow> Inl (dependencyError ''Accepted root roles must be a closed dense array''))"

definition snapshotDependencies ::
  "('w \<Rightarrow> 'w) \<Rightarrow> (jsval \<Rightarrow> int option) \<Rightarrow> 'w guardian_dependencies \<Rightarrow> int \<Rightarrow> guardian_error + 'w guardian_ports" where
  "snapshotDependencies elapse otherDate dependencies ticketTtlMs =
     bindE (readOwnDataProperty_guardian (gd_hash dependencies) ''hash'') (\<lambda>hash.
     bindE (readOwnDataProperty_guardian (gd_signatures dependencies) ''signatures'') (\<lambda>signatures.
     bindE (readOwnDataProperty_guardian (gd_state dependencies) ''state'') (\<lambda>state.
     bindE (readOwnDataProperty_guardian (gd_ids dependencies) ''ids'') (\<lambda>ids.
     bindE (readOwnDataProperty_guardian (gd_clock dependencies) ''clock'') (\<lambda>clock.
     bindE (readOwnDataProperty_guardian (gd_identity dependencies) ''identity'') (\<lambda>identity.
     bindE (readOwnDataProperty_guardian (gd_mandatoryPolicy dependencies) ''mandatoryPolicy'') (\<lambda>mandatoryPolicy.
     bindE (readOwnDataProperty_guardian (gd_adapters dependencies) ''adapters'') (\<lambda>adapters.
     bindE (readOwnDataProperty_guardian (gd_prepare dependencies) ''prepare'') (\<lambda>prepare.
     bindE (readOwnDataProperty_guardian (gd_finalAuthority dependencies) ''finalAuthority'') (\<lambda>finalAuthority.
     bindE (readOptionalOwnDataProperty_guardian (gd_acceptedRootRoles dependencies) ''acceptedRootRoles'') (\<lambda>acceptedRootRoles.
     bindE (pinPortMethod_guardian hash ''sha256'' ''Hash port'') (\<lambda>sha256.
     bindE (pinPortMethod_guardian (map_option so_resolveTrustedSigner signatures) ''resolveTrustedSigner''
       ''Signature verifier'') (\<lambda>resolveTrustedSigner.
     bindE (pinPortMethod_guardian (map_option so_verify signatures) ''verify'' ''Signature verifier'') (\<lambda>verify.
     bindE (pinPortMethod_guardian (map_option so_assertTrusted signatures) ''assertTrusted''
       ''Signature verifier'') (\<lambda>assertTrusted.
     bindE (pinPortMethod_guardian (map_option so_getActiveContract state) ''getActiveContract''
       ''Guardian state port'') (\<lambda>getActive.
     bindE (pinPortMethod_guardian (map_option so_registerTicket state) ''registerTicket''
       ''Guardian state port'') (\<lambda>register.
     bindE (pinPortMethod_guardian (map_option so_nextTicketId ids) ''nextTicketId'' ''Guardian ID port'') (\<lambda>nextTicketId.
     bindE (pinPortMethod_guardian (map_option so_nextReservationId ids) ''nextReservationId'' ''Guardian ID port'') (\<lambda>nextReservationId.
     bindE (pinPortMethod_guardian (map_option so_nextNonce ids) ''nextNonce'' ''Guardian ID port'') (\<lambda>nextNonce.
     bindE (pinPortMethod_guardian clock ''now'' ''Guardian clock port'') (\<lambda>now.
     bindE (pinPortMethod_guardian identity ''authenticate'' ''Guardian identity port'') (\<lambda>authenticate.
     bindE (pinPortMethod_guardian mandatoryPolicy ''evaluate'' ''Mandatory policy port'') (\<lambda>evaluate.
     bindE (pinPortMethod_guardian adapters ''resolve'' ''Adapter registry port'') (\<lambda>resolve.
     bindE (pinPortMethod_guardian prepare ''prepare'' ''Guardian PREPARE port'') (\<lambda>preparePort.
     bindE (pinPortMethod_guardian finalAuthority ''assertCurrent'' ''Final authority port'') (\<lambda>assertCurrent.
     bindE (snapshotAcceptedRootRoles acceptedRootRoles) (\<lambda>roles.
     Inr \<lparr>gp_elapse = elapse, gp_otherDate = otherDate, gp_sha256 = sha256,
          gp_resolveTrustedSigner = resolveTrustedSigner, gp_verify = verify, gp_assertTrusted = assertTrusted,
          gp_getActiveContract = getActive, gp_registerTicket = register, gp_nextTicketId = nextTicketId,
          gp_nextReservationId = nextReservationId, gp_nextNonce = nextNonce, gp_now = now,
          gp_authenticate = authenticate, gp_evaluate = evaluate, gp_resolve = resolve,
          gp_prepare = preparePort, gp_assertCurrent = assertCurrent, gp_acceptedRootRoles = roles,
          gp_ticketTtlMs = ticketTtlMs\<rparr>)))))))))))))))))))))))))))"

definition newGuardian ::
  "('w \<Rightarrow> 'w) \<Rightarrow> (jsval \<Rightarrow> int option) \<Rightarrow> 'w guardian_dependencies \<Rightarrow> guardian_error + 'w guardian_ports" where
  "newGuardian elapse otherDate dependencies =
     bindE (readOptionalOwnDataProperty_guardian (gd_ticketTtlMs dependencies) ''ticketTtlMs'') (\<lambda>given.
     bindE (assertTicketTtl (if given = JUndefined \<or> given = JNull then jint DEFAULT_TICKET_TTL_MS else given)) (\<lambda>ticketTtlMs.
     snapshotDependencies elapse otherDate dependencies ticketTtlMs))"

section \<open>Issuing a ticket\<close>

definition verificationDependencies :: "'w guardian_ports \<Rightarrow> 'w \<Rightarrow> verification_dependencies" where
  "verificationDependencies ports w =
     \<lparr>dep_hash = DataProperty (Some [Some (MethodValue (gp_sha256 ports w))]),
      dep_signatures = DataProperty (Some \<lparr>sp_isFunction = False,
        sp_resolveTrustedSigner = [Some (MethodValue (gp_resolveTrustedSigner ports w))],
        sp_verify = [Some (MethodValue (gp_verify ports w))],
        sp_assertTrusted = [Some (MethodValue (gp_assertTrusted ports w))]\<rparr>),
      dep_acceptedRootRoles = DataProperty (gp_acceptedRootRoles ports)\<rparr>"

definition validateVerifiedContract_guardian ::
  "(jstr \<Rightarrow> jstr) \<Rightarrow> 'w guardian_ports \<Rightarrow> verified_contract \<Rightarrow> ('w, intent_contract) proc" where
  "validateVerifiedContract_guardian nfc ports verified =
     bindP (pureP (catchE (validateSafeCodingIntentContract nfc (contract_json (vc_contract verified)))
       (\<lambda>error. SafeCodingGuardianDeniedError ContractIntegrityMismatch (error_message error)))) (\<lambda>contract.
     bindP (pureP (passContract (canonicalizeJson nfc (contract_json contract)))) (\<lambda>canonicalPayload.
     bindP (callP ports (\<lambda>w. passContract
       (hashIntentContract nfc (contract_json contract) (hashObject (gp_sha256 ports w))))) (\<lambda>contractHash.
     bindP (pureP (guardE (\<not> (canonicalPayload \<noteq> vc_canonicalPayload verified \<or>
         contractHash \<noteq> vc_contractHash verified))
       (denied ContractIntegrityMismatch
         ''Verified contract bytes or hash do not match the supplied authority''))) (\<lambda>_.
     pureP (Inr contract)))))"

definition evaluatePolicy ::
  "'w guardian_ports \<Rightarrow> policy_query \<Rightarrow> string \<Rightarrow> ('w, unit) proc" where
  "evaluatePolicy ports query refusal =
     bindP (callP ports (\<lambda>w.
       catchE (bindE (gp_evaluate ports query w) snapshotMandatoryDecision)
         (\<lambda>error. SafeCodingGuardianDeniedError MandatoryPolicyDenied
           (case errorText error of
              Some message \<Rightarrow> js ''Mandatory policy evaluation failed: '' @ message
            | None \<Rightarrow> js ''Mandatory policy evaluation failed'')))) (\<lambda>decision.
     pureP (guardE (pd_allowed decision)
       (SafeCodingGuardianDeniedError MandatoryPolicyDenied
         (case pd_reason decision of Some reason \<Rightarrow> reason | None \<Rightarrow> js refusal))))"

definition assertMandatoryPolicy ::
  "'w guardian_ports \<Rightarrow> verified_contract \<Rightarrow> safe_coding_action \<Rightarrow> caller_context \<Rightarrow> ('w, unit) proc" where
  "assertMandatoryPolicy ports verified action caller =
     evaluatePolicy ports \<lparr>pq_contractHash = vc_contractHash verified,
       pq_contractRevision = ic_revision (vc_contract verified), pq_action = action, pq_caller = caller\<rparr>
       ''Current mandatory policy denied the action''"

definition assertMandatoryPolicyForTicket ::
  "'w guardian_ports \<Rightarrow> execution_ticket \<Rightarrow> safe_coding_action \<Rightarrow> caller_context \<Rightarrow> ('w, unit) proc" where
  "assertMandatoryPolicyForTicket ports ticket action caller =
     evaluatePolicy ports \<lparr>pq_contractHash = et_contractHash ticket,
       pq_contractRevision = et_contractRevision ticket, pq_action = action, pq_caller = caller\<rparr>
       ''Current mandatory policy denied final dispatch''"

text \<open>\<open>const { requestId, ...arguments_ } = action\<close>. The digest is used as the port returned it.\<close>

definition argumentFields :: "jsval \<Rightarrow> jsval" where
  "argumentFields action =
     (case action of JObj _ fs \<Rightarrow> jobj (filter (\<lambda>f. fst f \<noteq> js ''requestId'') fs) | _ \<Rightarrow> jobj [])"

definition hashArguments ::
  "(jstr \<Rightarrow> jstr) \<Rightarrow> 'w guardian_ports \<Rightarrow> safe_coding_action \<Rightarrow> ('w, jsval) proc" where
  "hashArguments nfc ports action =
     callP ports (\<lambda>w. passContract (
       bindE (canonicalizeJson nfc (argumentFields (action_json action))) (\<lambda>text.
       bindE (encodeUtf8 nfc (js ARGUMENT_HASH_DOMAIN @ [0] @ text)) (\<lambda>bytes.
       gp_sha256 ports w bytes))))"

definition resolveAdapter ::
  "'w guardian_ports \<Rightarrow> safe_coding_action \<Rightarrow> string \<Rightarrow> ('w, adapter_binding) proc" where
  "resolveAdapter ports action missing =
     bindP (callP ports (gp_resolve ports action)) (\<lambda>value.
     if \<not> isTruthy value then pureP (Inl (denied AdapterBindingMismatch missing))
     else pureP (snapshotAdapterBinding value))"

definition authenticateCaller :: "'w guardian_ports \<Rightarrow> ('w, caller_context) proc" where
  "authenticateCaller ports = bindP (callP ports (gp_authenticate ports)) (\<lambda>value. pureP (snapshotCaller value))"

definition activeContract ::
  "'w guardian_ports \<Rightarrow> verified_contract \<Rightarrow> intent_contract \<Rightarrow> ('w, guardian_snapshot) proc" where
  "activeContract ports verified contract =
     bindP (callP ports (gp_getActiveContract ports (ic_contractId contract))) (\<lambda>value.
     pureP (bindE (snapshotActiveContract value) (assertActiveContract verified)))"

definition guardianTime :: "'w guardian_ports \<Rightarrow> ('w, int) proc" where
  "guardianTime ports = bindP (callP ports (gp_now ports)) (\<lambda>value. pureP (parseTimestamp ports value ''Guardian time''))"

text \<open>Everything up to the first registry lookup: no adapter and no PREPARE has been consulted.\<close>

definition authorizeRequest ::
  "(jstr \<Rightarrow> jstr) \<Rightarrow> 'w guardian_ports \<Rightarrow> jsval \<Rightarrow> jsval \<Rightarrow>
   ('w, verified_contract \<times> intent_contract \<times> safe_coding_action \<times> caller_context) proc" where
  "authorizeRequest nfc ports signedContract actionValue =
     bindP (callP ports (\<lambda>w. passContract
       (verifySignedIntentContract nfc signedContract (Some (verificationDependencies ports w))))) (\<lambda>verified.
     bindP (pureP (parseAction nfc actionValue)) (\<lambda>action.
     bindP (validateVerifiedContract_guardian nfc ports verified) (\<lambda>contract.
     bindP (authenticateCaller ports) (\<lambda>initialCaller.
     bindP (guardianTime ports) (\<lambda>now.
     bindP (pureP (assertContractTime ports contract now)) (\<lambda>_.
     bindP (pureP (assertCallerMatches contract initialCaller)) (\<lambda>_.
     bindP (pureP (assertAmbientAuthorityDenied contract)) (\<lambda>_.
     bindP (pureP (assertActionAuthorized nfc contract action)) (\<lambda>_.
     bindP (activeContract ports verified contract) (\<lambda>_.
     bindP (assertMandatoryPolicy ports verified action initialCaller) (\<lambda>_.
     pureP (Inr (verified, contract, action, initialCaller)))))))))))))"

definition ticketRequest ::
  "verified_contract \<Rightarrow> intent_contract \<Rightarrow> safe_coding_action \<Rightarrow> jstr \<Rightarrow> jsval \<Rightarrow> prepared_action \<Rightarrow> adapter_binding \<Rightarrow>
   guardian_snapshot \<Rightarrow> jsval \<Rightarrow> jsval \<Rightarrow> jsval \<Rightarrow> int \<Rightarrow> int \<Rightarrow> jsval" where
  "ticketRequest verified contract action actionHash argumentsHash prepared adapter active ticketId reservationId nonce
     nowMs expiresAtMs = jrec
     [(''kind'', JStr (js ''clodex.execution-ticket'')), (''specVersion'', JStr (js ''1.0.0'')),
      (''ticketId'', ticketId), (''requestId'', JStr (act_requestId action)),
      (''contractHash'', JStr (vc_contractHash verified)), (''contractRevision'', jint (ic_revision contract)),
      (''subject'', subject_json (ic_subject contract)), (''audience'', audience_json (ic_audience contract)),
      (''actionHash'', JStr actionHash), (''argumentsHash'', argumentsHash),
      (''resolvedObjectId'', JStr (pa_resolvedObjectId prepared)),
      (''stateCommitmentHash'', JStr (pa_stateCommitmentHash prepared)),
      (''adapterId'', JStr (ab_adapterId adapter)), (''adapterDigest'', JStr (ab_adapterDigest adapter)),
      (''policyDigest'', JStr (ab_policyDigest adapter)),
      (''registryDigest'', JStr (ab_adapterRegistryDigest adapter)),
      (''runnerRegistryDigest'', JStr (ab_runnerRegistryDigest adapter)),
      (''effectRegistryDigest'', JStr (ab_effectRegistryDigest adapter)),
      (''effectClass'', JStr (spelling effectClasses (ab_effectClass adapter))),
      (''revocationEpoch'', JNum (gs_revocationEpoch active)), (''budgetReservationId'', reservationId),
      (''nonce'', nonce), (''issuedAt'', JStr (canonicalTimestamp_guardian nowMs)),
      (''expiresAt'', JStr (canonicalTimestamp_guardian expiresAtMs))]"

definition issueExecutionTicket ::
  "(jstr \<Rightarrow> jstr) \<Rightarrow> 'w guardian_ports \<Rightarrow> jsval \<Rightarrow> jsval \<Rightarrow> ('w, execution_ticket) proc" where
  "issueExecutionTicket nfc ports signedContract actionValue =
     bindP (authorizeRequest nfc ports signedContract actionValue) (\<lambda>(verified, contract, action, initialCaller).
     bindP (resolveAdapter ports action ''No trusted adapter is registered for the requested operation'') (\<lambda>adapter.
     bindP (pureP (assertAdapterBinding contract action adapter)) (\<lambda>_.
     bindP (bindP (callP ports (gp_prepare ports action adapter)) (\<lambda>value.
       pureP (snapshotPreparedAction value))) (\<lambda>prepared.
     bindP (callP ports (\<lambda>w. passContract (hashSafeCodingAction nfc actionValue (hashObject (gp_sha256 ports w))))) (\<lambda>actionHash.
     bindP (hashArguments nfc ports action) (\<lambda>argumentsHash.
     bindP (authenticateCaller ports) (\<lambda>finalCaller.
     bindP (guardianTime ports) (\<lambda>nowMs.
     bindP (pureP (assertContractTime ports contract nowMs)) (\<lambda>_.
     bindP (pureP (assertCallerMatches contract finalCaller)) (\<lambda>_.
     bindP (pureP (assertSameCaller nfc initialCaller finalCaller)) (\<lambda>_.
     bindP (assertMandatoryPolicy ports verified action finalCaller) (\<lambda>_.
     bindP (activeContract ports verified contract) (\<lambda>active.
     bindP (resolveAdapter ports action ''Trusted adapter was removed during authorization'') (\<lambda>currentAdapter.
     bindP (pureP (assertSameAdapterBinding nfc adapter currentAdapter)) (\<lambda>_.
     bindP (pureP (assertAdapterBinding contract action currentAdapter)) (\<lambda>_.
     bindP (pureP (parseTimestamp ports (JStr (vld_expiresAt (ic_validity contract))) ''Contract expiry'')) (\<lambda>contractExpiryMs.
     let expiresAtMs = min contractExpiryMs (nowMs + gp_ticketTtlMs ports) in
     bindP (pureP (guardE (\<not> expiresAtMs \<le> nowMs)
       (denied ContractExpired ''Intent contract has no remaining execution window''))) (\<lambda>_.
     bindP (callP ports (gp_nextTicketId ports)) (\<lambda>ticketId.
     bindP (callP ports (gp_nextReservationId ports)) (\<lambda>reservationId.
     bindP (callP ports (gp_nextNonce ports)) (\<lambda>nonce.
     bindP (pureP (passContract (validateSafeCodingExecutionTicket nfc
       (ticketRequest verified contract action actionHash argumentsHash prepared currentAdapter active
          ticketId reservationId nonce nowMs expiresAtMs)))) (\<lambda>ticket.
     bindP (gp_registerTicket ports \<lparr>rg_ticket = ticket, rg_expectedActive = active,
       rg_limits = au_limits (ic_authority contract), rg_charge = budgetChargeFor action\<rparr>) (\<lambda>_.
     pureP (Inr ticket))))))))))))))))))))))))"

section \<open>Rechecking a ticket\<close>

definition revalidateExecutionTicket ::
  "(jstr \<Rightarrow> jstr) \<Rightarrow> 'w guardian_ports \<Rightarrow> jsval \<Rightarrow> jsval \<Rightarrow> ('w, unit) proc" where
  "revalidateExecutionTicket nfc ports ticketValue actionValue =
     bindP (pureP (passContract (validateSafeCodingExecutionTicket nfc ticketValue))) (\<lambda>ticket.
     bindP (pureP (parseAction nfc actionValue)) (\<lambda>action.
     bindP (callP ports (\<lambda>w. passContract (hashSafeCodingAction nfc actionValue (hashObject (gp_sha256 ports w))))) (\<lambda>actionHash.
     bindP (pureP (guardE (\<not> (et_requestId ticket \<noteq> act_requestId action \<or> et_actionHash ticket \<noteq> actionHash))
       (denied InvalidAction ''Execution Ticket does not bind the exact final action''))) (\<lambda>_.
     bindP (guardianTime ports) (\<lambda>nowMs.
     bindP (pureP (
       bindE (parseTimestamp ports (JStr (et_issuedAt ticket)) ''Ticket issuedAt'') (\<lambda>issuedAt.
       bindE (if nowMs < issuedAt then Inr True
              else bindE (parseTimestamp ports (JStr (et_expiresAt ticket)) ''Ticket expiresAt'') (\<lambda>expiresAt.
                Inr (nowMs \<ge> expiresAt))) (\<lambda>outside.
       guardE (\<not> outside)
         (denied ContractExpired ''Execution Ticket is outside its final dispatch window''))))) (\<lambda>_.
     bindP (authenticateCaller ports) (\<lambda>caller.
     bindP (pureP (assertTicketCallerMatches ticket caller)) (\<lambda>_.
     bindP (assertMandatoryPolicyForTicket ports ticket action caller) (\<lambda>_.
     bindP (resolveAdapter ports action ''Trusted adapter is unavailable at final dispatch'') (\<lambda>adapter.
     pureP (guardE (\<not> (ab_action adapter \<noteq> js (actionKindName (kindOf action)) \<or>
         ab_adapterId adapter \<noteq> et_adapterId ticket \<or> ab_adapterDigest adapter \<noteq> et_adapterDigest ticket \<or>
         ab_policyDigest adapter \<noteq> et_policyDigest ticket \<or>
         ab_adapterRegistryDigest adapter \<noteq> et_registryDigest ticket \<or>
         ab_runnerRegistryDigest adapter \<noteq> et_runnerRegistryDigest ticket \<or>
         ab_effectRegistryDigest adapter \<noteq> et_effectRegistryDigest ticket \<or>
         ab_effectClass adapter \<noteq> et_effectClass ticket))
       (denied AdapterBindingMismatch ''Trusted adapter binding changed before final dispatch''))))))))))))"

definition assertFinalAuthority ::
  "(jstr \<Rightarrow> jstr) \<Rightarrow> 'w guardian_ports \<Rightarrow> jsval \<Rightarrow> jsval \<Rightarrow> ('w, unit) proc" where
  "assertFinalAuthority nfc ports ticketValue actionValue =
     bindP (pureP (passContract (validateSafeCodingExecutionTicket nfc ticketValue))) (\<lambda>ticket.
     bindP (pureP (parseAction nfc actionValue)) (\<lambda>action.
     bindP (pureP (guardE (\<not> et_requestId ticket \<noteq> act_requestId action)
       (denied InvalidAction ''Execution Ticket request does not match the final action''))) (\<lambda>_.
     bindP (callP ports (gp_assertCurrent ports ticket action)) (\<lambda>_. pureP (Inr ())))))"

end
