(* ===== verification/Guardian_Properties.thy ===== *)
theory Guardian_Properties
  imports Guardian
begin

text \<open>
  What the guardian guarantees: an issued ticket is backed by a verified contract that allows the action,
  is bound to the caller and to the active revision and is registered with the kernel; requests that are
  not authorized never reach the adapter registry or PREPARE; and a recheck accepts exactly the tickets
  that still hold. The calculus for the procedures follows the shape of their successful runs.
\<close>

section \<open>Successful runs\<close>

lemma callP_Inr [proc_simps]: "callP ports ask w = (Inr x, w') \<longleftrightarrow> ask w = Inr x \<and> w' = gp_elapse ports w"
  by (auto simp: callP_def)

lemma passContract_Inr [proc_simps]: "passContract m = Inr x \<longleftrightarrow> m = Inr x"
  by (simp add: passContract_def result_simps)

lemma parseAction_Inr [proc_simps]: "parseAction nfc v = Inr a \<longleftrightarrow> validateSafeCodingAction nfc v = Inr a"
  by (simp add: parseAction_def result_simps)

lemma parseTimestamp_canonical [simp]:
  assumes "wf_timestamp t"
  shows "parseTimestamp ports (JStr t) label = Inr (timestampMilliseconds t)"
proof -
  obtain ms where t: "t = spellInstant ms" "- 62167219200000 \<le> ms" "ms \<le> 253402300799999"
    using assms by (auto simp: wf_timestamp_iff)
  then show ?thesis
    by (simp add: parseTimestamp_def spellInstant_facts)
qed

lemma assertContractTime_Inr:
  assumes "contract_valid nfc c"
  shows "assertContractTime ports c ms = Inr u \<longleftrightarrow> usable_at c ms"
  using contract_stamps [OF assms] by (auto simp: assertContractTime_def result_simps usable_at_def)

definition caller_matches :: "contract_subject \<Rightarrow> contract_audience \<Rightarrow> caller_context \<Rightarrow> bool" where
  "caller_matches s a c \<longleftrightarrow>
     sub_principalId s = cc_principalId c \<and> sub_instanceId s = cc_instanceId c \<and>
     aud_guardianId a = cc_guardianId c \<and> aud_executorId a = cc_executorId c \<and>
     aud_runtimeEpoch a = numInt (cc_runtimeEpoch c) \<and> aud_taskId a = cc_taskId c \<and> aud_workspaceId a = cc_workspaceId c"

lemma assertCallerMatches_Inr [proc_simps]:
  "assertCallerMatches c caller = Inr u \<longleftrightarrow> caller_matches (ic_subject c) (ic_audience c) caller"
  by (auto simp: assertCallerMatches_def result_simps caller_matches_def)

lemma assertTicketCallerMatches_Inr [proc_simps]:
  "assertTicketCallerMatches t caller = Inr u \<longleftrightarrow> caller_matches (et_subject t) (et_audience t) caller"
  by (auto simp: assertTicketCallerMatches_def result_simps caller_matches_def)

definition adapter_within :: "intent_contract \<Rightarrow> safe_coding_action \<Rightarrow> adapter_binding \<Rightarrow> bool" where
  "adapter_within c a b \<longleftrightarrow>
     ab_policyDigest b = bnd_policyDigest (ic_bindings c) \<and>
     ab_adapterRegistryDigest b = bnd_adapterRegistryDigest (ic_bindings c) \<and>
     ab_runnerRegistryDigest b = bnd_runnerRegistryDigest (ic_bindings c) \<and>
     ab_effectRegistryDigest b = bnd_effectRegistryDigest (ic_bindings c) \<and>
     ab_action b = js (actionKindName (kindOf a)) \<and>
     ab_effectClass b \<in> set (au_allowedEffectClasses (ic_authority c))"

lemma assertAdapterBinding_Inr [proc_simps]:
  "assertAdapterBinding c a b = Inr u \<longleftrightarrow> adapter_within c a b"
  by (auto simp: assertAdapterBinding_def result_simps adapter_within_def)

lemma assertActiveContract_Inr [proc_simps]:
  "assertActiveContract v s = Inr g \<longleftrightarrow> s = Some g \<and> gs_status g = Active \<and>
     gs_contractId g = ic_contractId (vc_contract v) \<and> gs_contractHash g = vc_contractHash v \<and>
     gs_revision g = ic_revision (vc_contract v)"
  by (auto simp: assertActiveContract_def result_simps Let_def split: option.splits)

text \<open>What a port reports in a world, once the guardian has checked and copied the answer.\<close>

definition reads_caller :: "'w guardian_ports \<Rightarrow> 'w \<Rightarrow> caller_context \<Rightarrow> bool" where
  "reads_caller ports w c \<longleftrightarrow> (\<exists>v. gp_authenticate ports w = Inr v \<and> snapshotCaller v = Inr c)"

definition reads_time :: "'w guardian_ports \<Rightarrow> 'w \<Rightarrow> int \<Rightarrow> bool" where
  "reads_time ports w ms \<longleftrightarrow> (\<exists>v. gp_now ports w = Inr v \<and> parseTimestamp ports v ''Guardian time'' = Inr ms)"

definition reads_adapter :: "'w guardian_ports \<Rightarrow> safe_coding_action \<Rightarrow> 'w \<Rightarrow> adapter_binding \<Rightarrow> bool" where
  "reads_adapter ports a w b \<longleftrightarrow> (\<exists>v. gp_resolve ports a w = Inr v \<and> snapshotAdapterBinding v = Inr b)"

definition reads_prepared ::
  "'w guardian_ports \<Rightarrow> safe_coding_action \<Rightarrow> adapter_binding \<Rightarrow> 'w \<Rightarrow> prepared_action \<Rightarrow> bool" where
  "reads_prepared ports a b w p \<longleftrightarrow> (\<exists>v. gp_prepare ports a b w = Inr v \<and> snapshotPreparedAction v = Inr p)"

text \<open>The state port reports the revision that was verified as the active one.\<close>

definition reads_active :: "'w guardian_ports \<Rightarrow> verified_contract \<Rightarrow> 'w \<Rightarrow> guardian_snapshot \<Rightarrow> bool" where
  "reads_active ports v w g \<longleftrightarrow>
     (\<exists>x. gp_getActiveContract ports (ic_contractId (vc_contract v)) w = Inr x \<and> snapshotActiveContract x = Inr (Some g)) \<and>
     gs_status g = Active \<and> gs_contractId g = ic_contractId (vc_contract v) \<and>
     gs_contractHash g = vc_contractHash v \<and> gs_revision g = ic_revision (vc_contract v)"

lemma resolveAdapter_Inr [proc_simps]:
  "resolveAdapter ports a m w = (Inr b, w') \<longleftrightarrow> reads_adapter ports a w b \<and> w' = gp_elapse ports w"
  by (auto simp: resolveAdapter_def proc_simps snapshotAdapterBinding_def Let_def result_simps reads_adapter_def)

lemma authenticateCaller_Inr [proc_simps]:
  "authenticateCaller ports w = (Inr c, w') \<longleftrightarrow> reads_caller ports w c \<and> w' = gp_elapse ports w"
  by (auto simp: authenticateCaller_def proc_simps reads_caller_def)

lemma guardianTime_Inr [proc_simps]:
  "guardianTime ports w = (Inr ms, w') \<longleftrightarrow> reads_time ports w ms \<and> w' = gp_elapse ports w"
  by (auto simp: guardianTime_def proc_simps reads_time_def)

lemma activeContract_Inr [proc_simps]:
  "activeContract ports v (vc_contract v) w = (Inr g, w') \<longleftrightarrow> reads_active ports v w g \<and> w' = gp_elapse ports w"
  by (auto simp: activeContract_def proc_simps result_simps reads_active_def)

definition policy_allows :: "'w guardian_ports \<Rightarrow> policy_query \<Rightarrow> 'w \<Rightarrow> bool" where
  "policy_allows ports q w \<longleftrightarrow>
     (\<exists>v d. gp_evaluate ports q w = Inr v \<and> snapshotMandatoryDecision v = Inr d \<and> pd_allowed d)"

lemma evaluatePolicy_Inr [proc_simps]:
  "evaluatePolicy ports q m w = (Inr u, w') \<longleftrightarrow> policy_allows ports q w \<and> w' = gp_elapse ports w"
  by (auto simp: evaluatePolicy_def proc_simps result_simps policy_allows_def)

section \<open>Authorized actions\<close>

text \<open>The authority a contract grants, without the order of checks: an action on the file system needs a
  permission of its kind whose selector names at least the resources of the action.\<close>

definition action_within :: "intent_contract \<Rightarrow> safe_coding_action \<Rightarrow> bool" where
  "action_within c a \<longleftrightarrow>
     (case kindOf a of
        KindGitStatus \<Rightarrow> \<exists>p \<in> set (au_git (ic_authority c)). gp_action p = GitStatus
      | KindGitDiff \<Rightarrow> \<exists>p \<in> set (au_git (ic_authority c)). gp_action p = GitDiff
      | KindTestRun \<Rightarrow> act_profileId a \<in> set (au_testProfiles (ic_authority c))
      | _ \<Rightarrow> \<exists>p \<in> set (au_filesystem (ic_authority c)).
          spelling fsActions (fp_action p) = js (actionKindName (kindOf a)) \<and>
          selector_resources (act_selector a) \<subseteq> selector_resources (fp_selector p))"

lemma someE_total:
  "(\<And>x. x \<in> set xs \<Longrightarrow> f x = Inr (p x)) \<Longrightarrow> someE f xs = Inr (\<exists>x \<in> set xs. p x)"
  by (induction xs) auto

lemma isFilesystem_kind:
  "isFilesystemAction a \<longleftrightarrow> kindOf a \<in> {KindStat, KindList, KindRead, KindCreate, KindReplace, KindMkdir}"
  by (cases a) (simp_all add: isFilesystemAction_def actionKindName_def)

lemma wf_action_selector: "wf_action nfc a \<Longrightarrow> isFilesystemAction a \<Longrightarrow> wf_selector nfc (act_selector a)"
  by (cases a) (simp_all add: isFilesystem_kind)

lemma assertActionAuthorized_Inr:
  assumes "contract_valid nfc c" "wf_action nfc a"
  shows "assertActionAuthorized nfc c a = Inr u \<longleftrightarrow> action_within c a"
proof -
  let ?kind = "js (actionKindName (kindOf a))"
  let ?covers = "\<lambda>p. spelling fsActions (fp_action p) = ?kind \<and>
    selector_resources (act_selector a) \<subseteq> selector_resources (fp_selector p)"
  have "someE (\<lambda>p. if spelling fsActions (fp_action p) = ?kind
      then passContract (resourceSelectorCovers nfc (selector_json (fp_selector p)) (selector_json (act_selector a)))
      else Inr False) (au_filesystem (ic_authority c)) = Inr (\<exists>p \<in> set (au_filesystem (ic_authority c)). ?covers p)"
    if "isFilesystemAction a"
  proof (rule someE_total)
    fix p assume "p \<in> set (au_filesystem (ic_authority c))"
    then have p: "wf_selector nfc (fp_selector p)"
      using assms(1) by (auto simp: contract_valid_def wf_contract_def wf_authority_def wf_fs_permission_def list_all_iff)
    note a = wf_action_selector [OF assms(2) that]
    show "(if spelling fsActions (fp_action p) = ?kind
        then passContract (resourceSelectorCovers nfc (selector_json (fp_selector p)) (selector_json (act_selector a)))
        else Inr False) = Inr (?covers p)"
      using selector_covers_iff [OF p a] validateResourceSelector_json [OF p] validateResourceSelector_json [OF a]
      by (simp add: resourceSelectorCovers_eq passContract_def)
  qed
  moreover have "list_ex (\<lambda>p. spelling gitActions (gp_action p) = ?kind) (au_git (ic_authority c)) =
      (\<exists>p \<in> set (au_git (ic_authority c)). gp_action p = (if kindOf a = KindGitStatus then GitStatus else GitDiff))"
    if "kindOf a = KindGitStatus \<or> kindOf a = KindGitDiff"
  proof -
    have "(spelling gitActions g = ?kind) = (g = (if kindOf a = KindGitStatus then GitStatus else GitDiff))" for g
      using that by (cases g) (auto simp: spelling_def gitActions_def actionKindName_def js_def)
    then show ?thesis
      by (simp add: list_ex_iff)
  qed
  ultimately show ?thesis
    by (cases "kindOf a") (simp_all add: assertActionAuthorized_def Let_def isFilesystem_kind action_within_def result_simps)
qed

lemma nonnegative_counter: "requireNonNegativeInteger v label = Inr n \<Longrightarrow> counter n"
  by (cases v; cases "numberOf v") (auto simp: requireNonNegativeInteger_def counter_def safe_int_def MAX_SAFE_INTEGER_def result_simps)

lemma action_wf:
  assumes "validateSafeCodingAction nfc v = Inr a"
  shows "wf_action nfc a"
proof -
  from assms obtain fs k r where "ident nfc r" "validateActionVariant nfc fs r k = Inr a"
    unfolding validateSafeCodingAction_def by (auto simp: open_record leaf_simps action_tables)
  then show ?thesis
    by (cases k)
      (auto simp: open_record leaf_simps action_tables selector_kind_checks validateResourceSelector_wf
        dest: nonnegative_counter)
qed

section \<open>Authorization\<close>

lemma verified_contract:
  assumes "verifySignedIntentContract nfc value dependencies = Inr v"
  shows "contract_valid nfc (vc_contract v)" "vc_canonicalPayload v = contract_text (vc_contract v)"
  using assms unfolding verifySignedIntentContract_def
  by (auto simp: bindE_eq_Inr case_prod_unfold contract_codec.dec_iff scanSignatures_Inr acceptSignature_Inr)

lemma ambient_denied: "contract_valid nfc c \<Longrightarrow> assertAmbientAuthorityDenied c = Inr ()"
  by (auto simp: assertAmbientAuthorityDenied_def contract_valid_def wf_contract_def wf_authority_def wf_ambient_def Let_def)

lemma validateVerified_Inr:
  assumes "contract_valid nfc (vc_contract v)" "vc_canonicalPayload v = contract_text (vc_contract v)"
  shows "validateVerifiedContract_guardian nfc ports v w = (Inr c, w') \<longleftrightarrow>
    c = vc_contract v \<and> w' = gp_elapse ports w \<and>
    hashIntentContract nfc (contract_json c) (hashObject (gp_sha256 ports w)) = Inr (vc_contractHash v)"
proof -
  have "validateSafeCodingIntentContract nfc (contract_json (vc_contract v)) = Inr (vc_contract v)"
    using assms(1) by (intro contract_complete) (auto simp: contract_valid_def)
  then show ?thesis
    using assms by (auto simp: validateVerifiedContract_guardian_def proc_simps result_simps canonicalizeJson_Inr
        contract_valid_def contract_text_def)
qed

text \<open>The world after some port calls have been answered.\<close>

definition after_calls :: "'w guardian_ports \<Rightarrow> nat \<Rightarrow> 'w \<Rightarrow> 'w" where
  "after_calls ports n w = (gp_elapse ports ^^ n) w"

lemma after_calls_simps [proc_simps]:
  "after_calls ports 0 w = w" "gp_elapse ports (after_calls ports n w) = after_calls ports (Suc n) w"
  by (simp_all add: after_calls_def)

definition policyQuery :: "verified_contract \<Rightarrow> safe_coding_action \<Rightarrow> caller_context \<Rightarrow> policy_query" where
  "policyQuery v a caller = \<lparr>pq_contractHash = vc_contractHash v, pq_contractRevision = ic_revision (vc_contract v),
     pq_action = a, pq_caller = caller\<rparr>"

text \<open>The grounds on which a request is authorized before any adapter is consulted.\<close>

definition authorized ::
  "(jstr \<Rightarrow> jstr) \<Rightarrow> 'w guardian_ports \<Rightarrow> jsval \<Rightarrow> jsval \<Rightarrow> 'w \<Rightarrow> verified_contract \<Rightarrow> safe_coding_action \<Rightarrow>
   caller_context \<Rightarrow> bool" where
  "authorized nfc ports signedContract actionValue w v a caller \<longleftrightarrow>
     verifySignedIntentContract nfc signedContract (Some (verificationDependencies ports w)) = Inr v \<and>
     validateSafeCodingAction nfc actionValue = Inr a \<and>
     hashIntentContract nfc (contract_json (vc_contract v)) (hashObject (gp_sha256 ports (after_calls ports 1 w))) = Inr (vc_contractHash v) \<and>
     reads_caller ports (after_calls ports 2 w) caller \<and>
     caller_matches (ic_subject (vc_contract v)) (ic_audience (vc_contract v)) caller \<and>
     (\<exists>ms. reads_time ports (after_calls ports 3 w) ms \<and> usable_at (vc_contract v) ms) \<and>
     action_within (vc_contract v) a \<and>
     (\<exists>g. reads_active ports v (after_calls ports 4 w) g) \<and>
     policy_allows ports (policyQuery v a caller) (after_calls ports 5 w)"

lemma authorizeRequest_Inr:
  "authorizeRequest nfc ports sc av w = (Inr (v, c, a, caller), w') \<longleftrightarrow>
     authorized nfc ports sc av w v a caller \<and> c = vc_contract v \<and> w' = after_calls ports 6 w"
  (is "?run \<longleftrightarrow> ?grounds")
proof (cases "verifySignedIntentContract nfc sc (Some (verificationDependencies ports w)) = Inr v \<and>
    validateSafeCodingAction nfc av = Inr a")
  case True
  note v = verified_contract [OF conjunct1 [OF True]]
  note a = action_wf [OF conjunct2 [OF True]]
  have worlds: "after_calls ports (Suc 0) w = gp_elapse ports w" "after_calls ports 2 w = gp_elapse ports (gp_elapse ports w)"
    "after_calls ports 3 w = gp_elapse ports (after_calls ports 2 w)" "after_calls ports 4 w = gp_elapse ports (after_calls ports 3 w)"
    "after_calls ports 5 w = gp_elapse ports (after_calls ports 4 w)" "after_calls ports 6 w = gp_elapse ports (after_calls ports 5 w)"
    by (simp_all add: after_calls_def numeral_eq_Suc)
  show ?thesis
    using True v a
    by (auto simp: authorizeRequest_def proc_simps(1-5) resolveAdapter_Inr authenticateCaller_Inr guardianTime_Inr
        activeContract_Inr evaluatePolicy_Inr assertCallerMatches_Inr assertMandatoryPolicy_def policyQuery_def
        validateVerified_Inr [OF v] assertContractTime_Inr [OF v(1)] ambient_denied [OF v(1)]
        assertActionAuthorized_Inr [OF v(1) a] authorized_def worlds)
next
  case False
  then show ?thesis
    by (auto simp: authorizeRequest_def proc_simps(1-5) authorized_def)
qed

end
