(* ===== verification/Guardian_Samples.thy ===== *)
theory Guardian_Samples
  imports Guardian_Properties
begin

text \<open>
  The guardian on top of the in-memory kernel, and one concrete run of it: the sample contract is signed, active in
  the kernel, and a ticket is issued for \<open>git.status\<close>.
\<close>

section \<open>The in-memory kernel as the state port\<close>

definition activeSnapshot_json :: "active_snapshot option \<Rightarrow> jsval" where
  "activeSnapshot_json active =
     (case active of
        None \<Rightarrow> JNull
      | Some s \<Rightarrow> jrec [(''contractId'', JStr (as_contractId s)), (''contractHash'', JStr (as_contractHash s)),
          (''revision'', jint (as_revision s)), (''revocationEpoch'', jint (as_revocationEpoch s)),
          (''status'', JStr (spelling contractStatuses (as_status s)))])"

definition registrationInput :: "ticket_registration \<Rightarrow> register_input" where
  "registrationInput r =
     \<lparr>gi_ticket = ticket_json (rg_ticket r),
      gi_expectedActive = \<lparr>as_contractId = gs_contractId (rg_expectedActive r),
        as_contractHash = gs_contractHash (rg_expectedActive r), as_revision = gs_revision (rg_expectedActive r),
        as_revocationEpoch = numInt (gs_revocationEpoch (rg_expectedActive r)), as_status = gs_status (rg_expectedActive r)\<rparr>,
      gi_limits = Some (rg_limits r), gi_charge = Some (rg_charge r), gi_now = []\<rparr>"

text \<open>The kernel lives in the world; \<open>get\<close> and \<open>put\<close> access it.\<close>

definition kernelPorts ::
  "(jstr \<Rightarrow> jstr) \<Rightarrow> ('w \<Rightarrow> kernel_state) \<Rightarrow> (kernel_state \<Rightarrow> 'w \<Rightarrow> 'w) \<Rightarrow> ('w \<Rightarrow> kernel_error + jstr) \<Rightarrow>
   'w guardian_ports \<Rightarrow> 'w guardian_ports" where
  "kernelPorts nfc get put clock ports = ports\<lparr>
     gp_getActiveContract := (\<lambda>contractId w. case getActiveContract (get w) contractId of
         Inl error \<Rightarrow> Inl (Passed error) | Inr active \<Rightarrow> Inr (activeSnapshot_json active)),
     gp_registerTicket := (\<lambda>registration w.
       case registerTicket nfc (clock w) (get w) (registrationInput registration) of
         (st, Inl error) \<Rightarrow> (Inl (Passed error), put st w) | (st, Inr _) \<Rightarrow> (Inr (), put st w))\<rparr>"

section \<open>A signed contract\<close>

definition sample_payload_bytes :: "byte list" where
  "sample_payload_bytes = utf8Bytes (contract_text sample_contract)"

definition sample_envelope :: jsval where
  "sample_envelope = jrec
     [(''payloadType'', JStr (js INTENT_CONTRACT_PAYLOAD_TYPE)), (''payload'', JStr (encodeBase64Url sample_payload_bytes)),
      (''signatures'', jarr [jrec [(''keyId'', JStr (js ''k1'')), (''algorithm'', JStr (js SIGNATURE_ALGORITHM)),
         (''signature'', JStr (encodeBase64Url (replicate 64 0)))]])]"

definition sample_signer :: trusted_signer where
  "sample_signer = \<lparr>ts_keyId = js ''k1'', ts_role = HumanAuthorizer, ts_trustEpoch = 0, ts_registryDigest = sample_digest\<rparr>"

definition sample_signer_value :: jsval where
  "sample_signer_value = jrec [(''keyId'', JStr (js ''k1'')), (''role'', JStr (js ''human-authorizer'')),
     (''trustEpoch'', jint 0), (''registryDigest'', JStr sample_digest)]"

definition sample_verified :: verified_contract where
  "sample_verified = \<lparr>vc_contract = sample_contract, vc_canonicalPayload = contract_text sample_contract,
     vc_contractHash = sample_digest, vc_signerKeyId = js ''k1'', vc_signerRole = HumanAuthorizer, vc_signer = sample_signer\<rparr>"

lemma sample_text_length: "length (contract_text sample_contract) \<le> 4096" "contract_text sample_contract \<noteq> []"
proof -
  show "length (contract_text sample_contract) \<le> 4096"
    unfolding contract_text_def contract_json_def sample_contract_def authority_json_def validity_json_def subject_json_def
      audience_json_def bindings_json_def non_authoritative_json_def limits_json_def ambient_json_def
      delegation_json_def fs_permission_json_def git_permission_json_def selector_json_def
    by (simp add: length_render_jrec separators_def nullable_def sample_digest_quote
        spelling_def fsActions_def gitActions_def effectClasses_def selectorKindName_def
        INTENT_CONTRACT_KIND_def INTENT_CONTRACT_SPEC_VERSION_def jsonQuote_def quoteUnit_def js_def decInt_def decDigits.simps)
  show "contract_text sample_contract \<noteq> []"
    by (simp add: contract_text_def contract_json_def jrec_def render_JObj)
qed

lemma sample_payload_plain: "length sample_payload_bytes = length (contract_text sample_contract)"
  using utf8Bytes_ascii [OF sample_contract_ascii, of "[]"] by (simp add: sample_payload_bytes_def)

lemma sample_payload_sized:
  "base64url_sized sample_payload_bytes" "length (encodeBase64Url sample_payload_bytes) \<le> encodedBase64UrlLength 12582912"
  "0 < length (encodeBase64Url sample_payload_bytes)"
proof -
  have len: "length sample_payload_bytes \<le> 12582912" "sample_payload_bytes \<noteq> []"
    using sample_payload_plain sample_text_length by (simp, metis length_0_conv)
  then show *: "length (encodeBase64Url sample_payload_bytes) \<le> encodedBase64UrlLength 12582912"
    using encodedBase64UrlLength_mono [OF len(1)] by (simp add: length_encodeBase64Url)
  show "base64url_sized sample_payload_bytes"
    using * len(2) by (simp add: base64url_sized_def length_encodeBase64Url encodedBase64UrlLength_def MAX_SAFE_INTEGER_def)
  show "0 < length (encodeBase64Url sample_payload_bytes)"
    using len(2) encodedBase64UrlLength_strict [of 0 "length sample_payload_bytes"] by (simp add: length_encodeBase64Url)
qed

lemma sample_k1: "ident (\<lambda>s. s) (js ''k1'')"
  by (simp add: ident_id surrogate_defs js_def IDENTIFIER_PATTERN_def char_class_defs)

lemma sample_envelope_accepted:
  "validateSignedEnvelope (\<lambda>s. s) sample_envelope = Inr \<lparr>env_payloadType = js INTENT_CONTRACT_PAYLOAD_TYPE,
     env_payload = encodeBase64Url sample_payload_bytes,
     env_signatures = [\<lparr>sig_keyId = js ''k1'', sig_signature = encodeBase64Url (replicate 64 0)\<rparr>]\<rparr>"
proof -
  have type: "requireAsciiToken (\<lambda>s. s) (JStr (js INTENT_CONTRACT_PAYLOAD_TYPE)) l 256 = Inr (js INTENT_CONTRACT_PAYLOAD_TYPE)" for l
    by (simp add: require_simps INTENT_CONTRACT_PAYLOAD_TYPE_def js_def ASCII_TOKEN_PATTERN_def canonical_string_def surrogate_defs)
  have payload: "requireBase64UrlSyntax (JStr (encodeBase64Url sample_payload_bytes)) l (Suc 0)
      (encodedBase64UrlLength MAX_ENVELOPE_PAYLOAD_BYTES) = Inr (encodeBase64Url sample_payload_bytes)" for l
    using sample_payload_sized by (simp add: require_simps MAX_ENVELOPE_PAYLOAD_BYTES_def BASE64URL_encode Suc_le_eq
        base64url_sized_def)
  have sig: "requireCanonicalBase64Url (JStr (encodeBase64Url (replicate 64 0))) l P256_P1363_SIGNATURE_BYTES
      P256_P1363_SIGNATURE_BYTES = Inr (encodeBase64Url (replicate 64 0))" for l
    by (subst requireCanonicalBase64Url_Inr)
      (auto simp: P256_P1363_SIGNATURE_BYTES_def encodedBase64UrlLength_def MAX_SAFE_INTEGER_def intro!: exI [of _ "replicate 64 0"])
  show ?thesis
    using sample_k1
    by (simp add: validateSignedEnvelope_def sample_envelope_def type payload validateEnvelopeSignature_def sig
        requireArray_Inr requireExactKeys_Inr MAX_ENVELOPE_SIGNATURES_def result_simps leaf_simps assertSortedUnique_Inr)
qed


section \<open>The sample ports\<close>

definition sample_caller :: jsval where
  "sample_caller = jrec [(''principalId'', JStr (js ''agent'')), (''instanceId'', JStr (js ''i1'')),
     (''guardianId'', JStr (js ''g'')), (''executorId'', JStr (js ''e'')), (''runtimeEpoch'', jint 0),
     (''taskId'', JStr (js ''t'')), (''workspaceId'', JStr (js ''w''))]"

definition sample_adapter :: jsval where
  "sample_adapter = jrec [(''action'', JStr (js ''git.status'')), (''policyDigest'', JStr sample_digest),
     (''adapterId'', JStr (js ''ad'')), (''adapterDigest'', JStr sample_digest),
     (''adapterRegistryDigest'', JStr sample_digest), (''runnerRegistryDigest'', JStr sample_digest),
     (''effectRegistryDigest'', JStr sample_digest), (''effectClass'', JStr (js ''local.reversible''))]"

definition sample_ports :: "kernel_state guardian_ports" where
  "sample_ports = kernelPorts (\<lambda>s. s) (\<lambda>st. st) (\<lambda>st _. st) (\<lambda>_. Inr sample_now)
     \<lparr>gp_elapse = (\<lambda>st. st), gp_otherDate = (\<lambda>_. None), gp_sha256 = (\<lambda>_. sample_sha256),
      gp_resolveTrustedSigner = (\<lambda>_ _. Inr sample_signer_value), gp_verify = (\<lambda>_ _. Inr (JBool True)),
      gp_assertTrusted = (\<lambda>_ _. Inr JUndefined), gp_getActiveContract = (\<lambda>_ _. Inl ThrownValue),
      gp_registerTicket = (\<lambda>_ st. (Inl ThrownValue, st)),
      gp_nextTicketId = (\<lambda>_. Inr (JStr (js ''00000000-0000-4000-8000-000000000002''))),
      gp_nextReservationId = (\<lambda>_. Inr (JStr (js ''b1''))),
      gp_nextNonce = (\<lambda>_. Inr (JStr (js ''AAAAAAAAAAAAAAAAAAAAAA''))),
      gp_now = (\<lambda>_. Inr (JStr sample_now)), gp_authenticate = (\<lambda>_. Inr sample_caller),
      gp_evaluate = (\<lambda>_ _. Inr (jrec [(''allowed'', JBool True)])), gp_resolve = (\<lambda>_ _. Inr sample_adapter),
      gp_prepare = (\<lambda>_ _ _. Inr (jrec [(''resolvedObjectId'', JStr (js ''o1'')), (''stateCommitmentHash'', JStr sample_digest)])),
      gp_assertCurrent = (\<lambda>_ _ _. Inr JUndefined), gp_acceptedRootRoles = JUndefined, gp_ticketTtlMs = 30000\<rparr>"

lemma sample_text: "canonical_string (\<lambda>s. s) (contract_text sample_contract)" "wf_jstr (contract_text sample_contract)"
  using canonical_string_ascii [OF sample_contract_ascii] by blast+

lemma sample_contract_parsed:
  "parseCanonicalSafeCodingIntentContract (\<lambda>s. s) (contract_text sample_contract) = Inr sample_contract"
  using sample_contract_valid by (simp add: contract_codec.dec_iff)

lemma sample_message: "\<exists>m. createEnvelopePreAuthenticationEncoding (\<lambda>s. s) (js INTENT_CONTRACT_PAYLOAD_TYPE)
    (contract_text sample_contract) = Inr m"
proof -
  obtain x where "parseCanonicalJson (\<lambda>s. s) (contract_text sample_contract) = Inr x"
    using sample_contract_parsed by (auto simp: parseCanonicalSafeCodingIntentContract_def bindE_eq_Inr)
  moreover have "requireAsciiToken (\<lambda>s. s) (JStr (js INTENT_CONTRACT_PAYLOAD_TYPE)) l 256 = Inr (js INTENT_CONTRACT_PAYLOAD_TYPE)" for l
    by (simp add: require_simps INTENT_CONTRACT_PAYLOAD_TYPE_def js_def ASCII_TOKEN_PATTERN_def canonical_string_def surrogate_defs)
  moreover have "list_all (\<lambda>u. u < 0x80) (js ''DSSEv1 '' @ decDigits n @ js '' '' @ js INTENT_CONTRACT_PAYLOAD_TYPE @ js '' '' @
      decDigits k @ js '' '')" for n k
    using decDigits_ascii [of n] decDigits_ascii [of k] by (auto simp: list_all_iff js_def INTENT_CONTRACT_PAYLOAD_TYPE_def)
  ultimately show ?thesis
    unfolding createEnvelopePreAuthenticationEncoding_def
    using sample_text canonical_string_ascii
    by (auto simp: result_simps require_simps)
qed

lemma sample_verifies:
  "verifySignedIntentContract (\<lambda>s. s) sample_envelope (Some (verificationDependencies sample_ports st)) = Inr sample_verified"
proof -
  let ?ports = "\<lparr>port_sha256 = sample_sha256, port_resolveTrustedSigner = \<lambda>_. Inr sample_signer_value,
    port_verify = \<lambda>_. Inr (JBool True), port_assertTrusted = \<lambda>_. Inr JUndefined\<rparr>"
  have ports: "snapshotIntentVerificationDependencies (Some (verificationDependencies sample_ports st)) =
      Inr (?ports, [HumanAuthorizer, PolicyAuthorizer])"
    by (simp add: snapshotIntentVerificationDependencies_def verificationDependencies_def sample_ports_def kernelPorts_def
        readOwnDataProperty_def readOptionalOwnDataProperty_def pinHashMethod_def pinPortMethod_def validateAcceptedRootRoles_def)
  have signer: "validateTrustedSignerSnapshot (\<lambda>s. s) sample_signer_value (js ''k1'') = Inr sample_signer"
    using sample_k1 sample_digest_ok
    by (simp add: validateTrustedSignerSnapshot_def sample_signer_value_def sample_signer_def requireExactKeys_Inr leaf_simps
        result_simps requireEnum_def signerRoles_def js_inj requireNonNegativeInteger_def safe_int_def MAX_SAFE_INTEGER_def)
  have hash: "hashDomainSeparatedWith (\<lambda>s. s) INTENT_CONTRACT_HASH_DOMAIN (contract_text sample_contract) sample_sha256 = Inr sample_digest"
    using sample_text sample_digest_ok by (simp add: hashDomain_Inr sample_domains sample_sha256_def sample_digest_def)
  have decoded: "decodeBase64Url (encodeBase64Url sample_payload_bytes) = Inr sample_payload_bytes"
    "decodeUtf8 (\<lambda>s. s) sample_payload_bytes = Inr (contract_text sample_contract)"
    using sample_payload_sized(1) sample_text by (simp_all add: base64url.dec_iff decodeUtf8_Inr sample_payload_bytes_def)
  obtain m where m: "createEnvelopePreAuthenticationEncoding (\<lambda>s. s) (js INTENT_CONTRACT_PAYLOAD_TYPE)
      (contract_text sample_contract) = Inr m"
    using sample_message by blast
  moreover have "sample_signer_value \<noteq> JNull"
    by (simp add: sample_signer_value_def jrec_def)
  ultimately show ?thesis
    unfolding verifySignedIntentContract_def ports
    by (simp add: sample_envelope_accepted decoded sample_contract_parsed signer hash acceptSignature_def
        isRootAuthorizerSnapshot_def isRootAuthorizerRole_def sample_signer_def sample_verified_def
        del: encodeBase64Url.simps)
qed

section \<open>The sample run\<close>

definition sample_issued :: execution_ticket where
  "sample_issued = sample_ticket\<lparr>et_actionHash := replicate 64 98, et_argumentsHash := replicate 64 98,
     et_expiresAt := js ''2026-01-01T00:00:30Z''\<rparr>"

lemma sample_expiry:
  "spellInstant 1767225630000 = js ''2026-01-01T00:00:30Z''" "dateParse (js ''2026-01-01T00:00:30Z'') = Some 1767225630000"
  "stamp (\<lambda>s. s) (js ''2026-01-01T00:00:30Z'')" "timestampMilliseconds (js ''2026-01-01T00:00:30Z'') = 1767225630000"
proof -
  show spell: "spellInstant 1767225630000 = js ''2026-01-01T00:00:30Z''"
    by (simp add: spellInstant_def toISOString_def Let_def msPerDay_def sample_calendar sample_month
        isoYear_def pad2_def pad3_def pad4_def canonicalIso_def js_def)
  show parse: "dateParse (js ''2026-01-01T00:00:30Z'') = Some 1767225630000"
    using spellInstant_facts(2) [of 1767225630000] spell by simp
  show "timestampMilliseconds (js ''2026-01-01T00:00:30Z'') = 1767225630000"
    by (simp add: timestampMilliseconds_def parse)
  have "wf_timestamp (js ''2026-01-01T00:00:30Z'')"
    using spell by (auto simp: wf_timestamp_iff intro!: exI [of _ 1767225630000])
  then show "stamp (\<lambda>s. s) (js ''2026-01-01T00:00:30Z'')"
    by (simp add: stamp_def canonical_string_def surrogate_defs js_def)
qed

lemma sample_other_digest: "SHA256_PATTERN (replicate 64 98)" "string_ok (\<lambda>s. s) (replicate 64 98)"
  "length (concat (map quoteUnit (replicate 64 98))) = 64"
  using canonical_string_ascii [of "replicate 64 98"]
  by (simp_all add: SHA256_PATTERN_def char_class_defs list_all_iff string_ok_def
      MAX_CANONICAL_JSON_STRING_CODE_UNITS_def quoteUnit_def length_concat comp_def sum_list_replicate)

lemma sample_issued_wf: "wf_ticket (\<lambda>s. s) sample_issued"
  using sample_ticket_wf sample_expiry sample_other_digest sample_stamps
  by (simp add: wf_ticket_def sample_issued_def sample_ticket_simps sample_now_def)

lemma sample_issued_json: "canonicalizable (\<lambda>s. s) (ticket_json sample_issued)"
proof -
  have "string_ok (\<lambda>s. s) sample_digest"
    using sample_digest_ok by (simp add: string_ok_def MAX_CANONICAL_JSON_STRING_CODE_UNITS_def)
  then show ?thesis
    unfolding ticket_json_def ticketFields_def sample_issued_def sample_ticket_def sample_contract_def subject_json_def audience_json_def
    using sample_other_digest
    by (simp add: canonicalizable_def length_render_jrec separators_def jrec_measures sample_digest_quote
      spelling_def effectClasses_def EXECUTION_TICKET_KIND_def INTENT_CONTRACT_SPEC_VERSION_def
      safe_int_def MAX_SAFE_INTEGER_def jsonQuote_def quoteUnit_def string_ok_def canonical_string_def surrogate_defs
      js_def decInt_def decDigits.simps MAX_CANONICAL_JSON_STRING_CODE_UNITS_def MAX_CANONICAL_JSON_DEPTH_def
      MAX_CANONICAL_JSON_NODES_def MAX_CANONICAL_JSON_OUTPUT_CODE_UNITS_def)
qed

lemma sample_issued_accepted:
  "validateSafeCodingExecutionTicket (\<lambda>s. s) (ticket_json sample_issued) = Inr sample_issued"
  by (rule ticket_complete [OF sample_issued_wf refl sample_issued_json])

lemma sample_issued_registers:
  "\<exists>st. registerTicketTransition (\<lambda>s. s) sample_activated (sample_register\<lparr>gi_ticket := ticket_json sample_issued,
     gi_charge := Some \<lparr>kc_uniqueModifiedFiles = JInt 0, kc_mutationBytes = JInt 0, kc_testRuns = JInt 0\<rparr>\<rparr>) = Inr st"
proof -
  let ?c = "\<lparr>kc_uniqueModifiedFiles = JInt 0, kc_mutationBytes = JInt 0, kc_testRuns = JInt 0\<rparr>"
  have tk: "validatedTicket (\<lambda>s. s) (ticket_json sample_issued) = Inr sample_issued"
    using sample_issued_accepted by (simp add: validatedTicket_Inr)
  have charge: "validatedCharge (Some ?c) = Inr ?c"
    by (simp add: validatedCharge_Inr wf_charge_def safe_int_def MAX_SAFE_INTEGER_def)
  have time: "timestampMilliseconds_kernel (js ''2026-01-01T00:00:30Z'') label code = Inr 1767225630000" for label code
    using sample_expiry by (simp add: timestamp_kernel_Inr stamp_def)
  have simps: "et_issuedAt sample_issued = sample_now" "et_expiresAt sample_issued = js ''2026-01-01T00:00:30Z''"
    by (simp_all add: sample_issued_def sample_ticket_simps)
  have binds: "assertTicketBindsContract (\<lambda>s. s) sample_issued (current sample_lineage) 0 = Inr ()"
    by (simp add: assertTicketBindsContract_def sample_lineage_simps sample_ticket_simps sample_contract_simps
        Let_def sample_texts contractsCall_def sample_issued_def)
  have window: "assertContractUsableAt sample_contract 1767225600000 = Inr ()"
    "assertTicketTimeWindow sample_issued sample_contract 1767225600000 = Inr ()"
    by (simp_all add: assertContractUsableAt_def assertTicketTimeWindow_def sample_contract_simps simps sample_time time)
  have snap: "assertActiveSnapshotMatches sample_lineage (current sample_lineage)
      \<lparr>as_contractId = sample_cid, as_contractHash = sample_digest, as_revision = 1, as_revocationEpoch = 0,
       as_status = Active\<rparr> = Inr ()"
    by (simp add: assertActiveSnapshotMatches_Inr sample_lineage_simps)
  have state: "ks_lineages sample_activated = [(sample_cid, sample_lineage)]" "ks_tickets sample_activated = []"
    "ks_requestIds sample_activated = []" "ks_reservationIds sample_activated = []"
    by (simp_all add: sample_activated_def createEmptySafeCodingKernelState_def)
  have own: "ownValue [(sample_cid, sample_lineage)] sample_cid = Some sample_lineage"
    by (simp add: ownValue_def)
  note checks = binds [unfolded sample_lineage_simps(1)] window snap [unfolded sample_lineage_simps(1)]
  show ?thesis
    unfolding registerTicketTransition_def sample_register_def
    by (simp add: sample_time tk state own sample_lineage_simps checks charge assertLimitsMatch_def hasOwn_def Let_def
        safeAddBudget_def sample_contract_simps safe_int_def MAX_SAFE_INTEGER_def)
qed

lemma sample_port_simps:
  "gp_elapse sample_ports st = st" "gp_sha256 sample_ports st = sample_sha256"
  "gp_authenticate sample_ports st = Inr sample_caller" "gp_now sample_ports st = Inr (JStr sample_now)"
  "gp_evaluate sample_ports q st = Inr (jrec [(''allowed'', JBool True)])"
  "gp_resolve sample_ports a st = Inr sample_adapter"
  "gp_prepare sample_ports a b st = Inr (jrec [(''resolvedObjectId'', JStr (js ''o1'')), (''stateCommitmentHash'', JStr sample_digest)])"
  "gp_nextTicketId sample_ports st = Inr (JStr (js ''00000000-0000-4000-8000-000000000002''))"
  "gp_nextReservationId sample_ports st = Inr (JStr (js ''b1''))"
  "gp_nextNonce sample_ports st = Inr (JStr (js ''AAAAAAAAAAAAAAAAAAAAAA''))"
  "gp_ticketTtlMs sample_ports = 30000"
  by (simp_all add: sample_ports_def kernelPorts_def)

definition sample_caller_context :: caller_context where
  "sample_caller_context = \<lparr>cc_principalId = js ''agent'', cc_instanceId = js ''i1'', cc_guardianId = js ''g'',
     cc_executorId = js ''e'', cc_runtimeEpoch = JInt 0, cc_taskId = js ''t'', cc_workspaceId = js ''w''\<rparr>"

definition sample_binding :: adapter_binding where
  "sample_binding = \<lparr>ab_action = js ''git.status'', ab_policyDigest = sample_digest, ab_adapterId = js ''ad'',
     ab_adapterDigest = sample_digest, ab_adapterRegistryDigest = sample_digest, ab_runnerRegistryDigest = sample_digest,
     ab_effectRegistryDigest = sample_digest, ab_effectClass = LocalReversible\<rparr>"

definition sample_active :: guardian_snapshot where
  "sample_active = \<lparr>gs_contractId = sample_cid, gs_contractHash = sample_digest, gs_revision = 1,
     gs_revocationEpoch = JInt 0, gs_status = Active\<rparr>"

lemma readField_jrec: "readField (jrec kvs) k = (case map_of kvs k of None \<Rightarrow> JUndefined | Some v \<Rightarrow> v)"
  using getProp_jfields by (simp add: readField_def jrec_def)

lemma isObject_jrec: "isObject (jrec kvs)" "isTruthy (jrec kvs)" "jrec kvs \<noteq> JNull"
  by (simp_all add: isObject_def isTruthy_def jrec_def)

lemma sample_identifiers: "list_all (\<lambda>s. isIdentifier (JStr (js s)))
    [''agent'', ''i1'', ''g'', ''e'', ''t'', ''w'', ''git.status'', ''ad'', ''o1'', ''00000000-0000-4000-8000-000000000001'']"
  by (simp add: isIdentifier_def IDENTIFIER_PATTERN_def js_def char_class_defs)

lemma sample_digest_passes: "isDigest (JStr sample_digest)"
  using sample_digest_ok by (simp add: isDigest_def)

lemma sample_snapshots:
  "snapshotCaller sample_caller = Inr sample_caller_context"
  "snapshotAdapterBinding sample_adapter = Inr sample_binding"
  "snapshotPreparedAction (jrec [(''resolvedObjectId'', JStr (js ''o1'')), (''stateCommitmentHash'', JStr sample_digest)]) =
     Inr \<lparr>pa_resolvedObjectId = js ''o1'', pa_stateCommitmentHash = sample_digest\<rparr>"
  "snapshotMandatoryDecision (jrec [(''allowed'', JBool True)]) = Inr \<lparr>pd_allowed = True, pd_reason = None\<rparr>"
  using sample_identifiers sample_digest_passes
  by (simp_all add: snapshotCaller_def sample_caller_def sample_caller_context_def snapshotAdapterBinding_def sample_adapter_def
      sample_binding_def snapshotPreparedAction_def snapshotMandatoryDecision_def readField_jrec isObject_jrec safe_int_def
      MAX_SAFE_INTEGER_def effectClassOf_def effectClasses_def js_inj)

lemma sample_state_port:
  "gp_getActiveContract sample_ports sample_cid sample_activated = Inr (activeSnapshot_json (Some \<lparr>as_contractId = sample_cid,
     as_contractHash = sample_digest, as_revision = 1, as_revocationEpoch = 0, as_status = Active\<rparr>))"
  "snapshotActiveContract (activeSnapshot_json (Some \<lparr>as_contractId = sample_cid,
     as_contractHash = sample_digest, as_revision = 1, as_revocationEpoch = 0, as_status = Active\<rparr>)) = Inr (Some sample_active)"
proof -
  have "ownValue (ks_lineages sample_activated) sample_cid = Some sample_lineage"
    by (simp add: sample_activated_def ownValue_def)
  then show "gp_getActiveContract sample_ports sample_cid sample_activated = Inr (activeSnapshot_json (Some \<lparr>as_contractId = sample_cid,
     as_contractHash = sample_digest, as_revision = 1, as_revocationEpoch = 0, as_status = Active\<rparr>))"
    by (simp add: sample_ports_def kernelPorts_def getActiveContract_def lookupProperty_def)
      (simp add: sample_lineage_def firstLineage_def sample_contract_def)
  have "isIdentifier (JStr sample_cid)"
    using sample_identifiers by (simp add: sample_cid_def sample_contract_def)
  then show "snapshotActiveContract (activeSnapshot_json (Some \<lparr>as_contractId = sample_cid,
     as_contractHash = sample_digest, as_revision = 1, as_revocationEpoch = 0, as_status = Active\<rparr>)) = Inr (Some sample_active)"
    using sample_digest_passes
    by (simp add: activeSnapshot_json_def snapshotActiveContract_def readField_jrec isObject_jrec safe_int_def MAX_SAFE_INTEGER_def
      statusOf_def spelling_def contractStatuses_def sample_active_def)
qed

lemma sample_after [simp]: "after_calls sample_ports n st = st"
  by (induction n) (simp_all add: after_calls_def sample_port_simps)

lemma sample_reads:
  "reads_caller sample_ports st sample_caller_context" "reads_time sample_ports st 1767225600000"
  "reads_adapter sample_ports a st sample_binding" "reads_active sample_ports sample_verified sample_activated sample_active"
  "policy_allows sample_ports q st"
  "reads_prepared sample_ports a b st \<lparr>pa_resolvedObjectId = js ''o1'', pa_stateCommitmentHash = sample_digest\<rparr>"
proof -
  show "reads_active sample_ports sample_verified sample_activated sample_active"
    using sample_state_port
    by (simp add: reads_active_def sample_verified_def sample_cid_def [symmetric] sample_active_def)
      (simp add: sample_contract_def)
  show "reads_time sample_ports st 1767225600000"
    using sample_stamps by (simp add: reads_time_def sample_port_simps sample_now_def stamp_def)
qed (simp_all add: reads_caller_def reads_adapter_def policy_allows_def reads_prepared_def sample_port_simps sample_snapshots)

lemma sample_usable: "usable_at sample_contract 1767225600000"
  using sample_stamps by (simp add: usable_at_def sample_contract_simps sample_now_def stamp_def)

lemma sample_authorized:
  "authorized (\<lambda>s. s) sample_ports sample_envelope sample_action sample_activated sample_verified
     (GitStatusAction (js ''r1'')) sample_caller_context"
proof -
  have "caller_matches (ic_subject sample_contract) (ic_audience sample_contract) sample_caller_context"
    by (simp add: caller_matches_def sample_contract_def sample_caller_context_def)
  moreover have "action_within sample_contract (GitStatusAction (js ''r1''))"
    by (simp add: action_within_def sample_contract_def)
  moreover have "vc_contract sample_verified = sample_contract" "vc_contractHash sample_verified = replicate 64 97"
    by (simp_all add: sample_verified_def sample_digest_def)
  ultimately show ?thesis
    using sample_verifies sample_action_ok(1) sample_hashes(1) sample_reads sample_usable
    by (auto simp: authorized_def sample_port_simps)
qed

lemma sample_arguments:
  "argumentFields (action_json (GitStatusAction (js ''r1''))) = jrec [(''action'', JStr (js ''git.status''))]"
  by (simp add: argumentFields_def jrec_def jfields_def js_inj)

lemma sample_argument_hash:
  "hashArguments (\<lambda>s. s) sample_ports (GitStatusAction (js ''r1'')) st = (Inr (JStr (replicate 64 98)), st)"
proof -
  let ?text = "render (jrec [(''action'', JStr (js ''git.status''))])"
  have can: "canonicalizeJson (\<lambda>s. s) (jrec [(''action'', JStr (js ''git.status''))]) = Inr ?text"
    by (simp add: canonicalizeJson_Inr json_eval)
  have "list_all (\<lambda>u. u < 0x80) (js ARGUMENT_HASH_DOMAIN @ [0] @ ?text)"
    by (simp add: ARGUMENT_HASH_DOMAIN_def json_eval)
  note ascii = canonical_string_ascii [OF this] utf8Bytes_ascii [OF this, of "[]"]
  have "take 8 (hash_input INTENT_CONTRACT_HASH_DOMAIN t) = map toByte (js ''clodex.i'')" for t
    by (simp add: hash_input_def INTENT_CONTRACT_HASH_DOMAIN_def js_def codePointBytes_def surrogate_defs)
  moreover have "take 8 (map toByte (js ARGUMENT_HASH_DOMAIN @ t)) = map toByte (js ''clodex.s'')" for t
    by (simp add: ARGUMENT_HASH_DOMAIN_def js_def)
  moreover have "map toByte (js ''clodex.s'') \<noteq> map toByte (js ''clodex.i'')"
    by (simp add: js_def toByte_def)
  ultimately have "map toByte (js ARGUMENT_HASH_DOMAIN @ t) \<noteq> hash_input INTENT_CONTRACT_HASH_DOMAIN t'" for t t'
    by metis
  from this [of "[0] @ ?text"] ascii(2)
  have "utf8Bytes (js ARGUMENT_HASH_DOMAIN @ [0] @ ?text) \<noteq> hash_input INTENT_CONTRACT_HASH_DOMAIN t'" for t'
    by simp
  then have "sample_sha256 (utf8Bytes (js ARGUMENT_HASH_DOMAIN @ [0] @ ?text)) = Inr (JStr (replicate 64 98))"
    by (simp add: sample_sha256_def)
  moreover have "encodeUtf8 (\<lambda>s. s) (js ARGUMENT_HASH_DOMAIN @ [0] @ ?text) = Inr (utf8Bytes (js ARGUMENT_HASH_DOMAIN @ [0] @ ?text))"
    using ascii(1) by (simp only: encodeUtf8_Inr simp_thms)
  ultimately show ?thesis
    unfolding hashArguments_def sample_arguments callP_def can sample_port_simps
    by (simp add: passContract_def del: append_Cons append_Nil)
qed

lemma sample_request:
  "ticketRequest sample_verified sample_contract (GitStatusAction (js ''r1'')) (replicate 64 98) (JStr (replicate 64 98))
     \<lparr>pa_resolvedObjectId = js ''o1'', pa_stateCommitmentHash = sample_digest\<rparr> sample_binding sample_active
     (JStr (js ''00000000-0000-4000-8000-000000000002'')) (JStr (js ''b1'')) (JStr (js ''AAAAAAAAAAAAAAAAAAAAAA''))
     1767225600000 1767225630000 = ticket_json sample_issued"
  using sample_spell sample_expiry
  by (simp add: ticketRequest_def ticket_json_def ticketFields_def sample_issued_def sample_ticket_def sample_verified_def
      sample_binding_def sample_active_def canonicalTimestamp_guardian_def spellInstant_def [symmetric]
      EXECUTION_TICKET_KIND_def INTENT_CONTRACT_SPEC_VERSION_def) (simp add: sample_contract_def)

lemma sample_rechecks:
  "assertSameCaller (\<lambda>s. s) sample_caller_context sample_caller_context = Inr ()"
  "assertSameAdapterBinding (\<lambda>s. s) sample_binding sample_binding = Inr ()"
proof -
  have d: "string_ok (\<lambda>s. s) sample_digest"
    using sample_digest_ok by (simp add: string_ok_def MAX_CANONICAL_JSON_STRING_CODE_UNITS_def)
  have "canonicalizable (\<lambda>s. s) (caller_json sample_caller_context)"
    by (simp add: caller_json_def sample_caller_context_def json_eval safe_int_def MAX_SAFE_INTEGER_def decInt_def decDigits.simps)
  moreover have "canonicalizable (\<lambda>s. s) (adapter_json sample_binding)"
    using d by (simp add: adapter_json_def sample_binding_def canonicalizable_def length_render_jrec separators_def jrec_measures
      sample_digest_quote spelling_def effectClasses_def jsonQuote_def quoteUnit_def string_ok_def canonical_string_def surrogate_defs
      js_def MAX_CANONICAL_JSON_STRING_CODE_UNITS_def MAX_CANONICAL_JSON_DEPTH_def
      MAX_CANONICAL_JSON_NODES_def MAX_CANONICAL_JSON_OUTPUT_CODE_UNITS_def)
  ultimately have "canonicalizeJson (\<lambda>s. s) (caller_json sample_caller_context) = Inr (render (caller_json sample_caller_context))"
    "canonicalizeJson (\<lambda>s. s) (adapter_json sample_binding) = Inr (render (adapter_json sample_binding))"
    by (simp_all add: canonicalizeJson_Inr)
  then show "assertSameCaller (\<lambda>s. s) sample_caller_context sample_caller_context = Inr ()"
    "assertSameAdapterBinding (\<lambda>s. s) sample_binding sample_binding = Inr ()"
    by (simp_all add: assertSameCaller_def assertSameAdapterBinding_def passContract_def)
qed

lemma sample_issues:
  "\<exists>st. issueExecutionTicket (\<lambda>s. s) sample_ports sample_envelope sample_action sample_activated = (Inr sample_issued, st)"
proof -
  let ?a = "GitStatusAction (js ''r1'')" and ?p = "\<lparr>pa_resolvedObjectId = js ''o1'', pa_stateCommitmentHash = sample_digest\<rparr>"
  have c: "vc_contract sample_verified = sample_contract"
    by (simp add: sample_verified_def)
  have input: "(registrationInput \<lparr>rg_ticket = sample_issued, rg_expectedActive = sample_active,
      rg_limits = au_limits (ic_authority sample_contract), rg_charge = budgetChargeFor ?a\<rparr>)\<lparr>gi_now := sample_now\<rparr> =
      sample_register\<lparr>gi_ticket := ticket_json sample_issued,
        gi_charge := Some \<lparr>kc_uniqueModifiedFiles = JInt 0, kc_mutationBytes = JInt 0, kc_testRuns = JInt 0\<rparr>\<rparr>"
    by (simp add: registrationInput_def sample_register_def sample_active_def)
  obtain st where registers: "gp_registerTicket sample_ports \<lparr>rg_ticket = sample_issued, rg_expectedActive = sample_active,
      rg_limits = au_limits (ic_authority sample_contract), rg_charge = budgetChargeFor ?a\<rparr> sample_activated = (Inr (), st)"
    using sample_issued_registers
    by (auto simp: sample_ports_def kernelPorts_def registerTicket_def publish_def input [unfolded budgetChargeFor.simps])
  have run: "authorizeRequest (\<lambda>s. s) sample_ports sample_envelope sample_action sample_activated =
      (Inr (sample_verified, sample_contract, ?a, sample_caller_context), sample_activated)"
    using sample_authorized by (simp add: authorizeRequest_Inr c)
  have ports: "resolveAdapter sample_ports ?a m sample_activated = (Inr sample_binding, sample_activated)"
    "authenticateCaller sample_ports sample_activated = (Inr sample_caller_context, sample_activated)"
    "guardianTime sample_ports sample_activated = (Inr 1767225600000, sample_activated)"
    "evaluatePolicy sample_ports q m sample_activated = (Inr (), sample_activated)"
    "activeContract sample_ports sample_verified sample_contract sample_activated = (Inr sample_active, sample_activated)" for m q
    using sample_reads activeContract_Inr [of sample_ports sample_verified]
    by (simp_all add: resolveAdapter_Inr authenticateCaller_Inr guardianTime_Inr evaluatePolicy_Inr sample_port_simps c)
  have pure: "assertAdapterBinding sample_contract ?a sample_binding = Inr ()"
    "assertCallerMatches sample_contract sample_caller_context = Inr ()"
    "assertContractTime sample_ports sample_contract 1767225600000 = Inr ()"
    "parseTimestamp sample_ports (JStr (vld_expiresAt (ic_validity sample_contract))) l = Inr 1767312000500"
    "validateSafeCodingExecutionTicket (\<lambda>s. s) (ticket_json sample_issued) = Inr sample_issued" for l
    using sample_authorized sample_usable contract_stamps [OF sample_contract_valid]
      sample_issued_accepted sample_stamps
    by (simp_all add: assertAdapterBinding_Inr assertCallerMatches_Inr authorized_def c sample_contract_simps
        assertContractTime_Inr [OF sample_contract_valid])
      (simp add: adapter_within_def sample_binding_def sample_contract_simps actionKindName_def)
  show ?thesis
    unfolding issueExecutionTicket_def
    by (simp add: bindP_def run ports pure callP_def pureP_def sample_port_simps sample_snapshots sample_hashes passContract_def
        sample_argument_hash sample_rechecks assertMandatoryPolicy_def Let_def sample_request
        registers [unfolded budgetChargeFor.simps])
qed

end
