(* ===== verification/Guardian_Authority.thy ===== *)
theory Guardian_Authority
  imports Guardian_Samples
begin

text \<open>
  The guarantees of the guardian: what an issued ticket stands for, that it is registered with the kernel, that
  refused requests never reach an adapter, and what a recheck accepts.
\<close>

section \<open>Comparing callers and bindings by their canonical text\<close>

lemma same_text:
  assumes "canonicalizeJson nfc (jrec kvs) = Inr s" "canonicalizeJson nfc (jrec kvs') = Inr s"
    and "distinct (map fst kvs)" "distinct (map fst kvs')" "list_all (wf_jsval \<circ> snd) kvs" "list_all (wf_jsval \<circ> snd) kvs'"
    and "JAccessor \<notin> snd ` set kvs'"
  shows "list_all (\<lambda>(k, w). sortFields (getProp (jfields kvs) k) = sortFields w) kvs'"
proof -
  have "sortFields (jrec kvs) = sortFields (jrec kvs')"
    using assms by (intro render_inj wf_jsval_jrec) (auto simp: canonicalizeJson_Inr canonicalizable_def list_all_iff)
  then show ?thesis
    by (rule record_invert) (use assms in \<open>auto simp: requireRecord_Inr jrec_def\<close>)
qed

lemma effectClass_inj: "spelling effectClasses a = spelling effectClasses b \<longleftrightarrow> a = b"
  by (cases a; cases b) (simp_all add: spelling_def effectClasses_def js_def)

lemma assertSameAdapterBinding_Inr:
  assumes "assertSameAdapterBinding nfc b b' = Inr u"
  shows "b' = b"
proof -
  obtain s where "canonicalizeJson nfc (adapter_json b) = Inr s" "canonicalizeJson nfc (adapter_json b') = Inr s"
    using assms unfolding assertSameAdapterBinding_def by (auto simp: result_simps proc_simps)
  note same = same_text [OF this [unfolded adapter_json_def]]
  show ?thesis
    using same by (auto simp: effectClass_inj intro!: adapter_binding.equality)
qed

lemma assertSameCaller_Inr:
  assumes "assertSameCaller nfc c c' = Inr u"
  shows "c' = c"
proof -
  obtain s where "canonicalizeJson nfc (caller_json c) = Inr s" "canonicalizeJson nfc (caller_json c') = Inr s"
    using assms unfolding assertSameCaller_def by (auto simp: result_simps proc_simps)
  note same = same_text [OF this [unfolded caller_json_def]]
  show ?thesis
    using same by (auto intro!: caller_context.equality)
qed

lemma hashArguments_Inr:
  "hashArguments nfc ports a w = (Inr x, w') \<Longrightarrow> w' = gp_elapse ports w \<and>
     gp_sha256 ports w (hash_input ARGUMENT_HASH_DOMAIN (render (argumentFields (action_json a)))) = Inr x"
proof -
  have ascii: "list_all (\<lambda>u. u < 0x80) (js ARGUMENT_HASH_DOMAIN @ [0])" "list_all (\<lambda>u. u < 0x80) (js ARGUMENT_HASH_DOMAIN)"
    by (simp_all add: ARGUMENT_HASH_DOMAIN_def js_def)
  have "utf8Bytes (js ARGUMENT_HASH_DOMAIN @ [0] @ t) = hash_input ARGUMENT_HASH_DOMAIN t" for t
    using utf8Bytes_ascii [OF ascii(1)] utf8Bytes_ascii [OF ascii(2), of "[]"]
    by (simp add: hash_input_def toByte_def)
  then show "hashArguments nfc ports a w = (Inr x, w') \<Longrightarrow> ?thesis"
    by (auto simp: hashArguments_def proc_simps result_simps require_simps simp del: append_Cons append_Nil)
qed

section \<open>Issued tickets\<close>

text \<open>The ticket repeats the verified contract, the action, the prepared object, the adapter and the active snapshot.\<close>

definition ticket_binds_request ::
  "execution_ticket \<Rightarrow> verified_contract \<Rightarrow> safe_coding_action \<Rightarrow> prepared_action \<Rightarrow> adapter_binding \<Rightarrow> guardian_snapshot \<Rightarrow> bool" where
  "ticket_binds_request t v a p b g \<longleftrightarrow>
     et_requestId t = act_requestId a \<and> et_contractHash t = vc_contractHash v \<and>
     et_contractRevision t = ic_revision (vc_contract v) \<and> et_subject t = ic_subject (vc_contract v) \<and>
     et_audience t = ic_audience (vc_contract v) \<and> et_resolvedObjectId t = pa_resolvedObjectId p \<and>
     et_stateCommitmentHash t = pa_stateCommitmentHash p \<and> et_adapterId t = ab_adapterId b \<and>
     et_adapterDigest t = ab_adapterDigest b \<and> et_policyDigest t = ab_policyDigest b \<and>
     et_registryDigest t = ab_adapterRegistryDigest b \<and> et_runnerRegistryDigest t = ab_runnerRegistryDigest b \<and>
     et_effectRegistryDigest t = ab_effectRegistryDigest b \<and> et_effectClass t = ab_effectClass b \<and>
     JInt (et_revocationEpoch t) = gs_revocationEpoch g"

lemma ticketRequest_Inr:
  assumes "validateSafeCodingExecutionTicket nfc (ticketRequest v c a h ah p b g tid rid nonce n e) = Inr t"
    and "c = vc_contract v" "contract_valid nfc c"
  shows "ticket_binds_request t v a p b g" "h = et_actionHash t" "ah = JStr (et_argumentsHash t)"
    "tid = JStr (et_ticketId t)" "rid = JStr (et_budgetReservationId t)" "nonce = JStr (et_nonce t)"
    "et_issuedAt t = canonicalTimestamp_guardian n" "et_expiresAt t = canonicalTimestamp_guardian e"
proof -
  note shape = ticket_shape [OF assms(1)]
  note wf = shape [THEN conjunct1, unfolded wf_ticket_def]
  from shape have eq: "sortFields (ticketRequest v c a h ah p b g tid rid nonce n e) = sortFields (jrec (ticketFields t))"
    by (simp add: ticket_json_def)
  obtain fs where "\<And>l. requireRecord (ticketRequest v c a h ah p b g tid rid nonce n e) l = Inr fs"
    and given: "list_all (\<lambda>(k, w). sortFields (getProp fs k) = sortFields w) (ticketFields t)"
    by (rule record_invert [OF eq]) (auto simp: ticketFields_def)
  then have fs: "jobj fs = ticketRequest v c a h ah p b g tid rid nonce n e"
    by (simp add: requireRecord_Inr)
  note vals = given fs [unfolded ticketRequest_def jrec_def]
  have parts: "et_subject t = ic_subject c" "et_audience t = ic_audience c"
  proof -
    have c: "wf_subject nfc (ic_subject c)" "wf_audience nfc (ic_audience c)"
      using assms(3) by (auto simp: contract_valid_def wf_contract_def)
    have "validateSubject nfc (subject_json (ic_subject c)) = Inr (et_subject t)"
      "validateAudience nfc (audience_json (ic_audience c)) = Inr (et_audience t)"
      using vals wf by (auto simp: ticketFields_def intro!: subject_complete audience_complete)
    then show "et_subject t = ic_subject c" "et_audience t = ic_audience c"
      using subject_complete [OF c(1) refl] audience_complete [OF c(2) refl] by simp_all
  qed
  have "ticket_binds_request t v a p b g \<and> h = et_actionHash t \<and> ah = JStr (et_argumentsHash t) \<and>
      tid = JStr (et_ticketId t) \<and> rid = JStr (et_budgetReservationId t) \<and> nonce = JStr (et_nonce t) \<and>
      et_issuedAt t = canonicalTimestamp_guardian n \<and> et_expiresAt t = canonicalTimestamp_guardian e"
    using vals parts assms(2) by (auto simp: ticket_binds_request_def ticketFields_def effectClass_inj)
  then show "ticket_binds_request t v a p b g" "h = et_actionHash t" "ah = JStr (et_argumentsHash t)"
    "tid = JStr (et_ticketId t)" "rid = JStr (et_budgetReservationId t)" "nonce = JStr (et_nonce t)"
    "et_issuedAt t = canonicalTimestamp_guardian n" "et_expiresAt t = canonicalTimestamp_guardian e"
    by blast+
qed


lemma canonicalTimestamp_reads:
  assumes "usable_at c n" "n \<le> e" "e \<le> timestampMilliseconds (vld_expiresAt (ic_validity c))"
  shows "timestampMilliseconds (canonicalTimestamp_guardian e) = e"
proof -
  have "- 62167219200000 \<le> e" "e \<le> 253402300799999"
    using assms by (auto simp: usable_at_def wf_timestamp_iff)
  then show ?thesis
    by (simp add: canonicalTimestamp_guardian_def flip: spellInstant_def)
qed

lemma after_calls_call:
  "gp_elapse ports (after_calls ports (numeral k) w) = after_calls ports (numeral (k + num.One)) w"
proof -
  have "numeral (k + num.One) = Suc (numeral k)"
    by simp
  then show ?thesis
    unfolding after_calls_def by (simp only: funpow.simps comp_apply)
qed

text \<open>The checks between authorization and registration, in the order of the worlds they look at.\<close>

lemma issue_steps:
  assumes "issueExecutionTicket nfc ports sc av w = (Inr t, w')"
  obtains v a caller b p n g e where "authorized nfc ports sc av w v a caller"
    "reads_adapter ports a (after_calls ports 6 w) b" "adapter_within (vc_contract v) a b"
    "reads_prepared ports a b (after_calls ports 7 w) p"
    "hashSafeCodingAction nfc av (hashObject (gp_sha256 ports (after_calls ports 8 w))) = Inr (et_actionHash t)"
    "gp_sha256 ports (after_calls ports 9 w) (hash_input ARGUMENT_HASH_DOMAIN (render (argumentFields (action_json a)))) =
       Inr (JStr (et_argumentsHash t))"
    "reads_caller ports (after_calls ports 10 w) caller" "reads_time ports (after_calls ports 11 w) n"
    "usable_at (vc_contract v) n" "policy_allows ports (policyQuery v a caller) (after_calls ports 12 w)"
    "reads_active ports v (after_calls ports 13 w) g" "reads_adapter ports a (after_calls ports 14 w) b"
    "e = min (timestampMilliseconds (vld_expiresAt (ic_validity (vc_contract v)))) (n + gp_ticketTtlMs ports)" "n < e"
    "gp_nextTicketId ports (after_calls ports 15 w) = Inr (JStr (et_ticketId t))"
    "gp_nextReservationId ports (after_calls ports 16 w) = Inr (JStr (et_budgetReservationId t))"
    "gp_nextNonce ports (after_calls ports 17 w) = Inr (JStr (et_nonce t))"
    "wf_ticket nfc t" "ticket_binds_request t v a p b g"
    "et_issuedAt t = canonicalTimestamp_guardian n" "et_expiresAt t = canonicalTimestamp_guardian e"
    "gp_registerTicket ports \<lparr>rg_ticket = t, rg_expectedActive = g,
       rg_limits = au_limits (ic_authority (vc_contract v)), rg_charge = budgetChargeFor a\<rparr> (after_calls ports 18 w) = (Inr (), w')"
proof -
  from assms obtain v c a caller where auth: "authorizeRequest nfc ports sc av w = (Inr (v, c, a, caller), after_calls ports 6 w)"
    and rest: "authorized nfc ports sc av w v a caller" "c = vc_contract v"
    unfolding issueExecutionTicket_def by (auto simp: bindP_Inr authorizeRequest_Inr)
  then have valid: "contract_valid nfc (vc_contract v)"
    using verified_contract by (auto simp: authorized_def)
  let ?expiry = "timestampMilliseconds (vld_expiresAt (ic_validity (vc_contract v)))"
  have expiry: "parseTimestamp ports (JStr (vld_expiresAt (ic_validity (vc_contract v)))) l = Inr ?expiry" for l
    using contract_stamps [OF valid] by simp
  from assms obtain b p h ah caller' n g b' tid rid nonce where
    steps: "reads_adapter ports a (after_calls ports 6 w) b" "adapter_within (vc_contract v) a b"
      "reads_prepared ports a b (after_calls ports 7 w) p"
      "hashSafeCodingAction nfc av (hashObject (gp_sha256 ports (after_calls ports 8 w))) = Inr h"
      "gp_sha256 ports (after_calls ports 9 w) (hash_input ARGUMENT_HASH_DOMAIN (render (argumentFields (action_json a)))) =
         Inr ah"
      "reads_caller ports (after_calls ports 10 w) caller'" "reads_time ports (after_calls ports 11 w) n"
      "usable_at (vc_contract v) n" "assertSameCaller nfc caller caller' = Inr ()"
      "policy_allows ports (policyQuery v a caller') (after_calls ports 12 w)"
      "reads_active ports v (after_calls ports 13 w) g" "reads_adapter ports a (after_calls ports 14 w) b'"
      "assertSameAdapterBinding nfc b b' = Inr ()" "0 < gp_ticketTtlMs ports"
      "gp_nextTicketId ports (after_calls ports 15 w) = Inr tid"
      "gp_nextReservationId ports (after_calls ports 16 w) = Inr rid"
      "gp_nextNonce ports (after_calls ports 17 w) = Inr nonce"
      "validateSafeCodingExecutionTicket nfc (ticketRequest v (vc_contract v) a h ah p b' g tid rid nonce n
         (min ?expiry (n + gp_ticketTtlMs ports))) = Inr t"
      "gp_registerTicket ports \<lparr>rg_ticket = t, rg_expectedActive = g,
         rg_limits = au_limits (ic_authority (vc_contract v)), rg_charge = budgetChargeFor a\<rparr> (after_calls ports 18 w) = (Inr (), w')"
    unfolding issueExecutionTicket_def bindP_Inr [of "authorizeRequest nfc ports sc av"] auth
    by (clarsimp simp: rest(2) bindP_Inr pureP_Inr callP_Inr passContract_Inr resolveAdapter_Inr authenticateCaller_Inr
        guardianTime_Inr activeContract_Inr evaluatePolicy_Inr assertMandatoryPolicy_def assertAdapterBinding_Inr
        policyQuery_def after_calls_call assertContractTime_Inr [OF valid] Let_def expiry guardE_eq_Inr not_le
        reads_prepared_def dest!: hashArguments_Inr)
  let ?e = "min ?expiry (n + gp_ticketTtlMs ports)"
  have same: "caller' = caller" "b' = b"
    using steps(9,13) by (simp_all add: assertSameCaller_Inr assertSameAdapterBinding_Inr)
  note steps = steps [unfolded same]
  note ticket = ticketRequest_Inr [OF steps(18) refl valid]
  have "n < ?e"
    using steps(8,14) by (simp add: usable_at_def)
  then show thesis
    using steps ticket ticket_shape [OF steps(18)] rest(1) by (intro that [of v a caller b p n g ?e]) simp_all
qed

section \<open>Properties\<close>

text \<open>C11. An issued ticket is authority and nothing else is. When \<open>issueExecutionTicket\<close> returns a ticket, a trusted
  root authorizer signed the contract (verified at the start), the contract allows the action, the
  authenticated caller is its subject and audience both before PREPARE and at the end, the contract was
  within its validity and active in the kernel and the mandatory policy allowed it at both points, and the
  adapter is the one the contract's registries name, unchanged across PREPARE. The ticket repeats exactly
  this contract, action, prepared object, adapter and revocation epoch; it ends with the contract or after the
  configured time to live, whichever is earlier; and the last thing that happened is its registration.\<close>
theorem issued_ticket_authorized:
  assumes "issueExecutionTicket nfc ports signedContract actionValue w = (Inr t, w')"
  shows "\<exists>v a caller b p g n. authorized nfc ports signedContract actionValue w v a caller \<and>
    contract_valid nfc (vc_contract v) \<and> action_within (vc_contract v) a \<and>
    reads_adapter ports a (after_calls ports 6 w) b \<and> reads_adapter ports a (after_calls ports 14 w) b \<and>
    adapter_within (vc_contract v) a b \<and> reads_prepared ports a b (after_calls ports 7 w) p \<and>
    reads_caller ports (after_calls ports 10 w) caller \<and>
    caller_matches (et_subject t) (et_audience t) caller \<and>
    reads_time ports (after_calls ports 11 w) n \<and> usable_at (vc_contract v) n \<and>
    policy_allows ports (policyQuery v a caller) (after_calls ports 12 w) \<and>
    reads_active ports v (after_calls ports 13 w) g \<and>
    hashSafeCodingAction nfc actionValue (hashObject (gp_sha256 ports (after_calls ports 8 w))) = Inr (et_actionHash t) \<and>
    gp_sha256 ports (after_calls ports 9 w) (hash_input ARGUMENT_HASH_DOMAIN (render (argumentFields (action_json a)))) =
      Inr (JStr (et_argumentsHash t)) \<and>
    wf_ticket nfc t \<and> ticket_binds_request t v a p b g \<and>
    timestampMilliseconds (et_issuedAt t) = n \<and>
    timestampMilliseconds (et_expiresAt t) =
      min (timestampMilliseconds (vld_expiresAt (ic_validity (vc_contract v)))) (n + gp_ticketTtlMs ports) \<and>
    gp_registerTicket ports \<lparr>rg_ticket = t, rg_expectedActive = g, rg_limits = au_limits (ic_authority (vc_contract v)),
      rg_charge = budgetChargeFor a\<rparr> (after_calls ports 18 w) = (Inr (), w')"
proof (rule issue_steps [OF assms], goal_cases)
  case (1 v a caller b p n g e)
  have valid: "contract_valid nfc (vc_contract v)"
    using 1(1) verified_contract by (auto simp: authorized_def)
  moreover have "timestampMilliseconds (et_issuedAt t) = n" "timestampMilliseconds (et_expiresAt t) = e"
    using canonicalTimestamp_reads [OF 1(9), of n] canonicalTimestamp_reads [OF 1(9), of e] 1(9,13,14,20,21)
    by (simp_all add: usable_at_def)
  moreover have "caller_matches (et_subject t) (et_audience t) caller" "action_within (vc_contract v) a"
    using 1(1,19) by (simp_all add: authorized_def ticket_binds_request_def)
  ultimately show ?case
    using 1 by blast
qed

theorem issued_ticket_authorized_witness:
  "\<exists>st v a caller. issueExecutionTicket (\<lambda>s. s) sample_ports sample_envelope sample_action sample_activated = (Inr sample_issued, st) \<and>
     authorized (\<lambda>s. s) sample_ports sample_envelope sample_action sample_activated v a caller \<and>
     action_within (vc_contract v) a \<and> caller_matches (et_subject sample_issued) (et_audience sample_issued) caller"
proof -
  obtain st where st: "issueExecutionTicket (\<lambda>s. s) sample_ports sample_envelope sample_action sample_activated = (Inr sample_issued, st)"
    using sample_issues by blast
  then show ?thesis
    using issued_ticket_authorized [OF st] by (elim exE conjE) (intro exI conjI)
qed

lemma callP_updates:
  "callP (gp_resolve_update x ports) = callP ports" "callP (gp_prepare_update y ports) = callP ports"
  "callP (gp_registerTicket_update z ports) = callP ports"
  by (intro ext; simp add: callP_def)+

lemma authorize_consults:
  fixes ports :: "'w guardian_ports"
  defines "other \<equiv> \<lambda>resolve prepare register. ports\<lparr>gp_resolve := resolve, gp_prepare := prepare, gp_registerTicket := register\<rparr>"
  shows "authorizeRequest nfc (other resolve prepare register) = authorizeRequest nfc ports"
proof -
  let ?ports = "other resolve prepare register"
  have time: "parseTimestamp ?ports = parseTimestamp ports"
    by (intro ext) (simp add: parseTimestamp_def other_def split: jsval.split)
  then have "assertContractTime ?ports = assertContractTime ports"
    by (intro ext) (simp add: assertContractTime_def)
  moreover have "verificationDependencies ?ports = verificationDependencies ports"
    by (intro ext) (simp add: verificationDependencies_def other_def)
  moreover have "validateVerifiedContract_guardian nfc ?ports = validateVerifiedContract_guardian nfc ports"
    by (intro ext) (simp add: validateVerifiedContract_guardian_def callP_updates other_def)
  moreover have "authenticateCaller ?ports = authenticateCaller ports" "guardianTime ?ports = guardianTime ports"
    "activeContract ?ports = activeContract ports"
    by (intro ext; simp add: authenticateCaller_def guardianTime_def activeContract_def callP_updates
        time [unfolded other_def] other_def)+
  moreover have "assertMandatoryPolicy ?ports = assertMandatoryPolicy ports"
    by (intro ext) (simp add: assertMandatoryPolicy_def evaluatePolicy_def callP_updates other_def)
  ultimately show ?thesis
    by (intro ext) (simp add: authorizeRequest_def, simp add: callP_updates other_def)
qed

text \<open>C13. Denied callers cannot use the adapters as a probe. When a request is not authorized, it is refused,
  and the refusal, the error included, does not depend on what the adapter registry, PREPARE or
  the registration would have answered: they have not been consulted.\<close>
theorem denied_before_probe:
  assumes "\<not> (\<exists>v a caller. authorized nfc ports signedContract actionValue w v a caller)"
  shows "isl (fst (issueExecutionTicket nfc ports signedContract actionValue w)) \<and>
    issueExecutionTicket nfc (ports\<lparr>gp_resolve := resolve, gp_prepare := prepare, gp_registerTicket := register\<rparr>)
      signedContract actionValue w = issueExecutionTicket nfc ports signedContract actionValue w"
proof -
  obtain e w1 where denied: "authorizeRequest nfc ports signedContract actionValue w = (Inl e, w1)"
    using assms authorizeRequest_Inr by (metis old.prod.exhaust sum.exhaust)
  then show ?thesis
    by (simp add: issueExecutionTicket_def bindP_def authorize_consults)
qed

definition sample_diff :: jsval where
  "sample_diff = action_json (GitDiffAction (js ''r1'') WorktreeScope)"

lemma sample_diff_unauthorized:
  "\<not> (\<exists>v a caller. authorized (\<lambda>s. s) sample_ports sample_envelope sample_diff sample_activated v a caller)"
proof -
  have "validateSafeCodingAction (\<lambda>s. s) sample_diff = Inr (GitDiffAction (js ''r1'') WorktreeScope)"
    unfolding sample_diff_def
    by (rule action_complete) (simp_all add: ident_id surrogate_defs js_def IDENTIFIER_PATTERN_def char_class_defs)
  then show ?thesis
    using sample_verifies by (auto simp: authorized_def sample_verified_def action_within_def sample_contract_def)
qed

theorem denied_before_probe_witness:
  "isl (fst (issueExecutionTicket (\<lambda>s. s) sample_ports sample_envelope sample_diff sample_activated)) \<and>
   issueExecutionTicket (\<lambda>s. s) (sample_ports\<lparr>gp_resolve := \<lambda>_ _. Inl ThrownValue, gp_prepare := \<lambda>_ _ _. Inl ThrownValue,
     gp_registerTicket := \<lambda>_ st. (Inr (), st)\<rparr>) sample_envelope sample_diff sample_activated =
   issueExecutionTicket (\<lambda>s. s) sample_ports sample_envelope sample_diff sample_activated"
  by (rule denied_before_probe [OF sample_diff_unauthorized])

text \<open>C14. A recheck accepts exactly the tickets that still hold: the ticket and the action are valid and belong
  together, the time lies in the ticket's window, the caller is the one the ticket names, the
  mandatory policy allows the dispatch, and the adapter registered for the action is the one in the ticket,
  with the same policy, registries and effect class.\<close>
theorem revalidate_exact:
  "revalidateExecutionTicket nfc ports ticketValue actionValue w = (Inr u, w') \<longleftrightarrow>
     (\<exists>t a n caller b. validateSafeCodingExecutionTicket nfc ticketValue = Inr t \<and>
        validateSafeCodingAction nfc actionValue = Inr a \<and> et_requestId t = act_requestId a \<and>
        hashSafeCodingAction nfc actionValue (hashObject (gp_sha256 ports w)) = Inr (et_actionHash t) \<and>
        reads_time ports (after_calls ports 1 w) n \<and>
        timestampMilliseconds (et_issuedAt t) \<le> n \<and> n < timestampMilliseconds (et_expiresAt t) \<and>
        reads_caller ports (after_calls ports 2 w) caller \<and> caller_matches (et_subject t) (et_audience t) caller \<and>
        policy_allows ports \<lparr>pq_contractHash = et_contractHash t, pq_contractRevision = et_contractRevision t,
          pq_action = a, pq_caller = caller\<rparr> (after_calls ports 3 w) \<and>
        reads_adapter ports a (after_calls ports 4 w) b \<and>
        ab_action b = js (actionKindName (kindOf a)) \<and> ab_policyDigest b = et_policyDigest t \<and>
        ab_adapterId b = et_adapterId t \<and> ab_adapterDigest b = et_adapterDigest t \<and>
        ab_adapterRegistryDigest b = et_registryDigest t \<and> ab_runnerRegistryDigest b = et_runnerRegistryDigest t \<and>
        ab_effectRegistryDigest b = et_effectRegistryDigest t \<and> ab_effectClass b = et_effectClass t) \<and> w' = after_calls ports 5 w"
proof (cases "validateSafeCodingExecutionTicket nfc ticketValue")
  case (Inr t)
  then have stamps: "wf_timestamp (et_issuedAt t)" "wf_timestamp (et_expiresAt t)"
    using ticket_shape by (auto simp: wf_ticket_def stamp_def)
  have worlds: "after_calls ports (Suc 0) w = gp_elapse ports w" "after_calls ports 2 w = gp_elapse ports (gp_elapse ports w)"
    "after_calls ports 3 w = gp_elapse ports (after_calls ports 2 w)" "after_calls ports 4 w = gp_elapse ports (after_calls ports 3 w)"
    "after_calls ports 5 w = gp_elapse ports (after_calls ports 4 w)"
    by (simp_all add: after_calls_def numeral_eq_Suc)
  show ?thesis
    using Inr stamps
    by (auto simp: revalidateExecutionTicket_def bindP_Inr pureP_Inr callP_Inr passContract_Inr parseAction_Inr resolveAdapter_Inr
        authenticateCaller_Inr guardianTime_Inr evaluatePolicy_Inr assertMandatoryPolicyForTicket_def assertTicketCallerMatches_Inr
        worlds result_simps not_less not_le)
qed (simp add: revalidateExecutionTicket_def bindP_Inr pureP_Inr passContract_Inr)


text \<open>The static check of an action is exact: an action passes the contract's authority exactly when the contract
  has a permission of its kind that names at least the resources of the action, its git
  operation, or its test profile; a selector that is broader than the permission does not.\<close>
theorem action_authorized_exact:
  assumes "contract_valid nfc c" "wf_action nfc a"
  shows "assertActionAuthorized nfc c a = Inr () \<longleftrightarrow> action_within c a"
  using assms by (rule assertActionAuthorized_Inr)

theorem action_authorized_exact_witness:
  "assertActionAuthorized (\<lambda>s. s) sample_contract (CreateAction (js ''r1'') \<lparr>rs_kind = FileSelector, rs_path = js ''src/a''\<rparr> sample_digest 5) = Inr ()"
proof -
  let ?a = "CreateAction (js ''r1'') \<lparr>rs_kind = FileSelector, rs_path = js ''src/a''\<rparr> sample_digest 5"
  have new: "wf_selector (\<lambda>s. s) \<lparr>rs_kind = FileSelector, rs_path = js ''src/a''\<rparr>"
    by (simp add: wf_selector_def validateSelectorPath_def encodeUtf8_def assertCanonicalString_def
        canonical_string_def js_def surrogate_defs codePointBytes_def drivePrefix_def unsafeComponent_def char_class_defs)
  then have "wf_action (\<lambda>s. s) ?a"
    using sample_digest_ok by (simp add: counter_def safe_int_def MAX_SAFE_INTEGER_def)
      (simp add: ident_id surrogate_defs js_def IDENTIFIER_PATTERN_def char_class_defs)
  moreover have "action_within sample_contract ?a"
    using selector_covers_iff [OF sample_selector new]
    by (simp add: action_within_def sample_contract_def spelling_def fsActions_def actionKindName_def)
      (simp add: selector_covers_def pathEqualsOrDescends_def startsWith_def js_def)
  ultimately show ?thesis
    using action_authorized_exact [OF sample_contract_valid] by blast
qed


section \<open>The guardian on the kernel\<close>

text \<open>Between two calls of the guardian only the kernel's own transitions change the kernel.\<close>

definition kernel_world ::
  "(jstr \<Rightarrow> jstr) \<Rightarrow> ('w \<Rightarrow> kernel_state) \<Rightarrow> (kernel_state \<Rightarrow> 'w \<Rightarrow> 'w) \<Rightarrow> 'w guardian_ports \<Rightarrow> bool" where
  "kernel_world nfc get put ports \<longleftrightarrow>
     (\<forall>st w. get (put st w) = st) \<and> (\<forall>w. (kernel_step nfc)\<^sup>*\<^sup>* (get w) (get (gp_elapse ports w)))"

lemma kernel_world_run:
  assumes "kernel_world nfc get put ports"
  shows "(kernel_step nfc)\<^sup>*\<^sup>* (get w) (get (after_calls (kernelPorts nfc get put clock ports) n w))"
proof -
  have "gp_elapse (kernelPorts nfc get put clock ports) = gp_elapse ports"
    by (simp add: kernelPorts_def)
  then show ?thesis
    using assms by (induction n) (auto simp: after_calls_def kernel_world_def intro: rtranclp_trans)
qed

lemma kernel_registers:
  "gp_registerTicket (kernelPorts nfc get put clock ports) r w = (Inr (), w') \<longleftrightarrow>
     (\<exists>now st. clock w = Inr now \<and>
        registerTicketTransition nfc (get w) ((registrationInput r)\<lparr>gi_now := now\<rparr>) = Inr st \<and> w' = put st w)"
  by (auto simp: kernelPorts_def registerTicket_def publish_def result_simps split: sum.splits prod.splits)

text \<open>C12. Guardian and kernel together: with the in-memory kernel as its state port, whatever else happens to the
  kernel while the guardian waits, a returned ticket is recorded in the kernel as registered under
  the verified contract, whose exact revision is the active one, charged within the limits of that revision;
  and the kernel state is still a reachable one, so that all its guarantees apply to the ticket.\<close>
theorem issued_ticket_registered:
  assumes "kernel_world nfc get put ports" "reachable kernel_init (kernel_step nfc) (get w)"
    and "issueExecutionTicket nfc (kernelPorts nfc get put clock ports) signedContract actionValue w = (Inr t, w')"
  shows "reachable kernel_init (kernel_step nfc) (get w') \<and>
    (\<exists>v a caller r l. authorized nfc (kernelPorts nfc get put clock ports) signedContract actionValue w v a caller \<and>
       ownValue (ks_tickets (get w')) (et_ticketId t) = Some r \<and> tr_ticket r = t \<and> tr_status r = Registered \<and>
       tr_contractId r = ic_contractId (vc_contract v) \<and>
       ownValue (ks_lineages (get w')) (ic_contractId (vc_contract v)) = Some l \<and>
       rr_status (current l) = Active \<and> rr_contractHash (current l) = vc_contractHash v \<and>
       binds_contract t (current l) (cl_revocationEpoch l) \<and>
       within_limits (cl_budget l) (au_limits (ic_authority (rr_contract (current l)))))"
proof (rule issue_steps [OF assms(3)], goal_cases)
  case (1 v a caller b p n g e)
  note steps = 1
  let ?w = "after_calls (kernelPorts nfc get put clock ports) 18 w"
  have reach: "reachable kernel_init (kernel_step nfc) (get ?w)"
    using kernel_world_run [OF assms(1)] assms(2) by (rule reachable_run)
  then have inv: "kernel_inv nfc (get ?w)"
    by (rule kernel.reachable_inv)
  from 1(22) obtain now st where st: "registerTicketTransition nfc (get ?w) ((registrationInput \<lparr>rg_ticket = t, rg_expectedActive = g,
      rg_limits = au_limits (ic_authority (vc_contract v)), rg_charge = budgetChargeFor a\<rparr>)\<lparr>gi_now := now\<rparr>) = Inr st" "w' = put st ?w"
    unfolding kernel_registers by blast
  then have w': "get w' = st"
    using assms(1) by (simp add: kernel_world_def)
  have g: "gs_contractId g = ic_contractId (vc_contract v)"
    using 1(11) by (simp add: reads_active_def)
  have hash: "et_contractHash t = vc_contractHash v"
    using 1(19) by (simp add: ticket_binds_request_def)
  have self: "t' = t" if "validateSafeCodingExecutionTicket nfc (ticket_json t) = Inr t'" for t'
    using that ticket_shape [OF that] ticket_complete [OF 1(18) refl] by auto
  show ?case
  proof (rule register_shape [OF st(1) inv], goal_cases)
    case (1 t' l c)
    then have t': "t' = t"
      using self by (simp add: registrationInput_def)
    let ?l = "l\<lparr>cl_budget := chargedBudget l t c\<rparr>" and ?cid = "ic_contractId (vc_contract v)"
    have "ownValue (ks_tickets st) (et_ticketId t) = Some (newRecord l t c ?cid now)" "ownValue (ks_lineages st) ?cid = Some ?l"
      using 1(17) by (simp_all add: t' registrationInput_def g)
    moreover have "rr_status (current ?l) = Active" "binds_contract t (current ?l) (cl_revocationEpoch ?l)"
      "within_limits (cl_budget ?l) (au_limits (ic_authority (rr_contract (current ?l))))"
      using 1(5,16) by (simp_all add: live_def t')
    moreover have "reachable kernel_init (kernel_step nfc) st"
      using reach kernel_step.register [OF st(1)] by (rule reachable.advance)
    ultimately show ?case
      unfolding w' using steps(1) hash
      by (intro conjI exI [of _ v] exI [of _ a] exI [of _ caller] exI [of _ "newRecord l t c ?cid now"] exI [of _ ?l])
        (simp_all add: newRecord_def binds_contract_def)
  qed
qed

theorem issued_ticket_registered_witness:
  "\<exists>st r. issueExecutionTicket (\<lambda>s. s) sample_ports sample_envelope sample_action sample_activated = (Inr sample_issued, st) \<and>
     ownValue (ks_tickets st) (et_ticketId sample_issued) = Some r \<and> tr_ticket r = sample_issued \<and> tr_status r = Registered"
proof -
  obtain st where st: "issueExecutionTicket (\<lambda>s. s) sample_ports sample_envelope sample_action sample_activated = (Inr sample_issued, st)"
    using sample_issues by blast
  have ports: "kernelPorts (\<lambda>s. s) (\<lambda>st. st) (\<lambda>st _. st) (\<lambda>_. Inr sample_now) sample_ports = sample_ports"
    by (simp add: sample_ports_def kernelPorts_def)
  have "kernel_world (\<lambda>s. s) (\<lambda>st. st) (\<lambda>st _. st) sample_ports"
    by (simp add: kernel_world_def sample_port_simps)
  from issued_ticket_registered [OF this sample_reachable(1), where clock = "\<lambda>_. Inr sample_now", unfolded ports, OF st] show ?thesis
    using st by (elim exE conjE) (intro exI conjI)
qed

end
