(* ===== verification/Approval_Artifact.thy ===== *)
theory Approval_Artifact
  imports Envelope
begin

text \<open>
  The data of the approval package (\<open>clodex-approval/src/approval-artifact.ts\<close>): reviewers, the commitments an
  approval is bound to, the render model a reviewer is shown, review challenges, approval artifacts with their signed
  envelope, and replay references. Every validator first inspects the whole value
  (\<open>assertDataOnlyTree\<close>, with budgets for containers, string and key lengths, which are threaded through the
  recursion here) and then reads its fields.

  The package has its own primitive checks. \<open>ContractFailure\<close> is an exception of the contracts package that the
  code does not catch, \<open>OtherThrown\<close> whatever else a port or the language may throw, with its message when it is
  an \<open>Error\<close>. Values are trees, so that the check for cycles never fires, and a plain object has
  \<open>Object.prototype\<close>.
\<close>

section \<open>Errors\<close>

datatype replay_code = ArtifactReplay | ReviewCollision | ReviewMismatch | ReviewReplay | UnknownReview

datatype security_code =
    ArtifactMismatch | ContractInvalid | ApprovalExpired | IdentityDrift | InvalidPortOutput | ReviewBindingMismatch
  | ReviewerUntrusted | SignatureInvalid | StaleCommitment

datatype approval_error =
    ApprovalValidationError jstr
  | ApprovalReplayError replay_code jstr
  | ApprovalSecurityError security_code jstr
  | ContractFailure contract_error
  | OtherThrown "jstr option"

abbreviation approvalError :: "string \<Rightarrow> approval_error" where
  "approvalError s \<equiv> ApprovalValidationError (js s)"

text \<open>\<open>error instanceof Error ? error.message : ...\<close>\<close>

definition messageOf :: "approval_error \<Rightarrow> jstr option" where
  "messageOf e =
     (case e of ApprovalValidationError m \<Rightarrow> Some m | ApprovalReplayError _ m \<Rightarrow> Some m
      | ApprovalSecurityError _ m \<Rightarrow> Some m | ContractFailure c \<Rightarrow> Some (error_message c) | OtherThrown m \<Rightarrow> m)"

definition fromContracts :: "contract_error + 'a \<Rightarrow> approval_error + 'a" where
  "fromContracts m = catchE m ContractFailure"

definition wrapValidationError :: "approval_error \<Rightarrow> string \<Rightarrow> approval_error" where
  "wrapValidationError error fallback =
     ApprovalValidationError (case messageOf error of Some message \<Rightarrow> message | None \<Rightarrow> js fallback)"

section \<open>Constants and data\<close>

definition APPROVAL_ARTIFACT_KIND :: string where
  "APPROVAL_ARTIFACT_KIND = ''clodex.approval-artifact''"

definition APPROVAL_RENDER_MODEL_KIND :: string where
  "APPROVAL_RENDER_MODEL_KIND = ''clodex.approval-render-model''"

definition APPROVAL_REVIEW_KIND :: string where
  "APPROVAL_REVIEW_KIND = ''clodex.approval-review''"

definition APPROVAL_SPEC_VERSION :: string where
  "APPROVAL_SPEC_VERSION = ''1.0.0''"

definition APPROVAL_ARTIFACT_PAYLOAD_TYPE :: string where
  "APPROVAL_ARTIFACT_PAYLOAD_TYPE = ''application/vnd.clodex.approval-artifact.v1+jcs''"

definition APPROVAL_AUTHORITY_DIGEST_DOMAIN :: string where
  "APPROVAL_AUTHORITY_DIGEST_DOMAIN = ''clodex.approval-authority-view.v1''"

definition APPROVAL_ARTIFACT_DIGEST_DOMAIN :: string where
  "APPROVAL_ARTIFACT_DIGEST_DOMAIN = ''clodex.approval-artifact.v1''"

definition MAX_DATA_TREE_DEPTH :: nat where "MAX_DATA_TREE_DEPTH = 64"
definition MAX_DATA_TREE_NODES :: nat where "MAX_DATA_TREE_NODES = 100000"
definition MAX_DATA_ARRAY_LENGTH :: nat where "MAX_DATA_ARRAY_LENGTH = 10000"
definition MAX_DATA_STRING_CODE_UNITS :: nat where "MAX_DATA_STRING_CODE_UNITS = 4 * 1024 * 1024"
definition MAX_DATA_RECORD_KEYS :: nat where "MAX_DATA_RECORD_KEYS = 10000"
definition MAX_DATA_KEY_CODE_UNITS :: nat where "MAX_DATA_KEY_CODE_UNITS = 1 * 1024 * 1024"

datatype reviewer_role = HumanReviewer | PolicyReviewer

definition reviewerRoles :: "(string \<times> reviewer_role) list" where
  "reviewerRoles = [(''human-reviewer'', HumanReviewer), (''policy-reviewer'', PolicyReviewer)]"

record approval_reviewer =
  rv_reviewerId :: jstr
  rv_role :: reviewer_role

record approval_commitments =
  cm_policyDigest :: jstr
  cm_adapterRegistryDigest :: jstr
  cm_runnerRegistryDigest :: jstr
  cm_effectRegistryDigest :: jstr
  cm_rendererVersion :: jstr

record render_model =
  rm_rendererVersion :: jstr
  rm_contractId :: jstr
  rm_contractRevision :: int
  rm_previousRevisionHash :: "jstr option"
  rm_contractIssuedAt :: jstr
  rm_validity :: contract_validity
  rm_subject :: contract_subject
  rm_audience :: contract_audience
  rm_bindings :: contract_bindings
  rm_authority :: safe_coding_authority

record review_challenge =
  ch_reviewId :: jstr
  ch_contractHash :: jstr
  ch_contractRevision :: int
  ch_authorityDigest :: jstr
  ch_commitments :: approval_commitments
  ch_reviewer :: approval_reviewer
  ch_issuedAt :: jstr
  ch_expiresAt :: jstr
  ch_nonce :: jstr

record approval_artifact =
  aa_approvalId :: jstr
  aa_reviewId :: jstr
  aa_contractHash :: jstr
  aa_contractRevision :: int
  aa_authorityDigest :: jstr
  aa_commitments :: approval_commitments
  aa_reviewer :: approval_reviewer
  aa_issuedAt :: jstr
  aa_expiresAt :: jstr
  aa_nonce :: jstr

record replay_reference =
  rr_approvalId :: jstr
  rr_artifactDigest :: jstr
  rr_contractHash :: jstr
  rr_contractRevision :: int
  rr_nonce :: jstr
  rr_expiresAt :: jstr

record parsed_approval =
  pv_artifact :: approval_artifact
  pv_canonicalPayload :: jstr
  pv_envelope :: signed_envelope
  pv_signature :: envelope_signature
  pv_message :: "byte list"

text \<open>The JSON forms. The five commitments are fields of the challenge and of the artifact themselves.\<close>

definition reviewer_json :: "approval_reviewer \<Rightarrow> jsval" where
  "reviewer_json r = jrec
     [(''reviewerId'', JStr (rv_reviewerId r)), (''role'', JStr (spelling reviewerRoles (rv_role r)))]"

definition commitmentEntries :: "approval_commitments \<Rightarrow> (string \<times> jsval) list" where
  "commitmentEntries c =
     [(''policyDigest'', JStr (cm_policyDigest c)), (''adapterRegistryDigest'', JStr (cm_adapterRegistryDigest c)),
      (''runnerRegistryDigest'', JStr (cm_runnerRegistryDigest c)),
      (''effectRegistryDigest'', JStr (cm_effectRegistryDigest c)), (''rendererVersion'', JStr (cm_rendererVersion c))]"

definition commitments_json :: "approval_commitments \<Rightarrow> jsval" where
  "commitments_json c = jrec (commitmentEntries c)"

definition render_model_json :: "render_model \<Rightarrow> jsval" where
  "render_model_json m = jrec
     [(''kind'', JStr (js APPROVAL_RENDER_MODEL_KIND)), (''specVersion'', JStr (js APPROVAL_SPEC_VERSION)),
      (''rendererVersion'', JStr (rm_rendererVersion m)), (''contractId'', JStr (rm_contractId m)),
      (''contractRevision'', jint (rm_contractRevision m)),
      (''previousRevisionHash'', nullable (rm_previousRevisionHash m)),
      (''contractIssuedAt'', JStr (rm_contractIssuedAt m)), (''validity'', validity_json (rm_validity m)),
      (''subject'', subject_json (rm_subject m)), (''audience'', audience_json (rm_audience m)),
      (''bindings'', bindings_json (rm_bindings m)), (''authority'', authority_json (rm_authority m))]"

definition challengeFields :: "review_challenge \<Rightarrow> (string \<times> jsval) list" where
  "challengeFields c =
     [(''kind'', JStr (js APPROVAL_REVIEW_KIND)), (''specVersion'', JStr (js APPROVAL_SPEC_VERSION)),
      (''reviewId'', JStr (ch_reviewId c)), (''contractHash'', JStr (ch_contractHash c)),
      (''contractRevision'', jint (ch_contractRevision c)), (''authorityDigest'', JStr (ch_authorityDigest c))] @
     commitmentEntries (ch_commitments c) @
     [(''reviewer'', reviewer_json (ch_reviewer c)), (''issuedAt'', JStr (ch_issuedAt c)),
      (''expiresAt'', JStr (ch_expiresAt c)), (''nonce'', JStr (ch_nonce c))]"

definition challenge_json :: "review_challenge \<Rightarrow> jsval" where
  "challenge_json c = jrec (challengeFields c)"

definition artifactFields :: "approval_artifact \<Rightarrow> (string \<times> jsval) list" where
  "artifactFields a =
     [(''kind'', JStr (js APPROVAL_ARTIFACT_KIND)), (''specVersion'', JStr (js APPROVAL_SPEC_VERSION)),
      (''approvalId'', JStr (aa_approvalId a)), (''reviewId'', JStr (aa_reviewId a)),
      (''contractHash'', JStr (aa_contractHash a)), (''contractRevision'', jint (aa_contractRevision a)),
      (''authorityDigest'', JStr (aa_authorityDigest a))] @
     commitmentEntries (aa_commitments a) @
     [(''reviewer'', reviewer_json (aa_reviewer a)), (''issuedAt'', JStr (aa_issuedAt a)),
      (''expiresAt'', JStr (aa_expiresAt a)), (''nonce'', JStr (aa_nonce a))]"

definition artifact_json :: "approval_artifact \<Rightarrow> jsval" where
  "artifact_json a = jrec (artifactFields a)"

definition referenceFields :: "replay_reference \<Rightarrow> (string \<times> jsval) list" where
  "referenceFields r =
     [(''approvalId'', JStr (rr_approvalId r)), (''artifactDigest'', JStr (rr_artifactDigest r)),
      (''contractHash'', JStr (rr_contractHash r)), (''contractRevision'', jint (rr_contractRevision r)),
      (''nonce'', JStr (rr_nonce r)), (''expiresAt'', JStr (rr_expiresAt r))]"

definition reference_json :: "replay_reference \<Rightarrow> jsval" where
  "reference_json r = jrec (referenceFields r)"

definition signature_json :: "envelope_signature \<Rightarrow> jsval" where
  "signature_json s = jrec
     [(''keyId'', JStr (sig_keyId s)), (''algorithm'', JStr (js SIGNATURE_ALGORITHM)),
      (''signature'', JStr (sig_signature s))]"

definition envelope_json :: "signed_envelope \<Rightarrow> jsval" where
  "envelope_json e = jrec
     [(''payloadType'', JStr (env_payloadType e)), (''payload'', JStr (env_payload e)),
      (''signatures'', jarr (map signature_json (env_signatures e)))]"

section \<open>Data-only trees\<close>

record data_budget =
  db_nodes :: nat
  db_stringCodeUnits :: nat
  db_keyCodeUnits :: nat

function inspectDataOnlyTree :: "jsval \<Rightarrow> jstr \<Rightarrow> data_budget \<Rightarrow> nat \<Rightarrow> approval_error + data_budget"
  and inspectDataArray :: "shape \<Rightarrow> jsval list \<Rightarrow> jstr \<Rightarrow> data_budget \<Rightarrow> nat \<Rightarrow> approval_error + data_budget"
  and inspectElements :: "jsval list \<Rightarrow> nat \<Rightarrow> jstr \<Rightarrow> data_budget \<Rightarrow> nat \<Rightarrow> approval_error + data_budget"
  and inspectFields :: "(jstr \<times> jsval) list \<Rightarrow> jstr \<Rightarrow> data_budget \<Rightarrow> nat \<Rightarrow> approval_error + data_budget"
where
  "inspectDataOnlyTree value label budget depth =
     (case value of
        JStr s \<Rightarrow>
          let budget1 = budget\<lparr>db_stringCodeUnits := db_stringCodeUnits budget + length s\<rparr> in
          if db_stringCodeUnits budget1 > MAX_DATA_STRING_CODE_UNITS
          then Inl (ApprovalValidationError (label @ js '' exceeds the data size limit'')) else Inr budget1
      | JNull \<Rightarrow> Inr budget
      | JBool _ \<Rightarrow> Inr budget
      | JNum _ \<Rightarrow> Inr budget
      | JArr sh xs \<Rightarrow>
          if depth \<ge> MAX_DATA_TREE_DEPTH
          then Inl (ApprovalValidationError (label @ js '' exceeds the data depth limit''))
          else
            let budget1 = budget\<lparr>db_nodes := db_nodes budget + 1\<rparr> in
            if db_nodes budget1 > MAX_DATA_TREE_NODES
            then Inl (ApprovalValidationError (label @ js '' exceeds the data node limit''))
            else inspectDataArray sh xs label budget1 (depth + 1)
      | JObj sh fs \<Rightarrow>
          if depth \<ge> MAX_DATA_TREE_DEPTH
          then Inl (ApprovalValidationError (label @ js '' exceeds the data depth limit''))
          else
            let budget1 = budget\<lparr>db_nodes := db_nodes budget + 1\<rparr> in
            if db_nodes budget1 > MAX_DATA_TREE_NODES
            then Inl (ApprovalValidationError (label @ js '' exceeds the data node limit''))
            else if foreignPrototype sh
            then Inl (ApprovalValidationError (label @ js '' must contain only plain data records''))
            else if symbolKeys sh
            then Inl (ApprovalValidationError (label @ js '' cannot contain symbol keys''))
            else if length fs > MAX_DATA_RECORD_KEYS
            then Inl (ApprovalValidationError (label @ js '' has too many fields''))
            else if hiddenFields sh
            then Inl (ApprovalValidationError (label @ js '' cannot contain hidden fields''))
            else inspectFields fs label budget1 depth
      | _ \<Rightarrow> Inl (ApprovalValidationError (label @ js '' contains a non-data value'')))"
| "inspectDataArray sh xs label budget depth =
     (if foreignPrototype sh then Inl (ApprovalValidationError (label @ js '' contains an exotic array''))
      else if symbolKeys sh then Inl (ApprovalValidationError (label @ js '' array has symbol keys''))
      else if length xs > MAX_DATA_ARRAY_LENGTH
      then Inl (ApprovalValidationError (label @ js '' array has too many entries''))
      else if hiddenFields sh
      then Inl (ApprovalValidationError (label @ js '' array must be dense and contain no extra fields''))
      else inspectElements xs 0 label budget depth)"
| "inspectElements [] index label budget depth = Inr budget"
| "inspectElements (x # xs) index label budget depth =
     (if x = JAccessor then Inl (ApprovalValidationError (label @ js '' array cannot contain accessors''))
      else bindE (inspectDataOnlyTree x (label @ js ''['' @ decDigits index @ js '']'') budget depth) (\<lambda>budget1.
        inspectElements xs (index + 1) label budget1 depth))"
| "inspectFields [] label budget depth = Inr budget"
| "inspectFields ((name, x) # fs) label budget depth =
     (let budget1 = budget\<lparr>db_keyCodeUnits := db_keyCodeUnits budget + length name\<rparr> in
      if db_keyCodeUnits budget1 > MAX_DATA_KEY_CODE_UNITS
      then Inl (ApprovalValidationError (label @ js '' keys exceed the size limit''))
      else if x = JAccessor then Inl (ApprovalValidationError (label @ js '' cannot contain accessors''))
      else bindE (inspectDataOnlyTree x (label @ js ''.'' @ name) budget1 (depth + 1)) (\<lambda>budget2.
        inspectFields fs label budget2 depth))"
  by pat_completeness auto
termination
  by (relation "measure (\<lambda>call. case call of
        Inl (Inl (v, l, b, d)) \<Rightarrow> 2 * size v
      | Inl (Inr (sh, xs, l, b, d)) \<Rightarrow> 2 * size_list size xs + 1
      | Inr (Inl (xs, i, l, b, d)) \<Rightarrow> 2 * size_list size xs
      | Inr (Inr (fs, l, b, d)) \<Rightarrow> 2 * field_size fs + 1)")
    (auto simp: size_prod_snd)

declare inspectDataOnlyTree.simps [simp del]

definition assertDataOnlyTree :: "jsval \<Rightarrow> string \<Rightarrow> approval_error + unit" where
  "assertDataOnlyTree value label =
     bindE (inspectDataOnlyTree value (js label) \<lparr>db_nodes = 0, db_stringCodeUnits = 0, db_keyCodeUnits = 0\<rparr> 0)
       (\<lambda>_. Inr ())"

section \<open>Primitive checks\<close>

definition requireRecord_approval :: "jsval \<Rightarrow> string \<Rightarrow> approval_error + (jstr \<times> jsval) list" where
  "requireRecord_approval value label =
     (case value of
        JObj sh fs \<Rightarrow>
          if foreignPrototype sh then Inl (approvalError (label @ '' must be a plain object'')) else Inr fs
      | _ \<Rightarrow> Inl (approvalError (label @ '' must be a plain object'')))"

definition requireExactKeys_approval :: "(jstr \<times> jsval) list \<Rightarrow> string list \<Rightarrow> string \<Rightarrow> approval_error + unit" where
  "requireExactKeys_approval fs expected label =
     guardE (sort (map fst fs) = sort (map js expected))
       (approvalError (label @ '' has unknown or missing fields''))"

definition requireArray_approval :: "jsval \<Rightarrow> string \<Rightarrow> approval_error + jsval list" where
  "requireArray_approval value label =
     (case value of JArr _ xs \<Rightarrow> Inr xs | _ \<Rightarrow> Inl (approvalError (label @ '' must be an array'')))"

definition requireString_approval :: "(jstr \<Rightarrow> jstr) \<Rightarrow> jsval \<Rightarrow> string \<Rightarrow> nat \<Rightarrow> approval_error + jstr" where
  "requireString_approval nfc value label maxLength =
     (case value of
        JStr s \<Rightarrow>
          if length s > maxLength then Inl (approvalError (label @ '' must be a bounded string''))
          else bindE (catchE (fromContracts (encodeUtf8 nfc s))
            (\<lambda>error. wrapValidationError error (label @ '' is invalid''))) (\<lambda>_. Inr s)
      | _ \<Rightarrow> Inl (approvalError (label @ '' must be a bounded string'')))"

definition requireIdentifier_approval :: "(jstr \<Rightarrow> jstr) \<Rightarrow> jsval \<Rightarrow> string \<Rightarrow> approval_error + jstr" where
  "requireIdentifier_approval nfc value label =
     bindE (requireString_approval nfc value label 256) (\<lambda>identifier.
     bindE (guardE (IDENTIFIER_PATTERN identifier)
       (approvalError (label @ '' is not a canonical identifier''))) (\<lambda>_. Inr identifier))"

definition requireAsciiToken_approval ::
  "(jstr \<Rightarrow> jstr) \<Rightarrow> jsval \<Rightarrow> string \<Rightarrow> nat \<Rightarrow> approval_error + jstr" where
  "requireAsciiToken_approval nfc value label maxLength =
     bindE (requireString_approval nfc value label maxLength) (\<lambda>token.
     bindE (guardE (ASCII_TOKEN_PATTERN token)
       (approvalError (label @ '' must be printable ASCII''))) (\<lambda>_. Inr token))"

definition requireDigest_approval :: "jsval \<Rightarrow> string \<Rightarrow> approval_error + jstr" where
  "requireDigest_approval value label =
     (case value of
        JStr s \<Rightarrow> bindE (guardE (SHA256_PATTERN s)
          (approvalError (label @ '' must be a lowercase SHA-256 hex digest''))) (\<lambda>_. Inr s)
      | _ \<Rightarrow> Inl (approvalError (label @ '' must be a lowercase SHA-256 hex digest'')))"

definition requireUuid_approval :: "jsval \<Rightarrow> string \<Rightarrow> approval_error + jstr" where
  "requireUuid_approval value label =
     (case value of
        JStr s \<Rightarrow> bindE (guardE (UUID_PATTERN s)
          (approvalError (label @ '' must be a lowercase UUID''))) (\<lambda>_. Inr s)
      | _ \<Rightarrow> Inl (approvalError (label @ '' must be a lowercase UUID'')))"

definition requireTimestamp_approval :: "(jstr \<Rightarrow> jstr) \<Rightarrow> jsval \<Rightarrow> string \<Rightarrow> approval_error + jstr" where
  "requireTimestamp_approval nfc value label =
     bindE (requireString_approval nfc value label 32) (\<lambda>timestamp.
     bindE (guardE (TIMESTAMP_PATTERN timestamp)
       (approvalError (label @ '' must be canonical UTC''))) (\<lambda>_.
     (case dateParse timestamp of
        None \<Rightarrow> Inl (approvalError (label @ '' is not a real timestamp''))
      | Some milliseconds \<Rightarrow>
          bindE (guardE (canonicalIso (toISOString milliseconds) = timestamp)
            (approvalError (label @ '' is not canonical UTC''))) (\<lambda>_. Inr timestamp))))"

definition requireIncreasingTimestamps :: "jstr \<Rightarrow> jstr \<Rightarrow> string \<Rightarrow> approval_error + unit" where
  "requireIncreasingTimestamps issuedAt expiresAt label =
     guardE (\<not> timestampMilliseconds issuedAt \<ge> timestampMilliseconds expiresAt)
       (approvalError (label @ '' expiry must be after issuance''))"

definition requirePositiveInteger_approval :: "jsval \<Rightarrow> string \<Rightarrow> approval_error + int" where
  "requirePositiveInteger_approval value label =
     (case value of
        JNum n \<Rightarrow> bindE (guardE (\<not> (\<not> isSafeInteger n \<or> numInt n \<le> 0))
          (approvalError (label @ '' must be a positive safe integer''))) (\<lambda>_. Inr (numInt n))
      | _ \<Rightarrow> Inl (approvalError (label @ '' must be a positive safe integer'')))"

definition requireLiteral_approval :: "jsval \<Rightarrow> string \<Rightarrow> string \<Rightarrow> approval_error + unit" where
  "requireLiteral_approval value expected label =
     guardE (value = JStr (js expected)) (approvalError (label @ '' must equal '' @ expected))"

definition requireEnum_approval :: "jsval \<Rightarrow> (string \<times> 'a) list \<Rightarrow> string \<Rightarrow> approval_error + 'a" where
  "requireEnum_approval value values label =
     (case value of
        JStr s \<Rightarrow>
          (case List.find (\<lambda>(name, _). js name = s) values of
             Some (_, c) \<Rightarrow> Inr c
           | None \<Rightarrow> Inl (approvalError (label @ '' is unsupported'')))
      | _ \<Rightarrow> Inl (approvalError (label @ '' is unsupported'')))"

definition requireBase64Url_approval :: "jsval \<Rightarrow> string \<Rightarrow> nat \<Rightarrow> nat \<Rightarrow> approval_error + jstr" where
  "requireBase64Url_approval value label minLength maxLength =
     (case value of
        JStr s \<Rightarrow>
          if length s < minLength \<or> length s > maxLength \<or> \<not> BASE64URL_PATTERN s
          then Inl (approvalError (label @ '' must be canonical unpadded base64url'')) else Inr s
      | _ \<Rightarrow> Inl (approvalError (label @ '' must be canonical unpadded base64url'')))"

section \<open>The render model\<close>

definition createCanonicalApprovalRenderModel :: "(jstr \<Rightarrow> jstr) \<Rightarrow> jsval \<Rightarrow> approval_error + render_model" where
  "createCanonicalApprovalRenderModel nfc contractValue =
     bindE (assertDataOnlyTree contractValue ''Intent Contract'') (\<lambda>_.
     bindE (fromContracts (validateSafeCodingIntentContract nfc contractValue)) (\<lambda>contract.
     Inr \<lparr>rm_rendererVersion = bnd_approvalRendererVersion (ic_bindings contract),
          rm_contractId = ic_contractId contract, rm_contractRevision = ic_revision contract,
          rm_previousRevisionHash = ic_previousRevisionHash contract, rm_contractIssuedAt = ic_issuedAt contract,
          rm_validity = ic_validity contract, rm_subject = ic_subject contract, rm_audience = ic_audience contract,
          rm_bindings = ic_bindings contract, rm_authority = ic_authority contract\<rparr>))"

definition renderModelKeys :: "string list" where
  "renderModelKeys =
     [''kind'', ''specVersion'', ''rendererVersion'', ''contractId'', ''contractRevision'', ''previousRevisionHash'',
      ''contractIssuedAt'', ''validity'', ''subject'', ''audience'', ''bindings'', ''authority'']"

definition validateCanonicalApprovalRenderModel :: "(jstr \<Rightarrow> jstr) \<Rightarrow> jsval \<Rightarrow> approval_error + render_model" where
  "validateCanonicalApprovalRenderModel nfc value =
     bindE (assertDataOnlyTree value ''Approval render model'') (\<lambda>_.
     bindE (requireRecord_approval value ''Approval render model'') (\<lambda>record.
     bindE (requireExactKeys_approval record renderModelKeys ''Approval render model'') (\<lambda>_.
     bindE (requireLiteral_approval (getProp record ''kind'') APPROVAL_RENDER_MODEL_KIND
       ''Approval render model kind'') (\<lambda>_.
     bindE (requireLiteral_approval (getProp record ''specVersion'') APPROVAL_SPEC_VERSION
       ''Approval render model specVersion'') (\<lambda>_.
     bindE (createCanonicalApprovalRenderModel nfc (jrec
       [(''kind'', JStr (js ''clodex.intent-contract'')), (''specVersion'', JStr (js ''1.0.0'')),
        (''contractId'', getProp record ''contractId''), (''revision'', getProp record ''contractRevision''),
        (''previousRevisionHash'', getProp record ''previousRevisionHash''),
        (''issuedAt'', getProp record ''contractIssuedAt''), (''validity'', getProp record ''validity''),
        (''subject'', getProp record ''subject''), (''audience'', getProp record ''audience''),
        (''bindings'', getProp record ''bindings''), (''authority'', getProp record ''authority''),
        (''nonAuthoritative'', jrec [(''goalLabel'', JStr []), (''notes'', jarr [])])])) (\<lambda>normalized.
     bindE (requireAsciiToken_approval nfc (getProp record ''rendererVersion'') ''Approval renderer version'' 128) (\<lambda>rendererVersion.
     bindE (guardE (\<not> rendererVersion \<noteq> bnd_approvalRendererVersion (rm_bindings normalized))
       (approvalError ''Approval render model renderer version does not match its binding'')) (\<lambda>_.
     Inr normalized))))))))"

text \<open>A hash port that is missing or has no \<open>sha256\<close> method is \<open>None\<close>.\<close>

definition hashDomainSeparated_approval ::
  "(jstr \<Rightarrow> jstr) \<Rightarrow> string \<Rightarrow> jstr \<Rightarrow> hash_port option \<Rightarrow> approval_error + jstr" where
  "hashDomainSeparated_approval nfc domain canonicalPayload hashPort =
     (case hashPort of
        None \<Rightarrow> Inl (approvalError ''A SHA-256 HashPort is required'')
      | Some sha256 \<Rightarrow>
          bindE (fromContracts (encodeUtf8 nfc (js domain))) (\<lambda>domainBytes.
          bindE (fromContracts (encodeUtf8 nfc canonicalPayload)) (\<lambda>payloadBytes.
          bindE (fromContracts (sha256 (domainBytes @ [0] @ payloadBytes))) (\<lambda>digest.
          requireDigest_approval digest ''HashPort SHA-256 result''))))"

definition hashCanonicalApprovalAuthority ::
  "(jstr \<Rightarrow> jstr) \<Rightarrow> jsval \<Rightarrow> hash_port option \<Rightarrow> approval_error + jstr" where
  "hashCanonicalApprovalAuthority nfc modelValue hashPort =
     bindE (validateCanonicalApprovalRenderModel nfc modelValue) (\<lambda>model.
     bindE (fromContracts (canonicalizeJson nfc (render_model_json model))) (\<lambda>text.
     hashDomainSeparated_approval nfc APPROVAL_AUTHORITY_DIGEST_DOMAIN text hashPort))"

section \<open>Reviewers, commitments, challenges, artifacts and replay references\<close>

definition validateApprovalReviewer :: "(jstr \<Rightarrow> jstr) \<Rightarrow> jsval \<Rightarrow> approval_error + approval_reviewer" where
  "validateApprovalReviewer nfc value =
     bindE (assertDataOnlyTree value ''Approval reviewer'') (\<lambda>_.
     bindE (requireRecord_approval value ''Approval reviewer'') (\<lambda>record.
     bindE (requireExactKeys_approval record [''reviewerId'', ''role''] ''Approval reviewer'') (\<lambda>_.
     bindE (requireIdentifier_approval nfc (getProp record ''reviewerId'') ''Reviewer ID'') (\<lambda>reviewerId.
     bindE (requireEnum_approval (getProp record ''role'') reviewerRoles ''Reviewer role'') (\<lambda>role.
     Inr \<lparr>rv_reviewerId = reviewerId, rv_role = role\<rparr>)))))"

definition commitmentKeys :: "string list" where
  "commitmentKeys =
     [''policyDigest'', ''adapterRegistryDigest'', ''runnerRegistryDigest'', ''effectRegistryDigest'', ''rendererVersion'']"

definition validateApprovalCommitmentSnapshot ::
  "(jstr \<Rightarrow> jstr) \<Rightarrow> jsval \<Rightarrow> approval_error + approval_commitments" where
  "validateApprovalCommitmentSnapshot nfc value =
     bindE (assertDataOnlyTree value ''Approval commitment snapshot'') (\<lambda>_.
     bindE (requireRecord_approval value ''Approval commitment snapshot'') (\<lambda>record.
     bindE (requireExactKeys_approval record commitmentKeys ''Approval commitment snapshot'') (\<lambda>_.
     bindE (requireDigest_approval (getProp record ''policyDigest'') ''Policy digest'') (\<lambda>policyDigest.
     bindE (requireDigest_approval (getProp record ''adapterRegistryDigest'') ''Adapter registry digest'') (\<lambda>adapterRegistryDigest.
     bindE (requireDigest_approval (getProp record ''runnerRegistryDigest'') ''Runner registry digest'') (\<lambda>runnerRegistryDigest.
     bindE (requireDigest_approval (getProp record ''effectRegistryDigest'') ''Effect registry digest'') (\<lambda>effectRegistryDigest.
     bindE (requireAsciiToken_approval nfc (getProp record ''rendererVersion'') ''Approval renderer version'' 128) (\<lambda>rendererVersion.
     Inr \<lparr>cm_policyDigest = policyDigest, cm_adapterRegistryDigest = adapterRegistryDigest,
          cm_runnerRegistryDigest = runnerRegistryDigest, cm_effectRegistryDigest = effectRegistryDigest,
          cm_rendererVersion = rendererVersion\<rparr>))))))))"

definition commitmentFields ::
  "(jstr \<Rightarrow> jstr) \<Rightarrow> (jstr \<times> jsval) list \<Rightarrow> string \<Rightarrow> approval_error + approval_commitments" where
  "commitmentFields nfc record label =
     bindE (requireDigest_approval (getProp record ''policyDigest'') (label @ '' policy digest'')) (\<lambda>policyDigest.
     bindE (requireDigest_approval (getProp record ''adapterRegistryDigest'') (label @ '' adapter registry digest'')) (\<lambda>adapterRegistryDigest.
     bindE (requireDigest_approval (getProp record ''runnerRegistryDigest'') (label @ '' runner registry digest'')) (\<lambda>runnerRegistryDigest.
     bindE (requireDigest_approval (getProp record ''effectRegistryDigest'') (label @ '' effect registry digest'')) (\<lambda>effectRegistryDigest.
     bindE (requireAsciiToken_approval nfc (getProp record ''rendererVersion'') (label @ '' renderer version'') 128) (\<lambda>rendererVersion.
     Inr \<lparr>cm_policyDigest = policyDigest, cm_adapterRegistryDigest = adapterRegistryDigest,
          cm_runnerRegistryDigest = runnerRegistryDigest, cm_effectRegistryDigest = effectRegistryDigest,
          cm_rendererVersion = rendererVersion\<rparr>)))))"

definition challengeKeys :: "string list" where
  "challengeKeys =
     [''kind'', ''specVersion'', ''reviewId'', ''contractHash'', ''contractRevision'', ''authorityDigest'',
      ''policyDigest'', ''adapterRegistryDigest'', ''runnerRegistryDigest'', ''effectRegistryDigest'', ''rendererVersion'',
      ''reviewer'', ''issuedAt'', ''expiresAt'', ''nonce'']"

definition validateApprovalReviewChallenge :: "(jstr \<Rightarrow> jstr) \<Rightarrow> jsval \<Rightarrow> approval_error + review_challenge" where
  "validateApprovalReviewChallenge nfc value =
     bindE (assertDataOnlyTree value ''Approval review challenge'') (\<lambda>_.
     bindE (requireRecord_approval value ''Approval review challenge'') (\<lambda>record.
     bindE (requireExactKeys_approval record challengeKeys ''Approval review challenge'') (\<lambda>_.
     bindE (requireLiteral_approval (getProp record ''kind'') APPROVAL_REVIEW_KIND ''Approval review kind'') (\<lambda>_.
     bindE (requireLiteral_approval (getProp record ''specVersion'') APPROVAL_SPEC_VERSION
       ''Approval review specVersion'') (\<lambda>_.
     bindE (requireTimestamp_approval nfc (getProp record ''issuedAt'') ''Review issuedAt'') (\<lambda>issuedAt.
     bindE (requireTimestamp_approval nfc (getProp record ''expiresAt'') ''Review expiresAt'') (\<lambda>expiresAt.
     bindE (requireIncreasingTimestamps issuedAt expiresAt ''Approval review'') (\<lambda>_.
     bindE (requireUuid_approval (getProp record ''reviewId'') ''Review ID'') (\<lambda>reviewId.
     bindE (requireDigest_approval (getProp record ''contractHash'') ''Review contract hash'') (\<lambda>contractHash.
     bindE (requirePositiveInteger_approval (getProp record ''contractRevision'') ''Review contract revision'') (\<lambda>contractRevision.
     bindE (requireDigest_approval (getProp record ''authorityDigest'') ''Review authority digest'') (\<lambda>authorityDigest.
     bindE (commitmentFields nfc record ''Review'') (\<lambda>commitments.
     bindE (validateApprovalReviewer nfc (getProp record ''reviewer'')) (\<lambda>reviewer.
     bindE (requireBase64Url_approval (getProp record ''nonce'') ''Review nonce'' 16 128) (\<lambda>nonce.
     Inr \<lparr>ch_reviewId = reviewId, ch_contractHash = contractHash, ch_contractRevision = contractRevision,
          ch_authorityDigest = authorityDigest, ch_commitments = commitments, ch_reviewer = reviewer,
          ch_issuedAt = issuedAt, ch_expiresAt = expiresAt, ch_nonce = nonce\<rparr>)))))))))))))))"

definition artifactKeys :: "string list" where
  "artifactKeys =
     [''kind'', ''specVersion'', ''approvalId'', ''reviewId'', ''contractHash'', ''contractRevision'', ''authorityDigest'',
      ''policyDigest'', ''adapterRegistryDigest'', ''runnerRegistryDigest'', ''effectRegistryDigest'', ''rendererVersion'',
      ''reviewer'', ''issuedAt'', ''expiresAt'', ''nonce'']"

definition validateCanonicalApprovalArtifact :: "(jstr \<Rightarrow> jstr) \<Rightarrow> jsval \<Rightarrow> approval_error + approval_artifact" where
  "validateCanonicalApprovalArtifact nfc value =
     bindE (assertDataOnlyTree value ''Approval Artifact'') (\<lambda>_.
     bindE (requireRecord_approval value ''Approval Artifact'') (\<lambda>record.
     bindE (requireExactKeys_approval record artifactKeys ''Approval Artifact'') (\<lambda>_.
     bindE (requireLiteral_approval (getProp record ''kind'') APPROVAL_ARTIFACT_KIND ''Approval Artifact kind'') (\<lambda>_.
     bindE (requireLiteral_approval (getProp record ''specVersion'') APPROVAL_SPEC_VERSION
       ''Approval Artifact specVersion'') (\<lambda>_.
     bindE (requireTimestamp_approval nfc (getProp record ''issuedAt'') ''Approval issuedAt'') (\<lambda>issuedAt.
     bindE (requireTimestamp_approval nfc (getProp record ''expiresAt'') ''Approval expiresAt'') (\<lambda>expiresAt.
     bindE (requireIncreasingTimestamps issuedAt expiresAt ''Approval Artifact'') (\<lambda>_.
     bindE (requireUuid_approval (getProp record ''approvalId'') ''Approval ID'') (\<lambda>approvalId.
     bindE (requireUuid_approval (getProp record ''reviewId'') ''Approval review ID'') (\<lambda>reviewId.
     bindE (requireDigest_approval (getProp record ''contractHash'') ''Approval contract hash'') (\<lambda>contractHash.
     bindE (requirePositiveInteger_approval (getProp record ''contractRevision'') ''Approval contract revision'') (\<lambda>contractRevision.
     bindE (requireDigest_approval (getProp record ''authorityDigest'') ''Approval authority digest'') (\<lambda>authorityDigest.
     bindE (commitmentFields nfc record ''Approval'') (\<lambda>commitments.
     bindE (validateApprovalReviewer nfc (getProp record ''reviewer'')) (\<lambda>reviewer.
     bindE (requireBase64Url_approval (getProp record ''nonce'') ''Approval nonce'' 16 128) (\<lambda>nonce.
     let artifact = \<lparr>aa_approvalId = approvalId, aa_reviewId = reviewId, aa_contractHash = contractHash,
       aa_contractRevision = contractRevision, aa_authorityDigest = authorityDigest, aa_commitments = commitments,
       aa_reviewer = reviewer, aa_issuedAt = issuedAt, aa_expiresAt = expiresAt, aa_nonce = nonce\<rparr> in
     bindE (fromContracts (canonicalizeJson nfc (artifact_json artifact))) (\<lambda>_.
     Inr artifact)))))))))))))))))"

definition parseCanonicalApprovalArtifact :: "(jstr \<Rightarrow> jstr) \<Rightarrow> jstr \<Rightarrow> approval_error + approval_artifact" where
  "parseCanonicalApprovalArtifact nfc canonicalPayload =
     catchE (bindE (fromContracts (parseCanonicalJson nfc canonicalPayload)) (validateCanonicalApprovalArtifact nfc))
       (\<lambda>error. wrapValidationError error ''Approval Artifact payload is invalid'')"

definition validateEnvelopeSignature_approval :: "(jstr \<Rightarrow> jstr) \<Rightarrow> jsval \<Rightarrow> approval_error + envelope_signature" where
  "validateEnvelopeSignature_approval nfc value =
     bindE (requireRecord_approval value ''Approval envelope signature'') (\<lambda>record.
     bindE (requireExactKeys_approval record [''keyId'', ''algorithm'', ''signature''] ''Approval envelope signature'') (\<lambda>_.
     bindE (requireLiteral_approval (getProp record ''algorithm'') SIGNATURE_ALGORITHM ''Approval signature algorithm'') (\<lambda>_.
     bindE (requireBase64Url_approval (getProp record ''signature'') ''Approval signature bytes'' 86 86) (\<lambda>encoded.
     bindE (catchE (bindE (fromContracts (decodeBase64Url encoded)) (\<lambda>bytes. guardE (\<not> length bytes \<noteq> 64)
         (approvalError ''P-256 P1363 approval signatures must contain exactly 64 bytes'')))
       (\<lambda>error. wrapValidationError error ''Approval signature bytes are invalid'')) (\<lambda>_.
     bindE (requireIdentifier_approval nfc (getProp record ''keyId'') ''Approval signer key ID'') (\<lambda>keyId.
     Inr \<lparr>sig_keyId = keyId, sig_signature = encoded\<rparr>))))))"

definition parseSignedApprovalArtifact :: "(jstr \<Rightarrow> jstr) \<Rightarrow> jsval \<Rightarrow> approval_error + parsed_approval" where
  "parseSignedApprovalArtifact nfc envelopeValue =
     bindE (assertDataOnlyTree envelopeValue ''Signed Approval Artifact envelope'') (\<lambda>_.
     bindE (requireRecord_approval envelopeValue ''Signed Approval Artifact envelope'') (\<lambda>record.
     bindE (requireExactKeys_approval record [''payloadType'', ''payload'', ''signatures'']
       ''Signed Approval Artifact envelope'') (\<lambda>_.
     bindE (requireLiteral_approval (getProp record ''payloadType'') APPROVAL_ARTIFACT_PAYLOAD_TYPE
       ''Approval Artifact payload type'') (\<lambda>_.
     bindE (requireBase64Url_approval (getProp record ''payload'') ''Approval Artifact envelope payload'' 1
       (128 * 1024)) (\<lambda>encodedPayload.
     bindE (requireArray_approval (getProp record ''signatures'') ''Approval signatures'') (\<lambda>signatures.
     bindE (guardE (\<not> length signatures \<noteq> 1)
       (approvalError ''Signed Approval Artifact must contain exactly one signature'')) (\<lambda>_.
     bindE (validateEnvelopeSignature_approval nfc (signatures ! 0)) (\<lambda>signature.
     bindE (catchE (bindE (fromContracts (decodeBase64Url encodedPayload)) (\<lambda>bytes. fromContracts (decodeUtf8 nfc bytes)))
       (\<lambda>error. wrapValidationError error ''Approval envelope payload is invalid'')) (\<lambda>canonicalPayload.
     bindE (parseCanonicalApprovalArtifact nfc canonicalPayload) (\<lambda>artifact.
     bindE (fromContracts (createEnvelopePreAuthenticationEncoding nfc (js APPROVAL_ARTIFACT_PAYLOAD_TYPE)
       canonicalPayload)) (\<lambda>message.
     Inr \<lparr>pv_artifact = artifact, pv_canonicalPayload = canonicalPayload,
          pv_envelope = \<lparr>env_payloadType = js APPROVAL_ARTIFACT_PAYLOAD_TYPE, env_payload = encodedPayload,
            env_signatures = [signature]\<rparr>,
          pv_signature = signature, pv_message = message\<rparr>)))))))))))"

definition hashCanonicalApprovalArtifact ::
  "(jstr \<Rightarrow> jstr) \<Rightarrow> jsval \<Rightarrow> hash_port option \<Rightarrow> approval_error + jstr" where
  "hashCanonicalApprovalArtifact nfc artifactValue hashPort =
     bindE (validateCanonicalApprovalArtifact nfc artifactValue) (\<lambda>artifact.
     bindE (fromContracts (canonicalizeJson nfc (artifact_json artifact))) (\<lambda>text.
     hashDomainSeparated_approval nfc APPROVAL_ARTIFACT_DIGEST_DOMAIN text hashPort))"

definition validateArtifactReplayReference :: "(jstr \<Rightarrow> jstr) \<Rightarrow> jsval \<Rightarrow> approval_error + replay_reference" where
  "validateArtifactReplayReference nfc value =
     bindE (assertDataOnlyTree value ''Approval artifact replay reference'') (\<lambda>_.
     bindE (requireRecord_approval value ''Approval artifact replay reference'') (\<lambda>record.
     bindE (requireExactKeys_approval record
       [''approvalId'', ''artifactDigest'', ''contractHash'', ''contractRevision'', ''nonce'', ''expiresAt'']
       ''Approval artifact replay reference'') (\<lambda>_.
     bindE (requireUuid_approval (getProp record ''approvalId'') ''Approval ID'') (\<lambda>approvalId.
     bindE (requireDigest_approval (getProp record ''artifactDigest'') ''Approval Artifact digest'') (\<lambda>artifactDigest.
     bindE (requireDigest_approval (getProp record ''contractHash'') ''Approval contract hash'') (\<lambda>contractHash.
     bindE (requirePositiveInteger_approval (getProp record ''contractRevision'') ''Approval contract revision'') (\<lambda>contractRevision.
     bindE (requireBase64Url_approval (getProp record ''nonce'') ''Approval nonce'' 16 128) (\<lambda>nonce.
     bindE (requireTimestamp_approval nfc (getProp record ''expiresAt'') ''Approval expiresAt'') (\<lambda>expiresAt.
     Inr \<lparr>rr_approvalId = approvalId, rr_artifactDigest = artifactDigest, rr_contractHash = contractHash,
          rr_contractRevision = contractRevision, rr_nonce = nonce, rr_expiresAt = expiresAt\<rparr>)))))))))"

definition commitmentsFromContract :: "(jstr \<Rightarrow> jstr) \<Rightarrow> jsval \<Rightarrow> approval_error + approval_commitments" where
  "commitmentsFromContract nfc contractValue =
     bindE (assertDataOnlyTree contractValue ''Intent Contract'') (\<lambda>_.
     bindE (fromContracts (validateSafeCodingIntentContract nfc contractValue)) (\<lambda>contract.
     Inr \<lparr>cm_policyDigest = bnd_policyDigest (ic_bindings contract),
          cm_adapterRegistryDigest = bnd_adapterRegistryDigest (ic_bindings contract),
          cm_runnerRegistryDigest = bnd_runnerRegistryDigest (ic_bindings contract),
          cm_effectRegistryDigest = bnd_effectRegistryDigest (ic_bindings contract),
          cm_rendererVersion = bnd_approvalRendererVersion (ic_bindings contract)\<rparr>))"

definition commitmentsFromReview :: "(jstr \<Rightarrow> jstr) \<Rightarrow> jsval \<Rightarrow> approval_error + approval_commitments" where
  "commitmentsFromReview nfc reviewValue =
     bindE (validateApprovalReviewChallenge nfc reviewValue) (\<lambda>review. Inr (ch_commitments review))"

definition commitmentsFromArtifact :: "(jstr \<Rightarrow> jstr) \<Rightarrow> jsval \<Rightarrow> approval_error + approval_commitments" where
  "commitmentsFromArtifact nfc artifactValue =
     bindE (validateCanonicalApprovalArtifact nfc artifactValue) (\<lambda>artifact. Inr (aa_commitments artifact))"

definition approvalValuesEqual :: "(jstr \<Rightarrow> jstr) \<Rightarrow> jsval \<Rightarrow> jsval \<Rightarrow> bool" where
  "approvalValuesEqual nfc left right =
     (case bindE (assertDataOnlyTree left ''Approval comparison value'') (\<lambda>_.
           bindE (assertDataOnlyTree right ''Approval comparison value'') (\<lambda>_.
           bindE (fromContracts (canonicalizeJson nfc left)) (\<lambda>l.
           bindE (fromContracts (canonicalizeJson nfc right)) (\<lambda>r. Inr (l = r))))) of
        Inl _ \<Rightarrow> False | Inr equal \<Rightarrow> equal)"

end
