(* ===== verification/Approval_Validation.thy ===== *)
theory Approval_Validation
  imports Approval_Artifact
begin

text \<open>
  What the validators of the approval package accept: data-only trees first, then the primitive checks, and then that each
  validator returns a value exactly for the JSON form of a well-formed value, up to the order of keys.
\<close>

section \<open>Data-only trees\<close>

fun containers :: "jsval \<Rightarrow> nat" where
  "containers (JArr _ xs) = Suc (sum_list (map containers xs))"
| "containers (JObj _ fs) = Suc (sum_list (map (\<lambda>f. containers (snd f)) fs))"
| "containers _ = 0"

fun stringUnits :: "jsval \<Rightarrow> nat" where
  "stringUnits (JStr s) = length s"
| "stringUnits (JArr _ xs) = sum_list (map stringUnits xs)"
| "stringUnits (JObj _ fs) = sum_list (map (\<lambda>f. stringUnits (snd f)) fs)"
| "stringUnits _ = 0"

fun keyUnits :: "jsval \<Rightarrow> nat" where
  "keyUnits (JArr _ xs) = sum_list (map keyUnits xs)"
| "keyUnits (JObj _ fs) = sum_list (map (\<lambda>f. length (fst f) + keyUnits (snd f)) fs)"
| "keyUnits _ = 0"

fun plain_tree :: "jsval \<Rightarrow> bool" where
  "plain_tree (JArr sh xs) = (sh = plain_shape \<and> length xs \<le> MAX_DATA_ARRAY_LENGTH \<and> (\<forall>x \<in> set xs. plain_tree x))"
| "plain_tree (JObj sh fs) = (sh = plain_shape \<and> length fs \<le> MAX_DATA_RECORD_KEYS \<and> (\<forall>f \<in> set fs. plain_tree (snd f)))"
| "plain_tree v = (\<not> (v = JUndefined \<or> v = JOther \<or> v = JAccessor))"

definition data_tree :: "jsval \<Rightarrow> bool" where
  "data_tree v \<longleftrightarrow> plain_tree v \<and> nesting v \<le> 64 \<and> containers v \<le> 100000 \<and> stringUnits v \<le> 4194304 \<and>
     keyUnits v \<le> 1048576"

definition spend :: "data_budget \<Rightarrow> nat \<Rightarrow> nat \<Rightarrow> nat \<Rightarrow> data_budget" where
  "spend b n s k = \<lparr>db_nodes = db_nodes b + n, db_stringCodeUnits = db_stringCodeUnits b + s,
     db_keyCodeUnits = db_keyCodeUnits b + k\<rparr>"

definition affordable :: "data_budget \<Rightarrow> bool" where
  "affordable b \<longleftrightarrow> db_nodes b \<le> MAX_DATA_TREE_NODES \<and> db_stringCodeUnits b \<le> MAX_DATA_STRING_CODE_UNITS \<and>
     db_keyCodeUnits b \<le> MAX_DATA_KEY_CODE_UNITS"

definition spend_tree :: "data_budget \<Rightarrow> jsval \<Rightarrow> data_budget" where
  "spend_tree b v = spend b (containers v) (stringUnits v) (keyUnits v)"

definition spend_list :: "data_budget \<Rightarrow> jsval list \<Rightarrow> data_budget" where
  "spend_list b xs = spend b (sum_list (map containers xs)) (sum_list (map stringUnits xs)) (sum_list (map keyUnits xs))"

definition spend_fields :: "data_budget \<Rightarrow> (jstr \<times> jsval) list \<Rightarrow> data_budget" where
  "spend_fields b fs = spend b (sum_list (map (\<lambda>f. containers (snd f)) fs)) (sum_list (map (\<lambda>f. stringUnits (snd f)) fs))
     (sum_list (map (\<lambda>f. length (fst f) + keyUnits (snd f)) fs))"

lemma spend_spend [simp]: "spend (spend b n s k) n' s' k' = spend b (n + n') (s + s') (k + k')"
  by (simp add: spend_def)

lemma spend_0 [simp]: "spend b 0 0 0 = b"
  by (simp add: spend_def)

lemma affordable_spend_mono: "affordable (spend b n s k) \<Longrightarrow> n' \<le> n \<Longrightarrow> s' \<le> s \<Longrightarrow> k' \<le> k \<Longrightarrow> affordable (spend b n' s' k')"
  by (auto simp: affordable_def spend_def)

lemma update_is_spend:
  "b\<lparr>db_nodes := Suc (db_nodes b)\<rparr> = spend b 1 0 0"
  "b\<lparr>db_stringCodeUnits := db_stringCodeUnits b + s\<rparr> = spend b 0 s 0"
  "b\<lparr>db_keyCodeUnits := db_keyCodeUnits b + k\<rparr> = spend b 0 0 k"
  by (cases b; simp add: spend_def)+

lemma affordable_first:
  "affordable b \<Longrightarrow> \<not> MAX_DATA_TREE_NODES < db_nodes (spend b 1 0 0) \<longleftrightarrow> affordable (spend b 1 0 0)"
  "affordable b \<Longrightarrow> \<not> MAX_DATA_STRING_CODE_UNITS < db_stringCodeUnits (spend b 0 s 0) \<longleftrightarrow> affordable (spend b 0 s 0)"
  "affordable b \<Longrightarrow> \<not> MAX_DATA_KEY_CODE_UNITS < db_keyCodeUnits (spend b 0 0 k) \<longleftrightarrow> affordable (spend b 0 0 k)"
  by (auto simp: affordable_def spend_def)

text \<open>The check of one container, and what its entries cost on top.\<close>

lemma nesting_entries:
  "d + Suc (foldr max ns 0) \<le> (m::nat) \<longleftrightarrow> d < m \<and> (\<forall>n \<in> set ns. d + 1 + n \<le> m)"
proof -
  have "d + Suc (foldr max ns 0) \<le> m \<longleftrightarrow> d < m \<and> foldr max ns 0 \<le> m - (d + 1)"
    by auto
  then show ?thesis
    unfolding foldr_max_le by fastforce
qed

lemma inspect_iff:
  shows "affordable b \<Longrightarrow> d \<le> 64 \<Longrightarrow> inspectDataOnlyTree v l b d = Inr b' \<longleftrightarrow>
      plain_tree v \<and> d + nesting v \<le> 64 \<and> affordable (spend_tree b v) \<and> b' = spend_tree b v"
    and "affordable b \<Longrightarrow> d \<le> 64 \<Longrightarrow> inspectDataArray sh xs l b d = Inr b' \<longleftrightarrow>
      sh = plain_shape \<and> length xs \<le> MAX_DATA_ARRAY_LENGTH \<and> (\<forall>x \<in> set xs. plain_tree x \<and> d + nesting x \<le> 64) \<and>
      affordable (spend_list b xs) \<and> b' = spend_list b xs"
    and "affordable b \<Longrightarrow> d \<le> 64 \<Longrightarrow> inspectElements xs i l b d = Inr b' \<longleftrightarrow>
      (\<forall>x \<in> set xs. plain_tree x \<and> d + nesting x \<le> 64) \<and> affordable (spend_list b xs) \<and> b' = spend_list b xs"
    and "affordable b \<Longrightarrow> d < 64 \<Longrightarrow> inspectFields fs l b d = Inr b' \<longleftrightarrow>
      (\<forall>f \<in> set fs. plain_tree (snd f) \<and> d + 1 + nesting (snd f) \<le> 64) \<and> affordable (spend_fields b fs) \<and> b' = spend_fields b fs"
proof (induction v l b d and sh xs l b d and xs i l b d and fs l b d arbitrary: b' and b' and b' and b'
    rule: inspectDataOnlyTree_inspectDataArray_inspectElements_inspectFields.induct)
  case (1 v l b d)
  show ?case
  proof (cases v)
    case (JStr s)
    then show ?thesis
      using affordable_first(2) [OF 1(3), of "length s"] 1(4)
      by (auto simp: inspectDataOnlyTree.simps Let_def spend_tree_def update_is_spend not_less)
  next
    case (JArr sh xs)
    have fits: "affordable (spend b 1 0 0)" if "affordable (spend_tree b v)"
      using that JArr by (auto simp: spend_tree_def elim: affordable_spend_mono)
    show ?thesis
    proof (cases "d < 64 \<and> affordable (spend b 1 0 0)")
      case True
      then have "inspectDataOnlyTree v l b d = inspectDataArray sh xs l (spend b 1 0 0) (d + 1)"
        using affordable_first(1) [OF 1(3)] JArr
        by (simp add: inspectDataOnlyTree.simps Let_def update_is_spend MAX_DATA_TREE_DEPTH_def)
      moreover have "spend_list (spend b 1 0 0) xs = spend_tree b v"
        using JArr by (simp add: spend_list_def spend_tree_def)
      moreover have "d + nesting v \<le> 64 \<longleftrightarrow> (\<forall>x \<in> set xs. d + 1 + nesting x \<le> 64)"
        using True nesting_entries [of d "map nesting xs" 64] JArr by simp
      moreover have "\<not> MAX_DATA_TREE_DEPTH \<le> d" "\<not> MAX_DATA_TREE_NODES < db_nodes (b\<lparr>db_nodes := db_nodes b + 1\<rparr>)"
        using True by (simp_all add: MAX_DATA_TREE_DEPTH_def affordable_def spend_def)
      note 1(1) [OF JArr this(1) refl this(2), of b']
      ultimately show ?thesis
        using True JArr by (auto simp: update_is_spend)
    next
      case False
      then have "inspectDataOnlyTree v l b d \<noteq> Inr b'"
        using affordable_first(1) [OF 1(3)] JArr
        by (auto simp: inspectDataOnlyTree.simps Let_def update_is_spend MAX_DATA_TREE_DEPTH_def)
      moreover have "\<not> (d + nesting v \<le> 64 \<and> affordable (spend_tree b v))"
        using False fits nesting_entries [of d "map nesting xs" 64] JArr by auto
      ultimately show ?thesis by blast
    qed
  next
    case (JObj sh fs)
    have fits: "affordable (spend b 1 0 0)" if "affordable (spend_tree b v)"
      using that JObj by (auto simp: spend_tree_def elim: affordable_spend_mono)
    show ?thesis
    proof (cases "d < 64 \<and> affordable (spend b 1 0 0) \<and> sh = plain_shape \<and> length fs \<le> MAX_DATA_RECORD_KEYS")
      case True
      then have "inspectDataOnlyTree v l b d = inspectFields fs l (spend b 1 0 0) d"
        using affordable_first(1) [OF 1(3)] JObj
        by (simp add: inspectDataOnlyTree.simps Let_def update_is_spend MAX_DATA_TREE_DEPTH_def)
      moreover have "spend_fields (spend b 1 0 0) fs = spend_tree b v"
        using JObj by (simp add: spend_fields_def spend_tree_def)
      moreover have "d + nesting v \<le> 64 \<longleftrightarrow> (\<forall>f \<in> set fs. d + 1 + nesting (snd f) \<le> 64)"
        using True nesting_entries [of d "map (\<lambda>f. nesting (snd f)) fs" 64] JObj by simp
      moreover have "\<not> MAX_DATA_TREE_DEPTH \<le> d" "\<not> MAX_DATA_TREE_NODES < db_nodes (b\<lparr>db_nodes := db_nodes b + 1\<rparr>)"
        "\<not> foreignPrototype sh" "\<not> symbolKeys sh" "\<not> MAX_DATA_RECORD_KEYS < length fs" "\<not> hiddenFields sh"
        using True by (simp_all add: MAX_DATA_TREE_DEPTH_def affordable_def spend_def)
      note 1(2) [OF JObj this(1) refl this(2-6), of b']
      ultimately show ?thesis
        using True JObj by (auto simp: update_is_spend)
    next
      case False
      then have "inspectDataOnlyTree v l b d \<noteq> Inr b'"
        using affordable_first(1) [OF 1(3)] JObj
        by (auto simp: inspectDataOnlyTree.simps Let_def update_is_spend MAX_DATA_TREE_DEPTH_def plain_shape_iff)
      moreover have "\<not> (plain_tree v \<and> d + nesting v \<le> 64 \<and> affordable (spend_tree b v))"
        using False fits nesting_entries [of d "map (\<lambda>f. nesting (snd f)) fs" 64] JObj by auto
      ultimately show ?thesis by blast
    qed
  qed (use 1(3,4) in \<open>auto simp: inspectDataOnlyTree.simps spend_tree_def\<close>)
next
  case (2 sh xs l b d)
  then show ?case
    by (auto simp: plain_shape_iff)
next
  case (3 i l b d)
  then show ?case
    by (auto simp: spend_list_def)
next
  case (4 x xs i l b d)
  show ?case
  proof (cases "x = JAccessor")
    case False
    have cost: "spend_list b (x # xs) = spend_list (spend_tree b x) xs"
      by (simp add: spend_list_def spend_tree_def)
    have fits: "affordable (spend_tree b x)" if "affordable (spend_list b (x # xs))"
      using that by (auto simp: spend_list_def spend_tree_def elim: affordable_spend_mono)
    show ?thesis
      using False 4 fits by (auto simp: result_simps cost)
  qed simp
next
  case (5 l b d)
  then show ?case
    by (auto simp: spend_fields_def)
next
  case (6 name x fs l b d)
  have cost: "spend_fields b ((name, x) # fs) = spend_fields (spend_tree (spend b 0 0 (length name)) x) fs"
    by (simp add: spend_fields_def spend_tree_def)
  have fits: "affordable (spend b 0 0 (length name))" "affordable (spend_tree (spend b 0 0 (length name)) x)"
    if "affordable (spend_fields b ((name, x) # fs))"
    using that by (auto simp: spend_fields_def spend_tree_def elim: affordable_spend_mono)
  let ?b = "spend b 0 0 (length name)" and ?l = "l @ js ''.'' @ name"
  show ?case
  proof (cases "affordable ?b \<and> x \<noteq> JAccessor")
    case True
    have small: "\<not> MAX_DATA_KEY_CODE_UNITS < db_keyCodeUnits (b\<lparr>db_keyCodeUnits := db_keyCodeUnits b + length name\<rparr>)"
      using True affordable_first(3) [OF 6(3), of "length name"] by (simp add: update_is_spend)
    have run: "inspectFields ((name, x) # fs) l b d = bindE (inspectDataOnlyTree x ?l ?b (d + 1)) (\<lambda>b2. inspectFields fs l b2 d)"
      using True small by (simp add: Let_def update_is_spend)
    have head: "inspectDataOnlyTree x ?l ?b (d + 1) = Inr b1 \<longleftrightarrow>
        plain_tree x \<and> d + 1 + nesting x \<le> 64 \<and> affordable (spend_tree ?b x) \<and> b1 = spend_tree ?b x" for b1
      using True 6(1) [OF refl small, of b1] 6(4) by (simp add: update_is_spend)
    have tail: "affordable b1 \<Longrightarrow> inspectFields fs l b1 d = Inr b' \<longleftrightarrow>
        (\<forall>f \<in> set fs. plain_tree (snd f) \<and> d + 1 + nesting (snd f) \<le> 64) \<and> affordable (spend_fields b1 fs) \<and>
        b' = spend_fields b1 fs" for b1
      using True 6(2) [OF refl small, of b1 b'] 6(4) by simp
    show ?thesis
      unfolding run bindE_eq_Inr head cost using tail [of "spend_tree ?b x"] fits(2) [unfolded cost] by auto
  next
    case False
    then have "inspectFields ((name, x) # fs) l b d \<noteq> Inr b'"
      using affordable_first(3) [OF 6(3), of "length name"]
      by (auto simp: Let_def update_is_spend)
    then show ?thesis
      using False fits(1) by auto
  qed
qed

lemma assertDataOnlyTree_Inr [require_simps]: "assertDataOnlyTree v label = Inr u \<longleftrightarrow> data_tree v"
proof -
  let ?b = "\<lparr>db_nodes = 0, db_stringCodeUnits = 0, db_keyCodeUnits = 0\<rparr>"
  have "affordable ?b" by (simp add: affordable_def)
  from inspect_iff(1) [OF this, of 0 v "js label"] show ?thesis
    by (simp add: assertDataOnlyTree_def result_simps data_tree_def affordable_def spend_tree_def spend_def
        MAX_DATA_TREE_NODES_def MAX_DATA_STRING_CODE_UNITS_def MAX_DATA_KEY_CODE_UNITS_def)
qed

text \<open>The order of keys does not matter, and records of short strings are data-only trees.\<close>

lemma data_tree_sortFields [simp]: "data_tree (sortFields v) = data_tree v"
proof -
  have "plain_tree (sortFields v) = plain_tree v \<and> containers (sortFields v) = containers v \<and>
      stringUnits (sortFields v) = stringUnits v \<and> keyUnits (sortFields v) = keyUnits v"
  proof (induction v)
    case (JArr sh xs)
    then show ?case
      by (simp add: comp_def cong: map_cong)
  next
    case (JObj sh fs)
    have IH: "plain_tree (sortFields (snd f)) = plain_tree (snd f)" "containers (sortFields (snd f)) = containers (snd f)"
      "stringUnits (sortFields (snd f)) = stringUnits (snd f)" "keyUnits (sortFields (snd f)) = keyUnits (snd f)"
      if "f \<in> set fs" for f
      using that JObj by (metis snds.intros)+
    show ?case
      by (simp add: sort_key_fst_map comp_def sum_list_sort_key IH cong: map_cong)
  qed auto
  then show ?thesis
    by (simp add: data_tree_def)
qed

lemma data_tree_cong: "sortFields v = sortFields w \<Longrightarrow> data_tree v = data_tree w"
  by (metis data_tree_sortFields)

lemma jrec_tree:
  "plain_tree (jrec kvs) \<longleftrightarrow> length kvs \<le> 10000 \<and> (\<forall>(k, v) \<in> set kvs. plain_tree v)"
  "containers (jrec kvs) = Suc (sum_list (map (\<lambda>(k, v). containers v) kvs))"
  "stringUnits (jrec kvs) = sum_list (map (\<lambda>(k, v). stringUnits v) kvs)"
  "keyUnits (jrec kvs) = sum_list (map (\<lambda>(k, v). length k + keyUnits v) kvs)"
  "nesting (jrec kvs) = Suc (foldr max (map (\<lambda>(k, v). nesting v) kvs) 0)"
  by (auto simp: jrec_def jfields_def comp_def case_prod_unfold MAX_DATA_RECORD_KEYS_def)

section \<open>Primitive checks\<close>

lemma open_approval:
  "bindE (assertDataOnlyTree v l) (\<lambda>_. bindE (requireRecord_approval v l') f) = Inr x \<longleftrightarrow>
     data_tree v \<and> (\<exists>fs. v = jobj fs \<and> f fs = Inr x)"
  by (cases v) (auto simp: result_simps require_simps requireRecord_approval_def data_tree_def)

lemma requireExactKeys_approval_Inr: "requireExactKeys_approval fs ks label = Inr u \<longleftrightarrow> exact_keys fs ks"
  by (simp add: requireExactKeys_approval_def exact_keys_def result_simps)

lemma requireString_approval_Inr:
  "requireString_approval nfc v label n = Inr s \<longleftrightarrow> v = JStr s \<and> length s \<le> n \<and> canonical_string nfc s"
  by (auto simp: requireString_approval_def fromContracts_def result_simps split: jsval.splits if_splits)

lemma requireIdentifier_approval_Inr:
  "requireIdentifier_approval nfc v label = Inr s \<longleftrightarrow> v = JStr s \<and> ident nfc s"
  by (auto simp: requireIdentifier_approval_def result_simps requireString_approval_Inr ident_def IDENTIFIER_PATTERN_def
      split: list.splits)

definition approval_token :: "(jstr \<Rightarrow> jstr) \<Rightarrow> jstr \<Rightarrow> bool" where
  "approval_token nfc s \<longleftrightarrow> length s \<le> 128 \<and> canonical_string nfc s \<and> ASCII_TOKEN_PATTERN s"

lemma requireAsciiToken_approval_Inr:
  "requireAsciiToken_approval nfc v label 128 = Inr s \<longleftrightarrow> v = JStr s \<and> approval_token nfc s"
  by (auto simp: requireAsciiToken_approval_def result_simps requireString_approval_Inr approval_token_def)

lemma requireDigest_approval_Inr: "requireDigest_approval v label = Inr s \<longleftrightarrow> v = JStr s \<and> SHA256_PATTERN s"
  by (auto simp: requireDigest_approval_def result_simps split: jsval.splits)

lemma requireUuid_approval_Inr: "requireUuid_approval v label = Inr s \<longleftrightarrow> v = JStr s \<and> UUID_PATTERN s"
  by (auto simp: requireUuid_approval_def result_simps split: jsval.splits)

lemma requireTimestamp_approval_Inr:
  "requireTimestamp_approval nfc v label = Inr s \<longleftrightarrow> v = JStr s \<and> stamp nfc s"
proof -
  have "requireTimestamp_approval nfc v label = Inr s \<longleftrightarrow> requireTimestamp nfc v label = Inr s"
    by (auto simp: requireTimestamp_approval_def requireTimestamp_def result_simps requireString_approval_Inr
        require_simps split: option.splits)
  then show ?thesis
    by (simp add: requireTimestamp_wf stamp_def)
qed

lemma requireIncreasingTimestamps_Inr:
  "requireIncreasingTimestamps a b label = Inr u \<longleftrightarrow> timestampMilliseconds a < timestampMilliseconds b"
  by (auto simp: requireIncreasingTimestamps_def result_simps)

lemma requirePositiveInteger_approval_Inr:
  "requirePositiveInteger_approval v label = Inr i \<longleftrightarrow> v = jint i \<and> safe_int i \<and> 0 < i"
proof (cases v)
  case (JNum n)
  then show ?thesis
    by (cases n) (auto simp: requirePositiveInteger_approval_def result_simps)
qed (auto simp: requirePositiveInteger_approval_def)

lemma requireLiteral_approval_Inr: "requireLiteral_approval v e label = Inr u \<longleftrightarrow> v = JStr (js e)"
  by (simp add: requireLiteral_approval_def result_simps)

lemma requireRole_Inr:
  "requireEnum_approval v reviewerRoles label = Inr r \<longleftrightarrow> v = JStr (spelling reviewerRoles r)"
proof -
  have "requireEnum_approval v reviewerRoles label = Inr r \<longleftrightarrow> requireEnum v reviewerRoles label = Inr r"
    by (auto simp: requireEnum_approval_def requireEnum_def split: jsval.splits option.splits)
  also have "\<dots> \<longleftrightarrow> v = JStr (spelling reviewerRoles r)"
    by (rule requireEnum_spelling; cases r; simp add: reviewerRoles_def)
  finally show ?thesis .
qed

lemma requireBase64Url_approval_Inr:
  "requireBase64Url_approval v label m n = Inr s \<longleftrightarrow>
     v = JStr s \<and> m \<le> length s \<and> length s \<le> n \<and> BASE64URL_PATTERN s"
  by (auto simp: requireBase64Url_approval_def split: jsval.splits if_splits)

lemma requireArray_approval_Inr: "requireArray_approval v label = Inr xs \<longleftrightarrow> (\<exists>sh. v = JArr sh xs)"
  by (auto simp: requireArray_approval_def split: jsval.splits)

definition approval_nonce :: "jstr \<Rightarrow> bool" where
  "approval_nonce s \<longleftrightarrow> 16 \<le> length s \<and> length s \<le> 128 \<and> BASE64URL_PATTERN s"

lemmas approval_leaf = requireExactKeys_approval_Inr requireIdentifier_approval_Inr requireAsciiToken_approval_Inr
  requireDigest_approval_Inr requireUuid_approval_Inr requireTimestamp_approval_Inr requireIncreasingTimestamps_Inr
  requirePositiveInteger_approval_Inr requireLiteral_approval_Inr requireRole_Inr
  requireBase64Url_approval_Inr [where m = 16 and n = 128, folded approval_nonce_def]

lemma leaf_lengths:
  "SHA256_PATTERN s \<Longrightarrow> length s \<le> 64" "UUID_PATTERN s \<Longrightarrow> length s \<le> 64" "stamp nfc s \<Longrightarrow> length s \<le> 64"
  "ident nfc s \<Longrightarrow> length s \<le> 256" "approval_token nfc s \<Longrightarrow> length s \<le> 128" "approval_nonce s \<Longrightarrow> length s \<le> 128"
  by (auto simp: SHA256_PATTERN_def UUID_PATTERN_def stamp_def wf_timestamp_def TIMESTAMP_PATTERN_def ident_def
      IDENTIFIER_PATTERN_def approval_token_def approval_nonce_def split: list.splits)

lemma reviewer_role_length: "length (spelling reviewerRoles r) = 14 \<or> length (spelling reviewerRoles r) = 15"
  by (cases r) (simp_all add: spelling_def reviewerRoles_def)

section \<open>Reviewers and commitments\<close>

definition wf_reviewer :: "(jstr \<Rightarrow> jstr) \<Rightarrow> approval_reviewer \<Rightarrow> bool" where
  "wf_reviewer nfc r \<longleftrightarrow> ident nfc (rv_reviewerId r)"

definition wf_commitments :: "(jstr \<Rightarrow> jstr) \<Rightarrow> approval_commitments \<Rightarrow> bool" where
  "wf_commitments nfc c \<longleftrightarrow>
     SHA256_PATTERN (cm_policyDigest c) \<and> SHA256_PATTERN (cm_adapterRegistryDigest c) \<and>
     SHA256_PATTERN (cm_runnerRegistryDigest c) \<and> SHA256_PATTERN (cm_effectRegistryDigest c) \<and>
     approval_token nfc (cm_rendererVersion c)"

lemma commitment_lengths:
  "wf_commitments nfc c \<Longrightarrow> length (cm_policyDigest c) \<le> 64" "wf_commitments nfc c \<Longrightarrow> length (cm_adapterRegistryDigest c) \<le> 64"
  "wf_commitments nfc c \<Longrightarrow> length (cm_runnerRegistryDigest c) \<le> 64" "wf_commitments nfc c \<Longrightarrow> length (cm_effectRegistryDigest c) \<le> 64"
  "wf_commitments nfc c \<Longrightarrow> length (cm_rendererVersion c) \<le> 128"
  by (auto simp: wf_commitments_def dest: leaf_lengths)

lemma reviewer_tree:
  assumes "wf_reviewer nfc r"
  shows "plain_tree (reviewer_json r)" "containers (reviewer_json r) = 1" "stringUnits (reviewer_json r) \<le> 271"
    "keyUnits (reviewer_json r) = 14" "nesting (reviewer_json r) = 1"
  using leaf_lengths(4) [OF assms [unfolded wf_reviewer_def]] reviewer_role_length [of "rv_role r"]
  by (auto simp: reviewer_json_def jrec_tree)

lemma commitments_tree: "wf_commitments nfc c \<Longrightarrow> data_tree (commitments_json c)"
  using commitment_lengths [of nfc c]
  by (auto simp: commitments_json_def commitmentEntries_def jrec_tree data_tree_def)

theorem validate_reviewer_exact:
  "validateApprovalReviewer nfc v = Inr r \<longleftrightarrow> wf_reviewer nfc r \<and> sortFields v = sortFields (reviewer_json r)"
proof
  assume "validateApprovalReviewer nfc v = Inr r"
  then show "wf_reviewer nfc r \<and> sortFields v = sortFields (reviewer_json r)"
    unfolding validateApprovalReviewer_def open_approval reviewer_json_def wf_reviewer_def
    by (auto simp: result_simps approval_leaf intro!: record_shape)
next
  assume r: "wf_reviewer nfc r \<and> sortFields v = sortFields (reviewer_json r)"
  then have tree: "data_tree v"
    using reviewer_tree [of nfc r] data_tree_cong [of v "reviewer_json r"] by (simp add: data_tree_def)
  obtain fs where "v = jobj fs" "exact_keys fs [''reviewerId'', ''role'']"
    and "getProp fs ''reviewerId'' = JStr (rv_reviewerId r)" "getProp fs ''role'' = JStr (spelling reviewerRoles (rv_role r))"
    using r unfolding reviewer_json_def
    by (auto elim!: record_invert simp: requireRecord_Inr requireExactKeys_Inr)
  with r tree show "validateApprovalReviewer nfc v = Inr r"
    unfolding validateApprovalReviewer_def open_approval
    by (auto simp: result_simps approval_leaf wf_reviewer_def)
qed

theorem validate_commitments_exact:
  "validateApprovalCommitmentSnapshot nfc v = Inr c \<longleftrightarrow>
     wf_commitments nfc c \<and> sortFields v = sortFields (commitments_json c)"
proof
  assume "validateApprovalCommitmentSnapshot nfc v = Inr c"
  then show "wf_commitments nfc c \<and> sortFields v = sortFields (commitments_json c)"
    unfolding validateApprovalCommitmentSnapshot_def open_approval commitments_json_def wf_commitments_def
    by (auto simp: result_simps approval_leaf commitmentKeys_def commitmentEntries_def intro!: record_shape)
next
  assume c: "wf_commitments nfc c \<and> sortFields v = sortFields (commitments_json c)"
  then have tree: "data_tree v"
    using commitments_tree data_tree_cong by blast
  obtain fs where "v = jobj fs" "exact_keys fs commitmentKeys"
    and "list_all (\<lambda>(k, w). sortFields (getProp fs k) = sortFields w) (commitmentEntries c)"
    using c unfolding commitments_json_def
    by (auto elim!: record_invert simp: requireRecord_Inr requireExactKeys_Inr commitmentKeys_def commitmentEntries_def)
  with c tree show "validateApprovalCommitmentSnapshot nfc v = Inr c"
    unfolding validateApprovalCommitmentSnapshot_def open_approval
    by (auto simp: result_simps approval_leaf wf_commitments_def commitmentEntries_def)
qed

lemma commitmentFields_Inr:
  "commitmentFields nfc fs label = Inr c \<longleftrightarrow>
     wf_commitments nfc c \<and> list_all (\<lambda>(k, w). getProp fs k = w) (commitmentEntries c)"
  unfolding commitmentFields_def wf_commitments_def commitmentEntries_def
  by (auto simp: result_simps approval_leaf)

section \<open>Challenges, artifacts and replay references\<close>

definition wf_challenge :: "(jstr \<Rightarrow> jstr) \<Rightarrow> review_challenge \<Rightarrow> bool" where
  "wf_challenge nfc c \<longleftrightarrow>
     UUID_PATTERN (ch_reviewId c) \<and> SHA256_PATTERN (ch_contractHash c) \<and> safe_int (ch_contractRevision c) \<and>
     0 < ch_contractRevision c \<and> SHA256_PATTERN (ch_authorityDigest c) \<and> wf_commitments nfc (ch_commitments c) \<and>
     wf_reviewer nfc (ch_reviewer c) \<and> stamp nfc (ch_issuedAt c) \<and> stamp nfc (ch_expiresAt c) \<and>
     timestampMilliseconds (ch_issuedAt c) < timestampMilliseconds (ch_expiresAt c) \<and> approval_nonce (ch_nonce c)"

definition wf_artifact :: "(jstr \<Rightarrow> jstr) \<Rightarrow> approval_artifact \<Rightarrow> bool" where
  "wf_artifact nfc a \<longleftrightarrow>
     UUID_PATTERN (aa_approvalId a) \<and> UUID_PATTERN (aa_reviewId a) \<and> SHA256_PATTERN (aa_contractHash a) \<and>
     safe_int (aa_contractRevision a) \<and> 0 < aa_contractRevision a \<and> SHA256_PATTERN (aa_authorityDigest a) \<and>
     wf_commitments nfc (aa_commitments a) \<and> wf_reviewer nfc (aa_reviewer a) \<and> stamp nfc (aa_issuedAt a) \<and>
     stamp nfc (aa_expiresAt a) \<and> timestampMilliseconds (aa_issuedAt a) < timestampMilliseconds (aa_expiresAt a) \<and>
     approval_nonce (aa_nonce a)"

definition wf_reference :: "(jstr \<Rightarrow> jstr) \<Rightarrow> replay_reference \<Rightarrow> bool" where
  "wf_reference nfc r \<longleftrightarrow>
     UUID_PATTERN (rr_approvalId r) \<and> SHA256_PATTERN (rr_artifactDigest r) \<and> SHA256_PATTERN (rr_contractHash r) \<and>
     safe_int (rr_contractRevision r) \<and> 0 < rr_contractRevision r \<and> approval_nonce (rr_nonce r) \<and> stamp nfc (rr_expiresAt r)"

lemma reviewer_json_data [simp]: "reviewer_json r \<noteq> JAccessor" "JAccessor \<noteq> reviewer_json r"
  by (simp_all add: reviewer_json_def jrec_def)

lemma entries_tree:
  assumes "wf_commitments nfc c" "wf_reviewer nfc r" "length ch \<le> 64" "length ad \<le> 64" "length ia \<le> 64" "length ea \<le> 64"
    "length no \<le> 128" "length i \<le> 64" "length j \<le> 64" "length k \<le> 64" "length kk \<le> 32"
  shows "data_tree (jrec ([(''kind'', JStr k), (''specVersion'', JStr (js APPROVAL_SPEC_VERSION)), (''reviewId'', JStr i),
      (''contractHash'', JStr ch), (''contractRevision'', jint n), (''authorityDigest'', JStr ad)] @ commitmentEntries c @
      [(''reviewer'', reviewer_json r), (''issuedAt'', JStr ia), (''expiresAt'', JStr ea), (''nonce'', JStr no)]))"
    "data_tree (jrec ([(''kind'', JStr k), (''specVersion'', JStr (js APPROVAL_SPEC_VERSION)), (''approvalId'', JStr j),
      (''reviewId'', JStr i), (''contractHash'', JStr ch), (''contractRevision'', jint n), (''authorityDigest'', JStr ad)] @
      commitmentEntries c @
      [(''reviewer'', reviewer_json r), (''issuedAt'', JStr ia), (''expiresAt'', JStr ea), (''nonce'', JStr no)]))"
  using assms commitment_lengths [OF assms(1)] reviewer_tree [OF assms(2)]
  by (simp_all add: data_tree_def jrec_tree commitmentEntries_def APPROVAL_SPEC_VERSION_def)

lemma challenge_tree: "wf_challenge nfc c \<Longrightarrow> data_tree (challenge_json c)"
  unfolding challenge_json_def challengeFields_def wf_challenge_def
  by (rule entries_tree(1) [where j = "[]" and kk = "[]"]) (auto simp: leaf_lengths APPROVAL_REVIEW_KIND_def)

lemma artifact_tree: "wf_artifact nfc a \<Longrightarrow> data_tree (artifact_json a)"
  unfolding artifact_json_def artifactFields_def wf_artifact_def
  by (rule entries_tree(2) [where kk = "[]"]) (auto simp: leaf_lengths APPROVAL_ARTIFACT_KIND_def)

lemma reference_tree: "wf_reference nfc r \<Longrightarrow> data_tree (reference_json r)"
  unfolding reference_json_def referenceFields_def wf_reference_def
  using leaf_lengths(1) [of "rr_artifactDigest r"] leaf_lengths(1) [of "rr_contractHash r"]
    leaf_lengths(2) [of "rr_approvalId r"] leaf_lengths(3) [of nfc "rr_expiresAt r"] leaf_lengths(6) [of "rr_nonce r"]
  by (simp add: data_tree_def jrec_tree)

theorem validate_challenge_exact:
  "validateApprovalReviewChallenge nfc v = Inr c \<longleftrightarrow> wf_challenge nfc c \<and> sortFields v = sortFields (challenge_json c)"
proof
  assume "validateApprovalReviewChallenge nfc v = Inr c"
  then show "wf_challenge nfc c \<and> sortFields v = sortFields (challenge_json c)"
    unfolding validateApprovalReviewChallenge_def open_approval challenge_json_def wf_challenge_def
    by (auto simp: result_simps approval_leaf challengeKeys_def challengeFields_def commitmentFields_Inr commitmentEntries_def
        validate_reviewer_exact intro!: record_shape)
next
  assume c: "wf_challenge nfc c \<and> sortFields v = sortFields (challenge_json c)"
  then have tree: "data_tree v"
    using challenge_tree data_tree_cong by blast
  obtain fs where v: "v = jobj fs" "exact_keys fs challengeKeys"
    and vals: "list_all (\<lambda>(k, w). sortFields (getProp fs k) = sortFields w) (challengeFields c)"
    using c unfolding challenge_json_def
    by (auto elim!: record_invert simp: requireRecord_Inr requireExactKeys_Inr challengeKeys_def challengeFields_def
        commitmentEntries_def)
  have parts: "commitmentFields nfc fs l = Inr (ch_commitments c)"
    "validateApprovalReviewer nfc (getProp fs ''reviewer'') = Inr (ch_reviewer c)" for l
    using c vals by (simp_all add: commitmentFields_Inr validate_reviewer_exact wf_challenge_def challengeFields_def commitmentEntries_def)
  show "validateApprovalReviewChallenge nfc v = Inr c"
    using c tree v vals unfolding validateApprovalReviewChallenge_def open_approval
    by (simp add: result_simps approval_leaf wf_challenge_def challengeFields_def parts)
qed

lemma artifact_eta:
  "\<lparr>aa_approvalId = aa_approvalId a, aa_reviewId = aa_reviewId a, aa_contractHash = aa_contractHash a,
     aa_contractRevision = aa_contractRevision a, aa_authorityDigest = aa_authorityDigest a,
     aa_commitments = aa_commitments a, aa_reviewer = aa_reviewer a, aa_issuedAt = aa_issuedAt a,
     aa_expiresAt = aa_expiresAt a, aa_nonce = aa_nonce a\<rparr> = a"
  by (cases a) simp

theorem validate_artifact_exact:
  "validateCanonicalApprovalArtifact nfc v = Inr a \<longleftrightarrow>
     wf_artifact nfc a \<and> sortFields v = sortFields (artifact_json a) \<and> canonicalizable nfc (artifact_json a)"
proof
  assume "validateCanonicalApprovalArtifact nfc v = Inr a"
  then show "wf_artifact nfc a \<and> sortFields v = sortFields (artifact_json a) \<and> canonicalizable nfc (artifact_json a)"
    unfolding validateCanonicalApprovalArtifact_def open_approval wf_artifact_def
    by (auto simp: result_simps approval_leaf artifactKeys_def commitmentFields_Inr commitmentEntries_def Let_def
        fromContracts_def validate_reviewer_exact artifact_json_def artifactFields_def
        simp del: sortFields.simps intro!: record_shape)
next
  assume a: "wf_artifact nfc a \<and> sortFields v = sortFields (artifact_json a) \<and> canonicalizable nfc (artifact_json a)"
  then have tree: "data_tree v"
    using artifact_tree data_tree_cong by blast
  obtain fs where v: "v = jobj fs" "exact_keys fs artifactKeys"
    and vals: "list_all (\<lambda>(k, w). sortFields (getProp fs k) = sortFields w) (artifactFields a)"
    using a unfolding artifact_json_def
    by (auto elim!: record_invert simp: requireRecord_Inr requireExactKeys_Inr artifactKeys_def artifactFields_def
        commitmentEntries_def)
  have parts: "commitmentFields nfc fs l = Inr (aa_commitments a)"
    "validateApprovalReviewer nfc (getProp fs ''reviewer'') = Inr (aa_reviewer a)" for l
    using a vals by (simp_all add: commitmentFields_Inr validate_reviewer_exact wf_artifact_def artifactFields_def commitmentEntries_def)
  show "validateCanonicalApprovalArtifact nfc v = Inr a"
    using a tree v vals unfolding validateCanonicalApprovalArtifact_def open_approval
    by (simp add: result_simps approval_leaf wf_artifact_def artifactFields_def parts Let_def fromContracts_def artifact_eta)
qed

theorem validate_reference_exact:
  "validateArtifactReplayReference nfc v = Inr r \<longleftrightarrow> wf_reference nfc r \<and> sortFields v = sortFields (reference_json r)"
proof
  assume "validateArtifactReplayReference nfc v = Inr r"
  then show "wf_reference nfc r \<and> sortFields v = sortFields (reference_json r)"
    unfolding validateArtifactReplayReference_def open_approval reference_json_def wf_reference_def referenceFields_def
    by (auto simp: result_simps approval_leaf intro!: record_shape)
next
  assume r: "wf_reference nfc r \<and> sortFields v = sortFields (reference_json r)"
  then have tree: "data_tree v"
    using reference_tree data_tree_cong by blast
  obtain fs where "v = jobj fs"
      "exact_keys fs [''approvalId'', ''artifactDigest'', ''contractHash'', ''contractRevision'', ''nonce'', ''expiresAt'']"
    and "list_all (\<lambda>(k, w). sortFields (getProp fs k) = sortFields w) (referenceFields r)"
    using r unfolding reference_json_def
    by (auto elim!: record_invert simp: requireRecord_Inr requireExactKeys_Inr referenceFields_def)
  with r tree show "validateArtifactReplayReference nfc v = Inr r"
    unfolding validateArtifactReplayReference_def open_approval
    by (simp add: result_simps approval_leaf wf_reference_def referenceFields_def)
qed

section \<open>Texts and signed envelopes of artifacts\<close>

definition artifact_valid :: "(jstr \<Rightarrow> jstr) \<Rightarrow> approval_artifact \<Rightarrow> bool" where
  "artifact_valid nfc a \<longleftrightarrow> wf_artifact nfc a \<and> canonicalizable nfc (artifact_json a)"

definition artifact_text :: "approval_artifact \<Rightarrow> jstr" where
  "artifact_text a = render (artifact_json a)"

lemma artifact_json_keys: "wf_jsval (artifact_json a)" "wf_jsval (reviewer_json r)"
  unfolding artifact_json_def artifactFields_def commitmentEntries_def reviewer_json_def
  by (intro wf_jsval_jrec; auto intro!: wf_jsval_jrec)+

lemma artifact_json_nesting: "nesting (artifact_json a) = 2"
  by (simp add: artifact_json_def artifactFields_def commitmentEntries_def reviewer_json_def jrec_tree)

lemma catchE_fromContracts_Inr [result_simps]: "fromContracts m = Inr x \<longleftrightarrow> m = Inr x"
  by (simp add: fromContracts_def result_simps)

interpretation artifact_codec: strict_codec artifact_text "parseCanonicalApprovalArtifact nfc" "artifact_valid nfc" for nfc
proof
  fix a
  assume a: "artifact_valid nfc a"
  then have "parseCanonicalJson nfc (artifact_text a) = Inr (sortFields (artifact_json a))"
    unfolding artifact_text_def artifact_valid_def using artifact_json_keys artifact_json_nesting [of a]
    by (intro parseCanonicalJson_render) (simp_all add: MAX_CANONICAL_JSON_DEPTH_def)
  with a show "parseCanonicalApprovalArtifact nfc (artifact_text a) = Inr a"
    by (simp add: parseCanonicalApprovalArtifact_def result_simps validate_artifact_exact artifact_valid_def)
next
  fix s a
  assume "parseCanonicalApprovalArtifact nfc s = Inr a"
  then obtain v where v: "parseCanonicalJson nfc s = Inr v" "validateCanonicalApprovalArtifact nfc v = Inr a"
    by (auto simp: parseCanonicalApprovalArtifact_def result_simps)
  then have "wf_artifact nfc a" "sortFields v = sortFields (artifact_json a)" "canonicalizable nfc (artifact_json a)"
    by (simp_all add: validate_artifact_exact)
  moreover from this have "render v = artifact_text a"
    unfolding artifact_text_def by (metis render_sortFields)
  ultimately show "artifact_valid nfc a \<and> artifact_text a = s"
    using parseCanonicalJson_canonical(2) [OF v(1)] by (simp add: artifact_valid_def)
qed

definition p1363_text :: "jstr \<Rightarrow> bool" where
  "p1363_text s \<longleftrightarrow> (\<exists>bs. length bs = 64 \<and> s = encodeBase64Url bs)"

definition wf_signature :: "(jstr \<Rightarrow> jstr) \<Rightarrow> envelope_signature \<Rightarrow> bool" where
  "wf_signature nfc s \<longleftrightarrow> ident nfc (sig_keyId s) \<and> p1363_text (sig_signature s)"

lemma signature_bytes:
  "86 \<le> length s \<and> length s \<le> 86 \<and> BASE64URL_PATTERN s \<and> (\<exists>bs. decodeBase64Url s = Inr bs \<and> length bs = 64) \<longleftrightarrow>
     p1363_text s"
proof -
  have "base64url_sized bs \<and> length (encodeBase64Url bs) = 86 \<and> BASE64URL_PATTERN (encodeBase64Url bs)"
    if "length bs = 64" for bs
    using that BASE64URL_encode [of bs] by (cases "bs = []") (auto simp: base64url_sized_def length_encodeBase64Url encodedBase64UrlLength_def MAX_SAFE_INTEGER_def)
  then show ?thesis
    unfolding p1363_text_def base64url.dec_iff by auto
qed

lemma validateSignature_Inr:
  assumes "data_tree v"
  shows "validateEnvelopeSignature_approval nfc v = Inr s \<longleftrightarrow>
    wf_signature nfc s \<and> sortFields v = sortFields (signature_json s)"
proof
  assume "validateEnvelopeSignature_approval nfc v = Inr s"
  then show "wf_signature nfc s \<and> sortFields v = sortFields (signature_json s)"
    using assms signature_bytes [of "sig_signature s"]
    unfolding validateEnvelopeSignature_approval_def wf_signature_def signature_json_def
    by (cases v) (auto simp: requireRecord_approval_def data_tree_def result_simps approval_leaf requireBase64Url_approval_Inr
        split: if_splits simp del: sortFields.simps intro!: record_shape)
next
  assume s: "wf_signature nfc s \<and> sortFields v = sortFields (signature_json s)"
  obtain fs where "v = jobj fs" "exact_keys fs [''keyId'', ''algorithm'', ''signature'']"
    and "getProp fs ''keyId'' = JStr (sig_keyId s)" "getProp fs ''algorithm'' = JStr (js SIGNATURE_ALGORITHM)"
      "getProp fs ''signature'' = JStr (sig_signature s)"
    using s unfolding signature_json_def
    by (auto elim!: record_invert simp: requireRecord_Inr requireExactKeys_Inr)
  with s signature_bytes [of "sig_signature s"] show "validateEnvelopeSignature_approval nfc v = Inr s"
    unfolding validateEnvelopeSignature_approval_def wf_signature_def
    by (auto simp: requireRecord_approval_def result_simps approval_leaf requireBase64Url_approval_Inr)
qed

lemma data_tree_field:
  assumes "data_tree (jobj fs)" "(k, w) \<in> set fs"
  shows "data_tree w"
proof -
  have "containers w \<le> containers (jobj fs)" "stringUnits w \<le> stringUnits (jobj fs)" "keyUnits w \<le> keyUnits (jobj fs)"
    using member_le_sum_list [of "containers w" "map (\<lambda>f. containers (snd f)) fs"]
      member_le_sum_list [of "stringUnits w" "map (\<lambda>f. stringUnits (snd f)) fs"]
      member_le_sum_list [of "length k + keyUnits w" "map (\<lambda>f. length (fst f) + keyUnits (snd f)) fs"] assms(2)
    by (force simp: image_iff)+
  moreover have "nesting w \<le> nesting (jobj fs)"
    using foldr_max_ge [of "nesting w" "map (\<lambda>f. nesting (snd f)) fs"] assms(2) by (force simp: image_iff)
  ultimately show ?thesis
    using assms by (auto simp: data_tree_def)
qed

lemma data_tree_getProp:
  "data_tree (jobj fs) \<Longrightarrow> exact_keys fs ks \<Longrightarrow> distinct ks \<Longrightarrow> k \<in> set ks \<Longrightarrow> data_tree (getProp fs k)"
  using mset_eq_setD [OF exact_keys_mset(1) [of fs ks]] by (auto intro: data_tree_field)

lemma data_tree_singleton: "data_tree (JArr sh [x]) \<Longrightarrow> data_tree x \<and> sh = plain_shape"
  by (auto simp: data_tree_def)

text \<open>The parsed form of a signed approval: everything in it is determined by the artifact and the signature.\<close>

definition signed_approval :: "(jstr \<Rightarrow> jstr) \<Rightarrow> parsed_approval \<Rightarrow> bool" where
  "signed_approval nfc p \<longleftrightarrow>
     artifact_valid nfc (pv_artifact p) \<and> wf_signature nfc (pv_signature p) \<and>
     wf_jstr (artifact_text (pv_artifact p)) \<and>
     pv_canonicalPayload p = artifact_text (pv_artifact p) \<and>
     pv_envelope p = \<lparr>env_payloadType = js APPROVAL_ARTIFACT_PAYLOAD_TYPE,
       env_payload = encodeBase64Url (utf8Bytes (artifact_text (pv_artifact p))), env_signatures = [pv_signature p]\<rparr> \<and>
     length (env_payload (pv_envelope p)) \<le> 131072 \<and>
     createEnvelopePreAuthenticationEncoding nfc (js APPROVAL_ARTIFACT_PAYLOAD_TYPE) (artifact_text (pv_artifact p)) =
       Inr (pv_message p)"

definition signedKeys :: "string list" where
  "signedKeys = [''payloadType'', ''payload'', ''signatures'']"

lemma signature_json_data [simp]: "signature_json s \<noteq> JAccessor" "JAccessor \<noteq> signature_json s"
  by (simp_all add: signature_json_def jrec_def)

lemma utf8Bytes_nonempty: "s \<noteq> [] \<Longrightarrow> utf8Bytes s \<noteq> []"
  by (cases s) (auto simp: codePointBytes_def split: list.splits)

lemma artifact_text_nonempty: "artifact_text a \<noteq> []"
  by (simp add: artifact_text_def artifact_json_def jrec_def render_JObj)

lemma payload_Inr:
  assumes "1 \<le> length e" "length e \<le> 131072" "BASE64URL_PATTERN e"
  shows "catchE (bindE (fromContracts (decodeBase64Url e)) (\<lambda>bytes. fromContracts (decodeUtf8 nfc bytes))) h = Inr t \<longleftrightarrow>
    wf_jstr t \<and> canonical_string nfc t \<and> base64url_sized (utf8Bytes t) \<and> e = encodeBase64Url (utf8Bytes t)"
  by (auto simp: result_simps base64url.dec_iff decodeUtf8_Inr)

theorem parse_signed_approval_exact:
  "parseSignedApprovalArtifact nfc v = Inr p \<longleftrightarrow>
     signed_approval nfc p \<and> data_tree v \<and> sortFields v = sortFields (envelope_json (pv_envelope p))"
proof
  assume "parseSignedApprovalArtifact nfc v = Inr p"
  then obtain fs sh x where v: "data_tree v" "v = jobj fs" "exact_keys fs signedKeys"
    and fields: "getProp fs ''payloadType'' = JStr (js APPROVAL_ARTIFACT_PAYLOAD_TYPE)"
      "getProp fs ''payload'' = JStr (env_payload (pv_envelope p))" "getProp fs ''signatures'' = JArr sh [x]"
    and sig: "validateEnvelopeSignature_approval nfc x = Inr (pv_signature p)"
    and pay: "1 \<le> length (env_payload (pv_envelope p))" "length (env_payload (pv_envelope p)) \<le> 131072"
      "BASE64URL_PATTERN (env_payload (pv_envelope p))"
      "bindE (fromContracts (decodeBase64Url (env_payload (pv_envelope p)))) (\<lambda>bytes. fromContracts (decodeUtf8 nfc bytes)) =
        Inr (pv_canonicalPayload p)"
    and art: "parseCanonicalApprovalArtifact nfc (pv_canonicalPayload p) = Inr (pv_artifact p)"
      "createEnvelopePreAuthenticationEncoding nfc (js APPROVAL_ARTIFACT_PAYLOAD_TYPE) (pv_canonicalPayload p) = Inr (pv_message p)"
    and env: "pv_envelope p = \<lparr>env_payloadType = js APPROVAL_ARTIFACT_PAYLOAD_TYPE, env_payload = env_payload (pv_envelope p),
        env_signatures = [pv_signature p]\<rparr>"
    unfolding parseSignedApprovalArtifact_def open_approval
    by (auto simp: result_simps approval_leaf requireBase64Url_approval_Inr requireArray_approval_Inr signedKeys_def
        length_Suc_conv)
  have "data_tree (JArr sh [x])"
    using data_tree_getProp [of fs signedKeys "''signatures''"] v fields by (simp add: signedKeys_def)
  then have x: "data_tree x" "sh = plain_shape"
    using data_tree_singleton by blast+
  note s = sig [unfolded validateSignature_Inr [OF x(1)]]
  have t: "wf_jstr (pv_canonicalPayload p)" "env_payload (pv_envelope p) = encodeBase64Url (utf8Bytes (pv_canonicalPayload p))"
    using pay(4) by (auto simp: result_simps base64url.dec_iff decodeUtf8_Inr)
  have a: "artifact_valid nfc (pv_artifact p)" "pv_canonicalPayload p = artifact_text (pv_artifact p)"
    using art(1) by (auto simp: artifact_codec.dec_iff)
  have parts: "env_payloadType (pv_envelope p) = js APPROVAL_ARTIFACT_PAYLOAD_TYPE"
    "env_signatures (pv_envelope p) = [pv_signature p]"
    by (subst env, simp)+
  have "sortFields v = sortFields (envelope_json (pv_envelope p))"
    unfolding v(2) envelope_json_def
    by (rule record_shape_all) (use v(3) fields s x(2) parts in \<open>simp_all add: signedKeys_def\<close>)
  then show "signed_approval nfc p \<and> data_tree v \<and> sortFields v = sortFields (envelope_json (pv_envelope p))"
    using a s t v(1) pay(2) art(2) env by (simp add: signed_approval_def)
next
  assume p: "signed_approval nfc p \<and> data_tree v \<and> sortFields v = sortFields (envelope_json (pv_envelope p))"
  let ?t = "artifact_text (pv_artifact p)"
  note p' = p [unfolded signed_approval_def]
  obtain fs where v: "v = jobj fs" "exact_keys fs signedKeys"
    and fields: "getProp fs ''payloadType'' = JStr (js APPROVAL_ARTIFACT_PAYLOAD_TYPE)"
      "getProp fs ''payload'' = JStr (encodeBase64Url (utf8Bytes ?t))"
      "sortFields (getProp fs ''signatures'') = sortFields (jarr [signature_json (pv_signature p)])"
    using p' unfolding envelope_json_def
    by (auto elim!: record_invert simp: requireRecord_Inr requireExactKeys_Inr signedKeys_def)
  then obtain x where x: "getProp fs ''signatures'' = jarr [x]" "sortFields x = sortFields (signature_json (pv_signature p))"
    by (cases "getProp fs ''signatures''") auto
  have "data_tree (jarr [x])"
    using data_tree_getProp [of fs signedKeys "''signatures''"] v p x by (simp add: signedKeys_def)
  then have sig: "validateEnvelopeSignature_approval nfc x = Inr (pv_signature p)"
    using validateSignature_Inr [of x] x p' data_tree_singleton by blast
  have canon: "canonical_string nfc ?t"
    using p' createEnvelope_Inr(3) by blast
  then have ne: "utf8Bytes ?t \<noteq> []"
    using utf8Bytes_nonempty [OF artifact_text_nonempty] by blast
  then have len: "1 \<le> length (encodeBase64Url (utf8Bytes ?t))" "BASE64URL_PATTERN (encodeBase64Url (utf8Bytes ?t))"
    using encodedBase64UrlLength_strict [of 0 "length (utf8Bytes ?t)"] BASE64URL_encode [OF ne]
    by (simp_all add: length_encodeBase64Url)
  have small: "length (encodeBase64Url (utf8Bytes ?t)) \<le> 131072"
    using p' by (auto simp del: encodeBase64Url.simps)
  then have "base64url_sized (utf8Bytes ?t)"
    using ne by (simp add: base64url_sized_def length_encodeBase64Url MAX_SAFE_INTEGER_def)
  then have dec: "catchE (bindE (fromContracts (decodeBase64Url (encodeBase64Url (utf8Bytes ?t))))
      (\<lambda>bytes. fromContracts (decodeUtf8 nfc bytes))) h = Inr ?t" for h :: "approval_error \<Rightarrow> approval_error"
    using canon p' payload_Inr [OF len(1) small len(2)] by blast
  have keys: "exact_keys fs [''payloadType'', ''payload'', ''signatures'']"
    using v(2) by (simp add: signedKeys_def)
  show "parseSignedApprovalArtifact nfc v = Inr p"
    using p' v keys fields len small dec sig x artifact_codec.dec_enc [of nfc "pv_artifact p"]
    unfolding parseSignedApprovalArtifact_def open_approval
    by (cases p) (auto simp: result_simps approval_leaf requireBase64Url_approval_Inr requireArray_approval_Inr fromContracts_def
        simp del: encodeBase64Url.simps)
qed

end
