(* ===== verification/Approval_Render.thy ===== *)
theory Approval_Render
  imports Approval_Validation
begin

text \<open>
  The render model: what a reviewer is shown of a contract, and the authority digest that an approval is bound to. The
  model is the contract without its non-authoritative part, and the digest determines it.
\<close>

section \<open>Contract and model\<close>

definition model_of :: "intent_contract \<Rightarrow> render_model" where
  "model_of c =
     \<lparr>rm_rendererVersion = bnd_approvalRendererVersion (ic_bindings c),
      rm_contractId = ic_contractId c, rm_contractRevision = ic_revision c,
      rm_previousRevisionHash = ic_previousRevisionHash c, rm_contractIssuedAt = ic_issuedAt c,
      rm_validity = ic_validity c, rm_subject = ic_subject c, rm_audience = ic_audience c,
      rm_bindings = ic_bindings c, rm_authority = ic_authority c\<rparr>"

definition contract_of :: "render_model \<Rightarrow> intent_contract" where
  "contract_of m =
     \<lparr>ic_contractId = rm_contractId m, ic_revision = rm_contractRevision m,
      ic_previousRevisionHash = rm_previousRevisionHash m, ic_issuedAt = rm_contractIssuedAt m,
      ic_validity = rm_validity m, ic_subject = rm_subject m, ic_audience = rm_audience m,
      ic_bindings = rm_bindings m, ic_authority = rm_authority m,
      ic_nonAuthoritative = \<lparr>na_goalLabel = [], na_notes = []\<rparr>\<rparr>"

definition silent :: "intent_contract \<Rightarrow> intent_contract" where
  "silent c = c\<lparr>ic_nonAuthoritative := \<lparr>na_goalLabel = [], na_notes = []\<rparr>\<rparr>"

lemma contract_of_model [simp]: "contract_of (model_of c) = silent c"
  by (cases c) (simp add: contract_of_def model_of_def silent_def)

lemma model_of_silent [simp]: "model_of (silent c) = model_of c"
  by (simp add: model_of_def silent_def)

lemma model_of_contract: "rm_rendererVersion m = bnd_approvalRendererVersion (rm_bindings m) \<Longrightarrow> model_of (contract_of m) = m"
  by (cases m) (simp add: contract_of_def model_of_def)

lemma model_of_eq: "model_of c = model_of c' \<longleftrightarrow> silent c = silent c'"
  by (metis contract_of_model model_of_silent)

lemma create_model_Inr:
  "createCanonicalApprovalRenderModel nfc v = Inr m \<longleftrightarrow>
     data_tree v \<and> (\<exists>c. validateSafeCodingIntentContract nfc v = Inr c \<and> m = model_of c)"
  by (auto simp: createCanonicalApprovalRenderModel_def result_simps require_simps model_of_def)

section \<open>The validator of the model\<close>

definition model_valid :: "(jstr \<Rightarrow> jstr) \<Rightarrow> render_model \<Rightarrow> bool" where
  "model_valid nfc m \<longleftrightarrow>
     rm_rendererVersion m = bnd_approvalRendererVersion (rm_bindings m) \<and> contract_valid nfc (contract_of m) \<and>
     data_tree (contract_json (contract_of m))"

definition rebuiltFields :: "(jstr \<times> jsval) list \<Rightarrow> (string \<times> jsval) list" where
  "rebuiltFields record =
     [(''kind'', JStr (js ''clodex.intent-contract'')), (''specVersion'', JStr (js ''1.0.0'')),
      (''contractId'', getProp record ''contractId''), (''revision'', getProp record ''contractRevision''),
      (''previousRevisionHash'', getProp record ''previousRevisionHash''),
      (''issuedAt'', getProp record ''contractIssuedAt''), (''validity'', getProp record ''validity''),
      (''subject'', getProp record ''subject''), (''audience'', getProp record ''audience''),
      (''bindings'', getProp record ''bindings''), (''authority'', getProp record ''authority''),
      (''nonAuthoritative'', jrec [(''goalLabel'', JStr []), (''notes'', jarr [])])]"

lemma jrec_sort_cong:
  assumes "list_all2 (\<lambda>(k, v) (k', v'). k = k' \<and> sortFields v = sortFields v') kvs kvs'"
  shows "sortFields (jrec kvs) = sortFields (jrec kvs')"
  unfolding jrec_def
  by (rule sortFields_jobj_cong) (use assms in \<open>auto simp: jfields_def list_all2_map1 list_all2_map2 elim!: list_all2_mono\<close>)

lemma sortFields_jrec_inj:
  assumes "sortFields (jrec kvs) = sortFields (jrec kvs')" "map fst kvs = map fst kvs'" "distinct (map fst kvs)"
  shows "list_all2 (\<lambda>(k, v) (k', v'). k = k' \<and> sortFields v = sortFields v') kvs kvs'"
proof -
  have eq: "sort_key fst (map (\<lambda>f. (fst f, sortFields (snd f))) (jfields kvs)) =
      sort_key fst (map (\<lambda>f. (fst f, sortFields (snd f))) (jfields kvs'))"
    using assms(1) by (simp add: jrec_def)
  have d: "distinct (map fst (jfields kvs'))" "distinct (map fst kvs')"
    using assms(2,3) by (simp_all add: jfields_def distinct_map inj_on_def js_inj case_prod_unfold comp_def)
  note m = sort_key_eqD(2) [OF eq d(1)]
  have look: "map_of (map (\<lambda>f. (fst f, sortFields (snd f))) (jfields ks)) (js k) = Some (sortFields v)"
    if "distinct (map fst ks)" "(k, v) \<in> set ks" for ks k v
    unfolding map_of_sortFields using that
    by (induction ks) (auto simp: jfields_def js_inj rev_image_eqI)
  show ?thesis
  proof (rule list_all2_all_nthI)
    show "length kvs = length kvs'"
      using assms(2) by (metis length_map)
    fix i
    assume i: "i < length kvs"
    then have i': "i < length kvs'"
      using \<open>length kvs = length kvs'\<close> by simp
    obtain k v v' where kv: "kvs ! i = (k, v)" "kvs' ! i = (k, v')"
      using arg_cong [OF assms(2), of "\<lambda>l. l ! i"] i i' by (cases "kvs ! i"; cases "kvs' ! i") auto
    then have "(k, v) \<in> set kvs" "(k, v') \<in> set kvs'"
      using i i' by (metis nth_mem)+
    note this' = look [OF assms(3) this(1)] look [OF d(2) this(2)]
    then have "sortFields v = sortFields v'"
      by (simp only: m option.inject)
    then show "(\<lambda>(k, v) (k', v'). k = k' \<and> sortFields v = sortFields v') (kvs ! i) (kvs' ! i)"
      by (simp add: kv)
  qed
qed

text \<open>The contract rebuilt from the fields of a model, and what its JSON form says about them.\<close>

lemma rebuilt_contract:
  "sortFields (jrec (rebuiltFields fs)) = sortFields (contract_json c) \<longleftrightarrow>
     getProp fs ''contractId'' = JStr (ic_contractId c) \<and> getProp fs ''contractRevision'' = jint (ic_revision c) \<and>
     getProp fs ''previousRevisionHash'' = nullable (ic_previousRevisionHash c) \<and>
     getProp fs ''contractIssuedAt'' = JStr (ic_issuedAt c) \<and>
     sortFields (getProp fs ''validity'') = sortFields (validity_json (ic_validity c)) \<and>
     sortFields (getProp fs ''subject'') = sortFields (subject_json (ic_subject c)) \<and>
     sortFields (getProp fs ''audience'') = sortFields (audience_json (ic_audience c)) \<and>
     sortFields (getProp fs ''bindings'') = sortFields (bindings_json (ic_bindings c)) \<and>
     sortFields (getProp fs ''authority'') = sortFields (authority_json (ic_authority c)) \<and>
     sortFields (jrec [(''goalLabel'', JStr []), (''notes'', jarr [])]) =
       sortFields (non_authoritative_json (ic_nonAuthoritative c))"
  (is "?l \<longleftrightarrow> ?r")
proof
  assume ?l
  from sortFields_jrec_inj [OF this [unfolded contract_json_def]] show ?r
    by (simp add: rebuiltFields_def)
next
  assume ?r
  then show ?l
    unfolding contract_json_def
    by (intro jrec_sort_cong) (simp add: rebuiltFields_def INTENT_CONTRACT_KIND_def INTENT_CONTRACT_SPEC_VERSION_def)
qed

lemma silent_non_authoritative:
  "sortFields (jrec [(''goalLabel'', JStr []), (''notes'', jarr [])]) = sortFields (non_authoritative_json n) \<longleftrightarrow>
     n = \<lparr>na_goalLabel = [], na_notes = []\<rparr>"
proof
  assume "sortFields (jrec [(''goalLabel'', JStr []), (''notes'', jarr [])]) = sortFields (non_authoritative_json n)"
  from sortFields_jrec_inj [OF this [unfolded non_authoritative_json_def]]
  show "n = \<lparr>na_goalLabel = [], na_notes = []\<rparr>"
    by (cases n) simp
qed (simp add: non_authoritative_json_def)

lemma silent_idem [simp]: "silent (silent c) = silent c"
  by (simp add: silent_def)

theorem validate_model_exact:
  "validateCanonicalApprovalRenderModel nfc v = Inr m \<longleftrightarrow>
     model_valid nfc m \<and> data_tree v \<and> sortFields v = sortFields (render_model_json m)"
proof
  assume "validateCanonicalApprovalRenderModel nfc v = Inr m"
  then obtain fs c where v: "data_tree v" "v = jobj fs" "exact_keys fs renderModelKeys"
    and lit: "getProp fs ''kind'' = JStr (js APPROVAL_RENDER_MODEL_KIND)" "getProp fs ''specVersion'' = JStr (js APPROVAL_SPEC_VERSION)"
      "getProp fs ''rendererVersion'' = JStr (bnd_approvalRendererVersion (ic_bindings c))"
    and c: "data_tree (jrec (rebuiltFields fs))" "validateSafeCodingIntentContract nfc (jrec (rebuiltFields fs)) = Inr c" "m = model_of c"
    unfolding validateCanonicalApprovalRenderModel_def open_approval rebuiltFields_def [symmetric]
    by (auto simp: result_simps approval_leaf create_model_Inr model_of_def)
  from contract_shape [OF c(2)] have wf: "wf_contract nfc c" "canonicalizable nfc (jrec (rebuiltFields fs))"
    and shape: "sortFields (jrec (rebuiltFields fs)) = sortFields (contract_json c)"
    by blast+
  note fields = shape [unfolded rebuilt_contract silent_non_authoritative]
  then have quiet: "silent c = c"
    by (cases c) (simp add: silent_def)
  have "canonicalizable nfc (contract_json c)" "data_tree (contract_json c)"
    using wf(2) c(1) shape by (metis canonicalizable_sortFields, metis data_tree_sortFields)
  then have "model_valid nfc m"
    using wf(1) by (simp add: model_valid_def c(3) quiet contract_valid_def) (simp add: model_of_def)
  moreover have "sortFields v = sortFields (render_model_json m)"
    unfolding v(2) render_model_json_def
    by (rule record_shape_all) (use v(3) lit fields in \<open>simp_all add: renderModelKeys_def c(3) model_of_def\<close>)
  ultimately show "model_valid nfc m \<and> data_tree v \<and> sortFields v = sortFields (render_model_json m)"
    using v(1) by blast
next
  assume m: "model_valid nfc m \<and> data_tree v \<and> sortFields v = sortFields (render_model_json m)"
  let ?c = "contract_of m"
  have c: "wf_contract nfc ?c" "canonicalizable nfc (contract_json ?c)" "data_tree (contract_json ?c)" "model_of ?c = m"
    and version: "rm_rendererVersion m = bnd_approvalRendererVersion (rm_bindings m)"
    using m by (simp_all add: model_valid_def contract_valid_def model_of_contract)
  obtain fs where v: "v = jobj fs" "exact_keys fs renderModelKeys"
    and fields: "getProp fs ''kind'' = JStr (js APPROVAL_RENDER_MODEL_KIND)"
      "getProp fs ''specVersion'' = JStr (js APPROVAL_SPEC_VERSION)" "getProp fs ''rendererVersion'' = JStr (rm_rendererVersion m)"
      "sortFields (jrec (rebuiltFields fs)) = sortFields (contract_json ?c)"
    using m unfolding render_model_json_def rebuilt_contract silent_non_authoritative
    by (elim conjE record_invert) (auto simp: requireRecord_Inr requireExactKeys_Inr renderModelKeys_def contract_of_def)
  have "data_tree (jrec (rebuiltFields fs))" "canonicalizable nfc (jrec (rebuiltFields fs))"
    using c(2,3) fields(4) by (metis data_tree_sortFields, metis canonicalizable_sortFields)
  then have "createCanonicalApprovalRenderModel nfc (jrec (rebuiltFields fs)) = Inr m"
    using contract_complete [OF c(1) fields(4)] c(4) by (auto simp: create_model_Inr)
  moreover have "approval_token nfc (rm_rendererVersion m)"
    using c(1) version by (simp add: wf_contract_def wf_bindings_def approval_token_def contract_of_def)
  ultimately show "validateCanonicalApprovalRenderModel nfc v = Inr m"
    using m v fields version
    unfolding validateCanonicalApprovalRenderModel_def open_approval rebuiltFields_def [symmetric]
    by (auto simp: result_simps approval_leaf)
qed

section \<open>The authority digest\<close>

definition authority_text :: "intent_contract \<Rightarrow> jstr" where
  "authority_text c = render (render_model_json (model_of c))"

lemma hash_approval_Inr:
  "hashDomainSeparated_approval nfc domain text (Some sha256) = Inr d \<longleftrightarrow>
     canonical_string nfc (js domain) \<and> canonical_string nfc text \<and>
     sha256 (hash_input domain text) = Inr (JStr d) \<and> SHA256_PATTERN d"
  by (auto simp: hashDomainSeparated_approval_def hash_input_def result_simps requireDigest_approval_Inr)

lemma model_json_keys: "wf_jsval (render_model_json m)"
  unfolding render_model_json_def authority_json_def validity_json_def subject_json_def audience_json_def
    bindings_json_def limits_json_def ambient_json_def delegation_json_def
  by (intro wf_jsval_jrec)
    (auto simp: fs_permission_json_def git_permission_json_def selector_json_def nullable_def
      intro!: wf_jsval_jrec split: option.splits)

lemma model_inj:
  assumes "wf_contract nfc c" "wf_contract nfc c'"
    and "sortFields (render_model_json (model_of c)) = sortFields (render_model_json (model_of c'))"
  shows "model_of c = model_of c'"
proof -
  note wf = assms(1,2) [unfolded wf_contract_def]
  from sortFields_jrec_inj [OF assms(3) [unfolded render_model_json_def]]
  have flat: "ic_contractId c = ic_contractId c'" "ic_revision c = ic_revision c'"
      "ic_previousRevisionHash c = ic_previousRevisionHash c'" "ic_issuedAt c = ic_issuedAt c'"
    and parts: "sortFields (validity_json (ic_validity c)) = sortFields (validity_json (ic_validity c'))"
      "sortFields (subject_json (ic_subject c)) = sortFields (subject_json (ic_subject c'))"
      "sortFields (audience_json (ic_audience c)) = sortFields (audience_json (ic_audience c'))"
      "sortFields (bindings_json (ic_bindings c)) = sortFields (bindings_json (ic_bindings c'))"
      "sortFields (authority_json (ic_authority c)) = sortFields (authority_json (ic_authority c'))"
    by (auto simp: model_of_def nullable_def split: option.splits)
  have "ic_validity c = ic_validity c'"
    using validity_complete [of nfc "ic_validity c" "validity_json (ic_validity c)"] validity_complete [of nfc "ic_validity c'" "validity_json (ic_validity c)"]
      wf parts(1) by (metis sum.inject(2))
  moreover have "ic_subject c = ic_subject c'"
    using subject_complete [of nfc "ic_subject c" "subject_json (ic_subject c)"] subject_complete [of nfc "ic_subject c'" "subject_json (ic_subject c)"]
      wf parts(2) by (metis sum.inject(2))
  moreover have "ic_audience c = ic_audience c'"
    using audience_complete [of nfc "ic_audience c" "audience_json (ic_audience c)"] audience_complete [of nfc "ic_audience c'" "audience_json (ic_audience c)"]
      wf parts(3) by (metis sum.inject(2))
  moreover have "ic_bindings c = ic_bindings c'"
    using bindings_complete [of nfc "ic_bindings c" "bindings_json (ic_bindings c)"] bindings_complete [of nfc "ic_bindings c'" "bindings_json (ic_bindings c)"]
      wf parts(4) by (metis sum.inject(2))
  moreover have "ic_authority c = ic_authority c'"
    using authority_complete [of nfc "ic_authority c" "authority_json (ic_authority c)"] authority_complete [of nfc "ic_authority c'" "authority_json (ic_authority c)"]
      wf parts(5) by (metis sum.inject(2))
  ultimately show ?thesis
    using flat by (simp add: model_of_def)
qed

lemma authority_digest_Inr:
  assumes "wf_contract nfc c"
  shows "hashCanonicalApprovalAuthority nfc (render_model_json (model_of c)) (Some sha256) = Inr d \<longleftrightarrow>
     model_valid nfc (model_of c) \<and> data_tree (render_model_json (model_of c)) \<and>
     canonicalizable nfc (render_model_json (model_of c)) \<and>
     canonical_string nfc (js APPROVAL_AUTHORITY_DIGEST_DOMAIN) \<and> canonical_string nfc (authority_text c) \<and>
     sha256 (hash_input APPROVAL_AUTHORITY_DIGEST_DOMAIN (authority_text c)) = Inr (JStr d) \<and> SHA256_PATTERN d"
proof -
  let ?v = "render_model_json (model_of c)"
  have "validateCanonicalApprovalRenderModel nfc ?v = Inr m \<longleftrightarrow> m = model_of c \<and> model_valid nfc (model_of c) \<and> data_tree ?v" for m
  proof
    assume "validateCanonicalApprovalRenderModel nfc ?v = Inr m"
    then have m: "model_valid nfc m" "data_tree ?v" "sortFields ?v = sortFields (render_model_json m)"
      by (simp_all add: validate_model_exact)
    then have "m = model_of (contract_of m)" "wf_contract nfc (contract_of m)"
      by (simp_all add: model_valid_def model_of_contract contract_valid_def)
    with model_inj [OF assms this(2)] m show "m = model_of c \<and> model_valid nfc (model_of c) \<and> data_tree ?v"
      by simp
  qed (simp add: validate_model_exact)
  then show ?thesis
    by (auto simp: hashCanonicalApprovalAuthority_def result_simps hash_approval_Inr authority_text_def)
qed

text \<open>An authority digest stands for one model: as long as the hash port does not collide on the two texts, contracts
  have the same authority digest exactly when they differ at most in their non-authoritative part, the goal label and the
  notes a model may have written.\<close>

theorem authority_digest_binds:
  assumes "wf_contract nfc c" "wf_contract nfc c'"
    and "hashCanonicalApprovalAuthority nfc (render_model_json (model_of c)) (Some sha256) = Inr d"
    and "hashCanonicalApprovalAuthority nfc (render_model_json (model_of c')) (Some sha256) = Inr d'"
    and "wf_jstr (authority_text c)" "wf_jstr (authority_text c')"
    and "inj_on sha256 {hash_input APPROVAL_AUTHORITY_DIGEST_DOMAIN (authority_text c),
      hash_input APPROVAL_AUTHORITY_DIGEST_DOMAIN (authority_text c')}"
  shows "d = d' \<longleftrightarrow> c\<lparr>ic_nonAuthoritative := ic_nonAuthoritative c'\<rparr> = c'"
proof -
  have h: "sha256 (hash_input APPROVAL_AUTHORITY_DIGEST_DOMAIN (authority_text c)) = Inr (JStr d)"
      "sha256 (hash_input APPROVAL_AUTHORITY_DIGEST_DOMAIN (authority_text c')) = Inr (JStr d')"
    and ok: "canonicalizable nfc (render_model_json (model_of c))" "canonicalizable nfc (render_model_json (model_of c'))"
      "canonical_string nfc (authority_text c)" "canonical_string nfc (authority_text c')"
    using assms(3,4) by (simp_all add: authority_digest_Inr assms(1,2))
  have "model_of c = model_of c'" if "d = d'"
  proof -
    have "utf8Bytes (authority_text c) = utf8Bytes (authority_text c')"
      using inj_onD [OF assms(7), of "hash_input APPROVAL_AUTHORITY_DIGEST_DOMAIN (authority_text c)"
        "hash_input APPROVAL_AUTHORITY_DIGEST_DOMAIN (authority_text c')"] h that by (simp add: hash_input_def)
    then have "authority_text c = authority_text c'"
      using utf8.enc_inj assms(5,6) ok(3,4) by blast
    then have "sortFields (render_model_json (model_of c)) = sortFields (render_model_json (model_of c'))"
      unfolding authority_text_def using ok(1,2)
      by (intro render_inj [of nfc]) (simp_all add: canonicalizable_def model_json_keys)
    then show ?thesis
      by (rule model_inj [OF assms(1,2)])
  qed
  moreover have "d = d'" if "model_of c = model_of c'"
    using h that by (simp add: authority_text_def)
  moreover have "model_of c = model_of c' \<longleftrightarrow> c\<lparr>ic_nonAuthoritative := ic_nonAuthoritative c'\<rparr> = c'"
    by (cases c; cases c') (auto simp: model_of_def)
  ultimately show ?thesis
    by blast
qed

end
