(* ===== verification/Approval_Replay.thy ===== *)
theory Approval_Replay
  imports Approval_Render Guardian_Samples
begin

text \<open>
  The in-memory replay registry of the approval package (\<open>in-memory-replay-registry.ts\<close>). The methods are functions from
  the private fields to the result or exception and the new fields; a \<open>Map\<close> is an association list in insertion order, a
  \<open>Set\<close> a list without repetitions. Arguments are arbitrary values, since every method validates its own.

  Shown: a registered review can be consumed only by the exact challenge that was registered, and only once, whether the
  submission matches or not; an approval artifact is admitted once for its id, its nonce and its digest.
\<close>

section \<open>Methods\<close>

record replay_registry =
  rp_pendingReviews :: "jstr jsobj"
  rp_seenReviewNonces :: "jstr list"
  rp_consumedReviewIds :: "jstr list"
  rp_consumedApprovalIds :: "jstr list"
  rp_consumedApprovalNonces :: "jstr list"
  rp_consumedArtifactDigests :: "jstr list"

definition emptyReplay :: replay_registry where
  "emptyReplay = \<lparr>rp_pendingReviews = [], rp_seenReviewNonces = [], rp_consumedReviewIds = [],
     rp_consumedApprovalIds = [], rp_consumedApprovalNonces = [], rp_consumedArtifactDigests = []\<rparr>"

definition addToSet :: "jstr \<Rightarrow> jstr list \<Rightarrow> jstr list" where
  "addToSet x xs = (if x \<in> set xs then xs else xs @ [x])"

abbreviation replayError :: "replay_code \<Rightarrow> string \<Rightarrow> approval_error" where
  "replayError code message \<equiv> ApprovalReplayError code (js message)"

definition registerReview ::
  "(jstr \<Rightarrow> jstr) \<Rightarrow> jsval \<Rightarrow> replay_registry \<Rightarrow> (approval_error + unit) \<times> replay_registry" where
  "registerReview nfc challengeValue reg =
     (case validateApprovalReviewChallenge nfc challengeValue of
        Inl e \<Rightarrow> (Inl e, reg)
      | Inr challenge \<Rightarrow>
          if hasOwn (rp_pendingReviews reg) (ch_reviewId challenge) \<or>
             ch_reviewId challenge \<in> set (rp_consumedReviewIds reg) \<or>
             ch_nonce challenge \<in> set (rp_seenReviewNonces reg)
          then (Inl (replayError ReviewCollision ''Review ID or nonce has already been registered''), reg)
          else case fromContracts (canonicalizeJson nfc (challenge_json challenge)) of
            Inl e \<Rightarrow> (Inl e, reg)
          | Inr text \<Rightarrow>
              (Inr (), reg\<lparr>rp_pendingReviews := setOwn (rp_pendingReviews reg) (ch_reviewId challenge) text,
                 rp_seenReviewNonces := addToSet (ch_nonce challenge) (rp_seenReviewNonces reg)\<rparr>))"

definition consumeReview ::
  "(jstr \<Rightarrow> jstr) \<Rightarrow> jsval \<Rightarrow> replay_registry \<Rightarrow> (approval_error + unit) \<times> replay_registry" where
  "consumeReview nfc challengeValue reg =
     (case validateApprovalReviewChallenge nfc challengeValue of
        Inl e \<Rightarrow> (Inl e, reg)
      | Inr challenge \<Rightarrow>
          if ch_reviewId challenge \<in> set (rp_consumedReviewIds reg)
          then (Inl (replayError ReviewReplay ''Review challenge has already been consumed''), reg)
          else
            let unknown = (Inl (replayError UnknownReview ''Review challenge is not registered''), reg) in
            case ownValue (rp_pendingReviews reg) (ch_reviewId challenge) of
              None \<Rightarrow> unknown
            | Some registered \<Rightarrow>
                if registered = [] then unknown
                else
                  let consumed = reg\<lparr>rp_pendingReviews := AList.delete (ch_reviewId challenge) (rp_pendingReviews reg),
                    rp_consumedReviewIds := addToSet (ch_reviewId challenge) (rp_consumedReviewIds reg)\<rparr> in
                  (bindE (fromContracts (canonicalizeJson nfc (challenge_json challenge))) (\<lambda>text.
                     guardE (\<not> registered \<noteq> text)
                       (replayError ReviewMismatch ''Submitted review challenge does not exactly match registration'')),
                   consumed))"

definition consumeArtifact ::
  "(jstr \<Rightarrow> jstr) \<Rightarrow> jsval \<Rightarrow> replay_registry \<Rightarrow> (approval_error + unit) \<times> replay_registry" where
  "consumeArtifact nfc referenceValue reg =
     (case validateArtifactReplayReference nfc referenceValue of
        Inl e \<Rightarrow> (Inl e, reg)
      | Inr reference \<Rightarrow>
          if rr_approvalId reference \<in> set (rp_consumedApprovalIds reg) \<or>
             rr_nonce reference \<in> set (rp_consumedApprovalNonces reg) \<or>
             rr_artifactDigest reference \<in> set (rp_consumedArtifactDigests reg)
          then (Inl (replayError ArtifactReplay ''Approval Artifact ID, nonce, or digest has already been consumed''), reg)
          else
            (Inr (), reg\<lparr>rp_consumedApprovalIds := addToSet (rr_approvalId reference) (rp_consumedApprovalIds reg),
               rp_consumedApprovalNonces := addToSet (rr_nonce reference) (rp_consumedApprovalNonces reg),
               rp_consumedArtifactDigests := addToSet (rr_artifactDigest reference) (rp_consumedArtifactDigests reg)\<rparr>))"

text \<open>\<open>clone\<close> writes the snapshot and reads it back.\<close>

definition snapshot_json :: "replay_registry \<Rightarrow> jsval" where
  "snapshot_json reg = jrec
     [(''pendingReviewIds'', jarr (map JStr (sort (map fst (rp_pendingReviews reg))))),
      (''consumedReviewIds'', jarr (map JStr (sort (rp_consumedReviewIds reg)))),
      (''consumedApprovalIds'', jarr (map JStr (sort (rp_consumedApprovalIds reg)))),
      (''consumedArtifactDigests'', jarr (map JStr (sort (rp_consumedArtifactDigests reg))))]"

definition replay_snapshot :: "(jstr \<Rightarrow> jstr) \<Rightarrow> replay_registry \<Rightarrow> approval_error + jsval" where
  "replay_snapshot nfc reg =
     bindE (fromContracts (canonicalizeJson nfc (snapshot_json reg))) (\<lambda>text.
     fromContracts (parseCanonicalJson nfc text))"

section \<open>Steps\<close>

datatype replay_call = CallRegisterReview jsval | CallConsumeReview jsval | CallConsumeArtifact jsval

fun perform :: "(jstr \<Rightarrow> jstr) \<Rightarrow> replay_call \<Rightarrow> replay_registry \<Rightarrow> (approval_error + unit) \<times> replay_registry" where
  "perform nfc (CallRegisterReview v) reg = registerReview nfc v reg"
| "perform nfc (CallConsumeReview v) reg = consumeReview nfc v reg"
| "perform nfc (CallConsumeArtifact v) reg = consumeArtifact nfc v reg"

definition replay_step :: "(jstr \<Rightarrow> jstr) \<Rightarrow> replay_registry \<Rightarrow> replay_registry \<Rightarrow> bool" where
  "replay_step nfc reg reg' \<longleftrightarrow> (\<exists>call. reg' = snd (perform nfc call reg))"

definition challenge_text :: "review_challenge \<Rightarrow> jstr" where
  "challenge_text c = render (challenge_json c)"

definition challenge_valid :: "(jstr \<Rightarrow> jstr) \<Rightarrow> review_challenge \<Rightarrow> bool" where
  "challenge_valid nfc c \<longleftrightarrow> wf_challenge nfc c \<and> canonicalizable nfc (challenge_json c)"

lemma set_addToSet [simp]: "set (addToSet x xs) = insert x (set xs)"
  by (auto simp: addToSet_def)

lemma distinct_addToSet [simp]: "distinct (addToSet x xs) \<longleftrightarrow> distinct xs"
  by (simp add: addToSet_def)

lemma ownValue_delete [simp]: "ownValue (AList.delete k r) k' = (if k' = k then None else ownValue r k')"
  by (simp add: ownValue_def delete_conv')

lemma canonicalizeChallenge_Inr:
  "fromContracts (canonicalizeJson nfc (challenge_json c)) = Inr t \<longleftrightarrow>
     canonicalizable nfc (challenge_json c) \<and> t = challenge_text c"
  by (simp add: result_simps challenge_text_def)

lemma canonicalizeChallenge_cases:
  "canonicalizable nfc (challenge_json c) \<and> fromContracts (canonicalizeJson nfc (challenge_json c)) = Inr (challenge_text c) \<or>
   \<not> canonicalizable nfc (challenge_json c) \<and> (\<exists>e. fromContracts (canonicalizeJson nfc (challenge_json c)) = Inl e)"
  using canonicalizeChallenge_Inr [of nfc c] by (cases "fromContracts (canonicalizeJson nfc (challenge_json c))") auto

lemma challenge_json_keys: "wf_jsval (challenge_json c)"
  unfolding challenge_json_def challengeFields_def commitmentEntries_def
  by (intro wf_jsval_jrec) (auto simp: artifact_json_keys)

lemma challenge_text_inj:
  assumes "challenge_valid nfc c" "challenge_valid nfc c'" "challenge_text c = challenge_text c'"
  shows "c = c'"
proof -
  have "sortFields (challenge_json c) = sortFields (challenge_json c')"
    using assms unfolding challenge_text_def challenge_valid_def canonicalizable_def
    by (intro render_inj [of nfc]) (simp_all add: challenge_json_keys)
  then have "validateApprovalReviewChallenge nfc (challenge_json c) = Inr c'"
      "validateApprovalReviewChallenge nfc (challenge_json c) = Inr c"
    using assms(1,2) by (simp_all add: validate_challenge_exact challenge_valid_def)
  then show ?thesis
    by simp
qed

lemma challenge_text_nonempty [simp]: "challenge_text c \<noteq> []" "[] \<noteq> challenge_text c"
  by (simp_all add: challenge_text_def challenge_json_def jrec_def render_JObj)

text \<open>The effect of every method.\<close>

definition registered :: "review_challenge \<Rightarrow> replay_registry \<Rightarrow> replay_registry" where
  "registered c reg = reg\<lparr>rp_pendingReviews := setOwn (rp_pendingReviews reg) (ch_reviewId c) (challenge_text c),
     rp_seenReviewNonces := addToSet (ch_nonce c) (rp_seenReviewNonces reg)\<rparr>"

definition reviewConsumed :: "jstr \<Rightarrow> replay_registry \<Rightarrow> replay_registry" where
  "reviewConsumed i reg = reg\<lparr>rp_pendingReviews := AList.delete i (rp_pendingReviews reg),
     rp_consumedReviewIds := addToSet i (rp_consumedReviewIds reg)\<rparr>"

definition artifactConsumed :: "replay_reference \<Rightarrow> replay_registry \<Rightarrow> replay_registry" where
  "artifactConsumed r reg = reg\<lparr>rp_consumedApprovalIds := addToSet (rr_approvalId r) (rp_consumedApprovalIds reg),
     rp_consumedApprovalNonces := addToSet (rr_nonce r) (rp_consumedApprovalNonces reg),
     rp_consumedArtifactDigests := addToSet (rr_artifactDigest r) (rp_consumedArtifactDigests reg)\<rparr>"

definition artifact_fresh :: "replay_reference \<Rightarrow> replay_registry \<Rightarrow> bool" where
  "artifact_fresh r reg \<longleftrightarrow> rr_approvalId r \<notin> set (rp_consumedApprovalIds reg) \<and>
     rr_nonce r \<notin> set (rp_consumedApprovalNonces reg) \<and> rr_artifactDigest r \<notin> set (rp_consumedArtifactDigests reg)"

lemma registerReview_ok:
  "registerReview nfc v reg = (Inr (), reg') \<longleftrightarrow>
     (\<exists>c. validateApprovalReviewChallenge nfc v = Inr c \<and> challenge_valid nfc c \<and>
        ownValue (rp_pendingReviews reg) (ch_reviewId c) = None \<and> ch_reviewId c \<notin> set (rp_consumedReviewIds reg) \<and>
        ch_nonce c \<notin> set (rp_seenReviewNonces reg) \<and> reg' = registered c reg)"
proof (cases "validateApprovalReviewChallenge nfc v")
  case (Inr c)
  then have "challenge_valid nfc c \<longleftrightarrow> canonicalizable nfc (challenge_json c)"
    by (simp add: validate_challenge_exact challenge_valid_def)
  then show ?thesis
    using canonicalizeChallenge_cases [of nfc c]
    by (elim disjE conjE exE) (auto simp: registerReview_def Inr registered_def hasOwn_def)
qed (simp add: registerReview_def)

lemma registerReview_refused: "registerReview nfc v reg = (Inl e, reg') \<Longrightarrow> reg' = reg"
  by (auto simp: registerReview_def split: sum.splits if_splits)

lemma consumeReview_refused:
  "consumeReview nfc v reg = (Inl e, reg') \<Longrightarrow>
     reg' = reg \<or> (\<exists>c. validateApprovalReviewChallenge nfc v = Inr c \<and> reg' = reviewConsumed (ch_reviewId c) reg)"
  by (auto simp: consumeReview_def Let_def reviewConsumed_def split: sum.splits if_splits option.splits)

lemma consumeReview_ok:
  "consumeReview nfc v reg = (Inr (), reg') \<longleftrightarrow>
     (\<exists>c. validateApprovalReviewChallenge nfc v = Inr c \<and> challenge_valid nfc c \<and>
        ch_reviewId c \<notin> set (rp_consumedReviewIds reg) \<and>
        ownValue (rp_pendingReviews reg) (ch_reviewId c) = Some (challenge_text c) \<and> reg' = reviewConsumed (ch_reviewId c) reg)"
proof (cases "validateApprovalReviewChallenge nfc v")
  case (Inr c)
  then have "challenge_valid nfc c \<longleftrightarrow> canonicalizable nfc (challenge_json c)"
    by (simp add: validate_challenge_exact challenge_valid_def)
  then show ?thesis
    using canonicalizeChallenge_cases [of nfc c]
    by (elim disjE conjE exE)
      (auto simp: consumeReview_def Let_def Inr reviewConsumed_def guardE_eq_Inr split: option.splits)
qed (simp add: consumeReview_def)

lemma consumeArtifact_ok:
  "consumeArtifact nfc v reg = (Inr (), reg') \<longleftrightarrow>
     (\<exists>r. validateArtifactReplayReference nfc v = Inr r \<and> artifact_fresh r reg \<and> reg' = artifactConsumed r reg)"
  by (auto simp: consumeArtifact_def artifact_fresh_def artifactConsumed_def split: sum.splits)

lemma consumeArtifact_refused: "consumeArtifact nfc v reg = (Inl e, reg') \<Longrightarrow> reg' = reg"
  by (auto simp: consumeArtifact_def split: sum.splits if_splits)

lemma replay_step_cases:
  assumes "replay_step nfc reg reg'"
  obtains (same) "reg' = reg"
  | (register) c where "challenge_valid nfc c" "ownValue (rp_pendingReviews reg) (ch_reviewId c) = None"
      "ch_reviewId c \<notin> set (rp_consumedReviewIds reg)" "ch_nonce c \<notin> set (rp_seenReviewNonces reg)" "reg' = registered c reg"
  | (review) i where "reg' = reviewConsumed i reg"
  | (artifact) r where "artifact_fresh r reg" "reg' = artifactConsumed r reg"
proof -
  obtain call where call: "reg' = snd (perform nfc call reg)"
    using assms by (auto simp: replay_step_def)
  obtain result where run: "perform nfc call reg = (result, reg')"
    using call by (cases "perform nfc call reg") auto
  show thesis
  proof (cases call)
    case (CallRegisterReview v)
    then show ?thesis
      using run registerReview_ok [of nfc v reg reg'] registerReview_refused [of nfc v reg _ reg']
      by (cases result) (auto intro: same register)
  next
    case (CallConsumeReview v)
    then show ?thesis
      using run consumeReview_ok [of nfc v reg reg'] consumeReview_refused [of nfc v reg _ reg']
      by (cases result) (auto intro: same review)
  next
    case (CallConsumeArtifact v)
    then show ?thesis
      using run consumeArtifact_ok [of nfc v reg reg'] consumeArtifact_refused [of nfc v reg _ reg']
      by (cases result) (auto intro: same artifact)
  qed
qed

section \<open>The invariant and the order of the registry\<close>

text \<open>No review id is both pending and consumed, and a pending text is the text of a challenge with that id whose nonce
  has been recorded.\<close>

definition replay_inv :: "(jstr \<Rightarrow> jstr) \<Rightarrow> replay_registry \<Rightarrow> bool" where
  "replay_inv nfc reg \<longleftrightarrow>
     (\<forall>i t. ownValue (rp_pendingReviews reg) i = Some t \<longrightarrow>
        i \<notin> set (rp_consumedReviewIds reg) \<and>
        (\<exists>c. challenge_valid nfc c \<and> ch_reviewId c = i \<and> t = challenge_text c \<and> ch_nonce c \<in> set (rp_seenReviewNonces reg)))"

text \<open>What a run may do: consumed ids, nonces and digests stay, and a review that was registered or consumed either
  still waits with the same text or is consumed.\<close>

definition replay_order :: "replay_registry \<Rightarrow> replay_registry \<Rightarrow> bool" where
  "replay_order reg reg' \<longleftrightarrow>
     set (rp_seenReviewNonces reg) \<subseteq> set (rp_seenReviewNonces reg') \<and>
     set (rp_consumedReviewIds reg) \<subseteq> set (rp_consumedReviewIds reg') \<and>
     set (rp_consumedApprovalIds reg) \<subseteq> set (rp_consumedApprovalIds reg') \<and>
     set (rp_consumedApprovalNonces reg) \<subseteq> set (rp_consumedApprovalNonces reg') \<and>
     set (rp_consumedArtifactDigests reg) \<subseteq> set (rp_consumedArtifactDigests reg') \<and>
     (\<forall>i t. ownValue (rp_pendingReviews reg) i = Some t \<longrightarrow>
        ownValue (rp_pendingReviews reg') i = Some t \<or> i \<in> set (rp_consumedReviewIds reg'))"

lemmas registry_updates = registered_def reviewConsumed_def artifactConsumed_def

interpretation replay: monotone_system "\<lambda>reg. reg = emptyReplay" "replay_step nfc" "replay_inv nfc" replay_order for nfc
proof
  show "replay_inv nfc reg" if "reg = emptyReplay" for reg
    using that by (simp add: replay_inv_def emptyReplay_def)
  show "replay_inv nfc reg'" if "replay_inv nfc reg" "replay_step nfc reg reg'" for reg reg'
    using that(2,1) by (cases rule: replay_step_cases) (auto simp: replay_inv_def registry_updates)
  show "replay_order reg reg" for reg
    by (simp add: replay_order_def)
  show "replay_order reg reg'" if "replay_order reg mid" "replay_order mid reg'" for reg mid reg'
    using that unfolding replay_order_def by (intro conjI) (blast+)
  show "replay_order reg reg'" if "replay_inv nfc reg" "replay_step nfc reg reg'" for reg reg'
    using that(2) by (cases rule: replay_step_cases) (auto simp: replay_order_def registry_updates)
qed

section \<open>A sample challenge and a sample reference\<close>

definition sample_reviewer :: approval_reviewer where
  "sample_reviewer = \<lparr>rv_reviewerId = js ''r1'', rv_role = HumanReviewer\<rparr>"

definition sample_commitments :: approval_commitments where
  "sample_commitments = \<lparr>cm_policyDigest = sample_digest, cm_adapterRegistryDigest = sample_digest,
     cm_runnerRegistryDigest = sample_digest, cm_effectRegistryDigest = sample_digest, cm_rendererVersion = js ''v1''\<rparr>"

definition sample_nonce :: jstr where
  "sample_nonce = js ''AAAAAAAAAAAAAAAAAAAAAA''"

definition sample_challenge :: review_challenge where
  "sample_challenge =
     \<lparr>ch_reviewId = js ''00000000-0000-4000-8000-000000000001'', ch_contractHash = sample_digest, ch_contractRevision = 1,
      ch_authorityDigest = replicate 64 98, ch_commitments = sample_commitments, ch_reviewer = sample_reviewer,
      ch_issuedAt = js ''2026-01-01T00:00:00Z'', ch_expiresAt = js ''2026-01-01T00:00:30Z'', ch_nonce = sample_nonce\<rparr>"

definition sample_reference :: replay_reference where
  "sample_reference =
     \<lparr>rr_approvalId = js ''00000000-0000-4000-8000-000000000001'', rr_artifactDigest = sample_digest,
      rr_contractHash = sample_digest, rr_contractRevision = 1, rr_nonce = sample_nonce,
      rr_expiresAt = js ''2026-01-01T00:00:30Z''\<rparr>"

lemma sample_parts_ok:
  "wf_reviewer (\<lambda>s. s) sample_reviewer" "wf_commitments (\<lambda>s. s) sample_commitments" "approval_nonce sample_nonce"
  "string_ok (\<lambda>s. s) sample_digest"
  using sample_digest_ok sample_tokens
  by (simp_all add: wf_reviewer_def wf_commitments_def approval_nonce_def sample_reviewer_def sample_commitments_def sample_nonce_def
      approval_token_def ident_id surrogate_defs js_def IDENTIFIER_PATTERN_def BASE64URL_PATTERN_def char_class_defs string_ok_def
      MAX_CANONICAL_JSON_STRING_CODE_UNITS_def)

lemma sample_challenge_wf: "wf_challenge (\<lambda>s. s) sample_challenge"
  using sample_parts_ok sample_digest_ok sample_idents sample_stamps sample_expiry sample_other_digest
  by (simp add: wf_challenge_def sample_challenge_def safe_int_def MAX_SAFE_INTEGER_def)

lemma sample_challenge_valid: "challenge_valid (\<lambda>s. s) sample_challenge"
proof -
  have "canonicalizable (\<lambda>s. s) (challenge_json sample_challenge)"
    using sample_parts_ok(4) sample_other_digest
    unfolding challenge_json_def challengeFields_def sample_challenge_def sample_commitments_def sample_reviewer_def
      sample_nonce_def commitmentEntries_def reviewer_json_def
    by (simp add: canonicalizable_def length_render_jrec separators_def jrec_measures sample_digest_quote spelling_def
      reviewerRoles_def APPROVAL_REVIEW_KIND_def APPROVAL_SPEC_VERSION_def safe_int_def MAX_SAFE_INTEGER_def jsonQuote_def
      quoteUnit_def string_ok_def canonical_string_def surrogate_defs js_def decInt_def decDigits.simps
      MAX_CANONICAL_JSON_STRING_CODE_UNITS_def MAX_CANONICAL_JSON_DEPTH_def
      MAX_CANONICAL_JSON_NODES_def MAX_CANONICAL_JSON_OUTPUT_CODE_UNITS_def)
  then show ?thesis
    using sample_challenge_wf by (simp add: challenge_valid_def)
qed

lemma sample_challenge_accepted: "validateApprovalReviewChallenge (\<lambda>s. s) (challenge_json sample_challenge) = Inr sample_challenge"
  using sample_challenge_wf by (simp add: validate_challenge_exact)

lemma sample_reference_accepted: "validateArtifactReplayReference (\<lambda>s. s) (reference_json sample_reference) = Inr sample_reference"
  using sample_parts_ok sample_digest_ok sample_idents sample_expiry
  by (simp add: validate_reference_exact wf_reference_def sample_reference_def safe_int_def MAX_SAFE_INTEGER_def)

section \<open>Properties\<close>

lemma review_decided:
  assumes "reachable (\<lambda>reg. reg = emptyReplay) (replay_step nfc) reg0"
    and "registerReview nfc v reg0 = (Inr (), reg1)" and "validateApprovalReviewChallenge nfc v = Inr c"
    and "(replay_step nfc)\<^sup>*\<^sup>* reg1 reg2"
    and "consumeReview nfc w reg2 = (result, reg3)" and "validateApprovalReviewChallenge nfc w = Inr c'"
    and "ch_reviewId c' = ch_reviewId c"
    and "(replay_step nfc)\<^sup>*\<^sup>* reg3 reg4"
    and "validateApprovalReviewChallenge nfc u = Inr c''" and "ch_reviewId c'' = ch_reviewId c"
  shows "(result = Inr () \<longleftrightarrow> c' = c \<and> ch_reviewId c \<notin> set (rp_consumedReviewIds reg2)) \<and>
    consumeReview nfc u reg4 = (Inl (replayError ReviewReplay ''Review challenge has already been consumed''), reg4) \<and>
    registerReview nfc u reg4 = (Inl (replayError ReviewCollision ''Review ID or nonce has already been registered''), reg4)"
proof -
  let ?i = "ch_reviewId c"
  have c: "challenge_valid nfc c" "reg1 = registered c reg0"
    using assms(2,3) by (auto simp: registerReview_ok)
  have c': "wf_challenge nfc c'"
    using assms(6) by (simp add: validate_challenge_exact)
  have "replay_step nfc reg0 reg1"
    using assms(2) by (auto simp: replay_step_def intro!: exI [of _ "CallRegisterReview v"])
  then have inv1: "replay_inv nfc reg1"
    by (rule replay.reachable_inv [OF reachable.advance [OF assms(1)]])
  have inv2: "replay_inv nfc reg2"
    using replay.run_inv [OF assms(4) inv1] .
  have "ownValue (rp_pendingReviews reg1) ?i = Some (challenge_text c)"
    by (simp add: c(2) registered_def)
  then have waits: "ownValue (rp_pendingReviews reg2) ?i = Some (challenge_text c) \<or> ?i \<in> set (rp_consumedReviewIds reg2)"
    using replay.run_ord [OF assms(4) inv1] by (auto simp: replay_order_def)
  have result: "result = Inr () \<longleftrightarrow> c' = c \<and> ?i \<notin> set (rp_consumedReviewIds reg2)"
  proof
    assume "result = Inr ()"
    with assms(5) have "consumeReview nfc w reg2 = (Inr (), reg3)"
      by simp
    then have "challenge_valid nfc c'" "?i \<notin> set (rp_consumedReviewIds reg2)"
      "ownValue (rp_pendingReviews reg2) ?i = Some (challenge_text c')"
      unfolding consumeReview_ok using assms(6,7) by auto
    then show "c' = c \<and> ?i \<notin> set (rp_consumedReviewIds reg2)"
      using waits challenge_text_inj [OF _ c(1)] by simp
  next
    assume "c' = c \<and> ?i \<notin> set (rp_consumedReviewIds reg2)"
    then have "consumeReview nfc w reg2 = (Inr (), reviewConsumed ?i reg2)"
      unfolding consumeReview_ok using waits c(1) assms(6) by simp
    with assms(5) show "result = Inr ()"
      by simp
  qed
  have "?i \<in> set (rp_consumedReviewIds reg3)"
    using assms(5-7) waits
    by (auto simp: consumeReview_def Let_def split: if_splits)
  moreover have "replay_step nfc reg2 reg3"
    using assms(5) by (auto simp: replay_step_def intro!: exI [of _ "CallConsumeReview w"])
  then have "replay_inv nfc reg3"
    using inv2 replay.inv_step by blast
  ultimately have "?i \<in> set (rp_consumedReviewIds reg4)"
    using replay.run_ord [OF assms(8)] by (auto simp: replay_order_def)
  then show ?thesis
    using result assms(9,10) by (simp add: consumeReview_def registerReview_def)
qed

text \<open>C24. Once a review has been registered, the first submission with its id decides: it is accepted exactly when it is the
  registered challenge itself, and whatever its result, from then on every submission with that id is refused as a replay
  and every registration as a collision, and neither changes the registry.\<close>

theorem review_decided_once:
  assumes "reachable (\<lambda>reg. reg = emptyReplay) (replay_step nfc) reg0"
    and "registerReview nfc v reg0 = (Inr (), reg1)" and "validateApprovalReviewChallenge nfc v = Inr c"
    and "(replay_step nfc)\<^sup>*\<^sup>* reg1 reg2"
    and "consumeReview nfc w reg2 = (result, reg3)" and "validateApprovalReviewChallenge nfc w = Inr c'"
    and "ch_reviewId c' = ch_reviewId c"
    and "(replay_step nfc)\<^sup>*\<^sup>* reg3 reg4"
    and "validateApprovalReviewChallenge nfc u = Inr c''" and "ch_reviewId c'' = ch_reviewId c"
  shows "(result = Inr () \<longleftrightarrow> c' = c \<and> ch_reviewId c \<notin> set (rp_consumedReviewIds reg2)) \<and>
    consumeReview nfc u reg4 = (Inl (replayError ReviewReplay ''Review challenge has already been consumed''), reg4) \<and>
    registerReview nfc u reg4 = (Inl (replayError ReviewCollision ''Review ID or nonce has already been registered''), reg4)"
  by (rule review_decided [OF assms])

theorem review_decided_once_witness:
  "\<exists>reg1 reg3. registerReview (\<lambda>s. s) (challenge_json sample_challenge) emptyReplay = (Inr (), reg1) \<and>
     consumeReview (\<lambda>s. s) (challenge_json sample_challenge) reg1 = (Inr (), reg3) \<and>
     consumeReview (\<lambda>s. s) (challenge_json sample_challenge) reg3 =
       (Inl (replayError ReviewReplay ''Review challenge has already been consumed''), reg3)"
proof -
  let ?v = "challenge_json sample_challenge" and ?reg1 = "registered sample_challenge emptyReplay"
  have first: "registerReview (\<lambda>s. s) ?v emptyReplay = (Inr (), ?reg1)"
    using sample_challenge_valid sample_challenge_accepted by (simp add: registerReview_ok emptyReplay_def)
  obtain result reg3 where then_: "consumeReview (\<lambda>s. s) ?v ?reg1 = (result, reg3)"
    by (cases "consumeReview (\<lambda>s. s) ?v ?reg1")
  have "reachable (\<lambda>reg. reg = emptyReplay) (replay_step (\<lambda>s. s)) emptyReplay"
    by (rule reachable.start) (rule refl)
  note decided = review_decided_once [OF this first sample_challenge_accepted rtranclp.rtrancl_refl then_ sample_challenge_accepted
    refl rtranclp.rtrancl_refl sample_challenge_accepted refl]
  have "rp_consumedReviewIds ?reg1 = []"
    by (simp add: emptyReplay_def registered_def)
  then have "result = Inr ()"
    using decided by simp
  then show ?thesis
    using first then_ decided by blast
qed

lemma artifact_refused:
  assumes "reachable (\<lambda>reg. reg = emptyReplay) (replay_step nfc) reg0"
    and "consumeArtifact nfc v reg0 = (Inr (), reg1)" and "validateArtifactReplayReference nfc v = Inr r"
    and "(replay_step nfc)\<^sup>*\<^sup>* reg1 reg2" and "validateArtifactReplayReference nfc w = Inr r'"
    and "rr_approvalId r' = rr_approvalId r \<or> rr_nonce r' = rr_nonce r \<or> rr_artifactDigest r' = rr_artifactDigest r"
  shows "consumeArtifact nfc w reg2 =
    (Inl (replayError ArtifactReplay ''Approval Artifact ID, nonce, or digest has already been consumed''), reg2)"
proof -
  have reg1: "reg1 = artifactConsumed r reg0"
    using assms(2,3) by (auto simp: consumeArtifact_ok)
  have "replay_step nfc reg0 reg1"
    using assms(2) by (auto simp: replay_step_def intro!: exI [of _ "CallConsumeArtifact v"])
  then have "replay_inv nfc reg1"
    by (rule replay.reachable_inv [OF reachable.advance [OF assms(1)]])
  from replay.run_ord [OF assms(4) this] have "\<not> artifact_fresh r' reg2"
    using assms(6) by (auto simp: replay_order_def artifact_fresh_def reg1 artifactConsumed_def)
  then show ?thesis
    using assms(5) by (auto simp: consumeArtifact_def artifact_fresh_def)
qed

text \<open>C25. An approval artifact is admitted at most once: after an admission, in every continuation, a reference that shares
  its approval id, its nonce or its digest is refused as a replay and the registry does not change.\<close>

theorem artifact_admitted_once:
  assumes "reachable (\<lambda>reg. reg = emptyReplay) (replay_step nfc) reg0"
    and "consumeArtifact nfc v reg0 = (Inr (), reg1)" and "validateArtifactReplayReference nfc v = Inr r"
    and "(replay_step nfc)\<^sup>*\<^sup>* reg1 reg2" and "validateArtifactReplayReference nfc w = Inr r'"
    and "rr_approvalId r' = rr_approvalId r \<or> rr_nonce r' = rr_nonce r \<or> rr_artifactDigest r' = rr_artifactDigest r"
  shows "consumeArtifact nfc w reg2 =
    (Inl (replayError ArtifactReplay ''Approval Artifact ID, nonce, or digest has already been consumed''), reg2)"
  by (rule artifact_refused [OF assms])

theorem artifact_admitted_once_witness:
  "\<exists>reg. consumeArtifact (\<lambda>s. s) (reference_json sample_reference) emptyReplay = (Inr (), reg) \<and>
     consumeArtifact (\<lambda>s. s) (reference_json sample_reference) reg =
       (Inl (replayError ArtifactReplay ''Approval Artifact ID, nonce, or digest has already been consumed''), reg)"
proof -
  have first: "consumeArtifact (\<lambda>s. s) (reference_json sample_reference) emptyReplay = (Inr (), artifactConsumed sample_reference emptyReplay)"
    using sample_reference_accepted by (simp add: consumeArtifact_ok artifact_fresh_def emptyReplay_def)
  have "reachable (\<lambda>reg. reg = emptyReplay) (replay_step (\<lambda>s. s)) emptyReplay"
    by (rule reachable.start) (rule refl)
  from artifact_admitted_once [OF this first sample_reference_accepted rtranclp.rtrancl_refl sample_reference_accepted] show ?thesis
    using first by blast
qed

end
