(* ===== verification/Approval_Service.thy ===== *)
theory Approval_Service
  imports Approval_Replay Procedure
begin

text \<open>
  The approval service (\<open>approval-service.ts\<close>): it prepares the review of a signed contract for a trusted user
  interface, turns an accepted review into a signed approval artifact, and verifies and consumes such an artifact.

  As in the guardian, everything outside the service is one world of an arbitrary type. A port is asked in the current
  world and answers an arbitrary value or throws. After a call that is awaited the world becomes \<open>ap_elapse\<close> of itself, which
  is whatever happened until the service resumed; a synchronous call changes it to \<open>ap_called\<close> of itself, which is what the
  port itself did. The three methods of the replay registry are procedures with their own effect. \<open>ap_otherDate\<close> is
  \<open>Date.parse\<close> on strings outside the canonical timestamp pattern, which the language leaves to the implementation in part.
\<close>

section \<open>Data\<close>

definition DEFAULT_REVIEW_TTL_MS :: int where "DEFAULT_REVIEW_TTL_MS = 5 * 60 * 1000"
definition DEFAULT_APPROVAL_TTL_MS :: int where "DEFAULT_APPROVAL_TTL_MS = 5 * 60 * 1000"
definition MAX_TTL_MS :: int where "MAX_TTL_MS = 24 * 60 * 60 * 1000"

record commitment_scope =
  sc_contractId :: jstr
  sc_contractHash :: jstr
  sc_contractRevision :: int
  sc_taskId :: jstr
  sc_workspaceId :: jstr

datatype reviewer_status = ReviewerActive | ReviewerRevoked

record trusted_reviewer =
  tr_reviewer :: approval_reviewer
  tr_status :: reviewer_status

record signing_input =
  si_algorithm :: string
  si_payloadType :: string
  si_message :: "byte list"

text \<open>\<open>SignatureVerificationInput\<close> as the service builds it, without a trusted signer.\<close>

record signature_check =
  sk_algorithm :: string
  sk_keyId :: jstr
  sk_signature :: jstr
  sk_message :: "byte list"

record prepared_review =
  pp_model :: render_model
  pp_canonicalModel :: jstr
  pp_challenge :: review_challenge

record issued_approval =
  ia_artifact :: approval_artifact
  ia_canonicalPayload :: jstr
  ia_envelope :: signed_envelope
  ia_signerKeyId :: jstr

record verified_approval =
  va_artifact :: approval_artifact
  va_canonicalPayload :: jstr
  va_artifactDigest :: jstr
  va_signerKeyId :: jstr
  va_reviewer :: approval_reviewer
  va_model :: render_model
  va_verifiedContract :: verified_contract

type_synonym ('w, 'a) asks = "'w \<Rightarrow> approval_error + 'a"

record 'w approval_ports =
  ap_elapse :: "'w \<Rightarrow> 'w"
  ap_called :: "'w \<Rightarrow> 'w"
  ap_otherDate :: "jstr \<Rightarrow> int option"
  ap_sha256 :: "'w \<Rightarrow> hash_port"
  ap_resolveTrustedSigner :: "'w \<Rightarrow> resolve_port"
  ap_verifyContract :: "'w \<Rightarrow> verify_port"
  ap_assertSigner :: "'w \<Rightarrow> assert_port"
  ap_authenticate :: "('w, jsval) asks"
  ap_sign :: "signing_input \<Rightarrow> ('w, jsval) asks"
  ap_resolveReviewer :: "jstr \<Rightarrow> ('w, jsval) asks"
  ap_verify :: "signature_check \<Rightarrow> ('w, jsval) asks"
  ap_assertTrusted :: "jstr \<Rightarrow> approval_reviewer \<Rightarrow> ('w, jsval) asks"
  ap_readCurrent :: "commitment_scope \<Rightarrow> ('w, jsval) asks"
  ap_assertCurrent :: "commitment_scope \<Rightarrow> approval_commitments \<Rightarrow> ('w, jsval) asks"
  ap_registerReview :: "review_challenge \<Rightarrow> (approval_error, 'w, jsval) procedure"
  ap_consumeReview :: "review_challenge \<Rightarrow> (approval_error, 'w, jsval) procedure"
  ap_consumeArtifact :: "replay_reference \<Rightarrow> (approval_error, 'w, jsval) procedure"
  ap_nextReviewId :: "('w, jsval) asks"
  ap_nextApprovalId :: "('w, jsval) asks"
  ap_nextNonce :: "('w, jsval) asks"
  ap_now :: "('w, jsval) asks"
  ap_contractRoles :: jsval
  ap_reviewerRoles :: "reviewer_role list"
  ap_reviewTtlMs :: int
  ap_approvalTtlMs :: int

type_synonym ('w, 'a) approval_proc = "(approval_error, 'w, 'a) procedure"

definition awaitP :: "'w approval_ports \<Rightarrow> ('w, 'a) asks \<Rightarrow> ('w, 'a) approval_proc" where
  "awaitP ports ask w = (ask w, ap_elapse ports w)"

definition syncP :: "'w approval_ports \<Rightarrow> ('w, 'a) asks \<Rightarrow> ('w, 'a) approval_proc" where
  "syncP ports ask w = (ask w, ap_called ports w)"

abbreviation security :: "security_code \<Rightarrow> string \<Rightarrow> approval_error" where
  "security code message \<equiv> ApprovalSecurityError code (js message)"

text \<open>\<open>error instanceof Error ? prefix + error.message : prefix\<close>\<close>

definition describe :: "security_code \<Rightarrow> string \<Rightarrow> approval_error \<Rightarrow> approval_error" where
  "describe code text error =
     ApprovalSecurityError code
       (case messageOf error of Some message \<Rightarrow> js (text @ '': '') @ message | None \<Rightarrow> js text)"

section \<open>Checks\<close>

definition canonicalTimestamp_approval :: "int \<Rightarrow> jstr" where
  "canonicalTimestamp_approval milliseconds = canonicalIso (toISOString milliseconds)"

definition parseDate :: "'w approval_ports \<Rightarrow> jstr \<Rightarrow> int option" where
  "parseDate ports s = (if TIMESTAMP_PATTERN s then dateParse s else ap_otherDate ports s)"

definition validateTimestamp :: "(jstr \<Rightarrow> jstr) \<Rightarrow> 'w approval_ports \<Rightarrow> jsval \<Rightarrow> string \<Rightarrow> approval_error + jstr" where
  "validateTimestamp nfc ports value label =
     (case value of
        JStr s \<Rightarrow>
          if length s > 32 then Inl (security InvalidPortOutput (label @ '' timestamp must be a bounded string''))
          else
            bindE (catchE (encodeUtf8 nfc s)
              (\<lambda>_. security InvalidPortOutput (label @ '' timestamp contains invalid Unicode''))) (\<lambda>_.
            bindE (guardE (case parseDate ports s of
                None \<Rightarrow> False | Some milliseconds \<Rightarrow> \<not> canonicalTimestamp_approval milliseconds \<noteq> s)
              (security InvalidPortOutput (label @ '' timestamp must be canonical UTC''))) (\<lambda>_. Inr s))
      | _ \<Rightarrow> Inl (security InvalidPortOutput (label @ '' timestamp must be a bounded string'')))"

text \<open>\<open>Date.parse\<close> of a time that was validated.\<close>

definition timeOf :: "'w approval_ports \<Rightarrow> jstr \<Rightarrow> int" where
  "timeOf ports s = (case parseDate ports s of None \<Rightarrow> 0 | Some ms \<Rightarrow> ms)"

definition assertActiveWindow ::
  "'w approval_ports \<Rightarrow> jstr \<Rightarrow> jstr \<Rightarrow> jstr \<Rightarrow> string \<Rightarrow> approval_error + unit" where
  "assertActiveWindow ports notBefore expiresAt now label =
     guardE (\<not> (timeOf ports now < timeOf ports notBefore \<or> timeOf ports now \<ge> timeOf ports expiresAt))
       (security ApprovalExpired (label @ '' is not active at the trusted current time''))"

definition assertContractActive :: "'w approval_ports \<Rightarrow> verified_contract \<Rightarrow> jstr \<Rightarrow> approval_error + unit" where
  "assertContractActive ports verified now =
     assertActiveWindow ports (vld_notBefore (ic_validity (vc_contract verified)))
       (vld_expiresAt (ic_validity (vc_contract verified))) now ''Intent Contract''"

definition assertBoundedLifetime ::
  "'w approval_ports \<Rightarrow> jstr \<Rightarrow> jstr \<Rightarrow> int \<Rightarrow> string \<Rightarrow> approval_error + unit" where
  "assertBoundedLifetime ports issuedAt expiresAt maximumTtlMs label =
     guardE (\<not> timeOf ports expiresAt - timeOf ports issuedAt > maximumTtlMs)
       (security ApprovalExpired (label @ '' exceeds the locally accepted maximum lifetime''))"

definition scopeFor :: "verified_contract \<Rightarrow> commitment_scope" where
  "scopeFor verified =
     (let contract = vc_contract verified in
      \<lparr>sc_contractId = ic_contractId contract, sc_contractHash = vc_contractHash verified,
       sc_contractRevision = ic_revision contract, sc_taskId = aud_taskId (ic_audience contract),
       sc_workspaceId = aud_workspaceId (ic_audience contract)\<rparr>)"

definition boundedExpiry :: "'w approval_ports \<Rightarrow> jstr \<Rightarrow> int \<Rightarrow> jstr \<Rightarrow> approval_error + jstr" where
  "boundedExpiry ports now ttlMs outerExpiry =
     (let expiryMs = min (timeOf ports now + ttlMs) (timeOf ports outerExpiry) in
      bindE (guardE (\<not> expiryMs \<le> timeOf ports now)
        (security ApprovalExpired ''No positive approval validity window remains'')) (\<lambda>_.
      Inr (canonicalTimestamp_approval expiryMs)))"

definition assertSynchronous :: "jsval \<Rightarrow> string \<Rightarrow> approval_error + unit" where
  "assertSynchronous value label =
     guardE (value = JUndefined) (security InvalidPortOutput (label @ '' must synchronously return undefined''))"

definition requireServiceInput :: "jsval \<Rightarrow> string list \<Rightarrow> approval_error + (jstr \<times> jsval) list" where
  "requireServiceInput value expectedKeys =
     (let wrapper = security InvalidPortOutput ''Approval service input must be a plain data wrapper'' in
      case value of
        JObj sh fs \<Rightarrow>
          if foreignPrototype sh \<or> symbolKeys sh then Inl wrapper
          else if hiddenFields sh \<or> sort (map fst fs) \<noteq> map js expectedKeys
          then Inl (security InvalidPortOutput ''Approval service input has unknown or hidden fields'')
          else if list_ex (\<lambda>f. snd f = JAccessor) fs
          then Inl (security InvalidPortOutput ''Approval service input cannot contain accessors'')
          else Inr fs
      | _ \<Rightarrow> Inl wrapper)"

definition assertReviewBindsContract ::
  "(jstr \<Rightarrow> jstr) \<Rightarrow> 'w approval_ports \<Rightarrow> review_challenge \<Rightarrow> verified_contract \<Rightarrow> jstr \<Rightarrow> approval_commitments \<Rightarrow>
   approval_error + unit" where
  "assertReviewBindsContract nfc ports review verified authorityDigest expected =
     (let mismatch = security ReviewBindingMismatch ''Review challenge does not bind the exact current contract authority'' in
      if ch_contractHash review \<noteq> vc_contractHash verified \<or>
         ch_contractRevision review \<noteq> ic_revision (vc_contract verified) \<or>
         ch_authorityDigest review \<noteq> authorityDigest \<or>
         timeOf ports (ch_issuedAt review) < timeOf ports (vld_notBefore (ic_validity (vc_contract verified))) \<or>
         timeOf ports (ch_expiresAt review) > timeOf ports (vld_expiresAt (ic_validity (vc_contract verified)))
      then Inl mismatch
      else bindE (commitmentsFromReview nfc (challenge_json review)) (\<lambda>commitments.
        guardE (approvalValuesEqual nfc (commitments_json commitments) (commitments_json expected)) mismatch))"

definition assertArtifactBindsContract ::
  "(jstr \<Rightarrow> jstr) \<Rightarrow> 'w approval_ports \<Rightarrow> approval_artifact \<Rightarrow> verified_contract \<Rightarrow> jstr \<Rightarrow> approval_commitments \<Rightarrow>
   approval_error + unit" where
  "assertArtifactBindsContract nfc ports artifact verified authorityDigest expected =
     (let mismatch = security ArtifactMismatch ''Approval Artifact does not bind the exact current contract authority'' in
      if aa_contractHash artifact \<noteq> vc_contractHash verified \<or>
         aa_contractRevision artifact \<noteq> ic_revision (vc_contract verified) \<or>
         aa_authorityDigest artifact \<noteq> authorityDigest \<or>
         timeOf ports (aa_issuedAt artifact) < timeOf ports (vld_notBefore (ic_validity (vc_contract verified))) \<or>
         timeOf ports (aa_expiresAt artifact) > timeOf ports (vld_expiresAt (ic_validity (vc_contract verified)))
      then Inl mismatch
      else bindE (commitmentsFromArtifact nfc (artifact_json artifact)) (\<lambda>commitments.
        guardE (approvalValuesEqual nfc (commitments_json commitments) (commitments_json expected)) mismatch))"

definition validateTrustedReviewer :: "(jstr \<Rightarrow> jstr) \<Rightarrow> jsval \<Rightarrow> approval_error + trusted_reviewer option" where
  "validateTrustedReviewer nfc value =
     (if value = JNull then Inr None
      else
        bindE (assertDataOnlyTree value ''Trusted reviewer entry'') (\<lambda>_.
        (case value of
           JObj sh fs \<Rightarrow>
             if foreignPrototype sh
             then Inl (security InvalidPortOutput ''Trust store reviewer entry must be a plain object'')
             else if sort (map fst fs) \<noteq> map js [''reviewerId'', ''role'', ''status'']
             then Inl (security InvalidPortOutput ''Trust store reviewer entry has unknown or missing fields'')
             else
               bindE (validateApprovalReviewer nfc (jrec [(''reviewerId'', getProp fs ''reviewerId''),
                 (''role'', getProp fs ''role'')])) (\<lambda>reviewer.
               if getProp fs ''status'' = JStr (js ''active'') then Inr (Some \<lparr>tr_reviewer = reviewer, tr_status = ReviewerActive\<rparr>)
               else if getProp fs ''status'' = JStr (js ''revoked'') then Inr (Some \<lparr>tr_reviewer = reviewer, tr_status = ReviewerRevoked\<rparr>)
               else Inl (security InvalidPortOutput ''Trust store reviewer status is unsupported''))
         | _ \<Rightarrow> Inl (security InvalidPortOutput ''Trust store reviewer entry must be a plain object''))))"

definition assertTrustedReviewerMatches :: "trusted_reviewer \<Rightarrow> approval_reviewer \<Rightarrow> approval_error + unit" where
  "assertTrustedReviewerMatches trusted reviewer =
     guardE (\<not> (tr_status trusted \<noteq> ReviewerActive \<or> rv_reviewerId (tr_reviewer trusted) \<noteq> rv_reviewerId reviewer \<or>
         rv_role (tr_reviewer trusted) \<noteq> rv_role reviewer))
       (security ReviewerUntrusted ''Signer trust entry does not match the artifact reviewer identity'')"

definition assertAcceptedReviewer :: "'w approval_ports \<Rightarrow> approval_reviewer \<Rightarrow> approval_error + unit" where
  "assertAcceptedReviewer ports reviewer =
     guardE (rv_role reviewer \<in> set (ap_reviewerRoles ports))
       (security ReviewerUntrusted ''Reviewer role is not accepted by external approval policy'')"

definition parseIssuedEnvelope :: "(jstr \<Rightarrow> jstr) \<Rightarrow> approval_artifact \<Rightarrow> jsval \<Rightarrow> approval_error + parsed_approval" where
  "parseIssuedEnvelope nfc artifact signatureValue =
     bindE (assertDataOnlyTree signatureValue ''Approval signing port result'') (\<lambda>_.
     bindE (fromContracts (canonicalizeJson nfc (artifact_json artifact))) (\<lambda>text.
     bindE (fromContracts (encodeUtf8 nfc text)) (\<lambda>bytes.
     parseSignedApprovalArtifact nfc (jrec
       [(''payloadType'', JStr (js APPROVAL_ARTIFACT_PAYLOAD_TYPE)), (''payload'', JStr (encodeBase64Url bytes)),
        (''signatures'', jarr [signatureValue])]))))"


section \<open>Construction\<close>

text \<open>The dependencies object as the constructor sees it: each dependency is an own property, each port an object whose
  methods are looked up along its prototype chain (see \<open>Envelope\<close>), or a value that is no object.\<close>

record 'w contract_signatures_object =
  co_resolveTrustedSigner :: "('w \<Rightarrow> resolve_port) method_chain"
  co_verify :: "('w \<Rightarrow> verify_port) method_chain"
  co_assertTrusted :: "('w \<Rightarrow> assert_port) method_chain"

record 'w trust_store_object =
  to_resolveReviewer :: "(jstr \<Rightarrow> ('w, jsval) asks) method_chain"
  to_verify :: "(signature_check \<Rightarrow> ('w, jsval) asks) method_chain"
  to_assertTrusted :: "(jstr \<Rightarrow> approval_reviewer \<Rightarrow> ('w, jsval) asks) method_chain"

record 'w commitments_object =
  mo_readCurrent :: "(commitment_scope \<Rightarrow> ('w, jsval) asks) method_chain"
  mo_assertCurrent :: "(commitment_scope \<Rightarrow> approval_commitments \<Rightarrow> ('w, jsval) asks) method_chain"

record 'w replay_object =
  ro_registerReview :: "(review_challenge \<Rightarrow> ('w, jsval) approval_proc) method_chain"
  ro_consumeReview :: "(review_challenge \<Rightarrow> ('w, jsval) approval_proc) method_chain"
  ro_consumeArtifact :: "(replay_reference \<Rightarrow> ('w, jsval) approval_proc) method_chain"

record 'w approval_ids_object =
  io_nextReviewId :: "('w, jsval) asks method_chain"
  io_nextApprovalId :: "('w, jsval) asks method_chain"
  io_nextNonce :: "('w, jsval) asks method_chain"

record 'w approval_dependencies =
  ad_hash :: "('w \<Rightarrow> hash_port) method_chain option own_property"
  ad_contractSignatures :: "'w contract_signatures_object option own_property"
  ad_identity :: "('w, jsval) asks method_chain option own_property"
  ad_signing :: "(signing_input \<Rightarrow> ('w, jsval) asks) method_chain option own_property"
  ad_trustStore :: "'w trust_store_object option own_property"
  ad_commitments :: "'w commitments_object option own_property"
  ad_replay :: "'w replay_object option own_property"
  ad_ids :: "'w approval_ids_object option own_property"
  ad_clock :: "('w, jsval) asks method_chain option own_property"
  ad_acceptedContractRoles :: "jsval own_property"
  ad_acceptedReviewerRoles :: "jsval own_property"
  ad_reviewTtlMs :: "jsval own_property"
  ad_approvalTtlMs :: "jsval own_property"

definition validateTtl :: "jsval \<Rightarrow> string \<Rightarrow> approval_error + int" where
  "validateTtl value label =
     (let invalid = Inl (security InvalidPortOutput (label @ '' must be a positive bounded safe integer'')) in
      case value of
        JNum n \<Rightarrow> if \<not> isSafeInteger n \<or> numInt n \<le> 0 \<or> numInt n > MAX_TTL_MS then invalid else Inr (numInt n)
      | _ \<Rightarrow> invalid)"

text \<open>\<open>for (const role of roles)\<close>: a string yields its characters, a value that is not iterable is a \<open>TypeError\<close>, whose
  text is the engine's. The set keeps the first of equal roles.\<close>

definition iterate :: "jsval \<Rightarrow> approval_error + jsval list" where
  "iterate value =
     (case value of
        JArr _ xs \<Rightarrow> Inr xs
      | JStr s \<Rightarrow> Inr (map (\<lambda>unit. JStr [unit]) s)
      | _ \<Rightarrow> Inl (OtherThrown (Some (js ''roles is not iterable''))))"

fun collectRoles :: "(string \<times> 'a) list \<Rightarrow> string \<Rightarrow> jsval list \<Rightarrow> 'a list \<Rightarrow> approval_error + 'a list" where
  "collectRoles spellings message [] unique = Inr unique"
| "collectRoles spellings message (role # roles) unique =
     (case List.find (\<lambda>(name, _). role = JStr (js name)) spellings of
        None \<Rightarrow> Inl (security InvalidPortOutput message)
      | Some (_, r) \<Rightarrow> collectRoles spellings message roles (if r \<in> set unique then unique else unique @ [r]))"

definition contractRoleNames :: "(string \<times> jstr) list" where
  "contractRoleNames =
     [(''human-authorizer'', js ''human-authorizer''), (''policy-authorizer'', js ''policy-authorizer'')]"

definition validateContractRoles :: "jsval \<Rightarrow> approval_error + jsval" where
  "validateContractRoles roles =
     bindE (assertDataOnlyTree roles ''Accepted contract roles'') (\<lambda>_.
     bindE (iterate roles) (\<lambda>given.
     bindE (collectRoles contractRoleNames ''Accepted contract signer role is unsupported'' given []) (\<lambda>unique.
     bindE (guardE (unique \<noteq> [])
       (security InvalidPortOutput ''At least one contract signer role must be accepted'')) (\<lambda>_.
     Inr (jarr (map JStr (sort unique)))))))"

definition validateReviewerRoles :: "jsval \<Rightarrow> approval_error + reviewer_role list" where
  "validateReviewerRoles roles =
     bindE (assertDataOnlyTree roles ''Accepted reviewer roles'') (\<lambda>_.
     bindE (iterate roles) (\<lambda>given.
     bindE (collectRoles reviewerRoles ''Accepted reviewer role is unsupported'' given []) (\<lambda>unique.
     bindE (guardE (unique \<noteq> [])
       (security InvalidPortOutput ''At least one reviewer role must be accepted'')) (\<lambda>_.
     Inr unique))))"

fun findPortMethod_approval :: "'f method_chain \<Rightarrow> string \<Rightarrow> string \<Rightarrow> approval_error + 'f" where
  "findPortMethod_approval [] name label =
     Inl (security InvalidPortOutput (label @ '' must provide '' @ name @ ''()''))"
| "findPortMethod_approval (None # chain) name label = findPortMethod_approval chain name label"
| "findPortMethod_approval (Some (MethodValue f) # chain) name label = Inr f"
| "findPortMethod_approval (Some OtherDescriptor # chain) name label =
     Inl (security InvalidPortOutput (label @ '' '' @ name @ '' must be a data method''))"

definition pinPortMethod_approval :: "'f method_chain option \<Rightarrow> string \<Rightarrow> string \<Rightarrow> approval_error + 'f" where
  "pinPortMethod_approval port name label =
     (case port of
        None \<Rightarrow> Inl (security InvalidPortOutput (label @ '' is missing''))
      | Some chain \<Rightarrow> findPortMethod_approval chain name label)"

definition readDependencyField ::
  "'w approval_dependencies option \<Rightarrow> ('w approval_dependencies \<Rightarrow> 'a own_property) \<Rightarrow> string \<Rightarrow> approval_error + 'a" where
  "readDependencyField dependencies field label =
     (case dependencies of
        None \<Rightarrow> Inl (security InvalidPortOutput ''Approval service dependencies are required'')
      | Some given \<Rightarrow>
          (case field given of
             DataProperty x \<Rightarrow> Inr x
           | _ \<Rightarrow> Inl (security InvalidPortOutput (label @ '' must be an own data field''))))"

definition readOptionalDependencyField ::
  "'w approval_dependencies option \<Rightarrow> ('w approval_dependencies \<Rightarrow> jsval own_property) \<Rightarrow> string \<Rightarrow> approval_error + jsval" where
  "readOptionalDependencyField dependencies field label =
     (case dependencies of
        None \<Rightarrow> Inl (security InvalidPortOutput ''Approval service dependencies are required'')
      | Some given \<Rightarrow>
          (case field given of
             DataProperty x \<Rightarrow> Inr x
           | AbsentProperty \<Rightarrow> Inr JUndefined
           | AccessorProperty \<Rightarrow> Inl (security InvalidPortOutput (label @ '' must be an own data field''))))"

text \<open>\<open>value ?? fallback\<close>\<close>

definition orElse :: "jsval \<Rightarrow> jsval \<Rightarrow> jsval" where
  "orElse value fallback = (if value = JUndefined \<or> value = JNull then fallback else value)"

definition newApprovalService ::
  "('w \<Rightarrow> 'w) \<Rightarrow> ('w \<Rightarrow> 'w) \<Rightarrow> (jstr \<Rightarrow> int option) \<Rightarrow> 'w approval_dependencies option \<Rightarrow> approval_error + 'w approval_ports" where
  "newApprovalService elapse called otherDate dependencies =
     bindE (readDependencyField dependencies ad_hash ''Hash port'') (\<lambda>hash.
     bindE (readDependencyField dependencies ad_contractSignatures ''Contract signature port'') (\<lambda>contractSignatures.
     bindE (readDependencyField dependencies ad_identity ''Reviewer identity port'') (\<lambda>identity.
     bindE (readDependencyField dependencies ad_signing ''Approval signing port'') (\<lambda>signing.
     bindE (readDependencyField dependencies ad_trustStore ''Approval trust store'') (\<lambda>trustStore.
     bindE (readDependencyField dependencies ad_commitments ''Commitment port'') (\<lambda>commitments.
     bindE (readDependencyField dependencies ad_replay ''Replay registry'') (\<lambda>replay.
     bindE (readDependencyField dependencies ad_ids ''ID port'') (\<lambda>ids.
     bindE (readDependencyField dependencies ad_clock ''Clock port'') (\<lambda>clock.
     bindE (readOptionalDependencyField dependencies ad_reviewTtlMs ''Review TTL'') (\<lambda>givenReviewTtl.
     bindE (validateTtl (orElse givenReviewTtl (jint DEFAULT_REVIEW_TTL_MS)) ''Review TTL'') (\<lambda>reviewTtlMs.
     bindE (readOptionalDependencyField dependencies ad_approvalTtlMs ''Approval TTL'') (\<lambda>givenApprovalTtl.
     bindE (validateTtl (orElse givenApprovalTtl (jint DEFAULT_APPROVAL_TTL_MS)) ''Approval TTL'') (\<lambda>approvalTtlMs.
     bindE (readOptionalDependencyField dependencies ad_acceptedContractRoles ''Accepted contract roles'') (\<lambda>givenContractRoles.
     bindE (validateContractRoles (orElse givenContractRoles
       (jarr [JStr (js ''human-authorizer''), JStr (js ''policy-authorizer'')]))) (\<lambda>acceptedContractRoles.
     bindE (readOptionalDependencyField dependencies ad_acceptedReviewerRoles ''Accepted reviewer roles'') (\<lambda>givenReviewerRoles.
     bindE (validateReviewerRoles (orElse givenReviewerRoles (jarr [JStr (js ''human-reviewer'')]))) (\<lambda>acceptedReviewerRoles.
     bindE (pinPortMethod_approval hash ''sha256'' ''Hash port'') (\<lambda>sha256.
     bindE (pinPortMethod_approval (map_option co_resolveTrustedSigner contractSignatures) ''resolveTrustedSigner''
       ''Contract signature port'') (\<lambda>resolveTrustedSigner.
     bindE (pinPortMethod_approval (map_option co_verify contractSignatures) ''verify'' ''Contract signature port'') (\<lambda>verifyContractSignature.
     bindE (pinPortMethod_approval (map_option co_assertTrusted contractSignatures) ''assertTrusted''
       ''Contract signature port'') (\<lambda>assertSigner.
     bindE (pinPortMethod_approval identity ''authenticate'' ''Reviewer identity port'') (\<lambda>authenticate.
     bindE (pinPortMethod_approval signing ''sign'' ''Approval signing port'') (\<lambda>sign.
     bindE (pinPortMethod_approval (map_option to_resolveReviewer trustStore) ''resolveReviewer'' ''Approval trust store'') (\<lambda>resolveReviewer.
     bindE (pinPortMethod_approval (map_option to_verify trustStore) ''verify'' ''Approval trust store'') (\<lambda>verify.
     bindE (pinPortMethod_approval (map_option to_assertTrusted trustStore) ''assertTrusted'' ''Approval trust store'') (\<lambda>assertTrusted.
     bindE (pinPortMethod_approval (map_option mo_readCurrent commitments) ''readCurrent'' ''Commitment port'') (\<lambda>readCurrent.
     bindE (pinPortMethod_approval (map_option mo_assertCurrent commitments) ''assertCurrent'' ''Commitment port'') (\<lambda>assertCurrent.
     bindE (pinPortMethod_approval (map_option ro_registerReview replay) ''registerReview'' ''Replay registry'') (\<lambda>register.
     bindE (pinPortMethod_approval (map_option ro_consumeReview replay) ''consumeReview'' ''Replay registry'') (\<lambda>consumeRev.
     bindE (pinPortMethod_approval (map_option ro_consumeArtifact replay) ''consumeArtifact'' ''Replay registry'') (\<lambda>consumeArt.
     bindE (pinPortMethod_approval (map_option io_nextReviewId ids) ''nextReviewId'' ''ID port'') (\<lambda>nextReviewId.
     bindE (pinPortMethod_approval (map_option io_nextApprovalId ids) ''nextApprovalId'' ''ID port'') (\<lambda>nextApprovalId.
     bindE (pinPortMethod_approval (map_option io_nextNonce ids) ''nextNonce'' ''ID port'') (\<lambda>nextNonce.
     bindE (pinPortMethod_approval clock ''now'' ''Clock port'') (\<lambda>now.
     Inr \<lparr>ap_elapse = elapse, ap_called = called, ap_otherDate = otherDate, ap_sha256 = sha256,
          ap_resolveTrustedSigner = resolveTrustedSigner, ap_verifyContract = verifyContractSignature,
          ap_assertSigner = assertSigner, ap_authenticate = authenticate, ap_sign = sign,
          ap_resolveReviewer = resolveReviewer, ap_verify = verify, ap_assertTrusted = assertTrusted,
          ap_readCurrent = readCurrent, ap_assertCurrent = assertCurrent, ap_registerReview = register,
          ap_consumeReview = consumeRev, ap_consumeArtifact = consumeArt, ap_nextReviewId = nextReviewId,
          ap_nextApprovalId = nextApprovalId, ap_nextNonce = nextNonce, ap_now = now,
          ap_contractRoles = acceptedContractRoles, ap_reviewerRoles = acceptedReviewerRoles,
          ap_reviewTtlMs = reviewTtlMs, ap_approvalTtlMs = approvalTtlMs\<rparr>)))))))))))))))))))))))))))))))))))"

section \<open>Questions to the ports\<close>

definition approvalVerification :: "'w approval_ports \<Rightarrow> 'w \<Rightarrow> verification_dependencies" where
  "approvalVerification ports w =
     \<lparr>dep_hash = DataProperty (Some [Some (MethodValue (ap_sha256 ports w))]),
      dep_signatures = DataProperty (Some \<lparr>sp_isFunction = False,
        sp_resolveTrustedSigner = [Some (MethodValue (ap_resolveTrustedSigner ports w))],
        sp_verify = [Some (MethodValue (ap_verifyContract ports w))],
        sp_assertTrusted = [Some (MethodValue (ap_assertSigner ports w))]\<rparr>),
      dep_acceptedRootRoles = DataProperty (ap_contractRoles ports)\<rparr>"

definition verifyContract ::
  "(jstr \<Rightarrow> jstr) \<Rightarrow> 'w approval_ports \<Rightarrow> jsval \<Rightarrow> ('w, verified_contract) approval_proc" where
  "verifyContract nfc ports signedContract =
     awaitP ports (\<lambda>w. catchE
       (bindE (assertDataOnlyTree signedContract ''Signed Intent Contract'') (\<lambda>_.
        fromContracts (verifySignedIntentContract nfc signedContract (Some (approvalVerification ports w)))))
       (describe security_code.ContractInvalid ''Intent Contract verification failed''))"

definition currentReviewer :: "(jstr \<Rightarrow> jstr) \<Rightarrow> 'w approval_ports \<Rightarrow> ('w, approval_reviewer) approval_proc" where
  "currentReviewer nfc ports =
     awaitP ports (\<lambda>w. catchE (bindE (ap_authenticate ports w) (validateApprovalReviewer nfc))
       (describe InvalidPortOutput ''Reviewer identity port returned invalid data''))"

definition currentTime :: "(jstr \<Rightarrow> jstr) \<Rightarrow> 'w approval_ports \<Rightarrow> ('w, jstr) approval_proc" where
  "currentTime nfc ports =
     bindP (syncP ports (ap_now ports)) (\<lambda>value. pureP (validateTimestamp nfc ports value ''Clock''))"

definition resolveTrustedReviewer ::
  "(jstr \<Rightarrow> jstr) \<Rightarrow> 'w approval_ports \<Rightarrow> jstr \<Rightarrow> ('w, trusted_reviewer) approval_proc" where
  "resolveTrustedReviewer nfc ports keyId =
     bindP (awaitP ports (ap_resolveReviewer ports keyId)) (\<lambda>value.
     pureP (bindE (validateTrustedReviewer nfc value) (\<lambda>found.
       case found of
         None \<Rightarrow> Inl (security ReviewerUntrusted ''Approval signer key is missing, revoked, or inactive'')
       | Some trusted \<Rightarrow>
           if tr_status trusted \<noteq> ReviewerActive
           then Inl (security ReviewerUntrusted ''Approval signer key is missing, revoked, or inactive'')
           else bindE (assertAcceptedReviewer ports (tr_reviewer trusted)) (\<lambda>_. Inr trusted))))"

definition assertFreshCommitments ::
  "(jstr \<Rightarrow> jstr) \<Rightarrow> 'w approval_ports \<Rightarrow> commitment_scope \<Rightarrow> approval_commitments \<Rightarrow> ('w, unit) approval_proc" where
  "assertFreshCommitments nfc ports scope expected =
     bindP (awaitP ports (\<lambda>w. catchE (bindE (ap_readCurrent ports scope w) (validateApprovalCommitmentSnapshot nfc))
       (describe InvalidPortOutput ''Commitment port returned invalid data''))) (\<lambda>current.
     pureP (guardE (approvalValuesEqual nfc (commitments_json current) (commitments_json expected))
       (security StaleCommitment ''Intent Contract policy, registry, or renderer binding is stale'')))"

definition assertCurrentSynchronously ::
  "'w approval_ports \<Rightarrow> commitment_scope \<Rightarrow> approval_commitments \<Rightarrow> ('w, unit) approval_proc" where
  "assertCurrentSynchronously ports scope expected =
     bindP (syncP ports (ap_assertCurrent ports scope expected)) (\<lambda>value.
     pureP (assertSynchronous value ''Final commitment fence''))"

definition assertTrustSynchronously ::
  "'w approval_ports \<Rightarrow> jstr \<Rightarrow> approval_reviewer \<Rightarrow> ('w, unit) approval_proc" where
  "assertTrustSynchronously ports keyId reviewer =
     bindP (syncP ports (ap_assertTrusted ports keyId reviewer)) (\<lambda>value.
     pureP (assertSynchronous value ''Final reviewer trust fence''))"

abbreviation sameReviewer :: "(jstr \<Rightarrow> jstr) \<Rightarrow> approval_reviewer \<Rightarrow> approval_reviewer \<Rightarrow> bool" where
  "sameReviewer nfc a b \<equiv> approvalValuesEqual nfc (reviewer_json a) (reviewer_json b)"

section \<open>Methods\<close>

definition challengeRequest ::
  "jsval \<Rightarrow> verified_contract \<Rightarrow> jstr \<Rightarrow> approval_commitments \<Rightarrow> approval_reviewer \<Rightarrow> jstr \<Rightarrow> jstr \<Rightarrow> jsval \<Rightarrow> jsval" where
  "challengeRequest reviewId verified authorityDigest expected reviewer issuedAt expiresAt nonce = jrec
     ([(''kind'', JStr (js APPROVAL_REVIEW_KIND)), (''specVersion'', JStr (js APPROVAL_SPEC_VERSION)),
       (''reviewId'', reviewId), (''contractHash'', JStr (vc_contractHash verified)),
       (''contractRevision'', jint (ic_revision (vc_contract verified))), (''authorityDigest'', JStr authorityDigest)] @
      commitmentEntries expected @
      [(''reviewer'', reviewer_json reviewer), (''issuedAt'', JStr issuedAt), (''expiresAt'', JStr expiresAt),
       (''nonce'', nonce)])"

definition artifactRequest ::
  "jsval \<Rightarrow> jstr \<Rightarrow> verified_contract \<Rightarrow> jstr \<Rightarrow> approval_commitments \<Rightarrow> approval_reviewer \<Rightarrow> jstr \<Rightarrow> jstr \<Rightarrow> jsval \<Rightarrow> jsval" where
  "artifactRequest approvalId reviewId verified authorityDigest expected reviewer issuedAt expiresAt nonce = jrec
     ([(''kind'', JStr (js APPROVAL_ARTIFACT_KIND)), (''specVersion'', JStr (js APPROVAL_SPEC_VERSION)),
       (''approvalId'', approvalId), (''reviewId'', JStr reviewId), (''contractHash'', JStr (vc_contractHash verified)),
       (''contractRevision'', jint (ic_revision (vc_contract verified))), (''authorityDigest'', JStr authorityDigest)] @
      commitmentEntries expected @
      [(''reviewer'', reviewer_json reviewer), (''issuedAt'', JStr issuedAt), (''expiresAt'', JStr expiresAt),
       (''nonce'', nonce)])"

definition prepareReview :: "(jstr \<Rightarrow> jstr) \<Rightarrow> 'w approval_ports \<Rightarrow> jsval \<Rightarrow> ('w, prepared_review) approval_proc" where
  "prepareReview nfc ports input =
     bindP (pureP (requireServiceInput input [''signedContract''])) (\<lambda>request.
     bindP (verifyContract nfc ports (getProp request ''signedContract'')) (\<lambda>verified.
     bindP (currentTime nfc ports) (\<lambda>now.
     bindP (pureP (assertContractActive ports verified now)) (\<lambda>_.
     let scope = scopeFor verified; contract = contract_json (vc_contract verified) in
     bindP (pureP (commitmentsFromContract nfc contract)) (\<lambda>expected.
     bindP (assertFreshCommitments nfc ports scope expected) (\<lambda>_.
     bindP (currentReviewer nfc ports) (\<lambda>reviewer.
     bindP (pureP (assertAcceptedReviewer ports reviewer)) (\<lambda>_.
     bindP (pureP (createCanonicalApprovalRenderModel nfc contract)) (\<lambda>model.
     bindP (awaitP ports (\<lambda>w. hashCanonicalApprovalAuthority nfc (render_model_json model) (Some (ap_sha256 ports w)))) (\<lambda>authorityDigest.
     bindP (pureP (boundedExpiry ports now (ap_reviewTtlMs ports)
       (vld_expiresAt (ic_validity (vc_contract verified))))) (\<lambda>expiresAt.
     bindP (syncP ports (ap_nextReviewId ports)) (\<lambda>reviewId.
     bindP (syncP ports (ap_nextNonce ports)) (\<lambda>nonce.
     bindP (pureP (validateApprovalReviewChallenge nfc
       (challengeRequest reviewId verified authorityDigest expected reviewer now expiresAt nonce))) (\<lambda>challenge.
     bindP (currentReviewer nfc ports) (\<lambda>finalReviewer.
     bindP (pureP (guardE (sameReviewer nfc reviewer finalReviewer)
       (security IdentityDrift ''Reviewer identity changed while preparing the review''))) (\<lambda>_.
     bindP (currentTime nfc ports) (\<lambda>finalNow.
     bindP (pureP (assertActiveWindow ports (ch_issuedAt challenge) (ch_expiresAt challenge) finalNow ''Review'')) (\<lambda>_.
     bindP (pureP (assertContractActive ports verified finalNow)) (\<lambda>_.
     bindP (assertCurrentSynchronously ports scope expected) (\<lambda>_.
     bindP (ap_registerReview ports challenge) (\<lambda>value.
     bindP (pureP (assertSynchronous value ''Review registration'')) (\<lambda>_.
     bindP (pureP (fromContracts (canonicalizeJson nfc (render_model_json model)))) (\<lambda>canonicalModel.
     pureP (Inr \<lparr>pp_model = model, pp_canonicalModel = canonicalModel, pp_challenge = challenge\<rparr>))))))))))))))))))))))))"

definition issueApproval :: "(jstr \<Rightarrow> jstr) \<Rightarrow> 'w approval_ports \<Rightarrow> jsval \<Rightarrow> ('w, issued_approval) approval_proc" where
  "issueApproval nfc ports input =
     bindP (pureP (requireServiceInput input [''challenge'', ''signedContract''])) (\<lambda>request.
     bindP (pureP (validateApprovalReviewChallenge nfc (getProp request ''challenge''))) (\<lambda>challenge.
     bindP (ap_consumeReview ports challenge) (\<lambda>value.
     bindP (pureP (assertSynchronous value ''Review consumption'')) (\<lambda>_.
     bindP (verifyContract nfc ports (getProp request ''signedContract'')) (\<lambda>verified.
     bindP (currentTime nfc ports) (\<lambda>now.
     bindP (pureP (assertActiveWindow ports (ch_issuedAt challenge) (ch_expiresAt challenge) now ''Review'')) (\<lambda>_.
     bindP (pureP (assertBoundedLifetime ports (ch_issuedAt challenge) (ch_expiresAt challenge)
       (ap_reviewTtlMs ports) ''Review'')) (\<lambda>_.
     bindP (pureP (assertContractActive ports verified now)) (\<lambda>_.
     let contract = contract_json (vc_contract verified) in
     bindP (pureP (createCanonicalApprovalRenderModel nfc contract)) (\<lambda>model.
     bindP (awaitP ports (\<lambda>w. hashCanonicalApprovalAuthority nfc (render_model_json model) (Some (ap_sha256 ports w)))) (\<lambda>authorityDigest.
     let scope = scopeFor verified in
     bindP (pureP (commitmentsFromContract nfc contract)) (\<lambda>expected.
     bindP (pureP (assertReviewBindsContract nfc ports challenge verified authorityDigest expected)) (\<lambda>_.
     bindP (currentReviewer nfc ports) (\<lambda>reviewer.
     bindP (pureP (assertAcceptedReviewer ports reviewer)) (\<lambda>_.
     bindP (pureP (guardE (sameReviewer nfc reviewer (ch_reviewer challenge))
       (security IdentityDrift ''Submitting reviewer does not match the prepared review identity''))) (\<lambda>_.
     bindP (assertFreshCommitments nfc ports scope expected) (\<lambda>_.
     bindP (syncP ports (ap_nextApprovalId ports)) (\<lambda>approvalId.
     bindP (pureP (boundedExpiry ports now (ap_approvalTtlMs ports)
       (vld_expiresAt (ic_validity (vc_contract verified))))) (\<lambda>expiresAt.
     bindP (syncP ports (ap_nextNonce ports)) (\<lambda>nonce.
     bindP (pureP (validateCanonicalApprovalArtifact nfc
       (artifactRequest approvalId (ch_reviewId challenge) verified authorityDigest expected reviewer now expiresAt nonce))) (\<lambda>artifact.
     bindP (pureP (fromContracts (canonicalizeJson nfc (artifact_json artifact)))) (\<lambda>canonicalPayload.
     bindP (pureP (fromContracts (createEnvelopePreAuthenticationEncoding nfc (js APPROVAL_ARTIFACT_PAYLOAD_TYPE)
       canonicalPayload))) (\<lambda>message.
     bindP (awaitP ports (ap_sign ports \<lparr>si_algorithm = SIGNATURE_ALGORITHM,
       si_payloadType = APPROVAL_ARTIFACT_PAYLOAD_TYPE, si_message = message\<rparr>)) (\<lambda>signatureValue.
     bindP (pureP (parseIssuedEnvelope nfc artifact signatureValue)) (\<lambda>parsed.
     let keyId = sig_keyId (pv_signature parsed) in
     bindP (resolveTrustedReviewer nfc ports keyId) (\<lambda>trusted.
     bindP (pureP (assertTrustedReviewerMatches trusted reviewer)) (\<lambda>_.
     bindP (awaitP ports (ap_verify ports \<lparr>sk_algorithm = SIGNATURE_ALGORITHM, sk_keyId = keyId,
       sk_signature = sig_signature (pv_signature parsed), sk_message = pv_message parsed\<rparr>)) (\<lambda>signatureValid.
     bindP (pureP (guardE (\<not> signatureValid \<noteq> JBool True)
       (security SignatureInvalid ''Approval signer returned a signature rejected by the trust store''))) (\<lambda>_.
     bindP (assertFreshCommitments nfc ports scope expected) (\<lambda>_.
     bindP (currentReviewer nfc ports) (\<lambda>finalReviewer.
     bindP (pureP (guardE (sameReviewer nfc reviewer finalReviewer)
       (security IdentityDrift ''Reviewer identity changed while signing the Approval Artifact''))) (\<lambda>_.
     bindP (currentTime nfc ports) (\<lambda>finalNow.
     bindP (pureP (assertActiveWindow ports (aa_issuedAt artifact) (aa_expiresAt artifact) finalNow ''Approval Artifact'')) (\<lambda>_.
     bindP (pureP (assertContractActive ports verified finalNow)) (\<lambda>_.
     bindP (assertTrustSynchronously ports keyId reviewer) (\<lambda>_.
     bindP (assertCurrentSynchronously ports scope expected) (\<lambda>_.
     pureP (Inr \<lparr>ia_artifact = artifact, ia_canonicalPayload = canonicalPayload, ia_envelope = pv_envelope parsed,
       ia_signerKeyId = keyId\<rparr>))))))))))))))))))))))))))))))))))))))"

definition verifyAndConsumeApproval ::
  "(jstr \<Rightarrow> jstr) \<Rightarrow> 'w approval_ports \<Rightarrow> jsval \<Rightarrow> ('w, verified_approval) approval_proc" where
  "verifyAndConsumeApproval nfc ports input =
     bindP (pureP (requireServiceInput input [''signedApproval'', ''signedContract''])) (\<lambda>request.
     bindP (pureP (parseSignedApprovalArtifact nfc (getProp request ''signedApproval''))) (\<lambda>parsed.
     let artifact = pv_artifact parsed; keyId = sig_keyId (pv_signature parsed) in
     bindP (verifyContract nfc ports (getProp request ''signedContract'')) (\<lambda>verified.
     bindP (currentTime nfc ports) (\<lambda>now.
     bindP (pureP (assertActiveWindow ports (aa_issuedAt artifact) (aa_expiresAt artifact) now ''Approval Artifact'')) (\<lambda>_.
     bindP (pureP (assertBoundedLifetime ports (aa_issuedAt artifact) (aa_expiresAt artifact)
       (ap_approvalTtlMs ports) ''Approval Artifact'')) (\<lambda>_.
     bindP (pureP (assertContractActive ports verified now)) (\<lambda>_.
     let contract = contract_json (vc_contract verified) in
     bindP (pureP (createCanonicalApprovalRenderModel nfc contract)) (\<lambda>model.
     bindP (awaitP ports (\<lambda>w. hashCanonicalApprovalAuthority nfc (render_model_json model) (Some (ap_sha256 ports w)))) (\<lambda>authorityDigest.
     bindP (pureP (commitmentsFromContract nfc contract)) (\<lambda>expected.
     bindP (pureP (assertArtifactBindsContract nfc ports artifact verified authorityDigest expected)) (\<lambda>_.
     bindP (pureP (assertAcceptedReviewer ports (aa_reviewer artifact))) (\<lambda>_.
     bindP (resolveTrustedReviewer nfc ports keyId) (\<lambda>trusted.
     bindP (pureP (assertTrustedReviewerMatches trusted (aa_reviewer artifact))) (\<lambda>_.
     bindP (awaitP ports (ap_verify ports \<lparr>sk_algorithm = SIGNATURE_ALGORITHM, sk_keyId = keyId,
       sk_signature = sig_signature (pv_signature parsed), sk_message = pv_message parsed\<rparr>)) (\<lambda>signatureValid.
     bindP (pureP (guardE (\<not> signatureValid \<noteq> JBool True)
       (security SignatureInvalid ''Approval Artifact signature is invalid''))) (\<lambda>_.
     let scope = scopeFor verified in
     bindP (assertFreshCommitments nfc ports scope expected) (\<lambda>_.
     bindP (awaitP ports (\<lambda>w. hashCanonicalApprovalArtifact nfc (artifact_json artifact) (Some (ap_sha256 ports w)))) (\<lambda>artifactDigest.
     bindP (assertFreshCommitments nfc ports scope expected) (\<lambda>_.
     bindP (currentTime nfc ports) (\<lambda>finalNow.
     bindP (pureP (assertActiveWindow ports (aa_issuedAt artifact) (aa_expiresAt artifact) finalNow ''Approval Artifact'')) (\<lambda>_.
     bindP (pureP (assertContractActive ports verified finalNow)) (\<lambda>_.
     bindP (assertTrustSynchronously ports keyId (aa_reviewer artifact)) (\<lambda>_.
     bindP (assertCurrentSynchronously ports scope expected) (\<lambda>_.
     bindP (ap_consumeArtifact ports \<lparr>rr_approvalId = aa_approvalId artifact, rr_artifactDigest = artifactDigest,
       rr_contractHash = aa_contractHash artifact, rr_contractRevision = aa_contractRevision artifact,
       rr_nonce = aa_nonce artifact, rr_expiresAt = aa_expiresAt artifact\<rparr>) (\<lambda>value.
     bindP (pureP (assertSynchronous value ''Approval Artifact consumption'')) (\<lambda>_.
     pureP (Inr \<lparr>va_artifact = artifact, va_canonicalPayload = pv_canonicalPayload parsed,
       va_artifactDigest = artifactDigest, va_signerKeyId = keyId, va_reviewer = aa_reviewer artifact,
       va_model = model, va_verifiedContract = verified\<rparr>)))))))))))))))))))))))))))"

end
