(* ===== verification/Approval_Service_Properties.thy ===== *)
theory Approval_Service_Properties
  imports Approval_Service Ledger_Text
begin

text \<open>
  Successful runs of the approval service, step by step: what each question to a port and each check says when it
  succeeds, in the world it looked at, and the two methods that issue and verify approvals as chains of these.
\<close>

section \<open>Worlds and times\<close>

text \<open>The world after \<open>n\<close> awaited calls.\<close>

definition later :: "'w approval_ports \<Rightarrow> nat \<Rightarrow> 'w \<Rightarrow> 'w" where
  "later ports n = (ap_elapse ports ^^ n)"

lemma later_simps:
  "later ports 0 w = w" "ap_elapse ports (later ports n w) = later ports (Suc n) w" "ap_elapse ports w = later ports 1 w"
  by (simp_all add: later_def)

lemma awaitP_Inr: "awaitP ports ask w = (Inr x, w') \<longleftrightarrow> ask w = Inr x \<and> w' = ap_elapse ports w"
  by (auto simp: awaitP_def)

lemma syncP_Inr: "syncP ports ask w = (Inr x, w') \<longleftrightarrow> ask w = Inr x \<and> w' = ap_called ports w"
  by (auto simp: syncP_def)

definition reads_clock :: "(jstr \<Rightarrow> jstr) \<Rightarrow> 'w approval_ports \<Rightarrow> 'w \<Rightarrow> jstr \<Rightarrow> bool" where
  "reads_clock nfc ports w now \<longleftrightarrow> ap_now ports w = Inr (JStr now) \<and> (\<exists>ms. parseDate ports now = Some ms)"

lemma validateTimestamp_Inr:
  "validateTimestamp nfc ports v label = Inr s \<longleftrightarrow>
     v = JStr s \<and> length s \<le> 32 \<and> (\<exists>bs. encodeUtf8 nfc s = Inr bs) \<and>
     (\<exists>ms. parseDate ports s = Some ms \<and> canonicalTimestamp_approval ms = s)"
  by (cases v) (auto simp: validateTimestamp_def result_simps split: option.splits)

lemma currentTime_Inr:
  "currentTime nfc ports w = (Inr now, w') \<longleftrightarrow>
     (\<exists>v. ap_now ports w = Inr v \<and> validateTimestamp nfc ports v ''Clock'' = Inr now) \<and> w' = ap_called ports w"
  by (auto simp: currentTime_def bindP_Inr pureP_Inr syncP_Inr)

lemma reads_clockI: "ap_now ports w = Inr v \<Longrightarrow> validateTimestamp nfc ports v label = Inr now \<Longrightarrow> reads_clock nfc ports w now"
  by (auto simp: reads_clock_def validateTimestamp_Inr)

text \<open>The times in valid contracts, challenges and artifacts are canonical, so that every check reads the same instant.\<close>

lemma timeOf_stamp: "stamp nfc t \<Longrightarrow> timeOf ports t = timestampMilliseconds t"
  by (auto simp: timeOf_def parseDate_def stamp_def timestampMilliseconds_def wf_timestamp_def)

definition active_at :: "'w approval_ports \<Rightarrow> jstr \<Rightarrow> jstr \<Rightarrow> jstr \<Rightarrow> bool" where
  "active_at ports now from until \<longleftrightarrow> timeOf ports from \<le> timeOf ports now \<and> timeOf ports now < timeOf ports until"

lemma assertActiveWindow_Inr: "assertActiveWindow ports from until now label = Inr u \<longleftrightarrow> active_at ports now from until"
  by (auto simp: assertActiveWindow_def result_simps active_at_def)

abbreviation contract_active :: "'w approval_ports \<Rightarrow> jstr \<Rightarrow> verified_contract \<Rightarrow> bool" where
  "contract_active ports now v \<equiv>
     active_at ports now (vld_notBefore (ic_validity (vc_contract v))) (vld_expiresAt (ic_validity (vc_contract v)))"

lemma assertContractActive_Inr: "assertContractActive ports v now = Inr u \<longleftrightarrow> contract_active ports now v"
  by (simp add: assertContractActive_def assertActiveWindow_Inr)

lemma assertBoundedLifetime_Inr:
  "assertBoundedLifetime ports from until ttl label = Inr u \<longleftrightarrow> timeOf ports until \<le> timeOf ports from + ttl"
  by (auto simp: assertBoundedLifetime_def result_simps)

lemma assertSynchronous_Inr: "assertSynchronous v label = Inr u \<longleftrightarrow> v = JUndefined"
  by (auto simp: assertSynchronous_def result_simps)

section \<open>Comparison of values\<close>

lemma succeeds_with: "(case m of Inl _ \<Rightarrow> False | Inr x \<Rightarrow> x) \<longleftrightarrow> m = Inr True"
  by (simp split: sum.split)

lemma valuesEqual_iff:
  "approvalValuesEqual nfc x y \<longleftrightarrow>
     data_tree x \<and> data_tree y \<and> canonicalizable nfc x \<and> canonicalizable nfc y \<and> render x = render y"
  by (auto simp: approvalValuesEqual_def succeeds_with result_simps require_simps)

lemma valuesEqual_sortFields:
  "approvalValuesEqual nfc x y \<Longrightarrow> wf_jsval x \<Longrightarrow> wf_jsval y \<Longrightarrow> sortFields x = sortFields y"
  unfolding valuesEqual_iff canonicalizable_def by (intro render_inj [of nfc]) simp_all

lemma sameReviewer_eq:
  assumes "sameReviewer nfc a b"
  shows "a = b"
proof -
  have "sortFields (reviewer_json a) = sortFields (reviewer_json b)"
    by (rule valuesEqual_sortFields [OF assms]) (simp_all add: artifact_json_keys)
  from sortFields_jrec_inj [OF this [unfolded reviewer_json_def]] show ?thesis
    by (cases "rv_role a"; cases "rv_role b") (simp_all add: spelling_def reviewerRoles_def js_inj)
qed

lemma sameCommitments_eq:
  assumes "approvalValuesEqual nfc (commitments_json a) (commitments_json b)"
  shows "a = b"
proof -
  have "wf_jsval (commitments_json c)" for c
    unfolding commitments_json_def commitmentEntries_def by (intro wf_jsval_jrec) auto
  then have "sortFields (commitments_json a) = sortFields (commitments_json b)"
    using valuesEqual_sortFields [OF assms] by simp
  from sortFields_jrec_inj [OF this [unfolded commitments_json_def commitmentEntries_def]] show ?thesis
    by simp
qed

section \<open>Contracts\<close>

definition contract_commitments :: "intent_contract \<Rightarrow> approval_commitments" where
  "contract_commitments c = \<lparr>cm_policyDigest = bnd_policyDigest (ic_bindings c),
     cm_adapterRegistryDigest = bnd_adapterRegistryDigest (ic_bindings c),
     cm_runnerRegistryDigest = bnd_runnerRegistryDigest (ic_bindings c),
     cm_effectRegistryDigest = bnd_effectRegistryDigest (ic_bindings c),
     cm_rendererVersion = bnd_approvalRendererVersion (ic_bindings c)\<rparr>"

lemma validate_valid_contract:
  "contract_valid nfc c \<Longrightarrow> validateSafeCodingIntentContract nfc (contract_json c) = Inr c' \<longleftrightarrow> c' = c"
  using contract_complete [of nfc c "contract_json c"] by (auto simp: contract_valid_def)

lemma commitmentsFromContract_Inr:
  assumes "contract_valid nfc c"
  shows "commitmentsFromContract nfc (contract_json c) = Inr e \<longleftrightarrow> data_tree (contract_json c) \<and> e = contract_commitments c"
  by (auto simp: commitmentsFromContract_def result_simps require_simps validate_valid_contract [OF assms] contract_commitments_def)

lemma create_model_valid:
  assumes "contract_valid nfc c"
  shows "createCanonicalApprovalRenderModel nfc (contract_json c) = Inr m \<longleftrightarrow> data_tree (contract_json c) \<and> m = model_of c"
  by (auto simp: create_model_Inr validate_valid_contract [OF assms])

definition verifies_contract :: "(jstr \<Rightarrow> jstr) \<Rightarrow> 'w approval_ports \<Rightarrow> jsval \<Rightarrow> 'w \<Rightarrow> verified_contract \<Rightarrow> bool" where
  "verifies_contract nfc ports value w v \<longleftrightarrow>
     data_tree value \<and> verifySignedIntentContract nfc value (Some (approvalVerification ports w)) = Inr v"

lemma verifyContract_Inr:
  "verifyContract nfc ports value w = (Inr v, w') \<longleftrightarrow> verifies_contract nfc ports value w v \<and> w' = ap_elapse ports w"
  by (auto simp: verifyContract_def awaitP_Inr result_simps require_simps verifies_contract_def)

lemma verifies_valid: "verifies_contract nfc ports value w v \<Longrightarrow> contract_valid nfc (vc_contract v)"
  using verified_contract by (auto simp: verifies_contract_def)

section \<open>Reviewers, commitments and fences\<close>

definition reads_reviewer :: "(jstr \<Rightarrow> jstr) \<Rightarrow> 'w approval_ports \<Rightarrow> 'w \<Rightarrow> approval_reviewer \<Rightarrow> bool" where
  "reads_reviewer nfc ports w r \<longleftrightarrow> (\<exists>v. ap_authenticate ports w = Inr v \<and> validateApprovalReviewer nfc v = Inr r)"

lemma currentReviewer_Inr:
  "currentReviewer nfc ports w = (Inr r, w') \<longleftrightarrow> reads_reviewer nfc ports w r \<and> w' = ap_elapse ports w"
  by (auto simp: currentReviewer_def awaitP_Inr result_simps reads_reviewer_def)

definition reads_commitments ::
  "(jstr \<Rightarrow> jstr) \<Rightarrow> 'w approval_ports \<Rightarrow> commitment_scope \<Rightarrow> 'w \<Rightarrow> approval_commitments \<Rightarrow> bool" where
  "reads_commitments nfc ports scope w e \<longleftrightarrow>
     (\<exists>v. ap_readCurrent ports scope w = Inr v \<and> validateApprovalCommitmentSnapshot nfc v = Inr e)"

lemma assertFresh_Inr:
  "assertFreshCommitments nfc ports scope e w = (Inr u, w') \<longleftrightarrow>
     (\<exists>current. reads_commitments nfc ports scope w current \<and>
        approvalValuesEqual nfc (commitments_json current) (commitments_json e)) \<and> w' = ap_elapse ports w"
  by (auto simp: assertFreshCommitments_def bindP_Inr pureP_Inr awaitP_Inr result_simps reads_commitments_def)

definition trusts_key :: "(jstr \<Rightarrow> jstr) \<Rightarrow> 'w approval_ports \<Rightarrow> 'w \<Rightarrow> jstr \<Rightarrow> approval_reviewer \<Rightarrow> bool" where
  "trusts_key nfc ports w keyId r \<longleftrightarrow>
     rv_role r \<in> set (ap_reviewerRoles ports) \<and>
     (\<exists>v. ap_resolveReviewer ports keyId w = Inr v \<and>
        validateTrustedReviewer nfc v = Inr (Some \<lparr>tr_reviewer = r, tr_status = ReviewerActive\<rparr>))"

lemma assertAccepted_Inr: "assertAcceptedReviewer ports r = Inr u \<longleftrightarrow> rv_role r \<in> set (ap_reviewerRoles ports)"
  by (auto simp: assertAcceptedReviewer_def result_simps)

lemma trusted_checks:
  "bindE m (\<lambda>found. case found of None \<Rightarrow> Inl e
     | Some trusted \<Rightarrow> if tr_status trusted \<noteq> ReviewerActive then Inl e
         else bindE (assertAcceptedReviewer ports (tr_reviewer trusted)) (\<lambda>_. Inr trusted)) = Inr t \<longleftrightarrow>
   m = Inr (Some t) \<and> tr_status t = ReviewerActive \<and> rv_role (tr_reviewer t) \<in> set (ap_reviewerRoles ports)"
  unfolding bindE_eq_Inr by (auto simp: bindE_eq_Inr assertAccepted_Inr split: option.splits if_splits)

lemma resolveTrusted_Inr:
  "resolveTrustedReviewer nfc ports keyId w = (Inr t, w') \<longleftrightarrow>
     tr_status t = ReviewerActive \<and> trusts_key nfc ports w keyId (tr_reviewer t) \<and> w' = ap_elapse ports w"
proof -
  have "\<lparr>tr_reviewer = tr_reviewer t, tr_status = ReviewerActive\<rparr> = t \<longleftrightarrow> tr_status t = ReviewerActive"
    by (cases t) auto
  then show ?thesis
    unfolding resolveTrustedReviewer_def bindP_Inr pureP_Inr awaitP_Inr trusted_checks trusts_key_def
    by (metis (no_types, lifting))
qed

lemma assertTrustedMatches_Inr:
  "assertTrustedReviewerMatches t r = Inr u \<longleftrightarrow> t = \<lparr>tr_reviewer = r, tr_status = ReviewerActive\<rparr>"
  by (cases t; cases "tr_reviewer t"; cases r) (auto simp: assertTrustedReviewerMatches_def result_simps)

definition fence_current ::
  "'w approval_ports \<Rightarrow> commitment_scope \<Rightarrow> approval_commitments \<Rightarrow> 'w \<Rightarrow> bool" where
  "fence_current ports scope e w \<longleftrightarrow> ap_assertCurrent ports scope e w = Inr JUndefined"

lemma assertCurrent_Inr:
  "assertCurrentSynchronously ports scope e w = (Inr u, w') \<longleftrightarrow> fence_current ports scope e w \<and> w' = ap_called ports w"
  by (auto simp: assertCurrentSynchronously_def bindP_Inr pureP_Inr syncP_Inr assertSynchronous_Inr fence_current_def)

definition fence_trust :: "'w approval_ports \<Rightarrow> jstr \<Rightarrow> approval_reviewer \<Rightarrow> 'w \<Rightarrow> bool" where
  "fence_trust ports keyId r w \<longleftrightarrow> ap_assertTrusted ports keyId r w = Inr JUndefined"

lemma assertTrust_Inr:
  "assertTrustSynchronously ports keyId r w = (Inr u, w') \<longleftrightarrow> fence_trust ports keyId r w \<and> w' = ap_called ports w"
  by (auto simp: assertTrustSynchronously_def bindP_Inr pureP_Inr syncP_Inr assertSynchronous_Inr fence_trust_def)

lemmas service_steps = bindP_Inr pureP_Inr awaitP_Inr syncP_Inr verifyContract_Inr currentTime_Inr assertContractActive_Inr
  assertActiveWindow_Inr assertBoundedLifetime_Inr assertSynchronous_Inr currentReviewer_Inr assertFresh_Inr assertAccepted_Inr
  resolveTrusted_Inr assertTrustedMatches_Inr assertCurrent_Inr assertTrust_Inr guardE_eq_Inr

section \<open>Bindings\<close>

text \<open>What a challenge or an artifact repeats of the contract it stands for.\<close>

definition binds_authority ::
  "'w approval_ports \<Rightarrow> 'w \<Rightarrow> verified_contract \<Rightarrow> jstr \<Rightarrow> int \<Rightarrow> jstr \<Rightarrow> approval_commitments \<Rightarrow> bool" where
  "binds_authority ports w v hash revision digest commitments \<longleftrightarrow>
     hash = vc_contractHash v \<and> revision = ic_revision (vc_contract v) \<and> commitments = contract_commitments (vc_contract v) \<and>
     ap_sha256 ports w (hash_input APPROVAL_AUTHORITY_DIGEST_DOMAIN (authority_text (vc_contract v))) = Inr (JStr digest)"

abbreviation artifact_binds :: "'w approval_ports \<Rightarrow> 'w \<Rightarrow> verified_contract \<Rightarrow> approval_artifact \<Rightarrow> bool" where
  "artifact_binds ports w v a \<equiv>
     binds_authority ports w v (aa_contractHash a) (aa_contractRevision a) (aa_authorityDigest a) (aa_commitments a)"

abbreviation challenge_binds :: "'w approval_ports \<Rightarrow> 'w \<Rightarrow> verified_contract \<Rightarrow> review_challenge \<Rightarrow> bool" where
  "challenge_binds ports w v c \<equiv>
     binds_authority ports w v (ch_contractHash c) (ch_contractRevision c) (ch_authorityDigest c) (ch_commitments c)"

lemma commitmentsFromReview_eq: "commitmentsFromReview nfc (challenge_json c) = Inr e \<Longrightarrow> e = ch_commitments c"
proof -
  assume "commitmentsFromReview nfc (challenge_json c) = Inr e"
  then obtain c' where c': "validateApprovalReviewChallenge nfc (challenge_json c) = Inr c'" "e = ch_commitments c'"
    by (auto simp: commitmentsFromReview_def result_simps)
  then have "sortFields (challenge_json c) = sortFields (challenge_json c')"
    by (simp add: validate_challenge_exact)
  from sortFields_jrec_inj [OF this [unfolded challenge_json_def challengeFields_def commitmentEntries_def]] show "e = ch_commitments c"
    using c'(2) by simp
qed

lemma commitmentsFromArtifact_eq: "commitmentsFromArtifact nfc (artifact_json a) = Inr e \<Longrightarrow> e = aa_commitments a"
proof -
  assume "commitmentsFromArtifact nfc (artifact_json a) = Inr e"
  then obtain a' where a': "validateCanonicalApprovalArtifact nfc (artifact_json a) = Inr a'" "e = aa_commitments a'"
    by (auto simp: commitmentsFromArtifact_def result_simps)
  then have "sortFields (artifact_json a) = sortFields (artifact_json a')"
    by (simp add: validate_artifact_exact)
  from sortFields_jrec_inj [OF this [unfolded artifact_json_def artifactFields_def commitmentEntries_def]] show "e = aa_commitments a"
    using a'(2) by simp
qed

lemma assertArtifactBinds_Inr:
  assumes "assertArtifactBindsContract nfc ports a v digest (contract_commitments (vc_contract v)) = Inr u"
  shows "aa_contractHash a = vc_contractHash v" "aa_contractRevision a = ic_revision (vc_contract v)"
    "aa_authorityDigest a = digest" "aa_commitments a = contract_commitments (vc_contract v)"
  using assms by (auto simp: assertArtifactBindsContract_def Let_def result_simps split: if_splits
      dest: commitmentsFromArtifact_eq sameCommitments_eq)

lemma assertReviewBinds_Inr:
  assumes "assertReviewBindsContract nfc ports c v digest (contract_commitments (vc_contract v)) = Inr u"
  shows "ch_contractHash c = vc_contractHash v" "ch_contractRevision c = ic_revision (vc_contract v)"
    "ch_authorityDigest c = digest" "ch_commitments c = contract_commitments (vc_contract v)"
  using assms by (auto simp: assertReviewBindsContract_def Let_def result_simps split: if_splits
      dest: commitmentsFromReview_eq sameCommitments_eq)

lemma authority_digest_hash:
  assumes "contract_valid nfc c" "hashCanonicalApprovalAuthority nfc (render_model_json (model_of c)) (Some sha256) = Inr d"
  shows "sha256 (hash_input APPROVAL_AUTHORITY_DIGEST_DOMAIN (authority_text c)) = Inr (JStr d)"
  using assms authority_digest_Inr [of nfc c sha256 d] by (simp add: contract_valid_def)

lemma artifact_digest_Inr:
  assumes "artifact_valid nfc a"
  shows "hashCanonicalApprovalArtifact nfc (artifact_json a) (Some sha256) = Inr d \<longleftrightarrow>
    canonical_string nfc (js APPROVAL_ARTIFACT_DIGEST_DOMAIN) \<and> canonical_string nfc (artifact_text a) \<and>
    sha256 (hash_input APPROVAL_ARTIFACT_DIGEST_DOMAIN (artifact_text a)) = Inr (JStr d) \<and> SHA256_PATTERN d"
proof -
  have "validateCanonicalApprovalArtifact nfc (artifact_json a) = Inr a"
    using assms by (simp add: validate_artifact_exact artifact_valid_def)
  then show ?thesis
    using assms by (auto simp: hashCanonicalApprovalArtifact_def result_simps hash_approval_Inr artifact_text_def artifact_valid_def)
qed

section \<open>Verification\<close>

definition envelope_signed :: "'w approval_ports \<Rightarrow> 'w \<Rightarrow> parsed_approval \<Rightarrow> bool" where
  "envelope_signed ports w p \<longleftrightarrow>
     ap_verify ports \<lparr>sk_algorithm = SIGNATURE_ALGORITHM, sk_keyId = sig_keyId (pv_signature p),
       sk_signature = sig_signature (pv_signature p), sk_message = pv_message p\<rparr> w = Inr (JBool True)"

definition reference_for :: "approval_artifact \<Rightarrow> jstr \<Rightarrow> replay_reference" where
  "reference_for a digest =
     \<lparr>rr_approvalId = aa_approvalId a, rr_artifactDigest = digest, rr_contractHash = aa_contractHash a,
      rr_contractRevision = aa_contractRevision a, rr_nonce = aa_nonce a, rr_expiresAt = aa_expiresAt a\<rparr>"

abbreviation artifact_active :: "'w approval_ports \<Rightarrow> jstr \<Rightarrow> approval_artifact \<Rightarrow> bool" where
  "artifact_active ports now a \<equiv> active_at ports now (aa_issuedAt a) (aa_expiresAt a)"

text \<open>The world in which the \<open>n\<close>-th question after the first reading of the clock is asked.\<close>

definition asked :: "'w approval_ports \<Rightarrow> nat \<Rightarrow> 'w \<Rightarrow> 'w" where
  "asked ports n w = later ports n (ap_called ports (ap_elapse ports w))"

lemma asked_simps: "ap_called ports (ap_elapse ports w) = asked ports 0 w" "ap_elapse ports (asked ports n w) = asked ports (Suc n) w"
  by (simp_all add: asked_def later_def)

lemma bindP_E:
  assumes "bindP m f w = (Inr y, w')"
  obtains x u where "m w = (Inr x, u)" "f x u = (Inr y, w')"
  using assms by (auto simp: bindP_Inr)

lemma verify_steps:
  assumes "verifyAndConsumeApproval nfc ports input w = (Inr r, w')"
  obtains fs p v now digest d now' where
    "requireServiceInput input [''signedApproval'', ''signedContract''] = Inr fs"
    "parseSignedApprovalArtifact nfc (getProp fs ''signedApproval'') = Inr p"
    "verifies_contract nfc ports (getProp fs ''signedContract'') w v"
    "reads_clock nfc ports (ap_elapse ports w) now" "artifact_active ports now (pv_artifact p)"
    "timeOf ports (aa_expiresAt (pv_artifact p)) \<le> timeOf ports (aa_issuedAt (pv_artifact p)) + ap_approvalTtlMs ports"
    "contract_active ports now v"
    "hashCanonicalApprovalAuthority nfc (render_model_json (model_of (vc_contract v))) (Some (ap_sha256 ports (asked ports 0 w))) = Inr digest"
    "assertArtifactBindsContract nfc ports (pv_artifact p) v digest (contract_commitments (vc_contract v)) = Inr ()"
    "trusts_key nfc ports (asked ports 1 w) (sig_keyId (pv_signature p)) (aa_reviewer (pv_artifact p))"
    "envelope_signed ports (asked ports 2 w) p"
    "reads_commitments nfc ports (scopeFor v) (asked ports 3 w) (contract_commitments (vc_contract v))"
    "hashCanonicalApprovalArtifact nfc (artifact_json (pv_artifact p)) (Some (ap_sha256 ports (asked ports 4 w))) = Inr d"
    "reads_commitments nfc ports (scopeFor v) (asked ports 5 w) (contract_commitments (vc_contract v))"
    "reads_clock nfc ports (asked ports 6 w) now'" "artifact_active ports now' (pv_artifact p)" "contract_active ports now' v"
    "fence_trust ports (sig_keyId (pv_signature p)) (aa_reviewer (pv_artifact p)) (ap_called ports (asked ports 6 w))"
    "fence_current ports (scopeFor v) (contract_commitments (vc_contract v)) (ap_called ports (ap_called ports (asked ports 6 w)))"
    "ap_consumeArtifact ports (reference_for (pv_artifact p) d) (ap_called ports (ap_called ports (ap_called ports (asked ports 6 w)))) =
       (Inr JUndefined, w')"
    "r = \<lparr>va_artifact = pv_artifact p, va_canonicalPayload = pv_canonicalPayload p, va_artifactDigest = d,
       va_signerKeyId = sig_keyId (pv_signature p), va_reviewer = aa_reviewer (pv_artifact p),
       va_model = model_of (vc_contract v), va_verifiedContract = v\<rparr>"
  using assms unfolding verifyAndConsumeApproval_def Let_def
proof (elim bindP_E, goal_cases)
  case (1 fs u1 p u2 v u3 now u4 x5 u5 x6 u6 x7 u7 model u8 digest u9 e u10 x11 u11 x12 u12 t u13 x14 u14 sv u15 x16 u16
      x17 u17 d u18 x19 u19 now' u20 x21 u21 x22 u22 x23 u23 x24 u24 ack u25 x26 u26)
  note steps = 1(2-) [unfolded service_steps]
  have valid: "contract_valid nfc (vc_contract v)"
    by (rule verifies_valid [OF conjunct1 [OF steps(3)]])
  have worlds: "u1 = w" "u2 = w" "u3 = ap_elapse ports w" "u4 = asked ports 0 w" "u5 = asked ports 0 w" "u6 = asked ports 0 w"
    "u7 = asked ports 0 w" "u8 = asked ports 0 w" "u9 = asked ports 1 w" "u10 = asked ports 1 w" "u11 = asked ports 1 w"
    "u12 = asked ports 1 w" "u13 = asked ports 2 w" "u14 = asked ports 2 w" "u15 = asked ports 3 w" "u16 = asked ports 3 w"
    using steps(1-16) by (simp_all add: asked_def later_def eval_nat_numeral)
  have later: "u17 = asked ports 4 w" "u18 = asked ports 5 w" "u19 = asked ports 6 w" "u20 = ap_called ports (asked ports 6 w)"
    "u21 = u20" "u22 = u20" "u23 = ap_called ports u20" "u24 = ap_called ports (ap_called ports u20)"
    using steps(17-24) worlds(16) by (simp_all add: asked_def later_def eval_nat_numeral)
  have contents: "model = model_of (vc_contract v)" "e = contract_commitments (vc_contract v)"
    using steps(8,10) by (simp_all add: create_model_valid [OF valid] commitmentsFromContract_Inr [OF valid])
  note steps = steps [unfolded worlds later contents]
  have fresh: "reads_commitments nfc ports (scopeFor v) (asked ports 3 w) (contract_commitments (vc_contract v))"
      "reads_commitments nfc ports (scopeFor v) (asked ports 5 w) (contract_commitments (vc_contract v))"
    using steps(17,19) sameCommitments_eq by blast+
  have clock: "reads_clock nfc ports (ap_elapse ports w) now" "reads_clock nfc ports (asked ports 6 w) now'"
    using steps(4,20) by (auto intro: reads_clockI)
  show ?case
    using steps fresh clock by (intro 1(1) [of fs p v now digest d now']) (simp_all add: envelope_signed_def reference_for_def)
qed

section \<open>Issuing\<close>

lemma sortFields_scalar [simp]:
  "sortFields v = JStr s \<longleftrightarrow> v = JStr s" "JStr s = sortFields v \<longleftrightarrow> v = JStr s"
  by (cases v; auto)+

lemma reviewer_json_inj:
  assumes "sortFields (reviewer_json a) = sortFields (reviewer_json b)"
  shows "a = b"
  using sortFields_jrec_inj [OF assms [unfolded reviewer_json_def]]
  by (cases "rv_role a"; cases "rv_role b") (simp_all add: spelling_def reviewerRoles_def js_inj)

lemma boundedExpiry_Inr:
  "boundedExpiry ports now ttl outer = Inr e \<longleftrightarrow>
     e = canonicalTimestamp_approval (min (timeOf ports now + ttl) (timeOf ports outer)) \<and>
     timeOf ports now < min (timeOf ports now + ttl) (timeOf ports outer)"
  by (auto simp: boundedExpiry_def Let_def result_simps)

text \<open>The artifact is exactly what was requested.\<close>

definition artifact_requested ::
  "approval_artifact \<Rightarrow> jsval \<Rightarrow> jstr \<Rightarrow> verified_contract \<Rightarrow> jstr \<Rightarrow> approval_reviewer \<Rightarrow> jstr \<Rightarrow> jstr \<Rightarrow> jsval \<Rightarrow> bool" where
  "artifact_requested a approvalId reviewId v digest reviewer now until nonce \<longleftrightarrow>
     JStr (aa_approvalId a) = approvalId \<and> aa_reviewId a = reviewId \<and> aa_contractHash a = vc_contractHash v \<and>
     aa_contractRevision a = ic_revision (vc_contract v) \<and> aa_authorityDigest a = digest \<and>
     aa_commitments a = contract_commitments (vc_contract v) \<and> aa_reviewer a = reviewer \<and> aa_issuedAt a = now \<and>
     aa_expiresAt a = until \<and> JStr (aa_nonce a) = nonce"

lemma artifactRequest_Inr:
  assumes "validateCanonicalApprovalArtifact nfc
    (artifactRequest approvalId reviewId v digest (contract_commitments (vc_contract v)) reviewer now until nonce) = Inr a"
  shows "artifact_valid nfc a" "artifact_requested a approvalId reviewId v digest reviewer now until nonce"
proof -
  show "artifact_valid nfc a"
    using assms by (simp add: validate_artifact_exact artifact_valid_def)
  have "sortFields (artifactRequest approvalId reviewId v digest (contract_commitments (vc_contract v)) reviewer now until nonce) =
      sortFields (artifact_json a)"
    using assms by (simp add: validate_artifact_exact)
  from sortFields_jrec_inj [OF this [unfolded artifactRequest_def artifact_json_def artifactFields_def commitmentEntries_def]]
  show "artifact_requested a approvalId reviewId v digest reviewer now until nonce"
    by (cases "aa_commitments a") (auto simp: artifact_requested_def contract_commitments_def dest: reviewer_json_inj)
qed

text \<open>Every field of an artifact is ASCII, so its text is made of code units.\<close>

lemma artifact_ascii: "wf_artifact nfc a \<Longrightarrow> list_all (\<lambda>u. u < 0x80) (artifact_text a)"
proof -
  assume wf: "wf_artifact nfc a"
  have token: "approval_token nfc s \<Longrightarrow> list_all (\<lambda>u. u < 0x80) s" for s
    by (auto simp: approval_token_def ASCII_TOKEN_PATTERN_def list_all_iff)
  have nonce: "approval_nonce s \<Longrightarrow> list_all (\<lambda>u. u < 0x80) s" for s
    by (auto simp: approval_nonce_def BASE64URL_PATTERN_def list_all_iff char_class_defs)
  have fields: "UUID_PATTERN s \<Longrightarrow> list_all (\<lambda>u. u < 0x80) s" "SHA256_PATTERN s \<Longrightarrow> list_all (\<lambda>u. u < 0x80) s"
    "stamp nfc s \<Longrightarrow> list_all (\<lambda>u. u < 0x80) s" for s
    by (blast intro: asciiText_units uuid_ascii digest_ascii stamp_ascii)+
  have role: "list_all (\<lambda>u. u < 0x80) (spelling reviewerRoles r)" for r
    by (cases r) (simp_all add: spelling_def reviewerRoles_def js_def)
  have "ascii_json (reviewer_json (aa_reviewer a))"
    using wf by (auto simp: reviewer_json_def ascii_jrec wf_artifact_def wf_reviewer_def role js_def
        intro!: asciiText_units ident_ascii)
  then have "ascii_json (artifact_json a)"
    using wf unfolding artifact_json_def artifactFields_def commitmentEntries_def ascii_jrec
    by (simp add: wf_artifact_def wf_commitments_def js_def APPROVAL_ARTIFACT_KIND_def APPROVAL_SPEC_VERSION_def
        nonce token fields)
  then show ?thesis
    using render_ascii by (auto simp: artifact_text_def list_all_iff)
qed

lemma parseIssued_Inr:
  assumes "parseIssuedEnvelope nfc a sv = Inr p" "artifact_valid nfc a"
  shows "signed_approval nfc p" "pv_artifact p = a" "data_tree sv" "sortFields sv = sortFields (signature_json (pv_signature p))"
proof -
  from assms obtain bytes where bytes: "encodeUtf8 nfc (artifact_text a) = Inr bytes" "data_tree sv"
    and parsed: "parseSignedApprovalArtifact nfc (jrec
       [(''payloadType'', JStr (js APPROVAL_ARTIFACT_PAYLOAD_TYPE)), (''payload'', JStr (encodeBase64Url bytes)),
        (''signatures'', jarr [sv])]) = Inr p"
    by (auto simp: parseIssuedEnvelope_def result_simps require_simps artifact_text_def)
  then have p: "signed_approval nfc p" "sortFields (jrec
       [(''payloadType'', JStr (js APPROVAL_ARTIFACT_PAYLOAD_TYPE)), (''payload'', JStr (encodeBase64Url bytes)),
        (''signatures'', jarr [sv])]) = sortFields (envelope_json (pv_envelope p))"
    by (simp_all add: parse_signed_approval_exact)
  show "signed_approval nfc p" "data_tree sv"
    using p bytes by simp_all
  note env = p(1) [unfolded signed_approval_def]
  from sortFields_jrec_inj [OF p(2) [unfolded envelope_json_def]]
  have fields: "encodeBase64Url bytes = encodeBase64Url (utf8Bytes (artifact_text (pv_artifact p)))"
      "sortFields sv = sortFields (signature_json (pv_signature p))"
    using env by (auto simp del: encodeBase64Url.simps)
  then show "sortFields sv = sortFields (signature_json (pv_signature p))"
    by simp
  have texts: "bytes = utf8Bytes (artifact_text a)" "wf_jstr (artifact_text a)" "canonical_string nfc (artifact_text a)"
    using bytes canonical_string_ascii [OF artifact_ascii [of nfc a]] assms(2) by (auto simp: encodeUtf8_Inr artifact_valid_def)
  have texts': "wf_jstr (artifact_text (pv_artifact p))" "canonical_string nfc (artifact_text (pv_artifact p))"
    using env createEnvelope_Inr(3) by blast+
  have "utf8Bytes (artifact_text (pv_artifact p)) \<noteq> []" "bytes \<noteq> []"
    by (simp_all only: texts(1) utf8Bytes_nonempty [OF artifact_text_nonempty] not_False_eq_True)
  moreover have "length (encodeBase64Url bytes) \<le> 131072"
    using env unfolding fields(1) by (auto simp del: encodeBase64Url.simps)
  ultimately have sized: "base64url_sized (utf8Bytes (artifact_text (pv_artifact p)))" "base64url_sized bytes"
    using fields(1) by (simp_all add: base64url_sized_def MAX_SAFE_INTEGER_def flip: length_encodeBase64Url del: encodeBase64Url.simps)
  have "bytes = utf8Bytes (artifact_text (pv_artifact p))"
    using base64url.enc_inj [OF sized(2,1) fields(1)] .
  with texts have "artifact_text a = artifact_text (pv_artifact p)"
    using utf8.enc_inj texts' by metis
  then show "pv_artifact p = a"
    using conjunct1 [OF env] by (intro artifact_codec.enc_inj [OF _ assms(2)]) simp_all
qed

lemma timeOf_bounded:
  assumes "boundedExpiry ports now ttl (vld_expiresAt (ic_validity c)) = Inr e" "contract_valid nfc c"
    and "timeOf ports (vld_notBefore (ic_validity c)) \<le> timeOf ports now"
  shows "timeOf ports e = min (timeOf ports now + ttl) (timeOf ports (vld_expiresAt (ic_validity c)))"
proof -
  have stamps: "stamp nfc (vld_notBefore (ic_validity c))" "stamp nfc (vld_expiresAt (ic_validity c))"
    using assms(2) by (simp_all add: contract_valid_def wf_contract_def wf_validity_def)
  let ?ms = "min (timeOf ports now + ttl) (timeOf ports (vld_expiresAt (ic_validity c)))"
  have "- 62167219200000 \<le> timeOf ports s \<and> timeOf ports s \<le> 253402300799999" if "stamp nfc s" for s
    using that timeOf_stamp [OF that, of ports] by (auto simp: stamp_def wf_timestamp_iff)
  from this [OF stamps(1)] this [OF stamps(2)] have "- 62167219200000 \<le> ?ms" "?ms \<le> 253402300799999"
    using assms(1,3) by (auto simp: boundedExpiry_Inr)
  then show ?thesis
    using assms(1) spellInstant_facts [of ?ms]
    by (simp add: boundedExpiry_Inr timeOf_def parseDate_def canonicalTimestamp_approval_def flip: spellInstant_def)
qed

text \<open>The world in which the artifact is signed.\<close>

definition minted :: "'w approval_ports \<Rightarrow> 'w \<Rightarrow> 'w" where
  "minted ports w = ap_called ports (ap_called ports (asked ports 3 w))"

lemma approval_issue_steps:
  assumes "issueApproval nfc ports input w0 = (Inr r, w')"
  obtains fs c w v now digest p sv now' where
    "requireServiceInput input [''challenge'', ''signedContract''] = Inr fs"
    "validateApprovalReviewChallenge nfc (getProp fs ''challenge'') = Inr c"
    "ap_consumeReview ports c w0 = (Inr JUndefined, w)"
    "verifies_contract nfc ports (getProp fs ''signedContract'') w v"
    "reads_clock nfc ports (ap_elapse ports w) now" "active_at ports now (ch_issuedAt c) (ch_expiresAt c)"
    "timeOf ports (ch_expiresAt c) \<le> timeOf ports (ch_issuedAt c) + ap_reviewTtlMs ports" "contract_active ports now v"
    "hashCanonicalApprovalAuthority nfc (render_model_json (model_of (vc_contract v))) (Some (ap_sha256 ports (asked ports 0 w))) = Inr digest"
    "assertReviewBindsContract nfc ports c v digest (contract_commitments (vc_contract v)) = Inr ()"
    "reads_reviewer nfc ports (asked ports 1 w) (ch_reviewer c)" "rv_role (ch_reviewer c) \<in> set (ap_reviewerRoles ports)"
    "reads_commitments nfc ports (scopeFor v) (asked ports 2 w) (contract_commitments (vc_contract v))"
    "ap_nextApprovalId ports (asked ports 3 w) = Inr (JStr (aa_approvalId (ia_artifact r)))"
    "timeOf ports (aa_expiresAt (ia_artifact r)) =
       min (timeOf ports now + ap_approvalTtlMs ports) (timeOf ports (vld_expiresAt (ic_validity (vc_contract v))))"
    "ap_nextNonce ports (ap_called ports (asked ports 3 w)) = Inr (JStr (aa_nonce (ia_artifact r)))"
    "artifact_requested (ia_artifact r) (JStr (aa_approvalId (ia_artifact r))) (ch_reviewId c) v digest (ch_reviewer c) now
       (aa_expiresAt (ia_artifact r)) (JStr (aa_nonce (ia_artifact r)))"
    "signed_approval nfc p" "pv_artifact p = ia_artifact r" "ia_canonicalPayload r = artifact_text (ia_artifact r)"
    "ia_envelope r = pv_envelope p" "ia_signerKeyId r = sig_keyId (pv_signature p)"
    "ap_sign ports \<lparr>si_algorithm = SIGNATURE_ALGORITHM, si_payloadType = APPROVAL_ARTIFACT_PAYLOAD_TYPE,
       si_message = pv_message p\<rparr> (minted ports w) = Inr sv" "sortFields sv = sortFields (signature_json (pv_signature p))"
    "trusts_key nfc ports (later ports 1 (minted ports w)) (sig_keyId (pv_signature p)) (ch_reviewer c)"
    "envelope_signed ports (later ports 2 (minted ports w)) p"
    "reads_commitments nfc ports (scopeFor v) (later ports 3 (minted ports w)) (contract_commitments (vc_contract v))"
    "reads_reviewer nfc ports (later ports 4 (minted ports w)) (ch_reviewer c)"
    "reads_clock nfc ports (later ports 5 (minted ports w)) now'" "artifact_active ports now' (ia_artifact r)"
    "contract_active ports now' v"
    "fence_trust ports (sig_keyId (pv_signature p)) (ch_reviewer c) (ap_called ports (later ports 5 (minted ports w)))"
    "fence_current ports (scopeFor v) (contract_commitments (vc_contract v))
       (ap_called ports (ap_called ports (later ports 5 (minted ports w))))"
    "w' = ap_called ports (ap_called ports (ap_called ports (later ports 5 (minted ports w))))"
  using assms unfolding issueApproval_def Let_def
proof (elim bindP_E, goal_cases)
  case (1 fs u1 c u2 ack w x4 u4 v u5 now u6 x7 u7 x8 u8 x9 u9 model u10 digest u11 e u12 x13 u13 reviewer u14 x15 u15
      x16 u16 x17 u17 approvalId u18 until u19 nonce u20 a u21 payload u22 message u23 sv u24 p u25 t u26 x27 u27 sgv u28
      x29 u29 x30 u30 reviewer' u31 x32 u32 now' u33 x34 u34 x35 u35 x36 u36 x37 u37)
  note steps = 1(2-) [unfolded service_steps]
  have valid: "contract_valid nfc (vc_contract v)"
    by (rule verifies_valid [OF conjunct1 [OF steps(5)]])
  have worlds: "u1 = w0" "u2 = w0" "u4 = w" "u5 = ap_elapse ports w" "u6 = asked ports 0 w" "u7 = asked ports 0 w" "u8 = asked ports 0 w"
    "u9 = asked ports 0 w" "u10 = asked ports 0 w" "u11 = asked ports 1 w" "u12 = asked ports 1 w" "u13 = asked ports 1 w"
    "u14 = asked ports 2 w" "u15 = asked ports 2 w" "u16 = asked ports 2 w" "u17 = asked ports 3 w"
    using steps(1,2,4-17) by (simp_all add: asked_def later_def eval_nat_numeral)
  have worlds': "u18 = ap_called ports (asked ports 3 w)" "u19 = ap_called ports (asked ports 3 w)" "u20 = minted ports w"
    "u21 = minted ports w" "u22 = minted ports w" "u23 = minted ports w" "u24 = later ports 1 (minted ports w)"
    "u25 = later ports 1 (minted ports w)" "u26 = later ports 2 (minted ports w)" "u27 = later ports 2 (minted ports w)"
    "u28 = later ports 3 (minted ports w)" "u29 = later ports 3 (minted ports w)" "u30 = later ports 4 (minted ports w)"
    "u31 = later ports 5 (minted ports w)" "u32 = later ports 5 (minted ports w)"
    using steps(18-32) worlds(16) by (simp_all add: minted_def later_def eval_nat_numeral)
  have later': "u33 = ap_called ports (later ports 5 (minted ports w))" "u34 = u33" "u35 = u33" "u36 = ap_called ports u33"
    "u37 = ap_called ports (ap_called ports u33)"
    using steps(33-37) worlds'(15) by simp_all
  have contents: "model = model_of (vc_contract v)" "e = contract_commitments (vc_contract v)"
    using steps(10,12) by (simp_all add: create_model_valid [OF valid] commitmentsFromContract_Inr [OF valid])
  have same: "reviewer = ch_reviewer c" "reviewer' = ch_reviewer c"
    using steps(16,32) sameReviewer_eq by blast+
  note steps = steps [unfolded worlds worlds' later' contents same]
  note a = artifactRequest_Inr [OF conjunct1 [OF steps(21)]]
  note p = parseIssued_Inr [OF conjunct1 [OF steps(25)] a(1)]
  have fields: "approvalId = JStr (aa_approvalId a)" "until = aa_expiresAt a" "nonce = JStr (aa_nonce a)"
    using a(2) by (simp_all add: artifact_requested_def)
  have message: "message = pv_message p" "payload = artifact_text a"
    using steps(22,23) p(1,2) by (simp_all add: signed_approval_def result_simps artifact_text_def)
  have fresh: "reads_commitments nfc ports (scopeFor v) (asked ports 2 w) (contract_commitments (vc_contract v))"
      "reads_commitments nfc ports (scopeFor v) (later ports 3 (minted ports w)) (contract_commitments (vc_contract v))"
    using steps(17,30) sameCommitments_eq by blast+
  have clock: "reads_clock nfc ports (ap_elapse ports w) now" "reads_clock nfc ports (later ports 5 (minted ports w)) now'"
    using steps(6,33) by (auto intro: reads_clockI)
  have until: "timeOf ports (aa_expiresAt a) =
      min (timeOf ports now + ap_approvalTtlMs ports) (timeOf ports (vld_expiresAt (ic_validity (vc_contract v))))"
    using timeOf_bounded [OF conjunct1 [OF steps(19)] valid] steps(9) fields(2) by (simp add: active_at_def)
  have r: "ia_artifact r = a" "ia_canonicalPayload r = payload" "ia_envelope r = pv_envelope p" "ia_signerKeyId r = sig_keyId (pv_signature p)"
    "w' = ap_called ports (ap_called ports (ap_called ports (later ports 5 (minted ports w))))"
    using steps(38) by auto
  show ?case
    using steps fresh clock until r(5) a(2) p
    by (intro 1(1) [of fs c w v now digest p sv now'])
      (simp_all add: r(1-4) fields message minted_def envelope_signed_def)
qed

end
