(* ===== verification/Approval_Registry.thy ===== *)
theory Approval_Registry
  imports Approval_Service_Properties
begin

text \<open>
  The approval service over the in-memory replay registry: the registry lives in the world, the three replay ports are its
  methods, and everything the service does leaves it on a run of the registry's own operations.
\<close>

section \<open>The service over the in-memory registry\<close>

text \<open>The registry lives in the world; \<open>get\<close> and \<open>put\<close> access it. While the service waits or asks another port, only the
  registry's own operations change it.\<close>

definition registryCall ::
  "('w \<Rightarrow> replay_registry) \<Rightarrow> (replay_registry \<Rightarrow> 'w \<Rightarrow> 'w) \<Rightarrow>
   (replay_registry \<Rightarrow> (approval_error + unit) \<times> replay_registry) \<Rightarrow> ('w, jsval) approval_proc" where
  "registryCall get put m w =
     (case m (get w) of (Inl e, reg) \<Rightarrow> (Inl e, put reg w) | (Inr _, reg) \<Rightarrow> (Inr JUndefined, put reg w))"

definition memoryPorts ::
  "(jstr \<Rightarrow> jstr) \<Rightarrow> ('w \<Rightarrow> replay_registry) \<Rightarrow> (replay_registry \<Rightarrow> 'w \<Rightarrow> 'w) \<Rightarrow> 'w approval_ports \<Rightarrow> 'w approval_ports" where
  "memoryPorts nfc get put ports = ports\<lparr>
     ap_registerReview := (\<lambda>c. registryCall get put (registerReview nfc (challenge_json c))),
     ap_consumeReview := (\<lambda>c. registryCall get put (consumeReview nfc (challenge_json c))),
     ap_consumeArtifact := (\<lambda>r. registryCall get put (consumeArtifact nfc (reference_json r)))\<rparr>"

definition replay_world ::
  "(jstr \<Rightarrow> jstr) \<Rightarrow> ('w \<Rightarrow> replay_registry) \<Rightarrow> (replay_registry \<Rightarrow> 'w \<Rightarrow> 'w) \<Rightarrow> 'w approval_ports \<Rightarrow> bool" where
  "replay_world nfc get put ports \<longleftrightarrow>
     (\<forall>reg w. get (put reg w) = reg) \<and>
     (\<forall>w. (replay_step nfc)\<^sup>*\<^sup>* (get w) (get (ap_elapse ports w)) \<and> (replay_step nfc)\<^sup>*\<^sup>* (get w) (get (ap_called ports w)))"

abbreviation replay_run :: "(jstr \<Rightarrow> jstr) \<Rightarrow> ('w \<Rightarrow> replay_registry) \<Rightarrow> 'w \<Rightarrow> 'w \<Rightarrow> bool" where
  "replay_run nfc get w w' \<equiv> (replay_step nfc)\<^sup>*\<^sup>* (get w) (get w')"

definition evolves :: "(jstr \<Rightarrow> jstr) \<Rightarrow> ('w \<Rightarrow> replay_registry) \<Rightarrow> ('w, 'a) approval_proc \<Rightarrow> bool" where
  "evolves nfc get m \<longleftrightarrow> (\<forall>w. replay_run nfc get w (snd (m w)))"

lemma evolves_pureP: "evolves nfc get (pureP r)"
  by (simp add: evolves_def pureP_def)

lemma evolves_bindP: "evolves nfc get m \<Longrightarrow> (\<And>x. evolves nfc get (f x)) \<Longrightarrow> evolves nfc get (bindP m f)"
  unfolding evolves_def bindP_def by (auto split: prod.split sum.split) (metis rtranclp_trans snd_conv)+

lemma evolves_registryCall:
  assumes "replay_world nfc get put ports" "\<And>reg. m reg = perform nfc call reg"
  shows "evolves nfc get (registryCall get put m)"
  unfolding evolves_def
proof
  fix w
  have "replay_step nfc (get w) (snd (m (get w)))"
    using assms(2) by (auto simp: replay_step_def)
  then show "replay_run nfc get w (snd (registryCall get put m w))"
    using assms(1) by (auto simp: registryCall_def replay_world_def split: prod.splits sum.splits)
qed

lemma memory_world:
  "replay_world nfc get put ports \<Longrightarrow> replay_world nfc get put (memoryPorts nfc get put ports)"
  by (simp add: replay_world_def memoryPorts_def)

lemma memory_calls:
  "ap_registerReview (memoryPorts nfc get put ports) c = registryCall get put (registerReview nfc (challenge_json c))"
  "ap_consumeReview (memoryPorts nfc get put ports) c = registryCall get put (consumeReview nfc (challenge_json c))"
  "ap_consumeArtifact (memoryPorts nfc get put ports) r = registryCall get put (consumeArtifact nfc (reference_json r))"
  by (simp_all add: memoryPorts_def)

lemma registryCall_Inr:
  assumes "replay_world nfc get put ports"
  shows "registryCall get put m w = (Inr a, w') \<longleftrightarrow> a = JUndefined \<and> m (get w) = (Inr (), get w') \<and> w' = put (get w') w"
  using assms by (auto simp: registryCall_def replay_world_def split: prod.splits sum.splits)

text \<open>Nothing the service does touches the registry except through its operations.\<close>

lemma evolves_port:
  assumes "replay_world nfc get put ports"
  shows "evolves nfc get (awaitP ports ask)" "evolves nfc get (syncP ports ask)"
  using assms by (simp_all add: evolves_def awaitP_def syncP_def replay_world_def)

lemma evolves_questions:
  assumes "replay_world nfc get put ports"
  shows "evolves nfc get (verifyContract nfc ports sc)" "evolves nfc get (currentReviewer nfc ports)"
    "evolves nfc get (currentTime nfc ports)" "evolves nfc get (resolveTrustedReviewer nfc ports k)"
    "evolves nfc get (assertFreshCommitments nfc ports s e)" "evolves nfc get (assertCurrentSynchronously ports s e)"
    "evolves nfc get (assertTrustSynchronously ports k r)"
  unfolding verifyContract_def currentReviewer_def currentTime_def resolveTrustedReviewer_def assertFreshCommitments_def
    assertCurrentSynchronously_def assertTrustSynchronously_def
  by (intro evolves_bindP evolves_pureP evolves_port [OF assms])+

lemma evolves_registry:
  assumes "replay_world nfc get put ports"
  shows "evolves nfc get (ap_registerReview (memoryPorts nfc get put ports) c)"
    "evolves nfc get (ap_consumeReview (memoryPorts nfc get put ports) c)"
    "evolves nfc get (ap_consumeArtifact (memoryPorts nfc get put ports) r)"
  unfolding memory_calls
  by (rule evolves_registryCall [OF assms, where call = "CallRegisterReview (challenge_json c)"], simp,
      rule evolves_registryCall [OF assms, where call = "CallConsumeReview (challenge_json c)"], simp,
      rule evolves_registryCall [OF assms, where call = "CallConsumeArtifact (reference_json r)"], simp)

lemmas evolves_steps = evolves_bindP evolves_pureP evolves_port [OF memory_world] evolves_questions [OF memory_world] evolves_registry

lemma evolves_methods:
  assumes "replay_world nfc get put ports"
  shows "evolves nfc get (prepareReview nfc (memoryPorts nfc get put ports) input)"
    "evolves nfc get (issueApproval nfc (memoryPorts nfc get put ports) input)"
    "evolves nfc get (verifyAndConsumeApproval nfc (memoryPorts nfc get put ports) input)"
  unfolding prepareReview_def issueApproval_def verifyAndConsumeApproval_def Let_def
  using assms by (intro evolves_steps; assumption)+

lemma evolvesD: "evolves nfc get m \<Longrightarrow> m w = (x, w') \<Longrightarrow> replay_run nfc get w w'"
  by (auto simp: evolves_def dest: spec [of _ w])

lemma memory_runs:
  assumes "replay_world nfc get put ports"
  shows "replay_run nfc get w (ap_elapse ports w)" "replay_run nfc get w (ap_called ports w)"
    "replay_run nfc get w (later ports n w)" "replay_run nfc get w (asked ports n w)" "replay_run nfc get w (minted ports w)"
proof -
  show step: "replay_run nfc get w (ap_elapse ports w)" "replay_run nfc get w (ap_called ports w)" for w
    using assms by (auto simp: replay_world_def)
  show later: "replay_run nfc get w (later ports n w)" for n w
    by (induction n) (auto simp: later_def intro: rtranclp_trans step)
  show asked: "replay_run nfc get w (asked ports n w)" for n
    unfolding asked_def by (rule rtranclp_trans [OF rtranclp_trans [OF step(1) step(2)] later])
  show "replay_run nfc get w (minted ports w)"
    unfolding minted_def by (rule rtranclp_trans [OF rtranclp_trans [OF asked step(2)] step(2)])
qed

lemma reference_own:
  assumes "validateArtifactReplayReference nfc (reference_json r) = Inr r'"
  shows "r' = r"
proof -
  have "sortFields (reference_json r) = sortFields (reference_json r')"
    using assms by (simp add: validate_reference_exact)
  from sortFields_jrec_inj [OF this [unfolded reference_json_def referenceFields_def]] show ?thesis
    by (cases r; cases r') simp
qed

lemma challenge_own: "validateApprovalReviewChallenge nfc v = Inr c \<Longrightarrow> validateApprovalReviewChallenge nfc (challenge_json c) = Inr c"
  by (simp add: validate_challenge_exact)

lemma consumeArtifact_validates: "consumeArtifact nfc v reg = (Inr (), reg') \<Longrightarrow> \<exists>r. validateArtifactReplayReference nfc v = Inr r"
  by (auto simp: consumeArtifact_ok)

text \<open>Admission.\<close>

lemma world_simps:
  "ap_elapse (memoryPorts nfc get put ports) = ap_elapse ports" "ap_called (memoryPorts nfc get put ports) = ap_called ports"
  "later (memoryPorts nfc get put ports) = later ports" "asked (memoryPorts nfc get put ports) = asked ports"
  "minted (memoryPorts nfc get put ports) = minted ports"
  by (intro ext; simp add: memoryPorts_def later_def asked_def minted_def)+

lemma verified_admits:
  assumes "replay_world nfc get put ports" "verifyAndConsumeApproval nfc (memoryPorts nfc get put ports) input w = (Inr r, w')"
  obtains u where "replay_run nfc get w u"
    "consumeArtifact nfc (reference_json (reference_for (va_artifact r) (va_artifactDigest r))) (get u) = (Inr (), get w')"
proof (rule verify_steps [OF assms(2)], goal_cases)
  case (1 fs p v now digest d now')
  let ?u = "ap_called ports (ap_called ports (ap_called ports (asked ports 6 w)))"
  have "replay_run nfc get w ?u"
    by (rule rtranclp_trans [OF rtranclp_trans [OF rtranclp_trans]]; rule memory_runs [OF assms(1)])
  moreover have "consumeArtifact nfc (reference_json (reference_for (va_artifact r) (va_artifactDigest r))) (get ?u) = (Inr (), get w')"
    using 1(21) unfolding 1(22) world_simps memory_calls registryCall_Inr [OF assms(1)] by simp
  ultimately show ?case
    by (rule 1(1))
qed

definition submits_approval :: "(jstr \<Rightarrow> jstr) \<Rightarrow> jsval \<Rightarrow> approval_artifact \<Rightarrow> bool" where
  "submits_approval nfc input a \<longleftrightarrow>
     (\<exists>fs p. requireServiceInput input [''signedApproval'', ''signedContract''] = Inr fs \<and>
        parseSignedApprovalArtifact nfc (getProp fs ''signedApproval'') = Inr p \<and> pv_artifact p = a)"

lemma verified_submits:
  assumes "submits_approval nfc input a" "verifyAndConsumeApproval nfc ports input w = (Inr r, w')"
  shows "va_artifact r = a"
proof (rule verify_steps [OF assms(2)], goal_cases)
  case (1 fs p v now digest d now')
  show ?case
    using assms(1) 1(1,2,21) by (auto simp: submits_approval_def)
qed

text \<open>Submissions of reviews.\<close>

definition submits_review :: "(jstr \<Rightarrow> jstr) \<Rightarrow> jsval \<Rightarrow> review_challenge \<Rightarrow> bool" where
  "submits_review nfc input c \<longleftrightarrow>
     (\<exists>fs. requireServiceInput input [''challenge'', ''signedContract''] = Inr fs \<and>
        validateApprovalReviewChallenge nfc (getProp fs ''challenge'') = Inr c)"

lemma bindP_pure: "bindP (pureP (Inr x)) f w = f x w"
  by (simp add: bindP_def pureP_def)

lemma bindP_stop: "m w = (Inl e, u) \<Longrightarrow> bindP m f w = (Inl e, u)"
  by (simp add: bindP_def)

lemma bindP_go: "m w = (Inr x, u) \<Longrightarrow> bindP m f w = f x u"
  by (simp add: bindP_def)

lemma evolves_at: "evolves nfc get m \<Longrightarrow> replay_run nfc get u (snd (m u))"
  by (simp add: evolves_def)

lemma issue_submission:
  assumes "submits_review nfc input c"
  shows "ap_consumeReview ports c w = (Inl e, u) \<Longrightarrow> issueApproval nfc ports input w = (Inl e, u)"
    and "ports = memoryPorts nfc get put ports' \<Longrightarrow> replay_world nfc get put ports' \<Longrightarrow> ap_consumeReview ports c w = (Inr a, u) \<Longrightarrow>
      replay_run nfc get u (snd (issueApproval nfc ports input w))"
proof -
  obtain fs where start: "requireServiceInput input [''challenge'', ''signedContract''] = Inr fs"
    "validateApprovalReviewChallenge nfc (getProp fs ''challenge'') = Inr c"
    using assms(1) by (auto simp: submits_review_def)
  show "issueApproval nfc ports input w = (Inl e, u)" if "ap_consumeReview ports c w = (Inl e, u)"
    unfolding issueApproval_def Let_def start bindP_pure by (rule bindP_stop, rule that)
  show "replay_run nfc get u (snd (issueApproval nfc ports input w))"
    if ports: "ports = memoryPorts nfc get put ports'" and world: "replay_world nfc get put ports'"
      and go: "ap_consumeReview ports c w = (Inr a, u)"
    unfolding issueApproval_def Let_def start bindP_pure bindP_go [of "ap_consumeReview ports c" w a u, OF go]
    unfolding ports by (rule evolves_at) (intro evolves_steps world)
qed

text \<open>Preparation ends with the registration of the returned challenge.\<close>

lemma prepared_registers:
  assumes "replay_world nfc get put ports" "prepareReview nfc (memoryPorts nfc get put ports) input w = (Inr q, w')"
  obtains v u where "replay_run nfc get w u" "validateApprovalReviewChallenge nfc v = Inr (pp_challenge q)"
    "registerReview nfc v (get u) = (Inr (), get w')"
  using assms(2) unfolding prepareReview_def Let_def
proof (elim bindP_E, goal_cases)
  case (1 fs u1 v u2 now u3 x4 u4 e u5 x6 u6 reviewer u7 x8 u8 model u9 digest u10 until u11 reviewId u12 nonce u13 c u14
      reviewer' u15 x16 u16 now' u17 x18 u18 x19 u19 x20 u20 ack u21 x22 u22 written u23)
  note evolve = evolvesD [OF evolves_pureP] evolvesD [OF evolves_port(1) [OF memory_world [OF assms(1)]]]
    evolvesD [OF evolves_port(2) [OF memory_world [OF assms(1)]]]
    evolvesD [OF evolves_questions(1) [OF memory_world [OF assms(1)]]] evolvesD [OF evolves_questions(2) [OF memory_world [OF assms(1)]]]
    evolvesD [OF evolves_questions(3) [OF memory_world [OF assms(1)]]] evolvesD [OF evolves_questions(5) [OF memory_world [OF assms(1)]]]
    evolvesD [OF evolves_questions(6) [OF memory_world [OF assms(1)]]]
  have "replay_run nfc get w u5" "replay_run nfc get u5 u10" "replay_run nfc get u10 u15" "replay_run nfc get u15 u20"
    using 1(2-6) 1(7-11) 1(12-16) 1(17-21) by (meson evolve rtranclp_trans)+
  then have "replay_run nfc get w u20"
    by (meson rtranclp_trans)
  moreover have "validateApprovalReviewChallenge nfc (challenge_json c) = Inr c" "pp_challenge q = c"
    using 1(15,25) by (auto simp: pureP_Inr intro: challenge_own)
  moreover have "registerReview nfc (challenge_json c) (get u20) = (Inr (), get u21)" "w' = u21"
    using 1(22-25) by (auto simp: memory_calls registryCall_Inr [OF assms(1)] pureP_Inr)
  ultimately show ?case
    by (intro 1(1) [of u20 "challenge_json c"]) simp_all
qed

end
