(* ===== verification/Approval_Samples.thy ===== *)
theory Approval_Samples
  imports Approval_Registry
begin

text \<open>
  One concrete run of the approval service on the in-memory registry: the signed sample contract is reviewed by \<open>r1\<close>, an
  approval is issued for the review, and the approval is verified.
\<close>

section \<open>The sample ports\<close>

definition sample_signature :: envelope_signature where
  "sample_signature = \<lparr>sig_keyId = js ''k1'', sig_signature = encodeBase64Url (replicate 64 0)\<rparr>"

definition sample_trust_entry :: jsval where
  "sample_trust_entry = jrec [(''reviewerId'', JStr (js ''r1'')), (''role'', JStr (js ''human-reviewer'')),
     (''status'', JStr (js ''active''))]"

definition sample_approval_ports :: "replay_registry approval_ports" where
  "sample_approval_ports =
     \<lparr>ap_elapse = (\<lambda>reg. reg), ap_called = (\<lambda>reg. reg), ap_otherDate = (\<lambda>_. None), ap_sha256 = (\<lambda>_. sample_sha256),
      ap_resolveTrustedSigner = (\<lambda>_ _. Inr sample_signer_value), ap_verifyContract = (\<lambda>_ _. Inr (JBool True)),
      ap_assertSigner = (\<lambda>_ _. Inr JUndefined), ap_authenticate = (\<lambda>_. Inr (reviewer_json sample_reviewer)),
      ap_sign = (\<lambda>_ _. Inr (signature_json sample_signature)), ap_resolveReviewer = (\<lambda>_ _. Inr sample_trust_entry),
      ap_verify = (\<lambda>_ _. Inr (JBool True)), ap_assertTrusted = (\<lambda>_ _ _. Inr JUndefined),
      ap_readCurrent = (\<lambda>_ _. Inr (commitments_json sample_commitments)), ap_assertCurrent = (\<lambda>_ _ _. Inr JUndefined),
      ap_registerReview = (\<lambda>_ reg. (Inr JUndefined, reg)), ap_consumeReview = (\<lambda>_ reg. (Inr JUndefined, reg)),
      ap_consumeArtifact = (\<lambda>_ reg. (Inr JUndefined, reg)),
      ap_nextReviewId = (\<lambda>_. Inr (JStr (js ''00000000-0000-4000-8000-000000000001''))),
      ap_nextApprovalId = (\<lambda>_. Inr (JStr (js ''00000000-0000-4000-8000-000000000001''))),
      ap_nextNonce = (\<lambda>_. Inr (JStr sample_nonce)), ap_now = (\<lambda>_. Inr (JStr sample_now)),
      ap_contractRoles = jarr [JStr (js ''human-authorizer''), JStr (js ''policy-authorizer'')],
      ap_reviewerRoles = [HumanReviewer], ap_reviewTtlMs = 30000, ap_approvalTtlMs = 30000\<rparr>"

definition sample_service :: "replay_registry approval_ports" where
  "sample_service = memoryPorts (\<lambda>s. s) (\<lambda>reg. reg) (\<lambda>reg _. reg) sample_approval_ports"

lemma sample_service_simps:
  "ap_elapse sample_service reg = reg" "ap_called sample_service reg = reg" "ap_sha256 sample_service reg = sample_sha256"
  "ap_authenticate sample_service reg = Inr (reviewer_json sample_reviewer)"
  "ap_sign sample_service s reg = Inr (signature_json sample_signature)"
  "ap_resolveReviewer sample_service k reg = Inr sample_trust_entry"
  "ap_verify sample_service i reg = Inr (JBool True)" "ap_assertTrusted sample_service k r reg = Inr JUndefined"
  "ap_readCurrent sample_service sc reg = Inr (commitments_json sample_commitments)"
  "ap_assertCurrent sample_service sc e reg = Inr JUndefined"
  "ap_nextReviewId sample_service reg = Inr (JStr (js ''00000000-0000-4000-8000-000000000001''))"
  "ap_nextApprovalId sample_service reg = Inr (JStr (js ''00000000-0000-4000-8000-000000000001''))"
  "ap_nextNonce sample_service reg = Inr (JStr sample_nonce)" "ap_now sample_service reg = Inr (JStr sample_now)"
  "ap_reviewerRoles sample_service = [HumanReviewer]" "ap_reviewTtlMs sample_service = 30000"
  "ap_approvalTtlMs sample_service = 30000"
  by (simp_all add: sample_service_def sample_approval_ports_def memoryPorts_def)

lemma sample_replay_world: "replay_world (\<lambda>s. s) (\<lambda>reg. reg) (\<lambda>reg _. reg) sample_approval_ports"
  by (simp add: replay_world_def sample_approval_ports_def)

section \<open>The signed contract\<close>

lemma sample_approval_verifies:
  "verifySignedIntentContract (\<lambda>s. s) sample_envelope (Some (approvalVerification sample_service reg)) = Inr sample_verified"
proof -
  have "snapshotIntentVerificationDependencies (Some (approvalVerification sample_service reg)) =
      snapshotIntentVerificationDependencies (Some (verificationDependencies sample_ports st))" for st
    by (simp add: snapshotIntentVerificationDependencies_def approvalVerification_def verificationDependencies_def
        sample_ports_def kernelPorts_def sample_service_def sample_approval_ports_def memoryPorts_def
        readOwnDataProperty_def readOptionalOwnDataProperty_def pinHashMethod_def pinPortMethod_def validateAcceptedRootRoles_def
        requireArray_def requireEnum_def rootRoles_def js_inj Let_def)
  then show ?thesis
    using sample_verifies unfolding verifySignedIntentContract_def by simp
qed

lemma sample_trees: "data_tree sample_envelope" "data_tree (contract_json sample_contract)"
proof -
  show "data_tree sample_envelope"
    using encodedBase64UrlLength_mono [OF sample_text_length(1)] sample_payload_plain
    by (simp add: sample_envelope_def data_tree_def jrec_tree MAX_DATA_ARRAY_LENGTH_def INTENT_CONTRACT_PAYLOAD_TYPE_def
        SIGNATURE_ALGORITHM_def length_encodeBase64Url encodedBase64UrlLength_def del: encodeBase64Url.simps)
  show "data_tree (contract_json sample_contract)"
    unfolding contract_json_def sample_contract_def authority_json_def validity_json_def subject_json_def
      audience_json_def bindings_json_def non_authoritative_json_def limits_json_def ambient_json_def
      delegation_json_def fs_permission_json_def git_permission_json_def selector_json_def
    by (simp add: data_tree_def jrec_tree nullable_def MAX_DATA_ARRAY_LENGTH_def INTENT_CONTRACT_KIND_def sample_digest_def
        INTENT_CONTRACT_SPEC_VERSION_def spelling_def fsActions_def gitActions_def effectClasses_def selectorKindName_def)
qed

lemma sample_verify_contract: "verifyContract (\<lambda>s. s) sample_service sample_envelope reg = (Inr sample_verified, reg)"
  using sample_trees(1) sample_approval_verifies by (simp add: verifyContract_Inr verifies_contract_def sample_service_simps)

section \<open>The checks\<close>

lemma sample_clock:
  "validateTimestamp (\<lambda>s. s) sample_service (JStr sample_now) label = Inr sample_now"
  "timeOf sample_service sample_now = 1767225600000" "timeOf sample_service (js ''2026-01-01T00:00:30Z'') = 1767225630000"
  "timeOf sample_service (js ''2026-01-02T00:00:00.500Z'') = 1767312000500"
proof -
  have stamps: "stamp (\<lambda>s. s) sample_now" "timestampMilliseconds sample_now = 1767225600000"
    using sample_stamps by (simp_all add: sample_now_def)
  show "timeOf sample_service sample_now = 1767225600000" "timeOf sample_service (js ''2026-01-01T00:00:30Z'') = 1767225630000"
    "timeOf sample_service (js ''2026-01-02T00:00:00.500Z'') = 1767312000500"
    using stamps sample_stamps sample_expiry timeOf_stamp by metis+
  have "TIMESTAMP_PATTERN sample_now" "dateParse sample_now = Some 1767225600000"
    using stamps sample_parse by (simp_all add: stamp_def wf_timestamp_def sample_now_def)
  moreover have "canonicalTimestamp_approval 1767225600000 = sample_now"
    using sample_spell by (simp add: canonicalTimestamp_approval_def spellInstant_def sample_now_def)
  moreover have "length sample_now \<le> 32" "canonical_string (\<lambda>s. s) sample_now"
    using stamps(1) by (simp_all add: stamp_def, simp add: sample_now_def)
  ultimately show "validateTimestamp (\<lambda>s. s) sample_service (JStr sample_now) label = Inr sample_now"
    by (simp add: validateTimestamp_Inr parseDate_def encodeUtf8_Inr)
qed

lemma sample_time_read: "currentTime (\<lambda>s. s) sample_service reg = (Inr sample_now, reg)"
  using sample_clock(1) by (simp add: currentTime_Inr sample_service_simps)

lemma sample_windows:
  "assertContractActive sample_service sample_verified sample_now = Inr ()"
  "assertActiveWindow sample_service sample_now (js ''2026-01-01T00:00:30Z'') sample_now label = Inr ()"
  "assertBoundedLifetime sample_service sample_now (js ''2026-01-01T00:00:30Z'') 30000 label = Inr ()"
  "boundedExpiry sample_service sample_now 30000 (js ''2026-01-02T00:00:00.500Z'') = Inr (js ''2026-01-01T00:00:30Z'')"
  using sample_clock sample_expiry(1)
  by (simp_all add: assertContractActive_Inr assertActiveWindow_Inr assertBoundedLifetime_Inr boundedExpiry_Inr active_at_def
      sample_verified_def sample_contract_def canonicalTimestamp_approval_def flip: spellInstant_def)
    (simp_all add: sample_now_def)

lemma sample_reviewer_read: "currentReviewer (\<lambda>s. s) sample_service reg = (Inr sample_reviewer, reg)"
  using sample_parts_ok(1)
  by (simp add: currentReviewer_Inr reads_reviewer_def sample_service_simps validate_reviewer_exact)

lemma sample_same:
  "sameReviewer (\<lambda>s. s) sample_reviewer sample_reviewer"
  "approvalValuesEqual (\<lambda>s. s) (commitments_json sample_commitments) (commitments_json sample_commitments)"
proof -
  have "canonicalizable (\<lambda>s. s) (reviewer_json sample_reviewer)" "canonicalizable (\<lambda>s. s) (commitments_json sample_commitments)"
    using sample_parts_ok(4)
    unfolding sample_commitments_def sample_reviewer_def commitments_json_def commitmentEntries_def reviewer_json_def
    by (simp_all add: canonicalizable_def length_render_jrec separators_def jrec_measures sample_digest_quote spelling_def
      reviewerRoles_def jsonQuote_def quoteUnit_def string_ok_def canonical_string_def surrogate_defs js_def
      MAX_CANONICAL_JSON_STRING_CODE_UNITS_def MAX_CANONICAL_JSON_DEPTH_def
      MAX_CANONICAL_JSON_NODES_def MAX_CANONICAL_JSON_OUTPUT_CODE_UNITS_def)
  then show "sameReviewer (\<lambda>s. s) sample_reviewer sample_reviewer"
    "approvalValuesEqual (\<lambda>s. s) (commitments_json sample_commitments) (commitments_json sample_commitments)"
    using reviewer_tree [OF sample_parts_ok(1)] commitments_tree [OF sample_parts_ok(2)]
    by (simp_all add: valuesEqual_iff data_tree_def)
qed

lemma sample_fresh: "assertFreshCommitments (\<lambda>s. s) sample_service sc sample_commitments reg = (Inr (), reg)"
  using sample_same(2) sample_parts_ok(2)
  by (auto simp: assertFresh_Inr reads_commitments_def sample_service_simps validate_commitments_exact)

lemma sample_commitments_of: "contract_commitments sample_contract = sample_commitments"
  by (simp add: contract_commitments_def sample_contract_def sample_commitments_def)

lemma sample_trusted: "resolveTrustedReviewer (\<lambda>s. s) sample_service k reg =
    (Inr \<lparr>tr_reviewer = sample_reviewer, tr_status = ReviewerActive\<rparr>, reg)"
proof -
  let ?fs = "jfields [(''reviewerId'', JStr (js ''r1'')), (''role'', JStr (js ''human-reviewer'')), (''status'', JStr (js ''active''))]"
  have entry: "sample_trust_entry = jobj ?fs"
    by (simp add: sample_trust_entry_def jrec_def)
  have "data_tree sample_trust_entry"
    by (simp add: sample_trust_entry_def data_tree_def jrec_tree)
  then have tree: "assertDataOnlyTree (jobj ?fs) l = Inr ()" for l
    by (simp add: assertDataOnlyTree_Inr entry)
  have reviewer: "validateApprovalReviewer (\<lambda>s. s) (jrec [(''reviewerId'', JStr (js ''r1'')), (''role'', JStr (js ''human-reviewer''))]) =
      Inr sample_reviewer"
    using sample_parts_ok(1) by (simp add: validate_reviewer_exact reviewer_json_def sample_reviewer_def spelling_def reviewerRoles_def)
  have keys: "sort (map fst ?fs) = map js [''reviewerId'', ''role'', ''status'']"
    by (simp add: jfields_def js_def)
  have props: "getProp ?fs ''reviewerId'' = JStr (js ''r1'')" "getProp ?fs ''role'' = JStr (js ''human-reviewer'')"
    "getProp ?fs ''status'' = JStr (js ''active'')"
    by (simp_all add: getProp_jfields)
  have "validateTrustedReviewer (\<lambda>s. s) sample_trust_entry = Inr (Some \<lparr>tr_reviewer = sample_reviewer, tr_status = ReviewerActive\<rparr>)"
    unfolding validateTrustedReviewer_def entry tree jsval.case keys props reviewer by (simp add: plain_shape_def)
  then show ?thesis
    by (simp add: resolveTrusted_Inr trusts_key_def sample_service_simps sample_reviewer_def)
qed

section \<open>Digests\<close>

lemma sample_other_hash:
  assumes "domain \<in> {APPROVAL_AUTHORITY_DIGEST_DOMAIN, APPROVAL_ARTIFACT_DIGEST_DOMAIN}"
  shows "sample_sha256 (hash_input domain s) = Inr (JStr (replicate 64 98))"
proof -
  have "take 8 (hash_input INTENT_CONTRACT_HASH_DOMAIN r) = map toByte (js ''clodex.i'')" for r
    by (simp add: hash_input_def INTENT_CONTRACT_HASH_DOMAIN_def js_def codePointBytes_def surrogate_defs)
  moreover have "take 8 (hash_input domain s) = map toByte (js ''clodex.a'')"
    using assms by (auto simp: hash_input_def APPROVAL_AUTHORITY_DIGEST_DOMAIN_def APPROVAL_ARTIFACT_DIGEST_DOMAIN_def js_def
        codePointBytes_def surrogate_defs)
  moreover have "map toByte (js ''clodex.a'') \<noteq> map toByte (js ''clodex.i'')"
    by (simp add: js_def toByte_def)
  ultimately have "hash_input domain s \<noteq> hash_input INTENT_CONTRACT_HASH_DOMAIN (contract_text sample_contract)"
    by metis
  then show ?thesis
    by (simp add: sample_sha256_def)
qed

lemma sample_model_valid: "model_valid (\<lambda>s. s) (model_of sample_contract)"
proof -
  have "wf_contract (\<lambda>s. s) (silent sample_contract)"
    using sample_contract_valid
    by (simp add: contract_valid_def wf_contract_def silent_def wf_non_authoritative_def MAX_CONTRACT_NOTES_def canonical_string_def)
  moreover have "canonicalizable (\<lambda>s. s) (contract_json (silent sample_contract))"
    using sample_parts_ok(4)
    unfolding contract_json_def silent_def sample_contract_def authority_json_def validity_json_def subject_json_def
      audience_json_def bindings_json_def non_authoritative_json_def limits_json_def ambient_json_def
      delegation_json_def fs_permission_json_def git_permission_json_def selector_json_def
    by (simp add: canonicalizable_def length_render_jrec separators_def jrec_measures nullable_def sample_digest_quote
      spelling_def fsActions_def gitActions_def effectClasses_def selectorKindName_def
      INTENT_CONTRACT_KIND_def INTENT_CONTRACT_SPEC_VERSION_def safe_int_def MAX_SAFE_INTEGER_def
      jsonQuote_def quoteUnit_def string_ok_def canonical_string_def surrogate_defs js_def decInt_def decDigits.simps
      MAX_CANONICAL_JSON_STRING_CODE_UNITS_def MAX_CANONICAL_JSON_DEPTH_def
      MAX_CANONICAL_JSON_NODES_def MAX_CANONICAL_JSON_OUTPUT_CODE_UNITS_def)
  moreover have "data_tree (contract_json (silent sample_contract))"
    unfolding contract_json_def silent_def sample_contract_def authority_json_def validity_json_def subject_json_def
      audience_json_def bindings_json_def non_authoritative_json_def limits_json_def ambient_json_def
      delegation_json_def fs_permission_json_def git_permission_json_def selector_json_def
    by (simp add: data_tree_def jrec_tree nullable_def MAX_DATA_ARRAY_LENGTH_def INTENT_CONTRACT_KIND_def sample_digest_def
        INTENT_CONTRACT_SPEC_VERSION_def spelling_def fsActions_def gitActions_def effectClasses_def selectorKindName_def)
  ultimately show ?thesis
    by (simp add: model_valid_def contract_valid_def) (simp add: model_of_def)
qed

lemma sample_model_json:
  "data_tree (render_model_json (model_of sample_contract))" "canonicalizable (\<lambda>s. s) (render_model_json (model_of sample_contract))"
  "list_all (\<lambda>u. u < 0x80) (authority_text sample_contract)"
proof -
  note unfold = render_model_json_def model_of_def sample_contract_def authority_json_def validity_json_def subject_json_def
    audience_json_def bindings_json_def limits_json_def ambient_json_def delegation_json_def fs_permission_json_def
    git_permission_json_def selector_json_def
    intent_contract.select_convs render_model.select_convs
  show "data_tree (render_model_json (model_of sample_contract))"
    unfolding unfold
    by (simp add: data_tree_def jrec_tree nullable_def MAX_DATA_ARRAY_LENGTH_def APPROVAL_RENDER_MODEL_KIND_def sample_digest_def
        APPROVAL_SPEC_VERSION_def spelling_def fsActions_def gitActions_def effectClasses_def selectorKindName_def)
  show "canonicalizable (\<lambda>s. s) (render_model_json (model_of sample_contract))"
    using sample_parts_ok(4) unfolding unfold
    by (simp add: canonicalizable_def length_render_jrec separators_def jrec_measures nullable_def sample_digest_quote
      spelling_def fsActions_def gitActions_def effectClasses_def selectorKindName_def
      APPROVAL_RENDER_MODEL_KIND_def APPROVAL_SPEC_VERSION_def safe_int_def MAX_SAFE_INTEGER_def
      jsonQuote_def quoteUnit_def string_ok_def canonical_string_def surrogate_defs js_def decInt_def decDigits.simps
      MAX_CANONICAL_JSON_STRING_CODE_UNITS_def MAX_CANONICAL_JSON_DEPTH_def
      MAX_CANONICAL_JSON_NODES_def MAX_CANONICAL_JSON_OUTPUT_CODE_UNITS_def)
  have "ascii_json (render_model_json (model_of sample_contract))"
    unfolding unfold
    by (simp add: ascii_jrec nullable_def sample_digest_def list_all_iff spelling_def fsActions_def gitActions_def
        effectClasses_def selectorKindName_def APPROVAL_RENDER_MODEL_KIND_def APPROVAL_SPEC_VERSION_def js_def)
  then show "list_all (\<lambda>u. u < 0x80) (authority_text sample_contract)"
    using render_ascii by (auto simp: authority_text_def list_all_iff)
qed

lemma sample_authority_digest:
  "hashCanonicalApprovalAuthority (\<lambda>s. s) (render_model_json (model_of sample_contract)) (Some sample_sha256) = Inr (replicate 64 98)"
proof -
  have "canonical_string (\<lambda>s. s) (js APPROVAL_AUTHORITY_DIGEST_DOMAIN)"
    using canonical_string_ascii [of "js APPROVAL_AUTHORITY_DIGEST_DOMAIN"] by (simp add: APPROVAL_AUTHORITY_DIGEST_DOMAIN_def js_def)
  then show ?thesis
    using sample_contract_valid sample_model_valid sample_model_json canonical_string_ascii [OF sample_model_json(3)]
      sample_other_digest(1) sample_other_hash
    by (simp add: authority_digest_Inr contract_valid_def)
qed

section \<open>The approval\<close>

definition sample_approval :: approval_artifact where
  "sample_approval =
     \<lparr>aa_approvalId = js ''00000000-0000-4000-8000-000000000001'', aa_reviewId = js ''00000000-0000-4000-8000-000000000001'',
      aa_contractHash = sample_digest, aa_contractRevision = 1, aa_authorityDigest = replicate 64 98,
      aa_commitments = sample_commitments, aa_reviewer = sample_reviewer, aa_issuedAt = sample_now,
      aa_expiresAt = js ''2026-01-01T00:00:30Z'', aa_nonce = sample_nonce\<rparr>"

lemma sample_approval_valid: "artifact_valid (\<lambda>s. s) sample_approval"
proof -
  have "wf_artifact (\<lambda>s. s) sample_approval"
    using sample_parts_ok sample_digest_ok sample_idents sample_stamps sample_expiry sample_other_digest
    by (simp add: wf_artifact_def sample_approval_def sample_now_def safe_int_def MAX_SAFE_INTEGER_def)
  moreover have "canonicalizable (\<lambda>s. s) (artifact_json sample_approval)"
    using sample_parts_ok(4) sample_other_digest
    unfolding artifact_json_def artifactFields_def sample_approval_def sample_commitments_def sample_reviewer_def
      sample_nonce_def commitmentEntries_def reviewer_json_def sample_now_def
    by (simp add: canonicalizable_def length_render_jrec separators_def jrec_measures sample_digest_quote spelling_def
      reviewerRoles_def APPROVAL_ARTIFACT_KIND_def APPROVAL_SPEC_VERSION_def safe_int_def MAX_SAFE_INTEGER_def jsonQuote_def
      quoteUnit_def string_ok_def canonical_string_def surrogate_defs js_def decInt_def decDigits.simps
      MAX_CANONICAL_JSON_STRING_CODE_UNITS_def MAX_CANONICAL_JSON_DEPTH_def
      MAX_CANONICAL_JSON_NODES_def MAX_CANONICAL_JSON_OUTPUT_CODE_UNITS_def)
  ultimately show ?thesis
    by (simp add: artifact_valid_def)
qed

lemma sample_requests:
  "validateApprovalReviewChallenge (\<lambda>s. s) (challengeRequest (JStr (js ''00000000-0000-4000-8000-000000000001'')) sample_verified
     (replicate 64 98) sample_commitments sample_reviewer sample_now (js ''2026-01-01T00:00:30Z'') (JStr sample_nonce)) = Inr sample_challenge"
  "validateCanonicalApprovalArtifact (\<lambda>s. s) (artifactRequest (JStr (js ''00000000-0000-4000-8000-000000000001''))
     (js ''00000000-0000-4000-8000-000000000001'') sample_verified (replicate 64 98) sample_commitments sample_reviewer sample_now
     (js ''2026-01-01T00:00:30Z'') (JStr sample_nonce)) = Inr sample_approval"
proof -
  have "challengeRequest (JStr (js ''00000000-0000-4000-8000-000000000001'')) sample_verified (replicate 64 98) sample_commitments
     sample_reviewer sample_now (js ''2026-01-01T00:00:30Z'') (JStr sample_nonce) = challenge_json sample_challenge"
    by (simp add: challengeRequest_def challenge_json_def challengeFields_def sample_challenge_def sample_verified_def
        sample_contract_def sample_now_def)
  then show "validateApprovalReviewChallenge (\<lambda>s. s) (challengeRequest (JStr (js ''00000000-0000-4000-8000-000000000001'')) sample_verified
     (replicate 64 98) sample_commitments sample_reviewer sample_now (js ''2026-01-01T00:00:30Z'') (JStr sample_nonce)) = Inr sample_challenge"
    using sample_challenge_accepted by simp
  have "artifactRequest (JStr (js ''00000000-0000-4000-8000-000000000001''))
     (js ''00000000-0000-4000-8000-000000000001'') sample_verified (replicate 64 98) sample_commitments sample_reviewer sample_now
     (js ''2026-01-01T00:00:30Z'') (JStr sample_nonce) = artifact_json sample_approval"
    by (simp add: artifactRequest_def artifact_json_def artifactFields_def sample_approval_def sample_verified_def sample_contract_def)
  then show "validateCanonicalApprovalArtifact (\<lambda>s. s) (artifactRequest (JStr (js ''00000000-0000-4000-8000-000000000001''))
     (js ''00000000-0000-4000-8000-000000000001'') sample_verified (replicate 64 98) sample_commitments sample_reviewer sample_now
     (js ''2026-01-01T00:00:30Z'') (JStr sample_nonce)) = Inr sample_approval"
    using sample_approval_valid by (simp add: validate_artifact_exact artifact_valid_def)
qed

definition sample_parsed :: parsed_approval where
  "sample_parsed =
     \<lparr>pv_artifact = sample_approval, pv_canonicalPayload = artifact_text sample_approval,
      pv_envelope = \<lparr>env_payloadType = js APPROVAL_ARTIFACT_PAYLOAD_TYPE,
        env_payload = encodeBase64Url (utf8Bytes (artifact_text sample_approval)), env_signatures = [sample_signature]\<rparr>,
      pv_signature = sample_signature, pv_message = pae_bytes (js APPROVAL_ARTIFACT_PAYLOAD_TYPE) (artifact_text sample_approval)\<rparr>"

lemma sample_approval_ascii: "list_all (\<lambda>u. u < 0x80) (artifact_text sample_approval)"
  using sample_approval_valid by (intro artifact_ascii [of "\<lambda>s. s"]) (simp add: artifact_valid_def)

lemma sample_approval_length: "length (artifact_text sample_approval) \<le> 4096"
  unfolding artifact_text_def artifact_json_def artifactFields_def sample_approval_def sample_commitments_def sample_reviewer_def
    sample_nonce_def commitmentEntries_def reviewer_json_def sample_now_def
  using sample_other_digest(3)
  by (simp add: length_render_jrec separators_def sample_digest_quote spelling_def reviewerRoles_def APPROVAL_ARTIFACT_KIND_def
      APPROVAL_SPEC_VERSION_def jsonQuote_def quoteUnit_def js_def decInt_def decDigits.simps)

lemma sample_approval_message:
  "createEnvelopePreAuthenticationEncoding (\<lambda>s. s) (js APPROVAL_ARTIFACT_PAYLOAD_TYPE) (artifact_text sample_approval) =
     Inr (pv_message sample_parsed)"
proof -
  have "parseCanonicalApprovalArtifact (\<lambda>s. s) (artifact_text sample_approval) = Inr sample_approval"
    using sample_approval_valid by (rule artifact_codec.dec_enc)
  then obtain x where "parseCanonicalJson (\<lambda>s. s) (artifact_text sample_approval) = Inr x"
    by (auto simp: parseCanonicalApprovalArtifact_def result_simps)
  moreover have "requireAsciiToken (\<lambda>s. s) (JStr (js APPROVAL_ARTIFACT_PAYLOAD_TYPE)) l 256 = Inr (js APPROVAL_ARTIFACT_PAYLOAD_TYPE)" for l
    by (simp add: require_simps APPROVAL_ARTIFACT_PAYLOAD_TYPE_def js_def ASCII_TOKEN_PATTERN_def canonical_string_def surrogate_defs)
  moreover have "list_all (\<lambda>u. u < 0x80) (js ''DSSEv1 '' @ decDigits n @ js '' '' @ js APPROVAL_ARTIFACT_PAYLOAD_TYPE @ js '' '' @
      decDigits k @ js '' '')" for n k
    using decDigits_ascii [of n] decDigits_ascii [of k] by (auto simp: list_all_iff js_def APPROVAL_ARTIFACT_PAYLOAD_TYPE_def)
  ultimately have "\<exists>m. createEnvelopePreAuthenticationEncoding (\<lambda>s. s) (js APPROVAL_ARTIFACT_PAYLOAD_TYPE) (artifact_text sample_approval) = Inr m"
    unfolding createEnvelopePreAuthenticationEncoding_def
    using canonical_string_ascii [OF sample_approval_ascii] canonical_string_ascii by (auto simp: result_simps require_simps)
  then show ?thesis
    using createEnvelope_Inr(1) by (auto simp: sample_parsed_def)
qed

lemma sample_payload_length: "length (encodeBase64Url (utf8Bytes (artifact_text sample_approval))) \<le> 5462"
proof -
  have "length (utf8Bytes (artifact_text sample_approval)) \<le> 4096"
    using utf8Bytes_ascii [OF sample_approval_ascii, of "[]"] sample_approval_length by simp
  from encodedBase64UrlLength_mono [OF this] show ?thesis
    by (simp add: length_encodeBase64Url) (simp add: encodedBase64UrlLength_def)
qed

lemma sample_signed: "signed_approval (\<lambda>s. s) sample_parsed"
proof -
  have "wf_signature (\<lambda>s. s) sample_signature"
    using sample_k1 by (auto simp: wf_signature_def sample_signature_def p1363_text_def intro!: exI [of _ "replicate 64 0"])
  then show ?thesis
    using sample_approval_valid canonical_string_ascii [OF sample_approval_ascii] sample_approval_message sample_payload_length
    unfolding signed_approval_def by (simp add: sample_parsed_def)
qed

lemma sample_approval_tree: "data_tree (envelope_json (pv_envelope sample_parsed))" "data_tree (signature_json sample_signature)"
  using sample_payload_length
  by (simp_all add: envelope_json_def signature_json_def sample_parsed_def sample_signature_def data_tree_def jrec_tree
      MAX_DATA_ARRAY_LENGTH_def APPROVAL_ARTIFACT_PAYLOAD_TYPE_def SIGNATURE_ALGORITHM_def length_encodeBase64Url
      encodedBase64UrlLength_def del: encodeBase64Url.simps)

lemma sample_approval_parsed:
  "parseSignedApprovalArtifact (\<lambda>s. s) (envelope_json (pv_envelope sample_parsed)) = Inr sample_parsed"
  using sample_signed sample_approval_tree(1) by (simp add: parse_signed_approval_exact)

lemma sample_issued_parsed:
  "parseIssuedEnvelope (\<lambda>s. s) sample_approval (signature_json sample_signature) = Inr sample_parsed"
proof -
  have "encodeUtf8 (\<lambda>s. s) (artifact_text sample_approval) = Inr (utf8Bytes (artifact_text sample_approval))"
    using canonical_string_ascii [OF sample_approval_ascii] by (simp add: encodeUtf8_Inr)
  moreover have "canonicalizeJson (\<lambda>s. s) (artifact_json sample_approval) = Inr (artifact_text sample_approval)"
    using sample_approval_valid by (simp add: canonicalizeJson_Inr artifact_valid_def artifact_text_def)
  moreover have "jrec [(''payloadType'', JStr (js APPROVAL_ARTIFACT_PAYLOAD_TYPE)),
        (''payload'', JStr (encodeBase64Url (utf8Bytes (artifact_text sample_approval)))),
        (''signatures'', jarr [signature_json sample_signature])] = envelope_json (pv_envelope sample_parsed)"
    by (simp add: envelope_json_def sample_parsed_def del: encodeBase64Url.simps)
  ultimately show ?thesis
    using sample_approval_parsed sample_approval_tree(2)
    by (simp add: parseIssuedEnvelope_def result_simps assertDataOnlyTree_Inr del: encodeBase64Url.simps)
qed

lemma sample_bindings:
  "assertReviewBindsContract (\<lambda>s. s) sample_service sample_challenge sample_verified (replicate 64 98) sample_commitments = Inr ()"
  "assertArtifactBindsContract (\<lambda>s. s) sample_service sample_approval sample_verified (replicate 64 98) sample_commitments = Inr ()"
proof -
  have "commitmentsFromReview (\<lambda>s. s) (challenge_json sample_challenge) = Inr sample_commitments"
    using sample_challenge_accepted by (simp add: commitmentsFromReview_def, simp add: sample_challenge_def)
  then show "assertReviewBindsContract (\<lambda>s. s) sample_service sample_challenge sample_verified (replicate 64 98) sample_commitments = Inr ()"
    using sample_same(2) sample_clock
    by (simp add: assertReviewBindsContract_def Let_def guardE_eq_Inr, simp add: sample_challenge_def sample_verified_def
        sample_contract_def sample_now_def)
  have own: "validateCanonicalApprovalArtifact (\<lambda>s. s) (artifact_json sample_approval) = Inr sample_approval"
    using sample_approval_valid by (simp add: validate_artifact_exact artifact_valid_def)
  have "commitmentsFromArtifact (\<lambda>s. s) (artifact_json sample_approval) = Inr sample_commitments"
    using own by (simp add: commitmentsFromArtifact_def, simp add: sample_approval_def)
  then show "assertArtifactBindsContract (\<lambda>s. s) sample_service sample_approval sample_verified (replicate 64 98) sample_commitments = Inr ()"
    using sample_same(2) sample_clock
    by (simp add: assertArtifactBindsContract_def Let_def guardE_eq_Inr, simp add: sample_approval_def sample_verified_def
        sample_contract_def sample_now_def)
qed

lemma sample_artifact_digest:
  "hashCanonicalApprovalArtifact (\<lambda>s. s) (artifact_json sample_approval) (Some sample_sha256) = Inr (replicate 64 98)"
proof -
  have "canonical_string (\<lambda>s. s) (js APPROVAL_ARTIFACT_DIGEST_DOMAIN)"
    using canonical_string_ascii [of "js APPROVAL_ARTIFACT_DIGEST_DOMAIN"] by (simp add: APPROVAL_ARTIFACT_DIGEST_DOMAIN_def js_def)
  then show ?thesis
    using canonical_string_ascii [OF sample_approval_ascii] sample_other_digest(1) sample_other_hash
    by (simp add: artifact_digest_Inr [OF sample_approval_valid])
qed

section \<open>The sample run\<close>

definition sample_review_request :: jsval where
  "sample_review_request = jrec [(''signedContract'', sample_envelope)]"

definition sample_submission :: jsval where
  "sample_submission = jrec [(''challenge'', challenge_json sample_challenge), (''signedContract'', sample_envelope)]"

definition sample_presentation :: jsval where
  "sample_presentation =
     jrec [(''signedApproval'', envelope_json (pv_envelope sample_parsed)), (''signedContract'', sample_envelope)]"

lemma sample_inputs:
  "requireServiceInput sample_review_request [''signedContract''] = Inr (jfields [(''signedContract'', sample_envelope)])"
  "requireServiceInput sample_submission [''challenge'', ''signedContract''] =
     Inr (jfields [(''challenge'', challenge_json sample_challenge), (''signedContract'', sample_envelope)])"
  "requireServiceInput sample_presentation [''signedApproval'', ''signedContract''] =
     Inr (jfields [(''signedApproval'', envelope_json (pv_envelope sample_parsed)), (''signedContract'', sample_envelope)])"
proof -
  have data: "sample_envelope \<noteq> JAccessor" "challenge_json sample_challenge \<noteq> JAccessor" "envelope_json (pv_envelope sample_parsed) \<noteq> JAccessor"
    by (simp_all add: sample_envelope_def challenge_json_def envelope_json_def jrec_def)
  have sorted: "js ''challenge'' \<le> js ''signedContract''" "js ''signedApproval'' \<le> js ''signedContract''"
    by (simp_all add: js_def)
  show "requireServiceInput sample_review_request [''signedContract''] = Inr (jfields [(''signedContract'', sample_envelope)])"
    "requireServiceInput sample_submission [''challenge'', ''signedContract''] =
     Inr (jfields [(''challenge'', challenge_json sample_challenge), (''signedContract'', sample_envelope)])"
    "requireServiceInput sample_presentation [''signedApproval'', ''signedContract''] =
     Inr (jfields [(''signedApproval'', envelope_json (pv_envelope sample_parsed)), (''signedContract'', sample_envelope)])"
    using data sorted
    by (simp_all add: requireServiceInput_def sample_review_request_def sample_submission_def sample_presentation_def jrec_def jfields_def
        plain_shape_def)
qed

lemma sample_fields:
  "getProp (jfields [(''signedContract'', x)]) ''signedContract'' = x"
  "getProp (jfields [(''challenge'', c), (''signedContract'', x)]) ''signedContract'' = x"
  "getProp (jfields [(''challenge'', c), (''signedContract'', x)]) ''challenge'' = c"
  "getProp (jfields [(''signedApproval'', a), (''signedContract'', x)]) ''signedContract'' = x"
  "getProp (jfields [(''signedApproval'', a), (''signedContract'', x)]) ''signedApproval'' = a"
  by (simp_all add: getProp_jfields)

lemma sample_model_made:
  "createCanonicalApprovalRenderModel (\<lambda>s. s) (contract_json sample_contract) = Inr (model_of sample_contract)"
  "commitmentsFromContract (\<lambda>s. s) (contract_json sample_contract) = Inr sample_commitments"
  using sample_trees(2)
  by (simp_all add: create_model_valid [OF sample_contract_valid] commitmentsFromContract_Inr [OF sample_contract_valid] sample_commitments_of)

lemma sample_parts:
  "vc_contract sample_verified = sample_contract" "vld_expiresAt (ic_validity sample_contract) = js ''2026-01-02T00:00:00.500Z''"
  "ch_issuedAt sample_challenge = sample_now" "ch_expiresAt sample_challenge = js ''2026-01-01T00:00:30Z''"
  "ch_reviewer sample_challenge = sample_reviewer" "ch_reviewId sample_challenge = js ''00000000-0000-4000-8000-000000000001''"
  "aa_issuedAt sample_approval = sample_now" "aa_expiresAt sample_approval = js ''2026-01-01T00:00:30Z''"
  "aa_reviewer sample_approval = sample_reviewer" "pv_artifact sample_parsed = sample_approval"
  "assertAcceptedReviewer sample_service sample_reviewer = Inr ()"
  "assertTrustedReviewerMatches \<lparr>tr_reviewer = sample_reviewer, tr_status = ReviewerActive\<rparr> sample_reviewer = Inr ()"
  "assertCurrentSynchronously sample_service sc e reg = (Inr (), reg)" "assertTrustSynchronously sample_service k r reg = (Inr (), reg)"
  by (simp_all add: sample_verified_def sample_contract_def sample_challenge_def sample_now_def sample_approval_def sample_parsed_def
      assertAccepted_Inr assertTrustedMatches_Inr assertCurrent_Inr assertTrust_Inr fence_current_def fence_trust_def sample_service_simps
      sample_reviewer_def)

lemmas sample_facts = sample_inputs sample_fields sample_verify_contract sample_time_read sample_windows sample_reviewer_read
  sample_same sample_fresh sample_trusted sample_authority_digest sample_requests sample_issued_parsed sample_approval_parsed
  sample_approval_message sample_bindings sample_artifact_digest sample_model_made sample_parts sample_service_simps
  sample_challenge_accepted

definition sample_prepared_review :: prepared_review where
  "sample_prepared_review = \<lparr>pp_model = model_of sample_contract, pp_canonicalModel = authority_text sample_contract,
     pp_challenge = sample_challenge\<rparr>"

lemma sample_prepares:
  "prepareReview (\<lambda>s. s) sample_service sample_review_request emptyReplay =
     (Inr sample_prepared_review, registered sample_challenge emptyReplay)"
proof -
  have "registerReview (\<lambda>s. s) (challenge_json sample_challenge) emptyReplay = (Inr (), registered sample_challenge emptyReplay)"
    using sample_challenge_valid sample_challenge_accepted by (simp add: registerReview_ok emptyReplay_def)
  then have register: "ap_registerReview sample_service sample_challenge emptyReplay = (Inr JUndefined, registered sample_challenge emptyReplay)"
    by (simp add: sample_service_def memory_calls registryCall_def)
  have model: "canonicalizeJson (\<lambda>s. s) (render_model_json (model_of sample_contract)) = Inr (authority_text sample_contract)"
    using sample_model_json(2) by (simp add: canonicalizeJson_Inr authority_text_def)
  show ?thesis
    unfolding prepareReview_def Let_def
    by (simp add: bindP_def pureP_def awaitP_def syncP_def sample_facts register model fromContracts_def assertSynchronous_def
        sample_prepared_review_def)
qed

definition sample_issued_approval :: issued_approval where
  "sample_issued_approval = \<lparr>ia_artifact = sample_approval, ia_canonicalPayload = artifact_text sample_approval,
     ia_envelope = pv_envelope sample_parsed, ia_signerKeyId = js ''k1''\<rparr>"

lemma sample_issues_approval:
  assumes "consumeReview (\<lambda>s. s) (challenge_json sample_challenge) reg = (Inr (), reg')"
  shows "issueApproval (\<lambda>s. s) sample_service sample_submission reg = (Inr sample_issued_approval, reg')"
proof -
  have consume: "ap_consumeReview sample_service sample_challenge reg = (Inr JUndefined, reg')"
    using assms by (simp add: sample_service_def memory_calls registryCall_def)
  have written: "canonicalizeJson (\<lambda>s. s) (artifact_json sample_approval) = Inr (artifact_text sample_approval)"
    using sample_approval_valid by (simp add: canonicalizeJson_Inr artifact_valid_def artifact_text_def)
  have key: "sig_keyId (pv_signature sample_parsed) = js ''k1''"
    by (simp add: sample_parsed_def sample_signature_def)
  show ?thesis
    unfolding issueApproval_def Let_def
    by (simp add: bindP_def pureP_def awaitP_def syncP_def sample_facts consume written fromContracts_def assertSynchronous_def
        sample_issued_approval_def key)
qed

definition sample_verified_approval :: verified_approval where
  "sample_verified_approval = \<lparr>va_artifact = sample_approval, va_canonicalPayload = artifact_text sample_approval,
     va_artifactDigest = replicate 64 98, va_signerKeyId = js ''k1'', va_reviewer = sample_reviewer,
     va_model = model_of sample_contract, va_verifiedContract = sample_verified\<rparr>"

lemma sample_verifies_approval:
  "verifyAndConsumeApproval (\<lambda>s. s) sample_service sample_presentation emptyReplay =
     (Inr sample_verified_approval, artifactConsumed (reference_for sample_approval (replicate 64 98)) emptyReplay)"
proof -
  let ?r = "reference_for sample_approval (replicate 64 98)"
  have "validateArtifactReplayReference (\<lambda>s. s) (reference_json ?r) = Inr ?r"
    using sample_parts_ok sample_digest_ok sample_idents sample_expiry sample_other_digest
    by (simp add: validate_reference_exact wf_reference_def reference_for_def sample_approval_def safe_int_def MAX_SAFE_INTEGER_def)
  then have "consumeArtifact (\<lambda>s. s) (reference_json ?r) emptyReplay = (Inr (), artifactConsumed ?r emptyReplay)"
    by (simp add: consumeArtifact_ok artifact_fresh_def emptyReplay_def)
  then have "ap_consumeArtifact sample_service ?r emptyReplay = (Inr JUndefined, artifactConsumed ?r emptyReplay)"
    by (simp add: sample_service_def memory_calls registryCall_def)
  note consume = this [unfolded reference_for_def sample_parts]
  have parts: "sig_keyId (pv_signature sample_parsed) = js ''k1''" "pv_canonicalPayload sample_parsed = artifact_text sample_approval"
    by (simp_all add: sample_parsed_def sample_signature_def)
  show ?thesis
    unfolding verifyAndConsumeApproval_def Let_def reference_for_def
    by (simp add: bindP_def pureP_def awaitP_def syncP_def sample_facts consume assertSynchronous_def sample_verified_approval_def parts)
qed

lemma sample_consumes:
  "consumeReview (\<lambda>s. s) (challenge_json sample_challenge) (registered sample_challenge emptyReplay) =
     (Inr (), reviewConsumed (ch_reviewId sample_challenge) (registered sample_challenge emptyReplay))"
  using sample_challenge_valid sample_challenge_accepted
  by (simp add: consumeReview_ok, simp add: registered_def emptyReplay_def)

end
