(* ===== verification/Approval_Authority.thy ===== *)
theory Approval_Authority
  imports Approval_Samples
begin

text \<open>
  The guarantees of the approval service: what an issued and a verified approval stand for, and, over the in-memory
  replay registry, that a review yields at most one approval and an approval is accepted at most once.
\<close>

section \<open>What approvals stand for\<close>

text \<open>C15. An approval is accepted only for exactly what was approved. When \<open>verifyAndConsumeApproval\<close> returns, a trusted root
  authorizer signed the contract, and the artifact repeats its hash, revision, authority digest and the policy, registry
  and renderer commitments; the key of the single signature over the exact artifact text is one the trust store gives
  to the named reviewer, active and of an accepted role, and the trust store verified the signature; the commitments
  were current twice; at the first and at the last reading of the clock the artifact and the contract were within their
  validity, and the artifact does not live longer than the local limit. After that last reading nothing is awaited: the trust fence,
  the commitment fence and the one-shot admission of exactly this artifact follow at once, and the admission comes last.\<close>

theorem verified_approval_stands:
  assumes "verifyAndConsumeApproval nfc ports input w = (Inr r, w')"
  shows "\<exists>fs p now now'. requireServiceInput input [''signedApproval'', ''signedContract''] = Inr fs \<and>
    parseSignedApprovalArtifact nfc (getProp fs ''signedApproval'') = Inr p \<and> signed_approval nfc p \<and>
    va_artifact r = pv_artifact p \<and> va_canonicalPayload r = artifact_text (va_artifact r) \<and>
    va_signerKeyId r = sig_keyId (pv_signature p) \<and> va_reviewer r = aa_reviewer (va_artifact r) \<and>
    va_model r = model_of (vc_contract (va_verifiedContract r)) \<and>
    verifies_contract nfc ports (getProp fs ''signedContract'') w (va_verifiedContract r) \<and>
    contract_valid nfc (vc_contract (va_verifiedContract r)) \<and>
    reads_clock nfc ports (ap_elapse ports w) now \<and> artifact_active ports now (va_artifact r) \<and>
    contract_active ports now (va_verifiedContract r) \<and>
    timeOf ports (aa_expiresAt (va_artifact r)) \<le> timeOf ports (aa_issuedAt (va_artifact r)) + ap_approvalTtlMs ports \<and>
    artifact_binds ports (asked ports 0 w) (va_verifiedContract r) (va_artifact r) \<and>
    trusts_key nfc ports (asked ports 1 w) (va_signerKeyId r) (va_reviewer r) \<and> envelope_signed ports (asked ports 2 w) p \<and>
    reads_commitments nfc ports (scopeFor (va_verifiedContract r)) (asked ports 3 w) (aa_commitments (va_artifact r)) \<and>
    ap_sha256 ports (asked ports 4 w) (hash_input APPROVAL_ARTIFACT_DIGEST_DOMAIN (va_canonicalPayload r)) =
      Inr (JStr (va_artifactDigest r)) \<and>
    reads_commitments nfc ports (scopeFor (va_verifiedContract r)) (asked ports 5 w) (aa_commitments (va_artifact r)) \<and>
    reads_clock nfc ports (asked ports 6 w) now' \<and> artifact_active ports now' (va_artifact r) \<and>
    contract_active ports now' (va_verifiedContract r) \<and>
    fence_trust ports (va_signerKeyId r) (va_reviewer r) (ap_called ports (asked ports 6 w)) \<and>
    fence_current ports (scopeFor (va_verifiedContract r)) (aa_commitments (va_artifact r))
      (ap_called ports (ap_called ports (asked ports 6 w))) \<and>
    ap_consumeArtifact ports (reference_for (va_artifact r) (va_artifactDigest r))
      (ap_called ports (ap_called ports (ap_called ports (asked ports 6 w)))) = (Inr JUndefined, w')"
proof (rule verify_steps [OF assms], goal_cases)
  case (1 fs p v now digest d now')
  have valid: "contract_valid nfc (vc_contract v)"
    using 1(3) by (rule verifies_valid)
  have p: "signed_approval nfc p"
    using 1(2) by (simp add: parse_signed_approval_exact)
  then have a: "artifact_valid nfc (pv_artifact p)" "pv_canonicalPayload p = artifact_text (pv_artifact p)"
    by (simp_all add: signed_approval_def)
  note binds = assertArtifactBinds_Inr [OF 1(9)]
  have "artifact_binds ports (asked ports 0 w) v (pv_artifact p)"
    using authority_digest_hash [OF valid 1(8)] binds by (simp add: binds_authority_def)
  moreover have "ap_sha256 ports (asked ports 4 w) (hash_input APPROVAL_ARTIFACT_DIGEST_DOMAIN (artifact_text (pv_artifact p))) = Inr (JStr d)"
    using 1(13) by (simp add: artifact_digest_Inr [OF a(1)])
  ultimately show ?case
    using 1 valid p a(2) binds(4) by (intro exI [of _ fs] exI [of _ p] exI [of _ now] exI [of _ now']) simp
qed

theorem verified_approval_stands_witness:
  "verifyAndConsumeApproval (\<lambda>s. s) sample_service sample_presentation emptyReplay =
     (Inr sample_verified_approval, artifactConsumed (reference_for sample_approval (replicate 64 98)) emptyReplay) \<and>
   artifact_binds sample_service (asked sample_service 0 emptyReplay) sample_verified sample_approval \<and>
   trusts_key (\<lambda>s. s) sample_service (asked sample_service 1 emptyReplay) (js ''k1'') sample_reviewer"
proof -
  have r: "va_verifiedContract sample_verified_approval = sample_verified" "va_artifact sample_verified_approval = sample_approval"
    "va_signerKeyId sample_verified_approval = js ''k1''" "va_reviewer sample_verified_approval = sample_reviewer"
    by (simp_all add: sample_verified_approval_def)
  show ?thesis
    using sample_verifies_approval verified_approval_stands [OF sample_verifies_approval] unfolding r by blast
qed

text \<open>An approval is issued only for a review that was submitted exactly. When \<open>issueApproval\<close> returns, the submitted
  challenge was consumed before anything was awaited; the challenge and the new artifact repeat the hash, revision, authority digest and
  commitments of a contract signed by a trusted root authorizer; the reviewer who was authenticated at submission and again
  at the end is the reviewer of the challenge and of the artifact; the signature is over exactly the text of this
  artifact, by a key the trust store gives to this reviewer, and was verified; the artifact is issued at the time that
  was read inside the windows of the review and the contract, and ends with the contract or the local limit, whichever is
  earlier; and the trust and commitment fences are the last things that happened, with nothing awaited since the last reading of the clock.\<close>

theorem issued_approval_stands:
  assumes "issueApproval nfc ports input w0 = (Inr r, w')"
  shows "\<exists>fs c w v p sv now now'. requireServiceInput input [''challenge'', ''signedContract''] = Inr fs \<and>
    validateApprovalReviewChallenge nfc (getProp fs ''challenge'') = Inr c \<and> ap_consumeReview ports c w0 = (Inr JUndefined, w) \<and>
    verifies_contract nfc ports (getProp fs ''signedContract'') w v \<and> contract_valid nfc (vc_contract v) \<and>
    reads_clock nfc ports (ap_elapse ports w) now \<and> active_at ports now (ch_issuedAt c) (ch_expiresAt c) \<and>
    timeOf ports (ch_expiresAt c) \<le> timeOf ports (ch_issuedAt c) + ap_reviewTtlMs ports \<and> contract_active ports now v \<and>
    challenge_binds ports (asked ports 0 w) v c \<and> artifact_binds ports (asked ports 0 w) v (ia_artifact r) \<and>
    reads_reviewer nfc ports (asked ports 1 w) (ch_reviewer c) \<and> rv_role (ch_reviewer c) \<in> set (ap_reviewerRoles ports) \<and>
    reads_commitments nfc ports (scopeFor v) (asked ports 2 w) (contract_commitments (vc_contract v)) \<and>
    aa_reviewId (ia_artifact r) = ch_reviewId c \<and> aa_reviewer (ia_artifact r) = ch_reviewer c \<and> aa_issuedAt (ia_artifact r) = now \<and>
    timeOf ports (aa_expiresAt (ia_artifact r)) =
      min (timeOf ports now + ap_approvalTtlMs ports) (timeOf ports (vld_expiresAt (ic_validity (vc_contract v)))) \<and>
    signed_approval nfc p \<and> pv_artifact p = ia_artifact r \<and> ia_canonicalPayload r = artifact_text (ia_artifact r) \<and>
    ia_envelope r = pv_envelope p \<and> ia_signerKeyId r = sig_keyId (pv_signature p) \<and>
    ap_sign ports \<lparr>si_algorithm = SIGNATURE_ALGORITHM, si_payloadType = APPROVAL_ARTIFACT_PAYLOAD_TYPE,
      si_message = pv_message p\<rparr> (minted ports w) = Inr sv \<and> sortFields sv = sortFields (signature_json (pv_signature p)) \<and>
    trusts_key nfc ports (later ports 1 (minted ports w)) (ia_signerKeyId r) (ch_reviewer c) \<and>
    envelope_signed ports (later ports 2 (minted ports w)) p \<and>
    reads_commitments nfc ports (scopeFor v) (later ports 3 (minted ports w)) (contract_commitments (vc_contract v)) \<and>
    reads_reviewer nfc ports (later ports 4 (minted ports w)) (ch_reviewer c) \<and>
    reads_clock nfc ports (later ports 5 (minted ports w)) now' \<and> artifact_active ports now' (ia_artifact r) \<and>
    contract_active ports now' v \<and>
    fence_trust ports (ia_signerKeyId r) (ch_reviewer c) (ap_called ports (later ports 5 (minted ports w))) \<and>
    fence_current ports (scopeFor v) (contract_commitments (vc_contract v))
      (ap_called ports (ap_called ports (later ports 5 (minted ports w)))) \<and>
    w' = ap_called ports (ap_called ports (ap_called ports (later ports 5 (minted ports w))))"
proof (rule approval_issue_steps [OF assms], goal_cases)
  case (1 fs c w v now digest p sv now')
  have valid: "contract_valid nfc (vc_contract v)"
    using 1(4) by (rule verifies_valid)
  note hash = authority_digest_hash [OF valid 1(9)] and review = assertReviewBinds_Inr [OF 1(10)]
  have "challenge_binds ports (asked ports 0 w) v c" "artifact_binds ports (asked ports 0 w) v (ia_artifact r)"
    using hash review 1(17) by (simp_all add: binds_authority_def artifact_requested_def)
  moreover have "aa_reviewId (ia_artifact r) = ch_reviewId c" "aa_reviewer (ia_artifact r) = ch_reviewer c" "aa_issuedAt (ia_artifact r) = now"
    using 1(17) by (simp_all add: artifact_requested_def)
  ultimately show ?case
    using 1 valid
    by (intro exI [of _ fs] exI [of _ c] exI [of _ w] exI [of _ v] exI [of _ p] exI [of _ sv] exI [of _ now] exI [of _ now']) simp
qed

theorem issued_approval_stands_witness:
  "\<exists>reg. issueApproval (\<lambda>s. s) sample_service sample_submission (registered sample_challenge emptyReplay) = (Inr sample_issued_approval, reg) \<and>
     (\<exists>c w v. ap_consumeReview sample_service c (registered sample_challenge emptyReplay) = (Inr JUndefined, w) \<and>
        challenge_binds sample_service (asked sample_service 0 w) v c \<and>
        artifact_binds sample_service (asked sample_service 0 w) v (ia_artifact sample_issued_approval))"
  using sample_issues_approval [OF sample_consumes] issued_approval_stands [OF sample_issues_approval [OF sample_consumes]] by blast

section \<open>One review, one approval, one use\<close>

text \<open>An approval is good for one use. Over the in-memory registry, once \<open>verifyAndConsumeApproval\<close> has returned an approval,
  in every continuation of the registry, whatever the service and the other ports do meanwhile, no call that presents an
  approval with the same approval id or the same nonce returns.\<close>

theorem approval_used_once:
  assumes "replay_world nfc get put ports" and "reachable (\<lambda>reg. reg = emptyReplay) (replay_step nfc) (get w0)"
    and "verifyAndConsumeApproval nfc (memoryPorts nfc get put ports) input w0 = (Inr r, w1)"
    and "replay_run nfc get w1 w2"
    and "submits_approval nfc input' a"
    and "aa_approvalId a = aa_approvalId (va_artifact r) \<or> aa_nonce a = aa_nonce (va_artifact r)"
  shows "isl (fst (verifyAndConsumeApproval nfc (memoryPorts nfc get put ports) input' w2))"
proof (rule ccontr)
  assume "\<not> ?thesis"
  then obtain r' w3 where again: "verifyAndConsumeApproval nfc (memoryPorts nfc get put ports) input' w2 = (Inr r', w3)"
    by (cases "verifyAndConsumeApproval nfc (memoryPorts nfc get put ports) input' w2"; cases "fst (verifyAndConsumeApproval nfc (memoryPorts nfc get put ports) input' w2)") auto
  obtain u where u: "replay_run nfc get w0 u"
    "consumeArtifact nfc (reference_json (reference_for (va_artifact r) (va_artifactDigest r))) (get u) = (Inr (), get w1)"
    using verified_admits [OF assms(1,3)] .
  obtain u' where u': "replay_run nfc get w2 u'"
    "consumeArtifact nfc (reference_json (reference_for (va_artifact r') (va_artifactDigest r'))) (get u') = (Inr (), get w3)"
    using verified_admits [OF assms(1) again] .
  obtain q q' where q: "validateArtifactReplayReference nfc (reference_json (reference_for (va_artifact r) (va_artifactDigest r))) = Inr q"
    "validateArtifactReplayReference nfc (reference_json (reference_for (va_artifact r') (va_artifactDigest r'))) = Inr q'"
    using consumeArtifact_validates u(2) u'(2) by blast
  have "reachable (\<lambda>reg. reg = emptyReplay) (replay_step nfc) (get u)"
    using u(1) assms(2) by (rule reachable_run)
  from artifact_refused [OF this u(2) q(1) rtranclp_trans [OF assms(4) u'(1)] q(2)] show False
    using u'(2) assms(6) reference_own [OF q(1)] reference_own [OF q(2)] verified_submits [OF assms(5) again]
    by (auto simp: reference_for_def)
qed

theorem approval_used_once_witness:
  "\<exists>reg. verifyAndConsumeApproval (\<lambda>s. s) sample_service sample_presentation emptyReplay = (Inr sample_verified_approval, reg) \<and>
     isl (fst (verifyAndConsumeApproval (\<lambda>s. s) sample_service sample_presentation reg))"
proof -
  have "submits_approval (\<lambda>s. s) sample_presentation sample_approval"
    using sample_inputs sample_fields sample_approval_parsed sample_parts by (auto simp: submits_approval_def)
  moreover have "va_artifact sample_verified_approval = sample_approval"
    by (simp add: sample_verified_approval_def)
  moreover have "reachable (\<lambda>reg. reg = emptyReplay) (replay_step (\<lambda>s. s)) emptyReplay"
    by (rule reachable.start) (rule refl)
  ultimately show ?thesis
    using approval_used_once [OF sample_replay_world, of emptyReplay sample_presentation sample_verified_approval _ _ sample_presentation sample_approval]
      sample_verifies_approval unfolding sample_service_def by auto
qed

text \<open>One review, at most one approval. Over the in-memory registry, after a review was prepared, the first submission with its
  review id decides, whatever becomes of it and whatever the service and the other ports do meanwhile: if an approval
  is issued, the submitted challenge is the one that was prepared, and from then on every submission with that id
  is refused as a replay.\<close>

theorem review_yields_one_approval:
  assumes "replay_world nfc get put ports" and "reachable (\<lambda>reg. reg = emptyReplay) (replay_step nfc) (get w0)"
    and "prepareReview nfc (memoryPorts nfc get put ports) request w0 = (Inr q, w1)" and "replay_run nfc get w1 w2"
    and "issueApproval nfc (memoryPorts nfc get put ports) input w2 = (result, w3)" and "submits_review nfc input c"
    and "ch_reviewId c = ch_reviewId (pp_challenge q)"
    and "replay_run nfc get w3 w4" and "submits_review nfc input' c'" and "ch_reviewId c' = ch_reviewId (pp_challenge q)"
  shows "(\<forall>r. result = Inr r \<longrightarrow> c = pp_challenge q) \<and>
    fst (issueApproval nfc (memoryPorts nfc get put ports) input' w4) =
      Inl (replayError ReviewReplay ''Review challenge has already been consumed'')"
proof -
  let ?ports = "memoryPorts nfc get put ports"
  have law: "get (put reg w) = reg" for reg w
    using assms(1) by (simp add: replay_world_def)
  obtain v u where u: "replay_run nfc get w0 u" "validateApprovalReviewChallenge nfc v = Inr (pp_challenge q)"
    "registerReview nfc v (get u) = (Inr (), get w1)"
    using prepared_registers [OF assms(1,3)] .
  obtain res reg where m: "consumeReview nfc (challenge_json c) (get w2) = (res, reg)"
    by fastforce
  have own: "validateApprovalReviewChallenge nfc (challenge_json c) = Inr c" "validateApprovalReviewChallenge nfc (challenge_json c') = Inr c'"
    using assms(6,9) challenge_own by (auto simp: submits_review_def)
  have "(replay_step nfc)\<^sup>*\<^sup>* reg (get w3) \<and> (\<forall>r. result = Inr r \<longrightarrow> res = Inr ())"
  proof (cases res)
    case (Inl e)
    then have "ap_consumeReview ?ports c w2 = (Inl e, put reg w2)"
      using m by (simp add: memory_calls registryCall_def)
    from issue_submission(1) [OF assms(6) this] show ?thesis
      using assms(5) law by simp
  next
    case (Inr x)
    then have "ap_consumeReview ?ports c w2 = (Inr JUndefined, put reg w2)"
      using m by (simp add: memory_calls registryCall_def)
    from issue_submission(2) [OF assms(6) refl assms(1) this] show ?thesis
      using assms(5) law Inr by simp
  qed
  then have after: "(replay_step nfc)\<^sup>*\<^sup>* reg (get w4)" "\<forall>r. result = Inr r \<longrightarrow> res = Inr ()"
    using assms(8) by (auto intro: rtranclp_trans)
  have "reachable (\<lambda>reg. reg = emptyReplay) (replay_step nfc) (get u)"
    using u(1) assms(2) by (rule reachable_run)
  note decided = review_decided [OF this u(3,2) assms(4) m own(1) assms(7) after(1) own(2) assms(10)]
  then have "ap_consumeReview ?ports c' w4 =
      (Inl (replayError ReviewReplay ''Review challenge has already been consumed''), put (get w4) w4)"
    by (simp add: memory_calls registryCall_def)
  from issue_submission(1) [OF assms(9) this] show ?thesis
    using decided after(2) by simp
qed

theorem review_yields_one_approval_witness:
  "\<exists>reg reg'. prepareReview (\<lambda>s. s) sample_service sample_review_request emptyReplay = (Inr sample_prepared_review, reg) \<and>
     issueApproval (\<lambda>s. s) sample_service sample_submission reg = (Inr sample_issued_approval, reg') \<and>
     fst (issueApproval (\<lambda>s. s) sample_service sample_submission reg') =
       Inl (replayError ReviewReplay ''Review challenge has already been consumed'')"
proof -
  let ?reg = "registered sample_challenge emptyReplay"
  let ?reg' = "reviewConsumed (ch_reviewId sample_challenge) ?reg"
  have submit: "submits_review (\<lambda>s. s) sample_submission sample_challenge"
    using sample_inputs sample_fields sample_challenge_accepted by (auto simp: submits_review_def)
  have c: "pp_challenge sample_prepared_review = sample_challenge"
    by (simp add: sample_prepared_review_def)
  have start: "reachable (\<lambda>reg. reg = emptyReplay) (replay_step (\<lambda>s. s)) emptyReplay"
    by (rule reachable.start) (rule refl)
  note issue = sample_issues_approval [OF sample_consumes]
  from review_yields_one_approval [OF sample_replay_world start sample_prepares [unfolded sample_service_def] rtranclp.rtrancl_refl
    issue [unfolded sample_service_def] submit _ rtranclp.rtrancl_refl submit, unfolded c, folded sample_service_def]
  show ?thesis
    using sample_prepares issue by blast
qed

end
