(* ===== verification/Spec2Isabelle.thy ===== *)
theory Spec2Isabelle
  imports Ledger_Authority Ledger_Facade_Authority Guardian_Authority Approval_Authority
begin

text \<open>
  Verification of the authority core of the CLODEx IDE.

  \<^bold>\<open>The program.\<close> CLODEx lets an agent act on a workspace only under an Intent Contract. A contract
  is a canonical JSON document signed by a root authorizer; it names a subject, an audience, the allowed
  resources and effect classes, limits and a validity window. The kernel keeps the state of all
  contracts: it activates and revokes revisions, registers Execution Tickets (one request to act, bound
  to one revision) against the budget of the contract, issues for each ticket at most one commit permit,
  and records how the ticket ended. Effect Attestations report what was done. The guardian decides which
  request becomes a ticket: it verifies the contract, authenticates the caller, checks the action against the
  contract and the mandatory policy, resolves the adapter, prepares the action and registers the ticket with the
  kernel. The ledger keeps one record per ticket through the effect itself: prepared, permitted, ended in one of four
  ways, evidence delivered; after a crash it says what remains to be done. The packages are \<open>src/packages/clodex-contracts\<close> (data formats, validators, hashing, signature
  verification), \<open>src/packages/clodex-kernel\<close> (state, pure transitions, in-memory adapter),
  \<open>src/packages/clodex-guardian\<close>, \<open>src/packages/clodex-ledger\<close> and \<open>src/packages/clodex-approval\<close>; the kernel calls the validators and the serializer of the contracts package and
  nothing else, the guardian calls the contracts package and reaches the kernel through its state port, the ledger calls
  the contracts package and is handed the permits of the kernel as values.

  \<^bold>\<open>The theories and what they model.\<close>

  \<^item> \<open>Prelude\<close>: exceptions as sums (\<open>bindE\<close>, \<open>guardE\<close>, \<open>catchE\<close>), strings as lists of UTF-16 code
    units, JavaScript objects used as dictionaries, the locale \<open>codec\<close> of exact encoders.
  \<^item> \<open>JsValue\<close>: JavaScript values and the regular expressions of the validators.
  \<^item> \<open>Utf8\<close>, \<open>Canonical_Json\<close>, \<open>Json_Parse\<close>: \<open>canonical-json.ts\<close>. The serializer with its budgets,
    \<open>JSON.parse\<close>, the lexical pre-scan and the exact-form check. Shown: UTF-8 round trip, an exact
    characterisation of the accepted values and their text, independence of key order, parse and print
    are inverse, injectivity.
  \<^item> \<open>Require\<close>, \<open>Resource_Selector\<close>, \<open>Timestamps\<close>, \<open>Base64url\<close>: the \<open>require*\<close> helpers, resource
    selectors, timestamps (with the ECMAScript calendar functions) and base64url of
    \<open>intent-contract.ts\<close>. Shown: \<open>resourceSelectorCovers\<close> is set inclusion, timestamps and base64url
    texts are accepted exactly in their one canonical spelling.
  \<^item> \<open>Intent_Contract\<close>, \<open>Contract_Properties\<close>, \<open>Safe_Coding_Action\<close>, \<open>Execution_Ticket\<close>,
    \<open>Effect_Attestation\<close>: the document types of \<open>intent-contract.ts\<close> as records and datatypes with their
    validators, and for each the theorem that the validator accepts exactly the JSON forms of the
    well-formed documents and returns the document; the table of consistent attestations.
  \<^item> \<open>Envelope\<close>: domain-separated hashing, the pre-authentication encoding and
    \<open>verifySignedIntentContract\<close> with its pinned ports. Shown: what is signed or hashed determines
    the document, and the verifier accepts exactly the validly signed envelopes.
  \<^item> \<open>Transition_System\<close>: reachable states, and the locales \<open>invariant_system\<close>, \<open>monotone_system\<close> and
    \<open>simulation\<close> that the kernel interprets.
  \<^item> \<open>Kernel_State\<close>, \<open>Kernel_Transitions\<close>: \<open>state.ts\<close> and \<open>transitions.ts\<close>, one definition per
    function. A transition maps a state and an input to an error or the next state.
  \<^item> \<open>Kernel_Invariants\<close>: the state invariant, the step relation over the six transitions and that
    every step keeps the invariant. \<open>Kernel_Properties\<close>: runs move forward in the order
    \<open>kernel_advances\<close>. \<open>Kernel_Samples\<close>: a concrete run. \<open>Kernel_Authority\<close>: the one-shot permit, what
    authorizes it, finality of revocation and supersession, replay protection, budget bounds, liveness
    and totality of the commit. \<open>Kernel_Refinement\<close>: the abstract authority machine and the
    simulation.
  \<^item> \<open>In_Memory_Kernel\<close>: \<open>in-memory-kernel.ts\<close>. The methods over the private state. Shown: failures are
    atomic, the readers return what the state holds.
  \<^item> \<open>Procedure\<close>: procedures over a world that ports may change, used by the guardian and the ledger facade.
  \<^item> \<open>Guardian\<close>: \<open>safe-coding-guardian.ts\<close>. Procedures over an arbitrary world; every port call may answer any
    value or throw, and the world may change after it. \<open>Guardian_Properties\<close>: the shape of successful runs.
    \<open>Guardian_Samples\<close>: the in-memory kernel as the state port and a concrete run. \<open>Guardian_Authority\<close>: what an
    issued ticket stands for, its registration in the kernel under interleaved kernel transitions, that denied
    requests never consult an adapter, and the exact conditions of a recheck.
  \<^item> \<open>Ledger_Records\<close>: \<open>records.ts\<close>, the ledger record and its validators. \<open>Ledger_Validation\<close>: well-formed records and
    that the validator accepts exactly their JSON forms. \<open>Ledger_Text\<close>: records of ASCII texts always have a canonical
    text. \<open>Ledger_Time\<close>: the timestamps of the ledger, which has two spellings for an exact second.
  \<^item> \<open>Ledger_Transitions\<close>: \<open>transitions.ts\<close> and \<open>recovery.ts\<close>, the creation of a record, the permit, the four closings,
    receipt verification with its registry of verified receipts, admission and the classification after a crash.
    \<open>Ledger_Lifecycle\<close>: the exact conditions of the transitions, the step relation and the abstract lifecycle.
    \<open>Ledger_Properties\<close>: what can be closed and admitted. \<open>Ledger_Samples\<close>: a concrete run. \<open>Ledger_Authority\<close>: every
    effect was permitted, which records can be closed, progress, recovery, one-shot receipts, agreement with the kernel.
  \<^item> \<open>Ledger_Store\<close>: \<open>in-memory-store.ts\<close>, the compare-and-swap store. Shown: replay identities stay unique, records move only
    along the ledger, and the exact effect of a swap.
  \<^item> \<open>Ledger_Facade\<close>: \<open>ledger.ts\<close> and \<open>persistence.ts\<close>, the facade over an arbitrary persistence port and its checks of what the
    port answers. \<open>Ledger_Facade_Properties\<close>: the exact results of its building blocks, over any port and over the
    in-memory store. \<open>Ledger_Facade_Samples\<close>: concrete requests. \<open>Ledger_Facade_Authority\<close>: no port is trusted, requests are
    single transitions, recovery covers the store, evidence is never admitted through the facade.

  \<^item> \<open>Approval_Artifact\<close>: \<open>approval-artifact.ts\<close>, the data of human approvals: reviewers, commitments, the model a reviewer
    is shown, review challenges, approval artifacts with their signed envelope, replay references, and the inspection of
    untrusted data trees. \<open>Approval_Validation\<close>: each validator accepts exactly the JSON forms of the well-formed values.
    \<open>Approval_Render\<close>: the model shown is the contract without its non-authoritative part, and the authority digest
    determines it. \<open>Approval_Replay\<close>: \<open>in-memory-replay-registry.ts\<close>, the registry that makes review challenges and
    approvals usable once; a review is decided by its first submission, and an approval is admitted once.
  \<^item> \<open>Approval_Service\<close>: \<open>approval-service.ts\<close>, the service that prepares reviews, issues approvals and verifies and consumes
    them, as procedures over an arbitrary world. \<open>Approval_Service_Properties\<close>: the shape of successful runs.
    \<open>Approval_Registry\<close>: the service over the in-memory registry. \<open>Approval_Samples\<close>: a concrete review, approval and use.
    \<open>Approval_Authority\<close>: what an issued and a verified approval stand for, one review yields at most one approval, one
    approval is used at most once.

  \<^bold>\<open>Parameters.\<close> \<open>String.prototype.normalize\<close> (\<open>nfc\<close>) is an arbitrary function. The ports of the
  verifier (hash function, signature verifier, signer registry, clock) are arguments of the definitions
  that call them; the reading of the kernel clock is an argument of the methods of the in-memory
  kernel; the ten ports of the guardian are fields of a record; the receipt verifier and the
  persistence port of the ledger are objects with arbitrary members that depend on an arbitrary world; the ports of the
  approval service are fields of a record, each with an answer that depends on the world. Few theorems assume anything of a parameter: the hash theorem
  the absence of a collision among the texts hashed, the theorem on the guardian over the kernel that the kernel changes
  only by its own transitions while the guardian waits, those on the approval service over the in-memory registry that the
  other ports change the registry only by its own operations, and those that say a ledger record can be closed or a permit recorded
  that normalisation leaves ASCII texts unchanged (\<open>nfc_ascii\<close>).

  \<^bold>\<open>Modelling decisions.\<close> A string is a list of code units. A number is an integral double, negative
  zero, or any other double; sums in the kernel are exact because the code checks that the result is a
  safe integer. A JavaScript value is a finite tree, so the cycle check of the serializer never fires.
  Freezing and object identity are not modelled, since model values are immutable. The model has no
  fuel: every recursion is total and its termination is proved.

  \<^bold>\<open>Not modelled.\<close> The control-plane, evidence, promotion, registry,
  adapter, runtime and production packages build on the packages modelled here and are not yet
  part of the development. The POSIX stores, node capabilities, agent core, agent shell, MCP runtime, Karton
  transport, the browser application, the CLI, the update server, the website and the UI packages are
  input and output, presentation or wrappers of third-party packages.
\<close>

end
